(* ===== verification/Lapd_Prelude.thy ===== *)
theory Lapd_Prelude
  imports Main "HOL-Library.Word" "HOL-Library.Signed_Division"
begin

unbundle bit_operations_syntax

text \<open>
  Shared vocabulary of the LAPD development: octets, modulo 128 sequence numbers, the result
  type of operations that can bring the kernel down, the interface locales of octet codecs and
  of event-driven machines, and the generic lemmas on lists and words the components use.
\<close>

section \<open>Types\<close>

type_synonym u8 = "8 word"
type_synonym octets = "8 word list"

text \<open>
  A handler of the module either returns or takes the kernel down: it follows a pointer to a
  freed buffer or a null pointer, accesses an array out of its bounds, links a buffer into two queues
  at once, or runs into a \<open>BUG()\<close>. In the programs in user space the same faults are what an access
  outside an array or a failed assertion does. A sum that does not fit an \<open>int\<close> is undefined in C and counts as a
  fault too.
\<close>

datatype lapd_fault = UseAfterFree | NullDereference | KernelBug | OutOfBounds | DoubleLink | SignedOverflow

type_synonym 'a res = "lapd_fault + 'a"

definition bind_res :: "'a res \<Rightarrow> ('a \<Rightarrow> 'b res) \<Rightarrow> 'b res" where
  "bind_res r f = (case r of Inl e \<Rightarrow> Inl e | Inr x \<Rightarrow> f x)"

lemma bind_res_simps [simp]:
  "bind_res (Inl e) f = Inl e"
  "bind_res (Inr x) f = f x"
  by (simp_all add: bind_res_def)

lemma bind_res_eq_Inr: "bind_res r f = Inr y \<longleftrightarrow> (\<exists>x. r = Inr x \<and> f x = Inr y)"
  by (cases r) auto

named_theorems seq_simps \<open>rewriting of modulo 128 sequence arithmetic\<close>
named_theorems octet_simps \<open>fields of octets built by the encoders\<close>

section \<open>Octets and bit fields\<close>

lemma unat_lt_128_iff: "unat (x :: u8) < 128 \<longleftrightarrow> x < 128"
  by (simp add: word_less_nat_alt)

lemma lt_128_bit: "x < 128 \<longleftrightarrow> \<not> bit (x :: u8) 7"
proof -
  have b: "bit x 7 \<longleftrightarrow> odd (uint x div 128)"
    using bit_uint_iff [of x 7] by (simp add: bit_iff_odd [of "uint x"])
  have "0 \<le> uint x" "uint x < 256" using uint_lt2p [of x] by simp_all
  then have "odd (uint x div 128) \<longleftrightarrow> \<not> uint x < 128" by presburger
  then show ?thesis using b by (simp add: word_less_def)
qed

text \<open>
  Most octets of the protocol are a seven-bit value above one flag bit (on either bit-field
  order the flag is bit 1 of the octet, the value bits 2 to 8). \<open>field7\<close> stores both,
  \<open>hi7\<close> reads the value; the flag is \<open>bit x 0\<close>.
\<close>

definition field7 :: "u8 \<Rightarrow> bool \<Rightarrow> u8" where
  "field7 x b = push_bit 1 x OR of_bool b"

definition hi7 :: "u8 \<Rightarrow> u8" where
  "hi7 x = drop_bit 1 x"

lemma bit_field7: "bit (field7 x b) n \<longleftrightarrow> (if n = 0 then b else n < 8 \<and> bit x (n - 1))"
  unfolding field7_def
  by (cases n) (simp_all only: bit_or_iff bit_push_bit_iff bit_of_bool_iff One_nat_def, auto simp: bit_simps)

lemma bit_hi7: "bit (hi7 x) n \<longleftrightarrow> bit x (Suc n)"
  unfolding hi7_def by (simp only: bit_drop_bit_eq comp_def, simp)

lemma hi7_field7_trunc: "hi7 (field7 x b) = take_bit 7 x"
  by (rule bit_word_eqI) (auto simp: bit_hi7 bit_field7 bit_take_bit_iff)

lemma take_bit_7_self: "x < 128 \<Longrightarrow> take_bit 7 (x :: u8) = x"
  by (rule bit_word_eqI) (auto simp: bit_take_bit_iff lt_128_bit less_Suc_eq numeral_eq_Suc)

lemma hi7_field7 [octet_simps]: "x < 128 \<Longrightarrow> hi7 (field7 x b) = x"
  by (simp add: hi7_field7_trunc take_bit_7_self)

lemma flag_field7 [octet_simps]: "bit (field7 x b) 0 = b"
  by (simp add: bit_field7)

lemma hi7_lt [octet_simps, simp]: "hi7 x < 128"
  using bit_imp_le_length [of x 8] by (auto simp: lt_128_bit bit_hi7)

lemma field7_hi7 [octet_simps]: "field7 (hi7 x) (bit x 0) = x"
  by (rule bit_word_eqI) (auto simp: bit_field7 bit_hi7)

text \<open>Reading an octet of a buffer.\<close>

definition rd :: "octets \<Rightarrow> nat \<Rightarrow> u8 res" where
  "rd buf i = (if i < length buf then Inr (buf ! i) else Inl OutOfBounds)"

lemma rd_drop: "rd pdu (pos + i) = rd (drop pos pdu) i"
  by (auto simp: rd_def less_diff_conv add.commute)

lemma rd_at: "drop pos p = xs \<Longrightarrow> i < length xs \<Longrightarrow> rd p (pos + i) = Inr (xs ! i)"
  using rd_drop [of p pos i] by (simp add: rd_def)

section \<open>Sequence numbers\<close>

text \<open>
  \<open>V(S)\<close>, \<open>V(A)\<close>, \<open>V(R)\<close>, \<open>N(S)\<close> and \<open>N(R)\<close> count modulo 128 and are stored in octets.
  \<open>seq_dist a b\<close> is the number of steps from \<open>a\<close> to \<open>b\<close>, \<open>seq_add a i\<close> is \<open>i\<close> steps after \<open>a\<close>.
\<close>

definition seq_dist :: "u8 \<Rightarrow> u8 \<Rightarrow> nat" where
  "seq_dist a b = (unat b + 128 - unat a) mod 128"

definition seq_add :: "u8 \<Rightarrow> nat \<Rightarrow> u8" where
  "seq_add a i = word_of_nat ((unat a + i) mod 128)"

lemma unat_less_128: "x < 128 \<Longrightarrow> unat (x :: u8) < 128"
  by (simp add: unat_lt_128_iff)

lemma unat_seq_add [seq_simps]: "unat (seq_add a i) = (unat a + i) mod 128"
  by (simp add: seq_add_def unat_of_nat)

lemma seq_add_lt [seq_simps, simp]: "seq_add a i < 128"
  by (simp add: unat_lt_128_iff [symmetric] unat_seq_add)

lemma u8_eqI: "unat a = unat b \<Longrightarrow> a = (b :: u8)"
  by (simp add: word_unat_eq_iff)

lemma seq_add_0 [seq_simps]: "a < 128 \<Longrightarrow> seq_add a 0 = a"
  by (rule u8_eqI) (simp add: unat_seq_add unat_less_128)

lemma seq_add_add [seq_simps]: "seq_add (seq_add a i) j = seq_add a (i + j)"
  by (rule u8_eqI) (simp add: unat_seq_add mod_simps add.assoc)

lemma succ_mod_eq_seq_add: "(a + 1) mod 128 = seq_add a 1" for a :: u8
proof (rule u8_eqI)
  have "unat (a + 1) mod 128 = (unat a + 1) mod 128"
    by (simp add: unat_word_ariths mod_mod_cancel)
  then show "unat ((a + 1) mod 128) = unat (seq_add a 1)"
    by (simp add: unat_mod unat_seq_add)
qed

lemma seq_dist_lt [seq_simps]: "seq_dist a b < 128"
  by (simp add: seq_dist_def)

lemma seq_dist_self [seq_simps, simp]: "a < 128 \<Longrightarrow> seq_dist a a = 0"
  by (simp add: seq_dist_def unat_less_128)

lemma seq_dist_alt:
  assumes "a < 128" "b < 128"
  shows "seq_dist a b = (if unat a \<le> unat b then unat b - unat a else unat b + 128 - unat a)"
  using unat_less_128 [OF assms(1)] unat_less_128 [OF assms(2)]
  by (auto simp: seq_dist_def mod_if)

lemma seq_dist_add [seq_simps]:
  assumes "a < 128" "i < 128"
  shows "seq_dist a (seq_add a i) = i"
  using unat_less_128 [OF assms(1)] assms(2)
  by (auto simp: seq_dist_def unat_seq_add mod_if)

lemma seq_add_dist [seq_simps]:
  assumes "a < 128" "b < 128"
  shows "seq_add a (seq_dist a b) = b"
  using unat_less_128 [OF assms(1)] unat_less_128 [OF assms(2)]
  by (intro u8_eqI) (auto simp: unat_seq_add seq_dist_alt [OF assms] mod_if)

lemma seq_dist_eq_0 [seq_simps]: "a < 128 \<Longrightarrow> b < 128 \<Longrightarrow> seq_dist a b = 0 \<longleftrightarrow> a = b"
  using seq_add_dist [of a b] by (auto simp: seq_add_0)

lemma seq_dist_succ [seq_simps]:
  assumes "a < 128" "b < 128" "seq_dist a b < 127"
  shows "seq_dist a (seq_add b 1) = Suc (seq_dist a b)"
proof -
  have "seq_add b 1 = seq_add a (seq_dist a b + 1)"
    using seq_add_dist [OF assms(1,2)] seq_add_add [of a "seq_dist a b" 1] by simp
  then show ?thesis
    using assms by (simp add: seq_dist_add)
qed

lemma seq_dist_split:
  assumes "a < 128" "n < 128" "b < 128" "seq_dist a n \<le> seq_dist a b"
  shows "seq_dist n b = seq_dist a b - seq_dist a n"
proof -
  let ?i = "seq_dist a n" and ?j = "seq_dist a b"
  have "seq_add n (?j - ?i) = seq_add a ?j"
    using seq_add_dist [OF assms(1,2)] seq_add_add [of a ?i "?j - ?i"] assms(4) by simp
  also have "\<dots> = b" using assms by (simp add: seq_add_dist)
  finally have "seq_add n (?j - ?i) = b" .
  moreover have "?j - ?i < 128" using seq_dist_lt [of a b] by simp
  ultimately show ?thesis
    using seq_dist_add [OF assms(2), of "?j - ?i"] by simp
qed

lemma seq_window_edge:
  assumes "a < 128" "b < 128" "k < 128"
  shows "unat b = (unat a + k) mod 128 \<longleftrightarrow> seq_dist a b = k"
proof
  assume "unat b = (unat a + k) mod 128"
  then have "b = seq_add a k" by (intro u8_eqI) (simp add: unat_seq_add)
  then show "seq_dist a b = k" using assms by (simp add: seq_dist_add)
next
  assume "seq_dist a b = k"
  then show "unat b = (unat a + k) mod 128"
    using seq_add_dist [OF assms(1,2)] unat_seq_add [of a k] by simp
qed

lemma seq_add_inj:
  assumes "i < 128" "j < 128" "a < 128" "seq_add a i = seq_add a j"
  shows "i = j"
  using seq_dist_add [OF assms(3,1)] seq_dist_add [OF assms(3,2)] assms(4) by metis

section \<open>Lists with a cursor\<close>

lemma dropWhile_split:
  "x \<notin> f ` set xs \<Longrightarrow> f y = x \<Longrightarrow> dropWhile (\<lambda>b. f b \<noteq> x) (xs @ y # ys) = y # ys"
  by (induction xs) auto

lemma map_upt_shift: "map f [i..<i + n] = map (\<lambda>j. f (i + j)) [0..<n]"
  by (rule nth_equalityI) simp_all

section \<open>Machines driven by events\<close>

text \<open>
  The contract every event-driven component of the module is used under: one transition
  function per event that returns a state or a fault, the events considered in a state, and
  a predicate that every such transition keeps. What follows is stated once for all of them: the
  predicate holds after any sequence of events that returns, and if no transition from a good
  state faults then no sequence of events does.
\<close>

fun run_events :: "('e \<Rightarrow> 's \<Rightarrow> 's res) \<Rightarrow> 'e list \<Rightarrow> 's \<Rightarrow> 's res" where
  "run_events step [] s = Inr s"
| "run_events step (e # es) s = bind_res (step e s) (run_events step es)"

lemma run_events_append:
  "run_events step (es @ fs) s = bind_res (run_events step es s) (run_events step fs)"
proof (induction es arbitrary: s)
  case Nil
  show ?case by simp
next
  case (Cons e es)
  show ?case using Cons.IH by (cases "step e s") simp_all
qed

fun events_ok :: "('e \<Rightarrow> 's \<Rightarrow> 's res) \<Rightarrow> ('e \<Rightarrow> 's \<Rightarrow> bool) \<Rightarrow> 'e list \<Rightarrow> 's \<Rightarrow> bool" where
  "events_ok step ok [] s = True"
| "events_ok step ok (e # es) s =
     (ok e s \<and> (case step e s of Inl _ \<Rightarrow> True | Inr t \<Rightarrow> events_ok step ok es t))"

locale event_machine =
  fixes ok :: "'e \<Rightarrow> 's \<Rightarrow> bool"
    and step :: "'e \<Rightarrow> 's \<Rightarrow> 's res"
    and inv :: "'s \<Rightarrow> bool"
  assumes step_inv: "ok e s \<Longrightarrow> inv s \<Longrightarrow> step e s = Inr s' \<Longrightarrow> inv s'"
begin

lemma run_inv: "events_ok step ok es s \<Longrightarrow> inv s \<Longrightarrow> run_events step es s = Inr s' \<Longrightarrow> inv s'"
  by (induction es arbitrary: s) (auto simp: bind_res_eq_Inr, blast dest: step_inv)

end

locale total_event_machine = event_machine +
  assumes step_total: "ok e s \<Longrightarrow> inv s \<Longrightarrow> \<exists>s'. step e s = Inr s'"
begin

lemma run_total:
  "events_ok step ok es s \<Longrightarrow> inv s \<Longrightarrow> \<exists>s'. run_events step es s = Inr s' \<and> inv s'"
proof (induction es arbitrary: s)
  case Nil
  then show ?case by simp
next
  case (Cons e es)
  then obtain t where t: "step e s = Inr t" using step_total [of e s] by auto
  moreover have "inv t" using Cons.prems step_inv [OF _ _ t] by simp
  ultimately show ?case using Cons by simp
qed

end

lemma events_ok_True [simp]: "events_ok step (\<lambda>_ _. True) es s"
  by (induction es arbitrary: s) (auto split: sum.splits)

section \<open>Encoders and decoders\<close>

text \<open>
  The contract of a field or frame codec: on the values the protocol defines, decoding what was
  encoded gives the value back. Encoders are then injective on those values.
\<close>

locale codec =
  fixes enc :: "'a \<Rightarrow> 'b"
    and dec :: "'b \<Rightarrow> 'a"
    and dom_ok :: "'a \<Rightarrow> bool"
  assumes dec_enc: "dom_ok x \<Longrightarrow> dec (enc x) = x"
begin

lemma enc_inj: "dom_ok x \<Longrightarrow> dom_ok y \<Longrightarrow> enc x = enc y \<longleftrightarrow> x = y"
  by (metis dec_enc)

end

end
