(* ===== verification/Vgsm_Codec.thy ===== *)
theory Vgsm_Codec
  imports Lapd_Prelude
begin

text \<open>
  The codecs of the GSM channel (chan_vgsm): the GSM default alphabet (gsm_charset.c) and its packing
  into septets (7bit.c), digits in semi-octets (bcd.c), base64 (base64.c) and quoted-printable
  (quotprint.c). A buffer is the list of its octets, an access outside it the fault
  \<open>OutOfBounds\<close>. A wide character is its code.
\<close>

definition ENOSPC :: int where "ENOSPC = 28"

definition upd :: "(u8 \<Rightarrow> u8) \<Rightarrow> nat \<Rightarrow> octets \<Rightarrow> octets res" where
  "upd f i buf = (if i < length buf then Inr (buf[i := f (buf ! i)]) else Inl OutOfBounds)"

section \<open>The GSM default alphabet\<close>

definition vgsm_gsm_wc_translations :: "(u8 \<times> u8 \<times> int) list" where
  "vgsm_gsm_wc_translations =
    [(0x00, 0, 0x40), (0x01, 0, 0xA3), (0x02, 0, 0x24), (0x03, 0, 0xA5), (0x04, 0, 0xE8),
     (0x05, 0, 0xE9), (0x06, 0, 0xF9), (0x07, 0, 0xEC), (0x08, 0, 0xF2), (0x09, 0, 0xC7),
     (0x0A, 0, 0xA), (0x0B, 0, 0xD8), (0x0C, 0, 0xF8), (0x0D, 0, 0xD), (0x0E, 0, 0xC5),
     (0x0F, 0, 0xE5), (0x10, 0, 0x394), (0x11, 0, 0x5F), (0x12, 0, 0x3A6), (0x13, 0, 0x393),
     (0x14, 0, 0x39B), (0x15, 0, 0x3A9), (0x16, 0, 0x3A0), (0x17, 0, 0x3A8), (0x18, 0, 0x3A3),
     (0x19, 0, 0x398), (0x1A, 0, 0x39E), (0x1B, 0x0A, 0xC), (0x1B, 0x14, 0x5E), (0x1B, 0x28, 0x7B),
     (0x1B, 0x29, 0x7D), (0x1B, 0x2F, 0x5C), (0x1B, 0x3C, 0x5B), (0x1B, 0x3D, 0x7E),
     (0x1B, 0x3E, 0x5D), (0x1B, 0x40, 0x7C), (0x1B, 0x65, 0x20AC), (0x1C, 0, 0xC6), (0x1D, 0, 0xE6),
     (0x1E, 0, 0xDF), (0x1F, 0, 0xC9), (0x20, 0, 0x20), (0x21, 0, 0x21), (0x22, 0, 0x22),
     (0x23, 0, 0x23), (0x24, 0, 0xA4), (0x25, 0, 0x25), (0x26, 0, 0x26), (0x27, 0, 0x27),
     (0x28, 0, 0x28), (0x29, 0, 0x29), (0x2A, 0, 0x2A), (0x2B, 0, 0x2B), (0x2C, 0, 0x2C),
     (0x2D, 0, 0x2D), (0x2E, 0, 0x2E), (0x2F, 0, 0x2F), (0x30, 0, 0x30), (0x31, 0, 0x31),
     (0x32, 0, 0x32), (0x33, 0, 0x33), (0x34, 0, 0x34), (0x35, 0, 0x35), (0x36, 0, 0x36),
     (0x37, 0, 0x37), (0x38, 0, 0x38), (0x39, 0, 0x39), (0x3A, 0, 0x3A), (0x3B, 0, 0x3B),
     (0x3C, 0, 0x3C), (0x3D, 0, 0x3D), (0x3E, 0, 0x3E), (0x3F, 0, 0x3F), (0x40, 0, 0xA1),
     (0x41, 0, 0x41), (0x42, 0, 0x42), (0x43, 0, 0x43), (0x44, 0, 0x44), (0x45, 0, 0x45),
     (0x46, 0, 0x46), (0x47, 0, 0x47), (0x48, 0, 0x48), (0x49, 0, 0x49), (0x4A, 0, 0x4A),
     (0x4B, 0, 0x4B), (0x4C, 0, 0x4C), (0x4D, 0, 0x4D), (0x4E, 0, 0x4E), (0x4F, 0, 0x4F),
     (0x50, 0, 0x50), (0x51, 0, 0x51), (0x52, 0, 0x52), (0x53, 0, 0x53), (0x54, 0, 0x54),
     (0x55, 0, 0x55), (0x56, 0, 0x56), (0x57, 0, 0x57), (0x58, 0, 0x58), (0x59, 0, 0x59),
     (0x5A, 0, 0x5A), (0x5B, 0, 0xC4), (0x5C, 0, 0xD6), (0x5D, 0, 0xD1), (0x5E, 0, 0xDC),
     (0x5F, 0, 0xA7), (0x60, 0, 0xBF), (0x61, 0, 0x61), (0x62, 0, 0x62), (0x63, 0, 0x63),
     (0x64, 0, 0x64), (0x65, 0, 0x65), (0x66, 0, 0x66), (0x67, 0, 0x67), (0x68, 0, 0x68),
     (0x69, 0, 0x69), (0x6A, 0, 0x6A), (0x6B, 0, 0x6B), (0x6C, 0, 0x6C), (0x6D, 0, 0x6D),
     (0x6E, 0, 0x6E), (0x6F, 0, 0x6F), (0x70, 0, 0x70), (0x71, 0, 0x71), (0x72, 0, 0x72),
     (0x73, 0, 0x73), (0x74, 0, 0x74), (0x75, 0, 0x75), (0x76, 0, 0x76), (0x77, 0, 0x77),
     (0x78, 0, 0x78), (0x79, 0, 0x79), (0x7A, 0, 0x7A), (0x7B, 0, 0xE4), (0x7C, 0, 0xF6),
     (0x7D, 0, 0xF1), (0x7E, 0, 0xFC), (0x7F, 0, 0xE0)]"

definition vgsm_gsm_to_wc :: "u8 \<Rightarrow> int" where
  "vgsm_gsm_to_wc gsm =
     (case find (\<lambda>(c, c2, wc). c = gsm) vgsm_gsm_wc_translations of
        Some (c, c2, wc) \<Rightarrow> wc | None \<Rightarrow> 0)"

text \<open>The number of septets and their values.\<close>

definition vgsm_wc_to_gsm :: "int \<Rightarrow> u8 list" where
  "vgsm_wc_to_gsm wch =
     (case find (\<lambda>(c, c2, wc). wc = wch) vgsm_gsm_wc_translations of
        Some (c, c2, wc) \<Rightarrow> if c2 \<noteq> 0 then [c, c2] else [c]
      | None \<Rightarrow> [])"

section \<open>Septets\<close>

definition vgsm_octets_to_septets :: "nat \<Rightarrow> nat" where
  "vgsm_octets_to_septets octets = (octets * 8) div 7 + (if (octets * 8) mod 7 \<noteq> 0 then 1 else 0)"

definition vgsm_septets_to_octets :: "nat \<Rightarrow> nat" where
  "vgsm_septets_to_octets septets = (septets * 7) div 8 + (if (septets * 7) mod 8 \<noteq> 0 then 1 else 0)"

text \<open>The body of the loop of \<open>vgsm_7bit_to_wc\<close>: the septet at place \<open>k\<close> (\<open>i + offset\<close>) of the buffer.\<close>

definition septet_at :: "octets \<Rightarrow> nat \<Rightarrow> u8 res" where
  "septet_at buf k =
     (let j = ((k + 1) * 7) div 8;
          shift = 8 - k mod 8;
          mask = push_bit shift 0x7f :: 16 word
      in bind_res (if j \<noteq> 0 then rd buf (j - 1) else Inr 0) (\<lambda>lo.
         bind_res (if 1 < shift then rd buf j else Inr 0) (\<lambda>hi.
           let val = ucast lo OR push_bit 8 (ucast hi) :: 16 word
           in Inr (ucast (drop_bit shift (val AND mask))))))"

fun septets_loop :: "octets \<Rightarrow> nat \<Rightarrow> nat \<Rightarrow> nat \<Rightarrow> int list res" where
  "septets_loop buf offset i 0 = Inr []"
| "septets_loop buf offset i (Suc n) =
     bind_res (septet_at buf (i + offset)) (\<lambda>v.
       bind_res (septets_loop buf offset (i + 1) n) (\<lambda>ws. Inr (vgsm_gsm_to_wc v # ws)))"

text \<open>The text, without the zero that ends it; an output buffer with no room for that zero is overrun.\<close>

definition vgsm_7bit_to_wc :: "octets \<Rightarrow> int \<Rightarrow> nat \<Rightarrow> int \<Rightarrow> int list res" where
  "vgsm_7bit_to_wc buf septets offset outsize =
     bind_res (septets_loop buf offset 0 (nat (min (outsize - 1) septets))) (\<lambda>ws.
       if int (length ws) < outsize then Inr ws else Inl OutOfBounds)"

definition vgsm_write_septet :: "nat \<Rightarrow> u8 \<Rightarrow> octets \<Rightarrow> octets res" where
  "vgsm_write_septet septet c out =
     (let outpos = ((septet + 1) * 7) div 8; shift = septet mod 8
      in if 0 < outpos
         then bind_res (upd (\<lambda>x. x OR push_bit (8 - shift) c) (outpos - 1) out)
                (upd (\<lambda>x. x OR drop_bit shift c) outpos)
         else upd (\<lambda>x. x OR c) outpos out)"

fun wc_to_7bit_loop :: "int list \<Rightarrow> int \<Rightarrow> nat \<Rightarrow> nat \<Rightarrow> octets \<Rightarrow> (int \<times> octets) res" where
  "wc_to_7bit_loop [] max_septets offset outsep out = Inr (int outsep, out)"
| "wc_to_7bit_loop (inwc # ws) max_septets offset outsep out =
     (case vgsm_wc_to_gsm inwc of
        [] \<Rightarrow> wc_to_7bit_loop ws max_septets offset outsep out
      | c # cs \<Rightarrow>
          if max_septets \<le> int outsep then Inr (- ENOSPC, out)
          else bind_res (vgsm_write_septet (outsep + offset) c out) (\<lambda>out.
            let outsep = outsep + 1 in
            if max_septets \<le> int outsep then Inr (- ENOSPC, out)
            else case cs of
                   [] \<Rightarrow> wc_to_7bit_loop ws max_septets offset outsep out
                 | c2 # _ \<Rightarrow>
                     bind_res (vgsm_write_septet (outsep + offset) c2 out) (\<lambda>out.
                       wc_to_7bit_loop ws max_septets offset (outsep + 1) out)))"

definition vgsm_wc_to_7bit :: "int list \<Rightarrow> octets \<Rightarrow> int \<Rightarrow> nat \<Rightarrow> (int \<times> octets) res" where
  "vgsm_wc_to_7bit ws out max_septets offset = wc_to_7bit_loop ws max_septets offset 0 out"

section \<open>Digits in semi-octets\<close>

definition vgsm_nibbles_to_decimal :: "u8 \<Rightarrow> u8" where
  "vgsm_nibbles_to_decimal val = (val AND 0x0f) * 10 + drop_bit 4 (val AND 0xf0)"

definition vgsm_decimal_to_nibbles :: "u8 \<Rightarrow> u8" where
  "vgsm_decimal_to_nibbles val = (val div 10) OR push_bit 4 (val mod 10)"

definition vgsm_bcd_to_char :: "u8 \<Rightarrow> u8" where
  "vgsm_bcd_to_char bcd =
     (if bcd = 0xa then 0x2a else if bcd = 0xb then 0x23 else if bcd = 0xc then 0x61
      else if bcd = 0xd then 0x62 else if bcd = 0xe then 0x63 else if bcd = 0xf then 0x64
      else 0x30 + bcd)"

definition vgsm_char_to_bcd :: "u8 \<Rightarrow> u8" where
  "vgsm_char_to_bcd c =
     (if c = 0x2a then 0xa else if c = 0x23 then 0xb else if c = 0x61 then 0xc
      else if c = 0x62 then 0xd else if c = 0x63 then 0xe else if c = 0x64 then 0xf
      else c - 0x30)"

definition nibble_at :: "octets \<Rightarrow> nat \<Rightarrow> u8 res" where
  "nibble_at buf i =
     bind_res (rd buf (i div 2)) (\<lambda>x. Inr (if i mod 2 \<noteq> 0 then drop_bit 4 (x AND 0xf0) else x AND 0x0f))"

text \<open>The text, None where the source returns -1 because the buffer of the caller is full.\<close>

fun bcd_to_text_loop :: "octets \<Rightarrow> nat \<Rightarrow> nat \<Rightarrow> int \<Rightarrow> octets \<Rightarrow> octets option res" where
  "bcd_to_text_loop buf i 0 str_len str = (if int (length str) < str_len then Inr (Some str) else Inl OutOfBounds)"
| "bcd_to_text_loop buf i (Suc n) str_len str =
     bind_res (nibble_at buf i) (\<lambda>bcd.
       if bcd \<noteq> 0xf then
         (if str_len - 1 \<le> int (length str) then Inr None
          else bcd_to_text_loop buf (i + 1) n str_len (str @ [vgsm_bcd_to_char bcd]))
       else bcd_to_text_loop buf (i + 1) n str_len str)"

definition vgsm_bcd_to_text :: "octets \<Rightarrow> int \<Rightarrow> int \<Rightarrow> octets option res" where
  "vgsm_bcd_to_text buf nibbles str_len = bcd_to_text_loop buf 0 (nat nibbles) str_len []"

text \<open>The octets of a number; \<open>vgsm_text_to_bcd\<close> returns the length of the text, never an error.\<close>

fun vgsm_text_to_bcd :: "octets \<Rightarrow> octets" where
  "vgsm_text_to_bcd [] = []"
| "vgsm_text_to_bcd [c] = [vgsm_char_to_bcd c OR 0xf0]"
| "vgsm_text_to_bcd (c # d # s) = (vgsm_char_to_bcd c OR push_bit 4 (vgsm_char_to_bcd d)) # vgsm_text_to_bcd s"

section \<open>Base64\<close>

definition base64_value :: "int list" where
  "base64_value =
     [64, -1, -1, -1, -1, -1, -1, -1, -1, -1, -1, -1, -1, -1, -1, -1,
      -1, -1, -1, -1, -1, -1, -1, -1, -1, -1, -1, -1, -1, -1, -1, -1,
      -1, -1, -1, -1, -1, -1, -1, -1, -1, -1, -1, 62, -1, -1, -1, 63,
      52, 53, 54, 55, 56, 57, 58, 59, 60, 61, -1, -1, -1, 0, -1, -1,
      -1, 0, 1, 2, 3, 4, 5, 6, 7, 8, 9, 10, 11, 12, 13, 14,
      15, 16, 17, 18, 19, 20, 21, 22, 23, 24, 25, -1, -1, -1, -1, -1,
      -1, 26, 27, 28, 29, 30, 31, 32, 33, 34, 35, 36, 37, 38, 39, 40,
      41, 42, 43, 44, 45, 46, 47, 48, 49, 50, 51, -1, -1, -1, -1, -1,
      -1, -1, -1, -1, -1, -1, -1, -1, -1, -1, -1, -1, -1, -1, -1, -1,
      -1, -1, -1, -1, -1, -1, -1, -1, -1, -1, -1, -1, -1, -1, -1, -1,
      -1, -1, -1, -1, -1, -1, -1, -1, -1, -1, -1, -1, -1, -1, -1, -1,
      -1, -1, -1, -1, -1, -1, -1, -1, -1, -1, -1, -1, -1, -1, -1, -1,
      -1, -1, -1, -1, -1, -1, -1, -1, -1, -1, -1, -1, -1, -1, -1, -1,
      -1, -1, -1, -1, -1, -1, -1, -1, -1, -1, -1, -1, -1, -1, -1, -1,
      -1, -1, -1, -1, -1, -1, -1, -1, -1, -1, -1, -1, -1, -1, -1, -1,
      -1, -1, -1, -1, -1, -1, -1, -1, -1, -1, -1, -1, -1, -1, -1, -1]"

text \<open>
  The loop over the text up to the zero that ends it; the accumulator is the octets written, the
  bits and the number of characters of the quantum.
\<close>

fun base64_decode_loop :: "octets \<Rightarrow> int \<Rightarrow> octets \<Rightarrow> 32 word \<Rightarrow> nat \<Rightarrow> octets" where
  "base64_decode_loop [] dest_size dest bits noctets = dest"
| "base64_decode_loop (d # src) dest_size dest bits noctets =
     (if d = 0 \<or> dest_size \<le> int (length dest) + 4 then dest
      else
        let v = base64_value ! unat d in
        if v < 0 then base64_decode_loop src dest_size dest bits noctets
        else
          let bits = push_bit 6 bits + word_of_int v; noctets = noctets + 1 in
          if noctets < 4 then base64_decode_loop src dest_size dest bits noctets
          else base64_decode_loop src dest_size
                 (dest @ [ucast (drop_bit 16 bits AND 0xff), ucast (drop_bit 8 bits AND 0xff), ucast (bits AND 0xff)]) 0 0)"

definition base64_decode :: "octets \<Rightarrow> int \<Rightarrow> octets res" where
  "base64_decode src dest_size =
     (let dest = base64_decode_loop src dest_size [] 0 0
      in if int (length dest) < dest_size then Inr dest else Inl OutOfBounds)"

definition codes :: "octets" where
  "codes = map (\<lambda>c. of_char c)
     ''ABCDEFGHIJKLMNOPQRSTUVWXYZabcdefghijklmnopqrstuvwxyz0123456789+/''"

definition code :: "u8 \<Rightarrow> u8" where
  "code v = codes ! unat (v AND 0x3f)"

fun base64_quanta :: "octets \<Rightarrow> octets" where
  "base64_quanta [] = []"
| "base64_quanta [a] =
     [code (drop_bit 2 a), code (push_bit 4 (a AND 3) + drop_bit 4 0), 0x3d, 0x3d]"
| "base64_quanta [a, b] =
     [code (drop_bit 2 a), code (push_bit 4 (a AND 3) + drop_bit 4 b), code (push_bit 2 (b AND 0xf)), 0x3d]"
| "base64_quanta (a # b # c # s) =
     code (drop_bit 2 a) # code (push_bit 4 (a AND 3) + drop_bit 4 b) #
     code (push_bit 2 (b AND 0xf) + drop_bit 6 c) # code c # base64_quanta s"

text \<open>
  The result and the length returned; the text is followed by a zero. The size of the buffer, an int,
  is compared as an unsigned number: a negative one passes as large.
\<close>

definition base64_encode :: "octets \<Rightarrow> int \<Rightarrow> (int \<times> int \<times> octets)" where
  "base64_encode s outlen =
     (let len2 = 4 * ((int (length s) + 2) div 3)
      in if 0 \<le> outlen \<and> outlen < len2 + 1 then (- ENOSPC, len2 + 1, [])
         else (0, int (length (base64_quanta s)), base64_quanta s))"

section \<open>Quoted-printable\<close>

definition char_to_hexdigit :: "u8 \<Rightarrow> int" where
  "char_to_hexdigit c =
     (if 0x30 \<le> c \<and> c \<le> 0x39 then uint c - 0x30
      else if 0x61 \<le> c \<and> c \<le> 0x66 then uint c - 0x61 + 10
      else if 0x41 \<le> c \<and> c \<le> 0x46 then uint c - 0x41 + 10
      else - 1)"

text \<open>The text without the zero that ends it; None where the source returns \<open>-EINVAL\<close>.\<close>

fun quoted_printable_loop :: "octets \<Rightarrow> int \<Rightarrow> octets \<Rightarrow> octets option" where
  "quoted_printable_loop src dest_size out =
     (case src of
        [] \<Rightarrow> Some out
      | c # src \<Rightarrow>
          if c = 0 \<or> dest_size - 2 \<le> int (length out) then Some out
          else if c = 0x3d then
            (case src of
               [] \<Rightarrow> None
             | h # src \<Rightarrow>
                 if h = 0 then None
                 else if h = 0x0a then quoted_printable_loop src dest_size out
                 else if char_to_hexdigit h < 0 then None
                 else
                   (case src of
                      [] \<Rightarrow> None
                    | l # src \<Rightarrow>
                        if l = 0 then None
                        else if char_to_hexdigit l < 0 then None
                        else quoted_printable_loop src dest_size
                               (out @ [push_bit 4 (word_of_int (char_to_hexdigit h)) + word_of_int (char_to_hexdigit l)])))
          else quoted_printable_loop src dest_size (out @ [if c = 0x5f then 0x20 else c]))"

declare quoted_printable_loop.simps [simp del]

definition quoted_printable_decode :: "octets \<Rightarrow> int \<Rightarrow> octets option res" where
  "quoted_printable_decode src dest_size =
     (case quoted_printable_loop src dest_size [] of
        None \<Rightarrow> Inr None
      | Some out \<Rightarrow> if int (length out) < dest_size then Inr (Some out) else Inl OutOfBounds)"

section \<open>Septets as a stream of bits\<close>

definition bit_at :: "octets \<Rightarrow> nat \<Rightarrow> bool" where
  "bit_at buf k \<longleftrightarrow> bit (buf ! (k div 8)) (k mod 8)"

lemma split8: obtains q r where "k = 8 * q + r" "r < 8" "k div 8 = q" "k mod 8 = (r :: nat)"
  using mult_div_mod_eq [of 8 k] by (metis mod_less_divisor zero_less_numeral)

lemma div_mod_8: "r < 8 \<Longrightarrow> (8 * q + r) div 8 = q \<and> (8 * q + r) mod 8 = (r :: nat)"
  by simp

lemma septet_place: "((k + 1) * 7) div 8 = 7 * (k div 8) + k mod (8 :: nat)"
proof (rule split8 [of k])
  fix q r assume k: "k = 8 * q + r" "r < 8" "k div 8 = q" "k mod 8 = r"
  have "(k + 1) * 7 = 8 * (7 * q + r) + (7 - r)" using k(1,2) by simp
  then show ?thesis using k by simp
qed

lemma septet_bit_lo:
  assumes "n < k mod 8"
  shows "(7 * k + n) div 8 = 7 * (k div 8) + k mod 8 - 1 \<and> (7 * k + n) mod 8 = 8 - k mod 8 + (n :: nat)"
proof (rule split8 [of k])
  fix q r assume k: "k = 8 * q + r" "r < 8" "k div 8 = q" "k mod 8 = r"
  have "7 * k + n = 8 * (7 * q + r - 1) + (8 - r + n)" using k assms by simp
  then show ?thesis using div_mod_8 [of "8 - r + n" "7 * q + r - 1"] k assms by simp
qed

lemma septet_bit_hi:
  assumes "k mod 8 \<le> n" "n < 7"
  shows "(7 * k + n) div 8 = 7 * (k div 8) + k mod 8 \<and> (7 * k + n) mod 8 = n - k mod (8 :: nat)"
proof (rule split8 [of k])
  fix q r assume k: "k = 8 * q + r" "r < 8" "k div 8 = q" "k mod 8 = r"
  have "7 * k + n = 8 * (7 * q + r) + (n - r)" using k assms by simp
  moreover have "n - r < 8" using assms(2) by simp
  ultimately show ?thesis using div_mod_8 [of "n - r" "7 * q + r"] k(3,4) by metis
qed

lemma septets_octets_place:
  "vgsm_septets_to_octets (k + 1) = 7 * (k div 8) + k mod 8 + (if k mod 8 = 7 then 0 else 1)"
proof (rule split8 [of k])
  fix q r assume k: "k = 8 * q + r" "r < 8" "k div 8 = q" "k mod 8 = r"
  have "(k + 1) * 7 = 8 * (7 * q + r) + (7 - r)" using k(1,2) by simp
  moreover have "7 - r < 8" by simp
  ultimately have "((k + 1) * 7) div 8 = 7 * q + r" "((k + 1) * 7) mod 8 = 7 - r"
    using div_mod_8 [of "7 - r" "7 * q + r"] by metis+
  then show ?thesis using k unfolding vgsm_septets_to_octets_def by auto
qed

lemma bit_at_septet:
  "n < 7 \<Longrightarrow> bit_at buf (7 * k + n) =
    (let j = 7 * (k div 8) + k mod 8; r = k mod 8
     in if n < r then bit (buf ! (j - 1)) (8 - r + n) else bit (buf ! j) (n - r))"
  using septet_bit_lo [of n k] septet_bit_hi [of k n] by (simp add: bit_at_def Let_def)


lemma mask_7f: "(0x7f :: 16 word) = mask 7"
  by (simp add: mask_eq_exp_minus_1)

lemma septet_bits:
  fixes lo hi :: u8
  assumes "r < 8"
  shows "bit (ucast (drop_bit (8 - r) ((ucast lo OR push_bit 8 (ucast hi)) AND push_bit (8 - r) 0x7f) :: 16 word) :: u8) n =
    (n < 7 \<and> (bit lo (8 - r + n) \<or> r \<le> n \<and> bit hi (n - r)))"
proof -
  have e: "8 - r + n - (8 - r) = n" "8 - r \<le> 8 - r + n" "8 \<le> 8 - r + n \<longleftrightarrow> r \<le> n" "r \<le> n \<Longrightarrow> 8 - r + n - 8 = n - r"
    using assms by linarith+
  have "bit (ucast (drop_bit (8 - r) ((ucast lo OR push_bit 8 (ucast hi)) AND push_bit (8 - r) 0x7f) :: 16 word) :: u8) n =
      (n < 8 \<and> 8 - r + n < 16 \<and> n < 7 \<and> (bit lo (8 - r + n) \<or> 8 \<le> 8 - r + n \<and> bit hi (8 - r + n - 8)))"
    unfolding mask_7f by (auto simp: bit_unsigned_iff bit_drop_bit_eq bit_and_iff bit_or_iff bit_push_bit_iff bit_mask_iff e(1) simp del: mask_numeral)
  then show ?thesis using assms e(3,4) by auto
qed

lemma septet_at_bits:
  assumes "vgsm_septets_to_octets (k + 1) \<le> length buf"
  shows "\<exists>v. septet_at buf k = Inr v \<and> (\<forall>n. bit v n = (n < 7 \<and> bit_at buf (7 * k + n)))"
proof -
  let ?j = "7 * (k div 8) + k mod 8" and ?r = "k mod 8"
  have a: "?j + (if ?r = 7 then 0 else 1) \<le> length buf" using assms septets_octets_place [of k] by simp
  have l: "?j \<noteq> 0 \<Longrightarrow> ?j - 1 < length buf" "?r \<noteq> 7 \<Longrightarrow> ?j < length buf"
    using a by (simp_all split: if_splits)
  have r: "?r < 8" by simp
  let ?lo = "if ?j \<noteq> 0 then buf ! (?j - 1) else 0" and ?hi = "if ?r \<noteq> 7 then buf ! ?j else 0"
  let ?v = "ucast (drop_bit (8 - ?r) ((ucast ?lo OR push_bit 8 (ucast ?hi)) AND push_bit (8 - ?r) 0x7f) :: 16 word) :: u8"
  have "(if ?j \<noteq> 0 then rd buf (?j - 1) else Inr 0) = Inr ?lo" "(if 1 < 8 - ?r then rd buf ?j else Inr 0) = Inr ?hi"
    using l r by (simp_all add: rd_def) linarith+
  then have "septet_at buf k = Inr ?v"
    unfolding septet_at_def septet_place Let_def by (simp only: bind_res_simps)
  moreover have "bit ?v n = (n < 7 \<and> bit_at buf (7 * k + n))" for n
  proof (cases "n < 7")
    case True
    have "?j = 0 \<Longrightarrow> ?r = 0" by simp
    moreover have "?r = 7 \<Longrightarrow> \<not> ?r \<le> n" using True by simp
    ultimately show ?thesis
      using True bit_at_septet [OF True, of buf k] septet_bits [OF r, of ?lo ?hi n] bit_imp_le_length [of "buf ! (?j - 1)" "8 - ?r + n"]
      by (cases "n < ?r"; cases "?r = 0") (auto simp: Let_def)
  next
    case False
    then show ?thesis by (simp only: septet_bits [OF r]) simp
  qed
  ultimately show ?thesis by blast
qed

lemma bit_lt_128: "(c :: u8) < 128 \<Longrightarrow> bit c n \<Longrightarrow> n < 7"
  using bit_imp_le_length [of c n] lt_128_bit [of c] by (cases "n = 7") simp_all

lemma nth_upd2:
  "i < length xs \<Longrightarrow> xs[j := a, j' := b] ! i = (if i = j' then b else if i = j then a else xs ! i)"
  by (simp add: nth_list_update)

text \<open>A septet occupies seven bits of the stream from seven times its place on.\<close>

lemma write_septet_bits:
  assumes "c < 128" "7 * (s div 8) + s mod 8 < length out"
  shows "\<exists>out'. vgsm_write_septet s c out = Inr out' \<and> length out' = length out \<and>
    (\<forall>k < 8 * length out. bit_at out' k = (bit_at out k \<or> 7 * s \<le> k \<and> k < 7 * s + 7 \<and> bit c (k - 7 * s)))"
proof -
  define j r where d: "j = 7 * (s div 8) + s mod 8" "r = s mod 8"
  have s7: "7 * s + r = 8 * j" unfolding d by (rule split8 [of s]) simp
  have r: "r < 8" by (simp add: d)
  have place: "((s + 1) * 7) div 8 = j" "s mod 8 = r" using septet_place [of s] d by simp_all
  have len: "j < length out" using assms(2) d by simp
  let ?a = "out[j - 1 := out ! (j - 1) OR push_bit (8 - r) c]"
  let ?o = "if 0 < j then ?a[j := ?a ! j OR drop_bit r c] else out[0 := out ! 0 OR c]"
  have w: "vgsm_write_septet s c out = Inr ?o"
  proof (cases "0 < j")
    case True
    then have "j - 1 < length out" using len by linarith
    then show ?thesis
      using True len unfolding vgsm_write_septet_def place upd_def Let_def by simp
  next
    case False
    then show ?thesis using len unfolding vgsm_write_septet_def place upd_def Let_def by simp
  qed
  have o: "bit (?o ! i) m = (bit (out ! i) m \<or> i + 1 = j \<and> 8 - r \<le> m \<and> bit c (m - (8 - r)) \<or> i = j \<and> bit c (m + r))"
    if i: "i < length out" and m: "m < 8" for i m
  proof (cases "0 < j")
    case True
    then have e: "?o = out[j - 1 := out ! (j - 1) OR push_bit (8 - r) c, j := out ! j OR drop_bit r c]"
      by (simp add: nth_list_update)
    have n: "i = j - 1 \<longleftrightarrow> i + 1 = j" using True by linarith
    show ?thesis unfolding e nth_upd2 [OF i] n
      using m by (auto simp: bit_or_iff bit_push_bit_iff bit_drop_bit_eq add.commute)
  next
    case False
    then have "r = 0" "j = 0" using s7 by simp_all
    then show ?thesis using i by (cases "i = 0") (simp_all add: bit_or_iff)
  qed
  have "bit_at ?o k = (bit_at out k \<or> 7 * s \<le> k \<and> k < 7 * s + 7 \<and> bit c (k - 7 * s))" if k: "k < 8 * length out" for k
  proof -
    have i: "k div 8 < length out" "k mod 8 < 8" using k by (simp_all add: less_mult_imp_div_less mult.commute)
    have k8: "k = 8 * (k div 8) + k mod 8" by simp
    consider (lo) "k div 8 + 1 = j" | (hi) "k div 8 = j" | (out) "k div 8 + 1 < j \<or> j < k div 8" by linarith
    then have "7 * s \<le> k \<and> k < 7 * s + 7 \<and> bit c (k - 7 * s) \<longleftrightarrow>
        k div 8 + 1 = j \<and> 8 - r \<le> k mod 8 \<and> bit c (k mod 8 - (8 - r)) \<or> k div 8 = j \<and> bit c (k mod 8 + r)"
    proof cases
      case lo
      then have "7 * s \<le> k \<longleftrightarrow> 8 - r \<le> k mod 8" "k - 7 * s = k mod 8 - (8 - r)" "k < 7 * s + 7"
        using s7 k8 r i(2) by linarith+
      then show ?thesis using lo by auto
    next
      case hi
      then have "7 * s \<le> k" "k - 7 * s = k mod 8 + r" "k < 7 * s + 7 \<longleftrightarrow> k mod 8 + r < 7"
        using s7 k8 r by linarith+
      then show ?thesis using hi bit_lt_128 [OF assms(1), of "k mod 8 + r"] by auto
    next
      case out
      then have "\<not> (7 * s \<le> k \<and> k < 7 * s + 7)" using s7 k8 r i(2) by linarith
      then show ?thesis using out by auto
    qed
    then show ?thesis unfolding bit_at_def using o [OF i] by simp
  qed
  then show ?thesis using w by (intro exI [of _ ?o]) simp
qed

section \<open>Text\<close>

definition clear_from :: "nat \<Rightarrow> octets \<Rightarrow> bool" where
  "clear_from m out \<longleftrightarrow> (\<forall>k. m \<le> k \<and> k < 8 * length out \<longrightarrow> \<not> bit_at out k)"

definition packed :: "octets \<Rightarrow> nat \<Rightarrow> u8 list \<Rightarrow> bool" where
  "packed out p cs \<longleftrightarrow> (\<forall>i < length cs. \<forall>n < 7. bit_at out (7 * (p + i) + n) = bit (cs ! i) n)"

lemma packed_Cons: "packed out p (c # cs) \<longleftrightarrow> (\<forall>n < 7. bit_at out (7 * p + n) = bit c n) \<and> packed out (p + 1) cs"
proof -
  have l: "length (c # cs) = Suc (length cs)" and i: "p + Suc i = p + 1 + i" for i by simp_all
  show ?thesis unfolding packed_def l All_less_Suc2 nth_Cons_0 nth_Cons_Suc i by simp
qed

fun write_septets :: "u8 list \<Rightarrow> nat \<Rightarrow> octets \<Rightarrow> octets res" where
  "write_septets [] p out = Inr out"
| "write_septets (c # cs) p out = bind_res (vgsm_write_septet p c out) (write_septets cs (p + 1))"

definition gsm_septets :: "int list \<Rightarrow> u8 list" where
  "gsm_septets ws = concat (map vgsm_wc_to_gsm ws)"

lemma translations_7bit: "list_all (\<lambda>(c, c2, wc). c < 128 \<and> c2 < 128) vgsm_gsm_wc_translations"
  by code_simp

text \<open>The rows are in the order of the first septet, which only the escape has more than once.\<close>

definition row_less :: "u8 \<times> u8 \<times> int \<Rightarrow> u8 \<times> u8 \<times> int \<Rightarrow> bool" where
  "row_less x y = (case x of (c, c2, _) \<Rightarrow> case y of (d, d2, _) \<Rightarrow> c < d \<or> c = d \<and> c2 \<noteq> 0 \<and> d2 \<noteq> 0)"

lemma translations_sorted: "sorted_wrt row_less vgsm_gsm_wc_translations"
proof -
  have "transp row_less" by (auto simp: row_less_def transp_def)
  moreover have "successively row_less vgsm_gsm_wc_translations" by code_simp
  ultimately show ?thesis by (simp add: successively_conv_sorted_wrt)
qed

lemma find_row:
  "sorted_wrt row_less rows \<Longrightarrow> (c, 0, wc) \<in> set rows \<Longrightarrow> find (\<lambda>(d, d2, wc). d = c) rows = Some (c, 0, wc)"
  by (induction rows) (auto simp: row_less_def)

lemma translations_inverse: "(c, 0, wc) \<in> set vgsm_gsm_wc_translations \<Longrightarrow> vgsm_gsm_to_wc c = wc"
  using find_row [OF translations_sorted] by (simp add: vgsm_gsm_to_wc_def)

lemma find_SomeD: "find P xs = Some x \<Longrightarrow> x \<in> set xs \<and> P x"
  by (induction xs) (auto split: if_splits)

lemma wc_to_gsm_cases:
  obtains "vgsm_wc_to_gsm w = []"
  | c where "vgsm_wc_to_gsm w = [c]" "c < 128" "vgsm_gsm_to_wc c = w"
  | c c2 where "vgsm_wc_to_gsm w = [c, c2]" "c < 128" "c2 < 128"
proof (cases "find (\<lambda>(c, c2, wc). wc = w) vgsm_gsm_wc_translations")
  case None
  then show thesis using that(1) by (simp add: vgsm_wc_to_gsm_def)
next
  case (Some x)
  obtain c c2 wc where x: "x = (c, c2, wc)" by (cases x)
  have "x \<in> set vgsm_gsm_wc_translations" "wc = w" using find_SomeD [OF Some] x by auto
  then have "c < 128" "c2 < 128" "c2 = 0 \<longrightarrow> vgsm_gsm_to_wc c = w"
    using translations_7bit translations_inverse [of c w] x unfolding list_all_iff by fastforce+
  then show thesis using that(2,3) Some x unfolding vgsm_wc_to_gsm_def by (cases "c2 = 0") simp_all
qed

lemma gsm_septets_7bit: "\<forall>c\<in>set (gsm_septets ws). c < 128"
proof (induction ws)
  case (Cons w ws)
  then show ?case by (cases rule: wc_to_gsm_cases [of w]) (simp_all add: gsm_septets_def)
qed (simp add: gsm_septets_def)

lemma write_septets_packed:
  assumes "\<forall>c\<in>set cs. c < 128" "clear_from (7 * p) out" "7 * (p + length cs) + 8 \<le> 8 * length out"
  shows "\<exists>out'. write_septets cs p out = Inr out' \<and> length out' = length out \<and>
    (\<forall>k < 7 * p. bit_at out' k = bit_at out k) \<and> packed out' p cs \<and> clear_from (7 * (p + length cs)) out'"
  using assms
proof (induction cs arbitrary: p out)
  case Nil
  then show ?case by (simp add: packed_def)
next
  case (Cons c cs)
  have "7 * (p div 8) + p mod 8 < length out"
    using Cons.prems(3) by (rule_tac split8 [of p]) simp
  then obtain out1 where o1: "vgsm_write_septet p c out = Inr out1" "length out1 = length out"
    "\<forall>k < 8 * length out. bit_at out1 k = (bit_at out k \<or> 7 * p \<le> k \<and> k < 7 * p + 7 \<and> bit c (k - 7 * p))"
    using write_septet_bits [of c p out] Cons.prems(1) by auto
  have cl: "clear_from (7 * (p + 1)) out1"
    using Cons.prems(2) o1(2,3) unfolding clear_from_def by simp
  have "\<forall>c\<in>set cs. c < 128" "7 * (p + 1 + length cs) + 8 \<le> 8 * length out1"
    using Cons.prems o1(2) by simp_all
  then obtain out' where o: "write_septets cs (p + 1) out1 = Inr out'" "length out' = length out1"
    "\<forall>k < 7 * (p + 1). bit_at out' k = bit_at out1 k" "packed out' (p + 1) cs" "clear_from (7 * (p + 1 + length cs)) out'"
    using Cons.IH [OF _ cl] by blast
  have "bit_at out' (7 * p + n) = bit c n" if "n < 7" for n
  proof -
    have "7 * p + n < 8 * length out" using Cons.prems(3) that by simp
    then have "bit_at out1 (7 * p + n) = bit c n"
      using o1(3) Cons.prems(2) that unfolding clear_from_def by simp
    then show ?thesis using o(3) that by simp
  qed
  then have "packed out' p (c # cs)"
    using o(4) by (simp add: packed_Cons)
  moreover have "\<forall>k < 7 * p. bit_at out' k = bit_at out k"
    using o(3) o1(3) Cons.prems(3) by simp
  ultimately show ?case using o o1 by simp
qed

lemma wc_to_7bit_loop_septets:
  "int (sep + length (gsm_septets ws)) < mx \<Longrightarrow>
   wc_to_7bit_loop ws mx off sep out =
     bind_res (write_septets (gsm_septets ws) (sep + off) out) (\<lambda>o'. Inr (int (sep + length (gsm_septets ws)), o'))"
proof (induction ws arbitrary: sep out)
  case Nil
  then show ?case by (simp add: gsm_septets_def)
next
  case (Cons w ws)
  show ?case
  proof (cases rule: wc_to_gsm_cases [of w])
    case 1
    then show ?thesis using Cons by (simp add: gsm_septets_def)
  next
    case (2 c)
    then show ?thesis using Cons.IH [of "sep + 1"] Cons.prems
      by (cases "vgsm_write_septet (sep + off) c out") (simp_all add: gsm_septets_def Let_def)
  next
    case (3 c c2)
    show ?thesis
    proof (cases "vgsm_write_septet (sep + off) c out")
      case (Inr o1)
      then show ?thesis using 3 Cons.IH [of "sep + 2"] Cons.prems
        by (cases "vgsm_write_septet (sep + 1 + off) c2 o1") (simp_all add: gsm_septets_def Let_def)
    qed (use 3 Cons.prems in \<open>simp add: gsm_septets_def\<close>)
  qed
qed

lemma septets_to_octets_le: "7 * s \<le> 8 * n \<Longrightarrow> vgsm_septets_to_octets s \<le> n"
proof -
  assume "7 * s \<le> 8 * n"
  then have n: "s * 7 \<le> 8 * n" by simp
  show ?thesis unfolding vgsm_septets_to_octets_def
    by (rule split8 [of "s * 7"]) (use n in \<open>simp split: if_splits\<close>)
qed

lemma septets_loop_packed:
  assumes "packed buf (i + off) cs" "\<forall>c\<in>set cs. c < 128" "7 * (i + off + length cs) \<le> 8 * length buf"
  shows "septets_loop buf off i (length cs) = Inr (map vgsm_gsm_to_wc cs)"
  using assms
proof (induction cs arbitrary: i)
  case (Cons c cs)
  have "vgsm_septets_to_octets (i + off + 1) \<le> length buf"
    using Cons.prems(3) by (intro septets_to_octets_le) simp
  then obtain v where v: "septet_at buf (i + off) = Inr v" "\<forall>n. bit v n = (n < 7 \<and> bit_at buf (7 * (i + off) + n))"
    using septet_at_bits by blast
  have c: "\<forall>n < 7. bit_at buf (7 * (i + off) + n) = bit c n" "packed buf (i + off + 1) cs"
    using Cons.prems(1) unfolding packed_Cons by simp_all
  have "v = c" using c(1) v(2) bit_lt_128 [of c] Cons.prems(2) by (intro bit_word_eqI) auto
  moreover have "septets_loop buf off (i + 1) (length cs) = Inr (map vgsm_gsm_to_wc cs)"
    using Cons.IH [of "i + 1"] c(2) Cons.prems(2,3) by (simp add: add.commute add.left_commute)
  ultimately show ?case using v(1) by simp
qed simp

definition basic_text :: "int list \<Rightarrow> bool" where
  "basic_text ws \<longleftrightarrow> (\<forall>w\<in>set ws. length (vgsm_wc_to_gsm w) = 1)"

lemma basic_septets: "basic_text ws \<Longrightarrow> map vgsm_gsm_to_wc (gsm_septets ws) = ws"
proof (induction ws)
  case (Cons w ws)
  then show ?case
    by (cases rule: wc_to_gsm_cases [of w]) (simp_all add: basic_text_def gsm_septets_def)
qed (simp add: gsm_septets_def)

lemma basic_length: "basic_text ws \<Longrightarrow> length (gsm_septets ws) = length ws"
  using basic_septets [of ws] by (metis length_map)

text \<open>
  Text survives the packing into septets. Any text of characters with one septet of their own, written
  after a header of any length into a cleared buffer with room for it, is read back unchanged, the
  septets crossing octet boundaries at every offset; the header before it keeps its bits.
\<close>

theorem sms_text_roundtrip:
  assumes "basic_text ws" "int (length ws) < max_septets"
    "clear_from (7 * offset) out" "7 * (offset + length ws) + 8 \<le> 8 * length out"
  shows "\<exists>out'. vgsm_wc_to_7bit ws out max_septets offset = Inr (int (length ws), out') \<and>
     vgsm_7bit_to_wc out' (int (length ws)) offset (int (length ws) + 1) = Inr ws \<and>
     (\<forall>k < 7 * offset. bit_at out' k = bit_at out k)"
proof -
  let ?cs = "gsm_septets ws"
  have l: "length ?cs = length ws" by (rule basic_length [OF assms(1)])
  obtain out' where o: "write_septets ?cs offset out = Inr out'" "length out' = length out"
    "\<forall>k < 7 * offset. bit_at out' k = bit_at out k" "packed out' offset ?cs"
    using write_septets_packed [OF gsm_septets_7bit assms(3)] assms(4) l by metis
  have "vgsm_wc_to_7bit ws out max_septets offset = Inr (int (length ws), out')"
    using wc_to_7bit_loop_septets [of 0 ws max_septets offset out] assms(2) l o(1) by (simp add: vgsm_wc_to_7bit_def)
  moreover have "septets_loop out' offset 0 (length ws) = Inr ws"
    using septets_loop_packed [of out' 0 offset ?cs] o(2,4) gsm_septets_7bit assms(4) l basic_septets [OF assms(1)] by simp
  then have "vgsm_7bit_to_wc out' (int (length ws)) offset (int (length ws) + 1) = Inr ws"
    by (simp add: vgsm_7bit_to_wc_def)
  ultimately show ?thesis using o(3) by blast
qed

theorem sms_text_roundtrip_witness:
  "\<exists>out'. vgsm_wc_to_7bit [0x48, 0x40, 0xE8] (replicate 10 0) 153 7 = Inr (3, out') \<and>
     vgsm_7bit_to_wc out' 3 7 4 = Inr [0x48, 0x40, 0xE8]"
proof -
  have b: "basic_text [0x48, 0x40, 0xE8]" by code_simp
  have c: "clear_from (7 * 7) (replicate 10 0)" by (simp add: clear_from_def bit_at_def less_mult_imp_div_less)
  show ?thesis using sms_text_roundtrip [OF b _ c, of 153] by auto
qed

text \<open>The escape is read as a form feed and the second septet as a character of its own.\<close>

lemma extension_not_read_back:
  "\<exists>out'. vgsm_wc_to_7bit [0x20AC] (replicate 3 0) 160 0 = Inr (2, out') \<and>
     vgsm_7bit_to_wc out' 2 0 3 = Inr [0x0C, 0x65]"
proof -
  have "vgsm_wc_to_7bit [0x20AC] (replicate 3 0) 160 0 = Inr (2, [0x9B, 0x32, 0])"
    "vgsm_7bit_to_wc [0x9B, 0x32, 0] 2 0 3 = Inr [0x0C, 0x65]" by code_simp+
  then show ?thesis by blast
qed

text \<open>A text of exactly \<open>max_septets\<close> characters of one septet is refused: the room for a second septet is tested for each.\<close>

lemma full_text_refused:
  assumes "basic_text ws" "0 < max_septets" "max_septets \<le> int (sep + length ws)" "sep < nat max_septets"
    "clear_from (7 * (sep + offset)) out" "7 * (sep + offset + length ws) + 8 \<le> 8 * length out"
  shows "\<exists>out'. wc_to_7bit_loop ws max_septets offset sep out = Inr (- ENOSPC, out')"
  using assms
proof (induction ws arbitrary: sep out)
  case Nil
  then show ?case by simp
next
  case (Cons w ws)
  have w: "length (vgsm_wc_to_gsm w) = 1" "basic_text ws" using Cons.prems(1) by (simp_all add: basic_text_def)
  then obtain c where c: "vgsm_wc_to_gsm w = [c]" "c < 128" by (cases rule: wc_to_gsm_cases [of w]) simp_all
  have "7 * (sep + offset + length [c]) + 8 \<le> 8 * length out" using Cons.prems(6) by simp
  then obtain o1 where o: "vgsm_write_septet (sep + offset) c out = Inr o1" "length o1 = length out"
    "clear_from (7 * (sep + offset + 1)) o1"
    using write_septets_packed [of "[c]" "sep + offset" out] c(2) Cons.prems(5) by (auto simp: bind_res_eq_Inr)
  show ?case
  proof (cases "max_septets \<le> int (sep + 1)")
    case True
    then show ?thesis using c o(1) Cons.prems(4) by (simp add: Let_def)
  next
    case False
    then have "\<exists>out'. wc_to_7bit_loop ws max_septets offset (sep + 1) o1 = Inr (- ENOSPC, out')"
      using Cons.IH [OF w(2) Cons.prems(2), of "sep + 1" o1] Cons.prems(3,6) o(2,3) by simp
    then show ?thesis using False c o(1) Cons.prems(4) by (auto simp: Let_def)
  qed
qed

section \<open>Base64\<close>

lemma codes_octets: "codes =
   [65, 66, 67, 68, 69, 70, 71, 72, 73, 74, 75, 76, 77, 78, 79, 80, 81, 82, 83, 84, 85, 86, 87, 88,
    89, 90, 97, 98, 99, 100, 101, 102, 103, 104, 105, 106, 107, 108, 109, 110, 111, 112, 113, 114,
    115, 116, 117, 118, 119, 120, 121, 122, 48, 49, 50, 51, 52, 53, 54, 55, 56, 57, 43, 47]"
  by (simp add: codes_def of_char_def)

lemma codes_values: "map (\<lambda>c. base64_value ! unat c) codes = map int [0..<64]"
  unfolding codes_octets base64_value_def by (simp add: upt_rec)

lemma codes_nonzero: "0 \<notin> set codes"
  unfolding codes_octets by simp

lemma length_codes: "length codes = 64"
  unfolding codes_octets by simp

lemma code_values: "i < 64 \<Longrightarrow> base64_value ! unat (codes ! i) = int i \<and> codes ! i \<noteq> 0"
  using arg_cong [OF codes_values, of "\<lambda>xs. xs ! i"] codes_nonzero length_codes nth_mem [of i codes] by (auto simp del: nth_mem)

lemma and_3f: "(x :: u8) AND 0x3f = take_bit 6 x"
  by (simp add: take_bit_eq_mask mask_eq_exp_minus_1)

lemma and_3: "(x :: u8) AND 3 = take_bit 2 x"
  by (simp add: take_bit_eq_mask mask_eq_exp_minus_1)

lemma and_0f: "(x :: u8) AND 0x0f = take_bit 4 x"
  by (simp add: take_bit_eq_mask mask_eq_exp_minus_1)

lemma code_value: "base64_value ! unat (code v) = int (unat v mod 64)" "code v \<noteq> 0"
proof -
  have "unat (v AND 0x3f) = unat v mod 64" by (simp add: and_3f unsigned_take_bit_eq take_bit_nat_def)
  then show "base64_value ! unat (code v) = int (unat v mod 64)" "code v \<noteq> 0"
    using code_values [of "unat v mod 64"] unfolding code_def by simp_all
qed

lemma octet_of:
  assumes "N < 2 ^ 32"
  shows "(ucast (drop_bit k (word_of_nat N :: 32 word) AND 0xff) :: u8) = word_of_nat (N div 2 ^ k)"
proof -
  have "(x :: 32 word) AND 0xff = take_bit 8 x" for x by (simp add: take_bit_eq_mask mask_eq_exp_minus_1)
  then have "unat (drop_bit k (word_of_nat N :: 32 word) AND 0xff) = N div 2 ^ k mod 256"
    using assms by (simp add: unsigned_take_bit_eq take_bit_nat_def unat_drop_bit_eq drop_bit_nat_def unat_of_nat)
  then show ?thesis by (intro u8_eqI) (simp add: unsigned_ucast_eq unsigned_take_bit_eq take_bit_nat_def unat_of_nat)
qed

text \<open>Four characters of the alphabet give three octets.\<close>

lemma decode_quantum:
  assumes "int (length dest) + 4 < dsz"
    "base64_value ! unat d0 = int v0" "base64_value ! unat d1 = int v1" "base64_value ! unat d2 = int v2" "base64_value ! unat d3 = int v3"
    "d0 \<noteq> 0" "d1 \<noteq> 0" "d2 \<noteq> 0" "d3 \<noteq> 0" "v0 < 64" "v1 < 64" "v2 < 64" "v3 < 64"
    "N = ((v0 * 64 + v1) * 64 + v2) * 64 + v3"
  shows "base64_decode_loop (d0 # d1 # d2 # d3 # src) dsz dest 0 0 =
    base64_decode_loop src dsz (dest @ [word_of_nat (N div 65536), word_of_nat (N div 256), word_of_nat N]) 0 0"
proof -
  have p: "push_bit 6 (word_of_nat n) + word_of_int (int v) = (word_of_nat (n * 64 + v) :: 32 word)" for n v
    by (simp add: push_bit_eq_mult mult.commute)
  have "N < 2 ^ 32" using assms(10-14) by simp
  then have o: "ucast (drop_bit 16 (word_of_nat N :: 32 word) AND 0xff) = (word_of_nat (N div 65536) :: u8)"
    "ucast (drop_bit 8 (word_of_nat N :: 32 word) AND 0xff) = (word_of_nat (N div 256) :: u8)"
    "ucast ((word_of_nat N :: 32 word) AND 0xff) = (word_of_nat N :: u8)"
    using octet_of [of N 16] octet_of [of N 8] octet_of [of N 0] by simp_all
  have z: "(0 :: 32 word) = word_of_nat 0" by simp
  have s: "base64_decode_loop (d # rest) dsz dest (word_of_nat n) m =
      (if m < 3 then base64_decode_loop rest dsz dest (word_of_nat (n * 64 + v)) (m + 1)
       else base64_decode_loop rest dsz (dest @ [ucast (drop_bit 16 (word_of_nat (n * 64 + v) :: 32 word) AND 0xff),
          ucast (drop_bit 8 (word_of_nat (n * 64 + v) :: 32 word) AND 0xff), ucast ((word_of_nat (n * 64 + v) :: 32 word) AND 0xff)]) 0 0)"
    if "base64_value ! unat d = int v" "d \<noteq> 0" for d rest n m v
    unfolding base64_decode_loop.simps(2) Let_def that(1) p using that(2) assms(1) by simp
  show ?thesis
    unfolding z s [OF assms(2,6)] s [OF assms(3,7)] s [OF assms(4,8)] s [OF assms(5,9)]
    using o unfolding assms(14) z [symmetric] by simp
qed

lemma quantum_octets:
  fixes a b c :: u8
  assumes "N = ((v0 * 64 + v1) * 64 + v2) * 64 + v3" "v0 = unat a div 4" "v1 = unat a mod 4 * 16 + unat b div 16"
    "v2 = unat b mod 16 * 4 + unat c div 64" "v3 = unat c mod 64"
  shows "word_of_nat (N div 65536) = a" "word_of_nat (N div 256) = b" "word_of_nat N = c"
proof -
  have b: "unat a < 256" "unat b < 256" "unat c < 256" using unsigned_less [of a, where ?'a = nat] unsigned_less [of b, where ?'a = nat] unsigned_less [of c, where ?'a = nat] by simp_all
  define ra qb rb qc where d: "ra = unat a mod 4" "qb = unat b div 16" "rb = unat b mod 16" "qc = unat c div 64"
  have "unat a = 4 * v0 + ra" "unat b = 16 * qb + rb" "unat c = 64 * qc + v3"
    unfolding d assms(2,5) by simp_all
  then have n: "N = unat a * 65536 + unat b * 256 + unat c"
    unfolding assms(1,3,4) d [symmetric] by simp
  have d: "N div 65536 = unat a" "N div 256 = unat a * 256 + unat b" using n b by simp_all
  have "(256 :: u8) = 0" "(65536 :: u8) = 0" by simp_all
  then have m: "(x :: u8) * 256 = 0" "x * 65536 = 0" for x by (metis mult_zero_right)+
  show "word_of_nat (N div 65536) = a" using d by simp
  show "word_of_nat (N div 256) = b" unfolding d(2) by (simp add: m)
  show "word_of_nat N = c" unfolding n by (simp add: m)
qed

lemma unat_quantum:
  fixes a b c :: u8
  shows "unat (drop_bit 2 a) mod 64 = unat a div 4"
    "unat (push_bit 4 (a AND 3) + drop_bit 4 b) mod 64 = unat a mod 4 * 16 + unat b div 16"
    "unat (push_bit 2 (b AND 0xf) + drop_bit 6 c) mod 64 = unat b mod 16 * 4 + unat c div 64"
    "unat (push_bit 4 (a AND 3)) mod 64 = unat a mod 4 * 16" "unat (push_bit 2 (b AND 0xf)) mod 64 = unat b mod 16 * 4"
proof -
  have l: "unat a < 256" "unat b < 256" "unat c < 256" using unsigned_less [of a, where ?'a = nat] unsigned_less [of b, where ?'a = nat] unsigned_less [of c, where ?'a = nat] by simp_all
  then show "unat (drop_bit 2 a) mod 64 = unat a div 4" by (simp add: unat_drop_bit_eq drop_bit_nat_def)
  have s: "unat (push_bit 4 (a AND 3)) = unat a mod 4 * 16" "unat (push_bit 2 (b AND 0xf)) = unat b mod 16 * 4"
    by (simp_all add: and_3 and_0f unsigned_push_bit_eq push_bit_nat_def take_bit_nat_def unsigned_take_bit_eq)
  then show "unat (push_bit 4 (a AND 3)) mod 64 = unat a mod 4 * 16" "unat (push_bit 2 (b AND 0xf)) mod 64 = unat b mod 16 * 4"
    using mod_less_divisor [of 4 "unat a"] mod_less_divisor [of 16 "unat b"] by simp_all
  have d: "unat (drop_bit 4 b) = unat b div 16" "unat (drop_bit 6 c) = unat c div 64"
    by (simp_all add: unat_drop_bit_eq drop_bit_nat_def)
  have h: "unat b div 16 < 16" "unat c div 64 < 4" "unat a mod 4 < 4" "unat b mod 16 < 16" using l by simp_all
  then have "unat (push_bit 4 (a AND 3)) + unat (drop_bit 4 b) < 64" "unat (push_bit 2 (b AND 0xf)) + unat (drop_bit 6 c) < 64"
    unfolding s d by linarith+
  then show "unat (push_bit 4 (a AND 3) + drop_bit 4 b) mod 64 = unat a mod 4 * 16 + unat b div 16"
    "unat (push_bit 2 (b AND 0xf) + drop_bit 6 c) mod 64 = unat b mod 16 * 4 + unat c div 64"
    unfolding unat_word_ariths s d by simp_all
qed

lemmas code_quantum = code_value(1) [of "drop_bit 2 a" for a, unfolded unat_quantum]
  code_value(1) [of "push_bit 4 (a AND 3) + drop_bit 4 b" for a b, unfolded unat_quantum]
  code_value(1) [of "push_bit 2 (b AND 0xf) + drop_bit 6 c" for b c, unfolded unat_quantum]
  code_value(1) [of "push_bit 4 (a AND 3) + drop_bit 4 0" for a, unfolded unat_quantum]
  code_value(1) [of "push_bit 2 (b AND 0xf)" for b, unfolded unat_quantum]

lemma eq64: "base64_value ! unat (0x3d :: u8) = int 0" "unat (a :: u8) div 4 < 64" "unat a mod 4 * 16 < 64" "unat a mod 16 * 4 < 64"
  "unat a mod 4 * 16 + unat (b :: u8) div 16 < 64" "unat a mod 16 * 4 + unat b div 64 < 64"
proof -
  show "base64_value ! unat (0x3d :: u8) = int 0" by code_simp
  have l: "unat a < 256" "unat b < 256" using unsigned_less [of a, where ?'a = nat] unsigned_less [of b, where ?'a = nat] by simp_all
  then have "unat b div 16 < 16" "unat b div 64 < 4" "unat a mod 4 < 4" "unat a mod 16 < 16" "unat a div 4 < 64" by simp_all
  then show "unat a div 4 < 64" "unat a mod 4 * 16 < 64" "unat a mod 16 * 4 < 64"
    "unat a mod 4 * 16 + unat b div 16 < 64" "unat a mod 16 * 4 + unat b div 64 < 64" by simp_all
qed

lemma div3: "(5 + x) div 3 = 1 + (x + 2) div (3 :: int)"
  by presburger

lemma base64_quanta_decode:
  assumes "int (length dest) + 3 * ((int (length s) + 2) div 3) + 1 < dsz"
  shows "\<exists>k<3. base64_decode_loop (base64_quanta s) dsz dest 0 0 = dest @ s @ replicate k 0 \<and> (length s + k) mod 3 = 0"
  using assms
proof (induction s arbitrary: dest rule: base64_quanta.induct)
  case 1
  then show ?case by simp
next
  case (2 a)
  let ?N = "((unat a div 4 * 64 + unat a mod 4 * 16) * 64 + 0) * 64 + 0"
  have "base64_decode_loop (base64_quanta [a]) dsz dest 0 0 =
      base64_decode_loop [] dsz (dest @ [word_of_nat (?N div 65536), word_of_nat (?N div 256), word_of_nat ?N]) 0 0"
    unfolding base64_quanta.simps
    by (rule decode_quantum [OF _ code_quantum(1) code_quantum(4) eq64(1) eq64(1)])
       (use 2 in \<open>simp_all add: code_value(2) eq64\<close>)
  moreover have "word_of_nat (?N div 65536) = a" "word_of_nat (?N div 256) = (0 :: u8)" "word_of_nat ?N = (0 :: u8)"
    by (rule quantum_octets [where a = a and b = 0 and c = 0]; simp)+
  ultimately show ?case by (intro exI [of _ 2]) (simp add: numeral_2_eq_2)
next
  case (3 a b)
  let ?N = "((unat a div 4 * 64 + (unat a mod 4 * 16 + unat b div 16)) * 64 + unat b mod 16 * 4) * 64 + 0"
  have "base64_decode_loop (base64_quanta [a, b]) dsz dest 0 0 =
      base64_decode_loop [] dsz (dest @ [word_of_nat (?N div 65536), word_of_nat (?N div 256), word_of_nat ?N]) 0 0"
    unfolding base64_quanta.simps
    by (rule decode_quantum [OF _ code_quantum(1,2,5) eq64(1)])
       (use 3 in \<open>simp_all add: code_value(2) eq64\<close>)
  moreover have "word_of_nat (?N div 65536) = a" "word_of_nat (?N div 256) = b" "word_of_nat ?N = (0 :: u8)"
    by (rule quantum_octets [where a = a and b = b and c = 0]; simp)+
  ultimately show ?case by (intro exI [of _ 1]) simp
next
  case (4 a b c s)
  let ?N = "((unat a div 4 * 64 + (unat a mod 4 * 16 + unat b div 16)) * 64 + (unat b mod 16 * 4 + unat c div 64)) * 64 + unat c mod 64"
  have "base64_decode_loop (base64_quanta (a # b # c # s)) dsz dest 0 0 =
      base64_decode_loop (base64_quanta s) dsz (dest @ [word_of_nat (?N div 65536), word_of_nat (?N div 256), word_of_nat ?N]) 0 0"
    unfolding base64_quanta.simps
    by (rule decode_quantum [OF _ code_quantum(1-3) code_value(1)])
       (use 4 in \<open>simp_all add: code_value(2) eq64\<close>)
  moreover have "word_of_nat (?N div 65536) = a" "word_of_nat (?N div 256) = b" "word_of_nat ?N = c"
    by (rule quantum_octets [where a = a and b = b and c = c]; simp)+
  ultimately have e: "base64_decode_loop (base64_quanta (a # b # c # s)) dsz dest 0 0 = base64_decode_loop (base64_quanta s) dsz (dest @ [a, b, c]) 0 0"
    by metis
  obtain k where "k < 3" "base64_decode_loop (base64_quanta s) dsz (dest @ [a, b, c]) 0 0 = (dest @ [a, b, c]) @ s @ replicate k 0"
      "(length s + k) mod 3 = 0"
    using 4(1) [of "dest @ [a, b, c]"] 4(2) by (auto simp: div3)
  then show ?case unfolding e by (intro exI [of _ k]) (simp add: mod_Suc)
qed

lemma base64_decode_bound: "0 < dsz \<Longrightarrow> int (length dest) < dsz \<Longrightarrow> int (length (base64_decode_loop src dsz dest bits n)) < dsz"
  by (induction src dsz dest bits n rule: base64_decode_loop.induct) (simp_all add: Let_def)

lemma base64_quanta_length: "int (length (base64_quanta s)) = 4 * ((int (length s) + 2) div 3)"
  by (induction s rule: base64_quanta.induct) (simp_all add: div3)

text \<open>
  Base64. What \<open>base64_encode\<close> writes stays within the buffer it was given, and \<open>base64_decode\<close> reads it back
  whatever the octets, followed by at most two zeros for the padding, which it does not tell apart from data.
\<close>

theorem base64_roundtrip:
  assumes "0 \<le> outlen" "base64_encode s outlen = (0, n, t)" "3 * ((int (length s) + 2) div 3) + 1 < dest_size"
  shows "n = int (length t) \<and> n < outlen \<and>
    (\<exists>k<3. base64_decode t dest_size = Inr (s @ replicate k 0) \<and> (length s + k) mod 3 = 0)"
proof -
  have t: "t = base64_quanta s" "n = int (length t)" "n < outlen"
    using assms(1,2) base64_quanta_length [of s] by (auto simp: base64_encode_def Let_def ENOSPC_def split: if_splits)
  obtain k where k: "k < 3" "base64_decode_loop t dest_size [] 0 0 = s @ replicate k 0" "(length s + k) mod 3 = 0"
    using base64_quanta_decode [of "[]" s dest_size] assms(3) t(1) by auto
  have "0 < dest_size" using assms(3) by linarith
  then have "int (length (s @ replicate k 0)) < dest_size"
    using base64_decode_bound [of dest_size "[]" t 0 0] k(2) by simp
  then show ?thesis using t k by (auto simp: base64_decode_def)
qed

theorem base64_roundtrip_witness:
  "\<exists>t. base64_encode [0x48, 0x69] 8 = (0, 4, t) \<and> base64_decode t 10 = Inr [0x48, 0x69, 0]"
proof -
  obtain t where e: "base64_encode [0x48, 0x69] 8 = (0, 4, t)"
    by (simp add: base64_encode_def Let_def)
  obtain k where k: "k < 3" "base64_decode t 10 = Inr ([0x48, 0x69] @ replicate k 0)" "(2 + k) mod 3 = 0"
    using base64_roundtrip [OF _ e, of 10] by auto
  have "k = 1" using k(1,3) by presburger
  then show ?thesis using e k(2) by simp
qed

section \<open>Digits\<close>

definition bcd_chars :: octets where
  "bcd_chars = [0x30, 0x31, 0x32, 0x33, 0x34, 0x35, 0x36, 0x37, 0x38, 0x39, 0x2a, 0x23, 0x61, 0x62, 0x63]"

lemma bcd_char_inverse: "list_all (\<lambda>c. vgsm_char_to_bcd c < 15 \<and> vgsm_bcd_to_char (vgsm_char_to_bcd c) = c) bcd_chars"
  by code_simp

lemma drop_f0: "drop_bit 4 ((x :: u8) AND 0xf0) = drop_bit 4 x"
proof -
  have f: "(0xf0 :: u8) = push_bit 4 (mask 4)" by (simp add: mask_eq_exp_minus_1)
  have "n < 4" if "bit x (4 + n)" for n using bit_imp_le_length [OF that] by simp
  then show ?thesis unfolding f
    by (intro bit_word_eqI)
      (auto simp: bit_drop_bit_eq bit_and_iff bit_push_bit_iff bit_mask_iff simp del: push_bit_numeral mask_numeral)
qed

lemma nibble_bits: "(x :: u8) < 16 \<Longrightarrow> bit x n \<Longrightarrow> n < 4"
proof -
  assume x: "x < 16" "bit x n"
  then have "unat x < 2 ^ 4" by (simp add: word_less_nat_alt)
  then have "take_bit 4 x = x" by (simp add: word_unat_eq_iff unsigned_take_bit_eq take_bit_nat_eq_self)
  then show "n < 4" using x(2) by (metis bit_take_bit_iff)
qed

lemma nibbles:
  fixes c d :: u8
  assumes "c < 16"
  shows "(c OR push_bit 4 d) AND 0x0f = c" "d < 16 \<Longrightarrow> drop_bit 4 ((c OR push_bit 4 d) AND 0xf0) = d"
    "(c OR 0xf0) AND 0x0f = c" "drop_bit 4 ((c OR 0xf0) AND 0xf0) = 0xf"
proof -
  have f: "(0xf0 :: u8) = push_bit 4 0xf" by simp
  have lo: "(c OR push_bit 4 e) AND 0x0f = c" for e :: u8
    unfolding and_0f using nibble_bits [OF assms]
    by (intro bit_word_eqI) (auto simp: bit_take_bit_iff bit_or_iff bit_push_bit_iff simp del: push_bit_numeral)
  have hi: "e < 16 \<Longrightarrow> drop_bit 4 ((c OR push_bit 4 e) AND 0xf0) = e" for e :: u8
    unfolding drop_f0
  proof (rule bit_word_eqI)
    fix n assume e: "e < 16"
    have "\<not> bit c (4 + n)" "bit e n \<Longrightarrow> n < 4" using nibble_bits [OF assms, of "4 + n"] nibble_bits [OF e, of n] by auto
    then show "bit (drop_bit 4 (c OR push_bit 4 e)) n = bit e n"
      by (auto simp: bit_drop_bit_eq bit_or_iff bit_push_bit_iff simp del: push_bit_numeral)
  qed
  show "(c OR push_bit 4 d) AND 0x0f = c" by (rule lo)
  show "d < 16 \<Longrightarrow> drop_bit 4 ((c OR push_bit 4 d) AND 0xf0) = d" by (rule hi)
  show "(c OR 0xf0) AND 0x0f = c" unfolding f by (rule lo)
  have "(0xf :: u8) < 16" by simp
  from hi [OF this, unfolded f] show "drop_bit 4 ((c OR 0xf0) AND 0xf0) = 0xf" unfolding f .
qed

lemma nibble_at_Cons2: "nibble_at (x # buf) (Suc (Suc i)) = nibble_at buf i"
  by (simp add: nibble_at_def rd_def)

lemma nibble_at_text:
  assumes "\<forall>c\<in>set s. vgsm_char_to_bcd c < 16"
  shows "i < length s \<Longrightarrow> nibble_at (vgsm_text_to_bcd s) i = Inr (vgsm_char_to_bcd (s ! i))"
    and "i = length s \<Longrightarrow> odd i \<Longrightarrow> nibble_at (vgsm_text_to_bcd s) i = Inr 0xf"
  using assms
proof (induction s arbitrary: i rule: vgsm_text_to_bcd.induct)
  case 1
  { case 1 then show ?case by simp }
  { case 2 then show ?case by simp }
next
  case (2 c)
  { case 1 then show ?case by (simp add: nibble_at_def rd_def nibbles) }
  { case 2 then show ?case by (simp add: nibble_at_def rd_def nibbles) }
next
  case (3 c d s)
  { case 1
    then show ?case
    proof (cases i)
      case (Suc j)
      then show ?thesis
      proof (cases j)
        case 0
        then show ?thesis using Suc 1 nibbles(2) [of "vgsm_char_to_bcd c" "vgsm_char_to_bcd d"]
          by (simp add: nibble_at_def rd_def del: drop_bit_and)
      next
        case (Suc k)
        then show ?thesis using \<open>i = Suc j\<close> 1 3(1) [of k] by (simp add: nibble_at_Cons2)
      qed
    qed (use 1 in \<open>simp add: nibble_at_def rd_def nibbles\<close>) }
  { case 2 then show ?case using 3(2) [of "i - 2"] by (simp add: nibble_at_Cons2) }
qed

lemma bcd_to_text_loop_text:
  assumes "\<forall>c\<in>set s. vgsm_char_to_bcd c < 15 \<and> vgsm_bcd_to_char (vgsm_char_to_bcd c) = c" "int (length s) < str_len"
    "i \<le> length s"
  shows "bcd_to_text_loop (vgsm_text_to_bcd s) i (length s - i) str_len (take i s) = Inr (Some s)"
    "odd (length s) \<Longrightarrow> bcd_to_text_loop (vgsm_text_to_bcd s) i (Suc (length s) - i) str_len (take i s) = Inr (Some s)"
proof -
  have b: "\<forall>c\<in>set s. vgsm_char_to_bcd c < 16" using assms(1) by (auto simp: word_less_nat_alt)
  have digit: "bcd_to_text_loop (vgsm_text_to_bcd s) j (Suc n) str_len (take j s) =
      bcd_to_text_loop (vgsm_text_to_bcd s) (Suc j) n str_len (take (Suc j) s)" if j: "j < length s" for j n
  proof -
    have "vgsm_char_to_bcd (s ! j) \<noteq> 0xf" "vgsm_bcd_to_char (vgsm_char_to_bcd (s ! j)) = s ! j"
      using assms(1) nth_mem [OF j] by fastforce+
    then show ?thesis
      using nibble_at_text(1) [OF b j] j assms(2) by (simp add: take_Suc_conv_app_nth)
  qed
  show "bcd_to_text_loop (vgsm_text_to_bcd s) i (length s - i) str_len (take i s) = Inr (Some s)"
    using assms(3)
  proof (induction rule: inc_induct)
    case base then show ?case using assms(2) by simp
  next
    case (step n) then show ?case using \<open>n < length s\<close> using digit [of n "length s - Suc n"] by (simp add: Suc_diff_Suc [symmetric] del: bcd_to_text_loop.simps)
  qed
  show "bcd_to_text_loop (vgsm_text_to_bcd s) i (Suc (length s) - i) str_len (take i s) = Inr (Some s)" if o: "odd (length s)"
    using assms(3)
  proof (induction rule: inc_induct)
    case base
    then show ?case using nibble_at_text(2) [OF b refl o] assms(2) by simp
  next
    case (step n) then show ?case using \<open>n < length s\<close> using digit [of n "Suc (length s) - Suc n"] by (simp add: Suc_diff_le del: bcd_to_text_loop.simps)
  qed
qed

lemma length_text_to_bcd: "length (vgsm_text_to_bcd s) = (length s + 1) div 2"
  by (induction s rule: vgsm_text_to_bcd.induct) simp_all

lemma bcd_chars_valid: "set s \<subseteq> set bcd_chars \<Longrightarrow>
   \<forall>c\<in>set s. vgsm_char_to_bcd c < 15 \<and> vgsm_bcd_to_char (vgsm_char_to_bcd c) = c"
  using bcd_char_inverse unfolding list_all_iff by blast

lemma bcd_text_inverse:
  assumes "set s \<subseteq> set bcd_chars" "int (length s) < str_len"
    "nibbles = int (length s) \<or> nibbles = 2 * int (length (vgsm_text_to_bcd s))"
  shows "vgsm_bcd_to_text (vgsm_text_to_bcd s) nibbles str_len = Inr (Some s)"
proof -
  note l = bcd_to_text_loop_text [OF bcd_chars_valid [OF assms(1)] assms(2), of 0, simplified]
  have o: "2 * ((length s + 1) div 2) = (if odd (length s) then Suc (length s) else length s)" by presburger
  have "nat nibbles = length s \<or> nat nibbles = 2 * ((length s + 1) div 2)"
    using assms(3) unfolding length_text_to_bcd by linarith
  then have "nat nibbles = length s \<or> odd (length s) \<and> nat nibbles = Suc (length s)"
    unfolding o by (auto split: if_splits)
  then show ?thesis using l unfolding vgsm_bcd_to_text_def by auto
qed

text \<open>
  Numbers survive the semi-octets: any string of the digits and \<open>*#abc\<close> is read back, whether the reader is given
  the number of digits or, as for a service centre, that of all semi-octets with the filler.
\<close>

theorem number_roundtrip:
  assumes "set s \<subseteq> set bcd_chars" "int (length s) < str_len"
    "nibbles = int (length s) \<or> nibbles = 2 * int (length (vgsm_text_to_bcd s))"
  shows "vgsm_bcd_to_text (vgsm_text_to_bcd s) nibbles str_len = Inr (Some s)"
  by (rule bcd_text_inverse [OF assms])

theorem number_roundtrip_witness:
  "vgsm_bcd_to_text (vgsm_text_to_bcd [0x30, 0x31, 0x2a]) 4 32 = Inr (Some [0x30, 0x31, 0x2a])"
  using number_roundtrip [of "[0x30, 0x31, 0x2a]" 32 4] by (simp add: bcd_chars_def)

lemma decimal_roundtrip: "v < 100 \<Longrightarrow> vgsm_nibbles_to_decimal (vgsm_decimal_to_nibbles v) = v"
proof -
  assume "v < 100"
  have "list_all (\<lambda>n. vgsm_nibbles_to_decimal (vgsm_decimal_to_nibbles (word_of_nat n)) = word_of_nat n) [0..<100]" by code_simp
  moreover have "unat v < 100" using \<open>v < 100\<close> by (simp add: word_less_nat_alt)
  ultimately show ?thesis unfolding list_all_iff by (auto dest!: bspec [of _ _ "unat v"])
qed

interpretation decimal: codec vgsm_decimal_to_nibbles vgsm_nibbles_to_decimal "\<lambda>v. v < 100"
  by unfold_locales (rule decimal_roundtrip)

section \<open>Quoted-printable\<close>

text \<open>The encoding of RFC 2045 as a reference.\<close>

definition hex_digit :: "nat \<Rightarrow> u8" where
  "hex_digit n = (if n < 10 then word_of_nat (n + 0x30) else word_of_nat (n - 10 + 0x41))"

definition qp_encode :: "octets \<Rightarrow> octets" where
  "qp_encode s = concat (map (\<lambda>c. if 0x21 \<le> c \<and> c \<le> 0x7e \<and> c \<noteq> 0x3d \<and> c \<noteq> 0x5f then [c]
     else [0x3d, hex_digit (unat c div 16), hex_digit (unat c mod 16)]) s)"

lemma hex_digit_value: "n < 16 \<Longrightarrow> char_to_hexdigit (hex_digit n) = int n \<and> hex_digit n \<noteq> 0 \<and> hex_digit n \<noteq> 0x0a"
proof -
  have "list_all (\<lambda>n. char_to_hexdigit (hex_digit n) = int n \<and> hex_digit n \<noteq> 0 \<and> hex_digit n \<noteq> 0x0a) [0..<16]" by code_simp
  then show "n < 16 \<Longrightarrow> ?thesis" unfolding list_all_iff by simp
qed

lemma qp_loop_encode:
  "quoted_printable_loop (qp_encode s) dsz out =
    Some (out @ take (nat (dsz - 2 - int (length out))) s)"
proof (induction s arbitrary: out)
  case Nil
  then show ?case by (simp add: qp_encode_def quoted_printable_loop.simps [of "[]"])
next
  case (Cons c s)
  show ?case
  proof (cases "dsz - 2 \<le> int (length out)")
    case True
    then show ?thesis by (simp add: qp_encode_def quoted_printable_loop.simps [of "_ # _"])
  next
    case False
    then have n: "nat (dsz - 2 - int (length out)) = Suc (nat (dsz - 2 - int (length (out @ [c]))))" by simp
    have "quoted_printable_loop (qp_encode (c # s)) dsz out = quoted_printable_loop (qp_encode s) dsz (out @ [c])"
    proof (cases "0x21 \<le> c \<and> c \<le> 0x7e \<and> c \<noteq> 0x3d \<and> c \<noteq> 0x5f")
      case True
      then have "c \<noteq> 0" by auto
      then show ?thesis using True False by (simp add: qp_encode_def quoted_printable_loop.simps [of "_ # _"])
    next
      case no: False
      have l: "unat c div 16 < 16" "unat c mod 16 < 16" using unsigned_less [of c, where ?'a = nat] by simp_all
      have "push_bit 4 (word_of_nat a) + word_of_nat b = (word_of_nat (16 * a + b) :: u8)" for a b
        by (simp add: push_bit_eq_mult mult.commute)
      from this [of "unat c div 16" "unat c mod 16"]
      have e: "push_bit 4 (word_of_nat (unat c div 16)) + word_of_nat (unat c mod 16) = c"
        by (simp only: mult_div_mod_eq of_nat_unat ucast_id)
      show ?thesis
        using no False hex_digit_value [OF l(1)] hex_digit_value [OF l(2)] e
        by (simp add: qp_encode_def quoted_printable_loop.simps [of "_ # _"])
    qed
    then show ?thesis using Cons n by simp
  qed
qed

lemma qp_loop_bound:
  "quoted_printable_loop src dsz out = Some r \<Longrightarrow> int (length out) < dsz \<Longrightarrow> int (length r) < dsz"
proof (induction "length src" arbitrary: src out rule: less_induct)
  case less
  note IH = less(1)
  show ?case using less(2,3) unfolding quoted_printable_loop.simps [of src]
    by (auto split: list.splits if_splits dest!: IH [rotated])
qed

text \<open>
  Quoted-printable. The decoder inverts the encoding of RFC 2045 up to the size of the buffer less two,
  where it cuts the text silently, and on no input at all does it write outside the buffer.
\<close>

theorem quoted_printable_reference:
  assumes "1 \<le> dest_size"
  shows "quoted_printable_decode (qp_encode s) dest_size = Inr (Some (take (nat (dest_size - 2)) s)) \<and>
    (\<exists>r. quoted_printable_decode src dest_size = Inr r)"
proof
  have "int (length (take (nat (dest_size - 2)) s)) < dest_size" using assms by simp
  then show "quoted_printable_decode (qp_encode s) dest_size = Inr (Some (take (nat (dest_size - 2)) s))"
    by (simp add: quoted_printable_decode_def qp_loop_encode)
  show "\<exists>r. quoted_printable_decode src dest_size = Inr r"
    using assms qp_loop_bound [of src dest_size "[]"]
    by (cases "quoted_printable_loop src dest_size []") (simp_all add: quoted_printable_decode_def)
qed

theorem quoted_printable_reference_witness:
  "quoted_printable_decode (qp_encode [0x3d, 0x41, 0]) 100 = Inr (Some [0x3d, 0x41, 0]) \<and> qp_encode [0x3d, 0x41] = [0x3d, 0x33, 0x44, 0x41]"
  using quoted_printable_reference [of 100 "[0x3d, 0x41, 0]" "[]"] by (simp add: qp_encode_def hex_digit_def)

end
