(* ===== verification/Vgsm_Sms.thy ===== *)
theory Vgsm_Sms
  imports Vgsm_Codec
begin

text \<open>
  Short messages (chan_vgsm): numbers (number.c), the message a process submits (sms_submit.c) and the one the
  network delivers (sms_deliver.c), as the octets exchanged with the GSM module. Strings are without the
  zero that ends them. \<open>mktime\<close> of the C library depends on the time zone of the host and is a
  parameter.
\<close>

section \<open>Numbers\<close>

definition VGSM_TON_INTERNATIONAL :: u8 where "VGSM_TON_INTERNATIONAL = 1"
definition VGSM_TON_NATIONAL :: u8 where "VGSM_TON_NATIONAL = 2"
definition VGSM_NP_UNKNOWN :: u8 where "VGSM_NP_UNKNOWN = 0"
definition VGSM_NP_ISDN :: u8 where "VGSM_NP_ISDN = 1"

record vgsm_number =
  digits :: octets
  np :: u8
  ton :: u8

text \<open>\<open>strncpy\<close> to 32 octets does not end a longer string: whoever reads it next leaves the array.\<close>

definition strncpy32 :: "octets \<Rightarrow> octets res" where
  "strncpy32 s = (if length s < 32 then Inr s else Inl OutOfBounds)"

definition vgsm_number_parse :: "octets \<Rightarrow> vgsm_number res" where
  "vgsm_number_parse s =
     (if s \<noteq> [] \<and> hd s = 0x2b
      then bind_res (strncpy32 (tl s)) (\<lambda>d. Inr \<lparr>digits = d, np = VGSM_NP_ISDN, ton = VGSM_TON_INTERNATIONAL\<rparr>)
      else bind_res (strncpy32 s) (\<lambda>d. Inr \<lparr>digits = d, np = VGSM_NP_ISDN, ton = VGSM_TON_NATIONAL\<rparr>))"

definition vgsm_number_prefix :: "vgsm_number \<Rightarrow> octets" where
  "vgsm_number_prefix n =
     (if (np n = VGSM_NP_ISDN \<or> np n = VGSM_NP_UNKNOWN) \<and> ton n = VGSM_TON_INTERNATIONAL then [0x2b] else [])"

text \<open>The octet \<open>struct vgsm_type_of_address\<close>.\<close>

definition type_of_address :: "vgsm_number \<Rightarrow> u8" where
  "type_of_address n = 0x80 OR push_bit 4 (ton n AND 7) OR (np n AND 0xf)"

definition toa_ton :: "u8 \<Rightarrow> u8" where "toa_ton x = drop_bit 4 x AND 7"
definition toa_np :: "u8 \<Rightarrow> u8" where "toa_np x = x AND 0xf"

section \<open>Submitting a message\<close>

datatype vgsm_sms_dcs_alphabet =
  VGSM_SMS_DCS_ALPHABET_DEFAULT | VGSM_SMS_DCS_ALPHABET_8_BIT_DATA | VGSM_SMS_DCS_ALPHABET_UCS2 | VGSM_SMS_DCS_ALPHABET_RESERVED

fun alphabet_code :: "vgsm_sms_dcs_alphabet \<Rightarrow> u8" where
  "alphabet_code VGSM_SMS_DCS_ALPHABET_DEFAULT = 0"
| "alphabet_code VGSM_SMS_DCS_ALPHABET_8_BIT_DATA = 1"
| "alphabet_code VGSM_SMS_DCS_ALPHABET_UCS2 = 2"
| "alphabet_code VGSM_SMS_DCS_ALPHABET_RESERVED = 3"

record vgsm_sms_submit =
  sub_smcc_address :: vgsm_number
  sub_reject_duplicates :: bool
  sub_reply_path :: bool
  sub_user_data_header_indicator :: bool
  sub_status_report_request :: bool
  sub_message_reference :: u8
  sub_dest :: vgsm_number
  sub_validity_period :: int
  sub_message_class :: u8
  sub_alphabet :: vgsm_sms_dcs_alphabet
  sub_concatenate_refnum :: u8
  sub_concatenate_maxmsg :: u8
  sub_concatenate_seqnum :: u8
  sub_text :: "int list"
  sub_pdu :: "octets option"
  sub_pdu_tp_len :: int

text \<open>The octet \<open>struct vgsm_sms_submit_pdu\<close>: message type SUBMIT, relative validity period.\<close>

definition submit_octet :: "vgsm_sms_submit \<Rightarrow> u8" where
  "submit_octet sms =
     1 OR push_bit 2 (of_bool (sub_reject_duplicates sms)) OR push_bit 3 2 OR
     push_bit 5 (of_bool (sub_status_report_request sms)) OR
     push_bit 6 (of_bool (sub_user_data_header_indicator sms)) OR push_bit 7 (of_bool (sub_reply_path sms))"

definition dcs_octet :: "vgsm_sms_submit \<Rightarrow> u8" where
  "dcs_octet sms = (sub_message_class sms AND 3) OR push_bit 2 (alphabet_code (sub_alphabet sms)) OR push_bit 4 1"

definition validity_octet :: "int \<Rightarrow> u8" where
  "validity_octet v =
     (if v < 300 then 1
      else if v \<le> 43200 then word_of_int (v div 300 - 1)
      else if v \<le> 86400 then word_of_int (v div 1800 - 24 + 144)
      else if v \<le> 30 * 86400 then word_of_int (v div 86400 - 1 + 168)
      else if v \<le> 63 * 7 * 86400 then word_of_int (v div (7 * 86400) - 1 + 197)
      else 0xff)"

text \<open>The octets up to the user data, whose length is \<open>udl\<close>; the first group is not counted in the TP length.\<close>

definition submit_smcc :: "vgsm_sms_submit \<Rightarrow> octets" where
  "submit_smcc sms =
     word_of_nat ((length (digits (sub_smcc_address sms)) + 1) div 2 + 1) # type_of_address (sub_smcc_address sms) #
     vgsm_text_to_bcd (digits (sub_smcc_address sms))"

definition submit_header :: "vgsm_sms_submit \<Rightarrow> u8 \<Rightarrow> octets" where
  "submit_header sms udl =
     [submit_octet sms, sub_message_reference sms, word_of_nat (length (digits (sub_dest sms))), type_of_address (sub_dest sms)] @
     vgsm_text_to_bcd (digits (sub_dest sms)) @ [0, dcs_octet sms, validity_octet (sub_validity_period sms), udl]"

definition user_data_header :: "vgsm_sms_submit \<Rightarrow> octets" where
  "user_data_header sms =
     (if sub_user_data_header_indicator sms
      then [5, 0, 3, sub_concatenate_refnum sms, sub_concatenate_maxmsg sms, sub_concatenate_seqnum sms] else [])"

definition put :: "nat \<Rightarrow> octets \<Rightarrow> octets \<Rightarrow> octets res" where
  "put pos d buf = (if pos + length d \<le> length buf then Inr (take pos buf @ d @ drop (pos + length d) buf) else Inl OutOfBounds)"

text \<open>
  \<open>iconv\<close> from wide characters to UCS-2BE: two octets for each character of the basic plane. It stops at a
  character it cannot convert or when the room is used up; its result, an unsigned number, is
  compared with zero as if it could be negative, so that the caller goes on with what has been converted.
\<close>

definition ucs2_char :: "int \<Rightarrow> bool" where
  "ucs2_char w \<longleftrightarrow> 0 \<le> w \<and> w < 0x10000 \<and> \<not> (0xd800 \<le> w \<and> w < 0xe000)"

definition iconv_ucs2be :: "int list \<Rightarrow> nat \<Rightarrow> octets" where
  "iconv_ucs2be ws avail =
     concat (map (\<lambda>w. [word_of_int (w div 256), word_of_int w]) (take (avail div 2) (takeWhile ucs2_char ws)))"

text \<open>The message as \<open>vgsm_sms_submit_prepare\<close> completes it before it encodes it.\<close>

definition submit_ready :: "vgsm_sms_submit \<Rightarrow> vgsm_sms_submit" where
  "submit_ready sms = sms\<lparr>sub_alphabet := if \<exists>w\<in>set (sub_text sms). vgsm_wc_to_gsm w = []
                                   then VGSM_SMS_DCS_ALPHABET_UCS2 else VGSM_SMS_DCS_ALPHABET_DEFAULT,
     sub_user_data_header_indicator := sub_user_data_header_indicator sms \<or> 1 < sub_concatenate_maxmsg sms\<rparr>"

text \<open>
  \<open>vgsm_sms_submit_prepare\<close>: the buffer has 160 octets more than the service centre address needs. The
  result is the error or zero, and the message with its octets. The message must have none yet (the assertion
  at the start of the function).
\<close>

definition vgsm_sms_submit_prepare :: "vgsm_sms_submit \<Rightarrow> (int \<times> vgsm_sms_submit) res" where
  "vgsm_sms_submit_prepare sms0 =
     (if sub_pdu sms0 \<noteq> None then Inl KernelBug
      else
      let sms = submit_ready sms0;
          smcc = submit_smcc sms;
          max_len = length smcc + 160;
          udh = user_data_header sms;
          udh_len = length udh;
          udh_len_septets = (if udh = [] then 0 else vgsm_octets_to_septets udh_len);
          pos = length smcc + length (submit_header sms 0);
          udl_pos = pos - 1
      in bind_res (put 0 (smcc @ submit_header sms 0 @ udh) (replicate max_len 0)) (\<lambda>pdu.
           if sub_alphabet sms = VGSM_SMS_DCS_ALPHABET_UCS2 then
             (let out = iconv_ucs2be (sub_text sms) (max_len - pos - udh_len - 1)
              in bind_res (put (pos + udh_len) out pdu) (\<lambda>pdu.
                   let n = pos + udh_len + length out
                   in Inr (0, sms\<lparr>sub_pdu := Some (take n (pdu[udl_pos := word_of_nat (udh_len + length out)])),
                                 sub_pdu_tp_len := int (n - length smcc)\<rparr>)))
           else
             bind_res (vgsm_wc_to_7bit (sub_text sms) (drop pos pdu) (160 - int udh_len_septets) udh_len_septets) (\<lambda>(used, ud).
               if used < 0 then Inr (used, sms)
               else
                 let septets = udh_len_septets + nat used;
                     n = pos + vgsm_septets_to_octets septets;
                     pdu = (take pos pdu @ ud)[udl_pos := word_of_nat septets]
                 in if max_len < n then Inl KernelBug
                    else Inr (0, sms\<lparr>sub_pdu := Some (take n pdu), sub_pdu_tp_len := int (n - length smcc)\<rparr>))))"

section \<open>Delivered messages\<close>

record vgsm_sms_deliver =
  dlv_smcc_address :: vgsm_number
  dlv_more_messages_to_send :: bool
  dlv_user_data_header_indicator :: bool
  dlv_status_report_indication :: bool
  dlv_originating_address :: vgsm_number
  dlv_coding_group :: u8
  dlv_compressed :: bool
  dlv_message_class :: int
  dlv_alphabet :: u8
  dlv_timestamp :: int
  dlv_timezone :: int
  dlv_concatenate_refnum :: u8
  dlv_concatenate_maxmsg :: u8
  dlv_concatenate_seqnum :: u8
  dlv_text :: "int list option"

text \<open>An octet of the PDU from its two characters; a character that is no digit counts as -1.\<close>

definition hex_octet :: "u8 \<Rightarrow> u8 \<Rightarrow> u8" where
  "hex_octet h l = push_bit 4 (word_of_int (char_to_hexdigit h)) OR word_of_int (char_to_hexdigit l)"

fun hex_to_octets :: "octets \<Rightarrow> octets" where
  "hex_to_octets (h # l # s) = hex_octet h l # hex_to_octets s"
| "hex_to_octets _ = []"

text \<open>The loop over the user data header, from \<open>udh_pos\<close> to \<open>pos + udhl\<close>.\<close>

function udh_loop :: "octets \<Rightarrow> nat \<Rightarrow> nat \<Rightarrow> vgsm_sms_deliver \<Rightarrow> vgsm_sms_deliver res" where
  "udh_loop pdu udh_pos udh_end sms =
     (if udh_pos < udh_end then
        bind_res (rd pdu udh_pos) (\<lambda>iei_id.
        bind_res (rd pdu (udh_pos + 1)) (\<lambda>iei_len.
        bind_res (if iei_id = 0 \<and> 3 \<le> iei_len then
                    bind_res (rd pdu (udh_pos + 2)) (\<lambda>a.
                    bind_res (rd pdu (udh_pos + 3)) (\<lambda>b.
                    bind_res (rd pdu (udh_pos + 4)) (\<lambda>c.
                      Inr (sms\<lparr>dlv_concatenate_refnum := a, dlv_concatenate_maxmsg := b, dlv_concatenate_seqnum := c\<rparr>))))
                  else Inr sms)
          (\<lambda>sms. udh_loop pdu (udh_pos + 2 + unat iei_len) udh_end sms)))
      else Inr sms)"
  by pat_completeness auto

termination
  by (relation "measure (\<lambda>(pdu, udh_pos, udh_end, sms). udh_end - udh_pos)") auto

declare udh_loop.simps [simp del]

text \<open>
  The text of a message: the buffer is allocated for its length plus one, a negative size cannot be
  allocated. The zero after the text is written at \<open>text_len\<close>.
\<close>

definition septet_text :: "octets \<Rightarrow> nat \<Rightarrow> int \<Rightarrow> nat \<Rightarrow> vgsm_sms_deliver \<Rightarrow> vgsm_sms_deliver option res" where
  "septet_text pdu pos text_len udhl_septets sms =
     (if text_len + 1 < 0 then Inr None
      else bind_res (vgsm_7bit_to_wc (drop pos pdu) text_len udhl_septets (text_len + 1)) (\<lambda>ws.
        Inr (Some (sms\<lparr>dlv_text := Some ws\<rparr>))))"

fun ucs2_loop :: "octets \<Rightarrow> nat \<Rightarrow> nat \<Rightarrow> int list res" where
  "ucs2_loop pdu pos 0 = Inr []"
| "ucs2_loop pdu pos (Suc n) =
     bind_res (rd pdu pos) (\<lambda>h. bind_res (rd pdu (pos + 1)) (\<lambda>l.
       bind_res (ucs2_loop pdu (pos + 2) n) (\<lambda>ws. Inr ((uint h * 256 + uint l) # ws))))"

definition ucs2_text :: "octets \<Rightarrow> nat \<Rightarrow> int \<Rightarrow> vgsm_sms_deliver \<Rightarrow> vgsm_sms_deliver option res" where
  "ucs2_text pdu pos text_len sms =
     (if text_len + 1 < 0 then Inr None
      else bind_res (ucs2_loop pdu pos (nat text_len)) (\<lambda>ws.
        if 0 \<le> text_len then Inr (Some (sms\<lparr>dlv_text := Some ws\<rparr>)) else Inl OutOfBounds))"

text \<open>The data coding scheme and the text, with \<open>pos\<close> at the user data.\<close>

definition decode_user_data ::
  "octets \<Rightarrow> u8 \<Rightarrow> nat \<Rightarrow> int \<Rightarrow> int \<Rightarrow> nat \<Rightarrow> vgsm_sms_deliver \<Rightarrow> vgsm_sms_deliver option res" where
  "decode_user_data pdu dcs pos tp_udl udhl udhl_septets sms0 =
     (let group = drop_bit 4 dcs;
          sms = sms0\<lparr>dlv_coding_group := group, dlv_compressed := False, dlv_message_class := -1\<rparr>
      in if group \<le> 3 then
           (let compressed = bit dcs 5; alphabet = drop_bit 2 dcs AND 3;
                sms = sms\<lparr>dlv_compressed := compressed, dlv_alphabet := alphabet,
                         dlv_message_class := if bit dcs 4 then uint (dcs AND 3) else -1\<rparr>
            in if compressed then Inr None
               else if alphabet = 0 then septet_text pdu pos (tp_udl - int udhl_septets) udhl_septets sms
               else if alphabet = 2 then ucs2_text pdu pos ((tp_udl - udhl) sdiv 2) sms
               else Inr (Some sms))
         else if group = 0xc \<or> group = 0xe then Inr (Some sms)
         else if group = 0xf then
           (if bit dcs 2 then Inr (Some sms)
            else septet_text pdu pos (tp_udl - int udhl_septets) udhl_septets sms)
         else Inr None)"

definition rd_dec :: "octets \<Rightarrow> nat \<Rightarrow> int res" where
  "rd_dec pdu i = bind_res (rd pdu i) (\<lambda>x. Inr (uint (vgsm_nibbles_to_decimal x)))"

text \<open>The part behind the addresses: \<open>pos\<close> is at the protocol identifier.\<close>

definition decode_tail ::
  "(int \<times> int \<times> int \<times> int \<times> int \<times> int \<Rightarrow> int) \<Rightarrow> octets \<Rightarrow> nat \<Rightarrow> vgsm_sms_deliver \<Rightarrow> vgsm_sms_deliver option res" where
  "decode_tail mktime pdu pos sms =
     bind_res (rd pdu (pos + 1)) (\<lambda>dcs.
     bind_res (rd_dec pdu (pos + 2)) (\<lambda>year. bind_res (rd_dec pdu (pos + 3)) (\<lambda>mon.
     bind_res (rd_dec pdu (pos + 4)) (\<lambda>mday. bind_res (rd_dec pdu (pos + 5)) (\<lambda>hour.
     bind_res (rd_dec pdu (pos + 6)) (\<lambda>mnt. bind_res (rd_dec pdu (pos + 7)) (\<lambda>sec.
       let t = mktime (year + 100, mon - 1, mday, hour, mnt, sec) in
       if t = -1 then Inr None
       else bind_res (rd pdu (pos + 8)) (\<lambda>z.
         let tz = uint (vgsm_nibbles_to_decimal (z AND 0x7f));
             tz = (if bit z 7 then tz else - tz);
             sms = sms\<lparr>dlv_timezone := tz, dlv_timestamp := t - tz\<rparr>
         in bind_res (rd pdu (pos + 9)) (\<lambda>udl.
           if dlv_user_data_header_indicator sms then
             bind_res (rd pdu (pos + 10)) (\<lambda>udhl.
             bind_res (udh_loop pdu (pos + 11) (pos + 10 + unat udhl) sms) (\<lambda>sms.
               decode_user_data pdu dcs (pos + 10) (uint udl) (uint udhl) (vgsm_octets_to_septets (unat udhl + 1)) sms))
           else decode_user_data pdu dcs (pos + 10) (uint udl) 0 0 sms)))))))))"

definition vgsm_sms_deliver_init_from_pdu ::
  "(int \<times> int \<times> int \<times> int \<times> int \<times> int \<Rightarrow> int) \<Rightarrow> octets \<Rightarrow> vgsm_sms_deliver option res" where
  "vgsm_sms_deliver_init_from_pdu mktime text_pdu =
     (if length text_pdu mod 2 \<noteq> 0 then Inr None
      else
        let pdu = hex_to_octets text_pdu in
        bind_res (rd pdu 0) (\<lambda>smcc_len.
          if int (length pdu) - 1 < uint smcc_len then Inr None
          else if 31 < uint smcc_len then Inr None
          else bind_res (rd pdu 1) (\<lambda>smcc_toa.
            bind_res (vgsm_bcd_to_text (drop 2 pdu) ((uint smcc_len - 1) * 2) 32) (\<lambda>smcc_digits.
            case smcc_digits of None \<Rightarrow> Inr None | Some smcc_digits \<Rightarrow>
              let pos = 1 + unat smcc_len in
              bind_res (rd pdu pos) (\<lambda>sdp.
              bind_res (rd pdu (pos + 1)) (\<lambda>oa_len.
              bind_res (rd pdu (pos + 2)) (\<lambda>oa_toa.
              bind_res (vgsm_bcd_to_text (drop (pos + 3) pdu) (uint oa_len) 32) (\<lambda>oa_digits.
              case oa_digits of None \<Rightarrow> Inr None | Some oa_digits \<Rightarrow>
                decode_tail mktime pdu (pos + 3 + (unat oa_len + 1) div 2)
                  \<lparr>dlv_smcc_address = \<lparr>digits = smcc_digits, np = toa_np smcc_toa, ton = toa_ton smcc_toa\<rparr>,
                   dlv_more_messages_to_send = bit sdp 2, dlv_user_data_header_indicator = bit sdp 6,
                   dlv_status_report_indication = bit sdp 5,
                   dlv_originating_address = \<lparr>digits = oa_digits, np = toa_np oa_toa, ton = toa_ton oa_toa\<rparr>,
                   dlv_coding_group = 0, dlv_compressed = False, dlv_message_class = -1, dlv_alphabet = 0,
                   dlv_timestamp = 0, dlv_timezone = 0, dlv_concatenate_refnum = 0, dlv_concatenate_maxmsg = 0,
                   dlv_concatenate_seqnum = 0, dlv_text = None\<rparr>))))))))"

section \<open>Submitting stays within the buffer\<close>

lemma write_septet_ok:
  assumes "c < 128" "7 * (p + 1) + 8 \<le> 8 * length out"
  shows "\<exists>out'. vgsm_write_septet p c out = Inr out' \<and> length out' = length out"
proof -
  have "7 * (p div 8) + p mod 8 < length out" using assms(2) by (rule_tac split8 [of p]) simp
  then show ?thesis using write_septet_bits [OF assms(1)] by blast
qed

lemma wc_to_7bit_total:
  assumes "7 * (offset + M) + 8 \<le> 8 * length out" "sep \<le> M"
  shows "\<exists>r out'. wc_to_7bit_loop ws (int M) offset sep out = Inr (r, out') \<and> length out' = length out \<and> (r < 0 \<or> r \<le> int M)"
  using assms
proof (induction ws arbitrary: sep out)
  case Nil
  then show ?case by simp
next
  case (Cons w ws)
  show ?case
  proof (cases rule: wc_to_gsm_cases [of w])
    case 1
    then show ?thesis using Cons by simp
  next
    case (2 c)
    show ?thesis
    proof (cases "M \<le> sep")
      case False
      then have "sep + 1 \<le> M" by simp
      then have "7 * (sep + offset + 1) + 8 \<le> 8 * length out" using Cons.prems(1) by simp
      then obtain o1 where o: "vgsm_write_septet (sep + offset) c out = Inr o1" "length o1 = length out"
        using write_septet_ok [OF 2(2)] by blast
      then show ?thesis
        using False 2 Cons.IH [of o1 "sep + 1"] Cons.prems by (auto simp: Let_def ENOSPC_def)
    qed (use 2 in \<open>simp add: ENOSPC_def\<close>)
  next
    case (3 c c2)
    show ?thesis
    proof (cases "M \<le> sep")
      case False
      then have "sep + 1 \<le> M" by simp
      then have "7 * (sep + offset + 1) + 8 \<le> 8 * length out" using Cons.prems(1) by simp
      then obtain o1 where o: "vgsm_write_septet (sep + offset) c out = Inr o1" "length o1 = length out"
        using write_septet_ok [OF 3(2)] by blast
      show ?thesis
      proof (cases "M \<le> sep + 1")
        case True
        then show ?thesis using False 3 o by (simp add: Let_def ENOSPC_def)
      next
        case more: False
        then have "sep + 2 \<le> M" by simp
        then have "7 * (sep + 1 + offset + 1) + 8 \<le> 8 * length o1" using Cons.prems(1) o(2) by simp
        then obtain o2 where o2: "vgsm_write_septet (sep + 1 + offset) c2 o1 = Inr o2" "length o2 = length out"
          using write_septet_ok [OF 3(3)] o(2) by metis
        then show ?thesis
          using False more 3 o Cons.IH [of o2 "sep + 2"] Cons.prems by (simp add: Let_def)
      qed
    qed (use 3 in \<open>simp add: ENOSPC_def\<close>)
  qed
qed

lemma length_submit_header: "length (submit_header sms udl) = 8 + (length (digits (sub_dest sms)) + 1) div 2"
  by (simp add: submit_header_def length_text_to_bcd)

lemma length_user_data_header: "length (user_data_header sms) \<le> 6"
  by (simp add: user_data_header_def)

lemma udh_septets: "user_data_header sms \<noteq> [] \<Longrightarrow> length (user_data_header sms) = 6"
  by (simp add: user_data_header_def split: if_splits)

lemma length_iconv: "length (iconv_ucs2be ws n) \<le> n"
proof -
  have "length (concat (map (\<lambda>w. [f w, g w]) xs)) = 2 * length xs" for f g :: "int \<Rightarrow> u8" and xs by (induction xs) simp_all
  then show ?thesis by (simp add: iconv_ucs2be_def)
qed

text \<open>
  C39. A message is encoded within its buffer. With a destination of at most twenty-two digits nothing is written outside
  the 160 octets behind the service centre address, for any text, in either alphabet, with or without a
  header; the final assertion on the length never fails, and the length given to the module leaves out
  the service centre.
\<close>

theorem submit_in_bounds:
  assumes "sub_pdu sms = None" "length (digits (sub_dest sms)) \<le> 22"
  shows "\<exists>err sms'. vgsm_sms_submit_prepare sms = Inr (err, sms') \<and>
     (err = 0 \<longrightarrow> (\<exists>pdu. sub_pdu sms' = Some pdu \<and> length pdu \<le> length (submit_smcc sms) + 160 \<and>
        sub_pdu_tp_len sms' = int (length pdu) - int (length (submit_smcc sms))))"
proof -
  define sms1 where "sms1 = submit_ready sms"
  define smcc udh pos where d: "smcc = submit_smcc sms1" "udh = user_data_header sms1" "pos = length smcc + length (submit_header sms1 0)"
  define us where us: "us = (if udh = [] then 0 else vgsm_octets_to_septets (length udh))"
  have same: "submit_smcc sms = smcc" by (simp add: d sms1_def submit_ready_def submit_smcc_def)
  have h: "length (submit_header sms1 0) \<le> 19" using assms(2) length_submit_header [of sms1 0] by (simp add: sms1_def submit_ready_def)
  have u: "length udh \<le> 6" "us \<le> 7"
    using length_user_data_header [of sms1] udh_septets [of sms1] by (auto simp: d us vgsm_octets_to_septets_def)
  have p: "pos \<le> length smcc + 19" "1 \<le> pos" using h by (simp_all add: d length_submit_header)
  define pdu where "pdu = smcc @ submit_header sms1 0 @ udh @ drop (pos + length udh) (replicate (length smcc + 160) (0 :: u8))"
  have pl: "length pdu = length smcc + 160" using p u by (simp add: pdu_def d)
  have put: "put 0 (smcc @ submit_header sms1 0 @ udh) (replicate (length smcc + 160) 0) = Inr pdu"
    using p u by (simp add: put_def pdu_def d add.assoc)
  note prep = vgsm_sms_submit_prepare_def [of sms, folded sms1_def, unfolded assms(1) Let_def, folded d, folded d(3), folded us, unfolded put bind_res_simps, simplified]
  show ?thesis
  proof (cases "sub_alphabet sms1 = VGSM_SMS_DCS_ALPHABET_UCS2")
    case True
    let ?out = "iconv_ucs2be (sub_text sms1) (length smcc + 160 - pos - length udh - 1)"
    have "length ?out \<le> length smcc + 160 - pos - length udh - 1" by (rule length_iconv)
    then have f: "pos + length udh + length ?out \<le> length pdu" using pl p u by linarith
    then show ?thesis using True pl p by (simp add: prep put_def same d(3))
  next
    case False
    have m: "160 - int us = int (160 - us)" using u by simp
    have "7 * (us + (160 - us)) + 8 \<le> 8 * length (drop pos pdu)" using pl p u by simp
    then obtain r ud where r: "vgsm_wc_to_7bit (sub_text sms1) (drop pos pdu) (160 - int us) us = Inr (r, ud)"
      "length ud = length (drop pos pdu)" "r < 0 \<or> r \<le> 160 - int us"
      using wc_to_7bit_total [of us "160 - us" "drop pos pdu" 0 "sub_text sms1"] unfolding vgsm_wc_to_7bit_def m by auto
    have "vgsm_septets_to_octets (us + nat r) \<le> 140" if "0 \<le> r"
    proof -
      have "us + nat r \<le> 160" using r(3) that by linarith
      then show ?thesis by (intro septets_to_octets_le) simp
    qed
    then have "0 \<le> r \<Longrightarrow> pos + vgsm_septets_to_octets (us + nat r) \<le> length smcc + 160" using p by fastforce
    then show ?thesis using False r pl p by (cases "r < 0") (auto simp: prep same d(3))
  qed
qed

section \<open>Reading a delivered message\<close>

definition to_hex :: "octets \<Rightarrow> octets" where
  "to_hex p = concat (map (\<lambda>x. [hex_digit (unat x div 16), hex_digit (unat x mod 16)]) p)"

lemma hex_octet_digits: "hex_octet (hex_digit (unat x div 16)) (hex_digit (unat x mod 16)) = x"
proof -
  have l: "unat x div 16 < 16" "unat x mod 16 < 16" using unsigned_less [of x, where ?'a = nat] by simp_all
  have w: "word_of_int (int (unat x div 16)) = drop_bit 4 x" "word_of_int (int (unat x mod 16)) = take_bit 4 x"
    by (simp_all add: word_unat_eq_iff unat_drop_bit_eq drop_bit_nat_def unsigned_take_bit_eq take_bit_nat_def unat_of_nat mod_less order_less_trans [OF l(1)] order_less_trans [OF l(2)])
  show ?thesis
    unfolding hex_octet_def hex_digit_value [OF l(1), THEN conjunct1] hex_digit_value [OF l(2), THEN conjunct1] w
    by (rule bit_word_eqI) (auto simp: bit_or_iff bit_push_bit_iff bit_drop_bit_eq bit_take_bit_iff)
qed

lemma hex_to_octets_inverse: "hex_to_octets (to_hex p) = p" "length (to_hex p) mod 2 = 0"
  by (induction p) (simp_all add: to_hex_def hex_octet_digits)

interpretation pdu_text: codec to_hex hex_to_octets "\<lambda>_. True"
  by unfold_locales (rule hex_to_octets_inverse(1))

lemma nibble_at_append: "i < 2 * length buf \<Longrightarrow> nibble_at (buf @ rest) i = nibble_at buf i"
proof -
  assume "i < 2 * length buf"
  then have "i div 2 < length buf" by linarith
  then show ?thesis by (simp add: nibble_at_def rd_def nth_append)
qed

lemma bcd_to_text_append:
  "i + n \<le> 2 * length buf \<Longrightarrow> bcd_to_text_loop (buf @ rest) i n str_len str = bcd_to_text_loop buf i n str_len str"
proof (induction n arbitrary: i str)
  case (Suc n)
  then have n: "nibble_at (buf @ rest) i = nibble_at buf i" and IH: "bcd_to_text_loop (buf @ rest) (i + 1) n str_len s = bcd_to_text_loop buf (i + 1) n str_len s" for s
    using nibble_at_append [of i buf rest] Suc.IH [of "i + 1" s] by simp_all
  show ?case unfolding bcd_to_text_loop.simps n IH by (rule refl)
qed simp

lemma number_read:
  assumes "set s \<subseteq> set bcd_chars" "length s < 32" "nibbles = int (length s) \<or> nibbles = 2 * int (length (vgsm_text_to_bcd s))"
  shows "vgsm_bcd_to_text (vgsm_text_to_bcd s @ rest) nibbles 32 = Inr (Some s)"
proof -
  have "0 + nat nibbles \<le> 2 * length (vgsm_text_to_bcd s)" using assms(3) unfolding length_text_to_bcd by linarith
  then have "vgsm_bcd_to_text (vgsm_text_to_bcd s @ rest) nibbles 32 = vgsm_bcd_to_text (vgsm_text_to_bcd s) nibbles 32"
    unfolding vgsm_bcd_to_text_def by (rule bcd_to_text_append)
  then show ?thesis using bcd_text_inverse [OF assms(1) _ assms(3), of 32] assms(2) by simp
qed

lemma toa_fields:
  assumes "ton n < 8" "np n < 16"
  shows "toa_ton (type_of_address n) = ton n" "toa_np (type_of_address n) = np n"
proof -
  have t: "bit (ton n) k \<Longrightarrow> k < 3" for k
  proof -
    assume b: "bit (ton n) k"
    have "unat (ton n) < 2 ^ 3" using assms(1) by (simp add: word_less_nat_alt)
    then have "take_bit 3 (ton n) = ton n" by (simp add: word_unat_eq_iff unsigned_take_bit_eq take_bit_nat_eq_self)
    then show "k < 3" using b by (metis bit_take_bit_iff)
  qed
  note p = nibble_bits [OF assms(2)]
  have m: "(7 :: u8) = mask 3" "(0xf :: u8) = mask 4" "(0x80 :: u8) = push_bit 7 1" by (simp_all add: mask_eq_exp_minus_1)
  show "toa_ton (type_of_address n) = ton n" unfolding toa_ton_def type_of_address_def m
    by (rule bit_word_eqI)
       (auto simp: bit_and_iff bit_or_iff bit_drop_bit_eq bit_push_bit_iff bit_mask_iff bit_1_iff dest: t p simp del: mask_numeral push_bit_of_1)
  show "toa_np (type_of_address n) = np n" unfolding toa_np_def type_of_address_def m
    by (rule bit_word_eqI)
       (auto simp: bit_and_iff bit_or_iff bit_drop_bit_eq bit_push_bit_iff bit_mask_iff bit_1_iff dest: t p simp del: mask_numeral push_bit_of_1)
qed

text \<open>A number the address fields can hold.\<close>

definition number_ok :: "vgsm_number \<Rightarrow> bool" where
  "number_ok n \<longleftrightarrow> set (digits n) \<subseteq> set bcd_chars \<and> length (digits n) < 32 \<and> ton n < 8 \<and> np n < 16"

text \<open>A message to be delivered, as the module passes it on (GSM 03.40).\<close>

definition deliver_pdu :: "vgsm_number \<Rightarrow> u8 \<Rightarrow> vgsm_number \<Rightarrow> u8 \<Rightarrow> u8 \<Rightarrow> octets \<Rightarrow> u8 \<Rightarrow> octets \<Rightarrow> octets" where
  "deliver_pdu smcc sdp oa pid dcs ts udl ud =
     word_of_nat (length (vgsm_text_to_bcd (digits smcc)) + 1) # type_of_address smcc # vgsm_text_to_bcd (digits smcc) @
     [sdp, word_of_nat (length (digits oa)), type_of_address oa] @ vgsm_text_to_bcd (digits oa) @ [pid, dcs] @ ts @ [udl] @ ud"

lemma deliver_read:
  assumes "number_ok smcc" "number_ok oa" "p = deliver_pdu smcc sdp oa pid dcs ts udl ud"
  shows "\<exists>pos. drop pos p = [pid, dcs] @ ts @ [udl] @ ud \<and>
    vgsm_sms_deliver_init_from_pdu mktime (to_hex p) =
    decode_tail mktime p pos
      \<lparr>dlv_smcc_address = smcc, dlv_more_messages_to_send = bit sdp 2, dlv_user_data_header_indicator = bit sdp 6,
       dlv_status_report_indication = bit sdp 5, dlv_originating_address = oa,
       dlv_coding_group = 0, dlv_compressed = False, dlv_message_class = -1, dlv_alphabet = 0,
       dlv_timestamp = 0, dlv_timezone = 0, dlv_concatenate_refnum = 0, dlv_concatenate_maxmsg = 0,
       dlv_concatenate_seqnum = 0, dlv_text = None\<rparr>"
proof -
  let ?S = "vgsm_text_to_bcd (digits smcc)" and ?O = "vgsm_text_to_bcd (digits oa)"
  let ?tail = "[pid, dcs] @ ts @ [udl] @ ud"
  let ?pos = "2 + length ?S"
  have ls: "length ?S \<le> 16" "length (digits oa) < 32" "length ?O = (length (digits oa) + 1) div 2"
    using assms(1,2) by (auto simp: number_ok_def length_text_to_bcd)
  have nat_u8: "unat (word_of_nat n :: u8) = n" "uint (word_of_nat n :: u8) = int n" if "n < 256" for n
    using that by (simp_all add: unat_of_nat uint_nat)
  have "length ?S + 1 < 256" "length (digits oa) < 256" using ls by linarith+
  note u = nat_u8(1) [OF this(1)] nat_u8(2) [OF this(1)] nat_u8(1) [OF this(2)] nat_u8(2) [OF this(2)]
  have q: "drop 2 p = ?S @ [sdp, word_of_nat (length (digits oa)), type_of_address oa] @ ?O @ ?tail"
    "p ! 0 = word_of_nat (length ?S + 1)" "p ! 1 = type_of_address smcc" "length p = 5 + length ?S + length ?O + length ?tail"
    by (simp_all add: assms(3) deliver_pdu_def)
  have "drop ?pos p = drop (length ?S) (drop 2 p)" by (simp add: add.commute)
  then have q2: "drop ?pos p = [sdp, word_of_nat (length (digits oa)), type_of_address oa] @ ?O @ ?tail"
    unfolding q(1) by simp
  have "drop (?pos + 3) p = drop 3 (drop ?pos p)" by (simp add: add.commute)
  then have q3: "drop (?pos + 3) p = ?O @ ?tail" unfolding q2 by simp
  have n: "toa_ton (type_of_address smcc) = ton smcc" "toa_np (type_of_address smcc) = np smcc"
    "toa_ton (type_of_address oa) = ton oa" "toa_np (type_of_address oa) = np oa"
    using assms(1,2) toa_fields by (auto simp: number_ok_def)
  have s: "vgsm_bcd_to_text (drop 2 p) ((int (length ?S + 1) - 1) * 2) 32 = Inr (Some (digits smcc))"
    unfolding q(1) using assms(1) by (intro number_read) (auto simp: number_ok_def)
  have o: "vgsm_bcd_to_text (drop (?pos + 3) p) (int (length (digits oa))) 32 = Inr (Some (digits oa))"
    unfolding q3 using assms(2) by (intro number_read) (auto simp: number_ok_def)
  have r: "rd p 0 = Inr (word_of_nat (length ?S + 1))" "rd p 1 = Inr (type_of_address smcc)"
    using q(2-4) by (simp_all add: rd_def)
  have r2: "rd p ?pos = Inr sdp" "rd p (?pos + 1) = Inr (word_of_nat (length (digits oa)))" "rd p (?pos + 2) = Inr (type_of_address oa)"
    using rd_at [OF q2, of 0] rd_at [OF q2, of 1] rd_at [OF q2, of 2] by simp_all
  have "drop (?pos + 3 + (length (digits oa) + 1) div 2) p = drop (length ?O) (drop (?pos + 3) p)"
    unfolding drop_drop ls(3) by (simp add: add.commute)
  then have "drop (?pos + 3 + (length (digits oa) + 1) div 2) p = ?tail" unfolding q3 by simp
  moreover have "vgsm_sms_deliver_init_from_pdu mktime (to_hex p) =
    decode_tail mktime p (?pos + 3 + (length (digits oa) + 1) div 2)
      \<lparr>dlv_smcc_address = \<lparr>digits = digits smcc, np = np smcc, ton = ton smcc\<rparr>, dlv_more_messages_to_send = bit sdp 2,
       dlv_user_data_header_indicator = bit sdp 6, dlv_status_report_indication = bit sdp 5,
       dlv_originating_address = \<lparr>digits = digits oa, np = np oa, ton = ton oa\<rparr>,
       dlv_coding_group = 0, dlv_compressed = False, dlv_message_class = -1, dlv_alphabet = 0,
       dlv_timestamp = 0, dlv_timezone = 0, dlv_concatenate_refnum = 0, dlv_concatenate_maxmsg = 0,
       dlv_concatenate_seqnum = 0, dlv_text = None\<rparr>"
  proof -
    have pos: "1 + unat (word_of_nat (length ?S + 1) :: u8) = ?pos" using u(1) by simp
    have g: "\<not> int (length p) - 1 < int (length ?S + 1)" "\<not> 31 < int (length ?S + 1)" using ls q(4) by simp_all
    show ?thesis
      unfolding vgsm_sms_deliver_init_from_pdu_def hex_to_octets_inverse Let_def r(1,2) bind_res_simps u(2) pos r2 s
        u(3,4) n o option.case
      using g by simp
  qed
  moreover have "\<lparr>digits = digits n, np = np n, ton = ton n\<rparr> = n" for n by simp
  ultimately show ?thesis by metis
qed

lemma bit_at_append: "bit_at (a @ b) k = (if k < 8 * length a then bit_at a k else bit_at b (k - 8 * length a))"
proof -
  have "k div 8 < length a \<longleftrightarrow> k < 8 * length a" by (simp add: div_less_iff_less_mult mult.commute)
  moreover have "(k - 8 * length a) div 8 = k div 8 - length a" "(k - 8 * length a) mod 8 = k mod 8" if "8 * length a \<le> k"
    using that by (auto simp: le_iff_add)
  ultimately show ?thesis by (simp add: bit_at_def nth_append)
qed

lemma bit_at_zeros: "k < 8 * n \<Longrightarrow> \<not> bit_at (replicate n 0) k"
  by (simp add: bit_at_def less_mult_imp_div_less mult.commute)

lemma octets_bit_eqI: "length a = length b \<Longrightarrow> (\<And>k. k < 8 * length a \<Longrightarrow> bit_at a k = bit_at b k) \<Longrightarrow> a = b"
proof (rule nth_equalityI)
  fix i assume l: "length a = length b" "i < length a" and e: "\<And>k. k < 8 * length a \<Longrightarrow> bit_at a k = bit_at b k"
  show "a ! i = b ! i"
  proof (rule bit_word_eqI)
    fix n assume "n < LENGTH(8)"
    then show "bit (a ! i) n = bit (b ! i) n" using e [of "8 * i + n"] l(2) by (simp add: bit_at_def)
  qed
qed

lemma bit_at_take: "k < 8 * n \<Longrightarrow> bit_at (take n a) k = bit_at a k"
  by (simp add: bit_at_def less_mult_imp_div_less mult.commute)

lemma septets_fit: "7 * s \<le> 8 * vgsm_septets_to_octets s"
  unfolding vgsm_septets_to_octets_def by presburger

lemma packed_take: "packed a p cs \<Longrightarrow> 7 * (p + length cs) \<le> 8 * n \<Longrightarrow> packed (take n a) p cs"
proof -
  assume a: "packed a p cs" "7 * (p + length cs) \<le> 8 * n"
  have "7 * (p + i) + j < 8 * n" if "i < length cs" "j < 7" for i j using a(2) that by simp
  then show ?thesis using a(1) by (simp add: packed_def bit_at_take)
qed

text \<open>The user data: the header, then the text in septets from the next septet boundary.\<close>

lemma user_data_packed:
  assumes "basic_text ws" "us = (if udh = [] then 0 else vgsm_octets_to_septets (length udh))"
    "us + length ws < 160" "length udh + z \<ge> 141"
  shows "\<exists>out. vgsm_wc_to_7bit ws (udh @ replicate z 0) (160 - int us) us = Inr (int (length ws), out) \<and>
    length out = length udh + z \<and> take (length udh) out = udh \<and> packed out us (gsm_septets ws)"
proof -
  let ?cs = "gsm_septets ws" and ?out = "udh @ replicate z (0 :: u8)"
  have l: "length ?cs = length ws" by (rule basic_length [OF assms(1)])
  have u: "8 * length udh \<le> 7 * us" using assms(2) unfolding vgsm_octets_to_septets_def by (simp split: if_splits) presburger+
  have c: "clear_from (7 * us) ?out" unfolding clear_from_def using u by (auto simp: bit_at_append bit_at_zeros)
  have "7 * (us + length ?cs) + 8 \<le> 8 * length ?out" using assms(3,4) l by simp
  then obtain out where o: "write_septets ?cs us ?out = Inr out" "length out = length ?out"
    "\<forall>k < 7 * us. bit_at out k = bit_at ?out k" "packed out us ?cs"
    using write_septets_packed [OF gsm_septets_7bit c] by metis
  have "vgsm_wc_to_7bit ws ?out (160 - int us) us = Inr (int (length ws), out)"
    using wc_to_7bit_loop_septets [of 0 ws "160 - int us" us ?out] assms(3) l o(1) by (simp add: vgsm_wc_to_7bit_def)
  moreover have "take (length udh) out = udh"
    using o(2,3) u by (intro octets_bit_eqI) (simp_all add: bit_at_take bit_at_append)
  ultimately show ?thesis using o(2,4) by simp
qed

definition udh_septets_of :: "vgsm_sms_submit \<Rightarrow> nat" where
  "udh_septets_of sms = (if sub_user_data_header_indicator sms then 7 else 0)"

lemma submit_layout:
  assumes "sub_pdu sms = None" "length (digits (sub_dest sms)) \<le> 22" "basic_text (sub_text sms)"
    "udh_septets_of (submit_ready sms) + length (sub_text sms) < 160"
  defines "udl \<equiv> udh_septets_of (submit_ready sms) + length (sub_text sms)"
  shows "\<exists>ud sms'. vgsm_sms_submit_prepare sms = Inr (0, sms') \<and>
     sub_pdu sms' = Some (submit_smcc sms @ submit_header (submit_ready sms) (word_of_nat udl) @ ud) \<and>
     length ud = vgsm_septets_to_octets udl \<and>
     take (length (user_data_header (submit_ready sms))) ud = user_data_header (submit_ready sms) \<and>
     packed ud (udh_septets_of (submit_ready sms)) (gsm_septets (sub_text sms))"
proof -
  define sms1 where "sms1 = submit_ready sms"
  define smcc udh pos where d: "smcc = submit_smcc sms1" "udh = user_data_header sms1" "pos = length smcc + length (submit_header sms1 0)"
  define us where us: "us = (if udh = [] then 0 else vgsm_octets_to_septets (length udh))"
  define z where "z = length smcc + 160 - (pos + length udh)"
  have same: "submit_smcc sms = smcc" "sub_text sms1 = sub_text sms" by (simp_all add: d sms1_def submit_ready_def submit_smcc_def)
  have h: "length (submit_header sms1 0) \<le> 19" using assms(2) length_submit_header [of sms1 0] by (simp add: sms1_def submit_ready_def)
  have u: "length udh \<le> 6" "us = udh_septets_of sms1"
    using length_user_data_header [of sms1] by (simp_all add: d us vgsm_octets_to_septets_def udh_septets_of_def user_data_header_def)
  have p: "pos \<le> length smcc + 19" using h by (simp add: d)
  then have put: "put 0 (smcc @ submit_header sms1 0 @ udh) (replicate (length smcc + 160) 0) =
      Inr (smcc @ submit_header sms1 0 @ udh @ replicate z 0)"
    using u by (simp add: put_def d z_def add.assoc)
  have alpha: "sub_alphabet sms1 = VGSM_SMS_DCS_ALPHABET_DEFAULT"
    using assms(3) by (auto simp: sms1_def submit_ready_def basic_text_def)
  have "141 \<le> length udh + z" using p u by (simp add: z_def)
  then obtain out where o: "vgsm_wc_to_7bit (sub_text sms) (udh @ replicate z 0) (160 - int us) us = Inr (int (length (sub_text sms)), out)"
    "length out = length udh + z" "take (length udh) out = udh" "packed out us (gsm_septets (sub_text sms))"
    using user_data_packed [OF assms(3) us, of z] assms(4) u(2) by (auto simp: sms1_def)
  let ?n = "vgsm_septets_to_octets udl"
  have udl: "udl = us + length (sub_text sms)" using u(2) by (simp add: udl_def sms1_def)
  have "?n \<le> 140" using assms(4) unfolding udl_def by (intro septets_to_octets_le) simp
  then have n: "pos + ?n \<le> length smcc + 160" "?n \<le> length out" using p o(2) \<open>141 \<le> length udh + z\<close> by simp_all
  have upd: "(smcc @ submit_header sms1 0 @ out)[pos - 1 := x] = smcc @ submit_header sms1 x @ out" for x
    by (simp add: d submit_header_def list_update_append)
  have t: "take pos (smcc @ submit_header sms1 0 @ udh @ replicate z 0) = smcc @ submit_header sms1 0"
    "drop pos (smcc @ submit_header sms1 0 @ udh @ replicate z 0) = udh @ replicate z 0" by (simp_all add: d)
  have t2: "take (pos + ?n) (smcc @ submit_header sms1 (word_of_nat udl) @ out) = smcc @ submit_header sms1 (word_of_nat udl) @ take ?n out"
    by (simp add: d length_submit_header)
  note prep = vgsm_sms_submit_prepare_def [of sms, folded sms1_def, unfolded assms(1) Let_def, folded d, folded d(3), folded us, unfolded put bind_res_simps]
  have "vgsm_sms_submit_prepare sms = Inr (0, sms1\<lparr>sub_pdu := Some (smcc @ submit_header sms1 (word_of_nat udl) @ take ?n out),
     sub_pdu_tp_len := int (pos + ?n - length smcc)\<rparr>)"
    unfolding prep t same using n(1) by (simp add: alpha o(1) udl [symmetric] upd [unfolded One_nat_def] t2 del: take_append)
  moreover have "take (length udh) (take ?n out) = udh"
  proof -
    have "length udh \<le> ?n" using septets_fit [of udl] u(2) unfolding udl by (simp add: d udh_septets_of_def user_data_header_def split: if_splits)
    then show ?thesis using o(3) by simp
  qed
  moreover have "packed (take ?n out) us (gsm_septets (sub_text sms))"
    using septets_fit [of udl] basic_length [OF assms(3)] by (intro packed_take [OF o(4)]) (simp add: udl)
  ultimately show ?thesis using n(2) u(2) by (simp add: same d sms1_def)
qed

text \<open>The date and time of a time stamp, as \<open>mktime\<close> gets them.\<close>

definition ts_fields :: "octets \<Rightarrow> int \<times> int \<times> int \<times> int \<times> int \<times> int" where
  "ts_fields ts = (let d = (\<lambda>i. uint (vgsm_nibbles_to_decimal (ts ! i))) in (d 0 + 100, d 1 - 1, d 2, d 3, d 4, d 5))"

lemma default_dcs:
  assumes "sub_alphabet sms = VGSM_SMS_DCS_ALPHABET_DEFAULT"
  shows "drop_bit 4 (dcs_octet sms) = 1" "\<not> bit (dcs_octet sms) 5" "drop_bit 2 (dcs_octet sms) AND 3 = 0"
proof -
  have "bit (sub_message_class sms AND 3) n \<Longrightarrow> n < 2" for n unfolding and_3 by (simp add: bit_take_bit_iff)
  moreover have "(3 :: u8) = mask 2" by (simp add: mask_eq_exp_minus_1)
  ultimately show "drop_bit 4 (dcs_octet sms) = 1" "\<not> bit (dcs_octet sms) 5" "drop_bit 2 (dcs_octet sms) AND 3 = 0"
    unfolding dcs_octet_def assms
    by (auto simp: bit_drop_bit_eq bit_or_iff bit_push_bit_iff bit_1_iff bit_and_iff bit_mask_iff push_bit_of_1 bit_exp_iff
        intro!: bit_word_eqI simp del: push_bit_numeral mask_numeral)
qed

lemma udh_loop_concatenated:
  assumes "drop q p = [5, 0, 3, a, b, c] @ r"
  shows "udh_loop p (q + 1) (q + 5) sms =
    Inr (sms\<lparr>dlv_concatenate_refnum := a, dlv_concatenate_maxmsg := b, dlv_concatenate_seqnum := c\<rparr>)"
proof -
  have r: "rd p (q + 1) = Inr 0" "rd p (q + 1 + 1) = Inr 3" "rd p (q + 1 + 2) = Inr a" "rd p (q + 1 + 3) = Inr b" "rd p (q + 1 + 4) = Inr c"
    using rd_at [OF assms, of 1] rd_at [OF assms, of 2] rd_at [OF assms, of 3] rd_at [OF assms, of 4] rd_at [OF assms, of 5]
    by (simp_all add: numeral_eq_Suc)
  have "q + 1 + 2 + unat (3 :: u8) = q + 6" by simp
  then show ?thesis unfolding udh_loop.simps [of p "q + 1"] r bind_res_simps by (simp add: udh_loop.simps [of p "6 + q"])
qed

lemma septet_text_packed:
  assumes "drop pos p = ud" "basic_text ws" "packed ud us (gsm_septets ws)" "7 * (us + length ws) \<le> 8 * length ud"
  shows "septet_text p pos (int (length ws)) us sms = Inr (Some (sms\<lparr>dlv_text := Some ws\<rparr>))"
proof -
  have "septets_loop ud us 0 (length ws) = Inr ws"
    using septets_loop_packed [of ud 0 us "gsm_septets ws"] assms(2-4) gsm_septets_7bit basic_length [OF assms(2)] basic_septets [OF assms(2)]
    by simp
  then show ?thesis by (simp add: septet_text_def vgsm_7bit_to_wc_def assms(1))
qed

lemma decode_tail_timestamp:
  assumes "drop pos p = [pid, dcs] @ ts @ [udl] @ ud" "length ts = 7" "mktime (ts_fields ts) \<noteq> -1"
  shows "\<exists>t tz. decode_tail mktime p pos sms =
    (let sms = sms\<lparr>dlv_timezone := tz, dlv_timestamp := t\<rparr> in
       if dlv_user_data_header_indicator sms then
         bind_res (rd p (pos + 10)) (\<lambda>udhl.
         bind_res (udh_loop p (pos + 11) (pos + 10 + unat udhl) sms) (\<lambda>sms.
           decode_user_data p dcs (pos + 10) (uint udl) (uint udhl) (vgsm_octets_to_septets (unat udhl + 1)) sms))
       else decode_user_data p dcs (pos + 10) (uint udl) 0 0 sms)"
proof -
  have rt: "rd p (pos + (2 + i)) = Inr (ts ! i)" if "i < 7" for i
    using rd_at [OF assms(1), of "2 + i"] assms(2) that by (simp add: nth_append)
  have r: "rd p (pos + 1) = Inr dcs" "rd p (pos + 9) = Inr udl"
    using rd_at [OF assms(1), of 1] rd_at [OF assms(1), of 9] assms(2) by (simp_all add: nth_append)
  have t: "rd p (pos + 2) = Inr (ts ! 0)" "rd p (pos + 3) = Inr (ts ! 1)" "rd p (pos + 4) = Inr (ts ! 2)" "rd p (pos + 5) = Inr (ts ! 3)"
    "rd p (pos + 6) = Inr (ts ! 4)" "rd p (pos + 7) = Inr (ts ! 5)" "rd p (pos + 8) = Inr (ts ! 6)"
    using rt [of 0] rt [of 1] rt [of 2] rt [of 3] rt [of 4] rt [of 5] rt [of 6] by simp_all
  show ?thesis using assms(3)
    unfolding decode_tail_def rd_dec_def r t bind_res_simps ts_fields_def Let_def by auto
qed

lemma default_user_data:
  assumes "sub_alphabet sms = VGSM_SMS_DCS_ALPHABET_DEFAULT" "drop pos p = ud" "basic_text ws" "packed ud us (gsm_septets ws)"
    "7 * (us + length ws) \<le> 8 * length ud" "us + length ws < 256"
  shows "\<exists>dlv'. decode_user_data p (dcs_octet sms) pos (uint (word_of_nat (us + length ws) :: u8)) udhl us dlv = Inr (Some dlv') \<and>
     dlv_text dlv' = Some ws \<and> dlv_smcc_address dlv' = dlv_smcc_address dlv \<and>
     dlv_originating_address dlv' = dlv_originating_address dlv \<and>
     dlv_concatenate_refnum dlv' = dlv_concatenate_refnum dlv \<and> dlv_concatenate_maxmsg dlv' = dlv_concatenate_maxmsg dlv \<and>
     dlv_concatenate_seqnum dlv' = dlv_concatenate_seqnum dlv"
proof -
  have "uint (word_of_nat (us + length ws) :: u8) = int (us + length ws)"
    using assms(6) by (simp add: uint_nat unat_of_nat del: of_nat_add)
  then have l: "uint (word_of_nat (us + length ws) :: u8) - int us = int (length ws)" by simp
  have g: "(1 :: u8) \<le> 3" by simp
  show ?thesis
    unfolding decode_user_data_def Let_def default_dcs [OF assms(1)] l
    using g default_dcs(2) [OF assms(1)] by (simp add: septet_text_packed [OF assms(2-5)])
qed

lemma decode_submitted:
  assumes "basic_text ws" "udl = udh_septets_of s + length ws" "udl < 160" "length ts = 7" "mktime (ts_fields ts) \<noteq> -1"
    "sub_alphabet s = VGSM_SMS_DCS_ALPHABET_DEFAULT" "length ud = vgsm_septets_to_octets udl"
    "take (length (user_data_header s)) ud = user_data_header s" "packed ud (udh_septets_of s) (gsm_septets ws)"
    "drop pos p = [pid, dcs_octet s] @ ts @ [word_of_nat udl] @ ud"
    "dlv_user_data_header_indicator d = sub_user_data_header_indicator s"
  shows "\<exists>dlv. decode_tail mktime p pos d = Inr (Some dlv) \<and> dlv_text dlv = Some ws \<and>
     dlv_smcc_address dlv = dlv_smcc_address d \<and> dlv_originating_address dlv = dlv_originating_address d \<and>
     (sub_user_data_header_indicator s \<longrightarrow>
        dlv_concatenate_refnum dlv = sub_concatenate_refnum s \<and> dlv_concatenate_maxmsg dlv = sub_concatenate_maxmsg s \<and>
        dlv_concatenate_seqnum dlv = sub_concatenate_seqnum s)"
proof -
  have "drop (pos + 10) p = drop 10 (drop pos p)" by (simp add: add.commute)
  then have ud: "drop (pos + 10) p = ud" unfolding assms(10) using assms(4) by simp
  have fit: "7 * (udh_septets_of s + length ws) \<le> 8 * length ud" "udh_septets_of s + length ws < 256"
    using septets_fit [of udl] assms(2,3,7) by simp_all
  note dec = default_user_data [OF assms(6) ud assms(1,9) fit, folded assms(2)]
  obtain t tz where t: "decode_tail mktime p pos d =
    (let sms = d\<lparr>dlv_timezone := tz, dlv_timestamp := t\<rparr> in
       if dlv_user_data_header_indicator sms then
         bind_res (rd p (pos + 10)) (\<lambda>udhl.
         bind_res (udh_loop p (pos + 11) (pos + 10 + unat udhl) sms) (\<lambda>sms.
           decode_user_data p (dcs_octet s) (pos + 10) (uint (word_of_nat udl :: u8)) (uint udhl) (vgsm_octets_to_septets (unat udhl + 1)) sms))
       else decode_user_data p (dcs_octet s) (pos + 10) (uint (word_of_nat udl :: u8)) 0 0 sms)"
    using decode_tail_timestamp [of pos p pid "dcs_octet s" ts "word_of_nat udl" ud mktime d, OF assms(10,4,5)] by blast
  define d1 where "d1 = d\<lparr>dlv_timezone := tz, dlv_timestamp := t\<rparr>"
  have d1: "dlv_user_data_header_indicator d1 = sub_user_data_header_indicator s" "dlv_smcc_address d1 = dlv_smcc_address d"
    "dlv_originating_address d1 = dlv_originating_address d" using assms(11) by (simp_all add: d1_def)
  note t1 = t [folded d1_def, unfolded Let_def]
  show ?thesis
  proof (cases "sub_user_data_header_indicator s")
    case False
    then show ?thesis using dec [of 0 d1] d1 unfolding t1 by (auto simp: udh_septets_of_def)
  next
    case True
    let ?a = "sub_concatenate_refnum s" and ?b = "sub_concatenate_maxmsg s" and ?c = "sub_concatenate_seqnum s"
    have "take 6 ud = [5, 0, 3, ?a, ?b, ?c]" using assms(8) True by (simp add: user_data_header_def numeral_eq_Suc)
    then have h: "drop (pos + 10) p = [5, 0, 3, ?a, ?b, ?c] @ drop 6 ud" unfolding ud by (metis append_take_drop_id)
    have r: "rd p (pos + 10) = Inr 5" using rd_at [OF h, of 0] by simp
    have l: "udh_loop p (pos + 11) (pos + 10 + unat (5 :: u8)) d1 =
      Inr (d1\<lparr>dlv_concatenate_refnum := ?a, dlv_concatenate_maxmsg := ?b, dlv_concatenate_seqnum := ?c\<rparr>)"
    proof -
      have "pos + 11 = pos + 10 + 1" "pos + 10 + unat (5 :: u8) = pos + 10 + 5" by simp_all
      then show ?thesis using udh_loop_concatenated [OF h, of d1] by (simp only:)
    qed
    have "vgsm_octets_to_septets (unat (5 :: u8) + 1) = udh_septets_of s" using True by (simp add: vgsm_octets_to_septets_def udh_septets_of_def)
    then show ?thesis
      using dec [of "uint (5 :: u8)" "d1\<lparr>dlv_concatenate_refnum := ?a, dlv_concatenate_maxmsg := ?b, dlv_concatenate_seqnum := ?c\<rparr>"] d1 True
      unfolding t1 r bind_res_simps l by auto
  qed
qed

text \<open>
  A text arrives as it was written. The user data of a message prepared by \<open>vgsm_sms_submit_prepare\<close>, passed on
  by the network in a delivery with any addresses and time stamp, is decoded by \<open>vgsm_sms_deliver_init_from_pdu\<close> to
  the same text; the addresses are those of the delivery, and a part of a concatenated message keeps its
  reference, number of parts and place.
\<close>

theorem sms_text_delivered:
  assumes "sub_pdu sms = None" "length (digits (sub_dest sms)) \<le> 22" "basic_text (sub_text sms)"
    "udh_septets_of (submit_ready sms) + length (sub_text sms) < 160"
    "number_ok smcc" "number_ok oa" "bit sdp 6 = sub_user_data_header_indicator (submit_ready sms)"
    "length ts = 7" "mktime (ts_fields ts) \<noteq> -1"
  shows "\<exists>sms' udl ud dlv. vgsm_sms_submit_prepare sms = Inr (0, sms') \<and>
     sub_pdu sms' = Some (submit_smcc sms @ submit_header (submit_ready sms) udl @ ud) \<and>
     vgsm_sms_deliver_init_from_pdu mktime (to_hex (deliver_pdu smcc sdp oa pid (dcs_octet (submit_ready sms)) ts udl ud)) = Inr (Some dlv) \<and>
     dlv_text dlv = Some (sub_text sms) \<and> dlv_smcc_address dlv = smcc \<and> dlv_originating_address dlv = oa \<and>
     (sub_user_data_header_indicator (submit_ready sms) \<longrightarrow>
        dlv_concatenate_refnum dlv = sub_concatenate_refnum sms \<and> dlv_concatenate_maxmsg dlv = sub_concatenate_maxmsg sms \<and>
        dlv_concatenate_seqnum dlv = sub_concatenate_seqnum sms)"
proof -
  let ?s = "submit_ready sms" and ?ws = "sub_text sms"
  let ?udl = "udh_septets_of ?s + length ?ws"
  obtain ud sms' where u: "vgsm_sms_submit_prepare sms = Inr (0, sms')"
    "sub_pdu sms' = Some (submit_smcc sms @ submit_header ?s (word_of_nat ?udl) @ ud)"
    "length ud = vgsm_septets_to_octets ?udl" "take (length (user_data_header ?s)) ud = user_data_header ?s"
    "packed ud (udh_septets_of ?s) (gsm_septets ?ws)"
    using submit_layout [OF assms(1-4)] by blast
  let ?p = "deliver_pdu smcc sdp oa pid (dcs_octet ?s) ts (word_of_nat ?udl) ud"
  obtain pos d where d: "drop pos ?p = [pid, dcs_octet ?s] @ ts @ [word_of_nat ?udl] @ ud"
    "vgsm_sms_deliver_init_from_pdu mktime (to_hex ?p) = decode_tail mktime ?p pos d"
    "dlv_user_data_header_indicator d = bit sdp 6" "dlv_smcc_address d = smcc" "dlv_originating_address d = oa"
    using deliver_read [OF assms(5,6) refl, of sdp pid "dcs_octet ?s" ts "word_of_nat ?udl" ud mktime] by auto
  have "sub_alphabet ?s = VGSM_SMS_DCS_ALPHABET_DEFAULT" using assms(3) by (auto simp: submit_ready_def basic_text_def)
  moreover have "sub_concatenate_refnum ?s = sub_concatenate_refnum sms" "sub_concatenate_maxmsg ?s = sub_concatenate_maxmsg sms"
    "sub_concatenate_seqnum ?s = sub_concatenate_seqnum sms" by (simp_all add: submit_ready_def)
  ultimately show ?thesis
    using decode_submitted [of ?ws ?udl ?s ts mktime ud pos ?p pid d, OF assms(3) refl assms(4,8,9) _ u(3-5) d(1)] d(2-5) assms(7) u(1,2)
    by metis
qed

definition example_number :: vgsm_number where
  "example_number = \<lparr>digits = [0x33, 0x39, 0x31], np = VGSM_NP_ISDN, ton = VGSM_TON_INTERNATIONAL\<rparr>"

definition example_submit :: vgsm_sms_submit where
  "example_submit = \<lparr>sub_smcc_address = example_number, sub_reject_duplicates = False, sub_reply_path = False,
     sub_user_data_header_indicator = False, sub_status_report_request = False, sub_message_reference = 0,
     sub_dest = example_number, sub_validity_period = 3600, sub_message_class = 1,
     sub_alphabet = VGSM_SMS_DCS_ALPHABET_DEFAULT, sub_concatenate_refnum = 7, sub_concatenate_maxmsg = 2,
     sub_concatenate_seqnum = 1, sub_text = [0x48, 0x40, 0xE8], sub_pdu = None, sub_pdu_tp_len = 0\<rparr>"

theorem submit_in_bounds_witness:
  "\<exists>err sms'. vgsm_sms_submit_prepare example_submit = Inr (err, sms')"
  using submit_in_bounds [of example_submit] by (auto simp: example_submit_def example_number_def)

theorem sms_text_delivered_witness:
  "\<exists>udl ud dlv. vgsm_sms_deliver_init_from_pdu (\<lambda>_. 0)
       (to_hex (deliver_pdu example_number 0x44 example_number 0 (dcs_octet (submit_ready example_submit)) [1, 2, 3, 4, 5, 6, 7] udl ud)) = Inr (Some dlv) \<and>
     dlv_text dlv = Some [0x48, 0x40, 0xE8] \<and> dlv_concatenate_maxmsg dlv = 2"
proof -
  have b: "basic_text (sub_text example_submit)" by code_simp
  have h: "number_ok example_number" "length (digits (sub_dest example_submit)) \<le> 22"
    "bit (0x44 :: u8) 6 = sub_user_data_header_indicator (submit_ready example_submit)"
    "udh_septets_of (submit_ready example_submit) + length (sub_text example_submit) < 160" "sub_pdu example_submit = None"
    by (code_simp, code_simp, code_simp, code_simp, simp add: example_submit_def)
  have i: "sub_user_data_header_indicator (submit_ready example_submit)" by code_simp
  show ?thesis
    using sms_text_delivered [OF h(5) h(2) b h(4) h(1) h(1) h(3), of "[1, 2, 3, 4, 5, 6, 7]" "\<lambda>_. 0" 0] i
    by (auto simp: example_submit_def)
qed

text \<open>A header longer than the user data makes the length of the text negative, and the zero that ends it is written before the buffer.\<close>

lemma short_user_data_overrun:
  "vgsm_sms_deliver_init_from_pdu (\<lambda>_. 0)
     (to_hex (deliver_pdu example_number 0x44 example_number 0 0 [1, 2, 3, 4, 5, 6, 7] 6 [5, 0, 3, 1, 1, 1])) = Inl OutOfBounds"
  by code_simp

text \<open>The header of a message in UCS-2 is read as the beginning of its text, which loses as much at its end.\<close>

lemma ucs2_header_in_text:
  "(case vgsm_sms_deliver_init_from_pdu (\<lambda>_. 0)
      (to_hex (deliver_pdu example_number 0x44 example_number 0 8 [1, 2, 3, 4, 5, 6, 7] 10 [5, 0, 3, 1, 1, 1, 4, 0x10, 4, 0x11])) of
      Inr (Some dlv) \<Rightarrow> dlv_text dlv = Some [0x0500, 0x0301] | _ \<Rightarrow> False)"
  by code_simp

text \<open>A truncated message is read beyond its end.\<close>

lemma truncated_pdu_overrun: "vgsm_sms_deliver_init_from_pdu (\<lambda>_. 0) (to_hex [1, 0x91, 0x04]) = Inl OutOfBounds"
  by code_simp

end
