(* ===== verification/Vgsm_Comm.thy ===== *)
theory Vgsm_Comm
  imports Vgsm_Sms
begin

text \<open>
  The serial line of a GSM module (\<^verbatim>\<open>src/chan_vgsm/comm.c\<close>): commands are sent one at a time, the module echoes
  each and answers with lines up to a final one, and in between it sends codes of its own, which may have a second line. The
  thread of the line reads what has come, runs its timer and takes the next request; two more threads take what is complete to its
  users. Characters are octets, strings are without the zero that ends them.
\<close>

section \<open>Data\<close>

definition asc :: "string \<Rightarrow> octets" where "asc = map of_char"

definition MILLISEC :: int where "MILLISEC = 1000"
definition SEC :: int where "SEC = 1000000"
definition ECHO_TIMEOUT :: int where "ECHO_TIMEOUT = 800 * MILLISEC"
definition URC_TIMEOUT :: int where "URC_TIMEOUT = 500 * MILLISEC"
definition SMS_ECHO_TIMEOUT :: int where "SMS_ECHO_TIMEOUT = 1 * SEC"
definition READING_URC_TIMEOUT :: int where "READING_URC_TIMEOUT = 3 * SEC"

definition CME_ERROR_BASE :: int where "CME_ERROR_BASE = 1000"
definition CMS_ERROR_BASE :: int where "CMS_ERROR_BASE = 2000"
definition VGSM_RESP_OK :: int where "VGSM_RESP_OK = 0"
definition VGSM_RESP_CONNECT :: int where "VGSM_RESP_CONNECT = 1"
definition VGSM_RESP_NO_CARRIER :: int where "VGSM_RESP_NO_CARRIER = 2"
definition VGSM_RESP_ERROR :: int where "VGSM_RESP_ERROR = 3"
definition VGSM_RESP_NO_DIALTONE :: int where "VGSM_RESP_NO_DIALTONE = 4"
definition VGSM_RESP_BUSY :: int where "VGSM_RESP_BUSY = 5"
definition VGSM_RESP_NO_ANSWER :: int where "VGSM_RESP_NO_ANSWER = 6"
definition VGSM_RESP_UNKNOWN :: int where "VGSM_RESP_UNKNOWN = 100"
definition VGSM_RESP_FAILED :: int where "VGSM_RESP_FAILED = 102"

datatype vgsm_comm_state =
  VGSM_COMM_CLOSED | VGSM_COMM_CLOSING | VGSM_COMM_FAILED | VGSM_COMM_RECOVERING | VGSM_COMM_IDLE
| VGSM_COMM_READING_URC | VGSM_COMM_AWAITING_SMS_ECHO | VGSM_COMM_AWAITING_SMS_ECHO_1A | VGSM_COMM_AWAITING_ECHO
| VGSM_COMM_AWAITING_ECHO_READING_URC | VGSM_COMM_READING_RESPONSE

datatype vgsm_comm_message_type = VGSM_COMM_MSG_CLOSE | VGSM_COMM_MSG_REFRESH | VGSM_COMM_MSG_INITIALIZE

text \<open>
  A request of a user, or a code of the module. \<open>req_addr\<close> is where it is: its owner keeps the pointer and waits for
  \<open>req_ready\<close>. The class of a code is its index in the table. The callback of a request is the user's and left out.
\<close>

record vgsm_req =
  req_addr :: nat
  req_refcnt :: int
  request :: octets
  sms_text_pdu :: "octets option"
  retransmit_cnt :: int
  req_ready :: bool
  req_timeout :: int
  req_lines :: "octets list"
  req_err :: int
  urc_class :: "nat option"

record vgsm_urc_class =
  urc_code :: octets
  detect_end :: "(vgsm_req \<Rightarrow> bool) option"

datatype serial_op = Serial_write octets | Serial_flush

text \<open>
  \<open>comm_buf\<close> is what is known of the array \<open>buf\<close>: the octets in front of the zero written last. \<open>comm_now\<close> is the time, \<open>comm_timer\<close>
  the time at which the timer expires when it is pending. \<open>completed\<close> and \<open>urcs_handled\<close> are what the two other threads have
  taken from their queues.
\<close>

record vgsm_comm =
  comm_state :: vgsm_comm_state
  comm_now :: int
  comm_timer :: "int option"
  comm_buf :: octets
  requests_queue :: "vgsm_req list"
  current_req :: "vgsm_req option"
  current_urc :: "vgsm_req option"
  urc_queue :: "vgsm_req list"
  completion_queue :: "vgsm_req list"
  urc_classes :: "vgsm_urc_class list"
  serial_ops :: "serial_op list"
  completed :: "vgsm_req list"
  urcs_handled :: "vgsm_req list"
  next_req :: nat

definition vgsm_comm_init :: "vgsm_urc_class list \<Rightarrow> vgsm_comm" where
  "vgsm_comm_init classes =
     \<lparr>comm_state = VGSM_COMM_CLOSED, comm_now = 0, comm_timer = None, comm_buf = [], requests_queue = [], current_req = None,
      current_urc = None, urc_queue = [], completion_queue = [], urc_classes = classes, serial_ops = [], completed = [],
      urcs_handled = [], next_req = 1\<rparr>"

definition handle_cmt_end :: "vgsm_req \<Rightarrow> bool" where "handle_cmt_end urc = True"
definition handle_cbm_end :: "vgsm_req \<Rightarrow> bool" where "handle_cbm_end urc = True"
definition handle_cds_end :: "vgsm_req \<Rightarrow> bool" where "handle_cds_end urc = True"

text \<open>The table of the codes (\<^verbatim>\<open>me.c\<close>), without their handlers.\<close>

definition vgsm_me_urcs :: "vgsm_urc_class list" where
  "vgsm_me_urcs =
     map (\<lambda>(code, e). \<lparr>urc_code = asc code, detect_end = e\<rparr>)
     ([(''NO CARRIER'', None), (''NO DIALTONE'', None), (''BUSY'', None), (''RING: '', None), (''+CRING: '', None), (''+CREG: '', None),
       (''+CUSD: '', None), (''+CCWA: '', None), (''+CLIP: '', None), (''+COLP: '', None), (''+CCCM: '', None), (''+CSSI: '', None),
       (''+CSSU: '', None), (''+ALARM: '', None), (''+CGREG: '', None), (''+CMTI: '', None), (''+CMT: '', Some handle_cmt_end),
       (''+CBM: '', Some handle_cbm_end), (''+CDS: '', Some handle_cds_end), (''+CDSI: '', None), (''+CIEV: '', None),
       (''+CGEV: '', None), (''+CALA: '', None), (''^SYSSTART'', None), (''^SHUTDOWN'', None), (''^SLCC: '', None), (''^SALS: '', None),
       (''^SCWA'', None), (''^SIS: '', None), (''^SISR: '', None), (''^SISW: '', None), (''^SMGO'', None), (''^SCKS: '', None),
       (''^SBC: '', None), (''^SSTN: '', None), (''^SCTM_A: '', None), (''^SCTM_B: '', None)])"

section \<open>References, timer and states\<close>

definition vgsm_req_get :: "vgsm_req \<Rightarrow> vgsm_req res" where
  "vgsm_req_get r = (if 0 < req_refcnt r \<and> req_refcnt r < 100000 then Inr (r\<lparr>req_refcnt := req_refcnt r + 1\<rparr>) else Inl KernelBug)"

text \<open>A request whose last reference is put is freed: \<open>None\<close>.\<close>

definition vgsm_req_put :: "vgsm_req \<Rightarrow> vgsm_req option res" where
  "vgsm_req_put r =
     (if 0 < req_refcnt r \<and> req_refcnt r < 100000
      then Inr (if req_refcnt r = 1 then None else Some (r\<lparr>req_refcnt := req_refcnt r - 1\<rparr>)) else Inl KernelBug)"

text \<open>A reference for a queue is taken and the one of the caller put: the queue has the request.\<close>

definition hand_over :: "vgsm_req \<Rightarrow> vgsm_req res" where
  "hand_over r = bind_res (vgsm_req_get r) (\<lambda>r. bind_res (vgsm_req_put r) (\<lambda>p. case p of None \<Rightarrow> Inl UseAfterFree | Some r \<Rightarrow> Inr r))"

definition vgsm_req_alloc :: "vgsm_comm \<Rightarrow> vgsm_req \<times> vgsm_comm" where
  "vgsm_req_alloc c =
     (\<lparr>req_addr = next_req c, req_refcnt = 1, request = [], sms_text_pdu = None, retransmit_cnt = 0, req_ready = False, req_timeout = 0,
       req_lines = [], req_err = 0, urc_class = None\<rparr>, c\<lparr>next_req := next_req c + 1\<rparr>)"

definition vgsm_timer_stop :: "vgsm_comm \<Rightarrow> vgsm_comm" where
  "vgsm_timer_stop c = c\<lparr>comm_timer := None\<rparr>"

definition vgsm_timer_start_delta :: "int \<Rightarrow> vgsm_comm \<Rightarrow> vgsm_comm" where
  "vgsm_timer_start_delta delta c = c\<lparr>comm_timer := Some (comm_now c + delta)\<rparr>"

definition vgsm_comm_change_state :: "vgsm_comm_state \<Rightarrow> int \<Rightarrow> vgsm_comm \<Rightarrow> vgsm_comm" where
  "vgsm_comm_change_state newstate timeout c =
     (if timeout = -1 then vgsm_timer_stop c else if timeout \<noteq> -2 then vgsm_timer_start_delta timeout c else c)
     \<lparr>comm_state := newstate\<rparr>"

definition serial_write :: "octets \<Rightarrow> vgsm_comm \<Rightarrow> vgsm_comm" where
  "serial_write s c = c\<lparr>serial_ops := serial_ops c @ [Serial_write s]\<rparr>"

definition vgsm_comm_send_recovery_sequence :: "vgsm_comm \<Rightarrow> vgsm_comm" where
  "vgsm_comm_send_recovery_sequence c = serial_write (asc ''AT E1 V1 Q0'' @ [13]) c"

text \<open>\<open>sprintf\<close> with \<open>%02x\<close>.\<close>

definition hex_digit_x :: "nat \<Rightarrow> u8" where
  "hex_digit_x n = (if n < 10 then word_of_nat (n + 0x30) else word_of_nat (n - 10 + 0x61))"

definition hex_02x :: "octets \<Rightarrow> octets" where
  "hex_02x p = concat (map (\<lambda>x. [hex_digit_x (unat x div 16), hex_digit_x (unat x mod 16)]) p)"

text \<open>\<open>text\<close> is what \<open>vsnprintf\<close> makes of the format, \<open>pdu\<close> the octets of a short message or none. The caller gets the address.\<close>

definition vgsm_req_make_va :: "octets \<Rightarrow> int \<Rightarrow> octets \<Rightarrow> vgsm_comm \<Rightarrow> (nat option \<times> vgsm_comm) res" where
  "vgsm_req_make_va txt timeout pdu c =
     (let (req, c) = vgsm_req_alloc c in
      if 82 - 2 \<le> length txt then Inr (None, c)
      else bind_res (vgsm_req_get (req\<lparr>request := txt @ [13], req_timeout := timeout + 100 * MILLISEC, retransmit_cnt := 3,
               sms_text_pdu := (if pdu \<noteq> [] then Some (hex_02x pdu) else None)\<rparr>))
             (\<lambda>req. Inr (Some (req_addr req), c\<lparr>requests_queue := requests_queue c @ [req]\<rparr>)))"

section \<open>What has been read\<close>

definition c_string :: "octets \<Rightarrow> octets" where "c_string = takeWhile (\<lambda>x. x \<noteq> 0)"

definition char_at :: "octets \<Rightarrow> nat \<Rightarrow> u8" where "char_at s i = (if i < length s then s ! i else 0)"

text \<open>\<open>strstr\<close> for carriage return and line feed.\<close>

fun find_crlf :: "octets \<Rightarrow> nat option" where
  "find_crlf (x # y # s) = (if x = 13 \<and> y = 10 then Some 0 else map_option Suc (find_crlf (y # s)))"
| "find_crlf _ = None"

fun skip_spaces :: "octets \<Rightarrow> octets" where
  "skip_spaces (x # s) = (if x = 32 \<or> 9 \<le> x \<and> x \<le> 13 then skip_spaces s else x # s)"
| "skip_spaces [] = []"

fun decimal :: "octets \<Rightarrow> int \<Rightarrow> int" where
  "decimal (x # s) n = (if 0x30 \<le> x \<and> x \<le> 0x39 then decimal s (10 * n + uint x - 0x30) else n)"
| "decimal [] n = n"

text \<open>
  The value of a C \<open>int\<close> whose low 32 bits are those of \<open>n\<close>. \<open>atoi\<close> reads a \<open>long\<close>, which stops at its bounds, and keeps
  the low 32 bits of it.
\<close>

definition c_int :: "int \<Rightarrow> int" where "c_int n = signed_take_bit 31 n"

definition strtol :: "octets \<Rightarrow> int" where
  "strtol s = max (- (2 ^ 63)) (min (2 ^ 63 - 1) (case skip_spaces s of [] \<Rightarrow> 0
     | x # r \<Rightarrow> if x = 0x2d then - decimal r 0 else if x = 0x2b then decimal r 0 else decimal (x # r) 0))"

definition atoi :: "octets \<Rightarrow> int" where "atoi s = c_int (strtol s)"

definition starts_with :: "octets \<Rightarrow> octets \<Rightarrow> bool" where
  "starts_with p s \<longleftrightarrow> take (length p) s = p"

definition vgsm_req_final_response_code :: "octets \<Rightarrow> int" where
  "vgsm_req_final_response_code line =
     (if line = asc ''OK'' then VGSM_RESP_OK
      else if line = asc ''CONNECT'' then VGSM_RESP_CONNECT
      else if line = asc ''NO CARRIER'' then VGSM_RESP_NO_CARRIER
      else if line = asc ''ERROR'' then VGSM_RESP_ERROR
      else if line = asc ''NO DIALTONE'' then VGSM_RESP_NO_DIALTONE
      else if line = asc ''BUSY'' then VGSM_RESP_BUSY
      else if line = asc ''NO ANSWER'' then VGSM_RESP_NO_ANSWER
      else if starts_with (asc ''+CME ERROR: '') line then c_int (atoi (drop 12 line) + CME_ERROR_BASE)
      else if starts_with (asc ''+CMS ERROR: '') line then c_int (atoi (drop 12 line) + CMS_ERROR_BASE)
      else VGSM_RESP_UNKNOWN)"

fun match_echo_loop :: "octets \<Rightarrow> octets \<Rightarrow> int \<Rightarrow> int" where
  "match_echo_loop _ [] n = n"
| "match_echo_loop [] (x # snt) n = 0"
| "match_echo_loop (b # buf) (x # snt) n = (if b = x then match_echo_loop buf snt (n + 1) else -1)"

definition vgsm_comm_match_echo :: "vgsm_comm \<Rightarrow> octets \<Rightarrow> int" where
  "vgsm_comm_match_echo c sent = match_echo_loop (c_string (comm_buf c)) sent 0"

text \<open>
  The request in progress is done: its result is set, the completion queue gets it, and whoever waits for it is woken.
\<close>

definition complete_req :: "int \<Rightarrow> vgsm_req \<Rightarrow> vgsm_comm \<Rightarrow> vgsm_comm res" where
  "complete_req err req c =
     bind_res (hand_over (req\<lparr>req_err := err, req_ready := True\<rparr>)) (\<lambda>req. Inr (c\<lparr>completion_queue := completion_queue c @ [req]\<rparr>))"

text \<open>A line of the response: it is kept with the request, which the final one completes.\<close>

definition response_line :: "octets \<Rightarrow> vgsm_req \<Rightarrow> vgsm_comm \<Rightarrow> vgsm_comm res" where
  "response_line line req c =
     (let req = req\<lparr>req_lines := req_lines req @ [line]\<rparr>; err = vgsm_req_final_response_code line in
      if err \<noteq> VGSM_RESP_UNKNOWN
      then complete_req err req ((vgsm_comm_change_state VGSM_COMM_IDLE (-1) c)\<lparr>current_req := None\<rparr>)
      else Inr (c\<lparr>current_req := Some req\<rparr>))"

text \<open>
  How many octets of the buffer the response takes, zero to wait for more. The search for the end of the line begins at the
  third octet of the buffer; when the buffer has one, it is behind what is known of the array.
\<close>

definition vgsm_match_response :: "vgsm_comm \<Rightarrow> (nat \<times> vgsm_comm) res" where
  "vgsm_match_response c =
     (case current_req c of None \<Rightarrow> Inl KernelBug | Some req \<Rightarrow>
      let s = c_string (comm_buf c); p = (if char_at s 0 = 13 then 1 else 0) in
      if char_at s 0 = 0 \<or> char_at s p = 0 then Inr (0, c)
      else let b = (if char_at s p = 10 then p + 1 else p) in
      if starts_with (asc ''> '') (drop b s)
      then (case sms_text_pdu req of
              None \<Rightarrow> Inr (4, serial_write [0x1b] c)
            | Some pdu \<Rightarrow> Inr (4, vgsm_comm_change_state VGSM_COMM_AWAITING_SMS_ECHO SMS_ECHO_TIMEOUT (serial_write pdu c)))
      else if length (comm_buf c) < 2 then Inl OutOfBounds
      else case find_crlf (c_string (drop 2 (comm_buf c))) of
             None \<Rightarrow> Inr (0, c)
           | Some e \<Rightarrow> bind_res (response_line (drop b (take (e + 2) s)) req c) (\<lambda>c. Inr (e + 4, c)))"

text \<open>Where the line of a code begins, or at once how many octets to take. A code need not begin with carriage return and line feed.\<close>

definition urc_begin :: "octets \<Rightarrow> nat + nat" where
  "urc_begin s =
     (if char_at s 0 = 0 then Inl 0
      else if char_at s 0 \<noteq> 13 then (if char_at s 0 = 0x2b \<or> char_at s 0 = 0x5e then Inr 0 else Inl 1)
      else if char_at s 1 = 0 then Inl 0
      else if char_at s 1 \<noteq> 10 then Inl 1
      else if char_at s 2 = 0 then Inl 0
      else if char_at s 2 = 13 then (if char_at s 3 = 0 then Inl 0 else if char_at s 3 \<noteq> 10 then Inl 1 else Inr 4)
      else Inr 2)"

fun find_class :: "vgsm_urc_class list \<Rightarrow> octets \<Rightarrow> nat option" where
  "find_class [] line = None"
| "find_class (k # ks) line = (if starts_with (urc_code k) line then Some 0 else map_option Suc (find_class ks line))"

text \<open>The line of a code: the code is queued, or kept when its end is still to come. Codes without a class are skipped.\<close>

definition urc_line :: "octets \<Rightarrow> vgsm_comm \<Rightarrow> vgsm_comm res" where
  "urc_line line c =
     (if current_urc c \<noteq> None then Inl KernelBug
      else case find_class (urc_classes c) line of None \<Rightarrow> Inr c | Some i \<Rightarrow>
      let (urc, c) = vgsm_req_alloc c;
          c = (if comm_state c = VGSM_COMM_AWAITING_ECHO then vgsm_comm_change_state VGSM_COMM_AWAITING_ECHO ECHO_TIMEOUT c else c) in
      bind_res (hand_over (urc\<lparr>urc_class := Some i, req_lines := [line]\<rparr>)) (\<lambda>urc.
      Inr (if detect_end (urc_classes c ! i) \<noteq> None
           then vgsm_timer_start_delta URC_TIMEOUT
                  ((if comm_state c = VGSM_COMM_AWAITING_ECHO
                    then vgsm_comm_change_state VGSM_COMM_AWAITING_ECHO_READING_URC ECHO_TIMEOUT c
                    else vgsm_comm_change_state VGSM_COMM_READING_URC READING_URC_TIMEOUT c)\<lparr>current_urc := Some urc\<rparr>)
           else c\<lparr>urc_queue := urc_queue c @ [urc]\<rparr>)))"

definition vgsm_comm_match_urc :: "vgsm_comm \<Rightarrow> (nat \<times> vgsm_comm) res" where
  "vgsm_comm_match_urc c =
     (let s = c_string (comm_buf c) in
      case urc_begin s of Inl n \<Rightarrow> Inr (n, c) | Inr b \<Rightarrow>
      case find_crlf (drop b s) of None \<Rightarrow> Inr (0, c) | Some e \<Rightarrow>
      bind_res (urc_line (take e (drop b s)) c) (\<lambda>c. Inr (b + e + 2, c)))"

text \<open>A further line of the code that is being read.\<close>

definition urc_cont_line :: "octets \<Rightarrow> vgsm_comm \<Rightarrow> vgsm_comm res" where
  "urc_cont_line line c =
     (case current_urc c of None \<Rightarrow> Inl KernelBug | Some urc \<Rightarrow>
      let urc = urc\<lparr>req_lines := req_lines urc @ [line]\<rparr>;
          c = (if comm_state c = VGSM_COMM_AWAITING_ECHO_READING_URC then vgsm_timer_start_delta ECHO_TIMEOUT c else c) in
      case urc_class urc of None \<Rightarrow> Inl NullDereference | Some i \<Rightarrow>
      case detect_end (urc_classes c ! i) of None \<Rightarrow> Inl KernelBug | Some f \<Rightarrow>
      Inr (if f urc
           then let c = c\<lparr>urc_queue := urc_queue c @ [urc], current_urc := None\<rparr> in
                if comm_state c = VGSM_COMM_AWAITING_ECHO_READING_URC
                then vgsm_comm_change_state VGSM_COMM_AWAITING_ECHO ECHO_TIMEOUT c
                else vgsm_comm_change_state VGSM_COMM_IDLE (-1) c
           else c\<lparr>current_urc := Some urc\<rparr>))"

definition vgsm_comm_match_urc_cont :: "vgsm_comm \<Rightarrow> (nat \<times> vgsm_comm) res" where
  "vgsm_comm_match_urc_cont c =
     (let s = c_string (comm_buf c) in
      case find_crlf s of None \<Rightarrow> Inr (0, c) | Some e \<Rightarrow> bind_res (urc_cont_line (take e s) c) (\<lambda>c. Inr (e + 2, c)))"

text \<open>One turn of the loop: how many octets to take (\<open>npull\<close>), and what it does. \<open>nread\<close> is what was read, in the first turn.\<close>

definition receive_turn :: "nat \<Rightarrow> vgsm_comm \<Rightarrow> (nat \<times> vgsm_comm) res" where
  "receive_turn nread c =
     (case comm_state c of
        VGSM_COMM_CLOSED \<Rightarrow> Inr (0, c)
      | VGSM_COMM_CLOSING \<Rightarrow> Inr (0, c)
      | VGSM_COMM_FAILED \<Rightarrow> Inr (nread, c)
      | VGSM_COMM_RECOVERING \<Rightarrow> Inr (nread, c)
      | VGSM_COMM_IDLE \<Rightarrow> vgsm_comm_match_urc c
      | VGSM_COMM_AWAITING_ECHO \<Rightarrow>
          (case current_req c of None \<Rightarrow> Inl NullDereference | Some req \<Rightarrow>
           let nmatch = vgsm_comm_match_echo c (request req) in
           if 0 < nmatch then Inr (nat nmatch, vgsm_comm_change_state VGSM_COMM_READING_RESPONSE (req_timeout req) c)
           else if nmatch \<noteq> 0 then vgsm_comm_match_urc c else Inr (0, c))
      | VGSM_COMM_READING_URC \<Rightarrow> vgsm_comm_match_urc_cont c
      | VGSM_COMM_AWAITING_ECHO_READING_URC \<Rightarrow> vgsm_comm_match_urc_cont c
      | VGSM_COMM_AWAITING_SMS_ECHO \<Rightarrow>
          (case Option.bind (current_req c) sms_text_pdu of None \<Rightarrow> Inl NullDereference | Some pdu \<Rightarrow>
           let nmatch = vgsm_comm_match_echo c pdu in
           if 0 < nmatch then Inr (nat nmatch, vgsm_comm_change_state VGSM_COMM_AWAITING_SMS_ECHO_1A (-2) (serial_write [0x1a] c))
           else Inr (0, c))
      | VGSM_COMM_AWAITING_SMS_ECHO_1A \<Rightarrow>
          (case current_req c of None \<Rightarrow> Inl NullDereference | Some req \<Rightarrow>
           let nmatch = vgsm_comm_match_echo c [0x1a] in
           if 0 < nmatch then Inr (nat nmatch, vgsm_comm_change_state VGSM_COMM_READING_RESPONSE (req_timeout req) c)
           else Inr (0, c))
      | VGSM_COMM_READING_RESPONSE \<Rightarrow> vgsm_match_response c)"

text \<open>The loop: what is taken leaves the buffer; more than is known of the array reads what was left behind the zero.\<close>

function receive_loop :: "nat \<Rightarrow> vgsm_comm \<Rightarrow> vgsm_comm res" where
  "receive_loop nread c =
     (case receive_turn nread c of Inl e \<Rightarrow> Inl e | Inr (npull, c') \<Rightarrow>
      if npull = 0 then Inr c'
      else if length (comm_buf c) < npull then Inl OutOfBounds
      else receive_loop 0 (c'\<lparr>comm_buf := c_string (drop npull (comm_buf c))\<rparr>))"
  by pat_completeness auto
termination
  by (relation "measure (\<lambda>(_, c). length (comm_buf c))")
    (auto simp: c_string_def intro!: le_less_trans [OF length_takeWhile_le])

declare receive_loop.simps [simp del]

text \<open>\<open>avail\<close> is what the line has, of which as much is read as the array has room for.\<close>

definition vgsm_comm_receive :: "octets \<Rightarrow> vgsm_comm \<Rightarrow> vgsm_comm res" where
  "vgsm_comm_receive avail c =
     (let buf = c_string (comm_buf c); data = take (2048 - length buf - 1) avail in
      receive_loop (length data) (c\<lparr>comm_buf := buf @ data\<rparr>))"

section \<open>The threads\<close>

definition vgsm_process_next_request :: "vgsm_comm \<Rightarrow> vgsm_comm res" where
  "vgsm_process_next_request c =
     (if current_req c \<noteq> None then Inl KernelBug
      else case requests_queue c of [] \<Rightarrow> Inr c
         | req # rs \<Rightarrow>
             Inr (vgsm_comm_change_state VGSM_COMM_AWAITING_ECHO ECHO_TIMEOUT
                    (serial_write (request req) (c\<lparr>requests_queue := rs, current_req := Some req\<rparr>))))"

fun flush_loop :: "vgsm_req list \<Rightarrow> vgsm_comm \<Rightarrow> vgsm_comm res" where
  "flush_loop [] c = Inr c"
| "flush_loop (req # rs) c = bind_res (complete_req VGSM_RESP_FAILED req (c\<lparr>requests_queue := rs\<rparr>)) (flush_loop rs)"

definition vgsm_flush_requests :: "vgsm_comm \<Rightarrow> vgsm_comm res" where
  "vgsm_flush_requests c = flush_loop (requests_queue c) c"

definition vgsm_comm_timer_fired :: "vgsm_comm \<Rightarrow> vgsm_comm res" where
  "vgsm_comm_timer_fired c =
     (case comm_state c of
        VGSM_COMM_RECOVERING \<Rightarrow>
          (case current_req c of
             None \<Rightarrow> Inr (vgsm_comm_change_state VGSM_COMM_IDLE (-1) c)
           | Some req \<Rightarrow>
               let req = req\<lparr>retransmit_cnt := retransmit_cnt req - 1\<rparr> in
               if retransmit_cnt req = 0
               then complete_req VGSM_RESP_FAILED req ((vgsm_comm_change_state VGSM_COMM_FAILED (-1) c)\<lparr>current_req := None\<rparr>)
               else if 80 < length (request req) then Inl KernelBug
               else Inr (vgsm_comm_change_state VGSM_COMM_AWAITING_ECHO ECHO_TIMEOUT
                      (serial_write (request req) (c\<lparr>current_req := Some req\<rparr>))))
      | VGSM_COMM_CLOSED \<Rightarrow> Inr c
      | VGSM_COMM_CLOSING \<Rightarrow> Inr c
      | VGSM_COMM_FAILED \<Rightarrow> Inr c
      | VGSM_COMM_IDLE \<Rightarrow> Inr c
      | _ \<Rightarrow>
          bind_res (case current_urc c of None \<Rightarrow> Inr c
                     | Some urc \<Rightarrow> bind_res (vgsm_req_put urc) (\<lambda>_. Inr (c\<lparr>current_urc := None\<rparr>))) (\<lambda>c.
          let c = vgsm_comm_change_state VGSM_COMM_RECOVERING (1 * SEC) c in
          Inr (vgsm_comm_send_recovery_sequence (c\<lparr>serial_ops := serial_ops c @ [Serial_flush], comm_buf := []\<rparr>))))"

text \<open>
  \<open>vgsm_timerset_run\<close> of the set that has this timer. It is out of the set when it fires; after that the set is looked
  through again, but a timer that has been started then does not expire before now.
\<close>

definition vgsm_timerset_run :: "vgsm_comm \<Rightarrow> vgsm_comm res" where
  "vgsm_timerset_run c =
     (case comm_timer c of None \<Rightarrow> Inr c
      | Some expires \<Rightarrow> if expires < comm_now c then vgsm_comm_timer_fired (c\<lparr>comm_timer := None\<rparr>) else Inr c)"

text \<open>\<open>True\<close>: the thread ends.\<close>

definition vgsm_comm_receive_message :: "vgsm_comm_message_type \<Rightarrow> vgsm_comm \<Rightarrow> (bool \<times> vgsm_comm) res" where
  "vgsm_comm_receive_message m c =
     (if m = VGSM_COMM_MSG_CLOSE then Inr (True, vgsm_comm_change_state VGSM_COMM_CLOSING (-1) c)
      else if m = VGSM_COMM_MSG_REFRESH then Inr (False, c)
      else if comm_state c = VGSM_COMM_CLOSED \<or> comm_state c = VGSM_COMM_CLOSING then Inl KernelBug
      else Inr (False, c))"

text \<open>
  The two threads that empty a queue: one takes the first entry, gives it to its handler or callback, and puts its reference.
\<close>

definition completion_turn :: "vgsm_comm \<Rightarrow> vgsm_comm res" where
  "completion_turn c =
     (case completion_queue c of [] \<Rightarrow> Inr c
      | req # rs \<Rightarrow> bind_res (vgsm_req_put req) (\<lambda>_. Inr (c\<lparr>completion_queue := rs, completed := completed c @ [req]\<rparr>)))"

definition urc_turn :: "vgsm_comm \<Rightarrow> vgsm_comm res" where
  "urc_turn c =
     (case urc_queue c of [] \<Rightarrow> Inr c
      | urc # rs \<Rightarrow>
          if urc_class urc = None then Inl KernelBug
          else bind_res (vgsm_req_put urc) (\<lambda>_. Inr (c\<lparr>urc_queue := rs, urcs_handled := urcs_handled c @ [urc]\<rparr>)))"

fun turns :: "nat \<Rightarrow> (vgsm_comm \<Rightarrow> vgsm_comm res) \<Rightarrow> vgsm_comm \<Rightarrow> vgsm_comm res" where
  "turns 0 f c = Inr c"
| "turns (Suc n) f c = bind_res (f c) (turns n f)"

text \<open>The end of the thread of the line: the two others empty their queues and end, then the line is closed.\<close>

definition comm_thread_exit :: "vgsm_comm \<Rightarrow> vgsm_comm res" where
  "comm_thread_exit c =
     bind_res (turns (length (completion_queue c)) completion_turn c) (\<lambda>c.
     bind_res (turns (length (urc_queue c)) urc_turn c) (\<lambda>c.
     Inr (vgsm_comm_change_state VGSM_COMM_CLOSED (-1) c)))"

definition comm_thread_start :: "vgsm_comm \<Rightarrow> vgsm_comm res" where
  "comm_thread_start c =
     (if comm_state c \<noteq> VGSM_COMM_CLOSED then Inl KernelBug else Inr (vgsm_comm_change_state VGSM_COMM_IDLE (-1) c))"

text \<open>
  One turn of \<open>vgsm_comm_thread_main\<close>: at the time \<open>now\<close> the timer is run and the next request taken, then \<open>poll\<close> returns with
  a message for the thread, octets on the line, both, or neither.
\<close>

definition comm_thread_turn :: "int \<Rightarrow> vgsm_comm_message_type option \<Rightarrow> octets option \<Rightarrow> vgsm_comm \<Rightarrow> vgsm_comm res" where
  "comm_thread_turn now m avail c =
     bind_res (vgsm_timerset_run (c\<lparr>comm_now := now\<rparr>)) (\<lambda>c.
     bind_res (if comm_state c = VGSM_COMM_IDLE then vgsm_process_next_request c
               else if comm_state c = VGSM_COMM_FAILED \<or> comm_state c = VGSM_COMM_CLOSING \<or> comm_state c = VGSM_COMM_CLOSED
               then vgsm_flush_requests c else Inr c) (\<lambda>c.
     bind_res (case m of None \<Rightarrow> Inr (False, c) | Some m \<Rightarrow> vgsm_comm_receive_message m c) (\<lambda>(ends, c).
     if ends then comm_thread_exit c
     else case avail of None \<Rightarrow> Inr c | Some s \<Rightarrow> vgsm_comm_receive s c)))"

text \<open>What happens to the line: turns of its threads in any order, and requests of its users.\<close>

datatype comm_event =
  Thread_turn int "vgsm_comm_message_type option" "octets option"
| Completion_turn
| Urc_turn
| Make_request octets int octets

fun comm_step :: "comm_event \<Rightarrow> vgsm_comm \<Rightarrow> vgsm_comm res" where
  "comm_step (Thread_turn now m avail) c = comm_thread_turn now m avail c"
| "comm_step Completion_turn c = completion_turn c"
| "comm_step Urc_turn c = urc_turn c"
| "comm_step (Make_request txt timeout pdu) c = bind_res (vgsm_req_make_va txt timeout pdu c) (\<lambda>(a, c). Inr c)"

text \<open>The thread of the line runs while the line is open, and time goes on.\<close>

fun comm_event_ok :: "comm_event \<Rightarrow> vgsm_comm \<Rightarrow> bool" where
  "comm_event_ok (Thread_turn now m avail) c \<longleftrightarrow> comm_state c \<noteq> VGSM_COMM_CLOSED \<and> comm_now c \<le> now"
| "comm_event_ok (Make_request txt timeout pdu) c \<longleftrightarrow> 0 \<le> timeout"
| "comm_event_ok _ c \<longleftrightarrow> True"


section \<open>Fields of a line\<close>

text \<open>
  \<open>get_token\<close> (\<^verbatim>\<open>util.c\<close>) copies a field to an array of \<open>n\<close> characters, up to a comma or the end; what is in quotes may have commas.
  It gives up at \<open>n - 2\<close> characters, but reaching them inside quotes only ends the inner loop.
\<close>

fun token_quoted :: "nat \<Rightarrow> octets \<Rightarrow> octets \<Rightarrow> (octets \<times> octets) res" where
  "token_quoted n tok [] = Inr (tok, [])"
| "token_quoted n tok (x # p) =
     (if x = 0x22 then Inr (tok, x # p)
      else if n \<le> length tok then Inl OutOfBounds
      else if length tok + 1 = n - 2 then Inr (tok @ [x], p)
      else token_quoted n (tok @ [x]) p)"

lemma token_quoted_length: "token_quoted n tok p = Inr (tok', p') \<Longrightarrow> length p' \<le> length p"
  by (induction n tok p rule: token_quoted.induct) (auto split: if_splits)

definition skip_quoted :: "nat \<Rightarrow> octets \<Rightarrow> octets \<Rightarrow> (octets \<times> octets) res" where
  "skip_quoted n tok p =
     (if p \<noteq> [] \<and> hd p = 0x22
      then bind_res (token_quoted n tok (tl p)) (\<lambda>(tok, p). Inr (tok, if p \<noteq> [] \<and> hd p = 0x22 then tl p else p))
      else Inr (tok, p))"

lemma skip_quoted_length: "skip_quoted n tok p = Inr (tok', p') \<Longrightarrow> length p' \<le> length p"
  by (cases p) (auto simp: skip_quoted_def bind_res_eq_Inr dest!: token_quoted_length split: if_splits)

function token_loop :: "nat \<Rightarrow> octets \<Rightarrow> octets \<Rightarrow> (octets \<times> octets) option res" where
  "token_loop n tok p =
     (case skip_quoted n tok p of Inl e \<Rightarrow> Inl e
      | Inr (tok, []) \<Rightarrow> Inr (Some (tok, []))
      | Inr (tok, x # p) \<Rightarrow>
          if x = 0x2c then Inr (Some (tok, p))
          else if n \<le> length tok then Inl OutOfBounds
          else if length tok + 1 = n - 2 then Inr None
          else token_loop n (tok @ [x]) p)"
  by pat_completeness auto
termination
  by (relation "measure (\<lambda>(_, _, p). length p)") (auto dest!: skip_quoted_length)

declare token_loop.simps [simp del]

definition get_token :: "nat \<Rightarrow> octets \<Rightarrow> (octets \<times> octets) option res" where
  "get_token n s =
     bind_res (token_loop n [] s) (\<lambda>r. case r of None \<Rightarrow> Inr None
       | Some (tok, rest) \<Rightarrow> if s = [] then Inr None else if n \<le> length tok then Inl OutOfBounds else Inr (Some (tok, rest)))"

text \<open>The handler of \<open>+CMT\<close> (\<^verbatim>\<open>me.c\<close>): the message in the second line, which it hands on.\<close>

definition handle_unsolicited_cmt ::
    "(int \<times> int \<times> int \<times> int \<times> int \<times> int \<Rightarrow> int) \<Rightarrow> vgsm_urc_class list \<Rightarrow> vgsm_req \<Rightarrow> vgsm_sms_deliver option res" where
  "handle_unsolicited_cmt mktime classes urc =
     (case urc_class urc of None \<Rightarrow> Inl NullDereference | Some i \<Rightarrow>
      bind_res (get_token 32 (drop (length (urc_code (classes ! i))) (hd (req_lines urc)))) (\<lambda>r. case r of None \<Rightarrow> Inr None
      | Some _ \<Rightarrow> (case req_lines urc of _ # line2 # _ \<Rightarrow> vgsm_sms_deliver_init_from_pdu mktime line2 | _ \<Rightarrow> Inr None)))"

end
