(* ===== verification/Vgsm_Line.thy ===== *)
theory Vgsm_Line
  imports Vgsm_Comm
begin

text \<open>
  The serial line of a GSM module: reading in pieces, what every event keeps, the order of the answers, a module that does not
  answer, and a line that is closed.
\<close>

section \<open>Readers of a stream\<close>

text \<open>
  Octets come in pieces, as the line delivers them. The contract of what reads them: reading on after a piece is reading it with
  what follows at once, as long as there is room. Then only the octets matter, not the pieces.
\<close>

locale stream_reader =
  fixes read :: "octets \<Rightarrow> 's \<Rightarrow> 's res"
    and fits :: "octets \<Rightarrow> 's \<Rightarrow> bool"
  assumes split: "read a s = Inr t \<Longrightarrow> fits (a @ b) s \<Longrightarrow> read (a @ b) s = read b t"
    and room: "read a s = Inr t \<Longrightarrow> fits (a @ b) s \<Longrightarrow> fits b t"
begin

lemma pieces_whole:
  "run_events read (d # ds) s = Inr t \<Longrightarrow> fits (concat (d # ds)) s \<Longrightarrow> read (concat (d # ds)) s = Inr t"
proof (induction ds arbitrary: d s)
  case Nil
  then show ?case by (simp add: bind_res_eq_Inr)
next
  case (Cons e ds)
  obtain u where u: "read d s = Inr u" "run_events read (e # ds) u = Inr t" using Cons.prems(1) by (auto simp: bind_res_eq_Inr)
  have f: "fits (d @ concat (e # ds)) s" using Cons.prems(2) by simp
  show ?case using Cons.IH [OF u(2) room [OF u(1) f]] split [OF u(1) f] by simp
qed

text \<open>When no beginning of the octets is refused, every way to cut them gives what they give at once.\<close>

lemma whole_pieces:
  assumes "\<And>k. k \<le> length x \<Longrightarrow> \<exists>t. read (take k x) s = Inr t" "concat (d # ds) = x" "\<And>k. k \<le> length x \<Longrightarrow> fits (take k x) s"
  shows "run_events read (d # ds) s = read x s"
  using assms
proof (induction ds arbitrary: d s x)
  case Nil
  then show ?case by (cases "read d s") simp_all
next
  case (Cons e ds)
  let ?y = "concat (e # ds)"
  have x: "x = d @ ?y" "\<And>k. take (length d + k) x = d @ take k ?y" using Cons.prems(2) by auto
  have l: "length d + k \<le> length x" if "k \<le> length ?y" for k using that x(1) by simp
  obtain u where u: "read d s = Inr u" using Cons.prems(1) [OF l [of 0]] x(2) [of 0] by auto
  have "run_events read (e # ds) u = read ?y u"
  proof (rule Cons.IH [OF _ refl])
    fix k assume "k \<le> length ?y"
    then have k: "\<exists>t. read (d @ take k ?y) s = Inr t" "fits (d @ take k ?y) s" using Cons.prems(1,3) [OF l] x(2) by simp_all
    show "\<exists>t. read (take k ?y) u = Inr t" using k(1) split [OF u k(2)] by simp
    show "fits (take k ?y) u" by (rule room [OF u k(2)])
  qed
  moreover have "read (d @ ?y) s = read ?y u" using split [OF u] Cons.prems(3) [of "length x"] x(1) by simp
  ultimately show ?case using u x(1) by simp
qed

end

section \<open>Reading in pieces\<close>

text \<open>What a turn finds in the buffer it finds also when there is more behind it.\<close>

lemma find_crlf_append: "find_crlf s = Some e \<Longrightarrow> find_crlf (s @ t) = Some e"
  by (induction s arbitrary: e rule: find_crlf.induct) (auto split: if_splits)

lemma find_crlf_bound: "find_crlf s = Some e \<Longrightarrow> e + 2 \<le> length s"
  by (induction s arbitrary: e rule: find_crlf.induct) (auto split: if_splits)

lemma char_at_append: "char_at s i \<noteq> 0 \<Longrightarrow> char_at (s @ t) i = char_at s i"
  by (simp add: char_at_def nth_append split: if_splits)

lemma char_at_bound: "char_at s i \<noteq> 0 \<Longrightarrow> i < length s"
  by (simp add: char_at_def split: if_splits)

lemma c_string_id: "0 \<notin> set s \<Longrightarrow> c_string s = s"
  by (auto simp: c_string_def)

lemma c_string_drop: "0 \<notin> set s \<Longrightarrow> c_string (drop n s) = drop n s"
  by (rule c_string_id) (use set_drop_subset in fast)

lemma starts_with_append: "starts_with p s \<Longrightarrow> starts_with p (s @ t)"
  unfolding starts_with_def by (metis append_eq_conv_conj append_take_drop_id append.assoc)

lemma urc_begin_append:
  assumes "urc_begin s \<noteq> Inl 0"
  shows "urc_begin (s @ t) = urc_begin s"
proof -
  have "char_at s 0 \<noteq> 0" using assms by (auto simp: urc_begin_def)
  moreover have "char_at s 0 = 13 \<Longrightarrow> char_at s 1 \<noteq> 0" using assms by (auto simp: urc_begin_def)
  moreover have "char_at s 0 = 13 \<Longrightarrow> char_at s 1 = 10 \<Longrightarrow> char_at s 2 \<noteq> 0" using assms by (auto simp: urc_begin_def)
  moreover have "char_at s 0 = 13 \<Longrightarrow> char_at s 1 = 10 \<Longrightarrow> char_at s 2 = 13 \<Longrightarrow> char_at s 3 \<noteq> 0"
    using assms by (auto simp: urc_begin_def)
  ultimately show ?thesis using char_at_append [of s _ t] by (simp add: urc_begin_def)
qed

lemma urc_begin_bound: "urc_begin s = Inr b \<Longrightarrow> b \<le> length s"
  using char_at_bound [of s 0] char_at_bound [of s 1] char_at_bound [of s 3]
  by (auto simp: urc_begin_def split: if_splits)

lemma match_echo_append: "match_echo_loop s snt n \<noteq> 0 \<Longrightarrow> match_echo_loop (s @ t) snt n = match_echo_loop s snt n"
proof (induction s snt n rule: match_echo_loop.induct)
  case (1 buf n)
  then show ?case by (cases buf) simp_all
qed (simp_all split: if_splits)

lemma match_echo_bound: "match_echo_loop s snt n = r \<Longrightarrow> 0 < r \<Longrightarrow> 0 \<le> n \<Longrightarrow> r - n \<le> int (length s)"
  by (induction s snt n rule: match_echo_loop.induct) (auto split: if_splits)

lemmas comm_defs = vgsm_comm_change_state_def vgsm_timer_stop_def vgsm_timer_start_delta_def serial_write_def vgsm_req_alloc_def


text \<open>What is done with a line does not depend on the buffer.\<close>

lemma lines_buf:
  "complete_req err req (c\<lparr>comm_buf := s\<rparr>) = bind_res (complete_req err req c) (\<lambda>c. Inr (c\<lparr>comm_buf := s\<rparr>))"
  "response_line line req (c\<lparr>comm_buf := s\<rparr>) = bind_res (response_line line req c) (\<lambda>c. Inr (c\<lparr>comm_buf := s\<rparr>))"
  "urc_line line (c\<lparr>comm_buf := s\<rparr>) = bind_res (urc_line line c) (\<lambda>c. Inr (c\<lparr>comm_buf := s\<rparr>))"
  "urc_cont_line line (c\<lparr>comm_buf := s\<rparr>) = bind_res (urc_cont_line line c) (\<lambda>c. Inr (c\<lparr>comm_buf := s\<rparr>))"
proof -
  show *: "complete_req err req (c\<lparr>comm_buf := s\<rparr>) = bind_res (complete_req err req c) (\<lambda>c. Inr (c\<lparr>comm_buf := s\<rparr>))" for err req and c :: vgsm_comm
    by (cases "hand_over (req\<lparr>req_err := err, req_ready := True\<rparr>)") (simp_all add: complete_req_def)
  show "response_line line req (c\<lparr>comm_buf := s\<rparr>) = bind_res (response_line line req c) (\<lambda>c. Inr (c\<lparr>comm_buf := s\<rparr>))"
    by (simp add: response_line_def complete_req_def Let_def comm_defs bind_res_def split: sum.split)
  show "urc_line line (c\<lparr>comm_buf := s\<rparr>) = bind_res (urc_line line c) (\<lambda>c. Inr (c\<lparr>comm_buf := s\<rparr>))"
    by (simp add: urc_line_def Let_def comm_defs bind_res_def split: option.split sum.split)
  show "urc_cont_line line (c\<lparr>comm_buf := s\<rparr>) = bind_res (urc_cont_line line c) (\<lambda>c. Inr (c\<lparr>comm_buf := s\<rparr>))"
    by (simp add: urc_cont_line_def Let_def comm_defs bind_res_def split: option.split sum.split)
qed

lemma match_urc_more:
  assumes "vgsm_comm_match_urc (c\<lparr>comm_buf := s\<rparr>) = Inr (n, c')" "0 < n" "0 \<notin> set s" "0 \<notin> set t"
  shows "vgsm_comm_match_urc (c\<lparr>comm_buf := s @ t\<rparr>) = Inr (n, c'\<lparr>comm_buf := s @ t\<rparr>)"
proof (cases "urc_begin s")
  case (Inl m)
  then have m: "m = n" "c' = c\<lparr>comm_buf := s\<rparr>" using assms(1,3) by (simp_all add: vgsm_comm_match_urc_def c_string_id)
  then have "urc_begin (s @ t) = Inl n" using urc_begin_append [of s t] Inl assms(2) by simp
  then show ?thesis using assms(3,4) m by (simp add: vgsm_comm_match_urc_def c_string_id)
next
  case (Inr b)
  then have b: "urc_begin (s @ t) = Inr b" "b \<le> length s" using urc_begin_append [of s t] urc_begin_bound by simp_all
  obtain e where e: "find_crlf (drop b s) = Some e"
    using assms(1-3) Inr by (auto simp: vgsm_comm_match_urc_def c_string_id split: option.splits)
  have f: "b - length s = 0" "find_crlf (drop b s @ t) = Some e" "take (e - length (drop b s)) t = []"
    using find_crlf_append [OF e, of t] find_crlf_bound [OF e] b(2) by simp_all
  have z: "0 \<notin> set (s @ t)" using assms(3,4) by simp
  show ?thesis
    using assms(1) f
    by (auto simp: vgsm_comm_match_urc_def c_string_id [OF assms(3)] c_string_id [OF z] Inr b(1) e lines_buf bind_res_eq_Inr)
qed


lemma match_urc_cont_more:
  assumes "vgsm_comm_match_urc_cont (c\<lparr>comm_buf := s\<rparr>) = Inr (n, c')" "0 < n" "0 \<notin> set s" "0 \<notin> set t"
  shows "vgsm_comm_match_urc_cont (c\<lparr>comm_buf := s @ t\<rparr>) = Inr (n, c'\<lparr>comm_buf := s @ t\<rparr>)"
proof -
  have z: "0 \<notin> set (s @ t)" using assms(3,4) by simp
  obtain e where e: "find_crlf s = Some e"
    using assms(1-3) by (auto simp: vgsm_comm_match_urc_cont_def c_string_id split: option.splits)
  then have "find_crlf (s @ t) = Some e" "take (e - length s) t = []" using find_crlf_append find_crlf_bound [of s e] by auto
  then show ?thesis
    using assms(1)
    by (auto simp: vgsm_comm_match_urc_cont_def c_string_id [OF assms(3)] c_string_id [OF z] e lines_buf bind_res_eq_Inr)
qed

text \<open>Where the response begins.\<close>

definition response_begin :: "octets \<Rightarrow> nat option" where
  "response_begin s =
     (let p = (if char_at s 0 = 13 then 1 else 0) in
      if char_at s 0 = 0 \<or> char_at s p = 0 then None else Some (if char_at s p = 10 then p + 1 else p))"

lemma match_response_begin:
  "vgsm_match_response c =
     (case current_req c of None \<Rightarrow> Inl KernelBug | Some req \<Rightarrow>
      case response_begin (c_string (comm_buf c)) of None \<Rightarrow> Inr (0, c) | Some b \<Rightarrow>
      if starts_with (asc ''> '') (drop b (c_string (comm_buf c)))
      then (case sms_text_pdu req of
              None \<Rightarrow> Inr (4, serial_write [0x1b] c)
            | Some pdu \<Rightarrow> Inr (4, vgsm_comm_change_state VGSM_COMM_AWAITING_SMS_ECHO SMS_ECHO_TIMEOUT (serial_write pdu c)))
      else if length (comm_buf c) < 2 then Inl OutOfBounds
      else case find_crlf (c_string (drop 2 (comm_buf c))) of
             None \<Rightarrow> Inr (0, c)
           | Some e \<Rightarrow> bind_res (response_line (drop b (take (e + 2) (c_string (comm_buf c)))) req c) (\<lambda>c. Inr (e + 4, c)))"
  by (simp add: vgsm_match_response_def response_begin_def Let_def split: option.split)

lemma response_begin_append: "response_begin s = Some b \<Longrightarrow> response_begin (s @ t) = Some b"
  using char_at_append [of s 0 t] char_at_append [of s 1 t]
  by (auto simp: response_begin_def Let_def split: if_splits)

lemma response_begin_bound: "response_begin s = Some b \<Longrightarrow> b \<le> length s \<and> b \<le> 2"
  using char_at_bound [of s 0] char_at_bound [of s 1]
  by (cases s) (auto simp: response_begin_def Let_def Suc_le_eq split: if_splits)

lemma match_response_more:
  assumes "vgsm_match_response (c\<lparr>comm_buf := s\<rparr>) = Inr (n, c')" "0 < n" "n \<le> length s" "0 \<notin> set s" "0 \<notin> set t"
  shows "vgsm_match_response (c\<lparr>comm_buf := s @ t\<rparr>) = Inr (n, c'\<lparr>comm_buf := s @ t\<rparr>)"
proof -
  have z: "0 \<notin> set (s @ t)" using assms(4,5) by simp
  obtain req b where r: "current_req c = Some req" "response_begin s = Some b"
    using assms(1,2,4) by (auto simp: match_response_begin c_string_id split: option.splits)
  have b: "response_begin (s @ t) = Some b" "b \<le> length s" "b \<le> 2"
    using response_begin_append [OF r(2)] response_begin_bound [OF r(2)] by simp_all
  show ?thesis
  proof (cases "starts_with (asc ''> '') (drop b s)")
    case True
    then have "starts_with (asc ''> '') (drop b (s @ t))" using starts_with_append [OF True, of t] b(2) by simp
    with True show ?thesis
      using assms(1)
      by (auto simp: match_response_begin c_string_id [OF assms(4)] c_string_id [OF z] r b(1) comm_defs split: option.splits)
  next
    case False
    have l: "2 \<le> length s" using assms(1) r False by (auto simp: match_response_begin c_string_id [OF assms(4)] split: if_splits)
    obtain e where e: "find_crlf (drop 2 s) = Some e"
      using assms(1,2) r False l
      by (auto simp: match_response_begin c_string_id [OF assms(4)] c_string_drop [OF assms(4)] split: option.splits)
    have d: "drop 2 (s @ t) = drop 2 s @ t" using l by simp
    have f: "find_crlf (drop 2 (s @ t)) = Some e" "take (Suc (Suc e)) (s @ t) = take (Suc (Suc e)) s" "2 \<le> length (s @ t)"
      using find_crlf_append [OF e, of t] find_crlf_bound [OF e] l unfolding d by simp_all
    have "2 \<le> length (drop b s)" using assms(1) e find_crlf_bound [OF e] b(3) by simp
    then have s: "\<not> starts_with (asc ''> '') (drop b (s @ t))"
      using False by (simp add: starts_with_def asc_def)
    show ?thesis
      using assms(1) False s f(3) l
      unfolding match_response_begin vgsm_comm.simps
      by (auto simp: c_string_id [OF assms(4)] c_string_id [OF z] c_string_drop [OF assms(4)] c_string_drop [OF z]
           r b(1) e f(1,2) lines_buf bind_res_eq_Inr simp del: take_append drop_append)
  qed
qed


text \<open>The states in which everything is thrown away.\<close>

definition discarding :: "vgsm_comm \<Rightarrow> bool" where
  "discarding c \<longleftrightarrow> comm_state c \<in> {VGSM_COMM_FAILED, VGSM_COMM_RECOVERING}"

lemma lines_state:
  "response_line line req c = Inr c' \<Longrightarrow> comm_state c' \<in> {comm_state c, VGSM_COMM_IDLE}"
  "urc_line line c = Inr c' \<Longrightarrow>
     comm_state c' \<in> {comm_state c, VGSM_COMM_READING_URC, VGSM_COMM_AWAITING_ECHO_READING_URC, VGSM_COMM_AWAITING_ECHO}"
  "urc_cont_line line c = Inr c' \<Longrightarrow> comm_state c' \<in> {comm_state c, VGSM_COMM_IDLE, VGSM_COMM_AWAITING_ECHO}"
  by (auto simp: response_line_def complete_req_def urc_line_def urc_cont_line_def Let_def comm_defs bind_res_eq_Inr split: if_splits option.splits)

lemma turn_state: "receive_turn nread c = Inr (n, c') \<Longrightarrow> \<not> discarding c \<Longrightarrow> \<not> discarding c'"
  unfolding receive_turn_def match_response_begin vgsm_comm_match_urc_def vgsm_comm_match_urc_cont_def Let_def discarding_def
  by (auto simp: comm_defs bind_res_eq_Inr split: vgsm_comm_state.splits option.splits if_splits sum.splits dest!: lines_state)

lemma turn_any: "\<not> discarding c \<Longrightarrow> receive_turn nread c = receive_turn 0 c"
  by (simp add: receive_turn_def discarding_def split: vgsm_comm_state.split)

lemma turn_none: "receive_turn 0 c = Inr (0, c') \<Longrightarrow> c' = c"
  unfolding receive_turn_def match_response_begin vgsm_comm_match_urc_def vgsm_comm_match_urc_cont_def Let_def
  by (auto simp: bind_res_eq_Inr split: vgsm_comm_state.splits option.splits if_splits sum.splits)

lemma turn_more:
  assumes "receive_turn 0 (c\<lparr>comm_buf := s\<rparr>) = Inr (n, c')" "\<not> discarding c" "0 < n" "n \<le> length s" "0 \<notin> set s" "0 \<notin> set t"
  shows "receive_turn 0 (c\<lparr>comm_buf := s @ t\<rparr>) = Inr (n, c'\<lparr>comm_buf := s @ t\<rparr>)"
proof -
  have z: "0 \<notin> set (s @ t)" using assms(5,6) by simp
  note z = c_string_id [OF assms(5)] c_string_id [OF z]
  note m = match_urc_more [OF _ assms(3,5,6), of c c'] match_urc_cont_more [OF _ assms(3,5,6), of c c']
    match_response_more [OF _ assms(3-6), of c c'] match_echo_append [of s _ 0 t]
  show ?thesis
  proof (cases "comm_state c")
    case VGSM_COMM_AWAITING_ECHO
    then obtain req where r: "current_req c = Some req" using assms(1) by (auto simp: receive_turn_def split: option.splits)
    show ?thesis
      using assms(1,3) VGSM_COMM_AWAITING_ECHO r m(1,4)
      by (auto simp: receive_turn_def vgsm_comm_match_echo_def z Let_def comm_defs split: if_splits)
  next
    case VGSM_COMM_AWAITING_SMS_ECHO
    then show ?thesis
      using assms(1,3) m(4)
      by (auto simp: receive_turn_def vgsm_comm_match_echo_def z Let_def comm_defs split: if_splits option.splits)
  next
    case VGSM_COMM_AWAITING_SMS_ECHO_1A
    then show ?thesis
      using assms(1,3) m(4)
      by (auto simp: receive_turn_def vgsm_comm_match_echo_def z Let_def comm_defs split: if_splits option.splits)
  qed (use assms(1-3) m in \<open>auto simp: receive_turn_def discarding_def\<close>)
qed

lemma loop_more:
  assumes "receive_loop 0 (c\<lparr>comm_buf := s\<rparr>) = Inr c'" "\<not> discarding c" "0 \<notin> set s" "0 \<notin> set t"
  shows "receive_loop 0 (c\<lparr>comm_buf := s @ t\<rparr>) = receive_loop 0 (c'\<lparr>comm_buf := comm_buf c' @ t\<rparr>)"
  using assms
proof (induction "length s" arbitrary: s c rule: less_induct)
  case less
  obtain n c1 where t: "receive_turn 0 (c\<lparr>comm_buf := s\<rparr>) = Inr (n, c1)"
    using less.prems(1) by (subst (asm) receive_loop.simps) (auto split: sum.splits)
  show ?case
  proof (cases "n = 0")
    case True
    then have "c1 = c\<lparr>comm_buf := s\<rparr>" using t turn_none by simp
    then have "c' = c\<lparr>comm_buf := s\<rparr>" using less.prems(1) t True by (subst (asm) receive_loop.simps) simp
    then show ?thesis by simp
  next
    case False
    let ?s = "drop n s"
    have l: "n \<le> length s" "receive_loop 0 (c1\<lparr>comm_buf := ?s\<rparr>) = Inr c'"
      using less.prems(1,3) t False by (subst (asm) receive_loop.simps, auto simp: c_string_drop split: if_splits)+
    have m: "receive_turn 0 (c\<lparr>comm_buf := s @ t\<rparr>) = Inr (n, c1\<lparr>comm_buf := s @ t\<rparr>)"
      using turn_more [OF t less.prems(2) _ l(1) less.prems(3,4)] False by simp
    have d: "\<not> discarding c1" "0 \<notin> set ?s" "length ?s < length s"
      using turn_state [OF t] less.prems(2,3) False l(1) in_set_dropD [of 0 n s] by (auto simp: discarding_def)
    have "0 \<notin> set (?s @ t)" using d(2) less.prems(4) by simp
    then have "receive_loop 0 (c\<lparr>comm_buf := s @ t\<rparr>) = receive_loop 0 (c1\<lparr>comm_buf := ?s @ t\<rparr>)"
      using m False l(1) by (subst receive_loop.simps) (simp add: c_string_id)
    then show ?thesis using less.hyps [OF d(3) l(2) d(1,2) less.prems(4)] by simp
  qed
qed

lemma loop_discarding:
  assumes "discarding c"
  shows "receive_loop n c =
    (if n = 0 then Inr c else if length (comm_buf c) < n then Inl OutOfBounds else Inr (c\<lparr>comm_buf := c_string (drop n (comm_buf c))\<rparr>))"
proof -
  have t: "receive_turn k c' = Inr (k, c')" if "comm_state c' = comm_state c" for k c'
    using that assms by (auto simp: receive_turn_def discarding_def)
  have "receive_loop 0 c' = Inr c'" if "comm_state c' = comm_state c" for c'
    by (subst receive_loop.simps) (simp add: t that)
  then show ?thesis by (subst receive_loop.simps) (simp add: t)
qed

lemma loop_any: "\<not> discarding c \<Longrightarrow> receive_loop n c = receive_loop 0 c"
  using turn_any [of c n] unfolding receive_loop.simps [of n c] receive_loop.simps [of 0 c] by simp

lemma loop_state: "receive_loop n c = Inr c' \<Longrightarrow> \<not> discarding c \<Longrightarrow> \<not> discarding c'"
proof (induction n c rule: receive_loop.induct)
  case (1 n c)
  obtain k c1 where t: "receive_turn n c = Inr (k, c1)"
    using 1(2) by (subst (asm) receive_loop.simps) (auto split: sum.splits)
  show ?case
  proof (cases "k = 0")
    case True
    then show ?thesis using 1(2) t turn_state [OF t 1(3)] by (subst (asm) receive_loop.simps) simp
  next
    case False
    then have l: "k \<le> length (comm_buf c)" "receive_loop 0 (c1\<lparr>comm_buf := c_string (drop k (comm_buf c))\<rparr>) = Inr c'"
      using 1(2) t by (subst (asm) receive_loop.simps, auto split: if_splits)+
    show ?thesis using 1(1) [OF t refl False _ l(2)] l(1) turn_state [OF t 1(3)] by (auto simp: discarding_def)
  qed
qed

lemma line_buf:
  "response_line line req c = Inr c' \<Longrightarrow> comm_buf c' = comm_buf c"
  "urc_line line c = Inr c' \<Longrightarrow> comm_buf c' = comm_buf c"
  "urc_cont_line line c = Inr c' \<Longrightarrow> comm_buf c' = comm_buf c"
  by (auto simp: response_line_def complete_req_def urc_line_def urc_cont_line_def Let_def comm_defs bind_res_eq_Inr split: if_splits option.splits)

lemma loop_rest: "receive_loop n c = Inr c' \<Longrightarrow> 0 \<notin> set (comm_buf c) \<Longrightarrow> \<exists>k. comm_buf c' = drop k (comm_buf c)"
proof (induction "length (comm_buf c)" arbitrary: n c rule: less_induct)
  case less
  obtain k c1 where t: "receive_turn n c = Inr (k, c1)"
    using less.prems(1) by (subst (asm) receive_loop.simps) (auto split: sum.splits)
  show ?case
  proof (cases "k = 0")
    case True
    have "comm_buf c1 = comm_buf c"
      using t unfolding receive_turn_def match_response_begin vgsm_comm_match_urc_def vgsm_comm_match_urc_cont_def Let_def
      by (auto simp: comm_defs bind_res_eq_Inr line_buf split: vgsm_comm_state.splits option.splits if_splits sum.splits)
    moreover have "c' = c1" using less.prems(1) t True by (subst (asm) receive_loop.simps) simp
    ultimately have "comm_buf c' = drop 0 (comm_buf c)" by simp
    then show ?thesis by blast
  next
    case False
    let ?s = "drop k (comm_buf c)"
    have l: "k \<le> length (comm_buf c)" "receive_loop 0 (c1\<lparr>comm_buf := ?s\<rparr>) = Inr c'"
      using less.prems t False by (subst (asm) receive_loop.simps, auto simp: c_string_drop split: if_splits)+
    have "0 \<notin> set ?s" using less.prems(2) in_set_dropD [of 0 k "comm_buf c"] by blast
    then obtain j where "comm_buf c' = drop j ?s" using less.hyps [OF _ l(2)] False l(1) by force
    then show ?thesis by auto
  qed
qed

lemma receive_split:
  assumes "vgsm_comm_receive a c = Inr c1" "0 \<notin> set a" "0 \<notin> set b" "length (c_string (comm_buf c)) + length a + length b \<le> 2047"
  shows "vgsm_comm_receive (a @ b) c = vgsm_comm_receive b c1"
    and "0 \<notin> set (comm_buf c1)" "length (comm_buf c1) \<le> length (c_string (comm_buf c)) + length a"
proof -
  let ?s = "c_string (comm_buf c)"
  have s: "0 \<notin> set ?s" "0 \<notin> set (?s @ a)" using assms(2) by (auto simp: c_string_def dest: set_takeWhileD)
  have r: "receive_loop (length a) (c\<lparr>comm_buf := ?s @ a\<rparr>) = Inr c1"
    using assms(1,4) by (simp add: vgsm_comm_receive_def Let_def)
  obtain k where k: "comm_buf c1 = drop k (?s @ a)" using loop_rest [OF r] s(2) by auto
  show b: "0 \<notin> set (comm_buf c1)" using s(2) in_set_dropD [of 0 k "?s @ a"] unfolding k by blast
  show "length (comm_buf c1) \<le> length ?s + length a" unfolding k by simp
  then have v: "vgsm_comm_receive b c1 = receive_loop (length b) (c1\<lparr>comm_buf := comm_buf c1 @ b\<rparr>)"
    using assms(4) by (simp add: vgsm_comm_receive_def Let_def c_string_id [OF b])
  have w: "vgsm_comm_receive (a @ b) c = receive_loop (length a + length b) (c\<lparr>comm_buf := ?s @ a @ b\<rparr>)"
    using assms(4) by (simp add: vgsm_comm_receive_def Let_def)
  show "vgsm_comm_receive (a @ b) c = vgsm_comm_receive b c1"
  proof (cases "discarding c")
    case True
    then have d: "discarding (c\<lparr>comm_buf := x\<rparr>)" for x by (simp add: discarding_def)
    have c1: "c1 = c\<lparr>comm_buf := drop (length a) (?s @ a)\<rparr>"
      using r s(2) by (auto simp: loop_discarding [OF d] c_string_id c_string_drop simp del: drop_append split: if_splits)
    have z: "0 \<notin> set (drop (length a) (?s @ a) @ b)" "0 \<notin> set (?s @ a @ b)"
      using s(2) assms(3) in_set_dropD [of 0 "length a" "?s @ a"] by auto
    have "drop (length a) ((?s @ a) @ b) = drop (length a) (?s @ a) @ b" by (subst drop_append) simp
    then have e: "drop (length a + length b) (?s @ a @ b) = drop (length b) (drop (length a) (?s @ a) @ b)"
      unfolding append_assoc by (metis add.commute drop_drop)
    have "discarding (c1\<lparr>comm_buf := x\<rparr>)" for x using d [of x] c1 by (simp add: discarding_def)
    then show ?thesis
      unfolding v w loop_discarding [OF d] loop_discarding [OF \<open>discarding (c1\<lparr>comm_buf := comm_buf c1 @ b\<rparr>)\<close>]
      using e c1 by (simp add: c_string_drop [OF z(1)] c_string_drop [OF z(2)] c_string_drop [OF s(2)] del: drop_append)
  next
    case False
    have d: "\<not> discarding (c\<lparr>comm_buf := x\<rparr>)" for x using False by (simp add: discarding_def)
    have n: "receive_loop n (c\<lparr>comm_buf := x\<rparr>) = receive_loop 0 (c\<lparr>comm_buf := x\<rparr>)" for n x
      by (rule loop_any [OF d])
    have "receive_loop 0 (c\<lparr>comm_buf := (?s @ a) @ b\<rparr>) = receive_loop 0 (c1\<lparr>comm_buf := comm_buf c1 @ b\<rparr>)"
      by (rule loop_more) (use r [unfolded n [of "length a"]] False s(2) assms(3) in auto)
    moreover have m: "receive_loop n (c1\<lparr>comm_buf := x\<rparr>) = receive_loop 0 (c1\<lparr>comm_buf := x\<rparr>)" for n x
    proof -
      have "\<not> discarding c1" using loop_state [OF r d] .
      then have "\<not> discarding (c1\<lparr>comm_buf := x\<rparr>)" by (simp add: discarding_def)
      then show ?thesis by (rule loop_any)
    qed
    ultimately show ?thesis unfolding v w n [of "length a + length b"] m [of "length b"] by simp
  qed
qed


text \<open>The buffer has room for the octets, and none of them is zero.\<close>

definition line_fits :: "octets \<Rightarrow> vgsm_comm \<Rightarrow> bool" where
  "line_fits d c \<longleftrightarrow> 0 \<notin> set d \<and> length (c_string (comm_buf c)) + length d < 2048"

interpretation serial: stream_reader vgsm_comm_receive line_fits
proof
  fix a b c t assume t: "vgsm_comm_receive a c = Inr t" "line_fits (a @ b) c"
  then have z: "0 \<notin> set a" "0 \<notin> set b" "length (c_string (comm_buf c)) + length a + length b \<le> 2047" by (auto simp: line_fits_def)
  show "vgsm_comm_receive (a @ b) c = vgsm_comm_receive b t" by (rule receive_split(1) [OF t(1) z])
  show "line_fits b t" using receive_split(2,3) [OF t(1) z] z by (simp add: line_fits_def c_string_id)
qed

text \<open>
  C22. How the octets of the module come in pieces does not matter: what several reads make of them, one after the other, is what a
  single read of all of them makes, in every state of the line, as long as they fit in the buffer and the reads do not run into what is
  left behind the end of the string.
\<close>

theorem reading_in_pieces:
  assumes "run_events vgsm_comm_receive (s # ss) c = Inr c'" "0 \<notin> set (concat (s # ss))"
    and "length (c_string (comm_buf c)) + length (concat (s # ss)) < 2048"
  shows "vgsm_comm_receive (concat (s # ss)) c = Inr c'"
  by (rule serial.pieces_whole [OF assms(1)]) (use assms(2,3) in \<open>simp add: line_fits_def\<close>)


section \<open>What every event keeps\<close>

text \<open>
  A request on its way: its user and the line have a reference each. The state says what is in progress: a request from its
  sending to its final line, a code of two lines in between, and a timer whenever something is awaited.
\<close>

definition request_ok :: "vgsm_req \<Rightarrow> bool" where
  "request_ok r \<longleftrightarrow> req_refcnt r = 2 \<and> 0 < retransmit_cnt r \<and> length (request r) \<le> 80 \<and> 0 \<le> req_timeout r \<and> sms_text_pdu r \<noteq> Some []
     \<and> request r \<noteq> [] \<and> \<not> req_ready r"

definition urc_ok :: "vgsm_urc_class list \<Rightarrow> vgsm_req \<Rightarrow> bool" where
  "urc_ok ks r \<longleftrightarrow> req_refcnt r = 1 \<and> (\<exists>i < length ks. urc_class r = Some i)"

definition urc_open :: "vgsm_urc_class list \<Rightarrow> vgsm_req \<Rightarrow> bool" where
  "urc_open ks r \<longleftrightarrow> req_refcnt r = 1 \<and> (\<exists>i < length ks. urc_class r = Some i \<and> detect_end (ks ! i) \<noteq> None)"

fun in_progress :: "vgsm_comm_state \<Rightarrow> vgsm_req option \<Rightarrow> vgsm_req option \<Rightarrow> int option \<Rightarrow> bool" where
  "in_progress VGSM_COMM_CLOSING req urc t = True"
| "in_progress VGSM_COMM_CLOSED req urc t = True"
| "in_progress VGSM_COMM_IDLE req urc t = (req = None \<and> urc = None \<and> t = None)"
| "in_progress VGSM_COMM_FAILED req urc t = (req = None \<and> urc = None \<and> t = None)"
| "in_progress VGSM_COMM_RECOVERING req urc t = (urc = None \<and> t \<noteq> None)"
| "in_progress VGSM_COMM_READING_URC req urc t = (req = None \<and> urc \<noteq> None \<and> t \<noteq> None)"
| "in_progress VGSM_COMM_AWAITING_ECHO_READING_URC req urc t = (req \<noteq> None \<and> urc \<noteq> None \<and> t \<noteq> None)"
| "in_progress VGSM_COMM_AWAITING_SMS_ECHO req urc t = ((\<exists>r. req = Some r \<and> sms_text_pdu r \<noteq> None) \<and> urc = None \<and> t \<noteq> None)"
| "in_progress _ req urc t = (req \<noteq> None \<and> urc = None \<and> t \<noteq> None)"

definition comm_inv :: "vgsm_comm \<Rightarrow> bool" where
  "comm_inv c \<longleftrightarrow>
     in_progress (comm_state c) (current_req c) (current_urc c) (comm_timer c) \<and>
     (\<forall>r \<in> set (requests_queue c) \<union> set_option (current_req c). request_ok r) \<and>
     (\<forall>r \<in> set (completion_queue c). req_refcnt r = 2 \<and> req_ready r) \<and>
     (\<forall>r \<in> set_option (current_urc c). urc_open (urc_classes c) r) \<and>
     (\<forall>r \<in> set (urc_queue c). urc_ok (urc_classes c) r)"

text \<open>An operation that succeeds or reads behind what is known of its buffer.\<close>

definition keeps :: "('a \<Rightarrow> bool) \<Rightarrow> 'a res \<Rightarrow> bool" where
  "keeps P r \<longleftrightarrow> (case r of Inl e \<Rightarrow> e = OutOfBounds | Inr x \<Rightarrow> P x)"

lemma keeps_simps [simp]: "keeps P (Inr x) = P x" "keeps P (Inl e) \<longleftrightarrow> e = OutOfBounds"
  by (simp_all add: keeps_def)

lemma keeps_bind: "keeps Q r \<Longrightarrow> (\<And>x. Q x \<Longrightarrow> keeps P (f x)) \<Longrightarrow> keeps P (bind_res r f)"
  by (cases r) simp_all

lemma keeps_count: "keeps P r \<Longrightarrow> keeps (\<lambda>(n, c). P c) (bind_res r (\<lambda>c. Inr (n, c)))"
  by (cases r) simp_all

lemma find_class_bound: "find_class ks line = Some i \<Longrightarrow> i < length ks"
  by (induction ks arbitrary: i) (auto split: if_splits)

lemma hand_over_id: "0 < req_refcnt r \<Longrightarrow> req_refcnt r + 1 < 100000 \<Longrightarrow> hand_over r = Inr r"
  by (simp add: hand_over_def vgsm_req_get_def vgsm_req_put_def)

lemma complete_ok: "req_refcnt r = 2 \<Longrightarrow>
   complete_req err r c = Inr (c\<lparr>completion_queue := completion_queue c @ [r\<lparr>req_err := err, req_ready := True\<rparr>]\<rparr>)"
  by (simp add: complete_req_def hand_over_id)

lemma alloc_over: "hand_over (fst (vgsm_req_alloc c)\<lparr>urc_class := k, req_lines := ls\<rparr>) = Inr (fst (vgsm_req_alloc c)\<lparr>urc_class := k, req_lines := ls\<rparr>)"
  by (rule hand_over_id) (simp_all add: vgsm_req_alloc_def)

lemmas comm_times = ECHO_TIMEOUT_def URC_TIMEOUT_def SMS_ECHO_TIMEOUT_def READING_URC_TIMEOUT_def MILLISEC_def SEC_def

definition open_state :: "vgsm_comm \<Rightarrow> bool" where
  "open_state c \<longleftrightarrow> comm_state c \<noteq> VGSM_COMM_CLOSED \<and> comm_state c \<noteq> VGSM_COMM_CLOSING"

lemma response_line_inv:
  assumes "comm_inv c" "comm_state c = VGSM_COMM_READING_RESPONSE" "current_req c = Some req"
  shows "keeps (\<lambda>c'. comm_inv c' \<and> open_state c') (response_line line req c)"
proof -
  have "req_refcnt (req\<lparr>req_lines := ls\<rparr>) = 2" for ls using assms by (simp add: comm_inv_def request_ok_def)
  then show ?thesis
    using assms by (auto simp: response_line_def Let_def complete_ok comm_defs comm_times comm_inv_def request_ok_def open_state_def)
qed

lemma urc_line_inv:
  assumes "comm_inv c" "comm_state c = VGSM_COMM_IDLE \<or> comm_state c = VGSM_COMM_AWAITING_ECHO"
  shows "keeps (\<lambda>c'. comm_inv c' \<and> open_state c') (urc_line line c)"
proof -
  have u: "current_urc c = None" using assms by (auto simp: comm_inv_def)
  show ?thesis
  proof (cases "find_class (urc_classes c) line")
    case None
    then show ?thesis using assms u by (auto simp: urc_line_def open_state_def)
  next
    case (Some i)
    then have "i < length (urc_classes c)" by (rule find_class_bound)
    with u Some show ?thesis
      using assms
      by (auto simp: urc_line_def Let_def comm_defs comm_times hand_over_id comm_inv_def urc_open_def urc_ok_def open_state_def)
  qed
qed

lemma urc_cont_inv:
  assumes "comm_inv c" "comm_state c = VGSM_COMM_READING_URC \<or> comm_state c = VGSM_COMM_AWAITING_ECHO_READING_URC"
  shows "keeps (\<lambda>c'. comm_inv c' \<and> open_state c') (urc_cont_line line c)"
proof -
  obtain urc i f where u: "current_urc c = Some urc" "urc_class urc = Some i" "detect_end (urc_classes c ! i) = Some f" "i < length (urc_classes c)"
      "req_refcnt urc = 1"
    using assms by (auto simp: comm_inv_def urc_open_def)
  then show ?thesis
    using assms by (auto simp: urc_cont_line_def Let_def comm_defs comm_times comm_inv_def urc_open_def urc_ok_def open_state_def)
qed

lemma match_urc_inv:
  assumes "comm_inv c" "comm_state c = VGSM_COMM_IDLE \<or> comm_state c = VGSM_COMM_AWAITING_ECHO"
  shows "keeps (\<lambda>(n, c'). comm_inv c' \<and> open_state c') (vgsm_comm_match_urc c)"
proof -
  have o: "open_state c" using assms(2) by (auto simp: open_state_def)
  show ?thesis
    unfolding vgsm_comm_match_urc_def Let_def
    using assms(1) o by (auto split: sum.split option.split intro: keeps_count urc_line_inv [OF assms])
qed

lemma receive_turn_inv:
  assumes "comm_inv c" "open_state c"
  shows "keeps (\<lambda>(n, c'). comm_inv c' \<and> open_state c') (receive_turn nread c)"
proof (cases "comm_state c")
  case VGSM_COMM_IDLE
  then show ?thesis using match_urc_inv [OF assms(1)] by (simp add: receive_turn_def)
next
  case VGSM_COMM_AWAITING_ECHO
  then obtain req where "current_req c = Some req" using assms(1) by (auto simp: comm_inv_def)
  then show ?thesis
    using VGSM_COMM_AWAITING_ECHO assms match_urc_inv [OF assms(1)]
    by (auto simp: receive_turn_def Let_def comm_defs comm_times comm_inv_def request_ok_def open_state_def)
next
  case VGSM_COMM_AWAITING_SMS_ECHO
  then show ?thesis
    using assms by (auto simp: receive_turn_def Let_def comm_defs comm_times comm_inv_def open_state_def)
next
  case VGSM_COMM_AWAITING_SMS_ECHO_1A
  then show ?thesis
    using assms by (auto simp: receive_turn_def Let_def comm_defs comm_times comm_inv_def request_ok_def open_state_def)
next
  case VGSM_COMM_READING_URC
  then show ?thesis
    unfolding receive_turn_def vgsm_comm_match_urc_cont_def Let_def
    using assms by (auto split: option.split intro: keeps_count urc_cont_inv [OF assms(1)])
next
  case VGSM_COMM_AWAITING_ECHO_READING_URC
  then show ?thesis
    unfolding receive_turn_def vgsm_comm_match_urc_cont_def Let_def
    using assms by (auto split: option.split intro: keeps_count urc_cont_inv [OF assms(1)])
next
  case VGSM_COMM_READING_RESPONSE
  then obtain req where r: "current_req c = Some req" using assms(1) by (auto simp: comm_inv_def)
  have k: "keeps (\<lambda>(n, c'). comm_inv c' \<and> open_state c') (bind_res (response_line line req c) (\<lambda>c. Inr (n, c)))" for line n
    using keeps_count [OF response_line_inv [OF assms(1) VGSM_COMM_READING_RESPONSE r]] .
  have "comm_inv (serial_write s c)" "open_state (serial_write s c)"
      "sms_text_pdu req \<noteq> None \<Longrightarrow> comm_inv (vgsm_comm_change_state VGSM_COMM_AWAITING_SMS_ECHO SMS_ECHO_TIMEOUT (serial_write s c))"
      "open_state (vgsm_comm_change_state VGSM_COMM_AWAITING_SMS_ECHO SMS_ECHO_TIMEOUT (serial_write s c))" for s
    using assms VGSM_COMM_READING_RESPONSE r by (simp_all add: comm_defs comm_times comm_inv_def open_state_def)
  then show ?thesis
    unfolding receive_turn_def match_response_begin VGSM_COMM_READING_RESPONSE r
    using assms k by (auto split: option.split)
qed (use assms in \<open>simp_all add: receive_turn_def open_state_def\<close>)

lemma receive_inv: "comm_inv c \<Longrightarrow> open_state c \<Longrightarrow> keeps (\<lambda>c'. comm_inv c' \<and> open_state c') (receive_loop n c)"
proof (induction n c rule: receive_loop.induct)
  case (1 n c)
  note t = receive_turn_inv [OF 1(2,3), of n]
  have "comm_inv (c'\<lparr>comm_buf := s\<rparr>) = comm_inv c'" "open_state (c'\<lparr>comm_buf := s\<rparr>) = open_state c'" for c' s
    by (simp_all add: comm_inv_def open_state_def)
  then show ?case using t 1(1)
    by (subst receive_loop.simps) (auto split: sum.splits)
qed

lemma make_request_inv:
  assumes "comm_inv c" "0 \<le> timeout"
  shows "keeps (\<lambda>(a, c'). comm_inv c') (vgsm_req_make_va cmd timeout pdu c)"
proof -
  have "pdu \<noteq> [] \<Longrightarrow> hex_02x pdu \<noteq> []" by (cases pdu) (simp_all add: hex_02x_def)
  then show ?thesis
    using assms by (auto simp: vgsm_req_make_va_def vgsm_req_alloc_def vgsm_req_get_def Let_def comm_inv_def request_ok_def comm_times)
qed

lemma completion_inv: "comm_inv c \<Longrightarrow> keeps comm_inv (completion_turn c)"
  by (cases "completion_queue c") (auto simp: completion_turn_def vgsm_req_put_def comm_inv_def)

lemma urc_turn_inv: "comm_inv c \<Longrightarrow> keeps comm_inv (urc_turn c)"
  by (cases "urc_queue c") (auto simp: urc_turn_def vgsm_req_put_def comm_inv_def urc_ok_def)

lemma turns_inv: "(\<And>c. P c \<Longrightarrow> keeps P (f c)) \<Longrightarrow> P c \<Longrightarrow> keeps P (turns n f c)"
  by (induction n arbitrary: c) (auto intro: keeps_bind)

text \<open>Between events the line is not on its way to be closed.\<close>

definition line_inv :: "vgsm_comm \<Rightarrow> bool" where
  "line_inv c \<longleftrightarrow> comm_inv c \<and> comm_state c \<noteq> VGSM_COMM_CLOSING"

lemma exit_inv: "comm_inv c \<Longrightarrow> keeps line_inv (comm_thread_exit c)"
  unfolding comm_thread_exit_def
  by (intro keeps_bind [where Q = comm_inv] turns_inv completion_inv urc_turn_inv) (auto simp: comm_defs comm_inv_def line_inv_def)

lemma process_inv: "comm_inv c \<Longrightarrow> comm_state c = VGSM_COMM_IDLE \<Longrightarrow> keeps (\<lambda>c'. comm_inv c' \<and> open_state c') (vgsm_process_next_request c)"
  by (auto simp: vgsm_process_next_request_def comm_inv_def comm_defs comm_times open_state_def split: list.split)

lemma flush_runs:
  "\<forall>r \<in> set rs. req_refcnt r = 2 \<Longrightarrow> flush_loop rs c =
     Inr (c\<lparr>requests_queue := if rs = [] then requests_queue c else [],
            completion_queue := completion_queue c @ map (\<lambda>r. r\<lparr>req_err := VGSM_RESP_FAILED, req_ready := True\<rparr>) rs\<rparr>)"
  by (induction rs arbitrary: c) (auto simp: complete_ok)

lemma flush_inv: "comm_inv c \<Longrightarrow> keeps (\<lambda>c'. comm_inv c' \<and> comm_state c' = comm_state c) (vgsm_flush_requests c)"
  by (subst vgsm_flush_requests_def, subst flush_runs) (auto simp: comm_inv_def request_ok_def)

lemma timer_fired_inv:
  assumes "comm_inv c" "open_state c" "comm_timer c \<noteq> None"
  shows "keeps (\<lambda>c'. comm_inv c' \<and> open_state c') (vgsm_comm_timer_fired (c\<lparr>comm_timer := None\<rparr>))"
proof -
  have u: "req_refcnt u = 1" if "current_urc c = Some u" for u using assms(1) that by (simp add: comm_inv_def urc_open_def)
  have r: "req_refcnt r = 2 \<and> 0 < retransmit_cnt r \<and> length (request r) \<le> 80" if "current_req c = Some r" for r
    using assms(1) that by (simp add: comm_inv_def request_ok_def)
  show ?thesis
  proof (cases "comm_state c = VGSM_COMM_RECOVERING")
    case True
    show ?thesis
    proof (cases "current_req c")
      case None
      with True assms(1) show ?thesis by (simp add: vgsm_comm_timer_fired_def comm_defs comm_inv_def open_state_def)
    next
      case (Some req)
      note q = r [OF Some]
      then have "req_refcnt (req\<lparr>retransmit_cnt := k\<rparr>) = 2" for k by simp
      with True Some q assms(1) show ?thesis
        by (auto simp: vgsm_comm_timer_fired_def comm_defs comm_times complete_ok comm_inv_def request_ok_def open_state_def Let_def)
    qed
  next
    case False
    then show ?thesis
      using assms u
      by (auto simp: vgsm_comm_timer_fired_def vgsm_req_put_def vgsm_comm_send_recovery_sequence_def comm_defs comm_times
          comm_inv_def open_state_def Let_def split: vgsm_comm_state.splits option.splits)
  qed
qed

lemma thread_turn_inv:
  assumes "comm_inv c" "open_state c"
  shows "keeps line_inv (comm_thread_turn now m avail c)"
proof -
  let ?P = "\<lambda>c'. comm_inv c' \<and> open_state c'"
  let ?c = "c\<lparr>comm_now := now\<rparr>"
  have c: "?P ?c" using assms by (simp add: comm_inv_def open_state_def)
  have k1: "keeps ?P (vgsm_timerset_run ?c)"
    using timer_fired_inv [OF conjunct1 [OF c] conjunct2 [OF c]] c by (auto simp: vgsm_timerset_run_def split: option.split)
  have k2: "keeps ?P (if comm_state c = VGSM_COMM_IDLE then vgsm_process_next_request c
       else if comm_state c = VGSM_COMM_FAILED \<or> comm_state c = VGSM_COMM_CLOSING \<or> comm_state c = VGSM_COMM_CLOSED
       then vgsm_flush_requests c else Inr c)" if "?P c" for c
    using process_inv [of c] flush_inv [of c] that by (auto simp: open_state_def keeps_def split: sum.split)
  have k3: "keeps (\<lambda>(b, c). if b then comm_inv c else ?P c) (case m of None \<Rightarrow> Inr (False, c) | Some m \<Rightarrow> vgsm_comm_receive_message m c)"
    if "?P c" for c
    using that by (auto simp: vgsm_comm_receive_message_def comm_defs comm_inv_def open_state_def split: option.split)
  have k4: "keeps line_inv (case avail of None \<Rightarrow> Inr c | Some s \<Rightarrow> vgsm_comm_receive s c)" if "?P c" for c
  proof -
    have "?P (c\<lparr>comm_buf := s\<rparr>)" for s using that by (simp add: comm_inv_def open_state_def)
    then have "keeps line_inv (receive_loop n (c\<lparr>comm_buf := s\<rparr>))" for n s
      using receive_inv [of "c\<lparr>comm_buf := s\<rparr>" n] by (auto simp: keeps_def line_inv_def open_state_def split: sum.splits)
    then show ?thesis using that by (auto simp: vgsm_comm_receive_def Let_def line_inv_def open_state_def split: option.split)
  qed
  show ?thesis
    unfolding comm_thread_turn_def
    by (rule keeps_bind [OF k1], rule keeps_bind [OF k2], assumption, rule keeps_bind [OF k3], assumption)
      (auto simp: exit_inv k4 split: if_splits)
qed

lemma comm_step_inv:
  assumes "comm_event_ok e c" "line_inv c"
  shows "keeps line_inv (comm_step e c)"
proof -
  have s: "comm_inv c" "comm_state c \<noteq> VGSM_COMM_CLOSING" using assms(2) by (simp_all add: line_inv_def)
  show ?thesis
  proof (cases e)
    case (Make_request cmd timeout pdu)
    have "keeps (\<lambda>(a, c'). line_inv c') (vgsm_req_make_va cmd timeout pdu c)"
      using make_request_inv [OF s(1), of timeout cmd pdu] Make_request assms(1) s(2)
      by (auto simp: vgsm_req_make_va_def vgsm_req_alloc_def vgsm_req_get_def Let_def line_inv_def)
    then show ?thesis unfolding Make_request comm_step.simps by (rule keeps_bind) auto
  next
    case (Thread_turn now m avail)
    then show ?thesis using thread_turn_inv [OF s(1)] assms(1) s(2) by (simp add: open_state_def)
  next
    case Completion_turn
    then show ?thesis
      using assms(2) by (cases "completion_queue c") (auto simp: completion_turn_def vgsm_req_put_def comm_inv_def line_inv_def)
  next
    case Urc_turn
    then show ?thesis
      using assms(2) by (cases "urc_queue c") (auto simp: urc_turn_def vgsm_req_put_def comm_inv_def urc_ok_def line_inv_def)
  qed
qed

interpretation serial_events: event_machine comm_event_ok comm_step line_inv
  by unfold_locales (use comm_step_inv in \<open>fastforce simp: keeps_def\<close>)

text \<open>
  C19. Over any sequence of turns of the threads and requests of users, whatever the module sends and however late, no assertion of
  the line fails, no null pointer is followed and no request is used after it was freed; the state tells what is in progress, with a timer
  whenever something is awaited. The only fault left is reading what lies behind the end of the string in the buffer.
\<close>

theorem line_never_asserts:
  assumes "line_inv c" "events_ok comm_step comm_event_ok es c"
  shows "case run_events comm_step es c of Inl e \<Rightarrow> e = OutOfBounds | Inr c' \<Rightarrow> line_inv c'"
  using assms
proof (induction es arbitrary: c)
  case Nil
  then show ?case by simp
next
  case (Cons e es)
  then have "keeps line_inv (comm_step e c)" by (simp add: comm_step_inv)
  with Cons show ?case by (cases "comm_step e c") simp_all
qed


section \<open>Requests are answered in their order\<close>

definition waiting_reqs :: "vgsm_comm \<Rightarrow> vgsm_req list" where
  "waiting_reqs c = (case current_req c of None \<Rightarrow> [] | Some r \<Rightarrow> [r]) @ requests_queue c"

definition req_addrs :: "vgsm_comm \<Rightarrow> nat list" where
  "req_addrs c = map req_addr (completed c @ completion_queue c @ waiting_reqs c)"

text \<open>What was done stays done, and nothing is added that was not waiting.\<close>

definition done_reqs :: "vgsm_comm \<Rightarrow> vgsm_req list" where
  "done_reqs c = completed c @ completion_queue c"

definition orderly :: "vgsm_comm \<Rightarrow> vgsm_comm \<Rightarrow> bool" where
  "orderly c c' \<longleftrightarrow> req_addrs c' = req_addrs c \<and> (\<exists>new. done_reqs c' = done_reqs c @ new)
     \<and> next_req c \<le> next_req c'"

lemma orderly_refl: "orderly c c" by (simp add: orderly_def)

lemma orderly_trans: "orderly a b \<Longrightarrow> orderly b c \<Longrightarrow> orderly a c"
  by (auto simp: orderly_def)

lemma orderly_same:
  "completed c' = completed c \<Longrightarrow> completion_queue c' = completion_queue c \<Longrightarrow> requests_queue c' = requests_queue c \<Longrightarrow>
   map_option req_addr (current_req c') = map_option req_addr (current_req c) \<Longrightarrow> next_req c \<le> next_req c' \<Longrightarrow> orderly c c'"
  by (cases "current_req c"; cases "current_req c'") (auto simp: orderly_def req_addrs_def done_reqs_def waiting_reqs_def)

lemma hand_over_addr: "hand_over r = Inr r' \<Longrightarrow> req_addr r' = req_addr r"
  by (auto simp: hand_over_def vgsm_req_get_def vgsm_req_put_def split: if_splits)

lemma orderly_complete:
  assumes "complete_req err r c = Inr c'" "current_req c = None" "requests_queue c0 = requests_queue c"
    "completed c = completed c0" "completion_queue c = completion_queue c0" "map_option req_addr (current_req c0) = Some (req_addr r)"
    "next_req c0 \<le> next_req c"
  shows "orderly c0 c'"
  using assms by (auto simp: complete_req_def bind_res_eq_Inr orderly_def req_addrs_def done_reqs_def waiting_reqs_def dest!: hand_over_addr)

lemma orderly_lines:
  "response_line line r c = Inr c' \<Longrightarrow> current_req c = Some r \<Longrightarrow> orderly c c'"
  "urc_line line c = Inr c' \<Longrightarrow> orderly c c'"
  "urc_cont_line line c = Inr c' \<Longrightarrow> orderly c c'"
proof -
  show "response_line line r c = Inr c' \<Longrightarrow> current_req c = Some r \<Longrightarrow> orderly c c'"
    by (auto simp: response_line_def Let_def comm_defs split: if_splits elim: orderly_complete intro: orderly_same)
  show "urc_line line c = Inr c' \<Longrightarrow> orderly c c'"
    by (auto simp: urc_line_def Let_def comm_defs bind_res_eq_Inr split: if_splits option.splits intro!: orderly_same)
  show "urc_cont_line line c = Inr c' \<Longrightarrow> orderly c c'"
    by (auto simp: urc_cont_line_def Let_def comm_defs split: if_splits option.splits intro!: orderly_same)
qed

lemma orderly_turn: "receive_turn nread c = Inr (n, c') \<Longrightarrow> orderly c c'"
  unfolding receive_turn_def match_response_begin vgsm_comm_match_urc_def vgsm_comm_match_urc_cont_def Let_def
  by (auto simp: comm_defs bind_res_eq_Inr split: vgsm_comm_state.splits option.splits if_splits sum.splits
      elim: orderly_lines intro: orderly_same)

lemma orderly_loop: "receive_loop n c = Inr c' \<Longrightarrow> orderly c c'"
proof (induction n c rule: receive_loop.induct)
  case (1 n c)
  obtain k c1 where t: "receive_turn n c = Inr (k, c1)"
    using 1(2) by (subst (asm) receive_loop.simps) (auto split: sum.splits)
  show ?case
  proof (cases "k = 0")
    case True
    then show ?thesis using 1(2) t orderly_turn [OF t] by (subst (asm) receive_loop.simps) simp
  next
    case False
    let ?c = "c1\<lparr>comm_buf := c_string (drop k (comm_buf c))\<rparr>"
    have l: "k \<le> length (comm_buf c)" "receive_loop 0 ?c = Inr c'"
      using 1(2) t False by (subst (asm) receive_loop.simps, auto split: if_splits)+
    have "orderly c1 ?c" by (rule orderly_same) simp_all
    moreover have "orderly ?c c'" using 1(1) [OF t refl False _ l(2)] l(1) by simp
    ultimately show ?thesis using orderly_turn [OF t] orderly_trans by blast
  qed
qed

lemma orderly_receive: "vgsm_comm_receive s c = Inr c' \<Longrightarrow> orderly c c'"
  unfolding vgsm_comm_receive_def Let_def
  by (drule orderly_loop, rule orderly_trans, rule orderly_same) simp_all

lemma orderly_completion: "completion_turn c = Inr c' \<Longrightarrow> orderly c c'"
  by (auto simp: completion_turn_def bind_res_eq_Inr orderly_def req_addrs_def done_reqs_def waiting_reqs_def split: list.splits)

lemma orderly_urc: "urc_turn c = Inr c' \<Longrightarrow> orderly c c'"
  by (auto simp: urc_turn_def bind_res_eq_Inr split: list.splits if_splits intro!: orderly_same)

lemma orderly_turns: "(\<And>c c'. f c = Inr c' \<Longrightarrow> orderly c c') \<Longrightarrow> turns n f c = Inr c' \<Longrightarrow> orderly c c'"
  by (induction n arbitrary: c) (auto simp: bind_res_eq_Inr orderly_refl intro: orderly_trans)

lemma orderly_exit: "comm_thread_exit c = Inr c' \<Longrightarrow> orderly c c'"
proof -
  assume "comm_thread_exit c = Inr c'"
  then obtain c1 c2 where r: "turns (length (completion_queue c)) completion_turn c = Inr c1" "turns (length (urc_queue c1)) urc_turn c1 = Inr c2"
      "c' = vgsm_comm_change_state VGSM_COMM_CLOSED (-1) c2"
    by (auto simp: comm_thread_exit_def bind_res_eq_Inr)
  have "orderly c c1" using orderly_turns [OF orderly_completion r(1)] .
  moreover have "orderly c1 c2" using orderly_turns [OF orderly_urc r(2)] .
  moreover have "orderly c2 c'" unfolding r(3) by (rule orderly_same) (simp_all add: comm_defs)
  ultimately show ?thesis by (blast intro: orderly_trans)
qed

lemma orderly_process: "vgsm_process_next_request c = Inr c' \<Longrightarrow> orderly c c'"
  by (auto simp: vgsm_process_next_request_def comm_defs orderly_def req_addrs_def done_reqs_def waiting_reqs_def split: list.splits if_splits)

lemma orderly_flush:
  assumes "vgsm_flush_requests c = Inr c'" "current_req c = None"
  shows "orderly c c'"
proof -
  have "orderly c c'" if "flush_loop rs c = Inr c'" "requests_queue c = rs" "current_req c = None" for rs c
    using that
  proof (induction rs arbitrary: c)
    case Nil
    then show ?case by (simp add: orderly_refl)
  next
    case (Cons r rs)
    then obtain c1 where c1: "complete_req VGSM_RESP_FAILED r (c\<lparr>requests_queue := rs\<rparr>) = Inr c1" "flush_loop rs c1 = Inr c'"
      by (auto simp: bind_res_eq_Inr)
    then have "orderly c c1" "requests_queue c1 = rs" "current_req c1 = None"
      using Cons.prems by (auto simp: complete_req_def bind_res_eq_Inr orderly_def req_addrs_def done_reqs_def waiting_reqs_def dest!: hand_over_addr)
    then show ?case using Cons.IH [OF c1(2)] orderly_trans by blast
  qed
  then show ?thesis using assms by (simp add: vgsm_flush_requests_def)
qed

lemma orderly_fired: "vgsm_comm_timer_fired c = Inr c' \<Longrightarrow> orderly c c'"
  by (auto simp: vgsm_comm_timer_fired_def Let_def comm_defs vgsm_comm_send_recovery_sequence_def bind_res_eq_Inr
      split: vgsm_comm_state.splits option.splits if_splits elim: orderly_complete intro: orderly_same)


lemma orderly_thread_turn:
  assumes "comm_thread_turn now m avail c = Inr c'" "comm_inv c" "open_state c"
  shows "orderly c c'"
proof -
  let ?c = "c\<lparr>comm_now := now\<rparr>"
  have c: "comm_inv ?c" "open_state ?c" using assms(2,3) by (simp_all add: comm_inv_def open_state_def)
  obtain c1 c2 ends c3 where r: "vgsm_timerset_run ?c = Inr c1"
      "(if comm_state c1 = VGSM_COMM_IDLE then vgsm_process_next_request c1
        else if comm_state c1 = VGSM_COMM_FAILED \<or> comm_state c1 = VGSM_COMM_CLOSING \<or> comm_state c1 = VGSM_COMM_CLOSED
        then vgsm_flush_requests c1 else Inr c1) = Inr c2"
      "(case m of None \<Rightarrow> Inr (False, c2) | Some m \<Rightarrow> vgsm_comm_receive_message m c2) = Inr (ends, c3)"
      "(if ends then comm_thread_exit c3 else case avail of None \<Rightarrow> Inr c3 | Some s \<Rightarrow> vgsm_comm_receive s c3) = Inr c'"
    using assms(1) by (auto simp: comm_thread_turn_def bind_res_eq_Inr)
  have "keeps (\<lambda>c'. comm_inv c' \<and> open_state c') (vgsm_timerset_run ?c)"
    using timer_fired_inv [OF c] c by (auto simp: vgsm_timerset_run_def split: option.split)
  then have i: "comm_inv c1" "open_state c1" using r(1) by simp_all
  have "orderly c ?c" by (rule orderly_same) simp_all
  moreover have "orderly ?c c1"
  proof (cases "comm_timer c")
    case None
    then show ?thesis using r(1) by (simp add: vgsm_timerset_run_def orderly_refl)
  next
    case (Some e)
    have "orderly ?c (?c\<lparr>comm_timer := None\<rparr>)" by (rule orderly_same) simp_all
    then show ?thesis
      using r(1) Some orderly_fired [of "?c\<lparr>comm_timer := None\<rparr>" c1]
      by (auto simp: vgsm_timerset_run_def orderly_refl split: if_splits intro: orderly_trans)
  qed
  moreover have "orderly c1 c2"
    using r(2) i orderly_process [of c1 c2] orderly_flush [of c1 c2]
    by (auto simp: comm_inv_def open_state_def orderly_refl split: if_splits)
  moreover have "orderly c2 c3"
    using r(3) by (auto simp: vgsm_comm_receive_message_def comm_defs orderly_refl split: option.splits if_splits intro: orderly_same)
  moreover have "orderly c3 c'"
    using r(4) by (auto simp: orderly_refl orderly_exit orderly_receive split: option.splits if_splits)
  ultimately show ?thesis using orderly_trans by meson
qed

lemma order_step:
  assumes "comm_step e c = Inr c'" "comm_event_ok e c" "line_inv c"
  shows "\<exists>new done. req_addrs c' = req_addrs c @ new \<and> done_reqs c' = done_reqs c @ done \<and> next_req c \<le> next_req c' \<and>
     sorted_wrt (<) new \<and> (\<forall>a \<in> set new. next_req c \<le> a \<and> a < next_req c')"
proof -
  have *: "?thesis" if "orderly c c'"
  proof -
    obtain d where "req_addrs c' = req_addrs c @ []" "done_reqs c' = done_reqs c @ d" "next_req c \<le> next_req c'"
      using \<open>orderly c c'\<close> by (auto simp: orderly_def)
    moreover have "sorted_wrt (<) ([] :: nat list)" by simp
    ultimately show ?thesis by (metis empty_iff list.set(1))
  qed
  show ?thesis
  proof (cases e)
    case (Make_request cmd timeout pdu)
    then have "(c' = c\<lparr>next_req := next_req c + 1\<rparr>) \<or>
        (\<exists>r. c' = c\<lparr>next_req := next_req c + 1, requests_queue := requests_queue c @ [r]\<rparr> \<and> req_addr r = next_req c)"
      using assms(1) by (auto simp: vgsm_req_make_va_def vgsm_req_alloc_def vgsm_req_get_def Let_def split: if_splits)
    then show ?thesis
    proof (elim disjE exE conjE)
      assume "c' = c\<lparr>next_req := next_req c + 1\<rparr>"
      then have "orderly c c'" by (auto intro: orderly_same)
      then show ?thesis by (rule *)
    next
      fix r assume c': "c' = c\<lparr>next_req := next_req c + 1, requests_queue := requests_queue c @ [r]\<rparr>" and r: "req_addr r = next_req c"
      have "req_addrs c' = req_addrs c @ [next_req c]" "done_reqs c' = done_reqs c @ []"
        using r unfolding c' by (simp_all add: req_addrs_def done_reqs_def waiting_reqs_def split: option.split)
      moreover have "next_req c \<le> next_req c'" "\<forall>a \<in> set [next_req c]. next_req c \<le> a \<and> a < next_req c'" unfolding c' by simp_all
      moreover have "sorted_wrt (<) [next_req c]" by simp
      ultimately show ?thesis by blast
    qed
  next
    case (Thread_turn now m avail)
    then have "orderly c c'"
      using orderly_thread_turn [of now m avail c c'] assms by (simp add: line_inv_def open_state_def)
    then show ?thesis by (rule *)
  next
    case Completion_turn
    then show ?thesis using * orderly_completion assms(1) by simp
  next
    case Urc_turn
    then show ?thesis using * orderly_urc assms(1) by simp
  qed
qed

text \<open>
  C20. Requests are answered in the order in which they were made, each once: the addresses of the requests that are done, in progress
  and waiting are, in this order, those there were before and then the new ones, ascending; what is done stays as it is.
\<close>

theorem requests_in_order:
  assumes "line_inv c" "events_ok comm_step comm_event_ok es c" "run_events comm_step es c = Inr c'"
  shows "\<exists>new done. req_addrs c' = req_addrs c @ new \<and> done_reqs c' = done_reqs c @ done \<and>
     sorted_wrt (<) new \<and> (\<forall>a \<in> set new. next_req c \<le> a \<and> a < next_req c') \<and> next_req c \<le> next_req c'"
  using assms
proof (induction es arbitrary: c)
  case Nil
  then show ?case by auto
next
  case (Cons e es)
  then obtain c1 where c1: "comm_step e c = Inr c1" "run_events comm_step es c1 = Inr c'" by (auto simp: bind_res_eq_Inr)
  have "line_inv c1" using comm_step_inv [of e c] Cons.prems(1,2) c1(1) by simp
  then obtain new d where n: "req_addrs c' = req_addrs c1 @ new" "done_reqs c' = done_reqs c1 @ d" "sorted_wrt (<) new"
      "\<forall>a \<in> set new. next_req c1 \<le> a \<and> a < next_req c'" "next_req c1 \<le> next_req c'"
    using Cons.IH [OF _ _ c1(2)] Cons.prems(2) c1(1) by auto
  obtain new1 d1 where m: "req_addrs c1 = req_addrs c @ new1" "done_reqs c1 = done_reqs c @ d1" "next_req c \<le> next_req c1"
      "sorted_wrt (<) new1" "\<forall>a \<in> set new1. next_req c \<le> a \<and> a < next_req c1"
    using order_step [OF c1(1)] Cons.prems(1,2) by auto
  have "sorted_wrt (<) (new1 @ new)" using n(3,4) m(4,5) by (fastforce simp: sorted_wrt_append)
  moreover have "\<forall>a \<in> set (new1 @ new). next_req c \<le> a \<and> a < next_req c'" using n(4,5) m(3,5) by fastforce
  moreover have "req_addrs c' = req_addrs c @ (new1 @ new)" "done_reqs c' = done_reqs c @ (d1 @ d)" using n(1,2) m(1,2) by simp_all
  moreover have "next_req c \<le> next_req c'" using n(5) m(3) by simp
  ultimately show ?case by blast
qed

section \<open>A module that does not answer\<close>

text \<open>Turns of the thread, each after the timer has expired.\<close>

fun spaced :: "int \<Rightarrow> int list \<Rightarrow> bool" where
  "spaced e [] = True"
| "spaced e (t # ts) = (e < t \<and> spaced (t + SEC) ts)"

abbreviation silent_turns :: "int list \<Rightarrow> vgsm_comm \<Rightarrow> vgsm_comm res" where
  "silent_turns ts \<equiv> run_events comm_step (map (\<lambda>t. Thread_turn t None None) ts)"

definition req_failed :: "vgsm_req \<Rightarrow> vgsm_req" where
  "req_failed r = r\<lparr>req_err := VGSM_RESP_FAILED, req_ready := True\<rparr>"

definition with_request :: "vgsm_comm_state set" where
  "with_request = {VGSM_COMM_AWAITING_ECHO, VGSM_COMM_AWAITING_ECHO_READING_URC, VGSM_COMM_AWAITING_SMS_ECHO,
     VGSM_COMM_AWAITING_SMS_ECHO_1A, VGSM_COMM_READING_RESPONSE}"

definition recovery_ops :: "serial_op list" where
  "recovery_ops = [Serial_flush, Serial_write (asc ''AT E1 V1 Q0'' @ [13])]"

lemma lost_turn:
  assumes "comm_inv c" "comm_state c \<in> with_request" "comm_timer c = Some e" "e < t"
  shows "comm_step (Thread_turn t None None) c = Inr (c\<lparr>comm_now := t, comm_timer := Some (t + SEC), comm_state := VGSM_COMM_RECOVERING,
    current_urc := None, comm_buf := [], serial_ops := serial_ops c @ recovery_ops\<rparr>)"
proof -
  have u: "req_refcnt u = 1" if "current_urc c = Some u" for u using assms(1) that by (simp add: comm_inv_def urc_open_def)
  show ?thesis
    using assms(2-4) u
    by (auto simp: with_request_def comm_thread_turn_def vgsm_timerset_run_def vgsm_comm_timer_fired_def vgsm_req_put_def
        vgsm_comm_send_recovery_sequence_def recovery_ops_def comm_defs comm_times Let_def split: option.split)
qed

lemma again_turn:
  assumes "comm_state c = VGSM_COMM_RECOVERING" "comm_timer c = Some e" "e < t" "current_req c = Some r" "retransmit_cnt r \<noteq> 1"
    "length (request r) \<le> 80"
  shows "comm_step (Thread_turn t None None) c = Inr (c\<lparr>comm_now := t, comm_timer := Some (t + ECHO_TIMEOUT), comm_state := VGSM_COMM_AWAITING_ECHO,
    current_req := Some (r\<lparr>retransmit_cnt := retransmit_cnt r - 1\<rparr>), serial_ops := serial_ops c @ [Serial_write (request r)]\<rparr>)"
  using assms by (simp add: comm_thread_turn_def vgsm_timerset_run_def vgsm_comm_timer_fired_def comm_defs comm_times Let_def)

lemma last_turn:
  assumes "comm_state c = VGSM_COMM_RECOVERING" "comm_timer c = Some e" "e < t" "current_req c = Some r" "retransmit_cnt r = 1"
    "req_refcnt r = 2" "\<forall>q \<in> set (requests_queue c). req_refcnt q = 2"
  shows "comm_step (Thread_turn t None None) c = Inr (c\<lparr>comm_now := t, comm_timer := None, comm_state := VGSM_COMM_FAILED,
    current_req := None, requests_queue := [],
    completion_queue := completion_queue c @ map req_failed (r\<lparr>retransmit_cnt := 0\<rparr> # requests_queue c)\<rparr>)"
proof -
  have "req_refcnt (r\<lparr>retransmit_cnt := k\<rparr>) = 2" for k using assms(6) by simp
  then show ?thesis
    using assms(1-5,7)
    by (auto simp: comm_thread_turn_def vgsm_timerset_run_def vgsm_comm_timer_fired_def comm_defs complete_ok Let_def vgsm_flush_requests_def
        flush_runs req_failed_def)
qed

lemma silent_runs:
  assumes "comm_inv c" "comm_state c \<in> with_request" "current_req c = Some r" "comm_timer c = Some e" "e \<le> e'"
    "retransmit_cnt r = int (Suc n)" "length ts = 2 * Suc n" "spaced e' ts"
  shows "silent_turns ts c = Inr (c\<lparr>comm_now := last ts, comm_timer := None, comm_state := VGSM_COMM_FAILED, comm_buf := [], current_req := None,
    current_urc := None, requests_queue := [],
    serial_ops := serial_ops c @ concat (replicate n (recovery_ops @ [Serial_write (request r)])) @ recovery_ops,
    completion_queue := completion_queue c @ map req_failed (r\<lparr>retransmit_cnt := 0\<rparr> # requests_queue c)\<rparr>)"
  using assms
proof (induction n arbitrary: c r e e' ts)
  case 0
  then obtain t1 t2 where ts: "ts = [t1, t2]" by (auto simp: numeral_2_eq_2 length_Suc_conv)
  let ?c = "c\<lparr>comm_now := t1, comm_timer := Some (t1 + SEC), comm_state := VGSM_COMM_RECOVERING,
    current_urc := None, comm_buf := [], serial_ops := serial_ops c @ recovery_ops\<rparr>"
  have 1: "comm_step (Thread_turn t1 None None) c = Inr ?c" by (rule lost_turn [OF "0.prems"(1,2,4)]) (use "0.prems" ts in simp)
  have r: "req_refcnt r = 2" "\<forall>q \<in> set (requests_queue c). req_refcnt q = 2" using "0.prems"(1,3) by (auto simp: comm_inv_def request_ok_def)
  have "comm_step (Thread_turn t2 None None) ?c = Inr (?c\<lparr>comm_now := t2, comm_timer := None, comm_state := VGSM_COMM_FAILED,
    current_req := None, requests_queue := [],
    completion_queue := completion_queue ?c @ map req_failed (r\<lparr>retransmit_cnt := 0\<rparr> # requests_queue ?c)\<rparr>)"
    by (rule last_turn) (use "0.prems" ts r in auto)
  then show ?case unfolding ts list.map run_events.simps 1 bind_res_simps by simp
next
  case (Suc n)
  then obtain t1 t2 ts' where ts: "ts = t1 # t2 # ts'" "length ts' = 2 * Suc n"
    by (cases ts; cases "tl ts") auto
  then have ne: "ts' \<noteq> []" by auto
  let ?c = "c\<lparr>comm_now := t1, comm_timer := Some (t1 + SEC), comm_state := VGSM_COMM_RECOVERING,
    current_urc := None, comm_buf := [], serial_ops := serial_ops c @ recovery_ops\<rparr>"
  let ?r = "r\<lparr>retransmit_cnt := retransmit_cnt r - 1\<rparr>"
  let ?d = "?c\<lparr>comm_now := t2, comm_timer := Some (t2 + ECHO_TIMEOUT), comm_state := VGSM_COMM_AWAITING_ECHO,
    current_req := Some ?r, serial_ops := serial_ops ?c @ [Serial_write (request r)]\<rparr>"
  have 1: "comm_step (Thread_turn t1 None None) c = Inr ?c" by (rule lost_turn [OF Suc.prems(1,2,4)]) (use Suc.prems ts in simp)
  have r: "length (request r) \<le> 80" using Suc.prems(1,3) by (simp add: comm_inv_def request_ok_def)
  have 2: "comm_step (Thread_turn t2 None None) ?c = Inr ?d" by (rule again_turn) (use Suc.prems ts r in auto)
  have "comm_inv ?d" using Suc.prems(1,3,6) by (simp add: comm_inv_def request_ok_def)
  moreover have "comm_state ?d \<in> with_request" "current_req ?d = Some ?r" "comm_timer ?d = Some (t2 + ECHO_TIMEOUT)" by (simp_all add: with_request_def)
  moreover have "t2 + ECHO_TIMEOUT \<le> t2 + SEC" "retransmit_cnt ?r = int (Suc n)" "spaced (t2 + SEC) ts'"
    using Suc.prems(6,8) ts by (simp_all add: comm_times)
  ultimately have 3: "silent_turns ts' ?d = Inr (?d\<lparr>comm_now := last ts', comm_timer := None, comm_state := VGSM_COMM_FAILED, comm_buf := [],
    current_req := None, current_urc := None, requests_queue := [],
    serial_ops := serial_ops ?d @ concat (replicate n (recovery_ops @ [Serial_write (request ?r)])) @ recovery_ops,
    completion_queue := completion_queue ?d @ map req_failed (?r\<lparr>retransmit_cnt := 0\<rparr> # requests_queue ?d)\<rparr>)"
    using Suc.IH [OF _ _ _ _ _ _ ts(2), where c = ?d] by blast
  show ?case unfolding ts(1) list.map run_events.simps 1 2 bind_res_simps 3 using ne by simp
qed

text \<open>
  C21. A module that does not answer is given up: from the sending of a request with \<open>n\<close> attempts left, and whatever of the answer is
  missing, after exactly \<open>2 * n\<close> expiries of the timer the line has failed, the request and all that waited behind it are done
  with the result \<open>VGSM_RESP_FAILED\<close>, and the request was sent \<open>n - 1\<close> times more, each time after a recovery sequence.
\<close>

theorem silent_module_given_up:
  assumes "line_inv c" "comm_state c \<in> with_request" "current_req c = Some r" "comm_timer c = Some e"
    and "spaced e ts" "int (length ts) = 2 * retransmit_cnt r"
  shows "\<exists>c'. silent_turns ts c = Inr c' \<and> comm_state c' = VGSM_COMM_FAILED \<and> waiting_reqs c' = [] \<and>
     done_reqs c' = done_reqs c @ map req_failed (r\<lparr>retransmit_cnt := 0\<rparr> # requests_queue c) \<and>
     serial_ops c' = serial_ops c @ concat (replicate (nat (retransmit_cnt r) - 1) (recovery_ops @ [Serial_write (request r)])) @ recovery_ops"
proof -
  have i: "comm_inv c" "0 < retransmit_cnt r" using assms(1,3) by (simp_all add: line_inv_def comm_inv_def request_ok_def)
  then obtain n where n: "retransmit_cnt r = int (Suc n)" by (metis gr0_implies_Suc zero_less_imp_eq_int)
  then have "nat (retransmit_cnt r) - 1 = n" by simp
  with n show ?thesis
    using silent_runs [OF i(1) assms(2-4) order_refl n _ assms(5)] assms(6) by (simp add: waiting_reqs_def done_reqs_def)
qed

section \<open>A line that is closed\<close>

abbreviation requests_kept :: "vgsm_comm \<Rightarrow> vgsm_comm \<Rightarrow> bool" where
  "requests_kept c c' \<equiv> requests_queue c' = requests_queue c \<and> current_urc c' = current_urc c \<and> current_req c' = current_req c \<and>
     done_reqs c' = done_reqs c"

lemma exit_waiting:
  assumes "comm_thread_exit c = Inr c'"
  shows "waiting_reqs c' = waiting_reqs c" "comm_state c' = VGSM_COMM_CLOSED" "comm_timer c' = None" "current_urc c' = current_urc c"
    "current_req c' = current_req c" "done_reqs c' = done_reqs c"
proof -
  have t: "requests_kept c c'"
    if "turns n f c = Inr c'" "\<And>c c'. f c = Inr c' \<Longrightarrow> requests_kept c c'"
    for n f c c' using that by (induction n arbitrary: c) (auto simp: bind_res_eq_Inr)
  obtain c1 c2 where r: "turns (length (completion_queue c)) completion_turn c = Inr c1" "turns (length (urc_queue c1)) urc_turn c1 = Inr c2"
      "c' = vgsm_comm_change_state VGSM_COMM_CLOSED (-1) c2"
    using assms by (auto simp: comm_thread_exit_def bind_res_eq_Inr)
  have "requests_kept c c1" by (rule t [OF r(1)]) (auto simp: completion_turn_def bind_res_eq_Inr done_reqs_def split: list.splits)
  moreover have "requests_kept c1 c2"
    by (rule t [OF r(2)]) (auto simp: urc_turn_def bind_res_eq_Inr done_reqs_def split: list.splits if_splits)
  ultimately show "waiting_reqs c' = waiting_reqs c" "comm_state c' = VGSM_COMM_CLOSED" "comm_timer c' = None" "current_urc c' = current_urc c"
    "current_req c' = current_req c" "done_reqs c' = done_reqs c"
    using r(3) by (simp_all add: comm_defs waiting_reqs_def done_reqs_def)
qed


lemma closing_turn:
  assumes "comm_step (Thread_turn now (Some VGSM_COMM_MSG_CLOSE) avail) c = Inr c'"
  shows "comm_state c' = VGSM_COMM_CLOSED" "comm_timer c' = None"
proof -
  obtain c1 where "comm_thread_exit c1 = Inr c'"
    using assms by (auto simp: comm_thread_turn_def vgsm_comm_receive_message_def bind_res_eq_Inr split: if_splits)
  then show "comm_state c' = VGSM_COMM_CLOSED" "comm_timer c' = None" by (rule exit_waiting)+
qed

text \<open>The turn with the message does to the requests what a turn without it does: closing completes none of them.\<close>

lemma closing_completes_nothing:
  assumes "comm_step (Thread_turn now (Some VGSM_COMM_MSG_CLOSE) avail) c = Inr c1"
  shows "\<exists>c0. comm_step (Thread_turn now None None) c = Inr c0 \<and> done_reqs c1 = done_reqs c0 \<and> waiting_reqs c1 = waiting_reqs c0"
proof -
  obtain c0 where c0: "comm_step (Thread_turn now None None) c = Inr c0"
      "comm_thread_exit (vgsm_comm_change_state VGSM_COMM_CLOSING (-1) c0) = Inr c1"
    using assms by (auto simp: comm_thread_turn_def vgsm_comm_receive_message_def bind_res_eq_Inr)
  then show ?thesis using exit_waiting(1,6) [OF c0(2)] by (simp add: comm_defs waiting_reqs_def done_reqs_def)
qed

lemma turn_completes_nothing:
  assumes "comm_step (Thread_turn now None None) c = Inr c0" "open_state c" "comm_state c \<noteq> VGSM_COMM_FAILED"
    and "pred_option (\<lambda>expires. now \<le> expires) (comm_timer c)"
  shows "done_reqs c0 = done_reqs c \<and> waiting_reqs c0 = waiting_reqs c"
  using assms
  by (auto simp: comm_thread_turn_def vgsm_timerset_run_def open_state_def bind_res_eq_Inr vgsm_process_next_request_def comm_defs
      done_reqs_def waiting_reqs_def split: option.splits if_splits list.splits)

lemma closed_step:
  assumes "comm_step e c = Inr c'" "comm_event_ok e c" "comm_state c = VGSM_COMM_CLOSED" "comm_timer c = None"
  shows "comm_state c' = VGSM_COMM_CLOSED \<and> comm_timer c' = None \<and> done_reqs c' = done_reqs c \<and> current_req c' = current_req c \<and>
    (\<exists>rs. waiting_reqs c' = waiting_reqs c @ rs)"
proof (cases e)
  case (Make_request cmd timeout pdu)
  then show ?thesis
    using assms
    by (auto simp: vgsm_req_make_va_def vgsm_req_alloc_def Let_def bind_res_eq_Inr done_reqs_def waiting_reqs_def split: if_splits option.splits)
next
  case Completion_turn
  then show ?thesis
    using assms by (auto simp: completion_turn_def bind_res_eq_Inr done_reqs_def waiting_reqs_def split: list.splits)
next
  case Urc_turn
  then show ?thesis
    using assms by (auto simp: urc_turn_def bind_res_eq_Inr done_reqs_def waiting_reqs_def split: list.splits if_splits)
qed (use assms in simp)

lemma closed_run:
  assumes "run_events comm_step es c = Inr c'" "events_ok comm_step comm_event_ok es c"
    "comm_state c = VGSM_COMM_CLOSED" "comm_timer c = None"
  shows "comm_state c' = VGSM_COMM_CLOSED \<and> comm_timer c' = None \<and> done_reqs c' = done_reqs c \<and> current_req c' = current_req c \<and>
    (\<exists>rs. waiting_reqs c' = waiting_reqs c @ rs)"
  using assms
proof (induction es arbitrary: c)
  case Nil
  then show ?case by simp
next
  case (Cons e es)
  then obtain c1 where c1: "comm_step e c = Inr c1" "run_events comm_step es c1 = Inr c'" by (auto simp: bind_res_eq_Inr)
  note s = closed_step [OF c1(1) _ Cons.prems(3,4)]
  show ?case using Cons.IH [OF c1(2)] s Cons.prems(2) c1(1) by fastforce
qed

text \<open>
  C23. Closing a line strands its requests. The thread's last turn, which takes the message to close, completes no request that the
  same turn without the message would not: if no timer is due and the line has not failed, none is done in it, and those in progress
  or waiting are left as they were. Nor are they done by anything that happens afterwards: they stay where they are and are not
  ready, so that their users wait for ever. When the line is opened again with a request that was in progress, the first turn of its
  thread fails an assertion.
\<close>

theorem closed_line_strands_requests:
  assumes "line_inv c" "comm_event_ok (Thread_turn now (Some VGSM_COMM_MSG_CLOSE) avail) c"
    and "comm_step (Thread_turn now (Some VGSM_COMM_MSG_CLOSE) avail) c = Inr c1"
    and "events_ok comm_step comm_event_ok es c1" "run_events comm_step es c1 = Inr c2"
  shows "(\<exists>c0. comm_step (Thread_turn now None None) c = Inr c0 \<and> done_reqs c1 = done_reqs c0 \<and> waiting_reqs c1 = waiting_reqs c0) \<and>
    (comm_state c \<noteq> VGSM_COMM_FAILED \<and> pred_option (\<lambda>expires. now \<le> expires) (comm_timer c) \<longrightarrow>
       done_reqs c1 = done_reqs c \<and> waiting_reqs c1 = waiting_reqs c) \<and>
    req_addrs c1 = req_addrs c \<and> done_reqs c2 = done_reqs c1 \<and> (\<forall>r \<in> set (waiting_reqs c1). r \<in> set (waiting_reqs c2) \<and> \<not> req_ready r) \<and>
    (current_req c1 \<noteq> None \<longrightarrow> bind_res (comm_thread_start c2) (comm_thread_turn now' m avail') = Inl KernelBug)"
proof (intro conjI)
  have i: "comm_inv c" "open_state c" using assms(1,2) by (simp_all add: line_inv_def open_state_def)
  show "req_addrs c1 = req_addrs c" using orderly_thread_turn [OF _ i] assms(3) by (simp add: orderly_def)
  show e: "\<exists>c0. comm_step (Thread_turn now None None) c = Inr c0 \<and> done_reqs c1 = done_reqs c0 \<and> waiting_reqs c1 = waiting_reqs c0"
    by (rule closing_completes_nothing [OF assms(3)])
  show "comm_state c \<noteq> VGSM_COMM_FAILED \<and> pred_option (\<lambda>expires. now \<le> expires) (comm_timer c) \<longrightarrow>
       done_reqs c1 = done_reqs c \<and> waiting_reqs c1 = waiting_reqs c"
    using e turn_completes_nothing [OF _ i(2)] by (metis (no_types, lifting))
  note s = closed_run [OF assms(5,4) closing_turn [OF assms(3)]]
  show "done_reqs c2 = done_reqs c1" using s by blast
  have "line_inv c1" using comm_step_inv [OF assms(2,1)] assms(3) by simp
  then have "\<forall>r \<in> set (waiting_reqs c1). \<not> req_ready r"
    by (auto simp: line_inv_def comm_inv_def request_ok_def waiting_reqs_def split: option.splits)
  with s show "\<forall>r \<in> set (waiting_reqs c1). r \<in> set (waiting_reqs c2) \<and> \<not> req_ready r" by auto
  show "current_req c1 \<noteq> None \<longrightarrow> bind_res (comm_thread_start c2) (comm_thread_turn now' m avail') = Inl KernelBug"
    using s by (auto simp: comm_thread_start_def comm_defs comm_thread_turn_def vgsm_timerset_run_def vgsm_process_next_request_def)
qed

end
