(* ===== verification/Vgsm_Dialogue.thy ===== *)
theory Vgsm_Dialogue
  imports Vgsm_Line
begin

text \<open>
  What a GSM module and the thread of its line say to each other: a command with its answer, codes in between, and the
  message a station receives, from the octets on the line to its text.
\<close>

section \<open>A command and its answer\<close>

definition CRLF :: octets where "CRLF = [13, 10]"

text \<open>Lines as the module sends them, and a code with the second line it may have.\<close>

definition framed :: "octets \<Rightarrow> octets" where "framed l = CRLF @ l @ CRLF"

fun urc_octets :: "octets \<times> octets option \<Rightarrow> octets" where
  "urc_octets (l, None) = framed l"
| "urc_octets (l, Some l2) = framed l @ l2 @ CRLF"

fun urc_lines :: "octets \<times> octets option \<Rightarrow> octets list" where
  "urc_lines (l, None) = [l]"
| "urc_lines (l, Some l2) = [l, l2]"

definition plain_line :: "octets \<Rightarrow> bool" where
  "plain_line l \<longleftrightarrow> list_all (\<lambda>x. x \<noteq> 0 \<and> x \<noteq> 13 \<and> x \<noteq> 10) l"

fun urc_item_ok :: "vgsm_urc_class list \<Rightarrow> octets \<times> octets option \<Rightarrow> bool" where
  "urc_item_ok ks (l, None) \<longleftrightarrow> plain_line l \<and> l \<noteq> [] \<and>
     (case find_class ks l of None \<Rightarrow> False | Some i \<Rightarrow> detect_end (ks ! i) = None)"
| "urc_item_ok ks (l, Some l2) \<longleftrightarrow> plain_line l \<and> l \<noteq> [] \<and> plain_line l2 \<and>
     (case find_class ks l of None \<Rightarrow> False | Some i \<Rightarrow> (case detect_end (ks ! i) of None \<Rightarrow> False | Some f \<Rightarrow> \<forall>u. f u))"

lemma plain_Cons [simp]: "plain_line (x # l) \<longleftrightarrow> x \<noteq> 0 \<and> x \<noteq> 13 \<and> x \<noteq> 10 \<and> plain_line l" "plain_line []"
  by (simp_all add: plain_line_def)

lemma find_crlf_plain: "plain_line l \<Longrightarrow> find_crlf (l @ CRLF @ rest) = Some (length l)"
proof (induction l)
  case (Cons x l)
  then show ?case by (cases l) (simp_all add: CRLF_def)
qed (simp add: CRLF_def)

lemma find_crlf_Cons: "x \<noteq> 13 \<Longrightarrow> find_crlf s = None \<Longrightarrow> find_crlf (x # s) = None"
  by (cases s) simp_all

lemma find_crlf_short: "plain_line l \<Longrightarrow> k < length l + 2 \<Longrightarrow> find_crlf (take k (l @ CRLF @ rest)) = None"
proof (induction l arbitrary: k)
  case Nil
  then have "k = 0 \<or> k = 1" by auto
  then show ?case by (auto simp: CRLF_def)
next
  case (Cons x l)
  show ?case
  proof (cases k)
    case (Suc j)
    then have "find_crlf (take j (l @ CRLF @ rest)) = None" using Cons by simp
    then show ?thesis using Suc Cons.prems find_crlf_Cons [of x "take j (l @ CRLF @ rest)"] by simp
  qed simp
qed

lemma plain_no_zero: "plain_line l \<Longrightarrow> 0 \<notin> set l"
  by (induction l) auto

text \<open>
  In \<open>c\<close> the octets \<open>d\<close> are read to their end, whatever comes behind them, and lead to \<open>c'\<close>; a part of them
  is read without a fault.
\<close>

definition reads :: "vgsm_comm \<Rightarrow> octets \<Rightarrow> vgsm_comm \<Rightarrow> bool" where
  "reads c d c' \<longleftrightarrow> (\<forall>k < length d. \<exists>e. receive_loop 0 (c\<lparr>comm_buf := take k d\<rparr>) = Inr e) \<and>
     (\<forall>rest. 0 \<notin> set rest \<longrightarrow> receive_loop 0 (c\<lparr>comm_buf := d @ rest\<rparr>) = receive_loop 0 (c'\<lparr>comm_buf := rest\<rparr>))"

lemma reads_none: "reads c [] c" by (simp add: reads_def)

lemma reads_append:
  assumes "reads c d c1" "reads c1 e c2" "0 \<notin> set e"
  shows "reads c (d @ e) c2"
  unfolding reads_def
proof (intro conjI allI impI)
  fix k assume k: "k < length (d @ e)"
  show "\<exists>x. receive_loop 0 (c\<lparr>comm_buf := take k (d @ e)\<rparr>) = Inr x"
  proof (cases "k < length d")
    case True
    then show ?thesis using assms(1) by (simp add: reads_def)
  next
    case False
    then have "take k (d @ e) = d @ take (k - length d) e" by simp
    moreover have "0 \<notin> set (take (k - length d) e)" using assms(3) in_set_takeD by fast
    ultimately show ?thesis using assms(1,2) k False by (simp add: reads_def)
  qed
next
  fix rest :: octets assume "0 \<notin> set rest"
  then show "receive_loop 0 (c\<lparr>comm_buf := (d @ e) @ rest\<rparr>) = receive_loop 0 (c2\<lparr>comm_buf := rest\<rparr>)"
    using assms by (simp add: reads_def)
qed

lemma reads_turn:
  assumes "d \<noteq> []" "0 \<notin> set d" "\<And>k. k < length d \<Longrightarrow> \<exists>e. receive_turn 0 (c\<lparr>comm_buf := take k d\<rparr>) = Inr (0, e)"
    "\<And>rest. 0 \<notin> set rest \<Longrightarrow> receive_turn 0 (c\<lparr>comm_buf := d @ rest\<rparr>) = Inr (length d, c'\<lparr>comm_buf := d @ rest\<rparr>)"
  shows "reads c d c'"
  unfolding reads_def
proof (intro conjI allI impI)
  fix k assume "k < length d"
  then show "\<exists>e. receive_loop 0 (c\<lparr>comm_buf := take k d\<rparr>) = Inr e"
    using assms(3) [of k] by (subst receive_loop.simps) auto
next
  fix rest :: octets assume "0 \<notin> set rest"
  then show "receive_loop 0 (c\<lparr>comm_buf := d @ rest\<rparr>) = receive_loop 0 (c'\<lparr>comm_buf := rest\<rparr>)"
    using assms(1,2,4) by (subst receive_loop.simps) (simp add: c_string_id)
qed

lemma urc_begin_framed:
  assumes "plain_line l" "l \<noteq> []"
  shows "3 \<le> k \<Longrightarrow> urc_begin (take k (framed l @ rest)) = Inr 2" "urc_begin (framed l @ rest) = Inr 2"
    "k < 3 \<Longrightarrow> urc_begin (take k (framed l @ rest)) = Inl 0"
proof -
  obtain x l' where l: "l = x # l'" "x \<noteq> 0" "x \<noteq> 13" using assms by (cases l) auto
  show "urc_begin (framed l @ rest) = Inr 2" using l by (simp add: urc_begin_def framed_def CRLF_def char_at_def)
  show "urc_begin (take k (framed l @ rest)) = Inr 2" if "3 \<le> k"
  proof -
    have "take k (framed l @ rest) = 13 # 10 # x # take (k - 3) (l' @ CRLF @ rest)"
      using that l(1) by (simp add: framed_def CRLF_def take_Cons' eval_nat_numeral)
    then show ?thesis using l by (simp add: urc_begin_def char_at_def)
  qed
  show "urc_begin (take k (framed l @ rest)) = Inl 0" if "k < 3"
  proof -
    have "k = 0 \<or> k = 1 \<or> k = 2" using that by auto
    then show ?thesis by (auto simp: urc_begin_def framed_def CRLF_def char_at_def)
  qed
qed

lemma match_urc_framed:
  assumes "plain_line l" "l \<noteq> []"
  shows "k < length (framed l) \<Longrightarrow> vgsm_comm_match_urc (c\<lparr>comm_buf := take k (framed l)\<rparr>) = Inr (0, c\<lparr>comm_buf := take k (framed l)\<rparr>)"
    "0 \<notin> set rest \<Longrightarrow> vgsm_comm_match_urc (c\<lparr>comm_buf := framed l @ rest\<rparr>) =
       bind_res (urc_line l c) (\<lambda>c. Inr (length (framed l), c\<lparr>comm_buf := framed l @ rest\<rparr>))"
proof -
  note b = urc_begin_framed [OF assms, where rest = "[]", unfolded append_Nil2]
  have z: "0 \<notin> set (framed l)" using plain_no_zero [OF assms(1)] by (simp add: framed_def CRLF_def)
  then have z': "0 \<notin> set (take k (framed l))" for k using in_set_takeD by fast
  have d: "drop 2 (framed l @ rest) = l @ CRLF @ rest" for rest by (simp add: framed_def CRLF_def)
  show "vgsm_comm_match_urc (c\<lparr>comm_buf := take k (framed l)\<rparr>) = Inr (0, c\<lparr>comm_buf := take k (framed l)\<rparr>)" if "k < length (framed l)"
  proof (cases "k < 3")
    case True
    then show ?thesis using b(3) by (simp add: vgsm_comm_match_urc_def c_string_id [OF z'])
  next
    case False
    have "drop 2 (take k (framed l)) = take (k - 2) (l @ CRLF @ [])" unfolding drop_take using d [of "[]"] by simp
    then have "find_crlf (drop 2 (take k (framed l))) = None"
      using find_crlf_short [OF assms(1), of "k - 2" "[]"] that by (simp add: framed_def CRLF_def)
    then show ?thesis using b(1) False by (simp add: vgsm_comm_match_urc_def c_string_id [OF z'])
  qed
  show "vgsm_comm_match_urc (c\<lparr>comm_buf := framed l @ rest\<rparr>) =
       bind_res (urc_line l c) (\<lambda>c. Inr (length (framed l), c\<lparr>comm_buf := framed l @ rest\<rparr>))" if "0 \<notin> set rest"
  proof -
    have r: "0 \<notin> set (framed l @ rest)" using z that by simp
    have "length (framed l) = 2 + length l + 2" by (simp add: framed_def CRLF_def)
    then show ?thesis
      unfolding vgsm_comm_match_urc_def vgsm_comm.simps
      by (simp add: c_string_id [OF r] urc_begin_framed(2) [OF assms] d find_crlf_plain [OF assms(1)] lines_buf del: drop_append)
        (simp add: bind_res_def split: sum.split)
  qed
qed

lemma echo_mismatch:
  assumes "request r \<noteq> []" "hd (request r) \<noteq> 13" "0 < k" "plain_line l"
  shows "match_echo_loop (c_string (take k (framed l))) (request r) 0 = -1"
    "match_echo_loop (c_string (framed l @ rest)) (request r) 0 = -1"
proof -
  obtain x q where q: "request r = x # q" "x \<noteq> 13" using assms(1,2) by (cases "request r") auto
  have "\<exists>s. take k (framed l) = 13 # s" using assms(3) by (cases k) (auto simp: framed_def CRLF_def)
  then show "match_echo_loop (c_string (take k (framed l))) (request r) 0 = -1" using q by (auto simp: c_string_def)
  show "match_echo_loop (c_string (framed l @ rest)) (request r) 0 = -1" using q by (simp add: c_string_def framed_def CRLF_def)
qed

definition new_urc :: "vgsm_comm \<Rightarrow> nat \<Rightarrow> octets \<Rightarrow> vgsm_req" where
  "new_urc c i l = (fst (vgsm_req_alloc c))\<lparr>urc_class := Some i, req_lines := [l]\<rparr>"

lemma urc_line_echo:
  assumes "comm_state c = VGSM_COMM_AWAITING_ECHO" "current_urc c = None" "find_class (urc_classes c) l = Some i"
  shows "urc_line l c = Inr (if detect_end (urc_classes c ! i) = None
    then c\<lparr>comm_timer := Some (comm_now c + ECHO_TIMEOUT), urc_queue := urc_queue c @ [new_urc c i l], next_req := next_req c + 1\<rparr>
    else c\<lparr>comm_timer := Some (comm_now c + URC_TIMEOUT), comm_state := VGSM_COMM_AWAITING_ECHO_READING_URC,
           current_urc := Some (new_urc c i l), next_req := next_req c + 1\<rparr>)"
  using assms by (simp add: urc_line_def new_urc_def comm_defs comm_times hand_over_id Let_def)

lemma urc_first_line_read:
  assumes "comm_state c = VGSM_COMM_AWAITING_ECHO" "current_req c = Some r" "request r \<noteq> []" "hd (request r) \<noteq> 13"
    "plain_line l" "l \<noteq> []" "urc_line l c = Inr c'"
  shows "reads c (framed l) c'"
proof (rule reads_turn)
  show "framed l \<noteq> []" by (simp add: framed_def CRLF_def)
  show "0 \<notin> set (framed l)" using plain_no_zero [OF assms(5)] by (simp add: framed_def CRLF_def)
  show "\<exists>e. receive_turn 0 (c\<lparr>comm_buf := take k (framed l)\<rparr>) = Inr (0, e)" if "k < length (framed l)" for k
  proof (cases "k = 0")
    case True
    then show ?thesis
      using assms(1-3) by (cases "request r") (auto simp: receive_turn_def vgsm_comm_match_echo_def c_string_def)
  next
    case False
    then show ?thesis
      using echo_mismatch(1) [OF assms(3,4) _ assms(5), of k] match_urc_framed(1) [OF assms(5,6) that] assms(1,2)
      by (simp add: receive_turn_def vgsm_comm_match_echo_def Let_def)
  qed
  show "receive_turn 0 (c\<lparr>comm_buf := framed l @ rest\<rparr>) = Inr (length (framed l), c'\<lparr>comm_buf := framed l @ rest\<rparr>)"
    if "0 \<notin> set rest" for rest
    using echo_mismatch(2) [OF assms(3,4) zero_less_one assms(5)] match_urc_framed(2) [OF assms(5,6) that] assms(1,2,7)
    by (simp add: receive_turn_def vgsm_comm_match_echo_def Let_def)
qed

lemma urc_second_line_read:
  assumes "comm_state c \<in> {VGSM_COMM_AWAITING_ECHO_READING_URC, VGSM_COMM_READING_URC}" "plain_line l" "urc_cont_line l c = Inr c'"
  shows "reads c (l @ CRLF) c'"
proof (rule reads_turn)
  have z: "0 \<notin> set (l @ CRLF)" using plain_no_zero [OF assms(2)] by (simp add: CRLF_def)
  then show "0 \<notin> set (l @ CRLF)" .
  show "l @ CRLF \<noteq> []" by (simp add: CRLF_def)
  show "\<exists>e. receive_turn 0 (c\<lparr>comm_buf := take k (l @ CRLF)\<rparr>) = Inr (0, e)" if "k < length (l @ CRLF)" for k
  proof -
    have "0 \<notin> set (take k (l @ CRLF))" using z in_set_takeD by fast
    moreover have "find_crlf (take k (l @ CRLF)) = None"
      using find_crlf_short [OF assms(2), of k "[]"] that by (simp add: CRLF_def)
    ultimately show ?thesis
      using assms(1) by (auto simp add: receive_turn_def vgsm_comm_match_urc_cont_def c_string_id simp del: take_append)
  qed
  show "receive_turn 0 (c\<lparr>comm_buf := (l @ CRLF) @ rest\<rparr>) = Inr (length (l @ CRLF), c'\<lparr>comm_buf := (l @ CRLF) @ rest\<rparr>)"
    if "0 \<notin> set rest" for rest
  proof -
    have "c_string ((l @ CRLF) @ rest) = l @ CRLF @ rest" using z that by (simp add: c_string_id)
    then show ?thesis
      using assms(1,3) find_crlf_plain [OF assms(2), of rest]
      by (auto simp: receive_turn_def vgsm_comm_match_urc_cont_def lines_buf) (simp_all add: CRLF_def)
  qed
qed

text \<open>Codes that come before the echo, each of one line or two.\<close>

lemma urc_read:
  assumes "comm_state c = VGSM_COMM_AWAITING_ECHO" "current_urc c = None" "current_req c = Some r" "request r \<noteq> []" "hd (request r) \<noteq> 13"
    "urc_item_ok (urc_classes c) item" "comm_timer c \<noteq> None"
  shows "\<exists>t u n. reads c (urc_octets item) (c\<lparr>comm_timer := Some t, urc_queue := urc_queue c @ [u], next_req := n\<rparr>) \<and> req_lines u = urc_lines item"
proof (cases item)
  case (Pair l more)
  then obtain i where i: "find_class (urc_classes c) l = Some i" "plain_line l" "l \<noteq> []"
    using assms(6) by (cases more) (auto split: option.splits)
  have u: "req_lines (new_urc c i l) = [l]" by (simp add: new_urc_def)
  note first = urc_first_line_read [OF assms(1,3,4,5) i(2,3)]
  show ?thesis
  proof (cases more)
    case None
    then have "detect_end (urc_classes c ! i) = None" using assms(6) Pair i(1) by simp
    then have "reads c (framed l)
        (c\<lparr>comm_timer := Some (comm_now c + ECHO_TIMEOUT), urc_queue := urc_queue c @ [new_urc c i l], next_req := next_req c + 1\<rparr>)"
      using first urc_line_echo [OF assms(1,2) i(1)] by simp
    then show ?thesis using u Pair None by auto
  next
    case (Some l2)
    then obtain f where f: "detect_end (urc_classes c ! i) = Some f" "\<And>u. f u" "plain_line l2"
      using assms(6) Pair i(1) by (auto split: option.splits)
    let ?c = "c\<lparr>comm_timer := Some (comm_now c + URC_TIMEOUT), comm_state := VGSM_COMM_AWAITING_ECHO_READING_URC,
           current_urc := Some (new_urc c i l), next_req := next_req c + 1\<rparr>"
    let ?u = "(new_urc c i l)\<lparr>req_lines := [l, l2]\<rparr>"
    have 1: "reads c (framed l) ?c" using first urc_line_echo [OF assms(1,2) i(1)] f(1) by simp
    have s: "c\<lparr>comm_state := VGSM_COMM_AWAITING_ECHO\<rparr> = c" "c\<lparr>current_urc := None\<rparr> = c" using assms(1,2) by simp_all
    have "urc_cont_line l2 ?c = Inr (c\<lparr>comm_timer := Some (comm_now c + ECHO_TIMEOUT), urc_queue := urc_queue c @ [?u], next_req := next_req c + 1,
        comm_state := VGSM_COMM_AWAITING_ECHO, current_urc := None\<rparr>)"
      using f u by (simp add: urc_cont_line_def new_urc_def comm_defs comm_times Let_def)
    also have "c\<lparr>comm_timer := Some (comm_now c + ECHO_TIMEOUT), urc_queue := urc_queue c @ [?u], next_req := next_req c + 1,
        comm_state := VGSM_COMM_AWAITING_ECHO, current_urc := None\<rparr> =
        c\<lparr>comm_timer := Some (comm_now c + ECHO_TIMEOUT), urc_queue := urc_queue c @ [?u], next_req := next_req c + 1\<rparr>"
      using assms(1,2) by simp
    finally have "reads ?c (l2 @ CRLF)
        (c\<lparr>comm_timer := Some (comm_now c + ECHO_TIMEOUT), urc_queue := urc_queue c @ [?u], next_req := next_req c + 1\<rparr>)"
      by (intro urc_second_line_read f(3)) simp_all
    moreover have "0 \<notin> set (l2 @ CRLF)" using plain_no_zero [OF f(3)] by (simp add: CRLF_def)
    ultimately have "reads c (urc_octets item)
        (c\<lparr>comm_timer := Some (comm_now c + ECHO_TIMEOUT), urc_queue := urc_queue c @ [?u], next_req := next_req c + 1\<rparr>)"
      using reads_append [OF 1] Pair Some by simp
    moreover have "req_lines ?u = urc_lines item" using Pair Some by simp
    ultimately show ?thesis by blast
  qed
qed

lemma urc_octets_no_zero: "urc_item_ok ks item \<Longrightarrow> 0 \<notin> set (urc_octets item)"
  by (cases item; cases "snd item") (auto simp: framed_def CRLF_def dest: plain_no_zero)

lemma urcs_read:
  assumes "comm_state c = VGSM_COMM_AWAITING_ECHO" "current_urc c = None" "current_req c = Some r" "request r \<noteq> []" "hd (request r) \<noteq> 13"
    "list_all (urc_item_ok (urc_classes c)) items" "comm_timer c \<noteq> None"
  shows "\<exists>t us n. reads c (concat (map urc_octets items)) (c\<lparr>comm_timer := t, urc_queue := urc_queue c @ us, next_req := n\<rparr>) \<and>
    t \<noteq> None \<and> map req_lines us = map urc_lines items"
  using assms
proof (induction items arbitrary: c)
  case Nil
  show ?case
    by (rule exI [of _ "comm_timer c"], rule exI [of _ "[]"], rule exI [of _ "next_req c"]) (use Nil.prems(7) in \<open>simp add: reads_none\<close>)
next
  case (Cons item items)
  have "urc_item_ok (urc_classes c) item" using Cons.prems(6) by simp
  from urc_read [OF Cons.prems(1-5) this Cons.prems(7)]
  obtain t u n where 1: "reads c (urc_octets item) (c\<lparr>comm_timer := Some t, urc_queue := urc_queue c @ [u], next_req := n\<rparr>)"
      "req_lines u = urc_lines item"
    by blast
  let ?c = "c\<lparr>comm_timer := Some t, urc_queue := urc_queue c @ [u], next_req := n\<rparr>"
  obtain t' us n' where 2: "reads ?c (concat (map urc_octets items)) (?c\<lparr>comm_timer := t', urc_queue := urc_queue ?c @ us, next_req := n'\<rparr>)"
      "t' \<noteq> None" "map req_lines us = map urc_lines items"
    using Cons.IH [of ?c] Cons.prems by auto
  have "0 \<notin> set (concat (map urc_octets items))"
    using Cons.prems(6) urc_octets_no_zero by (fastforce simp: list_all_iff)
  then have "reads c (concat (map urc_octets (item # items))) (?c\<lparr>comm_timer := t', urc_queue := urc_queue ?c @ us, next_req := n'\<rparr>)"
    using reads_append [OF 1(1) 2(1)] by simp
  then have "reads c (concat (map urc_octets (item # items))) (c\<lparr>comm_timer := t', urc_queue := urc_queue c @ (u # us), next_req := n'\<rparr>)"
    by simp
  moreover have "map req_lines (u # us) = map urc_lines (item # items)" using 1(2) 2(3) by simp
  ultimately show ?case using 2(2) by blast
qed

lemma echo_whole: "match_echo_loop (s @ rest) s n = n + int (length s)"
  by (induction s arbitrary: n) simp_all

lemma echo_part: "k < length s \<Longrightarrow> match_echo_loop (take k s) s n = 0"
proof (induction s arbitrary: k n)
  case (Cons x s)
  then show ?case by (cases k) simp_all
qed simp

lemma echo_read:
  assumes "0 \<notin> set s" "s \<noteq> []"
    and "\<And>b. receive_turn 0 (c\<lparr>comm_buf := b\<rparr>) =
      (let n = match_echo_loop (c_string b) s 0 in if 0 < n then Inr (nat n, c'\<lparr>comm_buf := b\<rparr>) else if n = 0 then Inr (0, c\<lparr>comm_buf := b\<rparr>) else g b)"
  shows "reads c s c'"
proof (rule reads_turn)
  show "\<exists>e. receive_turn 0 (c\<lparr>comm_buf := take k s\<rparr>) = Inr (0, e)" if "k < length s" for k
  proof -
    have "0 \<notin> set (take k s)" using assms(1) in_set_takeD by fast
    then show ?thesis using echo_part [OF that] by (simp add: assms(3) c_string_id)
  qed
  show "receive_turn 0 (c\<lparr>comm_buf := s @ rest\<rparr>) = Inr (length s, c'\<lparr>comm_buf := s @ rest\<rparr>)" if "0 \<notin> set rest" for rest
  proof -
    have "0 \<notin> set (s @ rest)" using assms(1) that by simp
    then show ?thesis using assms(2) echo_whole [of s rest 0] by (simp add: assms(3) c_string_id)
  qed
qed (use assms in auto)


lemma response_begin_framed:
  "plain_line l \<Longrightarrow> l \<noteq> [] \<Longrightarrow> response_begin (framed l @ rest) = Some 2"
  "k < 2 \<Longrightarrow> response_begin (take k (framed l @ rest)) = None"
  "2 \<le> k \<Longrightarrow> response_begin (take k (framed l @ rest)) = Some 2"
proof -
  show "response_begin (framed l @ rest) = Some 2" by (simp add: response_begin_def framed_def CRLF_def char_at_def)
  show "response_begin (take k (framed l @ rest)) = None" if "k < 2"
  proof -
    have "k = 0 \<or> k = 1" using that by auto
    then show ?thesis by (auto simp: response_begin_def framed_def CRLF_def char_at_def)
  qed
  show "response_begin (take k (framed l @ rest)) = Some 2" if "2 \<le> k"
  proof -
    have "take k (framed l @ rest) = 13 # 10 # take (k - 2) (l @ CRLF @ rest)"
      using that by (simp add: framed_def CRLF_def take_Cons' eval_nat_numeral)
    then show ?thesis by (simp add: response_begin_def char_at_def)
  qed
qed

lemma not_prompt: "\<not> starts_with (asc ''> '') l \<Longrightarrow> plain_line l \<Longrightarrow> \<not> starts_with (asc ''> '') (l @ CRLF @ rest)"
proof -
  assume "\<not> starts_with (asc ''> '') l" "plain_line l"
  moreover have "asc ''> '' = [62, 32]" by (simp add: asc_def)
  ultimately show ?thesis by (cases l; cases "tl l") (auto simp: starts_with_def CRLF_def)
qed

lemma response_line_read:
  assumes "comm_state c = VGSM_COMM_READING_RESPONSE" "current_req c = Some r" "plain_line l" "l \<noteq> []"
    "\<not> starts_with (asc ''> '') l" "response_line l r c = Inr c'"
  shows "reads c (framed l) c'"
proof (rule reads_turn)
  show "framed l \<noteq> []" by (simp add: framed_def CRLF_def)
  have z: "0 \<notin> set (framed l)" using plain_no_zero [OF assms(3)] by (simp add: framed_def CRLF_def)
  then show "0 \<notin> set (framed l)" .
  note p = not_prompt [OF assms(5,3)]
  have d: "drop 2 (framed l @ rest) = l @ CRLF @ rest" for rest by (simp add: framed_def CRLF_def)
  show "\<exists>e. receive_turn 0 (c\<lparr>comm_buf := take k (framed l)\<rparr>) = Inr (0, e)" if "k < length (framed l)" for k
  proof (cases "k < 2")
    case True
    have "0 \<notin> set (take k (framed l))" using z in_set_takeD by fast
    then show ?thesis
      using assms(1,2) response_begin_framed(2) [OF True, of l "[]"]
      by (simp add: receive_turn_def match_response_begin c_string_id)
  next
    case False
    have t: "drop 2 (take k (framed l)) = take (k - 2) (l @ CRLF @ [])" unfolding drop_take using d [of "[]"] by simp
    have f: "find_crlf (take (k - 2) (l @ CRLF @ [])) = None"
      using find_crlf_short [OF assms(3), of "k - 2" "[]"] that by (simp add: framed_def CRLF_def)
    have zk: "0 \<notin> set (take k (framed l))" "0 \<notin> set (take (k - 2) (l @ CRLF @ []))"
      using z in_set_takeD plain_no_zero [OF assms(3)] by (fast, fastforce simp: CRLF_def dest: in_set_takeD)
    have s: "\<not> starts_with (asc ''> '') (take (k - 2) (l @ CRLF @ []))"
    proof
      assume "starts_with (asc ''> '') (take (k - 2) (l @ CRLF @ []))"
      then have "starts_with (asc ''> '') (take (k - 2) (l @ CRLF @ []) @ drop (k - 2) (l @ CRLF @ []))" by (rule starts_with_append)
      with p [of "[]"] show False by (simp only: append_take_drop_id)
    qed
    have "2 \<le> length (take k (framed l))" using that False by simp
    then show ?thesis
      using assms(1,2) response_begin_framed(3) [of k l "[]"] False f s
      by (simp add: receive_turn_def match_response_begin c_string_id [OF zk(1)] c_string_id [OF zk(2) [unfolded append_Nil2]] t del: take_append length_take)
  qed
  show "receive_turn 0 (c\<lparr>comm_buf := framed l @ rest\<rparr>) = Inr (length (framed l), c'\<lparr>comm_buf := framed l @ rest\<rparr>)"
    if "0 \<notin> set rest" for rest
  proof -
    have r: "0 \<notin> set (framed l @ rest)" "0 \<notin> set (l @ CRLF @ rest)" using z that by (simp_all add: framed_def)
    have "2 \<le> length (framed l @ rest)" "take (length l + 2) (framed l @ rest) = CRLF @ l" "length (framed l) = length l + 4"
      by (simp_all add: framed_def CRLF_def)
    then show ?thesis
      using assms(1,2,6) response_begin_framed(1) [OF assms(3,4), of rest] p find_crlf_plain [OF assms(3), of rest]
      by (simp add: receive_turn_def match_response_begin c_string_id [OF r(1)] c_string_id [OF r(2)] d lines_buf
          del: take_append drop_append length_append) (simp add: CRLF_def)
  qed
qed

text \<open>A line of an answer that does not end it, and one that does.\<close>

definition answer_line :: "octets \<Rightarrow> bool" where
  "answer_line l \<longleftrightarrow> plain_line l \<and> l \<noteq> [] \<and> \<not> starts_with (asc ''> '') l"

definition inner_line :: "octets \<Rightarrow> bool" where
  "inner_line l \<longleftrightarrow> answer_line l \<and> vgsm_req_final_response_code l = VGSM_RESP_UNKNOWN"

definition final_line :: "octets \<Rightarrow> bool" where
  "final_line l \<longleftrightarrow> answer_line l \<and> vgsm_req_final_response_code l \<noteq> VGSM_RESP_UNKNOWN"

lemma framed_no_zero: "answer_line l \<Longrightarrow> 0 \<notin> set (framed l)"
  using plain_no_zero [of l] by (auto simp: answer_line_def framed_def CRLF_def)

lemma inner_lines_read:
  assumes "comm_state c = VGSM_COMM_READING_RESPONSE" "current_req c = Some r" "list_all inner_line ls"
  shows "reads c (concat (map framed ls)) (c\<lparr>current_req := Some (r\<lparr>req_lines := req_lines r @ ls\<rparr>)\<rparr>)"
  using assms
proof (induction ls arbitrary: c r)
  case Nil
  then have "c\<lparr>current_req := Some (r\<lparr>req_lines := req_lines r @ []\<rparr>)\<rparr> = c" by simp
  then show ?case by (simp add: reads_none)
next
  case (Cons l ls)
  let ?r = "r\<lparr>req_lines := req_lines r @ [l]\<rparr>"
  let ?c = "c\<lparr>current_req := Some ?r\<rparr>"
  have l: "plain_line l" "l \<noteq> []" "\<not> starts_with (asc ''> '') l" "response_line l r c = Inr ?c"
    using Cons.prems(3) by (simp_all add: inner_line_def answer_line_def response_line_def Let_def)
  have 1: "reads c (framed l) ?c" by (rule response_line_read [OF Cons.prems(1,2) l])
  have 2: "reads ?c (concat (map framed ls)) (?c\<lparr>current_req := Some (?r\<lparr>req_lines := req_lines ?r @ ls\<rparr>)\<rparr>)"
    by (rule Cons.IH) (use Cons.prems in simp_all)
  have "0 \<notin> set (concat (map framed ls))" using Cons.prems(3) framed_no_zero by (fastforce simp: list_all_iff inner_line_def)
  from reads_append [OF 1 2 this] show ?case by simp
qed

definition answered :: "octets \<Rightarrow> octets list \<Rightarrow> vgsm_req \<Rightarrow> vgsm_req" where
  "answered fin ls r = r\<lparr>req_lines := req_lines r @ ls @ [fin], req_err := vgsm_req_final_response_code fin, req_ready := True\<rparr>"

lemma answer_read:
  assumes "comm_state c = VGSM_COMM_READING_RESPONSE" "current_req c = Some r" "req_refcnt r = 2" "list_all inner_line ls" "final_line fin"
  shows "reads c (concat (map framed ls) @ framed fin)
    (c\<lparr>comm_timer := None, comm_state := VGSM_COMM_IDLE, current_req := None, completion_queue := completion_queue c @ [answered fin ls r]\<rparr>)"
proof -
  let ?r = "r\<lparr>req_lines := req_lines r @ ls\<rparr>"
  let ?c = "c\<lparr>current_req := Some ?r\<rparr>"
  have "req_refcnt (?r\<lparr>req_lines := req_lines ?r @ [fin]\<rparr>) = 2" using assms(3) by simp
  then have f: "plain_line fin" "fin \<noteq> []" "\<not> starts_with (asc ''> '') fin" "response_line fin ?r ?c =
      Inr (c\<lparr>comm_timer := None, comm_state := VGSM_COMM_IDLE, current_req := None, completion_queue := completion_queue c @ [answered fin ls r]\<rparr>)"
    using assms(5) by (simp_all add: final_line_def answer_line_def response_line_def Let_def complete_ok answered_def comm_defs)
  have 2: "reads ?c (framed fin)
      (c\<lparr>comm_timer := None, comm_state := VGSM_COMM_IDLE, current_req := None, completion_queue := completion_queue c @ [answered fin ls r]\<rparr>)"
    by (rule response_line_read [OF _ _ f]) (use assms(1) in simp_all)
  have "0 \<notin> set (framed fin)" using framed_no_zero assms(5) by (simp add: final_line_def)
  from reads_append [OF inner_lines_read [OF assms(1,2,4)] 2 this] show ?thesis .
qed

text \<open>What the module sends when it takes the command, asks for the short message of the request, and has read it.\<close>

definition prompt_octets :: "vgsm_req \<Rightarrow> octets" where
  "prompt_octets r = (case sms_text_pdu r of None \<Rightarrow> [] | Some pdu \<Rightarrow> CRLF @ asc ''> '' @ pdu @ [0x1a])"

definition prompt_ops :: "vgsm_req \<Rightarrow> serial_op list" where
  "prompt_ops r = (case sms_text_pdu r of None \<Rightarrow> [] | Some pdu \<Rightarrow> [Serial_write pdu, Serial_write [0x1a]])"

lemma prompt_text: "asc ''> '' = [62, 32]" by (simp add: asc_def)

lemma prompt_read:
  assumes "comm_state c = VGSM_COMM_READING_RESPONSE" "current_req c = Some r" "sms_text_pdu r = Some pdu"
  shows "reads c (CRLF @ asc ''> '') (c\<lparr>comm_timer := Some (comm_now c + SMS_ECHO_TIMEOUT), comm_state := VGSM_COMM_AWAITING_SMS_ECHO,
     serial_ops := serial_ops c @ [Serial_write pdu]\<rparr>)"
proof (rule reads_turn)
  have d: "CRLF @ asc ''> '' = [13, 10, 62, 32]" by (simp add: CRLF_def prompt_text)
  show "\<exists>e. receive_turn 0 (c\<lparr>comm_buf := take k (CRLF @ asc ''> '')\<rparr>) = Inr (0, e)" if "k < length (CRLF @ asc ''> '')" for k
  proof -
    have *: "receive_turn 0 (c\<lparr>comm_buf := b\<rparr>) = Inr (0, c\<lparr>comm_buf := b\<rparr>)" if "b \<in> {[], [13], [13, 10], [13, 10, 62]}" for b
    proof -
      have "response_begin b = None \<or>
          response_begin b = Some 2 \<and> \<not> starts_with [62, 32] (drop 2 b) \<and> 2 \<le> length b \<and> find_crlf (drop 2 b) = None" "0 \<notin> set b"
        using that by (auto simp: response_begin_def char_at_def starts_with_def)
      then show ?thesis
        using assms(1,2) by (auto simp: receive_turn_def match_response_begin c_string_id c_string_drop prompt_text)
    qed
    have "k = 0 \<or> k = 1 \<or> k = 2 \<or> k = 3" using that unfolding d by auto
    then have "take k (CRLF @ asc ''> '') \<in> {[], [13], [13, 10], [13, 10, 62]}" unfolding d by auto
    from * [OF this] show ?thesis by blast
  qed
  show "receive_turn 0 (c\<lparr>comm_buf := (CRLF @ asc ''> '') @ rest\<rparr>) = Inr (length (CRLF @ asc ''> ''),
     c\<lparr>comm_timer := Some (comm_now c + SMS_ECHO_TIMEOUT), comm_state := VGSM_COMM_AWAITING_SMS_ECHO,
       serial_ops := serial_ops c @ [Serial_write pdu], comm_buf := (CRLF @ asc ''> '') @ rest\<rparr>)"
    if "0 \<notin> set rest" for rest
    using assms
    by (simp add: receive_turn_def match_response_begin response_begin_def char_at_def c_string_def starts_with_def prompt_text CRLF_def
        comm_defs comm_times)
qed (simp_all add: CRLF_def prompt_text)

lemma sms_read:
  assumes "comm_state c = VGSM_COMM_READING_RESPONSE" "current_req c = Some r" "comm_timer c \<noteq> None" "0 \<le> req_timeout r"
    "\<And>pdu. sms_text_pdu r = Some pdu \<Longrightarrow> pdu \<noteq> [] \<and> 0 \<notin> set pdu"
  shows "\<exists>t. reads c (prompt_octets r) (c\<lparr>comm_timer := t, serial_ops := serial_ops c @ prompt_ops r\<rparr>) \<and> t \<noteq> None"
proof (cases "sms_text_pdu r")
  case None
  have "reads c (prompt_octets r) (c\<lparr>comm_timer := comm_timer c, serial_ops := serial_ops c @ prompt_ops r\<rparr>)"
    using None by (simp add: prompt_octets_def prompt_ops_def reads_none)
  then show ?thesis using assms(3) by blast
next
  case (Some pdu)
  note p = assms(5) [OF Some]
  let ?c = "c\<lparr>comm_timer := Some (comm_now c + SMS_ECHO_TIMEOUT), comm_state := VGSM_COMM_AWAITING_SMS_ECHO,
     serial_ops := serial_ops c @ [Serial_write pdu]\<rparr>"
  let ?d = "?c\<lparr>comm_state := VGSM_COMM_AWAITING_SMS_ECHO_1A, serial_ops := serial_ops ?c @ [Serial_write [0x1a]]\<rparr>"
  let ?e = "?d\<lparr>comm_state := VGSM_COMM_READING_RESPONSE, comm_timer := Some (comm_now c + req_timeout r)\<rparr>"
  have 2: "reads ?c pdu ?d"
    by (rule echo_read [where g = "\<lambda>b. Inr (0, ?c\<lparr>comm_buf := b\<rparr>)"])
      (use p assms(2) Some in \<open>simp_all add: receive_turn_def vgsm_comm_match_echo_def comm_defs Let_def\<close>)
  have 3: "reads ?d [0x1a] ?e"
    by (rule echo_read [where g = "\<lambda>b. Inr (0, ?d\<lparr>comm_buf := b\<rparr>)"])
      (use assms(2,4) in \<open>simp_all add: receive_turn_def vgsm_comm_match_echo_def comm_defs Let_def\<close>)
  have "reads c ((CRLF @ asc ''> '') @ pdu @ [0x1a]) ?e"
    by (rule reads_append [OF prompt_read [OF assms(1,2) Some] reads_append [OF 2 3]]) (use p in simp_all)
  moreover have "?e = c\<lparr>comm_timer := Some (comm_now c + req_timeout r), serial_ops := serial_ops c @ prompt_ops r\<rparr>"
    using Some assms(1) by (simp add: prompt_ops_def)
  moreover have "(CRLF @ asc ''> '') @ pdu @ [0x1a] = prompt_octets r" using Some by (simp add: prompt_octets_def)
  ultimately show ?thesis by (metis option.distinct(1))
qed

lemma reads_pieces:
  assumes "reads c d c'" "receive_loop 0 (c'\<lparr>comm_buf := []\<rparr>) = Inr (c'\<lparr>comm_buf := []\<rparr>)" "\<not> discarding c" "c_string (comm_buf c) = []"
    "0 \<notin> set d" "length d < 2048" "concat (s # ss) = d"
  shows "run_events vgsm_comm_receive (s # ss) c = Inr (c'\<lparr>comm_buf := []\<rparr>)"
proof -
  have n: "\<not> discarding (c\<lparr>comm_buf := x\<rparr>)" for x using assms(3) by (simp add: discarding_def)
  have r: "vgsm_comm_receive x c = receive_loop 0 (c\<lparr>comm_buf := x\<rparr>)" if "length x < 2048" for x
    using that by (simp add: vgsm_comm_receive_def assms(4) loop_any [OF n, of "length x"])
  have whole: "receive_loop 0 (c\<lparr>comm_buf := d\<rparr>) = Inr (c'\<lparr>comm_buf := []\<rparr>)"
    using assms(1,2) by (auto simp: reads_def dest: spec [of _ "[]"])
  have "run_events vgsm_comm_receive (s # ss) c = vgsm_comm_receive d c"
  proof (rule serial.whole_pieces [OF _ assms(7)])
    fix k assume k: "k \<le> length d"
    show "line_fits (take k d) c" using assms(4-6) k by (auto simp: line_fits_def dest: in_set_takeD)
    from k show "\<exists>e. vgsm_comm_receive (take k d) c = Inr e"
      using assms(1,6) whole r [of "take k d"] by (cases "k = length d") (auto simp: reads_def)
  qed
  then show ?thesis using whole r [OF assms(6)] by simp
qed

text \<open>
  C17. A command gets its answer. The module sends codes of one line or two, echoes the command, asks for the short message if it has
  one and echoes it, and answers with lines of which the last is final. However these octets are cut into reads, the request is done
  with exactly these lines and the result of the last, the codes are queued in order, the message and its end were written,
  and the line is idle with an empty buffer.
\<close>

theorem request_answered:
  assumes "line_inv c" "comm_state c = VGSM_COMM_AWAITING_ECHO" "current_req c = Some r" "c_string (comm_buf c) = []"
    and "0 \<notin> set (request r)" "hd (request r) \<noteq> 13" "\<forall>pdu \<in> set_option (sms_text_pdu r). 0 \<notin> set pdu"
    and "list_all (urc_item_ok (urc_classes c)) items" "list_all inner_line ls" "final_line fin"
    and "concat (s # ss) = concat (map urc_octets items) @ request r @ prompt_octets r @ concat (map framed ls) @ framed fin"
    and "length (concat (s # ss)) < 2048"
  shows "\<exists>c'. run_events vgsm_comm_receive (s # ss) c = Inr c' \<and> comm_state c' = VGSM_COMM_IDLE \<and> comm_buf c' = [] \<and> current_req c' = None \<and>
    completion_queue c' = completion_queue c @ [answered fin ls r] \<and> requests_queue c' = requests_queue c \<and>
    map req_lines (urc_queue c') = map req_lines (urc_queue c) @ map urc_lines items \<and>
    serial_ops c' = serial_ops c @ prompt_ops r"
proof -
  have q: "request r \<noteq> []" "req_refcnt r = 2" "0 \<le> req_timeout r" "sms_text_pdu r \<noteq> Some []" "current_urc c = None" "comm_timer c \<noteq> None"
    using assms(1-3) by (auto simp: line_inv_def comm_inv_def request_ok_def)
  obtain t us n where 1: "reads c (concat (map urc_octets items)) (c\<lparr>comm_timer := t, urc_queue := urc_queue c @ us, next_req := n\<rparr>)"
      "t \<noteq> None" "map req_lines us = map urc_lines items"
    using urcs_read [OF assms(2) q(5) assms(3) q(1) assms(6,8) q(6)] by blast
  let ?c1 = "c\<lparr>comm_timer := t, urc_queue := urc_queue c @ us, next_req := n\<rparr>"
  let ?c2 = "?c1\<lparr>comm_timer := Some (comm_now c + req_timeout r), comm_state := VGSM_COMM_READING_RESPONSE\<rparr>"
  have 2: "reads ?c1 (request r) ?c2"
    by (rule echo_read [OF assms(5) q(1), where g = "\<lambda>b. vgsm_comm_match_urc (?c1\<lparr>comm_buf := b\<rparr>)"])
      (use assms(2,3) q(3) in \<open>simp add: receive_turn_def vgsm_comm_match_echo_def comm_defs Let_def\<close>)
  have p: "pdu \<noteq> [] \<and> 0 \<notin> set pdu" if "sms_text_pdu r = Some pdu" for pdu using that q(4) assms(7) by auto
  obtain t3 where 3: "reads ?c2 (prompt_octets r) (?c2\<lparr>comm_timer := t3, serial_ops := serial_ops ?c2 @ prompt_ops r\<rparr>)"
    using sms_read [of ?c2 r] assms(3) q(3) p by auto
  let ?c3 = "?c2\<lparr>comm_timer := t3, serial_ops := serial_ops ?c2 @ prompt_ops r\<rparr>"
  let ?c4 = "?c3\<lparr>comm_timer := None, comm_state := VGSM_COMM_IDLE, current_req := None, completion_queue := completion_queue ?c3 @ [answered fin ls r]\<rparr>"
  have 4: "reads ?c3 (concat (map framed ls) @ framed fin) ?c4"
    by (rule answer_read) (use assms(3,9,10) q(2) in simp_all)
  have z: "0 \<notin> set (concat (map framed ls) @ framed fin)" "0 \<notin> set (prompt_octets r)" "0 \<notin> set (concat (map urc_octets items))"
    using framed_no_zero assms(8-10) p urc_octets_no_zero
    by (fastforce simp: list_all_iff inner_line_def final_line_def, auto simp: prompt_octets_def CRLF_def prompt_text split: option.split,
        fastforce simp: list_all_iff)
  have "reads c (concat (map urc_octets items) @ request r @ prompt_octets r @ concat (map framed ls) @ framed fin) ?c4"
    by (rule reads_append [OF 1(1) reads_append [OF 2 reads_append [OF 3 4 z(1)]]]) (use z assms(5) in auto)
  moreover have "receive_loop 0 (?c4\<lparr>comm_buf := []\<rparr>) = Inr (?c4\<lparr>comm_buf := []\<rparr>)"
    by (subst receive_loop.simps) (simp add: receive_turn_def vgsm_comm_match_urc_def c_string_def urc_begin_def char_at_def)
  ultimately have "run_events vgsm_comm_receive (s # ss) c = Inr (?c4\<lparr>comm_buf := []\<rparr>)"
    by (rule reads_pieces [OF _ _ _ assms(4) _ _ assms(11)])
      (use z assms(2,5,11,12) in \<open>auto simp: discarding_def\<close>)
  then show ?thesis using 1(3) by simp
qed

section \<open>A message from the network\<close>

lemma find_class_cmt: "find_class vgsm_me_urcs (asc ''+CMT: '' @ p) = Some 16"
  by (simp add: vgsm_me_urcs_def asc_def starts_with_def)

lemma class_cmt: "vgsm_me_urcs ! 16 = \<lparr>urc_code = asc ''+CMT: '', detect_end = Some handle_cmt_end\<rparr>" "16 < length vgsm_me_urcs"
  by (simp_all add: vgsm_me_urcs_def)

lemma plain_asc_cmt: "plain_line (asc ''+CMT: '' @ p) \<longleftrightarrow> plain_line p"
  by (simp add: asc_def)

lemma hex_digit_plain: "n < 16 \<Longrightarrow> hex_digit n \<noteq> 0 \<and> hex_digit n \<noteq> 13 \<and> hex_digit n \<noteq> 10"
proof -
  assume "n < 16"
  moreover have "list_all (\<lambda>n. hex_digit n \<noteq> 0 \<and> hex_digit n \<noteq> 13 \<and> hex_digit n \<noteq> 10) [0..<16]" by code_simp
  ultimately show ?thesis by (simp add: list_all_iff)
qed

lemma to_hex_plain: "plain_line (to_hex p)"
proof (induction p)
  case (Cons x p)
  have "unat x div 16 < 16" "unat x mod 16 < 16" using unsigned_less [of x, where ?'a = nat] by simp_all
  then show ?case using Cons hex_digit_plain by (simp add: to_hex_def)
qed (simp add: to_hex_def)

lemma idle_line_read:
  assumes "comm_state c = VGSM_COMM_IDLE" "plain_line l" "l \<noteq> []" "urc_line l c = Inr c'"
  shows "reads c (framed l) c'"
proof (rule reads_turn)
  show "framed l \<noteq> []" "0 \<notin> set (framed l)" using plain_no_zero [OF assms(2)] by (simp_all add: framed_def CRLF_def)
  show "\<exists>e. receive_turn 0 (c\<lparr>comm_buf := take k (framed l)\<rparr>) = Inr (0, e)" if "k < length (framed l)" for k
    using match_urc_framed(1) [OF assms(2,3) that] assms(1) by (simp add: receive_turn_def)
  show "receive_turn 0 (c\<lparr>comm_buf := framed l @ rest\<rparr>) = Inr (length (framed l), c'\<lparr>comm_buf := framed l @ rest\<rparr>)"
    if "0 \<notin> set rest" for rest
    using match_urc_framed(2) [OF assms(2,3) that] assms(1,4) by (simp add: receive_turn_def)
qed

text \<open>
  C18. A text of characters that have a septet of their own in the GSM alphabet, of less than 160 septets with the
  user data header, arrives as it was written, through the line of the receiver. The user data of a message prepared for sending, passed
  on by the network in a delivery with any addresses and time stamp, comes as the two lines of a \<open>+CMT\<close>, in any pieces; the
  thread of the codes hands it to its handler, which decodes the same text and the originating address. Other texts do not
  arrive unchanged: a character of the extension table is read back as two (extension_not_read_back), and the header of a
  UCS-2 text is read as part of the text (ucs2_header_in_text).
\<close>

theorem message_handled:
  assumes "sub_pdu sms = None" "length (digits (sub_dest sms)) \<le> 22" "basic_text (sub_text sms)"
    "udh_septets_of (submit_ready sms) + length (sub_text sms) < 160"
    "number_ok smcc" "number_ok oa" "bit sdp 6 = sub_user_data_header_indicator (submit_ready sms)"
    "length ts = 7" "mktime (ts_fields ts) \<noteq> -1"
    and "line_inv c" "comm_state c = VGSM_COMM_IDLE" "c_string (comm_buf c) = []" "urc_queue c = []" "urc_classes c = vgsm_me_urcs"
    and "plain_line p" "get_token 32 p = Inr (Some tok)"
  shows "\<exists>sms' udl ud. vgsm_sms_submit_prepare sms = Inr (0, sms') \<and>
     sub_pdu sms' = Some (submit_smcc sms @ submit_header (submit_ready sms) udl @ ud) \<and>
     (\<forall>s ss. concat (s # ss) = framed (asc ''+CMT: '' @ p) @
         to_hex (deliver_pdu smcc sdp oa pid (dcs_octet (submit_ready sms)) ts udl ud) @ CRLF \<and> length (concat (s # ss)) < 2048 \<longrightarrow>
       (\<exists>c' c'' urc dlv. run_events vgsm_comm_receive (s # ss) c = Inr c' \<and> comm_state c' = VGSM_COMM_IDLE \<and> comm_buf c' = [] \<and>
          urc_turn c' = Inr c'' \<and> urc_queue c'' = [] \<and> urcs_handled c'' = urcs_handled c @ [urc] \<and>
          handle_unsolicited_cmt mktime vgsm_me_urcs urc = Inr (Some dlv) \<and> dlv_text dlv = Some (sub_text sms) \<and> dlv_originating_address dlv = oa))"
proof -
  obtain sms' udl ud dlv where d: "vgsm_sms_submit_prepare sms = Inr (0, sms')"
     "sub_pdu sms' = Some (submit_smcc sms @ submit_header (submit_ready sms) udl @ ud)"
     "vgsm_sms_deliver_init_from_pdu mktime (to_hex (deliver_pdu smcc sdp oa pid (dcs_octet (submit_ready sms)) ts udl ud)) = Inr (Some dlv)"
     "dlv_text dlv = Some (sub_text sms)" "dlv_originating_address dlv = oa"
    using sms_text_delivered [where mktime = mktime, OF assms(1-9)] by blast
  let ?l = "asc ''+CMT: '' @ p"
  let ?h = "to_hex (deliver_pdu smcc sdp oa pid (dcs_octet (submit_ready sms)) ts udl ud)"
  let ?u = "new_urc c 16 ?l"
  let ?v = "?u\<lparr>req_lines := [?l, ?h]\<rparr>"
  let ?c1 = "c\<lparr>comm_timer := Some (comm_now c + URC_TIMEOUT), comm_state := VGSM_COMM_READING_URC, current_urc := Some ?u, next_req := next_req c + 1\<rparr>"
  let ?c2 = "c\<lparr>urc_queue := [?v], next_req := next_req c + 1\<rparr>"
  have i: "current_urc c = None" "comm_timer c = None" using assms(10,11) by (simp_all add: line_inv_def comm_inv_def)
  have pl: "plain_line ?l" "?l \<noteq> []" using assms(15) plain_asc_cmt by (simp_all add: asc_def)
  have "urc_line ?l c = Inr ?c1"
    using assms(11,14) i find_class_cmt [of p] class_cmt
    by (simp add: urc_line_def new_urc_def comm_defs comm_times hand_over_id Let_def)
  then have 1: "reads c (framed ?l) ?c1" by (rule idle_line_read [OF assms(11) pl])
  have "urc_cont_line ?h ?c1 = Inr ?c2"
    using assms(11,13,14) i class_cmt by (simp add: urc_cont_line_def new_urc_def comm_defs comm_times Let_def handle_cmt_end_def)
  then have 2: "reads ?c1 (?h @ CRLF) ?c2" by (intro urc_second_line_read to_hex_plain) simp_all
  have z: "0 \<notin> set (?h @ CRLF)" "0 \<notin> set (framed ?l)" using plain_no_zero [OF to_hex_plain] plain_no_zero [OF pl(1)] by (auto simp: CRLF_def framed_def)
  have r: "reads c (framed ?l @ ?h @ CRLF) ?c2" by (rule reads_append [OF 1 2 z(1)])
  have e: "receive_loop 0 (?c2\<lparr>comm_buf := []\<rparr>) = Inr (?c2\<lparr>comm_buf := []\<rparr>)"
    using assms(11) by (subst receive_loop.simps) (simp add: receive_turn_def vgsm_comm_match_urc_def c_string_def urc_begin_def char_at_def)
  have run: "run_events vgsm_comm_receive (s # ss) c = Inr (?c2\<lparr>comm_buf := []\<rparr>)"
    if "concat (s # ss) = framed ?l @ ?h @ CRLF" "length (concat (s # ss)) < 2048" for s ss
    by (rule reads_pieces [OF r e _ assms(12) _ _ that(1)]) (use assms(11) z that in \<open>auto simp: discarding_def\<close>)
  have h: "handle_unsolicited_cmt mktime vgsm_me_urcs ?v = Inr (Some dlv)"
    using d(3) class_cmt assms(16) by (simp add: handle_unsolicited_cmt_def new_urc_def)
  have "urc_turn (?c2\<lparr>comm_buf := []\<rparr>) = Inr (?c2\<lparr>comm_buf := [], urc_queue := [], urcs_handled := urcs_handled c @ [?v]\<rparr>)"
    by (simp add: urc_turn_def new_urc_def vgsm_req_alloc_def vgsm_req_put_def)
  note u = this
  show ?thesis
  proof (intro exI conjI allI impI)
    show "vgsm_sms_submit_prepare sms = Inr (0, sms')" "sub_pdu sms' = Some (submit_smcc sms @ submit_header (submit_ready sms) udl @ ud)"
      by (rule d)+
    fix s ss assume "concat (s # ss) = framed ?l @ ?h @ CRLF \<and> length (concat (s # ss)) < 2048"
    then show "run_events vgsm_comm_receive (s # ss) c = Inr (?c2\<lparr>comm_buf := []\<rparr>)" using run by blast
    show "urc_turn (?c2\<lparr>comm_buf := []\<rparr>) = Inr (?c2\<lparr>comm_buf := [], urc_queue := [], urcs_handled := urcs_handled c @ [?v]\<rparr>)" by (rule u)
    show "handle_unsolicited_cmt mktime vgsm_me_urcs ?v = Inr (Some dlv)" by (rule h)
    show "dlv_text dlv = Some (sub_text sms)" "dlv_originating_address dlv = oa" by (rule d)+
  qed (use assms(11) in simp_all)
qed


text \<open>
  A field in quotes that is longer than the array it is copied to is written beyond it: the check for the last place ends only the
  loop over the quoted characters, and the next character steps over the place the check is for.
\<close>

lemma quoted_room: "list_all (\<lambda>x. x \<noteq> 0x22) q \<Longrightarrow> length tok + length q = n - 2 \<Longrightarrow> q \<noteq> [] \<Longrightarrow>
   token_quoted n tok (q @ s) = Inr (tok @ q, s)"
proof (induction q arbitrary: tok)
  case (Cons x q)
  show ?case
  proof (cases "q = []")
    case True
    then show ?thesis using Cons.prems by auto
  next
    case False
    then have "length tok + 1 \<noteq> n - 2" "length tok < n" using Cons.prems(2) by (cases q; simp)+
    then show ?thesis using Cons.IH [of "tok @ [x]"] Cons.prems False by simp
  qed
qed simp

lemma token_overrun:
  assumes "list_all (\<lambda>x. x \<noteq> 0x22 \<and> x \<noteq> 0x2c) q" "length tok = n - 1 \<or> length tok = n - 2" "2 \<le> n" "n < length tok + length q"
  shows "token_loop n tok (q @ s) = Inl OutOfBounds"
  using assms
proof (induction q arbitrary: tok)
  case (Cons x q)
  then have "token_loop n tok ((x # q) @ s) = token_loop n (tok @ [x]) (q @ s)"
    by (subst token_loop.simps) (auto simp: skip_quoted_def)
  moreover have "token_loop n (tok @ [x]) (q @ s) = Inl OutOfBounds"
  proof (cases "length (tok @ [x]) = n - 1")
    case True
    then show ?thesis using Cons by simp
  next
    case False
    then have "length (tok @ [x]) = n" "q \<noteq> []" using Cons.prems by auto
    then show ?thesis using Cons.prems(1) by (cases q) (auto simp: token_loop.simps [of n "tok @ [x]"] skip_quoted_def)
  qed
  ultimately show ?case by simp
qed auto

lemma quoted_field_overruns:
  assumes "list_all (\<lambda>x. x \<noteq> 0x22 \<and> x \<noteq> 0x2c) q" "2 < n" "n < length q"
  shows "get_token n (0x22 # q @ s) = Inl OutOfBounds"
proof -
  let ?a = "take (n - 2) q" and ?b = "drop (n - 2) q"
  have l: "list_all (\<lambda>x. x \<noteq> 0x22) ?a" "list_all (\<lambda>x. x \<noteq> 0x22 \<and> x \<noteq> 0x2c) ?b" "length ?a = n - 2" "?a \<noteq> []" "?b \<noteq> []"
    using assms by (auto simp: list_all_iff dest: in_set_takeD in_set_dropD)
  have "token_quoted n [] (?a @ ?b @ s) = Inr ([] @ ?a, ?b @ s)" by (rule quoted_room) (use l in simp_all)
  moreover have "?a @ ?b @ s = q @ s" by simp
  ultimately have "token_quoted n [] (q @ s) = Inr (?a, ?b @ s)" by simp
  moreover have "hd (?b @ s) \<noteq> 0x22" "?b @ s \<noteq> []" using l(2,5) by (cases ?b; auto)+
  ultimately have k: "skip_quoted n [] (0x22 # q @ s) = Inr (?a, ?b @ s)" by (simp add: skip_quoted_def)
  have "token_loop n [] (0x22 # q @ s) = token_loop n ?a (?b @ s)"
  proof -
    have "hd (?b @ s) \<noteq> 0x22" by fact
    then have "skip_quoted n ?a (?b @ s) = Inr (?a, ?b @ s)" by (simp add: skip_quoted_def)
    then show ?thesis unfolding token_loop.simps [of n "[]"] token_loop.simps [of n ?a] k by simp
  qed
  also have "\<dots> = Inl OutOfBounds" by (rule token_overrun) (use l assms in auto)
  finally show ?thesis by (simp add: get_token_def)
qed

section \<open>Examples\<close>

definition example_line :: vgsm_comm where
  "example_line = (vgsm_comm_init vgsm_me_urcs)\<lparr>comm_state := VGSM_COMM_IDLE\<rparr>"

lemma example_line_inv: "line_inv example_line"
  by (simp add: example_line_def vgsm_comm_init_def line_inv_def comm_inv_def)

text \<open>A short message is being sent and the next command waits.\<close>

definition example_sms_req :: vgsm_req where
  "example_sms_req =
     \<lparr>req_addr = 1, req_refcnt = 2, request = asc ''AT+CMGS=2'' @ [13], sms_text_pdu = Some (asc ''01a2''), retransmit_cnt = 3, req_ready = False,
      req_timeout = 20100000, req_lines = [], req_err = 0, urc_class = None\<rparr>"

definition example_next_req :: vgsm_req where
  "example_next_req = example_sms_req\<lparr>req_addr := 2, request := asc ''AT+CSQ'' @ [13], sms_text_pdu := None\<rparr>"

definition example_busy :: vgsm_comm where
  "example_busy = example_line\<lparr>comm_state := VGSM_COMM_AWAITING_ECHO, comm_now := 5, comm_timer := Some 800005,
     current_req := Some example_sms_req, requests_queue := [example_next_req], next_req := 3\<rparr>"

lemma example_busy_inv: "line_inv example_busy"
  by (simp add: example_busy_def example_line_def vgsm_comm_init_def line_inv_def comm_inv_def request_ok_def example_sms_req_def
      example_next_req_def asc_def)

lemma example_busy_simps:
  "comm_state example_busy = VGSM_COMM_AWAITING_ECHO" "current_req example_busy = Some example_sms_req" "comm_timer example_busy = Some 800005"
  "requests_queue example_busy = [example_next_req]" "c_string (comm_buf example_busy) = []" "urc_classes example_busy = vgsm_me_urcs"
  "completion_queue example_busy = []" "completed example_busy = []" "urc_queue example_busy = []" "serial_ops example_busy = []"
  by (simp_all add: example_busy_def example_line_def vgsm_comm_init_def c_string_def)

lemma resE: "(case r of Inl e \<Rightarrow> False | Inr x \<Rightarrow> P x) \<Longrightarrow> \<exists>x. r = Inr x \<and> P x"
  by (cases r) simp_all

theorem reading_in_pieces_witness:
  "\<exists>c'. run_events vgsm_comm_receive [asc ''AT+CM'', asc ''GS=2'' @ [13, 13], [10, 0x3e]] example_busy = Inr c' \<and>
     vgsm_comm_receive (asc ''AT+CMGS=2'' @ [13, 13, 10, 0x3e]) example_busy = Inr c'"
proof -
  let ?s = "asc ''AT+CM''" and ?ss = "[asc ''GS=2'' @ [13, 13], [10, 0x3e]]"
  have "case run_events vgsm_comm_receive (?s # ?ss) example_busy of Inl _ \<Rightarrow> False | Inr _ \<Rightarrow> True" by code_simp
  from resE [OF this] obtain c' where r: "run_events vgsm_comm_receive (?s # ?ss) example_busy = Inr c'" by blast
  have "vgsm_comm_receive (concat (?s # ?ss)) example_busy = Inr c'"
    by (rule reading_in_pieces [OF r]) (simp_all add: example_busy_simps asc_def)
  with r show ?thesis by (simp add: asc_def)
qed

definition example_events :: "comm_event list" where
  "example_events = [Make_request (asc ''AT'') 1000 [], Thread_turn 6 None (Some (asc ''AT+CMGS=2'' @ [13])),
     Thread_turn 7 None (Some (CRLF @ asc ''ERROR'' @ CRLF)), Completion_turn,
     Thread_turn 8 None (Some (framed (asc ''RING: 1''))), Urc_turn]"

lemma example_events_ok: "events_ok comm_step comm_event_ok example_events example_busy" by code_simp

theorem line_never_asserts_witness:
  "\<exists>c'. run_events comm_step example_events example_busy = Inr c' \<and> line_inv c' \<and> map req_addr (completed c') = [1]"
proof -
  have "case run_events comm_step example_events example_busy of Inl _ \<Rightarrow> False | Inr c' \<Rightarrow> map req_addr (completed c') = [1]" by code_simp
  from resE [OF this] obtain c' where r: "run_events comm_step example_events example_busy = Inr c'" "map req_addr (completed c') = [1]"
    by (elim exE conjE)
  have "line_inv c'" using line_never_asserts [OF example_busy_inv example_events_ok] unfolding r(1) sum.case .
  show ?thesis by (intro exI conjI) (rule r(1), fact, rule r(2))
qed

theorem requests_in_order_witness:
  "\<exists>c' new. run_events comm_step example_events example_busy = Inr c' \<and> req_addrs c' = [1, 2] @ new \<and> sorted_wrt (<) new \<and>
     (\<forall>a \<in> set new. 3 \<le> a)"
proof -
  have "case run_events comm_step example_events example_busy of Inl _ \<Rightarrow> False | Inr _ \<Rightarrow> True" by code_simp
  from resE [OF this] obtain c' where r: "run_events comm_step example_events example_busy = Inr c'" by blast
  have "req_addrs example_busy = [1, 2]" "next_req example_busy = 3" by code_simp+
  then show ?thesis using requests_in_order [OF example_busy_inv example_events_ok r] r by auto
qed

theorem silent_module_given_up_witness:
  "\<exists>c'. silent_turns [1000000, 2000001, 3000002, 4000003, 5000004, 6000005] example_busy = Inr c' \<and> comm_state c' = VGSM_COMM_FAILED \<and>
     map req_addr (done_reqs c') = [1, 2] \<and> length (serial_ops c') = 8"
proof -
  have "spaced 800005 [1000000, 2000001, 3000002, 4000003, 5000004, 6000005]" by (simp add: SEC_def)
  moreover have "int (length [1000000 :: int, 2000001, 3000002, 4000003, 5000004, 6000005]) = 2 * retransmit_cnt example_sms_req"
    by (simp add: example_sms_req_def)
  moreover have "comm_state example_busy \<in> with_request" by (simp add: example_busy_simps with_request_def)
  ultimately obtain c' where c': "silent_turns [1000000, 2000001, 3000002, 4000003, 5000004, 6000005] example_busy = Inr c'"
      "comm_state c' = VGSM_COMM_FAILED"
      "done_reqs c' = done_reqs example_busy @ map req_failed (example_sms_req\<lparr>retransmit_cnt := 0\<rparr> # requests_queue example_busy)"
      "serial_ops c' = serial_ops example_busy @
         concat (replicate (nat (retransmit_cnt example_sms_req) - 1) (recovery_ops @ [Serial_write (request example_sms_req)])) @ recovery_ops"
    using silent_module_given_up [OF example_busy_inv _ example_busy_simps(2,3)] by blast
  have "nat (retransmit_cnt example_sms_req) - 1 = Suc (Suc 0)" "req_addr example_sms_req = 1" "req_addr example_next_req = 2"
    by (simp_all add: example_sms_req_def example_next_req_def)
  then have "map req_addr (done_reqs c') = [1, 2]" "length (serial_ops c') = 8"
    unfolding c'(3,4) by (simp_all add: example_busy_simps done_reqs_def req_failed_def recovery_ops_def)
  then show ?thesis by (intro exI [of _ c'] conjI c'(1,2))
qed

theorem closed_line_strands_requests_witness:
  "\<exists>c1 c2. comm_step (Thread_turn 6 (Some VGSM_COMM_MSG_CLOSE) None) example_busy = Inr c1 \<and>
     run_events comm_step [Make_request (asc ''AT'') 0 [], Completion_turn] c1 = Inr c2 \<and>
     done_reqs c1 = [] \<and> map req_addr (waiting_reqs c1) = [1, 2] \<and> done_reqs c2 = [] \<and> (\<forall>r \<in> set (waiting_reqs c1). r \<in> set (waiting_reqs c2) \<and> \<not> req_ready r) \<and>
     bind_res (comm_thread_start c2) (comm_thread_turn 9 None None) = Inl KernelBug"
proof -
  let ?e = "Thread_turn 6 (Some VGSM_COMM_MSG_CLOSE) None" and ?es = "[Make_request (asc ''AT'') 0 [], Completion_turn]"
  have "case comm_step ?e example_busy of Inl _ \<Rightarrow> False | Inr c1 \<Rightarrow> current_req c1 \<noteq> None \<and> events_ok comm_step comm_event_ok ?es c1 \<and>
      (case run_events comm_step ?es c1 of Inl _ \<Rightarrow> False | Inr c2 \<Rightarrow> True)" by code_simp
  from resE [OF this] obtain c1 where c1: "comm_step ?e example_busy = Inr c1" "current_req c1 \<noteq> None" "events_ok comm_step comm_event_ok ?es c1"
      "case run_events comm_step ?es c1 of Inl _ \<Rightarrow> False | Inr c2 \<Rightarrow> True"
    by blast
  from resE [OF c1(4)] obtain c2 where r: "comm_step ?e example_busy = Inr c1" "current_req c1 \<noteq> None" "events_ok comm_step comm_event_ok ?es c1"
      "run_events comm_step ?es c1 = Inr c2"
    using c1(1-3) by blast
  have ok: "comm_event_ok ?e example_busy" by code_simp
  note l = closed_line_strands_requests [OF example_busy_inv ok r(1,3,4)]
  have "comm_state example_busy \<noteq> VGSM_COMM_FAILED \<and> pred_option (\<lambda>expires. 6 \<le> expires) (comm_timer example_busy)"
    by (code_simp, simp)
  moreover have "done_reqs example_busy = []" "map req_addr (waiting_reqs example_busy) = [1, 2]" by code_simp+
  ultimately show ?thesis using r l by (intro exI [of _ c1] exI [of _ c2] conjI) simp_all
qed

theorem request_answered_witness:
  "\<exists>c'. run_events vgsm_comm_receive [framed (asc ''+CMT: ,9'') @ asc ''0011'' @ CRLF @ asc ''AT+C'', asc ''MGS=2'' @ [13, 13],
        [10] @ asc ''> 01a2'' @ [0x1a] @ framed (asc ''+CMGS: 7'') @ framed (asc ''OK'')] example_busy = Inr c' \<and>
     comm_state c' = VGSM_COMM_IDLE \<and> map req_err (completion_queue c') = [0] \<and>
     map req_lines (urc_queue c') = [[asc ''+CMT: ,9'', asc ''0011'']]"
proof -
  let ?s = "framed (asc ''+CMT: ,9'') @ asc ''0011'' @ CRLF @ asc ''AT+C''"
  let ?ss = "[asc ''MGS=2'' @ [13, 13], [10] @ asc ''> 01a2'' @ [0x1a] @ framed (asc ''+CMGS: 7'') @ framed (asc ''OK'')]"
  have k: "find_class vgsm_me_urcs (asc ''+CMT: ,9'') = Some 16" using find_class_cmt [of "asc '',9''"] by (simp add: asc_def)
  have "list_all (urc_item_ok (urc_classes example_busy)) [(asc ''+CMT: ,9'', Some (asc ''0011''))]"
    by (auto simp: example_busy_simps k class_cmt handle_cmt_end_def) (simp_all add: asc_def)
  moreover have "list_all inner_line [asc ''+CMGS: 7'']" "final_line (asc ''OK'')" by code_simp+
  moreover have "0 \<notin> set (request example_sms_req)" "hd (request example_sms_req) \<noteq> 13"
      "\<forall>pdu \<in> set_option (sms_text_pdu example_sms_req). 0 \<notin> set pdu" by code_simp+
  moreover have "concat (?s # ?ss) = concat (map urc_octets [(asc ''+CMT: ,9'', Some (asc ''0011''))]) @ request example_sms_req @
      prompt_octets example_sms_req @ concat (map framed [asc ''+CMGS: 7'']) @ framed (asc ''OK'')" by code_simp
  moreover have "length (concat (?s # ?ss)) < 2048" by code_simp
  ultimately obtain c' where "run_events vgsm_comm_receive (?s # ?ss) example_busy = Inr c'" "comm_state c' = VGSM_COMM_IDLE"
      "completion_queue c' = completion_queue example_busy @ [answered (asc ''OK'') [asc ''+CMGS: 7''] example_sms_req]"
      "map req_lines (urc_queue c') = map req_lines (urc_queue example_busy) @ map urc_lines [(asc ''+CMT: ,9'', Some (asc ''0011''))]"
    using request_answered [OF example_busy_inv example_busy_simps(1,2,5)] by blast
  moreover have "vgsm_req_final_response_code (asc ''OK'') = 0" by code_simp
  ultimately show ?thesis by (simp add: example_busy_simps answered_def)
qed

theorem message_handled_witness:
  "\<exists>udl ud c' c'' urc dlv. run_events vgsm_comm_receive [framed (asc ''+CMT: ,23''),
       to_hex (deliver_pdu example_number 0x44 example_number 0 (dcs_octet (submit_ready example_submit)) [1, 2, 3, 4, 5, 6, 7] udl ud) @ CRLF]
       example_line = Inr c' \<and> urc_turn c' = Inr c'' \<and> urcs_handled c'' = [urc] \<and>
     handle_unsolicited_cmt (\<lambda>_. 0) vgsm_me_urcs urc = Inr (Some dlv) \<and> dlv_text dlv = Some [0x48, 0x40, 0xE8]"
proof -
  have b: "basic_text (sub_text example_submit)" by code_simp
  have h: "number_ok example_number" "length (digits (sub_dest example_submit)) \<le> 22"
    "bit (0x44 :: u8) 6 = sub_user_data_header_indicator (submit_ready example_submit)"
    "udh_septets_of (submit_ready example_submit) + length (sub_text example_submit) < 160" "sub_pdu example_submit = None"
    by (code_simp, code_simp, code_simp, code_simp, simp add: example_submit_def)
  have l: "comm_state example_line = VGSM_COMM_IDLE" "c_string (comm_buf example_line) = []" "urc_queue example_line = []"
    "urc_classes example_line = vgsm_me_urcs" "urcs_handled example_line = []"
    by (simp_all add: example_line_def vgsm_comm_init_def c_string_def)
  have p: "plain_line (asc '',23'')" "get_token 32 (asc '',23'') = Inr (Some ([], asc ''23''))" by code_simp+
  let ?pdu = "\<lambda>udl ud. deliver_pdu example_number 0x44 example_number 0 (dcs_octet (submit_ready example_submit)) [1, 2, 3, 4, 5, 6, 7] udl ud"
  obtain sms' udl ud where m: "vgsm_sms_submit_prepare example_submit = Inr (0, sms')"
      "sub_pdu sms' = Some (submit_smcc example_submit @ submit_header (submit_ready example_submit) udl @ ud)"
      "\<And>s ss. concat (s # ss) = framed (asc ''+CMT: '' @ asc '',23'') @ to_hex (?pdu udl ud) @ CRLF \<and> length (concat (s # ss)) < 2048 \<longrightarrow>
       (\<exists>c' c'' urc dlv. run_events vgsm_comm_receive (s # ss) example_line = Inr c' \<and> comm_state c' = VGSM_COMM_IDLE \<and> comm_buf c' = [] \<and>
          urc_turn c' = Inr c'' \<and> urc_queue c'' = [] \<and> urcs_handled c'' = urcs_handled example_line @ [urc] \<and>
          handle_unsolicited_cmt (\<lambda>_. 0) vgsm_me_urcs urc = Inr (Some dlv) \<and> dlv_text dlv = Some (sub_text example_submit) \<and>
          dlv_originating_address dlv = example_number)"
    using message_handled [where mktime = "\<lambda>_. 0" and pid = 0, OF h(5) h(2) b h(4) h(1) h(1) h(3), of "[1, 2, 3, 4, 5, 6, 7]" example_line,
        OF _ _ example_line_inv l(1-4) p] by auto
  have "case vgsm_sms_submit_prepare example_submit of Inl _ \<Rightarrow> False
      | Inr x \<Rightarrow> (case sub_pdu (snd x) of None \<Rightarrow> False | Some p \<Rightarrow> length p < 100)" by code_simp
  then have u: "length ud < 100" using m(1,2) by simp
  have "length (to_hex x) = 2 * length x" for x by (induction x) (simp_all add: to_hex_def)
  moreover have "length (vgsm_text_to_bcd (digits example_number)) = 2" by code_simp
  then have "length (?pdu udl ud) = 19 + length ud" by (simp add: deliver_pdu_def)
  ultimately have "length (concat [framed (asc ''+CMT: ,23''), to_hex (?pdu udl ud) @ CRLF]) < 2048"
    using u by (simp add: framed_def asc_def CRLF_def)
  moreover have "asc ''+CMT: '' @ asc '',23'' = asc ''+CMT: ,23''" by (simp add: asc_def)
  ultimately have "\<exists>c' c'' urc dlv. run_events vgsm_comm_receive [framed (asc ''+CMT: ,23''), to_hex (?pdu udl ud) @ CRLF] example_line = Inr c' \<and>
       urc_turn c' = Inr c'' \<and> urcs_handled c'' = [urc] \<and> handle_unsolicited_cmt (\<lambda>_. 0) vgsm_me_urcs urc = Inr (Some dlv) \<and>
       dlv_text dlv = Some (sub_text example_submit)"
    using m(3) [of "framed (asc ''+CMT: ,23'')" "[to_hex (?pdu udl ud) @ CRLF]"] l(5) by auto
  moreover have "sub_text example_submit = [0x48, 0x40, 0xE8]" by (simp add: example_submit_def)
  ultimately show ?thesis by (intro exI [of _ udl] exI [of _ ud]) simp
qed

lemma quoted_field_overruns_example: "get_token 32 (0x22 # replicate 33 0x61 @ asc ''\",1'') = Inl OutOfBounds"
  by (rule quoted_field_overruns) (simp_all add: list_all_iff)

end
