(* ===== verification/Vgsm_Report.thy ===== *)
theory Vgsm_Report
  imports Vgsm_Sms
begin

text \<open>
  The other messages the module passes on: status reports (\<open>vgsm_sms_status_report_init_from_pdu\<close> of
  \<open>sms_status_report.c\<close>) and cell broadcast messages (\<open>vgsm_decode_cbm_pdu\<close> of \<open>cbm.c\<close>), both decoded from the
  hexadecimal text of a PDU. A read beyond the PDU is \<open>OutOfBounds\<close>; a message the code refuses is \<open>None\<close>.
\<close>

section \<open>Status reports\<close>

record vgsm_sms_status_report =
  rep_smcc_address :: vgsm_number
  rep_user_data_header_indicator :: bool
  rep_more_messages_to_send :: bool
  rep_status_report_qualifier :: bool
  rep_message_reference :: u8
  rep_recipient_address :: vgsm_number
  rep_smcc_timestamp :: int
  rep_smcc_timestamp_tz :: int
  rep_discharge_time :: int
  rep_discharge_time_tz :: int
  rep_status :: u8
  rep_parameter_indicator :: u8
  rep_coding_group :: u8
  rep_compressed :: bool
  rep_message_class :: int
  rep_alphabet :: u8
  rep_text :: "int list option"

text \<open>A time of the report and its zone, with \<open>pos\<close> at its seven octets; the first octet of a report as its bit fields name it.\<close>

definition report_time :: "(int \<times> int \<times> int \<times> int \<times> int \<times> int \<Rightarrow> int) \<Rightarrow> octets \<Rightarrow> nat \<Rightarrow> (int \<times> int) option res" where
  "report_time mktime pdu pos =
     bind_res (rd_dec pdu pos) (\<lambda>year. bind_res (rd_dec pdu (pos + 1)) (\<lambda>mon.
     bind_res (rd_dec pdu (pos + 2)) (\<lambda>mday. bind_res (rd_dec pdu (pos + 3)) (\<lambda>hour.
     bind_res (rd_dec pdu (pos + 4)) (\<lambda>mnt. bind_res (rd_dec pdu (pos + 5)) (\<lambda>sec.
       let t = mktime (year + 100, mon - 1, mday, hour, mnt, sec) in
       if t = -1 then Inr None
       else bind_res (rd pdu (pos + 6)) (\<lambda>z.
         let tz = uint (vgsm_nibbles_to_decimal (z AND 0x7f));
             tz = (if bit z 7 then tz else - tz)
         in Inr (Some (t - tz, tz)))))))))"

definition report_first_octet :: "u8 \<Rightarrow> vgsm_sms_status_report \<Rightarrow> vgsm_sms_status_report" where
  "report_first_octet sdp sms = sms\<lparr>rep_user_data_header_indicator := bit sdp 2,
     rep_more_messages_to_send := bit sdp 3, rep_status_report_qualifier := bit sdp 4\<rparr>"

text \<open>The user data of a report, with \<open>pos\<close> behind its length; an unknown coding group is kept without a text.\<close>

definition report_septets :: "octets \<Rightarrow> nat \<Rightarrow> u8 \<Rightarrow> vgsm_sms_status_report \<Rightarrow> vgsm_sms_status_report option res" where
  "report_septets pdu pos tp_udl sms =
     bind_res (vgsm_7bit_to_wc (drop pos pdu) (uint tp_udl) 0 (uint tp_udl + 1)) (\<lambda>ws. Inr (Some (sms\<lparr>rep_text := Some ws\<rparr>)))"

definition report_text :: "octets \<Rightarrow> u8 \<Rightarrow> nat \<Rightarrow> u8 \<Rightarrow> vgsm_sms_status_report \<Rightarrow> vgsm_sms_status_report option res" where
  "report_text pdu dcs pos tp_udl sms0 =
     (let group = drop_bit 4 dcs;
          sms = sms0\<lparr>rep_coding_group := group, rep_compressed := False, rep_message_class := -1\<rparr>
      in if group \<le> 3 then
           (let compressed = bit dcs 5; alphabet = drop_bit 2 dcs AND 3;
                sms = sms\<lparr>rep_compressed := compressed, rep_alphabet := alphabet,
                         rep_message_class := if bit dcs 4 then uint (dcs AND 3) else -1\<rparr>
            in if compressed then Inr None
               else if alphabet = 0 then report_septets pdu pos tp_udl sms
               else if alphabet = 2 then
                 bind_res (ucs2_loop pdu pos (unat tp_udl div 2)) (\<lambda>ws. Inr (Some (sms\<lparr>rep_text := Some ws\<rparr>)))
               else Inr (Some sms))
         else if group = 0xf \<and> \<not> bit dcs 2 then report_septets pdu pos tp_udl sms
         else Inr (Some sms))"

text \<open>What follows the times: \<open>pos\<close> is at the status.\<close>

definition report_optional :: "octets \<Rightarrow> nat \<Rightarrow> vgsm_sms_status_report \<Rightarrow> vgsm_sms_status_report option res" where
  "report_optional pdu pos sms =
     bind_res (rd pdu pos) (\<lambda>st.
       let sms = sms\<lparr>rep_status := st\<rparr> in
       if length pdu < pos + 1 then Inl KernelBug
       else if pos + 1 = length pdu then Inr (Some sms)
       else bind_res (rd pdu (pos + 1)) (\<lambda>pi.
         let sms = sms\<lparr>rep_parameter_indicator := pi\<rparr> in
         if \<not> bit pi 0 \<or> \<not> bit pi 1 \<or> \<not> bit pi 2 then Inr (Some sms)
         else bind_res (rd pdu (pos + 4)) (\<lambda>tp_udl. bind_res (rd pdu (pos + 3)) (\<lambda>dcs.
           report_text pdu dcs (pos + 5) tp_udl sms))))"

definition report_tail ::
  "(int \<times> int \<times> int \<times> int \<times> int \<times> int \<Rightarrow> int) \<Rightarrow> octets \<Rightarrow> nat \<Rightarrow> vgsm_sms_status_report \<Rightarrow> vgsm_sms_status_report option res" where
  "report_tail mktime pdu pos sms =
     bind_res (report_time mktime pdu pos) (\<lambda>a. case a of None \<Rightarrow> Inr None | Some (t, tz) \<Rightarrow>
     bind_res (report_time mktime pdu (pos + 7)) (\<lambda>b. case b of None \<Rightarrow> Inr None | Some (d, dz) \<Rightarrow>
       report_optional pdu (pos + 14) (sms\<lparr>rep_smcc_timestamp := t, rep_smcc_timestamp_tz := tz,
         rep_discharge_time := d, rep_discharge_time_tz := dz\<rparr>)))"

definition vgsm_sms_status_report_init_from_pdu ::
  "(int \<times> int \<times> int \<times> int \<times> int \<times> int \<Rightarrow> int) \<Rightarrow> octets \<Rightarrow> vgsm_sms_status_report option res" where
  "vgsm_sms_status_report_init_from_pdu mktime text_pdu =
     (if length text_pdu mod 2 \<noteq> 0 then Inr None
      else
        let pdu = hex_to_octets text_pdu in
        bind_res (rd pdu 0) (\<lambda>smcc_len.
          if int (length pdu) - 1 < uint smcc_len then Inr None
          else if 31 < uint smcc_len then Inr None
          else bind_res (rd pdu 1) (\<lambda>smcc_toa.
            bind_res (vgsm_bcd_to_text (drop 2 pdu) ((uint smcc_len - 1) * 2) 32) (\<lambda>smcc_digits.
            case smcc_digits of None \<Rightarrow> Inr None | Some smcc_digits \<Rightarrow>
              let pos = 1 + unat smcc_len in
              bind_res (rd pdu pos) (\<lambda>sdp.
              bind_res (rd pdu (pos + 1)) (\<lambda>mr.
              bind_res (rd pdu (pos + 2)) (\<lambda>ra_len.
              bind_res (rd pdu (pos + 3)) (\<lambda>ra_toa.
              bind_res (vgsm_bcd_to_text (drop (pos + 4) pdu) (uint ra_len) 32) (\<lambda>ra_digits.
              case ra_digits of None \<Rightarrow> Inr None | Some ra_digits \<Rightarrow>
                report_tail mktime pdu (pos + 4 + (unat ra_len + 1) div 2)
                  (report_first_octet sdp
                    \<lparr>rep_smcc_address = \<lparr>digits = smcc_digits, np = toa_np smcc_toa, ton = toa_ton smcc_toa\<rparr>,
                     rep_user_data_header_indicator = False, rep_more_messages_to_send = False,
                     rep_status_report_qualifier = False, rep_message_reference = mr,
                     rep_recipient_address = \<lparr>digits = ra_digits, np = toa_np ra_toa, ton = toa_ton ra_toa\<rparr>,
                     rep_smcc_timestamp = 0, rep_smcc_timestamp_tz = 0, rep_discharge_time = 0, rep_discharge_time_tz = 0,
                     rep_status = 0, rep_parameter_indicator = 0, rep_coding_group = 0, rep_compressed = False,
                     rep_message_class = 0, rep_alphabet = 0, rep_text = None\<rparr>))))))))))"

section \<open>Cell broadcast\<close>

text \<open>
  A message's buffer for its text is allocated, then filled: \<open>Unwritten n\<close> is a buffer of \<open>n\<close> characters with
  whatever the allocator left in it.
\<close>

datatype text_buffer = No_text | Unwritten nat | Written "int list"

record vgsm_cbm =
  cbm_geoscope :: nat
  cbm_message_code :: nat
  cbm_update_number :: nat
  cbm_message_id :: nat
  cbm_pages :: u8
  cbm_page :: u8
  cbm_coding_group :: u8
  cbm_language :: u8
  cbm_compressed :: bool
  cbm_message_class :: int
  cbm_alphabet :: u8
  cbm_text :: text_buffer

definition VGSM_CBM_DCS_LANG_UNSPECIFIED :: u8 where "VGSM_CBM_DCS_LANG_UNSPECIFIED = 0xf"

text \<open>The serial number as the packed bit fields read it on a little-endian machine; no \<open>ntohs\<close> is applied to it.\<close>

definition cbm_serial :: "u8 \<Rightarrow> u8 \<Rightarrow> nat" where
  "cbm_serial a b = unat a + 256 * unat b"

definition cbm_page_parameter :: "u8 \<Rightarrow> vgsm_cbm \<Rightarrow> vgsm_cbm" where
  "cbm_page_parameter pp cbm =
     (let page = drop_bit 4 pp; pages = pp AND 0xf
      in if page = 0 \<or> pages = 0 then cbm\<lparr>cbm_page := 1, cbm_pages := 1\<rparr>
         else cbm\<lparr>cbm_page := page, cbm_pages := pages\<rparr>)"

definition cbm_septets :: "octets \<Rightarrow> nat \<Rightarrow> nat \<Rightarrow> vgsm_cbm \<Rightarrow> vgsm_cbm option res" where
  "cbm_septets pdu pos n cbm =
     bind_res (vgsm_7bit_to_wc (drop pos pdu) (int n) 0 (int n + 1)) (\<lambda>ws. Inr (Some (cbm\<lparr>cbm_text := Written ws\<rparr>)))"

text \<open>The content: the characters of a UCS-2 message go to a local array and not to the text.\<close>

definition cbm_content :: "octets \<Rightarrow> u8 \<Rightarrow> nat \<Rightarrow> vgsm_cbm \<Rightarrow> vgsm_cbm option res" where
  "cbm_content pdu dcs pos cbm =
     (let group = drop_bit 4 dcs in
      if group = 0 then cbm_septets pdu pos 93 (cbm\<lparr>cbm_language := dcs AND 0xf\<rparr>)
      else if 4 \<le> group \<and> group \<le> 7 then
        (let compressed = bit dcs 5; alphabet = drop_bit 2 dcs AND 3;
             cbm = cbm\<lparr>cbm_compressed := compressed, cbm_message_class := if bit dcs 4 then uint (dcs AND 3) else -1,
                     cbm_alphabet := alphabet\<rparr>
         in if compressed then Inr None
            else if alphabet = 0 then cbm_septets pdu pos 93 cbm
            else if alphabet = 2 then bind_res (ucs2_loop pdu pos 41) (\<lambda>content. Inr (Some (cbm\<lparr>cbm_text := Unwritten 42\<rparr>)))
            else Inr (Some cbm))
      else if group = 0xf then
        (let cbm = cbm\<lparr>cbm_message_class := uint (dcs AND 3)\<rparr>
         in if bit dcs 2 then Inr (Some cbm) else cbm_septets pdu pos 82 cbm)
      else Inr None)"

definition vgsm_decode_cbm_pdu :: "octets \<Rightarrow> vgsm_cbm option res" where
  "vgsm_decode_cbm_pdu text_pdu =
     (if length text_pdu mod 2 \<noteq> 0 then Inr None
      else
        let pdu = hex_to_octets text_pdu in
        bind_res (rd pdu 0) (\<lambda>s0. bind_res (rd pdu 1) (\<lambda>s1.
        bind_res (rd pdu 2) (\<lambda>m0. bind_res (rd pdu 3) (\<lambda>m1.
        bind_res (rd pdu 5) (\<lambda>pp. bind_res (rd pdu 4) (\<lambda>dcs.
          cbm_content pdu dcs 6
            (cbm_page_parameter pp
              \<lparr>cbm_geoscope = cbm_serial s0 s1 div 16384, cbm_message_code = cbm_serial s0 s1 div 16 mod 1024,
               cbm_update_number = cbm_serial s0 s1 mod 16, cbm_message_id = 256 * unat m0 + unat m1,
               cbm_pages = 0, cbm_page = 0, cbm_coding_group = drop_bit 4 dcs, cbm_language = VGSM_CBM_DCS_LANG_UNSPECIFIED,
               cbm_compressed = False, cbm_message_class = -1, cbm_alphabet = 0, cbm_text = No_text\<rparr>))))))))"

section \<open>Cell broadcast messages arrive with their text\<close>

text \<open>The septets of a buffer that is long enough can be read.\<close>

lemma septet_at_ok: "(k + 1) * 7 \<le> 8 * length buf \<Longrightarrow> \<exists>v. septet_at buf k = Inr v"
proof -
  assume a: "(k + 1) * 7 \<le> 8 * length buf"
  let ?j = "((k + 1) * 7) div 8"
  have lo: "?j \<noteq> 0 \<Longrightarrow> ?j - 1 < length buf" using a by linarith
  have hi: "?j < length buf" if "1 < 8 - k mod 8"
  proof (rule ccontr)
    assume "\<not> ?j < length buf"
    then have "8 * length buf \<le> (k + 1) * 7" by linarith
    then have e: "(k + 1) * 7 = 8 * length buf" using a by simp
    then have "(k + 1) mod 8 = 0" by presburger
    then show False using that by presburger
  qed
  show ?thesis using lo hi by (auto simp: septet_at_def rd_def Let_def)
qed

lemma septets_loop_ok: "(i + off + n) * 7 \<le> 8 * length buf \<Longrightarrow> \<exists>ws. septets_loop buf off i n = Inr ws \<and> length ws = n"
proof (induction n arbitrary: i)
  case (Suc n)
  obtain v where v: "septet_at buf (i + off) = Inr v" using septet_at_ok [of "i + off" buf] Suc.prems by auto
  obtain ws where w: "septets_loop buf off (i + 1) n = Inr ws" "length ws = n" using Suc.IH [of "i + 1"] Suc.prems by auto
  have "septets_loop buf off i (Suc n) = Inr (vgsm_gsm_to_wc v # ws)" unfolding septets_loop.simps v bind_res_simps w(1) by simp
  then show ?case using w(2) by simp
qed simp

lemma ucs2_loop_ok: "pos + 2 * n \<le> length pdu \<Longrightarrow> \<exists>ws. ucs2_loop pdu pos n = Inr ws \<and> length ws = n"
proof (induction n arbitrary: pos)
  case (Suc n)
  obtain ws where w: "ucs2_loop pdu (pos + 2) n = Inr ws" "length ws = n" using Suc.IH [of "pos + 2"] Suc.prems by auto
  have "rd pdu pos = Inr (pdu ! pos)" "rd pdu (pos + 1) = Inr (pdu ! (pos + 1))" using Suc.prems by (auto simp: rd_def)
  then show ?case using w by simp
qed simp

lemma cbm_septets_ok: "n * 7 \<le> 8 * (length pdu - pos) \<Longrightarrow> \<exists>cbm'. cbm_septets pdu pos n cbm = Inr (Some cbm')"
  using septets_loop_ok [of 0 0 n "drop pos pdu"] by (auto simp: cbm_septets_def vgsm_7bit_to_wc_def)

text \<open>The head of a message, with the six octets before its content.\<close>

definition cbm_head :: "octets \<Rightarrow> vgsm_cbm" where
  "cbm_head pdu = cbm_page_parameter (pdu ! 5)
     \<lparr>cbm_geoscope = cbm_serial (pdu ! 0) (pdu ! 1) div 16384, cbm_message_code = cbm_serial (pdu ! 0) (pdu ! 1) div 16 mod 1024,
      cbm_update_number = cbm_serial (pdu ! 0) (pdu ! 1) mod 16, cbm_message_id = 256 * unat (pdu ! 2) + unat (pdu ! 3),
      cbm_pages = 0, cbm_page = 0, cbm_coding_group = drop_bit 4 (pdu ! 4), cbm_language = VGSM_CBM_DCS_LANG_UNSPECIFIED,
      cbm_compressed = False, cbm_message_class = -1, cbm_alphabet = 0, cbm_text = No_text\<rparr>"

lemma decode_cbm: "6 \<le> length pdu \<Longrightarrow> vgsm_decode_cbm_pdu (to_hex pdu) = cbm_content pdu (pdu ! 4) 6 (cbm_head pdu)"
proof -
  assume "6 \<le> length pdu"
  then have r: "rd pdu 0 = Inr (pdu ! 0)" "rd pdu 1 = Inr (pdu ! 1)" "rd pdu 2 = Inr (pdu ! 2)" "rd pdu 3 = Inr (pdu ! 3)"
    "rd pdu 4 = Inr (pdu ! 4)" "rd pdu 5 = Inr (pdu ! 5)" by (auto simp: rd_def)
  show ?thesis unfolding vgsm_decode_cbm_pdu_def hex_to_octets_inverse Let_def r bind_res_simps cbm_head_def by simp
qed

text \<open>
  A page of the length GSM 03.41 gives it, 88 octets, is decoded without a read beyond it, whatever its octets are;
  a page without a whole head is always read beyond its end.
\<close>

theorem broadcast_in_bounds:
  assumes "length pdu = 88"
  shows "\<exists>r. vgsm_decode_cbm_pdu (to_hex pdu) = Inr r"
proof -
  have s: "\<exists>cbm'. cbm_septets pdu 6 n cbm = Inr (Some cbm')" if "n \<le> 93" for n cbm
    using that assms by (intro cbm_septets_ok) simp
  obtain ws where u: "ucs2_loop pdu 6 41 = Inr ws" using ucs2_loop_ok [of 6 41 pdu] assms by auto
  have "\<exists>r. cbm_content pdu dcs 6 cbm = Inr r" for dcs cbm
    using s [of 93] s [of 82] u by (auto simp: cbm_content_def Let_def)
  then show ?thesis using assms by (simp add: decode_cbm)
qed

lemma short_broadcast_overruns: "length pdu < 6 \<Longrightarrow> vgsm_decode_cbm_pdu (to_hex pdu) = Inl OutOfBounds"
  by (auto simp: vgsm_decode_cbm_pdu_def hex_to_octets_inverse rd_def)

text \<open>
  Every page whose data coding scheme says UCS-2 loses its text: the characters are read, but the buffer the
  message keeps has its 42 characters unwritten.
\<close>

theorem ucs2_broadcast_lost:
  assumes "length pdu = 88" "drop_bit 4 (pdu ! 4) \<in> {4, 5, 6, 7}" "\<not> bit (pdu ! 4) 5" "drop_bit 2 (pdu ! 4) AND 3 = 2"
  shows "\<exists>content cbm. ucs2_loop pdu 6 41 = Inr content \<and> length content = 41 \<and>
     vgsm_decode_cbm_pdu (to_hex pdu) = Inr (Some cbm) \<and> cbm_text cbm = Unwritten 42"
proof -
  obtain ws where u: "ucs2_loop pdu 6 41 = Inr ws" "length ws = 41" using ucs2_loop_ok [of 6 41 pdu] assms(1) by auto
  have g: "drop_bit 4 (pdu ! 4) \<noteq> 0" "4 \<le> drop_bit 4 (pdu ! 4) \<and> drop_bit 4 (pdu ! 4) \<le> 7" using assms(2) by auto
  have "\<exists>cbm. cbm_content pdu (pdu ! 4) 6 (cbm_head pdu) = Inr (Some cbm) \<and> cbm_text cbm = Unwritten 42"
    unfolding cbm_content_def Let_def u(1) using g assms(3,4) by simp
  then show ?thesis using u decode_cbm [of pdu] assms(1) by auto
qed

text \<open>
  The data coding schemes of the default alphabet: a page of the class schemes (group 1111) is read to 82 characters, of the 93 that it
  has room for; \<open>cbm_class\<close> is the message class they name.
\<close>

definition cbm_default_dcs :: "u8 \<Rightarrow> bool" where
  "cbm_default_dcs dcs \<longleftrightarrow> drop_bit 4 dcs = 0 \<or>
     (drop_bit 4 dcs \<in> {4, 5, 6, 7} \<and> \<not> bit dcs 5 \<and> drop_bit 2 dcs AND 3 = 0) \<or>
     (drop_bit 4 dcs = 0xf \<and> \<not> bit dcs 2)"

definition cbm_class :: "u8 \<Rightarrow> int" where
  "cbm_class dcs = (if drop_bit 4 dcs = 0xf \<or> drop_bit 4 dcs \<noteq> 0 \<and> bit dcs 4 then uint (dcs AND 3) else -1)"

lemma septets_loop_take: "septets_loop buf off i (n + m) = Inr ws \<Longrightarrow> septets_loop buf off i n = Inr (take n ws)"
  by (induction n arbitrary: i ws) (auto simp: bind_res_eq_Inr)

lemma serial_fields:
  fixes a b :: nat
  assumes "a < 256"
  shows "(a + 256 * b) div 16384 = b div 64" "(a + 256 * b) div 16 mod 1024 = b mod 64 * 16 + a div 16" "(a + 256 * b) mod 16 = a mod 16"
proof -
  have "(a + 256 * b) div 16384 = (a + 256 * b) div 256 div 64" by (simp add: div_mult2_eq [symmetric])
  then show "(a + 256 * b) div 16384 = b div 64" using assms by simp
  have a: "a div 16 < 16" using assms by (simp add: less_mult_imp_div_less)
  have "(a + 16 * (16 * b)) div 16 = 16 * b + a div 16" by simp
  then have d: "(a + 256 * b) div 16 = 16 * b + a div 16" by simp
  have "16 * b = 1024 * (b div 64) + b mod 64 * 16" using mult_div_mod_eq [of 64 b] by linarith
  then have "(a + 256 * b) div 16 mod 1024 = (1024 * (b div 64) + (b mod 64 * 16 + a div 16)) mod 1024" unfolding d by (simp add: add.assoc)
  also have "\<dots> = (b mod 64 * 16 + a div 16) mod 1024" by (rule mod_mult_self4)
  also have "b mod 64 * 16 + a div 16 < 1024" using a mod_less_divisor [of 64 b] by linarith
  then have "(b mod 64 * 16 + a div 16) mod 1024 = b mod 64 * 16 + a div 16" by (rule mod_less)
  finally show "(a + 256 * b) div 16 mod 1024 = b mod 64 * 16 + a div 16" .
  have "(a + 16 * (16 * b)) mod 16 = a mod 16" by (rule mod_mult_self2)
  then show "(a + 256 * b) mod 16 = a mod 16" by simp
qed

text \<open>
  C25. A page of a broadcast message in the default alphabet, whichever of its data coding schemes it has, is decoded to its text, its
  place among the pages, its identifier, its language and its message class; with a scheme of the group 1111, however, to the first 82
  of the 93 characters of the text. The serial number is read with its two octets exchanged: the scope and the message code come
  from bits of the second octet that GSM 03.41 puts into the first one.
\<close>

theorem broadcast_delivered:
  assumes "basic_text ws" "length ws = 93" "length ud = 82" "packed ud 0 (gsm_septets ws)" "cbm_default_dcs dcs"
    "pp = push_bit 4 page OR pages" "0 < page" "page < 16" "0 < pages" "pages < 16"
  shows "\<exists>cbm. vgsm_decode_cbm_pdu (to_hex ([s0, s1, m0, m1, dcs, pp] @ ud)) = Inr (Some cbm) \<and>
     cbm_text cbm = Written (if drop_bit 4 dcs = 0xf then take 82 ws else ws) \<and> cbm_page cbm = page \<and> cbm_pages cbm = pages \<and>
     cbm_message_id cbm = 256 * unat m0 + unat m1 \<and>
     cbm_language cbm = (if drop_bit 4 dcs = 0 then dcs AND 0xf else VGSM_CBM_DCS_LANG_UNSPECIFIED) \<and>
     cbm_message_class cbm = cbm_class dcs \<and>
     cbm_geoscope cbm = unat s1 div 64 \<and> cbm_message_code cbm = unat s1 mod 64 * 16 + unat s0 div 16 \<and>
     cbm_update_number cbm = unat s0 mod 16"
proof -
  let ?p = "[s0, s1, m0, m1, dcs, pp] @ ud"
  have l: "septets_loop ud 0 0 93 = Inr ws"
    using septets_loop_packed [of ud 0 0 "gsm_septets ws"] assms(1-4) gsm_septets_7bit basic_length [OF assms(1)] basic_septets [OF assms(1)]
    by simp
  have "drop 6 ?p = ud" by simp
  then have t: "cbm_septets ?p 6 n cbm = Inr (Some (cbm\<lparr>cbm_text := Written (take n ws)\<rparr>))" if "n \<le> 93" for n cbm
    using septets_loop_take [of ud 0 0 n "93 - n"] l that by (simp add: cbm_septets_def vgsm_7bit_to_wc_def)
  have f: "drop_bit 4 pp = page" "pp AND 0xf = pages"
  proof -
    note p = nibble_bits [OF assms(8)] nibble_bits [OF assms(10)]
    have m: "(0xf :: u8) = mask 4" by (simp add: mask_eq_exp_minus_1)
    show "drop_bit 4 pp = page" unfolding assms(6)
      by (rule bit_word_eqI) (auto simp: bit_or_iff bit_drop_bit_eq bit_push_bit_iff dest: p)
    show "pp AND 0xf = pages" unfolding assms(6) m
      by (rule bit_word_eqI) (auto simp: bit_and_iff bit_or_iff bit_push_bit_iff bit_mask_iff dest: p simp del: mask_numeral)
  qed
  let ?h = "cbm_head ?p"
  have s0: "unat s0 < 256" using unsigned_less [of s0] by simp
  have c: "cbm_page ?h = page" "cbm_pages ?h = pages" "cbm_language ?h = VGSM_CBM_DCS_LANG_UNSPECIFIED" "cbm_message_class ?h = -1"
    "cbm_message_id ?h = 256 * unat m0 + unat m1" "cbm_geoscope ?h = unat s1 div 64"
    "cbm_message_code ?h = unat s1 mod 64 * 16 + unat s0 div 16" "cbm_update_number ?h = unat s0 mod 16"
    using assms(7,9) f serial_fields [OF s0, of "unat s1"]
    by (auto simp: cbm_head_def cbm_page_parameter_def Let_def cbm_serial_def)
  have d: "vgsm_decode_cbm_pdu (to_hex ?p) = cbm_content ?p dcs 6 ?h" using decode_cbm [of ?p] by simp
  consider (general) "drop_bit 4 dcs = 0" | (classes) "drop_bit 4 dcs \<in> {4, 5, 6, 7}" "\<not> bit dcs 5" "drop_bit 2 dcs AND 3 = 0"
    | (last_group) "drop_bit 4 dcs = 0xf" "\<not> bit dcs 2"
    using assms(5) unfolding cbm_default_dcs_def by blast
  then show ?thesis
  proof cases
    case general
    then have "cbm_content ?p dcs 6 ?h = Inr (Some (?h\<lparr>cbm_language := dcs AND 0xf, cbm_text := Written ws\<rparr>))"
      unfolding cbm_content_def Let_def using t [of 93] assms(2) by simp
    then show ?thesis using c general unfolding d by (simp add: cbm_class_def)
  next
    case classes
    then have n: "drop_bit 4 dcs \<noteq> 0" "4 \<le> drop_bit 4 dcs \<and> drop_bit 4 dcs \<le> 7" "drop_bit 4 dcs \<noteq> 0xf" by auto
    have "cbm_content ?p dcs 6 ?h = Inr (Some (?h\<lparr>cbm_compressed := False, cbm_message_class := cbm_class dcs, cbm_alphabet := 0,
      cbm_text := Written ws\<rparr>))"
      unfolding cbm_content_def Let_def using n classes t [of 93] assms(2) by (simp add: cbm_class_def)
    then show ?thesis using c n unfolding d by simp
  next
    case last_group
    then have "cbm_content ?p dcs 6 ?h = Inr (Some (?h\<lparr>cbm_message_class := cbm_class dcs, cbm_text := Written (take 82 ws)\<rparr>))"
      unfolding cbm_content_def Let_def using t [of 82] by (simp add: cbm_class_def)
    then show ?thesis using c last_group unfolding d by simp
  qed
qed

section \<open>Status reports arrive with their fields\<close>

text \<open>A report as the module passes it on (GSM 03.40), with what follows the status in \<open>rest\<close>; the zone of a time stamp.\<close>

definition report_pdu :: "vgsm_number \<Rightarrow> u8 \<Rightarrow> u8 \<Rightarrow> vgsm_number \<Rightarrow> octets \<Rightarrow> octets \<Rightarrow> u8 \<Rightarrow> octets \<Rightarrow> octets" where
  "report_pdu smcc fo mr ra ts dt st rest =
     word_of_nat (length (vgsm_text_to_bcd (digits smcc)) + 1) # type_of_address smcc # vgsm_text_to_bcd (digits smcc) @
     [fo, mr, word_of_nat (length (digits ra)), type_of_address ra] @ vgsm_text_to_bcd (digits ra) @ ts @ dt @ [st] @ rest"

definition ts_zone :: "octets \<Rightarrow> int" where
  "ts_zone ts = (let tz = uint (vgsm_nibbles_to_decimal (ts ! 6 AND 0x7f)) in if bit (ts ! 6) 7 then tz else - tz)"

definition report_head :: "vgsm_number \<Rightarrow> u8 \<Rightarrow> u8 \<Rightarrow> vgsm_number \<Rightarrow> vgsm_sms_status_report" where
  "report_head smcc fo mr ra = report_first_octet fo
     \<lparr>rep_smcc_address = smcc, rep_user_data_header_indicator = False, rep_more_messages_to_send = False,
      rep_status_report_qualifier = False, rep_message_reference = mr, rep_recipient_address = ra,
      rep_smcc_timestamp = 0, rep_smcc_timestamp_tz = 0, rep_discharge_time = 0, rep_discharge_time_tz = 0,
      rep_status = 0, rep_parameter_indicator = 0, rep_coding_group = 0, rep_compressed = False,
      rep_message_class = 0, rep_alphabet = 0, rep_text = None\<rparr>"

lemma report_read:
  assumes "number_ok smcc" "number_ok ra" "p = report_pdu smcc fo mr ra ts dt st rest"
  shows "\<exists>pos. drop pos p = ts @ dt @ [st] @ rest \<and>
    vgsm_sms_status_report_init_from_pdu mktime (to_hex p) = report_tail mktime p pos (report_head smcc fo mr ra)"
proof -
  let ?S = "vgsm_text_to_bcd (digits smcc)" and ?R = "vgsm_text_to_bcd (digits ra)"
  let ?tail = "ts @ dt @ [st] @ rest" and ?pos = "2 + length (vgsm_text_to_bcd (digits smcc))"
  have ls: "length ?S \<le> 16" "length (digits ra) < 32" "length ?R = (length (digits ra) + 1) div 2"
    using assms(1,2) by (auto simp: number_ok_def length_text_to_bcd)
  have nat_u8: "unat (word_of_nat n :: u8) = n" "uint (word_of_nat n :: u8) = int n" if "n < 256" for n
    using that by (simp_all add: unat_of_nat uint_nat)
  have "length ?S + 1 < 256" "length (digits ra) < 256" using ls by linarith+
  note u = nat_u8(1) [OF this(1)] nat_u8(2) [OF this(1)] nat_u8(1) [OF this(2)] nat_u8(2) [OF this(2)]
  have q: "drop 2 p = ?S @ [fo, mr, word_of_nat (length (digits ra)), type_of_address ra] @ ?R @ ?tail"
    "p ! 0 = word_of_nat (length ?S + 1)" "p ! 1 = type_of_address smcc" "length p = 6 + length ?S + length ?R + length ?tail"
    by (simp_all add: assms(3) report_pdu_def)
  have "drop ?pos p = drop (length ?S) (drop 2 p)" by (simp add: add.commute)
  then have q2: "drop ?pos p = [fo, mr, word_of_nat (length (digits ra)), type_of_address ra] @ ?R @ ?tail"
    unfolding q(1) by simp
  have "drop (?pos + 4) p = drop 4 (drop ?pos p)" by (simp add: add.commute)
  then have q3: "drop (?pos + 4) p = ?R @ ?tail" unfolding q2 by simp
  have n: "toa_ton (type_of_address smcc) = ton smcc" "toa_np (type_of_address smcc) = np smcc"
    "toa_ton (type_of_address ra) = ton ra" "toa_np (type_of_address ra) = np ra"
    using assms(1,2) toa_fields by (auto simp: number_ok_def)
  have s: "vgsm_bcd_to_text (drop 2 p) ((int (length ?S + 1) - 1) * 2) 32 = Inr (Some (digits smcc))"
    unfolding q(1) using assms(1) by (intro number_read) (auto simp: number_ok_def)
  have o: "vgsm_bcd_to_text (drop (?pos + 4) p) (int (length (digits ra))) 32 = Inr (Some (digits ra))"
    unfolding q3 using assms(2) by (intro number_read) (auto simp: number_ok_def)
  have r: "rd p 0 = Inr (word_of_nat (length ?S + 1))" "rd p 1 = Inr (type_of_address smcc)"
    using q(2-4) by (simp_all add: rd_def)
  have r2: "rd p ?pos = Inr fo" "rd p (?pos + 1) = Inr mr" "rd p (?pos + 2) = Inr (word_of_nat (length (digits ra)))"
    "rd p (?pos + 3) = Inr (type_of_address ra)"
    using rd_at [OF q2, of 0] rd_at [OF q2, of 1] rd_at [OF q2, of 2] rd_at [OF q2, of 3] by simp_all
  have pos: "1 + unat (word_of_nat (length ?S + 1) :: u8) = ?pos" using u(1) by simp
  have g: "\<not> int (length p) - 1 < int (length ?S + 1)" "\<not> 31 < int (length ?S + 1)" using ls q(4) by simp_all
  have e: "\<lparr>digits = digits n, np = np n, ton = ton n\<rparr> = n" for n by simp
  have "vgsm_sms_status_report_init_from_pdu mktime (to_hex p) =
    report_tail mktime p (?pos + 4 + (length (digits ra) + 1) div 2) (report_head smcc fo mr ra)"
    unfolding vgsm_sms_status_report_init_from_pdu_def hex_to_octets_inverse Let_def r bind_res_simps u(2) pos r2 s
      u(3,4) n o option.case report_head_def e
    using g by simp
  moreover have "drop (?pos + 4 + (length (digits ra) + 1) div 2) p = drop (length ?R) (drop (?pos + 4) p)"
    unfolding drop_drop ls(3) by (simp add: add.commute)
  then have "drop (?pos + 4 + (length (digits ra) + 1) div 2) p = ?tail" unfolding q3 by simp
  ultimately show ?thesis by blast
qed

lemma report_time_read:
  assumes "drop pos p = ts @ r" "length ts = 7" "mktime (ts_fields ts) \<noteq> -1"
  shows "report_time mktime p pos = Inr (Some (mktime (ts_fields ts) - ts_zone ts, ts_zone ts))"
proof -
  have rt: "rd p (pos + i) = Inr (ts ! i)" if "i < 7" for i
    using rd_at [OF assms(1), of i] assms(2) that by (simp add: nth_append)
  have t: "rd p pos = Inr (ts ! 0)" "rd p (pos + 1) = Inr (ts ! 1)" "rd p (pos + 2) = Inr (ts ! 2)" "rd p (pos + 3) = Inr (ts ! 3)"
    "rd p (pos + 4) = Inr (ts ! 4)" "rd p (pos + 5) = Inr (ts ! 5)" "rd p (pos + 6) = Inr (ts ! 6)"
    using rt [of 0] rt [of 1] rt [of 2] rt [of 3] rt [of 4] rt [of 5] rt [of 6] by simp_all
  show ?thesis using assms(3)
    unfolding report_time_def rd_dec_def t bind_res_simps ts_fields_def ts_zone_def Let_def by simp
qed

text \<open>What follows the status: nothing, or a text in the default alphabet behind all three optional fields.\<close>

definition report_rest :: "int list option \<Rightarrow> u8 \<Rightarrow> octets \<Rightarrow> octets" where
  "report_rest t pid ud = (case t of None \<Rightarrow> [] | Some ws \<Rightarrow> [7, pid, 0, word_of_nat (length ws)] @ ud)"

definition report_rest_ok :: "int list option \<Rightarrow> octets \<Rightarrow> bool" where
  "report_rest_ok t ud = (case t of None \<Rightarrow> True | Some ws \<Rightarrow>
     basic_text ws \<and> length ws < 256 \<and> packed ud 0 (gsm_septets ws) \<and> 7 * length ws \<le> 8 * length ud)"

lemma report_optional_read:
  assumes "drop pos p = [st] @ report_rest t pid ud" "report_rest_ok t ud" "rep_text sms = None"
  shows "\<exists>pi cg c mc al. report_optional p pos sms = Inr (Some (sms\<lparr>rep_status := st, rep_parameter_indicator := pi,
    rep_coding_group := cg, rep_compressed := c, rep_message_class := mc, rep_alphabet := al, rep_text := t\<rparr>))"
proof -
  have st: "rd p pos = Inr st" using rd_at [OF assms(1), of 0] by simp
  have "length p - pos = length ([st] @ report_rest t pid ud)" by (metis assms(1) length_drop)
  then have l: "length p = pos + 1 + length (report_rest t pid ud)" by simp
  show ?thesis
  proof (cases t)
    case None
    then have l1: "length p = pos + 1" using l by (simp add: report_rest_def)
    have "report_optional p pos sms = Inr (Some (sms\<lparr>rep_status := st, rep_parameter_indicator := rep_parameter_indicator sms,
      rep_coding_group := rep_coding_group sms, rep_compressed := rep_compressed sms, rep_message_class := rep_message_class sms,
      rep_alphabet := rep_alphabet sms, rep_text := t\<rparr>))"
      unfolding report_optional_def st bind_res_simps Let_def l1 using assms(3) None by simp
    then show ?thesis by (intro exI)
  next
    case (Some ws)
    have d: "drop pos p = [st, 7, pid, 0, word_of_nat (length ws)] @ ud" using assms(1) Some by (simp add: report_rest_def)
    have r: "rd p (pos + 1) = Inr 7" "rd p (pos + 3) = Inr 0" "rd p (pos + 4) = Inr (word_of_nat (length ws))"
      using rd_at [OF d, of 1] rd_at [OF d, of 3] rd_at [OF d, of 4] by simp_all
    have a: "basic_text ws" "length ws < 256" "packed ud 0 (gsm_septets ws)" "7 * length ws \<le> 8 * length ud"
      using assms(2) Some by (simp_all add: report_rest_ok_def)
    have u: "uint (word_of_nat (length ws) :: u8) = int (length ws)" using a(2) by (simp add: uint_nat unat_of_nat)
    have "drop (pos + 5) p = drop 5 (drop pos p)" by (simp add: add.commute)
    then have ud: "drop (pos + 5) p = ud" unfolding d by simp
    have "septets_loop ud 0 0 (length ws) = Inr ws"
      using septets_loop_packed [of ud 0 0 "gsm_septets ws"] a gsm_septets_7bit basic_length [OF a(1)] basic_septets [OF a(1)] by simp
    then have w: "vgsm_7bit_to_wc ud (int (length ws)) 0 (int (length ws) + 1) = Inr ws" by (simp add: vgsm_7bit_to_wc_def)
    have l5: "\<not> length p < pos + 1" "pos + 1 \<noteq> length p" using l Some by (simp_all add: report_rest_def)
    have b: "bit (7 :: u8) 0" "bit (7 :: u8) 1" "bit (7 :: u8) 2" by code_simp+
    have "report_optional p pos sms = Inr (Some (sms\<lparr>rep_status := st, rep_parameter_indicator := 7,
      rep_coding_group := 0, rep_compressed := False, rep_message_class := -1, rep_alphabet := 0, rep_text := Some ws\<rparr>))"
      unfolding report_optional_def st bind_res_simps Let_def r using l5 b
      by (simp add: report_text_def report_septets_def u ud w)
    then show ?thesis unfolding Some by (intro exI)
  qed
qed

text \<open>
  A status report is decoded to the addresses, the reference, the times and the status it carries, and to its text when it has one that
  is in the default alphabet, each character with a septet of its own, behind all three optional fields. The zone of a time is what the
  code makes of its octet, \<open>ts_zone\<close>: with the sign read from bit 7 where it is bit 3, and in seconds, not in quarters of
  an hour. Of the first octet the code reads bit 2, which says whether more messages are waiting, as the presence of a
  user data header, and bits 3 and 4, which are reserved or of the transport, as the other two.
\<close>

theorem report_delivered:
  assumes "number_ok smcc" "number_ok ra" "length ts = 7" "mktime (ts_fields ts) \<noteq> -1" "length dt = 7"
    "mktime (ts_fields dt) \<noteq> -1" "report_rest_ok t ud"
  shows "\<exists>rep. vgsm_sms_status_report_init_from_pdu mktime (to_hex (report_pdu smcc fo mr ra ts dt st (report_rest t pid ud))) = Inr (Some rep) \<and>
     rep_smcc_address rep = smcc \<and> rep_recipient_address rep = ra \<and> rep_message_reference rep = mr \<and> rep_status rep = st \<and>
     rep_smcc_timestamp rep = mktime (ts_fields ts) - ts_zone ts \<and> rep_discharge_time rep = mktime (ts_fields dt) - ts_zone dt \<and>
     rep_text rep = t \<and> rep_user_data_header_indicator rep = bit fo 2 \<and> rep_more_messages_to_send rep = bit fo 3 \<and>
     rep_status_report_qualifier rep = bit fo 4"
proof -
  let ?p = "report_pdu smcc fo mr ra ts dt st (report_rest t pid ud)"
  obtain pos where p: "drop pos ?p = ts @ dt @ [st] @ report_rest t pid ud"
    "vgsm_sms_status_report_init_from_pdu mktime (to_hex ?p) = report_tail mktime ?p pos (report_head smcc fo mr ra)"
    using report_read [OF assms(1,2) refl] by blast
  have "drop (pos + 7) ?p = drop 7 (drop pos ?p)" by (simp add: add.commute)
  then have p2: "drop (pos + 7) ?p = dt @ [st] @ report_rest t pid ud" unfolding p(1) using assms(3) by simp
  have "drop (pos + 14) ?p = drop 7 (drop (pos + 7) ?p)" by (simp add: add.commute)
  then have p3: "drop (pos + 14) ?p = [st] @ report_rest t pid ud" unfolding p2 using assms(5) by simp
  let ?h = "report_head smcc fo mr ra\<lparr>rep_smcc_timestamp := mktime (ts_fields ts) - ts_zone ts, rep_smcc_timestamp_tz := ts_zone ts,
     rep_discharge_time := mktime (ts_fields dt) - ts_zone dt, rep_discharge_time_tz := ts_zone dt\<rparr>"
  have "report_tail mktime ?p pos (report_head smcc fo mr ra) = report_optional ?p (pos + 14) ?h"
    unfolding report_tail_def report_time_read [of pos ?p ts _ mktime, OF p(1) assms(3,4)]
      report_time_read [of "pos + 7" ?p dt _ mktime, OF p2 assms(5,6)] by simp
  moreover have "rep_text ?h = None" by (simp add: report_head_def report_first_octet_def)
  ultimately obtain pi cg c mc al where
    "vgsm_sms_status_report_init_from_pdu mktime (to_hex ?p) = Inr (Some (?h\<lparr>rep_status := st, rep_parameter_indicator := pi,
      rep_coding_group := cg, rep_compressed := c, rep_message_class := mc, rep_alphabet := al, rep_text := t\<rparr>))"
    using report_optional_read [OF p3 assms(7), of ?h] p(2) by metis
  then show ?thesis by (simp add: report_head_def report_first_octet_def)
qed


section \<open>Witnesses and examples\<close>

lemma packed_exists:
  assumes "basic_text ws" "length ws < 160"
  shows "\<exists>ud. length ud = vgsm_septets_to_octets (length ws) \<and> packed ud 0 (gsm_septets ws)"
proof -
  obtain out :: octets where o: "length out = 141" "packed out 0 (gsm_septets ws)"
    using user_data_packed [of ws 0 "[]" 141] assms by auto
  have "vgsm_septets_to_octets (length ws) \<le> 141" using assms(2) unfolding vgsm_septets_to_octets_def by presburger
  moreover have "packed (take (vgsm_septets_to_octets (length ws)) out) 0 (gsm_septets ws)"
    using packed_take [OF o(2), of "vgsm_septets_to_octets (length ws)"] septets_fit [of "length ws"] basic_length [OF assms(1)] by simp
  ultimately show ?thesis using o(1) by (intro exI [of _ "take (vgsm_septets_to_octets (length ws)) out"]) simp
qed

theorem broadcast_in_bounds_witness: "\<exists>r. vgsm_decode_cbm_pdu (to_hex (replicate 88 0xff)) = Inr r"
  by (rule broadcast_in_bounds) simp

theorem ucs2_broadcast_lost_witness:
  "\<exists>cbm. vgsm_decode_cbm_pdu (to_hex ([0, 1, 0, 50, 0x48, 0x11] @ replicate 82 0x41)) = Inr (Some cbm) \<and> cbm_text cbm = Unwritten 42"
proof -
  have "drop_bit 4 (0x48 :: u8) \<in> {4, 5, 6, 7}" "\<not> bit (0x48 :: u8) 5" "drop_bit 2 (0x48 :: u8) AND 3 = 2" by code_simp+
  then show ?thesis using ucs2_broadcast_lost [of "[0, 1, 0, 50, 0x48, 0x11] @ replicate 82 0x41"] by auto
qed

theorem broadcast_delivered_witness:
  "\<exists>ud cbm cbm'. vgsm_decode_cbm_pdu (to_hex ([0x40, 0x51, 0, 50, 1, 0x12] @ ud)) = Inr (Some cbm) \<and>
     cbm_text cbm = Written (replicate 92 0x48 @ [0xE8]) \<and> cbm_page cbm = 1 \<and> cbm_pages cbm = 2 \<and> cbm_language cbm = 1 \<and>
     cbm_geoscope cbm = 1 \<and> cbm_message_code cbm = 0x114 \<and> cbm_update_number cbm = 0 \<and>
     vgsm_decode_cbm_pdu (to_hex ([0x40, 0x51, 0, 50, 0xF1, 0x12] @ ud)) = Inr (Some cbm') \<and>
     cbm_text cbm' = Written (replicate 82 0x48) \<and> cbm_message_class cbm' = 1"
proof -
  let ?ws = "replicate 92 0x48 @ [0xE8 :: int]"
  have b: "basic_text ?ws" by code_simp
  then obtain ud where u: "length ud = 82" "packed ud 0 (gsm_septets ?ws)"
    using packed_exists [of ?ws] by (auto simp: vgsm_septets_to_octets_def)
  have d: "cbm_default_dcs 1" "cbm_default_dcs 0xF1" "(0x12 :: u8) = push_bit 4 1 OR 2" "drop_bit 4 (1 :: u8) = 0 \<and> (1 :: u8) AND 0xf = 1"
    "drop_bit 4 (0xF1 :: u8) = 0xf" "cbm_class 0xF1 = 1" by code_simp+
  note p = broadcast_delivered [OF b _ u _ d(3), where ?s0.0 = "0x40" and ?s1.0 = "0x51" and ?m0.0 = 0 and ?m1.0 = 50]
  obtain cbm where "vgsm_decode_cbm_pdu (to_hex ([0x40, 0x51, 0, 50, 1, 0x12] @ ud)) = Inr (Some cbm)"
     "cbm_text cbm = Written (replicate 92 0x48 @ [0xE8])" "cbm_page cbm = 1" "cbm_pages cbm = 2" "cbm_language cbm = 1"
     "cbm_geoscope cbm = 1" "cbm_message_code cbm = 0x114" "cbm_update_number cbm = 0"
    using p [OF _ d(1)] d(4) by auto
  moreover obtain cbm' where "vgsm_decode_cbm_pdu (to_hex ([0x40, 0x51, 0, 50, 0xF1, 0x12] @ ud)) = Inr (Some cbm')"
     "cbm_text cbm' = Written (replicate 82 0x48)" "cbm_message_class cbm' = 1"
    using p [OF _ d(2)] d(5,6) by auto
  ultimately show ?thesis by blast
qed

theorem report_delivered_witness:
  "\<exists>ud rep. vgsm_sms_status_report_init_from_pdu (\<lambda>_. 100)
     (to_hex (report_pdu example_number 6 9 example_number [1, 2, 3, 4, 5, 6, 7] [1, 2, 3, 4, 5, 7, 7] 0 (report_rest (Some [0x48, 0x40]) 0 ud))) = Inr (Some rep) \<and>
     rep_text rep = Some [0x48, 0x40] \<and> rep_message_reference rep = 9 \<and> rep_user_data_header_indicator rep"
proof -
  have b: "basic_text [0x48, 0x40]" by code_simp
  then obtain ud where "length ud = vgsm_septets_to_octets 2" "packed ud 0 (gsm_septets [0x48, 0x40])"
    using packed_exists [of "[0x48, 0x40]"] by (auto simp: numeral_2_eq_2)
  then have "length ud = 2" "packed ud 0 (gsm_septets [0x48, 0x40])" by (simp_all add: vgsm_septets_to_octets_def)
  then have r: "report_rest_ok (Some [0x48, 0x40]) ud" using b by (simp add: report_rest_ok_def)
  have n: "number_ok example_number" "bit (6 :: u8) 2" by code_simp+
  show ?thesis
    using report_delivered [OF n(1) n(1) _ _ _ _ r, of "[1, 2, 3, 4, 5, 6, 7]" "\<lambda>_. 100" "[1, 2, 3, 4, 5, 7, 7]" 6 9 0 0] n(2) by auto
qed

text \<open>The scope of a broadcast, in the first two bits of its serial number, is read from the second octet.\<close>

lemma broadcast_serial_exchanged:
  "(case vgsm_decode_cbm_pdu (to_hex ([0xC0, 0x10, 0, 50, 0xF4, 0x11] @ replicate 82 0)) of
      Inr (Some cbm) \<Rightarrow> cbm_geoscope cbm = 0 \<and> cbm_message_code cbm = 0x10C \<and> cbm_update_number cbm = 0 | _ \<Rightarrow> False)"
proof -
  let ?p = "[0xC0, 0x10, 0, 50, 0xF4, 0x11] @ replicate 82 (0 :: u8)"
  have "drop_bit 4 (0xF4 :: u8) = 0xf \<and> bit (0xF4 :: u8) 2" by code_simp
  then have "cbm_content ?p 0xF4 6 c = Inr (Some (c\<lparr>cbm_message_class := uint (0xF4 AND 3 :: u8)\<rparr>))" for c
    unfolding cbm_content_def Let_def by simp
  moreover have "vgsm_decode_cbm_pdu (to_hex ?p) = cbm_content ?p 0xF4 6 (cbm_head ?p)" using decode_cbm [of ?p] by simp
  ultimately show ?thesis by (simp add: cbm_head_def cbm_page_parameter_def Let_def cbm_serial_def)
qed

text \<open>
  A report that ends before its status is read beyond its end, and one whose optional fields are a coding scheme
  and a length without a protocol identifier is left without its text.
\<close>

lemma truncated_report_overrun:
  "vgsm_sms_status_report_init_from_pdu (\<lambda>_. 0)
     (to_hex (take 20 (report_pdu example_number 6 9 example_number [1, 2, 3, 4, 5, 6, 7] [1, 2, 3, 4, 5, 7, 7] 0 []))) = Inl OutOfBounds"
  by code_simp

lemma report_text_skipped:
  "(case vgsm_sms_status_report_init_from_pdu (\<lambda>_. 0)
     (to_hex (report_pdu example_number 6 9 example_number [1, 2, 3, 4, 5, 6, 7] [1, 2, 3, 4, 5, 7, 7] 0 [6, 0, 1, 0x41])) of
      Inr (Some rep) \<Rightarrow> rep_text rep = None \<and> rep_parameter_indicator rep = 6 | _ \<Rightarrow> False)"
  by code_simp

end
