(* ===== verification/Lapd_Proto.thy ===== *)
theory Lapd_Proto
  imports Lapd_Prelude
begin

unbundle bit_operations_syntax

text \<open>
  The wire format of modules/lapd/proto.h: command/response bit, frame types, supervisory and
  unnumbered functions, control octets, the bit-field structures of the address and control
  fields, read from and written to the octets of a frame.
\<close>

section \<open>Enumerations\<close>

datatype lapd_intf_role = LAPD_INTF_ROLE_TE | LAPD_INTF_ROLE_NT

datatype lapd_cr = LAPD_COMMAND | LAPD_RESPONSE

datatype lapd_frame_type_e =
    LAPD_FRAME_TYPE_IFRAME
  | LAPD_FRAME_TYPE_SFRAME
  | LAPD_FRAME_TYPE_UFRAME

datatype lapd_sframe_function_e =
    LAPD_SFRAME_FUNC_INVALID
  | LAPD_SFRAME_FUNC_RR
  | LAPD_SFRAME_FUNC_RNR
  | LAPD_SFRAME_FUNC_REJ

datatype lapd_uframe_function_e =
    LAPD_UFRAME_FUNC_INVALID
  | LAPD_UFRAME_FUNC_SABME
  | LAPD_UFRAME_FUNC_DM
  | LAPD_UFRAME_FUNC_UI
  | LAPD_UFRAME_FUNC_DISC
  | LAPD_UFRAME_FUNC_UA
  | LAPD_UFRAME_FUNC_FRMR
  | LAPD_UFRAME_FUNC_XID

text \<open>The values of the enumerators, as the octet they become when or-ed into a control field.\<close>

fun sframe_code :: "lapd_sframe_function_e \<Rightarrow> u8" where
  "sframe_code LAPD_SFRAME_FUNC_INVALID = 0xFF"
| "sframe_code LAPD_SFRAME_FUNC_RR = 0x00"
| "sframe_code LAPD_SFRAME_FUNC_RNR = 0x04"
| "sframe_code LAPD_SFRAME_FUNC_REJ = 0x08"

fun uframe_code :: "lapd_uframe_function_e \<Rightarrow> u8" where
  "uframe_code LAPD_UFRAME_FUNC_INVALID = 0xFF"
| "uframe_code LAPD_UFRAME_FUNC_SABME = 0x6C"
| "uframe_code LAPD_UFRAME_FUNC_DM = 0x0C"
| "uframe_code LAPD_UFRAME_FUNC_UI = 0x00"
| "uframe_code LAPD_UFRAME_FUNC_DISC = 0x40"
| "uframe_code LAPD_UFRAME_FUNC_UA = 0x60"
| "uframe_code LAPD_UFRAME_FUNC_FRMR = 0x84"
| "uframe_code LAPD_UFRAME_FUNC_XID = 0xAC"

definition LAPD_UFRAME_FUNCTIONS_MASK :: u8 where
  "LAPD_UFRAME_FUNCTIONS_MASK = 0xEC"

definition LAPD_SFRAME_FUNCTIONS_MASK :: u8 where
  "LAPD_SFRAME_FUNCTIONS_MASK = 0xFE"

section \<open>Command and response\<close>

definition lapd_rx_is_command :: "lapd_intf_role \<Rightarrow> bool \<Rightarrow> bool" where
  "lapd_rx_is_command role c_r \<longleftrightarrow> (role = LAPD_INTF_ROLE_TE) \<noteq> (\<not> c_r)"

definition lapd_rx_is_response :: "lapd_intf_role \<Rightarrow> bool \<Rightarrow> bool" where
  "lapd_rx_is_response role c_r \<longleftrightarrow> (role = LAPD_INTF_ROLE_TE) = (\<not> c_r)"

definition lapd_make_cr :: "lapd_intf_role \<Rightarrow> lapd_cr \<Rightarrow> bool" where
  "lapd_make_cr role c_r \<longleftrightarrow> (role = LAPD_INTF_ROLE_TE) = (\<not> (c_r = LAPD_COMMAND))"

section \<open>Control octets\<close>

definition lapd_frame_type :: "u8 \<Rightarrow> lapd_frame_type_e" where
  "lapd_frame_type control =
     (if control AND 0x01 = 0 then LAPD_FRAME_TYPE_IFRAME
      else if control AND 0x02 = 0 then LAPD_FRAME_TYPE_SFRAME
      else LAPD_FRAME_TYPE_UFRAME)"

definition lapd_uframe_function :: "u8 \<Rightarrow> lapd_uframe_function_e" where
  "lapd_uframe_function control =
     (let f = control AND LAPD_UFRAME_FUNCTIONS_MASK in
      if f = 0x6C then LAPD_UFRAME_FUNC_SABME
      else if f = 0x0C then LAPD_UFRAME_FUNC_DM
      else if f = 0x00 then LAPD_UFRAME_FUNC_UI
      else if f = 0x40 then LAPD_UFRAME_FUNC_DISC
      else if f = 0x60 then LAPD_UFRAME_FUNC_UA
      else if f = 0x84 then LAPD_UFRAME_FUNC_FRMR
      else if f = 0xAC then LAPD_UFRAME_FUNC_XID
      else LAPD_UFRAME_FUNC_INVALID)"

definition lapd_sframe_function :: "u8 \<Rightarrow> lapd_sframe_function_e" where
  "lapd_sframe_function control =
     (let f = control AND LAPD_SFRAME_FUNCTIONS_MASK in
      if f = 0x00 then LAPD_SFRAME_FUNC_RR
      else if f = 0x04 then LAPD_SFRAME_FUNC_RNR
      else if f = 0x08 then LAPD_SFRAME_FUNC_REJ
      else LAPD_SFRAME_FUNC_INVALID)"

definition lapd_uframe_make_control :: "lapd_uframe_function_e \<Rightarrow> bool \<Rightarrow> u8" where
  "lapd_uframe_make_control func p_f = 0x03 OR uframe_code func OR (if p_f then 0x10 else 0)"

definition lapd_sframe_make_control :: "lapd_sframe_function_e \<Rightarrow> u8" where
  "lapd_sframe_make_control func = 0x01 OR sframe_code func"

definition lapd_sframe_make_control2 :: "u8 \<Rightarrow> bool \<Rightarrow> u8" where
  "lapd_sframe_make_control2 n_r p_f = push_bit 1 n_r OR (if p_f then 1 else 0)"

section \<open>Header bit fields\<close>

text \<open>
  A frame is the list of its octets. The accessors read the members of
  \<open>struct lapd_address\<close>, \<open>lapd_data_hdr\<close> and \<open>lapd_data_hdr_e\<close>: octets 0 and 1 are the address,
  octet 2 the control field, octet 3 the second control octet of I and S frames.
\<close>

definition addr_sapi :: "octets \<Rightarrow> u8" where "addr_sapi d = drop_bit 2 (d ! 0)"
definition addr_c_r :: "octets \<Rightarrow> bool" where "addr_c_r d = bit (d ! 0) 1"
definition addr_ea1 :: "octets \<Rightarrow> bool" where "addr_ea1 d = bit (d ! 0) 0"
definition addr_tei :: "octets \<Rightarrow> u8" where "addr_tei d = hi7 (d ! 1)"
definition addr_ea2 :: "octets \<Rightarrow> bool" where "addr_ea2 d = bit (d ! 1) 0"
definition hdr_control :: "octets \<Rightarrow> u8" where "hdr_control d = d ! 2"
definition u_p_f :: "octets \<Rightarrow> bool" where "u_p_f d = bit (d ! 2) 4"
definition i_n_s :: "octets \<Rightarrow> u8" where "i_n_s d = hi7 (d ! 2)"
definition i_p :: "octets \<Rightarrow> bool" where "i_p d = bit (d ! 3) 0"
definition i_n_r :: "octets \<Rightarrow> u8" where "i_n_r d = hi7 (d ! 3)"
definition s_p_f :: "octets \<Rightarrow> bool" where "s_p_f d = bit (d ! 3) 0"
definition s_n_r :: "octets \<Rightarrow> u8" where "s_n_r d = hi7 (d ! 3)"

text \<open>Assignments to \<open>hdr->i.n_s\<close> and \<open>hdr->i.n_r\<close>: the other bits of the octet stay.\<close>

definition set_i_n_s :: "u8 \<Rightarrow> octets \<Rightarrow> octets" where
  "set_i_n_s v d = d[2 := field7 v (bit (d ! 2) 0)]"

definition set_i_n_r :: "u8 \<Rightarrow> octets \<Rightarrow> octets" where
  "set_i_n_r v d = d[3 := field7 v (bit (d ! 3) 0)]"

text \<open>The two address octets with \<open>ea1 = 0\<close> and \<open>ea2 = 1\<close>, as every sender writes them.\<close>

definition make_address0 :: "u8 \<Rightarrow> bool \<Rightarrow> u8" where
  "make_address0 sapi c_r = push_bit 2 sapi OR (if c_r then 2 else 0)"

definition make_address :: "u8 \<Rightarrow> bool \<Rightarrow> u8 \<Rightarrow> octets" where
  "make_address sapi c_r tei = [make_address0 sapi c_r, field7 tei True]"

section \<open>Field lemmas\<close>

lemma sframe_make_control2_field7: "lapd_sframe_make_control2 n_r p_f = field7 n_r p_f"
  by (simp add: lapd_sframe_make_control2_def field7_def)

lemma bit_address0:
  "bit (make_address0 sapi c_r) n \<longleftrightarrow>
     (if n = 0 then False else if n = 1 then c_r else n < 8 \<and> bit (sapi :: u8) (n - 2))"
proof -
  have "bit (push_bit 2 sapi) n \<longleftrightarrow> 2 \<le> n \<and> n < 8 \<and> bit sapi (n - 2)"
    by (simp only: bit_push_bit_iff) auto
  moreover have "bit (2 :: u8) n \<longleftrightarrow> n = 1"
    using bit_exp_iff [where 'a = u8, of 1 n] by auto
  ultimately show ?thesis
    by (auto simp: make_address0_def bit_or_iff)
qed

lemma address0_sapi: "sapi < 64 \<Longrightarrow> drop_bit 2 (make_address0 sapi c_r) = (sapi :: u8)"
proof (rule bit_word_eqI)
  fix n assume s: "sapi < 64" and "n < LENGTH(8)"
  have "take_bit 6 sapi = sapi"
    using s by (simp add: less_mask_eq take_bit_eq_mask)
  then have h: "bit sapi n \<longleftrightarrow> n < 6 \<and> bit sapi n"
    by (metis bit_take_bit_iff)
  show "bit (drop_bit 2 (make_address0 sapi c_r)) n = bit sapi n"
    unfolding bit_drop_bit_eq comp_def bit_address0 using h by auto
qed

lemma address_fields [octet_simps]:
  "sapi < 64 \<Longrightarrow> addr_sapi (make_address sapi c_r tei @ d) = sapi"
  "addr_c_r (make_address sapi c_r tei @ d) = c_r"
  "\<not> addr_ea1 (make_address sapi c_r tei @ d)"
  "tei < 128 \<Longrightarrow> addr_tei (make_address sapi c_r tei @ d) = tei"
  "addr_ea2 (make_address sapi c_r tei @ d)"
  by (simp_all add: make_address_def addr_sapi_def addr_c_r_def addr_ea1_def addr_tei_def
      addr_ea2_def octet_simps address0_sapi bit_address0)

lemma make_address_length [simp]: "length (make_address sapi c_r tei) = 2"
  by (simp add: make_address_def)

lemma set_i_length [simp]: "length (set_i_n_s v d) = length d" "length (set_i_n_r v d) = length d"
  by (simp_all add: set_i_n_s_def set_i_n_r_def)

lemma set_i_fields [octet_simps]:
  "4 \<le> length d \<Longrightarrow> v < 128 \<Longrightarrow> i_n_s (set_i_n_s v d) = v"
  "4 \<le> length d \<Longrightarrow> v < 128 \<Longrightarrow> i_n_r (set_i_n_r v d) = v"
  "i_n_s (set_i_n_r w d) = i_n_s d"
  "i_n_r (set_i_n_s w d) = i_n_r d"
  "i_p (set_i_n_s w d) = i_p d"
  "4 \<le> length d \<Longrightarrow> i_p (set_i_n_r w d) = i_p d"
  "addr_sapi (set_i_n_s w d) = addr_sapi d" "addr_sapi (set_i_n_r w d) = addr_sapi d"
  "addr_tei (set_i_n_s w d) = addr_tei d" "addr_tei (set_i_n_r w d) = addr_tei d"
  "addr_c_r (set_i_n_s w d) = addr_c_r d" "addr_c_r (set_i_n_r w d) = addr_c_r d"
  "drop 4 (set_i_n_s w d) = drop 4 d" "drop 4 (set_i_n_r w d) = drop 4 d"
  by (auto simp: i_n_s_def i_n_r_def i_p_def set_i_n_s_def set_i_n_r_def octet_simps
      addr_sapi_def addr_tei_def addr_c_r_def)

lemma i_n_s_lt [simp]: "i_n_s d < 128" "i_n_r d < 128" "s_n_r d < 128"
  by (simp_all add: i_n_s_def i_n_r_def s_n_r_def)

lemma s_n_r_eq_i_n_r: "s_n_r d = i_n_r d"
  by (simp add: s_n_r_def i_n_r_def)

section \<open>Codecs\<close>

lemma uframe_make_control_fields:
  "func \<noteq> LAPD_UFRAME_FUNC_INVALID \<Longrightarrow> lapd_uframe_function (lapd_uframe_make_control func p_f) = func"
  "lapd_frame_type (lapd_uframe_make_control func p_f) = LAPD_FRAME_TYPE_UFRAME"
  "func \<noteq> LAPD_UFRAME_FUNC_INVALID \<Longrightarrow> bit (lapd_uframe_make_control func p_f) 4 = p_f"
  by (cases func; cases p_f; simp add: lapd_uframe_function_def lapd_uframe_make_control_def
      LAPD_UFRAME_FUNCTIONS_MASK_def lapd_frame_type_def Let_def)+

lemma sframe_make_control_fields:
  "func \<noteq> LAPD_SFRAME_FUNC_INVALID \<Longrightarrow> lapd_sframe_function (lapd_sframe_make_control func) = func"
  "func \<noteq> LAPD_SFRAME_FUNC_INVALID \<Longrightarrow>
     lapd_frame_type (lapd_sframe_make_control func) = LAPD_FRAME_TYPE_SFRAME"
  by (cases func; simp add: lapd_sframe_function_def lapd_sframe_make_control_def
      LAPD_SFRAME_FUNCTIONS_MASK_def lapd_frame_type_def Let_def)+

interpretation uframe_control: codec
  "\<lambda>(func, p_f). lapd_uframe_make_control func p_f"
  "\<lambda>c. (lapd_uframe_function c, bit c 4)"
  "\<lambda>(func, p_f). func \<noteq> LAPD_UFRAME_FUNC_INVALID"
  by unfold_locales (auto simp: uframe_make_control_fields)

interpretation sframe_control: codec
  "\<lambda>(func, n_r, p_f). [lapd_sframe_make_control func, lapd_sframe_make_control2 n_r p_f]"
  "\<lambda>d. (lapd_sframe_function (d ! 0), hi7 (d ! 1), bit (d ! 1) 0)"
  "\<lambda>(func, n_r, p_f). func \<noteq> LAPD_SFRAME_FUNC_INVALID \<and> n_r < 128"
  by unfold_locales (auto simp: sframe_make_control_fields sframe_make_control2_field7 octet_simps)

interpretation address: codec
  "\<lambda>(sapi, c_r, tei). make_address sapi c_r tei"
  "\<lambda>d. (addr_sapi d, addr_c_r d, addr_tei d)"
  "\<lambda>(sapi, c_r, tei). sapi < 64 \<and> tei < 128"
  using address_fields [where d = "[]"] by unfold_locales auto

fun peer_role :: "lapd_intf_role \<Rightarrow> lapd_intf_role" where
  "peer_role LAPD_INTF_ROLE_TE = LAPD_INTF_ROLE_NT"
| "peer_role LAPD_INTF_ROLE_NT = LAPD_INTF_ROLE_TE"

lemma rx_cr_of_make_cr:
  "lapd_rx_is_command (peer_role role) (lapd_make_cr role cr) \<longleftrightarrow> cr = LAPD_COMMAND"
  "lapd_rx_is_response (peer_role role) (lapd_make_cr role cr) \<longleftrightarrow> cr = LAPD_RESPONSE"
  by (cases role; cases cr; simp add: lapd_rx_is_command_def lapd_rx_is_response_def lapd_make_cr_def)+

lemma rx_response_not_command: "lapd_rx_is_response role c_r \<longleftrightarrow> \<not> lapd_rx_is_command role c_r"
  by (auto simp: lapd_rx_is_command_def lapd_rx_is_response_def)

end
