(* ===== verification/Lapd_Device.thy ===== *)
theory Lapd_Device
  imports Lapd_Proto
begin

text \<open>
  The device side of the module: \<open>struct lapd_device\<close>, the queue of frames that wait for layer 1
  (modules/lapd/output.c), and the layer 1 indications of modules/lapd/input.c that drive it.
\<close>

section \<open>State\<close>

datatype lapd_intf_mode = LAPD_INTF_MODE_POINT_TO_POINT | LAPD_INTF_MODE_MULTIPOINT

datatype lapd_intf_type = LAPD_INTF_TYPE_BRA | LAPD_INTF_TYPE_PRA

datatype lapd_l1_state =
    LAPD_L1_STATE_UNAVAILABLE
  | LAPD_L1_STATE_AVAILABLE
  | LAPD_L1_STATE_ACTIVATING

text \<open>
  What the module passes to \<open>dev_queue_xmit\<close>: a \<open>LAPD_PH_DATA_REQUEST\<close> with the octets behind
  the primitive header, or a primitive with its parameter octet.
\<close>

datatype lapd_primitive_type =
    LAPD_PH_DATA_REQUEST
  | LAPD_PH_DATA_INDICATION
  | LAPD_PH_ACTIVATE_INDICATION
  | LAPD_PH_DEACTIVATE_INDICATION
  | LAPD_PH_ACTIVATE_REQUEST
  | LAPD_MPH_ERROR_INDICATION
  | LAPD_MPH_ACTIVATE_INDICATION
  | LAPD_MPH_DEACTIVATE_INDICATION
  | LAPD_MPH_DEACTIVATE_REQUEST
  | LAPD_MPH_INFORMATION_INDICATION

datatype xmit = Xmit_data octets | Xmit_prim lapd_primitive_type u8

record lapd_device =
  dev_type :: lapd_intf_type
  dev_role :: lapd_intf_role
  dev_mode :: lapd_intf_mode
  l1_state :: lapd_l1_state
  out_queue :: "octets list"
  dev_xmit :: "xmit list"

section \<open>Output\<close>

definition dev_queue_xmit :: "xmit \<Rightarrow> lapd_device \<Rightarrow> lapd_device" where
  "dev_queue_xmit x dev = dev\<lparr>dev_xmit := dev_xmit dev @ [x]\<rparr>"

text \<open>Room for the CRC is appended as two zero octets.\<close>

fun lapd_out_queue_flush_loop :: "octets list \<Rightarrow> lapd_device \<Rightarrow> lapd_device" where
  "lapd_out_queue_flush_loop [] dev = dev\<lparr>out_queue := []\<rparr>"
| "lapd_out_queue_flush_loop (skb # q) dev =
     lapd_out_queue_flush_loop q (dev_queue_xmit (Xmit_data (skb @ [0, 0])) dev)"

definition lapd_out_queue_flush :: "lapd_device \<Rightarrow> lapd_device" where
  "lapd_out_queue_flush dev = lapd_out_queue_flush_loop (out_queue dev) dev"

definition lapd_out_queue_drop :: "lapd_device \<Rightarrow> lapd_device" where
  "lapd_out_queue_drop dev = dev\<lparr>out_queue := []\<rparr>"

definition lapd_send_ph_primitive :: "lapd_primitive_type \<Rightarrow> u8 \<Rightarrow> lapd_device \<Rightarrow> lapd_device" where
  "lapd_send_ph_primitive p param dev = dev_queue_xmit (Xmit_prim p param) dev"

definition lapd_ph_data_request :: "octets \<Rightarrow> lapd_device \<Rightarrow> lapd_device" where
  "lapd_ph_data_request skb dev =
     (case l1_state dev of
        LAPD_L1_STATE_UNAVAILABLE \<Rightarrow>
          let dev1 = dev\<lparr>l1_state := LAPD_L1_STATE_ACTIVATING\<rparr>;
              dev2 = lapd_send_ph_primitive LAPD_PH_ACTIVATE_REQUEST 0 dev1
          in dev2\<lparr>out_queue := out_queue dev2 @ [skb]\<rparr>
      | LAPD_L1_STATE_ACTIVATING \<Rightarrow> dev\<lparr>out_queue := out_queue dev @ [skb]\<rparr>
      | LAPD_L1_STATE_AVAILABLE \<Rightarrow> dev_queue_xmit (Xmit_data (skb @ [0, 0])) dev)"

fun lapd_ph_data_requests :: "octets list \<Rightarrow> lapd_device \<Rightarrow> lapd_device" where
  "lapd_ph_data_requests [] dev = dev"
| "lapd_ph_data_requests (skb # q) dev = lapd_ph_data_requests q (lapd_ph_data_request skb dev)"

section \<open>Layer 1 indications\<close>

definition lapd_ph_activate_indication :: "lapd_device \<Rightarrow> lapd_device" where
  "lapd_ph_activate_indication dev = lapd_out_queue_flush (dev\<lparr>l1_state := LAPD_L1_STATE_AVAILABLE\<rparr>)"

text \<open>
  The device half of \<open>lapd_ph_deactivate_indication\<close>; its loop over the sockets is in
  the theory of the input path.
\<close>

definition lapd_dev_deactivate :: "lapd_device \<Rightarrow> lapd_device" where
  "lapd_dev_deactivate dev = dev\<lparr>l1_state := LAPD_L1_STATE_UNAVAILABLE\<rparr>"

section \<open>Ordering of the output path\<close>

datatype dev_event = Ev_request octets | Ev_activate | Ev_deactivate

fun dev_step :: "dev_event \<Rightarrow> lapd_device \<Rightarrow> lapd_device res" where
  "dev_step (Ev_request skb) dev = Inr (lapd_ph_data_request skb dev)"
| "dev_step Ev_activate dev = Inr (lapd_ph_activate_indication dev)"
| "dev_step Ev_deactivate dev = Inr (lapd_dev_deactivate dev)"

text \<open>The frames already given to the network device, in order, without the CRC room.\<close>

fun xmit_frames :: "xmit list \<Rightarrow> octets list" where
  "xmit_frames [] = []"
| "xmit_frames (Xmit_data d # xs) = take (length d - 2) d # xmit_frames xs"
| "xmit_frames (Xmit_prim p a # xs) = xmit_frames xs"

definition dev_frames :: "lapd_device \<Rightarrow> octets list" where
  "dev_frames dev = xmit_frames (dev_xmit dev) @ out_queue dev"

fun requested :: "dev_event list \<Rightarrow> octets list" where
  "requested [] = []"
| "requested (Ev_request skb # es) = skb # requested es"
| "requested (_ # es) = requested es"

definition dev_inv :: "lapd_device \<Rightarrow> bool" where
  "dev_inv dev \<longleftrightarrow> (l1_state dev = LAPD_L1_STATE_AVAILABLE \<longrightarrow> out_queue dev = [])"

lemma xmit_frames_append [simp]: "xmit_frames (xs @ ys) = xmit_frames xs @ xmit_frames ys"
  by (induction xs rule: xmit_frames.induct) auto

lemma flush_loop_frames:
  "xmit_frames (dev_xmit (lapd_out_queue_flush_loop q dev)) = xmit_frames (dev_xmit dev) @ q"
  "out_queue (lapd_out_queue_flush_loop q dev) = []"
  "l1_state (lapd_out_queue_flush_loop q dev) = l1_state dev"
  by (induction q arbitrary: dev) (auto simp: dev_queue_xmit_def)

lemma dev_step_inv: "dev_inv dev \<Longrightarrow> dev_step e dev = Inr dev' \<Longrightarrow> dev_inv dev'"
  by (cases e)
     (auto simp: dev_inv_def lapd_ph_data_request_def lapd_send_ph_primitive_def dev_queue_xmit_def
        lapd_ph_activate_indication_def lapd_out_queue_flush_def flush_loop_frames
        lapd_dev_deactivate_def Let_def split: lapd_l1_state.splits)

interpretation l1: total_event_machine "\<lambda>_ _. True" dev_step dev_inv
  by unfold_locales (auto intro: dev_step_inv, metis dev_step.elims)

lemma dev_step_frames:
  "dev_inv dev \<Longrightarrow> dev_step e dev = Inr dev' \<Longrightarrow> dev_frames dev' = dev_frames dev @ requested [e]"
  by (cases e)
     (auto simp: dev_inv_def dev_frames_def lapd_ph_data_request_def lapd_send_ph_primitive_def
        dev_queue_xmit_def lapd_ph_activate_indication_def lapd_out_queue_flush_def flush_loop_frames
        lapd_dev_deactivate_def Let_def split: lapd_l1_state.splits)

lemma requested_Cons: "requested (e # es) = requested [e] @ requested es"
  by (cases e) auto

text \<open>
  Whatever layer 1 does, the frames given to the network device followed by the frames still
  waiting are exactly the frames handed over by the data link entities, in the order they were
  handed over: activation flushes the queue in order, and nothing overtakes it. Nothing waits
  once layer 1 is available.
\<close>

theorem out_queue_order:
  assumes "dev_inv dev" "run_events dev_step es dev = Inr dev'"
  shows "dev_frames dev' = dev_frames dev @ requested es \<and>
         (l1_state dev' = LAPD_L1_STATE_AVAILABLE \<longrightarrow> out_queue dev' = [])"
proof -
  have "dev_frames dev' = dev_frames dev @ requested es"
    using assms
  proof (induction es arbitrary: dev)
    case Nil
    then show ?case by simp
  next
    case (Cons e es)
    from Cons.prems(2) obtain d where d: "dev_step e dev = Inr d" "run_events dev_step es d = Inr dev'"
      by (auto simp: bind_res_eq_Inr)
    from Cons.IH [OF dev_step_inv [OF Cons.prems(1) d(1)] d(2)]
    show ?case
      using dev_step_frames [OF Cons.prems(1) d(1)] requested_Cons [of e es] by simp
  qed
  moreover have "dev_inv dev'"
    using l1.run_inv [OF _ assms] by simp
  ultimately show ?thesis by (simp add: dev_inv_def)
qed

definition dev0 :: lapd_device where
  "dev0 = \<lparr>dev_type = LAPD_INTF_TYPE_BRA, dev_role = LAPD_INTF_ROLE_TE,
     dev_mode = LAPD_INTF_MODE_MULTIPOINT, l1_state = LAPD_L1_STATE_UNAVAILABLE,
     out_queue = [], dev_xmit = []\<rparr>"

theorem out_queue_order_witness:
  "\<exists>d. run_events dev_step [Ev_request [1], Ev_request [2], Ev_activate, Ev_request [3]] dev0 = Inr d \<and>
       dev_frames d = [[1], [2], [3]]"
proof -
  let ?es = "[Ev_request [1], Ev_request [2], Ev_activate, Ev_request [3]]"
  have i: "dev_inv dev0" by (simp add: dev_inv_def dev0_def)
  obtain d where d: "run_events dev_step ?es dev0 = Inr d"
    using l1.run_total [OF _ i, of ?es] by auto
  have "dev_frames d = dev_frames dev0 @ requested ?es"
    using out_queue_order [OF i d] by simp
  then show ?thesis using d by (simp add: dev_frames_def dev0_def)
qed

end
