(* ===== verification/Lapd_Sock.thy ===== *)
theory Lapd_Sock
  imports Lapd_Device
begin

unbundle bit_operations_syntax

text \<open>
  \<open>struct lapd_sock\<close> of modules/lapd/lapd.h, the frames a socket prepares (datalink.c, output.c),
  its transmit queue with the cursor \<open>sk_send_head\<close>, and what it hands to the other parties: frames
  for \<open>lapd_ph_data_request\<close>, primitives for the user, requests for TEI management.
\<close>

section \<open>State\<close>

datatype lapd_datalink_state =
    LAPD_DLS_NULL
  | LAPD_DLS_1_TEI_UNASSIGNED
  | LAPD_DLS_2_AWAITING_TEI
  | LAPD_DLS_3_ESTABLISH_AWAITING_TEI
  | LAPD_DLS_4_TEI_ASSIGNED
  | LAPD_DLS_5_AWAITING_ESTABLISH
  | LAPD_DLS_6_AWAITING_RELEASE
  | LAPD_DLS_7_LINK_CONNECTION_ESTABLISHED
  | LAPD_DLS_8_TIMER_RECOVERY
  | LAPD_DLS_LISTENING

datatype lapd_sk_state =
    LAPD_SK_STATE_NULL
  | LAPD_SK_STATE_LISTEN
  | LAPD_SK_STATE_NORMAL_DLC
  | LAPD_SK_STATE_NORMAL_DLC_CLOSING
  | LAPD_SK_STATE_BROADCAST_DLC
  | LAPD_SK_STATE_MGMT
  | LAPD_SK_STATE_CLOSE

datatype lapd_dl_primitive_type =
    LAPD_DL_RELEASE_INDICATION
  | LAPD_DL_RELEASE_CONFIRM
  | LAPD_DL_ESTABLISH_INDICATION
  | LAPD_DL_ESTABLISH_CONFIRM

datatype lapd_mdl_error =
    MDL_A | MDL_B | MDL_C | MDL_D | MDL_E | MDL_F | MDL_G | MDL_H
  | MDL_I | MDL_J | MDL_K | MDL_L | MDL_M | MDL_N | MDL_O

text \<open>The primitives of layer management, with the parameter each one carries.\<close>

datatype lapd_mdl_prim =
    LAPD_MDL_ASSIGN_REQUEST u8
  | LAPD_MDL_REMOVE_REQUEST
  | LAPD_MDL_ERROR_RESPONSE
  | LAPD_MDL_ERROR_INDICATION "lapd_mdl_error set"
  | LAPD_MDL_PERSISTENT_DEACTIVATION

text \<open>What can be queued to a socket: a primitive (\<open>skb->dev\<close> null) or a frame.\<close>

datatype dlc_skb = Skb_mdl lapd_mdl_prim | Skb_frame octets

datatype rcv_item = Rcv_primitive lapd_dl_primitive_type int | Rcv_frame octets

datatype tm_request =
    Tm_start_tei_check u8
  | Tm_tei_remove nat
  | Tm_assign_indication nat

text \<open>A duration in jiffies, as a function of the tick rate \<open>HZ\<close> of the kernel.\<close>

type_synonym jiffies = "nat \<Rightarrow> nat"

record lapd_sap =
  sap_k :: nat
  sap_N200 :: nat
  sap_N201 :: nat
  sap_T200 :: jiffies
  sap_T203 :: jiffies

text \<open>The service access points of a device when it comes up (\<open>lapd_device_up\<close>).\<close>

definition lapd_sap_default :: lapd_sap where
  "lapd_sap_default =
     \<lparr>sap_k = 7, sap_N200 = 3, sap_N201 = 260, sap_T200 = (\<lambda>hz. 1 * hz), sap_T203 = (\<lambda>hz. 10 * hz)\<rparr>"

lemma lapd_sap_default_simps [simp]:
  "sap_k lapd_sap_default = 7" "sap_N200 lapd_sap_default = 3" "sap_N201 lapd_sap_default = 260"
  by (simp_all add: lapd_sap_default_def)

text \<open>A buffer of the transmit queue: its address and its octets.\<close>

record skb =
  skb_ptr :: nat
  skb_data :: octets

record lapd_sock =
  sk_state :: lapd_sk_state
  sk_write_queue :: "skb list"
  sk_send_head :: "nat option"
  sk_receive_queue :: "rcv_item list"
  sk_rmem_alloc :: nat
  sk_rcvbuf :: nat
  sk_truesize :: "rcv_item \<Rightarrow> nat"
  sk_owned_by_user :: bool
  sk_backlog :: "dlc_skb list"
  sk_hashed :: bool
  sk_timer :: bool
  role :: lapd_intf_role
  mtu :: nat
  net_tme :: bool
  u_queue :: "octets list"
  retrans_cnt :: nat
  timer_T200 :: bool
  timer_T203 :: bool
  v_s :: u8
  v_r :: u8
  v_a :: u8
  state :: lapd_datalink_state
  peer_receiver_busy :: bool
  own_receiver_busy :: bool
  reject_exception :: bool
  acknowledge_pending :: bool
  layer_3_initiated :: bool
  sap :: lapd_sap
  usr_tme :: "nat option"
  tei :: u8
  sapi :: u8
  ph_out :: "octets list"
  tm_out :: "tm_request list"

abbreviation in_7 :: "lapd_sock \<Rightarrow> bool" where
  "in_7 s \<equiv> state s = LAPD_DLS_7_LINK_CONNECTION_ESTABLISHED"

abbreviation in_8 :: "lapd_sock \<Rightarrow> bool" where
  "in_8 s \<equiv> state s = LAPD_DLS_8_TIMER_RECOVERY"

definition LAPD_BROADCAST_TEI :: u8 where "LAPD_BROADCAST_TEI = 127"

definition EINVAL :: int where "EINVAL = 22"

section \<open>Frames\<close>

definition lapd_prepare_sframe ::
  "lapd_sock \<Rightarrow> lapd_cr \<Rightarrow> lapd_sframe_function_e \<Rightarrow> bool \<Rightarrow> octets" where
  "lapd_prepare_sframe s c_r func p_f =
     make_address (sapi s) (lapd_make_cr (role s) c_r) (tei s) @
     [lapd_sframe_make_control func, lapd_sframe_make_control2 (v_r s) p_f]"

text \<open>
  The header of an I frame is written into fresh buffer memory (\<open>c1\<close> and \<open>c2\<close> are what it held):
  the sequence numbers are not set before the frame is sent.
\<close>

definition lapd_prepare_iframe :: "lapd_sock \<Rightarrow> u8 \<Rightarrow> u8 \<Rightarrow> octets" where
  "lapd_prepare_iframe s c1 c2 =
     make_address (sapi s) (lapd_make_cr (role s) LAPD_COMMAND) (tei s) @
     [field7 (hi7 c1) False, field7 (hi7 c2) False]"

fun uframe_cr :: "lapd_uframe_function_e \<Rightarrow> lapd_cr" where
  "uframe_cr LAPD_UFRAME_FUNC_SABME = LAPD_COMMAND"
| "uframe_cr LAPD_UFRAME_FUNC_DM = LAPD_RESPONSE"
| "uframe_cr LAPD_UFRAME_FUNC_UI = LAPD_COMMAND"
| "uframe_cr LAPD_UFRAME_FUNC_DISC = LAPD_COMMAND"
| "uframe_cr LAPD_UFRAME_FUNC_UA = LAPD_RESPONSE"
| "uframe_cr LAPD_UFRAME_FUNC_FRMR = LAPD_RESPONSE"
| "uframe_cr LAPD_UFRAME_FUNC_XID = LAPD_COMMAND"
| "uframe_cr LAPD_UFRAME_FUNC_INVALID = LAPD_COMMAND"

definition lapd_prepare_uframe :: "lapd_sock \<Rightarrow> lapd_uframe_function_e \<Rightarrow> bool \<Rightarrow> octets res" where
  "lapd_prepare_uframe s func p_f =
     (if func = LAPD_UFRAME_FUNC_INVALID then Inl KernelBug
      else Inr (make_address (sapi s)
                  ((uframe_cr func = LAPD_RESPONSE) = (role s = LAPD_INTF_ROLE_TE))
                  (if state s = LAPD_DLS_LISTENING then LAPD_BROADCAST_TEI else tei s) @
                [lapd_uframe_make_control func p_f]))"

section \<open>Output of a socket\<close>

text \<open>\<open>ph_out\<close> collects what the socket passes to \<open>lapd_ph_data_request\<close>, oldest first.\<close>

definition ph_data_request :: "octets \<Rightarrow> lapd_sock \<Rightarrow> lapd_sock" where
  "ph_data_request d s = s\<lparr>ph_out := ph_out s @ [d]\<rparr>"

definition lapd_send_sframe ::
  "lapd_cr \<Rightarrow> lapd_sframe_function_e \<Rightarrow> bool \<Rightarrow> lapd_sock \<Rightarrow> lapd_sock" where
  "lapd_send_sframe c_r func p_f s = ph_data_request (lapd_prepare_sframe s c_r func p_f) s"

text \<open>
  \<open>lapd_send_uframe\<close> without data, as all its callers use it. A function of the U frame that is
  not one of the protocol's would be a \<open>BUG()\<close>; every call site names one of them.
\<close>

definition lapd_send_uframe :: "lapd_uframe_function_e \<Rightarrow> bool \<Rightarrow> lapd_sock \<Rightarrow> lapd_sock" where
  "lapd_send_uframe func p_f s =
     (case lapd_prepare_uframe s func p_f of Inl e \<Rightarrow> s | Inr d \<Rightarrow> ph_data_request d s)"

definition lapd_dl_primitive :: "lapd_dl_primitive_type \<Rightarrow> int \<Rightarrow> lapd_sock \<Rightarrow> lapd_sock" where
  "lapd_dl_primitive t param s =
     (if sk_state s = LAPD_SK_STATE_NORMAL_DLC_CLOSING \<and> t = LAPD_DL_RELEASE_CONFIRM
      then s\<lparr>sk_timer := True\<rparr>
      else s\<lparr>sk_rmem_alloc := sk_rmem_alloc s + sk_truesize s (Rcv_primitive t param),
             sk_receive_queue := sk_receive_queue s @ [Rcv_primitive t param]\<rparr>)"

definition lapd_dl_unit_data_indication :: "octets \<Rightarrow> lapd_sock \<Rightarrow> lapd_sock" where
  "lapd_dl_unit_data_indication d s =
     s\<lparr>sk_rmem_alloc := sk_rmem_alloc s + sk_truesize s (Rcv_frame d),
       sk_receive_queue := sk_receive_queue s @ [Rcv_frame d]\<rparr>"

definition lapd_dl_data_indication :: "octets \<Rightarrow> lapd_sock \<Rightarrow> lapd_sock" where
  "lapd_dl_data_indication d s =
     s\<lparr>sk_rmem_alloc := sk_rmem_alloc s + sk_truesize s (Rcv_frame d),
       sk_receive_queue := sk_receive_queue s @ [Rcv_frame d]\<rparr>"

section \<open>Queues\<close>

definition lapd_sock_queue_uframe :: "octets \<Rightarrow> lapd_sock \<Rightarrow> lapd_sock" where
  "lapd_sock_queue_uframe d s = s\<lparr>u_queue := u_queue s @ [d]\<rparr>"

fun lapd_run_ui_loop :: "octets list \<Rightarrow> lapd_sock \<Rightarrow> lapd_sock" where
  "lapd_run_ui_loop [] s = s\<lparr>u_queue := []\<rparr>"
| "lapd_run_ui_loop (d # q) s = lapd_run_ui_loop q (ph_data_request d s)"

definition lapd_run_ui_queue :: "lapd_sock \<Rightarrow> lapd_sock" where
  "lapd_run_ui_queue s = lapd_run_ui_loop (u_queue s) s"

definition lapd_discard_ui_queue :: "lapd_sock \<Rightarrow> lapd_sock" where
  "lapd_discard_ui_queue s = s\<lparr>u_queue := []\<rparr>"

text \<open>The queue is emptied and its buffers are freed; \<open>sk_send_head\<close> keeps its value.\<close>

definition lapd_discard_i_queue :: "lapd_sock \<Rightarrow> lapd_sock" where
  "lapd_discard_i_queue s = s\<lparr>sk_write_queue := []\<rparr>"

definition lapd_sock_queue_iframe :: "skb \<Rightarrow> lapd_sock \<Rightarrow> lapd_sock" where
  "lapd_sock_queue_iframe b s =
     (let s1 = s\<lparr>sk_write_queue := sk_write_queue s @ [b]\<rparr>
      in if sk_send_head s1 = None then s1\<lparr>sk_send_head := Some (skb_ptr b)\<rparr> else s1)"

text \<open>In-place change of the octets of the buffer at an address of the queue.\<close>

definition write_skb :: "nat \<Rightarrow> octets \<Rightarrow> skb list \<Rightarrow> skb list" where
  "write_skb p d q = map (\<lambda>b. if skb_ptr b = p then b\<lparr>skb_data := d\<rparr> else b) q"

definition window_closed :: "lapd_sock \<Rightarrow> bool" where
  "window_closed s \<longleftrightarrow> unat (v_s s) = (unat (v_a s) + sap_k (sap s)) mod 128"

text \<open>
  The loop of \<open>lapd_run_i_queue\<close> over the buffers from \<open>sk_send_head\<close> to the end of the queue;
  past the last one the cursor becomes null.
\<close>

fun lapd_run_i_loop :: "skb list \<Rightarrow> lapd_sock \<Rightarrow> lapd_sock" where
  "lapd_run_i_loop [] s = s\<lparr>sk_send_head := None\<rparr>"
| "lapd_run_i_loop (b # bs) s =
     (if window_closed s then s\<lparr>sk_send_head := Some (skb_ptr b)\<rparr>
      else
        let d = set_i_n_r (v_r s) (set_i_n_s (v_s s) (skb_data b));
            s1 = s\<lparr>sk_write_queue := write_skb (skb_ptr b) d (sk_write_queue s)\<rparr>;
            s2 = (if \<not> timer_T200 s1 then s1\<lparr>timer_T200 := True, timer_T203 := False\<rparr> else s1);
            s3 = ph_data_request d s2
        in lapd_run_i_loop bs (s3\<lparr>v_s := (v_s s3 + 1) mod 128\<rparr>))"

definition lapd_run_i_queue :: "lapd_sock \<Rightarrow> lapd_sock res" where
  "lapd_run_i_queue s =
     (if state s \<noteq> LAPD_DLS_7_LINK_CONNECTION_ESTABLISHED then Inr s
      else if peer_receiver_busy s then Inr s
      else case sk_send_head s of
             None \<Rightarrow> Inr s
           | Some p \<Rightarrow>
               if p \<notin> skb_ptr ` set (sk_write_queue s)
               then (if window_closed s then Inr s else Inl UseAfterFree)
               else Inr (lapd_run_i_loop (dropWhile (\<lambda>b. skb_ptr b \<noteq> p) (sk_write_queue s)) s))"

definition lapd_invoke_retransmission_procedure :: "lapd_sock \<Rightarrow> lapd_sock res" where
  "lapd_invoke_retransmission_procedure s =
     (let s1 = (case sk_write_queue s of [] \<Rightarrow> s | b # _ \<Rightarrow> s\<lparr>sk_send_head := Some (skb_ptr b)\<rparr>);
          s2 = s1\<lparr>v_s := v_a s1\<rparr>
      in lapd_run_i_queue s2)"

fun lapd_ack_loop :: "nat option \<Rightarrow> u8 \<Rightarrow> skb list \<Rightarrow> skb list" where
  "lapd_ack_loop h n_r [] = []"
| "lapd_ack_loop h n_r (b # bs) =
     (if h = Some (skb_ptr b) then b # bs
      else if i_n_s (skb_data b) = n_r then b # bs
      else lapd_ack_loop h n_r bs)"

definition lapd_ack_frames :: "u8 \<Rightarrow> lapd_sock \<Rightarrow> lapd_sock" where
  "lapd_ack_frames n_r s =
     (if n_r = v_a s then s
      else s\<lparr>sk_write_queue := lapd_ack_loop (sk_send_head s) n_r (sk_write_queue s)\<rparr>)"

definition lapd_is_valid_nr :: "lapd_sock \<Rightarrow> u8 \<Rightarrow> bool" where
  "lapd_is_valid_nr s n_r \<longleftrightarrow>
     (uint n_r - uint (v_a s) + 128) smod 128 \<le> (uint (v_s s) - uint (v_a s) + 128) smod 128"

end
