(* ===== verification/Lapd_Datalink.thy ===== *)
theory Lapd_Datalink
  imports Lapd_Sock
begin

text \<open>
  The point-to-point data link procedures of modules/lapd/datalink.c: layer management
  primitives, the handlers of received frames, the service primitives of layer 3 and the two
  timers, one definition per function of the source.
\<close>

section \<open>Procedures\<close>

definition lapd_start_T200 :: "lapd_sock \<Rightarrow> lapd_sock" where
  "lapd_start_T200 s = s\<lparr>timer_T200 := True\<rparr>"

definition lapd_stop_T200 :: "lapd_sock \<Rightarrow> lapd_sock" where
  "lapd_stop_T200 s = s\<lparr>timer_T200 := False\<rparr>"

definition lapd_start_T203 :: "lapd_sock \<Rightarrow> lapd_sock" where
  "lapd_start_T203 s = s\<lparr>timer_T203 := True\<rparr>"

definition lapd_stop_T203 :: "lapd_sock \<Rightarrow> lapd_sock" where
  "lapd_stop_T203 s = s\<lparr>timer_T203 := False\<rparr>"

definition lapd_change_state :: "lapd_datalink_state \<Rightarrow> lapd_sock \<Rightarrow> lapd_sock" where
  "lapd_change_state newstate s = s\<lparr>state := newstate\<rparr>"

definition lapd_clear_exception_conditions_procedure :: "lapd_sock \<Rightarrow> lapd_sock" where
  "lapd_clear_exception_conditions_procedure s =
     s\<lparr>own_receiver_busy := False, peer_receiver_busy := False,
       reject_exception := False, acknowledge_pending := False\<rparr>"

definition lapd_establish_datalink_procedure :: "lapd_sock \<Rightarrow> lapd_sock" where
  "lapd_establish_datalink_procedure s =
     (let s = lapd_clear_exception_conditions_procedure s;
          s = s\<lparr>retrans_cnt := 0\<rparr>;
          s = lapd_send_uframe LAPD_UFRAME_FUNC_SABME True s;
          s = lapd_stop_T203 s
      in lapd_start_T200 s)"

definition lapd_transmit_enquiry_procedure :: "lapd_sock \<Rightarrow> lapd_sock" where
  "lapd_transmit_enquiry_procedure s =
     (let s = (if own_receiver_busy s
               then lapd_send_sframe LAPD_COMMAND LAPD_SFRAME_FUNC_RNR True s
               else lapd_send_sframe LAPD_COMMAND LAPD_SFRAME_FUNC_RR True s);
          s = s\<lparr>acknowledge_pending := False\<rparr>
      in lapd_start_T200 s)"

definition lapd_enquiry_response_procedure :: "lapd_sock \<Rightarrow> lapd_sock" where
  "lapd_enquiry_response_procedure s =
     (let s = (if own_receiver_busy s
               then lapd_send_sframe LAPD_RESPONSE LAPD_SFRAME_FUNC_RNR True s
               else lapd_send_sframe LAPD_RESPONSE LAPD_SFRAME_FUNC_RR True s)
      in s\<lparr>acknowledge_pending := False\<rparr>)"

section \<open>Layer management primitives\<close>

definition lapd_mdl_assign_request :: "u8 \<Rightarrow> lapd_sock \<Rightarrow> lapd_sock" where
  "lapd_mdl_assign_request t s =
     (case state s of
        LAPD_DLS_1_TEI_UNASSIGNED \<Rightarrow> lapd_change_state LAPD_DLS_4_TEI_ASSIGNED (s\<lparr>tei := t\<rparr>)
      | LAPD_DLS_2_AWAITING_TEI \<Rightarrow> lapd_change_state LAPD_DLS_4_TEI_ASSIGNED (s\<lparr>tei := t\<rparr>)
      | LAPD_DLS_3_ESTABLISH_AWAITING_TEI \<Rightarrow>
          let s = lapd_establish_datalink_procedure (s\<lparr>tei := t\<rparr>);
              s = s\<lparr>layer_3_initiated := True\<rparr>
          in lapd_change_state LAPD_DLS_5_AWAITING_ESTABLISH s
      | _ \<Rightarrow> s)"

definition lapd_mdl_remove_request :: "lapd_sock \<Rightarrow> lapd_sock" where
  "lapd_mdl_remove_request s =
     (case state s of
        LAPD_DLS_4_TEI_ASSIGNED \<Rightarrow>
          lapd_change_state LAPD_DLS_1_TEI_UNASSIGNED (lapd_discard_ui_queue s)
      | LAPD_DLS_5_AWAITING_ESTABLISH \<Rightarrow>
          let s = lapd_stop_T200 (lapd_discard_ui_queue (lapd_discard_i_queue s));
              s = lapd_change_state LAPD_DLS_1_TEI_UNASSIGNED s
          in lapd_dl_primitive LAPD_DL_RELEASE_INDICATION 0 s
      | LAPD_DLS_6_AWAITING_RELEASE \<Rightarrow>
          let s = lapd_stop_T200 (lapd_discard_ui_queue s);
              s = lapd_change_state LAPD_DLS_1_TEI_UNASSIGNED s
          in lapd_dl_primitive LAPD_DL_RELEASE_CONFIRM 0 s
      | LAPD_DLS_7_LINK_CONNECTION_ESTABLISHED \<Rightarrow>
          let s = lapd_stop_T203 (lapd_stop_T200 (lapd_discard_ui_queue (lapd_discard_i_queue s)));
              s = lapd_change_state LAPD_DLS_1_TEI_UNASSIGNED s
          in lapd_dl_primitive LAPD_DL_RELEASE_INDICATION 0 s
      | LAPD_DLS_8_TIMER_RECOVERY \<Rightarrow>
          let s = lapd_stop_T200 (lapd_discard_ui_queue (lapd_discard_i_queue s));
              s = lapd_change_state LAPD_DLS_1_TEI_UNASSIGNED s
          in lapd_dl_primitive LAPD_DL_RELEASE_INDICATION 0 s
      | _ \<Rightarrow> s)"

definition lapd_mdl_error_response :: "lapd_sock \<Rightarrow> lapd_sock" where
  "lapd_mdl_error_response s =
     (case state s of
        LAPD_DLS_2_AWAITING_TEI \<Rightarrow>
          lapd_change_state LAPD_DLS_1_TEI_UNASSIGNED (lapd_discard_ui_queue s)
      | LAPD_DLS_3_ESTABLISH_AWAITING_TEI \<Rightarrow>
          lapd_dl_primitive LAPD_DL_RELEASE_INDICATION 0
            (lapd_change_state LAPD_DLS_1_TEI_UNASSIGNED (lapd_discard_ui_queue s))
      | _ \<Rightarrow> s)"

definition lapd_persistent_deactivation :: "lapd_sock \<Rightarrow> lapd_sock" where
  "lapd_persistent_deactivation s =
     (case state s of
        LAPD_DLS_1_TEI_UNASSIGNED \<Rightarrow> s
      | LAPD_DLS_2_AWAITING_TEI \<Rightarrow>
          lapd_change_state LAPD_DLS_1_TEI_UNASSIGNED (lapd_discard_ui_queue s)
      | LAPD_DLS_3_ESTABLISH_AWAITING_TEI \<Rightarrow>
          lapd_dl_primitive LAPD_DL_RELEASE_INDICATION 0
            (lapd_change_state LAPD_DLS_1_TEI_UNASSIGNED (lapd_discard_ui_queue s))
      | LAPD_DLS_4_TEI_ASSIGNED \<Rightarrow> lapd_discard_ui_queue s
      | LAPD_DLS_5_AWAITING_ESTABLISH \<Rightarrow>
          let s = lapd_stop_T200 (lapd_discard_ui_queue (lapd_discard_i_queue s));
              s = lapd_change_state LAPD_DLS_4_TEI_ASSIGNED s
          in lapd_dl_primitive LAPD_DL_RELEASE_INDICATION 0 s
      | LAPD_DLS_6_AWAITING_RELEASE \<Rightarrow>
          let s = lapd_stop_T200 (lapd_discard_ui_queue s);
              s = lapd_change_state LAPD_DLS_4_TEI_ASSIGNED s
          in lapd_dl_primitive LAPD_DL_RELEASE_CONFIRM 0 s
      | LAPD_DLS_7_LINK_CONNECTION_ESTABLISHED \<Rightarrow>
          let s = lapd_stop_T203 (lapd_stop_T200 (lapd_discard_ui_queue (lapd_discard_i_queue s)));
              s = lapd_change_state LAPD_DLS_4_TEI_ASSIGNED s
          in lapd_dl_primitive LAPD_DL_RELEASE_INDICATION 0 s
      | LAPD_DLS_8_TIMER_RECOVERY \<Rightarrow>
          let s = lapd_stop_T200 (lapd_discard_ui_queue (lapd_discard_i_queue s));
              s = lapd_change_state LAPD_DLS_4_TEI_ASSIGNED s
          in lapd_dl_primitive LAPD_DL_RELEASE_INDICATION 0 s
      | _ \<Rightarrow> s)"

text \<open>
  \<open>lapd_mdl_error_indication\<close> (af_lapd.c) asks the network side for a TEI check, and on the
  user side removes the TEI of the socket's management entity. The removal sends an
  MDL-REMOVE-REQUEST to every hashed socket of that entity: to this one at once (or to its backlog
  when a process owns it), which \<open>remove_self\<close> says; \<open>tm_out\<close> records the request for the
  entity and its other sockets.
\<close>

definition remove_self :: "lapd_sock \<Rightarrow> lapd_sock" where
  "remove_self s =
     (if \<not> sk_hashed s then s
      else if sk_owned_by_user s then s\<lparr>sk_backlog := sk_backlog s @ [Skb_mdl LAPD_MDL_REMOVE_REQUEST]\<rparr>
      else lapd_mdl_remove_request s)"

definition lapd_mdl_error_indication :: "lapd_mdl_error set \<Rightarrow> lapd_sock \<Rightarrow> lapd_sock" where
  "lapd_mdl_error_indication indication s =
     (if MDL_C \<in> indication \<or> MDL_D \<in> indication \<or> MDL_G \<in> indication \<or> MDL_H \<in> indication then
        (if role s = LAPD_INTF_ROLE_NT then
           (if net_tme s then s\<lparr>tm_out := tm_out s @ [Tm_start_tei_check (tei s)]\<rparr> else s)
         else (case usr_tme s of
                 None \<Rightarrow> s
               | Some t \<Rightarrow> remove_self (s\<lparr>tm_out := tm_out s @ [Tm_tei_remove t]\<rparr>)))
      else s)"

text \<open>\<open>lapd_mdl_primitive\<close>: handled at once, or put on the backlog of an owned socket.\<close>

definition lapd_mdl_recv :: "lapd_mdl_prim \<Rightarrow> lapd_sock \<Rightarrow> lapd_sock" where
  "lapd_mdl_recv pri s =
     (case pri of
        LAPD_MDL_ASSIGN_REQUEST t \<Rightarrow> lapd_mdl_assign_request t s
      | LAPD_MDL_ERROR_RESPONSE \<Rightarrow> lapd_mdl_error_response s
      | LAPD_MDL_ERROR_INDICATION ind \<Rightarrow> lapd_mdl_error_indication ind s
      | LAPD_MDL_REMOVE_REQUEST \<Rightarrow> lapd_mdl_remove_request s
      | LAPD_MDL_PERSISTENT_DEACTIVATION \<Rightarrow> lapd_persistent_deactivation s)"

definition lapd_mdl_primitive :: "lapd_mdl_prim \<Rightarrow> lapd_sock \<Rightarrow> lapd_sock" where
  "lapd_mdl_primitive pri s =
     (if sk_owned_by_user s then s\<lparr>sk_backlog := sk_backlog s @ [Skb_mdl pri]\<rparr>
      else lapd_mdl_recv pri s)"

definition lapd_nr_error_recovery_procedure :: "lapd_sock \<Rightarrow> lapd_sock" where
  "lapd_nr_error_recovery_procedure s =
     (let s = lapd_mdl_primitive (LAPD_MDL_ERROR_INDICATION {MDL_J}) s;
          s = lapd_establish_datalink_procedure s
      in s\<lparr>layer_3_initiated := False\<rparr>)"

section \<open>Receiver busy and frame reject\<close>

definition lapd_set_own_receiver_busy :: "lapd_sock \<Rightarrow> lapd_sock" where
  "lapd_set_own_receiver_busy s =
     (if in_7 s \<or> in_8 s then
        (if \<not> own_receiver_busy s then
           (let s = s\<lparr>own_receiver_busy := True\<rparr>;
                s = lapd_send_sframe LAPD_RESPONSE LAPD_SFRAME_FUNC_RNR False s
            in s\<lparr>acknowledge_pending := False\<rparr>)
         else s)
      else s)"

definition lapd_clear_own_receiver_busy :: "lapd_sock \<Rightarrow> lapd_sock" where
  "lapd_clear_own_receiver_busy s =
     (if in_7 s \<or> in_8 s then
        (if own_receiver_busy s then
           (let s = s\<lparr>own_receiver_busy := False\<rparr>;
                s = lapd_send_sframe LAPD_RESPONSE LAPD_SFRAME_FUNC_RR False s
            in s\<lparr>acknowledge_pending := False\<rparr>)
         else s)
      else s)"

datatype lapd_format_errors =
    LAPD_FE_LENGTH
  | LAPD_FE_N201
  | LAPD_FE_UNDEFINED_COMMAND
  | LAPD_FE_I_FIELD_NOT_PERMITTED

text \<open>
  The \<open>switch\<close> of \<open>lapd_frame_reject\<close> is on the truth value of \<open>error == LAPD_FE_LENGTH\<close>, and
  its labels are the enumerators, numbered from 0.
\<close>

definition frame_reject_indication :: "lapd_format_errors \<Rightarrow> lapd_mdl_error" where
  "frame_reject_indication err =
     (let sel = (if err = LAPD_FE_LENGTH then 1 else 0 :: nat) in
      if sel = 0 then MDL_N
      else if sel = 1 then MDL_O
      else if sel = 2 then MDL_L
      else MDL_M)"

definition lapd_frame_reject :: "lapd_format_errors \<Rightarrow> lapd_sock \<Rightarrow> lapd_sock" where
  "lapd_frame_reject err s =
     (let s = lapd_mdl_primitive (LAPD_MDL_ERROR_INDICATION {frame_reject_indication err}) s in
      if in_7 s \<or> in_8 s then
        (let s = lapd_establish_datalink_procedure s;
             s = s\<lparr>layer_3_initiated := False\<rparr>
         in lapd_change_state LAPD_DLS_5_AWAITING_ESTABLISH s)
      else s)"

section \<open>Received I frames\<close>

definition lapd_ack_va :: "u8 \<Rightarrow> lapd_sock \<Rightarrow> lapd_sock" where
  "lapd_ack_va n_r s = (lapd_ack_frames n_r s)\<lparr>v_a := n_r\<rparr>"

text \<open>
  The part of \<open>lapd_socket_handle_iframe\<close> that is the same in states 7 and 8, up to one
  assignment: \<open>clear_ack\<close> says whether the REJ branch clears \<open>acknowledge_pending\<close>. The flag
  returned is \<open>queued\<close>.
\<close>

definition iframe_receive :: "bool \<Rightarrow> octets \<Rightarrow> lapd_sock \<Rightarrow> bool \<times> lapd_sock" where
  "iframe_receive clear_ack d s =
     (if own_receiver_busy s then
        (False,
         if i_p d
         then (lapd_send_sframe LAPD_RESPONSE LAPD_SFRAME_FUNC_RNR True s)\<lparr>acknowledge_pending := False\<rparr>
         else s)
      else if i_n_s d = v_r s then
        (True,
         let s = s\<lparr>v_r := (v_r s + 1) mod 128\<rparr>;
             s = s\<lparr>reject_exception := False\<rparr>;
             s = lapd_dl_data_indication d s
         in if i_p d
            then (lapd_send_sframe LAPD_RESPONSE LAPD_SFRAME_FUNC_RR True s)\<lparr>acknowledge_pending := False\<rparr>
            else lapd_send_sframe LAPD_RESPONSE LAPD_SFRAME_FUNC_RR False s)
      else if reject_exception s then
        (False,
         if i_p d
         then (lapd_send_sframe LAPD_RESPONSE LAPD_SFRAME_FUNC_RR True s)\<lparr>acknowledge_pending := False\<rparr>
         else s)
      else
        (False,
         let s = s\<lparr>reject_exception := True\<rparr>;
             s = lapd_send_sframe LAPD_RESPONSE LAPD_SFRAME_FUNC_REJ (i_p d) s
         in if clear_ack then s\<lparr>acknowledge_pending := False\<rparr> else s))"

definition iframe_ack_7 :: "octets \<Rightarrow> lapd_sock \<Rightarrow> lapd_sock" where
  "iframe_ack_7 d s =
     (if lapd_is_valid_nr s (s_n_r d) then
        (if peer_receiver_busy s then lapd_ack_va (s_n_r d) s
         else if s_n_r d = v_s s then lapd_start_T203 (lapd_stop_T200 (lapd_ack_va (s_n_r d) s))
         else if s_n_r d \<noteq> v_a s then lapd_start_T200 (lapd_ack_va (s_n_r d) s)
         else s)
      else lapd_nr_error_recovery_procedure (lapd_change_state LAPD_DLS_5_AWAITING_ESTABLISH s))"

definition iframe_ack_8 :: "octets \<Rightarrow> lapd_sock \<Rightarrow> lapd_sock" where
  "iframe_ack_8 d s =
     (if lapd_is_valid_nr s (s_n_r d) then lapd_ack_va (s_n_r d) s
      else lapd_nr_error_recovery_procedure (lapd_change_state LAPD_DLS_5_AWAITING_ESTABLISH s))"

definition lapd_socket_handle_iframe :: "octets \<Rightarrow> lapd_sock \<Rightarrow> bool \<times> lapd_sock" where
  "lapd_socket_handle_iframe d s =
     (if mtu s < length d then (False, lapd_frame_reject LAPD_FE_N201 s)
      else
        let s = (if sk_rmem_alloc s < sk_rcvbuf s \<and> own_receiver_busy s
                 then lapd_clear_own_receiver_busy s else s)
        in if sk_rcvbuf s \<le> sk_rmem_alloc s then (False, lapd_set_own_receiver_busy s)
           else case state s of
                  LAPD_DLS_7_LINK_CONNECTION_ESTABLISHED \<Rightarrow>
                    (let (queued, s) = iframe_receive True d s in (queued, iframe_ack_7 d s))
                | LAPD_DLS_8_TIMER_RECOVERY \<Rightarrow>
                    (let (queued, s) = iframe_receive False d s in (queued, iframe_ack_8 d s))
                | _ \<Rightarrow> (False, s))"

section \<open>Received S frames\<close>

text \<open>
  Two fragments occur verbatim in all three handlers: the poll/final part in state 7, and the
  acknowledgement in state 8 of a frame that does not end timer recovery.
\<close>

definition sframe_poll_7 :: "octets \<Rightarrow> lapd_sock \<Rightarrow> lapd_sock" where
  "sframe_poll_7 d s =
     (if lapd_rx_is_response (role s) (addr_c_r d) then
        (if s_p_f d then lapd_mdl_primitive (LAPD_MDL_ERROR_INDICATION {MDL_A}) s else s)
      else (if s_p_f d then lapd_enquiry_response_procedure s else s))"

definition sframe_ack_8 :: "octets \<Rightarrow> lapd_sock \<Rightarrow> lapd_sock" where
  "sframe_ack_8 d s =
     (if lapd_is_valid_nr s (s_n_r d) then lapd_ack_va (s_n_r d) s
      else lapd_change_state LAPD_DLS_5_AWAITING_ESTABLISH (lapd_nr_error_recovery_procedure s))"

definition lapd_socket_handle_sframe_rr :: "octets \<Rightarrow> lapd_sock \<Rightarrow> lapd_sock res" where
  "lapd_socket_handle_sframe_rr d s =
     (case state s of
        LAPD_DLS_7_LINK_CONNECTION_ESTABLISHED \<Rightarrow>
          let s = sframe_poll_7 d (s\<lparr>peer_receiver_busy := False\<rparr>) in
          Inr (if lapd_is_valid_nr s (s_n_r d) then
                 (if s_n_r d = v_s s then lapd_start_T203 (lapd_stop_T200 (lapd_ack_va (s_n_r d) s))
                  else if s_n_r d \<noteq> v_a s then lapd_start_T200 (lapd_ack_va (s_n_r d) s)
                  else s)
               else lapd_nr_error_recovery_procedure
                      (lapd_change_state LAPD_DLS_5_AWAITING_ESTABLISH s))
      | LAPD_DLS_8_TIMER_RECOVERY \<Rightarrow>
          let s = s\<lparr>peer_receiver_busy := False\<rparr> in
          if lapd_rx_is_response (role s) (addr_c_r d) then
            (if s_p_f d then
               (if lapd_is_valid_nr s (s_n_r d) then
                  let s = lapd_ack_va (s_n_r d) s;
                      s = lapd_start_T203 (lapd_stop_T200 s);
                      s = lapd_change_state LAPD_DLS_7_LINK_CONNECTION_ESTABLISHED s
                  in lapd_invoke_retransmission_procedure s
                else Inr (lapd_change_state LAPD_DLS_5_AWAITING_ESTABLISH
                            (lapd_nr_error_recovery_procedure s)))
             else Inr (sframe_ack_8 d s))
          else
            (let s = (if s_p_f d then lapd_enquiry_response_procedure s else s)
             in Inr (sframe_ack_8 d s))
      | _ \<Rightarrow> Inr s)"

definition lapd_socket_handle_sframe_rnr :: "octets \<Rightarrow> lapd_sock \<Rightarrow> lapd_sock res" where
  "lapd_socket_handle_sframe_rnr d s =
     (case state s of
        LAPD_DLS_7_LINK_CONNECTION_ESTABLISHED \<Rightarrow>
          let s = sframe_poll_7 d (s\<lparr>peer_receiver_busy := True\<rparr>) in
          if lapd_is_valid_nr s (s_n_r d) then
            bind_res (lapd_invoke_retransmission_procedure (lapd_ack_va (s_n_r d) s))
              (\<lambda>s. Inr (lapd_start_T200 (lapd_stop_T203 s)))
          else Inr (lapd_nr_error_recovery_procedure
                      (lapd_change_state LAPD_DLS_5_AWAITING_ESTABLISH s))
      | LAPD_DLS_8_TIMER_RECOVERY \<Rightarrow>
          let s = s\<lparr>peer_receiver_busy := True\<rparr> in
          if lapd_rx_is_response (role s) (addr_c_r d) then
            (if s_p_f d then
               (if lapd_is_valid_nr s (s_n_r d) then
                  let s = lapd_ack_va (s_n_r d) s;
                      s = lapd_start_T200 s;
                      s = lapd_change_state LAPD_DLS_7_LINK_CONNECTION_ESTABLISHED s
                  in lapd_invoke_retransmission_procedure s
                else Inr (lapd_change_state LAPD_DLS_5_AWAITING_ESTABLISH
                            (lapd_nr_error_recovery_procedure s)))
             else Inr (sframe_ack_8 d s))
          else
            (let s = (if s_p_f d then lapd_enquiry_response_procedure s else s)
             in Inr (sframe_ack_8 d s))
      | _ \<Rightarrow> Inr s)"

definition lapd_socket_handle_sframe_rej :: "octets \<Rightarrow> lapd_sock \<Rightarrow> lapd_sock res" where
  "lapd_socket_handle_sframe_rej d s =
     (case state s of
        LAPD_DLS_7_LINK_CONNECTION_ESTABLISHED \<Rightarrow>
          let s = sframe_poll_7 d (s\<lparr>peer_receiver_busy := False\<rparr>) in
          if lapd_is_valid_nr s (s_n_r d) then
            lapd_invoke_retransmission_procedure
              (lapd_start_T203 (lapd_stop_T200 (lapd_ack_va (s_n_r d) s)))
          else Inr (lapd_nr_error_recovery_procedure
                      (lapd_change_state LAPD_DLS_5_AWAITING_ESTABLISH s))
      | LAPD_DLS_8_TIMER_RECOVERY \<Rightarrow>
          let s = s\<lparr>peer_receiver_busy := False\<rparr> in
          if lapd_rx_is_response (role s) (addr_c_r d) then
            (if s_p_f d then
               (if lapd_is_valid_nr s (s_n_r d) then
                  let s = lapd_ack_va (s_n_r d) s;
                      s = lapd_start_T203 (lapd_stop_T200 s);
                      s = lapd_change_state LAPD_DLS_7_LINK_CONNECTION_ESTABLISHED s
                  in lapd_invoke_retransmission_procedure s
                else Inr (lapd_change_state LAPD_DLS_5_AWAITING_ESTABLISH
                            (lapd_nr_error_recovery_procedure s)))
             else Inr (sframe_ack_8 d s))
          else
            (let s = (if s_p_f d then lapd_enquiry_response_procedure s else s)
             in Inr (sframe_ack_8 d s))
      | _ \<Rightarrow> Inr s)"

definition lapd_socket_handle_sframe :: "octets \<Rightarrow> lapd_sock \<Rightarrow> lapd_sock res" where
  "lapd_socket_handle_sframe d s =
     (if length d \<noteq> 6 then Inr (lapd_frame_reject LAPD_FE_LENGTH s)
      else case lapd_sframe_function (hdr_control d) of
             LAPD_SFRAME_FUNC_RR \<Rightarrow> lapd_socket_handle_sframe_rr d s
           | LAPD_SFRAME_FUNC_RNR \<Rightarrow> lapd_socket_handle_sframe_rnr d s
           | LAPD_SFRAME_FUNC_REJ \<Rightarrow> lapd_socket_handle_sframe_rej d s
           | LAPD_SFRAME_FUNC_INVALID \<Rightarrow> Inr s)"

section \<open>Received U frames\<close>

definition reset_counters :: "lapd_sock \<Rightarrow> lapd_sock" where
  "reset_counters s = s\<lparr>v_s := 0, v_r := 0, v_a := 0\<rparr>"

definition lapd_socket_handle_uframe_ua :: "octets \<Rightarrow> lapd_sock \<Rightarrow> lapd_sock res" where
  "lapd_socket_handle_uframe_ua d s =
     (case state s of
        LAPD_DLS_4_TEI_ASSIGNED \<Rightarrow>
          Inr (lapd_mdl_primitive (LAPD_MDL_ERROR_INDICATION {MDL_C, MDL_D}) s)
      | LAPD_DLS_5_AWAITING_ESTABLISH \<Rightarrow>
          if \<not> u_p_f d then Inr (lapd_mdl_primitive (LAPD_MDL_ERROR_INDICATION {MDL_D}) s)
          else
            let s = lapd_start_T203 (lapd_stop_T200 s);
                s = reset_counters s;
                s = lapd_change_state LAPD_DLS_7_LINK_CONNECTION_ESTABLISHED s
            in if layer_3_initiated s
               then lapd_run_i_queue (lapd_dl_primitive LAPD_DL_ESTABLISH_CONFIRM 0 s)
               else if v_s s \<noteq> v_a s
               then Inr (lapd_dl_primitive LAPD_DL_ESTABLISH_INDICATION 0 (lapd_discard_i_queue s))
               else Inr s
      | LAPD_DLS_6_AWAITING_RELEASE \<Rightarrow>
          if \<not> u_p_f d then Inr (lapd_mdl_primitive (LAPD_MDL_ERROR_INDICATION {MDL_D}) s)
          else Inr (lapd_dl_primitive LAPD_DL_RELEASE_CONFIRM 0
                      (lapd_change_state LAPD_DLS_4_TEI_ASSIGNED (lapd_stop_T200 s)))
      | LAPD_DLS_7_LINK_CONNECTION_ESTABLISHED \<Rightarrow>
          Inr (lapd_mdl_primitive (LAPD_MDL_ERROR_INDICATION {MDL_C, MDL_D}) s)
      | LAPD_DLS_8_TIMER_RECOVERY \<Rightarrow>
          Inr (lapd_mdl_primitive (LAPD_MDL_ERROR_INDICATION {MDL_C, MDL_D}) s)
      | _ \<Rightarrow> Inr s)"

definition lapd_socket_handle_uframe_disc :: "octets \<Rightarrow> lapd_sock \<Rightarrow> lapd_sock" where
  "lapd_socket_handle_uframe_disc d s =
     (case state s of
        LAPD_DLS_4_TEI_ASSIGNED \<Rightarrow> lapd_send_uframe LAPD_UFRAME_FUNC_DM (u_p_f d) s
      | LAPD_DLS_5_AWAITING_ESTABLISH \<Rightarrow> lapd_send_uframe LAPD_UFRAME_FUNC_DM (u_p_f d) s
      | LAPD_DLS_6_AWAITING_RELEASE \<Rightarrow> lapd_send_uframe LAPD_UFRAME_FUNC_UA (u_p_f d) s
      | LAPD_DLS_7_LINK_CONNECTION_ESTABLISHED \<Rightarrow>
          let s = lapd_send_uframe LAPD_UFRAME_FUNC_UA (u_p_f d) (lapd_discard_i_queue s);
              s = lapd_stop_T203 (lapd_stop_T200 s);
              s = lapd_change_state LAPD_DLS_4_TEI_ASSIGNED s
          in lapd_dl_primitive LAPD_DL_RELEASE_INDICATION 0 s
      | LAPD_DLS_8_TIMER_RECOVERY \<Rightarrow>
          let s = lapd_send_uframe LAPD_UFRAME_FUNC_UA (u_p_f d) (lapd_discard_i_queue s);
              s = lapd_stop_T200 s;
              s = lapd_change_state LAPD_DLS_4_TEI_ASSIGNED s
          in lapd_dl_primitive LAPD_DL_RELEASE_INDICATION 0 s
      | _ \<Rightarrow> s)"

definition lapd_socket_handle_uframe_frmr :: "octets \<Rightarrow> lapd_sock \<Rightarrow> lapd_sock" where
  "lapd_socket_handle_uframe_frmr d s =
     (let s = lapd_mdl_primitive (LAPD_MDL_ERROR_INDICATION {MDL_K}) s;
          s = lapd_establish_datalink_procedure s;
          s = s\<lparr>layer_3_initiated := False\<rparr>
      in lapd_change_state LAPD_DLS_5_AWAITING_ESTABLISH s)"

definition lapd_socket_handle_uframe_dm :: "octets \<Rightarrow> lapd_sock \<Rightarrow> lapd_sock" where
  "lapd_socket_handle_uframe_dm d s =
     (let dm_7_8 =
        (if u_p_f d then lapd_mdl_primitive (LAPD_MDL_ERROR_INDICATION {MDL_B}) s
         else
           let s = lapd_mdl_primitive (LAPD_MDL_ERROR_INDICATION {MDL_E}) s;
               s = lapd_establish_datalink_procedure s;
               s = s\<lparr>layer_3_initiated := False\<rparr>
           in lapd_change_state LAPD_DLS_5_AWAITING_ESTABLISH s)
      in case state s of
        LAPD_DLS_4_TEI_ASSIGNED \<Rightarrow>
          if \<not> u_p_f d \<and> sk_state s = LAPD_SK_STATE_NORMAL_DLC then
            (let s = lapd_establish_datalink_procedure s;
                 s = s\<lparr>layer_3_initiated := True\<rparr>
             in lapd_change_state LAPD_DLS_5_AWAITING_ESTABLISH s)
          else s
      | LAPD_DLS_5_AWAITING_ESTABLISH \<Rightarrow>
          if u_p_f d then
            (let s = lapd_stop_T200 (lapd_discard_i_queue s);
                 s = lapd_change_state LAPD_DLS_4_TEI_ASSIGNED s
             in lapd_dl_primitive LAPD_DL_RELEASE_INDICATION 0 s)
          else s
      | LAPD_DLS_6_AWAITING_RELEASE \<Rightarrow>
          if u_p_f d then
            (let s = lapd_stop_T200 s;
                 s = lapd_change_state LAPD_DLS_4_TEI_ASSIGNED s
             in lapd_dl_primitive LAPD_DL_RELEASE_CONFIRM 0 s)
          else s
      | LAPD_DLS_7_LINK_CONNECTION_ESTABLISHED \<Rightarrow> dm_7_8
      | LAPD_DLS_8_TIMER_RECOVERY \<Rightarrow> dm_7_8
      | _ \<Rightarrow> s)"

text \<open>The SABME branches of states 7 and 8 are the same statements, neither changes the state.\<close>

definition sabme_7_8 :: "octets \<Rightarrow> lapd_sock \<Rightarrow> lapd_sock" where
  "sabme_7_8 d s =
     (let s = lapd_send_uframe LAPD_UFRAME_FUNC_UA (u_p_f d) s;
          s = lapd_clear_exception_conditions_procedure s;
          s = lapd_mdl_primitive (LAPD_MDL_ERROR_INDICATION {MDL_F}) s;
          s = lapd_start_T203 (lapd_stop_T200 s);
          s = reset_counters s
      in if v_s s \<noteq> v_a s
         then lapd_dl_primitive LAPD_DL_ESTABLISH_INDICATION 0 (lapd_discard_i_queue s)
         else s)"

definition lapd_socket_handle_uframe_sabme :: "octets \<Rightarrow> lapd_sock \<Rightarrow> lapd_sock" where
  "lapd_socket_handle_uframe_sabme d s =
     (case state s of
        LAPD_DLS_4_TEI_ASSIGNED \<Rightarrow>
          if sk_state s = LAPD_SK_STATE_NORMAL_DLC then
            (let s = lapd_clear_exception_conditions_procedure s;
                 s = reset_counters s;
                 s = lapd_start_T203 s;
                 s = lapd_change_state LAPD_DLS_7_LINK_CONNECTION_ESTABLISHED s;
                 s = lapd_send_uframe LAPD_UFRAME_FUNC_UA (u_p_f d) s
             in lapd_dl_primitive LAPD_DL_ESTABLISH_INDICATION 0 s)
          else lapd_send_uframe LAPD_UFRAME_FUNC_DM (u_p_f d) s
      | LAPD_DLS_5_AWAITING_ESTABLISH \<Rightarrow> lapd_send_uframe LAPD_UFRAME_FUNC_UA (u_p_f d) s
      | LAPD_DLS_6_AWAITING_RELEASE \<Rightarrow> lapd_send_uframe LAPD_UFRAME_FUNC_DM (u_p_f d) s
      | LAPD_DLS_7_LINK_CONNECTION_ESTABLISHED \<Rightarrow> sabme_7_8 d s
      | LAPD_DLS_8_TIMER_RECOVERY \<Rightarrow> sabme_7_8 d s
      | _ \<Rightarrow> s)"

definition lapd_socket_handle_uframe_ui :: "octets \<Rightarrow> lapd_sock \<Rightarrow> bool \<times> lapd_sock" where
  "lapd_socket_handle_uframe_ui d s = (True, lapd_dl_unit_data_indication d s)"

definition lapd_socket_handle_uframe_xid :: "octets \<Rightarrow> lapd_sock \<Rightarrow> lapd_sock" where
  "lapd_socket_handle_uframe_xid d s = s"

definition not_queued :: "lapd_sock res \<Rightarrow> (bool \<times> lapd_sock) res" where
  "not_queued r = bind_res r (\<lambda>s. Inr (False, s))"

definition lapd_socket_handle_uframe :: "octets \<Rightarrow> lapd_sock \<Rightarrow> (bool \<times> lapd_sock) res" where
  "lapd_socket_handle_uframe d s =
     (if lapd_uframe_function (hdr_control d) \<noteq> LAPD_UFRAME_FUNC_UI \<and> length d \<noteq> 5
      then not_queued (Inr (lapd_frame_reject LAPD_FE_LENGTH s))
      else case lapd_uframe_function (hdr_control d) of
             LAPD_UFRAME_FUNC_SABME \<Rightarrow> not_queued (Inr (lapd_socket_handle_uframe_sabme d s))
           | LAPD_UFRAME_FUNC_DM \<Rightarrow> not_queued (Inr (lapd_socket_handle_uframe_dm d s))
           | LAPD_UFRAME_FUNC_UI \<Rightarrow> Inr (lapd_socket_handle_uframe_ui d s)
           | LAPD_UFRAME_FUNC_DISC \<Rightarrow> not_queued (Inr (lapd_socket_handle_uframe_disc d s))
           | LAPD_UFRAME_FUNC_UA \<Rightarrow> not_queued (lapd_socket_handle_uframe_ua d s)
           | LAPD_UFRAME_FUNC_FRMR \<Rightarrow> not_queued (Inr (lapd_socket_handle_uframe_frmr d s))
           | LAPD_UFRAME_FUNC_XID \<Rightarrow> not_queued (Inr (lapd_socket_handle_uframe_xid d s))
           | LAPD_UFRAME_FUNC_INVALID \<Rightarrow>
               not_queued (Inr (lapd_frame_reject LAPD_FE_UNDEFINED_COMMAND s)))"

section \<open>Dispatch\<close>

definition lapd_dlc_recv :: "dlc_skb \<Rightarrow> lapd_sock \<Rightarrow> (bool \<times> lapd_sock) res" where
  "lapd_dlc_recv m s =
     (case m of
        Skb_mdl pri \<Rightarrow> Inr (True, lapd_mdl_recv pri s)
      | Skb_frame d \<Rightarrow>
          (case lapd_frame_type (hdr_control d) of
             LAPD_FRAME_TYPE_IFRAME \<Rightarrow> Inr (lapd_socket_handle_iframe d s)
           | LAPD_FRAME_TYPE_SFRAME \<Rightarrow> not_queued (lapd_socket_handle_sframe d s)
           | LAPD_FRAME_TYPE_UFRAME \<Rightarrow> lapd_socket_handle_uframe d s))"

section \<open>Service primitives of layer 3\<close>

definition lapd_utme_assign_indication :: "lapd_sock \<Rightarrow> lapd_sock res" where
  "lapd_utme_assign_indication s =
     (case usr_tme s of
        None \<Rightarrow> Inl NullDereference
      | Some t \<Rightarrow> Inr (s\<lparr>tm_out := tm_out s @ [Tm_assign_indication t]\<rparr>))"

definition lapd_dl_establish_request :: "lapd_sock \<Rightarrow> (int \<times> lapd_sock) res" where
  "lapd_dl_establish_request s =
     (case state s of
        LAPD_DLS_1_TEI_UNASSIGNED \<Rightarrow>
          bind_res (lapd_utme_assign_indication s)
            (\<lambda>s. Inr (0, lapd_change_state LAPD_DLS_3_ESTABLISH_AWAITING_TEI s))
      | LAPD_DLS_2_AWAITING_TEI \<Rightarrow> Inr (0, lapd_change_state LAPD_DLS_3_ESTABLISH_AWAITING_TEI s)
      | LAPD_DLS_3_ESTABLISH_AWAITING_TEI \<Rightarrow> Inr (0, s)
      | LAPD_DLS_4_TEI_ASSIGNED \<Rightarrow>
          let s = lapd_establish_datalink_procedure s;
              s = s\<lparr>layer_3_initiated := True\<rparr>
          in Inr (0, lapd_change_state LAPD_DLS_5_AWAITING_ESTABLISH s)
      | LAPD_DLS_5_AWAITING_ESTABLISH \<Rightarrow>
          let s = lapd_discard_i_queue (lapd_establish_datalink_procedure s)
          in Inr (0, s\<lparr>layer_3_initiated := True\<rparr>)
      | LAPD_DLS_7_LINK_CONNECTION_ESTABLISHED \<Rightarrow>
          let s = lapd_establish_datalink_procedure (lapd_discard_i_queue s);
              s = s\<lparr>layer_3_initiated := True\<rparr>
          in Inr (0, lapd_change_state LAPD_DLS_5_AWAITING_ESTABLISH s)
      | LAPD_DLS_8_TIMER_RECOVERY \<Rightarrow>
          let s = lapd_establish_datalink_procedure (lapd_discard_i_queue s);
              s = s\<lparr>layer_3_initiated := True\<rparr>
          in Inr (0, lapd_change_state LAPD_DLS_5_AWAITING_ESTABLISH s)
      | _ \<Rightarrow> Inr (- EINVAL, s))"

definition lapd_dl_release_request :: "lapd_sock \<Rightarrow> int \<times> lapd_sock" where
  "lapd_dl_release_request s =
     (case state s of
        LAPD_DLS_4_TEI_ASSIGNED \<Rightarrow> (0, lapd_dl_primitive LAPD_DL_RELEASE_CONFIRM 0 s)
      | LAPD_DLS_5_AWAITING_ESTABLISH \<Rightarrow> (0, s)
      | LAPD_DLS_7_LINK_CONNECTION_ESTABLISHED \<Rightarrow>
          let s = (lapd_discard_i_queue s)\<lparr>retrans_cnt := 0\<rparr>;
              s = lapd_send_uframe LAPD_UFRAME_FUNC_DISC True s;
              s = lapd_stop_T203 (lapd_start_T200 s)
          in (0, lapd_change_state LAPD_DLS_6_AWAITING_RELEASE s)
      | LAPD_DLS_8_TIMER_RECOVERY \<Rightarrow>
          let s = (lapd_discard_i_queue s)\<lparr>retrans_cnt := 0\<rparr>;
              s = lapd_send_uframe LAPD_UFRAME_FUNC_DISC True s;
              s = lapd_start_T200 s
          in (0, lapd_change_state LAPD_DLS_6_AWAITING_RELEASE s)
      | _ \<Rightarrow> (- EINVAL, s))"

definition lapd_dl_data_request :: "skb \<Rightarrow> lapd_sock \<Rightarrow> lapd_sock res" where
  "lapd_dl_data_request b s =
     (case state s of
        LAPD_DLS_4_TEI_ASSIGNED \<Rightarrow> Inr s
      | LAPD_DLS_5_AWAITING_ESTABLISH \<Rightarrow>
          Inr (if layer_3_initiated s then lapd_sock_queue_iframe b s else s)
      | LAPD_DLS_7_LINK_CONNECTION_ESTABLISHED \<Rightarrow> lapd_run_i_queue (lapd_sock_queue_iframe b s)
      | LAPD_DLS_8_TIMER_RECOVERY \<Rightarrow> Inr (lapd_sock_queue_iframe b s)
      | _ \<Rightarrow> Inr s)"

definition lapd_dl_unit_data_request :: "octets \<Rightarrow> lapd_sock \<Rightarrow> lapd_sock res" where
  "lapd_dl_unit_data_request d s =
     (case state s of
        LAPD_DLS_1_TEI_UNASSIGNED \<Rightarrow>
          lapd_utme_assign_indication
            (lapd_change_state LAPD_DLS_2_AWAITING_TEI (lapd_sock_queue_uframe d s))
      | LAPD_DLS_2_AWAITING_TEI \<Rightarrow> Inr (lapd_sock_queue_uframe d s)
      | LAPD_DLS_3_ESTABLISH_AWAITING_TEI \<Rightarrow> Inr (lapd_sock_queue_uframe d s)
      | _ \<Rightarrow> Inr (lapd_run_ui_queue (lapd_sock_queue_uframe d s)))"

section \<open>Timers\<close>

text \<open>
  The expired timer is no longer pending when its function runs. While a process owns the
  socket both functions put off their work by arming T200 again.
\<close>

definition lapd_timer_T200 :: "lapd_sock \<Rightarrow> lapd_sock" where
  "lapd_timer_T200 s0 =
     (let s = s0\<lparr>timer_T200 := False\<rparr> in
      if sk_owned_by_user s then s\<lparr>timer_T200 := True\<rparr>
      else case state s of
        LAPD_DLS_5_AWAITING_ESTABLISH \<Rightarrow>
          if retrans_cnt s = sap_N200 (sap s) then
            (let s = lapd_discard_i_queue s;
                 s = lapd_change_state LAPD_DLS_4_TEI_ASSIGNED s;
                 s = lapd_mdl_primitive (LAPD_MDL_ERROR_INDICATION {MDL_G}) s
             in lapd_dl_primitive LAPD_DL_RELEASE_INDICATION 0 s)
          else
            (let s = s\<lparr>retrans_cnt := retrans_cnt s + 1\<rparr>;
                 s = lapd_send_uframe LAPD_UFRAME_FUNC_SABME True s
             in lapd_start_T200 s)
      | LAPD_DLS_6_AWAITING_RELEASE \<Rightarrow>
          if retrans_cnt s = sap_N200 (sap s) then
            (let s = lapd_change_state LAPD_DLS_4_TEI_ASSIGNED s;
                 s = lapd_dl_primitive LAPD_DL_RELEASE_CONFIRM 0 s
             in lapd_mdl_primitive (LAPD_MDL_ERROR_INDICATION {MDL_H}) s)
          else
            (let s = s\<lparr>retrans_cnt := retrans_cnt s + 1\<rparr>;
                 s = lapd_send_uframe LAPD_UFRAME_FUNC_DISC True s
             in lapd_start_T200 s)
      | LAPD_DLS_7_LINK_CONNECTION_ESTABLISHED \<Rightarrow>
          let s = lapd_transmit_enquiry_procedure (s\<lparr>retrans_cnt := 0\<rparr>);
              s = s\<lparr>retrans_cnt := retrans_cnt s + 1\<rparr>
          in lapd_change_state LAPD_DLS_8_TIMER_RECOVERY s
      | LAPD_DLS_8_TIMER_RECOVERY \<Rightarrow>
          if retrans_cnt s = sap_N200 (sap s) then
            (let s = lapd_mdl_primitive (LAPD_MDL_ERROR_INDICATION {MDL_I}) s;
                 s = lapd_establish_datalink_procedure s;
                 s = s\<lparr>layer_3_initiated := False\<rparr>
             in lapd_change_state LAPD_DLS_5_AWAITING_ESTABLISH s)
          else
            (let s = lapd_transmit_enquiry_procedure s
             in s\<lparr>retrans_cnt := retrans_cnt s + 1\<rparr>)
      | _ \<Rightarrow> s)"

definition lapd_timer_T203 :: "lapd_sock \<Rightarrow> lapd_sock" where
  "lapd_timer_T203 s0 =
     (let s = s0\<lparr>timer_T203 := False\<rparr> in
      if sk_owned_by_user s then s\<lparr>timer_T200 := True\<rparr>
      else case state s of
        LAPD_DLS_7_LINK_CONNECTION_ESTABLISHED \<Rightarrow>
          let s = (lapd_transmit_enquiry_procedure s)\<lparr>retrans_cnt := 0\<rparr>
          in lapd_change_state LAPD_DLS_8_TIMER_RECOVERY s
      | _ \<Rightarrow> s)"

definition lapd_datalink_state_init :: "lapd_sock \<Rightarrow> lapd_sock" where
  "lapd_datalink_state_init s =
     s\<lparr>timer_T200 := False, timer_T203 := False, state := LAPD_DLS_NULL,
       peer_receiver_busy := False, own_receiver_busy := False,
       reject_exception := False, acknowledge_pending := False\<rparr>"

section \<open>Event interface\<close>

text \<open>
  The entry points of the data link entity as one transition function. The bottom half hands in
  frames and primitives; they go to the backlog while a process owns the socket. A process takes
  the socket, calls the service primitives, and when it gives the socket up \<open>lapd_backlog_rcv\<close> first
  runs on the backlog, one entry after the other with the socket still owned. A timer function runs
  when its timer is pending. Reading from the receive queue gives receive memory back.
\<close>

datatype dl_event =
    Dl_recv dlc_skb
  | Dl_lock
  | Dl_backlog
  | Dl_unlock
  | Dl_establish
  | Dl_release
  | Dl_data skb
  | Dl_unit_data octets
  | Dl_T200
  | Dl_T203
  | Dl_rx_consumed nat

definition lapd_pass_frame_to_socket :: "dlc_skb \<Rightarrow> lapd_sock \<Rightarrow> (bool \<times> lapd_sock) res" where
  "lapd_pass_frame_to_socket m s =
     (if \<not> sk_owned_by_user s then lapd_dlc_recv m s
      else Inr (True, s\<lparr>sk_backlog := sk_backlog s @ [m]\<rparr>))"

definition lapd_backlog_rcv :: "dlc_skb \<Rightarrow> lapd_sock \<Rightarrow> lapd_sock res" where
  "lapd_backlog_rcv m s = bind_res (lapd_dlc_recv m s) (\<lambda>r. Inr (snd r))"

fun dl_step :: "dl_event \<Rightarrow> lapd_sock \<Rightarrow> lapd_sock res" where
  "dl_step (Dl_recv m) s = bind_res (lapd_pass_frame_to_socket m s) (\<lambda>r. Inr (snd r))"
| "dl_step Dl_lock s = Inr (s\<lparr>sk_owned_by_user := True\<rparr>)"
| "dl_step Dl_backlog s =
     (case sk_backlog s of [] \<Rightarrow> Inr s | m # ms \<Rightarrow> lapd_backlog_rcv m (s\<lparr>sk_backlog := ms\<rparr>))"
| "dl_step Dl_unlock s =
     Inr (if sk_backlog s = [] then s\<lparr>sk_owned_by_user := False\<rparr> else s)"
| "dl_step Dl_establish s = bind_res (lapd_dl_establish_request s) (\<lambda>r. Inr (snd r))"
| "dl_step Dl_release s = Inr (snd (lapd_dl_release_request s))"
| "dl_step (Dl_data b) s = lapd_dl_data_request b s"
| "dl_step (Dl_unit_data d) s = lapd_dl_unit_data_request d s"
| "dl_step Dl_T200 s = Inr (if timer_T200 s then lapd_timer_T200 s else s)"
| "dl_step Dl_T203 s = Inr (if timer_T203 s then lapd_timer_T203 s else s)"
| "dl_step (Dl_rx_consumed n) s = Inr (s\<lparr>sk_rmem_alloc := sk_rmem_alloc s - n\<rparr>)"

end
