(* ===== verification/Lapd_Timers.thy ===== *)
theory Lapd_Timers
  imports Lapd_Datalink
begin

text \<open>
  The supervision of a data link by its timers: while the entity waits for an answer of its peer
  T200 is pending, an established link is always supervised by T200 or T203, and the
  retransmission counter makes every wait end.
\<close>

section \<open>Operations as record updates\<close>

lemma lapd_send_uframe_upd:
  "lapd_send_uframe func p_f s =
     s\<lparr>ph_out := ph_out s @ (case lapd_prepare_uframe s func p_f of Inl _ \<Rightarrow> [] | Inr d \<Rightarrow> [d])\<rparr>"
  by (auto simp: lapd_send_uframe_def ph_data_request_def split: sum.splits)

lemma lapd_send_sframe_upd:
  "lapd_send_sframe c_r func p_f s = s\<lparr>ph_out := ph_out s @ [lapd_prepare_sframe s c_r func p_f]\<rparr>"
  by (simp add: lapd_send_sframe_def ph_data_request_def)

lemmas sock_upds =
  lapd_send_uframe_upd lapd_send_sframe_upd lapd_start_T200_def lapd_stop_T200_def lapd_start_T203_def
  lapd_stop_T203_def lapd_change_state_def lapd_clear_exception_conditions_procedure_def
  lapd_establish_datalink_procedure_def lapd_transmit_enquiry_procedure_def
  lapd_enquiry_response_procedure_def lapd_discard_ui_queue_def lapd_discard_i_queue_def
  lapd_dl_primitive_def reset_counters_def Let_def

text \<open>
  Only the indications C, D, G and H make layer management act; any other one leaves the socket
  as it is, or is put on its backlog.
\<close>

lemma mdl_error_no_action:
  "MDL_C \<notin> ind \<Longrightarrow> MDL_D \<notin> ind \<Longrightarrow> MDL_G \<notin> ind \<Longrightarrow> MDL_H \<notin> ind \<Longrightarrow>
   lapd_mdl_primitive (LAPD_MDL_ERROR_INDICATION ind) s =
     s\<lparr>sk_backlog := sk_backlog s @
         (if sk_owned_by_user s then [Skb_mdl (LAPD_MDL_ERROR_INDICATION ind)] else [])\<rparr>"
  by (simp add: lapd_mdl_primitive_def lapd_mdl_recv_def lapd_mdl_error_indication_def)

lemma frame_reject_indication_cases: "frame_reject_indication err \<in> {MDL_N, MDL_O}"
  by (simp add: frame_reject_indication_def)

lemma lapd_nr_error_recovery_upd:
  "lapd_nr_error_recovery_procedure s =
     (lapd_establish_datalink_procedure
        (s\<lparr>sk_backlog := sk_backlog s @
            (if sk_owned_by_user s then [Skb_mdl (LAPD_MDL_ERROR_INDICATION {MDL_J})] else [])\<rparr>))
     \<lparr>layer_3_initiated := False\<rparr>"
  by (simp add: lapd_nr_error_recovery_procedure_def mdl_error_no_action)

lemma lapd_frame_reject_upd:
  "\<exists>b. lapd_frame_reject err s =
     (if in_7 s \<or> in_8 s
      then (lapd_establish_datalink_procedure (s\<lparr>sk_backlog := b\<rparr>))
             \<lparr>layer_3_initiated := False, state := LAPD_DLS_5_AWAITING_ESTABLISH\<rparr>
      else s\<lparr>sk_backlog := b\<rparr>)"
  using frame_reject_indication_cases [of err]
  by (auto simp: lapd_frame_reject_def Let_def mdl_error_no_action lapd_change_state_def)

lemmas mdl_upds =
  lapd_mdl_primitive_def lapd_mdl_recv_def lapd_mdl_error_indication_def remove_self_def
  lapd_mdl_remove_request_def

text \<open>The transmit loop changes the queue, its cursor, the timers, V(S) and the output only.\<close>

lemma run_i_loop_frame [simp]:
  "state (lapd_run_i_loop bs s) = state s"
  "v_a (lapd_run_i_loop bs s) = v_a s"
  "v_r (lapd_run_i_loop bs s) = v_r s"
  "sap (lapd_run_i_loop bs s) = sap s"
  "retrans_cnt (lapd_run_i_loop bs s) = retrans_cnt s"
  "peer_receiver_busy (lapd_run_i_loop bs s) = peer_receiver_busy s"
  "own_receiver_busy (lapd_run_i_loop bs s) = own_receiver_busy s"
  "sk_receive_queue (lapd_run_i_loop bs s) = sk_receive_queue s"
  "sk_state (lapd_run_i_loop bs s) = sk_state s"
  "tei (lapd_run_i_loop bs s) = tei s"
  "sapi (lapd_run_i_loop bs s) = sapi s"
  "role (lapd_run_i_loop bs s) = role s"
  "map skb_ptr (sk_write_queue (lapd_run_i_loop bs s)) = map skb_ptr (sk_write_queue s)"
  by (induction bs arbitrary: s) (simp_all add: Let_def ph_data_request_def write_skb_def comp_def if_distrib)

lemma run_i_loop_timers:
  "timer_T200 s \<or> timer_T203 s \<Longrightarrow>
   timer_T200 (lapd_run_i_loop bs s) \<or> timer_T203 (lapd_run_i_loop bs s)"
  by (induction bs arbitrary: s) (simp_all add: Let_def ph_data_request_def)

lemma run_i_queue_cases:
  "lapd_run_i_queue s = Inr t \<Longrightarrow> t = s \<or> in_7 s \<and> (\<exists>bs. t = lapd_run_i_loop bs s)"
  by (auto simp: lapd_run_i_queue_def split: if_splits option.splits)

section \<open>Supervision\<close>

fun supervised :: "lapd_datalink_state \<Rightarrow> bool \<Rightarrow> bool \<Rightarrow> nat \<Rightarrow> nat \<Rightarrow> bool" where
  "supervised LAPD_DLS_5_AWAITING_ESTABLISH t200 t203 cnt n = (t200 \<and> cnt \<le> n)"
| "supervised LAPD_DLS_6_AWAITING_RELEASE t200 t203 cnt n = (t200 \<and> cnt \<le> n)"
| "supervised LAPD_DLS_7_LINK_CONNECTION_ESTABLISHED t200 t203 cnt n = (t200 \<or> t203)"
| "supervised LAPD_DLS_8_TIMER_RECOVERY t200 t203 cnt n = (t200 \<and> cnt \<le> n)"
| "supervised _ t200 t203 cnt n = True"

text \<open>
  N200 is at least 1: it starts as 3 (device.c) and \<open>setsockopt\<close> accepts 1 to 30 only.
\<close>

definition timers_ok :: "lapd_sock \<Rightarrow> bool" where
  "timers_ok s \<longleftrightarrow> 1 \<le> sap_N200 (sap s) \<and>
     supervised (state s) (timer_T200 s) (timer_T203 s) (retrans_cnt s) (sap_N200 (sap s))"

lemma timers_ok_N200: "timers_ok s \<Longrightarrow> Suc 0 \<le> sap_N200 (sap s)"
  by (simp add: timers_ok_def)

lemma sap_frame [simp]:
  "sap (lapd_mdl_recv pri s) = sap s"
  "sap (lapd_mdl_primitive pri s) = sap s"
  "sap (lapd_discard_i_queue s) = sap s"
  "sap (lapd_enquiry_response_procedure s) = sap s"
  by (cases pri; cases "state s";
      simp add: mdl_upds sock_upds lapd_mdl_assign_request_def lapd_mdl_error_response_def
        lapd_persistent_deactivation_def split: option.splits)+

lemma timers_ok_run: "lapd_run_i_queue s = Inr t \<Longrightarrow> timers_ok s \<Longrightarrow> timers_ok t"
  by (drule run_i_queue_cases, elim disjE conjE exE, simp)
     (simp add: timers_ok_def run_i_loop_timers)

lemma timers_ok_retransmit:
  "lapd_invoke_retransmission_procedure s = Inr t \<Longrightarrow> timers_ok s \<Longrightarrow> timers_ok t"
  unfolding lapd_invoke_retransmission_procedure_def Let_def
  by (drule timers_ok_run) (auto simp: timers_ok_def split: list.splits)

lemma timers_ok_establish [simp]:
  "timers_ok ((lapd_establish_datalink_procedure s)\<lparr>layer_3_initiated := b, state := LAPD_DLS_5_AWAITING_ESTABLISH\<rparr>) =
     (Suc 0 \<le> sap_N200 (sap s))"
  by (simp add: timers_ok_def sock_upds)

lemma timers_ok_reject: "timers_ok s \<Longrightarrow> timers_ok (lapd_frame_reject err s)"
  using lapd_frame_reject_upd [of err s] by (auto simp: timers_ok_def sock_upds)

lemma timers_ok_nr_error [simp]:
  "timers_ok (lapd_nr_error_recovery_procedure (lapd_change_state LAPD_DLS_5_AWAITING_ESTABLISH s)) =
     (Suc 0 \<le> sap_N200 (sap s))"
  "timers_ok (lapd_change_state LAPD_DLS_5_AWAITING_ESTABLISH (lapd_nr_error_recovery_procedure s)) =
     (Suc 0 \<le> sap_N200 (sap s))"
  by (simp_all add: timers_ok_def sock_upds lapd_nr_error_recovery_upd)

lemma timers_ok_mdl: "timers_ok s \<Longrightarrow> timers_ok (lapd_mdl_recv pri s)"
  by (cases pri; cases "state s")
     (auto simp: timers_ok_def mdl_upds sock_upds lapd_mdl_assign_request_def lapd_mdl_error_response_def
        lapd_persistent_deactivation_def split: option.splits)

lemma ack_va_frame [simp]:
  "state (lapd_ack_va n s) = state s"
  "timer_T200 (lapd_ack_va n s) = timer_T200 s"
  "timer_T203 (lapd_ack_va n s) = timer_T203 s"
  "v_s (lapd_ack_va n s) = v_s s"
  "v_r (lapd_ack_va n s) = v_r s"
  "v_a (lapd_ack_va n s) = n"
  "sap (lapd_ack_va n s) = sap s"
  "retrans_cnt (lapd_ack_va n s) = retrans_cnt s"
  "sk_send_head (lapd_ack_va n s) = sk_send_head s"
  "peer_receiver_busy (lapd_ack_va n s) = peer_receiver_busy s"
  by (simp_all add: lapd_ack_va_def lapd_ack_frames_def)

lemma iframe_receive_frame [simp]:
  "state (snd (iframe_receive c d s)) = state s"
  "timer_T200 (snd (iframe_receive c d s)) = timer_T200 s"
  "timer_T203 (snd (iframe_receive c d s)) = timer_T203 s"
  "v_s (snd (iframe_receive c d s)) = v_s s"
  "v_a (snd (iframe_receive c d s)) = v_a s"
  "sap (snd (iframe_receive c d s)) = sap s"
  "retrans_cnt (snd (iframe_receive c d s)) = retrans_cnt s"
  "sk_send_head (snd (iframe_receive c d s)) = sk_send_head s"
  "sk_write_queue (snd (iframe_receive c d s)) = sk_write_queue s"
  "peer_receiver_busy (snd (iframe_receive c d s)) = peer_receiver_busy s"
  by (simp_all add: iframe_receive_def sock_upds lapd_dl_data_indication_def)

lemma receiver_busy_frame [simp]:
  "state (lapd_clear_own_receiver_busy s) = state s"
  "timer_T200 (lapd_clear_own_receiver_busy s) = timer_T200 s"
  "timer_T203 (lapd_clear_own_receiver_busy s) = timer_T203 s"
  "state (lapd_set_own_receiver_busy s) = state s"
  "timer_T200 (lapd_set_own_receiver_busy s) = timer_T200 s"
  "timer_T203 (lapd_set_own_receiver_busy s) = timer_T203 s"
  "sap (lapd_clear_own_receiver_busy s) = sap s"
  "sap (lapd_set_own_receiver_busy s) = sap s"
  "retrans_cnt (lapd_clear_own_receiver_busy s) = retrans_cnt s"
  "retrans_cnt (lapd_set_own_receiver_busy s) = retrans_cnt s"
  by (simp_all add: lapd_clear_own_receiver_busy_def lapd_set_own_receiver_busy_def sock_upds)

lemma timers_ok_iframe_ack_7: "in_7 s \<Longrightarrow> timers_ok s \<Longrightarrow> timers_ok (iframe_ack_7 d s)"
  by (simp add: iframe_ack_7_def timers_ok_def sock_upds lapd_nr_error_recovery_upd)

lemma timers_ok_iframe_ack_8: "in_8 s \<Longrightarrow> timers_ok s \<Longrightarrow> timers_ok (iframe_ack_8 d s)"
  by (simp add: iframe_ack_8_def timers_ok_def sock_upds lapd_nr_error_recovery_upd)

lemma timers_ok_iframe: "timers_ok s \<Longrightarrow> timers_ok (snd (lapd_socket_handle_iframe d s))"
proof -
  assume a: "timers_ok s"
  define s1 where "s1 = (if sk_rmem_alloc s < sk_rcvbuf s \<and> own_receiver_busy s
                 then lapd_clear_own_receiver_busy s else s)"
  have s1: "timers_ok s1" using a by (simp add: s1_def timers_ok_def)
  have "timers_ok (lapd_set_own_receiver_busy s1)" using s1 by (simp add: timers_ok_def)
  moreover have "in_7 s1 \<Longrightarrow> timers_ok (iframe_ack_7 d (snd (iframe_receive True d s1)))"
    using s1 by (intro timers_ok_iframe_ack_7) (simp_all add: timers_ok_def)
  moreover have "in_8 s1 \<Longrightarrow> timers_ok (iframe_ack_8 d (snd (iframe_receive False d s1)))"
    using s1 by (intro timers_ok_iframe_ack_8) (simp_all add: timers_ok_def)
  ultimately show ?thesis
    using s1 a timers_ok_reject [of s LAPD_FE_N201]
    by (simp add: lapd_socket_handle_iframe_def s1_def [symmetric] Let_def case_prod_beta
        split: lapd_datalink_state.split)
qed

lemma sframe_poll_7_frame [simp]:
  "state (sframe_poll_7 d s) = state s"
  "timer_T200 (sframe_poll_7 d s) = timer_T200 s"
  "timer_T203 (sframe_poll_7 d s) = timer_T203 s"
  "v_s (sframe_poll_7 d s) = v_s s"
  "v_a (sframe_poll_7 d s) = v_a s"
  "v_r (sframe_poll_7 d s) = v_r s"
  "sap (sframe_poll_7 d s) = sap s"
  "retrans_cnt (sframe_poll_7 d s) = retrans_cnt s"
  "sk_send_head (sframe_poll_7 d s) = sk_send_head s"
  "sk_write_queue (sframe_poll_7 d s) = sk_write_queue s"
  "peer_receiver_busy (sframe_poll_7 d s) = peer_receiver_busy s"
  by (simp_all add: sframe_poll_7_def mdl_error_no_action sock_upds)

lemma timers_ok_ack_8: "in_8 s \<Longrightarrow> timers_ok s \<Longrightarrow> timers_ok (sframe_ack_8 d s)"
  by (simp add: sframe_ack_8_def) (simp add: timers_ok_def)

lemma timers_ok_enquiry [simp]: "timers_ok (lapd_enquiry_response_procedure s) = timers_ok s"
  "state (lapd_enquiry_response_procedure s) = state s"
  by (simp_all add: timers_ok_def sock_upds)

lemma timers_ok_upd [simp]:
  "timers_ok (s\<lparr>peer_receiver_busy := b\<rparr>) = timers_ok s"
  "timers_ok (s\<lparr>sk_backlog := m\<rparr>) = timers_ok s"
  "timers_ok (s\<lparr>sk_owned_by_user := b\<rparr>) = timers_ok s"
  "timers_ok (s\<lparr>sk_rmem_alloc := n\<rparr>) = timers_ok s"
  "timers_ok (s\<lparr>sk_rmem_alloc := n, sk_receive_queue := q\<rparr>) = timers_ok s"
  by (simp_all add: timers_ok_def)

lemma timers_ok_poll [simp]: "timers_ok (sframe_poll_7 d s) = timers_ok s"
  by (simp add: timers_ok_def)

lemma timers_ok_supervise:
  "in_7 s \<Longrightarrow> timers_ok (lapd_start_T203 (lapd_stop_T200 s)) = (Suc 0 \<le> sap_N200 (sap s))"
  "in_7 s \<Longrightarrow> timers_ok (lapd_start_T200 s) = (Suc 0 \<le> sap_N200 (sap s))"
  "in_7 s \<Longrightarrow> timers_ok (lapd_start_T200 (lapd_stop_T203 s)) = (Suc 0 \<le> sap_N200 (sap s))"
  "timers_ok (lapd_change_state LAPD_DLS_7_LINK_CONNECTION_ESTABLISHED (lapd_start_T203 (lapd_stop_T200 s))) =
     (Suc 0 \<le> sap_N200 (sap s))"
  "timers_ok (lapd_change_state LAPD_DLS_7_LINK_CONNECTION_ESTABLISHED (lapd_start_T200 s)) =
     (Suc 0 \<le> sap_N200 (sap s))"
  by (simp_all add: timers_ok_def sock_upds)

lemma timers_ok_rr: "timers_ok s \<Longrightarrow> lapd_socket_handle_sframe_rr d s = Inr t \<Longrightarrow> timers_ok t"
  by (cases "state s")
     (auto simp: lapd_socket_handle_sframe_rr_def Let_def timers_ok_supervise timers_ok_N200
       intro!: timers_ok_ack_8 elim!: timers_ok_retransmit split: if_splits)

lemma retransmit_frame:
  "lapd_invoke_retransmission_procedure s = Inr t \<Longrightarrow> state t = state s"
  "lapd_invoke_retransmission_procedure s = Inr t \<Longrightarrow> sap t = sap s"
  unfolding lapd_invoke_retransmission_procedure_def Let_def
  by (drule run_i_queue_cases; auto split: list.splits)+

lemma timers_ok_rnr: "timers_ok s \<Longrightarrow> lapd_socket_handle_sframe_rnr d s = Inr t \<Longrightarrow> timers_ok t"
  by (cases "state s")
     (auto simp: lapd_socket_handle_sframe_rnr_def Let_def timers_ok_supervise bind_res_eq_Inr
       timers_ok_N200 retransmit_frame intro!: timers_ok_ack_8 elim!: timers_ok_retransmit split: if_splits)

lemma timers_ok_rej: "timers_ok s \<Longrightarrow> lapd_socket_handle_sframe_rej d s = Inr t \<Longrightarrow> timers_ok t"
  by (cases "state s")
     (auto simp: lapd_socket_handle_sframe_rej_def Let_def timers_ok_supervise timers_ok_N200
       intro!: timers_ok_ack_8 elim!: timers_ok_retransmit split: if_splits)

lemma timers_ok_sframe: "timers_ok s \<Longrightarrow> lapd_socket_handle_sframe d s = Inr t \<Longrightarrow> timers_ok t"
  by (auto simp: lapd_socket_handle_sframe_def timers_ok_reject
      elim: timers_ok_rr timers_ok_rnr timers_ok_rej split: if_splits lapd_sframe_function_e.splits)

lemma timers_ok_mdl_primitive: "timers_ok s \<Longrightarrow> timers_ok (lapd_mdl_primitive pri s)"
  by (simp add: lapd_mdl_primitive_def timers_ok_mdl)

lemma timers_ok_dl_primitive [simp]: "timers_ok (lapd_dl_primitive p a s) = timers_ok s"
  by (simp add: timers_ok_def lapd_dl_primitive_def)

lemma timers_ok_send_uframe [simp]: "timers_ok (lapd_send_uframe f p s) = timers_ok s"
  by (simp add: timers_ok_def sock_upds)

lemma timers_ok_change_state_4 [simp]: "timers_ok (lapd_change_state LAPD_DLS_4_TEI_ASSIGNED s) = (Suc 0 \<le> sap_N200 (sap s))"
  by (simp add: timers_ok_def sock_upds)

lemma timers_ok_establish_5 [simp]:
  "timers_ok (lapd_change_state LAPD_DLS_5_AWAITING_ESTABLISH
     ((lapd_establish_datalink_procedure s)\<lparr>layer_3_initiated := b\<rparr>)) = (Suc 0 \<le> sap_N200 (sap s))"
  by (simp add: timers_ok_def sock_upds)

lemma timers_ok_ua: "timers_ok s \<Longrightarrow> lapd_socket_handle_uframe_ua d s = Inr t \<Longrightarrow> timers_ok t"
  by (cases "state s")
     (auto simp: lapd_socket_handle_uframe_ua_def Let_def timers_ok_mdl_primitive
        lapd_change_state_def reset_counters_def lapd_start_T203_def lapd_stop_T200_def
        elim!: timers_ok_run split: if_splits, simp_all add: timers_ok_def)

lemma timers_ok_disc: "timers_ok s \<Longrightarrow> timers_ok (lapd_socket_handle_uframe_disc d s)"
  by (cases "state s") (auto simp: lapd_socket_handle_uframe_disc_def Let_def dest: timers_ok_N200, simp_all add: sock_upds timers_ok_N200)

lemma timers_ok_dm: "timers_ok s \<Longrightarrow> timers_ok (lapd_socket_handle_uframe_dm d s)"
  by (cases "state s") (auto simp: lapd_socket_handle_uframe_dm_def Let_def timers_ok_mdl_primitive timers_ok_N200, simp_all add: sock_upds timers_ok_N200)

lemma timers_ok_frmr: "timers_ok s \<Longrightarrow> timers_ok (lapd_socket_handle_uframe_frmr d s)"
  by (simp add: lapd_socket_handle_uframe_frmr_def Let_def timers_ok_N200)

lemma timers_ok_sabme: "\<not> in_8 s \<Longrightarrow> timers_ok s \<Longrightarrow> timers_ok (lapd_socket_handle_uframe_sabme d s)"
  by (cases "state s")
     (auto simp: lapd_socket_handle_uframe_sabme_def sabme_7_8_def Let_def,
      auto simp: timers_ok_def sock_upds mdl_error_no_action)

definition is_sabme :: "octets \<Rightarrow> bool" where
  "is_sabme d \<longleftrightarrow> lapd_frame_type (hdr_control d) = LAPD_FRAME_TYPE_UFRAME \<and>
     lapd_uframe_function (hdr_control d) = LAPD_UFRAME_FUNC_SABME \<and> length d = 5"

lemma timers_ok_uframe:
  assumes "timers_ok s" "in_8 s \<longrightarrow> \<not> is_sabme d" "lapd_frame_type (hdr_control d) = LAPD_FRAME_TYPE_UFRAME"
    "lapd_socket_handle_uframe d s = Inr r"
  shows "timers_ok (snd r)"
  using assms
  by (cases "lapd_uframe_function (hdr_control d)")
     (auto simp: lapd_socket_handle_uframe_def not_queued_def bind_res_eq_Inr is_sabme_def
       timers_ok_reject timers_ok_sabme timers_ok_dm timers_ok_disc timers_ok_frmr
       lapd_socket_handle_uframe_xid_def lapd_socket_handle_uframe_ui_def
       lapd_dl_unit_data_indication_def elim: timers_ok_ua split: if_splits)

lemma timers_ok_dlc_recv:
  assumes "timers_ok s" "lapd_dlc_recv m s = Inr r" "\<forall>d. m = Skb_frame d \<longrightarrow> in_8 s \<longrightarrow> \<not> is_sabme d"
  shows "timers_ok (snd r)"
proof (cases m)
  case (Skb_mdl pri)
  then show ?thesis using assms by (auto simp: lapd_dlc_recv_def timers_ok_mdl)
next
  case (Skb_frame d)
  then show ?thesis
    using assms
    by (cases "lapd_frame_type (hdr_control d)")
       (auto simp: lapd_dlc_recv_def not_queued_def bind_res_eq_Inr timers_ok_iframe
         elim: timers_ok_sframe timers_ok_uframe)
qed

lemma timers_ok_T200: "timers_ok s \<Longrightarrow> timers_ok (lapd_timer_T200 s)"
proof -
  assume a: "timers_ok s"
  let ?s = "s\<lparr>timer_T200 := False\<rparr>"
  have b: "timers_ok (lapd_mdl_primitive p (lapd_change_state LAPD_DLS_4_TEI_ASSIGNED t))"
    if "sap t = sap s" for p t
    using that timers_ok_N200 [OF a] by (intro timers_ok_mdl_primitive) simp
  have c: "timers_ok (lapd_mdl_primitive p (lapd_dl_primitive q n (lapd_change_state LAPD_DLS_4_TEI_ASSIGNED t)))"
    if "sap t = sap s" for p q n t
    using that timers_ok_N200 [OF a] by (intro timers_ok_mdl_primitive) simp
  show ?thesis
    using a b [of "lapd_discard_i_queue ?s" "LAPD_MDL_ERROR_INDICATION {MDL_G}"]
      c [of ?s "LAPD_MDL_ERROR_INDICATION {MDL_H}" LAPD_DL_RELEASE_CONFIRM 0]
    by (cases "state s")
       (simp_all add: lapd_timer_T200_def Let_def timers_ok_N200,
        simp_all add: timers_ok_def sock_upds)
qed

lemma timers_ok_T203: "timers_ok s \<Longrightarrow> timers_ok (lapd_timer_T203 s)"
  by (cases "state s") (auto simp: lapd_timer_T203_def timers_ok_def sock_upds)

lemma timers_ok_queue_iframe [simp]: "timers_ok (lapd_sock_queue_iframe b s) = timers_ok s"
  by (simp add: lapd_sock_queue_iframe_def Let_def timers_ok_def)

lemma timers_ok_run_ui [simp]: "timers_ok (lapd_run_ui_loop q s) = timers_ok s"
  by (induction q arbitrary: s) (simp_all add: timers_ok_def ph_data_request_def)

lemma timers_ok_data: "timers_ok s \<Longrightarrow> lapd_dl_data_request b s = Inr t \<Longrightarrow> timers_ok t"
  by (cases "state s") (auto simp: lapd_dl_data_request_def elim!: timers_ok_run)

lemma timers_ok_unit_data: "timers_ok s \<Longrightarrow> lapd_dl_unit_data_request d s = Inr t \<Longrightarrow> timers_ok t"
  by (cases "state s")
     (auto simp: lapd_dl_unit_data_request_def lapd_utme_assign_indication_def lapd_run_ui_queue_def
       lapd_sock_queue_uframe_def lapd_change_state_def split: option.splits, simp_all add: timers_ok_def)

lemma timers_ok_establish_request:
  "timers_ok s \<Longrightarrow> lapd_dl_establish_request s = Inr (r, t) \<Longrightarrow> timers_ok t"
  by (cases "state s")
     (auto simp: lapd_dl_establish_request_def lapd_utme_assign_indication_def bind_res_eq_Inr
       split: option.splits, auto simp: timers_ok_def sock_upds)

lemma timers_ok_release_request: "timers_ok s \<Longrightarrow> timers_ok (snd (lapd_dl_release_request s))"
  by (cases "state s") (auto simp: lapd_dl_release_request_def timers_ok_def sock_upds)

text \<open>The frame an event has the data link entity process now, if any.\<close>

definition processed_frame :: "dl_event \<Rightarrow> lapd_sock \<Rightarrow> octets option" where
  "processed_frame e s =
     (case e of
        Dl_recv (Skb_frame d) \<Rightarrow> if sk_owned_by_user s then None else Some d
      | Dl_backlog \<Rightarrow> (case sk_backlog s of Skb_frame d # _ \<Rightarrow> Some d | _ \<Rightarrow> None)
      | _ \<Rightarrow> None)"

definition no_sabme_in_8 :: "dl_event \<Rightarrow> lapd_sock \<Rightarrow> bool" where
  "no_sabme_in_8 e s \<longleftrightarrow> (case processed_frame e s of None \<Rightarrow> True | Some d \<Rightarrow> \<not> (in_8 s \<and> is_sabme d))"

lemma timers_ok_step:
  assumes "no_sabme_in_8 e s" "timers_ok s" "dl_step e s = Inr t"
  shows "timers_ok t"
proof (cases e)
  case (Dl_recv m)
  then show ?thesis
    using assms timers_ok_dlc_recv [of s m]
    by (cases m)
       (auto simp: bind_res_eq_Inr lapd_pass_frame_to_socket_def no_sabme_in_8_def processed_frame_def
         split: if_splits)
next
  case Dl_backlog
  then show ?thesis
    using assms timers_ok_dlc_recv [of "s\<lparr>sk_backlog := tl (sk_backlog s)\<rparr>" "hd (sk_backlog s)"]
    by (auto simp: bind_res_eq_Inr lapd_backlog_rcv_def no_sabme_in_8_def processed_frame_def
         split: list.splits dlc_skb.splits)
qed (use assms timers_ok_release_request in
  \<open>auto simp: bind_res_eq_Inr timers_ok_T200 timers_ok_T203
     elim: timers_ok_data timers_ok_unit_data timers_ok_establish_request split: if_splits\<close>)

interpretation supervision: event_machine no_sabme_in_8 dl_step timers_ok
  by unfold_locales (rule timers_ok_step)

section \<open>An unanswered link is given up\<close>

definition sabme_frame :: "lapd_sock \<Rightarrow> octets" where
  "sabme_frame s =
     make_address (sapi s) (role s \<noteq> LAPD_INTF_ROLE_TE)
       (if state s = LAPD_DLS_LISTENING then LAPD_BROADCAST_TEI else tei s) @
     [lapd_uframe_make_control LAPD_UFRAME_FUNC_SABME True]"

definition enquiry_frame :: "lapd_sock \<Rightarrow> octets" where
  "enquiry_frame s = lapd_prepare_sframe s LAPD_COMMAND
     (if own_receiver_busy s then LAPD_SFRAME_FUNC_RNR else LAPD_SFRAME_FUNC_RR) True"

lemma send_sabme:
  "lapd_send_uframe LAPD_UFRAME_FUNC_SABME True s = s\<lparr>ph_out := ph_out s @ [sabme_frame s]\<rparr>"
  by (simp add: lapd_send_uframe_upd lapd_prepare_uframe_def sabme_frame_def)

lemma T200_5_retry:
  assumes "state s = LAPD_DLS_5_AWAITING_ESTABLISH" "timer_T200 s" "\<not> sk_owned_by_user s"
    "retrans_cnt s \<noteq> sap_N200 (sap s)"
  shows "dl_step Dl_T200 s =
    Inr (s\<lparr>retrans_cnt := Suc (retrans_cnt s), ph_out := ph_out s @ [sabme_frame s]\<rparr>)"
  using assms by (simp add: lapd_timer_T200_def send_sabme lapd_start_T200_def Let_def sabme_frame_def)

lemma T200_5_retries:
  assumes "state s = LAPD_DLS_5_AWAITING_ESTABLISH" "timer_T200 s" "\<not> sk_owned_by_user s"
    "retrans_cnt s + m \<le> sap_N200 (sap s)"
  shows "run_events dl_step (replicate m Dl_T200) s =
    Inr (s\<lparr>retrans_cnt := retrans_cnt s + m, ph_out := ph_out s @ replicate m (sabme_frame s)\<rparr>)"
  using assms
proof (induction m arbitrary: s)
  case 0
  then show ?case by simp
next
  case (Suc m)
  let ?t = "s\<lparr>retrans_cnt := Suc (retrans_cnt s), ph_out := ph_out s @ [sabme_frame s]\<rparr>"
  have f: "sabme_frame ?t = sabme_frame s" by (simp add: sabme_frame_def)
  show ?case
    using Suc.IH [of ?t] Suc.prems T200_5_retry [of s] by (simp add: f del: dl_step.simps)
qed

lemma T200_8_retry:
  assumes "in_8 s" "timer_T200 s" "\<not> sk_owned_by_user s" "retrans_cnt s \<noteq> sap_N200 (sap s)"
  shows "dl_step Dl_T200 s =
    Inr (s\<lparr>retrans_cnt := Suc (retrans_cnt s), acknowledge_pending := False,
           ph_out := ph_out s @ [enquiry_frame s]\<rparr>)"
  using assms
  by (simp add: lapd_timer_T200_def lapd_transmit_enquiry_procedure_def lapd_send_sframe_upd
      lapd_start_T200_def Let_def enquiry_frame_def lapd_prepare_sframe_def)

lemma T200_8_retries:
  assumes "in_8 s" "timer_T200 s" "\<not> sk_owned_by_user s" "retrans_cnt s + m \<le> sap_N200 (sap s)"
  shows "run_events dl_step (replicate m Dl_T200) s =
    Inr (s\<lparr>retrans_cnt := retrans_cnt s + m, acknowledge_pending := m = 0 \<and> acknowledge_pending s,
           ph_out := ph_out s @ replicate m (enquiry_frame s)\<rparr>)"
  using assms
proof (induction m arbitrary: s)
  case 0
  then show ?case by simp
next
  case (Suc m)
  let ?t = "s\<lparr>retrans_cnt := Suc (retrans_cnt s), acknowledge_pending := False,
           ph_out := ph_out s @ [enquiry_frame s]\<rparr>"
  have f: "enquiry_frame ?t = enquiry_frame s" by (simp add: enquiry_frame_def lapd_prepare_sframe_def)
  show ?case
    using Suc.IH [of ?t] Suc.prems T200_8_retry [of s] by (simp add: f del: dl_step.simps)
qed

lemma T200_7:
  assumes "in_7 s" "timer_T200 s" "\<not> sk_owned_by_user s"
  shows "dl_step Dl_T200 s =
    Inr (s\<lparr>retrans_cnt := 1, acknowledge_pending := False, state := LAPD_DLS_8_TIMER_RECOVERY,
           ph_out := ph_out s @ [enquiry_frame s]\<rparr>)"
  using assms
  by (simp add: lapd_timer_T200_def lapd_transmit_enquiry_procedure_def lapd_send_sframe_upd
      lapd_start_T200_def Let_def enquiry_frame_def lapd_prepare_sframe_def lapd_change_state_def)

lemma T200_8_reestablish:
  assumes "in_8 s" "timer_T200 s" "\<not> sk_owned_by_user s" "retrans_cnt s = sap_N200 (sap s)"
  shows "dl_step Dl_T200 s =
    Inr (s\<lparr>retrans_cnt := 0, own_receiver_busy := False, peer_receiver_busy := False,
           reject_exception := False, acknowledge_pending := False, timer_T203 := False,
           layer_3_initiated := False, state := LAPD_DLS_5_AWAITING_ESTABLISH,
           ph_out := ph_out s @ [sabme_frame s]\<rparr>)"
  using assms
  by (simp add: lapd_timer_T200_def lapd_establish_datalink_procedure_def send_sabme mdl_error_no_action
      lapd_clear_exception_conditions_procedure_def lapd_stop_T203_def
      lapd_start_T200_def Let_def sabme_frame_def lapd_change_state_def)

lemma T200_5_release:
  assumes "state s = LAPD_DLS_5_AWAITING_ESTABLISH" "timer_T200 s" "\<not> sk_owned_by_user s"
    "retrans_cnt s = sap_N200 (sap s)"
  shows "\<exists>t. dl_step Dl_T200 s = Inr t \<and>
     state t = (if role s = LAPD_INTF_ROLE_TE \<and> usr_tme s \<noteq> None \<and> sk_hashed s
                then LAPD_DLS_1_TEI_UNASSIGNED else LAPD_DLS_4_TEI_ASSIGNED) \<and>
     \<not> timer_T200 t \<and> sk_write_queue t = [] \<and> ph_out t = ph_out s \<and>
     sk_receive_queue t = sk_receive_queue s @ [Rcv_primitive LAPD_DL_RELEASE_INDICATION 0]"
  using assms
  by (cases "role s")
     (auto simp: lapd_timer_T200_def mdl_upds lapd_dl_primitive_def lapd_discard_i_queue_def
       lapd_discard_ui_queue_def lapd_change_state_def Let_def split: option.splits)

lemma T200_7_enquiries:
  assumes "in_7 s" "timer_T200 s" "\<not> sk_owned_by_user s" "Suc m \<le> sap_N200 (sap s)"
  shows "run_events dl_step (replicate (Suc m) Dl_T200) s =
    Inr (s\<lparr>retrans_cnt := Suc m, acknowledge_pending := False, state := LAPD_DLS_8_TIMER_RECOVERY,
           ph_out := ph_out s @ replicate (Suc m) (enquiry_frame s)\<rparr>)"
proof -
  let ?s8 = "s\<lparr>retrans_cnt := 1, acknowledge_pending := False,
     state := LAPD_DLS_8_TIMER_RECOVERY, ph_out := ph_out s @ [enquiry_frame s]\<rparr>"
  have "enquiry_frame ?s8 = enquiry_frame s" by (simp add: enquiry_frame_def lapd_prepare_sframe_def)
  then show ?thesis
    using T200_7 [OF assms(1-3)] T200_8_retries [of ?s8 m] assms by (simp del: dl_step.simps)
qed

lemma T200_7_reestablish:
  assumes "in_7 s" "timer_T200 s" "\<not> sk_owned_by_user s" "1 \<le> sap_N200 (sap s)"
  shows "run_events dl_step (replicate (sap_N200 (sap s) + 1) Dl_T200) s =
    Inr (s\<lparr>retrans_cnt := 0, own_receiver_busy := False, peer_receiver_busy := False,
           reject_exception := False, acknowledge_pending := False, timer_T203 := False,
           layer_3_initiated := False, state := LAPD_DLS_5_AWAITING_ESTABLISH,
           ph_out := ph_out s @ replicate (sap_N200 (sap s)) (enquiry_frame s) @ [sabme_frame s]\<rparr>)"
proof -
  obtain n where n: "sap_N200 (sap s) = Suc n" using assms(4) by (cases "sap_N200 (sap s)") auto
  let ?t = "s\<lparr>retrans_cnt := Suc n, acknowledge_pending := False, state := LAPD_DLS_8_TIMER_RECOVERY,
           ph_out := ph_out s @ replicate (Suc n) (enquiry_frame s)\<rparr>"
  have f: "sabme_frame ?t = sabme_frame s" using assms(1) by (simp add: sabme_frame_def)
  have "replicate (sap_N200 (sap s) + 1) Dl_T200 = replicate (Suc n) Dl_T200 @ [Dl_T200]"
    by (simp add: n replicate_append_same)
  then have "run_events dl_step (replicate (sap_N200 (sap s) + 1) Dl_T200) s = run_events dl_step [Dl_T200] ?t"
    using T200_7_enquiries [OF assms(1-3), of n] by (simp only: run_events_append n bind_res_simps)
  then show ?thesis
    using T200_8_reestablish [of ?t] assms n f by (simp del: dl_step.simps)
qed

lemma T200_7_sabmes:
  assumes "in_7 s" "timer_T200 s" "\<not> sk_owned_by_user s" "1 \<le> sap_N200 (sap s)" "m \<le> sap_N200 (sap s)"
  shows "run_events dl_step (replicate (sap_N200 (sap s) + 1 + m) Dl_T200) s =
    Inr (s\<lparr>retrans_cnt := m, own_receiver_busy := False, peer_receiver_busy := False,
           reject_exception := False, acknowledge_pending := False, timer_T203 := False,
           layer_3_initiated := False, state := LAPD_DLS_5_AWAITING_ESTABLISH,
           ph_out := ph_out s @ replicate (sap_N200 (sap s)) (enquiry_frame s) @
                     replicate (m + 1) (sabme_frame s)\<rparr>)"
proof -
  let ?t = "s\<lparr>retrans_cnt := 0, own_receiver_busy := False, peer_receiver_busy := False,
           reject_exception := False, acknowledge_pending := False, timer_T203 := False,
           layer_3_initiated := False, state := LAPD_DLS_5_AWAITING_ESTABLISH,
           ph_out := ph_out s @ replicate (sap_N200 (sap s)) (enquiry_frame s) @ [sabme_frame s]\<rparr>"
  have f: "sabme_frame ?t = sabme_frame s" using assms(1) by (simp add: sabme_frame_def)
  have "run_events dl_step (replicate (sap_N200 (sap s) + 1 + m) Dl_T200) s =
        run_events dl_step (replicate m Dl_T200) ?t"
    using T200_7_reestablish [OF assms(1-4)] by (simp only: replicate_add run_events_append bind_res_simps)
  then show ?thesis
    using T200_5_retries [of ?t m] assms f by simp
qed

text \<open>
  C30. A peer that stops answering is given up in bounded time. From an established link on which
  T200 runs, with no frame coming in and the socket not held, exactly 2 N200 + 2 expiries of T200
  release the link: N200 enquiries are sent, then N200 + 1 SABME, then the transmit queue is
  discarded, T200 is stopped, the user is told by a release indication, and the state is TEI-assigned
  or, on a user side whose management entity removes the TEI, TEI-unassigned. After any smaller
  number of expiries the user has been told nothing and T200 is pending.
\<close>

theorem unanswered_link_given_up:
  assumes "in_7 s" "timer_T200 s" "\<not> sk_owned_by_user s" "1 \<le> sap_N200 (sap s)"
  shows "(\<exists>t. run_events dl_step (replicate (2 * sap_N200 (sap s) + 2) Dl_T200) s = Inr t \<and>
           state t = (if role s = LAPD_INTF_ROLE_TE \<and> usr_tme s \<noteq> None \<and> sk_hashed s
                      then LAPD_DLS_1_TEI_UNASSIGNED else LAPD_DLS_4_TEI_ASSIGNED) \<and>
           \<not> timer_T200 t \<and> sk_write_queue t = [] \<and>
           sk_receive_queue t = sk_receive_queue s @ [Rcv_primitive LAPD_DL_RELEASE_INDICATION 0] \<and>
           ph_out t = ph_out s @ replicate (sap_N200 (sap s)) (enquiry_frame s) @
                      replicate (sap_N200 (sap s) + 1) (sabme_frame s)) \<and>
         (\<forall>m \<le> 2 * sap_N200 (sap s) + 1.
            \<exists>t. run_events dl_step (replicate m Dl_T200) s = Inr t \<and>
                sk_receive_queue t = sk_receive_queue s \<and> timer_T200 t)"
proof (intro conjI allI impI)
  let ?N = "sap_N200 (sap s)"
  have e: "replicate (2 * ?N + 2) Dl_T200 = replicate (?N + 1 + ?N) Dl_T200 @ [Dl_T200]"
    by (simp add: replicate_append_same mult_2)
  show "\<exists>t. run_events dl_step (replicate (2 * ?N + 2) Dl_T200) s = Inr t \<and>
           state t = (if role s = LAPD_INTF_ROLE_TE \<and> usr_tme s \<noteq> None \<and> sk_hashed s
                      then LAPD_DLS_1_TEI_UNASSIGNED else LAPD_DLS_4_TEI_ASSIGNED) \<and>
           \<not> timer_T200 t \<and> sk_write_queue t = [] \<and>
           sk_receive_queue t = sk_receive_queue s @ [Rcv_primitive LAPD_DL_RELEASE_INDICATION 0] \<and>
           ph_out t = ph_out s @ replicate ?N (enquiry_frame s) @ replicate (?N + 1) (sabme_frame s)"
    unfolding e run_events_append T200_7_sabmes [OF assms order_refl] bind_res_simps run_events.simps
    by (rule exE [OF T200_5_release [of "s\<lparr>retrans_cnt := ?N, own_receiver_busy := False,
           peer_receiver_busy := False, reject_exception := False, acknowledge_pending := False,
           timer_T203 := False, layer_3_initiated := False, state := LAPD_DLS_5_AWAITING_ESTABLISH,
           ph_out := ph_out s @ replicate ?N (enquiry_frame s) @ replicate (?N + 1) (sabme_frame s)\<rparr>"]])
       (use assms in \<open>auto simp del: dl_step.simps\<close>)
next
  fix m
  let ?N = "sap_N200 (sap s)"
  assume m: "m \<le> 2 * ?N + 1"
  consider "m = 0" | k where "m = Suc k" "Suc k \<le> ?N" | k where "m = ?N + 1 + k" "k \<le> ?N"
    using m by (cases m; cases "m \<le> ?N") (auto dest: le_Suc_ex, metis le_Suc_ex add_Suc mult_2 add_le_cancel_left not_less_eq_eq add_Suc_right)
  then show "\<exists>t. run_events dl_step (replicate m Dl_T200) s = Inr t \<and>
                sk_receive_queue t = sk_receive_queue s \<and> timer_T200 t"
  proof cases
    case 1
    then show ?thesis using assms by simp
  next
    case 2
    then show ?thesis using T200_7_enquiries [OF assms(1-3) 2(2)] assms by (simp only:) simp
  next
    case 3
    then show ?thesis using T200_7_sabmes [OF assms 3(2)] assms by (simp only:) simp
  qed
qed


text \<open>
  C29. Every wait of the data link entity is supervised. Whatever frames, primitives, user calls and
  timer expiries arrive, in whatever order and whether or not a process holds the socket, as long
  as no SABME arrives during timer recovery: while the entity awaits establishment, awaits release
  or is in timer recovery T200 is pending and the retransmission count has not passed N200, and
  while the link is established T200 or T203 is pending.
\<close>

theorem supervision_kept:
  assumes "timers_ok s" "events_ok dl_step no_sabme_in_8 es s" "run_events dl_step es s = Inr t"
  shows "supervised (state t) (timer_T200 t) (timer_T203 t) (retrans_cnt t) (sap_N200 (sap t))"
  using supervision.run_inv [OF assms(2,1,3)] by (simp add: timers_ok_def)

definition sock0 :: lapd_sock where
  "sock0 = \<lparr>sk_state = LAPD_SK_STATE_NORMAL_DLC, sk_write_queue = [], sk_send_head = None,
     sk_receive_queue = [], sk_rmem_alloc = 0, sk_rcvbuf = 1000, sk_truesize = (\<lambda>_. 1),
     sk_owned_by_user = False, sk_backlog = [], sk_hashed = True, sk_timer = False,
     role = LAPD_INTF_ROLE_TE, mtu = 260, net_tme = False, u_queue = [], retrans_cnt = 0,
     timer_T200 = False, timer_T203 = False, v_s = 0, v_r = 0, v_a = 0,
     state = LAPD_DLS_4_TEI_ASSIGNED, peer_receiver_busy = False, own_receiver_busy = False,
     reject_exception = False, acknowledge_pending = False, layer_3_initiated = False,
     sap = lapd_sap_default, usr_tme = Some 0, tei = 64, sapi = 0,
     ph_out = [], tm_out = []\<rparr>"

theorem supervision_kept_witness:
  "\<exists>t. run_events dl_step [Dl_lock, Dl_establish, Dl_unlock, Dl_T200] sock0 = Inr t \<and>
       supervised (state t) (timer_T200 t) (timer_T203 t) (retrans_cnt t) (sap_N200 (sap t)) \<and>
       state t = LAPD_DLS_5_AWAITING_ESTABLISH"
proof -
  let ?es = "[Dl_lock, Dl_establish, Dl_unlock, Dl_T200]"
  have i: "timers_ok sock0" by (simp add: timers_ok_def sock0_def)
  have o: "events_ok dl_step no_sabme_in_8 ?es sock0"
    by (simp add: no_sabme_in_8_def processed_frame_def split: sum.splits)
  obtain t where t: "run_events dl_step ?es sock0 = Inr t" "state t = LAPD_DLS_5_AWAITING_ESTABLISH"
    by (simp add: sock0_def lapd_dl_establish_request_def sock_upds lapd_timer_T200_def
        lapd_prepare_uframe_def)
  show ?thesis using supervision_kept [OF i o t(1)] t by blast
qed

theorem unanswered_link_given_up_witness:
  "\<exists>t. run_events dl_step (replicate 8 Dl_T200)
         (sock0\<lparr>state := LAPD_DLS_7_LINK_CONNECTION_ESTABLISHED, timer_T200 := True\<rparr>) = Inr t \<and>
       state t = LAPD_DLS_1_TEI_UNASSIGNED"
  using unanswered_link_given_up [of "sock0\<lparr>state := LAPD_DLS_7_LINK_CONNECTION_ESTABLISHED, timer_T200 := True\<rparr>"]
  by (simp add: sock0_def del: replicate.simps dl_step.simps) blast

section \<open>SABME on an established link\<close>

text \<open>
  C16. A SABME received while the link is established or in timer recovery is answered by UA and
  resets the three sequence variables, but the frames of the transmit queue are kept, sent ones
  included, the user is not told, and the entity stays in the state it was in: the comparison of
  V(S) and V(A) that guards the discarding and the indication comes after both are zero.
\<close>

theorem sabme_resets_counters_only:
  assumes "in_7 s \<or> in_8 s"
  shows "\<exists>ua t. lapd_prepare_uframe s LAPD_UFRAME_FUNC_UA (u_p_f d) = Inr ua \<and>
     lapd_socket_handle_uframe_sabme d s = t \<and>
     state t = state s \<and> v_s t = 0 \<and> v_a t = 0 \<and> v_r t = 0 \<and>
     sk_write_queue t = sk_write_queue s \<and> sk_send_head t = sk_send_head s \<and>
     sk_receive_queue t = sk_receive_queue s \<and> ph_out t = ph_out s @ [ua] \<and>
     \<not> timer_T200 t \<and> timer_T203 t"
  using assms
  by (auto simp: lapd_socket_handle_uframe_sabme_def sabme_7_8_def mdl_error_no_action sock_upds
      lapd_prepare_uframe_def)

fun idle_event :: "dl_event \<Rightarrow> bool" where
  "idle_event (Dl_data b) = True"
| "idle_event Dl_T200 = True"
| "idle_event Dl_T203 = True"
| "idle_event _ = False"

definition stuck :: "octets list \<Rightarrow> lapd_sock \<Rightarrow> bool" where
  "stuck out s \<longleftrightarrow> in_8 s \<and> \<not> timer_T200 s \<and> \<not> sk_owned_by_user s \<and> ph_out s = out"

interpretation timer_recovery_stall: total_event_machine "\<lambda>e _. idle_event e" dl_step "stuck out" for out
proof unfold_locales
  fix e s t assume a: "idle_event e" "stuck out s"
  have *: "\<exists>s'. dl_step e s = Inr s' \<and> stuck out s'"
    using a by (cases e)
      (auto simp: stuck_def lapd_dl_data_request_def lapd_sock_queue_iframe_def Let_def lapd_timer_T203_def)
  then show "\<exists>s'. dl_step e s = Inr s'" by blast
  show "dl_step e s = Inr t \<Longrightarrow> stuck out t" using * by auto
qed

lemma events_ok_state_free: "events_ok step (\<lambda>e _. P e) es s \<longleftrightarrow> True" if "list_all P es"
  using that by (induction es arbitrary: s) (auto split: sum.splits)

text \<open>
  A SABME during timer recovery leaves the entity in timer recovery with T200 stopped. From
  then on no expiry of a timer and no data request makes it send anything: data is queued and never
  transmitted until the peer happens to send a response with the final bit set.
\<close>

theorem sabme_in_timer_recovery_stalls:
  assumes "in_8 s" "\<not> sk_owned_by_user s" "is_sabme d" "list_all idle_event es"
  shows "\<exists>t u. dl_step (Dl_recv (Skb_frame d)) s = Inr t \<and> run_events dl_step es t = Inr u \<and>
     in_8 u \<and> \<not> timer_T200 u \<and> ph_out u = ph_out t"
proof -
  let ?t = "lapd_socket_handle_uframe_sabme d s"
  have t: "dl_step (Dl_recv (Skb_frame d)) s = Inr ?t"
    using assms by (simp add: lapd_pass_frame_to_socket_def lapd_dlc_recv_def is_sabme_def
        lapd_socket_handle_uframe_def not_queued_def)
  have "stuck (ph_out ?t) ?t"
    using assms by (simp add: stuck_def lapd_socket_handle_uframe_sabme_def sabme_7_8_def
        mdl_error_no_action sock_upds)
  then obtain u where "run_events dl_step es ?t = Inr u" "stuck (ph_out ?t) u"
    using timer_recovery_stall.run_total events_ok_state_free [OF assms(4)] by metis
  then show ?thesis using t by (auto simp: stuck_def)
qed

theorem sabme_resets_counters_only_witness:
  "\<exists>t. lapd_socket_handle_uframe_sabme [0, 129, 0x7F, 0, 0]
         (sock0\<lparr>state := LAPD_DLS_7_LINK_CONNECTION_ESTABLISHED, v_s := 3, v_a := 1\<rparr>) = t \<and>
       sk_receive_queue t = [] \<and> v_s t = 0"
  using sabme_resets_counters_only
    [of "sock0\<lparr>state := LAPD_DLS_7_LINK_CONNECTION_ESTABLISHED, v_s := 3, v_a := 1\<rparr>" "[0, 129, 0x7F, 0, 0]"]
  by (auto simp: sock0_def)

theorem sabme_in_timer_recovery_stalls_witness:
  "\<exists>t u. dl_step (Dl_recv (Skb_frame [0, 129, 0x7F, 0, 0]))
           (sock0\<lparr>state := LAPD_DLS_8_TIMER_RECOVERY, timer_T200 := True\<rparr>) = Inr t \<and>
     run_events dl_step [Dl_T203, Dl_data \<lparr>skb_ptr = 1, skb_data = [0, 129, 0, 0, 9]\<rparr>, Dl_T203] t = Inr u \<and>
     ph_out u = ph_out t"
proof -
  have "is_sabme [0, 129, 0x7F, 0, 0]" by code_simp
  then show ?thesis
    using sabme_in_timer_recovery_stalls [of "sock0\<lparr>state := LAPD_DLS_8_TIMER_RECOVERY, timer_T200 := True\<rparr>"
        "[0, 129, 0x7F, 0, 0]" "[Dl_T203, Dl_data \<lparr>skb_ptr = 1, skb_data = [0, 129, 0, 0, 9]\<rparr>, Dl_T203]"]
    by (auto simp: sock0_def simp del: dl_step.simps)
qed

end
