(* ===== verification/Lapd_Window.thy ===== *)
theory Lapd_Window
  imports Lapd_Timers
begin

text \<open>
  The multiple frame operation of an established link seen from the sender: the window between
  V(A) and V(S), the transmit queue with its cursor as a go-back-N sender, and what every event
  does to them.
\<close>

section \<open>The window\<close>

text \<open>The cursor splits the transmit queue into what has been sent and what has not.\<close>

definition sent_part :: "lapd_sock \<Rightarrow> skb list" where
  "sent_part s = takeWhile (\<lambda>b. sk_send_head s \<noteq> Some (skb_ptr b)) (sk_write_queue s)"

definition unsent_part :: "lapd_sock \<Rightarrow> skb list" where
  "unsent_part s = dropWhile (\<lambda>b. sk_send_head s \<noteq> Some (skb_ptr b)) (sk_write_queue s)"

definition payload :: "skb \<Rightarrow> octets" where
  "payload b = drop 4 (skb_data b)"

definition head_ok :: "nat option \<Rightarrow> skb list \<Rightarrow> bool" where
  "head_ok h q \<longleftrightarrow> (case h of None \<Rightarrow> True | Some p \<Rightarrow> p \<in> skb_ptr ` set q)"

definition frames_ok :: "skb list \<Rightarrow> bool" where
  "frames_ok q \<longleftrightarrow> distinct (map skb_ptr q) \<and> list_all (\<lambda>b. 4 \<le> length (skb_data b)) q"

definition seqs_ok :: "lapd_sock \<Rightarrow> bool" where
  "seqs_ok s \<longleftrightarrow> v_a s < 128 \<and> v_s s < 128 \<and> v_r s < 128 \<and> 1 \<le> sap_k (sap s) \<and> sap_k (sap s) < 128"

definition gbn_inv :: "lapd_sock \<Rightarrow> bool" where
  "gbn_inv s \<longleftrightarrow> frames_ok (sk_write_queue s) \<and> head_ok (sk_send_head s) (sk_write_queue s) \<and> seqs_ok s \<and>
     map (i_n_s \<circ> skb_data) (sent_part s) = map (seq_add (v_a s)) [0..<seq_dist (v_a s) (v_s s)] \<and>
     seq_dist (v_a s) (v_s s) \<le> sap_k (sap s)"

lemma queue_split: "sk_write_queue s = sent_part s @ unsent_part s"
  by (simp add: sent_part_def unsent_part_def)

lemma gbn_sent_length: "gbn_inv s \<Longrightarrow> length (sent_part s) = seq_dist (v_a s) (v_s s)"
  by (metis gbn_inv_def length_map length_upt diff_zero)

lemma split_at_head:
  assumes "sk_write_queue s = xs @ ys" "distinct (map skb_ptr (xs @ ys))"
    "sk_send_head s = (case ys of [] \<Rightarrow> None | y # _ \<Rightarrow> Some (skb_ptr y))"
  shows "sent_part s = xs" "unsent_part s = ys"
proof -
  have "sk_send_head s \<noteq> Some (skb_ptr b)" if "b \<in> set xs" for b
    using assms that by (cases ys) (auto simp: image_iff)
  then show "sent_part s = xs" "unsent_part s = ys"
    using assms unfolding sent_part_def unsent_part_def
    by (cases ys; simp add: takeWhile_append2 dropWhile_append2)+
qed

lemma head_of_split:
  assumes "head_ok (sk_send_head s) (sk_write_queue s)"
  shows "sk_send_head s = (case unsent_part s of [] \<Rightarrow> None | y # _ \<Rightarrow> Some (skb_ptr y))"
proof (cases "sk_send_head s")
  case None
  then have "unsent_part s = []" by (simp add: unsent_part_def)
  then show ?thesis using None by simp
next
  case (Some p)
  then obtain b where b: "b \<in> set (sk_write_queue s)" "skb_ptr b = p"
    using assms by (auto simp: head_ok_def)
  then have ne: "unsent_part s \<noteq> []"
    using Some by (auto simp: unsent_part_def dropWhile_eq_Nil_conv)
  have "sk_send_head s = Some (skb_ptr (hd (unsent_part s)))"
    using hd_dropWhile [of "\<lambda>b. sk_send_head s \<noteq> Some (skb_ptr b)" "sk_write_queue s"] ne
    by (simp add: unsent_part_def)
  then show ?thesis using ne by (cases "unsent_part s") auto
qed

lemma smod_128: "0 \<le> x \<Longrightarrow> x smod 128 = x mod (128 :: int)"
  by (cases "x = 0") (simp_all add: signed_modulo_int_def)

lemma uint_dist:
  assumes "a < 128" "b < 128"
  shows "(uint b - uint a + 128) smod 128 = int (seq_dist a (b :: u8))"
proof -
  have a: "unat a < 128" and b: "unat b < 128" using assms by (simp_all add: unat_less_128)
  have u: "uint x = int (unat x)" for x :: u8 by simp
  have "int (unat b) - int (unat a) + 128 = int (unat b + 128 - unat a)" using a by simp
  then show ?thesis
    unfolding u seq_dist_def by (simp add: smod_128 zmod_int)
qed

lemma valid_nr_iff:
  assumes "seqs_ok s" "n_r < 128"
  shows "lapd_is_valid_nr s n_r \<longleftrightarrow> seq_dist (v_a s) n_r \<le> seq_dist (v_a s) (v_s s)"
  using assms by (simp add: lapd_is_valid_nr_def seqs_ok_def uint_dist)

section \<open>Acknowledgement\<close>

lemma ack_loop_drop:
  assumes "map (i_n_s \<circ> skb_data) xs = map (seq_add a) [0..<length xs]" "length xs < 128" "a < 128"
    "j \<le> length xs" "\<forall>b \<in> set xs. h \<noteq> Some (skb_ptr b)"
    "case ys of [] \<Rightarrow> True | y # _ \<Rightarrow> h = Some (skb_ptr y)"
  shows "lapd_ack_loop h (seq_add a j) (xs @ ys) = drop j xs @ ys"
  using assms
proof (induction xs arbitrary: a j)
  case Nil
  then show ?case by (cases ys) auto
next
  case (Cons b xs)
  have m: "i_n_s (skb_data b) = seq_add a 0"
    "map (i_n_s \<circ> skb_data) xs = map (seq_add (seq_add a 1)) [0..<length xs]"
    using Cons.prems(1)
    by (simp_all add: upt_conv_Cons map_Suc_upt [symmetric] comp_def seq_add_add del: upt_Suc)
  show ?case
  proof (cases j)
    case 0
    then show ?thesis using m Cons.prems(5) by simp
  next
    case (Suc i)
    have "seq_add a 0 \<noteq> seq_add a j"
      using seq_add_inj [of 0 j a] Suc Cons.prems by auto
    moreover have "lapd_ack_loop h (seq_add (seq_add a 1) i) (xs @ ys) = drop i xs @ ys"
      using Cons.IH [OF m(2)] Cons.prems Suc by simp
    ultimately show ?thesis
      using m(1) Cons.prems(5) Suc by (simp add: seq_add_add)
  qed
qed

lemma gbn_ack_loop:
  assumes "gbn_inv s" "n_r < 128" "seq_dist (v_a s) n_r \<le> seq_dist (v_a s) (v_s s)"
  shows "lapd_ack_loop (sk_send_head s) n_r (sk_write_queue s) =
     drop (seq_dist (v_a s) n_r) (sent_part s) @ unsent_part s"
proof -
  let ?a = "v_a s"
  have g: "?a < 128" "v_s s < 128" using assms(1) by (simp_all add: gbn_inv_def seqs_ok_def)
  have l: "length (sent_part s) = seq_dist ?a (v_s s)" by (rule gbn_sent_length [OF assms(1)])
  have n: "n_r = seq_add ?a (seq_dist ?a n_r)" using g assms(2) by (simp add: seq_add_dist)
  have h: "case unsent_part s of [] \<Rightarrow> True | y # _ \<Rightarrow> sk_send_head s = Some (skb_ptr y)"
    using head_of_split [of s] assms(1) by (auto simp: gbn_inv_def split: list.splits)
  have "lapd_ack_loop (sk_send_head s) (seq_add ?a (seq_dist ?a n_r)) (sent_part s @ unsent_part s) =
      drop (seq_dist ?a n_r) (sent_part s) @ unsent_part s"
    using assms(1,3) l g h seq_dist_lt [of ?a "v_s s"]
    by (intro ack_loop_drop) (auto simp: gbn_inv_def sent_part_def dest: set_takeWhileD)
  then show ?thesis using n queue_split [of s] by simp
qed

lemma frames_ok_drop: "frames_ok q \<Longrightarrow> frames_ok (drop j q)"
  by (auto simp: frames_ok_def list_all_iff drop_map [symmetric] distinct_drop dest: in_set_dropD)

lemma ack_va_window:
  assumes "gbn_inv s" "n_r < 128" "lapd_is_valid_nr s n_r"
  shows "sent_part (lapd_ack_va n_r s) = drop (seq_dist (v_a s) n_r) (sent_part s)"
    "unsent_part (lapd_ack_va n_r s) = unsent_part s"
    "gbn_inv (lapd_ack_va n_r s)"
proof -
  let ?t = "lapd_ack_va n_r s" and ?j = "seq_dist (v_a s) n_r"
  have g: "seqs_ok s" "frames_ok (sk_write_queue s)" "head_ok (sk_send_head s) (sk_write_queue s)"
    using assms(1) by (simp_all add: gbn_inv_def)
  have d: "?j \<le> seq_dist (v_a s) (v_s s)" using assms(2,3) g by (simp add: valid_nr_iff)
  have ab: "v_a s < 128" "v_s s < 128" using g by (simp_all add: seqs_ok_def)
  have q: "sk_write_queue ?t = drop ?j (sent_part s) @ unsent_part s"
  proof (cases "n_r = v_a s")
    case True
    then show ?thesis using queue_split [of s] ab by (simp add: lapd_ack_va_def lapd_ack_frames_def)
  next
    case False
    then show ?thesis using gbn_ack_loop [OF assms(1,2) d] by (simp add: lapd_ack_va_def lapd_ack_frames_def)
  qed
  have "drop ?j (sent_part s) @ unsent_part s = drop ?j (sk_write_queue s)"
    using d gbn_sent_length [OF assms(1)] queue_split [of s] by simp
  then have fr: "frames_ok (drop ?j (sent_part s) @ unsent_part s)"
    using frames_ok_drop [OF g(2)] by simp
  show w: "sent_part ?t = drop ?j (sent_part s)" "unsent_part ?t = unsent_part s"
    using split_at_head [of ?t "drop ?j (sent_part s)" "unsent_part s"] q fr head_of_split [OF g(3)]
    by (simp_all add: frames_ok_def)
  have nd: "seq_dist n_r (v_s s) = seq_dist (v_a s) (v_s s) - ?j"
    by (rule seq_dist_split [OF ab(1) assms(2) ab(2) d])
  have e: "map (i_n_s \<circ> skb_data) (sent_part s) = map (seq_add (v_a s)) [0..<seq_dist (v_a s) (v_s s)]"
    using assms(1) by (simp add: gbn_inv_def)
  have "map (i_n_s \<circ> skb_data) (sent_part ?t) = drop ?j (map (seq_add (v_a s)) [0..<seq_dist (v_a s) (v_s s)])"
    by (simp only: w(1) drop_map [symmetric] e)
  also have "\<dots> = map (seq_add n_r) [0..<seq_dist n_r (v_s s)]"
    using seq_add_dist [OF ab(1) assms(2)] d
    by (intro nth_equalityI) (auto simp: nd seq_add_add [symmetric])
  finally show "gbn_inv ?t"
    using assms(1,2) w q fr nd head_of_split [OF g(3)]
    by (auto simp: gbn_inv_def seqs_ok_def head_ok_def split: list.splits)
qed

section \<open>Transmission\<close>

text \<open>The frames as they leave: numbered from \<open>v\<close>, each with the current V(R).\<close>

fun stamp :: "u8 \<Rightarrow> u8 \<Rightarrow> skb list \<Rightarrow> skb list" where
  "stamp r v [] = []"
| "stamp r v (b # bs) = b\<lparr>skb_data := set_i_n_r r (set_i_n_s v (skb_data b))\<rparr> # stamp r (seq_add v 1) bs"

lemma stamp_simps [simp]:
  "length (stamp r v bs) = length bs"
  "map skb_ptr (stamp r v bs) = map skb_ptr bs"
  "map payload (stamp r v bs) = map payload bs"
  "list_all (\<lambda>b. 4 \<le> length (skb_data b)) (stamp r v bs) = list_all (\<lambda>b. 4 \<le> length (skb_data b)) bs"
  by (induction bs arbitrary: v) (simp_all add: payload_def octet_simps)

lemma stamp_n_s:
  "list_all (\<lambda>b. 4 \<le> length (skb_data b)) bs \<Longrightarrow> v < 128 \<Longrightarrow>
   map (i_n_s \<circ> skb_data) (stamp r v bs) = map (seq_add v) [0..<length bs]"
proof (induction bs arbitrary: v)
  case Nil
  then show ?case by simp
next
  case (Cons b bs)
  have "map (seq_add v) [0..<length (b # bs)] = seq_add v 0 # map (seq_add (seq_add v 1)) [0..<length bs]"
    by (simp add: upt_conv_Cons map_Suc_upt [symmetric] comp_def seq_add_add del: upt_Suc)
  then show ?case using Cons by (simp add: octet_simps seq_add_0)
qed

lemma stamp_n_r:
  "list_all (\<lambda>b. 4 \<le> length (skb_data b)) bs \<Longrightarrow> r < 128 \<Longrightarrow> b \<in> set (stamp r v bs) \<Longrightarrow>
   i_n_r (skb_data b) = r"
  by (induction bs arbitrary: v) (auto simp: octet_simps)

lemma frames_ok_stamp: "frames_ok (xs @ ys @ zs) \<Longrightarrow> frames_ok (xs @ stamp r v ys @ zs)"
proof -
  have "skb_ptr ` set (stamp r v ys) = skb_ptr ` set ys" by (metis list.set_map stamp_simps(2))
  moreover assume "frames_ok (xs @ ys @ zs)"
  ultimately show ?thesis by (simp add: frames_ok_def)
qed

lemma window_closed_iff:
  "seqs_ok s \<Longrightarrow> window_closed s \<longleftrightarrow> seq_dist (v_a s) (v_s s) = sap_k (sap s)"
  by (simp add: window_closed_def seqs_ok_def seq_window_edge)

lemma write_skb_at:
  "distinct (map skb_ptr (xs @ b # ys)) \<Longrightarrow>
   write_skb (skb_ptr b) d (xs @ b # ys) = xs @ b\<lparr>skb_data := d\<rparr> # ys"
  by (auto simp: write_skb_def image_iff intro!: map_idI)

lemma run_i_loop_spec:
  assumes "sk_write_queue s = xs @ ys" "frames_ok (xs @ ys)" "seqs_ok s"
    "seq_dist (v_a s) (v_s s) \<le> sap_k (sap s)"
    "j = min (length ys) (sap_k (sap s) - seq_dist (v_a s) (v_s s))"
    "zs = stamp (v_r s) (v_s s) (take j ys)"
  shows "sk_write_queue (lapd_run_i_loop ys s) = xs @ zs @ drop j ys \<and>
    sk_send_head (lapd_run_i_loop ys s) = (case drop j ys of [] \<Rightarrow> None | y # _ \<Rightarrow> Some (skb_ptr y)) \<and>
    v_s (lapd_run_i_loop ys s) = seq_add (v_s s) j \<and>
    ph_out (lapd_run_i_loop ys s) = ph_out s @ map skb_data zs \<and>
    seq_dist (v_a s) (seq_add (v_s s) j) = seq_dist (v_a s) (v_s s) + j"
  using assms
proof (induction ys arbitrary: s xs j zs)
  case Nil
  then show ?case by (simp add: seqs_ok_def seq_add_0)
next
  case (Cons b ys)
  have sq: "v_a s < 128" "v_s s < 128" "sap_k (sap s) < 128" using Cons.prems by (simp_all add: seqs_ok_def)
  show ?case
  proof (cases "window_closed s")
    case True
    then show ?thesis using Cons.prems sq by (simp add: window_closed_iff seq_add_0)
  next
    case False
    define d where "d = set_i_n_r (v_r s) (set_i_n_s (v_s s) (skb_data b))"
    define t where "t = s\<lparr>sk_write_queue := (xs @ [b\<lparr>skb_data := d\<rparr>]) @ ys,
      timer_T200 := True, timer_T203 := timer_T200 s \<and> timer_T203 s,
      ph_out := ph_out s @ [d], v_s := seq_add (v_s s) 1\<rparr>"
    have lt: "seq_dist (v_a s) (v_s s) < sap_k (sap s)" using False Cons.prems by (simp add: window_closed_iff)
    have ds: "seq_dist (v_a s) (seq_add (v_s s) 1) = Suc (seq_dist (v_a s) (v_s s))"
      using sq lt by (intro seq_dist_succ) simp_all
    have step: "lapd_run_i_loop (b # ys) s = lapd_run_i_loop ys t"
      using False Cons.prems(1,2)
      by (auto simp: Let_def ph_data_request_def t_def d_def frames_ok_def write_skb_at
          succ_mod_eq_seq_add intro!: arg_cong [where f = "lapd_run_i_loop ys"])
    have fr: "frames_ok ((xs @ [b\<lparr>skb_data := d\<rparr>]) @ ys)"
      using Cons.prems(2) frames_ok_stamp [of xs "[b]" ys "v_r s" "v_s s"] by (simp add: d_def)
    define i where "i = min (length ys) (sap_k (sap s) - seq_dist (v_a s) (seq_add (v_s s) 1))"
    have "sap_k (sap s) - seq_dist (v_a s) (v_s s) = Suc (sap_k (sap s) - Suc (seq_dist (v_a s) (v_s s)))"
      using lt by simp
    then have i: "j = Suc i" using Cons.prems(5) ds by (simp add: i_def)
    have z: "zs = b\<lparr>skb_data := d\<rparr> # stamp (v_r s) (seq_add (v_s s) 1) (take i ys)"
      using Cons.prems(6) i by (simp add: d_def)
    show ?thesis
      using Cons.IH [of t "xs @ [b\<lparr>skb_data := d\<rparr>]" i "stamp (v_r t) (v_s t) (take i ys)"]
        fr ds lt i z step Cons.prems(3) by (simp add: t_def seqs_ok_def seq_add_add i_def)
  qed
qed

section \<open>An abstract go-back-N sender\<close>

text \<open>
  What the transmit queue of an established link implements: the number of the oldest frame that
  is not acknowledged, the user data sent and not acknowledged, and the user data not yet sent.
\<close>

record gbn =
  gb_base :: u8
  gb_unacked :: "octets list"
  gb_unsent :: "octets list"

definition gbn_send :: "nat \<Rightarrow> gbn \<Rightarrow> gbn" where
  "gbn_send k g =
     (let j = min (length (gb_unsent g)) (k - length (gb_unacked g))
      in g\<lparr>gb_unacked := gb_unacked g @ take j (gb_unsent g), gb_unsent := drop j (gb_unsent g)\<rparr>)"

definition gbn_ack :: "u8 \<Rightarrow> gbn \<Rightarrow> gbn" where
  "gbn_ack n g = g\<lparr>gb_base := n, gb_unacked := drop (seq_dist (gb_base g) n) (gb_unacked g)\<rparr>"

definition gbn_rewind :: "gbn \<Rightarrow> gbn" where
  "gbn_rewind g = g\<lparr>gb_unacked := [], gb_unsent := gb_unacked g @ gb_unsent g\<rparr>"

definition gbn_put :: "octets \<Rightarrow> gbn \<Rightarrow> gbn" where
  "gbn_put p g = g\<lparr>gb_unsent := gb_unsent g @ [p]\<rparr>"

definition abs_gbn :: "lapd_sock \<Rightarrow> gbn" where
  "abs_gbn s = \<lparr>gb_base = v_a s, gb_unacked = map payload (sent_part s),
                gb_unsent = map payload (unsent_part s)\<rparr>"

lemma gbn_inv_cong:
  "sk_write_queue t = sk_write_queue s \<Longrightarrow> sk_send_head t = sk_send_head s \<Longrightarrow> v_a t = v_a s \<Longrightarrow>
   v_s t = v_s s \<Longrightarrow> sap t = sap s \<Longrightarrow> (v_r s < 128 \<longrightarrow> v_r t < 128) \<Longrightarrow> gbn_inv s \<Longrightarrow> gbn_inv t"
  by (simp add: gbn_inv_def seqs_ok_def sent_part_def)

lemma abs_gbn_cong:
  "sk_write_queue t = sk_write_queue s \<Longrightarrow> sk_send_head t = sk_send_head s \<Longrightarrow> v_a t = v_a s \<Longrightarrow>
   abs_gbn t = abs_gbn s"
  by (simp add: abs_gbn_def sent_part_def unsent_part_def)

lemma run_i_queue_loop:
  assumes "gbn_inv s" "in_7 s" "\<not> peer_receiver_busy s"
  shows "lapd_run_i_queue s = Inr (lapd_run_i_loop (unsent_part s) s)"
proof (cases "sk_send_head s")
  case None
  then have "unsent_part s = []" by (simp add: unsent_part_def)
  then show ?thesis using None assms by (simp add: lapd_run_i_queue_def)
next
  case (Some p)
  then have "unsent_part s = dropWhile (\<lambda>b. skb_ptr b \<noteq> p) (sk_write_queue s)"
    by (simp add: unsent_part_def eq_commute)
  then show ?thesis
    using Some assms by (auto simp: lapd_run_i_queue_def gbn_inv_def head_ok_def)
qed

lemma gbn_loop:
  assumes "gbn_inv s"
    "j = min (length (unsent_part s)) (sap_k (sap s) - length (sent_part s))"
    "zs = stamp (v_r s) (v_s s) (take j (unsent_part s))" "t = lapd_run_i_loop (unsent_part s) s"
  shows "gbn_inv t" "sent_part t = sent_part s @ zs" "unsent_part t = drop j (unsent_part s)"
    "ph_out t = ph_out s @ map skb_data zs" "v_s t = seq_add (v_s s) j"
proof -
  have g: "frames_ok (sent_part s @ unsent_part s)" "seqs_ok s" "seq_dist (v_a s) (v_s s) \<le> sap_k (sap s)"
    "map (i_n_s \<circ> skb_data) (sent_part s) = map (seq_add (v_a s)) [0..<seq_dist (v_a s) (v_s s)]"
    using assms(1) queue_split [of s] by (simp_all add: gbn_inv_def)
  have l: "length (sent_part s) = seq_dist (v_a s) (v_s s)" by (rule gbn_sent_length [OF assms(1)])
  note sp = run_i_loop_spec [OF queue_split g(1-3) assms(2) [unfolded l] assms(3)]
  show "ph_out t = ph_out s @ map skb_data zs" "v_s t = seq_add (v_s s) j"
    using sp assms(4) by simp_all
  have q: "sk_write_queue t = (sent_part s @ zs) @ drop j (unsent_part s)"
    "sk_send_head t = (case drop j (unsent_part s) of [] \<Rightarrow> None | y # _ \<Rightarrow> Some (skb_ptr y))"
    using sp assms(4) by simp_all
  have fr: "frames_ok ((sent_part s @ zs) @ drop j (unsent_part s))"
    using frames_ok_stamp [of "sent_part s" "take j (unsent_part s)" "drop j (unsent_part s)"] g(1) assms(3)
    by simp
  show w: "sent_part t = sent_part s @ zs" "unsent_part t = drop j (unsent_part s)"
    using split_at_head [OF q(1) _ q(2)] fr by (simp_all add: frames_ok_def)
  have la: "list_all (\<lambda>b. 4 \<le> length (skb_data b)) (take j (unsent_part s))"
    using g(1) by (auto simp: frames_ok_def list_all_iff dest: in_set_takeD)
  have jl: "length (take j (unsent_part s)) = j" using assms(2) by simp
  have d: "seq_dist (v_a s) (v_s t) = seq_dist (v_a s) (v_s s) + j" using sp assms(4) by simp
  have vs: "v_s s = seq_add (v_a s) (seq_dist (v_a s) (v_s s))"
    using g(2) by (simp add: seqs_ok_def seq_add_dist)
  have "map (i_n_s \<circ> skb_data) zs = map (\<lambda>i. seq_add (v_a s) (seq_dist (v_a s) (v_s s) + i)) [0..<j]"
    using stamp_n_s [OF la, of "v_s s" "v_r s"] g(2) jl assms(3) seq_add_add [of "v_a s" "seq_dist (v_a s) (v_s s)"] vs
    by (simp add: seqs_ok_def)
  then have "map (i_n_s \<circ> skb_data) (sent_part t) = map (seq_add (v_a s)) [0..<seq_dist (v_a s) (v_s t)]"
    using g(4) w(1) d by (simp add: upt_add_eq_append [of 0] map_upt_shift)
  then show "gbn_inv t"
    using fr q d assms(2,4) g(2,3) l sp
    by (auto simp: gbn_inv_def seqs_ok_def head_ok_def split: list.splits)
qed

lemma run_i_queue_gbn:
  assumes "gbn_inv s"
  obtains t where "lapd_run_i_queue s = Inr t" "gbn_inv t"
    "abs_gbn t = (if in_7 s \<and> \<not> peer_receiver_busy s then gbn_send (sap_k (sap s)) (abs_gbn s) else abs_gbn s)"
proof (cases "in_7 s \<and> \<not> peer_receiver_busy s")
  case True
  define t where "t = lapd_run_i_loop (unsent_part s) s"
  note L = gbn_loop [OF assms refl refl t_def]
  have "abs_gbn t = gbn_send (sap_k (sap s)) (abs_gbn s)"
    using L(2,3) by (simp add: abs_gbn_def gbn_send_def Let_def take_map drop_map t_def)
  then show ?thesis using that [of t] L(1) True run_i_queue_loop [OF assms] by (simp add: t_def)
next
  case False
  then show ?thesis using that [of s] assms by (auto simp: lapd_run_i_queue_def)
qed

lemma rewind_gbn:
  assumes "gbn_inv s"
    "t = (case sk_write_queue s of [] \<Rightarrow> s | b # _ \<Rightarrow> s\<lparr>sk_send_head := Some (skb_ptr b)\<rparr>)\<lparr>v_s := v_a s\<rparr>"
  shows "gbn_inv t" "abs_gbn t = gbn_rewind (abs_gbn s)"
proof -
  have h: "sk_send_head t = (case sk_write_queue s of [] \<Rightarrow> None | b # _ \<Rightarrow> Some (skb_ptr b))"
    using assms by (auto simp: gbn_inv_def head_ok_def split: list.splits option.splits)
  have q: "sk_write_queue t = [] @ sk_write_queue s"
    using assms(2) by (simp split: list.splits)
  have fr: "frames_ok (sk_write_queue s)" using assms(1) by (simp add: gbn_inv_def)
  then have w: "sent_part t = []" "unsent_part t = sk_write_queue s"
    using split_at_head [OF q _ h] by (simp_all add: frames_ok_def)
  have o: "v_s t = v_a s" "v_a t = v_a s" "v_r t = v_r s" "sap t = sap s"
    using assms(2) by (simp_all split: list.splits)
  show "gbn_inv t"
    using assms(1) fr q h w o by (auto simp: gbn_inv_def seqs_ok_def head_ok_def split: list.splits)
  show "abs_gbn t = gbn_rewind (abs_gbn s)"
    using w o queue_split [of s] by (simp add: abs_gbn_def gbn_rewind_def flip: map_append)
qed

lemma retransmission_gbn:
  assumes "gbn_inv s"
  obtains t where "lapd_invoke_retransmission_procedure s = Inr t" "gbn_inv t"
    "abs_gbn t = (if in_7 s \<and> \<not> peer_receiver_busy s
                  then gbn_send (sap_k (sap s)) (gbn_rewind (abs_gbn s)) else gbn_rewind (abs_gbn s))"
proof -
  define r where "r = (case sk_write_queue s of [] \<Rightarrow> s | b # _ \<Rightarrow> s\<lparr>sk_send_head := Some (skb_ptr b)\<rparr>)\<lparr>v_s := v_a s\<rparr>"
  have "lapd_invoke_retransmission_procedure s = lapd_run_i_queue r"
    by (simp add: lapd_invoke_retransmission_procedure_def r_def Let_def split: list.splits)
  moreover have "state r = state s" "peer_receiver_busy r = peer_receiver_busy s" "sap r = sap s"
    by (simp_all add: r_def split: list.splits)
  ultimately show ?thesis
    using run_i_queue_gbn [OF rewind_gbn(1) [OF assms r_def]] rewind_gbn(2) [OF assms r_def] that by metis
qed

lemma abs_ack:
  "gbn_inv s \<Longrightarrow> n_r < 128 \<Longrightarrow> lapd_is_valid_nr s n_r \<Longrightarrow> abs_gbn (lapd_ack_va n_r s) = gbn_ack n_r (abs_gbn s)"
  by (simp add: abs_gbn_def gbn_ack_def ack_va_window drop_map)

lemma queue_iframe_gbn:
  assumes "gbn_inv s" "skb_ptr b \<notin> skb_ptr ` set (sk_write_queue s)" "4 \<le> length (skb_data b)"
  shows "gbn_inv (lapd_sock_queue_iframe b s)"
    "abs_gbn (lapd_sock_queue_iframe b s) = gbn_put (payload b) (abs_gbn s)"
proof -
  let ?t = "lapd_sock_queue_iframe b s"
  have h: "sk_send_head s = (case unsent_part s of [] \<Rightarrow> None | y # _ \<Rightarrow> Some (skb_ptr y))"
    using assms(1) by (intro head_of_split) (simp add: gbn_inv_def)
  have q: "sk_write_queue ?t = sent_part s @ (unsent_part s @ [b])"
    using queue_split [of s] by (simp add: lapd_sock_queue_iframe_def Let_def)
  have ht: "sk_send_head ?t = (case unsent_part s @ [b] of [] \<Rightarrow> None | y # _ \<Rightarrow> Some (skb_ptr y))"
    using h by (cases "unsent_part s") (auto simp: lapd_sock_queue_iframe_def Let_def)
  have fr: "frames_ok (sent_part s @ (unsent_part s @ [b]))"
    using assms queue_split [of s] by (auto simp: gbn_inv_def frames_ok_def)
  then have w: "sent_part ?t = sent_part s" "unsent_part ?t = unsent_part s @ [b]"
    using split_at_head [OF q _ ht] by (simp_all add: frames_ok_def)
  have o: "v_s ?t = v_s s" "v_a ?t = v_a s" "v_r ?t = v_r s" "sap ?t = sap s"
    by (simp_all add: lapd_sock_queue_iframe_def Let_def)
  show "gbn_inv ?t"
    using assms(1) fr q ht w o
    by (auto simp: gbn_inv_def seqs_ok_def head_ok_def split: list.splits)
  show "abs_gbn ?t = gbn_put (payload b) (abs_gbn s)"
    using w o by (simp add: abs_gbn_def gbn_put_def)
qed

section \<open>What the handlers do to the window\<close>

definition contents :: "lapd_sock \<Rightarrow> octets list" where
  "contents s = map payload (sk_write_queue s)"

text \<open>
  \<open>advances ps s t\<close>: on the way from \<open>s\<close> to \<open>t\<close> some of the oldest data were acknowledged and
  dropped, V(A) moved on by their number, and the data \<open>ps\<close> were appended.
\<close>

definition advances :: "octets list \<Rightarrow> lapd_sock \<Rightarrow> lapd_sock \<Rightarrow> bool" where
  "advances ps s t \<longleftrightarrow> (\<exists>n. n \<le> length (sk_write_queue s) \<and> v_a t = seq_add (v_a s) n \<and>
     contents t = drop n (contents s) @ ps)"

definition keeps :: "lapd_sock \<Rightarrow> lapd_sock \<Rightarrow> bool" where
  "keeps s t \<longleftrightarrow> gbn_inv s \<longrightarrow> gbn_inv t \<and> advances [] s t \<and> sap t = sap s"

lemma contents_abs: "contents s = gb_unacked (abs_gbn s) @ gb_unsent (abs_gbn s)"
  using queue_split [of s] by (simp add: contents_def abs_gbn_def flip: map_append)

lemma gbn_ops_keep_data:
  "gb_unacked (gbn_send k g) @ gb_unsent (gbn_send k g) = gb_unacked g @ gb_unsent g"
  "gb_unacked (gbn_rewind g) @ gb_unsent (gbn_rewind g) = gb_unacked g @ gb_unsent g"
  "gb_base (gbn_send k g) = gb_base g" "gb_base (gbn_rewind g) = gb_base g"
  by (simp_all add: gbn_send_def gbn_rewind_def Let_def)

lemma advances_abs:
  assumes "v_a s < 128" "abs_gbn t = abs_gbn s \<or> abs_gbn t = gbn_rewind (abs_gbn s)
     \<or> abs_gbn t = gbn_send k (abs_gbn s) \<or> abs_gbn t = gbn_send k (gbn_rewind (abs_gbn s))"
  shows "advances [] s t"
proof -
  have "gb_base (abs_gbn t) = gb_base (abs_gbn s)" "contents t = contents s"
    using assms(2) by (auto simp only: contents_abs gbn_ops_keep_data)
  then show ?thesis
    using assms(1) by (auto simp: advances_def abs_gbn_def seq_add_0 intro!: exI [of _ 0])
qed

lemma advances_trans: "advances [] s t \<Longrightarrow> advances ps t u \<Longrightarrow> advances ps s u"
proof -
  assume "advances [] s t" "advances ps t u"
  then obtain n m where *: "n \<le> length (sk_write_queue s)" "v_a t = seq_add (v_a s) n" "contents t = drop n (contents s)"
    "m \<le> length (sk_write_queue t)" "v_a u = seq_add (v_a t) m" "contents u = drop m (contents t) @ ps"
    by (auto simp: advances_def)
  then have "length (sk_write_queue t) = length (sk_write_queue s) - n"
    by (metis contents_def length_drop length_map)
  with * show ?thesis
    by (auto simp: advances_def seq_add_add add.commute intro!: exI [of _ "n + m"])
qed

lemma gbn_va: "gbn_inv s \<Longrightarrow> v_a s < 128" and gbn_vs: "gbn_inv s \<Longrightarrow> v_s s < 128"
  by (simp_all add: gbn_inv_def seqs_ok_def)

lemma keeps_same:
  assumes "sk_write_queue t = sk_write_queue s" "sk_send_head t = sk_send_head s" "v_a t = v_a s"
    "v_s t = v_s s" "sap t = sap s" "v_r s < 128 \<longrightarrow> v_r t < 128"
  shows "keeps s t"
  using gbn_inv_cong [OF assms] abs_gbn_cong [OF assms(1-3)] assms(5)
  by (auto simp: keeps_def intro: advances_abs gbn_va)

lemma keeps_refl [simp]: "keeps s s"
  by (rule keeps_same) simp_all

lemma keeps_trans: "keeps s t \<Longrightarrow> keeps t u \<Longrightarrow> keeps s u"
  by (auto simp: keeps_def intro: advances_trans)

lemma keeps_upd [simp]:
  "keeps s (t\<lparr>timer_T200 := b\<rparr>) = keeps s t"
  "keeps s (t\<lparr>timer_T203 := b\<rparr>) = keeps s t"
  "keeps s (t\<lparr>state := st\<rparr>) = keeps s t"
  "keeps s (t\<lparr>peer_receiver_busy := b\<rparr>) = keeps s t"
  "keeps s (t\<lparr>own_receiver_busy := b\<rparr>) = keeps s t"
  "keeps s (t\<lparr>acknowledge_pending := b\<rparr>) = keeps s t"
  "keeps s (t\<lparr>reject_exception := b\<rparr>) = keeps s t"
  "keeps s (t\<lparr>ph_out := l\<rparr>) = keeps s t"
  "keeps s (t\<lparr>sk_backlog := m\<rparr>) = keeps s t"
  "keeps s (t\<lparr>sk_owned_by_user := b\<rparr>) = keeps s t"
  "keeps s (t\<lparr>retrans_cnt := n\<rparr>) = keeps s t"
  "keeps s (t\<lparr>sk_rmem_alloc := n\<rparr>) = keeps s t"
  "keeps s (t\<lparr>tm_out := r\<rparr>) = keeps s t"
  "keeps s (t\<lparr>u_queue := l\<rparr>) = keeps s t"
  "keeps s (t\<lparr>sk_receive_queue := rq\<rparr>) = keeps s t"
  by (auto simp: keeps_def advances_def contents_def gbn_inv_def seqs_ok_def sent_part_def)

lemma keeps_ack: "n_r < 128 \<Longrightarrow> lapd_is_valid_nr t n_r \<Longrightarrow> keeps s t \<Longrightarrow> keeps s (lapd_ack_va n_r t)"
proof -
  assume a: "n_r < 128" "lapd_is_valid_nr t n_r" "keeps s t"
  have "keeps t (lapd_ack_va n_r t)"
    unfolding keeps_def
  proof (intro impI conjI)
    assume g: "gbn_inv t"
    have d: "seq_dist (v_a t) n_r \<le> length (sent_part t)"
      using g a valid_nr_iff [of t n_r] gbn_sent_length [OF g] by (simp add: gbn_inv_def)
    show "gbn_inv (lapd_ack_va n_r t)" by (rule ack_va_window [OF g a(1,2)])
    have "contents (lapd_ack_va n_r t) = drop (seq_dist (v_a t) n_r) (contents t)"
      using abs_ack [OF g a(1,2)] d by (simp add: contents_abs gbn_ack_def abs_gbn_def)
    then show "advances [] t (lapd_ack_va n_r t)"
      unfolding advances_def using d queue_split [of t] gbn_va [OF g] a(1)
      by (auto simp: seq_add_dist intro!: exI [of _ "seq_dist (v_a t) n_r"])
  qed simp
  then show ?thesis using a(3) keeps_trans by blast
qed

lemma keeps_retransmit:
  assumes "gbn_inv s"
  shows "\<exists>t. lapd_invoke_retransmission_procedure s = Inr t \<and> keeps s t \<and> state t = state s"
proof -
  obtain t where "lapd_invoke_retransmission_procedure s = Inr t" "gbn_inv t"
    "abs_gbn t = (if in_7 s \<and> \<not> peer_receiver_busy s
                  then gbn_send (sap_k (sap s)) (gbn_rewind (abs_gbn s)) else gbn_rewind (abs_gbn s))"
    using retransmission_gbn [OF assms] .
  then show ?thesis
    using advances_abs [OF gbn_va [OF assms], of t "sap_k (sap s)"] retransmit_frame
    by (auto simp: keeps_def split: if_splits)
qed

text \<open>
  The outcome of an operation on an established link: it returns, and if the link is still
  established the window is in order and has only advanced.
\<close>

definition est :: "lapd_sock \<Rightarrow> bool" where
  "est s \<longleftrightarrow> in_7 s \<or> in_8 s"

definition window_step :: "octets list \<Rightarrow> lapd_sock \<Rightarrow> lapd_sock res \<Rightarrow> bool" where
  "window_step ps s r \<longleftrightarrow>
     (\<exists>t. r = Inr t \<and> (est t \<longrightarrow> gbn_inv t \<and> advances ps s t \<and> sap t = sap s))"

lemma window_step_Inr [simp]:
  "gbn_inv s \<Longrightarrow> keeps s t \<Longrightarrow> window_step [] s (Inr t)"
  "\<not> est t \<Longrightarrow> window_step ps s (Inr t)"
  by (auto simp: window_step_def keeps_def)

lemma window_step_retransmit:
  "gbn_inv s \<Longrightarrow> keeps s t \<Longrightarrow> window_step [] s (lapd_invoke_retransmission_procedure t)"
  using keeps_retransmit [of t] keeps_trans [of s t] by (fastforce simp: window_step_def keeps_def)

lemma not_est_5 [simp]:
  "\<not> est (lapd_change_state LAPD_DLS_5_AWAITING_ESTABLISH s)"
  "\<not> est (lapd_nr_error_recovery_procedure (lapd_change_state LAPD_DLS_5_AWAITING_ESTABLISH s))"
  by (simp_all add: est_def sock_upds lapd_nr_error_recovery_upd)

lemma keeps_poll [simp]: "keeps s (sframe_poll_7 d t) = keeps s t"
  by (simp add: sframe_poll_7_def mdl_error_no_action sock_upds)

lemma keeps_timers [simp]:
  "keeps s (lapd_start_T200 t) = keeps s t" "keeps s (lapd_stop_T200 t) = keeps s t"
  "keeps s (lapd_start_T203 t) = keeps s t" "keeps s (lapd_stop_T203 t) = keeps s t"
  "keeps s (lapd_change_state st t) = keeps s t"
  "keeps s (lapd_enquiry_response_procedure t) = keeps s t"
  "keeps s (lapd_send_sframe c f p t) = keeps s t"
  by (simp_all add: sock_upds)

lemma window_ack_8: "gbn_inv s \<Longrightarrow> keeps s t \<Longrightarrow> window_step [] s (Inr (sframe_ack_8 d t))"
  by (simp add: sframe_ack_8_def keeps_ack)

lemma window_rr: "gbn_inv s \<Longrightarrow> window_step [] s (lapd_socket_handle_sframe_rr d s)"
  by (cases "state s")
     (auto simp: lapd_socket_handle_sframe_rr_def Let_def keeps_ack gbn_vs window_step_retransmit window_ack_8)

lemma window_rnr: "gbn_inv s \<Longrightarrow> window_step [] s (lapd_socket_handle_sframe_rnr d s)"
proof (cases "in_7 s")
  case True
  assume g: "gbn_inv s"
  let ?s = "sframe_poll_7 d (s\<lparr>peer_receiver_busy := True\<rparr>)"
  have "keeps s (lapd_ack_va (s_n_r d) ?s)" if "lapd_is_valid_nr ?s (s_n_r d)"
    using that by (simp add: keeps_ack)
  then have "\<exists>t. lapd_invoke_retransmission_procedure (lapd_ack_va (s_n_r d) ?s) = Inr t \<and> keeps s t"
    if "lapd_is_valid_nr ?s (s_n_r d)"
    using keeps_retransmit that keeps_trans g unfolding keeps_def by metis
  then show ?thesis using True g by (auto simp: lapd_socket_handle_sframe_rnr_def Let_def)
next
  case False
  assume "gbn_inv s"
  with False show ?thesis
    by (cases "state s")
       (auto simp: lapd_socket_handle_sframe_rnr_def Let_def keeps_ack window_step_retransmit window_ack_8)
qed

lemma window_rej: "gbn_inv s \<Longrightarrow> window_step [] s (lapd_socket_handle_sframe_rej d s)"
  by (cases "state s")
     (auto simp: lapd_socket_handle_sframe_rej_def Let_def keeps_ack window_step_retransmit window_ack_8)

lemma window_reject: "gbn_inv s \<Longrightarrow> window_step [] s (Inr (lapd_frame_reject err s))"
proof (cases "est s")
  case True
  have "\<not> est (lapd_frame_reject err s)"
    using lapd_frame_reject_upd [of err s] True by (auto simp: est_def sock_upds)
  then show ?thesis by simp
next
  case False
  have "\<not> est (lapd_frame_reject err s)"
    using lapd_frame_reject_upd [of err s] False by (auto simp: est_def)
  then show ?thesis by simp
qed

lemma window_sframe: "gbn_inv s \<Longrightarrow> window_step [] s (lapd_socket_handle_sframe d s)"
  by (simp add: lapd_socket_handle_sframe_def window_rr window_rnr window_rej window_reject
      split: lapd_sframe_function_e.splits)

lemma keeps_ack_va [simp]: "n_r < 128 \<Longrightarrow> lapd_is_valid_nr s n_r \<Longrightarrow> keeps s (lapd_ack_va n_r s)"
  by (simp add: keeps_ack)

lemma keeps_receive: "keeps s (snd (iframe_receive c d s))"
  by (rule keeps_same)
     (simp_all add: iframe_receive_def sock_upds lapd_dl_data_indication_def succ_mod_eq_seq_add)

lemma window_iframe_ack:
  "gbn_inv s \<Longrightarrow> window_step [] s (Inr (iframe_ack_7 d s))"
  "gbn_inv s \<Longrightarrow> window_step [] s (Inr (iframe_ack_8 d s))"
  by (auto simp: iframe_ack_7_def iframe_ack_8_def keeps_ack gbn_vs)

lemma window_step_after:
  "gbn_inv s \<Longrightarrow> keeps s t \<Longrightarrow> window_step ps t r \<Longrightarrow> window_step ps s r"
  by (auto simp: window_step_def keeps_def intro: advances_trans)

lemma keeps_busy: "keeps s (lapd_clear_own_receiver_busy s)" "keeps s (lapd_set_own_receiver_busy s)"
  by (simp_all add: lapd_clear_own_receiver_busy_def lapd_set_own_receiver_busy_def sock_upds)

lemma window_iframe:
  assumes "gbn_inv s"
  shows "window_step [] s (Inr (snd (lapd_socket_handle_iframe d s)))"
proof -
  define s1 where "s1 = (if sk_rmem_alloc s < sk_rcvbuf s \<and> own_receiver_busy s
                 then lapd_clear_own_receiver_busy s else s)"
  have k1: "keeps s s1" by (simp add: s1_def keeps_busy)
  then have g1: "gbn_inv s1" using assms by (simp add: keeps_def)
  have g2: "gbn_inv (snd (iframe_receive c d s1))" for c
    using keeps_receive [of s1 c d] g1 by (simp add: keeps_def)
  have "window_step [] s (Inr (iframe_ack_7 d (snd (iframe_receive True d s1))))"
    "window_step [] s (Inr (iframe_ack_8 d (snd (iframe_receive False d s1))))"
    by (rule window_step_after [OF assms keeps_trans [OF k1 keeps_receive]], rule window_iframe_ack [OF g2])+
  moreover have "window_step [] s (Inr (lapd_set_own_receiver_busy s1))" "window_step [] s (Inr s1)"
    using assms k1 keeps_trans [OF k1 keeps_busy(2)] by simp_all
  ultimately show ?thesis
    using window_reject [OF assms, of LAPD_FE_N201]
    by (simp add: lapd_socket_handle_iframe_def s1_def [symmetric] Let_def case_prod_beta
        split: lapd_datalink_state.split)
qed

lemma window_step_down [simp]:
  assumes "st \<noteq> LAPD_DLS_7_LINK_CONNECTION_ESTABLISHED" "st \<noteq> LAPD_DLS_8_TIMER_RECOVERY"
  shows "window_step ps s (Inr (lapd_change_state st t))"
    "window_step ps s (Inr (lapd_dl_primitive p a (lapd_change_state st t)))"
  using assms by (auto simp: window_step_def est_def sock_upds)

text \<open>
  Layer management never brings a link up; on an established link it either releases it or leaves
  the window alone.
\<close>

lemma mdl_recv_est:
  "est s \<Longrightarrow> \<not> est (lapd_mdl_recv pri s) \<or> keeps s (lapd_mdl_recv pri s)"
  by (cases pri; cases "state s")
     (auto simp: est_def mdl_upds sock_upds lapd_mdl_assign_request_def lapd_mdl_error_response_def
       lapd_persistent_deactivation_def split: option.splits)

lemma window_mdl_recv: "gbn_inv s \<Longrightarrow> est s \<Longrightarrow> window_step [] s (Inr (lapd_mdl_recv pri s))"
  using mdl_recv_est [of s pri] by auto

lemma window_mdl_primitive: "gbn_inv s \<Longrightarrow> est s \<Longrightarrow> window_step [] s (Inr (lapd_mdl_primitive pri s))"
  by (simp add: lapd_mdl_primitive_def window_mdl_recv)

lemma window_disc: "est s \<Longrightarrow> window_step [] s (Inr (lapd_socket_handle_uframe_disc d s))"
  by (auto simp: est_def lapd_socket_handle_uframe_disc_def Let_def)

lemma window_dm: "gbn_inv s \<Longrightarrow> est s \<Longrightarrow> window_step [] s (Inr (lapd_socket_handle_uframe_dm d s))"
  using window_mdl_primitive [of s "LAPD_MDL_ERROR_INDICATION {MDL_B}"]
  by (auto simp: est_def lapd_socket_handle_uframe_dm_def Let_def)

lemma window_ua: "gbn_inv s \<Longrightarrow> est s \<Longrightarrow> window_step [] s (lapd_socket_handle_uframe_ua d s)"
  using window_mdl_primitive [of s "LAPD_MDL_ERROR_INDICATION {MDL_C, MDL_D}"]
  by (auto simp: est_def lapd_socket_handle_uframe_ua_def)

lemma window_uframe:
  assumes "gbn_inv s" "est s" "\<not> is_sabme d" "lapd_frame_type (hdr_control d) = LAPD_FRAME_TYPE_UFRAME"
  shows "window_step [] s (bind_res (lapd_socket_handle_uframe d s) (\<lambda>r. Inr (snd r)))"
proof -
  obtain t where "lapd_socket_handle_uframe_ua d s = Inr t" "window_step [] s (Inr t)"
    using window_ua [OF assms(1,2)] by (auto simp: window_step_def)
  then show ?thesis
    using assms window_reject window_disc window_dm
    by (cases "lapd_uframe_function (hdr_control d)")
       (auto simp: lapd_socket_handle_uframe_def not_queued_def is_sabme_def
         lapd_socket_handle_uframe_frmr_def lapd_socket_handle_uframe_xid_def
         lapd_socket_handle_uframe_ui_def lapd_dl_unit_data_indication_def Let_def)
qed

lemma window_dlc_recv:
  assumes "gbn_inv s" "est s" "\<forall>d. m = Skb_frame d \<longrightarrow> \<not> is_sabme d"
  shows "window_step [] s (bind_res (lapd_dlc_recv m s) (\<lambda>r. Inr (snd r)))"
proof (cases m)
  case (Skb_mdl pri)
  then show ?thesis using assms by (simp add: lapd_dlc_recv_def window_mdl_recv)
next
  case (Skb_frame d)
  obtain t where "lapd_socket_handle_sframe d s = Inr t" "window_step [] s (Inr t)"
    using window_sframe [OF assms(1)] by (auto simp: window_step_def)
  then show ?thesis
    using Skb_frame assms window_iframe window_uframe
    by (cases "lapd_frame_type (hdr_control d)") (simp_all add: lapd_dlc_recv_def not_queued_def)
qed

lemma window_data:
  assumes "gbn_inv s" "est s" "skb_ptr b \<notin> skb_ptr ` set (sk_write_queue s)" "4 \<le> length (skb_data b)"
  shows "window_step [payload b] s (lapd_dl_data_request b s)"
proof -
  let ?q = "lapd_sock_queue_iframe b s"
  have q: "gbn_inv ?q" "advances [payload b] s ?q" "sap ?q = sap s"
    using queue_iframe_gbn [OF assms(1,3,4)] gbn_va [OF assms(1)]
    by (auto simp: advances_def contents_def lapd_sock_queue_iframe_def Let_def seq_add_0 intro!: exI [of _ 0])
  obtain t where t: "lapd_run_i_queue ?q = Inr t" "gbn_inv t" "abs_gbn t = abs_gbn ?q \<or> abs_gbn t = gbn_send (sap_k (sap ?q)) (abs_gbn ?q)"
    using run_i_queue_gbn [OF q(1)] by metis
  have "contents t = contents ?q" "v_a t = v_a ?q"
    using t(3) gbn_ops_keep_data by (auto simp only: contents_abs) (simp_all add: abs_gbn_def gbn_send_def Let_def)
  then have "advances [payload b] s t" using q(2) by (simp add: advances_def)
  moreover have "sap t = sap s" using run_i_queue_cases [OF t(1)] q(3) by auto
  ultimately show ?thesis
    using assms(2) q t by (auto simp: est_def lapd_dl_data_request_def window_step_def)
qed

lemma window_timers:
  "gbn_inv s \<Longrightarrow> est s \<Longrightarrow> window_step [] s (Inr (lapd_timer_T200 s))"
  "gbn_inv s \<Longrightarrow> est s \<Longrightarrow> window_step [] s (Inr (lapd_timer_T203 s))"
  by (auto simp: est_def lapd_timer_T200_def lapd_timer_T203_def Let_def lapd_transmit_enquiry_procedure_def)

lemma window_run_ui [simp]: "keeps s (lapd_run_ui_loop q t) = keeps s t"
  by (induction q arbitrary: t) (simp_all add: ph_data_request_def)

lemma window_unit_data: "gbn_inv s \<Longrightarrow> est s \<Longrightarrow> window_step [] s (lapd_dl_unit_data_request d s)"
  by (auto simp: est_def lapd_dl_unit_data_request_def lapd_run_ui_queue_def lapd_sock_queue_uframe_def)

fun accepted :: "dl_event \<Rightarrow> octets list" where
  "accepted (Dl_data b) = [payload b]"
| "accepted _ = []"

definition est_event :: "dl_event \<Rightarrow> lapd_sock \<Rightarrow> bool" where
  "est_event e s \<longleftrightarrow> est s \<and>
     (case processed_frame e s of None \<Rightarrow> True | Some d \<Rightarrow> \<not> is_sabme d) \<and>
     (case e of Dl_data b \<Rightarrow> skb_ptr b \<notin> skb_ptr ` set (sk_write_queue s) \<and> 4 \<le> length (skb_data b)
      | _ \<Rightarrow> True)"

lemma window_step_event:
  assumes "est_event e s" "gbn_inv s"
  shows "window_step (accepted e) s (dl_step e s)"
proof (cases e)
  case (Dl_recv m)
  then show ?thesis
    using assms window_dlc_recv [of s m]
    by (cases m) (auto simp: lapd_pass_frame_to_socket_def est_event_def processed_frame_def)
next
  case Dl_backlog
  show ?thesis
  proof (cases "sk_backlog s")
    case Nil
    then show ?thesis using Dl_backlog assms by simp
  next
    case (Cons m ms)
    let ?s = "s\<lparr>sk_backlog := ms\<rparr>"
    have k: "keeps s ?s" by simp
    then have "gbn_inv ?s" using assms by (simp add: keeps_def)
    then have "window_step [] ?s (bind_res (lapd_dlc_recv m ?s) (\<lambda>r. Inr (snd r)))"
      using assms Cons Dl_backlog
      by (intro window_dlc_recv) (auto simp: est_event_def processed_frame_def est_def split: dlc_skb.splits)
    then show ?thesis
      using window_step_after [OF assms(2) k] Cons Dl_backlog by (simp add: lapd_backlog_rcv_def)
  qed
next
  case Dl_establish
  then show ?thesis
    using assms by (auto simp: est_event_def est_def lapd_dl_establish_request_def Let_def)
next
  case Dl_release
  then show ?thesis
    using assms by (auto simp: est_event_def est_def lapd_dl_release_request_def Let_def)
qed (use assms window_data window_unit_data window_timers in
      \<open>auto simp: est_event_def\<close>)

text \<open>The invariant of a link while it is established.\<close>

definition link_inv :: "lapd_sock \<Rightarrow> bool" where
  "link_inv s \<longleftrightarrow> (est s \<longrightarrow> gbn_inv s)"

interpretation window: total_event_machine est_event dl_step link_inv
proof unfold_locales
  fix e s t assume a: "est_event e s" "link_inv s"
  then have "gbn_inv s" by (simp add: est_event_def link_inv_def)
  then have w: "window_step (accepted e) s (dl_step e s)" using a window_step_event by blast
  then show "\<exists>s'. dl_step e s = Inr s'" by (auto simp: window_step_def)
  show "dl_step e s = Inr t \<Longrightarrow> link_inv t" using w by (auto simp: window_step_def link_inv_def)
qed

lemma run_advances:
  assumes "events_ok dl_step est_event es s" "gbn_inv s" "est s" "run_events dl_step es s = Inr t" "est t"
  shows "\<exists>n. v_a t = seq_add (v_a s) n \<and> n \<le> length (contents s @ concat (map accepted es)) \<and>
     contents t = drop n (contents s @ concat (map accepted es))"
  using assms
proof (induction es arbitrary: s)
  case Nil
  then show ?case using gbn_va [of s] by (auto simp: seq_add_0 intro!: exI [of _ 0])
next
  case (Cons e es)
  then obtain u where u: "dl_step e s = Inr u" "run_events dl_step es u = Inr t" "est_event e s"
    "events_ok dl_step est_event es u"
    by (auto simp: bind_res_eq_Inr)
  have "window_step (accepted e) s (Inr u)" using window_step_event [OF u(3) Cons.prems(2)] u(1) by simp
  have eu: "est u" using u(2,4) Cons.prems(5) by (cases es) (auto simp: est_event_def)
  then have g: "gbn_inv u" "advances (accepted e) s u"
    using \<open>window_step (accepted e) s (Inr u)\<close> by (auto simp: window_step_def)
  then obtain n where n: "n \<le> length (sk_write_queue s)" "v_a u = seq_add (v_a s) n"
     "contents u = drop n (contents s) @ accepted e" by (auto simp: advances_def)
  obtain m where m: "v_a t = seq_add (v_a u) m" "m \<le> length (contents u @ concat (map accepted es))"
     "contents t = drop m (contents u @ concat (map accepted es))"
    using Cons.IH [OF u(4) g(1) eu u(2) Cons.prems(5)] by blast
  have "length (contents s) = length (sk_write_queue s)" by (simp add: contents_def)
  then show ?case
    using n m by (auto simp: seq_add_add add.commute intro!: exI [of _ "n + m"])
qed

lemma window_timer_ops [simp]:
  "gbn_inv (lapd_start_T200 s) = gbn_inv s" "gbn_inv (lapd_stop_T200 s) = gbn_inv s"
  "gbn_inv (lapd_start_T203 s) = gbn_inv s" "gbn_inv (lapd_stop_T203 s) = gbn_inv s"
  "abs_gbn (lapd_start_T200 s) = abs_gbn s" "abs_gbn (lapd_stop_T200 s) = abs_gbn s"
  "abs_gbn (lapd_start_T203 s) = abs_gbn s" "abs_gbn (lapd_stop_T203 s) = abs_gbn s"
  by (simp_all add: gbn_inv_def abs_gbn_def seqs_ok_def sent_part_def unsent_part_def
      lapd_start_T200_def lapd_stop_T200_def lapd_start_T203_def lapd_stop_T203_def)

lemma timer_ops_frame [simp]:
  "state (lapd_start_T200 s) = state s" "state (lapd_stop_T200 s) = state s"
  "state (lapd_start_T203 s) = state s" "ph_out (lapd_start_T200 s) = ph_out s"
  "ph_out (lapd_stop_T200 s) = ph_out s" "ph_out (lapd_start_T203 s) = ph_out s"
  by (simp_all add: lapd_start_T200_def lapd_stop_T200_def lapd_start_T203_def)

section \<open>Properties of the sender\<close>

text \<open>
  C26. The transmit side of an established link never faults and keeps its window. From a state
  in which the window is in order, any sequence of frames (SABME apart), primitives, user calls
  and timer expiries, in any order, returns: no handler follows a freed buffer or a null pointer. As
  long as the link stays up, at most k frames are sent and not acknowledged, and they are exactly
  the frames before the cursor, numbered V(A), V(A)+1, ..., V(S)-1 modulo 128 in queue order.
\<close>

theorem window_discipline:
  assumes "gbn_inv s" "events_ok dl_step est_event es s"
  shows "\<exists>t. run_events dl_step es s = Inr t \<and>
     (est t \<longrightarrow> length (sent_part t) \<le> sap_k (sap t) \<and>
        map (i_n_s \<circ> skb_data) (sent_part t) = map (seq_add (v_a t)) [0..<length (sent_part t)] \<and>
        v_s t = seq_add (v_a t) (length (sent_part t)))"
proof -
  obtain t where t: "run_events dl_step es s = Inr t" "link_inv t"
    using window.run_total [OF assms(2)] assms(1) by (auto simp: link_inv_def)
  have "length (sent_part t) \<le> sap_k (sap t) \<and>
        map (i_n_s \<circ> skb_data) (sent_part t) = map (seq_add (v_a t)) [0..<length (sent_part t)] \<and>
        v_s t = seq_add (v_a t) (length (sent_part t))" if "gbn_inv t"
    using that gbn_sent_length [OF that] by (simp add: gbn_inv_def seqs_ok_def seq_add_dist)
  then show ?thesis using t by (auto simp: link_inv_def)
qed

text \<open>
  C27. Nothing the user hands over is lost, duplicated or reordered while the link stays up: the
  payloads in the transmit queue are the payloads that were there followed by the accepted ones,
  less a prefix, and V(A) has advanced by exactly the length of that prefix modulo 128: a payload
  leaves the queue only when the peer acknowledges it.
\<close>

theorem no_data_lost:
  assumes "gbn_inv s" "est s" "events_ok dl_step est_event es s" "run_events dl_step es s = Inr t" "est t"
  shows "\<exists>acked. map payload (sk_write_queue s) @ concat (map accepted es) =
       acked @ map payload (sk_write_queue t) \<and> v_a t = seq_add (v_a s) (length acked)"
proof -
  let ?all = "contents s @ concat (map accepted es)"
  obtain n where "v_a t = seq_add (v_a s) n" "n \<le> length ?all" "contents t = drop n ?all"
    using run_advances [OF assms(3,1,2,4,5)] by blast
  then have "?all = take n ?all @ contents t \<and> v_a t = seq_add (v_a s) (length (take n ?all))"
    by (simp only: append_take_drop_id length_take min.absorb2)
  then show ?thesis unfolding contents_def by (rule exI)
qed

text \<open>
  The validity test of a received N(R), written with remainders of C integers, accepts exactly
  the numbers from V(A) up to V(S) modulo 128.
\<close>

theorem valid_nr_exact:
  assumes "v_a s < 128" "v_s s < 128" "n_r < 128"
  shows "lapd_is_valid_nr s n_r \<longleftrightarrow> (\<exists>i \<le> seq_dist (v_a s) (v_s s). n_r = seq_add (v_a s) i)"
proof -
  have "lapd_is_valid_nr s n_r \<longleftrightarrow> seq_dist (v_a s) n_r \<le> seq_dist (v_a s) (v_s s)"
    using assms by (simp add: lapd_is_valid_nr_def uint_dist)
  moreover have "seq_dist (v_a s) n_r = i" if "n_r = seq_add (v_a s) i" "i \<le> seq_dist (v_a s) (v_s s)" for i
    using that assms seq_dist_lt [of "v_a s" "v_s s"] by (simp add: seq_dist_add)
  ultimately show ?thesis using seq_add_dist [OF assms(1,3)] by metis
qed

text \<open>
  C31. The transmit loop implements the sending step of a go-back-N sender: it sends as many of the
  waiting payloads as the window of k frames allows, in order, each frame numbered from V(S) on
  and carrying V(R) as N(R), and moves the cursor behind them.
\<close>

theorem transmit_refines:
  assumes "gbn_inv s" "in_7 s" "\<not> peer_receiver_busy s"
  shows "\<exists>t sent. lapd_run_i_queue s = Inr t \<and> gbn_inv t \<and>
     abs_gbn t = gbn_send (sap_k (sap s)) (abs_gbn s) \<and>
     ph_out t = ph_out s @ map skb_data sent \<and>
     map payload sent = take (sap_k (sap s) - length (sent_part s)) (map payload (unsent_part s)) \<and>
     map (i_n_s \<circ> skb_data) sent = map (seq_add (v_s s)) [0..<length sent] \<and>
     list_all (\<lambda>b. i_n_r (skb_data b) = v_r s) sent"
proof -
  define j where "j = min (length (unsent_part s)) (sap_k (sap s) - length (sent_part s))"
  define zs where "zs = stamp (v_r s) (v_s s) (take j (unsent_part s))"
  define t where "t = lapd_run_i_loop (unsent_part s) s"
  note L = gbn_loop [OF assms(1) j_def zs_def t_def]
  have la: "list_all (\<lambda>b. 4 \<le> length (skb_data b)) (take j (unsent_part s))"
    using assms(1) queue_split [of s]
    by (auto simp: gbn_inv_def frames_ok_def list_all_iff dest: in_set_takeD)
  have "abs_gbn t = gbn_send (sap_k (sap s)) (abs_gbn s)"
    using L(2,3) by (simp add: abs_gbn_def gbn_send_def Let_def take_map drop_map t_def j_def zs_def)
  moreover have "map (i_n_s \<circ> skb_data) zs = map (seq_add (v_s s)) [0..<length zs]"
    using stamp_n_s [OF la, of "v_s s" "v_r s"] gbn_vs [OF assms(1)] by (simp add: zs_def)
  moreover have "list_all (\<lambda>b. i_n_r (skb_data b) = v_r s) zs"
    using stamp_n_r [OF la] assms(1) by (auto simp: zs_def list_all_iff gbn_inv_def seqs_ok_def)
  moreover have "map payload zs = take (sap_k (sap s) - length (sent_part s)) (map payload (unsent_part s))"
    by (cases "length (unsent_part s) \<le> sap_k (sap s) - length (sent_part s)")
       (simp_all add: zs_def j_def take_map min_def)
  ultimately show ?thesis using L run_i_queue_loop [OF assms] by (auto simp: t_def)
qed

text \<open>
  A REJ with a valid N(R) makes an established link go back to N(R): the frames before it are
  acknowledged and dropped, the others are sent again from the oldest on, up to k of them, with the
  same payloads and numbered from N(R). In the abstract sender this is acknowledge, rewind, send.
\<close>

theorem rej_goes_back_n:
  assumes "gbn_inv s" "in_7 s" "lapd_is_valid_nr s (s_n_r d)"
  shows "\<exists>t. lapd_socket_handle_sframe_rej d s = Inr t \<and> in_7 t \<and> gbn_inv t \<and> v_a t = s_n_r d \<and>
     abs_gbn t = gbn_send (sap_k (sap s)) (gbn_rewind (gbn_ack (s_n_r d) (abs_gbn s)))"
proof -
  define p where "p = sframe_poll_7 d (s\<lparr>peer_receiver_busy := False\<rparr>)"
  have p: "gbn_inv p" "abs_gbn p = abs_gbn s" "lapd_is_valid_nr p (s_n_r d)"
    using assms gbn_inv_cong [of p s] abs_gbn_cong [of p s]
    by (simp_all add: p_def lapd_is_valid_nr_def)
  define q where "q = lapd_start_T203 (lapd_stop_T200 (lapd_ack_va (s_n_r d) p))"
  have q: "gbn_inv q" "abs_gbn q = gbn_ack (s_n_r d) (abs_gbn s)" "in_7 q" "\<not> peer_receiver_busy q" "sap q = sap s"
    using ack_va_window(3) [OF p(1) _ p(3)] abs_ack [OF p(1) _ p(3)] p(2) assms(2)
    by (simp_all add: q_def p_def) (simp_all add: lapd_start_T203_def lapd_stop_T200_def)
  obtain t where t: "lapd_invoke_retransmission_procedure q = Inr t" "gbn_inv t"
    "abs_gbn t = gbn_send (sap_k (sap s)) (gbn_rewind (abs_gbn q))"
    using retransmission_gbn [OF q(1)] q by auto
  have "gb_base (abs_gbn t) = s_n_r d"
    using t(3) q(2) by (simp add: gbn_ops_keep_data) (simp add: gbn_ack_def)
  then have "v_a t = s_n_r d" by (simp add: abs_gbn_def)
  moreover have "in_7 t" using retransmit_frame(1) [OF t(1)] q(3) by simp
  ultimately show ?thesis
    using t q(2) assms(2) p(3) by (simp add: lapd_socket_handle_sframe_rej_def Let_def p_def q_def)
qed

text \<open>
  An acknowledgement opens the window but does not send: an RR received on an established link
  acknowledges as the abstract sender does, but no waiting frame is transmitted, even when the window
  was closed and is open now. They wait for the next data request or for the enquiry of T203.
\<close>

theorem rr_opens_window_sends_nothing:
  assumes "gbn_inv s" "in_7 s" "lapd_is_valid_nr s (s_n_r d)" "\<not> s_p_f d"
  shows "\<exists>t. lapd_socket_handle_sframe_rr d s = Inr t \<and> in_7 t \<and> gbn_inv t \<and>
     abs_gbn t = gbn_ack (s_n_r d) (abs_gbn s) \<and> ph_out t = ph_out s"
proof -
  define p where "p = s\<lparr>peer_receiver_busy := False\<rparr>"
  have pp: "sframe_poll_7 d p = p" using assms(4) by (simp add: sframe_poll_7_def)
  have p: "gbn_inv p" "abs_gbn p = abs_gbn s" "lapd_is_valid_nr p (s_n_r d)" "in_7 p"
    using assms gbn_inv_cong [of p s] abs_gbn_cong [of p s] by (simp_all add: p_def lapd_is_valid_nr_def)
  let ?a = "lapd_ack_va (s_n_r d) p"
  have a: "gbn_inv ?a" "abs_gbn ?a = gbn_ack (s_n_r d) (abs_gbn s)" "ph_out ?a = ph_out s"
    using ack_va_window(3) [OF p(1) _ p(3)] abs_ack [OF p(1) _ p(3)] p(2)
    by (simp_all add: lapd_ack_va_def lapd_ack_frames_def p_def)
  let ?P = "\<lambda>t. in_7 t \<and> gbn_inv t \<and> abs_gbn t = gbn_ack (s_n_r d) (abs_gbn s) \<and> ph_out t = ph_out s"
  have P: "?P (lapd_start_T203 (lapd_stop_T200 ?a))" "?P (lapd_start_T200 ?a)" using a p(4) by simp_all
  have Pp: "s_n_r d = v_a s \<Longrightarrow> ?P p"
    using p gbn_va [OF assms(1)] by (auto simp: p_def gbn_ack_def abs_gbn_def)
  have eq: "lapd_socket_handle_sframe_rr d s =
     Inr (if s_n_r d = v_s s then lapd_start_T203 (lapd_stop_T200 ?a)
          else if s_n_r d \<noteq> v_a s then lapd_start_T200 ?a else p)"
    using assms(2) p(3) by (simp add: lapd_socket_handle_sframe_rr_def Let_def p_def [symmetric] pp) (simp add: p_def)
  show ?thesis
    unfolding eq by (rule exI, rule conjI [OF refl]) (use P Pp in \<open>auto simp only: split: if_split\<close>)
qed

section \<open>Establishment\<close>

lemma fresh_window:
  assumes "frames_ok (sk_write_queue s)" "1 \<le> sap_k (sap s)" "sap_k (sap s) < 128"
    "sk_send_head s = (case sk_write_queue s of [] \<Rightarrow> None | b # _ \<Rightarrow> Some (skb_ptr b))"
    "v_s s = 0" "v_a s = 0" "v_r s = 0"
  shows "gbn_inv s" "sent_part s = []" "unsent_part s = sk_write_queue s"
proof -
  show w: "sent_part s = []" "unsent_part s = sk_write_queue s"
    using split_at_head [of s "[]" "sk_write_queue s"] assms by (simp_all add: frames_ok_def)
  show "gbn_inv s"
    using assms w by (auto simp: gbn_inv_def seqs_ok_def head_ok_def split: list.splits)
qed

text \<open>
  A UA with the final bit answers a SABME that layer 3 asked for: the link is established with the
  window in order and V(S), V(A), V(R) restarted, the user gets an establish confirm, T203 or T200
  supervises, and the data queued while the link was being established are kept and the first k
  of them are sent, numbered from 0.
\<close>

theorem ua_establishes:
  assumes "state s = LAPD_DLS_5_AWAITING_ESTABLISH" "layer_3_initiated s" "u_p_f d"
    "frames_ok (sk_write_queue s)" "1 \<le> sap_k (sap s)" "sap_k (sap s) < 128" "\<not> peer_receiver_busy s"
    "sk_send_head s = (case sk_write_queue s of [] \<Rightarrow> None | b # _ \<Rightarrow> Some (skb_ptr b))"
  shows "\<exists>t. lapd_socket_handle_uframe_ua d s = Inr t \<and> in_7 t \<and> gbn_inv t \<and> v_r t = 0 \<and>
     abs_gbn t = gbn_send (sap_k (sap s))
       \<lparr>gb_base = 0, gb_unacked = [], gb_unsent = map payload (sk_write_queue s)\<rparr> \<and>
     (timer_T200 t \<or> timer_T203 t) \<and>
     sk_receive_queue t = sk_receive_queue s @ [Rcv_primitive LAPD_DL_ESTABLISH_CONFIRM 0]"
proof -
  define u where "u = lapd_dl_primitive LAPD_DL_ESTABLISH_CONFIRM 0
    (lapd_change_state LAPD_DLS_7_LINK_CONNECTION_ESTABLISHED
      (reset_counters (lapd_start_T203 (lapd_stop_T200 s))))"
  have h: "lapd_socket_handle_uframe_ua d s = lapd_run_i_queue u"
    using assms(1-3) by (simp add: lapd_socket_handle_uframe_ua_def Let_def u_def)
       (simp add: sock_upds)
  have u: "in_7 u" "v_s u = 0" "v_a u = 0" "v_r u = 0" "sk_write_queue u = sk_write_queue s" "sap u = sap s"
    "sk_send_head u = sk_send_head s" "peer_receiver_busy u = peer_receiver_busy s" "timer_T203 u"
    "sk_receive_queue u = sk_receive_queue s @ [Rcv_primitive LAPD_DL_ESTABLISH_CONFIRM 0]"
    by (simp_all add: u_def sock_upds)
  have g: "gbn_inv u" "sent_part u = []" "unsent_part u = sk_write_queue s"
    using fresh_window [of u] u assms(4-6,8) by simp_all
  obtain t where t: "lapd_run_i_queue u = Inr t" "gbn_inv t"
    "abs_gbn t = gbn_send (sap_k (sap s)) (abs_gbn u)"
    using run_i_queue_gbn [OF g(1)] u assms(7) by auto
  moreover have "abs_gbn u = \<lparr>gb_base = 0, gb_unacked = [], gb_unsent = map payload (sk_write_queue s)\<rparr>"
    using g u by (simp add: abs_gbn_def)
  moreover have "in_7 t" "v_r t = 0" "timer_T200 t \<or> timer_T203 t" "sk_receive_queue t = sk_receive_queue u"
    using run_i_queue_cases [OF t(1)] u run_i_loop_timers [of u] by auto
  ultimately show ?thesis using h u(10) by auto
qed

text \<open>
  A SABME received by an idle data link entity establishes the link: UA is sent with the poll
  bit copied, the user gets an establish indication, T203 runs, and with an empty transmit queue
  and a null cursor the window is in order.
\<close>

theorem sabme_establishes:
  assumes "state s = LAPD_DLS_4_TEI_ASSIGNED" "sk_state s = LAPD_SK_STATE_NORMAL_DLC"
    "sk_write_queue s = []" "sk_send_head s = None" "1 \<le> sap_k (sap s)" "sap_k (sap s) < 128"
  shows "\<exists>ua t. lapd_prepare_uframe s LAPD_UFRAME_FUNC_UA (u_p_f d) = Inr ua \<and>
     lapd_socket_handle_uframe_sabme d s = t \<and> in_7 t \<and> gbn_inv t \<and> timer_T203 t \<and>
     v_s t = 0 \<and> v_a t = 0 \<and> v_r t = 0 \<and> ph_out t = ph_out s @ [ua] \<and>
     sk_receive_queue t = sk_receive_queue s @ [Rcv_primitive LAPD_DL_ESTABLISH_INDICATION 0]"
proof -
  let ?t = "lapd_socket_handle_uframe_sabme d s"
  have t: "in_7 ?t" "v_s ?t = 0" "v_a ?t = 0" "v_r ?t = 0" "sk_write_queue ?t = []" "sk_send_head ?t = None"
    "sap ?t = sap s" "timer_T203 ?t"
    "sk_receive_queue ?t = sk_receive_queue s @ [Rcv_primitive LAPD_DL_ESTABLISH_INDICATION 0]"
    "\<exists>ua. lapd_prepare_uframe s LAPD_UFRAME_FUNC_UA (u_p_f d) = Inr ua \<and> ph_out ?t = ph_out s @ [ua]"
    using assms by (simp_all add: lapd_socket_handle_uframe_sabme_def sock_upds lapd_prepare_uframe_def)
  moreover have "gbn_inv ?t" using fresh_window [of ?t] t assms(5,6) by (simp add: frames_ok_def)
  ultimately show ?thesis by blast
qed

section \<open>Leftovers of an earlier link\<close>

text \<open>
  When the entity itself re-establishes a link that was up (N(R) error, frame reject, loss of
  the peer), the UA resets V(S), V(A) and V(R) but leaves the transmit queue and its cursor: the frames
  already sent under the old numbering stay before the cursor, are neither sent again nor
  discarded, and the user is told nothing. If there were any, the window is not in order.
\<close>

theorem reestablishment_keeps_stale_frames:
  assumes "state s = LAPD_DLS_5_AWAITING_ESTABLISH" "\<not> layer_3_initiated s" "u_p_f d"
  shows "\<exists>t. lapd_socket_handle_uframe_ua d s = Inr t \<and> in_7 t \<and> v_s t = 0 \<and> v_a t = 0 \<and>
     sent_part t = sent_part s \<and> unsent_part t = unsent_part s \<and> ph_out t = ph_out s \<and>
     sk_receive_queue t = sk_receive_queue s \<and> (sent_part s \<noteq> [] \<longrightarrow> \<not> gbn_inv t)"
proof -
  let ?t = "lapd_change_state LAPD_DLS_7_LINK_CONNECTION_ESTABLISHED
      (reset_counters (lapd_start_T203 (lapd_stop_T200 s)))"
  have h: "lapd_socket_handle_uframe_ua d s = Inr ?t"
    using assms by (simp add: lapd_socket_handle_uframe_ua_def sock_upds)
  have t: "in_7 ?t" "v_s ?t = 0" "v_a ?t = 0" "sent_part ?t = sent_part s" "unsent_part ?t = unsent_part s"
    "ph_out ?t = ph_out s" "sk_receive_queue ?t = sk_receive_queue s"
    by (simp_all add: sock_upds sent_part_def unsent_part_def)
  moreover have "sent_part s = []" if "gbn_inv ?t"
    using gbn_sent_length [OF that] t by simp
  ultimately show ?thesis using h by blast
qed

text \<open>
  C32. Discarding the transmit queue leaves the cursor on a freed buffer. If the peer releases a link
  with a frame still unsent, re-establishes it and the user sends again, the transmit loop follows
  the pointer to the freed buffer.
\<close>

theorem stale_cursor_use_after_free:
  assumes "in_7 s" "gbn_inv s" "unsent_part s \<noteq> []" "\<not> sk_owned_by_user s"
    "sk_state s = LAPD_SK_STATE_NORMAL_DLC" "is_sabme sabme" "length disc = 5"
    "lapd_frame_type (hdr_control disc) = LAPD_FRAME_TYPE_UFRAME"
    "lapd_uframe_function (hdr_control disc) = LAPD_UFRAME_FUNC_DISC"
    "skb_ptr b \<notin> skb_ptr ` set (sk_write_queue s)"
  shows "run_events dl_step [Dl_recv (Skb_frame disc), Dl_recv (Skb_frame sabme), Dl_data b] s =
     Inl UseAfterFree"
proof -
  let ?d = "lapd_socket_handle_uframe_disc disc s"
  let ?e = "lapd_socket_handle_uframe_sabme sabme ?d"
  obtain p where p: "sk_send_head s = Some p" "p \<in> skb_ptr ` set (sk_write_queue s)"
    using assms(2,3) by (cases "sk_send_head s") (auto simp: gbn_inv_def head_ok_def unsent_part_def)
  have k: "1 \<le> sap_k (sap s)" "sap_k (sap s) < 128" using assms(2) by (simp_all add: gbn_inv_def seqs_ok_def)
  have d: "dl_step (Dl_recv (Skb_frame disc)) s = Inr ?d"
    using assms(4,7-9) by (simp add: lapd_pass_frame_to_socket_def lapd_dlc_recv_def
        lapd_socket_handle_uframe_def not_queued_def)
  have fd: "state ?d = LAPD_DLS_4_TEI_ASSIGNED" "sk_write_queue ?d = []" "sk_send_head ?d = Some p"
    "\<not> sk_owned_by_user ?d" "sk_state ?d = LAPD_SK_STATE_NORMAL_DLC" "sap ?d = sap s"
    using assms(1,4,5) p by (simp_all add: lapd_socket_handle_uframe_disc_def sock_upds)
  have e: "dl_step (Dl_recv (Skb_frame sabme)) ?d = Inr ?e"
    using fd(4) assms(6) by (simp add: lapd_pass_frame_to_socket_def lapd_dlc_recv_def is_sabme_def
        lapd_socket_handle_uframe_def not_queued_def)
  have fe: "in_7 ?e" "sk_write_queue ?e = []" "sk_send_head ?e = Some p" "sap ?e = sap s"
    "\<not> peer_receiver_busy ?e" "v_s ?e = 0" "v_a ?e = 0"
    using fd by (simp_all add: lapd_socket_handle_uframe_sabme_def sock_upds)
  have "p \<noteq> skb_ptr b" using p(2) assms(10) by metis
  then have "dl_step (Dl_data b) ?e = Inl UseAfterFree"
    using fe k by (auto simp: lapd_dl_data_request_def lapd_sock_queue_iframe_def Let_def
        lapd_run_i_queue_def window_closed_def)
  then show ?thesis using d e by (simp del: dl_step.simps)
qed

section \<open>Witnesses\<close>

definition skb1 :: skb where "skb1 = \<lparr>skb_ptr = 1, skb_data = [0, 129, 0, 0, 65]\<rparr>"
definition skb2 :: skb where "skb2 = \<lparr>skb_ptr = 2, skb_data = [0, 129, 0, 0, 66]\<rparr>"
definition sock7 :: lapd_sock where
  "sock7 = sock0\<lparr>state := LAPD_DLS_7_LINK_CONNECTION_ESTABLISHED, timer_T203 := True\<rparr>"
definition sock7q :: lapd_sock where
  "sock7q = sock7\<lparr>sk_write_queue := [skb1, skb2], sk_send_head := Some 2, v_s := 1,
      timer_T200 := True, timer_T203 := False\<rparr>"
definition rr1 :: octets where "rr1 = [0, 129, 0x01, 2, 0, 0]"
definition rej1 :: octets where "rej1 = [0, 129, 0x09, 2, 0, 0]"

lemmas witness_defs = skb1_def skb2_def sock7_def sock7q_def sock0_def rr1_def rej1_def

lemma gbn_inv_sock7: "gbn_inv sock7" by code_simp
lemma gbn_inv_sock7q: "gbn_inv sock7q" by code_simp

theorem window_discipline_witness:
  "\<exists>t. run_events dl_step [Dl_data skb1, Dl_data skb2, Dl_recv (Skb_frame rr1)] sock7 = Inr t \<and>
     length (sent_part t) \<le> 7"
proof -
  let ?es = "[Dl_data skb1, Dl_data skb2, Dl_recv (Skb_frame rr1)]"
  have o: "events_ok dl_step est_event ?es sock7" by code_simp
  have e: "case run_events dl_step ?es sock7 of Inl _ \<Rightarrow> False | Inr t \<Rightarrow> est t \<and> sap_k (sap t) = 7" by code_simp
  show ?thesis using window_discipline [OF gbn_inv_sock7 o] e by auto
qed

theorem no_data_lost_witness:
  "\<exists>t acked. run_events dl_step [Dl_data skb1, Dl_data skb2, Dl_recv (Skb_frame rr1)] sock7 = Inr t \<and>
     [[65], [66]] = acked @ map payload (sk_write_queue t)"
proof -
  let ?es = "[Dl_data skb1, Dl_data skb2, Dl_recv (Skb_frame rr1)]"
  have o: "events_ok dl_step est_event ?es sock7" by code_simp
  have e: "case run_events dl_step ?es sock7 of Inl _ \<Rightarrow> False | Inr t \<Rightarrow> est t" by code_simp
  then obtain t where t: "run_events dl_step ?es sock7 = Inr t" "est t" by (auto split: sum.splits)
  have "est sock7" by (simp add: est_def sock7_def)
  from no_data_lost [OF gbn_inv_sock7 this o t]
  show ?thesis using t(1) by (auto simp: payload_def witness_defs simp del: run_events.simps)
qed

theorem valid_nr_exact_witness: "lapd_is_valid_nr sock7q 1 \<and> \<not> lapd_is_valid_nr sock7q 2"
proof -
  have v: "v_a sock7q < 128" "v_s sock7q < 128" by code_simp+
  have "seq_dist (v_a sock7q) (v_s sock7q) = 1" by code_simp
  moreover have "seq_add (v_a sock7q) 1 = 1" "seq_add (v_a sock7q) 0 = 0" by code_simp+
  ultimately show ?thesis
    using valid_nr_exact [OF v, of 1] valid_nr_exact [OF v, of 2] by (auto simp: le_Suc_eq)
qed

theorem transmit_refines_witness:
  "\<exists>t sent. lapd_run_i_queue sock7q = Inr t \<and> map payload sent = [[66]] \<and> ph_out t = map skb_data sent"
proof -
  have c: "in_7 sock7q" "\<not> peer_receiver_busy sock7q" "ph_out sock7q = []"
    "take (sap_k (sap sock7q) - length (sent_part sock7q)) (map payload (unsent_part sock7q)) = [[66]]"
    by code_simp+
  show ?thesis using transmit_refines [OF gbn_inv_sock7q c(1,2)] unfolding c(3,4) append_Nil
    by (elim exE conjE) (intro exI conjI, assumption+)
qed

theorem rej_goes_back_n_witness:
  "\<exists>t. lapd_socket_handle_sframe_rej rej1 sock7q = Inr t \<and> v_a t = 1 \<and> gb_unacked (abs_gbn t) = [[66]]"
proof -
  have c: "in_7 sock7q" "lapd_is_valid_nr sock7q (s_n_r rej1)" "s_n_r rej1 = 1"
    "gb_unacked (gbn_send (sap_k (sap sock7q)) (gbn_rewind (gbn_ack (s_n_r rej1) (abs_gbn sock7q)))) = [[66]]"
    by code_simp+
  show ?thesis using rej_goes_back_n [OF gbn_inv_sock7q c(1,2)] c(3,4) by auto
qed

theorem rr_opens_window_sends_nothing_witness:
  "\<exists>t. lapd_socket_handle_sframe_rr rr1 sock7q = Inr t \<and> ph_out t = [] \<and> gb_unsent (abs_gbn t) = [[66]]"
proof -
  have c: "in_7 sock7q" "lapd_is_valid_nr sock7q (s_n_r rr1)" "\<not> s_p_f rr1" "ph_out sock7q = []"
    "gb_unsent (gbn_ack (s_n_r rr1) (abs_gbn sock7q)) = [[66]]"
    by code_simp+
  show ?thesis using rr_opens_window_sends_nothing [OF gbn_inv_sock7q c(1-3)] c(4,5) by auto
qed

theorem ua_establishes_witness:
  "\<exists>t. lapd_socket_handle_uframe_ua [0, 129, 0x73, 0, 0]
        (sock0\<lparr>state := LAPD_DLS_5_AWAITING_ESTABLISH, layer_3_initiated := True,
               sk_write_queue := [skb1], sk_send_head := Some 1\<rparr>) = Inr t \<and> in_7 t \<and> gbn_inv t"
proof -
  let ?s = "sock0\<lparr>state := LAPD_DLS_5_AWAITING_ESTABLISH, layer_3_initiated := True,
               sk_write_queue := [skb1], sk_send_head := Some 1\<rparr>"
  have f: "frames_ok (sk_write_queue ?s)" "u_p_f [0, 129, 0x73, 0, 0]" by code_simp+
  show ?thesis using ua_establishes [of ?s "[0, 129, 0x73, 0, 0]"] f by (simp add: sock0_def skb1_def) blast
qed

theorem sabme_establishes_witness:
  "in_7 (lapd_socket_handle_uframe_sabme [0, 129, 0x7F, 0, 0] sock0) \<and>
   gbn_inv (lapd_socket_handle_uframe_sabme [0, 129, 0x7F, 0, 0] sock0)"
  using sabme_establishes [of sock0 "[0, 129, 0x7F, 0, 0]"] by (simp add: sock0_def) blast

theorem reestablishment_keeps_stale_frames_witness:
  "\<exists>t. lapd_socket_handle_uframe_ua [0, 129, 0x73, 0, 0] (sock7q\<lparr>state := LAPD_DLS_5_AWAITING_ESTABLISH\<rparr>) = Inr t \<and>
     \<not> gbn_inv t"
proof -
  let ?s = "sock7q\<lparr>state := LAPD_DLS_5_AWAITING_ESTABLISH\<rparr>"
  have c: "u_p_f [0, 129, 0x73, 0, 0]" "sent_part ?s = [skb1]" "\<not> layer_3_initiated ?s" by code_simp+
  show ?thesis using reestablishment_keeps_stale_frames [of ?s "[0, 129, 0x73, 0, 0]"] c by auto
qed

theorem stale_cursor_use_after_free_witness:
  "run_events dl_step [Dl_recv (Skb_frame [0, 129, 0x53, 0, 0]), Dl_recv (Skb_frame [0, 129, 0x7F, 0, 0]),
     Dl_data (skb1\<lparr>skb_ptr := 3\<rparr>)] sock7q = Inl UseAfterFree"
proof (rule stale_cursor_use_after_free [OF _ gbn_inv_sock7q])
  show "in_7 sock7q" "unsent_part sock7q \<noteq> []" "\<not> sk_owned_by_user sock7q"
    "sk_state sock7q = LAPD_SK_STATE_NORMAL_DLC" "is_sabme [0, 129, 0x7F, 0, 0]"
    "lapd_frame_type (hdr_control [0, 129, 0x53, 0, 0]) = LAPD_FRAME_TYPE_UFRAME"
    "lapd_uframe_function (hdr_control [0, 129, 0x53, 0, 0]) = LAPD_UFRAME_FUNC_DISC"
    "skb_ptr (skb1\<lparr>skb_ptr := 3\<rparr>) \<notin> skb_ptr ` set (sk_write_queue sock7q)" by code_simp+
qed simp

end
