(* ===== verification/Lapd_Reception.thy ===== *)
theory Lapd_Reception
  imports Lapd_Window
begin

text \<open>
  The multiple frame operation of an established link seen from the receiver: which I frames reach
  the user, and in which order.
\<close>

section \<open>Reception in sequence\<close>

text \<open>
  \<open>sk_receive_queue\<close> holds everything that was handed to the user, in order. The I frames among it:
\<close>

fun i_frames :: "rcv_item list \<Rightarrow> octets list" where
  "i_frames [] = []"
| "i_frames (Rcv_frame d # q) =
     (if lapd_frame_type (hdr_control d) = LAPD_FRAME_TYPE_IFRAME then d # i_frames q else i_frames q)"
| "i_frames (Rcv_primitive p a # q) = i_frames q"

lemma i_frames_append [simp]: "i_frames (p @ q) = i_frames p @ i_frames q"
  by (induction p rule: i_frames.induct) auto

definition rx :: "lapd_sock \<Rightarrow> octets list \<times> u8" where
  "rx s = (i_frames (sk_receive_queue s), v_r s)"

lemma rx_run_i_loop [simp]: "rx (lapd_run_i_loop bs s) = rx s"
  by (simp add: rx_def)

lemma rx_run: "lapd_run_i_queue s = Inr t \<Longrightarrow> rx t = rx s"
  by (drule run_i_queue_cases) auto

lemma rx_retransmit: "lapd_invoke_retransmission_procedure s = Inr t \<Longrightarrow> rx t = rx s"
  unfolding lapd_invoke_retransmission_procedure_def Let_def
  by (drule rx_run) (auto simp: rx_def split: list.splits)

lemma rx_ops [simp]:
  "rx (lapd_start_T200 s) = rx s" "rx (lapd_stop_T200 s) = rx s"
  "rx (lapd_start_T203 s) = rx s" "rx (lapd_stop_T203 s) = rx s"
  "rx (lapd_change_state st s) = rx s" "rx (lapd_ack_va n s) = rx s"
  "rx (lapd_send_sframe c f p s) = rx s" "rx (lapd_send_uframe g p s) = rx s"
  "rx (sframe_poll_7 d s) = rx s" "rx (lapd_enquiry_response_procedure s) = rx s"
  "rx (lapd_transmit_enquiry_procedure s) = rx s"
  "rx (lapd_establish_datalink_procedure s) = rx s"
  "rx (lapd_nr_error_recovery_procedure s) = rx s"
  "rx (lapd_frame_reject err s) = rx s"
  "rx (lapd_discard_i_queue s) = rx s"
  "rx (lapd_dl_primitive p' a s) = rx s"
  "rx (lapd_clear_own_receiver_busy s) = rx s" "rx (lapd_set_own_receiver_busy s) = rx s"
  "rx (lapd_sock_queue_iframe b s) = rx s"
  "rx (s\<lparr>peer_receiver_busy := pb\<rparr>) = rx s" "rx (s\<lparr>timer_T200 := tb\<rparr>) = rx s" "rx (s\<lparr>timer_T203 := tb\<rparr>) = rx s"
  "rx (s\<lparr>retrans_cnt := rc\<rparr>) = rx s" "rx (s\<lparr>layer_3_initiated := l3\<rparr>) = rx s"
  "rx (s\<lparr>sk_backlog := bl\<rparr>) = rx s" "rx (s\<lparr>sk_owned_by_user := ob\<rparr>) = rx s" "rx (s\<lparr>sk_rmem_alloc := rm\<rparr>) = rx s"
  using lapd_frame_reject_upd [of err s]
  by (auto simp: rx_def sock_upds lapd_nr_error_recovery_upd sframe_poll_7_def mdl_error_no_action
      lapd_ack_va_def lapd_ack_frames_def lapd_clear_own_receiver_busy_def lapd_set_own_receiver_busy_def
      lapd_sock_queue_iframe_def)

lemma rx_mdl: "rx (lapd_mdl_recv pri s) = rx s"
  by (cases pri; cases "state s")
     (simp_all add: rx_def mdl_upds sock_upds lapd_mdl_assign_request_def lapd_mdl_error_response_def
       lapd_persistent_deactivation_def split: option.splits)

lemma rx_mdl_primitive [simp]: "rx (lapd_mdl_primitive pri s) = rx s"
  by (simp add: lapd_mdl_primitive_def rx_mdl)

lemma rx_sframe: "lapd_socket_handle_sframe d s = Inr t \<Longrightarrow> rx t = rx s"
  by (auto simp: lapd_socket_handle_sframe_def lapd_socket_handle_sframe_rr_def
      lapd_socket_handle_sframe_rnr_def lapd_socket_handle_sframe_rej_def sframe_ack_8_def Let_def
      bind_res_eq_Inr dest!: rx_retransmit
      split: if_splits lapd_sframe_function_e.splits lapd_datalink_state.splits)

lemma rx_uframe:
  assumes "est s" "\<not> is_sabme d" "lapd_frame_type (hdr_control d) = LAPD_FRAME_TYPE_UFRAME"
    "lapd_socket_handle_uframe d s = Inr r"
  shows "rx (snd r) = rx s"
proof -
  have ui: "rx (lapd_dl_unit_data_indication d s) = rx s"
    using assms(3) by (simp add: rx_def lapd_dl_unit_data_indication_def)
  show ?thesis
    using assms ui
    by (cases "lapd_uframe_function (hdr_control d)")
       (auto simp: lapd_socket_handle_uframe_def not_queued_def bind_res_eq_Inr is_sabme_def est_def
         lapd_socket_handle_uframe_dm_def lapd_socket_handle_uframe_disc_def
         lapd_socket_handle_uframe_frmr_def lapd_socket_handle_uframe_xid_def
         lapd_socket_handle_uframe_ua_def lapd_socket_handle_uframe_ui_def Let_def split: if_splits)
qed

text \<open>An I frame is delivered exactly when its number is V(R), and V(R) then moves on by one.\<close>

definition rx_step :: "lapd_sock \<Rightarrow> octets \<Rightarrow> lapd_sock \<Rightarrow> bool" where
  "rx_step s d t \<longleftrightarrow> rx t = rx s \<or>
     i_n_s d = v_r s \<and> rx t = (i_frames (sk_receive_queue s) @ [d], seq_add (v_r s) 1)"

lemma rx_iframe_ack [simp]: "rx (iframe_ack_7 d s) = rx s" "rx (iframe_ack_8 d s) = rx s"
  by (simp_all add: iframe_ack_7_def iframe_ack_8_def)

lemma rx_iframe_receive:
  "lapd_frame_type (hdr_control d) = LAPD_FRAME_TYPE_IFRAME \<Longrightarrow>
   rx (snd (iframe_receive c d s)) =
     (if \<not> own_receiver_busy s \<and> i_n_s d = v_r s
      then (i_frames (sk_receive_queue s) @ [d], seq_add (v_r s) 1) else rx s)"
  by (simp add: rx_def iframe_receive_def sock_upds lapd_dl_data_indication_def succ_mod_eq_seq_add)

lemma rx_iframe:
  assumes "lapd_frame_type (hdr_control d) = LAPD_FRAME_TYPE_IFRAME"
  shows "rx_step s d (snd (lapd_socket_handle_iframe d s))"
proof -
  define s1 where "s1 = (if sk_rmem_alloc s < sk_rcvbuf s \<and> own_receiver_busy s
                 then lapd_clear_own_receiver_busy s else s)"
  have r1: "rx s1 = rx s" by (simp add: s1_def)
  have "rx_step s d (iframe_ack_7 d (snd (iframe_receive True d s1)))"
    "rx_step s d (iframe_ack_8 d (snd (iframe_receive False d s1)))"
    using r1 by (auto simp: rx_step_def rx_iframe_receive [OF assms]) (simp_all add: rx_def)
  moreover have "rx_step s d (lapd_set_own_receiver_busy s1)" "rx_step s d s1"
    "rx_step s d (lapd_frame_reject LAPD_FE_N201 s)"
    using r1 by (simp_all add: rx_step_def)
  ultimately show ?thesis
    by (simp add: lapd_socket_handle_iframe_def s1_def [symmetric] Let_def case_prod_beta
        split: lapd_datalink_state.split)
qed

lemma rx_dlc_recv:
  assumes "est s" "\<forall>d. m = Skb_frame d \<longrightarrow> \<not> is_sabme d" "lapd_dlc_recv m s = Inr r"
  shows "\<exists>d. rx_step s d (snd r)"
proof (cases m)
  case (Skb_mdl pri)
  then show ?thesis using assms(3) by (auto simp: lapd_dlc_recv_def rx_mdl rx_step_def)
next
  case (Skb_frame d)
  then show ?thesis
    using assms rx_iframe [of d s]
    by (cases "lapd_frame_type (hdr_control d)")
       (auto simp: lapd_dlc_recv_def not_queued_def bind_res_eq_Inr rx_step_def dest: rx_sframe rx_uframe)
qed

lemma rx_timers [simp]: "rx (lapd_timer_T200 s) = rx s" "rx (lapd_timer_T203 s) = rx s"
  by (cases "state s"; simp add: lapd_timer_T200_def lapd_timer_T203_def Let_def)+

lemma rx_run_ui [simp]: "rx (lapd_run_ui_loop q s) = rx s"
  by (induction q arbitrary: s) (simp_all add: ph_data_request_def rx_def)

lemma rx_requests:
  "est s \<Longrightarrow> lapd_dl_establish_request s = Inr r \<Longrightarrow> rx (snd r) = rx s"
  "rx (snd (lapd_dl_release_request s)) = rx s"
  "lapd_dl_data_request b s = Inr t \<Longrightarrow> rx t = rx s"
  "est s \<Longrightarrow> lapd_dl_unit_data_request d s = Inr t \<Longrightarrow> rx t = rx s"
  by (auto simp: est_def lapd_dl_establish_request_def lapd_dl_release_request_def lapd_dl_data_request_def
      lapd_dl_unit_data_request_def lapd_run_ui_queue_def lapd_sock_queue_uframe_def Let_def
      dest: rx_run split: lapd_datalink_state.splits)
     (simp_all add: rx_def)

definition est_no_sabme :: "dl_event \<Rightarrow> lapd_sock \<Rightarrow> bool" where
  "est_no_sabme e s \<longleftrightarrow> est s \<and> (case processed_frame e s of None \<Rightarrow> True | Some d \<Rightarrow> \<not> is_sabme d)"

lemma rx_event:
  assumes "est_no_sabme e s" "dl_step e s = Inr t"
  shows "\<exists>d. rx_step s d t"
proof (cases e)
  case (Dl_recv m)
  then show ?thesis
    using assms rx_dlc_recv [of s m]
    by (cases m) (auto simp: lapd_pass_frame_to_socket_def est_no_sabme_def processed_frame_def
       bind_res_eq_Inr rx_step_def split: if_splits)
next
  case Dl_backlog
  then show ?thesis
    using assms rx_dlc_recv [of "s\<lparr>sk_backlog := tl (sk_backlog s)\<rparr>" "hd (sk_backlog s)"]
    by (auto simp: bind_res_eq_Inr lapd_backlog_rcv_def est_no_sabme_def processed_frame_def rx_step_def est_def
         split: list.splits dlc_skb.splits)
qed (use assms rx_requests in \<open>auto simp: est_no_sabme_def rx_step_def bind_res_eq_Inr split: if_splits\<close>)

definition rx_inv :: "octets list \<Rightarrow> u8 \<Rightarrow> lapd_sock \<Rightarrow> bool" where
  "rx_inv pre v s \<longleftrightarrow> (\<exists>new. rx s = (pre @ new, seq_add v (length new)) \<and>
     map i_n_s new = map (seq_add v) [0..<length new])"

interpretation reception: event_machine est_no_sabme dl_step "rx_inv pre v" for pre v
proof unfold_locales
  fix e s t assume a: "est_no_sabme e s" "rx_inv pre v s" "dl_step e s = Inr t"
  obtain new where n: "rx s = (pre @ new, seq_add v (length new))" "map i_n_s new = map (seq_add v) [0..<length new]"
    using a(2) by (auto simp: rx_inv_def)
  obtain d where "rx_step s d t" using rx_event [OF a(1,3)] ..
  then consider "rx t = rx s" | "i_n_s d = v_r s" "rx t = (i_frames (sk_receive_queue s) @ [d], seq_add (v_r s) 1)"
    by (auto simp: rx_step_def)
  then show "rx_inv pre v t"
  proof cases
    case 1
    then show ?thesis using a(2) by (simp add: rx_inv_def)
  next
    case 2
    then show ?thesis
      using n by (auto simp: rx_inv_def rx_def seq_add_add intro!: exI [of _ "new @ [d]"])
  qed
qed

text \<open>
  C28. The user is handed the I frames of an established link in sequence, without gaps or
  repetitions: over any sequence of events while the link is up, whatever the peer sends, the numbers
  N(S) of the frames delivered are V(R), V(R)+1, V(R)+2 and so on modulo 128, and V(R) is the number
  after the last one.
\<close>

theorem reception_in_sequence:
  assumes "v_r s < 128" "events_ok dl_step est_no_sabme es s" "run_events dl_step es s = Inr t"
  shows "\<exists>new. i_frames (sk_receive_queue t) = i_frames (sk_receive_queue s) @ new \<and>
     map i_n_s new = map (seq_add (v_r s)) [0..<length new] \<and> v_r t = seq_add (v_r s) (length new)"
proof -
  have "rx_inv (i_frames (sk_receive_queue s)) (v_r s) s"
    using assms(1) by (simp add: rx_inv_def rx_def seq_add_0)
  from reception.run_inv [OF assms(2) this assms(3)] show ?thesis
    unfolding rx_inv_def rx_def prod.inject by blast
qed

definition iframe0 :: octets where "iframe0 = [2, 129, 0, 0, 65, 0, 0]"

theorem reception_in_sequence_witness:
  "\<exists>t new. run_events dl_step [Dl_recv (Skb_frame iframe0), Dl_recv (Skb_frame iframe0)] sock7 = Inr t \<and>
     i_frames (sk_receive_queue t) = new \<and> map i_n_s new = map (seq_add 0) [0..<length new]"
proof -
  let ?es = "[Dl_recv (Skb_frame iframe0), Dl_recv (Skb_frame iframe0)]"
  have o: "events_ok dl_step est_no_sabme ?es sock7" by code_simp
  have e: "case run_events dl_step ?es sock7 of Inl _ \<Rightarrow> False | Inr t \<Rightarrow> True" by code_simp
  then obtain t where t: "run_events dl_step ?es sock7 = Inr t" by (auto split: sum.splits)
  have v: "v_r sock7 < 128" "v_r sock7 = 0" "i_frames (sk_receive_queue sock7) = []" by code_simp+
  show ?thesis using reception_in_sequence [OF v(1) o t] t v by auto
qed

end
