(* ===== verification/Lapd_Tei_Mgmt.thy ===== *)
theory Lapd_Tei_Mgmt
  imports Lapd_Reception
begin

unbundle bit_operations_syntax

text \<open>
  The messages of TEI management (modules/lapd/tei_mgmt.h, tei_mgmt.c): UI frames to the
  broadcast TEI on SAPI 63 that carry an entity, a reference number Ri, a message type and one or
  more action indicators Ai.
\<close>

section \<open>Constants\<close>

datatype lapd_tei_state = LAPD_TME_TEI_UNASSIGNED | LAPD_TME_TEI_ASSIGNED

definition LAPD_SAPI_TEI_MGMT :: u8 where "LAPD_SAPI_TEI_MGMT = 0x3f"
definition LAPD_TEI_ENTITY :: u8 where "LAPD_TEI_ENTITY = 0x0f"

definition LAPD_TEI_MT_REQUEST :: u8 where "LAPD_TEI_MT_REQUEST = 1"
definition LAPD_TEI_MT_ASSIGNED :: u8 where "LAPD_TEI_MT_ASSIGNED = 2"
definition LAPD_TEI_MT_DENIED :: u8 where "LAPD_TEI_MT_DENIED = 3"
definition LAPD_TEI_MT_CHK_REQ :: u8 where "LAPD_TEI_MT_CHK_REQ = 4"
definition LAPD_TEI_MT_CHK_RES :: u8 where "LAPD_TEI_MT_CHK_RES = 5"
definition LAPD_TEI_MT_REMOVE :: u8 where "LAPD_TEI_MT_REMOVE = 6"
definition LAPD_TEI_MT_VERIFY :: u8 where "LAPD_TEI_MT_VERIFY = 7"

definition LAPD_MAX_STA_TEI :: u8 where "LAPD_MAX_STA_TEI = 63"
definition LAPD_MIN_DYN_TEI :: u8 where "LAPD_MIN_DYN_TEI = 64"
definition LAPD_MAX_DYN_TEI :: u8 where "LAPD_MAX_DYN_TEI = 126"
definition LAPD_TEI_UNASSIGNED :: u8 where "LAPD_TEI_UNASSIGNED = 255"

lemmas tei_consts =
  LAPD_SAPI_TEI_MGMT_def LAPD_TEI_ENTITY_def LAPD_TEI_MT_REQUEST_def LAPD_TEI_MT_ASSIGNED_def
  LAPD_TEI_MT_DENIED_def LAPD_TEI_MT_CHK_REQ_def LAPD_TEI_MT_CHK_RES_def LAPD_TEI_MT_REMOVE_def
  LAPD_TEI_MT_VERIFY_def LAPD_MAX_STA_TEI_def LAPD_MIN_DYN_TEI_def LAPD_MAX_DYN_TEI_def
  LAPD_TEI_UNASSIGNED_def LAPD_BROADCAST_TEI_def

section \<open>Messages\<close>

text \<open>
  Ri is copied to and from the message as it lies in memory; the order of its two octets is that
  of a little endian host.
\<close>

type_synonym u16 = "16 word"

definition u16_octets :: "u16 \<Rightarrow> octets" where
  "u16_octets w = [ucast w, ucast (drop_bit 8 w)]"

definition octets_u16 :: "u8 \<Rightarrow> u8 \<Rightarrow> u16" where
  "octets_u16 a b = ucast a OR push_bit 8 (ucast b)"

definition tm_entity :: "octets \<Rightarrow> u8" where "tm_entity d = d ! 3"
definition tm_ri :: "octets \<Rightarrow> u16" where "tm_ri d = octets_u16 (d ! 4) (d ! 5)"
definition tm_message_type :: "octets \<Rightarrow> u8" where "tm_message_type d = d ! 6"
definition ai_value :: "u8 \<Rightarrow> u8" where "ai_value x = hi7 x"
definition ai_ext :: "u8 \<Rightarrow> bool" where "ai_ext x = bit x 0"
definition tm_ai :: "octets \<Rightarrow> u8" where "tm_ai d = ai_value (d ! 7)"

text \<open>
  A field of a received message as the handlers read it, through a pointer to the structure of a message;
  \<open>octet\<close> is the last octet of the field. A field behind the end of the frame is read out of bounds.
\<close>

definition tm_rd :: "(octets \<Rightarrow> 'a) \<Rightarrow> nat \<Rightarrow> octets \<Rightarrow> 'a res" where
  "tm_rd field octet d = (if octet < length d then Inr (field d) else Inl OutOfBounds)"

text \<open>The extension bit is set in the last action indicator only.\<close>

fun tm_ai_octets :: "u8 list \<Rightarrow> octets" where
  "tm_ai_octets [] = []"
| "tm_ai_octets (ai # ais) = field7 ai (ais = []) # tm_ai_octets ais"

definition lapd_tm_frame :: "lapd_intf_role \<Rightarrow> u8 \<Rightarrow> u16 \<Rightarrow> u8 list \<Rightarrow> octets" where
  "lapd_tm_frame r message_type ri ais =
     make_address LAPD_SAPI_TEI_MGMT (lapd_make_cr r LAPD_COMMAND) LAPD_BROADCAST_TEI @
     [lapd_uframe_make_control LAPD_UFRAME_FUNC_UI False] @
     [LAPD_TEI_ENTITY] @ u16_octets ri @ [message_type] @ tm_ai_octets ais"

definition lapd_tm_send_multiai :: "u8 \<Rightarrow> u16 \<Rightarrow> u8 list \<Rightarrow> lapd_device \<Rightarrow> lapd_device" where
  "lapd_tm_send_multiai message_type ri ais dev =
     lapd_ph_data_request (lapd_tm_frame (dev_role dev) message_type ri ais) dev"

definition lapd_tm_send :: "u8 \<Rightarrow> u16 \<Rightarrow> u8 \<Rightarrow> lapd_device \<Rightarrow> lapd_device" where
  "lapd_tm_send message_type ri ai dev = lapd_tm_send_multiai message_type ri [ai] dev"

text \<open>
  The loop that collects action indicators from an octet of the frame on, until one with the
  extension bit. The octets past the end of the frame and the entries past the 128 of the array
  it writes to are out of bounds.
\<close>

function collect_ais :: "nat \<Rightarrow> nat \<Rightarrow> octets \<Rightarrow> u8 list res" where
  "collect_ais base n d =
     (if 128 \<le> n \<or> length d \<le> base + n then Inl OutOfBounds
      else if ai_ext (d ! (base + n)) then Inr [ai_value (d ! (base + n))]
      else bind_res (collect_ais base (n + 1) d) (\<lambda>ais. Inr (ai_value (d ! (base + n)) # ais)))"
  by pat_completeness auto
termination by (relation "measure (\<lambda>(base, n, d). 128 - n)") auto

section \<open>Round trip\<close>

lemma octets_u16_octets: "octets_u16 (u16_octets w ! 0) (u16_octets w ! 1) = w"
  unfolding octets_u16_def u16_octets_def
  by (rule bit_word_eqI)
     (auto simp: bit_or_iff bit_push_bit_iff bit_ucast_iff bit_drop_bit_eq)

lemma tm_ai_octets_length [simp]: "length (tm_ai_octets ais) = length ais"
  by (induction ais) auto

lemma lapd_tm_frame_fields [octet_simps]:
  "addr_sapi (lapd_tm_frame r mt ri ais) = LAPD_SAPI_TEI_MGMT"
  "addr_tei (lapd_tm_frame r mt ri ais) = LAPD_BROADCAST_TEI"
  "addr_c_r (lapd_tm_frame r mt ri ais) = lapd_make_cr r LAPD_COMMAND"
  "addr_ea2 (lapd_tm_frame r mt ri ais)" "\<not> addr_ea1 (lapd_tm_frame r mt ri ais)"
  "lapd_frame_type (hdr_control (lapd_tm_frame r mt ri ais)) = LAPD_FRAME_TYPE_UFRAME"
  "lapd_uframe_function (hdr_control (lapd_tm_frame r mt ri ais)) = LAPD_UFRAME_FUNC_UI"
  "tm_entity (lapd_tm_frame r mt ri ais) = LAPD_TEI_ENTITY"
  "tm_ri (lapd_tm_frame r mt ri ais) = ri"
  "tm_message_type (lapd_tm_frame r mt ri ais) = mt"
  "length (lapd_tm_frame r mt ri ais) = 7 + length ais"
  "drop 7 (lapd_tm_frame r mt ri ais) = tm_ai_octets ais"
  using address_fields [where sapi = LAPD_SAPI_TEI_MGMT and c_r = "lapd_make_cr r LAPD_COMMAND" and tei = LAPD_BROADCAST_TEI]
    octets_u16_octets [of ri]
  by (auto simp: lapd_tm_frame_def tei_consts uframe_make_control_fields)
     (auto simp: hdr_control_def make_address_def uframe_make_control_fields
        tm_entity_def tm_ri_def tm_message_type_def u16_octets_def)

lemma collect_ais_octets:
  "ais \<noteq> [] \<Longrightarrow> list_all (\<lambda>a. a < 128) ais \<Longrightarrow> n + length ais \<le> 128 \<Longrightarrow>
   drop (base + n) d = tm_ai_octets ais @ rest \<Longrightarrow> collect_ais base n d = Inr ais"
proof (induction ais arbitrary: n)
  case Nil
  then show ?case by simp
next
  case (Cons a ais)
  have l: "base + n < length d" using Cons.prems(4) by (metis append_Cons drop_all list.distinct(1) not_le_imp_less tm_ai_octets.simps(2))
  then have h: "d ! (base + n) = field7 a (ais = [])" "drop (Suc (base + n)) d = tm_ai_octets ais @ rest"
    using Cons.prems(4) Cons_nth_drop_Suc [OF l] by auto
  show ?case
  proof (cases "ais = []")
    case True
    then show ?thesis using h l Cons.prems by (simp add: ai_ext_def ai_value_def octet_simps)
  next
    case False
    then have "collect_ais base (n + 1) d = Inr ais"
      using Cons.IH [of "n + 1"] Cons.prems h by (simp del: collect_ais.simps)
    then show ?thesis
      using h l Cons.prems False
      by (subst collect_ais.simps) (simp add: ai_ext_def ai_value_def octet_simps del: collect_ais.simps)
  qed
qed

text \<open>
  A TEI management message: every field the encoder writes is read back, Ai lists included when they
  are collected from behind the header.
\<close>

interpretation tm_message: codec
  "\<lambda>(mt, ri, ais). lapd_tm_frame r mt ri ais"
  "\<lambda>d. (tm_message_type d, tm_ri d, case collect_ais 7 0 d of Inl _ \<Rightarrow> [] | Inr ais \<Rightarrow> ais)"
  "\<lambda>(mt, ri, ais). ais \<noteq> [] \<and> list_all (\<lambda>a. a < 128) ais \<and> length ais \<le> 128" for r
proof unfold_locales
  fix x :: "u8 \<times> u16 \<times> u8 list"
  obtain mt ri ais where x: "x = (mt, ri, ais)" by (cases x)
  assume "case x of (mt, ri, ais) \<Rightarrow> ais \<noteq> [] \<and> list_all (\<lambda>a. a < 128) ais \<and> length ais \<le> 128"
  then have "collect_ais 7 0 (lapd_tm_frame r mt ri ais) = Inr ais"
    using collect_ais_octets [of ais 0 7 "lapd_tm_frame r mt ri ais" "[]"] x by (simp add: octet_simps del: collect_ais.simps)
  then show "(case case x of (mt, ri, ais) \<Rightarrow> lapd_tm_frame r mt ri ais of
      d \<Rightarrow> (tm_message_type d, tm_ri d, case collect_ais 7 0 d of Inl _ \<Rightarrow> [] | Inr ais \<Rightarrow> ais)) = x"
    using x by (simp add: octet_simps del: collect_ais.simps)
qed

text \<open>
  TEI management messages round-trip: the message type, the reference number and the list of
  action indicators the encoder writes are what the accessors and the collecting loop read back, and
  the frame is a UI frame of entity 15 to the broadcast TEI on SAPI 63.
\<close>

theorem tm_message_roundtrip:
  assumes "ais \<noteq> []" "list_all (\<lambda>a. a < 128) ais" "length ais \<le> 128"
  shows "tm_message_type (lapd_tm_frame r mt ri ais) = mt \<and> tm_ri (lapd_tm_frame r mt ri ais) = ri \<and>
    collect_ais 7 0 (lapd_tm_frame r mt ri ais) = Inr ais \<and>
    tm_entity (lapd_tm_frame r mt ri ais) = LAPD_TEI_ENTITY \<and>
    addr_sapi (lapd_tm_frame r mt ri ais) = LAPD_SAPI_TEI_MGMT \<and>
    addr_tei (lapd_tm_frame r mt ri ais) = LAPD_BROADCAST_TEI \<and>
    lapd_uframe_function (hdr_control (lapd_tm_frame r mt ri ais)) = LAPD_UFRAME_FUNC_UI"
  using collect_ais_octets [of ais 0 7 "lapd_tm_frame r mt ri ais" "[]"] assms
  by (simp add: octet_simps del: collect_ais.simps)

theorem tm_message_roundtrip_witness:
  "collect_ais 7 0 (lapd_tm_frame LAPD_INTF_ROLE_TE LAPD_TEI_MT_CHK_RES 0x1234 [64, 70, 126]) = Inr [64, 70, 126] \<and>
   tm_ri (lapd_tm_frame LAPD_INTF_ROLE_TE LAPD_TEI_MT_CHK_RES 0x1234 [64, 70, 126]) = 0x1234"
  using tm_message_roundtrip [where ais = "[64, 70, 126]" and r = LAPD_INTF_ROLE_TE
      and mt = LAPD_TEI_MT_CHK_RES and ri = "0x1234"]
  by (simp del: collect_ais.simps)

end
