(* ===== verification/Lapd_Tei_TE.thy ===== *)
theory Lapd_Tei_TE
  imports Lapd_Tei_Mgmt
begin

text \<open>
  TEI management of the user side (modules/lapd/tei_mgmt_te.c): the entities \<open>struct lapd_utme\<close>, the
  request procedure with T202 and N202, and the handlers of the network's messages. Random
  reference numbers are arguments. An entity is known by its address, a device by a number.
\<close>

section \<open>State\<close>

record lapd_utme =
  utme_addr :: nat
  utme_refcnt :: int
  utme_freed :: bool
  utme_dev :: nat
  utme_N202 :: nat
  utme_T202 :: bool
  utme_retrans_cnt :: nat
  utme_state :: lapd_tei_state
  utme_tei :: u8
  utme_tei_request_ri :: u16
  utme_tei_request_pending :: bool

definition lapd_utme_alloc :: "nat \<Rightarrow> nat \<Rightarrow> lapd_utme" where
  "lapd_utme_alloc addr dev =
     \<lparr>utme_addr = addr, utme_refcnt = 1, utme_freed = False, utme_dev = dev, utme_N202 = 3,
      utme_T202 = False, utme_retrans_cnt = 0, utme_state = LAPD_TME_TEI_UNASSIGNED,
      utme_tei = 255, utme_tei_request_ri = 0, utme_tei_request_pending = False\<rparr>"

definition lapd_utme_get :: "lapd_utme \<Rightarrow> lapd_utme" where
  "lapd_utme_get tme = tme\<lparr>utme_refcnt := utme_refcnt tme + 1\<rparr>"

text \<open>The last reference stops T202, which would drop one more reference, and frees the entity.\<close>

definition lapd_utme_put :: "lapd_utme \<Rightarrow> lapd_utme" where
  "lapd_utme_put tme =
     (let t = tme\<lparr>utme_refcnt := utme_refcnt tme - 1\<rparr> in
      if utme_refcnt t = 0 then
        t\<lparr>utme_refcnt := (if utme_T202 t then utme_refcnt t - 1 else utme_refcnt t),
          utme_T202 := False, utme_freed := True\<rparr>
      else t)"

definition lapd_utme_reset_timer :: "lapd_utme \<Rightarrow> lapd_utme" where
  "lapd_utme_reset_timer tme =
     (if utme_T202 tme then tme else lapd_utme_get (tme\<lparr>utme_T202 := True\<rparr>))"

definition lapd_utme_stop_timer :: "lapd_utme \<Rightarrow> lapd_utme" where
  "lapd_utme_stop_timer tme =
     (if utme_T202 tme then lapd_utme_put (tme\<lparr>utme_T202 := False\<rparr>) else tme)"

definition lapd_utme_change_state :: "lapd_tei_state \<Rightarrow> lapd_utme \<Rightarrow> lapd_utme" where
  "lapd_utme_change_state st tme = tme\<lparr>utme_state := st\<rparr>"

text \<open>The loop over the socket hash that hands a primitive to every socket of the entity.\<close>

definition utme_mdl_primitive :: "lapd_mdl_prim \<Rightarrow> lapd_utme \<Rightarrow> lapd_sock list \<Rightarrow> lapd_sock list" where
  "utme_mdl_primitive pri tme socks =
     map (\<lambda>s. if sk_hashed s \<and> role s = LAPD_INTF_ROLE_TE \<and> usr_tme s = Some (utme_addr tme)
              then lapd_mdl_primitive pri s else s) socks"

section \<open>Requesting a TEI\<close>

definition lapd_utme_send_tei_request ::
  "u16 \<Rightarrow> lapd_utme \<times> lapd_device \<Rightarrow> lapd_utme \<times> lapd_device" where
  "lapd_utme_send_tei_request ri x =
     (case x of (tme, dev) \<Rightarrow>
       (tme\<lparr>utme_tei_request_ri := ri\<rparr>, lapd_tm_send LAPD_TEI_MT_REQUEST ri 127 dev))"

definition lapd_utme_mdl_assign_indication ::
  "u16 \<Rightarrow> lapd_utme \<times> lapd_device \<Rightarrow> lapd_utme \<times> lapd_device" where
  "lapd_utme_mdl_assign_indication ri x =
     (case x of (tme, dev) \<Rightarrow>
       let t = lapd_utme_reset_timer (tme\<lparr>utme_retrans_cnt := 0\<rparr>);
           t = t\<lparr>utme_retrans_cnt := utme_retrans_cnt t + 1, utme_tei_request_pending := True\<rparr>;
           t = lapd_utme_change_state LAPD_TME_TEI_UNASSIGNED t
       in lapd_utme_send_tei_request ri (t, dev))"

text \<open>T202 is no longer pending when its function runs, and the function drops the timer's reference.\<close>

definition lapd_utme_T202_timer ::
  "u16 \<Rightarrow> lapd_utme \<times> lapd_sock list \<times> lapd_device \<Rightarrow> lapd_utme \<times> lapd_sock list \<times> lapd_device" where
  "lapd_utme_T202_timer ri x =
     (case x of (tme0, socks, dev) \<Rightarrow>
       let tme = tme0\<lparr>utme_T202 := False\<rparr> in
       if utme_N202 tme \<le> utme_retrans_cnt tme then
         (let t = lapd_utme_change_state LAPD_TME_TEI_UNASSIGNED tme;
              t = t\<lparr>utme_tei_request_pending := False, utme_tei_request_ri := 0\<rparr>
          in (lapd_utme_put t, utme_mdl_primitive LAPD_MDL_ERROR_RESPONSE t socks, dev))
       else
         (let t = tme\<lparr>utme_retrans_cnt := utme_retrans_cnt tme + 1\<rparr>;
              (t, dev) = lapd_utme_send_tei_request ri (t, dev);
              t = lapd_utme_reset_timer t
          in (lapd_utme_put t, socks, dev)))"

section \<open>Handlers of the network's messages\<close>

text \<open>\<open>lapd_utme_tei_remove\<close> is \<open>_lapd_utme_tei_remove\<close> under the lock of the entity.\<close>

definition lapd_utme_tei_remove ::
  "lapd_utme \<Rightarrow> lapd_sock list \<Rightarrow> lapd_utme \<times> lapd_sock list" where
  "lapd_utme_tei_remove tme socks =
     (let t = lapd_utme_change_state LAPD_TME_TEI_UNASSIGNED (tme\<lparr>utme_tei := LAPD_TEI_UNASSIGNED\<rparr>)
      in (t, utme_mdl_primitive LAPD_MDL_REMOVE_REQUEST t socks))"

definition utme_assign :: "u8 \<Rightarrow> lapd_utme \<Rightarrow> lapd_sock list \<Rightarrow> lapd_utme \<times> lapd_sock list" where
  "utme_assign v tme socks =
     (let t = tme\<lparr>utme_tei_request_pending := False, utme_tei_request_ri := 0, utme_tei := v\<rparr>;
          t = lapd_utme_change_state LAPD_TME_TEI_ASSIGNED t;
          t = lapd_utme_stop_timer t
      in (t, utme_mdl_primitive (LAPD_MDL_ASSIGN_REQUEST v) t socks))"

text \<open>
  The loop over the entities: one that already holds the TEI loses it and the loop goes on, the one
  that made the request gets it and the loop ends.
\<close>

fun lapd_utme_handle_tei_assigned ::
  "octets \<Rightarrow> nat \<Rightarrow> lapd_utme list \<Rightarrow> lapd_sock list \<Rightarrow> lapd_utme list \<times> lapd_sock list" where
  "lapd_utme_handle_tei_assigned d dev [] socks = ([], socks)"
| "lapd_utme_handle_tei_assigned d dev (tme # tmes) socks =
     (if utme_dev tme \<noteq> dev then
        (let (ts, socks) = lapd_utme_handle_tei_assigned d dev tmes socks in (tme # ts, socks))
      else if utme_state tme \<noteq> LAPD_TME_TEI_UNASSIGNED \<and> tm_ai d = utme_tei tme then
        (let (t, socks) = lapd_utme_tei_remove tme socks;
             (ts, socks) = lapd_utme_handle_tei_assigned d dev tmes socks
         in (t # ts, socks))
      else if utme_tei_request_pending tme \<and> tm_ri d = utme_tei_request_ri tme then
        (let (t, socks) = utme_assign (tm_ai d) tme socks in (t # tmes, socks))
      else
        (let (ts, socks) = lapd_utme_handle_tei_assigned d dev tmes socks in (tme # ts, socks)))"

definition lapd_utme_assign_static_tei ::
  "u8 \<Rightarrow> lapd_utme \<Rightarrow> lapd_sock list \<Rightarrow> lapd_utme \<times> lapd_sock list" where
  "lapd_utme_assign_static_tei v tme socks = utme_assign v tme socks"

definition lapd_utme_set_static_tei :: "u8 \<Rightarrow> lapd_utme \<Rightarrow> lapd_utme" where
  "lapd_utme_set_static_tei v tme = lapd_utme_change_state LAPD_TME_TEI_ASSIGNED (tme\<lparr>utme_tei := v\<rparr>)"

text \<open>
  A check request for all TEIs is answered in one message with every TEI held on the device
  (they are collected in an array of 128), one for a single TEI by every entity that holds it.
\<close>

definition held_teis :: "nat \<Rightarrow> lapd_utme list \<Rightarrow> u8 list" where
  "held_teis dev tmes =
     map utme_tei (filter (\<lambda>t. utme_dev t = dev \<and> utme_state t \<noteq> LAPD_TME_TEI_UNASSIGNED) tmes)"

definition lapd_utme_send_tei_check_response :: "u16 \<Rightarrow> u8 \<Rightarrow> lapd_device \<Rightarrow> lapd_device" where
  "lapd_utme_send_tei_check_response ri v dev = lapd_tm_send LAPD_TEI_MT_CHK_RES ri v dev"

definition lapd_utme_send_tei_check_response_multi :: "u16 \<Rightarrow> u8 list \<Rightarrow> lapd_device \<Rightarrow> lapd_device" where
  "lapd_utme_send_tei_check_response_multi ri teis dev = lapd_tm_send_multiai LAPD_TEI_MT_CHK_RES ri teis dev"

fun check_response_each :: "u16 list \<Rightarrow> u8 list \<Rightarrow> lapd_device \<Rightarrow> lapd_device" where
  "check_response_each ris [] dev = dev"
| "check_response_each ris (v # teis) dev =
     check_response_each (tl ris) teis
       (lapd_utme_send_tei_check_response (case ris of [] \<Rightarrow> 0 | ri # _ \<Rightarrow> ri) v dev)"

definition lapd_utme_handle_tei_check_request ::
  "u16 list \<Rightarrow> octets \<Rightarrow> nat \<Rightarrow> lapd_utme list \<Rightarrow> lapd_device \<Rightarrow> lapd_device res" where
  "lapd_utme_handle_tei_check_request ris d devno tmes dev =
     (if tm_ai d = LAPD_BROADCAST_TEI then
        (let teis = held_teis devno tmes in
         if 128 < length teis then Inl OutOfBounds
         else Inr (if teis \<noteq> [] then
                     lapd_utme_send_tei_check_response_multi (case ris of [] \<Rightarrow> 0 | ri # _ \<Rightarrow> ri) teis dev
                   else dev))
      else Inr (check_response_each ris (filter (\<lambda>t. tm_ai d = t) (held_teis devno tmes)) dev))"

fun lapd_utme_remove_tei ::
  "u8 \<Rightarrow> nat \<Rightarrow> lapd_utme list \<Rightarrow> lapd_sock list \<Rightarrow> lapd_utme list \<times> lapd_sock list" where
  "lapd_utme_remove_tei v dev [] socks = ([], socks)"
| "lapd_utme_remove_tei v dev (tme # tmes) socks =
     (let (t, socks) =
            (if utme_dev tme = dev \<and> utme_state tme \<noteq> LAPD_TME_TEI_UNASSIGNED \<and>
                (v = LAPD_BROADCAST_TEI \<or> v = utme_tei tme)
             then lapd_utme_tei_remove tme socks else (tme, socks));
          (ts, socks) = lapd_utme_remove_tei v dev tmes socks
      in (t # ts, socks))"

section \<open>The entities, their sockets and devices\<close>

record te_state =
  te_utmes :: "lapd_utme list"
  te_socks :: "lapd_sock list"
  te_devs :: "nat \<Rightarrow> lapd_device"

text \<open>
  \<open>lapd_utme_handle_frame\<close>; the two octets of the CRC are part of the length. The handlers of the three messages
  read the message up to its action indicator, in the octet 7, which is read before they run.
\<close>

definition lapd_utme_handle_frame :: "u16 list \<Rightarrow> octets \<Rightarrow> nat \<Rightarrow> te_state \<Rightarrow> te_state res" where
  "lapd_utme_handle_frame ris d devno st =
     (if length d < 8 + 2 then Inr st
      else bind_res (tm_rd hdr_control 2 d) (\<lambda>control.
        if lapd_frame_type control \<noteq> LAPD_FRAME_TYPE_UFRAME then Inr st
        else if lapd_uframe_function control \<noteq> LAPD_UFRAME_FUNC_UI then Inr st
        else bind_res (tm_rd tm_entity 3 d) (\<lambda>entity.
          if entity \<noteq> 0x0f then Inr st
          else bind_res (tm_rd tm_message_type 6 d) (\<lambda>message_type.
            bind_res (if message_type \<in> set [LAPD_TEI_MT_ASSIGNED, LAPD_TEI_MT_CHK_REQ, LAPD_TEI_MT_REMOVE]
                      then tm_rd tm_ai 7 d else Inr 0) (\<lambda>_.
            if message_type = LAPD_TEI_MT_ASSIGNED then
              (let (ts, socks) = lapd_utme_handle_tei_assigned d devno (te_utmes st) (te_socks st)
               in Inr (st\<lparr>te_utmes := ts, te_socks := socks\<rparr>))
            else if message_type = LAPD_TEI_MT_CHK_REQ then
              bind_res (lapd_utme_handle_tei_check_request ris d devno (te_utmes st) (te_devs st devno))
                (\<lambda>dev. Inr (st\<lparr>te_devs := (te_devs st)(devno := dev)\<rparr>))
            else if message_type = LAPD_TEI_MT_REMOVE then
              (let (ts, socks) = lapd_utme_remove_tei (tm_ai d) devno (te_utmes st) (te_socks st)
               in Inr (st\<lparr>te_utmes := ts, te_socks := socks\<rparr>))
            else Inr st)))))"

datatype te_event =
    Te_assign_indication nat u16
  | Te_T202 nat u16
  | Te_frame "u16 list" octets nat
  | Te_tei_remove nat
  | Te_static_tei nat u8

text \<open>The entry points; an entity is addressed by its position in the list of entities.\<close>

fun te_step :: "te_event \<Rightarrow> te_state \<Rightarrow> te_state res" where
  "te_step (Te_assign_indication i ri) st =
     (if i < length (te_utmes st) then
        (let tme = te_utmes st ! i;
             (t, dev) = lapd_utme_mdl_assign_indication ri (tme, te_devs st (utme_dev tme))
         in Inr (st\<lparr>te_utmes := (te_utmes st)[i := t], te_devs := (te_devs st)(utme_dev tme := dev)\<rparr>))
      else Inr st)"
| "te_step (Te_T202 i ri) st =
     (if i < length (te_utmes st) \<and> utme_T202 (te_utmes st ! i) then
        (let tme = te_utmes st ! i;
             (t, socks, dev) = lapd_utme_T202_timer ri (tme, te_socks st, te_devs st (utme_dev tme))
         in Inr (st\<lparr>te_utmes := (te_utmes st)[i := t], te_socks := socks,
                    te_devs := (te_devs st)(utme_dev tme := dev)\<rparr>))
      else Inr st)"
| "te_step (Te_frame ris d devno) st = lapd_utme_handle_frame ris d devno st"
| "te_step (Te_tei_remove i) st =
     (if i < length (te_utmes st) then
        (let (t, socks) = lapd_utme_tei_remove (te_utmes st ! i) (te_socks st)
         in Inr (st\<lparr>te_utmes := (te_utmes st)[i := t], te_socks := socks\<rparr>))
      else Inr st)"
| "te_step (Te_static_tei i v) st =
     (if i < length (te_utmes st) then
        (let (t, socks) = lapd_utme_assign_static_tei v (te_utmes st ! i) (te_socks st)
         in Inr (st\<lparr>te_utmes := (te_utmes st)[i := t], te_socks := socks\<rparr>))
      else Inr st)"

section \<open>References and the request state\<close>

text \<open>
  A live entity: it is not freed, T202 holds one reference while it is pending and somebody else
  holds another, T202 is pending exactly while a request is, and then the number of requests sent
  is between 1 and N202 and no TEI is assigned.
\<close>

definition utme_ok :: "lapd_utme \<Rightarrow> bool" where
  "utme_ok t \<longleftrightarrow> \<not> utme_freed t \<and> 1 + of_bool (utme_T202 t) \<le> utme_refcnt t \<and> 1 \<le> utme_N202 t \<and>
     utme_tei_request_pending t = utme_T202 t \<and>
     (utme_T202 t \<longrightarrow> 1 \<le> utme_retrans_cnt t \<and> utme_retrans_cnt t \<le> utme_N202 t \<and>
        utme_state t = LAPD_TME_TEI_UNASSIGNED)"

text \<open>The references held by others: all but the timer's.\<close>

definition utme_owners :: "lapd_utme \<Rightarrow> int" where
  "utme_owners t = utme_refcnt t - of_bool (utme_T202 t)"

lemmas utme_defs = lapd_utme_get_def lapd_utme_put_def lapd_utme_reset_timer_def lapd_utme_stop_timer_def
  lapd_utme_change_state_def lapd_utme_send_tei_request_def lapd_utme_mdl_assign_indication_def
  lapd_utme_T202_timer_def lapd_utme_tei_remove_def utme_assign_def lapd_utme_assign_static_tei_def

text \<open>What every operation on an entity keeps.\<close>

definition utme_keeps :: "lapd_utme \<Rightarrow> lapd_utme \<Rightarrow> bool" where
  "utme_keeps t u \<longleftrightarrow> utme_ok t \<longrightarrow>
     utme_ok u \<and> utme_owners u = utme_owners t \<and> utme_addr u = utme_addr t \<and> utme_dev u = utme_dev t"

lemma utme_keeps_refl [simp]: "utme_keeps t t"
  by (simp add: utme_keeps_def)

lemma utme_keeps_trans: "utme_keeps t u \<Longrightarrow> utme_keeps u w \<Longrightarrow> utme_keeps t w"
  by (simp add: utme_keeps_def)

lemma utme_keeps_ops:
  "utme_keeps t (fst (lapd_utme_mdl_assign_indication ri (t, dev)))"
  "utme_T202 t \<Longrightarrow> utme_keeps t (fst (lapd_utme_T202_timer ri (t, socks, dev)))"
  "utme_keeps t (fst (utme_assign v t socks))"
  "utme_keeps t (fst (lapd_utme_tei_remove t socks))"
  by (auto simp: utme_keeps_def utme_ok_def utme_owners_def utme_defs Let_def split: if_splits)

lemma utme_keeps_assigned:
  "list_all2 utme_keeps tmes (fst (lapd_utme_handle_tei_assigned d dev tmes socks))"
proof (induction tmes arbitrary: socks)
  case Nil
  then show ?case by simp
next
  case (Cons t tmes)
  have "list_all2 utme_keeps tmes tmes" by (simp add: list_all2_same)
  then show ?case
    using Cons.IH utme_keeps_ops(3,4) by (auto simp: case_prod_beta)
qed

lemma utme_keeps_remove:
  "list_all2 utme_keeps tmes (fst (lapd_utme_remove_tei v dev tmes socks))"
  using utme_keeps_ops(4) by (induction tmes arbitrary: socks) (auto simp: case_prod_beta)

lemma utme_keeps_update:
  "i < length ts \<Longrightarrow> utme_keeps (ts ! i) t \<Longrightarrow> list_all2 utme_keeps ts (ts[i := t])"
  by (auto simp: list_all2_conv_all_nth nth_list_update)

lemma te_step_keeps:
  "te_step e st = Inr st' \<Longrightarrow> list_all2 utme_keeps (te_utmes st) (te_utmes st')"
proof (cases e)
  case (Te_frame ris d devno)
  assume "te_step e st = Inr st'"
  then show ?thesis
    using Te_frame utme_keeps_assigned [of "te_utmes st" d devno "te_socks st"]
      utme_keeps_remove [of "te_utmes st" "tm_ai d" devno "te_socks st"]
    by (auto simp: lapd_utme_handle_frame_def tm_rd_def case_prod_beta bind_res_eq_Inr list_all2_same split: if_splits)
qed (auto simp: case_prod_beta Let_def list_all2_same lapd_utme_assign_static_tei_def
       intro!: utme_keeps_update utme_keeps_ops split: if_splits)

definition te_ok :: "te_state \<Rightarrow> bool" where
  "te_ok st \<longleftrightarrow> list_all utme_ok (te_utmes st) \<and> length (te_utmes st) \<le> 128"

interpretation te: total_event_machine "\<lambda>_ _. True" te_step te_ok
proof unfold_locales
  fix e st st' assume o: "te_ok st"
  show "te_step e st = Inr st' \<Longrightarrow> te_ok st'"
    using te_step_keeps [of e st st'] o
    by (auto simp: te_ok_def list_all_length list_all2_conv_all_nth utme_keeps_def)
  have "length (held_teis devno (te_utmes st)) \<le> 128" for devno
    using o by (auto simp: te_ok_def held_teis_def intro: le_trans [OF length_filter_le])
  then show "\<exists>s'. te_step e st = Inr s'"
    by (cases e) (auto simp: lapd_utme_handle_frame_def tm_rd_def case_prod_beta Let_def
        lapd_utme_handle_tei_check_request_def not_less [symmetric] leD)
qed

lemma te_run_keeps:
  "run_events te_step es st = Inr st' \<Longrightarrow> list_all2 utme_keeps (te_utmes st) (te_utmes st')"
proof (induction es arbitrary: st)
  case Nil
  then show ?case by (simp add: list_all2_same)
next
  case (Cons e es)
  then obtain u where u: "te_step e st = Inr u" "run_events te_step es u = Inr st'"
    by (auto simp: bind_res_eq_Inr)
  show ?case
    by (rule list_all2_trans [OF utme_keeps_trans te_step_keeps [OF u(1)] Cons.IH [OF u(2)]])
qed


definition te0 :: te_state where
  "te0 = \<lparr>te_utmes = [lapd_utme_alloc 0 0], te_socks = [], te_devs = (\<lambda>_. dev0)\<rparr>"


section \<open>The request procedure ends\<close>

fun utme_expiries ::
  "u16 list \<Rightarrow> lapd_utme \<times> lapd_sock list \<times> lapd_device \<Rightarrow> lapd_utme \<times> lapd_sock list \<times> lapd_device" where
  "utme_expiries [] x = x"
| "utme_expiries (ri # ris) x =
     utme_expiries ris (if utme_T202 (fst x) then lapd_utme_T202_timer ri x else x)"

definition tei_request_frame :: "lapd_device \<Rightarrow> u16 \<Rightarrow> octets" where
  "tei_request_frame dev ri = lapd_tm_frame (dev_role dev) LAPD_TEI_MT_REQUEST ri [127]"

lemma tm_send_frames:
  assumes "dev_inv dev"
  shows "dev_frames (lapd_tm_send_multiai mt ri ais dev) = dev_frames dev @ [lapd_tm_frame (dev_role dev) mt ri ais]"
    "dev_inv (lapd_tm_send_multiai mt ri ais dev)"
    "dev_role (lapd_tm_send_multiai mt ri ais dev) = dev_role dev"
  using dev_step_frames [OF assms, of "Ev_request (lapd_tm_frame (dev_role dev) mt ri ais)"]
    dev_step_inv [OF assms, of "Ev_request (lapd_tm_frame (dev_role dev) mt ri ais)"]
  by (simp_all add: lapd_tm_send_multiai_def)
     (simp add: lapd_ph_data_request_def lapd_send_ph_primitive_def dev_queue_xmit_def Let_def
       split: lapd_l1_state.split)

lemma T202_retry:
  assumes "utme_ok t" "utme_T202 t" "utme_retrans_cnt t < utme_N202 t"
  shows "lapd_utme_T202_timer ri (t, socks, dev) =
    (t\<lparr>utme_retrans_cnt := Suc (utme_retrans_cnt t), utme_tei_request_ri := ri\<rparr>, socks,
     lapd_tm_send LAPD_TEI_MT_REQUEST ri 127 dev)"
  using assms by (auto simp: utme_ok_def utme_defs Let_def)

lemma utme_expiries_run:
  assumes "utme_ok t" "utme_T202 t" "dev_inv dev" "utme_retrans_cnt t + length ris = Suc (utme_N202 t)"
  shows "\<exists>t' dev'. utme_expiries ris (t, socks, dev) =
      (t', utme_mdl_primitive LAPD_MDL_ERROR_RESPONSE t socks, dev') \<and>
    \<not> utme_T202 t' \<and> \<not> utme_tei_request_pending t' \<and> utme_state t' = LAPD_TME_TEI_UNASSIGNED \<and>
    utme_refcnt t' = utme_refcnt t - 1 \<and>
    dev_frames dev' = dev_frames dev @ map (tei_request_frame dev) (butlast ris)"
  using assms
proof (induction ris arbitrary: t dev)
  case Nil
  then show ?case by (simp add: utme_ok_def)
next
  case (Cons ri ris)
  show ?case
  proof (cases "utme_retrans_cnt t < utme_N202 t")
    case False
    then have "ris = []" using Cons.prems(1,2,4) by (auto simp: utme_ok_def)
    then show ?thesis
      using Cons.prems False by (auto simp: utme_ok_def utme_defs Let_def utme_mdl_primitive_def)
  next
    case True
    let ?t = "t\<lparr>utme_retrans_cnt := Suc (utme_retrans_cnt t), utme_tei_request_ri := ri\<rparr>"
    let ?d = "lapd_tm_send LAPD_TEI_MT_REQUEST ri 127 dev"
    have ok: "utme_ok ?t" "utme_T202 ?t" using Cons.prems True by (simp_all add: utme_ok_def)
    have d: "dev_inv ?d" "dev_frames ?d = dev_frames dev @ [tei_request_frame dev ri]" "dev_role ?d = dev_role dev"
      using tm_send_frames [OF Cons.prems(3)] by (simp_all add: lapd_tm_send_def tei_request_frame_def)
    have f: "tei_request_frame ?d = tei_request_frame dev" using d(3) by (simp add: tei_request_frame_def fun_eq_iff)
    have "ris \<noteq> []" using Cons.prems(4) True by auto
    then show ?thesis
      using Cons.IH [OF ok d(1)] T202_retry [OF Cons.prems(1,2) True] Cons.prems(2,4) d(2) f
      by (auto simp: utme_mdl_primitive_def)
  qed
qed

text \<open>
  A TEI request that nobody answers is given up after N202 attempts: the indication and the
  expiries of T202 send exactly N202 request messages, one per reference number drawn, and the
  expiry after the last of them drops the timer's reference, clears the request and reports the
  failure to every socket of the entity.
\<close>

theorem tei_request_given_up:
  assumes "utme_ok t" "dev_inv dev" "length ris = utme_N202 t"
    "lapd_utme_mdl_assign_indication ri (t, dev) = (t1, dev1)"
  shows "\<exists>t' dev'. utme_expiries ris (t1, socks, dev1) =
      (t', utme_mdl_primitive LAPD_MDL_ERROR_RESPONSE t socks, dev') \<and>
    \<not> utme_T202 t' \<and> \<not> utme_tei_request_pending t' \<and> utme_state t' = LAPD_TME_TEI_UNASSIGNED \<and>
    utme_refcnt t' = utme_owners t \<and>
    dev_frames dev' = dev_frames dev @ map (tei_request_frame dev) (ri # butlast ris)"
proof -
  have t1: "utme_ok t1" "utme_T202 t1" "utme_retrans_cnt t1 = 1" "utme_N202 t1 = utme_N202 t"
    "utme_addr t1 = utme_addr t" "utme_refcnt t1 = utme_owners t + 1" "dev1 = lapd_tm_send LAPD_TEI_MT_REQUEST ri 127 dev"
    using assms(1,4) by (auto simp: utme_ok_def utme_owners_def utme_defs Let_def split: if_splits)
  have d: "dev_inv dev1" "dev_frames dev1 = dev_frames dev @ [tei_request_frame dev ri]" "dev_role dev1 = dev_role dev"
    using tm_send_frames [OF assms(2)] t1(7) by (simp_all add: lapd_tm_send_def tei_request_frame_def)
  have f: "tei_request_frame dev1 = tei_request_frame dev" using d(3) by (simp add: tei_request_frame_def fun_eq_iff)
  show ?thesis
    using utme_expiries_run [OF t1(1,2) d(1), of ris socks] t1(3-6) assms(3) d(2) f
    by (auto simp: utme_mdl_primitive_def)
qed

theorem tei_request_given_up_witness:
  "\<exists>t' dev'. utme_expiries [8, 9, 10]
      (case lapd_utme_mdl_assign_indication 7 (lapd_utme_alloc 0 0, dev0) of (t, dev) \<Rightarrow> (t, [], dev)) = (t', [], dev') \<and>
     dev_frames dev' = map (tei_request_frame dev0) [7, 8, 9]"
proof -
  obtain t1 dev1 where a: "lapd_utme_mdl_assign_indication 7 (lapd_utme_alloc 0 0, dev0) = (t1, dev1)"
    by fastforce
  have o: "utme_ok (lapd_utme_alloc 0 0)" "dev_inv dev0" "length [8, 9, 10 :: u16] = utme_N202 (lapd_utme_alloc 0 0)"
    by (simp_all add: lapd_utme_alloc_def utme_ok_def dev_inv_def dev0_def)
  show ?thesis
    using tei_request_given_up [OF o a, of "[]"] a
    by (auto simp: utme_mdl_primitive_def dev_frames_def dev0_def)
qed

section \<open>Answers\<close>

text \<open>
  An assigned message reaches the requester: the first entity of the device whose pending
  request has the message's reference number gets the TEI, its timer is stopped and all its
  sockets are told; entities before it that neither hold that TEI nor made the request are untouched,
  and so is every entity behind it, one that already holds the same TEI included.
\<close>

theorem tei_assigned_to_requester:
  assumes "utme_ok t" "utme_dev t = dev" "utme_tei_request_pending t" "tm_ri d = utme_tei_request_ri t"
    "list_all (\<lambda>u. utme_dev u \<noteq> dev \<or>
        \<not> (utme_state u \<noteq> LAPD_TME_TEI_UNASSIGNED \<and> tm_ai d = utme_tei u) \<and>
        \<not> (utme_tei_request_pending u \<and> tm_ri d = utme_tei_request_ri u)) us"
  shows "\<exists>t'. lapd_utme_handle_tei_assigned d dev (us @ t # vs) socks =
      (us @ t' # vs, utme_mdl_primitive (LAPD_MDL_ASSIGN_REQUEST (tm_ai d)) t socks) \<and>
    utme_state t' = LAPD_TME_TEI_ASSIGNED \<and> utme_tei t' = tm_ai d \<and> \<not> utme_tei_request_pending t' \<and>
    \<not> utme_T202 t' \<and> utme_refcnt t' = utme_owners t \<and> utme_addr t' = utme_addr t"
  using assms(5)
proof (induction us)
  case Nil
  have s: "utme_state t = LAPD_TME_TEI_UNASSIGNED" using assms(1,3) by (simp add: utme_ok_def)
  then show ?case
    using assms(1-4)
    by (auto simp: utme_assign_def utme_ok_def utme_owners_def utme_defs Let_def utme_mdl_primitive_def)
next
  case (Cons u us)
  then show ?case by (auto simp: case_prod_beta)
qed

definition utme_req :: lapd_utme where
  "utme_req = (lapd_utme_alloc 0 0)\<lparr>utme_refcnt := 2, utme_T202 := True, utme_retrans_cnt := 1,
      utme_tei_request_pending := True, utme_tei_request_ri := 7\<rparr>"

theorem tei_assigned_to_requester_witness:
  "\<exists>t'. lapd_utme_handle_tei_assigned (lapd_tm_frame LAPD_INTF_ROLE_NT LAPD_TEI_MT_ASSIGNED 7 [70]) 0
      [lapd_utme_alloc 1 0, utme_req] [] = ([lapd_utme_alloc 1 0, t'], []) \<and> utme_tei t' = 70"
proof -
  let ?d = "lapd_tm_frame LAPD_INTF_ROLE_NT LAPD_TEI_MT_ASSIGNED 7 [70]"
  have a: "tm_ai ?d = 70" by code_simp
  have o: "utme_ok utme_req" "utme_dev utme_req = 0" "utme_tei_request_pending utme_req" "tm_ri ?d = utme_tei_request_ri utme_req"
    by (simp_all add: utme_req_def lapd_utme_alloc_def utme_ok_def octet_simps)
  have "list_all (\<lambda>u. utme_dev u \<noteq> 0 \<or>
        \<not> (utme_state u \<noteq> LAPD_TME_TEI_UNASSIGNED \<and> tm_ai ?d = utme_tei u) \<and>
        \<not> (utme_tei_request_pending u \<and> tm_ri ?d = utme_tei_request_ri u)) [lapd_utme_alloc 1 0]"
    by (simp add: lapd_utme_alloc_def)
  from tei_assigned_to_requester [OF o this, of "[]" "[]"] show ?thesis
    using a by (auto simp: utme_mdl_primitive_def simp del: lapd_utme_handle_tei_assigned.simps)
qed

text \<open>
  The answer to a check request for all TEIs is complete: one message is sent, and the action
  indicators collected from behind its header are exactly the TEIs held on the device, in order.
\<close>

theorem check_response_complete:
  assumes "dev_inv dev" "tm_ai d = LAPD_BROADCAST_TEI" "held_teis devno tmes \<noteq> []"
    "length (held_teis devno tmes) \<le> 128" "list_all (\<lambda>v. v < 128) (held_teis devno tmes)"
  shows "\<exists>dev' f. lapd_utme_handle_tei_check_request ris d devno tmes dev = Inr dev' \<and>
     dev_frames dev' = dev_frames dev @ [f] \<and> tm_message_type f = LAPD_TEI_MT_CHK_RES \<and>
     collect_ais 7 0 f = Inr (held_teis devno tmes)"
  using tm_send_frames [OF assms(1)] tm_message.dec_enc [of "(LAPD_TEI_MT_CHK_RES, ri, held_teis devno tmes)"]
    collect_ais_octets [of "held_teis devno tmes" 0 7 _ "[]"] assms(2-5)
  by (simp add: lapd_utme_handle_tei_check_request_def lapd_utme_send_tei_check_response_multi_def
      Let_def octet_simps del: collect_ais.simps)

definition utme_held :: "nat \<Rightarrow> u8 \<Rightarrow> lapd_utme" where
  "utme_held a v = (lapd_utme_alloc a 0)\<lparr>utme_state := LAPD_TME_TEI_ASSIGNED, utme_tei := v\<rparr>"

theorem check_response_complete_witness:
  "\<exists>dev' f. lapd_utme_handle_tei_check_request [5]
       (lapd_tm_frame LAPD_INTF_ROLE_NT LAPD_TEI_MT_CHK_REQ 0 [127]) 0 [utme_held 1 64, utme_held 2 90] dev0 = Inr dev' \<and>
     dev_frames dev' = [f] \<and> collect_ais 7 0 f = Inr [64, 90]"
proof -
  let ?d = "lapd_tm_frame LAPD_INTF_ROLE_NT LAPD_TEI_MT_CHK_REQ 0 [127]"
  have h: "held_teis 0 [utme_held 1 64, utme_held 2 90] = [64, 90]"
    by (simp add: held_teis_def utme_held_def lapd_utme_alloc_def)
  have "dev_inv dev0" "dev_frames dev0 = []" by (simp_all add: dev_inv_def dev_frames_def dev0_def)
  moreover have "tm_ai ?d = LAPD_BROADCAST_TEI" by code_simp
  ultimately show ?thesis
    using check_response_complete [of dev0 ?d 0 "[utme_held 1 64, utme_held 2 90]" "[5]"] h
    by (auto simp del: collect_ais.simps)
qed

end
