(* ===== verification/Lapd_Tei_NT.thy ===== *)
theory Lapd_Tei_NT
  imports Lapd_Tei_TE
begin

text \<open>
  TEI management of the network side (modules/lapd/tei_mgmt_nt.c): the allocation of dynamic TEIs, the
  check procedure with its two T201 windows, and the handlers of the users' messages.
\<close>

section \<open>State\<close>

record lapd_ntme_tei_check =
  tc_count :: nat
  tc_responses :: "(u8 \<times> u8) list"
  tc_tei :: u8

record lapd_ntme =
  ntme_refcnt :: int
  ntme_freed :: bool
  ntme_dev :: nat
  ntme_T201 :: jiffies
  ntme_tei_checks :: "lapd_ntme_tei_check list"
  cur_dyn_tei :: nat
  ntme_teis :: "bool list"

definition LAPD_NUM_DYN_TEIS :: nat where "LAPD_NUM_DYN_TEIS = 63"

definition lapd_ntme_alloc :: "nat \<Rightarrow> u8 \<Rightarrow> lapd_ntme" where
  "lapd_ntme_alloc dev random_byte =
     \<lparr>ntme_refcnt = 1, ntme_freed = False, ntme_dev = dev, ntme_T201 = (\<lambda>hz. 1 * hz), ntme_tei_checks = [],
      cur_dyn_tei = unat random_byte mod 63 + 64, ntme_teis = replicate 63 False\<rparr>"

definition lapd_ntme_get :: "lapd_ntme \<Rightarrow> lapd_ntme" where
  "lapd_ntme_get tme = tme\<lparr>ntme_refcnt := ntme_refcnt tme + 1\<rparr>"

text \<open>The last reference deletes the checks that are left, each with its timer, and frees the entity.\<close>

definition lapd_ntme_put :: "lapd_ntme \<Rightarrow> lapd_ntme" where
  "lapd_ntme_put tme =
     (let t = tme\<lparr>ntme_refcnt := ntme_refcnt tme - 1\<rparr> in
      if ntme_refcnt t = 0 then
        t\<lparr>ntme_refcnt := ntme_refcnt t - int (length (ntme_tei_checks t)), ntme_tei_checks := [],
          ntme_freed := True\<rparr>
      else t)"

section \<open>Messages sent\<close>

definition lapd_ntme_send_tei_assigned :: "u16 \<Rightarrow> u8 \<Rightarrow> lapd_device \<Rightarrow> lapd_device" where
  "lapd_ntme_send_tei_assigned ri v dev = lapd_tm_send LAPD_TEI_MT_ASSIGNED ri v dev"

definition lapd_ntme_send_tei_denied :: "u16 \<Rightarrow> u8 \<Rightarrow> lapd_device \<Rightarrow> lapd_device" where
  "lapd_ntme_send_tei_denied ri v dev = lapd_tm_send LAPD_TEI_MT_DENIED ri v dev"

definition lapd_ntme_send_tei_check_request :: "u8 \<Rightarrow> lapd_device \<Rightarrow> lapd_device" where
  "lapd_ntme_send_tei_check_request v dev = lapd_tm_send LAPD_TEI_MT_CHK_REQ 0 v dev"

definition lapd_ntme_send_tei_remove :: "u8 \<Rightarrow> lapd_device \<Rightarrow> lapd_device" where
  "lapd_ntme_send_tei_remove v dev = lapd_tm_send LAPD_TEI_MT_REMOVE 0 v dev"

section \<open>The check procedure\<close>

definition lapd_ntme_tc_check_first :: "lapd_ntme_tei_check \<Rightarrow> nat \<Rightarrow> lapd_device \<Rightarrow> lapd_device" where
  "lapd_ntme_tc_check_first tc v dev =
     (if fst (tc_responses tc ! v) > 1 then lapd_ntme_send_tei_remove (word_of_nat v) dev else dev)"

definition lapd_ntme_tc_check_second ::
  "lapd_ntme_tei_check \<Rightarrow> nat \<Rightarrow> lapd_ntme \<times> lapd_device \<Rightarrow> lapd_ntme \<times> lapd_device" where
  "lapd_ntme_tc_check_second tc v x =
     (case x of (tme, dev) \<Rightarrow>
       if fst (tc_responses tc ! v) = 0 \<and> snd (tc_responses tc ! v) = 0 then
         (if 64 \<le> v \<and> v \<le> 126 then tme\<lparr>ntme_teis := (ntme_teis tme)[v - 64 := False]\<rparr> else tme, dev)
       else if fst (tc_responses tc ! v) \<le> 1 \<and> snd (tc_responses tc ! v) \<le> 1 then (tme, dev)
       else (tme, lapd_ntme_send_tei_remove (word_of_nat v) dev))"

text \<open>The timer function of the \<open>i\<close>-th check. The timer's reference is dropped at the end.\<close>

definition lapd_ntme_tc_T201_timer ::
  "nat \<Rightarrow> lapd_ntme \<times> lapd_device \<Rightarrow> (lapd_ntme \<times> lapd_device) res" where
  "lapd_ntme_tc_T201_timer i x =
     (case x of (tme, dev) \<Rightarrow>
       let tc = ntme_tei_checks tme ! i;
           without = take i (ntme_tei_checks tme) @ drop (Suc i) (ntme_tei_checks tme)
       in if 128 \<le> tc_tei tc then Inl OutOfBounds
          else if tc_count tc = 0 then
            (if tc_tei tc = LAPD_BROADCAST_TEI then
               (let dev = fold (lapd_ntme_tc_check_first tc) [0..<128] dev;
                    t = tme\<lparr>ntme_tei_checks := (ntme_tei_checks tme)[i := tc\<lparr>tc_count := 1\<rparr>]\<rparr>;
                    dev = lapd_ntme_send_tei_check_request (tc_tei tc) dev
                in Inr (lapd_ntme_put (lapd_ntme_get t), dev))
             else
               (let dev = lapd_ntme_tc_check_first tc (unat (tc_tei tc)) dev
                in Inr (lapd_ntme_put (tme\<lparr>ntme_tei_checks := without\<rparr>), dev)))
          else
            (let (t, dev) = (if tc_tei tc = LAPD_BROADCAST_TEI
                             then fold (lapd_ntme_tc_check_second tc) [0..<128] (tme, dev)
                             else lapd_ntme_tc_check_second tc (unat (tc_tei tc)) (tme, dev))
             in Inr (lapd_ntme_put (t\<lparr>ntme_tei_checks := without\<rparr>), dev)))"

text \<open>\<open>lapd_ntme_start_tei_check\<close> is \<open>_lapd_ntme_start_tei_check\<close> under the lock of the entity.\<close>

definition lapd_ntme_start_tei_check :: "u8 \<Rightarrow> lapd_ntme \<times> lapd_device \<Rightarrow> lapd_ntme \<times> lapd_device" where
  "lapd_ntme_start_tei_check v x =
     (case x of (tme, dev) \<Rightarrow>
       if list_ex (\<lambda>tc. tc_tei tc = v) (ntme_tei_checks tme) then (tme, dev)
       else
         (let t = lapd_ntme_get tme;
              tc = \<lparr>tc_count = 0, tc_responses = replicate 128 (0, 0), tc_tei = v\<rparr>
          in (t\<lparr>ntme_tei_checks := ntme_tei_checks t @ [tc]\<rparr>, lapd_ntme_send_tei_check_request v dev)))"

section \<open>Allocation\<close>

fun tei_search :: "nat \<Rightarrow> lapd_ntme \<Rightarrow> nat option \<times> lapd_ntme" where
  "tei_search 0 tme = (None, tme)"
| "tei_search (Suc n) tme =
     (let c = cur_dyn_tei tme + 1;
          c = (if c > 126 then 64 else c);
          t = tme\<lparr>cur_dyn_tei := c\<rparr>
      in if \<not> ntme_teis t ! (c - 64) then (Some c, t\<lparr>ntme_teis := (ntme_teis t)[c - 64 := True]\<rparr>)
         else tei_search n t)"

definition ntme_tei_request :: "octets \<Rightarrow> lapd_ntme \<times> lapd_device \<Rightarrow> lapd_ntme \<times> lapd_device" where
  "ntme_tei_request d x =
     (case x of (tme, dev) \<Rightarrow>
       if tm_ai d \<le> LAPD_MAX_STA_TEI then (tme, dev)
       else if LAPD_MIN_DYN_TEI \<le> tm_ai d \<and> tm_ai d \<le> LAPD_MAX_DYN_TEI then
         (tme, lapd_ntme_send_tei_denied (tm_ri d) (tm_ai d) dev)
       else
         (case tei_search LAPD_NUM_DYN_TEIS tme of
            (Some v, t) \<Rightarrow> (t, lapd_ntme_send_tei_assigned (tm_ri d) (word_of_nat v) dev)
          | (None, t) \<Rightarrow>
              fold (\<lambda>i. lapd_ntme_start_tei_check (word_of_nat (64 + i))) [0..<LAPD_NUM_DYN_TEIS]
                (t, lapd_ntme_send_tei_denied (tm_ri d) (tm_ai d) dev)))"

text \<open>Several loops stop at the first entity of the device.\<close>

fun first_of_dev ::
  "nat \<Rightarrow> (lapd_ntme \<times> lapd_device \<Rightarrow> lapd_ntme \<times> lapd_device) \<Rightarrow> lapd_ntme list \<Rightarrow> lapd_device
   \<Rightarrow> lapd_ntme list \<times> lapd_device" where
  "first_of_dev devno f [] dev = ([], dev)"
| "first_of_dev devno f (tme # tmes) dev =
     (if ntme_dev tme = devno then (let (t, dev) = f (tme, dev) in (t # tmes, dev))
      else (let (ts, dev) = first_of_dev devno f tmes dev in (tme # ts, dev)))"

definition lapd_ntme_handle_tei_request ::
  "octets \<Rightarrow> nat \<Rightarrow> lapd_ntme list \<Rightarrow> lapd_device \<Rightarrow> lapd_ntme list \<times> lapd_device" where
  "lapd_ntme_handle_tei_request d devno tmes dev =
     (if dev_mode dev = LAPD_INTF_MODE_POINT_TO_POINT
      then (tmes, lapd_tm_send LAPD_TEI_MT_DENIED (tm_ri d) (tm_ai d) dev)
      else first_of_dev devno (ntme_tei_request d) tmes dev)"

section \<open>Responses\<close>

definition count_response :: "u8 \<Rightarrow> lapd_ntme_tei_check \<Rightarrow> lapd_ntme_tei_check" where
  "count_response v tc =
     (if tc_tei tc = LAPD_BROADCAST_TEI \<or> tc_tei tc = v then
        (let (a, b) = tc_responses tc ! unat v in
         tc\<lparr>tc_responses := (tc_responses tc)[unat v := if tc_count tc = 0 then (a + 1, b) else (a, b + 1)]\<rparr>)
      else tc)"

text \<open>The action indicators are collected from the first octet of the frame on.\<close>

definition lapd_ntme_handle_tei_check_response ::
  "octets \<Rightarrow> nat \<Rightarrow> lapd_ntme list \<Rightarrow> lapd_ntme list res" where
  "lapd_ntme_handle_tei_check_response d devno tmes =
     bind_res (collect_ais 0 0 d) (\<lambda>teis.
       Inr (map (\<lambda>tme. if ntme_dev tme = devno
                       then tme\<lparr>ntme_tei_checks := map (fold count_response teis) (ntme_tei_checks tme)\<rparr>
                       else tme) tmes))"

definition lapd_ntme_handle_tei_verify ::
  "octets \<Rightarrow> nat \<Rightarrow> lapd_ntme list \<Rightarrow> lapd_device \<Rightarrow> lapd_ntme list \<times> lapd_device" where
  "lapd_ntme_handle_tei_verify d devno tmes dev =
     (if tm_ai d = LAPD_BROADCAST_TEI then (tmes, dev)
      else first_of_dev devno (lapd_ntme_start_tei_check (tm_ai d)) tmes dev)"

section \<open>The entities and their devices\<close>

record nt_state =
  nt_ntmes :: "lapd_ntme list"
  nt_devs :: "nat \<Rightarrow> lapd_device"

text \<open>
  The handlers of VERIFY and REQUEST read the message up to its action indicator, in the octet 7, which is read
  before they run.
\<close>

definition lapd_ntme_handle_frame :: "octets \<Rightarrow> nat \<Rightarrow> nt_state \<Rightarrow> nt_state res" where
  "lapd_ntme_handle_frame d devno st =
     (if length d < 8 then Inr st
      else bind_res (tm_rd hdr_control 2 d) (\<lambda>control.
        if lapd_frame_type control \<noteq> LAPD_FRAME_TYPE_UFRAME then Inr st
        else if lapd_uframe_function control \<noteq> LAPD_UFRAME_FUNC_UI then Inr st
        else bind_res (tm_rd tm_entity 3 d) (\<lambda>entity.
          if entity \<noteq> 0x0f then Inr st
          else bind_res (tm_rd tm_message_type 6 d) (\<lambda>message_type.
            if message_type = LAPD_TEI_MT_CHK_RES then
              bind_res (lapd_ntme_handle_tei_check_response d devno (nt_ntmes st))
                (\<lambda>ts. Inr (st\<lparr>nt_ntmes := ts\<rparr>))
            else if message_type = LAPD_TEI_MT_VERIFY then
              bind_res (tm_rd tm_ai 7 d) (\<lambda>_.
                let (ts, dev) = lapd_ntme_handle_tei_verify d devno (nt_ntmes st) (nt_devs st devno)
                in Inr (st\<lparr>nt_ntmes := ts, nt_devs := (nt_devs st)(devno := dev)\<rparr>))
            else if message_type = LAPD_TEI_MT_REQUEST then
              bind_res (tm_rd tm_ai 7 d) (\<lambda>_.
                let (ts, dev) = lapd_ntme_handle_tei_request d devno (nt_ntmes st) (nt_devs st devno)
                in Inr (st\<lparr>nt_ntmes := ts, nt_devs := (nt_devs st)(devno := dev)\<rparr>))
            else Inr st))))"

fun audit_loop :: "lapd_ntme list \<Rightarrow> (nat \<Rightarrow> lapd_device) \<Rightarrow> lapd_ntme list \<times> (nat \<Rightarrow> lapd_device)" where
  "audit_loop [] devs = ([], devs)"
| "audit_loop (tme # tmes) devs =
     (let (t, dev) = lapd_ntme_start_tei_check LAPD_BROADCAST_TEI (tme, devs (ntme_dev tme));
          (ts, devs) = audit_loop tmes (devs(ntme_dev tme := dev))
      in (t # ts, devs))"

definition lapd_ntme_audit :: "nt_state \<Rightarrow> nt_state" where
  "lapd_ntme_audit st =
     (let (ts, devs) = audit_loop (nt_ntmes st) (nt_devs st) in st\<lparr>nt_ntmes := ts, nt_devs := devs\<rparr>)"

datatype nt_event =
    Nt_frame octets nat
  | Nt_T201 nat nat
  | Nt_start_check nat u8
  | Nt_audit

fun nt_step :: "nt_event \<Rightarrow> nt_state \<Rightarrow> nt_state res" where
  "nt_step (Nt_frame d devno) st = lapd_ntme_handle_frame d devno st"
| "nt_step (Nt_T201 i j) st =
     (if i < length (nt_ntmes st) \<and> j < length (ntme_tei_checks (nt_ntmes st ! i)) then
        (let tme = nt_ntmes st ! i in
         bind_res (lapd_ntme_tc_T201_timer j (tme, nt_devs st (ntme_dev tme)))
           (\<lambda>(t, dev). Inr (st\<lparr>nt_ntmes := (nt_ntmes st)[i := t],
                               nt_devs := (nt_devs st)(ntme_dev tme := dev)\<rparr>)))
      else Inr st)"
| "nt_step (Nt_start_check i v) st =
     (if i < length (nt_ntmes st) then
        (let tme = nt_ntmes st ! i;
             (t, dev) = lapd_ntme_start_tei_check v (tme, nt_devs st (ntme_dev tme))
         in Inr (st\<lparr>nt_ntmes := (nt_ntmes st)[i := t], nt_devs := (nt_devs st)(ntme_dev tme := dev)\<rparr>))
      else Inr st)"
| "nt_step Nt_audit st = Inr (lapd_ntme_audit st)"

section \<open>Allocation is exact\<close>

text \<open>
  The contract of an allocator of identifiers: an allocation returns a free identifier and makes
  exactly that one not free, and fails only when none is free.
\<close>

fun alloc_many :: "('s \<Rightarrow> 'a option \<times> 's) \<Rightarrow> nat \<Rightarrow> 's \<Rightarrow> 'a list" where
  "alloc_many alloc 0 s = []"
| "alloc_many alloc (Suc n) s =
     (case alloc s of (Some x, t) \<Rightarrow> x # alloc_many alloc n t | (None, t) \<Rightarrow> alloc_many alloc n t)"

locale allocator =
  fixes ok :: "'s \<Rightarrow> bool"
    and free :: "'s \<Rightarrow> 'a set"
    and alloc :: "'s \<Rightarrow> 'a option \<times> 's"
  assumes alloc_ok: "ok s \<Longrightarrow> ok (snd (alloc s))"
    and free_finite: "ok s \<Longrightarrow> finite (free s)"
    and alloc_some: "ok s \<Longrightarrow> alloc s = (Some x, t) \<Longrightarrow> x \<in> free s \<and> free t = free s - {x}"
    and alloc_none: "ok s \<Longrightarrow> alloc s = (None, t) \<Longrightarrow> free s = {} \<and> free t = {}"
begin

lemma alloc_many_exact:
  "ok s \<Longrightarrow> distinct (alloc_many alloc n s) \<and> set (alloc_many alloc n s) \<subseteq> free s \<and> length (alloc_many alloc n s) = min n (card (free s))"
proof (induction n arbitrary: s)
  case 0
  then show ?case by simp
next
  case (Suc n)
  obtain r t where a: "alloc s = (r, t)" by fastforce
  have t: "ok t" using alloc_ok [OF Suc.prems] a by simp
  show ?case
  proof (cases r)
    case None
    then have "free s = {}" "free t = {}" using alloc_none [OF Suc.prems] a by auto
    then show ?thesis using Suc.IH [OF t] a None by simp
  next
    case (Some x)
    then have x: "x \<in> free s" "free t = free s - {x}" using alloc_some [OF Suc.prems] a by auto
    then have "card (free s) = Suc (card (free t))"
      using free_finite [OF Suc.prems] by (metis card_Suc_Diff1)
    then show ?thesis using Suc.IH [OF t] a Some x by auto
  qed
qed

end

definition ntme_free :: "lapd_ntme \<Rightarrow> nat set" where
  "ntme_free tme = {v. 64 \<le> v \<and> v \<le> 126 \<and> \<not> ntme_teis tme ! (v - 64)}"

definition ntme_alloc_ok :: "lapd_ntme \<Rightarrow> bool" where
  "ntme_alloc_ok tme \<longleftrightarrow> 64 \<le> cur_dyn_tei tme \<and> cur_dyn_tei tme \<le> 126 \<and> length (ntme_teis tme) = 63"

lemma tei_search_ok:
  "ntme_alloc_ok t \<Longrightarrow> ntme_alloc_ok (snd (tei_search n t)) \<and>
     ntme_tei_checks (snd (tei_search n t)) = ntme_tei_checks t \<and>
     ntme_refcnt (snd (tei_search n t)) = ntme_refcnt t \<and> ntme_freed (snd (tei_search n t)) = ntme_freed t \<and>
     ntme_dev (snd (tei_search n t)) = ntme_dev t"
  by (induction n arbitrary: t) (auto simp: ntme_alloc_ok_def Let_def)

lemma tei_search_some:
  "ntme_alloc_ok t \<Longrightarrow> tei_search n t = (Some v, u) \<Longrightarrow> v \<in> ntme_free t \<and> ntme_free u = ntme_free t - {v}"
proof (induction n arbitrary: t)
  case 0
  then show ?case by simp
next
  case (Suc n)
  let ?c = "if cur_dyn_tei t + 1 > 126 then 64 else cur_dyn_tei t + 1"
  let ?t = "t\<lparr>cur_dyn_tei := ?c\<rparr>"
  have c: "64 \<le> ?c" "?c \<le> 126" using Suc.prems(1) by (auto simp: ntme_alloc_ok_def)
  show ?case
  proof (cases "ntme_teis t ! (?c - 64)")
    case True
    then have "tei_search n ?t = (Some v, u)" using Suc.prems(2) by (simp add: Let_def split: if_splits)
    moreover have "ntme_alloc_ok ?t" using Suc.prems(1) c by (simp add: ntme_alloc_ok_def)
    ultimately show ?thesis using Suc.IH [of ?t] by (simp add: ntme_free_def)
  next
    case False
    then have "v = ?c" "u = ?t\<lparr>ntme_teis := (ntme_teis t)[?c - 64 := True]\<rparr>"
      using Suc.prems(2) by (auto simp: Let_def split: if_splits)
    then show ?thesis
      using c False Suc.prems(1) by (auto simp: ntme_free_def ntme_alloc_ok_def nth_list_update)
  qed
qed

lemma next_index:
  "64 \<le> c \<Longrightarrow> c \<le> (126 :: nat) \<Longrightarrow> (if c + 1 > 126 then 64 else c + 1) - 64 = (c - 64 + 1) mod 63"
  by (auto simp: mod_if)

lemma tei_search_none:
  "ntme_alloc_ok t \<Longrightarrow> tei_search n t = (None, u) \<Longrightarrow>
   ntme_teis u = ntme_teis t \<and> (\<forall>i. 1 \<le> i \<longrightarrow> i \<le> n \<longrightarrow> ntme_teis t ! ((cur_dyn_tei t - 64 + i) mod 63))"
proof (induction n arbitrary: t)
  case 0
  then show ?case by simp
next
  case (Suc n)
  let ?c = "if cur_dyn_tei t + 1 > 126 then 64 else cur_dyn_tei t + 1"
  let ?t = "t\<lparr>cur_dyn_tei := ?c\<rparr>"
  have o: "64 \<le> cur_dyn_tei t" "cur_dyn_tei t \<le> 126" using Suc.prems(1) by (simp_all add: ntme_alloc_ok_def)
  have n: "?c - 64 = (cur_dyn_tei t - 64 + 1) mod 63" by (rule next_index [OF o])
  have h: "ntme_teis t ! (?c - 64)" "tei_search n ?t = (None, u)"
    using Suc.prems(2) by (auto simp: Let_def split: if_splits)
  have "ntme_alloc_ok ?t" using Suc.prems(1) o by (simp add: ntme_alloc_ok_def)
  then have ih: "ntme_teis u = ntme_teis t"
     "1 \<le> i \<Longrightarrow> i \<le> n \<Longrightarrow> ntme_teis t ! ((?c - 64 + i) mod 63)" for i
    using Suc.IH [OF _ h(2)] by simp_all
  have "ntme_teis t ! ((cur_dyn_tei t - 64 + i) mod 63)" if i: "1 \<le> i" "i \<le> Suc n" for i
  proof (cases "i = 1")
    case True
    then show ?thesis using h(1) n by simp
  next
    case False
    then have "ntme_teis t ! ((?c - 64 + (i - 1)) mod 63)" using ih(2) [of "i - 1"] i by simp
    moreover have "cur_dyn_tei t - 64 + i = (cur_dyn_tei t - 64 + 1) + (i - 1)" using i(1) by linarith
    then have "(?c - 64 + (i - 1)) mod 63 = (cur_dyn_tei t - 64 + i) mod 63"
      unfolding n by (simp only: mod_add_left_eq)
    ultimately show ?thesis by simp
  qed
  then show ?case using ih(1) by blast
qed

lemma full_turn:
  assumes "j < (63 :: nat)" "k < 63"
  shows "\<exists>i. 1 \<le> i \<and> i \<le> 63 \<and> (k + i) mod 63 = j"
proof (cases "k < j")
  case True
  then have "1 \<le> j - k" "j - k \<le> 63" "(k + (j - k)) mod 63 = j" using assms by simp_all
  then show ?thesis by blast
next
  case False
  then have "1 \<le> 63 + j - k" "63 + j - k \<le> 63" "(k + (63 + j - k)) mod 63 = j" using assms by simp_all
  then show ?thesis by blast
qed

interpretation dyn_teis: allocator ntme_alloc_ok ntme_free "tei_search LAPD_NUM_DYN_TEIS"
proof unfold_locales
  fix t u :: lapd_ntme and v
  assume o: "ntme_alloc_ok t"
  show "ntme_alloc_ok (snd (tei_search LAPD_NUM_DYN_TEIS t))" using tei_search_ok [OF o] by simp
  show "finite (ntme_free t)" by (rule finite_subset [of _ "{..126}"]) (auto simp: ntme_free_def)
  show "tei_search LAPD_NUM_DYN_TEIS t = (Some v, u) \<Longrightarrow> v \<in> ntme_free t \<and> ntme_free u = ntme_free t - {v}"
    by (rule tei_search_some [OF o])
  show "ntme_free t = {} \<and> ntme_free u = {}" if s: "tei_search LAPD_NUM_DYN_TEIS t = (None, u)"
  proof -
    have k: "cur_dyn_tei t - 64 < 63" using o by (auto simp: ntme_alloc_ok_def)
    have "ntme_teis t ! j" if "j < 63" for j
      using full_turn [OF that k] tei_search_none [OF o s] unfolding LAPD_NUM_DYN_TEIS_def by metis
    then show ?thesis using tei_search_none [OF o s] by (auto simp: ntme_free_def)
  qed
qed

text \<open>
  C35. The allocation of dynamic TEIs is exact: n requests in a row, with no check in between, are
  given distinct TEIs, each of them free before and between 64 and 126, and as many of them succeed
  as there were free TEIs. The search runs over all 63 of them wherever it starts.
\<close>

theorem tei_allocation_exact:
  assumes "64 \<le> cur_dyn_tei t" "cur_dyn_tei t \<le> 126" "length (ntme_teis t) = 63"
  shows "distinct (alloc_many (tei_search LAPD_NUM_DYN_TEIS) n t) \<and>
     set (alloc_many (tei_search LAPD_NUM_DYN_TEIS) n t) \<subseteq> {v. 64 \<le> v \<and> v \<le> 126 \<and> \<not> ntme_teis t ! (v - 64)} \<and>
     length (alloc_many (tei_search LAPD_NUM_DYN_TEIS) n t) =
       min n (card {v. 64 \<le> v \<and> v \<le> 126 \<and> \<not> ntme_teis t ! (v - 64)})"
  using dyn_teis.alloc_many_exact [of t n] assms by (simp add: ntme_alloc_ok_def ntme_free_def)

theorem tei_allocation_exact_witness:
  "length (alloc_many (tei_search LAPD_NUM_DYN_TEIS) 2 (lapd_ntme_alloc 0 200)) = min 2 (card {v :: nat. 64 \<le> v \<and> v \<le> 126})"
proof -
  have "{v. 64 \<le> v \<and> v \<le> 126 \<and> \<not> ntme_teis (lapd_ntme_alloc 0 200) ! (v - 64)} = {v. 64 \<le> v \<and> v \<le> 126}"
    by (auto simp: lapd_ntme_alloc_def)
  then show ?thesis
    using tei_allocation_exact [of "lapd_ntme_alloc 0 200" 2]
    by (simp add: lapd_ntme_alloc_def del: alloc_many.simps)
qed

section \<open>Invariant\<close>

definition tc_ok :: "lapd_ntme_tei_check \<Rightarrow> bool" where
  "tc_ok tc \<longleftrightarrow> length (tc_responses tc) = 128 \<and> tc_tei tc < 128 \<and> tc_count tc \<le> 1"

definition ntme_ok :: "lapd_ntme \<Rightarrow> bool" where
  "ntme_ok t \<longleftrightarrow> ntme_alloc_ok t \<and> \<not> ntme_freed t \<and> 1 + int (length (ntme_tei_checks t)) \<le> ntme_refcnt t \<and>
     list_all tc_ok (ntme_tei_checks t) \<and> distinct (map tc_tei (ntme_tei_checks t))"

definition ntme_owners :: "lapd_ntme \<Rightarrow> int" where
  "ntme_owners t = ntme_refcnt t - int (length (ntme_tei_checks t))"

definition ntme_keeps :: "lapd_ntme \<Rightarrow> lapd_ntme \<Rightarrow> bool" where
  "ntme_keeps t u \<longleftrightarrow> ntme_ok t \<longrightarrow> ntme_ok u \<and> ntme_owners u = ntme_owners t \<and> ntme_dev u = ntme_dev t"

lemma ntme_keeps_refl [simp]: "ntme_keeps t t"
  by (simp add: ntme_keeps_def)

lemma ntme_keeps_trans: "ntme_keeps t u \<Longrightarrow> ntme_keeps u w \<Longrightarrow> ntme_keeps t w"
  by (simp add: ntme_keeps_def)

lemma start_check_keeps: "v < 128 \<Longrightarrow> ntme_keeps t (fst (lapd_ntme_start_tei_check v (t, dev)))"
  by (auto simp: ntme_keeps_def ntme_ok_def ntme_owners_def ntme_alloc_ok_def lapd_ntme_start_tei_check_def
      lapd_ntme_get_def tc_ok_def list_ex_iff Let_def)

lemma fold_start_check_keeps:
  "\<forall>i \<in> set is. f i < 128 \<Longrightarrow>
   ntme_keeps t (fst (fold (\<lambda>i. lapd_ntme_start_tei_check (f i)) is (t, dev)))"
proof (induction "is" arbitrary: t dev)
  case Nil
  then show ?case by simp
next
  case (Cons i "is")
  obtain u dev' where u: "lapd_ntme_start_tei_check (f i) (t, dev) = (u, dev')" by fastforce
  then have "ntme_keeps t u" using start_check_keeps [of "f i" t dev] Cons.prems by simp
  then show ?case using Cons.IH [of u dev'] Cons.prems ntme_keeps_trans u by auto
qed

lemma dyn_tei_lt: "i < 63 \<Longrightarrow> (word_of_nat (64 + i) :: u8) < 128"
  unfolding word_less_nat_alt by (simp only: unat_of_nat) simp

lemma ntme_request_keeps: "ntme_keeps t (fst (ntme_tei_request d (t, dev)))"
proof -
  obtain r u where s: "tei_search LAPD_NUM_DYN_TEIS t = (r, u)" by fastforce
  then have k: "ntme_keeps t u"
    using tei_search_ok [of t LAPD_NUM_DYN_TEIS] by (auto simp: ntme_keeps_def ntme_ok_def ntme_owners_def)
  have "ntme_keeps u (fst (fold (\<lambda>i. lapd_ntme_start_tei_check (word_of_nat (64 + i))) [0..<LAPD_NUM_DYN_TEIS] (u, dev')))" for dev'
    by (rule fold_start_check_keeps) (auto simp: LAPD_NUM_DYN_TEIS_def simp del: of_nat_add intro: dyn_tei_lt)
  then show ?thesis
    using k s ntme_keeps_trans by (auto simp: ntme_tei_request_def split: option.splits)
qed

lemma first_of_dev_keeps:
  "(\<And>t dev. ntme_keeps t (fst (f (t, dev)))) \<Longrightarrow> list_all2 ntme_keeps ts (fst (first_of_dev devno f ts dev))"
  by (induction ts arbitrary: dev) (auto simp: case_prod_beta list_all2_same)

lemma count_response_ok [simp]:
  "tc_ok tc \<Longrightarrow> tc_ok (count_response v tc)" "tc_tei (count_response v tc) = tc_tei tc"
  "tc_count (count_response v tc) = tc_count tc"
  by (auto simp: count_response_def tc_ok_def case_prod_beta Let_def)

lemma fold_count_response_ok:
  "tc_ok tc \<Longrightarrow> tc_ok (fold count_response vs tc)" "tc_tei (fold count_response vs tc) = tc_tei tc"
  "tc_count (fold count_response vs tc) = tc_count tc"
  by (induction vs arbitrary: tc) auto

lemma check_response_keeps:
  "lapd_ntme_handle_tei_check_response d devno ts = Inr us \<Longrightarrow> list_all2 ntme_keeps ts us"
  by (auto simp: lapd_ntme_handle_tei_check_response_def bind_res_eq_Inr list_all2_map2 list_all2_same
      ntme_keeps_def ntme_ok_def ntme_owners_def ntme_alloc_ok_def list_all_iff comp_def fold_count_response_ok)

lemma fold_second_frame:
  "\<exists>teis. fst (fold (lapd_ntme_tc_check_second tc) vs (t, dev)) = t\<lparr>ntme_teis := teis\<rparr> \<and>
     length teis = length (ntme_teis t)"
proof (induction vs arbitrary: t dev)
  case Nil
  then show ?case by (auto intro: exI [of _ "ntme_teis t"])
next
  case (Cons v vs)
  obtain u dev' where u: "lapd_ntme_tc_check_second tc v (t, dev) = (u, dev')" by fastforce
  then have "\<exists>teis. u = t\<lparr>ntme_teis := teis\<rparr> \<and> length teis = length (ntme_teis t)"
    by (auto simp: lapd_ntme_tc_check_second_def split: if_splits intro: exI [of _ "ntme_teis t"])
  then show ?case using Cons.IH [of u dev'] u by auto
qed

lemma distinct_without: "distinct xs \<Longrightarrow> distinct (take i xs @ drop (Suc i) xs)"
  by (metis distinct_append distinct_drop distinct_take disjoint_iff order_refl set_take_disj_set_drop_if_distinct le_SucI)

lemma remove_check_keeps:
  assumes "i < length (ntme_tei_checks t)" "length teis = length (ntme_teis t)"
  shows "ntme_keeps t (lapd_ntme_put (t\<lparr>ntme_teis := teis,
     ntme_tei_checks := take i (ntme_tei_checks t) @ drop (Suc i) (ntme_tei_checks t)\<rparr>))"
  using assms distinct_without [of "map tc_tei (ntme_tei_checks t)" i]
  by (auto simp: ntme_keeps_def ntme_ok_def ntme_owners_def ntme_alloc_ok_def lapd_ntme_put_def Let_def
      take_map drop_map list_all_iff dest: in_set_takeD in_set_dropD)

lemma T201_keeps:
  assumes "i < length (ntme_tei_checks t)" "ntme_ok t"
  shows "\<exists>u dev'. lapd_ntme_tc_T201_timer i (t, dev) = Inr (u, dev') \<and> ntme_keeps t u"
proof -
  let ?tc = "ntme_tei_checks t ! i"
  have c: "tc_tei ?tc < 128" "tc_ok ?tc" using assms by (auto simp: ntme_ok_def list_all_length tc_ok_def)
  have r: "ntme_keeps t (lapd_ntme_put (t\<lparr>ntme_tei_checks := take i (ntme_tei_checks t) @ drop (Suc i) (ntme_tei_checks t)\<rparr>))"
    using remove_check_keeps [OF assms(1), of "ntme_teis t"] by simp
  have same: "(map tc_tei (ntme_tei_checks t))[i := tc_tei ?tc] = map tc_tei (ntme_tei_checks t)"
    using assms(1) by (simp add: list_update_same_conv)
  have again: "ntme_keeps t (lapd_ntme_put (lapd_ntme_get
      (t\<lparr>ntme_tei_checks := (ntme_tei_checks t)[i := ?tc\<lparr>tc_count := 1\<rparr>]\<rparr>)))"
    using assms c
    by (auto simp: ntme_keeps_def ntme_ok_def ntme_owners_def ntme_alloc_ok_def lapd_ntme_put_def
        lapd_ntme_get_def Let_def list_all_length nth_list_update tc_ok_def map_update same)
  obtain teis where f: "fst (fold (lapd_ntme_tc_check_second ?tc) [0..<128] (t, dev)) = t\<lparr>ntme_teis := teis\<rparr>"
     "length teis = length (ntme_teis t)" using fold_second_frame by blast
  obtain teis1 where g: "fst (lapd_ntme_tc_check_second ?tc (unat (tc_tei ?tc)) (t, dev)) = t\<lparr>ntme_teis := teis1\<rparr>"
     "length teis1 = length (ntme_teis t)"
    using fold_second_frame [of ?tc "[unat (tc_tei ?tc)]" t dev] by auto
  show ?thesis
    using c r again f(1) g(1) remove_check_keeps [OF assms(1) f(2)] remove_check_keeps [OF assms(1) g(2)]
    by (auto simp: lapd_ntme_tc_T201_timer_def Let_def case_prod_beta not_le)
qed

lemma audit_keeps: "list_all2 ntme_keeps ts (fst (audit_loop ts devs))"
proof (induction ts arbitrary: devs)
  case Nil
  then show ?case by simp
next
  case (Cons t ts)
  have "ntme_keeps t (fst (lapd_ntme_start_tei_check LAPD_BROADCAST_TEI (t, devs (ntme_dev t))))"
    by (rule start_check_keeps) (simp add: LAPD_BROADCAST_TEI_def)
  then show ?case using Cons.IH by (simp add: case_prod_beta Let_def)
qed

text \<open>
  A frame with the address extension bit in its second octet ends the collection of the check
  response handler there.
\<close>

lemma collect_from_address:
  "2 \<le> length d \<Longrightarrow> addr_ea2 d \<Longrightarrow> \<exists>vs. collect_ais 0 0 d = Inr vs \<and> list_all (\<lambda>v. v < 128) vs"
  by (auto simp: addr_ea2_def ai_ext_def ai_value_def)

definition nt_event_ok :: "nt_event \<Rightarrow> nt_state \<Rightarrow> bool" where
  "nt_event_ok e st \<longleftrightarrow>
     (case e of Nt_frame d devno \<Rightarrow> addr_ea2 d | Nt_start_check i v \<Rightarrow> v < 128 | _ \<Rightarrow> True)"

lemma ntme_keeps_update:
  "i < length ts \<Longrightarrow> ntme_keeps (ts ! i) t \<Longrightarrow> list_all2 ntme_keeps ts (ts[i := t])"
  by (auto simp: list_all2_conv_all_nth nth_list_update)

lemma nt_frame_keeps:
  assumes "addr_ea2 d"
  shows "\<exists>st'. lapd_ntme_handle_frame d devno st = Inr st' \<and> list_all2 ntme_keeps (nt_ntmes st) (nt_ntmes st')"
proof -
  have r: "list_all2 ntme_keeps (nt_ntmes st) (fst (lapd_ntme_handle_tei_request d devno (nt_ntmes st) dev))" for dev
    by (simp add: lapd_ntme_handle_tei_request_def list_all2_same first_of_dev_keeps ntme_request_keeps)
  have v: "list_all2 ntme_keeps (nt_ntmes st) (fst (lapd_ntme_handle_tei_verify d devno (nt_ntmes st) dev))" for dev
    by (simp add: lapd_ntme_handle_tei_verify_def list_all2_same first_of_dev_keeps start_check_keeps
        tm_ai_def ai_value_def)
  have c: "\<exists>us. lapd_ntme_handle_tei_check_response d devno (nt_ntmes st) = Inr us" if "8 \<le> length d"
    using collect_from_address [OF _ assms] that
    by (auto simp: lapd_ntme_handle_tei_check_response_def simp del: collect_ais.simps)
  show ?thesis
    using r v c check_response_keeps [of d devno "nt_ntmes st"]
    by (auto simp: lapd_ntme_handle_frame_def tm_rd_def case_prod_beta list_all2_same not_less)
qed

lemma nt_step_keeps:
  assumes "nt_event_ok e st" "list_all ntme_ok (nt_ntmes st)"
  shows "\<exists>st'. nt_step e st = Inr st' \<and> list_all2 ntme_keeps (nt_ntmes st) (nt_ntmes st')"
proof (cases e)
  case (Nt_frame d devno)
  then show ?thesis using assms nt_frame_keeps [of d devno st] by (simp add: nt_event_ok_def)
next
  case (Nt_T201 i j)
  show ?thesis
  proof (cases "i < length (nt_ntmes st) \<and> j < length (ntme_tei_checks (nt_ntmes st ! i))")
    case True
    then obtain u dev' where "lapd_ntme_tc_T201_timer j (nt_ntmes st ! i, nt_devs st (ntme_dev (nt_ntmes st ! i))) = Inr (u, dev')"
       "ntme_keeps (nt_ntmes st ! i) u"
      using T201_keeps assms(2) by (metis list_all_length)
    then show ?thesis using True Nt_T201 ntme_keeps_update by (simp add: Let_def)
  next
    case False
    then show ?thesis using Nt_T201 by (auto simp: list_all2_same)
  qed
next
  case (Nt_start_check i v)
  then show ?thesis
    using assms(1) start_check_keeps [of v "nt_ntmes st ! i"]
    by (auto simp: nt_event_ok_def Let_def case_prod_beta list_all2_same intro!: ntme_keeps_update)
next
  case Nt_audit
  then show ?thesis using audit_keeps [of "nt_ntmes st" "nt_devs st"] by (simp add: lapd_ntme_audit_def case_prod_beta Let_def)
qed

definition nt_ok :: "nt_state \<Rightarrow> bool" where
  "nt_ok st \<longleftrightarrow> list_all ntme_ok (nt_ntmes st)"

lemma ntme_keeps_all: "list_all ntme_ok ts \<Longrightarrow> list_all2 ntme_keeps ts us \<Longrightarrow> list_all ntme_ok us"
  by (auto simp: list_all_length list_all2_conv_all_nth ntme_keeps_def)

interpretation nt: total_event_machine nt_event_ok nt_step nt_ok
proof unfold_locales
  fix e st st' assume a: "nt_event_ok e st" "nt_ok st"
  then have k: "\<exists>st'. nt_step e st = Inr st' \<and> list_all2 ntme_keeps (nt_ntmes st) (nt_ntmes st')"
    using nt_step_keeps by (simp add: nt_ok_def)
  then show "\<exists>s'. nt_step e st = Inr s'" by blast
  show "nt_step e st = Inr st' \<Longrightarrow> nt_ok st'" using k a(2) ntme_keeps_all by (auto simp: nt_ok_def)
qed

lemma nt_run_keeps:
  assumes "nt_ok st" "events_ok nt_step nt_event_ok es st" "run_events nt_step es st = Inr st'"
  shows "list_all2 ntme_keeps (nt_ntmes st) (nt_ntmes st')"
  using assms
proof (induction es arbitrary: st)
  case Nil
  then show ?case by (simp add: list_all2_same)
next
  case (Cons e es)
  then obtain st1 where e: "nt_event_ok e st" "nt_step e st = Inr st1" "run_events nt_step es st1 = Inr st'"
    "events_ok nt_step nt_event_ok es st1"
    by (auto simp: bind_res_eq_Inr simp del: nt_step.simps)
  have k: "list_all2 ntme_keeps (nt_ntmes st) (nt_ntmes st1)"
    using nt_step_keeps [OF e(1)] Cons.prems(1) e(2) by (auto simp: nt_ok_def simp del: nt_step.simps)
  then have "nt_ok st1" using Cons.prems(1) ntme_keeps_all unfolding nt_ok_def by blast
  then have "list_all2 ntme_keeps (nt_ntmes st1) (nt_ntmes st')" using Cons.IH e(3,4) by blast
  with k show ?case using list_all2_trans [of ntme_keeps ntme_keeps ntme_keeps] ntme_keeps_trans by blast
qed

text \<open>
  C36. The network side never faults and keeps its books. Whatever messages (with a well-formed
  address), check requests, timer expiries and audits arrive, every handler returns, no entity is
  freed under its owners, each running check holds exactly one reference (an entity whose references but those
  of its checks are \<open>k\<close> has \<open>k\<close> and one for each check that is running afterwards), no TEI is checked twice at
  the same time, and the allocation table keeps its size with the cursor inside it.
\<close>

theorem nt_books_kept:
  assumes "nt_ok st" "events_ok nt_step nt_event_ok es st"
  shows "\<exists>st'. run_events nt_step es st = Inr st' \<and>
     list_all2 (\<lambda>t u. ntme_refcnt u = ntme_refcnt t - int (length (ntme_tei_checks t)) + int (length (ntme_tei_checks u)) \<and>
        \<not> ntme_freed u \<and> 1 + int (length (ntme_tei_checks u)) \<le> ntme_refcnt u \<and>
        distinct (map tc_tei (ntme_tei_checks u)) \<and> length (ntme_teis u) = 63 \<and>
        64 \<le> cur_dyn_tei u \<and> cur_dyn_tei u \<le> 126) (nt_ntmes st) (nt_ntmes st')"
proof -
  obtain st' where r: "run_events nt_step es st = Inr st'" using nt.run_total [OF assms(2,1)] by blast
  have "list_all2 ntme_keeps (nt_ntmes st) (nt_ntmes st')" by (rule nt_run_keeps [OF assms r])
  moreover have "list_all ntme_ok (nt_ntmes st)" using assms(1) by (simp add: nt_ok_def)
  ultimately show ?thesis using r
    by (auto simp: list_all2_conv_all_nth list_all_length ntme_keeps_def ntme_ok_def ntme_owners_def ntme_alloc_ok_def simp del: run_events.simps)
qed

definition nt0 :: nt_state where
  "nt0 = \<lparr>nt_ntmes = [lapd_ntme_alloc 0 200],
     nt_devs = (\<lambda>_. dev0\<lparr>dev_role := LAPD_INTF_ROLE_NT, l1_state := LAPD_L1_STATE_AVAILABLE\<rparr>)\<rparr>"

definition tei_request_msg :: octets where
  "tei_request_msg = lapd_tm_frame LAPD_INTF_ROLE_TE LAPD_TEI_MT_REQUEST 7 [127] @ [0, 0]"

theorem nt_books_kept_witness:
  "\<exists>st'. run_events nt_step [Nt_frame tei_request_msg 0, Nt_audit, Nt_T201 0 0] nt0 = Inr st' \<and>
     list_all (\<lambda>t. \<not> ntme_freed t \<and> ntme_refcnt t = 1 + int (length (ntme_tei_checks t))) (nt_ntmes st')"
proof -
  have o: "nt_ok nt0"
    by (simp add: nt_ok_def nt0_def lapd_ntme_alloc_def ntme_ok_def ntme_alloc_ok_def)
  have "addr_ea2 tei_request_msg" by code_simp
  then have e: "events_ok nt_step nt_event_ok [Nt_frame tei_request_msg 0, Nt_audit, Nt_T201 0 0] nt0"
    by (simp add: nt_event_ok_def del: nt_step.simps split: sum.split)
  show ?thesis using nt_books_kept [OF o e]
    by (auto simp: nt0_def lapd_ntme_alloc_def list_all2_Cons1 simp del: run_events.simps)
qed

section \<open>A request is answered\<close>

lemma first_of_dev_split:
  "list_all (\<lambda>u. ntme_dev u \<noteq> devno) us \<Longrightarrow> ntme_dev t = devno \<Longrightarrow>
   first_of_dev devno f (us @ t # vs) dev = (us @ fst (f (t, dev)) # vs, snd (f (t, dev)))"
  by (induction us) (auto simp: case_prod_beta)

lemma start_check_effect:
  assumes "dev_inv dev" "lapd_ntme_start_tei_check v (t, dev) = (u, dev')"
  shows "dev_inv dev' \<and> (\<exists>rest. dev_frames dev' = dev_frames dev @ rest) \<and> ntme_teis u = ntme_teis t \<and>
     v \<in> tc_tei ` set (ntme_tei_checks u) \<and> tc_tei ` set (ntme_tei_checks t) \<subseteq> tc_tei ` set (ntme_tei_checks u)"
  using assms tm_send_frames [OF assms(1), of LAPD_TEI_MT_CHK_REQ 0 "[v]"]
  by (auto simp: lapd_ntme_start_tei_check_def lapd_ntme_get_def Let_def list_ex_iff
      lapd_ntme_send_tei_check_request_def lapd_tm_send_def split: if_splits)

lemma fold_start_check_effect:
  assumes "dev_inv dev" "fold (\<lambda>i. lapd_ntme_start_tei_check (f i)) is (t, dev) = (u, dev')"
  shows "(\<exists>rest. dev_frames dev' = dev_frames dev @ rest) \<and> ntme_teis u = ntme_teis t \<and>
     f ` set is \<union> tc_tei ` set (ntme_tei_checks t) \<subseteq> tc_tei ` set (ntme_tei_checks u)"
  using assms
proof (induction "is" arbitrary: t dev)
  case Nil
  then show ?case by auto
next
  case (Cons i "is")
  obtain w dev1 where w: "lapd_ntme_start_tei_check (f i) (t, dev) = (w, dev1)" by fastforce
  note e = start_check_effect [OF Cons.prems(1) w]
  have "fold (\<lambda>i. lapd_ntme_start_tei_check (f i)) is (w, dev1) = (u, dev')" using Cons.prems(2) w by simp
  note ih = Cons.IH [OF _ this]
  have "f ` set (i # is) \<union> tc_tei ` set (ntme_tei_checks t) \<subseteq> tc_tei ` set (ntme_tei_checks u)"
    using ih e by simp blast
  then show ?case using ih e by auto
qed

text \<open>
  A request for any TEI on a multipoint interface is answered by the device's entity. If a
  dynamic TEI is free, one is assigned: the message carries the request's reference number and
  that TEI, which is no longer free. If none is free the request is denied, the table does not
  change, and a check is under way for every dynamic TEI.
\<close>

theorem tei_request_answered:
  assumes "ntme_alloc_ok t" "dev_inv dev" "dev_mode dev = LAPD_INTF_MODE_MULTIPOINT" "126 < tm_ai d"
    "ntme_dev t = devno" "list_all (\<lambda>u. ntme_dev u \<noteq> devno) us"
  shows "\<exists>t' dev' rest. lapd_ntme_handle_tei_request d devno (us @ t # vs) dev = (us @ t' # vs, dev') \<and>
     (if ntme_free t = {}
      then dev_frames dev' = dev_frames dev @ lapd_tm_frame (dev_role dev) LAPD_TEI_MT_DENIED (tm_ri d) [tm_ai d] # rest \<and>
           ntme_teis t' = ntme_teis t \<and>
           (\<lambda>i. word_of_nat (64 + i)) ` {0..<63} \<subseteq> tc_tei ` set (ntme_tei_checks t')
      else \<exists>v. v \<in> ntme_free t \<and> ntme_free t' = ntme_free t - {v} \<and> dev_frames dev' =
             dev_frames dev @ [lapd_tm_frame (dev_role dev) LAPD_TEI_MT_ASSIGNED (tm_ri d) [word_of_nat v]])"
proof -
  have ai: "\<not> tm_ai d \<le> LAPD_MAX_STA_TEI" "\<not> tm_ai d \<le> LAPD_MAX_DYN_TEI"
    using assms(4) by (auto simp: tei_consts word_le_nat_alt word_less_nat_alt)
  obtain r u where s: "tei_search LAPD_NUM_DYN_TEIS t = (r, u)" by fastforce
  have h: "lapd_ntme_handle_tei_request d devno (us @ t # vs) dev =
      (us @ fst (ntme_tei_request d (t, dev)) # vs, snd (ntme_tei_request d (t, dev)))"
    using assms(3,5,6) by (simp add: lapd_ntme_handle_tei_request_def first_of_dev_split)
  show ?thesis
  proof (cases r)
    case (Some v)
    then have "v \<in> ntme_free t" "ntme_free u = ntme_free t - {v}"
      using tei_search_some [OF assms(1)] s by auto
    then show ?thesis
      using h s Some ai tm_send_frames [OF assms(2)]
      by (auto simp: ntme_tei_request_def lapd_ntme_send_tei_assigned_def lapd_tm_send_def)
  next
    case None
    let ?d = "lapd_ntme_send_tei_denied (tm_ri d) (tm_ai d) dev"
    have n: "ntme_free t = {}" "ntme_teis u = ntme_teis t"
      using dyn_teis.alloc_none [OF assms(1)] tei_search_none [OF assms(1)] s None by auto
    have d: "dev_inv ?d" "dev_frames ?d = dev_frames dev @ [lapd_tm_frame (dev_role dev) LAPD_TEI_MT_DENIED (tm_ri d) [tm_ai d]]"
      using tm_send_frames [OF assms(2)] by (simp_all add: lapd_ntme_send_tei_denied_def lapd_tm_send_def)
    obtain w dev' where w: "fold (\<lambda>i. lapd_ntme_start_tei_check (word_of_nat (64 + i))) [0..<LAPD_NUM_DYN_TEIS] (u, ?d) = (w, dev')"
      by fastforce
    have "ntme_tei_request d (t, dev) = (w, dev')"
      using s None ai w by (simp add: ntme_tei_request_def)
    then show ?thesis
      using fold_start_check_effect [OF d(1) w] h n d(2)
      by (auto simp: LAPD_NUM_DYN_TEIS_def)
  qed
qed

theorem tei_request_answered_witness:
  "\<exists>t' dev' v. lapd_ntme_handle_tei_request tei_request_msg 0 [lapd_ntme_alloc 0 200] dev0 = ([t'], dev') \<and>
     v \<in> ntme_free (lapd_ntme_alloc 0 200) \<and> ntme_free t' = ntme_free (lapd_ntme_alloc 0 200) - {v}"
proof -
  have c: "126 < tm_ai tei_request_msg" "dev_inv dev0" "dev_mode dev0 = LAPD_INTF_MODE_MULTIPOINT" by code_simp+
  have a: "ntme_alloc_ok (lapd_ntme_alloc 0 200)" "ntme_dev (lapd_ntme_alloc 0 200) = 0"
    by (simp_all add: ntme_alloc_ok_def lapd_ntme_alloc_def)
  have "64 \<in> ntme_free (lapd_ntme_alloc 0 200)" by (simp add: ntme_free_def lapd_ntme_alloc_def)
  then have "ntme_free (lapd_ntme_alloc 0 200) \<noteq> {}" by blast
  then show ?thesis
    using tei_request_answered [OF a(1) c(2,3,1) a(2), of "[]" "[]"] by auto
qed

section \<open>What the checks conclude\<close>

text \<open>
  A check of a single TEI ends with its first window: it removes the TEI when more than one
  user answered, and deletes the check. The second window, the one that would mark an unused TEI as
  free, is never reached, so a check of a single TEI never frees it.
\<close>

theorem single_check_one_window:
  assumes "i < length (ntme_tei_checks t)" "tc_count (ntme_tei_checks t ! i) = 0"
    "tc_tei (ntme_tei_checks t ! i) < 127" "1 < ntme_refcnt t"
  shows "\<exists>u dev'. lapd_ntme_tc_T201_timer i (t, dev) = Inr (u, dev') \<and> ntme_teis u = ntme_teis t \<and>
     ntme_tei_checks u = take i (ntme_tei_checks t) @ drop (Suc i) (ntme_tei_checks t) \<and>
     dev' = (if fst (tc_responses (ntme_tei_checks t ! i) ! unat (tc_tei (ntme_tei_checks t ! i))) > 1
             then lapd_tm_send LAPD_TEI_MT_REMOVE 0 (tc_tei (ntme_tei_checks t ! i)) dev else dev)"
proof -
  let ?v = "tc_tei (ntme_tei_checks t ! i)"
  have "\<not> 128 \<le> ?v" "?v \<noteq> LAPD_BROADCAST_TEI"
    using assms(3) by (auto simp: LAPD_BROADCAST_TEI_def word_le_nat_alt word_less_nat_alt)
  then show ?thesis
    using assms by (simp add: lapd_ntme_tc_T201_timer_def Let_def lapd_ntme_put_def
        lapd_ntme_tc_check_first_def lapd_ntme_send_tei_remove_def)
qed

theorem single_check_one_window_witness:
  "\<exists>u dev'. lapd_ntme_tc_T201_timer 0
      ((lapd_ntme_alloc 0 200)\<lparr>ntme_refcnt := 2, ntme_teis := replicate 63 True,
         ntme_tei_checks := [\<lparr>tc_count = 0, tc_responses = replicate 128 (0, 0), tc_tei = 70\<rparr>]\<rparr>, dev0) = Inr (u, dev') \<and>
     ntme_teis u = replicate 63 True \<and> ntme_tei_checks u = []"
  using single_check_one_window
    [of 0 "(lapd_ntme_alloc 0 200)\<lparr>ntme_refcnt := 2, ntme_teis := replicate 63 True,
         ntme_tei_checks := [\<lparr>tc_count = 0, tc_responses = replicate 128 (0, 0), tc_tei = 70\<rparr>]\<rparr>" dev0]
  by auto

text \<open>What the check response handler takes for TEIs: the two address octets.\<close>

lemma collect_response_address:
  "collect_ais 0 0 (lapd_tm_frame LAPD_INTF_ROLE_TE mt ri ais @ crc) = Inr [126, 127]"
proof -
  obtain r where a: "lapd_tm_frame LAPD_INTF_ROLE_TE mt ri ais @ crc = 0xFC # 0xFF # r"
    by (simp add: lapd_tm_frame_def make_address_def make_address0_def lapd_make_cr_def tei_consts field7_def)
  have "\<not> ai_ext 0xFC" "ai_ext 0xFF" "ai_value 0xFC = 126" "ai_value 0xFF = 127" by code_simp+
  then show ?thesis unfolding a by simp
qed

definition audit_window :: "nat \<Rightarrow> lapd_ntme \<Rightarrow> bool" where
  "audit_window c t \<longleftrightarrow> ntme_alloc_ok t \<and> 1 < ntme_refcnt t \<and> (\<exists>tc. ntme_tei_checks t = [tc] \<and> tc_tei tc = LAPD_BROADCAST_TEI \<and>
     tc_count tc = c \<and> length (tc_responses tc) = 128 \<and> (\<forall>v < 126. tc_responses tc ! v = (0, 0)))"

lemma audit_window_response:
  "audit_window c t \<Longrightarrow>
   audit_window c (t\<lparr>ntme_tei_checks := map (fold count_response [126, 127]) (ntme_tei_checks t)\<rparr>)"
  by (auto simp: audit_window_def ntme_alloc_ok_def count_response_def case_prod_beta Let_def nth_list_update)

lemma fold_second_frees:
  assumes "\<forall>v \<in> set vs. tc_responses tc ! v = (0, 0) \<or> 126 \<le> v" "length (ntme_teis t) = 63"
    "\<And>j. j \<in> F \<Longrightarrow> j < 63 \<and> \<not> ntme_teis t ! j"
  shows "\<forall>j \<in> F \<union> {v - 64 | v. v \<in> set vs \<and> 64 \<le> v \<and> v < 126}.
     \<not> ntme_teis (fst (fold (lapd_ntme_tc_check_second tc) vs (t, dev))) ! j"
  using assms
proof (induction vs arbitrary: t dev F)
  case Nil
  then show ?case by simp
next
  case (Cons v vs)
  obtain u dev' where u: "lapd_ntme_tc_check_second tc v (t, dev) = (u, dev')" by fastforce
  let ?F = "F \<union> {v - 64 | w. w = v \<and> 64 \<le> v \<and> v < 126}"
  have l: "length (ntme_teis u) = 63"
    using u Cons.prems(2) by (auto simp: lapd_ntme_tc_check_second_def split: if_splits)
  have f: "j < 63 \<and> \<not> ntme_teis u ! j" if "j \<in> ?F" for j
    using that u Cons.prems by (fastforce simp: lapd_ntme_tc_check_second_def nth_list_update split: if_splits)
  have "{v' - 64 |v'. v' \<in> set (v # vs) \<and> 64 \<le> v' \<and> v' < 126} \<union> F =
        ?F \<union> {v - 64 | v. v \<in> set vs \<and> 64 \<le> v \<and> v < 126}" by auto
  moreover have "\<forall>j \<in> ?F \<union> {v - 64 | v. v \<in> set vs \<and> 64 \<le> v \<and> v < 126}.
     \<not> ntme_teis (fst (fold (lapd_ntme_tc_check_second tc) vs (u, dev'))) ! j"
    by (rule Cons.IH) (use Cons.prems(1) l f in auto)
  ultimately show ?case using u by (simp add: Un_commute)
qed

lemma tm_frame_append:
  "hdr_control (lapd_tm_frame r mt ri ais @ crc) = hdr_control (lapd_tm_frame r mt ri ais)"
  "tm_entity (lapd_tm_frame r mt ri ais @ crc) = LAPD_TEI_ENTITY"
  "tm_message_type (lapd_tm_frame r mt ri ais @ crc) = mt"
  "tm_ri (lapd_tm_frame r mt ri ais @ crc) = ri"
  "ais \<noteq> [] \<Longrightarrow> tm_ai (lapd_tm_frame r mt ri ais @ crc) = tm_ai (lapd_tm_frame r mt ri ais)"
  using lapd_tm_frame_fields [of r mt ri ais]
  by (auto simp: hdr_control_def tm_entity_def tm_message_type_def tm_ri_def tm_ai_def nth_append neq_Nil_conv)

definition check_response_msg :: "u16 \<times> u8 list \<Rightarrow> octets" where
  "check_response_msg x = (case x of (ri, ais) \<Rightarrow> lapd_tm_frame LAPD_INTF_ROLE_TE LAPD_TEI_MT_CHK_RES ri ais @ [0, 0])"

lemma audit_responses:
  assumes "nt_ntmes st = [t]" "audit_window c t" "ntme_dev t = devno" "list_all (\<lambda>(ri, ais). ais \<noteq> []) rs"
  shows "\<exists>st' t'. run_events nt_step (map (\<lambda>x. Nt_frame (check_response_msg x) devno) rs) st = Inr st' \<and>
     nt_ntmes st' = [t'] \<and> audit_window c t' \<and> ntme_dev t' = devno"
  using assms
proof (induction rs arbitrary: st t)
  case Nil
  then show ?case by auto
next
  case (Cons x rs)
  obtain ri ais where x: "x = (ri, ais)" by fastforce
  let ?t = "t\<lparr>ntme_tei_checks := map (fold count_response [126, 127]) (ntme_tei_checks t)\<rparr>"
  have "lapd_ntme_handle_frame (check_response_msg x) devno st = Inr (st\<lparr>nt_ntmes := [?t]\<rparr>)"
    using Cons.prems x
    by (simp add: lapd_ntme_handle_frame_def tm_rd_def check_response_msg_def tm_frame_append lapd_tm_frame_fields
        lapd_ntme_handle_tei_check_response_def collect_response_address LAPD_TEI_ENTITY_def
        neq_Nil_conv del: collect_ais.simps)
  moreover have "audit_window c ?t" using audit_window_response [OF Cons.prems(2)] .
  ultimately show ?case
    using Cons.IH [of "st\<lparr>nt_ntmes := [?t]\<rparr>" ?t] Cons.prems(3,4) by simp
qed

text \<open>
  C37. The periodic audit frees TEIs that are in use. The handler of check responses collects the
  action indicators from the address octets instead of from behind the header, so whatever TEIs the
  users report it counts responses for 126 and 127 only. After an audit, however many users answer
  in both windows and whatever they hold, every TEI from 64 to 125 is marked free and can be
  assigned a second time.
\<close>

theorem audit_frees_teis_in_use:
  assumes "nt_ntmes st = [t]" "ntme_alloc_ok t" "ntme_tei_checks t = []" "1 \<le> ntme_refcnt t" "ntme_dev t = devno"
    "list_all (\<lambda>(ri, ais). ais \<noteq> []) rs1" "list_all (\<lambda>(ri, ais). ais \<noteq> []) rs2"
  shows "\<exists>st' t'. run_events nt_step
       (Nt_audit # map (\<lambda>x. Nt_frame (check_response_msg x) devno) rs1 @
        Nt_T201 0 0 # map (\<lambda>x. Nt_frame (check_response_msg x) devno) rs2 @ [Nt_T201 0 0]) st = Inr st' \<and>
     nt_ntmes st' = [t'] \<and> {64..125} \<subseteq> ntme_free t'"
proof -
  obtain st1 t1 where 1: "nt_step Nt_audit st = Inr st1" "nt_ntmes st1 = [t1]" "audit_window 0 t1" "ntme_dev t1 = devno"
    using assms(1-5)
    by (simp add: lapd_ntme_audit_def lapd_ntme_start_tei_check_def lapd_ntme_get_def Let_def audit_window_def
        ntme_alloc_ok_def)
  obtain st2 t2 where 2: "run_events nt_step (map (\<lambda>x. Nt_frame (check_response_msg x) devno) rs1) st1 = Inr st2"
    "nt_ntmes st2 = [t2]" "audit_window 0 t2" "ntme_dev t2 = devno"
    using audit_responses [OF 1(2-4) assms(6)] by blast
  obtain st3 t3 where 3: "nt_step (Nt_T201 0 0) st2 = Inr st3" "nt_ntmes st3 = [t3]" "audit_window 1 t3" "ntme_dev t3 = devno"
    using 2(2-4)
    by (auto simp: audit_window_def lapd_ntme_tc_T201_timer_def Let_def lapd_ntme_put_def lapd_ntme_get_def
        LAPD_BROADCAST_TEI_def ntme_alloc_ok_def)
  obtain st4 t4 where 4: "run_events nt_step (map (\<lambda>x. Nt_frame (check_response_msg x) devno) rs2) st3 = Inr st4"
    "nt_ntmes st4 = [t4]" "audit_window 1 t4" "ntme_dev t4 = devno"
    using audit_responses [OF 3(2-4) assms(7)] by blast
  from 4(3) obtain tc where tc: "ntme_tei_checks t4 = [tc]" "tc_tei tc = LAPD_BROADCAST_TEI" "tc_count tc = 1"
    "\<forall>v < 126. tc_responses tc ! v = (0, 0)" "length (ntme_teis t4) = 63" "1 < ntme_refcnt t4"
    by (auto simp: audit_window_def ntme_alloc_ok_def)
  let ?x = "fold (lapd_ntme_tc_check_second tc) [0..<128] (t4, nt_devs st4 devno)"
  obtain st5 t5 where 5: "nt_step (Nt_T201 0 0) st4 = Inr st5" "nt_ntmes st5 = [t5]" "ntme_teis t5 = ntme_teis (fst ?x)"
    using 4(2,4) tc fold_second_frame [of tc "[0..<128]" t4 "nt_devs st4 devno"]
    by (auto simp: lapd_ntme_tc_T201_timer_def Let_def case_prod_beta lapd_ntme_put_def LAPD_BROADCAST_TEI_def)
  have "\<not> ntme_teis (fst ?x) ! (v - 64)" if "64 \<le> v" "v < 126" for v
  proof -
    have "v - 64 \<in> {} \<union> {v - 64 | v. v \<in> set [0..<128] \<and> 64 \<le> v \<and> v < 126}" using that by auto
    moreover have "\<forall>v \<in> set [0..<128]. tc_responses tc ! v = (0, 0) \<or> 126 \<le> v"
      using tc(4) not_le_imp_less by blast
    ultimately show ?thesis
      using fold_second_frees [of "[0..<128]" tc t4 "{}" "nt_devs st4 devno"] tc(5) by blast
  qed
  then have "{64..125} \<subseteq> ntme_free t5" using 5(3) by (auto simp: ntme_free_def)
  then show ?thesis
    using 1(1) 2(1) 3(1) 4(1) 5 by (auto simp: run_events_append simp del: nt_step.simps)
qed

theorem audit_frees_teis_in_use_witness:
  "\<exists>st' t'. run_events nt_step
       (Nt_audit # map (\<lambda>x. Nt_frame (check_response_msg x) 0) [(5, [64])] @
        Nt_T201 0 0 # map (\<lambda>x. Nt_frame (check_response_msg x) 0) [(6, [64])] @ [Nt_T201 0 0])
       (nt0\<lparr>nt_ntmes := [(lapd_ntme_alloc 0 200)\<lparr>ntme_teis := True # replicate 62 False\<rparr>]\<rparr>) = Inr st' \<and>
     nt_ntmes st' = [t'] \<and> {64..125} \<subseteq> ntme_free t'"
  by (rule audit_frees_teis_in_use [where t = "(lapd_ntme_alloc 0 200)\<lparr>ntme_teis := True # replicate 62 False\<rparr>"])
     (simp_all add: lapd_ntme_alloc_def ntme_alloc_ok_def)

end
