(* ===== verification/Lapd_Input.thy ===== *)
theory Lapd_Input
  imports Lapd_Tei_NT
begin

text \<open>
  The input path (modules/lapd/input.c): from the primitives of layer 1 to the TEI management
  entities and to the sockets of the hash table, with the creation of sockets for new data links on
  the network side (\<open>lapd_new_sock\<close> of af_lapd.c).
\<close>

section \<open>State\<close>

text \<open>
  An entry of the socket hash, in the order the table is walked: the number of its device, its
  identity, whether \<open>sap\<close> is null, the socket, and for a listening socket the identities of the
  sockets waiting to be accepted.
\<close>

record hashed_sock =
  hs_dev :: nat
  hs_addr :: nat
  hs_null_sap :: bool
  hs_sock :: lapd_sock
  hs_new_dlcs :: "nat list"

record lapd_system =
  lapd_hash :: "hashed_sock list"
  lapd_utme_hash :: "lapd_utme list"
  lapd_ntme_hash :: "lapd_ntme list"
  lapd_devs :: "nat \<Rightarrow> lapd_device"
  lapd_q931 :: "nat \<Rightarrow> lapd_sap"
  lapd_x25 :: "nat \<Rightarrow> lapd_sap"
  next_addr :: nat

definition LAPD_SAPI_Q931 :: u8 where "LAPD_SAPI_Q931 = 0"
definition LAPD_SAPI_X25 :: u8 where "LAPD_SAPI_X25 = 0x0f"

section \<open>What a socket asks of the others\<close>

text \<open>
  Frames go to the device in the order the socket handed them over. Requests to TEI management
  are a check on the network side and a removal on the user side, which the socket that makes the
  request has already applied to itself.
\<close>

definition drain_frames :: "hashed_sock \<Rightarrow> lapd_device \<Rightarrow> hashed_sock \<times> lapd_device" where
  "drain_frames h dev =
     (h\<lparr>hs_sock := (hs_sock h)\<lparr>ph_out := []\<rparr>\<rparr>, lapd_ph_data_requests (ph_out (hs_sock h)) dev)"

fun start_checks :: "nat \<Rightarrow> tm_request list \<Rightarrow> lapd_ntme list \<Rightarrow> lapd_device \<Rightarrow> lapd_ntme list \<times> lapd_device" where
  "start_checks devno [] tmes dev = (tmes, dev)"
| "start_checks devno (Tm_start_tei_check v # rs) tmes dev =
     (let (tmes, dev) = first_of_dev devno (lapd_ntme_start_tei_check v) tmes dev
      in start_checks devno rs tmes dev)"
| "start_checks devno (_ # rs) tmes dev = start_checks devno rs tmes dev"

text \<open>The socket of the hash entry that is not the one making the request.\<close>

definition remove_others :: "nat \<Rightarrow> nat \<Rightarrow> hashed_sock \<Rightarrow> hashed_sock" where
  "remove_others self tme h =
     (if hs_addr h \<noteq> self \<and> sk_hashed (hs_sock h) \<and> role (hs_sock h) = LAPD_INTF_ROLE_TE \<and>
         usr_tme (hs_sock h) = Some tme
      then h\<lparr>hs_sock := lapd_mdl_primitive LAPD_MDL_REMOVE_REQUEST (hs_sock h)\<rparr> else h)"

fun remove_teis :: "nat \<Rightarrow> tm_request list \<Rightarrow> lapd_system \<Rightarrow> lapd_system" where
  "remove_teis self [] st = st"
| "remove_teis self (Tm_tei_remove t # rs) st =
     remove_teis self rs
       (st\<lparr>lapd_utme_hash := map (\<lambda>u. if utme_addr u = t then fst (lapd_utme_tei_remove u []) else u) (lapd_utme_hash st),
           lapd_hash := map (remove_others self t) (lapd_hash st)\<rparr>)"
| "remove_teis self (_ # rs) st = remove_teis self rs st"

definition replace_sock :: "hashed_sock \<Rightarrow> hashed_sock list \<Rightarrow> hashed_sock list" where
  "replace_sock h hs = map (\<lambda>x. if hs_addr x = hs_addr h then h else x) hs"

text \<open>The state after an entry of the hash has changed and its requests have been carried out.\<close>

definition sock_done :: "hashed_sock \<Rightarrow> lapd_system \<Rightarrow> lapd_system" where
  "sock_done h st =
     (let rs = tm_out (hs_sock h);
          (h, dev) = drain_frames (h\<lparr>hs_sock := (hs_sock h)\<lparr>tm_out := []\<rparr>\<rparr>) (lapd_devs st (hs_dev h));
          (tmes, dev) = start_checks (hs_dev h) rs (lapd_ntme_hash st) dev
      in remove_teis (hs_addr h) rs
           (st\<lparr>lapd_hash := replace_sock h (lapd_hash st), lapd_ntme_hash := tmes,
               lapd_devs := (lapd_devs st)(hs_dev h := dev)\<rparr>))"

fun settle :: "nat list \<Rightarrow> lapd_system \<Rightarrow> lapd_system" where
  "settle [] st = st"
| "settle (a # as) st =
     settle as (case find (\<lambda>h. hs_addr h = a) (lapd_hash st) of None \<Rightarrow> st | Some h \<Rightarrow> sock_done h st)"

section \<open>Frames without a socket\<close>

definition lapd_socketless_reply_dm :: "octets \<Rightarrow> lapd_device \<Rightarrow> lapd_device" where
  "lapd_socketless_reply_dm d dev =
     lapd_ph_data_request
       (make_address (addr_sapi d) (dev_role dev \<noteq> LAPD_INTF_ROLE_NT) (addr_tei d) @
        [lapd_uframe_make_control LAPD_UFRAME_FUNC_DM (u_p_f d)]) dev"

definition lapd_handle_socketless_frame :: "octets \<Rightarrow> lapd_device \<Rightarrow> lapd_device" where
  "lapd_handle_socketless_frame d dev =
     (if lapd_frame_type (hdr_control d) = LAPD_FRAME_TYPE_UFRAME \<and>
         (lapd_uframe_function (hdr_control d) = LAPD_UFRAME_FUNC_SABME \<or>
          lapd_uframe_function (hdr_control d) = LAPD_UFRAME_FUNC_DISC)
      then lapd_socketless_reply_dm d dev else dev)"

section \<open>Network side\<close>

text \<open>
  \<open>lapd_new_sock\<close>: the new socket is in state TEI-assigned with the address of the frame. Only the
  SAPIs of Q.931 and X.25 have a service access point; for any other one \<open>sap\<close> stays null.
\<close>

definition lapd_new_sock :: "lapd_system \<Rightarrow> hashed_sock \<Rightarrow> u8 \<Rightarrow> u8 \<Rightarrow> hashed_sock" where
  "lapd_new_sock st parent t sa =
     (let ps = hs_sock parent;
          s = ps\<lparr>sk_state := LAPD_SK_STATE_NORMAL_DLC, sk_write_queue := [], sk_send_head := None,
                 sk_receive_queue := [], sk_rmem_alloc := 0, sk_owned_by_user := False, sk_backlog := [],
                 sk_hashed := True, sk_timer := False, u_queue := [], retrans_cnt := 0, v_s := 0, v_r := 0, v_a := 0,
                 layer_3_initiated := False, usr_tme := None, ph_out := [], tm_out := []\<rparr>;
          s = (lapd_datalink_state_init s)\<lparr>state := LAPD_DLS_4_TEI_ASSIGNED, tei := t, sapi := sa\<rparr>
      in \<lparr>hs_dev = hs_dev parent, hs_addr = next_addr st,
          hs_null_sap = (sa \<noteq> LAPD_SAPI_Q931 \<and> sa \<noteq> LAPD_SAPI_X25),
          hs_sock = s\<lparr>sap := if sa = LAPD_SAPI_Q931 then lapd_q931 st (hs_dev parent)
                            else if sa = LAPD_SAPI_X25 then lapd_x25 st (hs_dev parent) else sap s\<rparr>,
          hs_new_dlcs = []\<rparr>)"

text \<open>
  A socket with a null \<open>sap\<close> is in state TEI-assigned. The frames that start a timer there read the
  duration through \<open>sap\<close>.
\<close>

definition starts_timer :: "octets \<Rightarrow> lapd_sock \<Rightarrow> bool" where
  "starts_timer d s \<longleftrightarrow>
     lapd_frame_type (hdr_control d) = LAPD_FRAME_TYPE_UFRAME \<and> length d = 5 \<and>
     (case lapd_uframe_function (hdr_control d) of
        LAPD_UFRAME_FUNC_SABME \<Rightarrow> sk_state s = LAPD_SK_STATE_NORMAL_DLC
      | LAPD_UFRAME_FUNC_DM \<Rightarrow> \<not> u_p_f d \<and> sk_state s = LAPD_SK_STATE_NORMAL_DLC
      | LAPD_UFRAME_FUNC_FRMR \<Rightarrow> True
      | _ \<Rightarrow> False)"

definition pass_to_entry :: "octets \<Rightarrow> hashed_sock \<Rightarrow> (bool \<times> hashed_sock) res" where
  "pass_to_entry d h =
     (if hs_null_sap h \<and> \<not> sk_owned_by_user (hs_sock h) \<and> starts_timer d (hs_sock h) then Inl NullDereference
      else bind_res (lapd_pass_frame_to_socket (Skb_frame d) (hs_sock h))
             (\<lambda>(queued, s). Inr (queued, h\<lparr>hs_sock := s\<rparr>)))"

text \<open>The walk over the hash: the last listening socket of the device seen before a socket matches.\<close>

fun nt_lookup :: "octets \<Rightarrow> nat \<Rightarrow> hashed_sock option \<Rightarrow> hashed_sock list \<Rightarrow> hashed_sock option \<times> hashed_sock option" where
  "nt_lookup d devno lst [] = (None, lst)"
| "nt_lookup d devno lst (h # hs) =
     (if hs_dev h = devno then
        (if sk_state (hs_sock h) = LAPD_SK_STATE_LISTEN then nt_lookup d devno (Some h) hs
         else if sapi (hs_sock h) = addr_sapi d \<and> tei (hs_sock h) = addr_tei d then (Some h, lst)
         else nt_lookup d devno lst hs)
      else nt_lookup d devno lst hs)"

definition lapd_pass_frame_to_socket_nt :: "octets \<Rightarrow> nat \<Rightarrow> lapd_system \<Rightarrow> (bool \<times> lapd_system) res" where
  "lapd_pass_frame_to_socket_nt d devno st =
     (case nt_lookup d devno None (lapd_hash st) of
        (Some h, _) \<Rightarrow>
          bind_res (pass_to_entry d h) (\<lambda>(queued, h). Inr (queued, sock_done h st))
      | (None, Some l) \<Rightarrow>
          let n = lapd_new_sock st l (addr_tei d) (addr_sapi d);
              st = st\<lparr>next_addr := next_addr st + 1,
                      lapd_hash := n # replace_sock (l\<lparr>hs_new_dlcs := hs_addr n # hs_new_dlcs l\<rparr>) (lapd_hash st)\<rparr>
          in bind_res (pass_to_entry d n) (\<lambda>(queued, h). Inr (queued, sock_done h st))
      | (None, None) \<Rightarrow>
          Inr (False, st\<lparr>lapd_devs := (lapd_devs st)(devno := lapd_handle_socketless_frame d (lapd_devs st devno))\<rparr>))"

section \<open>User side\<close>

text \<open>
  Every matching socket gets the frame: the original buffer until a socket has kept one, then
  clones. The first flag is the one the source returns, that of the last matching socket; the second
  says whether a socket has kept the original buffer, which must not be queued a second time.
\<close>

definition te_match :: "octets \<Rightarrow> nat \<Rightarrow> hashed_sock \<Rightarrow> bool" where
  "te_match d devno h \<longleftrightarrow>
     hs_dev h = devno \<and>
     (sk_state (hs_sock h) = LAPD_SK_STATE_NORMAL_DLC \<or> sk_state (hs_sock h) = LAPD_SK_STATE_BROADCAST_DLC) \<and>
     sapi (hs_sock h) = addr_sapi d \<and> tei (hs_sock h) = addr_tei d"

fun te_deliver ::
  "octets \<Rightarrow> nat \<Rightarrow> bool \<times> bool \<Rightarrow> nat list \<Rightarrow> lapd_system \<Rightarrow> (bool \<times> bool \<times> lapd_system) res" where
  "te_deliver d devno (queued, held) [] st = Inr (queued, held, st)"
| "te_deliver d devno (queued, held) (a # as) st =
     (case find (\<lambda>h. hs_addr h = a) (lapd_hash st) of
        None \<Rightarrow> te_deliver d devno (queued, held) as st
      | Some h \<Rightarrow>
          if te_match d devno h then
            bind_res (pass_to_entry d h) (\<lambda>(q, h).
              if \<not> queued \<and> q \<and> held then Inl DoubleLink
              else te_deliver d devno (q, held \<or> (\<not> queued \<and> q)) as (sock_done h st))
          else te_deliver d devno (queued, held) as st)"

definition lapd_pass_frame_to_socket_te :: "octets \<Rightarrow> nat \<Rightarrow> lapd_system \<Rightarrow> (bool \<times> bool \<times> lapd_system) res" where
  "lapd_pass_frame_to_socket_te d devno st =
     te_deliver d devno (False, False) (map hs_addr (lapd_hash st)) st"

section \<open>Primitives of layer 1\<close>

text \<open>The TEI management of the user side works on the sockets of all entries of the hash.\<close>

definition set_socks :: "lapd_sock list \<Rightarrow> hashed_sock list \<Rightarrow> hashed_sock list" where
  "set_socks ss hs = map2 (\<lambda>s h. h\<lparr>hs_sock := s\<rparr>) ss hs"

definition utme_frame :: "u16 list \<Rightarrow> octets \<Rightarrow> nat \<Rightarrow> lapd_system \<Rightarrow> lapd_system res" where
  "utme_frame ris d devno st =
     bind_res (lapd_utme_handle_frame ris d devno
        \<lparr>te_utmes = lapd_utme_hash st, te_socks = map hs_sock (lapd_hash st), te_devs = lapd_devs st\<rparr>)
       (\<lambda>te. Inr (settle (map hs_addr (lapd_hash st))
          (st\<lparr>lapd_utme_hash := te_utmes te, lapd_hash := set_socks (te_socks te) (lapd_hash st),
              lapd_devs := te_devs te\<rparr>)))"

definition ntme_frame :: "octets \<Rightarrow> nat \<Rightarrow> lapd_system \<Rightarrow> lapd_system res" where
  "ntme_frame d devno st =
     bind_res (lapd_ntme_handle_frame d devno \<lparr>nt_ntmes = lapd_ntme_hash st, nt_devs = lapd_devs st\<rparr>)
       (\<lambda>nt. Inr (st\<lparr>lapd_ntme_hash := nt_ntmes nt, lapd_devs := nt_devs nt\<rparr>))"

text \<open>The result: whether the buffer is freed by the caller, whether a socket keeps it, the state.\<close>

definition lapd_ph_data_indication ::
  "u16 list \<Rightarrow> octets \<Rightarrow> nat \<Rightarrow> lapd_system \<Rightarrow> (bool \<times> bool \<times> lapd_system) res" where
  "lapd_ph_data_indication ris d devno st =
     (if length d < 3 + 2 then Inr (False, False, st)
      else if addr_ea1 d \<or> \<not> addr_ea2 d then Inr (False, False, st)
      else if dev_role (lapd_devs st devno) = LAPD_INTF_ROLE_NT then
        (if addr_sapi d = LAPD_SAPI_TEI_MGMT
         then bind_res (ntme_frame d devno st) (\<lambda>st. Inr (False, False, st))
         else bind_res (lapd_pass_frame_to_socket_nt d devno st) (\<lambda>(q, st). Inr (q, q, st)))
      else
        (if addr_sapi d = LAPD_SAPI_TEI_MGMT
         then bind_res (utme_frame ris d devno st) (\<lambda>st. Inr (False, False, st))
         else lapd_pass_frame_to_socket_te d devno st))"

definition lapd_ph_deactivate_indication :: "nat \<Rightarrow> lapd_system \<Rightarrow> lapd_system" where
  "lapd_ph_deactivate_indication devno st =
     st\<lparr>lapd_devs := (lapd_devs st)(devno := lapd_dev_deactivate (lapd_devs st devno)),
        lapd_hash := map (\<lambda>h. if hs_dev h = devno \<and> sk_state (hs_sock h) = LAPD_SK_STATE_NORMAL_DLC
                              then h\<lparr>hs_sock := lapd_mdl_primitive LAPD_MDL_PERSISTENT_DEACTIVATION (hs_sock h)\<rparr>
                              else h) (lapd_hash st)\<rparr>"

text \<open>
  The primitive is four octets of header, its parameter the octet behind it; 1 is
  \<open>LAPD_MPH_II_DISCONNECTED\<close>.
\<close>

definition lapd_mph_information_indication :: "octets \<Rightarrow> nat \<Rightarrow> lapd_system \<Rightarrow> lapd_system" where
  "lapd_mph_information_indication d devno st =
     (if length d < 4 + 1 then st
      else if d ! 4 = 1 then
        (let (ts, ss) = lapd_utme_remove_tei LAPD_BROADCAST_TEI devno (lapd_utme_hash st) (map hs_sock (lapd_hash st))
         in st\<lparr>lapd_utme_hash := ts, lapd_hash := set_socks ss (lapd_hash st)\<rparr>)
      else st)"

text \<open>
  A management primitive goes to the receive queue or the backlog of every management socket of the
  device. The clones made for the second and later ones are not used: the original buffer is linked
  every time.
\<close>

definition lapd_mgmt_queue_primitive :: "octets \<Rightarrow> lapd_sock \<Rightarrow> lapd_sock" where
  "lapd_mgmt_queue_primitive d s =
     s\<lparr>sk_rmem_alloc := sk_rmem_alloc s + sk_truesize s (Rcv_frame d),
       sk_receive_queue := sk_receive_queue s @ [Rcv_frame d]\<rparr>"

definition lapd_mgmt_backlog_rcv :: "octets \<Rightarrow> lapd_sock \<Rightarrow> lapd_sock" where
  "lapd_mgmt_backlog_rcv d s = lapd_mgmt_queue_primitive d s"

definition mgmt_match :: "nat \<Rightarrow> hashed_sock \<Rightarrow> bool" where
  "mgmt_match devno h \<longleftrightarrow> hs_dev h = devno \<and> sk_state (hs_sock h) = LAPD_SK_STATE_MGMT"

definition mgmt_deliver :: "octets \<Rightarrow> hashed_sock \<Rightarrow> hashed_sock" where
  "mgmt_deliver d h =
     (let s = hs_sock h in
      h\<lparr>hs_sock := if \<not> sk_owned_by_user s then lapd_mgmt_queue_primitive d s
                  else s\<lparr>sk_backlog := sk_backlog s @ [Skb_frame d]\<rparr>\<rparr>)"

fun lapd_dispatch_mph_primitive ::
  "octets \<Rightarrow> nat \<Rightarrow> bool \<Rightarrow> hashed_sock list \<Rightarrow> (bool \<times> hashed_sock list) res" where
  "lapd_dispatch_mph_primitive d devno queued [] = Inr (queued, [])"
| "lapd_dispatch_mph_primitive d devno queued (h # hs) =
     (if mgmt_match devno h then
        (if queued then Inl DoubleLink
         else bind_res (lapd_dispatch_mph_primitive d devno True hs) (\<lambda>(q, hs). Inr (q, mgmt_deliver d h # hs)))
      else bind_res (lapd_dispatch_mph_primitive d devno queued hs) (\<lambda>(q, hs). Inr (q, h # hs)))"

definition mph_primitive :: "octets \<Rightarrow> nat \<Rightarrow> lapd_system \<Rightarrow> lapd_system res" where
  "mph_primitive d devno st =
     bind_res (lapd_dispatch_mph_primitive d devno False (lapd_hash st)) (\<lambda>(q, hs). Inr (st\<lparr>lapd_hash := hs\<rparr>))"

fun primitive_code :: "lapd_primitive_type \<Rightarrow> u8" where
  "primitive_code LAPD_PH_DATA_REQUEST = 1"
| "primitive_code LAPD_PH_DATA_INDICATION = 2"
| "primitive_code LAPD_PH_ACTIVATE_INDICATION = 3"
| "primitive_code LAPD_PH_DEACTIVATE_INDICATION = 4"
| "primitive_code LAPD_PH_ACTIVATE_REQUEST = 5"
| "primitive_code LAPD_MPH_ERROR_INDICATION = 6"
| "primitive_code LAPD_MPH_ACTIVATE_INDICATION = 7"
| "primitive_code LAPD_MPH_DEACTIVATE_INDICATION = 8"
| "primitive_code LAPD_MPH_DEACTIVATE_REQUEST = 9"
| "primitive_code LAPD_MPH_INFORMATION_INDICATION = 10"

text \<open>
  \<open>lapd_rcv\<close> for a buffer of the host's own packets on a device that is up. The buffer is freed
  when it was not queued; freed while a socket keeps it, the socket has a pointer to a freed buffer.
\<close>

definition lapd_rcv :: "u16 list \<Rightarrow> octets \<Rightarrow> nat \<Rightarrow> lapd_system \<Rightarrow> lapd_system res" where
  "lapd_rcv ris d devno st =
     (if length d < 4 then Inr st
      else if d ! 0 = primitive_code LAPD_PH_DATA_INDICATION then
        bind_res (lapd_ph_data_indication ris (drop 4 d) devno st) (\<lambda>(queued, held, st).
          if \<not> queued \<and> held then Inl UseAfterFree else Inr st)
      else if d ! 0 = primitive_code LAPD_PH_ACTIVATE_INDICATION then
        Inr (st\<lparr>lapd_devs := (lapd_devs st)(devno := lapd_ph_activate_indication (lapd_devs st devno))\<rparr>)
      else if d ! 0 = primitive_code LAPD_PH_DEACTIVATE_INDICATION then
        Inr (lapd_ph_deactivate_indication devno st)
      else if d ! 0 = primitive_code LAPD_MPH_ERROR_INDICATION \<or>
              d ! 0 = primitive_code LAPD_MPH_ACTIVATE_INDICATION \<or>
              d ! 0 = primitive_code LAPD_MPH_DEACTIVATE_INDICATION then mph_primitive d devno st
      else if d ! 0 = primitive_code LAPD_MPH_INFORMATION_INDICATION then
        mph_primitive d devno (lapd_mph_information_indication d devno st)
      else Inr st)"

section \<open>Properties\<close>

definition sys0 :: lapd_system where
  "sys0 = \<lparr>lapd_hash = [], lapd_utme_hash = [], lapd_ntme_hash = [lapd_ntme_alloc 0 200],
     lapd_devs = (\<lambda>_. dev0\<lparr>dev_role := LAPD_INTF_ROLE_NT, l1_state := LAPD_L1_STATE_AVAILABLE\<rparr>),
     lapd_q931 = (\<lambda>_. lapd_sap_default), lapd_x25 = (\<lambda>_. lapd_sap_default), next_addr = 1\<rparr>"

text \<open>
  C38. TEI management of the network side is safe behind the input path: the address test of
  \<open>lapd_ph_data_indication\<close> is what keeps the check response handler inside the frame. Whatever frame on
  SAPI 63 arrives, the handler returns and the entities stay in order.
\<close>

theorem nt_management_input_safe:
  assumes "list_all ntme_ok (lapd_ntme_hash st)" "dev_role (lapd_devs st devno) = LAPD_INTF_ROLE_NT"
    "addr_sapi d = LAPD_SAPI_TEI_MGMT"
  shows "\<exists>st'. lapd_ph_data_indication ris d devno st = Inr (False, False, st') \<and>
     list_all ntme_ok (lapd_ntme_hash st') \<and> lapd_hash st' = lapd_hash st"
proof (cases "length d < 5 \<or> addr_ea1 d \<or> \<not> addr_ea2 d")
  case True
  then show ?thesis using assms by (auto simp: lapd_ph_data_indication_def)
next
  case False
  let ?nt = "\<lparr>nt_ntmes = lapd_ntme_hash st, nt_devs = lapd_devs st\<rparr>"
  obtain nt where "lapd_ntme_handle_frame d devno ?nt = Inr nt" "list_all2 ntme_keeps (nt_ntmes ?nt) (nt_ntmes nt)"
    using nt_frame_keeps [of d devno ?nt] False by blast
  then show ?thesis
    using ntme_keeps_all [of "lapd_ntme_hash st" "nt_ntmes nt"] assms False
    by (simp add: lapd_ph_data_indication_def ntme_frame_def)
qed

theorem nt_management_input_safe_witness:
  "\<exists>st'. lapd_ph_data_indication [] (check_response_msg (5, [64])) 0 sys0 = Inr (False, False, st') \<and>
     list_all ntme_ok (lapd_ntme_hash st')"
proof -
  have "addr_sapi (check_response_msg (5, [64])) = LAPD_SAPI_TEI_MGMT" by code_simp
  then show ?thesis
    using nt_management_input_safe [of sys0 0 "check_response_msg (5, [64])" "[]"]
    by (auto simp: sys0_def lapd_ntme_alloc_def ntme_ok_def ntme_alloc_ok_def)
qed

text \<open>
  The network answers for data links that do not exist. With no socket for the address and none
  listening, a SABME or DISC is answered by a DM response with the same SAPI, TEI and P/F bit, and any
  other frame is dropped.
\<close>

theorem socketless_frame_answered:
  assumes "nt_lookup d devno None (lapd_hash st) = (None, None)" "dev_inv (lapd_devs st devno)"
    "dev_role (lapd_devs st devno) = LAPD_INTF_ROLE_NT" "addr_sapi d < 64"
    "lapd_frame_type (hdr_control d) = LAPD_FRAME_TYPE_UFRAME"
    "lapd_uframe_function (hdr_control d) = LAPD_UFRAME_FUNC_SABME \<or>
     lapd_uframe_function (hdr_control d) = LAPD_UFRAME_FUNC_DISC"
  shows "\<exists>st' dm. lapd_pass_frame_to_socket_nt d devno st = Inr (False, st') \<and>
     dev_frames (lapd_devs st' devno) = dev_frames (lapd_devs st devno) @ [dm] \<and>
     addr_sapi dm = addr_sapi d \<and> addr_tei dm = addr_tei d \<and>
     lapd_rx_is_response LAPD_INTF_ROLE_TE (addr_c_r dm) \<and>
     lapd_uframe_function (hdr_control dm) = LAPD_UFRAME_FUNC_DM \<and> u_p_f dm = u_p_f d \<and>
     lapd_hash st' = lapd_hash st"
proof -
  let ?dm = "make_address (addr_sapi d) False (addr_tei d) @ [lapd_uframe_make_control LAPD_UFRAME_FUNC_DM (u_p_f d)]"
  have "addr_tei d < 128" by (simp add: addr_tei_def)
  then have f: "addr_sapi ?dm = addr_sapi d" "addr_tei ?dm = addr_tei d" "\<not> addr_c_r ?dm"
    using address_fields [where sapi = "addr_sapi d" and c_r = False and tei = "addr_tei d"] assms(4) by simp_all
  have c: "hdr_control ?dm = lapd_uframe_make_control LAPD_UFRAME_FUNC_DM (u_p_f d)"
    "u_p_f ?dm = u_p_f d"
    by (simp_all add: hdr_control_def u_p_f_def make_address_def uframe_make_control_fields)
  have "dev_frames (lapd_ph_data_request ?dm (lapd_devs st devno)) = dev_frames (lapd_devs st devno) @ [?dm]"
    using dev_step_frames [OF assms(2), of "Ev_request ?dm"] by simp
  then show ?thesis
    using assms f c
    by (auto simp: lapd_pass_frame_to_socket_nt_def lapd_handle_socketless_frame_def lapd_socketless_reply_dm_def
        uframe_make_control_fields lapd_rx_is_response_def)
qed


theorem socketless_frame_answered_witness:
  "\<exists>st' dm. lapd_pass_frame_to_socket_nt [0, 129, 0x7F, 0, 0] 0 sys0 = Inr (False, st') \<and>
     dev_frames (lapd_devs st' 0) = [dm] \<and> addr_tei dm = 64 \<and>
     lapd_uframe_function (hdr_control dm) = LAPD_UFRAME_FUNC_DM"
proof -
  have a: "addr_sapi [0, 129, 0x7F, 0, 0] = 0" "addr_tei [0, 129, 0x7F, 0, 0] = 64" "0 < (64 :: u8)"
    "lapd_frame_type (hdr_control [0, 129, 0x7F, 0, 0]) = LAPD_FRAME_TYPE_UFRAME"
    "lapd_uframe_function (hdr_control [0, 129, 0x7F, 0, 0]) = LAPD_UFRAME_FUNC_SABME" by code_simp+
  have d: "dev_inv (lapd_devs sys0 0)" "dev_role (lapd_devs sys0 0) = LAPD_INTF_ROLE_NT"
    "dev_frames (lapd_devs sys0 0) = []" "lapd_hash sys0 = []"
    by (simp_all add: sys0_def dev0_def dev_inv_def dev_frames_def)
  show ?thesis
    using socketless_frame_answered [of "[0, 129, 0x7F, 0, 0]" 0 sys0] by (simp add: a d) blast
qed

section \<open>Management primitives\<close>

text \<open>
  A management primitive of layer 1 reaches the management socket of its device when there is at
  most one: it is appended to its queue, and no other socket changes. With two or more, the walk links
  one buffer into two queues.
\<close>

theorem mph_dispatch_single:
  "lapd_dispatch_mph_primitive d devno False hs =
     (if length (filter (mgmt_match devno) hs) \<le> 1
      then Inr (filter (mgmt_match devno) hs \<noteq> [],
                map (\<lambda>h. if mgmt_match devno h then mgmt_deliver d h else h) hs)
      else Inl DoubleLink)"
proof -
  have none: "lapd_dispatch_mph_primitive d devno True hs =
      (if filter (mgmt_match devno) hs = [] then Inr (True, hs) else Inl DoubleLink)" for hs
    by (induction hs) auto
  have same: "filter (mgmt_match devno) hs = [] \<Longrightarrow>
      map (\<lambda>h. if mgmt_match devno h then mgmt_deliver d h else h) hs = hs" for hs
    by (induction hs) (auto split: if_splits)
  show ?thesis by (induction hs) (auto simp: none same)
qed

section \<open>Deactivation of layer 1\<close>

text \<open>
  When layer 1 is deactivated every data link of the device that was up or being set up is
  released: it goes back to TEI-assigned, T200 stops, both queues are emptied and the user gets a
  release indication. The sockets of other devices keep their state.
\<close>

theorem deactivation_releases_links:
  assumes "i < length (lapd_hash st)" "h = lapd_hash st ! i"
  shows "\<exists>h'. lapd_hash (lapd_ph_deactivate_indication devno st) ! i = h' \<and>
     length (lapd_hash (lapd_ph_deactivate_indication devno st)) = length (lapd_hash st) \<and>
     (hs_dev h \<noteq> devno \<longrightarrow> h' = h) \<and>
     (hs_dev h = devno \<and> sk_state (hs_sock h) = LAPD_SK_STATE_NORMAL_DLC \<and> \<not> sk_owned_by_user (hs_sock h) \<and>
      state (hs_sock h) \<in> {LAPD_DLS_5_AWAITING_ESTABLISH, LAPD_DLS_7_LINK_CONNECTION_ESTABLISHED,
        LAPD_DLS_8_TIMER_RECOVERY} \<longrightarrow>
        state (hs_sock h') = LAPD_DLS_4_TEI_ASSIGNED \<and> \<not> timer_T200 (hs_sock h') \<and>
        sk_write_queue (hs_sock h') = [] \<and> u_queue (hs_sock h') = [] \<and>
        sk_receive_queue (hs_sock h') =
          sk_receive_queue (hs_sock h) @ [Rcv_primitive LAPD_DL_RELEASE_INDICATION 0])"
  using assms
  by (auto simp: lapd_ph_deactivate_indication_def lapd_mdl_primitive_def lapd_mdl_recv_def
      lapd_persistent_deactivation_def lapd_stop_T200_def lapd_stop_T203_def lapd_discard_ui_queue_def
      lapd_discard_i_queue_def lapd_change_state_def lapd_dl_primitive_def Let_def)

definition entry7 :: hashed_sock where
  "entry7 = \<lparr>hs_dev = 0, hs_addr = 1, hs_null_sap = False, hs_sock = sock7q, hs_new_dlcs = []\<rparr>"

theorem deactivation_releases_links_witness:
  "state (hs_sock (lapd_hash (lapd_ph_deactivate_indication 0 (sys0\<lparr>lapd_hash := [entry7]\<rparr>)) ! 0)) =
     LAPD_DLS_4_TEI_ASSIGNED"
proof -
  have s: "sk_state sock7q = LAPD_SK_STATE_NORMAL_DLC" "\<not> sk_owned_by_user sock7q"
    "state sock7q = LAPD_DLS_7_LINK_CONNECTION_ESTABLISHED" by code_simp+
  show ?thesis
    using deactivation_releases_links [of 0 "sys0\<lparr>lapd_hash := [entry7]\<rparr>" entry7 0]
    by (simp add: entry7_def s)
qed


section \<open>Frames of the network side\<close>

lemma replace_sock_other:
  "h \<in> set hs \<Longrightarrow> hs_addr h \<noteq> hs_addr k \<Longrightarrow> h \<in> set (replace_sock k hs)"
  by (auto simp: replace_sock_def intro: rev_image_eqI)

lemma replace_sock_same:
  "k \<in> set hs \<Longrightarrow> hs_addr h = hs_addr k \<Longrightarrow> h \<in> set (replace_sock h hs)"
  by (auto simp: replace_sock_def intro: rev_image_eqI)

lemma replace_sock_addrs: "map hs_addr (replace_sock k hs) = map hs_addr hs"
  by (simp add: replace_sock_def)

lemma remove_teis_nt:
  "h \<in> set (lapd_hash st) \<Longrightarrow> role (hs_sock h) = LAPD_INTF_ROLE_NT \<Longrightarrow>
   h \<in> set (lapd_hash (remove_teis self rs st))"
proof (induction self rs st rule: remove_teis.induct)
  case (2 self t rs st)
  then show ?case by (auto simp: remove_others_def intro!: "2.IH" rev_image_eqI)
qed simp_all

lemma sock_done_nt:
  assumes "h \<in> set (lapd_hash st)" "role (hs_sock h) = LAPD_INTF_ROLE_NT" "hs_addr h \<noteq> hs_addr k"
  shows "h \<in> set (lapd_hash (sock_done k st))"
  using assms replace_sock_other [OF assms(1), of "k\<lparr>hs_sock := s\<rparr>" for s]
  by (auto simp: sock_done_def drain_frames_def case_prod_beta Let_def intro!: remove_teis_nt)

lemma nt_lookup_found:
  "nt_lookup d devno lst hs = (Some h, l) \<Longrightarrow>
     h \<in> set hs \<and> hs_dev h = devno \<and> sapi (hs_sock h) = addr_sapi d \<and> tei (hs_sock h) = addr_tei d"
  by (induction d devno lst hs rule: nt_lookup.induct) (auto split: if_splits)

lemma nt_lookup_listening:
  "nt_lookup d devno lst hs = (k, Some l) \<Longrightarrow>
     lst = Some l \<or> l \<in> set hs \<and> hs_dev l = devno \<and> sk_state (hs_sock l) = LAPD_SK_STATE_LISTEN"
  by (induction d devno lst hs rule: nt_lookup.induct) (auto split: if_splits)

lemma pass_to_entry_addr: "pass_to_entry d h = Inr (q, h') \<Longrightarrow> hs_addr h' = hs_addr h \<and> hs_dev h' = hs_dev h"
  by (auto simp: pass_to_entry_def bind_res_eq_Inr split: if_splits)

text \<open>The entries of the hash are different sockets, and the next one created is another one.\<close>

definition hash_ok :: "lapd_system \<Rightarrow> bool" where
  "hash_ok st \<longleftrightarrow> distinct (map hs_addr (lapd_hash st)) \<and> (\<forall>h\<in>set (lapd_hash st). hs_addr h < next_addr st)"

lemma hash_ok_addrs:
  "hash_ok st \<longleftrightarrow> distinct (map hs_addr (lapd_hash st)) \<and> (\<forall>a\<in>set (map hs_addr (lapd_hash st)). a < next_addr st)"
  by (simp add: hash_ok_def)

lemma hash_ok_eq:
  "hash_ok st \<Longrightarrow> h \<in> set (lapd_hash st) \<Longrightarrow> k \<in> set (lapd_hash st) \<Longrightarrow> hs_addr h = hs_addr k \<Longrightarrow> h = k"
  by (auto simp: hash_ok_def distinct_map inj_on_def)

text \<open>
  On the network side a frame only touches the data link it is addressed to. Whatever the frame
  does, every other network socket that is not listening (another device, another SAPI or another TEI)
  stays in the hash exactly as it was.
\<close>

theorem nt_frame_isolated:
  assumes "lapd_pass_frame_to_socket_nt d devno st = Inr (q, st')" "hash_ok st"
    "h \<in> set (lapd_hash st)" "role (hs_sock h) = LAPD_INTF_ROLE_NT" "sk_state (hs_sock h) \<noteq> LAPD_SK_STATE_LISTEN"
    "(hs_dev h, sapi (hs_sock h), tei (hs_sock h)) \<noteq> (devno, addr_sapi d, addr_tei d)"
  shows "h \<in> set (lapd_hash st')"
proof -
  obtain k l where lk: "nt_lookup d devno None (lapd_hash st) = (k, l)" by fastforce
  show ?thesis
  proof (cases k)
    case (Some k)
    then have "hs_addr h \<noteq> hs_addr k"
      using nt_lookup_found [of d devno None "lapd_hash st" k l] lk hash_ok_eq [OF assms(2,3)] assms(6) by auto
    then show ?thesis
      using assms(1) lk Some
      by (auto simp: lapd_pass_frame_to_socket_nt_def bind_res_eq_Inr dest!: pass_to_entry_addr
          intro!: sock_done_nt assms)
  next
    case None
    show ?thesis
    proof (cases l)
      case None
      then show ?thesis using assms(1,3) lk \<open>k = None\<close> by (auto simp: lapd_pass_frame_to_socket_nt_def)
    next
      case (Some l)
      have "hs_addr h \<noteq> hs_addr l"
        using nt_lookup_listening [of d devno None "lapd_hash st" None l] lk \<open>k = None\<close> Some
          hash_ok_eq [OF assms(2,3)] assms(5) by auto
      then have m: "h \<in> set (replace_sock (l\<lparr>hs_new_dlcs := x\<rparr>) (lapd_hash st))" for x
        using replace_sock_other [OF assms(3)] by simp
      have "hs_addr h < next_addr st" using assms(2,3) by (auto simp: hash_ok_def)
      then show ?thesis
        using assms(1) lk Some \<open>k = None\<close> m
        by (auto simp: lapd_pass_frame_to_socket_nt_def bind_res_eq_Inr Let_def dest!: pass_to_entry_addr
            intro!: sock_done_nt assms(4)) (auto simp: lapd_new_sock_def Let_def)
    qed
  qed
qed


definition entry_nt :: "nat \<Rightarrow> lapd_sk_state \<Rightarrow> lapd_datalink_state \<Rightarrow> u8 \<Rightarrow> hashed_sock" where
  "entry_nt a sst dst t =
     \<lparr>hs_dev = 0, hs_addr = a, hs_null_sap = False,
      hs_sock = sock0\<lparr>sk_state := sst, state := dst, role := LAPD_INTF_ROLE_NT, sapi := 0, tei := t\<rparr>,
      hs_new_dlcs = []\<rparr>"

definition sys_nt :: lapd_system where
  "sys_nt = sys0\<lparr>lapd_hash :=
     [entry_nt 1 LAPD_SK_STATE_NORMAL_DLC LAPD_DLS_4_TEI_ASSIGNED 64,
      entry_nt 2 LAPD_SK_STATE_LISTEN LAPD_DLS_LISTENING 0], next_addr := 3\<rparr>"

theorem nt_frame_isolated_witness:
  "\<exists>q st'. lapd_pass_frame_to_socket_nt [0, 131, 0x7F, 0, 0] 0 sys_nt = Inr (q, st') \<and>
     entry_nt 1 LAPD_SK_STATE_NORMAL_DLC LAPD_DLS_4_TEI_ASSIGNED 64 \<in> set (lapd_hash st')"
proof -
  have "\<not> isl (lapd_pass_frame_to_socket_nt [0, 131, 0x7F, 0, 0] 0 sys_nt)" by code_simp
  then obtain q st' where r: "lapd_pass_frame_to_socket_nt [0, 131, 0x7F, 0, 0] 0 sys_nt = Inr (q, st')"
    by (cases "lapd_pass_frame_to_socket_nt [0, 131, 0x7F, 0, 0] 0 sys_nt") auto
  have a: "addr_tei [0, 131, 0x7F, 0, 0] = 65" by code_simp
  have "entry_nt 1 LAPD_SK_STATE_NORMAL_DLC LAPD_DLS_4_TEI_ASSIGNED 64 \<in> set (lapd_hash st')"
    by (rule nt_frame_isolated [OF r]) (simp_all add: hash_ok_def sys_nt_def entry_nt_def a)
  then show ?thesis using r by blast
qed

lemma sabme_new_link:
  assumes "nt_lookup d devno None (lapd_hash st) = (None, Some l)" "hash_ok st"
    "addr_sapi d = LAPD_SAPI_Q931 \<or> addr_sapi d = LAPD_SAPI_X25"
    "lapd_frame_type (hdr_control d) = LAPD_FRAME_TYPE_UFRAME"
    "lapd_uframe_function (hdr_control d) = LAPD_UFRAME_FUNC_SABME" "length d = 5"
    "dev_inv (lapd_devs st devno)"
  shows "\<exists>st' h ua. lapd_pass_frame_to_socket_nt d devno st = Inr (False, st') \<and>
     lapd_hash st' = h # replace_sock (l\<lparr>hs_new_dlcs := hs_addr h # hs_new_dlcs l\<rparr>) (lapd_hash st) \<and>
     hs_addr h = next_addr st \<and> hs_dev h = devno \<and> in_7 (hs_sock h) \<and> timer_T203 (hs_sock h) \<and>
     sapi (hs_sock h) = addr_sapi d \<and> tei (hs_sock h) = addr_tei d \<and>
     sk_receive_queue (hs_sock h) = [Rcv_primitive LAPD_DL_ESTABLISH_INDICATION 0] \<and>
     lapd_prepare_uframe (hs_sock h) LAPD_UFRAME_FUNC_UA (u_p_f d) = Inr ua \<and>
     dev_frames (lapd_devs st' devno) = dev_frames (lapd_devs st devno) @ [ua] \<and> hash_ok st'"
proof -
  have l: "l \<in> set (lapd_hash st)" "hs_dev l = devno" using nt_lookup_listening [OF assms(1)] by auto
  let ?n = "lapd_new_sock st l (addr_tei d) (addr_sapi d)"
  let ?s = "lapd_socket_handle_uframe_sabme d (hs_sock ?n)"
  let ?ua = "make_address (addr_sapi d) (role (hs_sock ?n) = LAPD_INTF_ROLE_TE) (addr_tei d) @
      [lapd_uframe_make_control LAPD_UFRAME_FUNC_UA (u_p_f d)]"
  have n: "hs_addr ?n = next_addr st" "hs_dev ?n = devno" "hs_null_sap ?n = False"
    "sk_owned_by_user (hs_sock ?n) = False" "sk_state (hs_sock ?n) = LAPD_SK_STATE_NORMAL_DLC"
    "state (hs_sock ?n) = LAPD_DLS_4_TEI_ASSIGNED" "ph_out (hs_sock ?n) = []" "tm_out (hs_sock ?n) = []"
    "sk_receive_queue (hs_sock ?n) = []" "tei (hs_sock ?n) = addr_tei d" "sapi (hs_sock ?n) = addr_sapi d"
    using assms(3) l by (auto simp: lapd_new_sock_def Let_def lapd_datalink_state_init_def)
  have s: "in_7 ?s" "timer_T203 ?s" "sk_receive_queue ?s = [Rcv_primitive LAPD_DL_ESTABLISH_INDICATION 0]"
    "ph_out ?s = [?ua]" "tm_out ?s = []" "tei ?s = addr_tei d" "sapi ?s = addr_sapi d"
    "lapd_prepare_uframe (?s\<lparr>tm_out := y, ph_out := x\<rparr>) LAPD_UFRAME_FUNC_UA (u_p_f d) = Inr ?ua" for x y
    using n by (simp_all add: lapd_socket_handle_uframe_sabme_def sock_upds lapd_prepare_uframe_def)
  have p: "pass_to_entry d ?n = Inr (False, ?n\<lparr>hs_sock := ?s\<rparr>)"
    using n assms(4,5,6) by (simp add: pass_to_entry_def lapd_pass_frame_to_socket_def lapd_dlc_recv_def
        lapd_socket_handle_uframe_def not_queued_def)
  have f: "dev_frames (lapd_ph_data_request ?ua (lapd_devs st devno)) = dev_frames (lapd_devs st devno) @ [?ua]"
    using dev_step_frames [OF assms(7), of "Ev_request ?ua"] by simp
  have fresh: "replace_sock h (replace_sock k (lapd_hash st)) = replace_sock k (lapd_hash st)"
    if "hs_addr h = next_addr st" "hs_addr k = hs_addr l" for h k
    using assms(2) that l by (auto simp: replace_sock_def hash_ok_def)
  have ok: "hash_ok (st\<lparr>next_addr := next_addr st + 1, lapd_hash := h # replace_sock k (lapd_hash st),
        lapd_ntme_hash := tmes, lapd_devs := devs\<rparr>)" if "hs_addr h = next_addr st" for h k tmes devs
    using assms(2) that by (auto simp: hash_ok_addrs replace_sock_addrs less_Suc_eq simp del: set_map)
  let ?h = "?n\<lparr>hs_sock := ?s\<lparr>tm_out := [], ph_out := []\<rparr>\<rparr>"
  let ?l = "l\<lparr>hs_new_dlcs := next_addr st # hs_new_dlcs l\<rparr>"
  let ?st = "st\<lparr>next_addr := next_addr st + 1, lapd_hash := ?h # replace_sock ?l (lapd_hash st),
      lapd_devs := (lapd_devs st)(devno := lapd_ph_data_request ?ua (lapd_devs st devno))\<rparr>"
  have r: "replace_sock ?h (?n # replace_sock ?l (lapd_hash st)) = ?h # replace_sock ?l (lapd_hash st)"
    using fresh [of ?h ?l] n(1) by (simp add: replace_sock_def)
  have "sock_done (?n\<lparr>hs_sock := ?s\<rparr>) (st\<lparr>next_addr := next_addr st + 1, lapd_hash := ?n # replace_sock ?l (lapd_hash st)\<rparr>) = ?st"
    using n(1,2) s(4,5) r by (simp add: sock_done_def drain_frames_def Let_def)
  then have "lapd_pass_frame_to_socket_nt d devno st = Inr (False, ?st)"
    using assms(1) p n(1) by (simp add: lapd_pass_frame_to_socket_nt_def Let_def)
  moreover have "hash_ok ?st" using ok [where h = ?h and k = ?l and tmes = "lapd_ntme_hash st"] n(1) by simp
  ultimately show ?thesis
    using n(1,2) s f by (intro exI [of _ ?st] exI [of _ ?h] exI [of _ ?ua]) simp
qed


text \<open>
  A new data link is set up by the first frame of its TEI. When a SABME of a SAPI that is served
  arrives for a TEI without a socket while a socket of the device listens, a socket with that address
  is created in the established state and put in front of the sockets waiting to be accepted, the
  peer gets a UA with the poll bit copied and the user of the new socket an establish indication.
\<close>

theorem sabme_creates_link:
  assumes "nt_lookup d devno None (lapd_hash st) = (None, Some l)" "hash_ok st"
    "addr_sapi d = LAPD_SAPI_Q931 \<or> addr_sapi d = LAPD_SAPI_X25"
    "lapd_frame_type (hdr_control d) = LAPD_FRAME_TYPE_UFRAME"
    "lapd_uframe_function (hdr_control d) = LAPD_UFRAME_FUNC_SABME" "length d = 5"
    "dev_inv (lapd_devs st devno)"
  shows "\<exists>st' h ua. lapd_pass_frame_to_socket_nt d devno st = Inr (False, st') \<and>
     lapd_hash st' = h # replace_sock (l\<lparr>hs_new_dlcs := hs_addr h # hs_new_dlcs l\<rparr>) (lapd_hash st) \<and>
     hs_addr h = next_addr st \<and> hs_dev h = devno \<and> in_7 (hs_sock h) \<and> timer_T203 (hs_sock h) \<and>
     sapi (hs_sock h) = addr_sapi d \<and> tei (hs_sock h) = addr_tei d \<and>
     sk_receive_queue (hs_sock h) = [Rcv_primitive LAPD_DL_ESTABLISH_INDICATION 0] \<and>
     lapd_prepare_uframe (hs_sock h) LAPD_UFRAME_FUNC_UA (u_p_f d) = Inr ua \<and>
     dev_frames (lapd_devs st' devno) = dev_frames (lapd_devs st devno) @ [ua] \<and> hash_ok st'"
  by (rule sabme_new_link [OF assms])

theorem sabme_creates_link_witness:
  "\<exists>st' h. lapd_pass_frame_to_socket_nt [0, 131, 0x7F, 0, 0] 0 sys_nt = Inr (False, st') \<and>
     h \<in> set (lapd_hash st') \<and> in_7 (hs_sock h) \<and> tei (hs_sock h) = 65"
proof -
  let ?d = "[0, 131, 0x7F, 0, 0] :: octets"
  have d: "addr_sapi ?d = 0" "addr_tei ?d = 65" "lapd_frame_type (hdr_control ?d) = LAPD_FRAME_TYPE_UFRAME"
    "lapd_uframe_function (hdr_control ?d) = LAPD_UFRAME_FUNC_SABME" by code_simp+
  have "nt_lookup ?d 0 None (lapd_hash sys_nt) = (None, Some (entry_nt 2 LAPD_SK_STATE_LISTEN LAPD_DLS_LISTENING 0))"
    by (simp add: sys_nt_def entry_nt_def d)
  from sabme_creates_link [OF this] show ?thesis
    by (simp add: d LAPD_SAPI_Q931_def) (auto simp: hash_ok_def sys_nt_def entry_nt_def sys0_def dev_inv_def dev0_def)
qed

text \<open>
  A data link of a SAPI that is not served is created all the same, with a null service access
  point: the first SABME for it follows that null pointer to read the duration of T203.
\<close>

theorem unsupported_sapi_null_dereference:
  assumes "nt_lookup d devno None (lapd_hash st) = (None, Some l)"
    "addr_sapi d \<noteq> LAPD_SAPI_Q931" "addr_sapi d \<noteq> LAPD_SAPI_X25"
    "lapd_frame_type (hdr_control d) = LAPD_FRAME_TYPE_UFRAME"
    "lapd_uframe_function (hdr_control d) = LAPD_UFRAME_FUNC_SABME" "length d = 5"
  shows "lapd_pass_frame_to_socket_nt d devno st = Inl NullDereference"
  using assms by (simp add: lapd_pass_frame_to_socket_nt_def Let_def pass_to_entry_def lapd_new_sock_def
      starts_timer_def lapd_datalink_state_init_def)

theorem unsupported_sapi_null_dereference_witness:
  "lapd_pass_frame_to_socket_nt [4, 131, 0x7F, 0, 0] 0 sys_nt = Inl NullDereference"
proof (rule unsupported_sapi_null_dereference)
  have "addr_sapi [4, 131, 0x7F, 0, 0] = 1" by code_simp
  then show "nt_lookup [4, 131, 0x7F, 0, 0] 0 None (lapd_hash sys_nt) =
      (None, Some (entry_nt 2 LAPD_SK_STATE_LISTEN LAPD_DLS_LISTENING 0))"
    by (simp add: sys_nt_def entry_nt_def)
qed code_simp+

section \<open>Frames of the user side\<close>

text \<open>
  On the user side the fate of the buffer is that of the last socket. If two sockets have the
  address of a frame and the first keeps it while the second does not, the buffer is freed while it is
  in the queue of the first.
\<close>

theorem te_frame_freed_while_queued:
  assumes "lapd_hash st = [a, b]" "hs_addr a \<noteq> hs_addr b" "te_match d devno a" "te_match d devno b"
    "dev_role (lapd_devs st devno) = LAPD_INTF_ROLE_TE" "5 \<le> length d" "\<not> addr_ea1 d" "addr_ea2 d"
    "addr_sapi d \<noteq> LAPD_SAPI_TEI_MGMT"
    "pass_to_entry d a = Inr (True, a')" "tm_out (hs_sock a') = []" "pass_to_entry d b = Inr (False, b')"
  shows "lapd_rcv ris ([primitive_code LAPD_PH_DATA_INDICATION, 0, 0, 0] @ d) devno st = Inl UseAfterFree"
proof -
  have a: "hs_addr a' = hs_addr a" using pass_to_entry_addr [OF assms(10)] by simp
  have "lapd_hash (sock_done a' st) ! 1 = b" "length (lapd_hash (sock_done a' st)) = 2"
    "hs_addr (lapd_hash (sock_done a' st) ! 0) = hs_addr a"
    using assms(1,2,11) a by (simp_all add: sock_done_def drain_frames_def replace_sock_def Let_def)
  then obtain x where x: "lapd_hash (sock_done a' st) = [x, b]" "hs_addr x = hs_addr a"
    by (cases "lapd_hash (sock_done a' st)") (auto simp: length_Suc_conv)
  have "te_deliver d devno (False, False) [hs_addr a, hs_addr b] st = Inr (False, True, sock_done b' (sock_done a' st))"
    using assms x by simp
  then show ?thesis
    using assms by (simp add: lapd_rcv_def lapd_ph_data_indication_def lapd_pass_frame_to_socket_te_def)
qed


theorem te_frame_freed_while_queued_witness:
  "lapd_rcv [] ([primitive_code LAPD_PH_DATA_INDICATION, 0, 0, 0] @ [2, 129, 0, 0, 42, 0, 0]) 0
     (sys0\<lparr>lapd_hash := [entry7\<lparr>hs_sock := sock7\<rparr>, entry7\<lparr>hs_addr := 2, hs_sock := sock0\<rparr>],
           lapd_devs := (\<lambda>_. dev0)\<rparr>) = Inl UseAfterFree"
proof -
  let ?d = "[2, 129, 0, 0, 42, 0, 0] :: octets"
  let ?a = "entry7\<lparr>hs_sock := sock7\<rparr>" let ?b = "entry7\<lparr>hs_addr := 2, hs_sock := sock0\<rparr>"
  have "case pass_to_entry ?d ?a of Inl _ \<Rightarrow> False | Inr (q, h) \<Rightarrow> q \<and> tm_out (hs_sock h) = []" by code_simp
  then obtain a' where a: "pass_to_entry ?d ?a = Inr (True, a')" "tm_out (hs_sock a') = []"
    by (cases "pass_to_entry ?d ?a") auto
  have "case pass_to_entry ?d ?b of Inl _ \<Rightarrow> False | Inr (q, h) \<Rightarrow> \<not> q" by code_simp
  then obtain b' where b: "pass_to_entry ?d ?b = Inr (False, b')" by (cases "pass_to_entry ?d ?b") auto
  have m: "te_match ?d 0 ?a" "te_match ?d 0 ?b" "\<not> addr_ea1 ?d" "addr_ea2 ?d" "addr_sapi ?d \<noteq> LAPD_SAPI_TEI_MGMT"
    by code_simp+
  show ?thesis
    by (rule te_frame_freed_while_queued [OF _ _ m(1,2) _ _ m(3-5) a b]) (simp_all add: entry7_def dev0_def)
qed

definition ui_received :: "octets \<Rightarrow> hashed_sock \<Rightarrow> hashed_sock" where
  "ui_received d h =
     h\<lparr>hs_sock := if sk_owned_by_user (hs_sock h)
                 then (hs_sock h)\<lparr>sk_backlog := sk_backlog (hs_sock h) @ [Skb_frame d]\<rparr>
                 else lapd_dl_unit_data_indication d (hs_sock h)\<rparr>"

lemma sock_out_same:
  "tm_out s = [] \<Longrightarrow> ph_out s = [] \<Longrightarrow> s\<lparr>tm_out := [], ph_out := []\<rparr> = s"
  by (cases s) simp

lemma sock_done_quiet:
  "tm_out (hs_sock h) = [] \<Longrightarrow> ph_out (hs_sock h) = [] \<Longrightarrow>
   sock_done h st = st\<lparr>lapd_hash := replace_sock h (lapd_hash st)\<rparr>"
  by (cases h; cases st) (simp add: sock_done_def drain_frames_def sock_out_same)

lemma find_addr:
  "distinct (map hs_addr (pre @ h # suf)) \<Longrightarrow> find (\<lambda>x. hs_addr x = hs_addr h) (pre @ h # suf) = Some h"
  by (induction pre) auto

lemma replace_sock_at:
  "distinct (map hs_addr (pre @ h # suf)) \<Longrightarrow> hs_addr k = hs_addr h \<Longrightarrow> replace_sock k (pre @ h # suf) = pre @ k # suf"
  by (auto simp: replace_sock_def intro!: map_idI) (metis imageI)+

lemma te_deliver_ui:
  assumes "lapd_frame_type (hdr_control d) = LAPD_FRAME_TYPE_UFRAME"
    "lapd_uframe_function (hdr_control d) = LAPD_UFRAME_FUNC_UI"
    "lapd_hash st = pre @ suf" "distinct (map hs_addr (pre @ suf))"
    "\<forall>h\<in>set suf. tm_out (hs_sock h) = [] \<and> ph_out (hs_sock h) = []"
  shows "te_deliver d devno (q, q) (map hs_addr suf) st =
     (let r = q \<or> (\<exists>h\<in>set suf. te_match d devno h)
      in Inr (r, r, st\<lparr>lapd_hash := pre @ map (\<lambda>h. if te_match d devno h then ui_received d h else h) suf\<rparr>))"
  using assms(3-5)
proof (induction suf arbitrary: pre q st)
  case Nil
  then show ?case by (cases st) simp
next
  case (Cons h suf)
  have f: "find (\<lambda>x. hs_addr x = hs_addr h) (lapd_hash st) = Some h"
    using find_addr Cons.prems(1,2) by simp
  show ?case
  proof (cases "te_match d devno h")
    case False
    have "te_deliver d devno (q, q) (map hs_addr suf) st =
       (let r = q \<or> (\<exists>h\<in>set suf. te_match d devno h)
        in Inr (r, r, st\<lparr>lapd_hash := (pre @ [h]) @ map (\<lambda>h. if te_match d devno h then ui_received d h else h) suf\<rparr>))"
      by (rule Cons.IH) (use Cons.prems in auto)
    then show ?thesis using False f by simp
  next
    case True
    have p: "pass_to_entry d h = Inr (True, ui_received d h)"
      using assms(1,2) by (auto simp: pass_to_entry_def starts_timer_def lapd_pass_frame_to_socket_def
          lapd_dlc_recv_def lapd_socket_handle_uframe_def lapd_socket_handle_uframe_ui_def ui_received_def)
    have "sock_done (ui_received d h) st = st\<lparr>lapd_hash := replace_sock (ui_received d h) (lapd_hash st)\<rparr>"
      using Cons.prems(3) by (intro sock_done_quiet) (auto simp: ui_received_def lapd_dl_unit_data_indication_def)
    moreover have "replace_sock (ui_received d h) (lapd_hash st) = (pre @ [ui_received d h]) @ suf"
      using Cons.prems(1,2) replace_sock_at [of pre h suf "ui_received d h"] by (simp add: ui_received_def)
    ultimately have sd: "sock_done (ui_received d h) st = st\<lparr>lapd_hash := (pre @ [ui_received d h]) @ suf\<rparr>" by simp
    have "te_deliver d devno (True, True) (map hs_addr suf) (st\<lparr>lapd_hash := (pre @ [ui_received d h]) @ suf\<rparr>) =
       (let r = True \<or> (\<exists>h\<in>set suf. te_match d devno h)
        in Inr (r, r, (st\<lparr>lapd_hash := (pre @ [ui_received d h]) @ suf\<rparr>)
             \<lparr>lapd_hash := (pre @ [ui_received d h]) @ map (\<lambda>h. if te_match d devno h then ui_received d h else h) suf\<rparr>))"
      by (rule Cons.IH) (use Cons.prems in \<open>auto simp: ui_received_def\<close>)
    then show ?thesis using True f p sd by (simp add: Let_def)
  qed
qed

text \<open>
  Unacknowledged information reaches every socket of its address on the user side exactly once: the
  frame is appended to the receive queue of each (or to its backlog while a process owns the socket),
  nothing else changes, and the buffer is kept exactly if there was such a socket.
\<close>

theorem te_ui_delivered:
  assumes "lapd_frame_type (hdr_control d) = LAPD_FRAME_TYPE_UFRAME"
    "lapd_uframe_function (hdr_control d) = LAPD_UFRAME_FUNC_UI" "hash_ok st"
    "\<forall>h\<in>set (lapd_hash st). tm_out (hs_sock h) = [] \<and> ph_out (hs_sock h) = []"
  shows "lapd_pass_frame_to_socket_te d devno st =
     (let q = (\<exists>h\<in>set (lapd_hash st). te_match d devno h)
      in Inr (q, q, st\<lparr>lapd_hash := map (\<lambda>h. if te_match d devno h then ui_received d h else h) (lapd_hash st)\<rparr>))"
  using te_deliver_ui [OF assms(1,2), of st "[]" "lapd_hash st" devno False] assms(3,4)
  by (simp add: lapd_pass_frame_to_socket_te_def hash_ok_def)

theorem te_ui_delivered_witness:
  "\<exists>st'. lapd_pass_frame_to_socket_te [2, 129, 3, 42, 0, 0] 0 (sys0\<lparr>lapd_hash := [entry7], next_addr := 2\<rparr>) = Inr (True, True, st') \<and>
     length (sk_receive_queue (hs_sock (lapd_hash st' ! 0))) = 1"
proof -
  let ?d = "[2, 129, 3, 42, 0, 0] :: octets"
  have d: "lapd_frame_type (hdr_control ?d) = LAPD_FRAME_TYPE_UFRAME"
    "lapd_uframe_function (hdr_control ?d) = LAPD_UFRAME_FUNC_UI" "te_match ?d 0 entry7"
    "tm_out sock7q = []" "ph_out sock7q = []" "length (sk_receive_queue (hs_sock (ui_received ?d entry7))) = 1"
    by code_simp+
  show ?thesis
    using te_ui_delivered [OF d(1,2), of "sys0\<lparr>lapd_hash := [entry7], next_addr := 2\<rparr>" 0] d(3-)
    by (simp add: hash_ok_def) (simp add: entry7_def)
qed

end
