(* ===== verification/Lapd_Backlog.thy ===== *)
theory Lapd_Backlog
  imports Lapd_Reception
begin

text \<open>
  \<open>lapd_release_sock\<close> (sock_inline.h): the process that owns a socket works off its backlog before it
  gives the socket up. The handlers it runs may add to the backlog themselves, so that this loop
  ends has to be shown.
\<close>

section \<open>What a handler adds to the backlog\<close>

fun skb_weight :: "dlc_skb \<Rightarrow> nat" where
  "skb_weight (Skb_frame d) = 8"
| "skb_weight (Skb_mdl (LAPD_MDL_ERROR_INDICATION ind)) = 2"
| "skb_weight (Skb_mdl pri) = 1"

definition backlog_weight :: "lapd_sock \<Rightarrow> nat" where
  "backlog_weight s = sum_list (map skb_weight (sk_backlog s))"

lemma backlog_weight_add [simp]:
  "backlog_weight (s\<lparr>sk_backlog := sk_backlog s @ b\<rparr>) = backlog_weight s + sum_list (map skb_weight b)"
  by (simp add: backlog_weight_def)

lemma backlog_weight_ops [simp]:
  "backlog_weight (lapd_start_T200 s) = backlog_weight s" "backlog_weight (lapd_stop_T200 s) = backlog_weight s"
  "backlog_weight (lapd_start_T203 s) = backlog_weight s" "backlog_weight (lapd_stop_T203 s) = backlog_weight s"
  "backlog_weight (lapd_change_state st s) = backlog_weight s"
  "backlog_weight (lapd_send_sframe c f p s) = backlog_weight s"
  "backlog_weight (lapd_send_uframe g p s) = backlog_weight s"
  "backlog_weight (lapd_enquiry_response_procedure s) = backlog_weight s"
  "backlog_weight (lapd_transmit_enquiry_procedure s) = backlog_weight s"
  "backlog_weight (lapd_establish_datalink_procedure s) = backlog_weight s"
  "backlog_weight (lapd_clear_exception_conditions_procedure s) = backlog_weight s"
  "backlog_weight (lapd_discard_i_queue s) = backlog_weight s"
  "backlog_weight (lapd_discard_ui_queue s) = backlog_weight s"
  "backlog_weight (lapd_dl_primitive p' a s) = backlog_weight s"
  "backlog_weight (lapd_dl_data_indication d s) = backlog_weight s"
  "backlog_weight (lapd_dl_unit_data_indication d s) = backlog_weight s"
  "backlog_weight (lapd_clear_own_receiver_busy s) = backlog_weight s"
  "backlog_weight (lapd_set_own_receiver_busy s) = backlog_weight s"
  "backlog_weight (lapd_ack_va n s) = backlog_weight s"
  "backlog_weight (reset_counters s) = backlog_weight s"
  "backlog_weight (snd (iframe_receive b d s)) = backlog_weight s"
  by (simp_all add: backlog_weight_def sock_upds lapd_dl_data_indication_def lapd_dl_unit_data_indication_def
      lapd_clear_own_receiver_busy_def lapd_set_own_receiver_busy_def lapd_ack_va_def lapd_ack_frames_def
      iframe_receive_def)

lemma backlog_weight_upds [simp]:
  "backlog_weight (s\<lparr>peer_receiver_busy := pb\<rparr>) = backlog_weight s"
  "backlog_weight (s\<lparr>layer_3_initiated := l3\<rparr>) = backlog_weight s"
  "backlog_weight (s\<lparr>tm_out := rs\<rparr>) = backlog_weight s"
  "backlog_weight (s\<lparr>tei := t\<rparr>) = backlog_weight s"
  by (simp_all add: backlog_weight_def)

lemma backlog_run_i_loop [simp]: "sk_backlog (lapd_run_i_loop bs s) = sk_backlog s"
  by (induction bs arbitrary: s) (simp_all add: Let_def ph_data_request_def)

lemma backlog_run: "lapd_run_i_queue s = Inr t \<Longrightarrow> backlog_weight t = backlog_weight s"
  by (drule run_i_queue_cases) (auto simp: backlog_weight_def)

lemma backlog_retransmit: "lapd_invoke_retransmission_procedure s = Inr t \<Longrightarrow> backlog_weight t = backlog_weight s"
  unfolding lapd_invoke_retransmission_procedure_def Let_def
  by (drule backlog_run) (auto simp: backlog_weight_def split: list.splits)

text \<open>A management primitive adds no more than a removal, an error indication at most itself.\<close>

lemma backlog_remove [simp]: "backlog_weight (lapd_mdl_remove_request s) = backlog_weight s"
  by (cases "state s") (simp_all add: lapd_mdl_remove_request_def Let_def)

lemma backlog_error_indication: "backlog_weight (lapd_mdl_error_indication ind s) \<le> backlog_weight s + 1"
  by (auto simp: lapd_mdl_error_indication_def remove_self_def backlog_weight_def split: option.splits)
     (use backlog_remove in \<open>simp_all add: backlog_weight_def\<close>)

lemma backlog_error:
  "backlog_weight (lapd_mdl_primitive (LAPD_MDL_ERROR_INDICATION ind) s) \<le> backlog_weight s + 2"
  using backlog_error_indication [of ind s] by (simp add: lapd_mdl_primitive_def lapd_mdl_recv_def)

lemma backlog_mdl: "backlog_weight (lapd_mdl_recv pri s) < backlog_weight s + skb_weight (Skb_mdl pri)"
proof (cases pri)
  case (LAPD_MDL_ERROR_INDICATION ind)
  then show ?thesis using backlog_error_indication [of ind s] by (simp add: lapd_mdl_recv_def)
qed (cases "state s"; simp add: lapd_mdl_recv_def lapd_mdl_assign_request_def lapd_mdl_error_response_def
    lapd_persistent_deactivation_def Let_def)+

lemma backlog_procedures:
  "backlog_weight (lapd_nr_error_recovery_procedure s) \<le> backlog_weight s + 2"
  "backlog_weight (lapd_frame_reject err s) \<le> backlog_weight s + 2"
  "backlog_weight (sframe_poll_7 d s) \<le> backlog_weight s + 2"
  using backlog_error [of "{MDL_J}" s] backlog_error [of "{frame_reject_indication err}" s]
    backlog_error [of "{MDL_A}" s]
  by (simp_all add: lapd_nr_error_recovery_procedure_def lapd_frame_reject_def sframe_poll_7_def Let_def)


lemma backlog_nr_error:
  "backlog_weight (lapd_nr_error_recovery_procedure (sframe_poll_7 d s)) \<le> backlog_weight s + 4"
  "backlog_weight (lapd_nr_error_recovery_procedure (lapd_change_state st (sframe_poll_7 d s))) \<le> backlog_weight s + 4"
  using backlog_procedures(1) [of "sframe_poll_7 d s"] backlog_procedures(3) [of d s]
    backlog_procedures(1) [of "lapd_change_state st (sframe_poll_7 d s)"] by simp_all

lemma backlog_ack_8: "backlog_weight (sframe_ack_8 d s) \<le> backlog_weight s + 2"
  using backlog_procedures(1) [of s] by (simp add: sframe_ack_8_def)

lemma backlog_sframe:
  assumes "lapd_socket_handle_sframe d s = Inr t"
  shows "backlog_weight t \<le> backlog_weight s + 4"
proof -
  note bounds =
    backlog_nr_error(2) [of LAPD_DLS_5_AWAITING_ESTABLISH d "s\<lparr>peer_receiver_busy := b\<rparr>" for b]
    backlog_procedures(1) [of "s\<lparr>peer_receiver_busy := b\<rparr>" for b]
    backlog_procedures(3) [of d "s\<lparr>peer_receiver_busy := b\<rparr>" for b]
    backlog_ack_8 [of d "s\<lparr>peer_receiver_busy := b\<rparr>" for b]
    backlog_ack_8 [of d "lapd_enquiry_response_procedure (s\<lparr>peer_receiver_busy := b\<rparr>)" for b]
  show ?thesis
    using assms backlog_procedures(2) [of LAPD_FE_LENGTH s] bounds [of True] bounds [of False]
    by (auto simp: lapd_socket_handle_sframe_def lapd_socket_handle_sframe_rr_def
        lapd_socket_handle_sframe_rnr_def lapd_socket_handle_sframe_rej_def Let_def
        bind_res_eq_Inr dest!: backlog_retransmit
        split: if_splits lapd_sframe_function_e.splits lapd_datalink_state.splits)
qed


lemma backlog_uframe:
  assumes "lapd_socket_handle_uframe d s = Inr r"
  shows "backlog_weight (snd r) \<le> backlog_weight s + 2"
proof -
  note e = backlog_error [of _ s] backlog_error [of _ "lapd_clear_exception_conditions_procedure s"]
    backlog_error [of _ "lapd_clear_exception_conditions_procedure (lapd_send_uframe LAPD_UFRAME_FUNC_UA (u_p_f d) s)"]
  have "backlog_weight (lapd_socket_handle_uframe_sabme d s) \<le> backlog_weight s + 2"
    using e(3) [of "{MDL_F}"] by (cases "state s") (simp_all add: lapd_socket_handle_uframe_sabme_def sabme_7_8_def Let_def)
  moreover have "backlog_weight (lapd_socket_handle_uframe_dm d s) \<le> backlog_weight s + 2"
    using e(1) [of "{MDL_B}"] e(1) [of "{MDL_E}"]
    by (cases "state s") (simp_all add: lapd_socket_handle_uframe_dm_def Let_def)
  moreover have "backlog_weight (lapd_socket_handle_uframe_frmr d s) \<le> backlog_weight s + 2"
    using e(1) [of "{MDL_K}"] by (simp add: lapd_socket_handle_uframe_frmr_def Let_def)
  moreover have "backlog_weight (lapd_socket_handle_uframe_disc d s) \<le> backlog_weight s + 2"
    by (cases "state s") (simp_all add: lapd_socket_handle_uframe_disc_def Let_def)
  moreover have "backlog_weight t \<le> backlog_weight s + 2" if "lapd_socket_handle_uframe_ua d s = Inr t" for t
    using that e(1) [of "{MDL_C, MDL_D}"] e(1) [of "{MDL_D}"]
    by (cases "state s") (auto simp: lapd_socket_handle_uframe_ua_def Let_def split: if_splits dest!: backlog_run)
  ultimately show ?thesis
    using assms backlog_procedures(2) [of LAPD_FE_LENGTH s] backlog_procedures(2) [of LAPD_FE_UNDEFINED_COMMAND s]
    by (auto simp: lapd_socket_handle_uframe_def not_queued_def bind_res_eq_Inr lapd_socket_handle_uframe_ui_def
        lapd_socket_handle_uframe_xid_def split: if_splits lapd_uframe_function_e.splits)
qed

lemma backlog_iframe: "backlog_weight (snd (lapd_socket_handle_iframe d s)) \<le> backlog_weight s + 2"
proof -
  have a: "backlog_weight (iframe_ack_7 d t) \<le> backlog_weight t + 2" "backlog_weight (iframe_ack_8 d t) \<le> backlog_weight t + 2" for t
    using backlog_procedures(1) [of "lapd_change_state LAPD_DLS_5_AWAITING_ESTABLISH t"]
    by (simp_all add: iframe_ack_7_def iframe_ack_8_def)
  have b: "backlog_weight (iframe_ack_7 d (snd (iframe_receive True d t))) \<le> backlog_weight t + 2"
    "backlog_weight (iframe_ack_8 d (snd (iframe_receive False d t))) \<le> backlog_weight t + 2" for t
    using a [of "snd (iframe_receive True d t)"] a [of "snd (iframe_receive False d t)"] by simp_all
  show ?thesis
    using backlog_procedures(2) [of LAPD_FE_N201 s] b [of s] b [of "lapd_clear_own_receiver_busy s"]
    by (simp add: lapd_socket_handle_iframe_def Let_def case_prod_beta split: lapd_datalink_state.split)
qed

lemma backlog_step:
  assumes "sk_backlog s = m # ms" "lapd_backlog_rcv m (s\<lparr>sk_backlog := ms\<rparr>) = Inr t"
  shows "backlog_weight t < backlog_weight s"
proof -
  let ?s = "s\<lparr>sk_backlog := ms\<rparr>"
  have w: "backlog_weight s = backlog_weight ?s + skb_weight m" using assms(1) by (simp add: backlog_weight_def)
  have "backlog_weight t < backlog_weight ?s + skb_weight m"
  proof (cases m)
    case (Skb_mdl pri)
    then show ?thesis using assms(2) backlog_mdl [of pri ?s] by (auto simp: lapd_backlog_rcv_def lapd_dlc_recv_def)
  next
    case (Skb_frame d)
    then show ?thesis
      using assms(2) backlog_iframe [of d ?s] backlog_sframe [of d ?s] backlog_uframe [of d ?s]
      by (fastforce simp: lapd_backlog_rcv_def lapd_dlc_recv_def not_queued_def bind_res_eq_Inr
          split: lapd_frame_type_e.splits)
  qed
  with w show ?thesis by simp
qed

section \<open>Giving up a socket\<close>

lemma bind_res_cong [fundef_cong]:
  "r = r' \<Longrightarrow> (\<And>x. r' = Inr x \<Longrightarrow> f x = g x) \<Longrightarrow> bind_res r f = bind_res r' g"
  by (cases r') simp_all

function lapd_release_sock :: "lapd_sock \<Rightarrow> lapd_sock res" where
  "lapd_release_sock s =
     (case sk_backlog s of
        [] \<Rightarrow> Inr (s\<lparr>sk_owned_by_user := False\<rparr>)
      | m # ms \<Rightarrow> bind_res (lapd_backlog_rcv m (s\<lparr>sk_backlog := ms\<rparr>)) lapd_release_sock)"
  by pat_completeness auto
termination by (relation "measure backlog_weight") (simp_all add: backlog_step)

declare lapd_release_sock.simps [simp del]


text \<open>
  C33. Giving up a socket ends and empties its backlog, although the handlers that are run may add to it:
  after at most \<open>backlog_weight\<close> entries (8 for a frame, 2 for an error indication, 1 for any other
  primitive) none is left and the socket is no longer owned. The result is that of the event machine
  handling one entry after the other and then unlocking, so that what holds of all sequences of
  events holds of it.
\<close>

theorem backlog_drained:
  "\<exists>n \<le> backlog_weight s. lapd_release_sock s = run_events dl_step (replicate n Dl_backlog @ [Dl_unlock]) s \<and>
     (\<forall>t. lapd_release_sock s = Inr t \<longrightarrow> sk_backlog t = [] \<and> \<not> sk_owned_by_user t)"
proof (induction s rule: lapd_release_sock.induct)
  case (1 s)
  show ?case
  proof (cases "sk_backlog s")
    case Nil
    then show ?thesis by (intro exI [of _ 0]) (simp add: lapd_release_sock.simps [of s])
  next
    case (Cons m ms)
    then have e: "lapd_release_sock s = bind_res (lapd_backlog_rcv m (s\<lparr>sk_backlog := ms\<rparr>)) lapd_release_sock"
      by (simp add: lapd_release_sock.simps [of s])
    show ?thesis
    proof (cases "lapd_backlog_rcv m (s\<lparr>sk_backlog := ms\<rparr>)")
      case (Inl f)
      have "0 < skb_weight m" by (cases m rule: skb_weight.cases) simp_all
      then have "1 \<le> backlog_weight s" using Cons by (simp add: backlog_weight_def)
      then show ?thesis using Inl e Cons by (intro exI [of _ 1]) simp
    next
      case (Inr u)
      obtain n where n: "n \<le> backlog_weight u"
        "lapd_release_sock u = run_events dl_step (replicate n Dl_backlog @ [Dl_unlock]) u"
        "\<forall>t. lapd_release_sock u = Inr t \<longrightarrow> sk_backlog t = [] \<and> \<not> sk_owned_by_user t"
        using "1.IH" [OF Cons Inr] by blast
      show ?thesis
        using n e Inr Cons backlog_step [OF Cons Inr] by (intro exI [of _ "Suc n"]) simp
    qed
  qed
qed

theorem backlog_drained_witness:
  "\<exists>t. lapd_release_sock (sock0\<lparr>sk_owned_by_user := True, sk_backlog := [Skb_frame [0, 129, 0x73, 0, 0]]\<rparr>) = Inr t \<and>
     sk_backlog t = []"
proof -
  let ?s = "sock0\<lparr>sk_owned_by_user := True, sk_backlog := [Skb_frame [0, 129, 0x73, 0, 0]]\<rparr>"
  have "\<not> isl (lapd_release_sock ?s)" by code_simp
  then obtain t where "lapd_release_sock ?s = Inr t" by (cases "lapd_release_sock ?s") auto
  then show ?thesis using backlog_drained [of ?s] by auto
qed

section \<open>What the handlers keep of a socket\<close>

definition sock_consts :: "lapd_sock \<Rightarrow> lapd_sap \<times> lapd_intf_role \<times> nat \<times> bool \<times> u8 \<times> nat option \<times> lapd_sk_state" where
  "sock_consts s = (sap s, role s, mtu s, sk_hashed s, sapi s, usr_tme s, sk_state s)"

lemma sock_consts_run_i_loop [simp]: "sock_consts (lapd_run_i_loop bs s) = sock_consts s"
  by (induction bs arbitrary: s) (simp_all add: sock_consts_def Let_def ph_data_request_def)

lemma sock_consts_run: "lapd_run_i_queue s = Inr t \<Longrightarrow> sock_consts t = sock_consts s"
  by (drule run_i_queue_cases) auto

lemma sock_consts_retransmit: "lapd_invoke_retransmission_procedure s = Inr t \<Longrightarrow> sock_consts t = sock_consts s"
  unfolding lapd_invoke_retransmission_procedure_def Let_def
  by (drule sock_consts_run) (auto simp: sock_consts_def split: list.splits)

lemma sock_consts_ops [simp]:
  "sock_consts (lapd_start_T200 s) = sock_consts s" "sock_consts (lapd_stop_T200 s) = sock_consts s"
  "sock_consts (lapd_start_T203 s) = sock_consts s" "sock_consts (lapd_stop_T203 s) = sock_consts s"
  "sock_consts (lapd_change_state st s) = sock_consts s"
  "sock_consts (lapd_send_sframe c f p s) = sock_consts s"
  "sock_consts (lapd_send_uframe g p s) = sock_consts s"
  "sock_consts (lapd_enquiry_response_procedure s) = sock_consts s"
  "sock_consts (lapd_transmit_enquiry_procedure s) = sock_consts s"
  "sock_consts (lapd_establish_datalink_procedure s) = sock_consts s"
  "sock_consts (lapd_clear_exception_conditions_procedure s) = sock_consts s"
  "sock_consts (lapd_discard_i_queue s) = sock_consts s"
  "sock_consts (lapd_discard_ui_queue s) = sock_consts s"
  "sock_consts (lapd_dl_primitive p' a s) = sock_consts s"
  "sock_consts (lapd_dl_data_indication d s) = sock_consts s"
  "sock_consts (lapd_dl_unit_data_indication d s) = sock_consts s"
  "sock_consts (lapd_clear_own_receiver_busy s) = sock_consts s"
  "sock_consts (lapd_set_own_receiver_busy s) = sock_consts s"
  "sock_consts (lapd_ack_va n s) = sock_consts s"
  "sock_consts (reset_counters s) = sock_consts s"
  "sock_consts (snd (iframe_receive b d s)) = sock_consts s"
  by (simp_all add: sock_consts_def sock_upds lapd_dl_data_indication_def lapd_dl_unit_data_indication_def
      lapd_clear_own_receiver_busy_def lapd_set_own_receiver_busy_def lapd_ack_va_def lapd_ack_frames_def
      iframe_receive_def)

lemma sock_consts_upds [simp]:
  "sock_consts (s\<lparr>peer_receiver_busy := pb\<rparr>) = sock_consts s"
  "sock_consts (s\<lparr>layer_3_initiated := l3\<rparr>) = sock_consts s"
  "sock_consts (s\<lparr>tm_out := rs\<rparr>) = sock_consts s"
  "sock_consts (s\<lparr>tei := t\<rparr>) = sock_consts s"
  "sock_consts (s\<lparr>sk_backlog := bl\<rparr>) = sock_consts s"
  "sock_consts (s\<lparr>sk_owned_by_user := ob\<rparr>) = sock_consts s"
  by (simp_all add: sock_consts_def)

lemma sock_consts_mdl [simp]:
  "sock_consts (lapd_mdl_recv pri s) = sock_consts s" "sock_consts (lapd_mdl_primitive pri s) = sock_consts s"
  by (cases pri; cases "state s";
      simp add: mdl_upds lapd_mdl_assign_request_def lapd_mdl_error_response_def lapd_persistent_deactivation_def
        Let_def split: option.splits)+

lemma sock_consts_procedures [simp]:
  "sock_consts (lapd_nr_error_recovery_procedure s) = sock_consts s"
  "sock_consts (lapd_frame_reject err s) = sock_consts s"
  "sock_consts (sframe_poll_7 d s) = sock_consts s"
  "sock_consts (sframe_ack_8 d s) = sock_consts s"
  "sock_consts (iframe_ack_7 d s) = sock_consts s"
  "sock_consts (iframe_ack_8 d s) = sock_consts s"
  by (simp_all add: lapd_nr_error_recovery_procedure_def lapd_frame_reject_def sframe_poll_7_def Let_def
      sframe_ack_8_def iframe_ack_7_def iframe_ack_8_def)

lemma sock_consts_dlc_recv: "lapd_dlc_recv m s = Inr r \<Longrightarrow> sock_consts (snd r) = sock_consts s"
proof -
  have i: "sock_consts (snd (lapd_socket_handle_iframe d s)) = sock_consts s" for d
    by (simp add: lapd_socket_handle_iframe_def Let_def case_prod_beta split: lapd_datalink_state.split)
  have s: "lapd_socket_handle_sframe d s = Inr t \<Longrightarrow> sock_consts t = sock_consts s" for d t
    by (auto simp: lapd_socket_handle_sframe_def lapd_socket_handle_sframe_rr_def
        lapd_socket_handle_sframe_rnr_def lapd_socket_handle_sframe_rej_def Let_def
        bind_res_eq_Inr dest!: sock_consts_retransmit
        split: if_splits lapd_sframe_function_e.splits lapd_datalink_state.splits)
  have ua: "lapd_socket_handle_uframe_ua d s = Inr t \<Longrightarrow> sock_consts t = sock_consts s" for d t
    by (cases "state s") (auto simp: lapd_socket_handle_uframe_ua_def Let_def split: if_splits dest!: sock_consts_run)
  have u: "sock_consts (lapd_socket_handle_uframe_sabme d s) = sock_consts s"
    "sock_consts (lapd_socket_handle_uframe_dm d s) = sock_consts s"
    "sock_consts (lapd_socket_handle_uframe_frmr d s) = sock_consts s"
    "sock_consts (lapd_socket_handle_uframe_disc d s) = sock_consts s" for d
    by (cases "state s"; simp add: lapd_socket_handle_uframe_sabme_def sabme_7_8_def lapd_socket_handle_uframe_dm_def
        lapd_socket_handle_uframe_frmr_def lapd_socket_handle_uframe_disc_def Let_def)+
  assume "lapd_dlc_recv m s = Inr r"
  then show ?thesis
    using i s ua u
    by (auto simp: lapd_dlc_recv_def lapd_socket_handle_uframe_def not_queued_def bind_res_eq_Inr
        lapd_socket_handle_uframe_ui_def lapd_socket_handle_uframe_xid_def
        split: dlc_skb.splits lapd_frame_type_e.splits if_splits lapd_uframe_function_e.splits)
qed

lemma sock_consts_release: "lapd_release_sock s = Inr t \<Longrightarrow> sock_consts t = sock_consts s"
proof (induction s rule: lapd_release_sock.induct)
  case (1 s)
  show ?case
  proof (cases "sk_backlog s")
    case Nil
    then show ?thesis using "1.prems" by (auto simp: lapd_release_sock.simps [of s])
  next
    case (Cons m ms)
    then obtain u where u: "lapd_backlog_rcv m (s\<lparr>sk_backlog := ms\<rparr>) = Inr u" "lapd_release_sock u = Inr t"
      using "1.prems" by (auto simp: lapd_release_sock.simps [of s] bind_res_eq_Inr)
    then have "sock_consts u = sock_consts s"
      by (auto simp: lapd_backlog_rcv_def bind_res_eq_Inr dest!: sock_consts_dlc_recv)
    then show ?thesis using "1.IH" [OF Cons u(1) u(2)] by simp
  qed
qed

end
