(* ===== verification/Lapd_Af.thy ===== *)
theory Lapd_Af
  imports Lapd_Input Lapd_Backlog
begin

text \<open>
  The socket interface (modules/lapd/af_lapd.c): the calls a process makes on a LAPD socket. The hash of
  the system state holds the other sockets; the socket of the call is passed along. Whatever
  happens to it while the call has given it up is an argument, a list of events or of the
  states found after each wake-up.
\<close>

section \<open>State\<close>

definition EPERM :: int where "EPERM = 1"
definition EAGAIN :: int where "EAGAIN = 11"
definition ENOMEM :: int where "ENOMEM = 12"
definition EFAULT :: int where "EFAULT = 14"
definition ENODEV :: int where "ENODEV = 19"
definition EPIPE :: int where "EPIPE = 32"
definition EMSGSIZE :: int where "EMSGSIZE = 90"
definition ENOPROTOOPT :: int where "ENOPROTOOPT = 92"
definition ESOCKTNOSUPPORT :: int where "ESOCKTNOSUPPORT = 94"
definition ENETDOWN :: int where "ENETDOWN = 100"
definition ECONNRESET :: int where "ECONNRESET = 104"
definition EISCONN :: int where "EISCONN = 106"
definition ENOTCONN :: int where "ENOTCONN = 107"
definition ETIMEDOUT :: int where "ETIMEDOUT = 110"
definition EALREADY :: int where "EALREADY = 114"

definition LAPD_SAPI_MGMT :: u8 where "LAPD_SAPI_MGMT = 0x10"
definition LAPD_DYNAMIC_TEI :: u8 where "LAPD_DYNAMIC_TEI = 255"

text \<open>
  The socket of a process: its entry, whether \<open>dev\<close> is set, and the fields of \<open>struct sock\<close> the
  calls test. \<open>af_err\<close> is \<open>sk_err\<close>.
\<close>

record af_sock =
  af_hs :: hashed_sock
  af_dev :: bool
  af_protocol :: u8
  af_shut_rd :: bool
  af_shut_wr :: bool
  af_err :: int

abbreviation af_lapd :: "af_sock \<Rightarrow> lapd_sock" where
  "af_lapd a \<equiv> hs_sock (af_hs a)"

definition set_lapd :: "lapd_sock \<Rightarrow> af_sock \<Rightarrow> af_sock" where
  "set_lapd s a = a\<lparr>af_hs := (af_hs a)\<lparr>hs_sock := s\<rparr>\<rparr>"

definition af_shutdown :: "af_sock \<Rightarrow> bool" where
  "af_shutdown a \<longleftrightarrow> af_shut_rd a \<or> af_shut_wr a"

text \<open>\<open>lapd_lock_sock\<close>, for a socket nobody owns.\<close>

definition lapd_lock_sock :: "lapd_sock \<Rightarrow> lapd_sock" where
  "lapd_lock_sock s = s\<lparr>sk_owned_by_user := True\<rparr>"

definition release_af :: "af_sock \<Rightarrow> af_sock res" where
  "release_af a = bind_res (lapd_release_sock (af_lapd a)) (\<lambda>s. Inr (set_lapd s a))"

text \<open>A call that ends with \<open>lapd_release_sock\<close> and returns a value.\<close>

definition returning :: "'a \<Rightarrow> af_sock \<Rightarrow> ('a \<times> af_sock) res" where
  "returning err a = bind_res (release_af a) (\<lambda>a. Inr (err, a))"

section \<open>Creating and binding a socket\<close>

text \<open>The memory of a new socket is zeroed; the limits and the accounting are the kernel's.\<close>

definition lapd_create ::
  "bool \<Rightarrow> bool \<Rightarrow> u8 \<Rightarrow> nat \<Rightarrow> (rcv_item \<Rightarrow> nat) \<Rightarrow> nat \<Rightarrow> int + af_sock" where
  "lapd_create capable seqpacket protocol rcvbuf truesize addr =
     (if \<not> capable then Inl (- EPERM)
      else if \<not> seqpacket then Inl (- ESOCKTNOSUPPORT)
      else if protocol \<noteq> LAPD_SAPI_Q931 \<and> protocol \<noteq> LAPD_SAPI_X25 \<and> protocol \<noteq> LAPD_SAPI_MGMT
      then Inl (- EINVAL)
      else
        let s = lapd_datalink_state_init
          \<lparr>sk_state = LAPD_SK_STATE_NULL, sk_write_queue = [], sk_send_head = None, sk_receive_queue = [],
           sk_rmem_alloc = 0, sk_rcvbuf = rcvbuf, sk_truesize = truesize, sk_owned_by_user = False,
           sk_backlog = [], sk_hashed = False, sk_timer = False, role = LAPD_INTF_ROLE_TE, mtu = 0,
           net_tme = False, u_queue = [], retrans_cnt = 0, timer_T200 = False, timer_T203 = False,
           v_s = 0, v_r = 0, v_a = 0, state = LAPD_DLS_NULL, peer_receiver_busy = False,
           own_receiver_busy = False, reject_exception = False, acknowledge_pending = False,
           layer_3_initiated = False, sap = lapd_sap_default, usr_tme = None, tei = 0, sapi = protocol,
           ph_out = [], tm_out = []\<rparr>
        in Inr \<lparr>af_hs = \<lparr>hs_dev = 0, hs_addr = addr, hs_null_sap = True, hs_sock = s, hs_new_dlcs = []\<rparr>,
                af_dev = False, af_protocol = protocol, af_shut_rd = False, af_shut_wr = False, af_err = 0\<rparr>)"

text \<open>
  \<open>found\<close> is what the device name stands for: a device, its MTU and whether it is up. The fields that
  the model keeps of the device (its role, its MTU, whether it has a management entity) are set here.
\<close>

definition lapd_bind_to_device ::
  "(nat \<times> nat \<times> bool) option \<Rightarrow> lapd_system \<Rightarrow> af_sock \<Rightarrow> int \<times> af_sock" where
  "lapd_bind_to_device found st a =
     (case found of
        None \<Rightarrow> (- ENODEV, a)
      | Some (dev, dev_mtu, up) \<Rightarrow>
          if \<not> up then (- ENETDOWN, a)
          else
            let s = (af_lapd a)\<lparr>state := LAPD_DLS_1_TEI_UNASSIGNED, role := dev_role (lapd_devs st dev),
                                mtu := dev_mtu, net_tme := (dev_role (lapd_devs st dev) = LAPD_INTF_ROLE_NT),
                                sk_hashed := True\<rparr>;
                h = (af_hs a)\<lparr>hs_dev := dev\<rparr>;
                h = (if sapi s = LAPD_SAPI_Q931
                     then h\<lparr>hs_null_sap := False, hs_sock := s\<lparr>sap := lapd_q931 st dev\<rparr>\<rparr>
                     else if sapi s = LAPD_SAPI_X25
                     then h\<lparr>hs_null_sap := False, hs_sock := s\<lparr>sap := lapd_x25 st dev\<rparr>\<rparr>
                     else if af_protocol a = LAPD_SAPI_MGMT
                     then h\<lparr>hs_sock := s\<lparr>sk_state := LAPD_SK_STATE_MGMT\<rparr>\<rparr>
                     else h\<lparr>hs_sock := s\<rparr>)
            in (0, a\<lparr>af_hs := h, af_dev := True\<rparr>))"

text \<open>\<open>lapd_utme_hash\<close> without an entity, and with one reference to an entity dropped.\<close>

definition utme_unhash :: "nat \<Rightarrow> lapd_system \<Rightarrow> lapd_system" where
  "utme_unhash t st = st\<lparr>lapd_utme_hash := filter (\<lambda>u. utme_addr u \<noteq> t) (lapd_utme_hash st)\<rparr>"

definition utme_put :: "nat \<Rightarrow> lapd_system \<Rightarrow> lapd_system" where
  "utme_put t st =
     st\<lparr>lapd_utme_hash := map (\<lambda>u. if utme_addr u = t then lapd_utme_put u else u) (lapd_utme_hash st)\<rparr>"

text \<open>
  The user side of \<open>lapd_bind\<close>: an entity the socket had is unhashed and its two references dropped, a
  new one is allocated and put in front of the hash. A static TEI is handed to all sockets of the new entity,
  this one included, whose primitive goes to the backlog of the owned socket.
\<close>

definition bind_te :: "u8 \<Rightarrow> nat \<Rightarrow> lapd_system \<times> af_sock \<Rightarrow> lapd_system \<times> af_sock" where
  "bind_te t addr x =
     (case x of (st, a) \<Rightarrow>
       let s = (af_lapd a)\<lparr>state := LAPD_DLS_1_TEI_UNASSIGNED\<rparr>;
           st = (case usr_tme s of None \<Rightarrow> st | Some old \<Rightarrow> utme_unhash old st);
           u = lapd_utme_get (lapd_utme_alloc addr (hs_dev (af_hs a)));
           s = s\<lparr>usr_tme := Some addr\<rparr>
       in if t \<le> LAPD_MAX_STA_TEI then
            (case lapd_utme_assign_static_tei t u (s # map hs_sock (lapd_hash st)) of
               (u, ss) \<Rightarrow>
                 (st\<lparr>lapd_utme_hash := u # lapd_utme_hash st, lapd_hash := set_socks (tl ss) (lapd_hash st)\<rparr>,
                  set_lapd (hd ss) a))
          else (st\<lparr>lapd_utme_hash := u # lapd_utme_hash st\<rparr>, set_lapd s a))"

text \<open>
  \<open>lapd_bind\<close>. On the network side the TEI of the address is not stored. The state of the socket is
  changed before the test for a dynamic TEI on the network side.
\<close>

definition lapd_bind :: "bool \<Rightarrow> u8 \<Rightarrow> nat \<Rightarrow> lapd_system \<Rightarrow> af_sock \<Rightarrow> (int \<times> lapd_system \<times> af_sock) res" where
  "lapd_bind addr_len_ok t addr st a0 =
     (if \<not> addr_len_ok then Inr (- EINVAL, st, a0)
      else
        let a = set_lapd (lapd_lock_sock (af_lapd a0)) a0;
            s = af_lapd a;
            ret = (\<lambda>err st a. bind_res (release_af a) (\<lambda>a. Inr (err, st, a)))
        in if sk_state s \<noteq> LAPD_SK_STATE_NULL then ret (- EINVAL) st a
           else if af_shutdown a then ret (- EPIPE) st a
           else if \<not> af_dev a then ret (- ENODEV) st a
           else if t = LAPD_BROADCAST_TEI then
             ret 0 (case usr_tme s of None \<Rightarrow> st | Some u \<Rightarrow> utme_put u st) (set_lapd (s\<lparr>usr_tme := None, tei := t, state := LAPD_DLS_4_TEI_ASSIGNED,
                                   sk_state := LAPD_SK_STATE_BROADCAST_DLC\<rparr>) a)
           else if t = LAPD_DYNAMIC_TEI \<or> t \<le> LAPD_MAX_STA_TEI then
             (let s = s\<lparr>sk_state := LAPD_SK_STATE_NORMAL_DLC\<rparr> in
              if role s = LAPD_INTF_ROLE_NT then
                (if t = LAPD_DYNAMIC_TEI then ret (- EINVAL) st (set_lapd s a)
                 else ret 0 st (set_lapd (s\<lparr>state := LAPD_DLS_4_TEI_ASSIGNED\<rparr>) a))
              else
                (case bind_te t addr (st, set_lapd s a) of (st, a) \<Rightarrow> ret 0 st a))
           else ret (- EINVAL) st a)"

definition lapd_listen :: "af_sock \<Rightarrow> (int \<times> af_sock) res" where
  "lapd_listen a0 =
     (let a = set_lapd (lapd_lock_sock (af_lapd a0)) a0; s = af_lapd a in
      if sk_state s \<noteq> LAPD_SK_STATE_NULL then returning (- EINVAL) a
      else if af_shutdown a then returning (- EPIPE) a
      else if \<not> af_dev a then returning (- ENODEV) a
      else returning 0 (set_lapd (s\<lparr>sk_state := LAPD_SK_STATE_LISTEN, state := LAPD_DLS_LISTENING\<rparr>) a))"


section \<open>Connections\<close>

text \<open>
  What a waiting process finds each time it is woken up and has locked the socket: the socket and its
  pending error, whether a signal is pending, and what is left of the timeout.
\<close>

record wakeup =
  wk_sock :: lapd_sock
  wk_err :: int
  wk_signal :: "int option"
  wk_timeout :: nat

text \<open>The loops return the result and the socket they leave, None while no wake-up has ended them.\<close>

fun establishment_loop :: "wakeup list \<Rightarrow> (int \<times> lapd_sock) option" where
  "establishment_loop [] = None"
| "establishment_loop (w # ws) =
     (if wk_err w \<noteq> 0 then Some (- wk_err w, wk_sock w)
      else if sk_state (wk_sock w) \<noteq> LAPD_SK_STATE_NORMAL_DLC then Some (0, wk_sock w)
      else if in_7 (wk_sock w) then Some (0, wk_sock w)
      else if state (wk_sock w) = LAPD_DLS_4_TEI_ASSIGNED then Some (- ECONNRESET, wk_sock w)
      else case wk_signal w of
             Some err \<Rightarrow> Some (err, wk_sock w)
           | None \<Rightarrow> if wk_timeout w = 0 then Some (- ETIMEDOUT, wk_sock w) else establishment_loop ws)"

definition lapd_multiframe_wait_for_establishment :: "bool \<Rightarrow> wakeup list \<Rightarrow> lapd_sock \<Rightarrow> (int \<times> lapd_sock) option" where
  "lapd_multiframe_wait_for_establishment nonblock ws s =
     (if in_7 s then Some (- EISCONN, s)
      else if nonblock then Some (- EAGAIN, s)
      else establishment_loop ws)"

fun release_loop :: "wakeup list \<Rightarrow> (int \<times> lapd_sock) option" where
  "release_loop [] = None"
| "release_loop (w # ws) =
     (if wk_err w \<noteq> 0 then Some (- wk_err w, wk_sock w)
      else if state (wk_sock w) = LAPD_DLS_4_TEI_ASSIGNED \<or> state (wk_sock w) = LAPD_DLS_1_TEI_UNASSIGNED
      then Some (0, wk_sock w)
      else case wk_signal w of
             Some err \<Rightarrow> Some (err, wk_sock w)
           | None \<Rightarrow> if wk_timeout w = 0 then Some (- ETIMEDOUT, wk_sock w) else release_loop ws)"

definition lapd_multiframe_wait_for_release :: "bool \<Rightarrow> wakeup list \<Rightarrow> lapd_sock \<Rightarrow> (int \<times> lapd_sock) option" where
  "lapd_multiframe_wait_for_release nonblock ws s =
     (if state s = LAPD_DLS_4_TEI_ASSIGNED \<or> state s = LAPD_DLS_1_TEI_UNASSIGNED then Some (- ENOTCONN, s)
      else if nonblock then Some (- EAGAIN, s)
      else release_loop ws)"

text \<open>The socket of a call that still waits after the wake-ups.\<close>

definition woken :: "wakeup list \<Rightarrow> lapd_sock \<Rightarrow> lapd_sock" where
  "woken ws s = (if ws = [] then s else wk_sock (last ws))"

definition lapd_connect :: "bool \<Rightarrow> wakeup list \<Rightarrow> af_sock \<Rightarrow> (int option \<times> af_sock) res" where
  "lapd_connect nonblock ws a0 =
     (let a = set_lapd (lapd_lock_sock (af_lapd a0)) a0; s = af_lapd a in
      if sk_state s \<noteq> LAPD_SK_STATE_NORMAL_DLC then returning (Some (- EINVAL)) a
      else if af_shutdown a then returning (Some (- EPIPE)) a
      else bind_res (lapd_dl_establish_request s) (\<lambda>(err, s).
        if err < 0 then returning (Some err) (set_lapd s a)
        else (case lapd_multiframe_wait_for_establishment nonblock ws s of
                None \<Rightarrow> Inr (None, set_lapd (woken ws s) a)
              | Some (err, s) \<Rightarrow> returning (Some err) (set_lapd s a))))"

definition lapd_shutdown :: "bool \<Rightarrow> wakeup list \<Rightarrow> af_sock \<Rightarrow> (int option \<times> af_sock) res" where
  "lapd_shutdown nonblock ws a0 =
     (let a = set_lapd (lapd_lock_sock (af_lapd a0)) a0;
          s = snd (lapd_dl_release_request (af_lapd a))
      in case lapd_multiframe_wait_for_release nonblock ws s of
           None \<Rightarrow> Inr (None, set_lapd (woken ws s) a)
         | Some (e, s) \<Rightarrow> returning (Some (if e = - ENOTCONN then 0 else e)) (set_lapd s a))"

text \<open>
  \<open>lapd_accept\<close> takes the first of the waiting sockets. \<open>waited\<close> is the result of the wait when there
  is none: an error, or the sockets that have then arrived.
\<close>

definition lapd_accept :: "bool \<Rightarrow> int + nat list \<Rightarrow> af_sock \<Rightarrow> ((int \<times> nat option) \<times> af_sock) res" where
  "lapd_accept nonblock waited a0 =
     (let a = set_lapd (lapd_lock_sock (af_lapd a0)) a0;
          take_first = (\<lambda>a. case hs_new_dlcs (af_hs a) of
              [] \<Rightarrow> Inl NullDereference
            | n # ns \<Rightarrow> returning (0, Some n) (a\<lparr>af_hs := (af_hs a)\<lparr>hs_new_dlcs := ns\<rparr>\<rparr>))
      in if sk_state (af_lapd a) \<noteq> LAPD_SK_STATE_LISTEN then returning (- EINVAL, None) a
         else if af_shutdown a then returning (- EPIPE, None) a
         else if hs_new_dlcs (af_hs a) \<noteq> [] then take_first a
         else if nonblock then returning (- EAGAIN, None) a
         else (case waited of
                 Inl err \<Rightarrow> returning (err, None) a
               | Inr ns \<Rightarrow> take_first (a\<lparr>af_hs := (af_hs a)\<lparr>hs_new_dlcs := ns\<rparr>\<rparr>)))"

section \<open>Closing a socket\<close>

definition lapd_release :: "af_sock \<Rightarrow> af_sock res" where
  "lapd_release a0 =
     (let s = lapd_lock_sock (af_lapd a0) in
      if sk_state s = LAPD_SK_STATE_NORMAL_DLC \<and> (in_7 s \<or> in_8 s)
      then release_af (set_lapd (snd (lapd_dl_release_request (s\<lparr>sk_state := LAPD_SK_STATE_NORMAL_DLC_CLOSING\<rparr>))) a0)
      else release_af (set_lapd (s\<lparr>sk_state := LAPD_SK_STATE_CLOSE, sk_hashed := False\<rparr>) a0))"

definition lapd_unhash_timer :: "lapd_sock \<Rightarrow> lapd_sock" where
  "lapd_unhash_timer s = s\<lparr>sk_timer := False, sk_hashed := False\<rparr>"


section \<open>Sending\<close>

text \<open>
  \<open>lapd_sendmsg\<close> gives the socket up while it allocates the buffer: the events \<open>es\<close> happen then.
  \<open>alloc\<close> is the outcome of the allocation, an error or the address of the buffer, \<open>c1\<close> and \<open>c2\<close> what
  its memory held, \<open>readable\<close> whether the data can be copied from the process.
\<close>

definition sendmsg_alloc :: "dl_event list \<Rightarrow> lapd_sock \<Rightarrow> lapd_sock res" where
  "sendmsg_alloc es s =
     bind_res (lapd_release_sock s) (\<lambda>s.
       bind_res (run_events dl_step es s) (\<lambda>s. Inr (lapd_lock_sock s)))"

definition sendmsg_request ::
  "bool \<Rightarrow> nat \<Rightarrow> u8 \<times> u8 \<Rightarrow> bool \<Rightarrow> octets \<Rightarrow> lapd_sock \<Rightarrow> (int \<times> lapd_sock) res" where
  "sendmsg_request oob ptr c readable data s =
     (if oob then
        (case lapd_prepare_uframe s LAPD_UFRAME_FUNC_UI False of
           Inl e \<Rightarrow> Inl e
         | Inr hdr \<Rightarrow>
             if \<not> readable then Inr (- EFAULT, s)
             else bind_res (lapd_dl_unit_data_request (hdr @ data) s) (\<lambda>s. Inr (int (length data), s)))
      else
        if \<not> readable then Inr (- EFAULT, s)
        else bind_res
          (lapd_dl_data_request \<lparr>skb_ptr = ptr, skb_data = lapd_prepare_iframe s (fst c) (snd c) @ data\<rparr> s)
          (\<lambda>s. Inr (int (length data), s)))"

definition lapd_sendmsg ::
  "bool \<Rightarrow> dl_event list \<Rightarrow> int + nat \<Rightarrow> u8 \<times> u8 \<Rightarrow> bool \<Rightarrow> octets \<Rightarrow> af_sock \<Rightarrow> (int \<times> af_sock) res" where
  "lapd_sendmsg oob es alloc c readable data a0 =
     (let a = set_lapd (lapd_lock_sock (af_lapd a0)) a0; s = af_lapd a in
      if af_err a \<noteq> 0 then returning (- af_err a) (a\<lparr>af_err := 0\<rparr>)
      else if sk_state s \<noteq> LAPD_SK_STATE_NORMAL_DLC \<and> sk_state s \<noteq> LAPD_SK_STATE_BROADCAST_DLC \<and>
              sk_state s \<noteq> LAPD_SK_STATE_MGMT then returning (- EINVAL) a
      else if af_shut_wr a then returning (- EPIPE) a
      else if \<not> af_dev a then returning (- ENODEV) a
      else if mtu s < length data then returning (- EMSGSIZE) a
      else bind_res (sendmsg_alloc es s) (\<lambda>s.
        case alloc of
          Inl err \<Rightarrow> returning (if oob then - ENOMEM else err) (set_lapd s a)
        | Inr ptr \<Rightarrow>
            bind_res (sendmsg_request oob ptr c readable data s) (\<lambda>(err, s). returning err (set_lapd s a))))"

section \<open>Receiving\<close>

text \<open>
  The int \<open>copied\<close> is compared with the unsigned size of the buffer, so that a negative value counts as
  too large. What is copied to the process ends where the frame ends.
\<close>

definition hdrsize :: "octets \<Rightarrow> nat" where
  "hdrsize d = (if lapd_frame_type (hdr_control d) = LAPD_FRAME_TYPE_UFRAME then 3 else 4)"

record recv_result =
  rv_copied :: int
  rv_data :: octets
  rv_oob :: bool
  rv_trunc :: bool

fun primitive_errno :: "lapd_dl_primitive_type \<Rightarrow> int" where
  "primitive_errno LAPD_DL_ESTABLISH_INDICATION = - EALREADY"
| "primitive_errno LAPD_DL_ESTABLISH_CONFIRM = - EISCONN"
| "primitive_errno LAPD_DL_RELEASE_INDICATION = - ECONNRESET"
| "primitive_errno LAPD_DL_RELEASE_CONFIRM = - ENOTCONN"

definition recv_copy :: "u8 \<Rightarrow> nat \<Rightarrow> rcv_item \<Rightarrow> recv_result res" where
  "recv_copy protocol len item =
     (case item of
        Rcv_primitive p param \<Rightarrow>
          Inr \<lparr>rv_copied = primitive_errno p, rv_data = [], rv_oob = False, rv_trunc = False\<rparr>
      | Rcv_frame d \<Rightarrow>
          if protocol = LAPD_SAPI_MGMT then
            (if len < length d then Inl OutOfBounds
             else Inr \<lparr>rv_copied = int (length d), rv_data = d, rv_oob = False, rv_trunc = False\<rparr>)
          else
            (let copied = int (length d) - int (hdrsize d) - 2;
                 trunc = (copied < 0 \<or> int len < copied);
                 copied = (if trunc then int len else copied)
             in Inr \<lparr>rv_copied = copied, rv_data = take (nat copied) (drop (hdrsize d) d),
                     rv_oob = (lapd_frame_type (hdr_control d) = LAPD_FRAME_TYPE_UFRAME), rv_trunc = trunc\<rparr>))"

text \<open>
  \<open>lapd_recvmsg\<close>, with the receive queue as the process finds it after its wait; \<open>rcv_err\<close> is the
  error \<open>skb_recv_datagram\<close> returns when it is empty. \<open>skb_free_datagram\<close> gives back the receive memory.
\<close>

definition recv_error :: "int \<Rightarrow> recv_result" where
  "recv_error err = \<lparr>rv_copied = err, rv_data = [], rv_oob = False, rv_trunc = False\<rparr>"

definition lapd_recvmsg :: "nat \<Rightarrow> int \<Rightarrow> af_sock \<Rightarrow> (recv_result \<times> af_sock) res" where
  "lapd_recvmsg len rcv_err a0 =
     (let a = set_lapd (lapd_lock_sock (af_lapd a0)) a0; s = af_lapd a in
      if sk_state s \<noteq> LAPD_SK_STATE_NORMAL_DLC \<and> sk_state s \<noteq> LAPD_SK_STATE_BROADCAST_DLC \<and>
         sk_state s \<noteq> LAPD_SK_STATE_MGMT then returning (recv_error (- EINVAL)) a
      else if af_shut_rd a then returning (recv_error (- EPIPE)) a
      else if \<not> af_dev a then returning (recv_error (- ENODEV)) a
      else bind_res (release_af a) (\<lambda>a.
        case sk_receive_queue (af_lapd a) of
          [] \<Rightarrow> returning (recv_error rcv_err) (set_lapd (lapd_lock_sock (af_lapd a)) a)
        | item # q \<Rightarrow>
            bind_res (recv_copy (af_protocol a) len item) (\<lambda>r.
              Inr (r, set_lapd ((af_lapd a)\<lparr>sk_receive_queue := q,
                 sk_rmem_alloc := sk_rmem_alloc (af_lapd a) - sk_truesize (af_lapd a) item\<rparr>) a))))"


section \<open>Options\<close>

datatype lapd_sockopt =
    SO_BINDTODEVICE
  | LAPD_INTF_TYPE | LAPD_INTF_MODE | LAPD_INTF_ROLE | LAPD_TEI | LAPD_SAPI
  | LAPD_TEI_MGMT_STATUS | LAPD_TEI_MGMT_T201 | LAPD_TEI_MGMT_N202 | LAPD_TEI_MGMT_T202
  | LAPD_DLC_STATE | LAPD_T200 | LAPD_N200 | LAPD_T203 | LAPD_N201 | LAPD_K
  | Opt_other

text \<open>
  A service access point belongs to the device: an option of it changes it for every socket of the
  device and SAPI.
\<close>

definition same_sap :: "hashed_sock \<Rightarrow> hashed_sock \<Rightarrow> bool" where
  "same_sap h k \<longleftrightarrow> hs_dev h = hs_dev k \<and> sapi (hs_sock h) = sapi (hs_sock k) \<and> \<not> hs_null_sap h \<and> \<not> hs_null_sap k"

definition upd_sap :: "(lapd_sap \<Rightarrow> lapd_sap) \<Rightarrow> lapd_sock \<Rightarrow> lapd_sock" where
  "upd_sap f s = s\<lparr>sap := f (sap s)\<rparr>"

definition set_sap ::
  "(lapd_sap \<Rightarrow> lapd_sap) \<Rightarrow> lapd_system \<Rightarrow> af_sock \<Rightarrow> (lapd_system \<times> af_sock) res" where
  "set_sap f st a =
     (if hs_null_sap (af_hs a) then Inl NullDereference
      else
        let dev = hs_dev (af_hs a);
            st = st\<lparr>lapd_hash := map (\<lambda>h. if same_sap (af_hs a) h then h\<lparr>hs_sock := upd_sap f (hs_sock h)\<rparr> else h) (lapd_hash st)\<rparr>;
            st = (if sapi (af_lapd a) = LAPD_SAPI_Q931
                  then st\<lparr>lapd_q931 := (lapd_q931 st)(dev := f (lapd_q931 st dev))\<rparr>
                  else st\<lparr>lapd_x25 := (lapd_x25 st)(dev := f (lapd_x25 st dev))\<rparr>)
        in Inr (st, set_lapd (upd_sap f (af_lapd a)) a))"

text \<open>The option T202 assigns to \<open>N202\<close>, as the source does.\<close>

definition set_N202 :: "nat \<Rightarrow> lapd_system \<Rightarrow> af_sock \<Rightarrow> lapd_system res" where
  "set_N202 n st a =
     (case usr_tme (af_lapd a) of
        None \<Rightarrow> Inl NullDereference
      | Some t \<Rightarrow> Inr (st\<lparr>lapd_utme_hash := map (\<lambda>u. if utme_addr u = t then u\<lparr>utme_N202 := n\<rparr> else u) (lapd_utme_hash st)\<rparr>))"

definition set_T201 :: "jiffies \<Rightarrow> lapd_system \<Rightarrow> af_sock \<Rightarrow> lapd_system" where
  "set_T201 d st a =
     st\<lparr>lapd_ntme_hash := map (\<lambda>t. if ntme_dev t = hs_dev (af_hs a) then t\<lparr>ntme_T201 := d\<rparr> else t) (lapd_ntme_hash st)\<rparr>"

definition option_max :: "lapd_sockopt \<Rightarrow> int" where
  "option_max opt = (if opt = LAPD_N201 then 512 else 30)"

definition is_int_option :: "lapd_sockopt \<Rightarrow> bool" where
  "is_int_option opt \<longleftrightarrow>
     opt \<in> {LAPD_TEI_MGMT_T201, LAPD_TEI_MGMT_N202, LAPD_TEI_MGMT_T202, LAPD_T200, LAPD_N200, LAPD_T203, LAPD_N201, LAPD_K}"

text \<open>The switch of \<open>lapd_setsockopt\<close> for an option whose length and range have been tested.\<close>

definition set_int_option ::
  "nat \<Rightarrow> lapd_sockopt \<Rightarrow> nat \<Rightarrow> lapd_system \<Rightarrow> af_sock \<Rightarrow> (int \<times> lapd_system \<times> af_sock) res" where
  "set_int_option hz opt v st a =
     (let ms = (\<lambda>hz. v * hz div 1000);
          sap_opt = (\<lambda>f. bind_res (set_sap f st a) (\<lambda>(st, a). Inr (0, st, a)))
      in case opt of
        LAPD_TEI_MGMT_T201 \<Rightarrow>
          if \<not> af_dev a then Inr (- ENODEV, st, a)
          else if role (af_lapd a) = LAPD_INTF_ROLE_TE then Inr (- EINVAL, st, a)
          else Inr (0, set_T201 ms st a, a)
      | LAPD_TEI_MGMT_N202 \<Rightarrow>
          if \<not> af_dev a then Inr (- ENODEV, st, a)
          else if role (af_lapd a) = LAPD_INTF_ROLE_NT then Inr (- EINVAL, st, a)
          else bind_res (set_N202 v st a) (\<lambda>st. Inr (0, st, a))
      | LAPD_TEI_MGMT_T202 \<Rightarrow>
          if \<not> af_dev a then Inr (- ENODEV, st, a)
          else if role (af_lapd a) = LAPD_INTF_ROLE_NT then Inr (- EINVAL, st, a)
          else bind_res (set_N202 (ms hz) st a) (\<lambda>st. Inr (0, st, a))
      | LAPD_T200 \<Rightarrow> sap_opt (\<lambda>p. p\<lparr>sap_T200 := ms\<rparr>)
      | LAPD_N200 \<Rightarrow> sap_opt (\<lambda>p. p\<lparr>sap_N200 := v\<rparr>)
      | LAPD_T203 \<Rightarrow> sap_opt (\<lambda>p. p\<lparr>sap_T203 := ms\<rparr>)
      | LAPD_N201 \<Rightarrow> sap_opt (\<lambda>p. p\<lparr>sap_N201 := v\<rparr>)
      | LAPD_K \<Rightarrow> sap_opt (\<lambda>p. p\<lparr>sap_k := v\<rparr>)
      | _ \<Rightarrow> Inr (- ENOPROTOOPT, st, a))"

text \<open>
  \<open>lapd_setsockopt\<close>, with the memory of the process readable; \<open>optval\<close> is the integer of an option of that length,
  None for any other length. The option \<open>SO_BINDTODEVICE\<close> has the device its name stands for.
\<close>

definition lapd_setsockopt ::
  "nat \<Rightarrow> bool \<Rightarrow> lapd_sockopt \<Rightarrow> int option \<Rightarrow> (nat \<times> nat \<times> bool) option \<Rightarrow> lapd_system \<Rightarrow> af_sock \<Rightarrow>
   (int \<times> lapd_system \<times> af_sock) res" where
  "lapd_setsockopt hz sol_lapd opt optval found st a0 =
     (if \<not> sol_lapd then Inr (- ENOPROTOOPT, st, a0)
      else if af_shutdown a0 then Inr (- EPIPE, st, a0)
      else
        let a = set_lapd (lapd_lock_sock (af_lapd a0)) a0;
            ret = (\<lambda>err st a. bind_res (release_af a) (\<lambda>a. Inr (err, st, a)))
        in if opt = SO_BINDTODEVICE then
             (case lapd_bind_to_device found st a of (err, a) \<Rightarrow> ret err st a)
           else if is_int_option opt then
             (case optval of
                None \<Rightarrow> ret (- EINVAL) st a
              | Some v \<Rightarrow>
                  if v \<le> 0 \<or> option_max opt < v then ret (- EINVAL) st a
                  else bind_res (set_int_option hz opt (nat v) st a) (\<lambda>(err, st, a). ret err st a))
           else ret (- ENOPROTOOPT) st a)"

section \<open>Devices\<close>

text \<open>
  \<open>lapd_device_up\<close>: the flags of the interface choose its type, mode and role, and the network side
  gets a management entity, held by the device and by the hash.
\<close>

definition lapd_device_up :: "bool \<Rightarrow> bool \<Rightarrow> bool \<Rightarrow> u8 \<Rightarrow> nat \<Rightarrow> lapd_system \<Rightarrow> lapd_system" where
  "lapd_device_up portsel noarp allmulti random_byte devno st =
     (let dev = \<lparr>dev_type = if portsel then LAPD_INTF_TYPE_PRA else LAPD_INTF_TYPE_BRA,
                 dev_role = if allmulti then LAPD_INTF_ROLE_NT else LAPD_INTF_ROLE_TE,
                 dev_mode = if noarp then LAPD_INTF_MODE_POINT_TO_POINT else LAPD_INTF_MODE_MULTIPOINT,
                 l1_state = LAPD_L1_STATE_UNAVAILABLE, out_queue = [], dev_xmit = []\<rparr>;
          st = st\<lparr>lapd_devs := (lapd_devs st)(devno := dev),
                  lapd_q931 := (lapd_q931 st)(devno := lapd_sap_default),
                  lapd_x25 := (lapd_x25 st)(devno := lapd_sap_default)\<rparr>
      in if allmulti
         then st\<lparr>lapd_ntme_hash := lapd_ntme_get (lapd_ntme_alloc devno random_byte) # lapd_ntme_hash st\<rparr>
         else st)"

text \<open>\<open>lapd_kill_by_device\<close> on the sockets of the hash, and \<open>lapd_device_down\<close>.\<close>

definition lapd_kill_by_device :: "nat \<Rightarrow> af_sock list \<Rightarrow> af_sock list" where
  "lapd_kill_by_device devno as =
     map (\<lambda>a. if sk_hashed (af_lapd a) \<and> af_dev a \<and> hs_dev (af_hs a) = devno
              then a\<lparr>af_shut_rd := True, af_shut_wr := True, af_err := ENETDOWN\<rparr> else a) as"

definition lapd_device_down :: "nat \<Rightarrow> lapd_system \<Rightarrow> af_sock list \<Rightarrow> lapd_system \<times> af_sock list" where
  "lapd_device_down devno st as =
     (st\<lparr>lapd_devs := (lapd_devs st)(devno := lapd_out_queue_drop (lapd_devs st devno)),
         lapd_ntme_hash := filter (\<lambda>t. ntme_dev t \<noteq> devno) (lapd_ntme_hash st)\<rparr>,
      lapd_kill_by_device devno as)"

section \<open>Properties\<close>

text \<open>Every service access point in use has its window and its counters in the range of the options.\<close>

definition sap_ok :: "lapd_sap \<Rightarrow> bool" where
  "sap_ok p \<longleftrightarrow> 1 \<le> sap_k p \<and> sap_k p \<le> 30 \<and> 1 \<le> sap_N200 p \<and> sap_N200 p \<le> 30 \<and>
     1 \<le> sap_N201 p \<and> sap_N201 p \<le> 512"

definition saps_ok :: "lapd_system \<Rightarrow> af_sock \<Rightarrow> bool" where
  "saps_ok st a \<longleftrightarrow> (\<forall>dev. sap_ok (lapd_q931 st dev) \<and> sap_ok (lapd_x25 st dev)) \<and>
     (\<forall>h\<in>set (lapd_hash st). sap_ok (sap (hs_sock h))) \<and> sap_ok (sap (af_lapd a))"


lemma release_sock_empty: "sk_backlog s = [] \<Longrightarrow> lapd_release_sock s = Inr (s\<lparr>sk_owned_by_user := False\<rparr>)"
  by (simp add: lapd_release_sock.simps [of s])

lemma release_af_sap: "release_af a = Inr b \<Longrightarrow> sap (af_lapd b) = sap (af_lapd a)"
  by (auto simp: release_af_def bind_res_eq_Inr set_lapd_def sock_consts_def dest!: sock_consts_release)

lemma set_lapd_simps [simp]:
  "af_lapd (set_lapd s a) = s" "set_lapd s (set_lapd t a) = set_lapd s a"
  "af_dev (set_lapd s a) = af_dev a" "af_protocol (set_lapd s a) = af_protocol a"
  "af_shut_rd (set_lapd s a) = af_shut_rd a" "af_shut_wr (set_lapd s a) = af_shut_wr a"
  "af_err (set_lapd s a) = af_err a" "af_shutdown (set_lapd s a) = af_shutdown a"
  "hs_dev (af_hs (set_lapd s a)) = hs_dev (af_hs a)" "hs_null_sap (af_hs (set_lapd s a)) = hs_null_sap (af_hs a)"
  "hs_new_dlcs (af_hs (set_lapd s a)) = hs_new_dlcs (af_hs a)"
  by (simp_all add: set_lapd_def af_shutdown_def)

lemma saps_ok_bind:
  "saps_ok st a \<Longrightarrow> lapd_bind_to_device found st a = (err, b) \<Longrightarrow>
   saps_ok st b \<and> (err < 0 \<longrightarrow> b = a)"
  by (auto simp: lapd_bind_to_device_def saps_ok_def Let_def split: option.splits if_splits)

lemma saps_ok_set_sap:
  assumes "saps_ok st a" "\<And>p. sap_ok p \<Longrightarrow> sap_ok (f p)" "set_sap f st a = Inr (st', b)"
  shows "saps_ok st' b"
  using assms by (auto simp: set_sap_def saps_ok_def upd_sap_def Let_def split: if_splits)

lemma saps_ok_int_option:
  assumes "saps_ok st a" "1 \<le> v" "int v \<le> option_max opt" "set_int_option hz opt v st a = Inr (err, st', b)"
  shows "saps_ok st' b \<and> (err < 0 \<longrightarrow> st' = st \<and> b = a)"
proof -
  have k: "sap_ok p \<Longrightarrow> opt = LAPD_K \<Longrightarrow> sap_ok (p\<lparr>sap_k := v\<rparr>)"
    "sap_ok p \<Longrightarrow> opt = LAPD_N200 \<Longrightarrow> sap_ok (p\<lparr>sap_N200 := v\<rparr>)"
    "sap_ok p \<Longrightarrow> opt = LAPD_N201 \<Longrightarrow> sap_ok (p\<lparr>sap_N201 := v\<rparr>)"
    "sap_ok p \<Longrightarrow> sap_ok (p\<lparr>sap_T200 := d\<rparr>)" "sap_ok p \<Longrightarrow> sap_ok (p\<lparr>sap_T203 := d\<rparr>)" for p d
    using assms(2,3) by (auto simp: sap_ok_def option_max_def)
  have n: "saps_ok (set_T201 d st a) a" "set_N202 n st a = Inr st2 \<Longrightarrow> saps_ok st2 a" for d n st2
    using assms(1) by (auto simp: set_T201_def set_N202_def saps_ok_def split: option.splits)
  show ?thesis
    using assms(1,4) n
    by (cases opt) (auto simp: set_int_option_def Let_def bind_res_eq_Inr split: if_splits
        intro: saps_ok_set_sap [OF assms(1)] k)
qed

text \<open>What a device that comes up brings is in order.\<close>

lemma device_up_in_order:
  assumes "list_all ntme_ok (lapd_ntme_hash st)"
  shows "list_all ntme_ok (lapd_ntme_hash (lapd_device_up portsel noarp allmulti r devno st)) \<and>
     dev_inv (lapd_devs (lapd_device_up portsel noarp allmulti r devno st) devno) \<and>
     sap_ok (lapd_q931 (lapd_device_up portsel noarp allmulti r devno st) devno) \<and>
     sap_ok (lapd_x25 (lapd_device_up portsel noarp allmulti r devno st) devno)"
proof -
  have "unat r mod 63 < 63" by simp
  then show ?thesis
    using assms by (auto simp: lapd_device_up_def dev_inv_def sap_ok_def ntme_ok_def ntme_alloc_ok_def
        lapd_ntme_get_def lapd_ntme_alloc_def)
qed

text \<open>Once its device is down a socket refuses every call that would use the device.\<close>

lemma killed_sock_refuses:
  assumes "a \<in> set (lapd_kill_by_device devno as)" "sk_hashed (af_lapd a)" "af_dev a" "hs_dev (af_hs a) = devno"
    "sk_backlog (af_lapd a) = []"
  shows "\<exists>b. lapd_sendmsg oob es alloc c readable data a = Inr (- ENETDOWN, b)"
    "\<exists>b. lapd_setsockopt hz True opt optval found st a = Inr (- EPIPE, st, b)"
proof -
  obtain x where x: "a = (if sk_hashed (af_lapd x) \<and> af_dev x \<and> hs_dev (af_hs x) = devno
              then x\<lparr>af_shut_rd := True, af_shut_wr := True, af_err := ENETDOWN\<rparr> else x)"
    using assms(1) by (simp only: lapd_kill_by_device_def set_map image_iff) blast
  then have "sk_hashed (af_lapd x) \<and> af_dev x \<and> hs_dev (af_hs x) = devno"
    using assms(2-4) by (cases "sk_hashed (af_lapd x) \<and> af_dev x \<and> hs_dev (af_hs x) = devno") simp_all
  with x have "af_shut_rd a" "af_shut_wr a" "af_err a = ENETDOWN" by simp_all
  then show "\<exists>b. lapd_sendmsg oob es alloc c readable data a = Inr (- ENETDOWN, b)"
    "\<exists>b. lapd_setsockopt hz True opt optval found st a = Inr (- EPIPE, st, b)"
    using assms(5)
    by (simp_all add: lapd_sendmsg_def lapd_setsockopt_def Let_def af_shutdown_def ENETDOWN_def returning_def
        release_af_def release_sock_empty lapd_lock_sock_def set_lapd_def)
qed

text \<open>
  Socket options keep the parameters of the protocol in range. Whatever option a process sets
  to whatever value, every service access point keeps a window between 1 and 30, N200 between 1 and 30 and
  N201 between 1 and 512 (the ranges the window and timer properties assume), and a call that
  reports an error has changed no parameter.
\<close>

theorem options_in_range:
  assumes "saps_ok st a" "lapd_setsockopt hz sol_lapd opt optval found st a = Inr (err, st', b)"
  shows "saps_ok st' b \<and> (err < 0 \<longrightarrow> st' = st \<and> sap (af_lapd b) = sap (af_lapd a))"
proof -
  let ?a = "set_lapd (lapd_lock_sock (af_lapd a)) a"
  have l: "saps_ok st ?a" "sap (af_lapd ?a) = sap (af_lapd a)"
    using assms(1) by (simp_all add: saps_ok_def lapd_lock_sock_def)
  have r: "saps_ok s b'" "sap (af_lapd b') = sap (af_lapd c)" if "saps_ok s c" "release_af c = Inr b'" for s c b'
    using release_af_sap [OF that(2)] that(1) by (simp_all add: saps_ok_def)
  consider (none) "\<not> sol_lapd \<or> af_shutdown a" | (bind) "sol_lapd" "\<not> af_shutdown a" "opt = SO_BINDTODEVICE"
    | (int) "sol_lapd" "\<not> af_shutdown a" "opt \<noteq> SO_BINDTODEVICE" by blast
  then show ?thesis
  proof cases
    case none
    then show ?thesis using assms by (auto simp: lapd_setsockopt_def split: if_splits)
  next
    case bind
    obtain e c where c: "lapd_bind_to_device found st ?a = (e, c)" by fastforce
    then show ?thesis
      using bind assms(2) saps_ok_bind [OF l(1) c] r l(2)
      by (auto simp: lapd_setsockopt_def Let_def bind_res_eq_Inr)
  next
    case int
    show ?thesis
    proof (cases "\<exists>v. is_int_option opt \<and> optval = Some v \<and> 0 < v \<and> v \<le> option_max opt")
      case True
      then obtain v where v: "is_int_option opt" "optval = Some v" "0 < v" "v \<le> option_max opt" by blast
      then obtain c where c: "set_int_option hz opt (nat v) st ?a = Inr (err, st', c)" "release_af c = Inr b"
        using assms(2) int by (auto simp: lapd_setsockopt_def Let_def bind_res_eq_Inr)
      have "saps_ok st' c \<and> (err < 0 \<longrightarrow> st' = st \<and> c = ?a)"
        by (rule saps_ok_int_option [OF l(1) _ _ c(1)]) (use v in auto)
      then show ?thesis using r [OF _ c(2)] l(2) by auto
    next
      case False
      then have "release_af ?a = Inr b \<and> st' = st"
        using assms(2) int
        by (cases optval) (auto simp: lapd_setsockopt_def Let_def bind_res_eq_Inr split: if_splits)
      then show ?thesis using r [OF l(1)] l(2) by simp
    qed
  qed
qed


definition af7 :: "lapd_sock \<Rightarrow> af_sock" where
  "af7 s = \<lparr>af_hs = entry7\<lparr>hs_sock := s\<rparr>, af_dev = True, af_protocol = 0, af_shut_rd = False, af_shut_wr = False, af_err = 0\<rparr>"

theorem options_in_range_witness:
  "\<exists>st' b. lapd_setsockopt 250 True LAPD_K (Some 12) None sys0 (af7 sock7) = Inr (0, st', b) \<and> saps_ok st' b"
proof -
  have "case lapd_setsockopt 250 True LAPD_K (Some 12) None sys0 (af7 sock7) of Inl _ \<Rightarrow> False | Inr (err, _) \<Rightarrow> err = 0"
    by code_simp
  then obtain st' b where r: "lapd_setsockopt 250 True LAPD_K (Some 12) None sys0 (af7 sock7) = Inr (0, st', b)"
    by (cases "lapd_setsockopt 250 True LAPD_K (Some 12) None sys0 (af7 sock7)") auto
  have "saps_ok sys0 (af7 sock7)"
    by (simp add: saps_ok_def sap_ok_def sys0_def af7_def sock7_def sock0_def)
  from options_in_range [OF this r] show ?thesis using r by blast
qed

lemma T200_awaiting_release:
  assumes "state s = LAPD_DLS_6_AWAITING_RELEASE" "\<not> sk_owned_by_user s" "timer_T200 s"
    "sk_state s = LAPD_SK_STATE_NORMAL_DLC_CLOSING" "retrans_cnt s + n = sap_N200 (sap s)"
    "lapd_prepare_uframe s LAPD_UFRAME_FUNC_DISC True = Inr disc"
  shows "\<exists>t. run_events dl_step (replicate (Suc n) Dl_T200) s = Inr t \<and> sk_timer t \<and>
     state t \<in> {LAPD_DLS_1_TEI_UNASSIGNED, LAPD_DLS_4_TEI_ASSIGNED} \<and> ph_out t = ph_out s @ replicate n disc"
  using assms
proof (induction n arbitrary: s)
  case 0
  then show ?case
    by (auto simp: lapd_timer_T200_def sock_upds mdl_upds split: option.splits)
next
  case (Suc n)
  let ?t = "lapd_timer_T200 s"
  have t: "?t = s\<lparr>retrans_cnt := Suc (retrans_cnt s), ph_out := ph_out s @ [disc]\<rparr>"
    using Suc.prems by (cases s) (simp add: lapd_timer_T200_def sock_upds lapd_prepare_uframe_def)
  have "\<exists>u. run_events dl_step (replicate (Suc n) Dl_T200) ?t = Inr u \<and> sk_timer u \<and>
     state u \<in> {LAPD_DLS_1_TEI_UNASSIGNED, LAPD_DLS_4_TEI_ASSIGNED} \<and> ph_out u = ph_out ?t @ replicate n disc"
    by (rule Suc.IH) (use Suc.prems in \<open>simp_all add: t lapd_prepare_uframe_def\<close>)
  then show ?case using Suc.prems(3) by (auto simp: t replicate_app_Cons_same)
qed

text \<open>
  A socket closed on an established link does not stay behind. The close sends a DISC and leaves the
  socket in the hash, waiting for the release; if the peer never answers, N200 more DISC follow, after
  N200 + 1 expiries of T200 the unhash timer is pending, and its function takes the socket out.
\<close>

theorem closed_link_leaves_hash:
  assumes "sk_state (af_lapd a) = LAPD_SK_STATE_NORMAL_DLC" "in_7 (af_lapd a) \<or> in_8 (af_lapd a)"
    "sk_backlog (af_lapd a) = []" "lapd_prepare_uframe (af_lapd a) LAPD_UFRAME_FUNC_DISC True = Inr disc"
    "sk_hashed (af_lapd a)" "n200 = sap_N200 (sap (af_lapd a))"
  shows "\<exists>b t. lapd_release a = Inr b \<and> state (af_lapd b) = LAPD_DLS_6_AWAITING_RELEASE \<and>
     sk_hashed (af_lapd b) \<and> \<not> sk_owned_by_user (af_lapd b) \<and>
     run_events dl_step (replicate (Suc n200) Dl_T200) (af_lapd b) = Inr t \<and>
     state t \<in> {LAPD_DLS_1_TEI_UNASSIGNED, LAPD_DLS_4_TEI_ASSIGNED} \<and> sk_timer t \<and>
     ph_out t = ph_out (af_lapd a) @ replicate (Suc n200) disc \<and> \<not> sk_hashed (lapd_unhash_timer t)"
proof -
  let ?c = "snd (lapd_dl_release_request ((lapd_lock_sock (af_lapd a))\<lparr>sk_state := LAPD_SK_STATE_NORMAL_DLC_CLOSING\<rparr>))"
  let ?s = "?c\<lparr>sk_owned_by_user := False\<rparr>"
  have c: "sk_backlog ?c = []" "state ?s = LAPD_DLS_6_AWAITING_RELEASE" "\<not> sk_owned_by_user ?s" "timer_T200 ?s"
    "sk_state ?s = LAPD_SK_STATE_NORMAL_DLC_CLOSING" "retrans_cnt ?s = 0" "sap ?s = sap (af_lapd a)"
    "sk_hashed ?s" "ph_out ?s = ph_out (af_lapd a) @ [disc]"
    "lapd_prepare_uframe ?s LAPD_UFRAME_FUNC_DISC True = Inr disc"
    using assms by (auto simp: lapd_dl_release_request_def lapd_lock_sock_def sock_upds lapd_prepare_uframe_def)
  have "lapd_release a = Inr (set_lapd ?s a)"
    using assms(1,2) c(1) by (auto simp: lapd_release_def lapd_lock_sock_def release_af_def release_sock_empty)
  moreover obtain t where "run_events dl_step (replicate (Suc n200) Dl_T200) ?s = Inr t" "sk_timer t"
    "state t \<in> {LAPD_DLS_1_TEI_UNASSIGNED, LAPD_DLS_4_TEI_ASSIGNED}" "ph_out t = ph_out ?s @ replicate n200 disc"
    using T200_awaiting_release [OF c(2-5) _ c(10), of n200] c(6,7) assms(6) by auto
  ultimately show ?thesis
    using c(2,3,8,9) by (intro exI [of _ "set_lapd ?s a"] exI [of _ t]) (auto simp: lapd_unhash_timer_def)
qed

theorem closed_link_leaves_hash_witness:
  "\<exists>b t. lapd_release (af7 sock7) = Inr b \<and> run_events dl_step (replicate 4 Dl_T200) (af_lapd b) = Inr t \<and> sk_timer t"
proof -
  have s: "sk_state sock7 = LAPD_SK_STATE_NORMAL_DLC" "in_7 sock7" "sk_backlog sock7 = []" "sk_hashed sock7"
    "sap_N200 (sap sock7) = 3" by code_simp+
  obtain disc where "lapd_prepare_uframe sock7 LAPD_UFRAME_FUNC_DISC True = Inr disc"
    by (simp add: lapd_prepare_uframe_def)
  then show ?thesis
    using closed_link_leaves_hash [of "af7 sock7" disc 3] s
    by (simp add: af7_def numeral_eq_Suc del: replicate.simps dl_step.simps) blast
qed


lemma mdl_primitive_others:
  "\<forall>h\<in>set hs. usr_tme (hs_sock h) \<noteq> Some (utme_addr u) \<Longrightarrow>
   set_socks (utme_mdl_primitive pri u (map hs_sock hs)) hs = hs"
  by (induction hs) (auto simp: set_socks_def utme_mdl_primitive_def)

text \<open>
  Binding a user side socket to a static TEI gives it that TEI at once: the socket is in state
  TEI-assigned with the TEI and a management entity of its own, which is in order, holds the TEI, has
  no request pending and exactly the references of the socket and of the hash. No other socket and no
  other entity changes.
\<close>

theorem bind_static_tei:
  assumes "sk_state (af_lapd a) = LAPD_SK_STATE_NULL" "\<not> af_shutdown a" "af_dev a" "sk_backlog (af_lapd a) = []"
    "role (af_lapd a) = LAPD_INTF_ROLE_TE" "sk_hashed (af_lapd a)" "usr_tme (af_lapd a) = None"
    "t \<le> LAPD_MAX_STA_TEI" "\<forall>h\<in>set (lapd_hash st). usr_tme (hs_sock h) \<noteq> Some addr"
  shows "\<exists>st' b u. lapd_bind True t addr st a = Inr (0, st', b) \<and>
     state (af_lapd b) = LAPD_DLS_4_TEI_ASSIGNED \<and> tei (af_lapd b) = t \<and> usr_tme (af_lapd b) = Some addr \<and>
     sk_state (af_lapd b) = LAPD_SK_STATE_NORMAL_DLC \<and> \<not> sk_owned_by_user (af_lapd b) \<and>
     lapd_utme_hash st' = u # lapd_utme_hash st \<and> utme_ok u \<and> utme_addr u = addr \<and> utme_tei u = t \<and>
     utme_state u = LAPD_TME_TEI_ASSIGNED \<and> \<not> utme_tei_request_pending u \<and> utme_refcnt u = 2 \<and>
     lapd_hash st' = lapd_hash st"
proof -
  let ?s = "(af_lapd a)\<lparr>sk_owned_by_user := True, sk_state := LAPD_SK_STATE_NORMAL_DLC,
      state := LAPD_DLS_1_TEI_UNASSIGNED, usr_tme := Some addr\<rparr>"
  let ?u = "lapd_utme_get (lapd_utme_alloc addr (hs_dev (af_hs a)))"
  let ?v = "fst (utme_assign t ?u [])"
  have v: "utme_ok ?v" "utme_addr ?v = addr" "utme_tei ?v = t" "utme_state ?v = LAPD_TME_TEI_ASSIGNED"
    "\<not> utme_tei_request_pending ?v" "utme_refcnt ?v = 2"
    by (simp_all add: utme_ok_def utme_defs lapd_utme_alloc_def Let_def)
  let ?q = "?s\<lparr>sk_backlog := [Skb_mdl (LAPD_MDL_ASSIGN_REQUEST t)]\<rparr>"
  have a: "lapd_utme_assign_static_tei t ?u (?s # ss) =
      (?v, ?q # utme_mdl_primitive (LAPD_MDL_ASSIGN_REQUEST t) ?v ss)" for ss
    using assms(4,5,6)
    by (simp add: lapd_utme_assign_static_tei_def utme_assign_def utme_mdl_primitive_def Let_def lapd_mdl_primitive_def
        lapd_utme_stop_timer_def lapd_utme_change_state_def lapd_utme_get_def lapd_utme_alloc_def)
  have "t \<noteq> LAPD_BROADCAST_TEI"
    using assms(8) by (auto simp: LAPD_BROADCAST_TEI_def LAPD_MAX_STA_TEI_def)
  let ?b = "set_lapd (?q\<lparr>sk_backlog := [], tei := t, state := LAPD_DLS_4_TEI_ASSIGNED, sk_owned_by_user := False\<rparr>) a"
  have r: "lapd_release_sock ?q = Inr (?q\<lparr>sk_backlog := [], tei := t, state := LAPD_DLS_4_TEI_ASSIGNED, sk_owned_by_user := False\<rparr>)"
    by (simp add: lapd_release_sock.simps [of ?q] lapd_backlog_rcv_def lapd_dlc_recv_def lapd_mdl_recv_def
        lapd_mdl_assign_request_def lapd_change_state_def release_sock_empty)
  have h: "set_socks (utme_mdl_primitive (LAPD_MDL_ASSIGN_REQUEST t) ?v (map hs_sock (lapd_hash st))) (lapd_hash st) = lapd_hash st"
    using mdl_primitive_others [of "lapd_hash st" ?v] assms(9) v(2) by simp
  let ?st = "st\<lparr>lapd_utme_hash := ?v # lapd_utme_hash st, lapd_hash := lapd_hash st\<rparr>"
  have "lapd_bind True t addr st a = Inr (0, ?st, ?b)"
    using assms \<open>t \<noteq> LAPD_BROADCAST_TEI\<close> a r h
    by (simp add: lapd_bind_def Let_def lapd_lock_sock_def bind_te_def release_af_def)
  then show ?thesis
    using v by (intro exI [of _ ?st] exI [of _ ?b] exI [of _ ?v]) simp
qed

theorem bind_static_tei_witness:
  "\<exists>st' b. lapd_bind True 5 3 sys0
      (af7 (sock0\<lparr>sk_state := LAPD_SK_STATE_NULL, usr_tme := None\<rparr>)) = Inr (0, st', b) \<and> tei (af_lapd b) = 5"
proof -
  let ?a = "af7 (sock0\<lparr>sk_state := LAPD_SK_STATE_NULL, usr_tme := None\<rparr>)"
  have a: "sk_state (af_lapd ?a) = LAPD_SK_STATE_NULL" "\<not> af_shutdown ?a" "af_dev ?a" "sk_backlog (af_lapd ?a) = []"
    "role (af_lapd ?a) = LAPD_INTF_ROLE_TE" "sk_hashed (af_lapd ?a)" "usr_tme (af_lapd ?a) = None"
    "5 \<le> LAPD_MAX_STA_TEI" "\<forall>h\<in>set (lapd_hash sys0). usr_tme (hs_sock h) \<noteq> Some 3"
    by (simp_all add: af7_def sock0_def af_shutdown_def LAPD_MAX_STA_TEI_def sys0_def)
  show ?thesis using bind_static_tei [OF a] by blast
qed


section \<open>Deviations\<close>

text \<open>The option T202 replaces the limit of requests N202, and leaves the duration of T202 alone.\<close>

lemma T202_option_sets_N202:
  assumes "af_dev a" "role (af_lapd a) = LAPD_INTF_ROLE_TE" "usr_tme (af_lapd a) = Some t"
  shows "set_int_option hz LAPD_TEI_MGMT_T202 v st a =
     Inr (0, st\<lparr>lapd_utme_hash := map (\<lambda>u. if utme_addr u = t then u\<lparr>utme_N202 := v * hz div 1000\<rparr> else u) (lapd_utme_hash st)\<rparr>, a)"
  using assms by (simp add: set_int_option_def set_N202_def)

text \<open>A network side socket bound to a static TEI keeps the TEI it had.\<close>

lemma bind_nt_tei_not_stored:
  assumes "sk_state (af_lapd a) = LAPD_SK_STATE_NULL" "\<not> af_shutdown a" "af_dev a" "sk_backlog (af_lapd a) = []"
    "role (af_lapd a) = LAPD_INTF_ROLE_NT" "t \<le> LAPD_MAX_STA_TEI"
  shows "\<exists>b. lapd_bind True t addr st a = Inr (0, st, b) \<and> tei (af_lapd b) = tei (af_lapd a)"
proof -
  have "t \<noteq> LAPD_BROADCAST_TEI" "t \<noteq> LAPD_DYNAMIC_TEI"
    using assms(6) by (auto simp: LAPD_BROADCAST_TEI_def LAPD_MAX_STA_TEI_def LAPD_DYNAMIC_TEI_def)
  then show ?thesis
    using assms by (simp add: lapd_bind_def Let_def lapd_lock_sock_def release_af_def release_sock_empty)
qed

text \<open>A bind that fails, for a dynamic TEI on the network side, leaves the socket unable to bind again.\<close>

lemma failed_bind_changes_state:
  assumes "sk_state (af_lapd a) = LAPD_SK_STATE_NULL" "\<not> af_shutdown a" "af_dev a" "sk_backlog (af_lapd a) = []"
    "role (af_lapd a) = LAPD_INTF_ROLE_NT"
  shows "\<exists>b. lapd_bind True LAPD_DYNAMIC_TEI addr st a = Inr (- EINVAL, st, b) \<and>
     sk_state (af_lapd b) = LAPD_SK_STATE_NORMAL_DLC"
  using assms
  by (simp add: lapd_bind_def Let_def lapd_lock_sock_def release_af_def release_sock_empty
      LAPD_DYNAMIC_TEI_def LAPD_BROADCAST_TEI_def LAPD_MAX_STA_TEI_def)

text \<open>
  An I frame without its second control octet has a negative length of data: the process is told that
  its whole buffer was filled, whatever its size, but got one octet at most.
\<close>

lemma short_iframe_reported_full:
  assumes "length d = 5" "lapd_frame_type (hdr_control d) = LAPD_FRAME_TYPE_IFRAME" "protocol \<noteq> LAPD_SAPI_MGMT"
  shows "\<exists>r. recv_copy protocol len (Rcv_frame d) = Inr r \<and> rv_copied r = int len \<and> length (rv_data r) \<le> 1"
  using assms by (simp add: recv_copy_def hdrsize_def Let_def)

end
