(* ===== verification/Lapd_Stations.thy ===== *)
theory Lapd_Stations
  imports Lapd_Af
begin

text \<open>
  Two stations at the ends of a link: the frames one of them sends, as layer 1 delivers them to the
  other. What is here composes the socket interface, the data link entities, TEI management and the
  input path; the properties are in the root theory.
\<close>

section \<open>Data frames\<close>

lemma frame_type_iframe: "lapd_frame_type (field7 n False) = LAPD_FRAME_TYPE_IFRAME"
proof -
  have "\<not> bit (field7 n False) 0" by (simp add: octet_simps)
  then have "field7 n False AND 1 = 0"
    by (simp add: and_one_eq odd_iff_mod_2_eq_one bit_0 even_iff_mod_2_eq_zero)
  then show ?thesis by (simp add: lapd_frame_type_def)
qed

text \<open>An I frame on the wire: the header with its numbers, the data and the octets of the CRC.\<close>

definition data_frame :: "lapd_sock \<Rightarrow> u8 \<Rightarrow> u8 \<Rightarrow> octets \<Rightarrow> octets" where
  "data_frame s n_s n_r data =
     make_address (sapi s) (lapd_make_cr (role s) LAPD_COMMAND) (tei s) @ [field7 n_s False, field7 n_r False] @ data"

lemma data_frame_prepared:
  "set_i_n_r n_r (set_i_n_s n_s (lapd_prepare_iframe s c1 c2 @ data)) = data_frame s n_s n_r data"
  by (simp add: data_frame_def lapd_prepare_iframe_def make_address_def set_i_n_s_def set_i_n_r_def octet_simps)

lemma data_frame_fields:
  "length (data_frame s n r data) = 4 + length data"
  "lapd_frame_type (hdr_control (data_frame s n r data @ x)) = LAPD_FRAME_TYPE_IFRAME"
  "n < 128 \<Longrightarrow> i_n_s (data_frame s n r data @ x) = n"
  "r < 128 \<Longrightarrow> s_n_r (data_frame s n r data @ x) = r"
  "\<not> i_p (data_frame s n r data @ x)"
  "drop 4 (data_frame s n r data @ x) = data @ x"
  by (simp_all add: data_frame_def make_address_def hdr_control_def i_n_s_def s_n_r_def i_p_def frame_type_iframe octet_simps)


section \<open>Two stations\<close>

text \<open>
  One message from a process at one station to a process at the other: it is sent, the frame
  arrives with the two octets of its CRC, the message is read, and the acknowledgement goes back.
\<close>

definition exchange ::
  "nat \<Rightarrow> u8 \<times> u8 \<Rightarrow> nat \<Rightarrow> octets \<Rightarrow> af_sock \<times> af_sock \<Rightarrow> (recv_result \<times> af_sock \<times> af_sock) res" where
  "exchange ptr c len data x =
     (case x of (a, b) \<Rightarrow>
       bind_res (lapd_sendmsg False [] (Inr ptr) c True data a) (\<lambda>(n, a).
       bind_res (lapd_pass_frame_to_socket (Skb_frame (last (ph_out (af_lapd a)) @ [0, 0])) (af_lapd b)) (\<lambda>(q, r).
       bind_res (lapd_recvmsg len 0 (set_lapd r b)) (\<lambda>(res, b).
       bind_res (lapd_pass_frame_to_socket (Skb_frame (last (ph_out r) @ [0, 0])) (af_lapd a)) (\<lambda>(q, s).
         Inr (res, set_lapd s a, b))))))"

text \<open>A socket of an established link with nothing on its way, and two such sockets in step.\<close>

definition idle :: "af_sock \<Rightarrow> bool" where
  "idle a \<longleftrightarrow> af_dev a \<and> \<not> af_shut_rd a \<and> \<not> af_shut_wr a \<and> af_err a = 0 \<and> af_protocol a \<noteq> LAPD_SAPI_MGMT \<and>
     (let s = af_lapd a in
      sk_state s = LAPD_SK_STATE_NORMAL_DLC \<and> in_7 s \<and> sk_backlog s = [] \<and> \<not> sk_owned_by_user s \<and>
      v_s s < 128 \<and> v_r s < 128 \<and> v_a s = v_s s \<and> sk_write_queue s = [] \<and> sk_send_head s = None \<and>
      1 \<le> sap_k (sap s) \<and> sap_k (sap s) \<le> 30 \<and> \<not> peer_receiver_busy s \<and> \<not> own_receiver_busy s \<and>
      sk_receive_queue s = [] \<and> sk_rmem_alloc s = 0 \<and> 0 < sk_rcvbuf s)"

definition in_step :: "af_sock \<Rightarrow> af_sock \<Rightarrow> bool" where
  "in_step a b \<longleftrightarrow> idle a \<and> idle b \<and> role (af_lapd b) = peer_role (role (af_lapd a)) \<and>
     v_r (af_lapd b) = v_s (af_lapd a) \<and> v_r (af_lapd a) = v_s (af_lapd b)"

lemma idle_window_open: "idle a \<Longrightarrow> \<not> window_closed (af_lapd a)"
proof -
  assume i: "idle a"
  let ?v = "unat (v_s (af_lapd a))" and ?k = "sap_k (sap (af_lapd a))"
  have "?v < 128" "1 \<le> ?k" "?k \<le> 30" "v_a (af_lapd a) = v_s (af_lapd a)"
    using i by (simp_all add: idle_def Let_def word_less_nat_alt)
  moreover have "?v \<noteq> (?v + ?k) mod 128"
    using calculation by (cases "?v + ?k < 128") (auto simp: mod_if)
  ultimately show ?thesis by (simp add: window_closed_def)
qed

lemma data_request_idle:
  assumes "in_7 s" "sk_write_queue s = []" "sk_send_head s = None" "\<not> peer_receiver_busy s" "\<not> window_closed s"
  shows "lapd_dl_data_request \<lparr>skb_ptr = ptr, skb_data = lapd_prepare_iframe s c1 c2 @ data\<rparr> s =
    (let d = data_frame s (v_s s) (v_r s) data
     in Inr (s\<lparr>sk_write_queue := [\<lparr>skb_ptr = ptr, skb_data = d\<rparr>],
          timer_T200 := True, timer_T203 := (timer_T200 s \<and> timer_T203 s), ph_out := ph_out s @ [d],
          v_s := (v_s s + 1) mod 128\<rparr>))"
  using assms data_frame_prepared [of "v_r s" "v_s s" s c1 c2 data]
  by (cases s)
     (simp add: lapd_dl_data_request_def lapd_sock_queue_iframe_def lapd_run_i_queue_def window_closed_def
      write_skb_def ph_data_request_def Let_def)

lemma send_idle:
  assumes "idle a" "length data \<le> mtu (af_lapd a)"
  shows "lapd_sendmsg False [] (Inr ptr) c True data a =
    (let s = af_lapd a; d = data_frame s (v_s s) (v_r s) data
     in Inr (int (length data), set_lapd (s\<lparr>sk_write_queue := [\<lparr>skb_ptr = ptr, skb_data = d\<rparr>],
          timer_T200 := True, timer_T203 := (timer_T200 s \<and> timer_T203 s), ph_out := ph_out s @ [d],
          v_s := (v_s s + 1) mod 128, sk_owned_by_user := False\<rparr>) a))"
proof -
  let ?s = "(af_lapd a)\<lparr>sk_owned_by_user := True\<rparr>"
  have i: "sk_state ?s = LAPD_SK_STATE_NORMAL_DLC" "in_7 ?s" "sk_backlog ?s = []" "sk_write_queue ?s = []"
    "sk_send_head ?s = None" "\<not> peer_receiver_busy ?s" "\<not> window_closed ?s" "af_err a = 0" "\<not> af_shut_wr a" "af_dev a"
    using assms(1) idle_window_open [OF assms(1)] by (simp_all add: idle_def Let_def window_closed_def)
  have p: "data_frame ?s n r data = data_frame (af_lapd a) n r data" for n r by (simp add: data_frame_def)
  have al: "sendmsg_alloc [] ?s = Inr ?s"
    using i(3) by (simp add: sendmsg_alloc_def release_sock_empty lapd_lock_sock_def)
  let ?t = "?s\<lparr>sk_write_queue := [\<lparr>skb_ptr = ptr, skb_data = data_frame ?s (v_s ?s) (v_r ?s) data\<rparr>],
          timer_T200 := True, timer_T203 := (timer_T200 ?s \<and> timer_T203 ?s),
          ph_out := ph_out ?s @ [data_frame ?s (v_s ?s) (v_r ?s) data], v_s := (v_s ?s + 1) mod 128\<rparr>"
  have rq: "sendmsg_request False ptr c True data ?s = Inr (int (length data), ?t)"
    using data_request_idle [OF i(2,4-7), of ptr "fst c" "snd c" data] by (simp add: sendmsg_request_def Let_def)
  have "lapd_release_sock ?t = Inr (?t\<lparr>sk_owned_by_user := False\<rparr>)" by (rule release_sock_empty) (simp add: i(3) [simplified])
  then show ?thesis
    using assms(2) i(1,8-10) al rq
    by (simp add: lapd_sendmsg_def lapd_lock_sock_def Let_def returning_def release_af_def p)
qed


text \<open>The receiving station takes the frame, acknowledges it and stays idle but for the message.\<close>

lemma receive_idle:
  assumes "idle b" "i_n_s d = v_r (af_lapd b)" "s_n_r d = v_s (af_lapd b)" "\<not> i_p d"
    "lapd_frame_type (hdr_control d) = LAPD_FRAME_TYPE_IFRAME" "length d \<le> mtu (af_lapd b)"
  shows "\<exists>r. lapd_pass_frame_to_socket (Skb_frame d) (af_lapd b) = Inr (True, r) \<and>
     sk_receive_queue r = [Rcv_frame d] \<and> sk_rmem_alloc r = sk_truesize r (Rcv_frame d) \<and>
     v_r r = (v_r (af_lapd b) + 1) mod 128 \<and> ph_out r = ph_out (af_lapd b) @ [lapd_prepare_sframe r LAPD_RESPONSE LAPD_SFRAME_FUNC_RR False] \<and>
     role r = role (af_lapd b) \<and> idle (set_lapd (r\<lparr>sk_receive_queue := [], sk_rmem_alloc := 0\<rparr>) b) \<and>
     v_s r = v_s (af_lapd b) \<and> mtu r = mtu (af_lapd b) \<and> sk_backlog r = [] \<and> \<not> sk_owned_by_user r \<and> sk_state r = LAPD_SK_STATE_NORMAL_DLC"
proof -
  let ?b = "af_lapd b"
  have m: "(v_r ?b + 1) mod 128 < 128" by (simp add: word_mod_less_divisor)
  have i: "in_7 ?b" "\<not> sk_owned_by_user ?b" "\<not> own_receiver_busy ?b" "\<not> peer_receiver_busy ?b" "v_a ?b = v_s ?b"
    "sk_rmem_alloc ?b = 0" "0 < sk_rcvbuf ?b" "sk_receive_queue ?b = []" "sk_backlog ?b = []" "sk_state ?b = LAPD_SK_STATE_NORMAL_DLC"
    using assms(1) by (simp_all add: idle_def Let_def)
  have "lapd_pass_frame_to_socket (Skb_frame d) ?b =
      Inr (True, iframe_ack_7 d (snd (iframe_receive True d ?b)))"
    using assms(2-6) i by (simp add: lapd_pass_frame_to_socket_def lapd_dlc_recv_def lapd_socket_handle_iframe_def iframe_receive_def Let_def)
  moreover have "idle (set_lapd ((iframe_ack_7 d (snd (iframe_receive True d ?b)))\<lparr>sk_receive_queue := [], sk_rmem_alloc := 0\<rparr>) b)"
    using assms i m
    by (simp add: iframe_ack_7_def iframe_receive_def lapd_is_valid_nr_def lapd_ack_va_def lapd_ack_frames_def
        sock_upds lapd_dl_data_indication_def idle_def Let_def)
  ultimately show ?thesis
    using assms i
    by (simp add: iframe_ack_7_def iframe_receive_def lapd_is_valid_nr_def lapd_ack_va_def lapd_ack_frames_def
        sock_upds lapd_dl_data_indication_def Let_def lapd_prepare_sframe_def)
qed


lemma succ_mod_neq: "(v :: u8) < 128 \<Longrightarrow> (v + 1) mod 128 \<noteq> v"
proof -
  assume v: "v < 128"
  then have n: "unat v < 128" by (simp add: word_less_nat_alt)
  then have "unat ((v + 1) mod 128) = (unat v + 1) mod 128"
    by (simp add: unat_mod unat_word_ariths)
  also have "\<dots> \<noteq> unat v" using n by (cases "unat v = 127") auto
  finally show ?thesis by auto
qed

text \<open>The acknowledgement of its only frame makes the sending station idle again.\<close>

lemma acknowledge_idle:
  assumes "idle a" "s = (af_lapd a)\<lparr>sk_write_queue := [\<lparr>skb_ptr = ptr, skb_data = d\<rparr>], timer_T200 := True,
       timer_T203 := t203, ph_out := out, v_s := (v_s (af_lapd a) + 1) mod 128, sk_owned_by_user := False\<rparr>"
    "i_n_s d = v_s (af_lapd a)" "role r = peer_role (role (af_lapd a))" "v_r r = (v_s (af_lapd a) + 1) mod 128"
  shows "\<exists>t. lapd_pass_frame_to_socket (Skb_frame (lapd_prepare_sframe r LAPD_RESPONSE LAPD_SFRAME_FUNC_RR False @ [0, 0])) s =
      Inr (False, t) \<and> idle (set_lapd t a) \<and> v_s t = (v_s (af_lapd a) + 1) mod 128 \<and> v_r t = v_r (af_lapd a) \<and>
      role t = role (af_lapd a) \<and> mtu t = mtu (af_lapd a)"
proof -
  let ?d = "lapd_prepare_sframe r LAPD_RESPONSE LAPD_SFRAME_FUNC_RR False @ [0, 0]"
  have m: "(v_s (af_lapd a) + 1) mod 128 < 128" by (simp add: word_mod_less_divisor)
  have ne: "(v_s (af_lapd a) + 1) mod 128 \<noteq> v_s (af_lapd a)"
    using assms(1) by (intro succ_mod_neq) (simp add: idle_def Let_def)
  have d: "lapd_frame_type (hdr_control ?d) = LAPD_FRAME_TYPE_SFRAME" "lapd_sframe_function (hdr_control ?d) = LAPD_SFRAME_FUNC_RR"
    "length ?d = 6" "s_n_r ?d = (v_s (af_lapd a) + 1) mod 128" "\<not> s_p_f ?d"
    "lapd_rx_is_response (role (af_lapd a)) (addr_c_r ?d)"
    using m assms(4,5) rx_cr_of_make_cr(2) [of "peer_role (role (af_lapd a))" LAPD_RESPONSE]
    by (simp_all add: lapd_prepare_sframe_def hdr_control_def make_address_def sframe_make_control_fields s_n_r_def s_p_f_def
        sframe_make_control2_field7 octet_simps addr_c_r_def bit_address0)
       (cases "role (af_lapd a)"; simp)
  have i: "in_7 (af_lapd a)" "\<not> sk_owned_by_user (af_lapd a)" "v_a (af_lapd a) = v_s (af_lapd a)" "sk_send_head (af_lapd a) = None"
    using assms(1) by (simp_all add: idle_def Let_def)
  let ?u = "s\<lparr>peer_receiver_busy := False, sk_write_queue := [], v_a := (v_s (af_lapd a) + 1) mod 128, timer_T200 := False, timer_T203 := True\<rparr>"
  have "lapd_pass_frame_to_socket (Skb_frame ?d) s = Inr (False, ?u)"
    using assms(2,3) d i ne
    by (simp add: lapd_pass_frame_to_socket_def lapd_dlc_recv_def lapd_socket_handle_sframe_def not_queued_def
        lapd_socket_handle_sframe_rr_def sframe_poll_7_def lapd_is_valid_nr_def lapd_ack_va_def lapd_ack_frames_def
        lapd_stop_T200_def lapd_start_T203_def Let_def)
  moreover have "idle (set_lapd ?u a)" using assms(1,2) m by (simp add: idle_def Let_def)
  ultimately show ?thesis using assms(2) by simp
qed


lemma recv_idle:
  assumes "idle b0" "b = set_lapd r b0" "sk_receive_queue r = [Rcv_frame d]" "sk_rmem_alloc r = sk_truesize r (Rcv_frame d)"
    "sk_backlog r = []" "\<not> sk_owned_by_user r" "sk_state r = LAPD_SK_STATE_NORMAL_DLC"
  shows "lapd_recvmsg len err b =
     bind_res (recv_copy (af_protocol b0) len (Rcv_frame d)) (\<lambda>res.
       Inr (res, set_lapd (r\<lparr>sk_owned_by_user := False, sk_receive_queue := [], sk_rmem_alloc := 0\<rparr>) b0))"
  using assms
  by (simp add: lapd_recvmsg_def Let_def idle_def lapd_lock_sock_def release_af_def release_sock_empty)

lemma idle_owned [simp]: "idle (set_lapd (s\<lparr>sk_owned_by_user := False, sk_receive_queue := q, sk_rmem_alloc := n\<rparr>) a) =
    idle (set_lapd (s\<lparr>sk_receive_queue := q, sk_rmem_alloc := n\<rparr>) a)" if "\<not> sk_owned_by_user s"
  using that by (simp add: idle_def Let_def)

lemma exchange_idle:
  assumes "in_step a b" "length data \<le> len" "length data \<le> mtu (af_lapd a)" "length data + 6 \<le> mtu (af_lapd b)"
  shows "\<exists>a' b'. exchange ptr c len data (a, b) =
      Inr (\<lparr>rv_copied = int (length data), rv_data = data, rv_oob = False, rv_trunc = False\<rparr>, a', b') \<and>
      in_step a' b' \<and> mtu (af_lapd a') = mtu (af_lapd a) \<and> mtu (af_lapd b') = mtu (af_lapd b)"
proof -
  let ?s = "af_lapd a"
  let ?f = "data_frame ?s (v_s ?s) (v_r ?s) data"
  let ?t = "?s\<lparr>sk_write_queue := [\<lparr>skb_ptr = ptr, skb_data = ?f\<rparr>], timer_T200 := True,
      timer_T203 := (timer_T200 ?s \<and> timer_T203 ?s), ph_out := ph_out ?s @ [?f], v_s := (v_s ?s + 1) mod 128, sk_owned_by_user := False\<rparr>"
  have i: "idle a" "idle b" "role (af_lapd b) = peer_role (role ?s)" "v_r (af_lapd b) = v_s ?s" "v_r ?s = v_s (af_lapd b)"
    "v_s ?s < 128" "v_r ?s < 128" "af_protocol b \<noteq> LAPD_SAPI_MGMT"
    using assms(1) by (simp_all add: in_step_def idle_def Let_def)
  have s: "lapd_sendmsg False [] (Inr ptr) c True data a = Inr (int (length data), set_lapd ?t a)"
    using send_idle [OF i(1) assms(3)] by (simp add: Let_def)
  have fr: "i_n_s (?f @ [0, 0]) = v_s ?s" "i_n_s ?f = v_s ?s" "s_n_r (?f @ [0, 0]) = v_r ?s" "\<not> i_p (?f @ [0, 0])"
    "lapd_frame_type (hdr_control (?f @ [0, 0])) = LAPD_FRAME_TYPE_IFRAME" "length (?f @ [0, 0]) = length data + 6"
    "drop 4 (?f @ [0, 0]) = data @ [0, 0]"
    using data_frame_fields(1) [where s = ?s and n = "v_s ?s" and r = "v_r ?s" and data = data]
      data_frame_fields(2-) [where s = ?s and n = "v_s ?s" and r = "v_r ?s" and data = data and x = "[0, 0]"]
      data_frame_fields(3) [where s = ?s and n = "v_s ?s" and r = "v_r ?s" and data = data and x = "[]"] i(6,7) by simp_all
  obtain r where r: "lapd_pass_frame_to_socket (Skb_frame (?f @ [0, 0])) (af_lapd b) = Inr (True, r)"
    "sk_receive_queue r = [Rcv_frame (?f @ [0, 0])]" "sk_rmem_alloc r = sk_truesize r (Rcv_frame (?f @ [0, 0]))"
    "v_r r = (v_s ?s + 1) mod 128" "last (ph_out r) = lapd_prepare_sframe r LAPD_RESPONSE LAPD_SFRAME_FUNC_RR False"
    "role r = peer_role (role ?s)" "idle (set_lapd (r\<lparr>sk_receive_queue := [], sk_rmem_alloc := 0\<rparr>) b)" "v_s r = v_r ?s"
    "mtu r = mtu (af_lapd b)" "sk_backlog r = []" "\<not> sk_owned_by_user r" "sk_state r = LAPD_SK_STATE_NORMAL_DLC"
    using receive_idle [OF i(2), of "?f @ [0, 0]"] fr i(3-5) assms(4) by fastforce
  have c: "recv_copy (af_protocol b) len (Rcv_frame (?f @ [0, 0])) =
      Inr \<lparr>rv_copied = int (length data), rv_data = data, rv_oob = False, rv_trunc = False\<rparr>"
    using assms(2) i(8) fr(5-7) by (simp add: recv_copy_def hdrsize_def Let_def)
  obtain t where t: "lapd_pass_frame_to_socket (Skb_frame (lapd_prepare_sframe r LAPD_RESPONSE LAPD_SFRAME_FUNC_RR False @ [0, 0])) ?t = Inr (False, t)"
    "idle (set_lapd t a)" "v_s t = (v_s ?s + 1) mod 128" "v_r t = v_r ?s" "role t = role ?s" "mtu t = mtu ?s"
    using acknowledge_idle [OF i(1) refl fr(2) r(6,4)] by blast
  let ?r = "r\<lparr>sk_owned_by_user := False, sk_receive_queue := [], sk_rmem_alloc := 0\<rparr>"
  have "exchange ptr c len data (a, b) =
      Inr (\<lparr>rv_copied = int (length data), rv_data = data, rv_oob = False, rv_trunc = False\<rparr>, set_lapd t a, set_lapd ?r b)"
    using s r(1,5) t(1) c recv_idle [OF i(2) refl r(2,3,10-12)] by (simp add: exchange_def)
  moreover have "in_step (set_lapd t a) (set_lapd ?r b)"
    using r t by (simp add: in_step_def)
  ultimately show ?thesis using t(6) r(9) by auto
qed

text \<open>Messages one after the other, each with the address of its buffer.\<close>

fun conversation ::
  "u8 \<times> u8 \<Rightarrow> nat \<Rightarrow> (nat \<times> octets) list \<Rightarrow> af_sock \<times> af_sock \<Rightarrow> (recv_result list \<times> af_sock \<times> af_sock) res" where
  "conversation c len [] x = Inr ([], x)"
| "conversation c len ((ptr, data) # ms) x =
     bind_res (exchange ptr c len data x) (\<lambda>(r, x).
       bind_res (conversation c len ms x) (\<lambda>(rs, x). Inr (r # rs, x)))"

section \<open>Setting up a link\<close>

text \<open>A frame as layer 1 delivers it: the header of the primitive, the frame, the octets of its CRC.\<close>

definition on_wire :: "octets \<Rightarrow> octets" where
  "on_wire f = [primitive_code LAPD_PH_DATA_INDICATION, 0, 0, 0] @ f @ [0, 0]"

lemma rcv_on_wire:
  "lapd_rcv ris (on_wire f) devno st =
     bind_res (lapd_ph_data_indication ris (f @ [0, 0]) devno st) (\<lambda>(queued, held, st).
       if \<not> queued \<and> held then Inl UseAfterFree else Inr st)"
  by (simp add: lapd_rcv_def on_wire_def)

lemma address_append:
  "2 \<le> length d \<Longrightarrow> addr_sapi (d @ x) = addr_sapi d" "2 \<le> length d \<Longrightarrow> addr_tei (d @ x) = addr_tei d"
  "2 \<le> length d \<Longrightarrow> addr_ea1 (d @ x) = addr_ea1 d" "2 \<le> length d \<Longrightarrow> addr_ea2 (d @ x) = addr_ea2 d"
  "2 \<le> length d \<Longrightarrow> addr_c_r (d @ x) = addr_c_r d"
  "3 \<le> length d \<Longrightarrow> hdr_control (d @ x) = hdr_control d" "3 \<le> length d \<Longrightarrow> u_p_f (d @ x) = u_p_f d"
  by (auto simp: addr_sapi_def addr_tei_def addr_ea1_def addr_ea2_def addr_c_r_def hdr_control_def u_p_f_def nth_append)

lemma tm_append:
  "8 \<le> length d \<Longrightarrow> tm_entity (d @ x) = tm_entity d" "8 \<le> length d \<Longrightarrow> tm_ri (d @ x) = tm_ri d"
  "8 \<le> length d \<Longrightarrow> tm_message_type (d @ x) = tm_message_type d" "8 \<le> length d \<Longrightarrow> tm_ai (d @ x) = tm_ai d"
  by (simp_all add: tm_entity_def tm_ri_def tm_message_type_def tm_ai_def nth_append)

lemma tm_ai_frame: "v < 128 \<Longrightarrow> tm_ai (lapd_tm_frame r mt ri [v]) = v"
  by (simp add: tm_ai_def lapd_tm_frame_def make_address_def u16_octets_def ai_value_def octet_simps)

lemmas tm_wire = address_append tm_append tm_ai_frame octet_simps

text \<open>The network assigns a free TEI to a request.\<close>

lemma request_on_wire:
  assumes "lapd_ntme_hash st = [t]" "ntme_alloc_ok t" "ntme_dev t = devno" "ntme_free t \<noteq> {}"
    "dev_inv (lapd_devs st devno)" "dev_role (lapd_devs st devno) = LAPD_INTF_ROLE_NT"
    "dev_mode (lapd_devs st devno) = LAPD_INTF_MODE_MULTIPOINT"
  shows "\<exists>v t' dev'. lapd_rcv ris (on_wire (lapd_tm_frame LAPD_INTF_ROLE_TE LAPD_TEI_MT_REQUEST ri [127])) devno st =
       Inr (st\<lparr>lapd_ntme_hash := [t'], lapd_devs := (lapd_devs st)(devno := dev')\<rparr>) \<and>
     v \<in> ntme_free t \<and> ntme_free t' = ntme_free t - {v} \<and>
     dev_frames dev' = dev_frames (lapd_devs st devno) @ [lapd_tm_frame LAPD_INTF_ROLE_NT LAPD_TEI_MT_ASSIGNED ri [word_of_nat v]] \<and>
     dev_inv dev' \<and> dev_role dev' = LAPD_INTF_ROLE_NT"
proof -
  let ?f = "lapd_tm_frame LAPD_INTF_ROLE_TE LAPD_TEI_MT_REQUEST ri [127]"
  obtain r u where s: "tei_search LAPD_NUM_DYN_TEIS t = (r, u)" by fastforce
  then obtain v where v: "r = Some v" "v \<in> ntme_free t" "ntme_free u = ntme_free t - {v}"
    using dyn_teis.alloc_none [OF assms(2)] tei_search_some [OF assms(2)] assms(4) by (cases r) auto
  let ?dev = "lapd_ntme_send_tei_assigned ri (word_of_nat v) (lapd_devs st devno)"
  have d: "dev_frames ?dev = dev_frames (lapd_devs st devno) @ [lapd_tm_frame LAPD_INTF_ROLE_NT LAPD_TEI_MT_ASSIGNED ri [word_of_nat v]]"
    "dev_inv ?dev" "dev_role ?dev = LAPD_INTF_ROLE_NT"
    using tm_send_frames [OF assms(5)] assms(6) by (simp_all add: lapd_ntme_send_tei_assigned_def lapd_tm_send_def)
  have "ntme_tei_request (?f @ [0, 0]) (t, lapd_devs st devno) = (u, ?dev)"
    using s v by (simp add: ntme_tei_request_def tm_wire tei_consts)
  then have "lapd_ntme_handle_tei_request (?f @ [0, 0]) devno [t] (lapd_devs st devno) = ([u], ?dev)"
    using assms(3,7) by (simp add: lapd_ntme_handle_tei_request_def)
  then have "lapd_rcv ris (on_wire ?f) devno st = Inr (st\<lparr>lapd_ntme_hash := [u], lapd_devs := (lapd_devs st)(devno := ?dev)\<rparr>)"
    using assms(1,6)
    by (simp add: rcv_on_wire lapd_ph_data_indication_def tm_wire ntme_frame_def lapd_ntme_handle_frame_def tm_rd_def tei_consts)
  then show ?thesis using v d by blast
qed


lemma sock_done_single:
  assumes "lapd_hash st = [h0]" "hs_addr h0 = hs_addr h" "tm_out (hs_sock h) = []"
  shows "sock_done h st =
     st\<lparr>lapd_hash := [h\<lparr>hs_sock := (hs_sock h)\<lparr>tm_out := [], ph_out := []\<rparr>\<rparr>],
        lapd_devs := (lapd_devs st)(hs_dev h := lapd_ph_data_requests (ph_out (hs_sock h)) (lapd_devs st (hs_dev h)))\<rparr>"
  using assms by (simp add: sock_done_def drain_frames_def replace_sock_def Let_def)

text \<open>The user side takes the TEI and, if it waited for one, asks for the link.\<close>

lemma assigned_on_wire:
  assumes "lapd_utme_hash st = [u]" "utme_ok u" "utme_dev u = devno" "utme_tei_request_pending u"
    "lapd_hash st = [h]" "hs_dev h = devno" "s = hs_sock h" "sk_hashed s" "role s = LAPD_INTF_ROLE_TE"
    "usr_tme s = Some (utme_addr u)" "\<not> sk_owned_by_user s" "state s = LAPD_DLS_3_ESTABLISH_AWAITING_TEI"
    "ph_out s = []" "tm_out s = []" "dev_inv (lapd_devs st devno)" "dev_role (lapd_devs st devno) = LAPD_INTF_ROLE_TE" "v < 128"
  shows "\<exists>u' dev' sabme. lapd_rcv ris (on_wire (lapd_tm_frame LAPD_INTF_ROLE_NT LAPD_TEI_MT_ASSIGNED (utme_tei_request_ri u) [v])) devno st =
      Inr (st\<lparr>lapd_utme_hash := [u'], lapd_hash := [h\<lparr>hs_sock := (lapd_mdl_assign_request v s)\<lparr>tm_out := [], ph_out := []\<rparr>\<rparr>],
              lapd_devs := (lapd_devs st)(devno := dev')\<rparr>) \<and>
      utme_tei u' = v \<and> utme_state u' = LAPD_TME_TEI_ASSIGNED \<and> \<not> utme_tei_request_pending u' \<and>
      lapd_prepare_uframe (s\<lparr>tei := v\<rparr>) LAPD_UFRAME_FUNC_SABME True = Inr sabme \<and>
      dev_frames dev' = dev_frames (lapd_devs st devno) @ [sabme] \<and> dev_inv dev' \<and> dev_role dev' = LAPD_INTF_ROLE_TE"
proof -
  let ?f = "lapd_tm_frame LAPD_INTF_ROLE_NT LAPD_TEI_MT_ASSIGNED (utme_tei_request_ri u) [v]"
  obtain u' where u: "utme_assign v u [s] = (u', [lapd_mdl_assign_request v s])" "utme_tei u' = v"
    "utme_state u' = LAPD_TME_TEI_ASSIGNED" "\<not> utme_tei_request_pending u'"
    using assms(2,8-11)
    by (simp add: utme_assign_def utme_mdl_primitive_def lapd_mdl_primitive_def lapd_mdl_recv_def Let_def utme_defs)
  have h: "lapd_utme_handle_tei_assigned (?f @ [0, 0]) devno [u] [s] = ([u'], [lapd_mdl_assign_request v s])"
    using assms(2-4,17) u(1) by (simp add: tm_wire utme_ok_def)
  obtain sabme where sa: "lapd_prepare_uframe (s\<lparr>tei := v\<rparr>) LAPD_UFRAME_FUNC_SABME True = Inr sabme"
    "ph_out (lapd_mdl_assign_request v s) = [sabme]" "tm_out (lapd_mdl_assign_request v s) = []"
    using assms(12-14) by (simp add: lapd_mdl_assign_request_def sock_upds lapd_prepare_uframe_def)
  let ?st = "st\<lparr>lapd_utme_hash := [u'], lapd_hash := [h\<lparr>hs_sock := lapd_mdl_assign_request v s\<rparr>]\<rparr>"
  have d: "dev_frames (lapd_ph_data_request sabme (lapd_devs st devno)) = dev_frames (lapd_devs st devno) @ [sabme]"
    "dev_inv (lapd_ph_data_request sabme (lapd_devs st devno))"
    "dev_role (lapd_ph_data_request sabme (lapd_devs st devno)) = LAPD_INTF_ROLE_TE"
    using dev_step_frames [OF assms(15), of "Ev_request sabme"] dev_step_inv [OF assms(15), of "Ev_request sabme"] assms(16)
    by (simp_all add: lapd_ph_data_request_def lapd_send_ph_primitive_def dev_queue_xmit_def Let_def split: lapd_l1_state.split)
  have "utme_frame ris (?f @ [0, 0]) devno st = Inr (settle [hs_addr h] ?st)"
    using assms(1,5,7) h
    by (simp add: utme_frame_def lapd_utme_handle_frame_def tm_rd_def tm_wire tei_consts set_socks_def)
  also have "settle [hs_addr h] ?st = sock_done (h\<lparr>hs_sock := lapd_mdl_assign_request v s\<rparr>) ?st" by simp
  also have "\<dots> = ?st\<lparr>lapd_hash := [h\<lparr>hs_sock := (lapd_mdl_assign_request v s)\<lparr>tm_out := [], ph_out := []\<rparr>\<rparr>],
        lapd_devs := (lapd_devs st)(devno := lapd_ph_data_request sabme (lapd_devs st devno))\<rparr>"
    using sock_done_single [where h0 = "h\<lparr>hs_sock := lapd_mdl_assign_request v s\<rparr>" and st = ?st
        and h = "h\<lparr>hs_sock := lapd_mdl_assign_request v s\<rparr>"] assms(6) sa(2,3) by simp
  finally have "lapd_rcv ris (on_wire ?f) devno st = Inr (st\<lparr>lapd_utme_hash := [u'],
      lapd_hash := [h\<lparr>hs_sock := (lapd_mdl_assign_request v s)\<lparr>tm_out := [], ph_out := []\<rparr>\<rparr>],
      lapd_devs := (lapd_devs st)(devno := lapd_ph_data_request sabme (lapd_devs st devno))\<rparr>)"
    using assms(16) by (simp add: rcv_on_wire lapd_ph_data_indication_def tm_wire)
  then show ?thesis using u sa(1) d by blast
qed


lemma prepared_uframe_fields:
  assumes "lapd_prepare_uframe s func p_f = Inr f" "sapi s < 64" "tei s < 128" "state s \<noteq> LAPD_DLS_LISTENING"
  shows "length f = 3" "addr_sapi f = sapi s" "addr_tei f = tei s" "\<not> addr_ea1 f" "addr_ea2 f"
    "lapd_frame_type (hdr_control f) = LAPD_FRAME_TYPE_UFRAME" "lapd_uframe_function (hdr_control f) = func" "u_p_f f = p_f"
proof -
  have n: "func \<noteq> LAPD_UFRAME_FUNC_INVALID" using assms(1) by (auto simp: lapd_prepare_uframe_def)
  then obtain c where f: "f = make_address (sapi s) c (tei s) @ [lapd_uframe_make_control func p_f]"
    using assms(1,4) by (auto simp: lapd_prepare_uframe_def)
  show "length f = 3" "addr_sapi f = sapi s" "addr_tei f = tei s" "\<not> addr_ea1 f" "addr_ea2 f"
    "lapd_frame_type (hdr_control f) = LAPD_FRAME_TYPE_UFRAME" "lapd_uframe_function (hdr_control f) = func" "u_p_f f = p_f"
    using assms(2,3) n unfolding f
    by (simp_all add: address_fields)
       (simp_all add: hdr_control_def u_p_f_def make_address_def uframe_make_control_fields)
qed

text \<open>The network sets up the link for the new TEI.\<close>

lemma sabme_on_wire:
  assumes "lapd_prepare_uframe s LAPD_UFRAME_FUNC_SABME p_f = Inr f" "sapi s = LAPD_SAPI_Q931 \<or> sapi s = LAPD_SAPI_X25" "tei s < 128"
    "state s \<noteq> LAPD_DLS_LISTENING" "lapd_hash st = [l]" "hs_dev l = devno" "sk_state (hs_sock l) = LAPD_SK_STATE_LISTEN" "hs_addr l < next_addr st"
    "dev_inv (lapd_devs st devno)" "dev_role (lapd_devs st devno) = LAPD_INTF_ROLE_NT"
  shows "\<exists>st' h ua. lapd_rcv ris (on_wire f) devno st = Inr st' \<and> h \<in> set (lapd_hash st') \<and>
     hs_dev h = devno \<and> in_7 (hs_sock h) \<and> sapi (hs_sock h) = sapi s \<and> tei (hs_sock h) = tei s \<and>
     sk_receive_queue (hs_sock h) = [Rcv_primitive LAPD_DL_ESTABLISH_INDICATION 0] \<and>
     lapd_prepare_uframe (hs_sock h) LAPD_UFRAME_FUNC_UA p_f = Inr ua \<and>
     dev_frames (lapd_devs st' devno) = dev_frames (lapd_devs st devno) @ [ua]"
proof -
  have sa: "sapi s < 64" "sapi s \<noteq> LAPD_SAPI_TEI_MGMT" using assms(2) by (auto simp: LAPD_SAPI_Q931_def LAPD_SAPI_X25_def tei_consts)
  note f = prepared_uframe_fields [OF assms(1) sa(1) assms(3,4)]
  let ?d = "f @ [0, 0]"
  have lk: "nt_lookup ?d devno None (lapd_hash st) = (None, Some l)" "hash_ok st"
    using assms(5-8) by (simp_all add: hash_ok_def)
  obtain st' h ua where r: "lapd_pass_frame_to_socket_nt ?d devno st = Inr (False, st')" "h \<in> set (lapd_hash st')"
     "hs_dev h = devno" "in_7 (hs_sock h)" "sapi (hs_sock h) = sapi s" "tei (hs_sock h) = tei s"
     "sk_receive_queue (hs_sock h) = [Rcv_primitive LAPD_DL_ESTABLISH_INDICATION 0]"
     "lapd_prepare_uframe (hs_sock h) LAPD_UFRAME_FUNC_UA p_f = Inr ua"
     "dev_frames (lapd_devs st' devno) = dev_frames (lapd_devs st devno) @ [ua]"
    using sabme_new_link [OF lk _ _ _ _ assms(9)] f assms(2) by (fastforce simp: address_append)
  have "lapd_rcv ris (on_wire f) devno st = Inr st'"
    using f r(1) sa(2) assms(10) by (simp add: rcv_on_wire lapd_ph_data_indication_def address_append)
  then show ?thesis using r by blast
qed

text \<open>The user side completes the establishment.\<close>

lemma ua_on_wire:
  assumes "lapd_prepare_uframe r LAPD_UFRAME_FUNC_UA True = Inr f" "sapi r = sapi s" "tei r = tei s" "sapi s < 63" "tei s < 128"
    "lapd_hash st = [h]" "hs_dev h = devno" "s = hs_sock h" "\<not> sk_owned_by_user s" "sk_state s = LAPD_SK_STATE_NORMAL_DLC"
    "state s = LAPD_DLS_5_AWAITING_ESTABLISH" "layer_3_initiated s" "sk_send_head s = None" "tm_out s = []"
    "dev_role (lapd_devs st devno) = LAPD_INTF_ROLE_TE" "state r \<noteq> LAPD_DLS_LISTENING"
  shows "\<exists>st' h'. lapd_rcv ris (on_wire f) devno st = Inr st' \<and> lapd_hash st' = [h'] \<and> in_7 (hs_sock h') \<and>
     tei (hs_sock h') = tei s \<and> sapi (hs_sock h') = sapi s \<and> v_s (hs_sock h') = 0 \<and> v_a (hs_sock h') = 0 \<and> v_r (hs_sock h') = 0 \<and>
     sk_receive_queue (hs_sock h') = sk_receive_queue s @ [Rcv_primitive LAPD_DL_ESTABLISH_CONFIRM 0]"
proof -
  have "sapi s < 64" "sapi s \<noteq> LAPD_SAPI_TEI_MGMT" using assms(4) by (auto simp: tei_consts word_less_nat_alt)
  note f = prepared_uframe_fields [OF assms(1), unfolded assms(2,3), OF this(1) assms(5,16)]
  let ?d = "f @ [0, 0]"
  let ?t = "lapd_dl_primitive LAPD_DL_ESTABLISH_CONFIRM 0 (lapd_change_state LAPD_DLS_7_LINK_CONNECTION_ESTABLISHED
      (reset_counters (lapd_start_T203 (lapd_stop_T200 s))))"
  have t: "in_7 ?t" "tei ?t = tei s" "sapi ?t = sapi s" "v_s ?t = 0" "v_a ?t = 0" "v_r ?t = 0" "tm_out ?t = []"
    "sk_receive_queue ?t = sk_receive_queue s @ [Rcv_primitive LAPD_DL_ESTABLISH_CONFIRM 0]" "sk_send_head ?t = None"
    using assms(10,13,14) by (simp_all add: sock_upds)
  have p: "pass_to_entry ?d h = Inr (False, h\<lparr>hs_sock := ?t\<rparr>)"
    using f assms(8-13) t(9)
    by (simp add: pass_to_entry_def starts_timer_def lapd_pass_frame_to_socket_def lapd_dlc_recv_def address_append
        lapd_socket_handle_uframe_def lapd_socket_handle_uframe_ua_def not_queued_def Let_def)
       (simp add: lapd_run_i_queue_def sock_upds)
  have m: "te_match ?d devno h" using f assms(7,8,10) by (simp add: te_match_def address_append)
  let ?st = "sock_done (h\<lparr>hs_sock := ?t\<rparr>) st"
  have "lapd_pass_frame_to_socket_te ?d devno st = Inr (False, False, ?st)"
    using assms(6) m p by (simp add: lapd_pass_frame_to_socket_te_def)
  then have "lapd_rcv ris (on_wire f) devno st = Inr ?st"
    using f \<open>sapi s \<noteq> LAPD_SAPI_TEI_MGMT\<close> assms(15) by (simp add: rcv_on_wire lapd_ph_data_indication_def address_append)
  moreover have "lapd_hash ?st = [h\<lparr>hs_sock := ?t\<lparr>tm_out := [], ph_out := []\<rparr>\<rparr>]"
    using sock_done_single [OF assms(6), of "h\<lparr>hs_sock := ?t\<rparr>"] t(7) by simp
  ultimately show ?thesis using t by (intro exI [of _ ?st]) simp
qed


text \<open>
  A user station with one socket that waits for a TEI to set up its link, its request sent; a network
  station that has a TEI to give and a socket that listens.
\<close>

definition awaiting_tei :: "nat \<Rightarrow> lapd_system \<Rightarrow> lapd_utme \<Rightarrow> hashed_sock \<Rightarrow> bool" where
  "awaiting_tei devno te u h \<longleftrightarrow>
     lapd_utme_hash te = [u] \<and> utme_ok u \<and> utme_dev u = devno \<and> utme_tei_request_pending u \<and>
     lapd_hash te = [h] \<and> hs_dev h = devno \<and>
     (let s = hs_sock h in
      sk_hashed s \<and> role s = LAPD_INTF_ROLE_TE \<and> usr_tme s = Some (utme_addr u) \<and> \<not> sk_owned_by_user s \<and>
      sk_state s = LAPD_SK_STATE_NORMAL_DLC \<and> state s = LAPD_DLS_3_ESTABLISH_AWAITING_TEI \<and>
      (sapi s = LAPD_SAPI_Q931 \<or> sapi s = LAPD_SAPI_X25) \<and> sk_send_head s = None \<and> ph_out s = [] \<and> tm_out s = []) \<and>
     dev_inv (lapd_devs te devno) \<and> dev_role (lapd_devs te devno) = LAPD_INTF_ROLE_TE"

definition network_ready :: "nat \<Rightarrow> lapd_system \<Rightarrow> lapd_ntme \<Rightarrow> bool" where
  "network_ready devno nt t \<longleftrightarrow>
     lapd_ntme_hash nt = [t] \<and> ntme_alloc_ok t \<and> ntme_dev t = devno \<and> ntme_free t \<noteq> {} \<and>
     (\<exists>l. lapd_hash nt = [l] \<and> hs_dev l = devno \<and> sk_state (hs_sock l) = LAPD_SK_STATE_LISTEN \<and> hs_addr l < next_addr nt) \<and>
     dev_inv (lapd_devs nt devno) \<and> dev_role (lapd_devs nt devno) = LAPD_INTF_ROLE_NT \<and>
     dev_mode (lapd_devs nt devno) = LAPD_INTF_MODE_MULTIPOINT"

lemma assigned_sock:
  assumes "state s = LAPD_DLS_3_ESTABLISH_AWAITING_TEI" "t = (lapd_mdl_assign_request v s)\<lparr>tm_out := [], ph_out := []\<rparr>"
  shows "state t = LAPD_DLS_5_AWAITING_ESTABLISH" "tei t = v" "sapi t = sapi s" "layer_3_initiated t" "tm_out t = []"
    "sk_owned_by_user t = sk_owned_by_user s" "sk_state t = sk_state s" "sk_send_head t = sk_send_head s"
  using assms by (simp_all add: lapd_mdl_assign_request_def sock_upds)

end
