(* ===== verification/Q931_Ie.thy ===== *)
theory Q931_Ie
  imports Lapd_Device
begin

text \<open>
  Information elements of Q.931 (\<^verbatim>\<open>src/libq931/ie_*.c\<close>): for each element the code handles, its record and
  the functions that read it from the octets of a message and write it there. A reader gets the
  message from the first octet of the element's contents up to the end of the message buffer, and the length
  the message gives for the element; what it reads beyond that length is there for it to see. It
  returns the element, None where the source returns FALSE, or a fault for an access outside the buffer or
  outside an array of the element. A writer gives the octets, None where the source returns -1; the message
  buffer is zeroed before anything is written. \<open>mktime\<close> and \<open>localtime\<close> depend on the host and are parameters.
\<close>

section \<open>Bit fields\<close>

definition fget :: "nat \<Rightarrow> nat \<Rightarrow> u8 \<Rightarrow> u8" where
  "fget n w x = take_bit w (drop_bit n x)"

definition fput :: "nat \<Rightarrow> nat \<Rightarrow> u8 \<Rightarrow> u8" where
  "fput n w x = push_bit n (take_bit w x)"

abbreviation ext :: "u8 \<Rightarrow> bool" where "ext x \<equiv> bit x 7"

definition EXT :: u8 where "EXT = 0x80"

definition bind_opt :: "'a option res \<Rightarrow> ('a \<Rightarrow> 'b option res) \<Rightarrow> 'b option res" where
  "bind_opt x f = bind_res x (\<lambda>y. case y of None \<Rightarrow> Inr None | Some z \<Rightarrow> f z)"

definition rd_octets :: "octets \<Rightarrow> nat \<Rightarrow> int \<Rightarrow> octets res" where
  "rd_octets buf off n =
     (if 0 \<le> n \<and> off + nat n \<le> length buf then Inr (take (nat n) (drop off buf)) else Inl OutOfBounds)"

text \<open>A string in an array: up to the first zero.\<close>

definition cstr :: "octets \<Rightarrow> octets" where
  "cstr s = takeWhile (\<lambda>c. c \<noteq> 0) s"

section \<open>Bearer capability and low layer compatibility\<close>

text \<open>The two elements have the same fields, and the same octets 3 to 5.\<close>

record q931_ie_capability =
  coding_standard :: u8
  information_transfer_capability :: u8
  transfer_mode :: u8
  information_transfer_rate :: u8
  user_information_layer_1_protocol :: int
  user_information_layer_2_protocol :: int
  user_information_layer_3_protocol :: int

definition UIL1P_V110 :: u8 where "UIL1P_V110 = 0x01"
definition UIL1P_V120 :: u8 where "UIL1P_V120 = 0x08"
definition UILP_UNUSED :: int where "UILP_UNUSED = -1"
definition TM_CIRCUIT :: u8 where "TM_CIRCUIT = 0x0"
definition TM_PACKET :: u8 where "TM_PACKET = 0x2"
definition ITC_UNRESTRICTED_DIGITAL :: u8 where "ITC_UNRESTRICTED_DIGITAL = 0x08"
definition ITC_RESTRICTED_DIGITAL :: u8 where "ITC_RESTRICTED_DIGITAL = 0x09"
definition LAYER_1_IDENT :: u8 where "LAYER_1_IDENT = 1"
definition LAYER_2_IDENT :: u8 where "LAYER_2_IDENT = 2"
definition LAYER_3_IDENT :: u8 where "LAYER_3_IDENT = 2"

definition oct_ident :: "u8 \<Rightarrow> u8" where
  "oct_ident x = fget 5 2 x"

definition read_oct_4 :: "octets \<Rightarrow> nat option res" where
  "read_oct_4 buf =
     bind_res (rd buf 1) (\<lambda>oct_4.
       if ext oct_4 then Inr (Some 2)
       else bind_res (rd buf 2) (\<lambda>oct_4a.
         if ext oct_4a then Inr (Some 3)
         else bind_res (rd buf 3) (\<lambda>oct_4b.
           if \<not> ext oct_4b then Inr None else Inr (Some 4))))"

definition read_oct_5 :: "octets \<Rightarrow> nat \<Rightarrow> q931_ie_capability \<Rightarrow> (nat \<times> q931_ie_capability) option res" where
  "read_oct_5 buf n ie =
     bind_res (rd buf n) (\<lambda>oct_5.
       if oct_ident oct_5 \<noteq> LAYER_1_IDENT then Inr (Some (n, ie))
       else
         let proto = fget 0 5 oct_5; ie = ie\<lparr>user_information_layer_1_protocol := uint proto\<rparr> in
         if ext oct_5 then Inr (Some (n + 1, ie))
         else bind_res (rd buf (n + 1)) (\<lambda>oct_5a.
           if ext oct_5a then Inr (Some (n + 2, ie))
           else if proto = UIL1P_V110 \<or> proto = UIL1P_V120 then
             bind_res (rd buf (n + 2)) (\<lambda>oct_5b.
               if ext oct_5b then Inr (Some (n + 3, ie))
               else bind_res (rd buf (n + 3)) (\<lambda>oct_5c.
                 if ext oct_5c then Inr (Some (n + 4, ie))
                 else bind_res (rd buf (n + 4)) (\<lambda>oct_5d.
                   if ext oct_5d then Inr None else Inr (Some (n + 5, ie)))))
           else Inr None))"

text \<open>Octets 3 to 5d: the place of the next octet and the element so far.\<close>

definition read_octs_3_5 :: "octets \<Rightarrow> (nat \<times> q931_ie_capability) option res" where
  "read_octs_3_5 buf =
     bind_res (rd buf 0) (\<lambda>oct_3.
       if \<not> ext oct_3 then Inr None
       else bind_res (rd buf 1) (\<lambda>oct_4.
         bind_opt (read_oct_4 buf) (\<lambda>n.
           read_oct_5 buf n
             \<lparr>coding_standard = fget 5 2 oct_3, information_transfer_capability = fget 0 5 oct_3,
              transfer_mode = fget 5 2 oct_4, information_transfer_rate = fget 0 5 oct_4,
              user_information_layer_1_protocol = UILP_UNUSED, user_information_layer_2_protocol = UILP_UNUSED,
              user_information_layer_3_protocol = UILP_UNUSED\<rparr>)))"

definition bc_oct_7 :: "octets \<Rightarrow> int \<Rightarrow> nat \<Rightarrow> q931_ie_capability \<Rightarrow> q931_ie_capability option res" where
  "bc_oct_7 buf len n ie =
     (if len \<le> int n then Inr (Some ie)
      else bind_res (rd buf n) (\<lambda>oct_7.
        if oct_ident oct_7 \<noteq> LAYER_3_IDENT then Inr (Some ie)
        else if ext oct_7 then Inr None
        else Inr (Some (ie\<lparr>user_information_layer_3_protocol := uint (fget 0 5 oct_7)\<rparr>))))"

definition q931_ie_bearer_capability_read_from_buf :: "octets \<Rightarrow> int \<Rightarrow> q931_ie_capability option res" where
  "q931_ie_bearer_capability_read_from_buf buf len =
     (if len < 2 then Inr None
      else bind_opt (read_octs_3_5 buf) (\<lambda>(n, ie).
        if len \<le> int n then Inr (Some ie)
        else bind_res (rd buf n) (\<lambda>oct_6.
          if oct_ident oct_6 \<noteq> LAYER_2_IDENT then bc_oct_7 buf len n ie
          else if ext oct_6 then Inr None
          else bc_oct_7 buf len (n + 1) (ie\<lparr>user_information_layer_2_protocol := uint (fget 0 5 oct_6)\<rparr>))))"

definition llc_oct_7 :: "octets \<Rightarrow> int \<Rightarrow> nat \<Rightarrow> q931_ie_capability \<Rightarrow> q931_ie_capability option res" where
  "llc_oct_7 buf len n ie =
     (if len \<le> int n then Inr (Some ie)
      else bind_res (rd buf n) (\<lambda>oct_7.
        if oct_ident oct_7 \<noteq> LAYER_3_IDENT then Inr (Some ie)
        else
          let ie = ie\<lparr>user_information_layer_3_protocol := uint (fget 0 5 oct_7)\<rparr> in
          if ext oct_7 then Inr (Some ie)
          else bind_res (rd buf (n + 1)) (\<lambda>oct_7a. if ext oct_7a then Inr None else Inr (Some ie))))"

definition q931_ie_low_layer_compatibility_read_from_buf :: "octets \<Rightarrow> int \<Rightarrow> q931_ie_capability option res" where
  "q931_ie_low_layer_compatibility_read_from_buf buf len =
     (if len < 2 then Inr None
      else bind_opt (read_octs_3_5 buf) (\<lambda>(n, ie).
        if len \<le> int n then Inr (Some ie)
        else bind_res (rd buf n) (\<lambda>oct_6.
          if oct_ident oct_6 \<noteq> LAYER_2_IDENT then llc_oct_7 buf len n ie
          else
            let ie = ie\<lparr>user_information_layer_2_protocol := uint (fget 0 5 oct_6)\<rparr> in
            if ext oct_6 then llc_oct_7 buf len (n + 1) ie
            else if len \<le> int (n + 1) then Inr (Some ie)
            else bind_res (rd buf (n + 1)) (\<lambda>oct_6a. if ext oct_6a then Inr None else llc_oct_7 buf len (n + 2) ie))))"

text \<open>
  Octet 7 is asked for by a test of the layer 2 protocol, so that a layer 3 protocol alone is dropped.
\<close>

definition write_capability :: "q931_ie_capability \<Rightarrow> octets option" where
  "write_capability ie =
     (let octs = [EXT OR fput 5 2 (coding_standard ie) OR fput 0 5 (information_transfer_capability ie),
                  EXT OR fput 5 2 (transfer_mode ie) OR fput 0 5 (information_transfer_rate ie)] @
                 (if transfer_mode ie = TM_CIRCUIT \<and>
                     (information_transfer_capability ie = ITC_UNRESTRICTED_DIGITAL \<or>
                      information_transfer_capability ie = ITC_RESTRICTED_DIGITAL) \<and>
                     user_information_layer_1_protocol ie = UILP_UNUSED
                  then [] else [EXT OR fput 5 2 LAYER_1_IDENT OR fput 0 5 (word_of_int (user_information_layer_1_protocol ie))])
      in if transfer_mode ie = TM_PACKET \<or> user_information_layer_2_protocol ie \<noteq> UILP_UNUSED then None
         else if user_information_layer_2_protocol ie \<noteq> UILP_UNUSED then None
         else Some octs)"

definition q931_ie_bearer_capability_write_to_buf :: "q931_ie_capability \<Rightarrow> octets option" where
  "q931_ie_bearer_capability_write_to_buf ie = write_capability ie"

definition q931_ie_low_layer_compatibility_write_to_buf :: "q931_ie_capability \<Rightarrow> octets option" where
  "q931_ie_low_layer_compatibility_write_to_buf ie = write_capability ie"

section \<open>Cause\<close>

record q931_ie_cause =
  cause_coding_standard :: u8
  cause_location :: u8
  cause_value :: u8
  cause_recommendation :: u8
  cause_diagnostics :: octets

definition Q931_IE_C_R_Q931 :: u8 where "Q931_IE_C_R_Q931 = 0"

text \<open>Neither the location nor the diagnostics are read.\<close>

definition q931_ie_cause_read_from_buf :: "octets \<Rightarrow> int \<Rightarrow> q931_ie_cause option res" where
  "q931_ie_cause_read_from_buf buf len =
     (if len < 2 then Inr None
      else bind_res (rd buf 0) (\<lambda>oct_3.
        bind_opt
          (if \<not> ext oct_3 then
             bind_res (rd buf 1) (\<lambda>oct_3a.
               if \<not> ext oct_3a then Inr None
               else if fget 0 7 oct_3a \<noteq> Q931_IE_C_R_Q931 then Inr None
               else Inr (Some 2))
           else Inr (Some 1))
          (\<lambda>nextoct. bind_res (rd buf nextoct) (\<lambda>oct_4.
             Inr (Some \<lparr>cause_coding_standard = fget 5 2 oct_3, cause_location = 0, cause_value = fget 0 7 oct_4,
                        cause_recommendation = Q931_IE_C_R_Q931, cause_diagnostics = []\<rparr>)))))"

definition q931_ie_cause_write_to_buf :: "q931_ie_cause \<Rightarrow> octets" where
  "q931_ie_cause_write_to_buf ie =
     [EXT OR fput 5 2 (cause_coding_standard ie) OR fput 0 4 (cause_location ie), EXT OR fput 0 7 (cause_value ie)] @
     cause_diagnostics ie"

section \<open>Call identity, call state, display, notification, restart, date and time\<close>

text \<open>The identity is kept in eight octets, but up to ten are copied.\<close>

definition q931_ie_call_identity_read_from_buf :: "octets \<Rightarrow> int \<Rightarrow> octets option res" where
  "q931_ie_call_identity_read_from_buf buf len =
     (if len < 1 then Inr None
      else if 10 < len then Inr None
      else bind_res (rd_octets buf 0 len) (\<lambda>data. if 8 < len then Inl OutOfBounds else Inr (Some data)))"

definition q931_ie_call_identity_write_to_buf :: "octets \<Rightarrow> octets" where
  "q931_ie_call_identity_write_to_buf data = data"

definition Q931_IE_CS_CS_CCITT :: u8 where "Q931_IE_CS_CS_CCITT = 0"

text \<open>The coding standard and the value.\<close>

definition q931_ie_call_state_read_from_buf :: "octets \<Rightarrow> int \<Rightarrow> (u8 \<times> u8) option res" where
  "q931_ie_call_state_read_from_buf buf len =
     (if len < 1 then Inr None
      else bind_res (rd buf 0) (\<lambda>oct_3.
        if fget 6 2 oct_3 \<noteq> Q931_IE_CS_CS_CCITT then Inr None else Inr (Some (fget 6 2 oct_3, fget 0 6 oct_3))))"

definition q931_ie_call_state_write_to_buf :: "u8 \<times> u8 \<Rightarrow> octets" where
  "q931_ie_call_state_write_to_buf = (\<lambda>(cs, value). [fput 6 2 cs OR fput 0 6 value])"

definition q931_ie_display_read_from_buf :: "octets \<Rightarrow> int \<Rightarrow> octets option res" where
  "q931_ie_display_read_from_buf buf len =
     (if len < 1 then Inr None
      else if 82 < len then Inr None
      else bind_res (rd_octets buf 0 len) (\<lambda>text. Inr (Some (cstr text))))"

definition q931_ie_display_write_to_buf :: "octets \<Rightarrow> octets" where
  "q931_ie_display_write_to_buf text = text"

definition q931_ie_notification_indicator_read_from_buf :: "octets \<Rightarrow> int \<Rightarrow> u8 option res" where
  "q931_ie_notification_indicator_read_from_buf buf len =
     (if len \<noteq> 1 then Inr None
      else bind_res (rd buf 0) (\<lambda>oct_3. if \<not> ext oct_3 then Inr None else Inr (Some (fget 0 7 oct_3))))"

definition q931_ie_notification_indicator_write_to_buf :: "u8 \<Rightarrow> octets" where
  "q931_ie_notification_indicator_write_to_buf description = [EXT OR fput 0 7 description]"

definition Q931_IE_RI_C_INDICATED :: u8 where "Q931_IE_RI_C_INDICATED = 0"
definition Q931_IE_RI_C_SINGLE_INTERFACE :: u8 where "Q931_IE_RI_C_SINGLE_INTERFACE = 6"
definition Q931_IE_RI_C_ALL_INTERFACES :: u8 where "Q931_IE_RI_C_ALL_INTERFACES = 7"

definition q931_ie_restart_indicator_read_from_buf :: "octets \<Rightarrow> int \<Rightarrow> u8 option res" where
  "q931_ie_restart_indicator_read_from_buf buf len =
     (if len < 1 then Inr None
      else bind_res (rd buf 0) (\<lambda>oct_3.
        if \<not> ext oct_3 then Inr None
        else if fget 0 3 oct_3 \<noteq> Q931_IE_RI_C_INDICATED \<and> fget 0 3 oct_3 \<noteq> Q931_IE_RI_C_SINGLE_INTERFACE \<and>
                fget 0 3 oct_3 \<noteq> Q931_IE_RI_C_ALL_INTERFACES then Inr None
        else Inr (Some (fget 0 3 oct_3))))"

definition q931_ie_restart_indicator_write_to_buf :: "u8 \<Rightarrow> octets" where
  "q931_ie_restart_indicator_write_to_buf restart_class = [EXT OR fput 0 3 restart_class]"

text \<open>\<open>struct tm\<close>: year, month, day, hour, minute, second.\<close>

type_synonym tm = "int \<times> int \<times> int \<times> int \<times> int \<times> int"

definition opt_octet :: "octets \<Rightarrow> int \<Rightarrow> int \<Rightarrow> nat \<Rightarrow> int \<Rightarrow> int \<Rightarrow> int \<Rightarrow> int option res" where
  "opt_octet buf len from i lo hi dflt =
     (if from \<le> len then bind_res (rd buf i) (\<lambda>x. if uint x < lo \<or> hi < uint x then Inr None else Inr (Some (uint x)))
      else Inr (Some dflt))"

definition q931_ie_datetime_read_from_buf :: "(tm \<Rightarrow> int) \<Rightarrow> octets \<Rightarrow> int \<Rightarrow> int option res" where
  "q931_ie_datetime_read_from_buf mktime buf len =
     (if len < 2 then Inr None
      else if 8 < len then Inr None
      else bind_opt (opt_octet buf len 2 0 0 99 0) (\<lambda>year.
        bind_opt (opt_octet buf len 4 1 1 12 1) (\<lambda>mon.
        bind_opt (opt_octet buf len 5 2 1 31 1) (\<lambda>mday.
        bind_opt (opt_octet buf len 6 3 0 24 0) (\<lambda>hour.
        bind_opt (opt_octet buf len 7 4 0 59 0) (\<lambda>mn.
        bind_opt (opt_octet buf len 8 5 0 61 0) (\<lambda>sec.
          Inr (Some (mktime (year, mon - 1, mday, hour, mn, sec))))))))))"

definition q931_ie_datetime_write_to_buf :: "(int \<Rightarrow> tm) \<Rightarrow> int \<Rightarrow> octets" where
  "q931_ie_datetime_write_to_buf localtime time =
     (case localtime time of (year, mon, mday, hour, mn, sec) \<Rightarrow>
        [word_of_int (year smod 100), word_of_int (mon + 1), word_of_int mday, word_of_int hour, word_of_int mn, word_of_int sec])"

section \<open>Numbers\<close>

record q931_ie_number =
  type_of_number :: u8
  numbering_plan_identificator :: u8
  presentation_indicator :: u8
  screening_indicator :: u8
  number :: octets

text \<open>
  The number is kept in an array of twenty-one octets, zero at first: \<open>n\<close> octets from \<open>off\<close> are copied
  there and a zero is written at \<open>z\<close>.
\<close>

definition copy_number :: "octets \<Rightarrow> nat \<Rightarrow> int \<Rightarrow> int \<Rightarrow> octets res" where
  "copy_number buf off n z =
     bind_res (rd_octets buf off n) (\<lambda>s. if 21 < n \<or> z < 0 \<or> 20 < z then Inl OutOfBounds else Inr (cstr s))"

definition q931_ie_called_party_number_read_from_buf :: "octets \<Rightarrow> int \<Rightarrow> q931_ie_number option res" where
  "q931_ie_called_party_number_read_from_buf buf len =
     (if len < 1 then Inr None
      else bind_res (rd buf 0) (\<lambda>oct_3.
        bind_res (copy_number buf 1 (len - 1) len) (\<lambda>s.
          Inr (Some \<lparr>type_of_number = fget 4 3 oct_3, numbering_plan_identificator = fget 0 4 oct_3,
                     presentation_indicator = 0, screening_indicator = 0, number = s\<rparr>))))"

definition q931_ie_called_party_number_write_to_buf :: "q931_ie_number \<Rightarrow> octets" where
  "q931_ie_called_party_number_write_to_buf ie =
     (EXT OR fput 4 3 (type_of_number ie) OR fput 0 4 (numbering_plan_identificator ie)) # number ie"

text \<open>Octets 3 and 3a of a calling or connected number, and the number behind them.\<close>

definition read_number_3a :: "octets \<Rightarrow> int \<Rightarrow> q931_ie_number option res" where
  "read_number_3a buf len =
     bind_res (rd buf 0) (\<lambda>oct_3.
       bind_res (if \<not> ext oct_3 then bind_res (rd buf 1) (\<lambda>oct_3a. Inr (2 :: nat, fget 5 2 oct_3a, fget 0 2 oct_3a))
                 else Inr (1, 0, 0)) (\<lambda>(nextoct, pi, si).
         bind_res (copy_number buf nextoct (len - int nextoct) (len - int nextoct)) (\<lambda>s.
           Inr (Some \<lparr>type_of_number = fget 4 3 oct_3, numbering_plan_identificator = fget 0 4 oct_3,
                      presentation_indicator = pi, screening_indicator = si, number = s\<rparr>))))"

definition write_number_3a :: "q931_ie_number \<Rightarrow> octets" where
  "write_number_3a ie =
     (fput 4 3 (type_of_number ie) OR fput 0 4 (numbering_plan_identificator ie)) #
     (EXT OR fput 5 2 (presentation_indicator ie) OR fput 0 2 (screening_indicator ie)) # number ie"

definition q931_ie_calling_party_number_read_from_buf :: "octets \<Rightarrow> int \<Rightarrow> q931_ie_number option res" where
  "q931_ie_calling_party_number_read_from_buf buf len =
     (if len = 0
      then Inr (Some \<lparr>type_of_number = 0, numbering_plan_identificator = 0, presentation_indicator = 0,
                      screening_indicator = 0, number = []\<rparr>)
      else read_number_3a buf len)"

definition q931_ie_calling_party_number_write_to_buf :: "q931_ie_number \<Rightarrow> octets" where
  "q931_ie_calling_party_number_write_to_buf ie = write_number_3a ie"

definition q931_ie_connected_number_read_from_buf :: "octets \<Rightarrow> int \<Rightarrow> q931_ie_number option res" where
  "q931_ie_connected_number_read_from_buf buf len = (if len < 1 then Inr None else read_number_3a buf len)"

definition q931_ie_connected_number_write_to_buf :: "q931_ie_number \<Rightarrow> octets" where
  "q931_ie_connected_number_write_to_buf ie = write_number_3a ie"

section \<open>Progress indicator and high layer compatibility\<close>

record q931_ie_progress_indicator =
  pi_coding_standard :: u8
  pi_location :: u8
  pi_progress_description :: u8

definition q931_ie_progress_indicator_read_from_buf :: "octets \<Rightarrow> int \<Rightarrow> q931_ie_progress_indicator option res" where
  "q931_ie_progress_indicator_read_from_buf buf len =
     (if len < 2 then Inr None
      else bind_res (rd buf 0) (\<lambda>oct_3.
        if \<not> ext oct_3 then Inr None
        else bind_res (rd buf 1) (\<lambda>oct_4.
          if \<not> ext oct_4 then Inr None
          else Inr (Some \<lparr>pi_coding_standard = fget 5 2 oct_3, pi_location = fget 0 4 oct_3,
                          pi_progress_description = fget 0 7 oct_4\<rparr>))))"

text \<open>Bit 4 of the first octet is left as it was, that is zero.\<close>

definition q931_ie_progress_indicator_write_to_buf :: "q931_ie_progress_indicator \<Rightarrow> octets" where
  "q931_ie_progress_indicator_write_to_buf ie =
     [EXT OR fput 5 2 (pi_coding_standard ie) OR fput 0 4 (pi_location ie), EXT OR fput 0 7 (pi_progress_description ie)]"

record q931_ie_high_layer_compatibility =
  hlc_coding_standard :: u8
  hlc_interpretation :: u8
  hlc_presentation_method :: u8
  hlc_characteristics_identification :: u8
  hlc_extended_characteristics_identification :: u8

definition Q931_IE_HLC_CI_RESERVED_FOR_MAINTENANCE :: u8 where "Q931_IE_HLC_CI_RESERVED_FOR_MAINTENANCE = 0x5e"
definition Q931_IE_HLC_CI_RESERVED_FOR_MANAGEMENT :: u8 where "Q931_IE_HLC_CI_RESERVED_FOR_MANAGEMENT = 0x5f"

definition q931_ie_high_layer_compatibility_read_from_buf :: "octets \<Rightarrow> int \<Rightarrow> q931_ie_high_layer_compatibility option res" where
  "q931_ie_high_layer_compatibility_read_from_buf buf len =
     (if len < 2 then Inr None
      else bind_res (rd buf 0) (\<lambda>oct_3. bind_res (rd buf 1) (\<lambda>oct_4.
        let ie = \<lparr>hlc_coding_standard = fget 5 2 oct_3, hlc_interpretation = fget 2 3 oct_3,
                  hlc_presentation_method = fget 0 2 oct_3, hlc_characteristics_identification = fget 0 7 oct_4,
                  hlc_extended_characteristics_identification = 0\<rparr> in
        if ext oct_4 then Inr (Some ie)
        else if len < 3 then Inr None
        else bind_res (rd buf 2) (\<lambda>oct_4a.
          if ext oct_4a then Inr None
          else Inr (Some (ie\<lparr>hlc_extended_characteristics_identification := fget 0 7 oct_4a\<rparr>))))))"

definition q931_ie_high_layer_compatibility_write_to_buf :: "q931_ie_high_layer_compatibility \<Rightarrow> octets" where
  "q931_ie_high_layer_compatibility_write_to_buf ie =
     (EXT OR fput 5 2 (hlc_coding_standard ie) OR fput 2 3 (hlc_interpretation ie) OR fput 0 2 (hlc_presentation_method ie)) #
     (if hlc_characteristics_identification ie = Q931_IE_HLC_CI_RESERVED_FOR_MAINTENANCE \<or>
         hlc_characteristics_identification ie = Q931_IE_HLC_CI_RESERVED_FOR_MANAGEMENT
      then [fput 0 7 (hlc_characteristics_identification ie), EXT OR fput 0 7 (hlc_extended_characteristics_identification ie)]
      else [EXT OR fput 0 7 (hlc_characteristics_identification ie)])"

section \<open>Channel identification\<close>

text \<open>A channel is its number, which is its index in the array of the interface.\<close>

definition Q931_CHANSET_MAX_SIZE :: nat where "Q931_CHANSET_MAX_SIZE = 32"
definition Q931_INTF_CHANNELS :: nat where "Q931_INTF_CHANNELS = 32"

definition q931_chanset_add :: "nat list \<Rightarrow> nat \<Rightarrow> nat list res" where
  "q931_chanset_add chans ch =
     (if Q931_CHANSET_MAX_SIZE \<le> length chans then Inl KernelBug
      else if ch \<in> set chans then Inr chans else Inr (chans @ [ch]))"

fun chanset_add_all :: "nat list \<Rightarrow> nat list \<Rightarrow> nat list res" where
  "chanset_add_all chans [] = Inr chans"
| "chanset_add_all chans (ch # chs) = bind_res (q931_chanset_add chans ch) (\<lambda>chans. chanset_add_all chans chs)"

definition q931_chanset_del :: "nat list \<Rightarrow> nat \<Rightarrow> nat list res" where
  "q931_chanset_del chans ch = (if chans = [] then Inl KernelBug else Inr (remove1 ch chans))"

fun q931_chanset_merge :: "nat list \<Rightarrow> nat list \<Rightarrow> nat list res" where
  "q931_chanset_merge chans [] = Inr chans"
| "q931_chanset_merge chans (ch # src) =
     bind_res (if ch \<in> set chans then Inr chans else q931_chanset_add chans ch) (\<lambda>chans. q931_chanset_merge chans src)"

definition q931_chanset_contains :: "nat list \<Rightarrow> nat \<Rightarrow> bool" where
  "q931_chanset_contains chans ch = (ch \<in> set chans)"

text \<open>The loop of the intersection: after a deletion at \<open>i\<close> it goes on at \<open>i + 1\<close>, past the channel that has moved to \<open>i\<close>.\<close>

function chanset_intersect_loop :: "nat list \<Rightarrow> nat list \<Rightarrow> nat \<Rightarrow> nat list res" where
  "chanset_intersect_loop chans chans2 i =
     (if i < length chans then
        if chans ! i \<in> set chans2 then chanset_intersect_loop chans chans2 (i + 1)
        else chanset_intersect_loop (remove1 (chans ! i) chans) chans2 (i + 1)
      else Inr chans)"
  by pat_completeness auto

termination
  by (relation "measure (\<lambda>(chans, chans2, i). length chans - i)") (auto simp: length_remove1)

declare chanset_intersect_loop.simps [simp del]

definition q931_chanset_intersect :: "nat list \<Rightarrow> nat list \<Rightarrow> nat list res" where
  "q931_chanset_intersect chans chans2 = chanset_intersect_loop chans chans2 0"

record q931_ie_channel_identification =
  ci_interface_type :: u8
  ci_preferred_exclusive :: u8
  ci_d_channel_indicator :: u8
  ci_any_channel :: bool
  ci_chanset :: "nat list"

definition Q931_IE_CI_IT_BASIC :: u8 where "Q931_IE_CI_IT_BASIC = 0"
definition Q931_IE_CI_IT_PRIMARY :: u8 where "Q931_IE_CI_IT_PRIMARY = 1"
definition Q931_IE_CI_PE_EXCLUSIVE :: u8 where "Q931_IE_CI_PE_EXCLUSIVE = 1"
definition Q931_IE_CI_ICS_BRA_NO_CHANNEL :: u8 where "Q931_IE_CI_ICS_BRA_NO_CHANNEL = 0"
definition Q931_IE_CI_ICS_BRA_B1 :: u8 where "Q931_IE_CI_ICS_BRA_B1 = 1"
definition Q931_IE_CI_ICS_BRA_B2 :: u8 where "Q931_IE_CI_ICS_BRA_B2 = 2"
definition Q931_IE_CI_ICS_BRA_ANY :: u8 where "Q931_IE_CI_ICS_BRA_ANY = 3"
definition Q931_IE_CI_ICS_PRA_NO_CHANNEL :: u8 where "Q931_IE_CI_ICS_PRA_NO_CHANNEL = 0"
definition Q931_IE_CI_ICS_PRA_INDICATED :: u8 where "Q931_IE_CI_ICS_PRA_INDICATED = 1"
definition Q931_IE_CI_ICS_PRA_ANY :: u8 where "Q931_IE_CI_ICS_PRA_ANY = 3"
definition Q931_IE_CI_ET_B :: u8 where "Q931_IE_CI_ET_B = 3"

text \<open>A channel the array of the interface does not have is outside it.\<close>

definition intf_channel :: "nat \<Rightarrow> nat res" where
  "intf_channel k = (if k < Q931_INTF_CHANNELS then Inr k else Inl OutOfBounds)"

text \<open>The loop over octets 3d: one octet is read in any case, \<open>k\<close> more may follow.\<close>

fun channel_numbers :: "octets \<Rightarrow> nat \<Rightarrow> nat \<Rightarrow> nat list \<Rightarrow> nat list res" where
  "channel_numbers buf n 0 chans =
     bind_res (rd buf n) (\<lambda>oct_3d. bind_res (intf_channel (unat (fget 0 7 oct_3d))) (q931_chanset_add chans))"
| "channel_numbers buf n (Suc k) chans =
     bind_res (rd buf n) (\<lambda>oct_3d. bind_res (intf_channel (unat (fget 0 7 oct_3d))) (\<lambda>ch.
       bind_res (q931_chanset_add chans ch) (\<lambda>chans.
         if \<not> ext oct_3d then channel_numbers buf (n + 1) k chans else Inr chans)))"

definition channel_id_pra ::
  "nat \<Rightarrow> octets \<Rightarrow> int \<Rightarrow> u8 \<Rightarrow> q931_ie_channel_identification \<Rightarrow> q931_ie_channel_identification option res" where
  "channel_id_pra n_channels buf len oct_3 ie =
     bind_res (rd buf 1) (\<lambda>oct_3c.
       if fget 5 2 oct_3c \<noteq> 0 then Inr None
       else if bit oct_3c 4 then Inr None
       else if fget 0 2 oct_3 = Q931_IE_CI_ICS_PRA_INDICATED then
         bind_res (channel_numbers buf 2 (nat (len - 3)) []) (\<lambda>chans. Inr (Some (ie\<lparr>ci_chanset := chans\<rparr>)))
       else if fget 0 2 oct_3 = Q931_IE_CI_ICS_PRA_ANY then
         bind_res (chanset_add_all [] [0..<n_channels]) (\<lambda>chans. Inr (Some (ie\<lparr>ci_any_channel := True, ci_chanset := chans\<rparr>)))
       else Inr (Some ie))"

definition q931_ie_channel_identification_read_from_buf ::
  "lapd_intf_type \<Rightarrow> nat \<Rightarrow> octets \<Rightarrow> int \<Rightarrow> q931_ie_channel_identification option res" where
  "q931_ie_channel_identification_read_from_buf intf_type n_channels buf len =
     (if len < 1 then Inr None
      else bind_res (rd buf 0) (\<lambda>oct_3.
        if bit oct_3 6 then Inr None
        else if bit oct_3 2 then Inr None
        else
          let ie = \<lparr>ci_interface_type = fget 5 1 oct_3, ci_preferred_exclusive = fget 3 1 oct_3,
                    ci_d_channel_indicator = fget 2 1 oct_3, ci_any_channel = False, ci_chanset = []\<rparr>;
              ics = fget 0 2 oct_3 in
          if ci_interface_type ie = Q931_IE_CI_IT_PRIMARY then
            (if len < 2 then Inr None
             else if intf_type = LAPD_INTF_TYPE_BRA then Inr None
             else channel_id_pra n_channels buf len oct_3 ie)
          else if intf_type = LAPD_INTF_TYPE_PRA then Inr None
          else if ics = Q931_IE_CI_ICS_BRA_B1 then Inr (Some (ie\<lparr>ci_chanset := [0]\<rparr>))
          else if ics = Q931_IE_CI_ICS_BRA_B2 then Inr (Some (ie\<lparr>ci_chanset := [1]\<rparr>))
          else if ics = Q931_IE_CI_ICS_BRA_ANY then
            (if ci_preferred_exclusive ie = Q931_IE_CI_PE_EXCLUSIVE then Inr None
             else Inr (Some (ie\<lparr>ci_chanset := [0, 1], ci_any_channel := True\<rparr>)))
          else Inr (Some ie)))"

text \<open>Octet 3 with the selection; the assertions on the channels of a basic interface are faults.\<close>

definition channel_id_octet_3 :: "q931_ie_channel_identification \<Rightarrow> u8 \<Rightarrow> u8 \<Rightarrow> u8" where
  "channel_id_octet_3 ie intftype ics =
     EXT OR fput 5 1 intftype OR fput 3 1 (ci_preferred_exclusive ie) OR fput 2 1 (ci_d_channel_indicator ie) OR fput 0 2 ics"

definition q931_ie_channel_identification_write_to_buf_bra :: "q931_ie_channel_identification \<Rightarrow> octets res" where
  "q931_ie_channel_identification_write_to_buf_bra ie =
     bind_res
       (if ci_any_channel ie then Inr Q931_IE_CI_ICS_BRA_ANY
        else case ci_chanset ie of
          [] \<Rightarrow> Inr Q931_IE_CI_ICS_BRA_NO_CHANNEL
        | [a] \<Rightarrow> if a = 0 then Inr Q931_IE_CI_ICS_BRA_B1 else if a = 1 then Inr Q931_IE_CI_ICS_BRA_B2 else Inl KernelBug
        | [a, b] \<Rightarrow> if (a = 0 \<or> a = 1) \<and> (b = 0 \<or> b = 1) then Inr Q931_IE_CI_ICS_BRA_ANY else Inl KernelBug
        | _ \<Rightarrow> Inl KernelBug)
       (\<lambda>ics. Inr [channel_id_octet_3 ie Q931_IE_CI_IT_BASIC ics])"

text \<open>Every channel number is written with the extension bit that ends the list.\<close>

definition q931_ie_channel_identification_write_to_buf_pra :: "q931_ie_channel_identification \<Rightarrow> octets" where
  "q931_ie_channel_identification_write_to_buf_pra ie =
     (let ics = if ci_any_channel ie then Q931_IE_CI_ICS_PRA_ANY
                else if ci_chanset ie = [] then Q931_IE_CI_ICS_PRA_NO_CHANNEL
                else Q931_IE_CI_ICS_PRA_INDICATED
      in [channel_id_octet_3 ie Q931_IE_CI_IT_PRIMARY ics, EXT OR fput 0 4 Q931_IE_CI_ET_B] @
         (if ics = Q931_IE_CI_ICS_PRA_INDICATED then map (\<lambda>ch. EXT OR fput 0 7 (word_of_nat ch)) (ci_chanset ie) else []))"

definition q931_ie_channel_identification_write_to_buf :: "q931_ie_channel_identification \<Rightarrow> octets res" where
  "q931_ie_channel_identification_write_to_buf ie =
     (if ci_interface_type ie = Q931_IE_CI_IT_BASIC then q931_ie_channel_identification_write_to_buf_bra ie
      else Inr (q931_ie_channel_identification_write_to_buf_pra ie))"

section \<open>Reading back what was written\<close>

lemma bit_fget: "bit (fget n w x) k \<longleftrightarrow> k < w \<and> bit x (n + k)"
  by (simp add: fget_def bit_take_bit_iff bit_drop_bit_eq)

lemma bit_fput: "bit (fput n w x) k \<longleftrightarrow> n \<le> k \<and> k < 8 \<and> k - n < w \<and> bit x (k - n)"
  by (auto simp: fput_def bit_push_bit_iff bit_take_bit_iff)

lemma fget_or: "fget n w (x OR y) = fget n w x OR fget n w y"
  by (rule bit_word_eqI) (auto simp: bit_fget bit_or_iff)

lemma fget_fput_same: "n + w \<le> 8 \<Longrightarrow> fget n w (fput n w x) = take_bit w x"
  by (rule bit_word_eqI) (auto simp: bit_fget bit_fput bit_take_bit_iff)

lemma fget_fput_other: "n + w \<le> m \<or> m + v \<le> n \<Longrightarrow> fget n w (fput m v x) = 0"
  by (rule bit_word_eqI) (auto simp: bit_fget bit_fput)

lemma take_bit_small: "unat (x :: u8) < 2 ^ w \<Longrightarrow> take_bit w x = x"
  by (simp add: word_unat_eq_iff unsigned_take_bit_eq take_bit_nat_eq_self)

lemma bit_EXT: "bit EXT k \<longleftrightarrow> k = 7"
proof -
  have e: "EXT = push_bit 7 1" by (simp add: EXT_def)
  show ?thesis unfolding e bit_push_bit_iff bit_1_iff by auto
qed

lemma fget_EXT: "n + w \<le> 7 \<Longrightarrow> fget n w EXT = 0"
  by (rule bit_word_eqI) (auto simp: bit_fget bit_EXT)

lemmas fields = fget_or fget_fput_same fget_fput_other fget_EXT bit_or_iff bit_fput bit_EXT

lemma bind_opt_simps [simp]:
  "bind_opt (Inr (Some x)) f = f x" "bind_opt (Inr None) f = Inr None" "bind_opt (Inl e) f = Inl e"
  by (simp_all add: bind_opt_def)

lemma rd_Cons [simp]: "rd (x # xs) 0 = Inr x" "rd (x # xs) (Suc n) = rd xs n" "rd (x # xs) (numeral k) = rd xs (pred_numeral k)"
  by (simp_all add: rd_def numeral_eq_Suc)

lemma rd_octets_app: "n = int (length s) \<Longrightarrow> rd_octets (s @ rest) 0 n = Inr s"
  "rd_octets (x # xs) (Suc k) n = rd_octets xs k n"
  by (simp_all add: rd_octets_def)

lemma cstr_id: "0 \<notin> set s \<Longrightarrow> cstr s = s"
  by (auto simp: cstr_def)

text \<open>A capability the writer can express: the layer 3 protocol alone is not among the octets.\<close>

definition capability_ok :: "q931_ie_capability \<Rightarrow> bool" where
  "capability_ok ie \<longleftrightarrow>
     unat (coding_standard ie) < 4 \<and> unat (information_transfer_capability ie) < 32 \<and> unat (transfer_mode ie) < 4 \<and>
     unat (information_transfer_rate ie) < 32 \<and> transfer_mode ie \<noteq> TM_PACKET \<and> user_information_layer_2_protocol ie = UILP_UNUSED \<and>
     (0 \<le> user_information_layer_1_protocol ie \<and> user_information_layer_1_protocol ie < 32 \<or>
      user_information_layer_1_protocol ie = UILP_UNUSED \<and> transfer_mode ie = TM_CIRCUIT \<and>
      (information_transfer_capability ie = ITC_UNRESTRICTED_DIGITAL \<or> information_transfer_capability ie = ITC_RESTRICTED_DIGITAL))"

definition behind_capability :: "q931_ie_capability \<Rightarrow> octets \<Rightarrow> bool" where
  "behind_capability ie rest \<longleftrightarrow>
     user_information_layer_1_protocol ie \<noteq> UILP_UNUSED \<or> rest \<noteq> [] \<and> oct_ident (hd rest) \<noteq> LAYER_1_IDENT"

lemma ident_octet: "oct_ident (EXT OR fput 5 2 LAYER_1_IDENT OR fput 0 5 x) = LAYER_1_IDENT"
  by (simp add: oct_ident_def LAYER_1_IDENT_def fields)

lemma read_octs_written:
  assumes "capability_ok ie" "behind_capability ie rest" "write_capability ie = Some octs"
  shows "read_octs_3_5 (octs @ rest) = Inr (Some (length octs, ie\<lparr>user_information_layer_3_protocol := UILP_UNUSED\<rparr>))"
proof -
  note ok = assms(1) [unfolded capability_ok_def]
  have t: "take_bit 2 (coding_standard ie) = coding_standard ie" "take_bit 5 (information_transfer_capability ie) = information_transfer_capability ie"
    "take_bit 2 (transfer_mode ie) = transfer_mode ie" "take_bit 5 (information_transfer_rate ie) = information_transfer_rate ie"
    using ok by (auto intro!: take_bit_small)
  let ?o3 = "EXT OR fput 5 2 (coding_standard ie) OR fput 0 5 (information_transfer_capability ie)"
  let ?o4 = "EXT OR fput 5 2 (transfer_mode ie) OR fput 0 5 (information_transfer_rate ie)"
  show ?thesis
  proof (cases "user_information_layer_1_protocol ie = UILP_UNUSED")
    case True
    then have w: "octs = [?o3, ?o4]" using assms(3) ok by (auto simp: write_capability_def UILP_UNUSED_def)
    obtain x r where r: "rest = x # r" "oct_ident x \<noteq> LAYER_1_IDENT" using assms(2) True by (cases rest) (auto simp: behind_capability_def)
    show ?thesis unfolding w using r True ok t
      by (simp add: read_octs_3_5_def read_oct_4_def read_oct_5_def fields)
  next
    case False
    let ?p = "word_of_int (user_information_layer_1_protocol ie) :: u8"
    have p: "0 \<le> user_information_layer_1_protocol ie" "user_information_layer_1_protocol ie < 32" using ok False by auto
    have w: "octs = [?o3, ?o4, EXT OR fput 5 2 LAYER_1_IDENT OR fput 0 5 ?p]" using assms(3) False ok by (auto simp: write_capability_def)
    have u: "uint ?p = user_information_layer_1_protocol ie" using p by (simp add: uint_word_of_int)
    have "unat ?p = nat (uint ?p)" by simp
    then have "unat ?p < 2 ^ 5" using p unfolding u by simp
    then have "take_bit 5 ?p = ?p" by (rule take_bit_small)
    then show ?thesis unfolding w using ok t u
      by (simp add: read_octs_3_5_def read_oct_4_def read_oct_5_def ident_octet fields Let_def)
  qed
qed

lemma capability_roundtrip:
  assumes "capability_ok ie" "behind_capability ie rest" "write_capability ie = Some octs"
  shows "q931_ie_bearer_capability_read_from_buf (octs @ rest) (int (length octs)) = Inr (Some (ie\<lparr>user_information_layer_3_protocol := UILP_UNUSED\<rparr>))"
    "q931_ie_low_layer_compatibility_read_from_buf (octs @ rest) (int (length octs)) = Inr (Some (ie\<lparr>user_information_layer_3_protocol := UILP_UNUSED\<rparr>))"
proof -
  have "2 \<le> length octs" using assms(3) by (auto simp: write_capability_def Let_def split: if_splits)
  then show "q931_ie_bearer_capability_read_from_buf (octs @ rest) (int (length octs)) = Inr (Some (ie\<lparr>user_information_layer_3_protocol := UILP_UNUSED\<rparr>))"
    "q931_ie_low_layer_compatibility_read_from_buf (octs @ rest) (int (length octs)) = Inr (Some (ie\<lparr>user_information_layer_3_protocol := UILP_UNUSED\<rparr>))"
    using read_octs_written [OF assms]
    by (simp_all add: q931_ie_bearer_capability_read_from_buf_def q931_ie_low_layer_compatibility_read_from_buf_def)
qed

lemma cause_roundtrip:
  assumes "unat (cause_coding_standard c) < 4" "unat (cause_value c) < 128"
  shows "q931_ie_cause_read_from_buf (q931_ie_cause_write_to_buf c @ rest) (int (length (q931_ie_cause_write_to_buf c))) =
    Inr (Some (c\<lparr>cause_location := 0, cause_recommendation := Q931_IE_C_R_Q931, cause_diagnostics := []\<rparr>))"
proof -
  have "take_bit 2 (cause_coding_standard c) = cause_coding_standard c" "take_bit 7 (cause_value c) = cause_value c"
    using assms by (auto intro!: take_bit_small)
  then show ?thesis by (simp add: q931_ie_cause_read_from_buf_def q931_ie_cause_write_to_buf_def fields)
qed

lemma call_identity_roundtrip:
  "data \<noteq> [] \<Longrightarrow> length data \<le> 8 \<Longrightarrow>
   q931_ie_call_identity_read_from_buf (q931_ie_call_identity_write_to_buf data @ rest) (int (length data)) = Inr (Some data)"
  by (simp add: q931_ie_call_identity_read_from_buf_def q931_ie_call_identity_write_to_buf_def rd_octets_app not_less int_one_le_iff_zero_less)

lemma call_state_roundtrip:
  "unat v < 64 \<Longrightarrow>
   q931_ie_call_state_read_from_buf (q931_ie_call_state_write_to_buf (0, v) @ rest) 1 = Inr (Some (0, v))"
  using take_bit_small [of v 6]
  by (simp add: q931_ie_call_state_read_from_buf_def q931_ie_call_state_write_to_buf_def Q931_IE_CS_CS_CCITT_def fields)

lemma display_roundtrip:
  "s \<noteq> [] \<Longrightarrow> length s \<le> 82 \<Longrightarrow> 0 \<notin> set s \<Longrightarrow>
   q931_ie_display_read_from_buf (q931_ie_display_write_to_buf s @ rest) (int (length s)) = Inr (Some s)"
  by (simp add: q931_ie_display_read_from_buf_def q931_ie_display_write_to_buf_def rd_octets_app cstr_id not_less int_one_le_iff_zero_less)

lemma notification_roundtrip:
  "unat d < 128 \<Longrightarrow>
   q931_ie_notification_indicator_read_from_buf (q931_ie_notification_indicator_write_to_buf d @ rest) 1 = Inr (Some d)"
  using take_bit_small [of d 7]
  by (simp add: q931_ie_notification_indicator_read_from_buf_def q931_ie_notification_indicator_write_to_buf_def fields)

lemma restart_roundtrip:
  "r = Q931_IE_RI_C_INDICATED \<or> r = Q931_IE_RI_C_SINGLE_INTERFACE \<or> r = Q931_IE_RI_C_ALL_INTERFACES \<Longrightarrow>
   q931_ie_restart_indicator_read_from_buf (q931_ie_restart_indicator_write_to_buf r @ rest) 1 = Inr (Some r)"
proof -
  assume r: "r = Q931_IE_RI_C_INDICATED \<or> r = Q931_IE_RI_C_SINGLE_INTERFACE \<or> r = Q931_IE_RI_C_ALL_INTERFACES"
  then have "take_bit 3 r = r"
    by (intro take_bit_small) (auto simp: Q931_IE_RI_C_INDICATED_def Q931_IE_RI_C_SINGLE_INTERFACE_def Q931_IE_RI_C_ALL_INTERFACES_def)
  then show ?thesis using r
    by (auto simp: q931_ie_restart_indicator_read_from_buf_def q931_ie_restart_indicator_write_to_buf_def fields)
qed

text \<open>A date is written with six octets and read as if its length counted two more: minutes and seconds are lost.\<close>

lemma datetime_roundtrip:
  assumes "localtime t = (year, mon, mday, hour, mn, sec)" "0 \<le> year" "0 \<le> mon" "mon < 12" "1 \<le> mday" "mday \<le> 31" "0 \<le> hour" "hour \<le> 23"
  shows "q931_ie_datetime_read_from_buf mktime (q931_ie_datetime_write_to_buf localtime t @ rest) 6 =
    Inr (Some (mktime (year mod 100, mon, mday, hour, 0, 0)))"
proof -
  have "uint (word_of_int (year smod 100) :: u8) = year mod 100" "0 \<le> year mod 100" "year mod 100 \<le> 99"
    using assms(2) by (cases "year = 0"; simp add: uint_word_of_int signed_modulo_int_def)+
  moreover have u: "uint (word_of_int x :: u8) = x" if "0 \<le> x" "x < 256" for x using that by (simp add: uint_word_of_int)
  moreover note u [of "mon + 1"] u [of mday] u [of hour]
  ultimately show ?thesis using assms
    by (simp add: q931_ie_datetime_read_from_buf_def q931_ie_datetime_write_to_buf_def opt_octet_def)
qed

definition number_fields_ok :: "q931_ie_number \<Rightarrow> bool" where
  "number_fields_ok ie \<longleftrightarrow> unat (type_of_number ie) < 8 \<and> unat (numbering_plan_identificator ie) < 16 \<and>
     unat (presentation_indicator ie) < 4 \<and> unat (screening_indicator ie) < 4 \<and> length (number ie) \<le> 20 \<and> 0 \<notin> set (number ie)"

lemma copy_number_app:
  "0 \<notin> set s \<Longrightarrow> length s \<le> 20 \<Longrightarrow> n = int (length s) \<Longrightarrow> 0 \<le> z \<Longrightarrow> z \<le> 20 \<Longrightarrow> copy_number (s @ rest) 0 n z = Inr s"
  "copy_number (x # xs) (Suc k) n z = copy_number xs k n z"
  by (simp_all add: copy_number_def rd_octets_app cstr_id)

lemma called_number_roundtrip:
  assumes "number_fields_ok ie" "length (number ie) \<le> 19" "presentation_indicator ie = 0" "screening_indicator ie = 0"
  shows "q931_ie_called_party_number_read_from_buf (q931_ie_called_party_number_write_to_buf ie @ rest)
      (int (length (q931_ie_called_party_number_write_to_buf ie))) = Inr (Some ie)"
proof -
  have "take_bit 3 (type_of_number ie) = type_of_number ie" "take_bit 4 (numbering_plan_identificator ie) = numbering_plan_identificator ie"
    using assms(1) by (auto intro!: take_bit_small simp: number_fields_ok_def)
  then show ?thesis using assms
    by (simp add: q931_ie_called_party_number_read_from_buf_def q931_ie_called_party_number_write_to_buf_def fields copy_number_app number_fields_ok_def)
qed

lemma number_3a_roundtrip:
  assumes "number_fields_ok ie"
  shows "read_number_3a (write_number_3a ie @ rest) (int (length (write_number_3a ie))) = Inr (Some ie)"
proof -
  have "take_bit 3 (type_of_number ie) = type_of_number ie" "take_bit 4 (numbering_plan_identificator ie) = numbering_plan_identificator ie"
    "take_bit 2 (presentation_indicator ie) = presentation_indicator ie" "take_bit 2 (screening_indicator ie) = screening_indicator ie"
    using assms by (auto intro!: take_bit_small simp: number_fields_ok_def)
  then show ?thesis using assms
    by (simp add: read_number_3a_def write_number_3a_def fields copy_number_app number_fields_ok_def numeral_2_eq_2)
qed

lemma progress_roundtrip:
  assumes "unat (pi_coding_standard ie) < 4" "unat (pi_location ie) < 16" "unat (pi_progress_description ie) < 128"
  shows "q931_ie_progress_indicator_read_from_buf (q931_ie_progress_indicator_write_to_buf ie @ rest) 2 = Inr (Some ie)"
proof -
  have "take_bit 2 (pi_coding_standard ie) = pi_coding_standard ie" "take_bit 4 (pi_location ie) = pi_location ie"
    "take_bit 7 (pi_progress_description ie) = pi_progress_description ie"
    using assms by (auto intro!: take_bit_small)
  then show ?thesis
    by (simp add: q931_ie_progress_indicator_read_from_buf_def q931_ie_progress_indicator_write_to_buf_def fields)
qed

lemma hlc_octets:
  assumes "unat (hlc_coding_standard ie) < 4" "unat (hlc_interpretation ie) < 8" "unat (hlc_presentation_method ie) < 4"
    "unat (hlc_characteristics_identification ie) < 128"
  shows "take_bit 2 (hlc_coding_standard ie) = hlc_coding_standard ie" "take_bit 3 (hlc_interpretation ie) = hlc_interpretation ie"
    "take_bit 2 (hlc_presentation_method ie) = hlc_presentation_method ie"
    "take_bit 7 (hlc_characteristics_identification ie) = hlc_characteristics_identification ie"
  using assms by (auto intro!: take_bit_small)

lemma hlc_roundtrip:
  assumes "unat (hlc_coding_standard ie) < 4" "unat (hlc_interpretation ie) < 8" "unat (hlc_presentation_method ie) < 4"
    "unat (hlc_characteristics_identification ie) < 128" "hlc_extended_characteristics_identification ie = 0"
    "hlc_characteristics_identification ie \<noteq> Q931_IE_HLC_CI_RESERVED_FOR_MAINTENANCE"
    "hlc_characteristics_identification ie \<noteq> Q931_IE_HLC_CI_RESERVED_FOR_MANAGEMENT"
  shows "q931_ie_high_layer_compatibility_read_from_buf (q931_ie_high_layer_compatibility_write_to_buf ie @ rest) 2 = Inr (Some ie)"
  using assms(5-7) hlc_octets [OF assms(1-4)]
  by (simp add: q931_ie_high_layer_compatibility_read_from_buf_def q931_ie_high_layer_compatibility_write_to_buf_def fields)

text \<open>With octet 4a the element is refused: the reader wants the extension bit clear there, the writer sets it.\<close>

lemma hlc_extended_refused:
  assumes "hlc_characteristics_identification ie = Q931_IE_HLC_CI_RESERVED_FOR_MAINTENANCE \<or>
    hlc_characteristics_identification ie = Q931_IE_HLC_CI_RESERVED_FOR_MANAGEMENT"
  shows "q931_ie_high_layer_compatibility_read_from_buf (q931_ie_high_layer_compatibility_write_to_buf ie @ rest) 3 = Inr None"
  using assms
  by (auto simp: q931_ie_high_layer_compatibility_read_from_buf_def q931_ie_high_layer_compatibility_write_to_buf_def fields)

definition channel_id_ok :: "lapd_intf_type \<Rightarrow> nat \<Rightarrow> q931_ie_channel_identification \<Rightarrow> bool" where
  "channel_id_ok intf_type n_channels ie \<longleftrightarrow>
     unat (ci_preferred_exclusive ie) < 2 \<and> ci_d_channel_indicator ie = 0 \<and>
     (case intf_type of
        LAPD_INTF_TYPE_BRA \<Rightarrow> ci_interface_type ie = Q931_IE_CI_IT_BASIC \<and>
          (if ci_any_channel ie then ci_chanset ie = [0, 1] \<and> ci_preferred_exclusive ie = 0
           else ci_chanset ie = [] \<or> ci_chanset ie = [0] \<or> ci_chanset ie = [1])
      | LAPD_INTF_TYPE_PRA \<Rightarrow> ci_interface_type ie = Q931_IE_CI_IT_PRIMARY \<and>
          (if ci_any_channel ie then ci_chanset ie = [0..<n_channels] \<and> n_channels \<le> 32 else \<forall>ch\<in>set (ci_chanset ie). ch < 32))"

text \<open>On a primary interface only the first channel of a list arrives.\<close>

definition channel_id_received :: "q931_ie_channel_identification \<Rightarrow> q931_ie_channel_identification" where
  "channel_id_received ie =
     (if ci_interface_type ie = Q931_IE_CI_IT_PRIMARY \<and> \<not> ci_any_channel ie then ie\<lparr>ci_chanset := take 1 (ci_chanset ie)\<rparr> else ie)"

lemma add_all_upt: "i + m \<le> 32 \<Longrightarrow> chanset_add_all [0..<i] [i..<i + m] = Inr [0..<i + m]"
proof (induction m arbitrary: i)
  case (Suc m)
  have "[i..<i + Suc m] = i # [Suc i..<Suc i + m]" by (simp add: upt_conv_Cons)
  moreover have "[0..<i] @ [i] = [0..<Suc i]" by simp
  ultimately show ?case using Suc.IH [of "Suc i"] Suc.prems
    by (simp add: q931_chanset_add_def Q931_CHANSET_MAX_SIZE_def)
qed simp

lemmas channel_codes = Q931_IE_CI_IT_BASIC_def Q931_IE_CI_IT_PRIMARY_def Q931_IE_CI_PE_EXCLUSIVE_def Q931_IE_CI_ICS_BRA_NO_CHANNEL_def
  Q931_IE_CI_ICS_BRA_B1_def Q931_IE_CI_ICS_BRA_B2_def Q931_IE_CI_ICS_BRA_ANY_def Q931_IE_CI_ICS_PRA_NO_CHANNEL_def
  Q931_IE_CI_ICS_PRA_INDICATED_def Q931_IE_CI_ICS_PRA_ANY_def Q931_IE_CI_ET_B_def

lemma channel_octet_3:
  assumes "unat (ci_preferred_exclusive ie) < 2" "ci_d_channel_indicator ie = 0" "unat t < 2" "unat ics < 4" "o3 = channel_id_octet_3 ie t ics"
  shows "\<not> bit o3 6" "\<not> bit o3 2" "fget 5 1 o3 = t" "fget 3 1 o3 = ci_preferred_exclusive ie" "fget 2 1 o3 = 0" "fget 0 2 o3 = ics"
proof -
  have t: "take_bit 1 t = t" "take_bit 1 (ci_preferred_exclusive ie) = ci_preferred_exclusive ie" "take_bit 2 ics = ics"
    using take_bit_small [of t 1] take_bit_small [of "ci_preferred_exclusive ie" 1] take_bit_small [of ics 2] assms(1,3,4) by simp_all
  have z: "fput 2 1 0 = 0" "fget n w 0 = 0" for n w by (simp_all add: fput_def fget_def)
  show "\<not> bit o3 6" "\<not> bit o3 2" unfolding assms(5) channel_id_octet_3_def assms(2) z by (simp_all add: fields)
  show "fget 5 1 o3 = t" "fget 3 1 o3 = ci_preferred_exclusive ie" "fget 2 1 o3 = 0" "fget 0 2 o3 = ics"
    unfolding assms(5) channel_id_octet_3_def assms(2) z fget_or
    using t by (simp_all add: fget_EXT fget_fput_same fget_fput_other z del: One_nat_def)
qed

lemma channel_id_bra_roundtrip:
  assumes "channel_id_ok LAPD_INTF_TYPE_BRA n ie"
  shows "\<exists>octs. q931_ie_channel_identification_write_to_buf ie = Inr octs \<and>
    q931_ie_channel_identification_read_from_buf LAPD_INTF_TYPE_BRA n (octs @ rest) (int (length octs)) = Inr (Some ie)"
proof -
  note ok = assms [unfolded channel_id_ok_def, simplified]
  obtain ics where i: "q931_ie_channel_identification_write_to_buf ie = Inr [channel_id_octet_3 ie Q931_IE_CI_IT_BASIC ics]" "unat ics < 4"
    "ics = (if ci_any_channel ie then 3 else if ci_chanset ie = [] then 0 else if ci_chanset ie = [0] then 1 else 2)"
    using ok by (auto simp: q931_ie_channel_identification_write_to_buf_def q931_ie_channel_identification_write_to_buf_bra_def channel_codes split: if_splits)
  have "unat Q931_IE_CI_IT_BASIC < 2" by (simp add: channel_codes)
  note o = channel_octet_3 [OF _ _ this i(2) refl, of ie]
  have e: "ie = \<lparr>ci_interface_type = Q931_IE_CI_IT_BASIC, ci_preferred_exclusive = ci_preferred_exclusive ie, ci_d_channel_indicator = 0,
     ci_any_channel = ci_any_channel ie, ci_chanset = ci_chanset ie\<rparr>" using ok by simp
  show ?thesis using i ok o
    by (subst e, intro exI [of _ "[channel_id_octet_3 ie Q931_IE_CI_IT_BASIC ics]"])
       (auto simp: q931_ie_channel_identification_read_from_buf_def channel_codes Let_def split: if_splits)
qed

lemma channel_id_pra_roundtrip:
  assumes "channel_id_ok LAPD_INTF_TYPE_PRA n ie"
  shows "\<exists>octs. q931_ie_channel_identification_write_to_buf ie = Inr octs \<and>
    q931_ie_channel_identification_read_from_buf LAPD_INTF_TYPE_PRA n (octs @ rest) (int (length octs)) = Inr (Some (channel_id_received ie))"
proof -
  note ok = assms [unfolded channel_id_ok_def, simplified]
  define ics :: u8 where "ics = (if ci_any_channel ie then 3 else if ci_chanset ie = [] then 0 else 1)"
  let ?o3 = "channel_id_octet_3 ie Q931_IE_CI_IT_PRIMARY ics" and ?o3c = "EXT OR fput 0 4 Q931_IE_CI_ET_B"
  let ?chs = "if ics = 1 then map (\<lambda>ch. EXT OR fput 0 7 (word_of_nat ch)) (ci_chanset ie) else []"
  have w: "q931_ie_channel_identification_write_to_buf ie = Inr ([?o3, ?o3c] @ ?chs)"
    using ok by (simp add: q931_ie_channel_identification_write_to_buf_def q931_ie_channel_identification_write_to_buf_pra_def ics_def channel_codes Let_def)
  have "unat Q931_IE_CI_IT_PRIMARY < 2" "unat ics < 4" by (simp_all add: channel_codes ics_def)
  note o = channel_octet_3 [OF _ _ this refl, of ie]
  have c: "fget 5 2 ?o3c = 0" "\<not> bit ?o3c 4" by (simp_all add: fields channel_codes)
  have e: "ie = \<lparr>ci_interface_type = Q931_IE_CI_IT_PRIMARY, ci_preferred_exclusive = ci_preferred_exclusive ie, ci_d_channel_indicator = 0,
     ci_any_channel = ci_any_channel ie, ci_chanset = ci_chanset ie\<rparr>" using ok by simp
  have rd: "q931_ie_channel_identification_read_from_buf LAPD_INTF_TYPE_PRA n (([?o3, ?o3c] @ ?chs) @ rest) (int (length ([?o3, ?o3c] @ ?chs))) =
    channel_id_pra n (([?o3, ?o3c] @ ?chs) @ rest) (int (length ([?o3, ?o3c] @ ?chs))) ?o3 (ie\<lparr>ci_any_channel := False, ci_chanset := []\<rparr>)"
    using o ok by (subst (6) e) (simp add: q931_ie_channel_identification_read_from_buf_def channel_codes Let_def)
  have "channel_id_pra n (([?o3, ?o3c] @ ?chs) @ rest) (int (length ([?o3, ?o3c] @ ?chs))) ?o3 (ie\<lparr>ci_any_channel := False, ci_chanset := []\<rparr>) =
    Inr (Some (channel_id_received ie))"
  proof (cases "ci_any_channel ie")
    case True
    then show ?thesis using o c ok add_all_upt [of 0 n] by (simp add: channel_id_pra_def ics_def channel_codes channel_id_received_def)
  next
    case False
    show ?thesis
    proof (cases "ci_chanset ie")
      case Nil
      then show ?thesis using False o c ok by (simp add: channel_id_pra_def ics_def channel_codes channel_id_received_def)
    next
      case (Cons ch chs)
      let ?x = "EXT OR fput 0 7 (word_of_nat ch)"
      have "ch < 32" using ok False Cons by simp
      then have "unat (word_of_nat ch :: u8) = ch" by (simp add: unat_of_nat)
      then have "unat (fget 0 7 ?x) = ch" "ext ?x" using \<open>ch < 32\<close> take_bit_small [of "word_of_nat ch" 7] by (simp_all add: fields)
      then have "channel_numbers (?o3 # ?o3c # ?x # r) 2 k [] = Inr [ch]" for r k
        using \<open>ch < 32\<close> by (cases k) (simp_all add: intf_channel_def Q931_INTF_CHANNELS_def q931_chanset_add_def Q931_CHANSET_MAX_SIZE_def)
      then show ?thesis using False Cons o c ok by (simp add: channel_id_pra_def ics_def channel_codes channel_id_received_def)
    qed
  qed
  then show ?thesis using w rd by simp
qed

end
