(* ===== verification/Q931_Message.thy ===== *)
theory Q931_Message
  imports Q931_Ie "HOL-Library.Multiset"
begin

text \<open>
  Messages of Q.931 (\<^verbatim>\<open>src/libq931\<close>): the tables of information elements (\<^verbatim>\<open>ie.c\<close>), call references
  (\<^verbatim>\<open>callref.c\<close>), writing and sending a message (\<^verbatim>\<open>output.c\<close>), and reading one (\<^verbatim>\<open>input.c\<close>) with what is sent back for
  elements that are missing, wrong or unknown. The message buffer has 512 octets, zero at first.
\<close>

section \<open>Elements\<close>

definition INT_MAX :: int where "INT_MAX = 2147483647"

definition Q931_IE_SHIFT :: u8 where "Q931_IE_SHIFT = 0x90"
definition Q931_IE_CONGESTION_LEVEL :: u8 where "Q931_IE_CONGESTION_LEVEL = 0xb0"
definition Q931_IE_MORE_DATA :: u8 where "Q931_IE_MORE_DATA = 0xa0"
definition Q931_IE_SENDING_COMPLETE :: u8 where "Q931_IE_SENDING_COMPLETE = 0xa1"
definition Q931_IE_REPEAT_INDICATOR :: u8 where "Q931_IE_REPEAT_INDICATOR = 0xd0"
definition Q931_IE_SEGMENTED_MESSAGE :: u8 where "Q931_IE_SEGMENTED_MESSAGE = 0x00"
definition Q931_IE_CHANGE_STATUS :: u8 where "Q931_IE_CHANGE_STATUS = 0x01"
definition Q931_IE_SPECIAL :: u8 where "Q931_IE_SPECIAL = 0x02"
definition Q931_IE_CONNECTED_ADDRESS :: u8 where "Q931_IE_CONNECTED_ADDRESS = 0x0c"
definition Q931_IE_EXTENDED_FACILITY :: u8 where "Q931_IE_EXTENDED_FACILITY = 0x0d"
definition Q931_IE_BEARER_CAPABILITY :: u8 where "Q931_IE_BEARER_CAPABILITY = 0x04"
definition Q931_IE_CAUSE :: u8 where "Q931_IE_CAUSE = 0x08"
definition Q931_IE_CALL_IDENTITY :: u8 where "Q931_IE_CALL_IDENTITY = 0x10"
definition Q931_IE_CALL_STATE :: u8 where "Q931_IE_CALL_STATE = 0x14"
definition Q931_IE_CHANNEL_IDENTIFICATION :: u8 where "Q931_IE_CHANNEL_IDENTIFICATION = 0x18"
definition Q931_IE_FACILITY :: u8 where "Q931_IE_FACILITY = 0x1c"
definition Q931_IE_PROGRESS_INDICATOR :: u8 where "Q931_IE_PROGRESS_INDICATOR = 0x1e"
definition Q931_IE_NETWORK_SPECIFIC_FACILITIES :: u8 where "Q931_IE_NETWORK_SPECIFIC_FACILITIES = 0x20"
definition Q931_IE_ENDPOINT_ID :: u8 where "Q931_IE_ENDPOINT_ID = 0x26"
definition Q931_IE_NOTIFICATION_INDICATOR :: u8 where "Q931_IE_NOTIFICATION_INDICATOR = 0x27"
definition Q931_IE_DISPLAY :: u8 where "Q931_IE_DISPLAY = 0x28"
definition Q931_IE_DATETIME :: u8 where "Q931_IE_DATETIME = 0x29"
definition Q931_IE_KEYPAD_FACILITY :: u8 where "Q931_IE_KEYPAD_FACILITY = 0x2c"
definition Q931_IE_CALL_STATUS :: u8 where "Q931_IE_CALL_STATUS = 0x2d"
definition Q931_IE_UPDATE :: u8 where "Q931_IE_UPDATE = 0x31"
definition Q931_IE_INFO_REQUEST :: u8 where "Q931_IE_INFO_REQUEST = 0x32"
definition Q931_IE_SIGNAL :: u8 where "Q931_IE_SIGNAL = 0x34"
definition Q931_IE_SWITCHHOOK :: u8 where "Q931_IE_SWITCHHOOK = 0x36"
definition Q931_IE_FEATURE_ACTIVATION :: u8 where "Q931_IE_FEATURE_ACTIVATION = 0x38"
definition Q931_IE_FEATURE_INDICATION :: u8 where "Q931_IE_FEATURE_INDICATION = 0x39"
definition Q931_IE_INFORMATION_RATE :: u8 where "Q931_IE_INFORMATION_RATE = 0x40"
definition Q931_IE_END_TO_END_TRANSIT_DELAY :: u8 where "Q931_IE_END_TO_END_TRANSIT_DELAY = 0x42"
definition Q931_IE_TRANSIT_DELAY_SELECTION_AND_INDICATION :: u8 where "Q931_IE_TRANSIT_DELAY_SELECTION_AND_INDICATION = 0x43"
definition Q931_IE_PACKET_LAYER_BINARY_PARAMETERS :: u8 where "Q931_IE_PACKET_LAYER_BINARY_PARAMETERS = 0x44"
definition Q931_IE_PACKET_LAYER_WINDOW_SIZE :: u8 where "Q931_IE_PACKET_LAYER_WINDOW_SIZE = 0x45"
definition Q931_IE_PACKET_SIZE :: u8 where "Q931_IE_PACKET_SIZE = 0x46"
definition Q931_IE_CLOSED_USER_GROUP :: u8 where "Q931_IE_CLOSED_USER_GROUP = 0x47"
definition Q931_IE_REVERSE_CHARGE_INDICATION :: u8 where "Q931_IE_REVERSE_CHARGE_INDICATION = 0x4a"
definition Q931_IE_CONNECTED_NUMBER :: u8 where "Q931_IE_CONNECTED_NUMBER = 0x4c"
definition Q931_IE_CALLING_PARTY_NUMBER :: u8 where "Q931_IE_CALLING_PARTY_NUMBER = 0x6c"
definition Q931_IE_CALLING_PARTY_SUBADDRESS :: u8 where "Q931_IE_CALLING_PARTY_SUBADDRESS = 0x6d"
definition Q931_IE_CALLED_PARTY_NUMBER :: u8 where "Q931_IE_CALLED_PARTY_NUMBER = 0x70"
definition Q931_IE_CALLED_PARTY_SUBADDRESS :: u8 where "Q931_IE_CALLED_PARTY_SUBADDRESS = 0x71"
definition Q931_IE_ORIGINAL_CALLED_NUMBER :: u8 where "Q931_IE_ORIGINAL_CALLED_NUMBER = 0x73"
definition Q931_IE_REDIRECTING_NUMBER :: u8 where "Q931_IE_REDIRECTING_NUMBER = 0x74"
definition Q931_IE_REDIRECTING_SUBADDRESS :: u8 where "Q931_IE_REDIRECTING_SUBADDRESS = 0x75"
definition Q931_IE_REDIRECTION_NUMBER :: u8 where "Q931_IE_REDIRECTION_NUMBER = 0x76"
definition Q931_IE_REDIRECTION_SUBADDRESS :: u8 where "Q931_IE_REDIRECTION_SUBADDRESS = 0x77"
definition Q931_IE_TRANSIT_NETWORK_SELECTION :: u8 where "Q931_IE_TRANSIT_NETWORK_SELECTION = 0x78"
definition Q931_IE_RESTART_INDICATOR :: u8 where "Q931_IE_RESTART_INDICATOR = 0x79"
definition Q931_IE_USER_USER_FACILITY :: u8 where "Q931_IE_USER_USER_FACILITY = 0x7a"
definition Q931_IE_LOW_LAYER_COMPATIBILITY :: u8 where "Q931_IE_LOW_LAYER_COMPATIBILITY = 0x7c"
definition Q931_IE_USER_USER :: u8 where "Q931_IE_USER_USER = 0x7e"
definition Q931_IE_HIGH_LAYER_COMPATIBILITY :: u8 where "Q931_IE_HIGH_LAYER_COMPATIBILITY = 0x7d"
definition Q931_IE_ESCAPE_FOR_EXTENSION :: u8 where "Q931_IE_ESCAPE_FOR_EXTENSION = 0x7f"

definition Q931_MT_ALERTING :: u8 where "Q931_MT_ALERTING = 0x01"
definition Q931_MT_CALL_PROCEEDING :: u8 where "Q931_MT_CALL_PROCEEDING = 0x02"
definition Q931_MT_CONNECT :: u8 where "Q931_MT_CONNECT = 0x07"
definition Q931_MT_CONNECT_ACKNOWLEDGE :: u8 where "Q931_MT_CONNECT_ACKNOWLEDGE = 0x0f"
definition Q931_MT_PROGRESS :: u8 where "Q931_MT_PROGRESS = 0x03"
definition Q931_MT_SETUP :: u8 where "Q931_MT_SETUP = 0x05"
definition Q931_MT_SETUP_ACKNOWLEDGE :: u8 where "Q931_MT_SETUP_ACKNOWLEDGE = 0x0d"
definition Q931_MT_DISCONNECT :: u8 where "Q931_MT_DISCONNECT = 0x45"
definition Q931_MT_RELEASE :: u8 where "Q931_MT_RELEASE = 0x4d"
definition Q931_MT_RELEASE_COMPLETE :: u8 where "Q931_MT_RELEASE_COMPLETE = 0x5a"
definition Q931_MT_RESTART :: u8 where "Q931_MT_RESTART = 0x46"
definition Q931_MT_RESTART_ACKNOWLEDGE :: u8 where "Q931_MT_RESTART_ACKNOWLEDGE = 0x4e"
definition Q931_MT_STATUS :: u8 where "Q931_MT_STATUS = 0x7d"
definition Q931_MT_STATUS_ENQUIRY :: u8 where "Q931_MT_STATUS_ENQUIRY = 0x75"
definition Q931_MT_USER_INFORMATION :: u8 where "Q931_MT_USER_INFORMATION = 0x20"
definition Q931_MT_SEGMENT :: u8 where "Q931_MT_SEGMENT = 0x60"
definition Q931_MT_CONGESTION_CONTROL :: u8 where "Q931_MT_CONGESTION_CONTROL = 0x79"
definition Q931_MT_INFORMATION :: u8 where "Q931_MT_INFORMATION = 0x7b"
definition Q931_MT_FACILITY :: u8 where "Q931_MT_FACILITY = 0x62"
definition Q931_MT_REGISTER :: u8 where "Q931_MT_REGISTER = 0x64"
definition Q931_MT_NOTIFY :: u8 where "Q931_MT_NOTIFY = 0x6e"
definition Q931_MT_HOLD :: u8 where "Q931_MT_HOLD = 0x24"
definition Q931_MT_HOLD_ACKNOWLEDGE :: u8 where "Q931_MT_HOLD_ACKNOWLEDGE = 0x28"
definition Q931_MT_HOLD_REJECT :: u8 where "Q931_MT_HOLD_REJECT = 0x30"
definition Q931_MT_RETRIEVE :: u8 where "Q931_MT_RETRIEVE = 0x31"
definition Q931_MT_RETRIEVE_ACKNOWLEDGE :: u8 where "Q931_MT_RETRIEVE_ACKNOWLEDGE = 0x33"
definition Q931_MT_RETRIEVE_REJECT :: u8 where "Q931_MT_RETRIEVE_REJECT = 0x37"
definition Q931_MT_RESUME :: u8 where "Q931_MT_RESUME = 0x26"
definition Q931_MT_RESUME_ACKNOWLEDGE :: u8 where "Q931_MT_RESUME_ACKNOWLEDGE = 0x2e"
definition Q931_MT_RESUME_REJECT :: u8 where "Q931_MT_RESUME_REJECT = 0x22"
definition Q931_MT_SUSPEND :: u8 where "Q931_MT_SUSPEND = 0x25"
definition Q931_MT_SUSPEND_ACKNOWLEDGE :: u8 where "Q931_MT_SUSPEND_ACKNOWLEDGE = 0x2d"
definition Q931_MT_SUSPEND_REJECT :: u8 where "Q931_MT_SUSPEND_REJECT = 0x21"

datatype q931_ie_type = Q931_IE_TYPE_SO | Q931_IE_TYPE_VL
datatype q931_ie_direction = Q931_IE_DIR_N_TO_U | Q931_IE_DIR_U_TO_N | Q931_IE_DIR_BOTH
datatype q931_ie_presence = Q931_IE_OPTIONAL | Q931_IE_MANDATORY

definition Q931_NT_UNKNOWN :: nat where "Q931_NT_UNKNOWN = 0"
definition Q931_NT_ETSI :: nat where "Q931_NT_ETSI = 1"

text \<open>The functions of a class: they are all set or all null.\<close>

datatype q931_ie_ops =
  Ops_sending_complete | Ops_bearer_capability | Ops_cause | Ops_call_identity | Ops_call_state | Ops_channel_identification |
  Ops_progress_indicator | Ops_notification_indicator | Ops_display | Ops_datetime | Ops_connected_number |
  Ops_calling_party_number | Ops_called_party_number | Ops_restart_indicator | Ops_low_layer_compatibility |
  Ops_high_layer_compatibility

datatype q931_ie_class = Q931_ie_class
  (cls_type: q931_ie_type) (cls_max_len: int) (cls_max_occur: int) (cls_network_type: nat) (cls_codeset: u8) (cls_id: u8)
  (cls_ops: "q931_ie_ops option")

datatype q931_ie_usage = Q931_ie_usage
  (us_message_type: u8) (us_codeset: u8) (us_ie_id: u8) (us_direction: q931_ie_direction) (us_presence: q931_ie_presence)

definition q931_ie_classes :: "q931_ie_class list" where
  "q931_ie_classes =
    [Q931_ie_class Q931_IE_TYPE_SO 1 1 Q931_NT_ETSI 0 Q931_IE_SHIFT None,
     Q931_ie_class Q931_IE_TYPE_SO 1 1 Q931_NT_ETSI 0 Q931_IE_MORE_DATA None,
     Q931_ie_class Q931_IE_TYPE_SO 1 1 Q931_NT_ETSI 0 Q931_IE_SENDING_COMPLETE (Some Ops_sending_complete),
     Q931_ie_class Q931_IE_TYPE_SO 1 1 Q931_NT_ETSI 0 Q931_IE_CONGESTION_LEVEL None,
     Q931_ie_class Q931_IE_TYPE_SO 1 1 Q931_NT_UNKNOWN 0 Q931_IE_REPEAT_INDICATOR None,
     Q931_ie_class Q931_IE_TYPE_VL 4 1 Q931_NT_ETSI 0 Q931_IE_SEGMENTED_MESSAGE None,
     Q931_ie_class Q931_IE_TYPE_VL INT_MAX 1 Q931_NT_UNKNOWN 0 Q931_IE_CHANGE_STATUS None,
     Q931_ie_class Q931_IE_TYPE_VL INT_MAX 1 Q931_NT_UNKNOWN 0 Q931_IE_SPECIAL None,
     Q931_ie_class Q931_IE_TYPE_VL INT_MAX 1 Q931_NT_UNKNOWN 0 Q931_IE_CONNECTED_ADDRESS None,
     Q931_ie_class Q931_IE_TYPE_VL INT_MAX INT_MAX Q931_NT_ETSI 0 Q931_IE_EXTENDED_FACILITY None,
     Q931_ie_class Q931_IE_TYPE_VL 12 1 Q931_NT_ETSI 0 Q931_IE_BEARER_CAPABILITY (Some Ops_bearer_capability),
     Q931_ie_class Q931_IE_TYPE_VL 32 1 Q931_NT_ETSI 0 Q931_IE_CAUSE (Some Ops_cause),
     Q931_ie_class Q931_IE_TYPE_VL 10 1 Q931_NT_ETSI 0 Q931_IE_CALL_IDENTITY (Some Ops_call_identity),
     Q931_ie_class Q931_IE_TYPE_VL 3 1 Q931_NT_ETSI 0 Q931_IE_CALL_STATE (Some Ops_call_state),
     Q931_ie_class Q931_IE_TYPE_VL INT_MAX INT_MAX Q931_NT_ETSI 0 Q931_IE_CHANNEL_IDENTIFICATION (Some Ops_channel_identification),
     Q931_ie_class Q931_IE_TYPE_VL INT_MAX INT_MAX Q931_NT_ETSI 0 Q931_IE_FACILITY None,
     Q931_ie_class Q931_IE_TYPE_VL 4 2 Q931_NT_ETSI 0 Q931_IE_PROGRESS_INDICATOR (Some Ops_progress_indicator),
     Q931_ie_class Q931_IE_TYPE_VL INT_MAX 4 Q931_NT_ETSI 0 Q931_IE_NETWORK_SPECIFIC_FACILITIES None,
     Q931_ie_class Q931_IE_TYPE_VL INT_MAX 1 Q931_NT_UNKNOWN 0 Q931_IE_ENDPOINT_ID None,
     Q931_ie_class Q931_IE_TYPE_VL 3 1 Q931_NT_ETSI 0 Q931_IE_NOTIFICATION_INDICATOR (Some Ops_notification_indicator),
     Q931_ie_class Q931_IE_TYPE_VL 82 1 Q931_NT_ETSI 0 Q931_IE_DISPLAY (Some Ops_display),
     Q931_ie_class Q931_IE_TYPE_VL 8 1 Q931_NT_ETSI 0 Q931_IE_DATETIME (Some Ops_datetime),
     Q931_ie_class Q931_IE_TYPE_VL 34 1 Q931_NT_ETSI 0 Q931_IE_KEYPAD_FACILITY None,
     Q931_ie_class Q931_IE_TYPE_VL INT_MAX 1 Q931_NT_UNKNOWN 0 Q931_IE_CALL_STATUS None,
     Q931_ie_class Q931_IE_TYPE_VL INT_MAX 1 Q931_NT_UNKNOWN 0 Q931_IE_UPDATE None,
     Q931_ie_class Q931_IE_TYPE_VL INT_MAX 1 Q931_NT_UNKNOWN 0 Q931_IE_INFO_REQUEST None,
     Q931_ie_class Q931_IE_TYPE_VL 3 1 Q931_NT_ETSI 0 Q931_IE_SIGNAL None,
     Q931_ie_class Q931_IE_TYPE_VL 3 1 Q931_NT_UNKNOWN 0 Q931_IE_SWITCHHOOK None,
     Q931_ie_class Q931_IE_TYPE_VL 4 1 Q931_NT_UNKNOWN 0 Q931_IE_FEATURE_ACTIVATION None,
     Q931_ie_class Q931_IE_TYPE_VL 5 1 Q931_NT_UNKNOWN 0 Q931_IE_FEATURE_INDICATION None,
     Q931_ie_class Q931_IE_TYPE_VL 6 1 Q931_NT_ETSI 0 Q931_IE_INFORMATION_RATE None,
     Q931_ie_class Q931_IE_TYPE_VL 11 1 Q931_NT_ETSI 0 Q931_IE_END_TO_END_TRANSIT_DELAY None,
     Q931_ie_class Q931_IE_TYPE_VL 5 1 Q931_NT_ETSI 0 Q931_IE_TRANSIT_DELAY_SELECTION_AND_INDICATION None,
     Q931_ie_class Q931_IE_TYPE_VL 3 1 Q931_NT_ETSI 0 Q931_IE_PACKET_LAYER_BINARY_PARAMETERS None,
     Q931_ie_class Q931_IE_TYPE_VL 4 1 Q931_NT_ETSI 0 Q931_IE_PACKET_LAYER_WINDOW_SIZE None,
     Q931_ie_class Q931_IE_TYPE_VL 4 1 Q931_NT_ETSI 0 Q931_IE_PACKET_SIZE None,
     Q931_ie_class Q931_IE_TYPE_VL INT_MAX 1 Q931_NT_UNKNOWN 0 Q931_IE_CLOSED_USER_GROUP None,
     Q931_ie_class Q931_IE_TYPE_VL INT_MAX 1 Q931_NT_UNKNOWN 0 Q931_IE_REVERSE_CHARGE_INDICATION None,
     Q931_ie_class Q931_IE_TYPE_VL INT_MAX 1 Q931_NT_UNKNOWN 0 Q931_IE_CONNECTED_NUMBER (Some Ops_connected_number),
     Q931_ie_class Q931_IE_TYPE_VL 24 1 Q931_NT_ETSI 0 Q931_IE_CALLING_PARTY_NUMBER (Some Ops_calling_party_number),
     Q931_ie_class Q931_IE_TYPE_VL 23 1 Q931_NT_ETSI 0 Q931_IE_CALLING_PARTY_SUBADDRESS None,
     Q931_ie_class Q931_IE_TYPE_VL 23 1 Q931_NT_ETSI 0 Q931_IE_CALLED_PARTY_NUMBER (Some Ops_called_party_number),
     Q931_ie_class Q931_IE_TYPE_VL 23 1 Q931_NT_ETSI 0 Q931_IE_CALLED_PARTY_SUBADDRESS None,
     Q931_ie_class Q931_IE_TYPE_VL INT_MAX 1 Q931_NT_UNKNOWN 0 Q931_IE_ORIGINAL_CALLED_NUMBER None,
     Q931_ie_class Q931_IE_TYPE_VL INT_MAX 1 Q931_NT_ETSI 0 Q931_IE_REDIRECTING_NUMBER None,
     Q931_ie_class Q931_IE_TYPE_VL INT_MAX 1 Q931_NT_UNKNOWN 0 Q931_IE_REDIRECTING_SUBADDRESS None,
     Q931_ie_class Q931_IE_TYPE_VL INT_MAX 1 Q931_NT_UNKNOWN 0 Q931_IE_REDIRECTION_NUMBER None,
     Q931_ie_class Q931_IE_TYPE_VL INT_MAX 1 Q931_NT_UNKNOWN 0 Q931_IE_REDIRECTION_SUBADDRESS None,
     Q931_ie_class Q931_IE_TYPE_VL INT_MAX 1 Q931_NT_ETSI 0 Q931_IE_TRANSIT_NETWORK_SELECTION None,
     Q931_ie_class Q931_IE_TYPE_VL 3 1 Q931_NT_ETSI 0 Q931_IE_RESTART_INDICATOR (Some Ops_restart_indicator),
     Q931_ie_class Q931_IE_TYPE_VL INT_MAX INT_MAX Q931_NT_UNKNOWN 0 Q931_IE_USER_USER_FACILITY None,
     Q931_ie_class Q931_IE_TYPE_VL 16 1 Q931_NT_ETSI 0 Q931_IE_LOW_LAYER_COMPATIBILITY (Some Ops_low_layer_compatibility),
     Q931_ie_class Q931_IE_TYPE_VL 5 1 Q931_NT_ETSI 0 Q931_IE_HIGH_LAYER_COMPATIBILITY (Some Ops_high_layer_compatibility),
     Q931_ie_class Q931_IE_TYPE_VL 131 1 Q931_NT_ETSI 0 Q931_IE_USER_USER None,
     Q931_ie_class Q931_IE_TYPE_VL INT_MAX 1 Q931_NT_UNKNOWN 0 Q931_IE_ESCAPE_FOR_EXTENSION None]"

definition q931_ie_usages :: "q931_ie_usage list" where
  "q931_ie_usages =
    [Q931_ie_usage Q931_MT_ALERTING 0 Q931_IE_BEARER_CAPABILITY Q931_IE_DIR_BOTH Q931_IE_OPTIONAL,
     Q931_ie_usage Q931_MT_ALERTING 0 Q931_IE_CHANNEL_IDENTIFICATION Q931_IE_DIR_BOTH Q931_IE_OPTIONAL,
     Q931_ie_usage Q931_MT_ALERTING 0 Q931_IE_FACILITY Q931_IE_DIR_BOTH Q931_IE_OPTIONAL,
     Q931_ie_usage Q931_MT_ALERTING 0 Q931_IE_EXTENDED_FACILITY Q931_IE_DIR_BOTH Q931_IE_OPTIONAL,
     Q931_ie_usage Q931_MT_ALERTING 0 Q931_IE_PROGRESS_INDICATOR Q931_IE_DIR_BOTH Q931_IE_OPTIONAL,
     Q931_ie_usage Q931_MT_ALERTING 0 Q931_IE_DISPLAY Q931_IE_DIR_N_TO_U Q931_IE_OPTIONAL,
     Q931_ie_usage Q931_MT_ALERTING 0 Q931_IE_USER_USER Q931_IE_DIR_BOTH Q931_IE_OPTIONAL,
     Q931_ie_usage Q931_MT_CALL_PROCEEDING 0 Q931_IE_BEARER_CAPABILITY Q931_IE_DIR_BOTH Q931_IE_OPTIONAL,
     Q931_ie_usage Q931_MT_CALL_PROCEEDING 0 Q931_IE_CHANNEL_IDENTIFICATION Q931_IE_DIR_BOTH Q931_IE_OPTIONAL,
     Q931_ie_usage Q931_MT_CALL_PROCEEDING 0 Q931_IE_PROGRESS_INDICATOR Q931_IE_DIR_BOTH Q931_IE_OPTIONAL,
     Q931_ie_usage Q931_MT_CALL_PROCEEDING 0 Q931_IE_DISPLAY Q931_IE_DIR_N_TO_U Q931_IE_OPTIONAL,
     Q931_ie_usage Q931_MT_CALL_PROCEEDING 0 Q931_IE_HIGH_LAYER_COMPATIBILITY Q931_IE_DIR_BOTH Q931_IE_OPTIONAL,
     Q931_ie_usage Q931_MT_CONNECT 0 Q931_IE_BEARER_CAPABILITY Q931_IE_DIR_BOTH Q931_IE_OPTIONAL,
     Q931_ie_usage Q931_MT_CONNECT 0 Q931_IE_CHANNEL_IDENTIFICATION Q931_IE_DIR_BOTH Q931_IE_OPTIONAL,
     Q931_ie_usage Q931_MT_CONNECT 0 Q931_IE_FACILITY Q931_IE_DIR_BOTH Q931_IE_OPTIONAL,
     Q931_ie_usage Q931_MT_CONNECT 0 Q931_IE_EXTENDED_FACILITY Q931_IE_DIR_BOTH Q931_IE_OPTIONAL,
     Q931_ie_usage Q931_MT_CONNECT 0 Q931_IE_PROGRESS_INDICATOR Q931_IE_DIR_BOTH Q931_IE_OPTIONAL,
     Q931_ie_usage Q931_MT_CONNECT 0 Q931_IE_DISPLAY Q931_IE_DIR_N_TO_U Q931_IE_OPTIONAL,
     Q931_ie_usage Q931_MT_CONNECT 0 Q931_IE_DATETIME Q931_IE_DIR_N_TO_U Q931_IE_OPTIONAL,
     Q931_ie_usage Q931_MT_CONNECT 0 Q931_IE_LOW_LAYER_COMPATIBILITY Q931_IE_DIR_BOTH Q931_IE_OPTIONAL,
     Q931_ie_usage Q931_MT_CONNECT 0 Q931_IE_HIGH_LAYER_COMPATIBILITY Q931_IE_DIR_BOTH Q931_IE_OPTIONAL,
     Q931_ie_usage Q931_MT_CONNECT 0 Q931_IE_USER_USER Q931_IE_DIR_BOTH Q931_IE_OPTIONAL,
     Q931_ie_usage Q931_MT_CONNECT 0 Q931_IE_CONNECTED_NUMBER Q931_IE_DIR_BOTH Q931_IE_OPTIONAL,
     Q931_ie_usage Q931_MT_CONGESTION_CONTROL 0 Q931_IE_CONGESTION_LEVEL Q931_IE_DIR_BOTH Q931_IE_MANDATORY,
     Q931_ie_usage Q931_MT_CONGESTION_CONTROL 0 Q931_IE_CAUSE Q931_IE_DIR_BOTH Q931_IE_OPTIONAL,
     Q931_ie_usage Q931_MT_CONGESTION_CONTROL 0 Q931_IE_DISPLAY Q931_IE_DIR_N_TO_U Q931_IE_OPTIONAL,
     Q931_ie_usage Q931_MT_CONNECT_ACKNOWLEDGE 0 Q931_IE_DISPLAY Q931_IE_DIR_N_TO_U Q931_IE_OPTIONAL,
     Q931_ie_usage Q931_MT_DISCONNECT 0 Q931_IE_CAUSE Q931_IE_DIR_BOTH Q931_IE_MANDATORY,
     Q931_ie_usage Q931_MT_DISCONNECT 0 Q931_IE_FACILITY Q931_IE_DIR_BOTH Q931_IE_OPTIONAL,
     Q931_ie_usage Q931_MT_DISCONNECT 0 Q931_IE_EXTENDED_FACILITY Q931_IE_DIR_BOTH Q931_IE_OPTIONAL,
     Q931_ie_usage Q931_MT_DISCONNECT 0 Q931_IE_PROGRESS_INDICATOR Q931_IE_DIR_BOTH Q931_IE_OPTIONAL,
     Q931_ie_usage Q931_MT_DISCONNECT 0 Q931_IE_DISPLAY Q931_IE_DIR_N_TO_U Q931_IE_OPTIONAL,
     Q931_ie_usage Q931_MT_DISCONNECT 0 Q931_IE_USER_USER Q931_IE_DIR_BOTH Q931_IE_OPTIONAL,
     Q931_ie_usage Q931_MT_FACILITY 0 Q931_IE_FACILITY Q931_IE_DIR_BOTH Q931_IE_MANDATORY,
     Q931_ie_usage Q931_MT_FACILITY 0 Q931_IE_EXTENDED_FACILITY Q931_IE_DIR_BOTH Q931_IE_MANDATORY,
     Q931_ie_usage Q931_MT_FACILITY 0 Q931_IE_CALLED_PARTY_NUMBER Q931_IE_DIR_BOTH Q931_IE_OPTIONAL,
     Q931_ie_usage Q931_MT_FACILITY 0 Q931_IE_CALLED_PARTY_SUBADDRESS Q931_IE_DIR_BOTH Q931_IE_OPTIONAL,
     Q931_ie_usage Q931_MT_FACILITY 0 Q931_IE_DISPLAY Q931_IE_DIR_N_TO_U Q931_IE_OPTIONAL,
     Q931_ie_usage Q931_MT_REGISTER 0 Q931_IE_FACILITY Q931_IE_DIR_BOTH Q931_IE_OPTIONAL,
     Q931_ie_usage Q931_MT_REGISTER 0 Q931_IE_EXTENDED_FACILITY Q931_IE_DIR_BOTH Q931_IE_OPTIONAL,
     Q931_ie_usage Q931_MT_REGISTER 0 Q931_IE_DISPLAY Q931_IE_DIR_N_TO_U Q931_IE_OPTIONAL,
     Q931_ie_usage Q931_MT_INFORMATION 0 Q931_IE_SENDING_COMPLETE Q931_IE_DIR_BOTH Q931_IE_OPTIONAL,
     Q931_ie_usage Q931_MT_INFORMATION 0 Q931_IE_CAUSE Q931_IE_DIR_N_TO_U Q931_IE_OPTIONAL,
     Q931_ie_usage Q931_MT_INFORMATION 0 Q931_IE_DISPLAY Q931_IE_DIR_N_TO_U Q931_IE_OPTIONAL,
     Q931_ie_usage Q931_MT_INFORMATION 0 Q931_IE_KEYPAD_FACILITY Q931_IE_DIR_U_TO_N Q931_IE_OPTIONAL,
     Q931_ie_usage Q931_MT_INFORMATION 0 Q931_IE_CALLED_PARTY_NUMBER Q931_IE_DIR_BOTH Q931_IE_OPTIONAL,
     Q931_ie_usage Q931_MT_NOTIFY 0 Q931_IE_NOTIFICATION_INDICATOR Q931_IE_DIR_N_TO_U Q931_IE_MANDATORY,
     Q931_ie_usage Q931_MT_NOTIFY 0 Q931_IE_DISPLAY Q931_IE_DIR_N_TO_U Q931_IE_OPTIONAL,
     Q931_ie_usage Q931_MT_HOLD 0 Q931_IE_DISPLAY Q931_IE_DIR_N_TO_U Q931_IE_OPTIONAL,
     Q931_ie_usage Q931_MT_HOLD_ACKNOWLEDGE 0 Q931_IE_DISPLAY Q931_IE_DIR_N_TO_U Q931_IE_OPTIONAL,
     Q931_ie_usage Q931_MT_HOLD_REJECT 0 Q931_IE_CAUSE Q931_IE_DIR_BOTH Q931_IE_MANDATORY,
     Q931_ie_usage Q931_MT_HOLD_REJECT 0 Q931_IE_DISPLAY Q931_IE_DIR_N_TO_U Q931_IE_OPTIONAL,
     Q931_ie_usage Q931_MT_RETRIEVE 0 Q931_IE_CHANNEL_IDENTIFICATION Q931_IE_DIR_BOTH Q931_IE_OPTIONAL,
     Q931_ie_usage Q931_MT_RETRIEVE 0 Q931_IE_DISPLAY Q931_IE_DIR_N_TO_U Q931_IE_OPTIONAL,
     Q931_ie_usage Q931_MT_RETRIEVE_ACKNOWLEDGE 0 Q931_IE_CHANNEL_IDENTIFICATION Q931_IE_DIR_BOTH Q931_IE_OPTIONAL,
     Q931_ie_usage Q931_MT_RETRIEVE_ACKNOWLEDGE 0 Q931_IE_DISPLAY Q931_IE_DIR_N_TO_U Q931_IE_OPTIONAL,
     Q931_ie_usage Q931_MT_RETRIEVE_REJECT 0 Q931_IE_CAUSE Q931_IE_DIR_BOTH Q931_IE_MANDATORY,
     Q931_ie_usage Q931_MT_RETRIEVE_REJECT 0 Q931_IE_DISPLAY Q931_IE_DIR_N_TO_U Q931_IE_OPTIONAL,
     Q931_ie_usage Q931_MT_PROGRESS 0 Q931_IE_BEARER_CAPABILITY Q931_IE_DIR_BOTH Q931_IE_OPTIONAL,
     Q931_ie_usage Q931_MT_PROGRESS 0 Q931_IE_CAUSE Q931_IE_DIR_BOTH Q931_IE_OPTIONAL,
     Q931_ie_usage Q931_MT_PROGRESS 0 Q931_IE_PROGRESS_INDICATOR Q931_IE_DIR_BOTH Q931_IE_MANDATORY,
     Q931_ie_usage Q931_MT_PROGRESS 0 Q931_IE_DISPLAY Q931_IE_DIR_N_TO_U Q931_IE_OPTIONAL,
     Q931_ie_usage Q931_MT_PROGRESS 0 Q931_IE_HIGH_LAYER_COMPATIBILITY Q931_IE_DIR_BOTH Q931_IE_OPTIONAL,
     Q931_ie_usage Q931_MT_PROGRESS 0 Q931_IE_USER_USER Q931_IE_DIR_N_TO_U Q931_IE_OPTIONAL,
     Q931_ie_usage Q931_MT_RELEASE 0 Q931_IE_CAUSE Q931_IE_DIR_BOTH Q931_IE_OPTIONAL,
     Q931_ie_usage Q931_MT_RELEASE 0 Q931_IE_FACILITY Q931_IE_DIR_BOTH Q931_IE_OPTIONAL,
     Q931_ie_usage Q931_MT_RELEASE 0 Q931_IE_EXTENDED_FACILITY Q931_IE_DIR_BOTH Q931_IE_OPTIONAL,
     Q931_ie_usage Q931_MT_RELEASE 0 Q931_IE_DISPLAY Q931_IE_DIR_N_TO_U Q931_IE_OPTIONAL,
     Q931_ie_usage Q931_MT_RELEASE 0 Q931_IE_USER_USER Q931_IE_DIR_BOTH Q931_IE_OPTIONAL,
     Q931_ie_usage Q931_MT_RELEASE_COMPLETE 0 Q931_IE_CAUSE Q931_IE_DIR_BOTH Q931_IE_OPTIONAL,
     Q931_ie_usage Q931_MT_RELEASE_COMPLETE 0 Q931_IE_FACILITY Q931_IE_DIR_BOTH Q931_IE_OPTIONAL,
     Q931_ie_usage Q931_MT_RELEASE_COMPLETE 0 Q931_IE_EXTENDED_FACILITY Q931_IE_DIR_BOTH Q931_IE_OPTIONAL,
     Q931_ie_usage Q931_MT_RELEASE_COMPLETE 0 Q931_IE_DISPLAY Q931_IE_DIR_N_TO_U Q931_IE_OPTIONAL,
     Q931_ie_usage Q931_MT_RELEASE_COMPLETE 0 Q931_IE_USER_USER Q931_IE_DIR_U_TO_N Q931_IE_OPTIONAL,
     Q931_ie_usage Q931_MT_RESTART 0 Q931_IE_CHANNEL_IDENTIFICATION Q931_IE_DIR_BOTH Q931_IE_OPTIONAL,
     Q931_ie_usage Q931_MT_RESTART 0 Q931_IE_DISPLAY Q931_IE_DIR_N_TO_U Q931_IE_OPTIONAL,
     Q931_ie_usage Q931_MT_RESTART 0 Q931_IE_RESTART_INDICATOR Q931_IE_DIR_BOTH Q931_IE_MANDATORY,
     Q931_ie_usage Q931_MT_RESTART_ACKNOWLEDGE 0 Q931_IE_CHANNEL_IDENTIFICATION Q931_IE_DIR_BOTH Q931_IE_OPTIONAL,
     Q931_ie_usage Q931_MT_RESTART_ACKNOWLEDGE 0 Q931_IE_DISPLAY Q931_IE_DIR_N_TO_U Q931_IE_OPTIONAL,
     Q931_ie_usage Q931_MT_RESTART_ACKNOWLEDGE 0 Q931_IE_RESTART_INDICATOR Q931_IE_DIR_BOTH Q931_IE_MANDATORY,
     Q931_ie_usage Q931_MT_RESUME 0 Q931_IE_CALL_IDENTITY Q931_IE_DIR_U_TO_N Q931_IE_OPTIONAL,
     Q931_ie_usage Q931_MT_RESUME_ACKNOWLEDGE 0 Q931_IE_CHANNEL_IDENTIFICATION Q931_IE_DIR_N_TO_U Q931_IE_MANDATORY,
     Q931_ie_usage Q931_MT_RESUME_ACKNOWLEDGE 0 Q931_IE_DISPLAY Q931_IE_DIR_N_TO_U Q931_IE_OPTIONAL,
     Q931_ie_usage Q931_MT_RESUME_REJECT 0 Q931_IE_CAUSE Q931_IE_DIR_N_TO_U Q931_IE_MANDATORY,
     Q931_ie_usage Q931_MT_RESUME_REJECT 0 Q931_IE_DISPLAY Q931_IE_DIR_N_TO_U Q931_IE_OPTIONAL,
     Q931_ie_usage Q931_MT_SETUP 0 Q931_IE_SENDING_COMPLETE Q931_IE_DIR_BOTH Q931_IE_OPTIONAL,
     Q931_ie_usage Q931_MT_SETUP 0 Q931_IE_BEARER_CAPABILITY Q931_IE_DIR_BOTH Q931_IE_MANDATORY,
     Q931_ie_usage Q931_MT_SETUP 0 Q931_IE_CHANNEL_IDENTIFICATION Q931_IE_DIR_BOTH Q931_IE_OPTIONAL,
     Q931_ie_usage Q931_MT_SETUP 0 Q931_IE_FACILITY Q931_IE_DIR_BOTH Q931_IE_OPTIONAL,
     Q931_ie_usage Q931_MT_SETUP 0 Q931_IE_EXTENDED_FACILITY Q931_IE_DIR_BOTH Q931_IE_OPTIONAL,
     Q931_ie_usage Q931_MT_SETUP 0 Q931_IE_PROGRESS_INDICATOR Q931_IE_DIR_BOTH Q931_IE_OPTIONAL,
     Q931_ie_usage Q931_MT_SETUP 0 Q931_IE_NETWORK_SPECIFIC_FACILITIES Q931_IE_DIR_BOTH Q931_IE_OPTIONAL,
     Q931_ie_usage Q931_MT_SETUP 0 Q931_IE_DISPLAY Q931_IE_DIR_N_TO_U Q931_IE_OPTIONAL,
     Q931_ie_usage Q931_MT_SETUP 0 Q931_IE_KEYPAD_FACILITY Q931_IE_DIR_U_TO_N Q931_IE_OPTIONAL,
     Q931_ie_usage Q931_MT_SETUP 0 Q931_IE_CALLING_PARTY_NUMBER Q931_IE_DIR_BOTH Q931_IE_OPTIONAL,
     Q931_ie_usage Q931_MT_SETUP 0 Q931_IE_CALLING_PARTY_SUBADDRESS Q931_IE_DIR_BOTH Q931_IE_OPTIONAL,
     Q931_ie_usage Q931_MT_SETUP 0 Q931_IE_CALLED_PARTY_NUMBER Q931_IE_DIR_BOTH Q931_IE_OPTIONAL,
     Q931_ie_usage Q931_MT_SETUP 0 Q931_IE_CALLED_PARTY_SUBADDRESS Q931_IE_DIR_BOTH Q931_IE_OPTIONAL,
     Q931_ie_usage Q931_MT_SETUP 0 Q931_IE_TRANSIT_NETWORK_SELECTION Q931_IE_DIR_U_TO_N Q931_IE_OPTIONAL,
     Q931_ie_usage Q931_MT_SETUP 0 Q931_IE_LOW_LAYER_COMPATIBILITY Q931_IE_DIR_BOTH Q931_IE_OPTIONAL,
     Q931_ie_usage Q931_MT_SETUP 0 Q931_IE_HIGH_LAYER_COMPATIBILITY Q931_IE_DIR_BOTH Q931_IE_OPTIONAL,
     Q931_ie_usage Q931_MT_SETUP 0 Q931_IE_DATETIME Q931_IE_DIR_N_TO_U Q931_IE_OPTIONAL,
     Q931_ie_usage Q931_MT_SETUP 0 Q931_IE_USER_USER Q931_IE_DIR_BOTH Q931_IE_OPTIONAL,
     Q931_ie_usage Q931_MT_SETUP_ACKNOWLEDGE 0 Q931_IE_CHANNEL_IDENTIFICATION Q931_IE_DIR_BOTH Q931_IE_OPTIONAL,
     Q931_ie_usage Q931_MT_SETUP_ACKNOWLEDGE 0 Q931_IE_PROGRESS_INDICATOR Q931_IE_DIR_BOTH Q931_IE_OPTIONAL,
     Q931_ie_usage Q931_MT_SETUP_ACKNOWLEDGE 0 Q931_IE_DISPLAY Q931_IE_DIR_N_TO_U Q931_IE_OPTIONAL,
     Q931_ie_usage Q931_MT_STATUS 0 Q931_IE_CAUSE Q931_IE_DIR_BOTH Q931_IE_MANDATORY,
     Q931_ie_usage Q931_MT_STATUS 0 Q931_IE_CALL_STATE Q931_IE_DIR_BOTH Q931_IE_MANDATORY,
     Q931_ie_usage Q931_MT_STATUS 0 Q931_IE_DISPLAY Q931_IE_DIR_N_TO_U Q931_IE_OPTIONAL,
     Q931_ie_usage Q931_MT_STATUS_ENQUIRY 0 Q931_IE_DISPLAY Q931_IE_DIR_N_TO_U Q931_IE_OPTIONAL,
     Q931_ie_usage Q931_MT_SUSPEND 0 Q931_IE_CALL_IDENTITY Q931_IE_DIR_U_TO_N Q931_IE_OPTIONAL,
     Q931_ie_usage Q931_MT_SUSPEND_ACKNOWLEDGE 0 Q931_IE_DISPLAY Q931_IE_DIR_N_TO_U Q931_IE_OPTIONAL,
     Q931_ie_usage Q931_MT_SUSPEND_REJECT 0 Q931_IE_CAUSE Q931_IE_DIR_N_TO_U Q931_IE_MANDATORY,
     Q931_ie_usage Q931_MT_SUSPEND_REJECT 0 Q931_IE_DISPLAY Q931_IE_DIR_N_TO_U Q931_IE_OPTIONAL,
     Q931_ie_usage Q931_MT_USER_INFORMATION 0 Q931_IE_MORE_DATA Q931_IE_DIR_BOTH Q931_IE_OPTIONAL,
     Q931_ie_usage Q931_MT_USER_INFORMATION 0 Q931_IE_USER_USER Q931_IE_DIR_BOTH Q931_IE_MANDATORY]"

definition q931_get_ie_class :: "u8 \<Rightarrow> u8 \<Rightarrow> q931_ie_class option" where
  "q931_get_ie_class codeset ie_id = find (\<lambda>c. cls_codeset c = codeset \<and> cls_id c = ie_id) q931_ie_classes"

text \<open>The message type is not looked at.\<close>

definition q931_get_ie_usage :: "u8 \<Rightarrow> u8 \<Rightarrow> u8 \<Rightarrow> q931_ie_usage option" where
  "q931_get_ie_usage message_type codeset ie_id = find (\<lambda>u. us_codeset u = codeset \<and> us_ie_id u = ie_id) q931_ie_usages"

definition q931_is_so_ie :: "u8 \<Rightarrow> bool" where
  "q931_is_so_ie ie_id = (ie_id AND 0x80 \<noteq> 0)"

definition q931_get_so_ie_id :: "u8 \<Rightarrow> u8" where
  "q931_get_so_ie_id ie_id = (if ie_id AND 0x70 = 0x20 then ie_id else ie_id AND 0xf0)"

definition q931_get_so_ie_type2_value :: "u8 \<Rightarrow> u8" where
  "q931_get_so_ie_type2_value ie_id = ie_id AND 0x0f"

definition q931_ie_comprehension_required :: "u8 \<Rightarrow> bool" where
  "q931_ie_comprehension_required ie_id = (ie_id AND 0xf0 = 0)"

datatype q931_ie =
  IE_sending_complete
| IE_bearer_capability q931_ie_capability
| IE_cause q931_ie_cause
| IE_call_identity octets
| IE_call_state u8 u8
| IE_channel_identification q931_ie_channel_identification
| IE_progress_indicator q931_ie_progress_indicator
| IE_notification_indicator u8
| IE_display octets
| IE_datetime int
| IE_connected_number q931_ie_number
| IE_calling_party_number q931_ie_number
| IE_called_party_number q931_ie_number
| IE_restart_indicator u8
| IE_low_layer_compatibility q931_ie_capability
| IE_high_layer_compatibility q931_ie_high_layer_compatibility

fun q931_ie_id :: "q931_ie \<Rightarrow> u8" where
  "q931_ie_id IE_sending_complete = Q931_IE_SENDING_COMPLETE"
| "q931_ie_id (IE_bearer_capability _) = Q931_IE_BEARER_CAPABILITY"
| "q931_ie_id (IE_cause _) = Q931_IE_CAUSE"
| "q931_ie_id (IE_call_identity _) = Q931_IE_CALL_IDENTITY"
| "q931_ie_id (IE_call_state _ _) = Q931_IE_CALL_STATE"
| "q931_ie_id (IE_channel_identification _) = Q931_IE_CHANNEL_IDENTIFICATION"
| "q931_ie_id (IE_progress_indicator _) = Q931_IE_PROGRESS_INDICATOR"
| "q931_ie_id (IE_notification_indicator _) = Q931_IE_NOTIFICATION_INDICATOR"
| "q931_ie_id (IE_display _) = Q931_IE_DISPLAY"
| "q931_ie_id (IE_datetime _) = Q931_IE_DATETIME"
| "q931_ie_id (IE_connected_number _) = Q931_IE_CONNECTED_NUMBER"
| "q931_ie_id (IE_calling_party_number _) = Q931_IE_CALLING_PARTY_NUMBER"
| "q931_ie_id (IE_called_party_number _) = Q931_IE_CALLED_PARTY_NUMBER"
| "q931_ie_id (IE_restart_indicator _) = Q931_IE_RESTART_INDICATOR"
| "q931_ie_id (IE_low_layer_compatibility _) = Q931_IE_LOW_LAYER_COMPATIBILITY"
| "q931_ie_id (IE_high_layer_compatibility _) = Q931_IE_HIGH_LAYER_COMPATIBILITY"

fun q931_ie_is_so :: "q931_ie \<Rightarrow> bool" where
  "q931_ie_is_so IE_sending_complete = True"
| "q931_ie_is_so _ = False"

text \<open>What the elements depend on: the time functions of the host and the interface.\<close>

record q931_env =
  env_mktime :: "tm \<Rightarrow> int"
  env_localtime :: "int \<Rightarrow> tm"
  env_intf_type :: lapd_intf_type
  env_n_channels :: nat

definition map_ie :: "('a \<Rightarrow> q931_ie) \<Rightarrow> 'a option res \<Rightarrow> q931_ie option res" where
  "map_ie f r = bind_opt r (\<lambda>x. Inr (Some (f x)))"

fun ie_read_from_buf :: "q931_env \<Rightarrow> q931_ie_ops \<Rightarrow> octets \<Rightarrow> int \<Rightarrow> q931_ie option res" where
  "ie_read_from_buf env Ops_sending_complete buf len = Inr (Some IE_sending_complete)"
| "ie_read_from_buf env Ops_bearer_capability buf len = map_ie IE_bearer_capability (q931_ie_bearer_capability_read_from_buf buf len)"
| "ie_read_from_buf env Ops_cause buf len = map_ie IE_cause (q931_ie_cause_read_from_buf buf len)"
| "ie_read_from_buf env Ops_call_identity buf len = map_ie IE_call_identity (q931_ie_call_identity_read_from_buf buf len)"
| "ie_read_from_buf env Ops_call_state buf len = map_ie (\<lambda>(cs, v). IE_call_state cs v) (q931_ie_call_state_read_from_buf buf len)"
| "ie_read_from_buf env Ops_channel_identification buf len =
     map_ie IE_channel_identification (q931_ie_channel_identification_read_from_buf (env_intf_type env) (env_n_channels env) buf len)"
| "ie_read_from_buf env Ops_progress_indicator buf len = map_ie IE_progress_indicator (q931_ie_progress_indicator_read_from_buf buf len)"
| "ie_read_from_buf env Ops_notification_indicator buf len = map_ie IE_notification_indicator (q931_ie_notification_indicator_read_from_buf buf len)"
| "ie_read_from_buf env Ops_display buf len = map_ie IE_display (q931_ie_display_read_from_buf buf len)"
| "ie_read_from_buf env Ops_datetime buf len = map_ie IE_datetime (q931_ie_datetime_read_from_buf (env_mktime env) buf len)"
| "ie_read_from_buf env Ops_connected_number buf len = map_ie IE_connected_number (q931_ie_connected_number_read_from_buf buf len)"
| "ie_read_from_buf env Ops_calling_party_number buf len = map_ie IE_calling_party_number (q931_ie_calling_party_number_read_from_buf buf len)"
| "ie_read_from_buf env Ops_called_party_number buf len = map_ie IE_called_party_number (q931_ie_called_party_number_read_from_buf buf len)"
| "ie_read_from_buf env Ops_restart_indicator buf len = map_ie IE_restart_indicator (q931_ie_restart_indicator_read_from_buf buf len)"
| "ie_read_from_buf env Ops_low_layer_compatibility buf len = map_ie IE_low_layer_compatibility (q931_ie_low_layer_compatibility_read_from_buf buf len)"
| "ie_read_from_buf env Ops_high_layer_compatibility buf len = map_ie IE_high_layer_compatibility (q931_ie_high_layer_compatibility_read_from_buf buf len)"

fun ie_write_to_buf :: "q931_env \<Rightarrow> q931_ie \<Rightarrow> octets option res" where
  "ie_write_to_buf env IE_sending_complete = Inr (Some [Q931_IE_SENDING_COMPLETE])"
| "ie_write_to_buf env (IE_bearer_capability c) = Inr (q931_ie_bearer_capability_write_to_buf c)"
| "ie_write_to_buf env (IE_cause c) = Inr (Some (q931_ie_cause_write_to_buf c))"
| "ie_write_to_buf env (IE_call_identity d) = Inr (Some (q931_ie_call_identity_write_to_buf d))"
| "ie_write_to_buf env (IE_call_state cs v) = Inr (Some (q931_ie_call_state_write_to_buf (cs, v)))"
| "ie_write_to_buf env (IE_channel_identification c) = bind_res (q931_ie_channel_identification_write_to_buf c) (\<lambda>octs. Inr (Some octs))"
| "ie_write_to_buf env (IE_progress_indicator p) = Inr (Some (q931_ie_progress_indicator_write_to_buf p))"
| "ie_write_to_buf env (IE_notification_indicator d) = Inr (Some (q931_ie_notification_indicator_write_to_buf d))"
| "ie_write_to_buf env (IE_display s) = Inr (Some (q931_ie_display_write_to_buf s))"
| "ie_write_to_buf env (IE_datetime t) = Inr (Some (q931_ie_datetime_write_to_buf (env_localtime env) t))"
| "ie_write_to_buf env (IE_connected_number n) = Inr (Some (q931_ie_connected_number_write_to_buf n))"
| "ie_write_to_buf env (IE_calling_party_number n) = Inr (Some (q931_ie_calling_party_number_write_to_buf n))"
| "ie_write_to_buf env (IE_called_party_number n) = Inr (Some (q931_ie_called_party_number_write_to_buf n))"
| "ie_write_to_buf env (IE_restart_indicator r) = Inr (Some (q931_ie_restart_indicator_write_to_buf r))"
| "ie_write_to_buf env (IE_low_layer_compatibility c) = Inr (q931_ie_low_layer_compatibility_write_to_buf c)"
| "ie_write_to_buf env (IE_high_layer_compatibility h) = Inr (Some (q931_ie_high_layer_compatibility_write_to_buf h))"

section \<open>Call references and headers\<close>

datatype q931_callref_flag = Q931_CALLREF_FLAG_FROM_ORIGINATING_SIDE | Q931_CALLREF_FLAG_TO_ORIGINATING_SIDE

datatype q931_call_direction = Q931_CALL_DIRECTION_INBOUND | Q931_CALL_DIRECTION_OUTBOUND

definition Q931_PROTOCOL_DISCRIMINATOR_Q931 :: u8 where "Q931_PROTOCOL_DISCRIMINATOR_Q931 = 0x08"

definition Q931_RAW_SIZE :: nat where "Q931_RAW_SIZE = 512"

definition q931_make_callref :: "nat \<Rightarrow> int \<Rightarrow> q931_callref_flag \<Rightarrow> octets" where
  "q931_make_callref len callref direction =
     (let octs = map (\<lambda>i. word_of_int (drop_bit (8 * (len - 1 - i)) callref)) [0..<len]
      in case octs of
           [] \<Rightarrow> []
         | x # xs \<Rightarrow> (if direction = Q931_CALLREF_FLAG_TO_ORIGINATING_SIDE then x OR 0x80 else x) # xs)"

text \<open>The bound of the assertion is an int: for four octets it is negative, and no reference passes.\<close>

definition callref_limit :: "nat \<Rightarrow> int" where
  "callref_limit len = (if len = 4 then - 2147483648 else 2 ^ (8 * len - 1))"

definition q931_prepare_header :: "nat \<Rightarrow> int \<Rightarrow> q931_call_direction \<Rightarrow> u8 \<Rightarrow> octets res" where
  "q931_prepare_header call_reference_len call_reference direction message_type =
     (if \<not> (1 \<le> call_reference_len \<and> call_reference_len \<le> 4) then Inl KernelBug
      else if \<not> (0 < call_reference \<and> call_reference < callref_limit call_reference_len) then Inl KernelBug
      else Inr ([Q931_PROTOCOL_DISCRIMINATOR_Q931, word_of_nat call_reference_len] @
        q931_make_callref call_reference_len call_reference
          (if direction = Q931_CALL_DIRECTION_INBOUND then Q931_CALLREF_FLAG_TO_ORIGINATING_SIDE
           else Q931_CALLREF_FLAG_FROM_ORIGINATING_SIDE) @ [message_type]))"

definition q931_global_prepare_header :: "nat \<Rightarrow> u8 \<Rightarrow> octets res" where
  "q931_global_prepare_header call_reference_len message_type =
     (if \<not> (1 \<le> call_reference_len \<and> call_reference_len \<le> 4) then Inl KernelBug
      else Inr ([Q931_PROTOCOL_DISCRIMINATOR_Q931, word_of_nat call_reference_len] @
        q931_make_callref call_reference_len 0 Q931_CALLREF_FLAG_TO_ORIGINATING_SIDE @ [message_type]))"

section \<open>Writing a message\<close>

text \<open>The elements are sorted by \<open>qsort\<close>, taken to keep the order of elements with one identifier.\<close>

definition q931_ies_sort :: "q931_ie list \<Rightarrow> q931_ie list" where
  "q931_ies_sort ies = sort_key q931_ie_id ies"

text \<open>One round of the loop of \<open>q931_write_ies\<close>; the length of an element is written as one octet.\<close>

definition q931_write_ie :: "q931_env \<Rightarrow> octets \<Rightarrow> q931_ie \<Rightarrow> octets res" where
  "q931_write_ie env raw ie =
     bind_res (ie_write_to_buf env ie) (\<lambda>octs.
       case octs of
         None \<Rightarrow> Inl KernelBug
       | Some octs \<Rightarrow>
           let raw' = (if q931_ie_is_so ie then raw @ octs else raw @ [q931_ie_id ie, word_of_nat (length octs)] @ octs)
           in if Q931_RAW_SIZE < length raw' then Inl OutOfBounds else Inr raw')"

fun q931_write_ies :: "q931_env \<Rightarrow> octets \<Rightarrow> q931_ie list \<Rightarrow> octets res" where
  "q931_write_ies env raw [] = Inr raw"
| "q931_write_ies env raw (ie # ies) = bind_res (q931_write_ie env raw ie) (\<lambda>raw. q931_write_ies env raw ies)"

definition q931_call_message :: "q931_env \<Rightarrow> nat \<Rightarrow> int \<Rightarrow> q931_call_direction \<Rightarrow> u8 \<Rightarrow> q931_ie list \<Rightarrow> octets res" where
  "q931_call_message env call_reference_len call_reference direction mt user_ies =
     bind_res (q931_prepare_header call_reference_len call_reference direction mt) (\<lambda>raw.
       q931_write_ies env raw (q931_ies_sort user_ies))"

text \<open>Sending: while the link is being set up messages wait in the queue of the DLC. \<open>connect\<close> and \<open>sendmsg\<close> give 0 or an errno.\<close>

datatype q931_dlc_status =
  Q931_DLC_STATUS_DISCONNECTED | Q931_DLC_STATUS_AWAITING_CONNECTION | Q931_DLC_STATUS_CONNECTED | Q931_DLC_STATUS_AWAITING_DISCONNECTION

record q931_dlc =
  dlc_status :: q931_dlc_status
  outgoing_queue :: "octets list"
  dlc_sent :: "octets list"

definition q931_EAGAIN :: int where "q931_EAGAIN = 11"

definition q931_send_frame :: "int \<Rightarrow> q931_dlc \<Rightarrow> octets \<Rightarrow> int \<times> q931_dlc" where
  "q931_send_frame sendmsg dlc frame =
     (if sendmsg \<noteq> 0 then (sendmsg, dlc) else (0, dlc\<lparr>dlc_sent := dlc_sent dlc @ [frame]\<rparr>))"

text \<open>Every queued message is taken off, whether or not it could be sent; \<open>sendmsg i\<close> is the result for the \<open>i\<close>-th.\<close>

definition q931_flush_outgoing_queue :: "(nat \<Rightarrow> int) \<Rightarrow> q931_dlc \<Rightarrow> q931_dlc" where
  "q931_flush_outgoing_queue sendmsg dlc =
     fold (\<lambda>(i, m) dlc. snd (q931_send_frame (sendmsg i) dlc m)) (enumerate 0 (outgoing_queue dlc)) (dlc\<lparr>outgoing_queue := []\<rparr>)"

definition q931_send_message :: "int \<Rightarrow> int \<Rightarrow> octets \<Rightarrow> q931_dlc \<Rightarrow> int \<times> q931_dlc" where
  "q931_send_message connect sendmsg raw dlc =
     (if dlc_status dlc = Q931_DLC_STATUS_DISCONNECTED \<and> connect \<noteq> 0 \<and> connect \<noteq> q931_EAGAIN
      then (connect, dlc\<lparr>dlc_status := Q931_DLC_STATUS_AWAITING_CONNECTION\<rparr>)
      else
        let dlc = (if dlc_status dlc = Q931_DLC_STATUS_DISCONNECTED then dlc\<lparr>dlc_status := Q931_DLC_STATUS_AWAITING_CONNECTION\<rparr> else dlc)
        in if dlc_status dlc = Q931_DLC_STATUS_AWAITING_CONNECTION
           then (0, dlc\<lparr>outgoing_queue := outgoing_queue dlc @ [raw]\<rparr>)
           else q931_send_frame sendmsg dlc raw)"

text \<open>
  The link comes up (\<open>q931_dl_establish_confirm\<close>): the calls on it are told first, and what they send then,
  \<open>during\<close>, goes out before the queue is flushed.
\<close>

definition send_all :: "octets list \<Rightarrow> q931_dlc \<Rightarrow> q931_dlc" where
  "send_all frames dlc = fold (\<lambda>raw dlc. snd (q931_send_message 0 0 raw dlc)) frames dlc"

definition q931_dl_establish_confirm :: "octets list \<Rightarrow> (nat \<Rightarrow> int) \<Rightarrow> q931_dlc \<Rightarrow> q931_dlc" where
  "q931_dl_establish_confirm during sendmsg dlc =
     q931_flush_outgoing_queue sendmsg (send_all during (dlc\<lparr>dlc_status := Q931_DLC_STATUS_CONNECTED\<rparr>))"

section \<open>Reading a message\<close>

record q931_message =
  msg_raw :: octets
  msg_callref :: int
  msg_callref_len :: nat
  msg_callref_direction :: q931_callref_flag
  msg_message_type :: u8
  msg_rawies :: nat
  msg_rawies_len :: nat

text \<open>The loop over the octets of the call reference; the mark of the direction is in the first.\<close>

definition callref_value :: "octets \<Rightarrow> int" where
  "callref_value octs =
     (let vals = (case octs of [] \<Rightarrow> [] | x # xs \<Rightarrow> (x AND 0x7f) # xs); len = length octs
      in fold (\<lambda>i cr. cr OR push_bit (8 * (len - i - 1)) (uint (vals ! i))) [0..<len] 0)"

text \<open>
  The part of \<open>q931_receive\<close> from the frame received, cut to the buffer, up to the dispatching of the message; None where
  it is ignored. The host is taken as little-endian.
\<close>

definition q931_receive_header :: "octets \<Rightarrow> q931_message option" where
  "q931_receive_header frame =
     (let frame = take Q931_RAW_SIZE frame; rawlen = length frame; raw = frame @ replicate (Q931_RAW_SIZE - rawlen) 0 in
      if rawlen < 2 then None
      else if raw ! 0 \<noteq> Q931_PROTOCOL_DISCRIMINATOR_Q931 then None
      else if fget 4 4 (raw ! 1) \<noteq> 0 then None
      else if 4 < fget 0 4 (raw ! 1) then None
      else
        let len = unat (fget 0 4 (raw ! 1)); octs = take len (drop 2 raw) in
        if rawlen < 2 + len + 1 then None
        else Some \<lparr>msg_raw = raw, msg_callref = callref_value octs, msg_callref_len = len,
                   msg_callref_direction =
                     (if octs \<noteq> [] \<and> bit (hd octs) 7 then Q931_CALLREF_FLAG_TO_ORIGINATING_SIDE
                      else Q931_CALLREF_FLAG_FROM_ORIGINATING_SIDE),
                   msg_message_type = raw ! (2 + len), msg_rawies = 2 + len + 1, msg_rawies_len = rawlen - (2 + len + 1)\<rparr>)"

text \<open>
  The lists of \<open>struct q931_decoder_status\<close>, of codesets and identifiers. \<open>curie\<close> and \<open>previous_ie_id\<close> are only
  for the log.
\<close>

record q931_decoder_status =
  active_codeset :: u8
  mandatory_ies :: "(u8 \<times> u8) list"
  invalid_mand_ies :: "(u8 \<times> u8) list"
  invalid_opt_ies :: "(u8 \<times> u8) list"
  invalid_access_ies :: "(u8 \<times> u8) list"
  unrecognized_ies :: "(u8 \<times> u8) list"

definition q931_decoder_status_init :: q931_decoder_status where
  "q931_decoder_status_init =
     \<lparr>active_codeset = 0, mandatory_ies = [], invalid_mand_ies = [], invalid_opt_ies = [], invalid_access_ies = [], unrecognized_ies = []\<rparr>"

definition q931_ie_has_content_errors :: "q931_decoder_status \<Rightarrow> q931_ie_class \<Rightarrow> q931_ie_usage \<Rightarrow> q931_decoder_status" where
  "q931_ie_has_content_errors ds c u =
     (if q931_ie_comprehension_required (cls_id c) \<or> us_presence u = Q931_IE_MANDATORY
      then ds\<lparr>invalid_mand_ies := invalid_mand_ies ds @ [(cls_codeset c, cls_id c)]\<rparr>
      else ds\<lparr>invalid_opt_ies := invalid_opt_ies ds @ [(cls_codeset c, cls_id c)]\<rparr>)"

definition q931_check_ie_size :: "q931_ie_class \<Rightarrow> int \<Rightarrow> bool" where
  "q931_check_ie_size c len = (\<not> (cls_max_len c \<noteq> INT_MAX \<and> cls_max_len c < len))"

definition unrecognized :: "q931_decoder_status \<Rightarrow> u8 \<Rightarrow> u8 \<Rightarrow> q931_decoder_status" where
  "unrecognized ds codeset ie_id =
     (if q931_ie_comprehension_required ie_id then ds\<lparr>unrecognized_ies := unrecognized_ies ds @ [(codeset, ie_id)]\<rparr> else ds)"

definition Q931_IES_NUM_IES :: nat where "Q931_IES_NUM_IES = 260"

definition q931_ies_add :: "q931_ie list \<Rightarrow> q931_ie \<Rightarrow> q931_ie list res" where
  "q931_ies_add ies ie = (if length ies < Q931_IES_NUM_IES then Inr (ies @ [ie]) else Inl KernelBug)"

text \<open>The size is in order, or the element is a call identity, which is cut: the length to read.\<close>

definition ie_size_ok :: "q931_ie_class \<Rightarrow> int \<Rightarrow> int option" where
  "ie_size_ok c len =
     (if q931_check_ie_size c len then Some len
      else if cls_id c = Q931_IE_CALL_IDENTITY then Some (cls_max_len c) else None)"

definition ie_access :: "u8 \<Rightarrow> bool" where
  "ie_access ie_id \<longleftrightarrow> ie_id = Q931_IE_USER_USER \<or> ie_id = Q931_IE_LOW_LAYER_COMPATIBILITY \<or>
     ie_id = Q931_IE_HIGH_LAYER_COMPATIBILITY \<or> ie_id = Q931_IE_CALLED_PARTY_SUBADDRESS"

definition q931_decode_ie ::
  "q931_env \<Rightarrow> u8 \<Rightarrow> u8 \<Rightarrow> u8 \<Rightarrow> octets \<Rightarrow> int \<Rightarrow> q931_ie list \<times> q931_decoder_status \<Rightarrow> (q931_ie list \<times> q931_decoder_status) res" where
  "q931_decode_ie env message_type codeset ie_id buf len = (\<lambda>(ies, ds).
     case q931_get_ie_class codeset ie_id of
       None \<Rightarrow> Inr (ies, unrecognized ds codeset ie_id)
     | Some c \<Rightarrow>
         (case q931_get_ie_usage message_type codeset ie_id of
            None \<Rightarrow> Inr (ies, unrecognized ds codeset ie_id)
          | Some u \<Rightarrow>
              if 0 < cls_max_occur c \<and> cls_max_occur c \<noteq> INT_MAX \<and>
                 cls_max_occur c < int (length (filter (\<lambda>ie. q931_ie_id ie = cls_id c \<and> cls_codeset c = 0) ies))
              then Inr (ies, ds)
              else
                (case cls_ops c of
                   None \<Rightarrow> Inr (ies, unrecognized ds codeset ie_id)
                 | Some ops \<Rightarrow>
                     (case ie_size_ok c len of
                        None \<Rightarrow>
                          if ie_access (cls_id c)
                          then Inr (ies, ds\<lparr>invalid_access_ies := invalid_access_ies ds @ [(cls_codeset c, cls_id c)]\<rparr>)
                          else Inr (ies, q931_ie_has_content_errors ds c u)
                      | Some len \<Rightarrow>
                          bind_res (ie_read_from_buf env ops buf len) (\<lambda>ie.
                            case ie of
                              None \<Rightarrow> bind_res (rd_octets buf 0 len) (\<lambda>_. Inr (ies, q931_ie_has_content_errors ds c u))
                            | Some ie \<Rightarrow> bind_res (q931_ies_add ies ie) (\<lambda>ies. Inr (ies, ds)))))))"

text \<open>The codeset for the next element, and the new locking one.\<close>

definition q931_decode_shift_ie :: "q931_decoder_status \<Rightarrow> u8 \<Rightarrow> u8 \<times> q931_decoder_status" where
  "q931_decode_shift_ie ds ie_id =
     (let codeset = q931_get_so_ie_type2_value ie_id AND 0x07
      in if q931_get_so_ie_type2_value ie_id AND 0x08 \<noteq> 0 then (codeset, ds) else (codeset, ds\<lparr>active_codeset := codeset\<rparr>))"

definition found_ie :: "u8 \<Rightarrow> u8 \<Rightarrow> q931_decoder_status \<Rightarrow> q931_decoder_status" where
  "found_ie codeset ie_id ds = ds\<lparr>mandatory_ies := remove1 (codeset, ie_id) (mandatory_ies ds)\<rparr>"

text \<open>The loop over the elements: \<open>raw\<close> from the first element on, \<open>pos\<close> the place in it.\<close>

function decode_ies_loop ::
  "q931_env \<Rightarrow> u8 \<Rightarrow> octets \<Rightarrow> nat \<Rightarrow> nat \<Rightarrow> u8 \<Rightarrow> q931_ie list \<times> q931_decoder_status \<Rightarrow> (q931_ie list \<times> q931_decoder_status) res" where
  "decode_ies_loop env mt raw rawies_len pos codeset st =
     (if pos < rawies_len then
        bind_res (rd raw pos) (\<lambda>ie_id.
          if q931_is_so_ie ie_id then
            if q931_get_so_ie_id ie_id = Q931_IE_SHIFT then
              (let (codeset, ds) = q931_decode_shift_ie (snd st) ie_id
               in decode_ies_loop env mt raw rawies_len (pos + 1) codeset (fst st, ds))
            else
              bind_res (q931_decode_ie env mt codeset (q931_get_so_ie_id ie_id) (drop pos raw) 1 st) (\<lambda>(ies, ds).
                decode_ies_loop env mt raw rawies_len (pos + 1) (active_codeset ds) (ies, found_ie codeset ie_id ds))
          else
            bind_res (rd raw (pos + 1)) (\<lambda>ie_len.
            bind_res (q931_decode_ie env mt codeset ie_id (drop (pos + 2) raw) (uint ie_len) st) (\<lambda>(ies, ds).
              if rawies_len < pos + unat ie_len + 2 then Inr (ies, ds)
              else decode_ies_loop env mt raw rawies_len (pos + unat ie_len + 2) (active_codeset ds) (ies, found_ie codeset ie_id ds))))
      else Inr st)"
  by pat_completeness auto

termination
  by (relation "measure (\<lambda>(env, mt, raw, n, pos, codeset, st). n - pos)") auto

declare decode_ies_loop.simps [simp del]

definition q931_mandatory_ies :: "lapd_intf_role \<Rightarrow> u8 \<Rightarrow> (u8 \<times> u8) list" where
  "q931_mandatory_ies role mt =
     map (\<lambda>u. (us_codeset u, us_ie_id u)) (filter (\<lambda>u. us_message_type u = mt \<and> us_presence u = Q931_IE_MANDATORY) q931_ie_usages) @
     (if mt = Q931_MT_SETUP \<and> role = LAPD_INTF_ROLE_TE then [(0, Q931_IE_CHANNEL_IDENTIFICATION)] else [])"

definition q931_decode_ies :: "q931_env \<Rightarrow> lapd_intf_role \<Rightarrow> q931_message \<Rightarrow> (q931_ie list \<times> q931_decoder_status) res" where
  "q931_decode_ies env role msg =
     decode_ies_loop env (msg_message_type msg) (drop (msg_rawies msg) (msg_raw msg)) (msg_rawies_len msg) 0 0
       ([], q931_decoder_status_init\<lparr>mandatory_ies := q931_mandatory_ies role (msg_message_type msg)\<rparr>)"

section \<open>Answers to wrong messages\<close>

datatype q931_interface_network_role =
  Q931_INTF_NET_USER | Q931_INTF_NET_PRIVATE | Q931_INTF_NET_LOCAL | Q931_INTF_NET_TRANSIT | Q931_INTF_NET_INTERNATIONAL

definition Q931_IE_C_CS_CCITT :: u8 where "Q931_IE_C_CS_CCITT = 0"
definition Q931_IE_C_L_USER :: u8 where "Q931_IE_C_L_USER = 0"
definition Q931_IE_C_L_PRIVATE_NETWORK_SERVING_LOCAL_USER :: u8 where "Q931_IE_C_L_PRIVATE_NETWORK_SERVING_LOCAL_USER = 1"
definition Q931_IE_C_L_PUBLIC_NETWORK_SERVING_LOCAL_USER :: u8 where "Q931_IE_C_L_PUBLIC_NETWORK_SERVING_LOCAL_USER = 2"
definition Q931_IE_C_L_TRANSIT_NETWORK :: u8 where "Q931_IE_C_L_TRANSIT_NETWORK = 3"
definition Q931_IE_C_L_PUBLIC_NETWORK_SERVING_REMOTE_USER :: u8 where "Q931_IE_C_L_PUBLIC_NETWORK_SERVING_REMOTE_USER = 4"
definition Q931_IE_C_L_PRIVATE_NETWORK_SERVING_REMOTE_USER :: u8 where "Q931_IE_C_L_PRIVATE_NETWORK_SERVING_REMOTE_USER = 5"
definition Q931_IE_C_L_INTERNATIONAL_NETWORK :: u8 where "Q931_IE_C_L_INTERNATIONAL_NETWORK = 7"
definition Q931_IE_C_CV_ACCESS_INFORMATION_DISCARDED :: u8 where "Q931_IE_C_CV_ACCESS_INFORMATION_DISCARDED = 43"
definition Q931_IE_C_CV_MANDATORY_INFORMATION_ELEMENT_IS_MISSING :: u8 where "Q931_IE_C_CV_MANDATORY_INFORMATION_ELEMENT_IS_MISSING = 96"
definition Q931_IE_C_CV_INFORMATION_ELEMENT_NON_EXISTENT :: u8 where "Q931_IE_C_CV_INFORMATION_ELEMENT_NON_EXISTENT = 99"
definition Q931_IE_C_CV_INVALID_INFORMATION_ELEMENT_CONTENTS :: u8 where "Q931_IE_C_CV_INVALID_INFORMATION_ELEMENT_CONTENTS = 100"
definition Q931_IE_C_DIAGNOSTICS_SIZE :: nat where "Q931_IE_C_DIAGNOSTICS_SIZE = 27"

definition q931_ie_cause_location_private :: "q931_call_direction \<Rightarrow> lapd_intf_role \<Rightarrow> u8" where
  "q931_ie_cause_location_private direction role =
     (if role = LAPD_INTF_ROLE_NT then
        if direction = Q931_CALL_DIRECTION_INBOUND then Q931_IE_C_L_PRIVATE_NETWORK_SERVING_LOCAL_USER
        else Q931_IE_C_L_PRIVATE_NETWORK_SERVING_REMOTE_USER
      else
        if direction = Q931_CALL_DIRECTION_INBOUND then Q931_IE_C_L_PRIVATE_NETWORK_SERVING_REMOTE_USER
        else Q931_IE_C_L_PRIVATE_NETWORK_SERVING_LOCAL_USER)"

definition q931_ie_cause_location_local :: "q931_call_direction \<Rightarrow> lapd_intf_role \<Rightarrow> u8" where
  "q931_ie_cause_location_local direction role =
     (if role = LAPD_INTF_ROLE_NT then
        if direction = Q931_CALL_DIRECTION_INBOUND then Q931_IE_C_L_PUBLIC_NETWORK_SERVING_LOCAL_USER
        else Q931_IE_C_L_PUBLIC_NETWORK_SERVING_REMOTE_USER
      else
        if direction = Q931_CALL_DIRECTION_INBOUND then Q931_IE_C_L_PUBLIC_NETWORK_SERVING_REMOTE_USER
        else Q931_IE_C_L_PUBLIC_NETWORK_SERVING_LOCAL_USER)"

fun q931_ie_cause_location :: "q931_call_direction \<Rightarrow> q931_interface_network_role \<Rightarrow> lapd_intf_role \<Rightarrow> u8" where
  "q931_ie_cause_location direction Q931_INTF_NET_USER role = Q931_IE_C_L_USER"
| "q931_ie_cause_location direction Q931_INTF_NET_PRIVATE role = q931_ie_cause_location_private direction role"
| "q931_ie_cause_location direction Q931_INTF_NET_LOCAL role = q931_ie_cause_location_local direction role"
| "q931_ie_cause_location direction Q931_INTF_NET_TRANSIT role = Q931_IE_C_L_TRANSIT_NETWORK"
| "q931_ie_cause_location direction Q931_INTF_NET_INTERNATIONAL role = Q931_IE_C_L_INTERNATIONAL_NETWORK"

text \<open>The loop of \<open>q931_ieid_fill_diagnostic_from_list\<close>, with what it has written: an element of another codeset has a non-locking shift in front.\<close>

fun fill_diagnostic :: "nat \<Rightarrow> octets \<Rightarrow> (u8 \<times> u8) list \<Rightarrow> octets" where
  "fill_diagnostic max_len diagnostics [] = diagnostics"
| "fill_diagnostic max_len diagnostics ((codeset, ie_id) # list) =
     (if max_len \<le> length diagnostics then diagnostics
      else
        let diagnostics = (if codeset \<noteq> 0 then diagnostics @ [Q931_IE_SHIFT OR 0x08 OR codeset] else diagnostics) in
        if max_len \<le> length diagnostics then diagnostics
        else fill_diagnostic max_len (diagnostics @ [ie_id]) list)"

definition q931_ieid_fill_diagnostic_from_list :: "nat \<Rightarrow> (u8 \<times> u8) list \<Rightarrow> octets" where
  "q931_ieid_fill_diagnostic_from_list max_len list = fill_diagnostic max_len [] list"

definition decode_cause :: "u8 \<Rightarrow> u8 \<Rightarrow> (u8 \<times> u8) list \<Rightarrow> q931_ie" where
  "decode_cause location value list =
     IE_cause \<lparr>cause_coding_standard = Q931_IE_C_CS_CCITT, cause_location = location, cause_value = value,
               cause_recommendation = Q931_IE_C_R_Q931,
               cause_diagnostics = q931_ieid_fill_diagnostic_from_list Q931_IE_C_DIAGNOSTICS_SIZE list\<rparr>"

text \<open>What is sent in answer to a wrong message by the type of the message; a message that gets no answer is processed.\<close>

definition decode_answer :: "u8 \<Rightarrow> u8 option" where
  "decode_answer mt =
     (if mt = Q931_MT_SETUP \<or> mt = Q931_MT_RELEASE then Some Q931_MT_RELEASE_COMPLETE
      else if mt = Q931_MT_DISCONNECT \<or> mt = Q931_MT_RELEASE_COMPLETE then None
      else Some Q931_MT_STATUS)"

text \<open>A list of wrong elements answered so: the messages sent up to now, and whether the message is still to be processed.\<close>

definition answer_list ::
  "u8 \<Rightarrow> u8 \<Rightarrow> u8 \<Rightarrow> (u8 \<times> u8) list \<Rightarrow> (u8 \<times> q931_ie list) list \<times> bool \<Rightarrow> (u8 \<times> q931_ie list) list \<times> bool" where
  "answer_list mt location value list = (\<lambda>(sent, go).
     if \<not> go \<or> list = [] then (sent, go)
     else case decode_answer mt of
       Some reply \<Rightarrow> (sent @ [(reply, [decode_cause location value list])], False)
     | None \<Rightarrow> (sent, True))"

definition inform_list ::
  "u8 \<Rightarrow> u8 \<Rightarrow> (u8 \<times> u8) list \<Rightarrow> (u8 \<times> q931_ie list) list \<times> bool \<Rightarrow> (u8 \<times> q931_ie list) list \<times> bool" where
  "inform_list location value list = (\<lambda>(sent, go).
     if \<not> go \<or> list = [] then (sent, go) else (sent @ [(Q931_MT_STATUS, [decode_cause location value list])], True))"

text \<open>The elements of the message, the messages sent in answer, and whether the message is to be processed.\<close>

definition q931_call_decode_ies ::
  "q931_env \<Rightarrow> lapd_intf_role \<Rightarrow> q931_interface_network_role \<Rightarrow> q931_call_direction \<Rightarrow> q931_message \<Rightarrow>
   (q931_ie list \<times> (u8 \<times> q931_ie list) list \<times> bool) res" where
  "q931_call_decode_ies env role network_role direction msg =
     bind_res (q931_decode_ies env role msg) (\<lambda>(ies, ds).
       if list_ex (\<lambda>(codeset, ie_id). q931_get_ie_class codeset ie_id = None) (mandatory_ies ds) then Inl KernelBug
       else
         let mt = msg_message_type msg; location = q931_ie_cause_location direction network_role role
         in Inr (ies,
              answer_list mt location Q931_IE_C_CV_INFORMATION_ELEMENT_NON_EXISTENT (unrecognized_ies ds)
              (inform_list location Q931_IE_C_CV_INVALID_INFORMATION_ELEMENT_CONTENTS (invalid_opt_ies ds)
              (inform_list location Q931_IE_C_CV_ACCESS_INFORMATION_DISCARDED (invalid_access_ies ds)
              (answer_list mt location Q931_IE_C_CV_INVALID_INFORMATION_ELEMENT_CONTENTS (invalid_mand_ies ds)
              (answer_list mt location Q931_IE_C_CV_MANDATORY_INFORMATION_ELEMENT_IS_MISSING (mandatory_ies ds) ([], True)))))))"

definition q931_gc_decode_ies :: "q931_env \<Rightarrow> lapd_intf_role \<Rightarrow> q931_message \<Rightarrow> q931_ie list res" where
  "q931_gc_decode_ies env role msg = bind_res (q931_decode_ies env role msg) (\<lambda>(ies, ds). Inr ies)"

section \<open>Lists of elements\<close>

text \<open>
  \<^verbatim>\<open>ies.c\<close>. An element is deleted at its place \<open>i\<close>: the loop that should move the ones behind it up copies
  the next one to that place again and again, and the last one is dropped.
\<close>

definition q931_ies_del :: "'a list \<Rightarrow> nat \<Rightarrow> 'a list" where
  "q931_ies_del ies i =
     (if i < length ies then take (length ies - 1) (if i < length ies - 1 then ies[i := ies ! (i + 1)] else ies) else ies)"

definition same_cause :: "q931_ie \<Rightarrow> q931_ie \<Rightarrow> bool" where
  "same_cause a b = (case (a, b) of (IE_cause c, IE_cause d) \<Rightarrow> cause_value c = cause_value d | _ \<Rightarrow> False)"

fun ies_merge_loop :: "q931_ie list \<Rightarrow> q931_ie list \<Rightarrow> q931_ie list res" where
  "ies_merge_loop ies [] = Inr ies"
| "ies_merge_loop ies (ie # src) =
     bind_res (if list_ex (same_cause ie) ies then Inr ies else q931_ies_add ies ie) (\<lambda>ies. ies_merge_loop ies src)"

definition q931_ies_merge :: "q931_ie list \<Rightarrow> q931_ie list \<Rightarrow> q931_ie list res" where
  "q931_ies_merge ies src_ies =
     (if length ies + length src_ies < Q931_IES_NUM_IES then ies_merge_loop ies src_ies else Inl KernelBug)"

section \<open>Elements survive\<close>

text \<open>The elements the writer can express, and what of them arrives.\<close>

fun ie_ok :: "q931_env \<Rightarrow> q931_ie \<Rightarrow> bool" where
  "ie_ok env IE_sending_complete = True"
| "ie_ok env (IE_bearer_capability c) = capability_ok c"
| "ie_ok env (IE_cause c) = (unat (cause_coding_standard c) < 4 \<and> unat (cause_value c) < 128 \<and> length (cause_diagnostics c) \<le> 27)"
| "ie_ok env (IE_call_identity d) = (d \<noteq> [] \<and> length d \<le> 8)"
| "ie_ok env (IE_call_state cs v) = (cs = 0 \<and> unat v < 64)"
| "ie_ok env (IE_channel_identification c) = (channel_id_ok (env_intf_type env) (env_n_channels env) c \<and> length (ci_chanset c) \<le> 32)"
| "ie_ok env (IE_progress_indicator p) =
     (unat (pi_coding_standard p) < 4 \<and> unat (pi_location p) < 16 \<and> unat (pi_progress_description p) < 128)"
| "ie_ok env (IE_notification_indicator d) = (unat d < 128)"
| "ie_ok env (IE_display s) = (s \<noteq> [] \<and> length s \<le> 82 \<and> 0 \<notin> set s)"
| "ie_ok env (IE_datetime t) =
     (case env_localtime env t of (year, mon, mday, hour, mn, sec) \<Rightarrow>
        0 \<le> year \<and> 0 \<le> mon \<and> mon < 12 \<and> 1 \<le> mday \<and> mday \<le> 31 \<and> 0 \<le> hour \<and> hour \<le> 23)"
| "ie_ok env (IE_connected_number n) = number_fields_ok n"
| "ie_ok env (IE_calling_party_number n) = number_fields_ok n"
| "ie_ok env (IE_called_party_number n) =
     (number_fields_ok n \<and> length (number n) \<le> 19 \<and> presentation_indicator n = 0 \<and> screening_indicator n = 0)"
| "ie_ok env (IE_restart_indicator r) =
     (r = Q931_IE_RI_C_INDICATED \<or> r = Q931_IE_RI_C_SINGLE_INTERFACE \<or> r = Q931_IE_RI_C_ALL_INTERFACES)"
| "ie_ok env (IE_low_layer_compatibility c) = capability_ok c"
| "ie_ok env (IE_high_layer_compatibility h) =
     (unat (hlc_coding_standard h) < 4 \<and> unat (hlc_interpretation h) < 8 \<and> unat (hlc_presentation_method h) < 4 \<and>
      unat (hlc_characteristics_identification h) < 128 \<and> hlc_extended_characteristics_identification h = 0 \<and>
      hlc_characteristics_identification h \<noteq> Q931_IE_HLC_CI_RESERVED_FOR_MAINTENANCE \<and>
      hlc_characteristics_identification h \<noteq> Q931_IE_HLC_CI_RESERVED_FOR_MANAGEMENT)"

fun ie_received :: "q931_env \<Rightarrow> q931_ie \<Rightarrow> q931_ie" where
  "ie_received env (IE_bearer_capability c) = IE_bearer_capability (c\<lparr>user_information_layer_3_protocol := UILP_UNUSED\<rparr>)"
| "ie_received env (IE_low_layer_compatibility c) = IE_low_layer_compatibility (c\<lparr>user_information_layer_3_protocol := UILP_UNUSED\<rparr>)"
| "ie_received env (IE_cause c) =
     IE_cause (c\<lparr>cause_location := 0, cause_recommendation := Q931_IE_C_R_Q931, cause_diagnostics := []\<rparr>)"
| "ie_received env (IE_channel_identification c) = IE_channel_identification (channel_id_received c)"
| "ie_received env (IE_datetime t) =
     (case env_localtime env t of (year, mon, mday, hour, mn, sec) \<Rightarrow> IE_datetime (env_mktime env (year mod 100, mon, mday, hour, 0, 0)))"
| "ie_received env ie = ie"

text \<open>The elements that arrive as they were written; of a time that is left to \<open>localtime\<close> and \<open>mktime\<close>.\<close>

fun ie_kept :: "q931_ie \<Rightarrow> bool" where
  "ie_kept (IE_bearer_capability c) = (user_information_layer_3_protocol c = UILP_UNUSED)"
| "ie_kept (IE_low_layer_compatibility c) = (user_information_layer_3_protocol c = UILP_UNUSED)"
| "ie_kept (IE_cause c) = (cause_location c = 0 \<and> cause_recommendation c = Q931_IE_C_R_Q931 \<and> cause_diagnostics c = [])"
| "ie_kept (IE_channel_identification c) =
     (ci_interface_type c \<noteq> Q931_IE_CI_IT_PRIMARY \<or> ci_any_channel c \<or> length (ci_chanset c) \<le> 1)"
| "ie_kept (IE_datetime t) = False"
| "ie_kept ie = True"

lemma kept_received: "ie_kept ie \<Longrightarrow> ie_received env ie = ie"
  by (cases ie) (auto simp: channel_id_received_def)

lemma kept_all: "(\<forall>ie\<in>set ies. ie_kept ie) \<Longrightarrow> map (ie_received env) (q931_ies_sort ies) = q931_ies_sort ies"
  by (rule map_idI) (auto intro: kept_received simp: q931_ies_sort_def)

fun ie_behind :: "q931_ie \<Rightarrow> octets \<Rightarrow> bool" where
  "ie_behind (IE_bearer_capability c) rest = behind_capability c rest"
| "ie_behind (IE_low_layer_compatibility c) rest = behind_capability c rest"
| "ie_behind ie rest = True"

fun ie_ops :: "q931_ie \<Rightarrow> q931_ie_ops" where
  "ie_ops IE_sending_complete = Ops_sending_complete"
| "ie_ops (IE_bearer_capability _) = Ops_bearer_capability"
| "ie_ops (IE_cause _) = Ops_cause"
| "ie_ops (IE_call_identity _) = Ops_call_identity"
| "ie_ops (IE_call_state _ _) = Ops_call_state"
| "ie_ops (IE_channel_identification _) = Ops_channel_identification"
| "ie_ops (IE_progress_indicator _) = Ops_progress_indicator"
| "ie_ops (IE_notification_indicator _) = Ops_notification_indicator"
| "ie_ops (IE_display _) = Ops_display"
| "ie_ops (IE_datetime _) = Ops_datetime"
| "ie_ops (IE_connected_number _) = Ops_connected_number"
| "ie_ops (IE_calling_party_number _) = Ops_calling_party_number"
| "ie_ops (IE_called_party_number _) = Ops_called_party_number"
| "ie_ops (IE_restart_indicator _) = Ops_restart_indicator"
| "ie_ops (IE_low_layer_compatibility _) = Ops_low_layer_compatibility"
| "ie_ops (IE_high_layer_compatibility _) = Ops_high_layer_compatibility"

lemma capability_written: "capability_ok c \<Longrightarrow> \<exists>octs. write_capability c = Some octs \<and> length octs \<le> 3"
  by (auto simp: capability_ok_def write_capability_def Let_def)

lemma map_ie_Some [simp]: "map_ie f (Inr (Some x)) = Inr (Some (f x))"
  by (simp add: map_ie_def)

definition ie_limit :: "q931_ie \<Rightarrow> int" where
  "ie_limit ie = (case q931_get_ie_class 0 (q931_ie_id ie) of Some c \<Rightarrow> cls_max_len c | None \<Rightarrow> 0)"

definition survives :: "q931_env \<Rightarrow> q931_ie \<Rightarrow> octets \<Rightarrow> bool" where
  "survives env ie octs \<longleftrightarrow> ie_write_to_buf env ie = Inr (Some octs) \<and> length octs < 256 \<and>
     (\<forall>rest. ie_behind ie rest \<longrightarrow> ie_read_from_buf env (ie_ops ie) (octs @ rest) (int (length octs)) = Inr (Some (ie_received env ie)))"

lemma survivesI:
  "ie_write_to_buf env ie = Inr (Some octs) \<Longrightarrow> length octs < 256 \<Longrightarrow>
   (\<And>rest. ie_behind ie rest \<Longrightarrow> ie_read_from_buf env (ie_ops ie) (octs @ rest) (int (length octs)) = Inr (Some (ie_received env ie))) \<Longrightarrow>
   survives env ie octs"
  by (simp add: survives_def)

lemma channel_id_survives:
  assumes "ie_ok env (IE_channel_identification c)"
  shows "\<exists>octs. survives env (IE_channel_identification c) octs"
proof -
  have ok: "channel_id_ok (env_intf_type env) (env_n_channels env) c" "length (ci_chanset c) \<le> 32" using assms by simp_all
  have r: "\<exists>octs. q931_ie_channel_identification_write_to_buf c = Inr octs \<and>
    q931_ie_channel_identification_read_from_buf (env_intf_type env) (env_n_channels env) (octs @ rest) (int (length octs)) = Inr (Some (channel_id_received c))" for rest
  proof (cases "env_intf_type env")
    case LAPD_INTF_TYPE_BRA
    then have "channel_id_received c = c" using ok(1) by (simp add: channel_id_ok_def channel_id_received_def channel_codes)
    then show ?thesis using channel_id_bra_roundtrip [of "env_n_channels env" c rest] ok(1) LAPD_INTF_TYPE_BRA by simp
  next
    case LAPD_INTF_TYPE_PRA
    then show ?thesis using channel_id_pra_roundtrip [of "env_n_channels env" c rest] ok(1) by simp
  qed
  obtain octs where o: "q931_ie_channel_identification_write_to_buf c = Inr octs" using r by blast
  have "length octs < 256" using o ok(2)
    by (auto simp: q931_ie_channel_identification_write_to_buf_def q931_ie_channel_identification_write_to_buf_bra_def
        q931_ie_channel_identification_write_to_buf_pra_def Let_def bind_res_eq_Inr split: if_splits list.splits)
  moreover have "q931_ie_channel_identification_read_from_buf (env_intf_type env) (env_n_channels env) (octs @ rest) (int (length octs)) =
    Inr (Some (channel_id_received c))" for rest using r [of rest] o by auto
  ultimately have "survives env (IE_channel_identification c) octs" using o by (simp add: survives_def)
  then show ?thesis by blast
qed

lemma ie_lengths:
  "length (q931_ie_call_identity_write_to_buf d) = length d" "length (q931_ie_call_state_write_to_buf (cs, v)) = 1"
  "length (q931_ie_progress_indicator_write_to_buf p) = 2" "length (q931_ie_notification_indicator_write_to_buf x) = 1"
  "length (q931_ie_display_write_to_buf s) = length s" "length (q931_ie_called_party_number_write_to_buf n) = 1 + length (number n)"
  "length (write_number_3a n) = 2 + length (number n)" "length (q931_ie_restart_indicator_write_to_buf r) = 1"
  "hlc_characteristics_identification h \<noteq> Q931_IE_HLC_CI_RESERVED_FOR_MAINTENANCE \<Longrightarrow>
   hlc_characteristics_identification h \<noteq> Q931_IE_HLC_CI_RESERVED_FOR_MANAGEMENT \<Longrightarrow>
   length (q931_ie_high_layer_compatibility_write_to_buf h) = 2"
  by (simp_all add: q931_ie_call_identity_write_to_buf_def q931_ie_call_state_write_to_buf_def q931_ie_progress_indicator_write_to_buf_def
      q931_ie_notification_indicator_write_to_buf_def q931_ie_display_write_to_buf_def q931_ie_called_party_number_write_to_buf_def
      write_number_3a_def q931_ie_restart_indicator_write_to_buf_def q931_ie_high_layer_compatibility_write_to_buf_def)

text \<open>
  What the message layer relies on in the functions of an element whose writer cannot fail: the functions the class has for it,
  a length that fits its octet, and that the contents are read back whatever is behind them.
\<close>

locale ie_codec =
  fixes env :: q931_env and mk :: "'a \<Rightarrow> q931_ie" and wr :: "'a \<Rightarrow> octets" and rdf :: "octets \<Rightarrow> int \<Rightarrow> 'a option res"
    and ok :: "'a \<Rightarrow> bool" and received :: "'a \<Rightarrow> 'a"
  assumes writes: "ie_write_to_buf env (mk x) = Inr (Some (wr x))"
    and reads: "ie_read_from_buf env (ie_ops (mk x)) buf len = map_ie mk (rdf buf len)"
    and received: "ie_received env (mk x) = mk (received x)"
    and ok_iff: "ie_ok env (mk x) = ok x"
    and fits: "ok x \<Longrightarrow> length (wr x) < 256"
    and roundtrip: "ok x \<Longrightarrow> rdf (wr x @ rest) (int (length (wr x))) = Inr (Some (received x))"
begin

lemma survives_written: "ie_ok env (mk x) \<Longrightarrow> survives env (mk x) (wr x)"
  by (simp add: survives_def writes reads received ok_iff fits roundtrip)

lemma survives_ex: "ie_ok env (mk x) \<Longrightarrow> \<exists>octs. survives env (mk x) octs"
  using survives_written by blast

end

interpretation cause: ie_codec env IE_cause q931_ie_cause_write_to_buf q931_ie_cause_read_from_buf
  "\<lambda>c. unat (cause_coding_standard c) < 4 \<and> unat (cause_value c) < 128 \<and> length (cause_diagnostics c) \<le> 27"
  "\<lambda>c. c\<lparr>cause_location := 0, cause_recommendation := Q931_IE_C_R_Q931, cause_diagnostics := []\<rparr>" for env
  by unfold_locales (simp_all add: cause_roundtrip, simp add: q931_ie_cause_write_to_buf_def)

interpretation call_identity: ie_codec env IE_call_identity q931_ie_call_identity_write_to_buf q931_ie_call_identity_read_from_buf
  "\<lambda>d. d \<noteq> [] \<and> length d \<le> 8" id for env
  by unfold_locales (simp_all add: call_identity_roundtrip ie_lengths)

interpretation call_state: ie_codec env "\<lambda>(cs, v). IE_call_state cs v" q931_ie_call_state_write_to_buf q931_ie_call_state_read_from_buf
  "\<lambda>(cs, v). cs = 0 \<and> unat v < 64" id for env
  by unfold_locales (auto simp: call_state_roundtrip ie_lengths)

interpretation progress: ie_codec env IE_progress_indicator q931_ie_progress_indicator_write_to_buf q931_ie_progress_indicator_read_from_buf
  "\<lambda>p. unat (pi_coding_standard p) < 4 \<and> unat (pi_location p) < 16 \<and> unat (pi_progress_description p) < 128" id for env
  by unfold_locales (simp_all add: progress_roundtrip ie_lengths)

interpretation notification: ie_codec env IE_notification_indicator q931_ie_notification_indicator_write_to_buf
  q931_ie_notification_indicator_read_from_buf "\<lambda>d. unat d < 128" id for env
  by unfold_locales (simp_all add: notification_roundtrip ie_lengths)

interpretation display: ie_codec env IE_display q931_ie_display_write_to_buf q931_ie_display_read_from_buf
  "\<lambda>s. s \<noteq> [] \<and> length s \<le> 82 \<and> 0 \<notin> set s" id for env
  by unfold_locales (simp_all add: display_roundtrip ie_lengths)

interpretation restart: ie_codec env IE_restart_indicator q931_ie_restart_indicator_write_to_buf q931_ie_restart_indicator_read_from_buf
  "\<lambda>r. r = Q931_IE_RI_C_INDICATED \<or> r = Q931_IE_RI_C_SINGLE_INTERFACE \<or> r = Q931_IE_RI_C_ALL_INTERFACES" id for env
  by unfold_locales (simp_all add: restart_roundtrip ie_lengths)

interpretation called_number: ie_codec env IE_called_party_number q931_ie_called_party_number_write_to_buf q931_ie_called_party_number_read_from_buf
  "\<lambda>n. number_fields_ok n \<and> length (number n) \<le> 19 \<and> presentation_indicator n = 0 \<and> screening_indicator n = 0" id for env
  by unfold_locales (simp_all add: called_number_roundtrip, simp add: ie_lengths)

lemma number_3a_read:
  assumes "number_fields_ok n"
  shows "q931_ie_calling_party_number_read_from_buf (write_number_3a n @ rest) (int (length (write_number_3a n))) = Inr (Some n)"
    "q931_ie_connected_number_read_from_buf (write_number_3a n @ rest) (int (length (write_number_3a n))) = Inr (Some n)"
  using number_3a_roundtrip [OF assms, of rest] ie_lengths(7) [of n]
  by (simp_all add: q931_ie_calling_party_number_read_from_buf_def q931_ie_connected_number_read_from_buf_def)

interpretation calling_number: ie_codec env IE_calling_party_number q931_ie_calling_party_number_write_to_buf
  q931_ie_calling_party_number_read_from_buf number_fields_ok id for env
  by unfold_locales (simp_all add: q931_ie_calling_party_number_write_to_buf_def number_3a_read, simp add: ie_lengths number_fields_ok_def)

interpretation connected_number: ie_codec env IE_connected_number q931_ie_connected_number_write_to_buf
  q931_ie_connected_number_read_from_buf number_fields_ok id for env
  by unfold_locales (simp_all add: q931_ie_connected_number_write_to_buf_def number_3a_read, simp add: ie_lengths number_fields_ok_def)

text \<open>The date, the capabilities and the channels depend on the environment, or on what is behind them.\<close>

lemma datetime_survives: "ie_ok env (IE_datetime t) \<Longrightarrow> \<exists>octs. survives env (IE_datetime t) octs"
proof -
  obtain year mon mday hour mn sec where l: "env_localtime env t = (year, mon, mday, hour, mn, sec)" by (cases "env_localtime env t")
  have n: "length (q931_ie_datetime_write_to_buf (env_localtime env) t) = 6" by (simp add: q931_ie_datetime_write_to_buf_def l)
  assume "ie_ok env (IE_datetime t)"
  then have "survives env (IE_datetime t) (q931_ie_datetime_write_to_buf (env_localtime env) t)"
    using n l datetime_roundtrip [of "env_localtime env" t, OF l] by (intro survivesI) simp_all
  then show ?thesis by blast
qed

lemma capability_survives:
  assumes "capability_ok c"
  shows "\<exists>octs. survives env (IE_bearer_capability c) octs" "\<exists>octs. survives env (IE_low_layer_compatibility c) octs"
proof -
  obtain octs where "write_capability c = Some octs" "length octs \<le> 3" using assms capability_written by auto
  then have "survives env (IE_bearer_capability c) octs" "survives env (IE_low_layer_compatibility c) octs" using assms
    by (auto intro!: survivesI simp: q931_ie_bearer_capability_write_to_buf_def q931_ie_low_layer_compatibility_write_to_buf_def capability_roundtrip)
  then show "\<exists>octs. survives env (IE_bearer_capability c) octs" "\<exists>octs. survives env (IE_low_layer_compatibility c) octs" by blast+
qed

lemma hlc_survives: "ie_ok env (IE_high_layer_compatibility h) \<Longrightarrow>
  survives env (IE_high_layer_compatibility h) (q931_ie_high_layer_compatibility_write_to_buf h)"
  by (intro survivesI) (simp_all add: hlc_roundtrip ie_lengths)

lemma ie_survives: "ie_ok env ie \<Longrightarrow> \<exists>octs. survives env ie octs"
  using call_state.survives_ex [of env]
  by (cases ie) (auto simp: survives_def [of _ IE_sending_complete] simp del: ie_ok.simps
      intro: cause.survives_ex call_identity.survives_ex progress.survives_ex notification.survives_ex display.survives_ex
        restart.survives_ex called_number.survives_ex calling_number.survives_ex connected_number.survives_ex
        datetime_survives channel_id_survives hlc_survives
        capability_survives(1) [OF ie_ok.simps(2) [THEN iffD1]] capability_survives(2) [OF ie_ok.simps(15) [THEN iffD1]])

section \<open>Messages survive\<close>

text \<open>The rows of the tables for the elements the code handles.\<close>

fun ie_max :: "q931_ie \<Rightarrow> int" where
  "ie_max IE_sending_complete = 1"
| "ie_max (IE_bearer_capability _) = 12"
| "ie_max (IE_cause _) = 32"
| "ie_max (IE_call_identity _) = 10"
| "ie_max (IE_call_state _ _) = 3"
| "ie_max (IE_progress_indicator _) = 4"
| "ie_max (IE_notification_indicator _) = 3"
| "ie_max (IE_display _) = 82"
| "ie_max (IE_datetime _) = 8"
| "ie_max (IE_calling_party_number _) = 24"
| "ie_max (IE_called_party_number _) = 23"
| "ie_max (IE_restart_indicator _) = 3"
| "ie_max (IE_low_layer_compatibility _) = 16"
| "ie_max (IE_high_layer_compatibility _) = 5"
| "ie_max _ = INT_MAX"

definition class_row :: "u8 \<Rightarrow> q931_ie_ops \<Rightarrow> int \<Rightarrow> bool" where
  "class_row i ops ml =
     (case (q931_get_ie_class 0 i, q931_get_ie_usage 0 0 i) of
        (Some c, Some u) \<Rightarrow> cls_ops c = Some ops \<and> cls_max_len c = ml \<and> cls_id c = i \<and> cls_codeset c = 0 \<and> 0 < cls_max_occur c
      | _ \<Rightarrow> False)"

lemma class_rows:
  "class_row Q931_IE_SENDING_COMPLETE Ops_sending_complete 1" "class_row Q931_IE_BEARER_CAPABILITY Ops_bearer_capability 12"
  "class_row Q931_IE_CAUSE Ops_cause 32" "class_row Q931_IE_CALL_IDENTITY Ops_call_identity 10"
  "class_row Q931_IE_CALL_STATE Ops_call_state 3" "class_row Q931_IE_CHANNEL_IDENTIFICATION Ops_channel_identification INT_MAX"
  "class_row Q931_IE_PROGRESS_INDICATOR Ops_progress_indicator 4" "class_row Q931_IE_NOTIFICATION_INDICATOR Ops_notification_indicator 3"
  "class_row Q931_IE_DISPLAY Ops_display 82" "class_row Q931_IE_DATETIME Ops_datetime 8"
  "class_row Q931_IE_CONNECTED_NUMBER Ops_connected_number INT_MAX" "class_row Q931_IE_CALLING_PARTY_NUMBER Ops_calling_party_number 24"
  "class_row Q931_IE_CALLED_PARTY_NUMBER Ops_called_party_number 23" "class_row Q931_IE_RESTART_INDICATOR Ops_restart_indicator 3"
  "class_row Q931_IE_LOW_LAYER_COMPATIBILITY Ops_low_layer_compatibility 16"
  "class_row Q931_IE_HIGH_LAYER_COMPATIBILITY Ops_high_layer_compatibility 5"
  by code_simp+

lemma ie_class_row: "class_row (q931_ie_id ie) (ie_ops ie) (ie_max ie)"
  by (cases ie) (simp_all add: class_rows)

lemma ie_class:
  obtains c u where "q931_get_ie_class 0 (q931_ie_id ie) = Some c" "q931_get_ie_usage mt 0 (q931_ie_id ie) = Some u"
    "cls_ops c = Some (ie_ops ie)" "cls_max_len c = ie_max ie" "cls_id c = q931_ie_id ie" "0 < cls_max_occur c"
  using ie_class_row [of ie] by (auto simp: class_row_def q931_get_ie_usage_def split: option.splits)

lemma ie_size:
  assumes "ie_ok env ie" "ie_write_to_buf env ie = Inr (Some octs)"
  shows "ie_max ie = INT_MAX \<or> int (length octs) \<le> ie_max ie"
proof (cases ie)
  case (IE_bearer_capability c)
  then show ?thesis using assms capability_written [of c] by (auto simp: q931_ie_bearer_capability_write_to_buf_def)
next
  case (IE_low_layer_compatibility c)
  then show ?thesis using assms capability_written [of c] by (auto simp: q931_ie_low_layer_compatibility_write_to_buf_def)
next
  case (IE_datetime t)
  then show ?thesis using assms by (cases "env_localtime env t") (auto simp: q931_ie_datetime_write_to_buf_def)
next
  case (IE_calling_party_number n)
  then show ?thesis using assms by (auto simp: q931_ie_calling_party_number_write_to_buf_def ie_lengths number_fields_ok_def)
qed (use assms in \<open>auto simp: ie_lengths q931_ie_cause_write_to_buf_def\<close>)

lemma decode_ie_survives:
  assumes "survives env ie octs" "ie_ok env ie" "ie_behind ie rest" "q931_ie_id ie \<notin> q931_ie_id ` set acc" "length acc < 260"
  shows "q931_decode_ie env mt 0 (q931_ie_id ie) (octs @ rest) (int (length octs)) (acc, ds) = Inr (acc @ [ie_received env ie], ds)"
proof -
  obtain c u where c: "q931_get_ie_class 0 (q931_ie_id ie) = Some c" "q931_get_ie_usage mt 0 (q931_ie_id ie) = Some u"
    "cls_ops c = Some (ie_ops ie)" "cls_max_len c = ie_max ie" "cls_id c = q931_ie_id ie" "0 < cls_max_occur c"
    by (rule ie_class)
  have n: "filter (\<lambda>ie. q931_ie_id ie = cls_id c \<and> cls_codeset c = 0) acc = []" unfolding filter_empty_conv c(5) using assms(4) by (metis image_eqI)
  have s: "ie_size_ok c (int (length octs)) = Some (int (length octs))"
    using ie_size [OF assms(2)] assms(1) c(4) by (auto simp: ie_size_ok_def q931_check_ie_size_def survives_def)
  have "ie_read_from_buf env (ie_ops ie) (octs @ rest) (int (length octs)) = Inr (Some (ie_received env ie))"
    using assms(1,3) by (simp add: survives_def)
  then show ?thesis
    using c(3,6) s n assms(5) unfolding q931_decode_ie_def prod.case c(1,2) option.case n
    by (simp add: q931_ies_add_def Q931_IES_NUM_IES_def)
qed

definition ie_octets :: "q931_ie \<Rightarrow> octets \<Rightarrow> octets" where
  "ie_octets ie octs = (if q931_ie_is_so ie then octs else [q931_ie_id ie, word_of_nat (length octs)] @ octs)"

lemma so_ids:
  "\<not> q931_ie_is_so ie \<Longrightarrow> \<not> q931_is_so_ie (q931_ie_id ie)"
  "q931_ie_is_so ie \<Longrightarrow> ie = IE_sending_complete"
  "q931_is_so_ie Q931_IE_SENDING_COMPLETE" "q931_get_so_ie_id Q931_IE_SENDING_COMPLETE = Q931_IE_SENDING_COMPLETE"
  "Q931_IE_SENDING_COMPLETE \<noteq> Q931_IE_SHIFT"
proof -
  show "\<not> q931_ie_is_so ie \<Longrightarrow> \<not> q931_is_so_ie (q931_ie_id ie)" by (cases ie) (simp_all, code_simp+)
  show "q931_ie_is_so ie \<Longrightarrow> ie = IE_sending_complete" by (cases ie) simp_all
qed code_simp+

lemma decode_step:
  assumes "survives env ie octs" "ie_ok env ie" "ie_behind ie rest" "q931_ie_id ie \<notin> q931_ie_id ` set acc" "length acc < 260"
    "drop pos raw = ie_octets ie octs @ rest" "pos + length (ie_octets ie octs) \<le> n" "active_codeset ds = 0"
  shows "decode_ies_loop env mt raw n pos 0 (acc, ds) =
    decode_ies_loop env mt raw n (pos + length (ie_octets ie octs)) 0 (acc @ [ie_received env ie], found_ie 0 (q931_ie_id ie) ds)"
proof -
  note dec = decode_ie_survives [OF assms(1-5)]
  show ?thesis
  proof (cases "q931_ie_is_so ie")
    case True
    then have "ie = IE_sending_complete" by (rule so_ids(2))
    then have ie: "ie = IE_sending_complete" "octs = [Q931_IE_SENDING_COMPLETE]" using assms(1) by (simp_all add: survives_def)
    then have p: "rd raw pos = Inr Q931_IE_SENDING_COMPLETE" "pos < n" "drop pos raw = octs @ rest"
      using assms(6,7) rd_at [OF assms(6), of 0] by (simp_all add: ie_octets_def)
    show ?thesis unfolding decode_ies_loop.simps [of env mt raw n pos] p(1,3)
      using p(2) dec so_ids(3-5) assms(8) ie by (simp add: ie_octets_def)
  next
    case False
    have l: "length octs < 256" using assms(1) by (simp add: survives_def)
    have o: "drop pos raw = q931_ie_id ie # word_of_nat (length octs) # octs @ rest" using assms(6) False by (simp add: ie_octets_def)
    have r: "rd raw pos = Inr (q931_ie_id ie)" "rd raw (pos + 1) = Inr (word_of_nat (length octs))"
      using rd_at [OF o, of 0] rd_at [OF o, of 1] by simp_all
    have "drop (pos + 2) raw = drop 2 (drop pos raw)" by (simp add: add.commute)
    then have d: "drop (pos + 2) raw = octs @ rest" unfolding o by simp
    have u: "uint (word_of_nat (length octs) :: u8) = int (length octs)" "unat (word_of_nat (length octs) :: u8) = length octs"
      using l by (simp_all add: uint_nat unat_of_nat)
    show ?thesis unfolding decode_ies_loop.simps [of env mt raw n pos] r bind_res_simps d u dec
      using so_ids(1) [OF False] assms(7,8) False by (simp add: ie_octets_def found_ie_def)
  qed
qed

text \<open>Behind a capability without layer 1 protocol the identifier of the next element must not look like octet 5.\<close>

fun ies_apart :: "q931_ie list \<Rightarrow> bool" where
  "ies_apart (a # b # ies) = (ie_behind a [q931_ie_id b] \<and> ies_apart (b # ies))"
| "ies_apart _ = True"

lemma ie_behind_hd: "ie_behind a (x # r) = ie_behind a [x]"
  by (cases a) (simp_all add: behind_capability_def)

lemma ie_behind_zero: "ie_behind a (0 # r)"
  by (cases a) (simp_all add: behind_capability_def oct_ident_def fget_def LAYER_1_IDENT_def)

lemma ie_octets_hd: "survives env ie octs \<Longrightarrow> \<exists>r. ie_octets ie octs = q931_ie_id ie # r"
  using so_ids(2) [of ie] by (auto simp: ie_octets_def survives_def)

definition octets_of :: "q931_env \<Rightarrow> q931_ie \<Rightarrow> octets" where
  "octets_of env ie = (case ie_write_to_buf env ie of Inr (Some octs) \<Rightarrow> ie_octets ie octs | _ \<Rightarrow> [])"

lemma octets_of_survives: "survives env ie octs \<Longrightarrow> octets_of env ie = ie_octets ie octs"
  by (simp add: octets_of_def survives_def)

lemma decode_loop_end: "decode_ies_loop env mt raw n n cs st = Inr st"
  by (simp add: decode_ies_loop.simps [of env mt raw n n])

lemma ie_received_id: "q931_ie_id (ie_received env ie) = q931_ie_id ie"
  by (cases ie) (auto split: prod.splits)

lemma decode_ies_written:
  assumes "\<forall>ie\<in>set ies. ie_ok env ie" "ies_apart ies" "distinct (map q931_ie_id (acc @ ies))" "length acc + length ies \<le> 260"
    "drop pos raw = concat (map (octets_of env) ies) @ 0 # zs" "pos + length (concat (map (octets_of env) ies)) = n" "active_codeset ds = 0"
  shows "decode_ies_loop env mt raw n pos 0 (acc, ds) =
    Inr (acc @ map (ie_received env) ies, fold (\<lambda>ie. found_ie 0 (q931_ie_id ie)) ies ds)"
  using assms
proof (induction ies arbitrary: acc pos ds)
  case Nil
  then show ?case by (simp add: decode_loop_end)
next
  case (Cons ie ies)
  obtain octs where s: "survives env ie octs" using ie_survives [of env ie] Cons.prems(1) by auto
  let ?o = "ie_octets ie octs" and ?rest = "concat (map (octets_of env) ies) @ 0 # zs"
  have d: "drop pos raw = ?o @ ?rest" using Cons.prems(5) octets_of_survives [OF s] by simp
  have b: "ie_behind ie ?rest"
  proof (cases ies)
    case (Cons ie2 ies2)
    then obtain octs2 where s2: "survives env ie2 octs2" using ie_survives [of env ie2] \<open>\<forall>ie\<in>set (ie # ies). ie_ok env ie\<close> by auto
    obtain r where "octets_of env ie2 = q931_ie_id ie2 # r" using ie_octets_hd [OF s2] octets_of_survives [OF s2] by metis
    then show ?thesis using \<open>ies_apart (ie # ies)\<close> Cons ie_behind_hd [of ie "q931_ie_id ie2" "r @ concat (map (octets_of env) ies2) @ 0 # zs"] by simp
  qed (simp add: ie_behind_zero)
  have "decode_ies_loop env mt raw n pos 0 (acc, ds) =
    decode_ies_loop env mt raw n (pos + length ?o) 0 (acc @ [ie_received env ie], found_ie 0 (q931_ie_id ie) ds)"
    using Cons.prems octets_of_survives [OF s] by (intro decode_step [OF s _ b _ _ d]) auto
  also have "\<dots> = Inr ((acc @ [ie_received env ie]) @ map (ie_received env) ies,
      fold (\<lambda>ie. found_ie 0 (q931_ie_id ie)) ies (found_ie 0 (q931_ie_id ie) ds))"
  proof (rule Cons.IH)
    show "drop (pos + length ?o) raw = ?rest" using d by (metis add.commute append_eq_conv_conj drop_drop)
    show "ies_apart ies" using Cons.prems(2) by (cases ies) simp_all
  qed (use Cons.prems octets_of_survives [OF s] ie_received_id in \<open>auto simp: found_ie_def\<close>)
  finally show ?case by simp
qed

lemma write_ies_survives:
  assumes "\<forall>ie\<in>set ies. ie_ok env ie" "length raw + length (concat (map (octets_of env) ies)) \<le> Q931_RAW_SIZE"
  shows "q931_write_ies env raw ies = Inr (raw @ concat (map (octets_of env) ies))"
  using assms
proof (induction ies arbitrary: raw)
  case (Cons ie ies)
  obtain octs where s: "survives env ie octs" using ie_survives [of env ie] Cons.prems(1) by auto
  have "q931_write_ie env raw ie = Inr (raw @ octets_of env ie)"
    using s Cons.prems(2) octets_of_survives [OF s] by (auto simp: q931_write_ie_def survives_def ie_octets_def Let_def)
  then show ?case using Cons.IH [of "raw @ octets_of env ie"] Cons.prems by simp
qed simp

section \<open>Headers\<close>

lemma bit_uint_u8: "bit (uint (x :: u8)) n \<longleftrightarrow> bit x n"
  using bit_imp_le_length [of x n] by (auto simp: bit_uint_iff)

lemma bit_word_of_int_u8: "bit (word_of_int k :: u8) n \<longleftrightarrow> n < 8 \<and> bit k n"
  by (simp add: bit_word_of_int_iff)

lemma bit_below: "0 \<le> (x :: int) \<Longrightarrow> x < 2 ^ m \<Longrightarrow> bit x n \<Longrightarrow> n < m"
proof (rule ccontr)
  assume x: "0 \<le> x" "x < 2 ^ m" "bit x n" "\<not> n < m"
  then have "take_bit m x = x" by (simp add: take_bit_int_eq_self)
  then show False using x(3,4) by (metis bit_take_bit_iff)
qed

lemma mark_bits: "bit (0x7f :: u8) n \<longleftrightarrow> n < 7" "bit (0x80 :: u8) n \<longleftrightarrow> n = 7"
proof -
  have e: "(0x7f :: u8) = mask 7" "(0x80 :: u8) = push_bit 7 1" by (simp_all add: mask_eq_exp_minus_1)
  show "bit (0x7f :: u8) n \<longleftrightarrow> n < 7" unfolding e by (auto simp: bit_mask_iff simp del: mask_numeral)
  show "bit (0x80 :: u8) n \<longleftrightarrow> n = 7" unfolding e bit_push_bit_iff bit_1_iff by auto
qed

lemma mark_bits_int: "bit (0x7f :: int) n \<longleftrightarrow> n < 7" "bit (0x80 :: int) n \<longleftrightarrow> n = 7"
proof -
  have e: "(0x7f :: int) = mask 7" "(0x80 :: int) = push_bit 7 1" by (simp_all add: mask_eq_exp_minus_1)
  show "bit (0x7f :: int) n \<longleftrightarrow> n < 7" unfolding e by (auto simp: bit_mask_iff simp del: mask_numeral)
  show "bit (0x80 :: int) n \<longleftrightarrow> n = 7" unfolding e bit_push_bit_iff bit_1_iff by auto
qed

lemma callref_values:
  "callref_value [x] = uint (x AND 0x7f)"
  "callref_value [x, y] = push_bit 8 (uint (x AND 0x7f)) OR uint y"
  "callref_value [x, y, z] = (push_bit 16 (uint (x AND 0x7f)) OR push_bit 8 (uint y)) OR uint z"
  by (simp_all add: callref_value_def upt_rec)

lemma make_callrefs:
  "q931_make_callref 1 cr d = [(if d = Q931_CALLREF_FLAG_TO_ORIGINATING_SIDE then word_of_int cr OR 0x80 else word_of_int cr)]"
  "q931_make_callref 2 cr d = [(if d = Q931_CALLREF_FLAG_TO_ORIGINATING_SIDE then word_of_int (drop_bit 8 cr) OR 0x80 else word_of_int (drop_bit 8 cr)), word_of_int cr]"
  "q931_make_callref 3 cr d = [(if d = Q931_CALLREF_FLAG_TO_ORIGINATING_SIDE then word_of_int (drop_bit 16 cr) OR 0x80 else word_of_int (drop_bit 16 cr)),
     word_of_int (drop_bit 8 cr), word_of_int cr]"
  by (simp_all add: q931_make_callref_def upt_rec)

lemma callref_roundtrip:
  assumes "1 \<le> len" "len \<le> 3" "0 \<le> cr" "cr < 2 ^ (8 * len - 1)"
  shows "callref_value (q931_make_callref len cr d) = cr" "length (q931_make_callref len cr d) = len"
    "bit (hd (q931_make_callref len cr d)) 7 \<longleftrightarrow> d = Q931_CALLREF_FLAG_TO_ORIGINATING_SIDE"
proof -
  note b = bit_below [OF assms(3,4)]
  have l: "len = 1 \<or> len = 2 \<or> len = 3" using assms(1,2) by linarith
  have n: "\<not> bit cr (8 * len - 1)" using b by blast
  show "callref_value (q931_make_callref len cr d) = cr"
  proof (rule bit_eqI)
    fix n
    show "bit (callref_value (q931_make_callref len cr d)) n = bit cr n"
      using l b [of n]
      by (elim disjE) (auto simp: make_callrefs [simplified] callref_values bit_or_iff bit_push_bit_iff bit_uint_u8 bit_and_iff bit_word_of_int_u8
          bit_drop_bit_eq mark_bits mark_bits_int)
  qed
  show "length (q931_make_callref len cr d) = len" using l by (elim disjE) (simp_all add: make_callrefs [simplified])
  show "bit (hd (q931_make_callref len cr d)) 7 \<longleftrightarrow> d = Q931_CALLREF_FLAG_TO_ORIGINATING_SIDE"
    using l n by (elim disjE) (auto simp: make_callrefs [simplified] bit_or_iff bit_word_of_int_u8 bit_drop_bit_eq mark_bits)
qed

lemma sort_ies: "set (q931_ies_sort ies) = set ies" "length (q931_ies_sort ies) = length ies"
  "distinct (map q931_ie_id ies) \<Longrightarrow> distinct (map q931_ie_id (q931_ies_sort ies))"
proof -
  show "set (q931_ies_sort ies) = set ies" "length (q931_ies_sort ies) = length ies" by (simp_all add: q931_ies_sort_def)
  have "mset (map q931_ie_id (q931_ies_sort ies)) = mset (map q931_ie_id ies)"
    unfolding q931_ies_sort_def mset_map mset_sort by (rule refl)
  then show "distinct (map q931_ie_id ies) \<Longrightarrow> distinct (map q931_ie_id (q931_ies_sort ies))" using mset_eq_imp_distinct_iff by blast
qed

text \<open>What is left of the mandatory elements after those found.\<close>

lemma found_ies: "fold (\<lambda>ie. found_ie 0 (q931_ie_id ie)) ies ds =
  ds\<lparr>mandatory_ies := fold (\<lambda>ie. remove1 (0, q931_ie_id ie)) ies (mandatory_ies ds)\<rparr>"
  by (induction ies arbitrary: ds) (simp_all add: found_ie_def)

lemma receive_header_written:
  assumes "1 \<le> len" "len \<le> 3" "0 \<le> cr" "cr < 2 ^ (8 * len - 1)" "3 + len + length body \<le> 512"
  shows "q931_receive_header ([Q931_PROTOCOL_DISCRIMINATOR_Q931, word_of_nat len] @ q931_make_callref len cr d @ [mt] @ body) =
    Some \<lparr>msg_raw = ([Q931_PROTOCOL_DISCRIMINATOR_Q931, word_of_nat len] @ q931_make_callref len cr d @ [mt] @ body) @ replicate (512 - (3 + len + length body)) 0,
      msg_callref = cr, msg_callref_len = len, msg_callref_direction = d, msg_message_type = mt,
      msg_rawies = 3 + len, msg_rawies_len = length body\<rparr>"
proof -
  note c = callref_roundtrip [OF assms(1-4), of d]
  let ?c = "q931_make_callref len cr d"
  have "len = 1 \<or> len = 2 \<or> len = 3" using assms(1,2) by linarith
  then have l: "fget 4 4 (word_of_nat len) = 0" "\<not> 4 < fget 0 4 (word_of_nat len)" "unat (fget 0 4 (word_of_nat len)) = len"
    by (elim disjE; hypsubst; code_simp)+
  have t: "take len (?c @ xs) = ?c" "(?c @ mt # xs) ! len = mt" for xs using c(2) by (simp_all add: nth_append)
  have n: "?c \<noteq> []" using c(2) assms(1) by auto
  show ?thesis unfolding q931_receive_header_def Let_def
    using l c t n assms by (cases d) (auto simp: Q931_RAW_SIZE_def nth_append hd_append take_all)
qed


lemma message_decoded:
  assumes "1 \<le> len" "len \<le> 3" "0 < cr" "cr < 2 ^ (8 * len - 1)" "\<forall>ie\<in>set ies. ie_ok env ie" "distinct (map q931_ie_id ies)"
    "ies_apart (q931_ies_sort ies)" "3 + len + length (concat (map (octets_of env) (q931_ies_sort ies))) < 512"
  shows "\<exists>frame msg ds. q931_call_message env len cr direction mt ies = Inr frame \<and> length frame = 3 + len + length (concat (map (octets_of env) (q931_ies_sort ies))) \<and> q931_receive_header frame = Some msg \<and>
    msg_callref msg = cr \<and> msg_callref_len msg = len \<and> msg_message_type msg = mt \<and>
    (msg_callref_direction msg = Q931_CALLREF_FLAG_TO_ORIGINATING_SIDE \<longleftrightarrow> direction = Q931_CALL_DIRECTION_INBOUND) \<and>
    q931_decode_ies env role msg = Inr (map (ie_received env) (q931_ies_sort ies), ds) \<and>
    mandatory_ies ds = fold (\<lambda>ie. remove1 (0, q931_ie_id ie)) (q931_ies_sort ies) (q931_mandatory_ies role mt) \<and>
    invalid_mand_ies ds = [] \<and> invalid_opt_ies ds = [] \<and> invalid_access_ies ds = [] \<and> unrecognized_ies ds = []"
proof -
  let ?ies = "q931_ies_sort ies"
  let ?body = "concat (map (octets_of env) ?ies)"
  let ?d = "if direction = Q931_CALL_DIRECTION_INBOUND then Q931_CALLREF_FLAG_TO_ORIGINATING_SIDE else Q931_CALLREF_FLAG_FROM_ORIGINATING_SIDE"
  let ?hdr = "[Q931_PROTOCOL_DISCRIMINATOR_Q931, word_of_nat len] @ q931_make_callref len cr ?d @ [mt]"
  have cr: "0 \<le> cr" using assms(3) by simp
  have hl: "length ?hdr = 3 + len" using callref_roundtrip(2) [OF assms(1,2) cr assms(4)] by simp
  have "q931_prepare_header len cr direction mt = Inr ?hdr"
    using assms(1-4) by (simp add: q931_prepare_header_def callref_limit_def)
  moreover have "q931_write_ies env ?hdr ?ies = Inr (?hdr @ ?body)"
    using assms(5,8) hl by (intro write_ies_survives) (simp_all add: sort_ies Q931_RAW_SIZE_def)
  ultimately have w: "q931_call_message env len cr direction mt ies = Inr (?hdr @ ?body)" by (simp add: q931_call_message_def)
  define zs where "zs = replicate (511 - (3 + len + length ?body)) (0 :: u8)"
  define msg where "msg = \<lparr>msg_raw = (?hdr @ ?body) @ 0 # zs, msg_callref = cr, msg_callref_len = len,
    msg_callref_direction = ?d, msg_message_type = mt, msg_rawies = 3 + len, msg_rawies_len = length ?body\<rparr>"
  have "replicate (512 - (3 + len + length ?body)) (0 :: u8) = 0 # zs"
    using assms(8) by (simp add: zs_def replicate_Suc [symmetric] Suc_diff_le del: replicate_Suc)
  then have r: "q931_receive_header (?hdr @ ?body) = Some msg"
    using receive_header_written [OF assms(1,2) cr assms(4), of ?body ?d mt] assms(8) by (simp add: msg_def)
  let ?ds = "q931_decoder_status_init\<lparr>mandatory_ies := q931_mandatory_ies role mt\<rparr>"
  have dr: "drop (msg_rawies msg) (msg_raw msg) = ?body @ 0 # zs" 
  proof -
    have "drop (length ?hdr) (?hdr @ (?body @ 0 # zs)) = ?body @ 0 # zs" by (rule append_eq_conv_conj [THEN iffD1, OF refl, THEN conjunct2, symmetric])
    then show ?thesis unfolding hl by (simp only: msg_def q931_message.simps append_assoc)
  qed
  have a: "active_codeset ?ds = 0" by (simp add: q931_decoder_status_init_def)
  have n: "length ?ies \<le> 260"
  proof -
    have "length ies = card (set (map q931_ie_id ies))" using distinct_card [OF assms(6)] by simp
    also have "\<dots> \<le> card (UNIV :: u8 set)" by (intro card_mono) simp_all
    finally show ?thesis by (simp add: card_word sort_ies)
  qed
  have "q931_decode_ies env role msg = Inr (map (ie_received env) ?ies, fold (\<lambda>ie. found_ie 0 (q931_ie_id ie)) ?ies ?ds)"
    using decode_ies_written [of ?ies env "[]" 0 "?body @ 0 # zs" zs "length ?body" ?ds mt] assms(5-7) sort_ies n a
    unfolding q931_decode_ies_def dr by (simp add: msg_def)
  moreover have "length (?hdr @ ?body) = 3 + len + length ?body" using hl by (simp only: length_append)
  ultimately show ?thesis using w r unfolding found_ies by (intro exI conjI) (auto simp: msg_def q931_decoder_status_init_def)
qed

section \<open>Missing elements\<close>

lemma fold_remove1: "distinct xs \<Longrightarrow> fold remove1 ys xs = filter (\<lambda>x. x \<notin> set ys) xs"
proof (induction ys arbitrary: xs)
  case (Cons y ys)
  have "remove1 y xs = filter (\<lambda>x. x \<noteq> y) xs"
    using Cons.prems by (simp add: distinct_remove1_removeAll removeAll_filter_not_eq eq_commute cong: filter_cong)
  then have "fold remove1 (y # ys) xs = filter (\<lambda>x. x \<notin> set ys) (filter (\<lambda>x. x \<noteq> y) xs)" using Cons by simp
  then show ?case by (simp add: conj_commute)
qed simp

definition mandatory_usages :: "(u8 \<times> u8 \<times> u8) list" where
  "mandatory_usages = map (\<lambda>u. (us_message_type u, us_codeset u, us_ie_id u)) (filter (\<lambda>u. us_presence u = Q931_IE_MANDATORY) q931_ie_usages)"

lemma mandatory_rows: "distinct mandatory_usages"
  "list_all (\<lambda>(mt, cs, ie). cs = 0 \<and> q931_get_ie_class cs ie \<noteq> None) mandatory_usages"
  "(Q931_MT_SETUP, 0, Q931_IE_CHANNEL_IDENTIFICATION) \<notin> set mandatory_usages"
  "length mandatory_usages < 27"
  by code_simp+

lemma mandatory_ies_of: "q931_mandatory_ies role mt =
  map snd (filter (\<lambda>(m, e). m = mt) mandatory_usages) @
  (if mt = Q931_MT_SETUP \<and> role = LAPD_INTF_ROLE_TE then [(0, Q931_IE_CHANNEL_IDENTIFICATION)] else [])"
  by (simp add: q931_mandatory_ies_def mandatory_usages_def filter_map comp_def split_def conj_commute)

lemma mandatory_distinct: "distinct (q931_mandatory_ies role mt)"
proof -
  have "distinct (map snd (filter (\<lambda>(m, e). m = mt) mandatory_usages))"
    using mandatory_rows(1) by (auto simp: distinct_map inj_on_def)
  then show ?thesis using mandatory_rows(3) by (auto simp: mandatory_ies_of)
qed

lemma mandatory_known:
  assumes "(cs, ie) \<in> set (q931_mandatory_ies role mt)"
  shows "cs = 0" "q931_get_ie_class cs ie \<noteq> None"
proof -
  have "(mt, cs, ie) \<in> set mandatory_usages \<or> cs = 0 \<and> ie = Q931_IE_CHANNEL_IDENTIFICATION"
    using assms by (auto simp: mandatory_ies_of split: if_splits)
  then show "cs = 0" "q931_get_ie_class cs ie \<noteq> None"
    using mandatory_rows(2) class_rows(6) by (auto simp: list_all_iff class_row_def split: option.splits)
qed

lemma mandatory_short: "length (q931_mandatory_ies role mt) \<le> 27"
proof -
  have "length (filter (\<lambda>(m, e). m = mt) mandatory_usages) < 27"
    by (rule le_less_trans [OF length_filter_le mandatory_rows(4)])
  then show ?thesis unfolding mandatory_ies_of by auto
qed

definition missing_ies :: "lapd_intf_role \<Rightarrow> u8 \<Rightarrow> q931_ie list \<Rightarrow> (u8 \<times> u8) list" where
  "missing_ies role mt ies = filter (\<lambda>(cs, ie). ie \<notin> q931_ie_id ` set ies) (q931_mandatory_ies role mt)"

lemma left_over: "fold (\<lambda>ie. remove1 (0, q931_ie_id ie)) (q931_ies_sort ies) (q931_mandatory_ies role mt) = missing_ies role mt ies"
proof -
  have "fold (\<lambda>ie. remove1 (0, q931_ie_id ie)) (q931_ies_sort ies) (q931_mandatory_ies role mt) =
    fold remove1 (map (\<lambda>ie. (0, q931_ie_id ie)) (q931_ies_sort ies)) (q931_mandatory_ies role mt)" by (simp add: fold_map comp_def)
  also have "\<dots> = missing_ies role mt ies"
    unfolding fold_remove1 [OF mandatory_distinct] missing_ies_def
    by (rule filter_cong) (auto simp: sort_ies dest: mandatory_known(1))
  finally show ?thesis .
qed

lemma missing_known: "\<not> list_ex (\<lambda>(cs, ie). q931_get_ie_class cs ie = None) (missing_ies role mt ies)"
  using mandatory_known(2) by (force simp: missing_ies_def list_ex_iff)

lemma fill_diagnostic_codeset_0:
  "\<forall>(cs, ie) \<in> set l. cs = 0 \<Longrightarrow> length acc + length l \<le> m \<Longrightarrow> fill_diagnostic m acc l = acc @ map snd l"
  by (induction m acc l rule: fill_diagnostic.induct) auto

lemma missing_diagnostic: "q931_ieid_fill_diagnostic_from_list Q931_IE_C_DIAGNOSTICS_SIZE (missing_ies role mt ies) = map snd (missing_ies role mt ies)"
proof -
  have "length (missing_ies role mt ies) \<le> 27" 
    unfolding missing_ies_def by (rule le_trans [OF length_filter_le mandatory_short])
  then show ?thesis unfolding q931_ieid_fill_diagnostic_from_list_def Q931_IE_C_DIAGNOSTICS_SIZE_def
    by (subst fill_diagnostic_codeset_0) (auto simp: missing_ies_def dest: mandatory_known(1))
qed

text \<open>What a station does with a message another has written.\<close>

definition answer_of :: "u8 \<Rightarrow> u8 \<Rightarrow> (u8 \<times> u8) list \<Rightarrow> (u8 \<times> q931_ie list) list \<times> bool" where
  "answer_of mt location missing =
     (case decode_answer mt of
        Some reply \<Rightarrow> ([(reply, [IE_cause \<lparr>cause_coding_standard = Q931_IE_C_CS_CCITT, cause_location = location,
          cause_value = Q931_IE_C_CV_MANDATORY_INFORMATION_ELEMENT_IS_MISSING, cause_recommendation = Q931_IE_C_R_Q931,
          cause_diagnostics = map snd missing\<rparr>])], False)
      | None \<Rightarrow> ([], True))"

lemma message_checked:
  assumes "1 \<le> len" "len \<le> 3" "0 < cr" "cr < 2 ^ (8 * len - 1)" "\<forall>ie\<in>set ies. ie_ok env ie" "distinct (map q931_ie_id ies)"
    "ies_apart (q931_ies_sort ies)" "3 + len + length (concat (map (octets_of env) (q931_ies_sort ies))) < 512"
  shows "\<exists>frame msg. q931_call_message env len cr direction mt ies = Inr frame \<and> length frame = 3 + len + length (concat (map (octets_of env) (q931_ies_sort ies))) \<and> q931_receive_header frame = Some msg \<and>
    msg_callref msg = cr \<and> msg_callref_len msg = len \<and> msg_message_type msg = mt \<and>
    (msg_callref_direction msg = Q931_CALLREF_FLAG_TO_ORIGINATING_SIDE \<longleftrightarrow> direction = Q931_CALL_DIRECTION_INBOUND) \<and>
    q931_call_decode_ies env role network_role direction' msg =
       Inr (map (ie_received env) (q931_ies_sort ies),
         if missing_ies role mt ies = [] then ([], True)
         else answer_of mt (q931_ie_cause_location direction' network_role role) (missing_ies role mt ies))"
proof -
  obtain frame msg ds where m: "q931_call_message env len cr direction mt ies = Inr frame" "length frame = 3 + len + length (concat (map (octets_of env) (q931_ies_sort ies)))" "q931_receive_header frame = Some msg"
    "msg_callref msg = cr" "msg_callref_len msg = len" "msg_message_type msg = mt"
    "msg_callref_direction msg = Q931_CALLREF_FLAG_TO_ORIGINATING_SIDE \<longleftrightarrow> direction = Q931_CALL_DIRECTION_INBOUND"
    and d: "q931_decode_ies env role msg = Inr (map (ie_received env) (q931_ies_sort ies), ds)"
    "mandatory_ies ds = missing_ies role mt ies"
    "invalid_mand_ies ds = []" "invalid_opt_ies ds = []" "invalid_access_ies ds = []" "unrecognized_ies ds = []"
    using message_decoded [OF assms, of direction mt role] unfolding left_over by blast
  have "q931_call_decode_ies env role network_role direction' msg =
       Inr (map (ie_received env) (q931_ies_sort ies),
         if missing_ies role mt ies = [] then ([], True)
         else answer_of mt (q931_ie_cause_location direction' network_role role) (missing_ies role mt ies))"
    unfolding q931_call_decode_ies_def d(1) using d(2-) m(6) missing_known [of role mt ies]
    by (cases "decode_answer mt") (simp_all add: Let_def answer_list_def inform_list_def answer_of_def decode_cause_def missing_diagnostic)
  with m show ?thesis by blast
qed

section \<open>Properties\<close>

text \<open>
  What one station writes another reads: the message a call builds from its elements, with a call reference of one to
  three octets, is taken by the receiving side with the same call reference, direction and type, and with
  every element in the order of the identifiers and as the code passes it on (of a cause the value, of a channel list the first
  channel, of a date the hour). No element is answered as wrong, and the message is processed, when
  the elements the type requires are there.
\<close>

theorem message_roundtrip:
  assumes "1 \<le> len" "len \<le> 3" "0 < cr" "cr < 2 ^ (8 * len - 1)" "\<forall>ie\<in>set ies. ie_ok env ie" "distinct (map q931_ie_id ies)"
    "ies_apart (q931_ies_sort ies)" "3 + len + length (concat (map (octets_of env) (q931_ies_sort ies))) < 512"
    "snd ` set (q931_mandatory_ies role mt) \<subseteq> q931_ie_id ` set ies"
  shows "\<exists>frame msg. q931_call_message env len cr direction mt ies = Inr frame \<and> q931_receive_header frame = Some msg \<and>
    msg_callref msg = cr \<and> msg_callref_len msg = len \<and> msg_message_type msg = mt \<and>
    (msg_callref_direction msg = Q931_CALLREF_FLAG_TO_ORIGINATING_SIDE \<longleftrightarrow> direction = Q931_CALL_DIRECTION_INBOUND) \<and>
    q931_call_decode_ies env role network_role direction' msg = Inr (map (ie_received env) (q931_ies_sort ies), [], True)"
proof -
  have "missing_ies role mt ies = []" using assms(9) by (force simp: missing_ies_def filter_empty_conv)
  then show ?thesis using message_checked [OF assms(1-8), of direction mt role network_role direction'] by (simp only: simp_thms if_True) blast
qed

text \<open>
  C40. A message that lacks elements its type requires is answered once, with the cause that says so and all
  the missing identifiers as diagnostics: a SETUP or RELEASE with RELEASE COMPLETE, another message with STATUS, and it is
  not processed; only DISCONNECT and RELEASE COMPLETE are processed all the same.
\<close>

theorem missing_mandatory_answered:
  assumes "1 \<le> len" "len \<le> 3" "0 < cr" "cr < 2 ^ (8 * len - 1)" "\<forall>ie\<in>set ies. ie_ok env ie" "distinct (map q931_ie_id ies)"
    "ies_apart (q931_ies_sort ies)" "3 + len + length (concat (map (octets_of env) (q931_ies_sort ies))) < 512"
    "missing = filter (\<lambda>(cs, i). i \<notin> q931_ie_id ` set ies) (q931_mandatory_ies role mt)" "missing \<noteq> []"
    "cause = \<lparr>cause_coding_standard = Q931_IE_C_CS_CCITT, cause_location = q931_ie_cause_location direction' network_role role,
       cause_value = Q931_IE_C_CV_MANDATORY_INFORMATION_ELEMENT_IS_MISSING, cause_recommendation = Q931_IE_C_R_Q931,
       cause_diagnostics = map snd missing\<rparr>"
  shows "\<exists>frame msg. q931_call_message env len cr direction mt ies = Inr frame \<and> q931_receive_header frame = Some msg \<and>
    q931_call_decode_ies env role network_role direction' msg =
      Inr (map (ie_received env) (q931_ies_sort ies),
        if mt = Q931_MT_SETUP \<or> mt = Q931_MT_RELEASE then ([(Q931_MT_RELEASE_COMPLETE, [IE_cause cause])], False)
        else if mt = Q931_MT_DISCONNECT \<or> mt = Q931_MT_RELEASE_COMPLETE then ([], True)
        else ([(Q931_MT_STATUS, [IE_cause cause])], False))"
proof -
  have m: "missing = missing_ies role mt ies" using assms(9) by (simp add: missing_ies_def)
  have "answer_of mt (q931_ie_cause_location direction' network_role role) missing =
    (if mt = Q931_MT_SETUP \<or> mt = Q931_MT_RELEASE then ([(Q931_MT_RELEASE_COMPLETE, [IE_cause cause])], False)
     else if mt = Q931_MT_DISCONNECT \<or> mt = Q931_MT_RELEASE_COMPLETE then ([], True)
     else ([(Q931_MT_STATUS, [IE_cause cause])], False))"
    unfolding answer_of_def decode_answer_def assms(11) by simp
  moreover have "\<exists>frame msg. q931_call_message env len cr direction mt ies = Inr frame \<and> q931_receive_header frame = Some msg \<and>
    q931_call_decode_ies env role network_role direction' msg =
      Inr (map (ie_received env) (q931_ies_sort ies), answer_of mt (q931_ie_cause_location direction' network_role role) missing)"
    using message_checked [OF assms(1-8), of direction mt role network_role direction'] assms(10) unfolding m by (simp only: if_False) blast
  ultimately show ?thesis by (simp only:)
qed

text \<open>
  The STATUS sent in answer carries the cause but not the call state, which the same code requires in every STATUS:
  whatever the cause, the peer answers it with a STATUS of the same kind, and so on without end.
\<close>

theorem status_answered_with_status:
  assumes "1 \<le> len" "len \<le> 3" "0 < cr" "cr < 2 ^ (8 * len - 1)" "ie_ok env (IE_cause c)"
  shows "\<exists>frame msg c'. q931_call_message env len cr direction Q931_MT_STATUS [IE_cause c] = Inr frame \<and> q931_receive_header frame = Some msg \<and>
    q931_call_decode_ies env role network_role direction' msg =
      Inr ([IE_cause (c\<lparr>cause_location := 0, cause_recommendation := Q931_IE_C_R_Q931, cause_diagnostics := []\<rparr>)],
        [(Q931_MT_STATUS, [IE_cause c'])], False) \<and>
    cause_value c' = Q931_IE_C_CV_MANDATORY_INFORMATION_ELEMENT_IS_MISSING \<and> cause_diagnostics c' = [Q931_IE_CALL_STATE] \<and>
    ie_ok env (IE_cause c')"
proof -
  have s: "q931_ies_sort [IE_cause c] = [IE_cause c]" by (simp add: q931_ies_sort_def)
  have "q931_mandatory_ies role Q931_MT_STATUS = [(0, Q931_IE_CAUSE), (0, Q931_IE_CALL_STATE)]"
  proof -
    have "Q931_MT_STATUS \<noteq> Q931_MT_SETUP" by code_simp
    moreover have "map snd (filter (\<lambda>(m, e). m = Q931_MT_STATUS) mandatory_usages) = [(0, Q931_IE_CAUSE), (0, Q931_IE_CALL_STATE)]" by code_simp
    ultimately show ?thesis by (simp add: mandatory_ies_of)
  qed
  moreover have "Q931_IE_CALL_STATE \<noteq> Q931_IE_CAUSE" by code_simp
  ultimately have m: "missing_ies role Q931_MT_STATUS [IE_cause c] = [(0, Q931_IE_CALL_STATE)]" by (simp add: missing_ies_def)
  have a: "decode_answer Q931_MT_STATUS = Some Q931_MT_STATUS" by code_simp
  have o: "length (octets_of env (IE_cause c)) < 40"
    using assms(5) by (simp add: octets_of_def q931_ie_cause_write_to_buf_def ie_octets_def)
  have "unat Q931_IE_C_CV_MANDATORY_INFORMATION_ELEMENT_IS_MISSING < 128" "unat Q931_IE_C_CS_CCITT < 4" by code_simp+
  moreover obtain frame msg where
    "q931_call_message env len cr direction Q931_MT_STATUS [IE_cause c] = Inr frame" "q931_receive_header frame = Some msg"
    "q931_call_decode_ies env role network_role direction' msg =
      Inr ([ie_received env (IE_cause c)], answer_of Q931_MT_STATUS (q931_ie_cause_location direction' network_role role) [(0, Q931_IE_CALL_STATE)])"
    using message_checked [OF assms(1-4), of "[IE_cause c]" env direction Q931_MT_STATUS role network_role direction'] o assms(2,5)
    unfolding s m by force
  ultimately show ?thesis by (intro exI conjI) (auto simp: answer_of_def a)
qed

lemma send_waiting:
  "dlc_status dlc = Q931_DLC_STATUS_AWAITING_CONNECTION \<Longrightarrow>
   send_all frames dlc = dlc\<lparr>outgoing_queue := outgoing_queue dlc @ frames\<rparr>"
  by (induction frames arbitrary: dlc) (simp_all add: send_all_def q931_send_message_def Let_def)

lemma send_connected:
  "dlc_status dlc = Q931_DLC_STATUS_CONNECTED \<Longrightarrow> send_all frames dlc = dlc\<lparr>dlc_sent := dlc_sent dlc @ frames\<rparr>"
  by (induction frames arbitrary: dlc) (simp_all add: send_all_def q931_send_message_def q931_send_frame_def Let_def)

lemma send_all_frames:
  "fold (\<lambda>(i, m) dlc. snd (q931_send_frame 0 dlc m)) (enumerate n frames) dlc = dlc\<lparr>dlc_sent := dlc_sent dlc @ frames\<rparr>"
  by (induction frames arbitrary: n dlc) (simp_all add: q931_send_frame_def)

text \<open>The link is asked for by the first message.\<close>

lemma send_disconnected:
  assumes "dlc_status dlc = Q931_DLC_STATUS_DISCONNECTED"
  shows "send_all frames dlc =
    (if frames = [] then dlc
     else dlc\<lparr>dlc_status := Q931_DLC_STATUS_AWAITING_CONNECTION, outgoing_queue := outgoing_queue dlc @ frames\<rparr>)"
proof (cases frames)
  case (Cons f fs)
  have "send_all frames dlc = send_all fs (snd (q931_send_message 0 0 f dlc))" unfolding Cons by (simp add: send_all_def)
  also have "snd (q931_send_message 0 0 f dlc) =
    dlc\<lparr>dlc_status := Q931_DLC_STATUS_AWAITING_CONNECTION, outgoing_queue := outgoing_queue dlc @ [f]\<rparr>"
    using assms by (simp add: q931_send_message_def Let_def)
  finally show ?thesis by (simp add: send_waiting Cons)
qed (simp add: send_all_def)

text \<open>
  Messages wait in order while the link is being set up: of what is sent on a link that is down nothing goes out until
  the link is there; then the messages the calls send on hearing of it go out, behind them the ones that waited, in the order they were
  sent, and the queue is empty; later messages follow at once.
\<close>

theorem messages_in_order:
  assumes "dlc_status dlc = Q931_DLC_STATUS_DISCONNECTED" "outgoing_queue dlc = []"
  shows "dlc_sent (send_all frames dlc) = dlc_sent dlc \<and>
    send_all later (q931_dl_establish_confirm during (\<lambda>_. 0) (send_all frames dlc)) =
      \<lparr>dlc_status = Q931_DLC_STATUS_CONNECTED, outgoing_queue = [], dlc_sent = dlc_sent dlc @ during @ frames @ later\<rparr>"
  using assms by (cases dlc; cases "frames = []")
    (simp_all add: q931_dl_establish_confirm_def q931_flush_outgoing_queue_def send_disconnected send_connected send_all_frames)

text \<open>
  A called number of 20 to 22 digits is within the size the table of the elements allows, but not within the array it is
  copied to: reading it writes behind the array, whatever the digits are.
\<close>

theorem called_number_overruns:
  assumes "20 \<le> length digits" "length digits \<le> 22" "\<forall>ie\<in>set ies. q931_ie_id ie \<noteq> Q931_IE_CALLED_PARTY_NUMBER"
  shows "q931_decode_ie env mt 0 Q931_IE_CALLED_PARTY_NUMBER (oct # digits @ rest) (int (1 + length digits)) (ies, ds) = Inl OutOfBounds"
proof -
  define n where "n = \<lparr>type_of_number = 0, numbering_plan_identificator = 0, presentation_indicator = 0, screening_indicator = 0, number = []\<rparr>"
  obtain c u where c: "q931_get_ie_class 0 Q931_IE_CALLED_PARTY_NUMBER = Some c" "q931_get_ie_usage mt 0 Q931_IE_CALLED_PARTY_NUMBER = Some u"
    "cls_ops c = Some Ops_called_party_number" "cls_max_len c = 23" "cls_id c = Q931_IE_CALLED_PARTY_NUMBER" "0 < cls_max_occur c"
    using ie_class [of "IE_called_party_number n" mt] by auto
  have none: "filter (\<lambda>ie. q931_ie_id ie = cls_id c \<and> cls_codeset c = 0) ies = []" using assms(3) c(5) by auto
  have "q931_ie_called_party_number_read_from_buf (oct # digits @ rest) (int (1 + length digits)) = Inl OutOfBounds"
    using assms(1) by (simp add: q931_ie_called_party_number_read_from_buf_def copy_number_def rd_octets_def rd_Cons nat_add_distrib)
  then show ?thesis unfolding q931_decode_ie_def using c none assms(2)
    by (simp add: ie_size_ok_def q931_check_ie_size_def map_ie_def bind_opt_def)
qed

section \<open>Examples\<close>

definition example_env :: q931_env where
  "example_env = \<lparr>env_mktime = (\<lambda>_. 0), env_localtime = (\<lambda>_. (100, 0, 1, 12, 0, 0)), env_intf_type = LAPD_INTF_TYPE_BRA, env_n_channels = 2\<rparr>"

text \<open>A speech call to 0612345, on any channel.\<close>

definition dialled_number :: q931_ie_number where
  "dialled_number = \<lparr>type_of_number = 0, numbering_plan_identificator = 1, presentation_indicator = 0, screening_indicator = 0,
     number = [0x30, 0x36, 0x31, 0x32, 0x33, 0x34, 0x35]\<rparr>"

definition example_setup :: "q931_ie list" where
  "example_setup =
     [IE_sending_complete, IE_called_party_number dialled_number,
      IE_bearer_capability \<lparr>coding_standard = 0, information_transfer_capability = 0, transfer_mode = 0, information_transfer_rate = 0x10,
        user_information_layer_1_protocol = 3, user_information_layer_2_protocol = -1, user_information_layer_3_protocol = -1\<rparr>,
      IE_channel_identification \<lparr>ci_interface_type = 0, ci_preferred_exclusive = 0, ci_d_channel_indicator = 0, ci_any_channel = True,
        ci_chanset = [0, 1]\<rparr>]"

definition example_cause :: q931_ie_cause where
  "example_cause = \<lparr>cause_coding_standard = 0, cause_location = 0, cause_value = 100, cause_recommendation = 0, cause_diagnostics = [0x70]\<rparr>"

lemma example_setup_ok: "\<forall>ie\<in>set example_setup. ie_ok example_env ie" "distinct (map q931_ie_id example_setup)"
  "ies_apart (q931_ies_sort example_setup)" "3 + 1 + length (concat (map (octets_of example_env) (q931_ies_sort example_setup))) < 512"
  "snd ` set (q931_mandatory_ies LAPD_INTF_ROLE_TE Q931_MT_SETUP) \<subseteq> q931_ie_id ` set example_setup"
  by code_simp+

theorem message_roundtrip_witness: "\<exists>frame msg. q931_call_message example_env 1 5 Q931_CALL_DIRECTION_OUTBOUND Q931_MT_SETUP example_setup = Inr frame \<and>
    q931_receive_header frame = Some msg \<and> msg_callref msg = 5 \<and>
    q931_call_decode_ies example_env LAPD_INTF_ROLE_TE Q931_INTF_NET_USER Q931_CALL_DIRECTION_INBOUND msg =
      Inr (map (ie_received example_env) (q931_ies_sort example_setup), [], True)"
proof -
  have n: "(1 :: nat) \<le> 1" "(1 :: nat) \<le> 3" "(0 :: int) < 5" "(5 :: int) < 2 ^ (8 * 1 - 1)" by simp_all
  show ?thesis using message_roundtrip [OF n example_setup_ok, of Q931_CALL_DIRECTION_OUTBOUND Q931_INTF_NET_USER Q931_CALL_DIRECTION_INBOUND] by blast
qed

theorem missing_mandatory_answered_witness:
  "\<exists>frame msg cause. q931_call_message example_env 1 5 Q931_CALL_DIRECTION_OUTBOUND Q931_MT_SETUP [IE_called_party_number dialled_number] = Inr frame \<and>
    q931_receive_header frame = Some msg \<and> cause_diagnostics cause = [Q931_IE_BEARER_CAPABILITY] \<and>
    q931_call_decode_ies example_env LAPD_INTF_ROLE_NT Q931_INTF_NET_PRIVATE Q931_CALL_DIRECTION_INBOUND msg =
      Inr ([IE_called_party_number dialled_number], [(Q931_MT_RELEASE_COMPLETE, [IE_cause cause])], False)"
proof -
  let ?ies = "[IE_called_party_number dialled_number]"
  have n: "(1 :: nat) \<le> 1" "(1 :: nat) \<le> 3" "(0 :: int) < 5" "(5 :: int) < 2 ^ (8 * 1 - 1)" by simp_all
  have h: "\<forall>ie\<in>set ?ies. ie_ok example_env ie" "distinct (map q931_ie_id ?ies)" "ies_apart (q931_ies_sort ?ies)"
    "3 + 1 + length (concat (map (octets_of example_env) (q931_ies_sort ?ies))) < 512" by code_simp+
  have m: "filter (\<lambda>(cs, i). i \<notin> q931_ie_id ` set ?ies) (q931_mandatory_ies LAPD_INTF_ROLE_NT Q931_MT_SETUP) = [(0, Q931_IE_BEARER_CAPABILITY)]"
    by code_simp
  have r: "map (ie_received example_env) (q931_ies_sort ?ies) = ?ies" by (simp add: q931_ies_sort_def)
  show ?thesis
    using missing_mandatory_answered [OF n h m [symmetric] _ refl, where network_role = Q931_INTF_NET_PRIVATE and direction = Q931_CALL_DIRECTION_OUTBOUND and
      direction' = Q931_CALL_DIRECTION_INBOUND]
    unfolding r by (auto simp del: ie_received.simps)
qed

theorem status_answered_with_status_witness:
  "\<exists>frame msg c'. q931_call_message example_env 2 300 Q931_CALL_DIRECTION_INBOUND Q931_MT_STATUS [IE_cause example_cause] = Inr frame \<and>
    q931_receive_header frame = Some msg \<and> cause_diagnostics c' = [Q931_IE_CALL_STATE] \<and>
    (\<exists>ies. q931_call_decode_ies example_env LAPD_INTF_ROLE_NT Q931_INTF_NET_LOCAL Q931_CALL_DIRECTION_OUTBOUND msg =
       Inr (ies, [(Q931_MT_STATUS, [IE_cause c'])], False))"
proof -
  have n: "(1 :: nat) \<le> 2" "(2 :: nat) \<le> 3" "(0 :: int) < 300" "(300 :: int) < 2 ^ (8 * 2 - 1)" by simp_all
  have h: "ie_ok example_env (IE_cause example_cause)" by code_simp
  show ?thesis using status_answered_with_status [OF n h, of Q931_CALL_DIRECTION_INBOUND LAPD_INTF_ROLE_NT Q931_INTF_NET_LOCAL Q931_CALL_DIRECTION_OUTBOUND]
    by blast
qed

theorem messages_in_order_witness:
  "send_all [[3]] (q931_dl_establish_confirm [[9]] (\<lambda>_. 0) (send_all [[1], [2]]
     \<lparr>dlc_status = Q931_DLC_STATUS_DISCONNECTED, outgoing_queue = [], dlc_sent = []\<rparr>)) =
   \<lparr>dlc_status = Q931_DLC_STATUS_CONNECTED, outgoing_queue = [], dlc_sent = [[9], [1], [2], [3]]\<rparr>"
  using messages_in_order [where dlc = "\<lparr>dlc_status = Q931_DLC_STATUS_DISCONNECTED, outgoing_queue = [], dlc_sent = []\<rparr>" and frames = "[[1], [2]]" and later = "[[3]]" and during = "[[9]]"] by simp

theorem called_number_overruns_witness:
  "q931_decode_ie example_env Q931_MT_SETUP 0 Q931_IE_CALLED_PARTY_NUMBER (0x81 # replicate 20 0x31) 21 ([], q931_decoder_status_init) = Inl OutOfBounds"
  using called_number_overruns [where digits = "replicate 20 0x31" and ies = "[]" and env = example_env and mt = Q931_MT_SETUP and oct = "0x81" and rest = "[]"
      and ds = q931_decoder_status_init] by simp

end
