(* ===== verification/Q931_Call_State.thy ===== *)
theory Q931_Call_State
  imports Q931_Message
begin

text \<open>
  The state of a call of \<^verbatim>\<open>src/libq931/call.c\<close> and the operations its state machine is made of: the reference count
  and the timers, the channels of the interface, the messages sent and the primitives passed to the call control
  block, and the connection endpoints (\<^verbatim>\<open>ces.c\<close>) of a call offered to several terminals at once.

  A statement takes the call to the call after it, or to the fault it runs into. The functions of the library are
  lists of statements (\<open>seq\<close>) under a \<open>switch\<close> over the state of the call, in the order of the source.
\<close>

section \<open>States, timers, primitives\<close>

datatype q931_call_state =
  U0_NULL_STATE | U1_CALL_INITIATED | U2_OVERLAP_SENDING | U3_OUTGOING_CALL_PROCEEDING | U4_CALL_DELIVERED
| U6_CALL_PRESENT | U7_CALL_RECEIVED | U8_CONNECT_REQUEST | U9_INCOMING_CALL_PROCEEDING | U10_ACTIVE
| U11_DISCONNECT_REQUEST | U12_DISCONNECT_INDICATION | U15_SUSPEND_REQUEST | U17_RESUME_REQUEST
| U19_RELEASE_REQUEST | U25_OVERLAP_RECEIVING
| N0_NULL_STATE | N1_CALL_INITIATED | N2_OVERLAP_SENDING | N3_OUTGOING_CALL_PROCEEDING | N4_CALL_DELIVERED
| N6_CALL_PRESENT | N7_CALL_RECEIVED | N8_CONNECT_REQUEST | N9_INCOMING_CALL_PROCEEDING | N10_ACTIVE
| N11_DISCONNECT_REQUEST | N12_DISCONNECT_INDICATION | N15_SUSPEND_REQUEST | N17_RESUME_REQUEST
| N19_RELEASE_REQUEST | N22_CALL_ABORT | N25_OVERLAP_RECEIVING

datatype q931_call_timer =
  T301 | T302 | T303 | T304 | T305 | T306 | T308 | T309 | T310 | T312 | T313 | T314 | T316 | T318 | T319 | T320 | T321 | T322

definition q931_call_timers :: "q931_call_timer list" where
  "q931_call_timers =
     [T301, T302, T303, T304, T305, T306, T308, T309, T310, T312, T313, T314, T316, T318, T319, T320, T321, T322]"

instance q931_call_timer :: finite
proof
  have "UNIV = set q931_call_timers"
    unfolding q931_call_timers_def by (auto intro: q931_call_timer.exhaust)
  then show "finite (UNIV :: q931_call_timer set)" by (metis finite_set)
qed

datatype q931_primitive =
  Q931_CCB_ALERTING_INDICATION | Q931_CCB_CONNECT_INDICATION | Q931_CCB_DISCONNECT_INDICATION
| Q931_CCB_INFO_INDICATION | Q931_CCB_MORE_INFO_INDICATION | Q931_CCB_NOTIFY_INDICATION
| Q931_CCB_PROCEEDING_INDICATION | Q931_CCB_PROGRESS_INDICATION | Q931_CCB_REJECT_INDICATION
| Q931_CCB_RELEASE_CONFIRM | Q931_CCB_RELEASE_INDICATION | Q931_CCB_RESUME_CONFIRM | Q931_CCB_RESUME_INDICATION
| Q931_CCB_SETUP_CONFIRM | Q931_CCB_SETUP_COMPLETE_INDICATION | Q931_CCB_SETUP_INDICATION
| Q931_CCB_STATUS_INDICATION | Q931_CCB_SUSPEND_CONFIRM | Q931_CCB_SUSPEND_INDICATION
| Q931_CCB_CONNECT_CHANNEL | Q931_CCB_DISCONNECT_CHANNEL | Q931_CCB_START_TONE | Q931_CCB_STOP_TONE

text \<open>The results that come with a confirm or an indication (\<open>par1\<close>).\<close>

datatype q931_par = No_par | Par_ok | Par_error | Par_timeout

datatype q931_tone_type = Q931_TONE_DIAL | Q931_TONE_BUSY | Q931_TONE_HANGUP | Q931_TONE_FAILURE

datatype q931_channel_state =
  Q931_CHANSTATE_MAINTAINANCE | Q931_CHANSTATE_AVAILABLE | Q931_CHANSTATE_SELECTED | Q931_CHANSTATE_CONNECTED
| Q931_CHANSTATE_DISCONNECTED | Q931_CHANSTATE_LEASED

text \<open>The call a channel is with: none, the call of the model, or another one of the interface.\<close>

datatype q931_channel_call = No_call | This_call | Other_call

record q931_channel =
  chan_state :: q931_channel_state
  chan_call :: q931_channel_call

text \<open>
  The data link connections an interface has: its own, the one of the broadcast address and, on the network side of
  a point-to-multipoint interface, one for each terminal.
\<close>

datatype q931_dlc_ref = Intf_dlc | Bc_dlc | Tei_dlc nat

datatype q931_ces_state =
  I0_NULL_STATE | I7_CALL_RECEIVED | I8_CONNECT_REQUEST | I9_INCOMING_CALL_PROCEEDING | I19_RELEASE_REQUEST
| I25_OVERLAP_RECEIVING

record q931_ces =
  ces_id :: nat
  ces_dlc :: q931_dlc_ref
  ces_state :: q931_ces_state
  ces_T304 :: bool
  ces_T308 :: bool
  ces_T322 :: bool
  ces_T308_fired :: bool
  ces_senq_97_98 :: bool
  ces_senq_cnt :: int

text \<open>
  What a call does to its surroundings: a message it sends (on a data link, of a type, with elements), a SETUP on
  the broadcast data link, a primitive for the call control block, one about a channel, a data link it asks to be
  connected again, the confirmation of a restart, and a channel it takes from another call.
\<close>

datatype q931_out =
  Send_message q931_dlc_ref u8 "q931_ie list"
| Send_message_bc u8 "q931_ie list"
| Call_primitive q931_primitive "q931_ie list" q931_par
| Channel_primitive q931_primitive nat "q931_tone_type option"
| Connect_dlc q931_dlc_ref
| Global_restart_confirm "nat option"
| Other_call_channel_null nat

text \<open>
  The fields of \<open>struct q931_interface\<close> that its calls use: the channels are the whole array. With them are the functions
  of the host and its clock, and what the heap held where an endpoint is allocated (\<open>junk_\<close>).
\<close>

record q931_interface =
  intf_role :: lapd_intf_role
  intf_type :: lapd_intf_type
  intf_mode :: lapd_intf_mode
  intf_network_role :: q931_interface_network_role
  intf_enable_bumping :: bool
  intf_n_channels :: nat
  intf_channels :: "q931_channel list"
  call_env :: q931_env
  call_clock :: int
  junk_T308_fired :: bool
  junk_senq_97_98 :: bool
  junk_senq_cnt :: int

text \<open>
  \<open>struct q931_call\<close> on its interface. \<open>on_intf\<close> tells whether the call is in the list of the interface. A timer is in
  \<open>timers\<close> while it is pending. \<open>stale_timers\<close> counts the timers of freed endpoints that are still in the list of
  timers, and \<open>outs\<close> is what the call has done to its surroundings, in order.
\<close>

record q931_call = q931_interface +
  refcnt :: int
  on_intf :: bool
  call_ces :: "q931_ces list"
  next_ces :: nat
  preselected_ces :: "nat option"
  selected_ces :: "nat option"
  call_dlc :: "q931_dlc_ref option"
  call_direction :: q931_call_direction
  call_reference :: int
  call_state :: q931_call_state
  broadcast_setup :: bool
  tones_option :: bool
  T303_fired :: bool
  T308_fired :: bool
  senq_status_97_98_received :: bool
  senq_cnt :: int
  disconnect_indication_sent :: bool
  release_complete_received :: bool
  digits_dialled :: bool
  setup_ies :: "q931_ie list"
  disconnect_cause :: "q931_ie list"
  saved_cause :: "q931_ie list"
  release_cause :: "q931_ie list"
  call_channel :: "nat option"
  timers :: "q931_call_timer set"
  stale_timers :: nat
  outs :: "q931_out list"

type_synonym stmt = "q931_call \<Rightarrow> q931_call res"

section \<open>Statements\<close>

fun seq :: "stmt list \<Rightarrow> stmt" where
  "seq [] c = Inr c"
| "seq (f # fs) c = bind_res (f c) (seq fs)"

fun switch :: "(q931_call_state list \<times> stmt) list \<Rightarrow> stmt \<Rightarrow> stmt" where
  "switch [] d c = d c"
| "switch ((states, f) # cases) d c = (if call_state c \<in> set states then f c else switch cases d c)"

definition if_then_else :: "(q931_call \<Rightarrow> bool) \<Rightarrow> stmt \<Rightarrow> stmt \<Rightarrow> stmt" where
  "if_then_else b f g c = (if b c then f c else g c)"

definition with_val :: "(q931_call \<Rightarrow> 'a res) \<Rightarrow> ('a \<Rightarrow> stmt) \<Rightarrow> stmt" where
  "with_val v k c = bind_res (v c) (\<lambda>x. k x c)"

definition with_cur :: "(q931_call \<Rightarrow> 'a) \<Rightarrow> ('a \<Rightarrow> stmt) \<Rightarrow> stmt" where
  "with_cur v k c = k (v c) c"

definition fault :: "lapd_fault \<Rightarrow> stmt" where
  "fault e c = Inl e"

text \<open>A statement that reads or writes the call follows its pointer: the call must not have been freed.\<close>

definition upd :: "(q931_call \<Rightarrow> q931_call) \<Rightarrow> stmt" where
  "upd f c = (if 0 < refcnt c then Inr (f c) else Inl UseAfterFree)"

definition assert_that :: "(q931_call \<Rightarrow> bool) \<Rightarrow> stmt" where
  "assert_that b c = (if b c then Inr c else Inl KernelBug)"

definition nothing :: stmt where "nothing = upd (\<lambda>c. c)"

definition out :: "q931_out \<Rightarrow> stmt" where
  "out e = upd (\<lambda>c. c\<lparr>outs := outs c @ [e]\<rparr>)"

section \<open>References and timers\<close>

definition q931_call_get :: stmt where
  "q931_call_get = upd (\<lambda>c. c\<lparr>refcnt := refcnt c + 1\<rparr>)"

definition q931_call_put :: stmt where
  "q931_call_put = upd (\<lambda>c. c\<lparr>refcnt := refcnt c - 1\<rparr>)"

text \<open>The call must be in the list of its interface: the pointers of a deleted node lead nowhere.\<close>

definition q931_intf_del_call :: stmt where
  "q931_intf_del_call c =
     (if \<not> 0 < refcnt c \<or> \<not> on_intf c then Inl UseAfterFree else Inr (c\<lparr>on_intf := False\<rparr>))"

definition q931_call_release_reference :: stmt where
  "q931_call_release_reference = seq [q931_intf_del_call, q931_call_put]"

definition q931_call_set_state :: "q931_call_state \<Rightarrow> stmt" where
  "q931_call_set_state s = upd (\<lambda>c. c\<lparr>call_state := s\<rparr>)"

definition q931_call_timer_running :: "q931_call \<Rightarrow> q931_call_timer \<Rightarrow> bool" where
  "q931_call_timer_running c t = (t \<in> timers c)"

definition q931_call_start_timer :: "q931_call_timer \<Rightarrow> stmt" where
  "q931_call_start_timer t =
     if_then_else (\<lambda>c. t \<in> timers c) nothing (seq [q931_call_get, upd (\<lambda>c. c\<lparr>timers := insert t (timers c)\<rparr>)])"

text \<open>Here the timer is set to a new time when it is pending; the times are not in the model.\<close>

definition q931_call_restart_timer :: "q931_call_timer \<Rightarrow> stmt" where
  "q931_call_restart_timer t =
     seq [if_then_else (\<lambda>c. t \<in> timers c) nothing q931_call_get, upd (\<lambda>c. c\<lparr>timers := insert t (timers c)\<rparr>)]"

definition q931_call_stop_timer :: "q931_call_timer \<Rightarrow> stmt" where
  "q931_call_stop_timer t =
     if_then_else (\<lambda>c. t \<in> timers c) (seq [upd (\<lambda>c. c\<lparr>timers := timers c - {t}\<rparr>), q931_call_put]) nothing"

definition q931_call_stop_any_timer :: stmt where
  "q931_call_stop_any_timer = seq (map q931_call_stop_timer q931_call_timers)"

section \<open>Messages and primitives\<close>

definition q931_call_send_message :: "q931_dlc_ref option \<Rightarrow> u8 \<Rightarrow> q931_ie list \<Rightarrow> stmt" where
  "q931_call_send_message dlc mt ies = (case dlc of None \<Rightarrow> fault KernelBug | Some d \<Rightarrow> out (Send_message d mt ies))"

definition q931_call_send :: "u8 \<Rightarrow> q931_ie list \<Rightarrow> stmt" where
  "q931_call_send mt ies = with_val (\<lambda>c. Inr (call_dlc c)) (\<lambda>dlc. q931_call_send_message dlc mt ies)"

definition q931_call_send_setup_bc :: "q931_ie list \<Rightarrow> stmt" where
  "q931_call_send_setup_bc ies = out (Send_message_bc Q931_MT_SETUP ies)"

definition q931_call_primitive1 :: "q931_primitive \<Rightarrow> q931_ie list \<Rightarrow> q931_par \<Rightarrow> stmt" where
  "q931_call_primitive1 p ies par = out (Call_primitive p ies par)"

definition q931_call_primitive :: "q931_primitive \<Rightarrow> q931_ie list \<Rightarrow> stmt" where
  "q931_call_primitive p ies = q931_call_primitive1 p ies No_par"

text \<open>A warning in the log.\<close>

definition q931_call_unexpected_primitive :: stmt where "q931_call_unexpected_primitive = nothing"
definition q931_call_unexpected_timer :: stmt where "q931_call_unexpected_timer = nothing"

section \<open>Elements the calls send\<close>

definition Q931_IE_C_CV_CHANNEL_UNACCEPTABLE :: u8 where "Q931_IE_C_CV_CHANNEL_UNACCEPTABLE = 6"
definition Q931_IE_C_CV_NORMAL_CALL_CLEARING :: u8 where "Q931_IE_C_CV_NORMAL_CALL_CLEARING = 16"
definition Q931_IE_C_CV_NON_SELECTED_USER_CLEARING :: u8 where "Q931_IE_C_CV_NON_SELECTED_USER_CLEARING = 26"
definition Q931_IE_C_CV_DESTINATION_OUT_OF_ORDER :: u8 where "Q931_IE_C_CV_DESTINATION_OUT_OF_ORDER = 27"
definition Q931_IE_C_CV_FACILITY_REJECTED :: u8 where "Q931_IE_C_CV_FACILITY_REJECTED = 29"
definition Q931_IE_C_CV_RESPONSE_TO_STATUS_ENQUIRY :: u8 where "Q931_IE_C_CV_RESPONSE_TO_STATUS_ENQUIRY = 30"
definition Q931_IE_C_CV_NORMAL_UNSPECIFIED :: u8 where "Q931_IE_C_CV_NORMAL_UNSPECIFIED = 31"
definition Q931_IE_C_CV_NO_CIRCUIT_CHANNEL_AVAILABLE :: u8 where "Q931_IE_C_CV_NO_CIRCUIT_CHANNEL_AVAILABLE = 34"
definition Q931_IE_C_CV_NETWORK_OUT_OF_ORDER :: u8 where "Q931_IE_C_CV_NETWORK_OUT_OF_ORDER = 38"
definition Q931_IE_C_CV_TEMPORARY_FAILURE :: u8 where "Q931_IE_C_CV_TEMPORARY_FAILURE = 41"
definition Q931_IE_C_CV_REQUESTED_CIRCUIT_CHANNEL_NOT_AVAILABLE :: u8 where
  "Q931_IE_C_CV_REQUESTED_CIRCUIT_CHANNEL_NOT_AVAILABLE = 44"
definition Q931_IE_C_CV_INVALID_CALL_REFERENCE_VALUE :: u8 where "Q931_IE_C_CV_INVALID_CALL_REFERENCE_VALUE = 81"
definition Q931_IE_C_CV_MESSAGE_TYPE_NON_EXISTENT_OR_IMPLEMENTED :: u8 where
  "Q931_IE_C_CV_MESSAGE_TYPE_NON_EXISTENT_OR_IMPLEMENTED = 97"
definition Q931_IE_C_CV_MESSAGE_TYPE_NOT_COMPATIBLE_WITH_STATE :: u8 where
  "Q931_IE_C_CV_MESSAGE_TYPE_NOT_COMPATIBLE_WITH_STATE = 98"
definition Q931_IE_C_CV_MESSAGE_NOT_COMPATIBLE_WITH_CALL_STATE :: u8 where
  "Q931_IE_C_CV_MESSAGE_NOT_COMPATIBLE_WITH_CALL_STATE = 101"
definition Q931_IE_C_CV_RECOVERY_ON_TIMER_EXPIRY :: u8 where "Q931_IE_C_CV_RECOVERY_ON_TIMER_EXPIRY = 102"
definition Q931_IE_PI_PD_CALL_NOT_END_TO_END :: u8 where "Q931_IE_PI_PD_CALL_NOT_END_TO_END = 1"
definition Q931_IE_PI_PD_DESTINATION_ADDRESS_IS_NON_ISDN :: u8 where "Q931_IE_PI_PD_DESTINATION_ADDRESS_IS_NON_ISDN = 2"
definition Q931_IE_PI_PD_IN_BAND_INFORMATION :: u8 where "Q931_IE_PI_PD_IN_BAND_INFORMATION = 8"
definition Q931_IE_PI_CS_CCITT :: u8 where "Q931_IE_PI_CS_CCITT = 0"
definition Q931_IE_CI_PE_PREFERRED :: u8 where "Q931_IE_CI_PE_PREFERRED = 0"

definition q931_ie_cause_location_call :: "q931_call \<Rightarrow> u8" where
  "q931_ie_cause_location_call c = q931_ie_cause_location (call_direction c) (intf_network_role c) (intf_role c)"

definition call_cause :: "u8 \<Rightarrow> octets \<Rightarrow> q931_call \<Rightarrow> q931_ie" where
  "call_cause value diagnostics c =
     IE_cause \<lparr>cause_coding_standard = Q931_IE_C_CS_CCITT, cause_location = q931_ie_cause_location_call c,
               cause_value = value, cause_recommendation = Q931_IE_C_R_Q931, cause_diagnostics = diagnostics\<rparr>"

text \<open>The number of a timer in three digits.\<close>

definition timer_digits :: "q931_call_timer \<Rightarrow> octets" where
  "timer_digits t =
     (case t of T301 \<Rightarrow> [0x33, 0x30, 0x31] | T302 \<Rightarrow> [0x33, 0x30, 0x32] | T303 \<Rightarrow> [0x33, 0x30, 0x33] | T304 \<Rightarrow> [0x33, 0x30, 0x34]
      | T305 \<Rightarrow> [0x33, 0x30, 0x35] | T306 \<Rightarrow> [0x33, 0x30, 0x36] | T308 \<Rightarrow> [0x33, 0x30, 0x38] | T309 \<Rightarrow> [0x33, 0x30, 0x39]
      | T310 \<Rightarrow> [0x33, 0x31, 0x30] | T312 \<Rightarrow> [0x33, 0x31, 0x32] | T313 \<Rightarrow> [0x33, 0x31, 0x33] | T314 \<Rightarrow> [0x33, 0x31, 0x34]
      | T316 \<Rightarrow> [0x33, 0x31, 0x36] | T318 \<Rightarrow> [0x33, 0x31, 0x38] | T319 \<Rightarrow> [0x33, 0x31, 0x39] | T320 \<Rightarrow> [0x33, 0x32, 0x30]
      | T321 \<Rightarrow> [0x33, 0x32, 0x31] | T322 \<Rightarrow> [0x33, 0x32, 0x32])"

definition expiry_cause :: "q931_call_timer \<Rightarrow> q931_call \<Rightarrow> q931_ie" where
  "expiry_cause t = call_cause Q931_IE_C_CV_RECOVERY_ON_TIMER_EXPIRY (timer_digits t)"

text \<open>The same rules as for a cause, but a transit network is reported as a local one.\<close>

definition q931_ie_progress_indicator_location :: "q931_call \<Rightarrow> u8" where
  "q931_ie_progress_indicator_location c =
     (case intf_network_role c of
        Q931_INTF_NET_TRANSIT \<Rightarrow> q931_ie_cause_location_local (call_direction c) (intf_role c)
      | nr \<Rightarrow> q931_ie_cause_location (call_direction c) nr (intf_role c))"

definition in_band_progress :: "q931_call \<Rightarrow> q931_ie" where
  "in_band_progress c =
     IE_progress_indicator \<lparr>pi_coding_standard = Q931_IE_PI_CS_CCITT, pi_location = q931_ie_progress_indicator_location c,
                            pi_progress_description = Q931_IE_PI_PD_IN_BAND_INFORMATION\<rparr>"

definition q931_ie_channel_identification_intftype :: "q931_call \<Rightarrow> u8" where
  "q931_ie_channel_identification_intftype c =
     (if intf_type c = LAPD_INTF_TYPE_PRA then Q931_IE_CI_IT_PRIMARY else Q931_IE_CI_IT_BASIC)"

definition channel_id :: "u8 \<Rightarrow> nat list \<Rightarrow> q931_call \<Rightarrow> q931_ie" where
  "channel_id pe chanset c =
     IE_channel_identification \<lparr>ci_interface_type = q931_ie_channel_identification_intftype c, ci_preferred_exclusive = pe,
                                ci_d_channel_indicator = 0, ci_any_channel = False, ci_chanset = chanset\<rparr>"

definition call_channel_id :: "u8 \<Rightarrow> q931_call \<Rightarrow> q931_ie res" where
  "call_channel_id pe c =
     (case call_channel c of None \<Rightarrow> Inl KernelBug | Some i \<Rightarrow> bind_res (q931_chanset_add [] i) (\<lambda>cs. Inr (channel_id pe cs c)))"

fun q931_ies_add_all :: "q931_ie list \<Rightarrow> q931_ie list \<Rightarrow> q931_ie list res" where
  "q931_ies_add_all ies [] = Inr ies"
| "q931_ies_add_all ies (ie # src) = bind_res (q931_ies_add ies ie) (\<lambda>ies. q931_ies_add_all ies src)"

definition q931_ies_copy :: "q931_ie list \<Rightarrow> q931_ie list res" where
  "q931_ies_copy src_ies = q931_ies_add_all [] src_ies"

text \<open>The elements of the call control block with an indication of the channel of the call.\<close>

definition ies_with_channel :: "u8 \<Rightarrow> q931_ie list \<Rightarrow> q931_call \<Rightarrow> q931_ie list res" where
  "ies_with_channel pe user_ies c =
     bind_res (q931_ies_merge [] user_ies) (\<lambda>ies. bind_res (call_channel_id pe c) (q931_ies_add ies))"

definition q931_call_state_to_ie_state :: "q931_call_state \<Rightarrow> u8" where
  "q931_call_state_to_ie_state s =
     (case s of
        N0_NULL_STATE \<Rightarrow> 0x00 | N1_CALL_INITIATED \<Rightarrow> 0x01 | N2_OVERLAP_SENDING \<Rightarrow> 0x02
      | N3_OUTGOING_CALL_PROCEEDING \<Rightarrow> 0x03 | N4_CALL_DELIVERED \<Rightarrow> 0x04 | N6_CALL_PRESENT \<Rightarrow> 0x06
      | N7_CALL_RECEIVED \<Rightarrow> 0x07 | N8_CONNECT_REQUEST \<Rightarrow> 0x08 | N9_INCOMING_CALL_PROCEEDING \<Rightarrow> 0x09
      | N10_ACTIVE \<Rightarrow> 0x0a | N11_DISCONNECT_REQUEST \<Rightarrow> 0x0b | N12_DISCONNECT_INDICATION \<Rightarrow> 0x0c
      | N15_SUSPEND_REQUEST \<Rightarrow> 0x0f | N17_RESUME_REQUEST \<Rightarrow> 0x11 | N19_RELEASE_REQUEST \<Rightarrow> 0x13
      | N22_CALL_ABORT \<Rightarrow> 0x16 | N25_OVERLAP_RECEIVING \<Rightarrow> 0x19
      | U0_NULL_STATE \<Rightarrow> 0x00 | U1_CALL_INITIATED \<Rightarrow> 0x01 | U2_OVERLAP_SENDING \<Rightarrow> 0x02
      | U3_OUTGOING_CALL_PROCEEDING \<Rightarrow> 0x03 | U4_CALL_DELIVERED \<Rightarrow> 0x04 | U6_CALL_PRESENT \<Rightarrow> 0x06
      | U7_CALL_RECEIVED \<Rightarrow> 0x07 | U8_CONNECT_REQUEST \<Rightarrow> 0x08 | U9_INCOMING_CALL_PROCEEDING \<Rightarrow> 0x09
      | U10_ACTIVE \<Rightarrow> 0x0a | U11_DISCONNECT_REQUEST \<Rightarrow> 0x0b | U12_DISCONNECT_INDICATION \<Rightarrow> 0x0c
      | U15_SUSPEND_REQUEST \<Rightarrow> 0x0f | U17_RESUME_REQUEST \<Rightarrow> 0x11 | U19_RELEASE_REQUEST \<Rightarrow> 0x13
      | U25_OVERLAP_RECEIVING \<Rightarrow> 0x19)"

definition q931_call_send_call_status_with_state :: "q931_ie list \<Rightarrow> q931_call_state \<Rightarrow> stmt" where
  "q931_call_send_call_status_with_state user_ies s =
     with_val (\<lambda>c. bind_res (q931_ies_copy user_ies) (\<lambda>ies.
                   q931_ies_add ies (IE_call_state Q931_IE_CS_CS_CCITT (q931_call_state_to_ie_state s))))
       (q931_call_send Q931_MT_STATUS)"

definition q931_call_send_call_status :: "q931_ie list \<Rightarrow> stmt" where
  "q931_call_send_call_status user_ies =
     with_val (\<lambda>c. Inr (call_state c)) (q931_call_send_call_status_with_state user_ies)"

section \<open>Channels\<close>

definition chan_at :: "q931_call \<Rightarrow> nat \<Rightarrow> q931_channel res" where
  "chan_at c i = (if i < length (intf_channels c) then Inr (intf_channels c ! i) else Inl OutOfBounds)"

definition set_channel :: "nat \<Rightarrow> (q931_channel \<Rightarrow> q931_channel) \<Rightarrow> stmt" where
  "set_channel i f =
     with_val (\<lambda>c. chan_at c i) (\<lambda>ch. upd (\<lambda>c. c\<lparr>intf_channels := (intf_channels c)[i := f ch]\<rparr>))"

definition q931_channel_set_state :: "nat \<Rightarrow> q931_channel_state \<Rightarrow> stmt" where
  "q931_channel_set_state i s = set_channel i (\<lambda>ch. ch\<lparr>chan_state := s\<rparr>)"

definition q931_channel_primitive :: "q931_primitive \<Rightarrow> nat \<Rightarrow> stmt" where
  "q931_channel_primitive p i = out (Channel_primitive p i None)"

text \<open>The channel operations on the channel of the call; a null pointer is asserted against, or does nothing.\<close>

definition on_channel :: "(nat \<Rightarrow> stmt) \<Rightarrow> stmt" where
  "on_channel f = with_val (\<lambda>c. case call_channel c of None \<Rightarrow> Inl KernelBug | Some i \<Rightarrow> Inr i) f"

definition on_channel_if :: "(nat \<Rightarrow> stmt) \<Rightarrow> stmt" where
  "on_channel_if f = with_val (\<lambda>c. Inr (call_channel c)) (\<lambda>ch. case ch of None \<Rightarrow> nothing | Some i \<Rightarrow> f i)"

definition q931_channel_connect :: stmt where
  "q931_channel_connect =
     on_channel (\<lambda>i. with_val (\<lambda>c. chan_at c i) (\<lambda>ch.
       if chan_call ch = No_call then fault KernelBug
       else if chan_state ch \<noteq> Q931_CHANSTATE_CONNECTED
       then seq [q931_channel_set_state i Q931_CHANSTATE_CONNECTED, q931_channel_primitive Q931_CCB_CONNECT_CHANNEL i]
       else nothing))"

definition q931_channel_control :: stmt where
  "q931_channel_control =
     on_channel (\<lambda>i. with_val (\<lambda>c. chan_at c i) (\<lambda>ch.
       if chan_call ch = No_call then fault KernelBug
       else if chan_state ch \<noteq> Q931_CHANSTATE_CONNECTED
       then seq [q931_channel_set_state i Q931_CHANSTATE_CONNECTED, q931_channel_primitive Q931_CCB_CONNECT_CHANNEL i]
       else nothing))"

definition q931_channel_disconnect :: stmt where
  "q931_channel_disconnect =
     on_channel_if (\<lambda>i. with_val (\<lambda>c. chan_at c i) (\<lambda>ch.
       if chan_call ch = No_call then fault KernelBug
       else if chan_state ch = Q931_CHANSTATE_CONNECTED
       then seq [q931_channel_set_state i Q931_CHANSTATE_DISCONNECTED, q931_channel_primitive Q931_CCB_DISCONNECT_CHANNEL i]
       else nothing))"

definition q931_channel_release :: stmt where
  "q931_channel_release =
     on_channel_if (\<lambda>i. with_val (\<lambda>c. chan_at c i) (\<lambda>ch.
       seq [if chan_state ch = Q931_CHANSTATE_CONNECTED then q931_channel_primitive Q931_CCB_DISCONNECT_CHANNEL i else nothing,
            case chan_call ch of
              No_call \<Rightarrow> fault NullDereference
            | This_call \<Rightarrow> upd (\<lambda>c. c\<lparr>call_channel := None\<rparr>)
            | Other_call \<Rightarrow> out (Other_call_channel_null i),
            set_channel i (\<lambda>ch. ch\<lparr>chan_call := No_call, chan_state := Q931_CHANSTATE_AVAILABLE\<rparr>)]))"

definition q931_channel_start_tone :: "q931_tone_type \<Rightarrow> stmt" where
  "q931_channel_start_tone tone = on_channel (\<lambda>i. out (Channel_primitive Q931_CCB_START_TONE i (Some tone)))"

definition q931_channel_stop_tone :: stmt where
  "q931_channel_stop_tone = on_channel (q931_channel_primitive Q931_CCB_STOP_TONE)"

definition available :: "q931_call \<Rightarrow> nat \<Rightarrow> bool" where
  "available c i = (chan_state (intf_channels c ! i) = Q931_CHANSTATE_AVAILABLE)"

text \<open>The call and the channel are made to point to each other.\<close>

definition take_channel :: "nat \<Rightarrow> stmt" where
  "take_channel i = seq [upd (\<lambda>c. c\<lparr>call_channel := Some i\<rparr>), set_channel i (\<lambda>ch. ch\<lparr>chan_call := This_call\<rparr>)]"

definition q931_channel_acquire :: stmt where
  "q931_channel_acquire =
     seq [assert_that (\<lambda>c. call_channel c = None),
          with_val (\<lambda>c. Inr (find (available c) [0..<intf_n_channels c])) (\<lambda>found.
            case found of
              None \<Rightarrow> nothing
            | Some i \<Rightarrow> seq [take_channel i, q931_channel_set_state i Q931_CHANSTATE_SELECTED])]"

fun find_channel_id :: "q931_ie list \<Rightarrow> q931_ie_channel_identification option" where
  "find_channel_id [] = None"
| "find_channel_id (ie # ies) = (case ie of IE_channel_identification ci \<Rightarrow> Some ci | _ \<Rightarrow> find_channel_id ies)"

text \<open>
  The loop over the channels of a response has the number of channels as its condition, not the index below it: it ends
  at an available channel, or reads the array past its end.
\<close>

definition scan_chanset :: "nat list \<Rightarrow> q931_call \<Rightarrow> nat option res" where
  "scan_chanset chans c =
     (if chans = [] then Inr None
      else if list_ex (\<lambda>i. \<not> i < length (intf_channels c)) chans then Inl OutOfBounds
      else case find (available c) chans of None \<Rightarrow> Inl OutOfBounds | Some i \<Rightarrow> Inr (Some i))"

text \<open>The statements for a channel that can be used, and for the causes when there is none.\<close>

definition q931_channel_select_response :: "q931_ie list \<Rightarrow> stmt \<Rightarrow> (q931_ie list \<Rightarrow> stmt) \<Rightarrow> stmt" where
  "q931_channel_select_response ies yes no =
     (case find_channel_id ies of
        None \<Rightarrow> with_val (\<lambda>c. Inr (call_channel c)) (\<lambda>ch. case ch of
            None \<Rightarrow> no []
          | Some i \<Rightarrow> seq [take_channel i, yes])
      | Some ci \<Rightarrow> with_val (\<lambda>c. Inr (call_channel c)) (\<lambda>ch. case ch of
            None \<Rightarrow>
              with_val (scan_chanset (ci_chanset ci)) (\<lambda>found. case found of
                  Some i \<Rightarrow> seq [take_channel i, q931_channel_set_state i Q931_CHANSTATE_SELECTED, yes]
                | None \<Rightarrow> with_cur (\<lambda>c. [call_cause Q931_IE_C_CV_CHANNEL_UNACCEPTABLE [] c]) no)
          | Some i0 \<Rightarrow>
              if q931_chanset_contains (ci_chanset ci) i0 then yes
              else with_val (scan_chanset (ci_chanset ci)) (\<lambda>found. case found of
                  Some i \<Rightarrow>
                    seq [q931_channel_release, take_channel i, q931_channel_set_state i Q931_CHANSTATE_SELECTED, yes]
                | None \<Rightarrow> with_cur (\<lambda>c. [call_cause Q931_IE_C_CV_REQUESTED_CIRCUIT_CHANNEL_NOT_AVAILABLE [] c]) no)))"

text \<open>The channel for a call that comes in, or the cause why there is none. (That a call could be bumped is not used.)\<close>

fun select_wanted :: "u8 \<Rightarrow> q931_call \<Rightarrow> nat list \<Rightarrow> nat option res option" where
  "select_wanted pe c [] = None"
| "select_wanted pe c (i # chans) =
     (if \<not> i < length (intf_channels c) then Some (Inl OutOfBounds)
      else if available c i then Some (Inr (Some i))
      else if pe = Q931_IE_CI_PE_EXCLUSIVE then Some (Inr None)
      else select_wanted pe c chans)"

definition q931_channel_select_setup :: "q931_ie list \<Rightarrow> q931_call \<Rightarrow> (nat option \<times> q931_ie list) res" where
  "q931_channel_select_setup ies c =
     (let any = (case find (available c) [0..<intf_n_channels c] of
                   Some i \<Rightarrow> (Some i, [])
                 | None \<Rightarrow> (None, [call_cause Q931_IE_C_CV_NO_CIRCUIT_CHANNEL_AVAILABLE [] c]))
      in (case find_channel_id ies of
            None \<Rightarrow> Inr any
          | Some ci \<Rightarrow>
              (if ci_chanset ci = [] then Inr (None, [])
               else (case select_wanted (ci_preferred_exclusive ci) c (ci_chanset ci) of
                   Some (Inl e) \<Rightarrow> Inl e
                 | Some (Inr (Some i)) \<Rightarrow> Inr (Some i, [])
                 | Some (Inr None) \<Rightarrow>
                     Inr (None, [call_cause Q931_IE_C_CV_REQUESTED_CIRCUIT_CHANNEL_NOT_AVAILABLE [] c])
                 | None \<Rightarrow> Inr any))))"

section \<open>Connection endpoints\<close>

text \<open>
  An endpoint is known by the number it got when it was allocated; a number that is no more in the list is a pointer to
  freed memory. A new endpoint is in front of the list. Only three of its fields are set besides the pointers and timers.
\<close>

definition find_ces :: "q931_call \<Rightarrow> nat \<Rightarrow> q931_ces res" where
  "find_ces c i = (case find (\<lambda>s. ces_id s = i) (call_ces c) of None \<Rightarrow> Inl UseAfterFree | Some s \<Rightarrow> Inr s)"

definition upd_ces :: "nat \<Rightarrow> (q931_ces \<Rightarrow> q931_ces) \<Rightarrow> stmt" where
  "upd_ces i f =
     with_val (\<lambda>c. find_ces c i) (\<lambda>s. upd (\<lambda>c. c\<lparr>call_ces := map (\<lambda>s. if ces_id s = i then f s else s) (call_ces c)\<rparr>))"

definition q931_ces_alloc :: "q931_dlc_ref \<Rightarrow> (nat \<Rightarrow> stmt) \<Rightarrow> stmt" where
  "q931_ces_alloc dlc k =
     seq [q931_call_get,
          assert_that (\<lambda>c. dlc \<noteq> Bc_dlc),
          with_val (\<lambda>c. Inr (next_ces c)) (\<lambda>i. seq [
            upd (\<lambda>c. c\<lparr>call_ces :=
                         \<lparr>ces_id = i, ces_dlc = dlc, ces_state = I0_NULL_STATE, ces_T304 = False, ces_T308 = False,
                          ces_T322 = False, ces_T308_fired = junk_T308_fired c, ces_senq_97_98 = junk_senq_97_98 c,
                          ces_senq_cnt = junk_senq_cnt c\<rparr> # call_ces c,
                       next_ces := i + 1\<rparr>),
            k i])]"

text \<open>The timers of the endpoint are not stopped: those pending stay in the list of timers.\<close>

definition pending_ces_timers :: "q931_ces \<Rightarrow> nat" where
  "pending_ces_timers s = of_bool (ces_T304 s) + of_bool (ces_T308 s) + of_bool (ces_T322 s)"

definition q931_ces_free :: "nat \<Rightarrow> stmt" where
  "q931_ces_free i =
     with_val (\<lambda>c. find_ces c i) (\<lambda>s. seq [
       upd (\<lambda>c. c\<lparr>call_ces := filter (\<lambda>s. ces_id s \<noteq> i) (call_ces c), stale_timers := stale_timers c + pending_ces_timers s\<rparr>),
       q931_call_put])"

definition q931_ces_set_state :: "nat \<Rightarrow> q931_ces_state \<Rightarrow> stmt" where
  "q931_ces_set_state i s = upd_ces i (\<lambda>e. e\<lparr>ces_state := s\<rparr>)"

datatype q931_ces_timer = CES_T304 | CES_T308 | CES_T322

definition set_ces_timer :: "nat \<Rightarrow> q931_ces_timer \<Rightarrow> bool \<Rightarrow> stmt" where
  "set_ces_timer i t b =
     upd_ces i (case t of CES_T304 \<Rightarrow> ces_T304_update (\<lambda>_. b) | CES_T308 \<Rightarrow> ces_T308_update (\<lambda>_. b) | CES_T322 \<Rightarrow> ces_T322_update (\<lambda>_. b))"

definition q931_ces_start_timer :: "nat \<Rightarrow> q931_ces_timer \<Rightarrow> stmt" where
  "q931_ces_start_timer i t = set_ces_timer i t True"

definition q931_ces_stop_timer :: "nat \<Rightarrow> q931_ces_timer \<Rightarrow> stmt" where
  "q931_ces_stop_timer i t = set_ces_timer i t False"

definition q931_ces_stop_any_timer :: "nat \<Rightarrow> stmt" where
  "q931_ces_stop_any_timer i =
     seq [q931_ces_stop_timer i CES_T304, q931_ces_stop_timer i CES_T308, q931_ces_stop_timer i CES_T322]"

definition q931_ces_send :: "nat \<Rightarrow> u8 \<Rightarrow> q931_ie list \<Rightarrow> stmt" where
  "q931_ces_send i mt ies = with_val (\<lambda>c. find_ces c i) (\<lambda>s. q931_call_send_message (Some (ces_dlc s)) mt ies)"

definition ces_switch :: "nat \<Rightarrow> (q931_ces_state list \<times> stmt) list \<Rightarrow> stmt \<Rightarrow> stmt" where
  "ces_switch i cases d =
     with_val (\<lambda>c. find_ces c i) (\<lambda>s.
       case find (\<lambda>(states, f). ces_state s \<in> set states) cases of Some (states, f) \<Rightarrow> f | None \<Rightarrow> d)"

definition q931_ces_unexpected_primitive :: stmt where "q931_ces_unexpected_primitive = nothing"
definition q931_ces_unexpected_timer :: stmt where "q931_ces_unexpected_timer = nothing"

definition q931_ces_state_to_ie_state :: "q931_ces_state \<Rightarrow> u8" where
  "q931_ces_state_to_ie_state s =
     q931_call_state_to_ie_state (case s of
        I0_NULL_STATE \<Rightarrow> N0_NULL_STATE | I7_CALL_RECEIVED \<Rightarrow> N7_CALL_RECEIVED | I8_CONNECT_REQUEST \<Rightarrow> N8_CONNECT_REQUEST
      | I9_INCOMING_CALL_PROCEEDING \<Rightarrow> N9_INCOMING_CALL_PROCEEDING | I19_RELEASE_REQUEST \<Rightarrow> N19_RELEASE_REQUEST
      | I25_OVERLAP_RECEIVING \<Rightarrow> N25_OVERLAP_RECEIVING)"

definition q931_ces_alerting_request :: "nat \<Rightarrow> stmt" where
  "q931_ces_alerting_request i =
     ces_switch i [([I0_NULL_STATE], q931_ces_set_state i I7_CALL_RECEIVED)] q931_ces_unexpected_primitive"

definition q931_ces_connect_request :: "nat \<Rightarrow> stmt" where
  "q931_ces_connect_request i =
     ces_switch i [([I0_NULL_STATE], q931_ces_set_state i I8_CONNECT_REQUEST)] q931_ces_unexpected_primitive"

definition q931_ces_call_proceeding_request :: "nat \<Rightarrow> stmt" where
  "q931_ces_call_proceeding_request i =
     ces_switch i [([I0_NULL_STATE], q931_ces_set_state i I9_INCOMING_CALL_PROCEEDING)] q931_ces_unexpected_primitive"

definition q931_ces_setup_ack_request :: "nat \<Rightarrow> stmt" where
  "q931_ces_setup_ack_request i =
     ces_switch i [([I0_NULL_STATE], seq [q931_ces_start_timer i CES_T304, q931_ces_set_state i I25_OVERLAP_RECEIVING])]
       q931_ces_unexpected_primitive"

definition q931_ces_release_request :: "q931_ie list \<Rightarrow> nat \<Rightarrow> stmt" where
  "q931_ces_release_request ies i =
     ces_switch i
       [([I0_NULL_STATE, I7_CALL_RECEIVED, I8_CONNECT_REQUEST],
           seq [q931_ces_start_timer i CES_T308, q931_ces_send i Q931_MT_RELEASE ies, q931_ces_set_state i I19_RELEASE_REQUEST]),
        ([I9_INCOMING_CALL_PROCEEDING],
           seq [q931_ces_start_timer i CES_T308, q931_ces_send i Q931_MT_RELEASE ies, q931_ces_set_state i I19_RELEASE_REQUEST]),
        ([I25_OVERLAP_RECEIVING],
           seq [q931_ces_stop_timer i CES_T304, q931_ces_start_timer i CES_T308, q931_ces_send i Q931_MT_RELEASE ies,
                q931_ces_set_state i I19_RELEASE_REQUEST])]
       q931_ces_unexpected_primitive"

definition q931_ces_info_request :: "q931_ie list \<Rightarrow> nat \<Rightarrow> stmt" where
  "q931_ces_info_request ies i =
     ces_switch i
       [([I7_CALL_RECEIVED, I8_CONNECT_REQUEST, I9_INCOMING_CALL_PROCEEDING], q931_ces_send i Q931_MT_INFORMATION ies),
        ([I25_OVERLAP_RECEIVING],
           seq [q931_ces_stop_timer i CES_T304, q931_ces_send i Q931_MT_INFORMATION ies, q931_ces_start_timer i CES_T304])]
       q931_ces_unexpected_primitive"

text \<open>The timer looked at is that of the call, not that of the endpoint.\<close>

definition q931_ces_status_enquiry_request :: "q931_ie list \<Rightarrow> nat \<Rightarrow> stmt" where
  "q931_ces_status_enquiry_request user_ies i =
     ces_switch i
       [([I7_CALL_RECEIVED, I8_CONNECT_REQUEST, I9_INCOMING_CALL_PROCEEDING, I25_OVERLAP_RECEIVING, I19_RELEASE_REQUEST],
           if_then_else (\<lambda>c. q931_call_timer_running c T322) nothing
             (seq [q931_ces_send i Q931_MT_STATUS_ENQUIRY user_ies, q931_ces_start_timer i CES_T322]))]
       q931_ces_unexpected_primitive"

text \<open>The loop over the endpoints of the call; none of the requests changes the list.\<close>

definition for_each_ces :: "(nat \<Rightarrow> stmt) \<Rightarrow> stmt" where
  "for_each_ces f = with_val (\<lambda>c. Inr (map ces_id (call_ces c))) (\<lambda>ids. seq (map f ids))"

end
