(* ===== verification/Q931_Call.thy ===== *)
theory Q931_Call
  imports Q931_Call_State
begin

text \<open>
  The call state machine of \<^verbatim>\<open>src/libq931/call.c\<close> from within: the requests of the call control block, the internal
  indications of the connection endpoints, and the timers.
\<close>

section \<open>Messages in the wrong state\<close>

text \<open>
  In the null state of the network side the cause is put into the list a second time, for the STATUS that follows the
  RELEASE, with one reference for both: the second entry is put back when it has been freed.
\<close>

definition refuse_reference :: "q931_call_state \<Rightarrow> stmt" where
  "refuse_reference s =
     seq [with_cur (\<lambda>c. [call_cause Q931_IE_C_CV_INVALID_CALL_REFERENCE_VALUE [] c]) (q931_call_send Q931_MT_RELEASE),
          q931_call_start_timer T308, q931_call_set_state s]"

definition q931_call_message_not_compatible_with_state :: "q931_call_state option \<Rightarrow> u8 \<Rightarrow> stmt" where
  "q931_call_message_not_compatible_with_state new_state mt =
     with_cur call_state (\<lambda>before. seq [
       if before = N0_NULL_STATE then refuse_reference N19_RELEASE_REQUEST else nothing,
       if_then_else (\<lambda>c. call_state c = U0_NULL_STATE)
         (refuse_reference N19_RELEASE_REQUEST)
         (with_cur (call_cause Q931_IE_C_CV_MESSAGE_NOT_COMPATIBLE_WITH_CALL_STATE [mt]) (\<lambda>cause.
            let ies = (if before = N0_NULL_STATE then [cause, cause] else [cause]) in
            case new_state of
              None \<Rightarrow> q931_call_send_call_status ies
            | Some s \<Rightarrow> q931_call_send_call_status_with_state ies s)),
       if before = N0_NULL_STATE then fault UseAfterFree else nothing])"

section \<open>Requests of the call control block\<close>

definition q931_alerting_request :: "q931_ie list \<Rightarrow> stmt" where
  "q931_alerting_request user_ies = switch
     [([N2_OVERLAP_SENDING],
         seq [q931_call_stop_timer T302, q931_call_send Q931_MT_ALERTING user_ies, q931_call_set_state N4_CALL_DELIVERED]),
      ([N3_OUTGOING_CALL_PROCEEDING],
         seq [q931_call_send Q931_MT_ALERTING user_ies, q931_call_set_state N4_CALL_DELIVERED]),
      ([U6_CALL_PRESENT],
         with_val (ies_with_channel Q931_IE_CI_PE_PREFERRED user_ies) (\<lambda>ies.
           seq [q931_call_send Q931_MT_ALERTING ies, q931_call_set_state U7_CALL_RECEIVED])),
      ([U8_CONNECT_REQUEST, U9_INCOMING_CALL_PROCEEDING],
         seq [q931_call_send Q931_MT_ALERTING user_ies, q931_call_set_state U7_CALL_RECEIVED]),
      ([U25_OVERLAP_RECEIVING],
         seq [q931_call_stop_timer T302, q931_call_send Q931_MT_ALERTING user_ies, q931_call_set_state U7_CALL_RECEIVED])]
     q931_call_unexpected_primitive"

text \<open>
  The network side clears with tones in the channel, which stays connected while timer T306 runs, or by disconnecting it.
\<close>

definition disconnect_with_tones :: "q931_tone_type \<Rightarrow> q931_ie list \<Rightarrow> stmt" where
  "disconnect_with_tones tone ies =
     if_then_else tones_option
       (with_val (\<lambda>c. q931_ies_add ies (in_band_progress c)) (\<lambda>ies.
          seq [q931_call_send Q931_MT_DISCONNECT ies, q931_channel_start_tone tone, q931_call_start_timer T306]))
       (seq [q931_channel_disconnect, q931_call_send Q931_MT_DISCONNECT ies, q931_call_start_timer T305])"

text \<open>A call offered to several terminals is cleared in the states after the first answer.\<close>

definition disconnect_broadcast :: "q931_ie list \<Rightarrow> stmt" where
  "disconnect_broadcast user_ies =
     seq [q931_channel_release,
          if_then_else (\<lambda>c. q931_call_timer_running c T312)
            (seq [q931_call_set_state N22_CALL_ABORT, for_each_ces (q931_ces_release_request user_ies)])
            (seq [q931_call_set_state N0_NULL_STATE, q931_call_release_reference,
                  for_each_ces (q931_ces_release_request user_ies),
                  q931_call_primitive Q931_CCB_RELEASE_INDICATION []])]"

definition q931_disconnect_request :: "q931_ie list \<Rightarrow> stmt" where
  "q931_disconnect_request user_ies =
     seq [upd (\<lambda>c. c\<lparr>disconnect_indication_sent := True\<rparr>),
          with_val (\<lambda>c. q931_ies_copy user_ies) (\<lambda>ies. switch
     [([N2_OVERLAP_SENDING],
         seq [q931_call_stop_timer T302, disconnect_with_tones Q931_TONE_HANGUP ies, q931_call_set_state N12_DISCONNECT_INDICATION]),
      ([N3_OUTGOING_CALL_PROCEEDING, N4_CALL_DELIVERED],
         seq [disconnect_with_tones Q931_TONE_HANGUP ies, q931_call_set_state N12_DISCONNECT_INDICATION]),
      ([N6_CALL_PRESENT],
         seq [q931_call_stop_timer T303,
              if_then_else broadcast_setup
                (seq [q931_channel_disconnect, q931_call_set_state N22_CALL_ABORT])
                (seq [disconnect_with_tones Q931_TONE_HANGUP ies, q931_call_set_state N12_DISCONNECT_INDICATION])]),
      ([N7_CALL_RECEIVED],
         seq [q931_call_stop_timer T301,
              if_then_else broadcast_setup
                (seq [q931_channel_release,
                      if_then_else (\<lambda>c. q931_call_timer_running c T312)
                        (seq [q931_call_set_state N22_CALL_ABORT, for_each_ces (q931_ces_release_request user_ies)])
                        (seq [for_each_ces (q931_ces_release_request user_ies),
                              q931_call_primitive Q931_CCB_RELEASE_INDICATION user_ies,
                              q931_call_set_state N0_NULL_STATE, q931_call_release_reference])])
                (seq [q931_call_send Q931_MT_DISCONNECT ies, q931_call_start_timer T305,
                      q931_call_set_state N12_DISCONNECT_INDICATION])]),
      ([N8_CONNECT_REQUEST],
         if_then_else broadcast_setup
           (disconnect_broadcast user_ies)
           (seq [q931_call_send Q931_MT_DISCONNECT ies, q931_call_start_timer T305,
                 q931_call_set_state N12_DISCONNECT_INDICATION])),
      ([N9_INCOMING_CALL_PROCEEDING],
         seq [q931_call_stop_timer T310,
              if_then_else broadcast_setup
                (disconnect_broadcast user_ies)
                (seq [q931_call_send Q931_MT_DISCONNECT ies, q931_channel_release, q931_call_start_timer T305,
                      q931_call_set_state N12_DISCONNECT_INDICATION])]),
      ([N10_ACTIVE],
         seq [disconnect_with_tones Q931_TONE_HANGUP ies, q931_call_set_state N12_DISCONNECT_INDICATION]),
      ([N15_SUSPEND_REQUEST],
         seq [disconnect_with_tones Q931_TONE_HANGUP ies, q931_call_set_state N12_DISCONNECT_INDICATION]),
      ([N25_OVERLAP_RECEIVING],
         seq [q931_call_stop_timer T304,
              if_then_else broadcast_setup
                (disconnect_broadcast user_ies)
                (seq [q931_call_send Q931_MT_DISCONNECT ies, q931_channel_disconnect, q931_call_start_timer T305,
                      q931_call_set_state N12_DISCONNECT_INDICATION])]),
      ([U1_CALL_INITIATED],
         seq [q931_call_stop_timer T303, q931_call_send Q931_MT_DISCONNECT ies, q931_call_start_timer T305,
              q931_call_set_state U11_DISCONNECT_REQUEST]),
      ([U2_OVERLAP_SENDING],
         seq [q931_call_stop_timer T304, q931_channel_disconnect, q931_call_send Q931_MT_DISCONNECT ies,
              q931_call_start_timer T305, q931_call_set_state U11_DISCONNECT_REQUEST]),
      ([U3_OUTGOING_CALL_PROCEEDING, U4_CALL_DELIVERED, U7_CALL_RECEIVED, U9_INCOMING_CALL_PROCEEDING, U10_ACTIVE],
         seq [q931_channel_disconnect, q931_call_send Q931_MT_DISCONNECT ies,
              q931_call_start_timer T305, q931_call_set_state U11_DISCONNECT_REQUEST]),
      ([U8_CONNECT_REQUEST],
         seq [q931_call_stop_timer T313, q931_channel_disconnect, q931_call_send Q931_MT_DISCONNECT ies,
              q931_call_start_timer T305, q931_call_set_state U11_DISCONNECT_REQUEST]),
      ([U25_OVERLAP_RECEIVING],
         seq [q931_call_stop_timer T302, q931_channel_disconnect, q931_call_send Q931_MT_DISCONNECT ies,
              q931_call_start_timer T305, q931_call_set_state U11_DISCONNECT_REQUEST])]
     q931_call_unexpected_primitive)]"

definition q931_info_request :: "q931_ie list \<Rightarrow> stmt" where
  "q931_info_request ies = switch
     [([N2_OVERLAP_SENDING, N3_OUTGOING_CALL_PROCEEDING, N4_CALL_DELIVERED, N10_ACTIVE, N11_DISCONNECT_REQUEST,
        N12_DISCONNECT_INDICATION], q931_call_send Q931_MT_INFORMATION ies),
      ([N6_CALL_PRESENT], nothing),
      ([N7_CALL_RECEIVED, N8_CONNECT_REQUEST, N9_INCOMING_CALL_PROCEEDING],
         if_then_else broadcast_setup (for_each_ces (q931_ces_info_request ies)) (q931_call_send Q931_MT_INFORMATION ies)),
      ([U1_CALL_INITIATED], nothing),
      ([U2_OVERLAP_SENDING],
         seq [q931_call_send Q931_MT_INFORMATION ies,
              if_then_else (\<lambda>c. q931_call_timer_running c T304) (q931_call_restart_timer T304) nothing]),
      ([U3_OUTGOING_CALL_PROCEEDING, U4_CALL_DELIVERED, U7_CALL_RECEIVED, U8_CONNECT_REQUEST, U9_INCOMING_CALL_PROCEEDING,
        U10_ACTIVE, U11_DISCONNECT_REQUEST, U12_DISCONNECT_INDICATION, U25_OVERLAP_RECEIVING],
         q931_call_send Q931_MT_INFORMATION ies)]
     q931_call_unexpected_primitive"

definition q931_more_info_request :: "q931_ie list \<Rightarrow> stmt" where
  "q931_more_info_request user_ies = switch
     [([N1_CALL_INITIATED],
         with_val (\<lambda>c. q931_ies_merge [] user_ies) (\<lambda>ies. seq [
           q931_call_start_timer T302,
           with_val (\<lambda>c. bind_res (call_channel_id Q931_IE_CI_PE_EXCLUSIVE c) (\<lambda>ci.
                         bind_res (q931_ies_add ies ci) (\<lambda>ies.
                         if tones_option c then q931_ies_add ies (in_band_progress c) else Inr ies)))
             (\<lambda>ies. seq [
               q931_call_send Q931_MT_SETUP_ACKNOWLEDGE ies,
               q931_channel_connect,
               if_then_else (\<lambda>c. \<not> digits_dialled c \<and> tones_option c) (q931_channel_start_tone Q931_TONE_DIAL) nothing,
               q931_call_set_state N2_OVERLAP_SENDING])])),
      ([N25_OVERLAP_RECEIVING],
         if_then_else broadcast_setup
           (for_each_ces (q931_ces_info_request user_ies))
           (seq [q931_call_send Q931_MT_INFORMATION user_ies, q931_call_start_timer T304])),
      ([U6_CALL_PRESENT],
         with_val (ies_with_channel Q931_IE_CI_PE_EXCLUSIVE user_ies) (\<lambda>ies.
           seq [q931_call_send Q931_MT_SETUP_ACKNOWLEDGE ies, q931_call_start_timer T302,
                q931_call_set_state U25_OVERLAP_RECEIVING]))]
     q931_call_unexpected_primitive"

definition q931_notify_request :: "q931_ie list \<Rightarrow> stmt" where
  "q931_notify_request user_ies = switch
     [([N0_NULL_STATE], nothing),
      ([N10_ACTIVE, N15_SUSPEND_REQUEST], q931_call_send Q931_MT_NOTIFY user_ies),
      ([U10_ACTIVE], q931_call_send Q931_MT_NOTIFY user_ies)]
     q931_call_unexpected_primitive"

definition q931_proceeding_request :: "q931_ie list \<Rightarrow> stmt" where
  "q931_proceeding_request user_ies = switch
     [([N1_CALL_INITIATED],
         with_val (ies_with_channel Q931_IE_CI_PE_EXCLUSIVE user_ies) (\<lambda>ies.
           seq [q931_call_send Q931_MT_CALL_PROCEEDING ies, q931_channel_connect,
                q931_call_set_state N3_OUTGOING_CALL_PROCEEDING])),
      ([N2_OVERLAP_SENDING],
         seq [q931_call_stop_timer T302, q931_call_send Q931_MT_CALL_PROCEEDING user_ies,
              q931_call_set_state N3_OUTGOING_CALL_PROCEEDING]),
      ([U6_CALL_PRESENT],
         with_val (ies_with_channel Q931_IE_CI_PE_EXCLUSIVE user_ies) (\<lambda>ies.
           seq [q931_call_send Q931_MT_CALL_PROCEEDING ies, q931_call_set_state U9_INCOMING_CALL_PROCEEDING])),
      ([U25_OVERLAP_RECEIVING],
         seq [q931_call_stop_timer T302, q931_call_send Q931_MT_CALL_PROCEEDING user_ies,
              q931_call_set_state U9_INCOMING_CALL_PROCEEDING])]
     q931_call_unexpected_primitive"

definition q931_progress_request :: "q931_ie list \<Rightarrow> stmt" where
  "q931_progress_request user_ies = switch
     [([N2_OVERLAP_SENDING, N3_OUTGOING_CALL_PROCEEDING, N4_CALL_DELIVERED, U7_CALL_RECEIVED, U8_CONNECT_REQUEST],
         q931_call_send Q931_MT_PROGRESS user_ies),
      ([U25_OVERLAP_RECEIVING], seq [q931_call_stop_timer T302, q931_call_send Q931_MT_PROGRESS user_ies])]
     q931_call_unexpected_primitive"

definition q931_reject_request :: "q931_ie list \<Rightarrow> stmt" where
  "q931_reject_request user_ies = switch
     [([N1_CALL_INITIATED],
         seq [q931_call_send Q931_MT_RELEASE_COMPLETE user_ies, q931_channel_release, q931_call_set_state N0_NULL_STATE,
              q931_call_release_reference]),
      ([U6_CALL_PRESENT],
         seq [q931_call_send Q931_MT_RELEASE_COMPLETE user_ies, q931_call_set_state U0_NULL_STATE,
              q931_call_release_reference])]
     q931_call_unexpected_primitive"

text \<open>
  The diagnostics of normal clearing: two octets, which a little-endian host lays out with the condition in front of the
  attribute number.
\<close>

definition q931_release_request :: "q931_ie list \<Rightarrow> stmt" where
  "q931_release_request user_ies = switch
     [([N11_DISCONNECT_REQUEST],
         with_val (\<lambda>c. bind_res (q931_ies_merge [] user_ies) (\<lambda>ies.
                       q931_ies_add ies (call_cause Q931_IE_C_CV_NORMAL_CALL_CLEARING [0x81, 0x00] c)))
           (\<lambda>ies. seq [q931_call_send Q931_MT_RELEASE ies, q931_call_start_timer T308,
                       q931_call_set_state N19_RELEASE_REQUEST])),
      ([U12_DISCONNECT_INDICATION],
         with_val (\<lambda>c. bind_res (q931_ies_merge [] (disconnect_cause c)) (\<lambda>ies. q931_ies_merge ies user_ies))
           (\<lambda>ies. seq [q931_channel_disconnect, q931_call_send Q931_MT_RELEASE ies, q931_call_start_timer T308,
                       q931_call_set_state U19_RELEASE_REQUEST]))]
     q931_call_unexpected_primitive"

definition q931_resume_request :: "q931_ie list \<Rightarrow> stmt" where
  "q931_resume_request user_ies =
     seq [if_then_else (\<lambda>c. intf_type c \<noteq> LAPD_INTF_TYPE_BRA) q931_call_unexpected_primitive nothing,
          switch
            [([U0_NULL_STATE],
                seq [q931_call_send Q931_MT_RESUME user_ies, q931_call_start_timer T318, q931_call_set_state U17_RESUME_REQUEST])]
            q931_call_unexpected_primitive]"

definition q931_resume_reject_request :: "q931_ie list \<Rightarrow> stmt" where
  "q931_resume_reject_request user_ies = switch
     [([N17_RESUME_REQUEST],
         seq [q931_call_send Q931_MT_RESUME_REJECT user_ies, q931_call_release_reference, q931_call_set_state N0_NULL_STATE])]
     q931_call_unexpected_primitive"

definition q931_resume_response :: "q931_ie list \<Rightarrow> stmt" where
  "q931_resume_response user_ies = switch
     [([N17_RESUME_REQUEST],
         seq [q931_call_send Q931_MT_RESUME_ACKNOWLEDGE user_ies, q931_call_set_state N10_ACTIVE])]
     q931_call_unexpected_primitive"

text \<open>The first endpoint that connected gets the call, the others are released.\<close>

definition q931_setup_complete_request :: "q931_ie list \<Rightarrow> stmt" where
  "q931_setup_complete_request user_ies = switch
     [([N8_CONNECT_REQUEST],
         seq [q931_channel_connect,
              if_then_else broadcast_setup
                (with_val (\<lambda>c. case preselected_ces c of None \<Rightarrow> Inl NullDereference | Some i \<Rightarrow> Inr i) (\<lambda>i. seq [
                   upd (\<lambda>c. c\<lparr>selected_ces := Some i\<rparr>),
                   with_val (\<lambda>c. find_ces c i) (\<lambda>s. seq [
                     assert_that (\<lambda>c. ces_dlc s \<noteq> Bc_dlc),
                     upd (\<lambda>c. c\<lparr>call_dlc := Some (ces_dlc s)\<rparr>)]),
                   q931_call_send Q931_MT_CONNECT_ACKNOWLEDGE user_ies,
                   q931_ces_free i,
                   with_cur (\<lambda>c. [call_cause Q931_IE_C_CV_NON_SELECTED_USER_CLEARING [] c]) (\<lambda>ies. for_each_ces (q931_ces_release_request ies))]))
                (q931_call_send Q931_MT_CONNECT_ACKNOWLEDGE user_ies),
              q931_call_set_state N10_ACTIVE])]
     q931_call_unexpected_primitive"

text \<open>The SETUP with an indication of the channel, or of none when another call has to make room, and of the time.\<close>

definition setup_elements :: "q931_ie list \<Rightarrow> q931_call \<Rightarrow> q931_ie list res" where
  "setup_elements user_ies c =
     bind_res (q931_ies_copy user_ies) (\<lambda>ies.
     bind_res (case call_channel c of None \<Rightarrow> Inr [] | Some i \<Rightarrow> q931_chanset_add [] i) (\<lambda>cs.
     bind_res (q931_ies_add ies
                 (channel_id (if intf_mode c = LAPD_INTF_MODE_MULTIPOINT then Q931_IE_CI_PE_EXCLUSIVE else Q931_IE_CI_PE_PREFERRED) cs c))
       (\<lambda>ies. q931_ies_add ies (IE_datetime (call_clock c)))))"

definition q931_setup_request :: "q931_ie list \<Rightarrow> stmt" where
  "q931_setup_request user_ies = switch
     [([N0_NULL_STATE],
         seq [q931_channel_acquire,
              if_then_else (\<lambda>c. call_channel c \<noteq> None \<or> intf_enable_bumping c)
                (seq [q931_call_start_timer T303,
                      with_val (setup_elements user_ies) (\<lambda>ies. upd (\<lambda>c. c\<lparr>setup_ies := ies\<rparr>)),
                      if_then_else (\<lambda>c. intf_mode c = LAPD_INTF_MODE_MULTIPOINT)
                        (seq [upd (\<lambda>c. c\<lparr>broadcast_setup := True\<rparr>), q931_call_start_timer T312,
                              with_cur setup_ies q931_call_send_setup_bc])
                        (with_cur setup_ies (q931_call_send Q931_MT_SETUP)),
                      q931_call_set_state N6_CALL_PRESENT])
                (with_cur (\<lambda>c. [call_cause Q931_IE_C_CV_NO_CIRCUIT_CHANNEL_AVAILABLE [] c])
                   (q931_call_primitive Q931_CCB_RELEASE_INDICATION))]),
      ([U0_NULL_STATE],
         seq [with_val (\<lambda>c. q931_ies_copy user_ies) (\<lambda>ies. upd (\<lambda>c. c\<lparr>setup_ies := ies\<rparr>)),
              with_cur setup_ies (q931_call_send Q931_MT_SETUP),
              q931_call_start_timer T303, q931_call_set_state U1_CALL_INITIATED])]
     q931_call_unexpected_primitive"

definition q931_setup_response :: "q931_ie list \<Rightarrow> stmt" where
  "q931_setup_response user_ies =
     with_val (\<lambda>c. q931_ies_merge [] user_ies) (\<lambda>ies. switch
     [([N2_OVERLAP_SENDING],
         with_val (\<lambda>c. q931_ies_add ies (IE_datetime (call_clock c))) (\<lambda>ies.
           seq [q931_call_stop_timer T302, q931_call_send Q931_MT_CONNECT ies, q931_call_set_state N10_ACTIVE])),
      ([N3_OUTGOING_CALL_PROCEEDING, N4_CALL_DELIVERED],
         with_val (\<lambda>c. q931_ies_add ies (IE_datetime (call_clock c))) (\<lambda>ies.
           seq [q931_call_send Q931_MT_CONNECT ies, q931_call_set_state N10_ACTIVE])),
      ([U6_CALL_PRESENT],
         with_val (\<lambda>c. bind_res (call_channel_id Q931_IE_CI_PE_EXCLUSIVE c) (q931_ies_add ies)) (\<lambda>ies.
           seq [q931_call_send Q931_MT_CONNECT ies, q931_call_start_timer T313, q931_call_set_state U8_CONNECT_REQUEST])),
      ([U7_CALL_RECEIVED, U9_INCOMING_CALL_PROCEEDING],
         seq [q931_call_send Q931_MT_CONNECT user_ies, q931_call_start_timer T313, q931_call_set_state U8_CONNECT_REQUEST]),
      ([U25_OVERLAP_RECEIVING],
         seq [q931_call_stop_timer T302, q931_call_send Q931_MT_CONNECT user_ies, q931_call_start_timer T313,
              q931_call_set_state U8_CONNECT_REQUEST])]
     q931_call_unexpected_primitive)"

definition call_status_enquiry :: "q931_ie list \<Rightarrow> stmt" where
  "call_status_enquiry user_ies =
     if_then_else (\<lambda>c. q931_call_timer_running c T322) nothing
       (seq [q931_call_send Q931_MT_STATUS_ENQUIRY user_ies,
             upd (\<lambda>c. c\<lparr>senq_status_97_98_received := False, senq_cnt := 0\<rparr>), q931_call_start_timer T322])"

definition q931_status_enquiry_request :: "nat option \<Rightarrow> q931_ie list \<Rightarrow> stmt" where
  "q931_status_enquiry_request ces user_ies = switch
     [([N0_NULL_STATE, N6_CALL_PRESENT, N7_CALL_RECEIVED, N8_CONNECT_REQUEST, N9_INCOMING_CALL_PROCEEDING,
        N19_RELEASE_REQUEST, N25_OVERLAP_RECEIVING],
         if_then_else broadcast_setup
           (if_then_else (\<lambda>c. call_state c \<noteq> N6_CALL_PRESENT)
              (case ces of
                 Some i \<Rightarrow> q931_ces_status_enquiry_request user_ies i
               | None \<Rightarrow> for_each_ces (q931_ces_status_enquiry_request user_ies))
              nothing)
           (call_status_enquiry user_ies))]
     (call_status_enquiry user_ies)"

definition q931_suspend_reject_request :: "q931_ie list \<Rightarrow> stmt" where
  "q931_suspend_reject_request user_ies = switch
     [([N15_SUSPEND_REQUEST], seq [q931_call_send Q931_MT_SUSPEND_REJECT user_ies, q931_call_set_state N10_ACTIVE])]
     q931_call_unexpected_primitive"

definition q931_suspend_response :: "q931_ie list \<Rightarrow> stmt" where
  "q931_suspend_response user_ies = switch
     [([N15_SUSPEND_REQUEST],
         seq [q931_call_send Q931_MT_SUSPEND_ACKNOWLEDGE user_ies, q931_call_release_reference, q931_call_set_state N0_NULL_STATE])]
     q931_call_unexpected_primitive"

definition q931_suspend_request :: "q931_ie list \<Rightarrow> stmt" where
  "q931_suspend_request user_ies = switch
     [([U10_ACTIVE],
         seq [q931_call_send Q931_MT_SUSPEND user_ies, q931_call_start_timer T319, q931_call_set_state U15_SUSPEND_REQUEST])]
     q931_call_unexpected_primitive"

definition user_states :: "q931_call_state list" where
  "user_states =
     [U0_NULL_STATE, U1_CALL_INITIATED, U2_OVERLAP_SENDING, U3_OUTGOING_CALL_PROCEEDING, U4_CALL_DELIVERED,
      U6_CALL_PRESENT, U7_CALL_RECEIVED, U8_CONNECT_REQUEST, U9_INCOMING_CALL_PROCEEDING, U10_ACTIVE,
      U11_DISCONNECT_REQUEST, U12_DISCONNECT_INDICATION, U15_SUSPEND_REQUEST, U17_RESUME_REQUEST, U19_RELEASE_REQUEST,
      U25_OVERLAP_RECEIVING]"

definition restart_to :: "q931_call_state \<Rightarrow> q931_ie list \<Rightarrow> stmt" where
  "restart_to s user_ies =
     with_val (\<lambda>c. Inr (call_channel c)) (\<lambda>callchannel. seq [
       q931_call_stop_any_timer, q931_channel_release, q931_call_set_state s, q931_call_release_reference,
       q931_call_primitive Q931_CCB_RELEASE_INDICATION user_ies,
       out (Global_restart_confirm callchannel)])"

definition q931_restart_request :: "q931_ie list \<Rightarrow> stmt" where
  "q931_restart_request user_ies =
     switch [(user_states, restart_to U0_NULL_STATE user_ies)] (restart_to N0_NULL_STATE user_ies)"

section \<open>Indications of the connection endpoints\<close>

definition q931_int_alerting_indication :: "q931_ie list \<Rightarrow> stmt" where
  "q931_int_alerting_indication ies = switch
     [([N7_CALL_RECEIVED, N8_CONNECT_REQUEST], nothing),
      ([N9_INCOMING_CALL_PROCEEDING],
         seq [q931_call_stop_timer T310, q931_call_start_timer T301, q931_call_set_state N7_CALL_RECEIVED,
              q931_call_primitive Q931_CCB_ALERTING_INDICATION ies]),
      ([N25_OVERLAP_RECEIVING],
         seq [q931_call_stop_timer T304, q931_call_start_timer T301, q931_call_set_state N7_CALL_RECEIVED,
              q931_call_primitive Q931_CCB_ALERTING_INDICATION ies])]
     q931_call_unexpected_primitive"

definition q931_int_connect_indication :: "nat \<Rightarrow> q931_ie list \<Rightarrow> stmt" where
  "q931_int_connect_indication ces ies = switch
     [([N7_CALL_RECEIVED],
         q931_channel_select_response ies
           (seq [upd (\<lambda>c. c\<lparr>preselected_ces := Some ces\<rparr>), q931_call_stop_timer T301,
                 q931_call_set_state N8_CONNECT_REQUEST, q931_call_primitive Q931_CCB_CONNECT_INDICATION ies])
           (\<lambda>causes. q931_ces_release_request causes ces)),
      ([N8_CONNECT_REQUEST], nothing),
      ([N9_INCOMING_CALL_PROCEEDING],
         seq [q931_call_stop_timer T310, upd (\<lambda>c. c\<lparr>preselected_ces := Some ces\<rparr>),
              q931_call_set_state N8_CONNECT_REQUEST, q931_call_primitive Q931_CCB_CONNECT_INDICATION ies]),
      ([N25_OVERLAP_RECEIVING],
         seq [q931_call_stop_timer T304, upd (\<lambda>c. c\<lparr>preselected_ces := Some ces\<rparr>),
              q931_call_set_state N8_CONNECT_REQUEST, q931_call_primitive Q931_CCB_CONNECT_INDICATION ies])]
     q931_call_unexpected_primitive"

definition q931_int_call_proceeding_indication :: "q931_ie list \<Rightarrow> stmt" where
  "q931_int_call_proceeding_indication ies = switch
     [([N7_CALL_RECEIVED, N8_CONNECT_REQUEST], nothing),
      ([N25_OVERLAP_RECEIVING],
         seq [q931_call_stop_timer T304, q931_call_start_timer T310, q931_call_set_state N9_INCOMING_CALL_PROCEEDING,
              q931_call_primitive Q931_CCB_PROCEEDING_INDICATION ies])]
     q931_call_unexpected_primitive"

definition q931_int_release_complete_indication :: "nat \<Rightarrow> q931_ie list \<Rightarrow> stmt" where
  "q931_int_release_complete_indication ces ies = switch
     [([N0_NULL_STATE, N6_CALL_PRESENT, N7_CALL_RECEIVED, N8_CONNECT_REQUEST, N9_INCOMING_CALL_PROCEEDING, N10_ACTIVE,
        N19_RELEASE_REQUEST, N25_OVERLAP_RECEIVING], q931_ces_free ces),
      ([N22_CALL_ABORT],
         seq [q931_ces_free ces,
              if_then_else (\<lambda>c. call_ces c = [])
                (seq [if_then_else disconnect_indication_sent (q931_call_primitive Q931_CCB_RELEASE_INDICATION ies) nothing,
                      q931_channel_release, q931_call_set_state N0_NULL_STATE, q931_call_release_reference])
                nothing])]
     q931_call_unexpected_primitive"

definition q931_int_info_indication :: "q931_ie list \<Rightarrow> stmt" where
  "q931_int_info_indication ies = switch
     [([N7_CALL_RECEIVED, N8_CONNECT_REQUEST, N9_INCOMING_CALL_PROCEEDING, N19_RELEASE_REQUEST, N25_OVERLAP_RECEIVING],
         q931_call_primitive Q931_CCB_INFO_INDICATION ies)]
     q931_call_unexpected_primitive"

definition q931_int_progress_indication :: "q931_ie list \<Rightarrow> stmt" where
  "q931_int_progress_indication ies = switch
     [([N7_CALL_RECEIVED, N8_CONNECT_REQUEST], q931_call_primitive Q931_CCB_PROGRESS_INDICATION ies),
      ([N9_INCOMING_CALL_PROCEEDING], seq [q931_call_stop_timer T310, q931_call_primitive Q931_CCB_PROGRESS_INDICATION ies]),
      ([N25_OVERLAP_RECEIVING], q931_call_primitive Q931_CCB_PROGRESS_INDICATION ies)]
     q931_call_unexpected_primitive"

text \<open>
  Whether another endpoint can still get the call. The states of the endpoints are compared with the states of a call:
  the numbers of the null state and of the release request of the network side (16 and 30) are none of the numbers of an
  endpoint's states (0 to 5), so every other endpoint counts.
\<close>

definition ces_state_number :: "q931_ces_state \<Rightarrow> nat" where
  "ces_state_number s =
     (case s of I0_NULL_STATE \<Rightarrow> 0 | I7_CALL_RECEIVED \<Rightarrow> 1 | I8_CONNECT_REQUEST \<Rightarrow> 2 | I9_INCOMING_CALL_PROCEEDING \<Rightarrow> 3
      | I19_RELEASE_REQUEST \<Rightarrow> 4 | I25_OVERLAP_RECEIVING \<Rightarrow> 5)"

definition N0_NULL_STATE_number :: nat where "N0_NULL_STATE_number = 16"
definition N19_RELEASE_REQUEST_number :: nat where "N19_RELEASE_REQUEST_number = 30"

definition able_to_proceed :: "nat option \<Rightarrow> q931_call \<Rightarrow> bool" where
  "able_to_proceed ces c =
     list_ex (\<lambda>s. ces \<noteq> Some (ces_id s) \<and> ces_state_number (ces_state s) \<noteq> N0_NULL_STATE_number \<and>
                  ces_state_number (ces_state s) \<noteq> N19_RELEASE_REQUEST_number) (call_ces c)"

definition save_cause :: "q931_ie list \<Rightarrow> stmt" where
  "save_cause ies = with_val (\<lambda>c. q931_ies_merge (saved_cause c) ies) (\<lambda>merged. upd (\<lambda>c. c\<lparr>saved_cause := merged\<rparr>))"

definition q931_int_release_indication :: "nat \<Rightarrow> q931_ie list \<Rightarrow> stmt" where
  "q931_int_release_indication ces ies = switch
     [([N7_CALL_RECEIVED],
         if_then_else (able_to_proceed (Some ces)) (save_cause ies)
           (if_then_else (\<lambda>c. q931_call_timer_running c T312) (save_cause ies)
              (seq [q931_call_stop_timer T301, q931_channel_release, q931_call_set_state N0_NULL_STATE,
                    q931_call_release_reference, q931_call_primitive Q931_CCB_RELEASE_INDICATION ies]))),
      ([N8_CONNECT_REQUEST],
         if_then_else (\<lambda>c. preselected_ces c \<noteq> None)
           (with_cur (\<lambda>c. [call_cause Q931_IE_C_CV_NON_SELECTED_USER_CLEARING [] c]) (\<lambda>ies.
                seq [for_each_ces (q931_ces_release_request ies), q931_channel_release,
                     if_then_else (\<lambda>c. q931_call_timer_running c T312)
                       (q931_call_set_state N22_CALL_ABORT)
                       (seq [q931_call_set_state N0_NULL_STATE, q931_call_release_reference]),
                     q931_call_primitive Q931_CCB_RELEASE_INDICATION ies]))
           nothing),
      ([N9_INCOMING_CALL_PROCEEDING],
         if_then_else (able_to_proceed (Some ces)) (save_cause ies)
           (if_then_else (\<lambda>c. q931_call_timer_running c T312) (save_cause ies)
              (seq [q931_call_stop_timer T310, q931_channel_release, q931_call_release_reference,
                    q931_call_set_state N0_NULL_STATE, q931_call_primitive Q931_CCB_RELEASE_INDICATION ies]))),
      ([N25_OVERLAP_RECEIVING],
         if_then_else (able_to_proceed (Some ces)) (save_cause ies)
           (if_then_else (\<lambda>c. q931_call_timer_running c T312) (save_cause ies)
              (seq [q931_channel_release, q931_call_set_state N0_NULL_STATE, q931_call_release_reference,
                    q931_call_primitive Q931_CCB_RELEASE_INDICATION ies])))]
     q931_call_unexpected_primitive"

section \<open>Timers\<close>

text \<open>
  \<open>q931_run_timers\<close> takes the timer out of its list before it calls its function, which puts the reference of the timer
  at its end.
\<close>

definition abort_or_release :: stmt where
  "abort_or_release =
     if_then_else (\<lambda>c. q931_call_timer_running c T312)
       (q931_call_set_state N22_CALL_ABORT)
       (seq [q931_call_set_state N0_NULL_STATE, q931_call_release_reference])"

definition q931_timer_T301 :: stmt where
  "q931_timer_T301 = seq [switch
     [([N7_CALL_RECEIVED],
         with_cur (\<lambda>c. [expiry_cause T301 c]) (\<lambda>ies.
              seq [if_then_else broadcast_setup
                     (seq [for_each_ces (q931_ces_release_request ies), q931_channel_release, abort_or_release])
                     (seq [q931_call_send Q931_MT_DISCONNECT ies, q931_call_start_timer T305,
                           q931_call_set_state N12_DISCONNECT_INDICATION]),
                   q931_call_primitive Q931_CCB_RELEASE_INDICATION []]))]
     q931_call_unexpected_primitive,
     q931_call_put]"

definition q931_timer_T302 :: stmt where
  "q931_timer_T302 = seq [switch
     [([N2_OVERLAP_SENDING], q931_call_primitive Q931_CCB_INFO_INDICATION [IE_sending_complete]),
      ([U25_OVERLAP_RECEIVING], q931_call_primitive Q931_CCB_INFO_INDICATION [IE_sending_complete])]
     q931_call_unexpected_timer,
     q931_call_put]"

definition q931_timer_T303 :: stmt where
  "q931_timer_T303 = seq [switch
     [([N6_CALL_PRESENT],
         if_then_else (\<lambda>c. \<not> T303_fired c)
           (if_then_else broadcast_setup
              (if_then_else release_complete_received
                 (seq [q931_channel_release, q931_call_set_state N22_CALL_ABORT,
                       q931_call_primitive Q931_CCB_RELEASE_INDICATION []])
                 (seq [with_cur setup_ies q931_call_send_setup_bc, q931_call_start_timer T303, q931_call_restart_timer T312]))
              (seq [with_cur setup_ies (q931_call_send Q931_MT_SETUP), q931_call_start_timer T303]))
           (if_then_else broadcast_setup
              (seq [q931_channel_release, q931_call_set_state N22_CALL_ABORT,
                    q931_call_primitive Q931_CCB_RELEASE_INDICATION []])
              (seq [q931_call_start_timer T305, with_cur (\<lambda>c. [expiry_cause T303 c]) (q931_call_send Q931_MT_DISCONNECT),
                    q931_call_set_state N12_DISCONNECT_INDICATION, q931_call_primitive Q931_CCB_DISCONNECT_INDICATION []]))),
      ([U1_CALL_INITIATED],
         if_then_else (\<lambda>c. \<not> T303_fired c)
           (seq [with_cur setup_ies (q931_call_send Q931_MT_SETUP), q931_call_start_timer T303])
           (seq [q931_call_primitive Q931_CCB_RELEASE_INDICATION [],
                 with_cur (\<lambda>c. [expiry_cause T303 c]) (q931_call_send Q931_MT_RELEASE_COMPLETE),
                 q931_call_set_state U0_NULL_STATE, q931_call_release_reference]))]
     q931_call_unexpected_timer,
     upd (\<lambda>c. c\<lparr>T303_fired := True\<rparr>),
     q931_call_put]"

definition q931_timer_T304 :: stmt where
  "q931_timer_T304 = seq [switch
     [([N25_OVERLAP_RECEIVING],
         seq [if_then_else broadcast_setup
                (seq [q931_channel_release, abort_or_release,
                      with_cur (\<lambda>c. [expiry_cause T304 c]) (\<lambda>ies. for_each_ces (q931_ces_release_request ies))])
                (seq [with_cur (\<lambda>c. [expiry_cause T304 c]) (q931_call_send Q931_MT_DISCONNECT), q931_channel_disconnect,
                      q931_call_start_timer T305, q931_call_set_state N12_DISCONNECT_INDICATION]),
              q931_call_primitive Q931_CCB_RELEASE_INDICATION []]),
      ([U2_OVERLAP_SENDING],
         seq [q931_channel_disconnect, with_cur (\<lambda>c. [expiry_cause T304 c]) (q931_call_send Q931_MT_DISCONNECT),
              q931_call_start_timer T305, q931_call_set_state U11_DISCONNECT_REQUEST,
              q931_call_primitive1 Q931_CCB_SETUP_CONFIRM [] Par_error])]
     q931_call_unexpected_timer,
     q931_call_put]"

definition q931_timer_T305 :: stmt where
  "q931_timer_T305 = seq [switch
     [([N12_DISCONNECT_INDICATION],
         seq [with_cur disconnect_cause (q931_call_send Q931_MT_RELEASE), q931_call_start_timer T308,
              q931_call_set_state N19_RELEASE_REQUEST]),
      ([U11_DISCONNECT_REQUEST],
         seq [with_cur disconnect_cause (q931_call_send Q931_MT_RELEASE), q931_call_start_timer T308,
              q931_call_set_state U19_RELEASE_REQUEST])]
     q931_call_unexpected_timer,
     q931_call_put]"

definition q931_timer_T306 :: stmt where
  "q931_timer_T306 = seq [switch
     [([N12_DISCONNECT_INDICATION],
         seq [q931_channel_stop_tone, with_cur disconnect_cause (q931_call_send Q931_MT_RELEASE),
              q931_call_start_timer T308, q931_call_set_state N19_RELEASE_REQUEST])]
     q931_call_unexpected_timer,
     q931_call_put]"

definition q931_timer_T308 :: stmt where
  "q931_timer_T308 = seq [switch
     [([N19_RELEASE_REQUEST],
         if_then_else T308_fired
           (with_val (\<lambda>c. q931_ies_merge [expiry_cause T308 c] (release_cause c)) (\<lambda>ies.
              seq [q931_call_send Q931_MT_RELEASE ies, q931_call_start_timer T308]))
           (seq [if_then_else (\<lambda>c. call_channel c \<noteq> None)
                   (if_then_else (\<lambda>c. intf_mode c = LAPD_INTF_MODE_MULTIPOINT)
                      q931_channel_release
                      (on_channel (\<lambda>i. q931_channel_set_state i Q931_CHANSTATE_MAINTAINANCE)))
                   nothing,
                 q931_call_set_state N0_NULL_STATE, q931_call_release_reference,
                 q931_call_primitive1 Q931_CCB_RELEASE_CONFIRM [] Par_ok])),
      ([U19_RELEASE_REQUEST],
         if_then_else (\<lambda>c. \<not> T308_fired c)
           (seq [q931_call_send Q931_MT_RELEASE [], q931_call_start_timer T308])
           (seq [if_then_else (\<lambda>c. intf_mode c \<noteq> LAPD_INTF_MODE_MULTIPOINT \<and> call_channel c \<noteq> None)
                   (on_channel (\<lambda>i. q931_channel_set_state i Q931_CHANSTATE_MAINTAINANCE))
                   nothing,
                 q931_channel_release, q931_call_set_state U0_NULL_STATE, q931_call_release_reference,
                 q931_call_primitive1 Q931_CCB_RELEASE_CONFIRM [] Par_error]))]
     q931_call_unexpected_timer,
     upd (\<lambda>c. c\<lparr>T308_fired := True\<rparr>),
     q931_call_put]"

definition q931_timer_T309 :: stmt where
  "q931_timer_T309 = seq [switch
     [([N10_ACTIVE],
         seq [q931_channel_release, q931_call_set_state N0_NULL_STATE, q931_call_release_reference,
              q931_call_primitive Q931_CCB_RELEASE_INDICATION []]),
      ([U10_ACTIVE],
         seq [q931_channel_release, q931_call_set_state U0_NULL_STATE, q931_call_release_reference,
              q931_call_primitive Q931_CCB_RELEASE_INDICATION []])]
     q931_call_unexpected_timer,
     q931_call_put]"

definition q931_timer_T310 :: stmt where
  "q931_timer_T310 = seq [switch
     [([N9_INCOMING_CALL_PROCEEDING],
         seq [if_then_else broadcast_setup
                (seq [q931_channel_release, abort_or_release,
                      with_val (\<lambda>c. q931_ies_merge [expiry_cause T310 c] (release_cause c)) (\<lambda>ies.
                        for_each_ces (q931_ces_release_request ies))])
                (seq [with_cur (\<lambda>c. [expiry_cause T310 c]) (q931_call_send Q931_MT_DISCONNECT), q931_channel_release,
                      q931_call_start_timer T305, q931_call_set_state N12_DISCONNECT_INDICATION]),
              q931_call_primitive Q931_CCB_RELEASE_INDICATION []])]
     q931_call_unexpected_timer,
     q931_call_put]"

definition q931_timer_T312 :: stmt where
  "q931_timer_T312 = seq [switch
     [([N7_CALL_RECEIVED],
         if_then_else (able_to_proceed None) nothing
           (seq [q931_call_stop_timer T301, q931_channel_release, q931_call_set_state N0_NULL_STATE,
                 q931_call_release_reference, q931_call_primitive Q931_CCB_RELEASE_INDICATION []])),
      ([N9_INCOMING_CALL_PROCEEDING],
         if_then_else (able_to_proceed None) nothing
           (seq [q931_call_stop_timer T310, q931_channel_release, q931_call_set_state N0_NULL_STATE,
                 q931_call_release_reference, q931_call_primitive Q931_CCB_RELEASE_INDICATION []])),
      ([N22_CALL_ABORT],
         if_then_else (\<lambda>c. call_ces c = [])
           (seq [if_then_else disconnect_indication_sent (q931_call_primitive Q931_CCB_RELEASE_INDICATION []) nothing,
                 q931_channel_release, q931_call_set_state N0_NULL_STATE, q931_call_release_reference])
           nothing),
      ([N25_OVERLAP_RECEIVING],
         if_then_else (able_to_proceed None) nothing
           (seq [q931_channel_release, q931_call_set_state N0_NULL_STATE,
                 q931_call_release_reference, q931_call_primitive Q931_CCB_RELEASE_INDICATION []]))]
     nothing,
     q931_call_put]"

definition q931_timer_T313 :: stmt where
  "q931_timer_T313 = seq [switch
     [([U8_CONNECT_REQUEST],
         seq [q931_channel_disconnect, with_cur (\<lambda>c. [expiry_cause T313 c]) (q931_call_send Q931_MT_DISCONNECT),
              q931_call_start_timer T305, q931_call_set_state U11_DISCONNECT_REQUEST,
              q931_call_primitive1 Q931_CCB_SETUP_COMPLETE_INDICATION [] Par_error])]
     q931_call_unexpected_timer,
     q931_call_put]"

text \<open>The timers T314, T316, T320 and T321, which are never started.\<close>

definition q931_timer_unused :: stmt where
  "q931_timer_unused = seq [q931_call_unexpected_timer, q931_call_put]"

definition q931_timer_T318 :: stmt where
  "q931_timer_T318 = seq [switch
     [([U17_RESUME_REQUEST],
         seq [with_cur (\<lambda>c. [expiry_cause T318 c]) (q931_call_send Q931_MT_RELEASE), q931_call_start_timer T308,
              q931_call_set_state U19_RELEASE_REQUEST, q931_call_primitive1 Q931_CCB_RESUME_CONFIRM [] Par_timeout])]
     q931_call_unexpected_timer,
     q931_call_put]"

definition q931_timer_T319 :: stmt where
  "q931_timer_T319 = seq [switch
     [([N15_SUSPEND_REQUEST],
         seq [q931_call_primitive1 Q931_CCB_SUSPEND_CONFIRM [] Par_timeout, q931_call_set_state U10_ACTIVE])]
     q931_call_unexpected_timer,
     q931_call_put]"

definition q931_timer_T322 :: stmt where
  "q931_timer_T322 = seq [switch
     [([N0_NULL_STATE, U0_NULL_STATE], q931_call_unexpected_timer)]
     (if_then_else senq_status_97_98_received nothing
        (if_then_else (\<lambda>c. 3 < senq_cnt c)
           (with_cur (\<lambda>c. [call_cause Q931_IE_C_CV_TEMPORARY_FAILURE [] c]) (\<lambda>ies.
                seq [q931_call_send Q931_MT_RELEASE ies, q931_call_start_timer T308, q931_call_set_state N19_RELEASE_REQUEST,
                     q931_call_primitive Q931_CCB_RELEASE_INDICATION ies]))
           (seq [q931_call_send Q931_MT_STATUS_ENQUIRY [], q931_call_start_timer T322,
                 upd (\<lambda>c. c\<lparr>senq_cnt := senq_cnt c + 1\<rparr>)]))),
     q931_call_put]"

definition q931_call_timer_func :: "q931_call_timer \<Rightarrow> stmt" where
  "q931_call_timer_func t =
     (case t of
        T301 \<Rightarrow> q931_timer_T301 | T302 \<Rightarrow> q931_timer_T302 | T303 \<Rightarrow> q931_timer_T303 | T304 \<Rightarrow> q931_timer_T304
      | T305 \<Rightarrow> q931_timer_T305 | T306 \<Rightarrow> q931_timer_T306 | T308 \<Rightarrow> q931_timer_T308 | T309 \<Rightarrow> q931_timer_T309
      | T310 \<Rightarrow> q931_timer_T310 | T312 \<Rightarrow> q931_timer_T312 | T313 \<Rightarrow> q931_timer_T313 | T318 \<Rightarrow> q931_timer_T318
      | T319 \<Rightarrow> q931_timer_T319 | T322 \<Rightarrow> q931_timer_T322 | _ \<Rightarrow> q931_timer_unused)"

text \<open>The timer expires: what \<open>q931_run_timers\<close> does with a pending timer whose time has come.\<close>

definition q931_run_timer :: "q931_call_timer \<Rightarrow> stmt" where
  "q931_run_timer t =
     if_then_else (\<lambda>c. t \<in> timers c) (seq [upd (\<lambda>c. c\<lparr>timers := timers c - {t}\<rparr>), q931_call_timer_func t]) nothing"

end
