(* ===== verification/Q931_Call_Input.thy ===== *)
theory Q931_Call_Input
  imports Q931_Call
begin

text \<open>
  The call state machine of \<^verbatim>\<open>src/libq931/call.c\<close> from without: the messages received, the events of the data link, the
  machines of the connection endpoints (\<^verbatim>\<open>ces.c\<close>), and the way of a message from \<open>q931_receive\<close> to the call it is for.
\<close>

section \<open>Decoding\<close>

text \<open>
  \<open>q931_call_decode_ies\<close> for a call: the answers to wrong elements are sent on the data link of the call, and the
  handler goes on with the elements unless the message was refused.
\<close>

definition call_msg_env :: "q931_call \<Rightarrow> q931_env" where
  "call_msg_env c = (call_env c)\<lparr>env_intf_type := intf_type c, env_n_channels := intf_n_channels c\<rparr>"

definition decoded :: "q931_message \<Rightarrow> (q931_ie list \<Rightarrow> stmt) \<Rightarrow> stmt" where
  "decoded msg k =
     with_val (\<lambda>c. q931_call_decode_ies (call_msg_env c) (intf_role c) (intf_network_role c) (call_direction c) msg)
       (\<lambda>(ies, sent, go). seq [seq (map (\<lambda>(mt, ies). q931_call_send mt ies) sent), if go then k ies else nothing])"

definition not_compatible :: "q931_message \<Rightarrow> stmt" where
  "not_compatible msg = q931_call_message_not_compatible_with_state None (msg_message_type msg)"

definition not_compatible_n6 :: "q931_message \<Rightarrow> stmt" where
  "not_compatible_n6 msg = q931_call_message_not_compatible_with_state (Some N6_CALL_PRESENT) (msg_message_type msg)"

section \<open>Establishment\<close>

text \<open>An endpoint that answers a call which is another's, or which is being given up, is released.\<close>

definition release_new_ces :: "q931_dlc_ref \<Rightarrow> (q931_call \<Rightarrow> q931_ie) \<Rightarrow> stmt" where
  "release_new_ces dlc cause = q931_ces_alloc dlc (\<lambda>ces. with_cur (\<lambda>c. [cause c]) (\<lambda>ies. q931_ces_release_request ies ces))"

definition non_selected :: "q931_call \<Rightarrow> q931_ie" where
  "non_selected = call_cause Q931_IE_C_CV_NON_SELECTED_USER_CLEARING []"

text \<open>A first answer of a terminal to a broadcast SETUP.\<close>

definition new_ces :: "q931_dlc_ref \<Rightarrow> q931_ie list \<Rightarrow> (nat \<Rightarrow> stmt) \<Rightarrow> stmt" where
  "new_ces dlc ies yes =
     q931_ces_alloc dlc (\<lambda>ces. q931_channel_select_response ies (yes ces) (\<lambda>causes. q931_ces_release_request causes ces))"

definition refuse_channel :: "q931_call_state \<Rightarrow> q931_ie list \<Rightarrow> stmt" where
  "refuse_channel s causes =
     seq [q931_call_send Q931_MT_RELEASE causes, q931_call_start_timer T308, q931_call_set_state s,
          q931_call_primitive Q931_CCB_RELEASE_INDICATION causes]"

text \<open>On the user side the state is not set.\<close>

definition refuse_channel_u1 :: "q931_ie list \<Rightarrow> stmt" where
  "refuse_channel_u1 causes =
     seq [q931_call_send Q931_MT_RELEASE causes, q931_call_start_timer T308,
          q931_call_primitive Q931_CCB_RELEASE_INDICATION causes]"

definition q931_handle_alerting :: "q931_dlc_ref \<Rightarrow> q931_message \<Rightarrow> stmt" where
  "q931_handle_alerting dlc msg = switch
     [([N6_CALL_PRESENT], decoded msg (\<lambda>ies.
         if_then_else broadcast_setup
           (new_ces dlc ies (\<lambda>ces. seq [
              q931_call_stop_timer T303, q931_call_start_timer T301, q931_call_set_state N7_CALL_RECEIVED,
              q931_call_primitive Q931_CCB_ALERTING_INDICATION ies, q931_ces_alerting_request ces]))
           (seq [q931_call_stop_timer T303,
                 q931_channel_select_response ies
                   (seq [q931_call_start_timer T301, q931_call_set_state N7_CALL_RECEIVED,
                         q931_call_primitive Q931_CCB_ALERTING_INDICATION ies])
                   (refuse_channel N19_RELEASE_REQUEST)]))),
      ([N7_CALL_RECEIVED],
         if_then_else broadcast_setup
           (decoded msg (\<lambda>ies. new_ces dlc ies q931_ces_alerting_request))
           (not_compatible msg)),
      ([N8_CONNECT_REQUEST],
         if_then_else broadcast_setup
           (decoded msg (\<lambda>ies. release_new_ces dlc non_selected))
           (not_compatible msg)),
      ([N9_INCOMING_CALL_PROCEEDING], decoded msg (\<lambda>ies.
         if_then_else broadcast_setup
           (new_ces dlc ies (\<lambda>ces. seq [
              q931_call_stop_timer T310, q931_call_start_timer T301, q931_call_set_state N7_CALL_RECEIVED,
              q931_call_primitive Q931_CCB_ALERTING_INDICATION ies, q931_ces_alerting_request ces]))
           (seq [q931_call_stop_timer T310, q931_call_start_timer T301, q931_call_set_state N7_CALL_RECEIVED,
                 q931_call_primitive Q931_CCB_ALERTING_INDICATION ies]))),
      ([N22_CALL_ABORT], release_new_ces dlc (expiry_cause T312)),
      ([N25_OVERLAP_RECEIVING], decoded msg (\<lambda>ies.
         if_then_else broadcast_setup
           (new_ces dlc ies (\<lambda>ces. seq [
              q931_call_start_timer T301, q931_call_set_state N7_CALL_RECEIVED,
              q931_call_primitive Q931_CCB_ALERTING_INDICATION ies, q931_ces_alerting_request ces]))
           (seq [q931_call_stop_timer T304, q931_call_start_timer T301, q931_call_set_state N7_CALL_RECEIVED,
                 q931_call_primitive Q931_CCB_ALERTING_INDICATION ies]))),
      ([U2_OVERLAP_SENDING], decoded msg (\<lambda>ies.
         seq [q931_call_stop_timer T304, q931_channel_control, q931_call_set_state U4_CALL_DELIVERED,
              q931_call_primitive Q931_CCB_ALERTING_INDICATION ies])),
      ([U3_OUTGOING_CALL_PROCEEDING], decoded msg (\<lambda>ies.
         seq [q931_channel_control, q931_call_set_state U4_CALL_DELIVERED,
              q931_call_primitive Q931_CCB_ALERTING_INDICATION ies]))]
     (not_compatible msg)"

definition q931_handle_call_proceeding :: "q931_dlc_ref \<Rightarrow> q931_message \<Rightarrow> stmt" where
  "q931_handle_call_proceeding dlc msg = switch
     [([N6_CALL_PRESENT], decoded msg (\<lambda>ies.
         if_then_else broadcast_setup
           (new_ces dlc ies (\<lambda>ces. seq [
              q931_call_stop_timer T303, q931_call_start_timer T310,
              q931_call_primitive Q931_CCB_PROCEEDING_INDICATION ies, q931_ces_call_proceeding_request ces,
              q931_call_set_state N9_INCOMING_CALL_PROCEEDING]))
           (seq [q931_call_stop_timer T303,
                 q931_channel_select_response ies
                   (seq [q931_call_start_timer T310, q931_call_set_state N9_INCOMING_CALL_PROCEEDING,
                         q931_call_primitive Q931_CCB_PROCEEDING_INDICATION ies])
                   (refuse_channel N19_RELEASE_REQUEST)]))),
      ([N7_CALL_RECEIVED, N9_INCOMING_CALL_PROCEEDING],
         if_then_else broadcast_setup
           (decoded msg (\<lambda>ies. new_ces dlc ies q931_ces_call_proceeding_request))
           (not_compatible msg)),
      ([N8_CONNECT_REQUEST],
         if_then_else broadcast_setup (release_new_ces dlc non_selected) (not_compatible msg)),
      ([N22_CALL_ABORT], release_new_ces dlc (expiry_cause T312)),
      ([N25_OVERLAP_RECEIVING], decoded msg (\<lambda>ies.
         if_then_else broadcast_setup
           (new_ces dlc ies (\<lambda>ces. seq [
              q931_call_start_timer T310, q931_call_set_state N9_INCOMING_CALL_PROCEEDING,
              q931_call_primitive Q931_CCB_PROCEEDING_INDICATION ies, q931_ces_call_proceeding_request ces]))
           (seq [q931_call_stop_timer T304, q931_call_start_timer T310, q931_call_set_state N9_INCOMING_CALL_PROCEEDING,
                 q931_call_primitive Q931_CCB_PROCEEDING_INDICATION ies]))),
      ([U1_CALL_INITIATED], decoded msg (\<lambda>ies.
         seq [q931_call_stop_timer T303,
              q931_channel_select_response ies
                (seq [q931_call_set_state U3_OUTGOING_CALL_PROCEEDING, q931_channel_control,
                      q931_call_primitive Q931_CCB_PROCEEDING_INDICATION ies])
                refuse_channel_u1])),
      ([U2_OVERLAP_SENDING], decoded msg (\<lambda>ies.
         seq [q931_call_stop_timer T304, q931_channel_control, q931_call_set_state U3_OUTGOING_CALL_PROCEEDING,
              q931_call_primitive Q931_CCB_PROCEEDING_INDICATION ies]))]
     (not_compatible msg)"

definition q931_handle_connect :: "q931_dlc_ref \<Rightarrow> q931_message \<Rightarrow> stmt" where
  "q931_handle_connect dlc msg = switch
     [([N6_CALL_PRESENT], decoded msg (\<lambda>ies.
         if_then_else broadcast_setup
           (new_ces dlc ies (\<lambda>ces. seq [
              q931_call_stop_timer T303, upd (\<lambda>c. c\<lparr>preselected_ces := Some ces\<rparr>), q931_call_set_state N8_CONNECT_REQUEST,
              q931_call_primitive1 Q931_CCB_SETUP_CONFIRM ies Par_ok, q931_ces_connect_request ces]))
           (seq [q931_call_stop_timer T303,
                 q931_channel_select_response ies
                   (seq [q931_call_set_state N8_CONNECT_REQUEST, q931_call_primitive1 Q931_CCB_SETUP_CONFIRM ies Par_ok])
                   (refuse_channel N19_RELEASE_REQUEST)]))),
      ([N7_CALL_RECEIVED], decoded msg (\<lambda>ies.
         if_then_else broadcast_setup
           (new_ces dlc ies (\<lambda>ces. seq [
              q931_call_stop_timer T301, upd (\<lambda>c. c\<lparr>preselected_ces := Some ces\<rparr>), q931_call_set_state N8_CONNECT_REQUEST,
              q931_call_primitive Q931_CCB_CONNECT_INDICATION ies, q931_ces_connect_request ces]))
           (seq [q931_call_stop_timer T301, q931_call_set_state N8_CONNECT_REQUEST,
                 q931_call_primitive Q931_CCB_CONNECT_INDICATION ies]))),
      ([N8_CONNECT_REQUEST],
         if_then_else broadcast_setup (release_new_ces dlc non_selected) (not_compatible msg)),
      ([N9_INCOMING_CALL_PROCEEDING], decoded msg (\<lambda>ies.
         if_then_else broadcast_setup
           (new_ces dlc ies (\<lambda>ces. seq [
              q931_call_stop_timer T310, upd (\<lambda>c. c\<lparr>preselected_ces := Some ces\<rparr>), q931_call_set_state N8_CONNECT_REQUEST,
              q931_call_primitive Q931_CCB_CONNECT_INDICATION ies, q931_ces_connect_request ces]))
           (seq [q931_call_stop_timer T310, q931_call_set_state N8_CONNECT_REQUEST,
                 q931_call_primitive Q931_CCB_CONNECT_INDICATION ies]))),
      ([N22_CALL_ABORT], release_new_ces dlc (expiry_cause T312)),
      ([N25_OVERLAP_RECEIVING], decoded msg (\<lambda>ies.
         if_then_else broadcast_setup
           (new_ces dlc ies (\<lambda>ces. seq [
              upd (\<lambda>c. c\<lparr>preselected_ces := Some ces\<rparr>), q931_call_set_state N8_CONNECT_REQUEST,
              q931_call_primitive Q931_CCB_CONNECT_INDICATION ies, q931_ces_connect_request ces]))
           (seq [q931_call_stop_timer T304, q931_call_set_state N8_CONNECT_REQUEST,
                 q931_call_primitive Q931_CCB_CONNECT_INDICATION ies]))),
      ([U2_OVERLAP_SENDING], decoded msg (\<lambda>ies.
         seq [q931_call_stop_timer T304, q931_channel_connect, q931_call_send Q931_MT_CONNECT_ACKNOWLEDGE [],
              q931_call_set_state U10_ACTIVE, q931_call_primitive1 Q931_CCB_SETUP_CONFIRM ies Par_ok])),
      ([U3_OUTGOING_CALL_PROCEEDING], decoded msg (\<lambda>ies.
         seq [q931_channel_connect, q931_call_send Q931_MT_CONNECT_ACKNOWLEDGE [],
              q931_call_set_state U10_ACTIVE, q931_call_primitive1 Q931_CCB_SETUP_CONFIRM ies Par_ok])),
      ([U4_CALL_DELIVERED], decoded msg (\<lambda>ies.
         seq [q931_channel_connect, q931_call_send Q931_MT_CONNECT_ACKNOWLEDGE [],
              q931_call_set_state U10_ACTIVE, q931_call_primitive1 Q931_CCB_SETUP_CONFIRM ies Par_ok]))]
     (not_compatible msg)"

definition q931_handle_connect_acknowledge :: "q931_message \<Rightarrow> stmt" where
  "q931_handle_connect_acknowledge msg = switch
     [([N10_ACTIVE], nothing),
      ([U8_CONNECT_REQUEST], decoded msg (\<lambda>ies.
         seq [q931_call_stop_timer T313, q931_channel_connect, q931_call_set_state U10_ACTIVE,
              q931_call_primitive1 Q931_CCB_SETUP_COMPLETE_INDICATION ies Par_ok]))]
     (not_compatible msg)"

fun find_progress :: "q931_ie list \<Rightarrow> q931_ie_progress_indicator option" where
  "find_progress [] = None"
| "find_progress (ie # ies) = (case ie of IE_progress_indicator p \<Rightarrow> Some p | _ \<Rightarrow> find_progress ies)"

definition q931_handle_progress :: "q931_message \<Rightarrow> stmt" where
  "q931_handle_progress msg = switch
     [([N7_CALL_RECEIVED],
         if_then_else broadcast_setup (not_compatible msg)
           (decoded msg (\<lambda>ies. q931_call_primitive Q931_CCB_PROGRESS_INDICATION ies))),
      ([N9_INCOMING_CALL_PROCEEDING],
         if_then_else broadcast_setup (not_compatible msg)
           (decoded msg (\<lambda>ies. seq [q931_call_stop_timer T310, q931_call_primitive Q931_CCB_PROGRESS_INDICATION ies]))),
      ([N25_OVERLAP_RECEIVING],
         if_then_else broadcast_setup (not_compatible msg)
           (decoded msg (\<lambda>ies. q931_call_primitive Q931_CCB_PROGRESS_INDICATION ies))),
      ([U2_OVERLAP_SENDING], decoded msg (\<lambda>ies.
         seq [q931_channel_control,
              (case find_progress ies of
                 None \<Rightarrow> fault NullDereference
               | Some p \<Rightarrow>
                   if pi_progress_description p = Q931_IE_PI_PD_CALL_NOT_END_TO_END \<or>
                      pi_progress_description p = Q931_IE_PI_PD_DESTINATION_ADDRESS_IS_NON_ISDN
                   then q931_call_stop_timer T304 else nothing),
              q931_call_primitive Q931_CCB_PROGRESS_INDICATION ies])),
      ([U3_OUTGOING_CALL_PROCEEDING, U4_CALL_DELIVERED], decoded msg (\<lambda>ies.
         seq [q931_channel_control, q931_call_primitive Q931_CCB_PROGRESS_INDICATION ies]))]
     (not_compatible msg)"

definition has_digits :: "q931_ie list \<Rightarrow> bool" where
  "has_digits ies = list_ex (\<lambda>ie. case ie of IE_called_party_number n \<Rightarrow> cstr (number n) \<noteq> [] | _ \<Rightarrow> False) ies"

definition q931_handle_setup :: "q931_message \<Rightarrow> stmt" where
  "q931_handle_setup msg = switch
     [([N0_NULL_STATE], decoded msg (\<lambda>ies.
         seq [upd (\<lambda>c. if has_digits ies then c\<lparr>digits_dialled := True\<rparr> else c),
              with_val (q931_channel_select_setup ies) (\<lambda>(chan, causes).
                case chan of
                  Some i \<Rightarrow>
                    seq [take_channel i, q931_channel_set_state i Q931_CHANSTATE_SELECTED,
                         with_val (\<lambda>c. q931_ies_copy ies) (\<lambda>copied. upd (\<lambda>c. c\<lparr>setup_ies := copied\<rparr>)),
                         q931_call_set_state N1_CALL_INITIATED, q931_call_primitive Q931_CCB_SETUP_INDICATION ies]
                | None \<Rightarrow> seq [q931_call_send Q931_MT_RELEASE_COMPLETE causes, q931_call_release_reference])])),
      ([U0_NULL_STATE], decoded msg (\<lambda>ies.
         with_val (q931_channel_select_setup ies) (\<lambda>(chan, causes).
           case chan of
             None \<Rightarrow>
               seq [upd (\<lambda>c. c\<lparr>call_channel := None\<rparr>), q931_call_send Q931_MT_RELEASE_COMPLETE causes,
                    q931_call_set_state U0_NULL_STATE, q931_call_release_reference]
           | Some i \<Rightarrow>
               seq [take_channel i,
                    with_val (\<lambda>c. q931_ies_copy ies) (\<lambda>copied. upd (\<lambda>c. c\<lparr>setup_ies := copied\<rparr>)),
                    q931_call_set_state U6_CALL_PRESENT, q931_call_primitive Q931_CCB_SETUP_INDICATION ies])))]
     nothing"

definition q931_handle_setup_acknowledge :: "q931_dlc_ref \<Rightarrow> q931_message \<Rightarrow> stmt" where
  "q931_handle_setup_acknowledge dlc msg = switch
     [([N6_CALL_PRESENT], decoded msg (\<lambda>ies.
         if_then_else broadcast_setup
           (q931_channel_select_response ies
              (seq [q931_call_stop_timer T303,
                    q931_ces_alloc dlc (\<lambda>ces. seq [
                      q931_call_start_timer T304, q931_call_set_state N25_OVERLAP_RECEIVING,
                      q931_call_primitive Q931_CCB_MORE_INFO_INDICATION ies, q931_ces_setup_ack_request ces])])
              (\<lambda>causes. q931_ces_alloc dlc (q931_ces_release_request causes)))
           (seq [q931_call_stop_timer T303,
                 q931_channel_select_response ies
                   (seq [q931_call_start_timer T304, q931_call_set_state N25_OVERLAP_RECEIVING,
                         q931_call_primitive Q931_CCB_MORE_INFO_INDICATION ies])
                   (refuse_channel N19_RELEASE_REQUEST)]))),
      ([N7_CALL_RECEIVED, N9_INCOMING_CALL_PROCEEDING],
         if_then_else broadcast_setup
           (decoded msg (\<lambda>ies. new_ces dlc ies q931_ces_setup_ack_request))
           (not_compatible msg)),
      ([N8_CONNECT_REQUEST],
         if_then_else broadcast_setup
           (decoded msg (\<lambda>ies. release_new_ces dlc non_selected))
           (not_compatible msg)),
      ([N22_CALL_ABORT], release_new_ces dlc (expiry_cause T312)),
      ([N25_OVERLAP_RECEIVING],
         if_then_else broadcast_setup
           (decoded msg (\<lambda>ies. new_ces dlc ies q931_ces_setup_ack_request))
           (not_compatible msg)),
      ([U1_CALL_INITIATED], decoded msg (\<lambda>ies.
         seq [q931_call_stop_timer T303,
              q931_channel_select_response ies
                (seq [q931_call_start_timer T304, q931_call_set_state U2_OVERLAP_SENDING, q931_channel_control,
                      q931_call_primitive Q931_CCB_MORE_INFO_INDICATION ies])
                refuse_channel_u1]))]
     (not_compatible msg)"

section \<open>Clearing\<close>

definition is_cause :: "q931_ie \<Rightarrow> bool" where
  "is_cause ie = (q931_ie_id ie = Q931_IE_CAUSE)"

definition q931_save_cause :: "q931_ie list \<Rightarrow> stmt" where
  "q931_save_cause src_ies =
     with_val (\<lambda>c. q931_ies_add_all (disconnect_cause c) (filter is_cause src_ies)) (\<lambda>ies. upd (\<lambda>c. c\<lparr>disconnect_cause := ies\<rparr>))"

definition disconnect_indication :: "q931_call_state \<Rightarrow> q931_ie list \<Rightarrow> stmt" where
  "disconnect_indication s ies =
     seq [q931_save_cause ies, q931_call_set_state s, q931_call_primitive Q931_CCB_DISCONNECT_INDICATION ies]"

definition q931_handle_disconnect :: "q931_message \<Rightarrow> stmt" where
  "q931_handle_disconnect msg = switch
     [([N1_CALL_INITIATED], decoded msg (\<lambda>ies. seq [q931_channel_disconnect, disconnect_indication N11_DISCONNECT_REQUEST ies])),
      ([N2_OVERLAP_SENDING], decoded msg (\<lambda>ies.
         seq [q931_call_stop_timer T302, q931_channel_disconnect, disconnect_indication N11_DISCONNECT_REQUEST ies])),
      ([N3_OUTGOING_CALL_PROCEEDING], decoded msg (\<lambda>ies. seq [q931_channel_disconnect, disconnect_indication N11_DISCONNECT_REQUEST ies])),
      ([N4_CALL_DELIVERED], decoded msg (\<lambda>ies. seq [q931_channel_disconnect, disconnect_indication N11_DISCONNECT_REQUEST ies])),
      ([N7_CALL_RECEIVED],
         if_then_else broadcast_setup (not_compatible_n6 msg) (decoded msg (\<lambda>ies.
           seq [q931_call_stop_timer T301, q931_channel_disconnect, disconnect_indication N11_DISCONNECT_REQUEST ies]))),
      ([N8_CONNECT_REQUEST],
         if_then_else broadcast_setup (not_compatible_n6 msg) (decoded msg (\<lambda>ies.
           seq [q931_channel_release, disconnect_indication N11_DISCONNECT_REQUEST ies]))),
      ([N9_INCOMING_CALL_PROCEEDING],
         if_then_else broadcast_setup (not_compatible_n6 msg) (decoded msg (\<lambda>ies.
           seq [q931_call_stop_timer T310, q931_channel_disconnect, disconnect_indication N11_DISCONNECT_REQUEST ies]))),
      ([N10_ACTIVE], decoded msg (\<lambda>ies. seq [q931_channel_disconnect, disconnect_indication N11_DISCONNECT_REQUEST ies])),
      ([N12_DISCONNECT_INDICATION],
         seq [q931_call_stop_timer T305, q931_call_stop_timer T306, q931_channel_stop_tone,
              with_cur disconnect_cause (q931_call_send Q931_MT_RELEASE), q931_call_start_timer T308,
              q931_call_set_state N19_RELEASE_REQUEST]),
      ([N17_RESUME_REQUEST], decoded msg (\<lambda>ies. seq [q931_channel_disconnect, disconnect_indication N11_DISCONNECT_REQUEST ies])),
      ([N19_RELEASE_REQUEST], nothing),
      ([N25_OVERLAP_RECEIVING],
         if_then_else broadcast_setup (not_compatible_n6 msg) (decoded msg (\<lambda>ies.
           seq [q931_call_stop_timer T304, q931_channel_disconnect, disconnect_indication N11_DISCONNECT_REQUEST ies]))),
      ([U2_OVERLAP_SENDING], decoded msg (\<lambda>ies.
         seq [q931_call_stop_timer T304, q931_channel_control, disconnect_indication U12_DISCONNECT_INDICATION ies])),
      ([U3_OUTGOING_CALL_PROCEEDING, U4_CALL_DELIVERED], decoded msg (\<lambda>ies.
         seq [q931_channel_control, disconnect_indication U12_DISCONNECT_INDICATION ies])),
      ([U6_CALL_PRESENT, U7_CALL_RECEIVED, U10_ACTIVE], decoded msg (disconnect_indication U12_DISCONNECT_INDICATION)),
      ([U9_INCOMING_CALL_PROCEEDING, U8_CONNECT_REQUEST], decoded msg (\<lambda>ies.
         seq [q931_call_stop_timer T313, disconnect_indication U12_DISCONNECT_INDICATION ies])),
      ([U11_DISCONNECT_REQUEST],
         seq [q931_call_stop_timer T305, with_cur disconnect_cause (q931_call_send Q931_MT_RELEASE),
              q931_call_start_timer T308, q931_call_set_state U19_RELEASE_REQUEST]),
      ([U15_SUSPEND_REQUEST], decoded msg (\<lambda>ies.
         seq [q931_call_stop_timer T319, disconnect_indication U12_DISCONNECT_INDICATION ies])),
      ([U17_RESUME_REQUEST],
         seq [q931_call_stop_timer T318, with_cur disconnect_cause (q931_call_send Q931_MT_RELEASE),
              q931_call_start_timer T308, q931_call_set_state U19_RELEASE_REQUEST]),
      ([U19_RELEASE_REQUEST], nothing),
      ([U25_OVERLAP_RECEIVING], decoded msg (\<lambda>ies.
         seq [q931_call_stop_timer T302, disconnect_indication U12_DISCONNECT_INDICATION ies]))]
     (not_compatible msg)"

text \<open>The ends the clearing messages have in common.\<close>

definition to_null :: "q931_call_state \<Rightarrow> q931_ie list \<Rightarrow> stmt" where
  "to_null s ies =
     seq [q931_call_set_state s, q931_call_release_reference, q931_call_primitive Q931_CCB_RELEASE_INDICATION ies]"

definition release_confirmed :: "q931_call_state \<Rightarrow> q931_ie list \<Rightarrow> stmt" where
  "release_confirmed s ies =
     seq [q931_channel_release, q931_call_set_state s, q931_call_release_reference,
          q931_call_primitive1 Q931_CCB_RELEASE_CONFIRM ies Par_ok]"

definition released :: "q931_call_state \<Rightarrow> q931_ie list \<Rightarrow> stmt" where
  "released s ies = seq [q931_channel_release, q931_call_send Q931_MT_RELEASE_COMPLETE [], to_null s ies]"

definition q931_handle_release :: "q931_message \<Rightarrow> stmt" where
  "q931_handle_release msg = switch
     [([N0_NULL_STATE, U0_NULL_STATE],
         seq [with_cur (\<lambda>c. [call_cause Q931_IE_C_CV_INVALID_CALL_REFERENCE_VALUE [] c]) (q931_call_send Q931_MT_RELEASE_COMPLETE),
              q931_call_release_reference]),
      ([N1_CALL_INITIATED, N3_OUTGOING_CALL_PROCEEDING, N4_CALL_DELIVERED], decoded msg (released N0_NULL_STATE)),
      ([N2_OVERLAP_SENDING], decoded msg (\<lambda>ies. seq [q931_call_stop_timer T302, released N0_NULL_STATE ies])),
      ([N6_CALL_PRESENT], decoded msg (\<lambda>ies.
         seq [q931_call_send Q931_MT_RELEASE_COMPLETE [],
              if_then_else broadcast_setup nothing
                (seq [q931_call_stop_timer T303, q931_channel_release, q931_call_release_reference,
                      q931_call_set_state N0_NULL_STATE, q931_call_primitive Q931_CCB_RELEASE_INDICATION ies])])),
      ([N7_CALL_RECEIVED], decoded msg (\<lambda>ies.
         seq [q931_call_send Q931_MT_RELEASE_COMPLETE [],
              if_then_else broadcast_setup nothing
                (seq [q931_call_stop_timer T302, q931_channel_release, to_null N0_NULL_STATE ies])])),
      ([N8_CONNECT_REQUEST], decoded msg (\<lambda>ies.
         seq [q931_call_send Q931_MT_RELEASE_COMPLETE [],
              if_then_else broadcast_setup nothing (seq [q931_channel_release, to_null N0_NULL_STATE ies])])),
      ([N9_INCOMING_CALL_PROCEEDING], decoded msg (\<lambda>ies.
         seq [q931_call_send Q931_MT_RELEASE_COMPLETE [],
              if_then_else broadcast_setup nothing
                (seq [q931_call_stop_timer T310, q931_channel_release, to_null N0_NULL_STATE ies])])),
      ([N10_ACTIVE, N11_DISCONNECT_REQUEST], decoded msg (released N0_NULL_STATE)),
      ([N12_DISCONNECT_INDICATION], decoded msg (\<lambda>ies.
         seq [q931_call_stop_timer T305, q931_call_stop_timer T306, q931_channel_stop_tone, released N0_NULL_STATE ies])),
      ([N19_RELEASE_REQUEST], decoded msg (\<lambda>ies. seq [q931_call_stop_timer T308, release_confirmed N0_NULL_STATE ies])),
      ([N22_CALL_ABORT], q931_call_send Q931_MT_RELEASE_COMPLETE []),
      ([N25_OVERLAP_RECEIVING], decoded msg (\<lambda>ies.
         if_then_else broadcast_setup
           (q931_call_send Q931_MT_RELEASE_COMPLETE [])
           (seq [q931_call_stop_timer T304, released N0_NULL_STATE ies]))),
      ([U1_CALL_INITIATED], decoded msg (\<lambda>ies.
         seq [q931_call_stop_timer T303, q931_call_send Q931_MT_RELEASE_COMPLETE [], to_null U0_NULL_STATE ies])),
      ([U2_OVERLAP_SENDING], decoded msg (\<lambda>ies. seq [q931_call_stop_timer T304, released U0_NULL_STATE ies])),
      ([U3_OUTGOING_CALL_PROCEEDING, U4_CALL_DELIVERED, U7_CALL_RECEIVED, U9_INCOMING_CALL_PROCEEDING, U10_ACTIVE,
        U12_DISCONNECT_INDICATION], decoded msg (released U0_NULL_STATE)),
      ([U6_CALL_PRESENT], decoded msg (released U0_NULL_STATE)),
      ([U8_CONNECT_REQUEST], decoded msg (\<lambda>ies. seq [q931_call_stop_timer T313, released U0_NULL_STATE ies])),
      ([U11_DISCONNECT_REQUEST], decoded msg (\<lambda>ies. seq [q931_call_stop_timer T305, released U0_NULL_STATE ies])),
      ([U15_SUSPEND_REQUEST], decoded msg (\<lambda>ies. seq [q931_call_stop_timer T319, released U0_NULL_STATE ies])),
      ([U17_RESUME_REQUEST], decoded msg (\<lambda>ies.
         seq [q931_call_stop_timer T318, q931_call_send Q931_MT_RELEASE_COMPLETE [], to_null U0_NULL_STATE ies])),
      ([U19_RELEASE_REQUEST], decoded msg (\<lambda>ies. seq [q931_call_stop_timer T308, release_confirmed U0_NULL_STATE ies])),
      ([U25_OVERLAP_RECEIVING], decoded msg (\<lambda>ies.
         seq [q931_call_stop_timer T302, q931_call_send Q931_MT_RELEASE_COMPLETE [], q931_channel_release,
              to_null U0_NULL_STATE ies]))]
     (not_compatible msg)"

definition q931_handle_release_complete :: "q931_message \<Rightarrow> stmt" where
  "q931_handle_release_complete msg = seq [upd (\<lambda>c. c\<lparr>release_complete_received := True\<rparr>), switch
     [([N0_NULL_STATE], nothing),
      ([N1_CALL_INITIATED], decoded msg (\<lambda>ies.
         seq [q931_channel_release, q931_call_release_reference, q931_call_set_state N0_NULL_STATE,
              q931_call_primitive Q931_CCB_RELEASE_INDICATION ies])),
      ([N2_OVERLAP_SENDING], decoded msg (\<lambda>ies.
         seq [q931_call_stop_timer T302, q931_channel_release, q931_call_release_reference, q931_call_set_state N0_NULL_STATE,
              q931_call_primitive Q931_CCB_RELEASE_INDICATION ies])),
      ([N3_OUTGOING_CALL_PROCEEDING, N4_CALL_DELIVERED], decoded msg (\<lambda>ies.
         seq [q931_channel_release, q931_call_release_reference, q931_call_set_state N0_NULL_STATE,
              q931_call_primitive Q931_CCB_RELEASE_INDICATION ies])),
      ([N6_CALL_PRESENT], decoded msg (\<lambda>ies.
         if_then_else broadcast_setup
           (with_val (\<lambda>c. q931_ies_copy ies) (\<lambda>copied. upd (\<lambda>c. c\<lparr>saved_cause := copied\<rparr>)))
           (seq [q931_call_stop_timer T303, q931_channel_release, q931_call_release_reference,
                 q931_call_set_state N0_NULL_STATE, q931_call_primitive Q931_CCB_REJECT_INDICATION ies]))),
      ([N7_CALL_RECEIVED], decoded msg (\<lambda>ies.
         if_then_else broadcast_setup nothing
           (seq [q931_call_stop_timer T301, q931_channel_release, to_null N0_NULL_STATE ies]))),
      ([N8_CONNECT_REQUEST], decoded msg (\<lambda>ies.
         if_then_else broadcast_setup nothing (seq [q931_channel_release, to_null N0_NULL_STATE ies]))),
      ([N9_INCOMING_CALL_PROCEEDING], decoded msg (\<lambda>ies.
         if_then_else broadcast_setup nothing
           (seq [q931_call_stop_timer T310, q931_channel_release, to_null N0_NULL_STATE ies]))),
      ([N10_ACTIVE, N11_DISCONNECT_REQUEST], decoded msg (\<lambda>ies. seq [q931_channel_release, to_null N0_NULL_STATE ies])),
      ([N12_DISCONNECT_INDICATION], decoded msg (\<lambda>ies.
         seq [q931_call_stop_timer T305, q931_call_stop_timer T306, q931_channel_stop_tone, q931_channel_release,
              to_null N0_NULL_STATE ies])),
      ([N19_RELEASE_REQUEST], decoded msg (\<lambda>ies. seq [q931_call_stop_timer T308, release_confirmed N0_NULL_STATE ies])),
      ([N22_CALL_ABORT], nothing),
      ([N25_OVERLAP_RECEIVING], decoded msg (\<lambda>ies.
         if_then_else broadcast_setup nothing
           (seq [q931_call_stop_timer T304, q931_channel_release, to_null N0_NULL_STATE ies]))),
      ([U0_NULL_STATE], nothing),
      ([U1_CALL_INITIATED], decoded msg (\<lambda>ies.
         seq [q931_channel_release, q931_call_stop_timer T303, q931_call_release_reference,
              q931_call_set_state U0_NULL_STATE, q931_call_primitive Q931_CCB_REJECT_INDICATION ies])),
      ([U2_OVERLAP_SENDING], decoded msg (\<lambda>ies.
         seq [q931_call_stop_timer T304, q931_channel_release, to_null U0_NULL_STATE ies])),
      ([U3_OUTGOING_CALL_PROCEEDING, U4_CALL_DELIVERED, U6_CALL_PRESENT, U7_CALL_RECEIVED, U9_INCOMING_CALL_PROCEEDING,
        U10_ACTIVE, U12_DISCONNECT_INDICATION], decoded msg (\<lambda>ies. seq [q931_channel_release, to_null U0_NULL_STATE ies])),
      ([U8_CONNECT_REQUEST], decoded msg (\<lambda>ies.
         seq [q931_call_stop_timer T313, q931_channel_release, to_null U0_NULL_STATE ies])),
      ([U11_DISCONNECT_REQUEST], decoded msg (\<lambda>ies.
         seq [q931_call_stop_timer T305, q931_channel_release, to_null U0_NULL_STATE ies])),
      ([U15_SUSPEND_REQUEST], decoded msg (\<lambda>ies.
         seq [q931_call_stop_timer T319, q931_channel_release, to_null U0_NULL_STATE ies])),
      ([U17_RESUME_REQUEST], decoded msg (\<lambda>ies. seq [q931_call_stop_timer T318, to_null U0_NULL_STATE ies])),
      ([U19_RELEASE_REQUEST], decoded msg (\<lambda>ies. seq [q931_call_stop_timer T308, release_confirmed U0_NULL_STATE ies])),
      ([U25_OVERLAP_RECEIVING], decoded msg (\<lambda>ies. seq [q931_call_stop_timer T302, release_confirmed U0_NULL_STATE ies]))]
     (not_compatible msg)]"

section \<open>Status\<close>

text \<open>The last call state element; a message without one is refused before.\<close>

definition status_call_state :: "q931_ie list \<Rightarrow> u8 option" where
  "status_call_state ies = foldl (\<lambda>cs ie. case ie of IE_call_state _ v \<Rightarrow> Some v | _ \<Rightarrow> cs) None ies"

definition with_call_state :: "q931_ie list \<Rightarrow> (u8 \<Rightarrow> stmt) \<Rightarrow> stmt" where
  "with_call_state ies k = (case status_call_state ies of None \<Rightarrow> fault NullDereference | Some v \<Rightarrow> k v)"

definition q931_ies_contain_cause :: "q931_ie list \<Rightarrow> u8 \<Rightarrow> bool" where
  "q931_ies_contain_cause ies value = list_ex (\<lambda>ie. case ie of IE_cause k \<Rightarrow> cause_value k = value | _ \<Rightarrow> False) ies"

definition incompatible_cause :: "q931_message \<Rightarrow> q931_call \<Rightarrow> q931_ie" where
  "incompatible_cause msg = call_cause Q931_IE_C_CV_MESSAGE_NOT_COMPATIBLE_WITH_CALL_STATE [msg_message_type msg]"

definition status_in_null :: "q931_message \<Rightarrow> q931_call_state \<Rightarrow> stmt" where
  "status_in_null msg s = decoded msg (\<lambda>ies. with_call_state ies (\<lambda>v.
     if v \<noteq> q931_call_state_to_ie_state N0_NULL_STATE then
       seq [with_cur (\<lambda>c. [incompatible_cause msg c]) (q931_call_send Q931_MT_RELEASE), q931_call_set_state s, q931_call_start_timer T308]
     else nothing))"

definition status_in_release_request :: "q931_message \<Rightarrow> q931_call_state \<Rightarrow> stmt" where
  "status_in_release_request msg s = decoded msg (\<lambda>ies. with_call_state ies (\<lambda>v.
     if v = q931_call_state_to_ie_state N0_NULL_STATE then
       seq [q931_call_stop_timer T308, q931_channel_release, q931_call_set_state s, q931_call_release_reference,
            q931_call_primitive1 Q931_CCB_STATUS_INDICATION ies Par_error]
     else nothing))"

text \<open>
  In the other states the causes are put into a list of their own with the reference the message has of them, and are
  freed with that list: passing the elements of the message on then reads freed memory.
\<close>

definition freed_causes :: "q931_ie list \<Rightarrow> stmt" where
  "freed_causes ies = (if list_ex is_cause ies then fault UseAfterFree else nothing)"

definition status_enquired :: "q931_ie list \<Rightarrow> stmt" where
  "status_enquired ies =
     if_then_else (\<lambda>c. q931_call_timer_running c T322)
       (if q931_ies_contain_cause ies Q931_IE_C_CV_MESSAGE_TYPE_NON_EXISTENT_OR_IMPLEMENTED \<or>
           q931_ies_contain_cause ies Q931_IE_C_CV_MESSAGE_TYPE_NOT_COMPATIBLE_WITH_STATE then nothing
        else if q931_ies_contain_cause ies Q931_IE_C_CV_RESPONSE_TO_STATUS_ENQUIRY then q931_call_stop_timer T322
        else nothing)
       nothing"

definition status_reported :: "q931_message \<Rightarrow> q931_call_state \<Rightarrow> q931_ie list \<Rightarrow> u8 \<Rightarrow> stmt" where
  "status_reported msg release_request ies v =
     (if v = q931_call_state_to_ie_state N0_NULL_STATE then
        seq [q931_call_stop_any_timer, q931_channel_release, q931_call_set_state N0_NULL_STATE, q931_call_release_reference,
             freed_causes ies,
             q931_call_primitive1 Q931_CCB_STATUS_INDICATION ies Par_error,
             q931_call_primitive Q931_CCB_RELEASE_INDICATION ies]
      else if_then_else (\<lambda>c. v = q931_call_state_to_ie_state (call_state c)) nothing
        (seq [q931_call_stop_any_timer, with_cur (\<lambda>c. [incompatible_cause msg c]) (q931_call_send Q931_MT_RELEASE),
              q931_call_start_timer T308, q931_call_set_state release_request,
              freed_causes ies,
              q931_call_primitive1 Q931_CCB_STATUS_INDICATION ies Par_error,
              q931_call_primitive Q931_CCB_RELEASE_INDICATION ies]))"

definition status_in_call :: "q931_message \<Rightarrow> q931_call_state \<Rightarrow> stmt" where
  "status_in_call msg release_request =
     decoded msg (\<lambda>ies. seq [status_enquired ies, with_call_state ies (status_reported msg release_request ies)])"

definition q931_handle_status :: "q931_message \<Rightarrow> stmt" where
  "q931_handle_status msg = switch
     [([N0_NULL_STATE], status_in_null msg N19_RELEASE_REQUEST),
      ([N19_RELEASE_REQUEST], status_in_release_request msg N0_NULL_STATE),
      ([N1_CALL_INITIATED, N2_OVERLAP_SENDING, N3_OUTGOING_CALL_PROCEEDING, N4_CALL_DELIVERED, N6_CALL_PRESENT,
        N7_CALL_RECEIVED, N8_CONNECT_REQUEST, N9_INCOMING_CALL_PROCEEDING, N10_ACTIVE, N11_DISCONNECT_REQUEST,
        N12_DISCONNECT_INDICATION, N15_SUSPEND_REQUEST, N17_RESUME_REQUEST, N22_CALL_ABORT, N25_OVERLAP_RECEIVING],
         status_in_call msg N19_RELEASE_REQUEST),
      ([U0_NULL_STATE], status_in_null msg U19_RELEASE_REQUEST),
      ([U19_RELEASE_REQUEST], status_in_release_request msg U0_NULL_STATE),
      ([U1_CALL_INITIATED, U2_OVERLAP_SENDING, U3_OUTGOING_CALL_PROCEEDING, U4_CALL_DELIVERED, U6_CALL_PRESENT,
        U7_CALL_RECEIVED, U8_CONNECT_REQUEST, U9_INCOMING_CALL_PROCEEDING, U10_ACTIVE, U11_DISCONNECT_REQUEST,
        U12_DISCONNECT_INDICATION, U15_SUSPEND_REQUEST, U17_RESUME_REQUEST, U25_OVERLAP_RECEIVING],
         status_in_call msg U19_RELEASE_REQUEST)]
     (not_compatible msg)"

definition q931_handle_status_enquiry :: stmt where
  "q931_handle_status_enquiry =
     with_cur (\<lambda>c. [call_cause Q931_IE_C_CV_RESPONSE_TO_STATUS_ENQUIRY [] c,
                     IE_call_state Q931_IE_CS_CS_CCITT (q931_call_state_to_ie_state (call_state c))])
       (q931_call_send Q931_MT_STATUS)"

section \<open>Information, notification, suspension\<close>

definition q931_handle_info :: "q931_message \<Rightarrow> stmt" where
  "q931_handle_info msg = switch
     [([N2_OVERLAP_SENDING], decoded msg (\<lambda>ies.
         seq [q931_call_stop_timer T302, q931_channel_stop_tone, q931_call_start_timer T302,
              q931_call_primitive Q931_CCB_INFO_INDICATION ies])),
      ([N3_OUTGOING_CALL_PROCEEDING, N4_CALL_DELIVERED, N10_ACTIVE, N11_DISCONNECT_REQUEST, N12_DISCONNECT_INDICATION,
        N19_RELEASE_REQUEST], decoded msg (q931_call_primitive Q931_CCB_INFO_INDICATION)),
      ([N7_CALL_RECEIVED, N8_CONNECT_REQUEST, N9_INCOMING_CALL_PROCEEDING, N25_OVERLAP_RECEIVING],
         if_then_else broadcast_setup (not_compatible_n6 msg) (decoded msg (q931_call_primitive Q931_CCB_INFO_INDICATION))),
      ([U2_OVERLAP_SENDING, U3_OUTGOING_CALL_PROCEEDING, U4_CALL_DELIVERED, U6_CALL_PRESENT, U8_CONNECT_REQUEST,
        U9_INCOMING_CALL_PROCEEDING, U10_ACTIVE, U11_DISCONNECT_REQUEST, U12_DISCONNECT_INDICATION, U15_SUSPEND_REQUEST,
        U19_RELEASE_REQUEST], decoded msg (q931_call_primitive Q931_CCB_INFO_INDICATION)),
      ([U25_OVERLAP_RECEIVING], decoded msg (\<lambda>ies.
         seq [q931_call_restart_timer T302, q931_call_primitive Q931_CCB_INFO_INDICATION ies]))]
     (not_compatible msg)"

definition q931_handle_notify :: "q931_message \<Rightarrow> stmt" where
  "q931_handle_notify msg = switch
     [([N10_ACTIVE, U10_ACTIVE, U11_DISCONNECT_REQUEST, U15_SUSPEND_REQUEST],
         decoded msg (q931_call_primitive Q931_CCB_NOTIFY_INDICATION))]
     nothing"

definition q931_handle_resume :: "q931_message \<Rightarrow> stmt" where
  "q931_handle_resume msg = switch
     [([N0_NULL_STATE],
         if_then_else (\<lambda>c. intf_type c \<noteq> LAPD_INTF_TYPE_BRA)
           (refuse_reference N19_RELEASE_REQUEST)
           (decoded msg (\<lambda>ies.
              seq [q931_call_set_state N17_RESUME_REQUEST, q931_call_primitive Q931_CCB_RESUME_INDICATION ies])))]
     (not_compatible msg)"

definition q931_handle_resume_acknowledge :: "q931_message \<Rightarrow> stmt" where
  "q931_handle_resume_acknowledge msg = switch
     [([U17_RESUME_REQUEST], decoded msg (\<lambda>ies.
         seq [q931_call_stop_timer T318, q931_channel_connect, q931_call_set_state U10_ACTIVE,
              q931_call_primitive1 Q931_CCB_RESUME_CONFIRM ies Par_ok]))]
     (not_compatible msg)"

definition q931_handle_resume_reject :: "q931_message \<Rightarrow> stmt" where
  "q931_handle_resume_reject msg = switch
     [([U17_RESUME_REQUEST], decoded msg (\<lambda>ies.
         seq [q931_call_stop_timer T318, q931_call_set_state U0_NULL_STATE, q931_call_release_reference,
              q931_call_primitive1 Q931_CCB_RESUME_CONFIRM ies Par_error]))]
     (not_compatible msg)"

definition q931_handle_suspend :: "q931_message \<Rightarrow> stmt" where
  "q931_handle_suspend msg = switch
     [([N10_ACTIVE],
         if_then_else (\<lambda>c. intf_type c \<noteq> LAPD_INTF_TYPE_BRA)
           (with_cur (\<lambda>c. [call_cause Q931_IE_C_CV_FACILITY_REJECTED [] c]) (q931_call_send Q931_MT_SUSPEND_REJECT))
           (decoded msg (\<lambda>ies.
              seq [q931_call_set_state N15_SUSPEND_REQUEST, q931_call_primitive Q931_CCB_SUSPEND_INDICATION ies])))]
     (not_compatible msg)"

definition q931_handle_suspend_acknowledge :: "q931_message \<Rightarrow> stmt" where
  "q931_handle_suspend_acknowledge msg = switch
     [([U15_SUSPEND_REQUEST], decoded msg (\<lambda>ies.
         seq [q931_call_stop_timer T319, q931_channel_release, q931_call_set_state U0_NULL_STATE,
              q931_call_release_reference, q931_call_primitive1 Q931_CCB_SUSPEND_CONFIRM ies Par_ok]))]
     (not_compatible msg)"

definition q931_handle_suspend_reject :: "q931_message \<Rightarrow> stmt" where
  "q931_handle_suspend_reject msg = switch
     [([U15_SUSPEND_REQUEST], decoded msg (\<lambda>ies.
         seq [q931_call_stop_timer T319, q931_call_set_state U10_ACTIVE,
              q931_call_primitive1 Q931_CCB_SUSPEND_CONFIRM ies Par_error]))]
     (not_compatible msg)"

section \<open>Dispatching\<close>

text \<open>A message of a type that is not handled. In the null state of the network side it is answered twice.\<close>

definition unrecognized_message :: stmt where
  "unrecognized_message =
     seq [if_then_else (\<lambda>c. call_state c = N0_NULL_STATE) (refuse_reference N19_RELEASE_REQUEST) nothing,
          if_then_else (\<lambda>c. call_state c = U0_NULL_STATE)
            (refuse_reference U19_RELEASE_REQUEST)
            (with_cur (\<lambda>c. [call_cause Q931_IE_C_CV_MESSAGE_TYPE_NON_EXISTENT_OR_IMPLEMENTED [] c]) q931_call_send_call_status)]"

definition q931_dispatch_message :: "q931_dlc_ref \<Rightarrow> q931_message \<Rightarrow> stmt" where
  "q931_dispatch_message dlc msg =
     (let mt = msg_message_type msg in
      if mt = Q931_MT_ALERTING then q931_handle_alerting dlc msg
      else if mt = Q931_MT_CALL_PROCEEDING then q931_handle_call_proceeding dlc msg
      else if mt = Q931_MT_CONNECT then q931_handle_connect dlc msg
      else if mt = Q931_MT_CONNECT_ACKNOWLEDGE then q931_handle_connect_acknowledge msg
      else if mt = Q931_MT_PROGRESS then q931_handle_progress msg
      else if mt = Q931_MT_SETUP then q931_handle_setup msg
      else if mt = Q931_MT_SETUP_ACKNOWLEDGE then q931_handle_setup_acknowledge dlc msg
      else if mt = Q931_MT_DISCONNECT then q931_handle_disconnect msg
      else if mt = Q931_MT_RELEASE then q931_handle_release msg
      else if mt = Q931_MT_RELEASE_COMPLETE then q931_handle_release_complete msg
      else if mt = Q931_MT_STATUS then q931_handle_status msg
      else if mt = Q931_MT_STATUS_ENQUIRY then q931_handle_status_enquiry
      else if mt = Q931_MT_INFORMATION then q931_handle_info msg
      else if mt = Q931_MT_NOTIFY then q931_handle_notify msg
      else if mt = Q931_MT_RESUME then q931_handle_resume msg
      else if mt = Q931_MT_RESUME_ACKNOWLEDGE then q931_handle_resume_acknowledge msg
      else if mt = Q931_MT_RESUME_REJECT then q931_handle_resume_reject msg
      else if mt = Q931_MT_SUSPEND then q931_handle_suspend msg
      else if mt = Q931_MT_SUSPEND_ACKNOWLEDGE then q931_handle_suspend_acknowledge msg
      else if mt = Q931_MT_SUSPEND_REJECT then q931_handle_suspend_reject msg
      else unrecognized_message)"

section \<open>The data link\<close>

definition q931_call_dl_establish_indication :: stmt where
  "q931_call_dl_establish_indication =
     with_cur (\<lambda>c. [call_cause Q931_IE_C_CV_TEMPORARY_FAILURE [] c]) (\<lambda>ies. switch
     [([N2_OVERLAP_SENDING],
         seq [q931_call_stop_any_timer, disconnect_with_tones Q931_TONE_FAILURE ies,
              q931_call_set_state N12_DISCONNECT_INDICATION, q931_call_primitive Q931_CCB_DISCONNECT_INDICATION []]),
      ([N25_OVERLAP_RECEIVING],
         if_then_else broadcast_setup nothing
           (seq [q931_channel_disconnect, q931_call_send Q931_MT_DISCONNECT ies, q931_call_start_timer T305,
                 q931_call_set_state N12_DISCONNECT_INDICATION, q931_call_primitive Q931_CCB_RELEASE_INDICATION []])),
      ([U2_OVERLAP_SENDING],
         seq [q931_call_stop_timer T304, q931_channel_release, q931_call_send Q931_MT_DISCONNECT ies,
              q931_call_start_timer T305, q931_call_set_state U11_DISCONNECT_REQUEST,
              q931_call_primitive Q931_CCB_DISCONNECT_INDICATION []]),
      ([U25_OVERLAP_RECEIVING],
         seq [q931_call_stop_timer T302, q931_channel_release, q931_call_send Q931_MT_DISCONNECT ies,
              q931_call_start_timer T305, q931_call_set_state U11_DISCONNECT_REQUEST,
              q931_call_primitive Q931_CCB_DISCONNECT_INDICATION []])]
     nothing)"

definition q931_call_dl_establish_confirm :: stmt where
  "q931_call_dl_establish_confirm =
     with_cur (\<lambda>c. [call_cause Q931_IE_C_CV_NORMAL_UNSPECIFIED [] c]) (\<lambda>ies. switch
     [([N10_ACTIVE, U10_ACTIVE], seq [q931_call_stop_timer T309, q931_call_send_call_status ies])]
     nothing)"

definition released_by_dl :: "q931_call_state \<Rightarrow> u8 \<Rightarrow> stmt" where
  "released_by_dl s cause =
     seq [q931_channel_release, q931_call_set_state s, q931_call_release_reference,
          with_cur (\<lambda>c. [call_cause cause [] c]) (q931_call_primitive Q931_CCB_RELEASE_INDICATION)]"

definition dl_released_active :: "q931_call_state \<Rightarrow> u8 \<Rightarrow> stmt" where
  "dl_released_active s cause =
     if_then_else (\<lambda>c. q931_call_timer_running c T309)
       (seq [q931_call_stop_timer T309, released_by_dl s cause])
       (seq [q931_call_start_timer T309,
             with_val (\<lambda>c. case call_dlc c of None \<Rightarrow> Inl NullDereference | Some d \<Rightarrow> Inr d) (\<lambda>d. out (Connect_dlc d))])"

definition q931_call_dl_release_indication :: stmt where
  "q931_call_dl_release_indication = switch
     [([N0_NULL_STATE], nothing),
      ([N1_CALL_INITIATED, N2_OVERLAP_SENDING, N3_OUTGOING_CALL_PROCEEDING, N4_CALL_DELIVERED, N6_CALL_PRESENT,
        N7_CALL_RECEIVED, N8_CONNECT_REQUEST, N9_INCOMING_CALL_PROCEEDING, N11_DISCONNECT_REQUEST,
        N12_DISCONNECT_INDICATION, N15_SUSPEND_REQUEST, N17_RESUME_REQUEST, N19_RELEASE_REQUEST, N22_CALL_ABORT,
        N25_OVERLAP_RECEIVING],
         if_then_else (\<lambda>c. \<not> broadcast_setup c \<or> call_state c = N6_CALL_PRESENT)
           (seq [q931_call_stop_any_timer, released_by_dl N0_NULL_STATE Q931_IE_C_CV_DESTINATION_OUT_OF_ORDER])
           nothing),
      ([N10_ACTIVE], dl_released_active N0_NULL_STATE Q931_IE_C_CV_DESTINATION_OUT_OF_ORDER),
      ([U0_NULL_STATE], nothing),
      ([U1_CALL_INITIATED, U2_OVERLAP_SENDING, U3_OUTGOING_CALL_PROCEEDING, U4_CALL_DELIVERED, U6_CALL_PRESENT,
        U7_CALL_RECEIVED, U8_CONNECT_REQUEST, U9_INCOMING_CALL_PROCEEDING, U11_DISCONNECT_REQUEST,
        U12_DISCONNECT_INDICATION, U15_SUSPEND_REQUEST, U17_RESUME_REQUEST, U19_RELEASE_REQUEST, U25_OVERLAP_RECEIVING],
         seq [q931_call_stop_any_timer, released_by_dl U0_NULL_STATE Q931_IE_C_CV_NETWORK_OUT_OF_ORDER]),
      ([U10_ACTIVE], dl_released_active N0_NULL_STATE Q931_IE_C_CV_NETWORK_OUT_OF_ORDER)]
     nothing"

end
