(* ===== verification/Q931_Ces.thy ===== *)
theory Q931_Ces
  imports Q931_Call_Input
begin

text \<open>
  The connection endpoints of \<^verbatim>\<open>src/libq931/ces.c\<close>: one for each terminal that has answered a SETUP sent to all of them,
  until one of them gets the call. And the way of a message and of an event of the data link to the endpoints and to the
  call: \<^verbatim>\<open>input.c\<close>, \<^verbatim>\<open>ccb.c\<close>, and the call references of \<^verbatim>\<open>intf.c\<close>.
\<close>

section \<open>The machine of an endpoint\<close>

definition q931_ces_send_ces_status :: "nat \<Rightarrow> q931_ie list \<Rightarrow> stmt" where
  "q931_ces_send_ces_status i user_ies =
     with_val (\<lambda>c. find_ces c i) (\<lambda>s.
     with_val (\<lambda>c. bind_res (q931_ies_merge [] user_ies) (\<lambda>ies.
                   q931_ies_add ies (IE_call_state Q931_IE_CS_CS_CCITT (q931_ces_state_to_ie_state (ces_state s)))))
       (q931_ces_send i Q931_MT_STATUS))"

definition q931_ces_message_not_compatible_with_state :: "nat \<Rightarrow> q931_message \<Rightarrow> stmt" where
  "q931_ces_message_not_compatible_with_state i msg = ces_switch i
     [([I0_NULL_STATE], nothing)]
     (with_cur (\<lambda>c. [incompatible_cause msg c]) (q931_ces_send_ces_status i))"

definition q931_ces_dl_establish_indication :: "nat \<Rightarrow> stmt" where
  "q931_ces_dl_establish_indication i = ces_switch i
     [([I25_OVERLAP_RECEIVING],
         seq [q931_ces_stop_timer i CES_T304, q931_ces_send i Q931_MT_RELEASE [], q931_ces_start_timer i CES_T308,
              q931_ces_set_state i I19_RELEASE_REQUEST, q931_int_release_indication i []])]
     nothing"

definition q931_ces_dl_release_indication :: "nat \<Rightarrow> stmt" where
  "q931_ces_dl_release_indication i = ces_switch i
     [([I0_NULL_STATE], nothing)]
     (seq [q931_ces_stop_any_timer i, q931_int_release_indication i [], q931_int_release_complete_indication i []])"

definition q931_ces_handle_alerting :: "nat \<Rightarrow> q931_message \<Rightarrow> stmt" where
  "q931_ces_handle_alerting i msg = ces_switch i
     [([I9_INCOMING_CALL_PROCEEDING], decoded msg (\<lambda>ies.
         seq [q931_ces_set_state i I7_CALL_RECEIVED, q931_int_alerting_indication ies])),
      ([I25_OVERLAP_RECEIVING], decoded msg (\<lambda>ies.
         seq [q931_ces_stop_timer i CES_T304, q931_ces_set_state i I7_CALL_RECEIVED, q931_int_alerting_indication ies]))]
     (q931_ces_message_not_compatible_with_state i msg)"

definition q931_ces_handle_call_proceeding :: "nat \<Rightarrow> q931_message \<Rightarrow> stmt" where
  "q931_ces_handle_call_proceeding i msg = ces_switch i
     [([I25_OVERLAP_RECEIVING], decoded msg (\<lambda>ies.
         seq [q931_ces_stop_timer i CES_T304, q931_ces_set_state i I9_INCOMING_CALL_PROCEEDING,
              q931_int_call_proceeding_indication ies]))]
     (q931_ces_message_not_compatible_with_state i msg)"

definition q931_ces_handle_connect :: "nat \<Rightarrow> q931_message \<Rightarrow> stmt" where
  "q931_ces_handle_connect i msg = ces_switch i
     [([I7_CALL_RECEIVED], decoded msg (\<lambda>ies.
         seq [q931_ces_set_state i I8_CONNECT_REQUEST, q931_int_connect_indication i ies])),
      ([I9_INCOMING_CALL_PROCEEDING], decoded msg (\<lambda>ies.
         seq [q931_ces_set_state i I8_CONNECT_REQUEST, q931_int_connect_indication i ies])),
      ([I25_OVERLAP_RECEIVING], decoded msg (\<lambda>ies.
         seq [q931_ces_stop_timer i CES_T304, q931_ces_set_state i I8_CONNECT_REQUEST, q931_int_connect_indication i ies]))]
     (q931_ces_message_not_compatible_with_state i msg)"

definition q931_ces_handle_progress :: "nat \<Rightarrow> q931_message \<Rightarrow> stmt" where
  "q931_ces_handle_progress i msg = ces_switch i
     [([I7_CALL_RECEIVED, I9_INCOMING_CALL_PROCEEDING], decoded msg q931_int_progress_indication),
      ([I25_OVERLAP_RECEIVING], decoded msg (\<lambda>ies.
         seq [q931_ces_stop_timer i CES_T304, q931_int_progress_indication ies]))]
     (q931_ces_message_not_compatible_with_state i msg)"

definition ces_disconnected :: "nat \<Rightarrow> q931_ie list \<Rightarrow> stmt" where
  "ces_disconnected i ies =
     seq [q931_ces_send i Q931_MT_RELEASE [], q931_ces_start_timer i CES_T308, q931_ces_set_state i I19_RELEASE_REQUEST,
          q931_int_release_indication i ies]"

definition q931_ces_handle_disconnect :: "nat \<Rightarrow> q931_message \<Rightarrow> stmt" where
  "q931_ces_handle_disconnect i msg = ces_switch i
     [([I7_CALL_RECEIVED, I8_CONNECT_REQUEST], decoded msg (ces_disconnected i)),
      ([I9_INCOMING_CALL_PROCEEDING], decoded msg (ces_disconnected i)),
      ([I19_RELEASE_REQUEST], nothing),
      ([I25_OVERLAP_RECEIVING], decoded msg (\<lambda>ies. seq [q931_ces_stop_timer i CES_T304, ces_disconnected i ies]))]
     (q931_ces_message_not_compatible_with_state i msg)"

definition q931_ces_handle_release :: "nat \<Rightarrow> q931_message \<Rightarrow> stmt" where
  "q931_ces_handle_release i msg = ces_switch i
     [([I7_CALL_RECEIVED, I8_CONNECT_REQUEST, I9_INCOMING_CALL_PROCEEDING], decoded msg (\<lambda>ies.
         seq [q931_ces_send i Q931_MT_RELEASE_COMPLETE [], q931_int_release_indication i ies,
              q931_int_release_complete_indication i ies])),
      ([I19_RELEASE_REQUEST], decoded msg (\<lambda>ies.
         seq [q931_ces_stop_timer i CES_T308, q931_int_release_complete_indication i ies])),
      ([I25_OVERLAP_RECEIVING], decoded msg (\<lambda>ies.
         seq [q931_ces_stop_timer i CES_T304, q931_ces_send i Q931_MT_RELEASE_COMPLETE [], q931_int_release_indication i ies,
              q931_int_release_complete_indication i ies]))]
     (q931_ces_message_not_compatible_with_state i msg)"

definition q931_ces_handle_release_complete :: "nat \<Rightarrow> q931_message \<Rightarrow> stmt" where
  "q931_ces_handle_release_complete i msg = ces_switch i
     [([I7_CALL_RECEIVED, I8_CONNECT_REQUEST, I9_INCOMING_CALL_PROCEEDING], decoded msg (\<lambda>ies.
         seq [q931_int_release_indication i ies, q931_int_release_complete_indication i ies])),
      ([I19_RELEASE_REQUEST], decoded msg (\<lambda>ies.
         seq [q931_ces_stop_timer i CES_T308, q931_int_release_complete_indication i ies])),
      ([I25_OVERLAP_RECEIVING], decoded msg (\<lambda>ies.
         seq [q931_ces_stop_timer i CES_T304, q931_int_release_indication i ies,
              q931_int_release_complete_indication i ies]))]
     (q931_ces_message_not_compatible_with_state i msg)"

fun last_cause :: "q931_ie list \<Rightarrow> q931_ie_cause option" where
  "last_cause [] = None"
| "last_cause (ie # ies) =
     (case last_cause ies of Some k \<Rightarrow> Some k | None \<Rightarrow> (case ie of IE_cause k \<Rightarrow> Some k | _ \<Rightarrow> None))"

text \<open>The timer looked at is again that of the call; the one stopped is that of the endpoint.\<close>

definition ces_status_compared :: "nat \<Rightarrow> q931_ie list \<Rightarrow> stmt" where
  "ces_status_compared i ies =
     with_val (\<lambda>c. find_ces c i) (\<lambda>s.
       if status_call_state ies = Some (q931_ces_state_to_ie_state I0_NULL_STATE) then
         seq [q931_ces_stop_any_timer i, q931_int_release_indication i ies, q931_int_release_complete_indication i ies]
       else if status_call_state ies = Some (q931_ces_state_to_ie_state (ces_state s)) then nothing
       else
         seq [q931_ces_stop_any_timer i,
              with_cur (\<lambda>c. [call_cause Q931_IE_C_CV_MESSAGE_NOT_COMPATIBLE_WITH_CALL_STATE [] c]) (q931_ces_send i Q931_MT_RELEASE),
              q931_ces_start_timer i CES_T308, q931_ces_set_state i I19_RELEASE_REQUEST,
              q931_call_primitive1 Q931_CCB_STATUS_INDICATION ies Par_error, q931_int_release_indication i ies])"

definition q931_ces_handle_status :: "nat \<Rightarrow> q931_message \<Rightarrow> stmt" where
  "q931_ces_handle_status i msg = ces_switch i
     [([I7_CALL_RECEIVED, I8_CONNECT_REQUEST, I9_INCOMING_CALL_PROCEEDING, I25_OVERLAP_RECEIVING], decoded msg (\<lambda>ies.
         if_then_else (\<lambda>c. q931_call_timer_running c T322)
           (case last_cause ies of
              None \<Rightarrow> fault NullDereference
            | Some k \<Rightarrow>
                if cause_value k = Q931_IE_C_CV_MESSAGE_TYPE_NON_EXISTENT_OR_IMPLEMENTED then nothing
                else seq [if cause_value k = Q931_IE_C_CV_RESPONSE_TO_STATUS_ENQUIRY
                          then q931_ces_stop_timer i CES_T322 else nothing,
                          ces_status_compared i ies])
           (ces_status_compared i ies))),
      ([I19_RELEASE_REQUEST], decoded msg (\<lambda>ies.
         if status_call_state ies = Some (q931_ces_state_to_ie_state I0_NULL_STATE)
         then seq [q931_ces_stop_timer i CES_T308, q931_int_release_complete_indication i ies]
         else nothing))]
     (q931_ces_message_not_compatible_with_state i msg)"

definition q931_ces_handle_info :: "nat \<Rightarrow> q931_message \<Rightarrow> stmt" where
  "q931_ces_handle_info i msg = ces_switch i
     [([I7_CALL_RECEIVED, I8_CONNECT_REQUEST, I9_INCOMING_CALL_PROCEEDING], decoded msg q931_int_info_indication),
      ([I19_RELEASE_REQUEST], nothing),
      ([I25_OVERLAP_RECEIVING], nothing)]
     (q931_ces_message_not_compatible_with_state i msg)"

text \<open>The answer has no call state.\<close>

definition q931_ces_handle_status_enquiry :: "nat \<Rightarrow> stmt" where
  "q931_ces_handle_status_enquiry i =
     with_cur (\<lambda>c. [call_cause Q931_IE_C_CV_RESPONSE_TO_STATUS_ENQUIRY [] c]) (q931_ces_send i Q931_MT_STATUS)"

definition q931_ces_dispatch_message :: "nat \<Rightarrow> q931_message \<Rightarrow> stmt" where
  "q931_ces_dispatch_message i msg =
     (let mt = msg_message_type msg in
      if mt = Q931_MT_ALERTING then q931_ces_handle_alerting i msg
      else if mt = Q931_MT_CALL_PROCEEDING then q931_ces_handle_call_proceeding i msg
      else if mt = Q931_MT_CONNECT then q931_ces_handle_connect i msg
      else if mt = Q931_MT_PROGRESS then q931_ces_handle_progress i msg
      else if mt = Q931_MT_DISCONNECT then q931_ces_handle_disconnect i msg
      else if mt = Q931_MT_RELEASE then q931_ces_handle_release i msg
      else if mt = Q931_MT_RELEASE_COMPLETE then q931_ces_handle_release_complete i msg
      else if mt = Q931_MT_STATUS then q931_ces_handle_status i msg
      else if mt = Q931_MT_INFORMATION then q931_ces_handle_info i msg
      else if mt = Q931_MT_STATUS_ENQUIRY then q931_ces_handle_status_enquiry i
      else if mt = Q931_MT_SETUP then nothing
      else if mt \<in> set [Q931_MT_CONNECT_ACKNOWLEDGE, Q931_MT_SETUP_ACKNOWLEDGE, Q931_MT_RESTART, Q931_MT_RESTART_ACKNOWLEDGE,
                       Q931_MT_USER_INFORMATION, Q931_MT_SEGMENT, Q931_MT_CONGESTION_CONTROL, Q931_MT_FACILITY,
                       Q931_MT_NOTIFY, Q931_MT_HOLD, Q931_MT_HOLD_ACKNOWLEDGE, Q931_MT_HOLD_REJECT, Q931_MT_RETRIEVE,
                       Q931_MT_RETRIEVE_ACKNOWLEDGE, Q931_MT_RETRIEVE_REJECT, Q931_MT_RESUME, Q931_MT_RESUME_ACKNOWLEDGE,
                       Q931_MT_RESUME_REJECT, Q931_MT_SUSPEND, Q931_MT_SUSPEND_ACKNOWLEDGE, Q931_MT_SUSPEND_REJECT]
           then q931_ces_message_not_compatible_with_state i msg
      else nothing)"

definition q931_ces_timer_T304 :: "nat \<Rightarrow> stmt" where
  "q931_ces_timer_T304 i = ces_switch i
     [([I25_OVERLAP_RECEIVING],
         seq [with_cur (\<lambda>c. [expiry_cause T304 c]) (q931_ces_send i Q931_MT_RELEASE), q931_ces_start_timer i CES_T308,
              q931_ces_set_state i I19_RELEASE_REQUEST, q931_int_release_indication i []])]
     q931_ces_unexpected_timer"

definition q931_ces_timer_T308 :: "nat \<Rightarrow> stmt" where
  "q931_ces_timer_T308 i = ces_switch i
     [([I19_RELEASE_REQUEST],
         with_val (\<lambda>c. find_ces c i) (\<lambda>s.
           if \<not> ces_T308_fired s then
             seq [q931_ces_send i Q931_MT_RELEASE [], q931_ces_start_timer i CES_T308,
                  upd_ces i (\<lambda>s. s\<lparr>ces_T308_fired := True\<rparr>)]
           else q931_int_release_complete_indication i []))]
     q931_ces_unexpected_timer"

definition q931_ces_timer_T322 :: "nat \<Rightarrow> stmt" where
  "q931_ces_timer_T322 i = ces_switch i
     [([I0_NULL_STATE], q931_ces_unexpected_timer)]
     (with_val (\<lambda>c. find_ces c i) (\<lambda>s.
        if ces_senq_97_98 s then nothing
        else if 3 < ces_senq_cnt s then
          seq [with_cur (\<lambda>c. [call_cause Q931_IE_C_CV_TEMPORARY_FAILURE [] c]) (q931_ces_send i Q931_MT_RELEASE),
               q931_ces_start_timer i CES_T308, q931_int_release_indication i []]
        else
          seq [q931_ces_send i Q931_MT_STATUS_ENQUIRY [], q931_ces_start_timer i CES_T322,
               upd_ces i (\<lambda>s. s\<lparr>ces_senq_cnt := ces_senq_cnt s + 1\<rparr>)]))"

definition ces_timer_running :: "q931_ces_timer \<Rightarrow> q931_ces \<Rightarrow> bool" where
  "ces_timer_running t s = (case t of CES_T304 \<Rightarrow> ces_T304 s | CES_T308 \<Rightarrow> ces_T308 s | CES_T322 \<Rightarrow> ces_T322 s)"

definition q931_run_ces_timer :: "nat \<Rightarrow> q931_ces_timer \<Rightarrow> stmt" where
  "q931_run_ces_timer i t =
     with_val (\<lambda>c. find_ces c i) (\<lambda>s.
       if ces_timer_running t s then
         seq [set_ces_timer i t False,
              case t of CES_T304 \<Rightarrow> q931_ces_timer_T304 i | CES_T308 \<Rightarrow> q931_ces_timer_T308 i | CES_T322 \<Rightarrow> q931_ces_timer_T322 i]
       else nothing)"

section \<open>Messages and data link events for a call\<close>

text \<open>The endpoint of the data link the message came on takes it, and the call does when there is none.\<close>

definition q931_receive_call :: "q931_dlc_ref \<Rightarrow> q931_message \<Rightarrow> stmt" where
  "q931_receive_call dlc msg =
     seq [q931_call_get,
          with_val (\<lambda>c. Inr (find (\<lambda>s. ces_dlc s = dlc) (call_ces c))) (\<lambda>found. case found of
              None \<Rightarrow> q931_dispatch_message dlc msg
            | Some s \<Rightarrow>
                if_then_else (\<lambda>c. selected_ces c = Some (ces_id s))
                  (seq [q931_ces_dispatch_message (ces_id s) msg, q931_dispatch_message dlc msg])
                  (q931_ces_dispatch_message (ces_id s) msg)),
          q931_call_put]"

text \<open>The loops over the endpoints of a data link; an endpoint only takes itself out of the list.\<close>

definition dl_ces :: "q931_dlc_ref \<Rightarrow> (nat \<Rightarrow> stmt) \<Rightarrow> stmt" where
  "dl_ces dlc f =
     with_val (\<lambda>c. Inr (map ces_id (filter (\<lambda>s. ces_dlc s = dlc) (call_ces c)))) (\<lambda>ids. seq (map f ids))"

definition q931_dl_establish_indication :: "q931_dlc_ref \<Rightarrow> stmt" where
  "q931_dl_establish_indication dlc =
     seq [q931_call_get, dl_ces dlc q931_ces_dl_establish_indication,
          if_then_else (\<lambda>c. call_dlc c = Some dlc) q931_call_dl_establish_indication nothing, q931_call_put]"

definition q931_dl_establish_confirm_call :: "q931_dlc_ref \<Rightarrow> stmt" where
  "q931_dl_establish_confirm_call dlc =
     seq [q931_call_get,
          if_then_else (\<lambda>c. call_dlc c = Some dlc) q931_call_dl_establish_confirm nothing, q931_call_put]"

definition q931_dl_release_indication :: "q931_dlc_ref \<Rightarrow> stmt" where
  "q931_dl_release_indication dlc =
     seq [q931_call_get, dl_ces dlc q931_ces_dl_release_indication,
          if_then_else (\<lambda>c. call_dlc c = Some dlc) q931_call_dl_release_indication nothing, q931_call_put]"

section \<open>New calls\<close>

definition q931_call_alloc :: "q931_interface \<Rightarrow> q931_call" where
  "q931_call_alloc i = q931_interface.extend i (q931_call.fields
     1 False [] 0 None None None Q931_CALL_DIRECTION_OUTBOUND 0
     (if intf_role i = LAPD_INTF_ROLE_TE then U0_NULL_STATE else N0_NULL_STATE)
     False False False False False 0 False False False [] [] [] [] None {} 0 [])"

definition q931_intf_add_call :: stmt where
  "q931_intf_add_call = upd (\<lambda>c. c\<lparr>on_intf := True\<rparr>)"

definition q931_call_alloc_in :: "q931_interface \<Rightarrow> q931_dlc_ref \<Rightarrow> int \<Rightarrow> q931_call res" where
  "q931_call_alloc_in i dlc callref =
     seq [upd (\<lambda>c. c\<lparr>call_dlc := Some (if dlc = Bc_dlc then Intf_dlc else dlc), broadcast_setup := (dlc = Bc_dlc)\<rparr>),
          upd (\<lambda>c. c\<lparr>call_direction := Q931_CALL_DIRECTION_INBOUND, call_reference := callref\<rparr>),
          q931_call_get, q931_intf_add_call] (q931_call_alloc i)"

text \<open>
  \<open>next_call_reference\<close> runs round from 1 below \<open>limit\<close>. The search gives up when the reference it has just found in use is
  the next one to be tried, which is not the reference it started with: with every reference in use it does not end.
\<close>

definition next_reference :: "int \<Rightarrow> int \<Rightarrow> int" where
  "next_reference limit r = (if r + 1 \<ge> limit then 1 else r + 1)"

partial_function (option) q931_intf_find_free_call_reference ::
  "int \<Rightarrow> int set \<Rightarrow> int \<Rightarrow> (int \<times> int) option" where
  "q931_intf_find_free_call_reference limit used next =
     (let r = next; next' = next_reference limit next in
      if r \<in> used then
        if r = next' then Some (-1, next')
        else q931_intf_find_free_call_reference limit used next'
      else Some (r, next'))"

text \<open>A call for a call reference that is not known, and what is done with the message that has it.\<close>

definition unknown_release :: stmt where
  "unknown_release =
     seq [with_cur (\<lambda>c. [call_cause Q931_IE_C_CV_INVALID_CALL_REFERENCE_VALUE [] c]) (q931_call_send Q931_MT_RELEASE_COMPLETE),
          q931_call_release_reference, q931_call_put]"

definition unknown_other :: stmt where
  "unknown_other =
     seq [with_cur (\<lambda>c. [call_cause Q931_IE_C_CV_INVALID_CALL_REFERENCE_VALUE [] c]) (q931_call_send Q931_MT_RELEASE),
          q931_call_start_timer T308,
          if_then_else (\<lambda>c. call_state c = N0_NULL_STATE)
            (q931_call_set_state N19_RELEASE_REQUEST) (q931_call_set_state U19_RELEASE_REQUEST),
          q931_call_put]"

definition q931_call_alloc_unknown :: "q931_interface \<Rightarrow> q931_dlc_ref \<Rightarrow> int \<Rightarrow> q931_call res" where
  "q931_call_alloc_unknown i dlc callref =
     seq [upd (\<lambda>c. c\<lparr>call_direction := Q931_CALL_DIRECTION_OUTBOUND, call_reference := callref\<rparr>),
          assert_that (\<lambda>c. intf_role c = LAPD_INTF_ROLE_TE \<or> dlc \<noteq> Bc_dlc),
          upd (\<lambda>c. c\<lparr>call_dlc := Some (if dlc = Bc_dlc then Intf_dlc else dlc)\<rparr>),
          q931_call_get, q931_intf_add_call] (q931_call_alloc i)"

definition q931_receive_unknown :: "q931_interface \<Rightarrow> q931_dlc_ref \<Rightarrow> q931_message \<Rightarrow> q931_call res" where
  "q931_receive_unknown i dlc msg =
     (let mt = msg_message_type msg; inbound = (msg_callref_direction msg = Q931_CALLREF_FLAG_FROM_ORIGINATING_SIDE) in
      bind_res ((if inbound then q931_call_alloc_in else q931_call_alloc_unknown) i dlc (msg_callref msg))
        (if mt = Q931_MT_RELEASE then unknown_release
         else if mt = Q931_MT_RELEASE_COMPLETE then seq [q931_call_release_reference, q931_call_put]
         else if mt = Q931_MT_SETUP \<or> mt = Q931_MT_RESUME then
           (if inbound then seq [q931_dispatch_message dlc msg, q931_call_put]
            else seq [q931_call_release_reference, q931_call_put])
         else if mt = Q931_MT_STATUS then seq [q931_dispatch_message dlc msg, q931_call_put]
         else unknown_other))"

text \<open>\<open>q931_call_alloc_out\<close> after the reference has been found.\<close>

definition q931_call_alloc_out :: "q931_interface \<Rightarrow> int \<Rightarrow> q931_call res" where
  "q931_call_alloc_out i callref =
     seq [upd (\<lambda>c. c\<lparr>call_direction := Q931_CALL_DIRECTION_OUTBOUND, call_reference := callref\<rparr>),
          upd (\<lambda>c. c\<lparr>call_dlc := (if intf_role c = LAPD_INTF_ROLE_TE \<or> intf_mode c = LAPD_INTF_MODE_POINT_TO_POINT
                                 then Some Intf_dlc else None)\<rparr>),
          q931_call_get, q931_intf_add_call] (q931_call_alloc i)"

section \<open>The events of a call\<close>

datatype q931_ccb_request =
  Q931_CCB_ALERTING_REQUEST | Q931_CCB_DISCONNECT_REQUEST | Q931_CCB_INFO_REQUEST | Q931_CCB_MORE_INFO_REQUEST
| Q931_CCB_NOTIFY_REQUEST | Q931_CCB_PROCEEDING_REQUEST | Q931_CCB_PROGRESS_REQUEST | Q931_CCB_REJECT_REQUEST
| Q931_CCB_RELEASE_REQUEST | Q931_CCB_RESUME_REQUEST | Q931_CCB_RESUME_REJECT_REQUEST | Q931_CCB_RESUME_RESPONSE
| Q931_CCB_SETUP_COMPLETE_REQUEST | Q931_CCB_SETUP_REQUEST | Q931_CCB_SETUP_RESPONSE
| Q931_CCB_STATUS_ENQUIRY_REQUEST "nat option" | Q931_CCB_SUSPEND_REJECT_REQUEST | Q931_CCB_SUSPEND_RESPONSE
| Q931_CCB_SUSPEND_REQUEST

fun q931_ccb_dispatch :: "q931_ccb_request \<Rightarrow> q931_ie list \<Rightarrow> stmt" where
  "q931_ccb_dispatch Q931_CCB_ALERTING_REQUEST ies = q931_alerting_request ies"
| "q931_ccb_dispatch Q931_CCB_DISCONNECT_REQUEST ies = q931_disconnect_request ies"
| "q931_ccb_dispatch Q931_CCB_INFO_REQUEST ies = q931_info_request ies"
| "q931_ccb_dispatch Q931_CCB_MORE_INFO_REQUEST ies = q931_more_info_request ies"
| "q931_ccb_dispatch Q931_CCB_NOTIFY_REQUEST ies = q931_notify_request ies"
| "q931_ccb_dispatch Q931_CCB_PROCEEDING_REQUEST ies = q931_proceeding_request ies"
| "q931_ccb_dispatch Q931_CCB_PROGRESS_REQUEST ies = q931_progress_request ies"
| "q931_ccb_dispatch Q931_CCB_REJECT_REQUEST ies = q931_reject_request ies"
| "q931_ccb_dispatch Q931_CCB_RELEASE_REQUEST ies = q931_release_request ies"
| "q931_ccb_dispatch Q931_CCB_RESUME_REQUEST ies = q931_resume_request ies"
| "q931_ccb_dispatch Q931_CCB_RESUME_REJECT_REQUEST ies = q931_resume_reject_request ies"
| "q931_ccb_dispatch Q931_CCB_RESUME_RESPONSE ies = q931_resume_response ies"
| "q931_ccb_dispatch Q931_CCB_SETUP_COMPLETE_REQUEST ies = q931_setup_complete_request ies"
| "q931_ccb_dispatch Q931_CCB_SETUP_REQUEST ies = q931_setup_request ies"
| "q931_ccb_dispatch Q931_CCB_SETUP_RESPONSE ies = q931_setup_response ies"
| "q931_ccb_dispatch (Q931_CCB_STATUS_ENQUIRY_REQUEST ces) ies = q931_status_enquiry_request ces ies"
| "q931_ccb_dispatch Q931_CCB_SUSPEND_REJECT_REQUEST ies = q931_suspend_reject_request ies"
| "q931_ccb_dispatch Q931_CCB_SUSPEND_RESPONSE ies = q931_suspend_response ies"
| "q931_ccb_dispatch Q931_CCB_SUSPEND_REQUEST ies = q931_suspend_request ies"

datatype q931_call_event =
  Message q931_dlc_ref q931_message
| Request q931_ccb_request "q931_ie list"
| Restart "q931_ie list"
| Expiry q931_call_timer
| Ces_expiry nat q931_ces_timer
| Dl_establish_indication q931_dlc_ref
| Dl_establish_confirm q931_dlc_ref
| Dl_release_indication q931_dlc_ref

fun q931_event :: "q931_call_event \<Rightarrow> stmt" where
  "q931_event (Message dlc msg) = q931_receive_call dlc msg"
| "q931_event (Request r ies) = q931_ccb_dispatch r ies"
| "q931_event (Restart ies) = q931_restart_request ies"
| "q931_event (Expiry t) = q931_run_timer t"
| "q931_event (Ces_expiry i t) = q931_run_ces_timer i t"
| "q931_event (Dl_establish_indication dlc) = q931_dl_establish_indication dlc"
| "q931_event (Dl_establish_confirm dlc) = q931_dl_establish_confirm_call dlc"
| "q931_event (Dl_release_indication dlc) = q931_dl_release_indication dlc"

end
