(* ===== verification/Q931_Call_Inv.thy ===== *)
theory Q931_Call_Inv
  imports Q931_Ces
begin

text \<open>
  What every event of a call keeps. A locale has the laws the primitive operations keep an invariant by, and in it the
  invariant is carried through every request, message, timer and data link event of the call and of its endpoints.
  It is interpreted by the reference count of the call and by the link between a call and its channel.
\<close>

named_theorems keeps

section \<open>Invariants of the statements\<close>

text \<open>
  The part of a call that the invariants look at: not the state, the elements kept nor what was sent, but the channels
  that were taken from other calls.
\<close>

fun clears_other :: "q931_out \<Rightarrow> bool" where
  "clears_other (Other_call_channel_null i) = True"
| "clears_other _ = False"

definition core :: "q931_call \<Rightarrow> _" where
  "core c =
     (refcnt c, on_intf c, timers c, map ces_id (call_ces c), next_ces c, call_channel c, intf_channels c,
      filter clears_other (outs c))"

text \<open>
  The laws for the channels are as weak as the code allows: a channel is taken only when it is available or the call's
  already, and its state is set only when it is the call's.
\<close>

locale guarded_invariant =
  fixes I :: "int \<Rightarrow> q931_call \<Rightarrow> bool"
  assumes frame: "I k c \<Longrightarrow> core c' = core c \<Longrightarrow> I k c'"
    and got: "I k c \<Longrightarrow> I (k + 1) (c\<lparr>refcnt := refcnt c + 1\<rparr>)"
    and putting: "I (k + 1) c \<Longrightarrow> I k (c\<lparr>refcnt := refcnt c - 1\<rparr>)"
    and timer_added: "I (k + 1) c \<Longrightarrow> t \<notin> timers c \<Longrightarrow> I k (c\<lparr>timers := insert t (timers c)\<rparr>)"
    and timer_removed: "I k c \<Longrightarrow> t \<in> timers c \<Longrightarrow> I (k + 1) (c\<lparr>timers := timers c - {t}\<rparr>)"
    and unlisted: "I k c \<Longrightarrow> on_intf c \<Longrightarrow> I (k + 1) (c\<lparr>on_intf := False\<rparr>)"
    and ces_added: "I (k + 1) c \<Longrightarrow> ces_id s = next_ces c \<Longrightarrow>
           I k (c\<lparr>call_ces := s # call_ces c, next_ces := next_ces c + 1\<rparr>)"
    and ces_removed: "I k c \<Longrightarrow> find (\<lambda>s. ces_id s = i) (call_ces c) = Some s \<Longrightarrow>
           I (k + 1) (c\<lparr>call_ces := filter (\<lambda>s. ces_id s \<noteq> i) (call_ces c), stale_timers := n\<rparr>)"
    and channel_taken: "I k c \<Longrightarrow> i < length (intf_channels c) \<Longrightarrow> available c i \<or> call_channel c = Some i \<Longrightarrow>
           I k (c\<lparr>call_channel := Some i, intf_channels := (intf_channels c)[i := (intf_channels c ! i)\<lparr>chan_call := This_call\<rparr>]\<rparr>)"
    and channel_state: "I k c \<Longrightarrow> call_channel c = Some i \<Longrightarrow> i < length (intf_channels c) \<Longrightarrow>
           I k (c\<lparr>intf_channels := (intf_channels c)[i := (intf_channels c ! i)\<lparr>chan_state := cs\<rparr>]\<rparr>)"
    and channel_released: "I k c \<Longrightarrow> call_channel c = Some i \<Longrightarrow> i < length (intf_channels c) \<Longrightarrow>
           ch = (if chan_call (intf_channels c ! i) = This_call then None else Some i) \<Longrightarrow>
           os = (if chan_call (intf_channels c ! i) = This_call then outs c else outs c @ [Other_call_channel_null i]) \<Longrightarrow>
           I k (c\<lparr>call_channel := ch, outs := os,
                  intf_channels := (intf_channels c)[i := (intf_channels c ! i)\<lparr>chan_call := No_call, chan_state := Q931_CHANSTATE_AVAILABLE\<rparr>]\<rparr>)"
    and no_channel: "I k c \<Longrightarrow> I k (c\<lparr>call_channel := None\<rparr>)"
begin

definition keep :: "int \<Rightarrow> stmt \<Rightarrow> bool" where
  "keep k f \<longleftrightarrow> (\<forall>c c'. I k c \<longrightarrow> f c = Inr c' \<longrightarrow> I k c')"

lemma keepI: "(\<And>c c'. I k c \<Longrightarrow> f c = Inr c' \<Longrightarrow> I k c') \<Longrightarrow> keep k f"
  by (simp add: keep_def)

lemma keepD: "keep k f \<Longrightarrow> I k c \<Longrightarrow> f c = Inr c' \<Longrightarrow> I k c'"
  by (simp add: keep_def)

lemma keep_seq_Nil [keeps]: "keep k (seq [])"
  by (simp add: keep_def)

lemma keep_seq_Cons [keeps]: "keep k f \<Longrightarrow> keep k (seq fs) \<Longrightarrow> keep k (seq (f # fs))"
  unfolding keep_def seq.simps bind_res_eq_Inr by blast

lemma keep_seq_map [keeps]: "(\<And>x. keep k (f x)) \<Longrightarrow> keep k (seq (map f xs))"
  by (induction xs) (simp_all add: keep_seq_Nil keep_seq_Cons)

lemma keep_switch_Nil [keeps]: "keep k d \<Longrightarrow> keep k (switch [] d)"
  by (simp add: keep_def)

lemma keep_switch_Cons [keeps]: "keep k f \<Longrightarrow> keep k (switch cs d) \<Longrightarrow> keep k (switch ((states, f) # cs) d)"
  by (rule keepI) (simp only: switch.simps split: if_splits, (rule keepD; assumption)+)

lemma keep_if_then_else [keeps]: "keep k f \<Longrightarrow> keep k g \<Longrightarrow> keep k (if_then_else b f g)"
  by (rule keepI) (simp only: if_then_else_def split: if_splits, (rule keepD; assumption)+)

lemma keep_with_val [keeps]: "(\<And>x. keep k (f x)) \<Longrightarrow> keep k (with_val v f)"
  unfolding keep_def with_val_def bind_res_eq_Inr by blast

lemma keep_with_cur [keeps]: "(\<And>x. keep k (f x)) \<Longrightarrow> keep k (with_cur v f)"
  unfolding keep_def with_cur_def by blast

lemma keep_cases [keeps]:
  "keep k f \<Longrightarrow> keep k g \<Longrightarrow> keep k (if b then f else g)"
  "keep k f \<Longrightarrow> (\<And>x. keep k (h x)) \<Longrightarrow> keep k (case ox of None \<Rightarrow> f | Some x \<Rightarrow> h x)"
  "(\<And>x y. keep k (p x y)) \<Longrightarrow> keep k (case xy of (x, y) \<Rightarrow> p x y)"
  by (auto split: option.splits prod.splits)

lemma keep_let [keeps]: "(\<And>x. keep k (f x)) \<Longrightarrow> keep k (let x = v in f x)"
  by simp

lemma keep_fault [keeps]: "keep k (fault e)"
  by (simp add: keep_def fault_def)

lemma keep_assert [keeps]: "keep k (assert_that b)"
  by (simp add: keep_def assert_that_def)

lemma keep_upd: "(\<And>c. core (g c) = core c) \<Longrightarrow> keep k (upd g)"
  unfolding keep_def upd_def using frame by (metis Inl_Inr_False Inr_inject)

lemma keep_fields [keeps]:
  "keep k nothing" "keep k (out (Send_message dl mt ies))" "keep k (q931_call_set_state s)"
  "keep k (upd (\<lambda>c. c\<lparr>setup_ies := ies\<rparr>))"
  "keep k (upd (\<lambda>c. c\<lparr>disconnect_cause := ies\<rparr>))"
  "keep k (upd (\<lambda>c. c\<lparr>saved_cause := ies\<rparr>))"
  "keep k (upd (\<lambda>c. c\<lparr>broadcast_setup := b\<rparr>))"
  "keep k (upd (\<lambda>c. c\<lparr>disconnect_indication_sent := b\<rparr>))"
  "keep k (upd (\<lambda>c. c\<lparr>release_complete_received := b\<rparr>))"
  "keep k (upd (\<lambda>c. c\<lparr>T303_fired := b\<rparr>))"
  "keep k (upd (\<lambda>c. c\<lparr>T308_fired := b\<rparr>))"
  "keep k (upd (\<lambda>c. c\<lparr>senq_status_97_98_received := b, senq_cnt := n\<rparr>))"
  "keep k (upd (\<lambda>c. c\<lparr>senq_cnt := senq_cnt c + 1\<rparr>))"
  "keep k (upd (\<lambda>c. c\<lparr>preselected_ces := oi\<rparr>))"
  "keep k (upd (\<lambda>c. c\<lparr>selected_ces := oi\<rparr>))"
  "keep k (upd (\<lambda>c. c\<lparr>call_dlc := d\<rparr>))"
  "keep k (upd (\<lambda>c. if b then c\<lparr>digits_dialled := True\<rparr> else c))"
  "keep k (out (Send_message_bc mt ies))" "keep k (out (Call_primitive p ies par))" "keep k (out (Channel_primitive p i tone))"
  "keep k (out (Connect_dlc dl))" "keep k (out (Global_restart_confirm ch))"
  unfolding nothing_def out_def q931_call_set_state_def
  by (rule keep_upd; simp add: core_def)+

lemma keep_start_timer [keeps]: "keep k (q931_call_start_timer t)"
proof (rule keepI)
  fix c c' assume I: "I k c" and f: "q931_call_start_timer t c = Inr c'"
  show "I k c'"
  proof (cases "t \<in> timers c")
    case True
    with f I show ?thesis
      by (auto simp: q931_call_start_timer_def if_then_else_def nothing_def upd_def split: if_splits)
  next
    case False
    with f have "c' = c\<lparr>refcnt := refcnt c + 1, timers := insert t (timers c)\<rparr>"
      by (auto simp: q931_call_start_timer_def if_then_else_def q931_call_get_def upd_def split: if_splits)
    with timer_added [OF got [OF I], of t] False show ?thesis by simp
  qed
qed

lemma keep_restart_timer [keeps]: "keep k (q931_call_restart_timer t)"
proof (rule keepI)
  fix c c' assume I: "I k c" and f: "q931_call_restart_timer t c = Inr c'"
  show "I k c'"
  proof (cases "t \<in> timers c")
    case True
    with f have "core c' = core c"
      by (auto simp: q931_call_restart_timer_def if_then_else_def nothing_def upd_def core_def insert_absorb split: if_splits)
    with I frame show ?thesis by blast
  next
    case False
    with f have "c' = c\<lparr>refcnt := refcnt c + 1, timers := insert t (timers c)\<rparr>"
      by (auto simp: q931_call_restart_timer_def if_then_else_def q931_call_get_def upd_def split: if_splits)
    with timer_added [OF got [OF I], of t] False show ?thesis by simp
  qed
qed

lemma keep_stop_timer [keeps]: "keep k (q931_call_stop_timer t)"
proof (rule keepI)
  fix c c' assume I: "I k c" and f: "q931_call_stop_timer t c = Inr c'"
  show "I k c'"
  proof (cases "t \<in> timers c")
    case True
    with f have "c' = c\<lparr>timers := timers c - {t}, refcnt := refcnt c - 1\<rparr>"
      by (auto simp: q931_call_stop_timer_def if_then_else_def q931_call_put_def upd_def split: if_splits)
    with putting [OF timer_removed [OF I True]] show ?thesis by simp
  next
    case False
    with f I show ?thesis
      by (auto simp: q931_call_stop_timer_def if_then_else_def nothing_def upd_def split: if_splits)
  qed
qed

lemma keep_release_reference [keeps]: "keep k q931_call_release_reference"
proof (rule keepI)
  fix c c' assume I: "I k c" and f: "q931_call_release_reference c = Inr c'"
  then have "on_intf c" "c' = c\<lparr>on_intf := False, refcnt := refcnt c - 1\<rparr>"
    by (auto simp: q931_call_release_reference_def q931_intf_del_call_def q931_call_put_def upd_def split: if_splits)
  with putting [OF unlisted [OF I]] show "I k c'" by simp
qed

text \<open>Messages, primitives, channels.\<close>

lemma keep_send [keeps]:
  "keep k (q931_call_send_message dlc mt ies)" "keep k (q931_call_send mt ies)" "keep k (q931_call_send_setup_bc ies)"
  "keep k (q931_call_primitive1 p ies par)" "keep k (q931_call_primitive p ies)"
  "keep k (q931_call_send_call_status_with_state ies s)" "keep k (q931_call_send_call_status ies)"
  "keep k (q931_channel_primitive p i)" "keep k q931_call_unexpected_primitive" "keep k q931_call_unexpected_timer"
  "keep k q931_ces_unexpected_primitive" "keep k q931_ces_unexpected_timer"
  unfolding q931_call_send_message_def q931_call_send_def q931_call_send_setup_bc_def q931_call_primitive1_def
    q931_call_primitive_def q931_call_send_call_status_with_state_def q931_call_send_call_status_def
    q931_channel_primitive_def q931_call_unexpected_primitive_def q931_call_unexpected_timer_def
    q931_ces_unexpected_primitive_def q931_ces_unexpected_timer_def
  by (intro keeps)+

lemma set_channel_Inr:
  "set_channel i f c = Inr c' \<longleftrightarrow>
     i < length (intf_channels c) \<and> 0 < refcnt c \<and>
     c' = c\<lparr>intf_channels := (intf_channels c)[i := f (intf_channels c ! i)]\<rparr>"
  by (auto simp: set_channel_def with_val_def chan_at_def upd_def)

text \<open>A statement that keeps the invariant where a condition holds before it.\<close>

definition keep_when :: "int \<Rightarrow> (q931_call \<Rightarrow> bool) \<Rightarrow> stmt \<Rightarrow> bool" where
  "keep_when k P f \<longleftrightarrow> (\<forall>c c'. I k c \<longrightarrow> P c \<longrightarrow> f c = Inr c' \<longrightarrow> I k c')"

lemma keep_when_always: "keep k f \<Longrightarrow> keep_when k P f"
  unfolding keep_def keep_when_def by blast

lemma keep_with_val_when: "(\<And>x. keep_when k (\<lambda>c. v c = Inr x) (f x)) \<Longrightarrow> keep k (with_val v f)"
  unfolding keep_def keep_when_def with_val_def bind_res_eq_Inr by blast

lemma keep_when_mono: "keep_when k P f \<Longrightarrow> (\<And>c. Q c \<Longrightarrow> P c) \<Longrightarrow> keep_when k Q f"
  unfolding keep_when_def by blast

lemma keep_when_with_val: "(\<And>x. keep_when k P (f x)) \<Longrightarrow> keep_when k P (with_val v f)"
  unfolding keep_when_def with_val_def bind_res_eq_Inr by blast

lemma keep_when_if: "keep_when k P f \<Longrightarrow> keep_when k P g \<Longrightarrow> keep_when k P (if b then f else g)"
  by simp

abbreviation own :: "nat \<Rightarrow> q931_call \<Rightarrow> bool" where
  "own i \<equiv> \<lambda>c. call_channel c = Some i"

lemma keep_own_set_state: "keep_when k (own i) (q931_channel_set_state i s)"
  by (simp add: keep_when_def q931_channel_set_state_def set_channel_Inr channel_state)

lemma keep_own_state_set: "keep k (seq fs) \<Longrightarrow> keep_when k (own i) (seq (q931_channel_set_state i s # fs))"
  using keep_own_set_state [of k i s] unfolding keep_def keep_when_def seq.simps bind_res_eq_Inr by blast

lemma take_channel_Inr:
  "take_channel i c = Inr c' \<longleftrightarrow> i < length (intf_channels c) \<and> 0 < refcnt c \<and>
     c' = c\<lparr>call_channel := Some i, intf_channels := (intf_channels c)[i := (intf_channels c ! i)\<lparr>chan_call := This_call\<rparr>]\<rparr>"
  by (auto simp: take_channel_def set_channel_Inr upd_def bind_res_eq_Inr split: if_splits)

lemma keep_taking:
  assumes "keep_when k (own i) (seq fs)"
  shows "keep_when k (\<lambda>c. available c i \<or> own i c) (seq (take_channel i # fs))"
  using assms channel_taken unfolding keep_when_def seq.simps bind_res_eq_Inr take_channel_Inr by fastforce

lemma keep_on_channel: "(\<And>i. keep_when k (own i) (f i)) \<Longrightarrow> keep k (on_channel f)"
  unfolding on_channel_def by (rule keep_with_val_when, erule meta_allE) (auto elim: keep_when_mono split: option.splits)

lemma keep_own_state [keeps]: "keep k (on_channel (\<lambda>i. q931_channel_set_state i s))"
  by (rule keep_on_channel [OF keep_own_set_state])

lemma keep_on_channel_if: "(\<And>i. keep_when k (own i) (f i)) \<Longrightarrow> keep k (on_channel_if f)"
  unfolding on_channel_if_def
  by (rule keep_with_val_when) (auto intro: keep_when_always keep_fields elim: keep_when_mono split: option.splits)

lemma keep_no_channel [keeps]: "keep k (upd (\<lambda>c. c\<lparr>call_channel := None\<rparr>))"
  unfolding keep_def upd_def using no_channel by (metis Inl_Inr_False Inr_inject)

lemma keep_channel_ops [keeps]:
  "keep k q931_channel_connect" "keep k q931_channel_control" "keep k q931_channel_disconnect"
  "keep k (q931_channel_start_tone tone)" "keep k q931_channel_stop_tone" "keep k q931_channel_acquire"
proof -
  note own = keep_on_channel keep_on_channel_if keep_when_with_val keep_when_if keep_own_state_set keep_when_always
  show "keep k q931_channel_connect" "keep k q931_channel_control" "keep k q931_channel_disconnect"
    unfolding q931_channel_connect_def q931_channel_control_def q931_channel_disconnect_def
    by (rule own(1,2), intro own(3-5) own(6) [OF keep_fault] own(6) [OF keep_fields(1)] keeps)+
  show "keep k (q931_channel_start_tone tone)" "keep k q931_channel_stop_tone"
    unfolding q931_channel_start_tone_def q931_channel_stop_tone_def on_channel_def by (intro keeps)+
  have "keep_when k (\<lambda>c. Inr (find (available c) [0..<intf_n_channels c]) = (Inr (Some i) :: nat option res))
      (seq [take_channel i, q931_channel_set_state i Q931_CHANSTATE_SELECTED])" for i
    by (rule keep_when_mono [OF keep_taking [OF keep_own_state_set]]) (auto intro: keeps simp: find_Some_iff)
  then show "keep k q931_channel_acquire"
    unfolding q931_channel_acquire_def
    by (intro keep_seq_Cons keep_seq_Nil keep_assert keep_with_val_when) (auto intro: keep_when_always keeps split: option.splits)
qed

lemma keep_channel_release [keeps]: "keep k q931_channel_release"
proof (rule keepI)
  fix c c' assume I: "I k c" and f: "q931_channel_release c = Inr c'"
  show "I k c'"
  proof (cases "call_channel c")
    case None
    with f I show ?thesis
      by (auto simp: q931_channel_release_def on_channel_if_def with_val_def nothing_def upd_def split: if_splits)
  next
    case (Some i)
    with f have i: "i < length (intf_channels c)"
      by (auto simp: q931_channel_release_def on_channel_if_def with_val_def chan_at_def split: if_splits)
    define ch where "ch = (if chan_call (intf_channels c ! i) = This_call then None else Some i)"
    define os where "os = (if chan_call (intf_channels c ! i) = This_call then outs c else outs c @ [Other_call_channel_null i])"
    have "core c' = core (c\<lparr>call_channel := ch, outs := os,
        intf_channels := (intf_channels c)[i := (intf_channels c ! i)\<lparr>chan_call := No_call, chan_state := Q931_CHANSTATE_AVAILABLE\<rparr>]\<rparr>)"
      using f i Some
      by (auto simp: q931_channel_release_def on_channel_if_def with_val_def chan_at_def bind_res_eq_Inr set_channel_Inr
          q931_channel_primitive_def out_def upd_def nothing_def fault_def core_def ch_def os_def
          split: if_splits q931_channel_call.splits)
    with channel_released [OF I Some i ch_def os_def] frame show ?thesis by blast
  qed
qed

lemma release_available:
  assumes "q931_channel_release c = Inr c'" "available c i"
  shows "available c' i"
proof (cases "call_channel c")
  case None
  with assms show ?thesis
    by (auto simp: q931_channel_release_def on_channel_if_def with_val_def nothing_def upd_def split: if_splits)
next
  case (Some j)
  with assms show ?thesis
    by (cases "j = i")
       (auto simp: q931_channel_release_def on_channel_if_def with_val_def chan_at_def bind_res_eq_Inr set_channel_Inr available_def
          q931_channel_primitive_def out_def upd_def nothing_def fault_def split: if_splits q931_channel_call.splits)
qed

lemma keep_claim:
  "keep k (seq fs) \<Longrightarrow> keep_when k (\<lambda>c. available c i) (seq (take_channel i # q931_channel_set_state i s # fs))"
  "keep k (seq fs) \<Longrightarrow> keep_when k (\<lambda>c. available c i \<or> own i c) (seq (take_channel i # fs))"
  by (rule keep_when_mono [OF keep_taking [OF keep_own_state_set]]; simp)
     (rule keep_taking [OF keep_when_always])

lemma keep_reclaim:
  assumes "keep k (seq fs)"
  shows "keep_when k (\<lambda>c. available c i) (seq (q931_channel_release # take_channel i # q931_channel_set_state i s # fs))"
  using keep_claim(1) [OF assms, of i s] keep_channel_release [of k] release_available
  unfolding keep_def keep_when_def seq.simps(2) [of q931_channel_release] bind_res_eq_Inr by blast

lemma scan_chanset_available: "scan_chanset chans c = Inr (Some i) \<Longrightarrow> available c i"
  by (auto simp: scan_chanset_def find_Some_iff split: if_splits option.splits)

lemma keep_scan:
  assumes "\<And>i. keep_when k (\<lambda>c. available c i) (f i)" "keep k g"
  shows "keep k (with_val (scan_chanset chans) (\<lambda>found. case found of Some i \<Rightarrow> f i | None \<Rightarrow> g))"
proof (rule keep_with_val_when)
  fix found show "keep_when k (\<lambda>c. scan_chanset chans c = Inr found) (case found of Some i \<Rightarrow> f i | None \<Rightarrow> g)"
    using keep_when_always [OF assms(2)] keep_when_mono [OF assms(1) scan_chanset_available] by (cases found) simp_all
qed

lemma keep_channel_val:
  assumes "keep k f" "\<And>i. keep_when k (own i) (g i)"
  shows "keep k (with_val (\<lambda>c. Inr (call_channel c)) (\<lambda>ch. case ch of None \<Rightarrow> f | Some i \<Rightarrow> g i))"
proof (rule keep_with_val_when)
  fix ch show "keep_when k (\<lambda>c. Inr (call_channel c) = (Inr ch :: nat option res)) (case ch of None \<Rightarrow> f | Some i \<Rightarrow> g i)"
    using assms by (cases ch) (auto intro: keep_when_always elim: keep_when_mono)
qed

lemma keep_select_response [keeps]:
  assumes "keep k yes" "\<And>causes. keep k (no causes)"
  shows "keep k (q931_channel_select_response ies yes no)"
proof -
  have y: "keep k (seq [yes])" using assms(1) by (intro keeps)
  have t: "keep_when k (own i) (seq [take_channel i, yes])" for i by (rule keep_when_mono [OF keep_claim(2) [OF y]]) simp
  show ?thesis
    unfolding q931_channel_select_response_def
    by (cases "find_channel_id ies") (simp_all only: option.case,
      (rule keep_channel_val [OF assms(2) t],
       rule keep_channel_val [OF keep_scan [OF keep_claim(1) [OF y]] keep_when_always [OF keep_cases(1) [OF assms(1) keep_scan [OF keep_reclaim [OF y]]]]],
       (intro keeps assms(2))+))
qed

lemma select_wanted_available: "select_wanted pe c chans = Some (Inr (Some i)) \<Longrightarrow> available c i"
  by (induction chans) (auto split: if_splits)

lemma select_setup_available: "q931_channel_select_setup ies c = Inr (Some i, causes) \<Longrightarrow> available c i"
  by (auto simp: q931_channel_select_setup_def Let_def find_Some_iff
      split: option.splits if_splits sum.splits dest: select_wanted_available)

lemma keep_select_setup:
  assumes "\<And>causes. keep k (f causes)" "\<And>i. keep_when k (\<lambda>c. available c i) (g i)"
  shows "keep k (with_val (q931_channel_select_setup ies) (\<lambda>(chan, causes). case chan of Some i \<Rightarrow> g i | None \<Rightarrow> f causes))"
proof (rule keep_with_val_when, clarify)
  fix chan causes
  show "keep_when k (\<lambda>c. q931_channel_select_setup ies c = Inr (chan, causes)) (case chan of Some i \<Rightarrow> g i | None \<Rightarrow> f causes)"
    using keep_when_always [OF assms(1)] keep_when_mono [OF assms(2) select_setup_available] by (cases chan) simp_all
qed

text \<open>Endpoints.\<close>

lemma find_ces_Inr: "find_ces c i = Inr s \<longleftrightarrow> find (\<lambda>s. ces_id s = i) (call_ces c) = Some s"
  by (simp add: find_ces_def split: option.splits)

lemma keep_upd_ces:
  assumes id: "\<And>s. ces_id (f s) = ces_id s"
  shows "keep k (upd_ces i f)"
proof -
  have ids: "map ces_id (map (\<lambda>s. if ces_id s = i then f s else s) ss) = map ces_id ss" for ss
    using id by simp
  show ?thesis
    unfolding upd_ces_def by (intro keep_with_val keep_upd) (simp add: core_def ids del: map_map)
qed

lemma keep_ces_fields [keeps]:
  "keep k (q931_ces_set_state i s)" "keep k (set_ces_timer i t b)"
  "keep k (upd_ces i (\<lambda>s. s\<lparr>ces_T308_fired := b\<rparr>))" "keep k (upd_ces i (\<lambda>s. s\<lparr>ces_senq_cnt := ces_senq_cnt s + 1\<rparr>))"
  unfolding q931_ces_set_state_def set_ces_timer_def
  by (rule keep_upd_ces; simp split: q931_ces_timer.splits)+

lemma keep_ces_free [keeps]: "keep k (q931_ces_free i)"
proof (rule keepI)
  fix c c' assume I: "I k c" and f: "q931_ces_free i c = Inr c'"
  then obtain s where s: "find (\<lambda>s. ces_id s = i) (call_ces c) = Some s"
    by (auto simp: q931_ces_free_def with_val_def bind_res_eq_Inr find_ces_Inr)
  with f have "c' = c\<lparr>call_ces := filter (\<lambda>s. ces_id s \<noteq> i) (call_ces c),
                      stale_timers := stale_timers c + pending_ces_timers s, refcnt := refcnt c - 1\<rparr>"
    by (auto simp: q931_ces_free_def with_val_def bind_res_eq_Inr find_ces_Inr q931_call_put_def upd_def split: if_splits)
  with putting [OF ces_removed [OF I s]] show "I k c'" by simp
qed

lemma keep_ces_alloc [keeps]:
  assumes k: "\<And>i. keep k (f i)"
  shows "keep k (q931_ces_alloc dlc f)"
proof (rule keepI)
  fix c c' assume I: "I k c" and f: "q931_ces_alloc dlc f c = Inr c'"
  define s where "s = \<lparr>ces_id = next_ces c, ces_dlc = dlc, ces_state = I0_NULL_STATE, ces_T304 = False, ces_T308 = False,
      ces_T322 = False, ces_T308_fired = junk_T308_fired c, ces_senq_97_98 = junk_senq_97_98 c, ces_senq_cnt = junk_senq_cnt c\<rparr>"
  have "f (next_ces c) (c\<lparr>refcnt := refcnt c + 1, call_ces := s # call_ces c, next_ces := next_ces c + 1\<rparr>) = Inr c'"
    using f by (auto simp: q931_ces_alloc_def q931_call_get_def with_val_def upd_def assert_that_def bind_res_eq_Inr s_def
        split: if_splits)
  moreover have "I k (c\<lparr>refcnt := refcnt c + 1, call_ces := s # call_ces c, next_ces := next_ces c + 1\<rparr>)"
    using ces_added [OF got [OF I], of s] by (simp add: s_def)
  ultimately show "I k c'" using k keepD by blast
qed

lemma keep_ces_switch_aux: "(\<forall>x \<in> set cases. keep k (snd x)) \<Longrightarrow> keep k d \<Longrightarrow> keep k (ces_switch i cases d)"
  unfolding ces_switch_def
  by (rule keep_with_val) (auto split: option.splits dest!: find_Some_iff [THEN iffD1] simp: set_conv_nth)

lemma keep_ces_switch [keeps]:
  "keep k d \<Longrightarrow> keep k (ces_switch i [] d)"
  "keep k f \<Longrightarrow> keep k d \<Longrightarrow> keep k (ces_switch i [(ss, f)] d)"
  "keep k f \<Longrightarrow> keep k g \<Longrightarrow> keep k d \<Longrightarrow> keep k (ces_switch i [(ss, f), (ss2, g)] d)"
  "keep k f \<Longrightarrow> keep k g \<Longrightarrow> keep k h \<Longrightarrow> keep k d \<Longrightarrow> keep k (ces_switch i [(ss, f), (ss2, g), (ss3, h)] d)"
  "keep k f \<Longrightarrow> keep k g \<Longrightarrow> keep k h \<Longrightarrow> keep k e \<Longrightarrow> keep k d \<Longrightarrow>
     keep k (ces_switch i [(ss, f), (ss2, g), (ss3, h), (ss4, e)] d)"
  by (rule keep_ces_switch_aux; simp)+

lemma keep_ces_ops [keeps]:
  "keep k (q931_ces_start_timer i t)" "keep k (q931_ces_stop_timer i t)" "keep k (q931_ces_stop_any_timer i)"
  "keep k (q931_ces_send i mt ies)"
  unfolding q931_ces_start_timer_def q931_ces_stop_timer_def q931_ces_stop_any_timer_def q931_ces_send_def
  by (intro keeps)+

lemma keep_ces_requests [keeps]:
  "keep k (q931_ces_alerting_request i)" "keep k (q931_ces_connect_request i)"
  "keep k (q931_ces_call_proceeding_request i)" "keep k (q931_ces_setup_ack_request i)"
  "keep k (q931_ces_release_request ies i)" "keep k (q931_ces_info_request ies i)"
  "keep k (q931_ces_status_enquiry_request ies i)"
  unfolding q931_ces_alerting_request_def q931_ces_connect_request_def q931_ces_call_proceeding_request_def
    q931_ces_setup_ack_request_def q931_ces_release_request_def q931_ces_info_request_def q931_ces_status_enquiry_request_def
  by (intro keeps)+

lemma keep_loops [keeps]:
  "(\<And>i. keep k (f i)) \<Longrightarrow> keep k (for_each_ces f)" "(\<And>i. keep k (f i)) \<Longrightarrow> keep k (dl_ces dlc f)"
  "keep k q931_call_stop_any_timer"
  unfolding for_each_ces_def dl_ces_def q931_call_stop_any_timer_def by (intro keeps; assumption)+

section \<open>Requests\<close>

lemma keep_not_compatible [keeps]:
  "keep k (refuse_reference s)" "keep k (q931_call_message_not_compatible_with_state ns mt)"
  "keep k (not_compatible msg)" "keep k (not_compatible_n6 msg)"
  unfolding refuse_reference_def q931_call_message_not_compatible_with_state_def not_compatible_def not_compatible_n6_def
  by (intro keeps)+

lemma keep_requests_1 [keeps]:
  "keep k (q931_alerting_request ies)" "keep k (q931_disconnect_request ies)" "keep k (q931_info_request ies)"
  "keep k (q931_more_info_request ies)" "keep k (q931_notify_request ies)" "keep k (q931_proceeding_request ies)"
  "keep k (q931_progress_request ies)" "keep k (q931_reject_request ies)" "keep k (q931_release_request ies)"
  unfolding q931_alerting_request_def q931_disconnect_request_def disconnect_with_tones_def disconnect_broadcast_def
    q931_info_request_def q931_more_info_request_def q931_notify_request_def q931_proceeding_request_def
    q931_progress_request_def q931_reject_request_def q931_release_request_def
  by (intro keeps)+

lemma keep_requests_2 [keeps]:
  "keep k (q931_resume_request ies)" "keep k (q931_resume_reject_request ies)" "keep k (q931_resume_response ies)"
  "keep k (q931_setup_complete_request ies)" "keep k (q931_setup_request ies)" "keep k (q931_setup_response ies)"
  "keep k (q931_status_enquiry_request ces ies)" "keep k (q931_suspend_reject_request ies)"
  "keep k (q931_suspend_response ies)" "keep k (q931_suspend_request ies)" "keep k (q931_restart_request ies)"
  unfolding q931_resume_request_def q931_resume_reject_request_def q931_resume_response_def
    q931_setup_complete_request_def q931_setup_request_def q931_setup_response_def call_status_enquiry_def
    q931_status_enquiry_request_def q931_suspend_reject_request_def q931_suspend_response_def q931_suspend_request_def
    restart_to_def q931_restart_request_def
  by (intro keeps)+

lemma keep_ccb_dispatch: "keep k (q931_ccb_dispatch r ies)"
  by (cases r) (simp_all add: keeps)

lemma keep_int_indications [keeps]:
  "keep k (q931_int_alerting_indication ies)" "keep k (q931_int_connect_indication i ies)"
  "keep k (q931_int_call_proceeding_indication ies)" "keep k (q931_int_release_complete_indication i ies)"
  "keep k (q931_int_info_indication ies)" "keep k (q931_int_progress_indication ies)"
  "keep k (q931_int_release_indication i ies)"
  unfolding q931_int_alerting_indication_def q931_int_connect_indication_def q931_int_call_proceeding_indication_def
    q931_int_release_complete_indication_def q931_int_info_indication_def q931_int_progress_indication_def
    save_cause_def q931_int_release_indication_def
  by (intro keeps)+

section \<open>Timers\<close>

text \<open>A statement that gives back a reference it was called with.\<close>

definition lower :: "int \<Rightarrow> stmt \<Rightarrow> bool" where
  "lower k f \<longleftrightarrow> (\<forall>c c'. I (k + 1) c \<longrightarrow> f c = Inr c' \<longrightarrow> I k c')"

lemma lower_put [keeps]: "lower k (seq [q931_call_put])"
  unfolding lower_def seq.simps q931_call_put_def upd_def bind_res_eq_Inr using putting
  by (metis Inl_Inr_False Inr_inject)

lemma lower_seq [keeps]: "keep (k + 1) f \<Longrightarrow> lower k (seq (g # fs)) \<Longrightarrow> lower k (seq (f # g # fs))"
  unfolding lower_def keep_def seq.simps(2) [of f] bind_res_eq_Inr by blast

lemma keep_held: "lower k (seq fs) \<Longrightarrow> keep k (seq (q931_call_get # fs))"
  unfolding lower_def keep_def seq.simps(2) q931_call_get_def upd_def bind_res_eq_Inr using got
  by (metis Inl_Inr_False Inr_inject)

lemma lower_timers:
  "lower k q931_timer_T301" "lower k q931_timer_T302" "lower k q931_timer_T303" "lower k q931_timer_T304"
  "lower k q931_timer_T305" "lower k q931_timer_T306" "lower k q931_timer_T308" "lower k q931_timer_T309"
  "lower k q931_timer_T310" "lower k q931_timer_T312" "lower k q931_timer_T313" "lower k q931_timer_T318"
  "lower k q931_timer_T319" "lower k q931_timer_T322" "lower k q931_timer_unused"
  unfolding q931_timer_T301_def q931_timer_T302_def q931_timer_T303_def q931_timer_T304_def q931_timer_T305_def
    q931_timer_T306_def q931_timer_T308_def q931_timer_T309_def q931_timer_T310_def q931_timer_T312_def q931_timer_T313_def
    q931_timer_T318_def q931_timer_T319_def q931_timer_T322_def q931_timer_unused_def abort_or_release_def
  by (intro keeps)+

lemma keep_run_timer: "keep k (q931_run_timer t)"
proof (rule keepI)
  fix c c' assume I: "I k c" and f: "q931_run_timer t c = Inr c'"
  show "I k c'"
  proof (cases "t \<in> timers c")
    case True
    with f have "q931_call_timer_func t (c\<lparr>timers := timers c - {t}\<rparr>) = Inr c'"
      by (simp add: q931_run_timer_def if_then_else_def upd_def bind_res_eq_Inr split: if_splits)
    moreover have "lower k (q931_call_timer_func t)"
      by (cases t) (simp_all add: q931_call_timer_func_def lower_timers)
    ultimately show ?thesis using timer_removed [OF I True] by (auto simp: lower_def)
  next
    case False
    with f I show ?thesis by (simp add: q931_run_timer_def if_then_else_def nothing_def upd_def split: if_splits)
  qed
qed

section \<open>Messages\<close>

lemma keep_decoded [keeps]: "(\<And>ies. keep k (f ies)) \<Longrightarrow> keep k (decoded msg f)"
  unfolding decoded_def by (intro keeps)

lemma keep_handle_setup [keeps]: "keep k (q931_handle_setup msg)"
  unfolding q931_handle_setup_def
  by (intro keep_switch_Cons keep_switch_Nil keep_decoded keep_fields keep_seq_Cons keep_seq_Nil keep_select_setup keep_claim(1)
        keep_when_mono [OF keep_claim(2)] disjI1; (intro keeps)?; assumption?)

lemma keep_establishment [keeps]:
  "keep k (q931_handle_alerting dlc msg)" "keep k (q931_handle_call_proceeding dlc msg)"
  "keep k (q931_handle_connect dlc msg)" "keep k (q931_handle_connect_acknowledge msg)"
  "keep k (q931_handle_progress msg)" "keep k (q931_handle_setup_acknowledge dlc msg)"
  unfolding q931_handle_alerting_def q931_handle_call_proceeding_def q931_handle_connect_def
    q931_handle_connect_acknowledge_def q931_handle_progress_def q931_handle_setup_acknowledge_def
    new_ces_def release_new_ces_def refuse_channel_def refuse_channel_u1_def
  by (intro keeps)+

lemma keep_clearing [keeps]:
  "keep k (q931_handle_disconnect msg)" "keep k (q931_handle_release msg)" "keep k (q931_handle_release_complete msg)"
  unfolding q931_handle_disconnect_def disconnect_indication_def q931_save_cause_def q931_handle_release_def
    q931_handle_release_complete_def released_def to_null_def release_confirmed_def
  by (intro keeps)+

lemma keep_status [keeps]:
  "keep k (q931_handle_status msg)" "keep k q931_handle_status_enquiry"
  unfolding q931_handle_status_def status_in_null_def status_in_release_request_def status_in_call_def status_enquired_def status_reported_def
    with_call_state_def freed_causes_def q931_handle_status_enquiry_def
  by (intro keeps)+

lemma keep_other_messages [keeps]:
  "keep k (q931_handle_info msg)" "keep k (q931_handle_notify msg)" "keep k (q931_handle_resume msg)"
  "keep k (q931_handle_resume_acknowledge msg)" "keep k (q931_handle_resume_reject msg)"
  "keep k (q931_handle_suspend msg)" "keep k (q931_handle_suspend_acknowledge msg)"
  "keep k (q931_handle_suspend_reject msg)" "keep k unrecognized_message"
  unfolding q931_handle_info_def q931_handle_notify_def q931_handle_resume_def q931_handle_resume_acknowledge_def
    q931_handle_resume_reject_def q931_handle_suspend_def q931_handle_suspend_acknowledge_def
    q931_handle_suspend_reject_def unrecognized_message_def
  by (intro keeps)+

lemma keep_dispatch [keeps]: "keep k (q931_dispatch_message dlc msg)"
  unfolding q931_dispatch_message_def by (intro keeps)

lemma keep_dl [keeps]:
  "keep k q931_call_dl_establish_indication" "keep k q931_call_dl_establish_confirm"
  "keep k q931_call_dl_release_indication"
  unfolding q931_call_dl_establish_indication_def disconnect_with_tones_def q931_call_dl_establish_confirm_def
    q931_call_dl_release_indication_def released_by_dl_def dl_released_active_def
  by (intro keeps)+

section \<open>Endpoints\<close>

lemma keep_ces_not_compatible [keeps]:
  "keep k (q931_ces_send_ces_status i ies)" "keep k (q931_ces_message_not_compatible_with_state i msg)"
  unfolding q931_ces_send_ces_status_def q931_ces_message_not_compatible_with_state_def by (intro keeps)+

lemma keep_ces_handlers [keeps]:
  "keep k (q931_ces_handle_alerting i msg)" "keep k (q931_ces_handle_call_proceeding i msg)"
  "keep k (q931_ces_handle_connect i msg)" "keep k (q931_ces_handle_progress i msg)"
  "keep k (q931_ces_handle_disconnect i msg)" "keep k (q931_ces_handle_release i msg)"
  "keep k (q931_ces_handle_release_complete i msg)" "keep k (q931_ces_handle_status i msg)"
  "keep k (q931_ces_handle_info i msg)" "keep k (q931_ces_handle_status_enquiry i)"
  "keep k (q931_ces_dl_establish_indication i)" "keep k (q931_ces_dl_release_indication i)"
  unfolding q931_ces_handle_alerting_def q931_ces_handle_call_proceeding_def q931_ces_handle_connect_def
    q931_ces_handle_progress_def q931_ces_handle_disconnect_def q931_ces_handle_release_def
    q931_ces_handle_release_complete_def q931_ces_handle_status_def q931_ces_handle_info_def
    q931_ces_handle_status_enquiry_def ces_disconnected_def ces_status_compared_def
    q931_ces_dl_establish_indication_def q931_ces_dl_release_indication_def
  by (intro keeps)+

lemma keep_ces_dispatch [keeps]: "keep k (q931_ces_dispatch_message i msg)"
  unfolding q931_ces_dispatch_message_def by (intro keeps)

lemma keep_ces_timers [keeps]:
  "keep k (q931_ces_timer_T304 i)" "keep k (q931_ces_timer_T308 i)" "keep k (q931_ces_timer_T322 i)"
  unfolding q931_ces_timer_T304_def q931_ces_timer_T308_def q931_ces_timer_T322_def by (intro keeps)+

lemma keep_run_ces_timer: "keep k (q931_run_ces_timer i t)"
  unfolding q931_run_ces_timer_def by (cases t) (simp_all only: q931_ces_timer.case, (intro keeps)+)

lemma keep_receive: "keep k (q931_receive_call dlc msg)"
  unfolding q931_receive_call_def by (rule keep_held) (intro keeps)

lemma keep_dl_events:
  "keep k (q931_dl_establish_indication dlc)" "keep k (q931_dl_establish_confirm_call dlc)"
  "keep k (q931_dl_release_indication dlc)"
  unfolding q931_dl_establish_indication_def q931_dl_establish_confirm_call_def q931_dl_release_indication_def
  by (rule keep_held; intro keeps)+

lemma keep_event: "keep k (q931_event e)"
  by (cases e)
     (simp_all add: keep_receive keep_ccb_dispatch keep_requests_2 keep_run_timer keep_run_ces_timer keep_dl_events)

lemma event_invariant: "I k c \<Longrightarrow> q931_event e c = Inr c' \<Longrightarrow> I k c'"
  using keep_event keepD by blast

end

text \<open>An invariant that does not depend on whose the channels are, nor on what was sent.\<close>

locale call_invariant = guarded_invariant +
  assumes any_taken: "I k c \<Longrightarrow> i < length (intf_channels c) \<Longrightarrow>
           I k (c\<lparr>call_channel := Some i, intf_channels := (intf_channels c)[i := (intf_channels c ! i)\<lparr>chan_call := This_call\<rparr>]\<rparr>)"
    and any_state: "I k c \<Longrightarrow> i < length (intf_channels c) \<Longrightarrow>
           I k (c\<lparr>intf_channels := (intf_channels c)[i := (intf_channels c ! i)\<lparr>chan_state := cs\<rparr>]\<rparr>)"
    and any_out: "I k c \<Longrightarrow> I k (c\<lparr>outs := os\<rparr>)"
begin

lemma keep_out: "keep k (out e)"
  by (rule keepI) (auto simp: out_def upd_def any_out split: if_splits)

lemma keep_take_channel: "keep k (take_channel i)"
  by (rule keepI) (simp add: take_channel_Inr any_taken)

lemma keep_channel_set_state: "keep k (q931_channel_set_state i cs)"
  by (rule keepI) (simp add: q931_channel_set_state_def set_channel_Inr any_state)

lemmas keep_any = keep_take_channel keep_channel_set_state keep_out

end


section \<open>References\<close>

text \<open>
  The reference count of a call is the number of its owners: those outside (the callers and the call control block),
  the pending timers, the list of the interface, and the endpoints.
\<close>

definition call_owners :: "q931_call \<Rightarrow> int" where
  "call_owners c = int (card (timers c)) + of_bool (on_intf c) + int (length (call_ces c))"

definition ces_ids_ok :: "q931_call \<Rightarrow> bool" where
  "ces_ids_ok c \<longleftrightarrow> distinct (map ces_id (call_ces c)) \<and> list_all (\<lambda>i. i < next_ces c) (map ces_id (call_ces c))"

definition refs_ok :: "int \<Rightarrow> q931_call \<Rightarrow> bool" where
  "refs_ok k c \<longleftrightarrow> refcnt c = k + call_owners c \<and> ces_ids_ok c"

lemma length_remove_ces:
  "distinct (map ces_id ss) \<Longrightarrow> find (\<lambda>s. ces_id s = i) ss = Some s \<Longrightarrow>
     length ss = Suc (length (filter (\<lambda>s. ces_id s \<noteq> i) ss))"
proof (induction ss)
  case (Cons a ss)
  show ?case
  proof (cases "ces_id a = i")
    case True
    with Cons.prems have "i \<notin> ces_id ` set ss" by (simp del: distinct_map)
    then have "\<forall>s \<in> set ss. ces_id s \<noteq> i" by blast
    then have "filter (\<lambda>s. ces_id s \<noteq> i) ss = ss" by (simp add: filter_id_conv)
    with True show ?thesis by simp
  next
    case False
    with Cons show ?thesis by simp
  qed
qed simp

lemma distinct_filter_ids: "distinct (map ces_id ss) \<Longrightarrow> distinct (map ces_id (filter P ss))"
  by (induction ss) auto

lemma core_refs:
  assumes "core c' = core c"
  shows "refs_ok k c' = refs_ok k c"
proof -
  have ids: "map ces_id (call_ces c') = map ces_id (call_ces c)" and
    rest: "refcnt c' = refcnt c" "on_intf c' = on_intf c" "timers c' = timers c" "next_ces c' = next_ces c"
    using assms unfolding core_def by simp_all
  from ids have "length (call_ces c') = length (call_ces c)" by (rule map_eq_imp_length_eq)
  with ids rest show ?thesis unfolding refs_ok_def call_owners_def ces_ids_ok_def by simp
qed

lemma card_insert_timer: "t \<notin> T \<Longrightarrow> card (insert t T) = Suc (card (T :: q931_call_timer set))"
  by (rule card_insert_disjoint) simp_all

lemma card_remove_timer: "t \<in> T \<Longrightarrow> int (card (T - {t})) = int (card (T :: q931_call_timer set)) - 1"
  using card.remove [of T t] by simp

lemma fresh_id: "list_all (\<lambda>i. i < n) ids \<Longrightarrow> n \<notin> set ids \<and> list_all (\<lambda>i. i < Suc n) ids"
  by (induction ids) auto

interpretation refs: call_invariant refs_ok
proof (unfold_locales, goal_cases)
  case 1 then show ?case using core_refs by blast
next
  case (4 k c t) then show ?case
    using card_insert_timer [of t "timers c"] unfolding refs_ok_def call_owners_def ces_ids_ok_def by simp
next
  case (5 k c t) then show ?case
    using card_remove_timer [of t "timers c"] unfolding refs_ok_def call_owners_def ces_ids_ok_def
    by (simp del: card_Diff_singleton)
next
  case (7 k c s)
  let ?ids = "map ces_id (call_ces c)"
  from 7 have "list_all (\<lambda>i. i < next_ces c) ?ids" unfolding refs_ok_def ces_ids_ok_def by simp
  then have "next_ces c \<notin> set ?ids" "list_all (\<lambda>i. i < Suc (next_ces c)) ?ids"
    using fresh_id [of "next_ces c" ?ids] by simp_all
  with 7 show ?case unfolding refs_ok_def call_owners_def ces_ids_ok_def by simp
next
  case (8 k c i s n)
  then show ?case
    using length_remove_ces [of "call_ces c" i s] distinct_filter_ids [of "call_ces c" "\<lambda>s. ces_id s \<noteq> i"]
    unfolding refs_ok_def call_owners_def ces_ids_ok_def by (simp add: list_all_iff)
qed (simp_all add: refs_ok_def call_owners_def ces_ids_ok_def)

section \<open>Channels\<close>

text \<open>The channel of a call is one of the interface, and it points back to the call.\<close>

fun channel_link :: "nat option \<Rightarrow> q931_channel list \<Rightarrow> bool" where
  "channel_link None chans = True"
| "channel_link (Some i) chans = (i < length chans \<and> chan_call (chans ! i) = This_call)"

definition channel_ok :: "q931_call \<Rightarrow> bool" where
  "channel_ok c \<longleftrightarrow> channel_link (call_channel c) (intf_channels c)"

lemma link_update:
  "channel_link ch chans \<Longrightarrow> i < length chans \<Longrightarrow> chan_call x = chan_call (chans ! i) \<Longrightarrow> channel_link ch (chans[i := x])"
  by (cases ch) (auto simp: nth_list_update)

interpretation chans: call_invariant "\<lambda>k. channel_ok"
proof (unfold_locales, goal_cases)
  case 1 then show ?case unfolding core_def channel_ok_def by simp
next
  case (10 k c i cs)
  then show ?case
    using link_update [of "call_channel c" "intf_channels c" i "(intf_channels c ! i)\<lparr>chan_state := cs\<rparr>"]
    unfolding channel_ok_def by simp
next
  case (14 k c i cs)
  then show ?case
    using link_update [of "call_channel c" "intf_channels c" i "(intf_channels c ! i)\<lparr>chan_state := cs\<rparr>"]
    unfolding channel_ok_def by simp
qed (simp_all add: channel_ok_def split: if_splits)

section \<open>The channels of other calls\<close>

text \<open>
  The channels in \<open>S\<close> are with other calls and not available: they stay as they are, and none is taken from its call
  (\<open>os\<close> has what was sent to that end before).
\<close>

definition others_ok :: "nat \<Rightarrow> (nat \<Rightarrow> q931_channel option) \<Rightarrow> q931_out list \<Rightarrow> q931_call \<Rightarrow> bool" where
  "others_ok n S os c \<longleftrightarrow> channel_ok c \<and> length (intf_channels c) = n \<and> filter clears_other (outs c) = os \<and>
     (\<forall>i ch. S i = Some ch \<longrightarrow> i < n \<and> intf_channels c ! i = ch \<and>
        chan_call ch = Other_call \<and> chan_state ch \<noteq> Q931_CHANSTATE_AVAILABLE)"

interpretation others: guarded_invariant "\<lambda>k. others_ok n S os" for n S os
proof (unfold_locales, goal_cases)
  case (9 k c i)
  have "S i = None"
  proof (rule ccontr)
    assume "S i \<noteq> None"
    with 9 show False unfolding others_ok_def channel_ok_def available_def by auto
  qed
  with 9 show ?case unfolding others_ok_def channel_ok_def by (auto simp: nth_list_update)
next
  case (10 k c i cs)
  then have "S i = None" unfolding others_ok_def channel_ok_def by (cases "S i") auto
  with 10 show ?case unfolding others_ok_def channel_ok_def by (auto simp: nth_list_update)
next
  case (11 k c i ch os')
  then have "S i = None" "chan_call (intf_channels c ! i) = This_call" unfolding others_ok_def channel_ok_def by (cases "S i"; auto)+
  with 11 show ?case unfolding others_ok_def channel_ok_def by (auto simp: nth_list_update)
qed (simp_all add: others_ok_def channel_ok_def core_def)

section \<open>Sequences of events\<close>

definition q931_events :: "q931_call_event list \<Rightarrow> stmt" where
  "q931_events es = seq (map q931_event es)"

lemma refs_events: "refs_ok k c \<Longrightarrow> q931_events es c = Inr c' \<Longrightarrow> refs_ok k c'"
  unfolding q931_events_def using refs.keepD [OF refs.keep_seq_map [OF refs.keep_event]] .

lemma channel_events: "channel_ok c \<Longrightarrow> q931_events es c = Inr c' \<Longrightarrow> channel_ok c'"
  unfolding q931_events_def using chans.keepD [OF chans.keep_seq_map [OF chans.keep_event]] .

text \<open>A new call is held by its caller and by the list of the interface.\<close>

lemma alloc_fields:
  "refcnt (q931_call_alloc i) = 1" "on_intf (q931_call_alloc i) = False" "timers (q931_call_alloc i) = {}"
  "call_ces (q931_call_alloc i) = []" "call_channel (q931_call_alloc i) = None"
  "call_state (q931_call_alloc i) = (if intf_role i = LAPD_INTF_ROLE_TE then U0_NULL_STATE else N0_NULL_STATE)"
  "intf_role (q931_call_alloc i) = intf_role i" "intf_mode (q931_call_alloc i) = intf_mode i"
  unfolding q931_call_alloc_def q931_interface.defs q931_call.defs by simp_all

definition q931_new_call :: "q931_interface \<Rightarrow> q931_call \<Rightarrow> bool" where
  "q931_new_call i c \<longleftrightarrow>
     (\<exists>dlc r. q931_call_alloc_in i dlc r = Inr c) \<or> (\<exists>r. q931_call_alloc_out i r = Inr c) \<or>
     (\<exists>dlc r. q931_call_alloc_unknown i dlc r = Inr c)"

lemma alloc_values:
  "q931_call_alloc_in i dlc r = Inr c \<Longrightarrow>
     c = (q931_call_alloc i)\<lparr>call_dlc := Some (if dlc = Bc_dlc then Intf_dlc else dlc), broadcast_setup := (dlc = Bc_dlc),
           call_direction := Q931_CALL_DIRECTION_INBOUND, call_reference := r, refcnt := 2, on_intf := True\<rparr>"
  "q931_call_alloc_out i r = Inr c \<Longrightarrow>
     c = (q931_call_alloc i)\<lparr>call_direction := Q931_CALL_DIRECTION_OUTBOUND, call_reference := r,
           call_dlc := (if intf_role i = LAPD_INTF_ROLE_TE \<or> intf_mode i = LAPD_INTF_MODE_POINT_TO_POINT then Some Intf_dlc else None),
           refcnt := 2, on_intf := True\<rparr>"
  "q931_call_alloc_unknown i dlc r = Inr c \<Longrightarrow>
     c = (q931_call_alloc i)\<lparr>call_direction := Q931_CALL_DIRECTION_OUTBOUND, call_reference := r,
           call_dlc := Some (if dlc = Bc_dlc then Intf_dlc else dlc), refcnt := 2, on_intf := True\<rparr>"
  by (simp_all add: q931_call_alloc_in_def q931_call_alloc_out_def q931_call_alloc_unknown_def
      q931_call_get_def q931_intf_add_call_def upd_def assert_that_def alloc_fields split: if_splits)

lemma new_call: "q931_new_call i c \<Longrightarrow> refs_ok 1 c \<and> channel_ok c \<and> on_intf c"
  unfolding q931_new_call_def
  by (elim disjE exE; drule alloc_values;
      simp add: refs_ok_def call_owners_def ces_ids_ok_def channel_ok_def alloc_fields)

lemma no_owners: "call_owners c = 0 \<longleftrightarrow> timers c = {} \<and> call_ces c = [] \<and> \<not> on_intf c"
proof -
  have "int a + of_bool b + int d = 0 \<longleftrightarrow> a = 0 \<and> d = 0 \<and> \<not> b" for a b d by (cases b) auto
  then show ?thesis unfolding call_owners_def by simp
qed

text \<open>
  C6. The reference count of a call is the number of its owners, through every sequence of events from its allocation:
  one for the caller, one for each pending timer, one for each endpoint and one while the call is in the list of the
  interface. So when the caller puts its reference the call is freed exactly when nothing leads to it any more.
\<close>

theorem call_references:
  assumes "q931_new_call i c" "q931_events es c = Inr c'"
  shows "refcnt c' = 1 + int (card (timers c')) + of_bool (on_intf c') + int (length (call_ces c')) \<and>
         (refcnt c' = 1 \<longleftrightarrow> timers c' = {} \<and> call_ces c' = [] \<and> \<not> on_intf c')"
proof -
  have "refs_ok 1 c'" using refs_events [OF _ assms(2)] new_call [OF assms(1)] by blast
  then have "refcnt c' = 1 + call_owners c'" unfolding refs_ok_def by simp
  with no_owners [of c'] show ?thesis unfolding call_owners_def by simp
qed

text \<open>
  C7. Through every sequence of the call's own events from its allocation, the channel a call points to is one of its interface and
  points back to the call. What the events of the other calls do to it is in C14, and C15 shows how one of them takes the channel.
\<close>

theorem call_channel_linked:
  assumes "q931_new_call i c" "q931_events es c = Inr c'" "call_channel c' = Some ch"
  shows "ch < length (intf_channels c') \<and> chan_call (intf_channels c' ! ch) = This_call"
  using channel_events [OF _ assms(2)] new_call [OF assms(1)] assms(3) unfolding channel_ok_def by simp

section \<open>Call references\<close>

lemma find_free_step:
  "q931_intf_find_free_call_reference limit used next =
     (if next \<in> used then
        if next = next_reference limit next then Some (-1, next_reference limit next)
        else q931_intf_find_free_call_reference limit used (next_reference limit next)
      else Some (next, next_reference limit next))"
  by (subst q931_intf_find_free_call_reference.simps) (simp add: Let_def)

lemma find_free_up:
  assumes "0 < next" "next + int d < limit" "next + int d \<notin> used" "\<forall>j < d. next + int j \<in> used"
  shows "q931_intf_find_free_call_reference limit used next = Some (next + int d, next_reference limit (next + int d))"
  using assms
proof (induction d arbitrary: "next")
  case 0
  then show ?case by (subst find_free_step) simp
next
  case (Suc d)
  have "next \<in> used" using Suc.prems(4) by force
  moreover have n: "next_reference limit next = next + 1" using Suc.prems(2) unfolding next_reference_def by simp
  moreover have "\<forall>j < d. next + 1 + int j \<in> used"
  proof (intro allI impI)
    fix j assume "j < d"
    then have "next + int (Suc j) \<in> used" using Suc.prems(4) by blast
    then show "next + 1 + int j \<in> used" by (simp add: algebra_simps)
  qed
  ultimately show ?case using Suc.IH [of "next + 1"] Suc.prems(1-3) by (subst find_free_step) (simp add: algebra_simps)
qed

lemma find_free_round:
  assumes "2 < limit" "0 < next" "next < limit" "\<forall>r. next \<le> r \<and> r < limit \<longrightarrow> r \<in> used"
  shows "q931_intf_find_free_call_reference limit used next = q931_intf_find_free_call_reference limit used 1"
  using assms(2-)
proof (induction "nat (limit - next)" arbitrary: "next")
  case (Suc d)
  have "next \<in> used" "next \<noteq> next_reference limit next" using Suc.prems assms(1) unfolding next_reference_def by auto
  then have step: "q931_intf_find_free_call_reference limit used next =
      q931_intf_find_free_call_reference limit used (next_reference limit next)"
    by (subst find_free_step) simp
  show ?case
  proof (cases "next + 1 < limit")
    case True
    then show ?thesis using step Suc.hyps(1) [of "next + 1"] Suc.hyps(2) Suc.prems unfolding next_reference_def by simp
  qed (simp add: step next_reference_def)
qed simp

lemma find_free_from:
  assumes "0 < next" "next \<le> r" "r < limit" "r \<notin> used"
  shows "\<exists>r. q931_intf_find_free_call_reference limit used next = Some (r, next_reference limit r) \<and>
             1 \<le> r \<and> r < limit \<and> r \<notin> used"
proof -
  define d where "d = (LEAST d. next + int d \<notin> used)"
  have ex: "next + int (nat (r - next)) \<notin> used" using assms by simp
  then have "next + int d \<notin> used" "d \<le> nat (r - next)" unfolding d_def by (rule LeastI, rule Least_le)
  moreover have "\<forall>j < d. next + int j \<in> used" unfolding d_def using not_less_Least by blast
  ultimately show ?thesis using find_free_up [of "next" d limit used] assms by force
qed

text \<open>
  C10. A new call reference that is found is in range and not in use, and one is found when one is free: from the next one on,
  and round from the first one.
\<close>

theorem free_reference_found:
  assumes "0 < next" "next < limit" "1 \<le> r" "r < limit" "r \<notin> used"
  shows "\<exists>r. q931_intf_find_free_call_reference limit used next = Some (r, next_reference limit r) \<and>
             1 \<le> r \<and> r < limit \<and> r \<notin> used"
proof (cases "\<exists>r'. next \<le> r' \<and> r' < limit \<and> r' \<notin> used")
  case True
  then show ?thesis using find_free_from assms(1) by blast
next
  case False
  then have "2 < limit" using assms by force
  with False assms have "q931_intf_find_free_call_reference limit used next = q931_intf_find_free_call_reference limit used 1"
    by (intro find_free_round) auto
  then show ?thesis using find_free_from [of 1 r limit used] assms by simp
qed

lemma find_free_Some:
  "q931_intf_find_free_call_reference limit used next = Some y \<Longrightarrow>
     2 < limit \<longrightarrow> 0 < next \<longrightarrow> next < limit \<longrightarrow> \<not> (\<forall>r. 1 \<le> r \<and> r < limit \<longrightarrow> r \<in> used)"
proof (rule q931_intf_find_free_call_reference.raw_induct [where
    P = "\<lambda>limit used next y. 2 < limit \<longrightarrow> 0 < next \<longrightarrow> next < limit \<longrightarrow> \<not> (\<forall>r. 1 \<le> r \<and> r < limit \<longrightarrow> r \<in> used)"])
  fix f :: "int \<Rightarrow> int set \<Rightarrow> int \<Rightarrow> (int \<times> int) option" and limit used "next" y
  assume IH: "\<And>limit used next y. f limit used next = Some y \<Longrightarrow>
      2 < limit \<longrightarrow> 0 < next \<longrightarrow> next < limit \<longrightarrow> \<not> (\<forall>r. 1 \<le> r \<and> r < limit \<longrightarrow> r \<in> used)"
    and f: "(let r = next; next' = next_reference limit next in
        if r \<in> used then if r = next' then Some (- 1, next') else f limit used next' else Some (r, next')) = Some y"
  show "2 < limit \<longrightarrow> 0 < next \<longrightarrow> next < limit \<longrightarrow> \<not> (\<forall>r. 1 \<le> r \<and> r < limit \<longrightarrow> r \<in> used)"
  proof (intro impI notI)
    assume r: "2 < limit" "0 < next" "next < limit" and all: "\<forall>r. 1 \<le> r \<and> r < limit \<longrightarrow> r \<in> used"
    then have "next \<in> used" "next \<noteq> next_reference limit next" "0 < next_reference limit next" "next_reference limit next < limit"
      unfolding next_reference_def by auto
    moreover from this f have "f limit used (next_reference limit next) = Some y" by (simp add: Let_def)
    ultimately show False using IH r all by blast
  qed
qed

text \<open>
  When all the call references of the interface are in use the search for a free one does not end.
\<close>

theorem reference_search_hangs:
  assumes "2 < limit" "0 < next" "next < limit" "\<forall>r. 1 \<le> r \<and> r < limit \<longrightarrow> r \<in> used"
  shows "q931_intf_find_free_call_reference limit used next = None"
  using find_free_Some [of limit used "next"] assms by (metis not_None_eq)

end
