(* ===== verification/Q931_Call_Runs.thy ===== *)
theory Q931_Call_Runs
  imports Q931_Call_Inv
begin

text \<open>
  Total correctness of the statements a call is made of: a statement is run on a view of the call (its state, the pending
  timers, whether it is listed, whether it has a channel), with a rule for each of the statements, on calls that keep the
  invariants of the references and of the channel.
\<close>

named_theorems oks

section \<open>Running a statement on a view\<close>

text \<open>
  What a handler of the user side relies on besides the view: a reference held outside, the invariants of the references
  and of the channel, a data link, and no endpoints.
\<close>

definition user_base :: "int \<Rightarrow> q931_call \<Rightarrow> bool" where
  "user_base k c \<longleftrightarrow> refs_ok k c \<and> channel_ok c \<and> call_ces c = [] \<and> call_dlc c \<noteq> None"

definition user_good :: "int \<Rightarrow> q931_call \<Rightarrow> bool" where
  "user_good k c \<longleftrightarrow> 1 \<le> k \<and> user_base k c"

text \<open>What the decoding of a message and the choice of a channel depend on.\<close>

definition same_surroundings :: "q931_call \<Rightarrow> q931_call \<Rightarrow> bool" where
  "same_surroundings c c0 \<longleftrightarrow>
     call_msg_env c = call_msg_env c0 \<and> intf_role c = intf_role c0 \<and> intf_network_role c = intf_network_role c0 \<and>
     call_direction c = call_direction c0 \<and> intf_channels c = intf_channels c0 \<and>
     intf_n_channels c = intf_n_channels c0 \<and> senq_cnt c = senq_cnt c0 \<and> T308_fired c = T308_fired c0"

lemma same_frame [simp]:
  "same_surroundings (c\<lparr>call_state := s\<rparr>) c0 = same_surroundings c c0"
  "same_surroundings (c\<lparr>refcnt := r\<rparr>) c0 = same_surroundings c c0"
  "same_surroundings (c\<lparr>timers := T\<rparr>) c0 = same_surroundings c c0"
  "same_surroundings (c\<lparr>on_intf := b\<rparr>) c0 = same_surroundings c c0"
  "same_surroundings (c\<lparr>outs := os\<rparr>) c0 = same_surroundings c c0"
  "same_surroundings (c\<lparr>call_channel := ch\<rparr>) c0 = same_surroundings c c0"
  "same_surroundings (c\<lparr>disconnect_cause := ies\<rparr>) c0 = same_surroundings c c0"
  unfolding same_surroundings_def call_msg_env_def by simp_all

type_synonym view =
  "q931_call_state \<times> q931_call_timer set \<times> bool \<times> bool \<times> nat \<times> q931_call option"

fun viewed :: "view \<Rightarrow> q931_call \<Rightarrow> bool" where
  "viewed (s, T, l, h, n, x) c \<longleftrightarrow>
     call_state c = s \<and> timers c = T \<and> on_intf c = l \<and> (call_channel c \<noteq> None) = h \<and> length (disconnect_cause c) = n \<and>
     pred_option (same_surroundings c) x"

definition runs :: "int \<Rightarrow> stmt \<Rightarrow> (view \<Rightarrow> bool) \<Rightarrow> view \<Rightarrow> bool" where
  "runs k f Q v \<longleftrightarrow>
     (\<forall>c. user_good k c \<and> viewed v c \<longrightarrow> (\<exists>c' v'. f c = Inr c' \<and> user_good k c' \<and> viewed v' c' \<and> Q v'))"

lemma runsI: "(\<And>c. user_good k c \<Longrightarrow> viewed v c \<Longrightarrow> \<exists>c' v'. f c = Inr c' \<and> user_good k c' \<and> viewed v' c' \<and> Q v') \<Longrightarrow> runs k f Q v"
  unfolding runs_def by blast

lemma runsE:
  assumes "runs k f Q v" "user_good k c" "viewed v c"
  obtains c' v' where "f c = Inr c'" "user_good k c'" "viewed v' c'" "Q v'"
  using assms unfolding runs_def by blast

lemma good_live: "user_good k c \<Longrightarrow> 0 < refcnt c"
  unfolding user_good_def user_base_def refs_ok_def call_owners_def by simp

text \<open>A statement whose invariants are known: what is left is that it comes to its end and what becomes of the view.\<close>

lemma runs_step:
  assumes "refs.keep k f" "chans.keep k f" "Q v'"
    and "\<And>c. user_good k c \<Longrightarrow> viewed v c \<Longrightarrow>
           \<exists>c'. f c = Inr c' \<and> viewed v' c' \<and> call_ces c' = call_ces c \<and> call_dlc c' = call_dlc c"
  shows "runs k f Q v"
proof (rule runsI)
  fix c assume c: "user_good k c" "viewed v c"
  with assms(4) obtain c' where c': "f c = Inr c'" "viewed v' c'" "call_ces c' = call_ces c" "call_dlc c' = call_dlc c"
    by blast
  moreover have "refs_ok k c'" "channel_ok c'"
    using refs.keepD [OF assms(1) _ c'(1)] chans.keepD [OF assms(2) _ c'(1)] c(1) unfolding user_good_def user_base_def by blast+
  ultimately have "user_good k c'" using c(1) unfolding user_good_def user_base_def by simp
  with c' assms(3) show "\<exists>c' v'. f c = Inr c' \<and> user_good k c' \<and> viewed v' c' \<and> Q v'" by blast
qed

lemma runs_seq_Nil [oks]: "Q v \<Longrightarrow> runs k (seq []) Q v"
  unfolding runs_def seq.simps by blast

lemma runs_seq_Cons [oks]: "runs k f (runs k (seq fs) Q) v \<Longrightarrow> runs k (seq (f # fs)) Q v"
  unfolding runs_def seq.simps bind_res_eq_Inr by blast

lemma runs_switch:
  "runs k (switch [] d) Q v = runs k d Q v"
  "runs k (switch ((ss, f) # cs) d) Q (s, T, l, h, n, x) =
     (if s \<in> set ss then runs k f Q (s, T, l, h, n, x) else runs k (switch cs d) Q (s, T, l, h, n, x))"
  unfolding runs_def by simp_all

lemma runs_if_then_else [oks]: "runs k f Q v \<Longrightarrow> runs k g Q v \<Longrightarrow> runs k (if_then_else b f g) Q v"
  unfolding runs_def if_then_else_def by auto

lemma runs_with_cur [oks]: "(\<And>y. runs k (f y) Q v) \<Longrightarrow> runs k (with_cur g f) Q v"
  unfolding runs_def with_cur_def by blast

lemma runs_with_val:
  "(\<And>c. user_good k c \<Longrightarrow> viewed v c \<Longrightarrow> \<exists>y. g c = Inr y \<and> P y) \<Longrightarrow> (\<And>y. P y \<Longrightarrow> runs k (f y) Q v) \<Longrightarrow> runs k (with_val g f) Q v"
  unfolding runs_def with_val_def by fastforce

lemma runs_if [oks]: "(b \<Longrightarrow> runs k f Q v) \<Longrightarrow> (\<not> b \<Longrightarrow> runs k g Q v) \<Longrightarrow> runs k (if b then f else g) Q v"
  by simp

lemma runs_frame:
  assumes "Q v"
    and g: "\<And>c. core (g c) = core c" "\<And>c. call_state (g c) = call_state c" "\<And>c. disconnect_cause (g c) = disconnect_cause c"
      "\<And>c. call_ces (g c) = call_ces c" "\<And>c. call_dlc (g c) = call_dlc c"
      "\<And>c c0. same_surroundings (g c) c0 = same_surroundings c c0"
  shows "runs k (upd g) Q v"
proof (rule runs_step [OF refs.keep_upd chans.keep_upd])
  fix c assume c: "user_good k c" "viewed v c"
  obtain s T l h n x where v: "v = (s, T, l, h, n, x)" by (cases v)
  have "timers (g c) = timers c" "on_intf (g c) = on_intf c" "call_channel (g c) = call_channel c"
    using g(1) [of c] unfolding core_def by simp_all
  moreover have "pred_option (same_surroundings (g c)) x = pred_option (same_surroundings c) x"
    by (cases x) (simp_all add: g)
  ultimately have "viewed v (g c)" using c(2) unfolding v by (simp add: g)
  then show "\<exists>c'. upd g c = Inr c' \<and> viewed v c' \<and> call_ces c' = call_ces c \<and> call_dlc c' = call_dlc c"
    using good_live [OF c(1)] by (simp add: upd_def g)
qed (simp_all add: assms)

lemma runs_out [oks]: "Q v \<Longrightarrow> runs k (out e) Q v"
proof (rule runs_step [OF refs.keep_out chans.keep_out])
  fix c assume c: "user_good k c" "viewed v c"
  obtain s T l h n x where v: "v = (s, T, l, h, n, x)" by (cases v)
  have "viewed v (c\<lparr>outs := outs c @ [e]\<rparr>)" using c(2) unfolding v by (cases x) simp_all
  then show "\<exists>c'. out e c = Inr c' \<and> viewed v c' \<and> call_ces c' = call_ces c \<and> call_dlc c' = call_dlc c"
    using good_live [OF c(1)] by (simp add: out_def upd_def)
qed

lemma runs_fields [oks]:
  "Q v \<Longrightarrow> runs k nothing Q v"
  "Q v \<Longrightarrow> runs k (upd (\<lambda>c. c\<lparr>setup_ies := ies\<rparr>)) Q v"
  "Q v \<Longrightarrow> runs k (upd (\<lambda>c. c\<lparr>disconnect_indication_sent := b\<rparr>)) Q v"
  "Q v \<Longrightarrow> runs k (upd (\<lambda>c. c\<lparr>release_complete_received := b\<rparr>)) Q v"
  "Q v \<Longrightarrow> runs k (upd (\<lambda>c. c\<lparr>T303_fired := b\<rparr>)) Q v"
  unfolding nothing_def
  by (rule runs_frame; simp add: same_surroundings_def call_msg_env_def core_def)+

lemma runs_senq [oks]:
  "Q (s, T, l, h, n, None) \<Longrightarrow> runs k (upd (\<lambda>c. c\<lparr>senq_status_97_98_received := b, senq_cnt := m\<rparr>)) Q (s, T, l, h, n, x)"
  "Q (s, T, l, h, n, None) \<Longrightarrow> runs k (upd (\<lambda>c. c\<lparr>senq_cnt := senq_cnt c + 1\<rparr>)) Q (s, T, l, h, n, x)"
  "Q (s, T, l, h, n, None) \<Longrightarrow> runs k (upd (\<lambda>c. c\<lparr>T308_fired := b\<rparr>)) Q (s, T, l, h, n, x)"
  by (rule runs_step [OF refs.keep_fields(12) chans.keep_fields(12)], assumption, simp add: upd_def good_live)
     (rule runs_step [OF refs.keep_fields(13) chans.keep_fields(13)], assumption, simp add: upd_def good_live,
      rule runs_step [OF refs.keep_fields(11) chans.keep_fields(11)], assumption, simp add: upd_def good_live)

lemma runs_set_state [oks]: "Q (s', T, l, h, n, x) \<Longrightarrow> runs k (q931_call_set_state s') Q (s, T, l, h, n, x)"
proof (rule runs_step [OF refs.keep_fields(3) chans.keep_fields(3)])
  fix c assume c: "user_good k c" "viewed (s, T, l, h, n, x) c"
  then have "viewed (s', T, l, h, n, x) (c\<lparr>call_state := s'\<rparr>)"
    by (cases x) simp_all
  then show "\<exists>c'. q931_call_set_state s' c = Inr c' \<and> viewed (s', T, l, h, n, x) c' \<and> call_ces c' = call_ces c \<and> call_dlc c' = call_dlc c"
    using good_live [OF c(1)] by (simp add: q931_call_set_state_def upd_def)
qed

lemma runs_start_timer [oks]: "Q (s, insert t T, l, h, n, x) \<Longrightarrow> runs k (q931_call_start_timer t) Q (s, T, l, h, n, x)"
proof (rule runs_step [OF refs.keep_start_timer chans.keep_start_timer])
  fix c assume c: "user_good k c" "viewed (s, T, l, h, n, x) c"
  then have "viewed (s, insert t T, l, h, n, x) (c\<lparr>refcnt := refcnt c + 1, timers := insert t (timers c)\<rparr>)"
    "t \<in> T \<Longrightarrow> viewed (s, insert t T, l, h, n, x) c"
    by (cases x; simp add: insert_absorb)+
  then show "\<exists>c'. q931_call_start_timer t c = Inr c' \<and> viewed (s, insert t T, l, h, n, x) c' \<and> call_ces c' = call_ces c \<and> call_dlc c' = call_dlc c"
    using c good_live [OF c(1)]
    by (simp add: q931_call_start_timer_def q931_call_get_def if_then_else_def nothing_def upd_def del: viewed.simps) simp
qed

lemma runs_restart_timer [oks]: "Q (s, insert t T, l, h, n, x) \<Longrightarrow> runs k (q931_call_restart_timer t) Q (s, T, l, h, n, x)"
proof (rule runs_step [OF refs.keep_restart_timer chans.keep_restart_timer])
  fix c assume c: "user_good k c" "viewed (s, T, l, h, n, x) c"
  then have "viewed (s, insert t T, l, h, n, x) (c\<lparr>refcnt := refcnt c + 1, timers := insert t (timers c)\<rparr>)"
    "viewed (s, insert t T, l, h, n, x) (c\<lparr>timers := insert t (timers c)\<rparr>)"
    by (cases x; simp)+
  then show "\<exists>c'. q931_call_restart_timer t c = Inr c' \<and> viewed (s, insert t T, l, h, n, x) c' \<and> call_ces c' = call_ces c \<and> call_dlc c' = call_dlc c"
    using good_live [OF c(1)]
    by (simp add: q931_call_restart_timer_def q931_call_get_def if_then_else_def nothing_def upd_def del: viewed.simps)
qed

lemma runs_stop_timer [oks]: "Q (s, T - {t}, l, h, n, x) \<Longrightarrow> runs k (q931_call_stop_timer t) Q (s, T, l, h, n, x)"
proof (rule runs_step [OF refs.keep_stop_timer chans.keep_stop_timer])
  fix c assume c: "user_good k c" "viewed (s, T, l, h, n, x) c"
  then have "viewed (s, T - {t}, l, h, n, x) (c\<lparr>timers := timers c - {t}, refcnt := refcnt c - 1\<rparr>)"
    "t \<notin> T \<Longrightarrow> viewed (s, T - {t}, l, h, n, x) c"
    by (cases x; simp)+
  then show "\<exists>c'. q931_call_stop_timer t c = Inr c' \<and> viewed (s, T - {t}, l, h, n, x) c' \<and> call_ces c' = call_ces c \<and> call_dlc c' = call_dlc c"
    using c good_live [OF c(1)]
    by (simp add: q931_call_stop_timer_def q931_call_put_def if_then_else_def nothing_def upd_def del: viewed.simps) simp
qed

lemma runs_stop_timers: "Q (s, T - set ts, l, h, n, x) \<Longrightarrow> runs k (seq (map q931_call_stop_timer ts)) Q (s, T, l, h, n, x)"
proof (induction ts arbitrary: T)
  case (Cons t ts)
  have "T - {t} - set ts = T - set (t # ts)" by auto
  with Cons.prems have "Q (s, T - {t} - set ts, l, h, n, x)" by metis
  from Cons.IH [OF this] show ?case by (simp only: list.map) (intro oks)
qed (simp add: runs_seq_Nil)

lemma runs_stop_any_timer [oks]: "Q (s, {}, l, h, n, x) \<Longrightarrow> runs k q931_call_stop_any_timer Q (s, T, l, h, n, x)"
proof -
  have "t \<in> set q931_call_timers" for t unfolding q931_call_timers_def by (cases t) simp_all
  then have "T - set q931_call_timers = {}" by blast
  then show "Q (s, {}, l, h, n, x) \<Longrightarrow> runs k q931_call_stop_any_timer Q (s, T, l, h, n, x)"
    unfolding q931_call_stop_any_timer_def by (intro runs_stop_timers) (simp only:)
qed

lemma runs_release_reference [oks]:
  "l \<Longrightarrow> Q (s, T, False, h, n, x) \<Longrightarrow> runs k q931_call_release_reference Q (s, T, l, h, n, x)"
proof (rule runs_step [OF refs.keep_release_reference chans.keep_release_reference])
  fix c assume c: "l" "user_good k c" "viewed (s, T, l, h, n, x) c"
  then have "viewed (s, T, False, h, n, x) (c\<lparr>on_intf := False, refcnt := refcnt c - 1\<rparr>)"
    by (cases x) simp_all
  moreover have "on_intf c" using c by simp
  ultimately show "\<exists>c'. q931_call_release_reference c = Inr c' \<and> viewed (s, T, False, h, n, x) c' \<and> call_ces c' = call_ces c \<and> call_dlc c' = call_dlc c"
    using good_live [OF c(2)]
    by (simp add: q931_call_release_reference_def q931_intf_del_call_def q931_call_put_def upd_def del: viewed.simps)
qed

section \<open>Messages, channels and elements\<close>

lemma runs_send [oks]: "Q v \<Longrightarrow> runs k (q931_call_send mt ies) Q v"
  unfolding q931_call_send_def
  by (rule runs_with_val [where P = "\<lambda>d. d \<noteq> None"])
     (auto simp: user_good_def user_base_def q931_call_send_message_def intro: oks)

lemma runs_primitives [oks]:
  "Q v \<Longrightarrow> runs k (q931_call_primitive1 p ies par) Q v" "Q v \<Longrightarrow> runs k (q931_call_primitive p ies) Q v"
  "Q v \<Longrightarrow> runs k q931_call_unexpected_primitive Q v" "Q v \<Longrightarrow> runs k q931_call_unexpected_timer Q v"
  "Q v \<Longrightarrow> runs k (q931_channel_primitive cp i) Q v"
  unfolding q931_call_primitive_def q931_call_primitive1_def q931_call_unexpected_primitive_def
    q931_call_unexpected_timer_def q931_channel_primitive_def
  by (intro oks, assumption)+

lemma good_channel:
  "user_good k c \<Longrightarrow> call_channel c = Some i \<Longrightarrow> i < length (intf_channels c) \<and> chan_call (intf_channels c ! i) = This_call"
  unfolding user_good_def user_base_def channel_ok_def by simp

lemma channel_views:
  "viewed (s, T, l, h, n, x) c \<Longrightarrow> viewed (s, T, l, h, n, None) c"
  "viewed (s, T, l, h, n, None) (c\<lparr>intf_channels := chans\<rparr>) = viewed (s, T, l, h, n, None) c"
  "viewed (s, T, l, h, n, None) (c\<lparr>outs := os\<rparr>) = viewed (s, T, l, h, n, None) c"
  "viewed (s, T, l, h', n, None) (c\<lparr>call_channel := ch\<rparr>) =
     (viewed (s, T, l, call_channel c \<noteq> None, n, None) c \<and> h' = (ch \<noteq> None))"
  by auto

lemma set_channel_value:
  "0 < refcnt c \<Longrightarrow> i < length (intf_channels c) \<Longrightarrow>
     set_channel i f c = Inr (c\<lparr>intf_channels := (intf_channels c)[i := f (intf_channels c ! i)]\<rparr>)"
  by (simp add: set_channel_def with_val_def chan_at_def upd_def)

lemmas channel_eval = on_channel_def on_channel_if_def with_val_def chan_at_def q931_channel_set_state_def
  set_channel_value q931_channel_primitive_def out_def upd_def nothing_def good_live

lemma runs_channel_disconnect [oks]:
  "Q (s, T, l, h, n, None) \<Longrightarrow> runs k q931_channel_disconnect Q (s, T, l, h, n, x)"
proof (rule runs_step [OF refs.keep_channel_ops(3) chans.keep_channel_ops(3)])
  fix c assume c: "user_good k c" "viewed (s, T, l, h, n, x) c"
  show "\<exists>c'. q931_channel_disconnect c = Inr c' \<and> viewed (s, T, l, h, n, None) c' \<and> call_ces c' = call_ces c \<and> call_dlc c' = call_dlc c"
    using channel_views(1) [OF c(2)] c(1)
    by (cases "call_channel c")
       (simp_all add: q931_channel_disconnect_def channel_eval good_channel channel_views(2-) del: viewed.simps)
qed

lemma runs_channel_connect [oks]:
  "h \<Longrightarrow> Q (s, T, l, h, n, None) \<Longrightarrow> runs k q931_channel_connect Q (s, T, l, h, n, x)"
proof (rule runs_step [OF refs.keep_channel_ops(1) chans.keep_channel_ops(1)])
  fix c assume c: "h" "user_good k c" "viewed (s, T, l, h, n, x) c"
  then obtain i where "call_channel c = Some i" by auto
  then show "\<exists>c'. q931_channel_connect c = Inr c' \<and> viewed (s, T, l, h, n, None) c' \<and> call_ces c' = call_ces c \<and> call_dlc c' = call_dlc c"
    using channel_views(1) [OF c(3)] c(2)
    by (simp add: q931_channel_connect_def channel_eval good_channel channel_views(2-) del: viewed.simps)
qed

lemma runs_channel_control [oks]:
  "h \<Longrightarrow> Q (s, T, l, h, n, None) \<Longrightarrow> runs k q931_channel_control Q (s, T, l, h, n, x)"
  unfolding q931_channel_control_def q931_channel_connect_def [symmetric] by (rule runs_channel_connect)

lemma runs_channel_release [oks]:
  "Q (s, T, l, False, n, None) \<Longrightarrow> runs k q931_channel_release Q (s, T, l, h, n, x)"
proof (rule runs_step [OF refs.keep_channel_release chans.keep_channel_release])
  fix c assume c: "user_good k c" "viewed (s, T, l, h, n, x) c"
  show "\<exists>c'. q931_channel_release c = Inr c' \<and> viewed (s, T, l, False, n, None) c' \<and> call_ces c' = call_ces c \<and> call_dlc c' = call_dlc c"
    using c good_channel [OF c(1)]
    by (cases "call_channel c") (simp_all add: q931_channel_release_def channel_eval)
qed

lemma runs_maintainance [oks]:
  "Q (s, T, l, h, n, None) \<Longrightarrow>
   runs k (if_then_else (\<lambda>c. b c \<and> call_channel c \<noteq> None)
     (on_channel (\<lambda>i. q931_channel_set_state i cs)) nothing) Q (s, T, l, h, n, x)"
proof (rule runs_step)
  fix c assume c: "user_good k c" "viewed (s, T, l, h, n, x) c"
  show "\<exists>c'. if_then_else (\<lambda>c. b c \<and> call_channel c \<noteq> None) (on_channel (\<lambda>i. q931_channel_set_state i cs)) nothing c = Inr c' \<and>
         viewed (s, T, l, h, n, None) c' \<and> call_ces c' = call_ces c \<and> call_dlc c' = call_dlc c"
    using c good_channel [OF c(1)]
    by (cases "call_channel c") (simp_all add: if_then_else_def channel_eval)
qed (intro keeps, intro keeps, assumption)

lemma runs_take_channel [oks]:
  assumes "x = Some c0" "i < length (intf_channels c0)" "Q (s, T, l, True, n, None)"
  shows "runs k (take_channel i) Q (s, T, l, h, n, x)"
proof (rule runs_step [where Q = Q, OF refs.keep_take_channel chans.keep_take_channel assms(3)])
  fix c assume c: "user_good k c" "viewed (s, T, l, h, n, x) c"
  then have "i < length (intf_channels c)" using assms by (simp add: same_surroundings_def)
  then show "\<exists>c'. take_channel i c = Inr c' \<and> viewed (s, T, l, True, n, None) c' \<and> call_ces c' = call_ces c \<and> call_dlc c' = call_dlc c"
    using c good_live [OF c(1)] by (simp add: take_channel_def channel_eval)
qed

text \<open>Lists of elements within the bounds of their array.\<close>

lemma add_all_fits:
  "length ies + length src \<le> Q931_IES_NUM_IES \<Longrightarrow> q931_ies_add_all ies src = Inr (ies @ src)"
  by (induction src arbitrary: ies) (simp_all add: q931_ies_add_def)

lemma copy_fits: "length src \<le> Q931_IES_NUM_IES \<Longrightarrow> q931_ies_copy src = Inr src"
  unfolding q931_ies_copy_def by (simp add: add_all_fits)

lemma merge_loop_fits:
  "length ies + length src \<le> Q931_IES_NUM_IES \<Longrightarrow>
     \<exists>r. ies_merge_loop ies src = Inr r \<and> length r \<le> length ies + length src"
proof (induction src arbitrary: ies)
  case (Cons ie src)
  then show ?case
    using Cons.IH [of ies] Cons.IH [of "ies @ [ie]"] by (fastforce simp: q931_ies_add_def)
qed simp

lemma merge_fits:
  "length ies + length src < Q931_IES_NUM_IES \<Longrightarrow>
     \<exists>r. q931_ies_merge ies src = Inr r \<and> length r \<le> length ies + length src"
  using merge_loop_fits [of ies src] by (simp add: q931_ies_merge_def)

lemma channel_id_made: "call_channel c \<noteq> None \<Longrightarrow> \<exists>ie. call_channel_id pe c = Inr ie"
  by (auto simp: call_channel_id_def q931_chanset_add_def Q931_CHANSET_MAX_SIZE_def)

definition elements_fit :: "q931_ie list \<Rightarrow> nat \<Rightarrow> bool" where
  "elements_fit ies n \<longleftrightarrow> n + length ies < Q931_IES_NUM_IES"

lemma runs_channel_elements:
  assumes "h" "elements_fit ies 0" "\<And>ies. runs k (f ies) Q (s, T, l, h, n, x)"
  shows "runs k (with_val (ies_with_channel pe ies) f) Q (s, T, l, h, n, x)"
proof (rule runs_with_val [where P = "\<lambda>_. True"])
  fix c assume "viewed (s, T, l, h, n, x) c"
  with assms(1) obtain ie where "call_channel_id pe c = Inr ie" using channel_id_made [of c pe] by auto
  with assms(2) merge_fits [of "[]" ies] show "\<exists>y. ies_with_channel pe ies c = Inr y \<and> True"
    by (auto simp: ies_with_channel_def elements_fit_def q931_ies_add_def)
qed (rule assms(3))

lemma runs_channel_id_added:
  assumes "h" "length ies < Q931_IES_NUM_IES" "\<And>ies. runs k (f ies) Q (s, T, l, h, n, x)"
  shows "runs k (with_val (\<lambda>c. bind_res (call_channel_id pe c) (q931_ies_add ies)) f) Q (s, T, l, h, n, x)"
proof (rule runs_with_val [where P = "\<lambda>_. True"])
  fix c assume "viewed (s, T, l, h, n, x) c"
  with assms(1) obtain ie where "call_channel_id pe c = Inr ie" using channel_id_made [of c pe] by auto
  with assms(2) show "\<exists>y. bind_res (call_channel_id pe c) (q931_ies_add ies) = Inr y \<and> True"
    by (simp add: q931_ies_add_def)
qed (rule assms(3))

lemma runs_copied: "elements_fit ies 0 \<Longrightarrow> runs k (f ies) Q v \<Longrightarrow> runs k (with_val (\<lambda>c. q931_ies_copy ies) f) Q v"
  by (rule runs_with_val [where P = "\<lambda>y. y = ies"]) (simp_all add: copy_fits elements_fit_def)

lemma runs_merged:
  "elements_fit ies 0 \<Longrightarrow> (\<And>r. length r < Q931_IES_NUM_IES \<Longrightarrow> runs k (f r) Q v) \<Longrightarrow>
     runs k (with_val (\<lambda>c. q931_ies_merge [] ies) f) Q v"
  by (rule runs_with_val [where P = "\<lambda>r. length r < Q931_IES_NUM_IES"])
     (use merge_fits [of "[]" ies] in \<open>auto simp: elements_fit_def\<close>)

lemma runs_release_elements:
  assumes "elements_fit ies n" "\<And>r. runs k (f r) Q (s, T, l, h, n, x)"
  shows "runs k (with_val (\<lambda>c. bind_res (q931_ies_merge [] (disconnect_cause c)) (\<lambda>r. q931_ies_merge r ies)) f) Q (s, T, l, h, n, x)"
proof (rule runs_with_val [where P = "\<lambda>_. True"])
  fix c assume "viewed (s, T, l, h, n, x) c"
  then have "length (disconnect_cause c) = n" by simp
  moreover from this obtain r where "q931_ies_merge [] (disconnect_cause c) = Inr r" "length r \<le> n"
    using merge_fits [of "[]" "disconnect_cause c"] assms(1) by (auto simp: elements_fit_def)
  ultimately show "\<exists>y. bind_res (q931_ies_merge [] (disconnect_cause c)) (\<lambda>r. q931_ies_merge r ies) = Inr y \<and> True"
    using merge_fits [of r ies] assms(1) by (auto simp: elements_fit_def)
qed (simp add: assms)

lemma runs_save_cause:
  assumes "elements_fit ies n" "\<And>n'. Q (s, T, l, h, n', x)"
  shows "runs k (q931_save_cause ies) Q (s, T, l, h, n, x)"
proof (rule runs_step [where Q = Q and v' = "(s, T, l, h, n + length (filter is_cause ies), x)"])
  fix c assume c: "user_good k c" "viewed (s, T, l, h, n, x) c"
  then have "length (disconnect_cause c) + length (filter is_cause ies) \<le> Q931_IES_NUM_IES"
    using assms(1) add_mono [OF order.refl length_filter_le, of n is_cause ies] by (simp add: elements_fit_def del: length_filter_le)
  moreover have "viewed (s, T, l, h, n + length (filter is_cause ies), x) (c\<lparr>disconnect_cause := disconnect_cause c @ filter is_cause ies\<rparr>)"
    using c(2) by (cases x) simp_all
  ultimately show "\<exists>c'. q931_save_cause ies c = Inr c' \<and> viewed (s, T, l, h, n + length (filter is_cause ies), x) c' \<and>
      call_ces c' = call_ces c \<and> call_dlc c' = call_dlc c"
    using good_live [OF c(1)] by (simp add: q931_save_cause_def with_val_def add_all_fits upd_def del: viewed.simps)
qed (simp_all add: assms q931_save_cause_def, (intro keeps)+)

lemma runs_call_status [oks]:
  "length ies < Q931_IES_NUM_IES \<Longrightarrow> Q v \<Longrightarrow> runs k (q931_call_send_call_status_with_state ies s) Q v"
  "length ies < Q931_IES_NUM_IES \<Longrightarrow> Q v \<Longrightarrow> runs k (q931_call_send_call_status ies) Q v"
  unfolding q931_call_send_call_status_def q931_call_send_call_status_with_state_def
  by (auto intro!: runs_with_val [where P = "\<lambda>_. True"] oks simp: copy_fits q931_ies_add_def)

end
