(* ===== verification/Q931_Call_User.thy ===== *)
theory Q931_Call_User
  imports Q931_Call_Runs
begin

text \<open>
  The user side of the call state machine: in every state the call can be in, every event is handled to its end, and the
  call is again in such a state or is released. A call that is to be cleared is cleared whether the network answers or not.
\<close>

section \<open>The states of a user side call\<close>

text \<open>
  A call that waits for the network has a timer running, and one that is about to use its channel has one. A released call
  is in the null state and has no channel, unless it was rejected.
\<close>

definition needs_channel :: "q931_call_state list" where
  "needs_channel =
     [U2_OVERLAP_SENDING, U3_OUTGOING_CALL_PROCEEDING, U4_CALL_DELIVERED, U6_CALL_PRESENT, U7_CALL_RECEIVED,
      U8_CONNECT_REQUEST, U9_INCOMING_CALL_PROCEEDING, U25_OVERLAP_RECEIVING]"

fun guarded :: "q931_call_state \<Rightarrow> q931_call_timer set \<Rightarrow> bool" where
  "guarded U1_CALL_INITIATED T = (T303 \<in> T \<or> T308 \<in> T)"
| "guarded U8_CONNECT_REQUEST T = (T313 \<in> T)"
| "guarded U11_DISCONNECT_REQUEST T = (T305 \<in> T)"
| "guarded U15_SUSPEND_REQUEST T = (T319 \<in> T)"
| "guarded U17_RESUME_REQUEST T = (T318 \<in> T)"
| "guarded U19_RELEASE_REQUEST T = (T308 \<in> T)"
| "guarded _ T = True"

definition user_state_ok :: "bool \<Rightarrow> q931_call_state \<Rightarrow> q931_call_timer set \<Rightarrow> bool \<Rightarrow> bool \<Rightarrow> bool" where
  "user_state_ok rejected s T l h =
     (if l then s \<in> set user_states \<and> guarded s T \<and> (s \<in> set needs_channel \<longrightarrow> h) \<and>
               (s \<in> set [U0_NULL_STATE, U1_CALL_INITIATED, U17_RESUME_REQUEST] \<longrightarrow> \<not> h)
      else s = U0_NULL_STATE \<and> (h \<longrightarrow> rejected))"

fun vok :: "bool \<Rightarrow> view \<Rightarrow> bool" where
  "vok rejected (s, T, l, h, n, x) = user_state_ok rejected s T l h"

lemmas vok_eval = user_state_ok_def needs_channel_def user_states_def

lemma guarded_insert: "guarded s T \<Longrightarrow> guarded s (insert t T)"
  by (cases s) auto

lemma user_cases [consumes 1]:
  assumes "vok b (s, T, True, h, n, x)"
  obtains "s = U0_NULL_STATE" "\<not> h" | "s = U1_CALL_INITIATED" "\<not> h" "T303 \<in> T \<or> T308 \<in> T" | "s = U2_OVERLAP_SENDING" "h"
    | "s = U3_OUTGOING_CALL_PROCEEDING" "h" | "s = U4_CALL_DELIVERED" "h" | "s = U6_CALL_PRESENT" "h" | "s = U7_CALL_RECEIVED" "h"
    | "s = U8_CONNECT_REQUEST" "h" "T313 \<in> T" | "s = U9_INCOMING_CALL_PROCEEDING" "h" | "s = U10_ACTIVE"
    | "s = U11_DISCONNECT_REQUEST" "T305 \<in> T" | "s = U12_DISCONNECT_INDICATION" | "s = U15_SUSPEND_REQUEST" "T319 \<in> T"
    | "s = U17_RESUME_REQUEST" "\<not> h" "T318 \<in> T" | "s = U19_RELEASE_REQUEST" "T308 \<in> T" | "s = U25_OVERLAP_RECEIVING" "h"
  using assms by (cases s) (simp_all add: vok_eval)

lemmas pick = runs_switch list.set insert_iff empty_iff q931_call_state.distinct if_True if_False simp_thms

lemmas runs_elements = runs_channel_elements runs_channel_id_added runs_copied runs_merged runs_release_elements

text \<open>A listed call: the requests, in each of its states.\<close>

lemma runs_call_status_enquiry [oks]: "vok b v \<Longrightarrow> runs k (call_status_enquiry ies) (vok b) v"
  unfolding call_status_enquiry_def
  by (cases v, simp only:, intro oks; simp add: user_state_ok_def guarded_insert split: if_splits)

lemma runs_requests:
  assumes "vok False (s, T, True, h, n, x)" "elements_fit ies 0" "s = U12_DISCONNECT_INDICATION \<Longrightarrow> elements_fit ies n"
  shows "runs k (q931_alerting_request ies) (vok False) (s, T, True, h, n, x)"
    and "runs k (q931_info_request ies) (vok False) (s, T, True, h, n, x)"
    and "runs k (q931_more_info_request ies) (vok False) (s, T, True, h, n, x)"
    and "runs k (q931_notify_request ies) (vok False) (s, T, True, h, n, x)"
    and "runs k (q931_proceeding_request ies) (vok False) (s, T, True, h, n, x)"
    and "runs k (q931_progress_request ies) (vok False) (s, T, True, h, n, x)"
    and "runs k (q931_reject_request ies) (vok True) (s, T, True, h, n, x)"
    and "runs k (q931_release_request ies) (vok False) (s, T, True, h, n, x)"
  using assms(2-)
  unfolding q931_alerting_request_def q931_info_request_def q931_more_info_request_def q931_notify_request_def
    q931_proceeding_request_def q931_progress_request_def q931_reject_request_def q931_release_request_def
  by (cases rule: user_cases [OF assms(1)]; simp only: pick; intro oks runs_elements; simp add: vok_eval)+

lemma runs_requests_2:
  assumes "vok False (s, T, True, h, n, x)" "elements_fit ies 0"
  shows "runs k (q931_resume_reject_request ies) (vok False) (s, T, True, h, n, x)"
    and "runs k (q931_resume_response ies) (vok False) (s, T, True, h, n, x)"
    and "runs k (q931_setup_complete_request ies) (vok False) (s, T, True, h, n, x)"
    and "runs k (q931_setup_request ies) (vok False) (s, T, True, h, n, x)"
    and "runs k (q931_status_enquiry_request ces ies) (vok False) (s, T, True, h, n, x)"
    and "runs k (q931_suspend_reject_request ies) (vok False) (s, T, True, h, n, x)"
    and "runs k (q931_suspend_response ies) (vok False) (s, T, True, h, n, x)"
    and "runs k (q931_suspend_request ies) (vok False) (s, T, True, h, n, x)"
  using assms(2)
  unfolding q931_resume_reject_request_def q931_resume_response_def q931_setup_complete_request_def
    q931_setup_request_def q931_status_enquiry_request_def q931_suspend_reject_request_def
    q931_suspend_response_def q931_suspend_request_def
  by (cases rule: user_cases [OF assms(1)]; simp only: pick; intro oks runs_elements; simp add: vok_eval)+

lemma runs_disconnect_request:
  assumes "vok False (s, T, True, h, n, x)" "elements_fit ies 0"
  shows "runs k (q931_disconnect_request ies) (vok False) (s, T, True, h, n, x)"
  unfolding q931_disconnect_request_def
  by (intro oks runs_copied assms(2))
     (cases rule: user_cases [OF assms(1)]; simp only: pick; intro oks; simp add: vok_eval)

lemma runs_setup_response:
  assumes "vok False (s, T, True, h, n, x)" "elements_fit ies 0"
  shows "runs k (q931_setup_response ies) (vok False) (s, T, True, h, n, x)"
  unfolding q931_setup_response_def
  by (intro runs_merged assms(2))
     (cases rule: user_cases [OF assms(1)]; simp only: pick; intro oks runs_channel_id_added; simp add: vok_eval)

lemma runs_resume_request:
  assumes "vok False (s, T, True, h, n, x)"
  shows "runs k (q931_resume_request ies) (vok False) (s, T, True, h, n, x)"
  unfolding q931_resume_request_def
  by (intro oks; cases rule: user_cases [OF assms(1)]; simp only: pick; intro oks; simp add: vok_eval)

lemma runs_restart_request:
  assumes "vok False (s, T, True, h, n, x)"
  shows "runs k (q931_restart_request ies) (vok False) (s, T, True, h, n, x)"
proof -
  have "runs k (restart_to U0_NULL_STATE ies) (vok False) (s, T, True, h, n, x)"
    unfolding restart_to_def
    by (rule runs_with_val [where P = "\<lambda>_. True"], simp, intro oks; simp add: vok_eval)
  moreover have "s \<in> set user_states" using assms by (simp add: user_state_ok_def)
  ultimately show ?thesis unfolding q931_restart_request_def by (simp add: runs_switch)
qed

lemma runs_ccb_dispatch:
  assumes "vok False (s, T, True, h, n, x)" "elements_fit ies 0" "s = U12_DISCONNECT_INDICATION \<Longrightarrow> elements_fit ies n"
  shows "runs k (q931_ccb_dispatch r ies) (vok (r = Q931_CCB_REJECT_REQUEST)) (s, T, True, h, n, x)"
  using runs_requests [OF assms] runs_requests_2 [OF assms(1,2)] runs_disconnect_request [OF assms(1,2)]
    runs_setup_response [OF assms(1,2)] runs_resume_request [OF assms(1)]
  by (cases r) simp_all

section \<open>Timers\<close>

text \<open>A timer that runs out has been taken out of the pending ones, and its reference is put at the end.\<close>

definition ends :: "int \<Rightarrow> stmt \<Rightarrow> (view \<Rightarrow> bool) \<Rightarrow> view \<Rightarrow> bool" where
  "ends k f Q v \<longleftrightarrow>
     (\<forall>c. user_good (k + 1) c \<and> viewed v c \<longrightarrow> (\<exists>c' v'. f c = Inr c' \<and> user_base k c' \<and> viewed v' c' \<and> Q v'))"

lemma ends_put: "Q v \<Longrightarrow> ends k (seq [q931_call_put]) Q v"
  unfolding ends_def
proof (intro allI impI)
  fix c assume Q: "Q v" and c: "user_good (k + 1) c \<and> viewed v c"
  obtain s T l h n x where v: "v = (s, T, l, h, n, x)" by (cases v)
  have "refs_ok k (c\<lparr>refcnt := refcnt c - 1\<rparr>)" "channel_ok (c\<lparr>refcnt := refcnt c - 1\<rparr>)"
    using c refs.putting chans.putting unfolding user_good_def user_base_def by blast+
  then have "user_base k (c\<lparr>refcnt := refcnt c - 1\<rparr>)" using c unfolding user_good_def user_base_def by simp
  moreover have "viewed v (c\<lparr>refcnt := refcnt c - 1\<rparr>)" using c unfolding v by (cases x) simp_all
  moreover have "seq [q931_call_put] c = Inr (c\<lparr>refcnt := refcnt c - 1\<rparr>)"
    using good_live [of "k + 1" c] c by (simp add: q931_call_put_def upd_def)
  ultimately show "\<exists>c' v'. seq [q931_call_put] c = Inr c' \<and> user_base k c' \<and> viewed v' c' \<and> Q v'" using Q by blast
qed

lemma ends_seq: "runs (k + 1) f (ends k (seq (g # fs)) Q) v \<Longrightarrow> ends k (seq (f # g # fs)) Q v"
  unfolding runs_def ends_def seq.simps(2) [of f] bind_res_eq_Inr by blast

lemma runs_enquired:
  "x = Some c0 \<Longrightarrow> senq_cnt c0 \<le> 3 \<Longrightarrow> runs k g Q (s, T, l, h, n, x) \<Longrightarrow>
     runs k (if_then_else (\<lambda>c. 3 < senq_cnt c) f g) Q (s, T, l, h, n, x)"
  unfolding runs_def if_then_else_def by (simp add: same_surroundings_def)

text \<open>
  The state a call is in when one of its timers has run out; the ones with no way on are those the code has no case for
  (a refused channel, a suspension that is not answered) and the last status enquiry, which takes the call to a state
  of the network side.
\<close>

definition expiry_ok :: "q931_call_timer \<Rightarrow> q931_call_state \<Rightarrow> int \<Rightarrow> bool" where
  "expiry_ok t s enquiries \<longleftrightarrow>
     \<not> (t = T308 \<and> s = U1_CALL_INITIATED) \<and> \<not> (t = T319 \<and> s = U15_SUSPEND_REQUEST) \<and> \<not> (t = T322 \<and> 3 < enquiries)"

lemma ends_T322:
  assumes "vok False (s, insert T322 T, True, h, n, Some c0)" "senq_cnt c0 \<le> 3"
  shows "ends k q931_timer_T322 (vok False) (s, T, True, h, n, Some c0)"
  unfolding q931_timer_T322_def
  by (rule ends_seq, cases rule: user_cases [OF assms(1)]; simp only: pick;
      (rule runs_if_then_else, rule_tac [2] runs_enquired [OF refl assms(2)])?; intro oks ends_put; simp add: vok_eval)

lemma ends_other_timers:
  assumes "vok False (s, insert t T, True, h, n, Some c0)" "expiry_ok t s (senq_cnt c0)" "t \<noteq> T322"
  shows "ends k (q931_call_timer_func t) (vok False) (s, T, True, h, n, Some c0)"
  unfolding q931_call_timer_func_def q931_timer_T301_def q931_timer_T302_def q931_timer_T303_def q931_timer_T304_def
    q931_timer_T305_def q931_timer_T306_def q931_timer_T308_def q931_timer_T309_def q931_timer_T310_def q931_timer_T312_def
    q931_timer_T313_def q931_timer_unused_def q931_timer_T318_def q931_timer_T319_def
  by (insert assms(2-); cases t; simp only: q931_call_timer.case simp_thms; cases rule: user_cases [OF assms(1)]; rule ends_seq;
      (simp only: pick)?; intro oks ends_put ends_seq; simp add: vok_eval expiry_ok_def)

lemma ends_timers:
  assumes "vok False (s, insert t T, True, h, n, Some c0)" "expiry_ok t s (senq_cnt c0)"
  shows "ends k (q931_call_timer_func t) (vok False) (s, T, True, h, n, Some c0)"
proof (cases "t = T322")
  case True
  with assms show ?thesis using ends_T322 by (simp add: expiry_ok_def q931_call_timer_func_def del: vok.simps)
qed (use assms ends_other_timers in blast)

section \<open>Messages\<close>

definition decoding :: "q931_call \<Rightarrow> q931_message \<Rightarrow> (q931_ie list \<times> (u8 \<times> q931_ie list) list \<times> bool) res" where
  "decoding c = q931_call_decode_ies (call_msg_env c) (intf_role c) (intf_network_role c) (call_direction c)"

lemma runs_last: "runs k f Q v \<Longrightarrow> runs k (seq [f]) Q v"
  unfolding runs_def seq.simps bind_res_eq_Inr by blast

lemma runs_sent: "Q v \<Longrightarrow> runs k (seq (map (\<lambda>(mt, ies). q931_call_send mt ies) sent)) Q v"
proof (induction sent)
  case (Cons a sent)
  obtain mt ies where "a = (mt, ies)" by (cases a)
  with Cons show ?case by (simp only: list.map prod.case) (intro oks, simp)
qed (simp add: runs_seq_Nil)

lemma runs_decoded:
  assumes "decoding c0 msg = Inr (ies, sent, go)" "Q (s, T, l, h, n, Some c0)"
    "go \<Longrightarrow> runs k (f ies) Q (s, T, l, h, n, Some c0)"
  shows "runs k (decoded msg f) Q (s, T, l, h, n, Some c0)"
  unfolding decoded_def
proof (rule runs_with_val [where P = "\<lambda>r. r = (ies, sent, go)"])
  fix c assume "viewed (s, T, l, h, n, Some c0) c"
  then have "same_surroundings c c0" by simp
  then have "decoding c msg = decoding c0 msg" unfolding decoding_def same_surroundings_def by simp
  then show "\<exists>y. q931_call_decode_ies (call_msg_env c) (intf_role c) (intf_network_role c) (call_direction c) msg = Inr y \<and>
      y = (ies, sent, go)"
    using assms(1) unfolding decoding_def by simp
next
  fix y assume "y = (ies, sent, go)"
  with assms(2,3) show "runs k (case y of (ies, sent, go) \<Rightarrow>
      seq [seq (map (\<lambda>(mt, ies). q931_call_send mt ies) sent), if go then f ies else nothing]) Q (s, T, l, h, n, Some c0)"
    by (simp only: prod.case) (intro runs_seq_Cons runs_sent runs_last runs_if; simp add: runs_fields)
qed

lemma runs_with_state: "runs k (f s) Q (s, T, l, h, n, x) \<Longrightarrow> runs k (with_cur call_state f) Q (s, T, l, h, n, x)"
  unfolding runs_def with_cur_def by simp

lemma runs_if_state:
  "(s = s' \<Longrightarrow> runs k f Q (s, T, l, h, n, x)) \<Longrightarrow> (s \<noteq> s' \<Longrightarrow> runs k g Q (s, T, l, h, n, x)) \<Longrightarrow>
     runs k (if_then_else (\<lambda>c. call_state c = s') f g) Q (s, T, l, h, n, x)"
  unfolding runs_def if_then_else_def by auto

lemma runs_not_compatible:
  assumes "s \<noteq> N0_NULL_STATE" "s \<noteq> U0_NULL_STATE" "Q (s, T, l, h, n, x)"
  shows "runs k (not_compatible msg) Q (s, T, l, h, n, x)"
  unfolding not_compatible_def q931_call_message_not_compatible_with_state_def
  using assms
  by (intro runs_with_state) (simp add: Let_def, intro oks runs_if_state; simp add: Q931_IES_NUM_IES_def)

lemma runs_handlers:
  assumes "vok False (s, T, True, h, n, Some c0)" "s \<noteq> U0_NULL_STATE"
    and dec: "decoding c0 msg = Inr (ies, sent, go)" and "elements_fit ies n"
  shows "runs k (q931_handle_alerting dlc msg) (vok False) (s, T, True, h, n, Some c0)"
    and "runs k (q931_handle_connect dlc msg) (vok False) (s, T, True, h, n, Some c0)"
    and "runs k (q931_handle_connect_acknowledge msg) (vok False) (s, T, True, h, n, Some c0)"
    and "runs k (q931_handle_disconnect msg) (vok False) (s, T, True, h, n, Some c0)"
    and "runs k (q931_handle_release msg) (vok False) (s, T, True, h, n, Some c0)"
    and "runs k (q931_handle_info msg) (vok False) (s, T, True, h, n, Some c0)"
    and "runs k (q931_handle_notify msg) (vok False) (s, T, True, h, n, Some c0)"
    and "runs k (q931_handle_resume msg) (vok False) (s, T, True, h, n, Some c0)"
    and "runs k (q931_handle_resume_reject msg) (vok False) (s, T, True, h, n, Some c0)"
    and "runs k (q931_handle_suspend msg) (vok False) (s, T, True, h, n, Some c0)"
    and "runs k (q931_handle_suspend_acknowledge msg) (vok False) (s, T, True, h, n, Some c0)"
    and "runs k (q931_handle_suspend_reject msg) (vok False) (s, T, True, h, n, Some c0)"
  unfolding q931_handle_alerting_def q931_handle_connect_def q931_handle_connect_acknowledge_def q931_handle_disconnect_def
    q931_handle_release_def q931_handle_info_def q931_handle_notify_def q931_handle_resume_def q931_handle_resume_reject_def
    q931_handle_suspend_def q931_handle_suspend_acknowledge_def q931_handle_suspend_reject_def
    disconnect_indication_def released_def release_confirmed_def to_null_def
  by (insert assms(2,4); cases rule: user_cases [OF assms(1)]; simp only: pick;
      intro oks runs_decoded [OF dec] runs_not_compatible runs_save_cause; simp add: vok_eval)+

lemma runs_release_complete:
  assumes "vok False (s, T, True, h, n, Some c0)" and dec: "decoding c0 msg = Inr (ies, sent, go)"
  shows "runs k (q931_handle_release_complete msg) (vok False) (s, T, True, h, n, Some c0)"
  unfolding q931_handle_release_complete_def release_confirmed_def to_null_def
  by (intro oks; cases rule: user_cases [OF assms(1)]; simp only: pick; intro oks runs_decoded [OF dec]; simp add: vok_eval)

lemma runs_resume_acknowledge:
  assumes "vok False (s, T, True, h, n, x)" "s \<noteq> U0_NULL_STATE" "s \<noteq> U17_RESUME_REQUEST"
  shows "runs k (q931_handle_resume_acknowledge msg) (vok False) (s, T, True, h, n, x)"
  unfolding q931_handle_resume_acknowledge_def
  by (insert assms(2-); cases rule: user_cases [OF assms(1)]; simp only: pick; intro runs_not_compatible; simp add: vok_eval)

lemma runs_progress:
  assumes "vok False (s, T, True, h, n, Some c0)" "s \<noteq> U0_NULL_STATE"
    and dec: "decoding c0 msg = Inr (ies, sent, go)" and "go \<Longrightarrow> find_progress ies \<noteq> None"
  shows "runs k (q931_handle_progress msg) (vok False) (s, T, True, h, n, Some c0)"
proof -
  have stop: "runs k (case find_progress ies of None \<Rightarrow> fault NullDereference
      | Some p \<Rightarrow> if P p then q931_call_stop_timer T304 else nothing) Q (U2_OVERLAP_SENDING, T, True, h', n, y)"
    if "go" "Q (U2_OVERLAP_SENDING, T - {T304}, True, h', n, y)" "Q (U2_OVERLAP_SENDING, T, True, h', n, y)" for P Q h' y
    using that assms(4) by (cases "find_progress ies") (simp_all add: runs_stop_timer runs_fields)
  show ?thesis
    unfolding q931_handle_progress_def
    by (insert assms(2); cases rule: user_cases [OF assms(1)]; simp only: pick;
        intro oks runs_decoded [OF dec] runs_not_compatible stop; simp add: vok_eval)
qed

lemma runs_setup:
  assumes "vok False (s, T, True, h, n, x)" "s \<noteq> U0_NULL_STATE"
  shows "runs k (q931_handle_setup msg) (vok False) (s, T, True, h, n, x)"
  unfolding q931_handle_setup_def
  by (insert assms(2); cases rule: user_cases [OF assms(1)]; simp only: pick; intro oks; simp add: vok_eval)

text \<open>The channel of a response: the call has none yet, and the search among those the network offers comes to its end.\<close>

definition response_ok :: "q931_call \<Rightarrow> q931_ie list \<Rightarrow> bool" where
  "response_ok c ies =
     (case find_channel_id ies of
        None \<Rightarrow> True
      | Some ci \<Rightarrow> (case scan_chanset (ci_chanset ci) c of Inl _ \<Rightarrow> False | Inr _ \<Rightarrow> True))"

lemma same_scan: "same_surroundings c c0 \<Longrightarrow> scan_chanset chans c = scan_chanset chans c0"
  unfolding same_surroundings_def scan_chanset_def available_def by simp

lemma scan_found: "scan_chanset chans c = Inr (Some i) \<Longrightarrow> i < length (intf_channels c)"
  unfolding scan_chanset_def
  by (auto simp: find_Some_iff list_ex_iff split: if_splits option.splits)

lemma runs_take_select:
  assumes "i < length (intf_channels c0)" "runs k (seq fs) Q (s, T, l, True, n, None)"
  shows "runs k (seq (take_channel i # q931_channel_set_state i cs # fs)) Q (s, T, l, h, n, Some c0)"
proof -
  have "runs k (seq [take_channel i, q931_channel_set_state i cs]) (runs k (seq fs) Q) (s, T, l, h, n, Some c0)"
  proof (rule runs_step [where Q = "runs k (seq fs) Q", OF _ _ assms(2)])
    fix c assume c: "user_good k c" "viewed (s, T, l, h, n, Some c0) c"
    then have "i < length (intf_channels c)" using assms by (simp add: same_surroundings_def)
    then show "\<exists>c'. seq [take_channel i, q931_channel_set_state i cs] c = Inr c' \<and> viewed (s, T, l, True, n, None) c' \<and>
        call_ces c' = call_ces c \<and> call_dlc c' = call_dlc c"
      using c good_live [OF c(1)] by (simp add: take_channel_def channel_eval)
  qed (intro keeps refs.keep_any chans.keep_any)+
  moreover have "seq (take_channel i # q931_channel_set_state i cs # fs) =
      seq (seq [take_channel i, q931_channel_set_state i cs] # fs)"
    by (rule ext) (simp add: bind_res_def split: sum.splits)
  ultimately show ?thesis by (simp add: runs_seq_Cons)
qed

lemma runs_no_channel:
  "runs k (f None) Q (s, T, l, False, n, x) \<Longrightarrow> runs k (with_val (\<lambda>c. Inr (call_channel c)) f) Q (s, T, l, False, n, x)"
  unfolding runs_def with_val_def by simp

lemma runs_select_response:
  assumes "response_ok c0 ies"
    and yes: "runs k yes Q (s, T, l, True, n, None)"
    and no: "\<And>causes. runs k (no causes) Q (s, T, l, False, n, Some c0)"
  shows "runs k (q931_channel_select_response ies yes no) Q (s, T, l, False, n, Some c0)"
proof (cases "find_channel_id ies")
  case None
  then show ?thesis unfolding q931_channel_select_response_def by (simp add: runs_no_channel no)
next
  case (Some ci)
  with assms(1) obtain r where r: "scan_chanset (ci_chanset ci) c0 = Inr r"
    unfolding response_ok_def by (auto split: sum.splits)
  have taken: "runs k (seq [take_channel i, q931_channel_set_state i Q931_CHANSTATE_SELECTED, yes]) Q (s, T, l, False, n, Some c0)"
    if "r = Some i" for i
    using scan_found [of "ci_chanset ci" c0 i] r that yes by (intro runs_take_select runs_last) simp_all
  have "runs k (with_val (scan_chanset (ci_chanset ci)) (\<lambda>found. case found of
      Some i \<Rightarrow> seq [take_channel i, q931_channel_set_state i Q931_CHANSTATE_SELECTED, yes]
    | None \<Rightarrow> with_cur (\<lambda>c. [call_cause Q931_IE_C_CV_CHANNEL_UNACCEPTABLE [] c]) no)) Q (s, T, l, False, n, Some c0)"
  proof (rule runs_with_val [where P = "\<lambda>y. y = r"])
    fix c assume "viewed (s, T, l, False, n, Some c0) c"
    then show "\<exists>y. scan_chanset (ci_chanset ci) c = Inr y \<and> y = r" using r same_scan [of c c0] by simp
  qed (use taken no in \<open>auto intro: runs_with_cur split: option.splits\<close>)
  then show ?thesis
    unfolding q931_channel_select_response_def Some option.case by (intro runs_no_channel) simp
qed

lemma runs_responses:
  assumes "vok False (s, T, True, h, n, Some c0)" "s \<noteq> U0_NULL_STATE"
    and dec: "decoding c0 msg = Inr (ies, sent, go)" and resp: "go \<Longrightarrow> s = U1_CALL_INITIATED \<Longrightarrow> response_ok c0 ies"
  shows "runs k (q931_handle_call_proceeding dlc msg) (vok False) (s, T, True, h, n, Some c0)"
    and "runs k (q931_handle_setup_acknowledge dlc msg) (vok False) (s, T, True, h, n, Some c0)"
  unfolding q931_handle_call_proceeding_def q931_handle_setup_acknowledge_def refuse_channel_u1_def
  by (insert assms(2,4); cases rule: user_cases [OF assms(1)]; simp only: pick;
      intro oks runs_decoded [OF dec] runs_not_compatible runs_select_response; simp add: vok_eval)+

text \<open>A STATUS that reports the state the call is in, or one while the call is being released.\<close>

definition status_ok :: "q931_call_state \<Rightarrow> q931_ie list \<Rightarrow> bool" where
  "status_ok s ies =
     (case status_call_state ies of
        None \<Rightarrow> False
      | Some v \<Rightarrow> s \<in> set [U0_NULL_STATE, U19_RELEASE_REQUEST] \<or> v = q931_call_state_to_ie_state s)"

lemma runs_status_in_call:
  assumes "s \<in> set user_states" "s \<noteq> U0_NULL_STATE" "s \<noteq> U19_RELEASE_REQUEST"
    and dec: "decoding c0 msg = Inr (ies, sent, go)" and ok: "go \<Longrightarrow> status_ok s ies"
    and Q: "Q (s, T, l, h, n, Some c0)" "Q (s, T - {T322}, l, h, n, Some c0)"
  shows "runs k (status_in_call msg s') Q (s, T, l, h, n, Some c0)"
proof -
  let ?v = "q931_call_state_to_ie_state s"
  have "?v \<noteq> q931_call_state_to_ie_state N0_NULL_STATE"
    by (insert assms(1,2), cases s) (simp_all add: user_states_def q931_call_state_to_ie_state_def)
  then have same: "runs k (status_reported msg s' ies ?v) Q (s, T', l, h, n, Some c0)" if "Q (s, T', l, h, n, Some c0)" for T'
    using runs_fields(1) [of Q "(s, T', l, h, n, Some c0)" k, OF that]
    unfolding status_reported_def runs_def if_then_else_def by simp
  have "runs k (seq [status_enquired ies, with_call_state ies (status_reported msg s' ies)]) Q (s, T, l, h, n, Some c0)" if go
  proof -
    have "status_call_state ies = Some ?v" using ok [OF that] assms(2,3) by (auto simp: status_ok_def split: option.splits)
    then show ?thesis
      unfolding with_call_state_def status_enquired_def
      by (simp only: option.case)
         (intro runs_seq_Cons runs_last runs_if_then_else runs_if runs_fields runs_stop_timer same Q)
  qed
  then show ?thesis
    unfolding status_in_call_def by (rule runs_decoded [where Q = Q, OF dec Q(1)])
qed

lemma runs_known:
  "y \<noteq> None \<Longrightarrow> (\<And>z. y = Some z \<Longrightarrow> runs k (f z) Q v) \<Longrightarrow> runs k (case y of None \<Rightarrow> g | Some z \<Rightarrow> f z) Q v"
  by auto

lemma status_known: "status_ok s ies \<Longrightarrow> status_call_state ies \<noteq> None"
  by (cases "status_call_state ies") (simp_all add: status_ok_def)

lemma runs_status:
  assumes "vok False (s, T, True, h, n, Some c0)"
    and dec: "decoding c0 msg = Inr (ies, sent, go)" and ok: "go \<Longrightarrow> status_ok s ies"
  shows "runs k (q931_handle_status msg) (vok False) (s, T, True, h, n, Some c0)"
  unfolding q931_handle_status_def status_in_null_def status_in_release_request_def with_call_state_def
  by (insert ok; cases rule: user_cases [OF assms(1)]; simp only: pick;
      intro runs_status_in_call [OF _ _ _ dec] runs_decoded [OF dec] oks runs_known; simp add: vok_eval status_known)

lemma runs_status_enquiry: "Q v \<Longrightarrow> runs k q931_handle_status_enquiry Q v"
  unfolding q931_handle_status_enquiry_def by (intro oks)

lemma runs_single: "(\<And>y. runs k (f [y]) Q v) \<Longrightarrow> runs k (with_cur (\<lambda>c. [g c]) f) Q v"
  unfolding runs_def with_cur_def by blast

lemma runs_unrecognized:
  assumes "vok False (s, T, True, h, n, x)"
  shows "runs k unrecognized_message (vok False) (s, T, True, h, n, x)"
proof -
  have "s \<noteq> N0_NULL_STATE" using assms by (auto simp: vok_eval)
  moreover have "runs k (with_cur (\<lambda>c. [call_cause Q931_IE_C_CV_MESSAGE_TYPE_NON_EXISTENT_OR_IMPLEMENTED [] c])
      q931_call_send_call_status) (vok False) (s, T, True, h, n, x)"
    using assms by (intro runs_single runs_call_status) (simp_all add: Q931_IES_NUM_IES_def)
  moreover have "runs k (refuse_reference U19_RELEASE_REQUEST) (vok False) (s, T, True, h, n, x)" if "s = U0_NULL_STATE"
    unfolding refuse_reference_def by (intro oks) (simp add: vok_eval)
  ultimately show ?thesis
    unfolding unrecognized_message_def by (intro runs_seq_Cons runs_if_state runs_fields runs_last) simp_all
qed

text \<open>In the null state: a call that is offered, and one that is cleared.\<close>

definition setup_ok :: "q931_call \<Rightarrow> q931_ie list \<Rightarrow> bool" where
  "setup_ok c ies = (case q931_channel_select_setup ies c of Inl _ \<Rightarrow> False
     | Inr (chan, causes) \<Rightarrow> pred_option (\<lambda>i. i < length (intf_channels c)) chan)"

lemma runs_clear_channel: "Q (s, T, l, False, n, x) \<Longrightarrow> runs k (upd (\<lambda>c. c\<lparr>call_channel := None\<rparr>)) Q (s, T, l, h, n, x)"
proof (rule runs_step [OF refs.keep_no_channel chans.keep_no_channel])
  fix c assume c: "user_good k c" "viewed (s, T, l, h, n, x) c"
  have "viewed (s, T, l, False, n, x) (c\<lparr>call_channel := None\<rparr>)"
    using c(2) by (cases x) simp_all
  then show "\<exists>c'. upd (\<lambda>c. c\<lparr>call_channel := None\<rparr>) c = Inr c' \<and> viewed (s, T, l, False, n, x) c' \<and> call_ces c' = call_ces c \<and> call_dlc c' = call_dlc c"
    using good_live [OF c(1)] by (simp add: upd_def del: viewed.simps)
qed

lemma same_setup: "same_surroundings c c0 \<Longrightarrow> q931_channel_select_setup ies c = q931_channel_select_setup ies c0"
proof -
  assume s: "same_surroundings c c0"
  then have same: "available c = available c0" "intf_n_channels c = intf_n_channels c0" "call_cause v d c = call_cause v d c0" for v d
    unfolding same_surroundings_def available_def call_cause_def q931_ie_cause_location_call_def by auto
  have wanted: "select_wanted pe c chans = select_wanted pe c0 chans" for pe chans
    using s by (induction chans) (simp_all add: same_surroundings_def available_def)
  show ?thesis unfolding q931_channel_select_setup_def same wanted ..
qed

lemma runs_setup_null:
  assumes dec: "decoding c0 msg = Inr (ies, sent, go)" and "elements_fit ies 0" and ok: "go \<Longrightarrow> setup_ok c0 ies"
  shows "runs k (q931_handle_setup msg) (vok False) (U0_NULL_STATE, T, True, False, n, Some c0)"
proof -
  have "runs k (with_val (q931_channel_select_setup ies) (\<lambda>(chan, causes).
           case chan of
             None \<Rightarrow>
               seq [upd (\<lambda>c. c\<lparr>call_channel := None\<rparr>), q931_call_send Q931_MT_RELEASE_COMPLETE causes,
                    q931_call_set_state U0_NULL_STATE, q931_call_release_reference]
           | Some i \<Rightarrow>
               seq [take_channel i,
                    with_val (\<lambda>c. q931_ies_copy ies) (\<lambda>copied. upd (\<lambda>c. c\<lparr>setup_ies := copied\<rparr>)),
                    q931_call_set_state U6_CALL_PRESENT, q931_call_primitive Q931_CCB_SETUP_INDICATION ies]))
      (vok False) (U0_NULL_STATE, T, True, False, n, Some c0)" if go
  proof (rule runs_with_val [where P = "\<lambda>y. pred_option (\<lambda>i. i < length (intf_channels c0)) (fst y)"])
    fix c assume "viewed (U0_NULL_STATE, T, True, False, n, Some c0) c"
    then show "\<exists>y. q931_channel_select_setup ies c = Inr y \<and> pred_option (\<lambda>i. i < length (intf_channels c0)) (fst y)"
      using ok [OF that] same_setup [of c c0] by (auto simp: setup_ok_def split: sum.splits)
  next
    fix y :: "nat option \<times> q931_ie list" assume y: "pred_option (\<lambda>i. i < length (intf_channels c0)) (fst y)"
    obtain chan causes where "y = (chan, causes)" by (cases y)
    with y show "runs k (case y of (chan, causes) \<Rightarrow> case chan of
             None \<Rightarrow>
               seq [upd (\<lambda>c. c\<lparr>call_channel := None\<rparr>), q931_call_send Q931_MT_RELEASE_COMPLETE causes,
                    q931_call_set_state U0_NULL_STATE, q931_call_release_reference]
           | Some i \<Rightarrow>
               seq [take_channel i,
                    with_val (\<lambda>c. q931_ies_copy ies) (\<lambda>copied. upd (\<lambda>c. c\<lparr>setup_ies := copied\<rparr>)),
                    q931_call_set_state U6_CALL_PRESENT, q931_call_primitive Q931_CCB_SETUP_INDICATION ies])
      (vok False) (U0_NULL_STATE, T, True, False, n, Some c0)"
      by (cases chan; simp only: prod.case option.case; intro oks runs_clear_channel runs_copied [OF assms(2)]; simp add: vok_eval)
  qed
  then show ?thesis
    unfolding q931_handle_setup_def by (simp only: pick) (intro runs_decoded [OF dec]; simp add: vok_eval)
qed

definition needs_call :: "u8 list" where
  "needs_call =
     [Q931_MT_ALERTING, Q931_MT_CALL_PROCEEDING, Q931_MT_CONNECT, Q931_MT_CONNECT_ACKNOWLEDGE, Q931_MT_PROGRESS,
      Q931_MT_SETUP_ACKNOWLEDGE, Q931_MT_DISCONNECT, Q931_MT_INFORMATION, Q931_MT_RESUME, Q931_MT_RESUME_ACKNOWLEDGE,
      Q931_MT_RESUME_REJECT, Q931_MT_SUSPEND, Q931_MT_SUSPEND_ACKNOWLEDGE, Q931_MT_SUSPEND_REJECT]"

definition contents_ok :: "q931_call \<Rightarrow> u8 \<Rightarrow> q931_ie list \<Rightarrow> bool" where
  "contents_ok c mt ies \<longleftrightarrow>
     (mt = Q931_MT_PROGRESS \<longrightarrow> find_progress ies \<noteq> None) \<and>
     (mt = Q931_MT_STATUS \<longrightarrow> status_ok (call_state c) ies) \<and>
     (mt \<in> set [Q931_MT_CALL_PROCEEDING, Q931_MT_SETUP_ACKNOWLEDGE] \<longrightarrow> call_state c = U1_CALL_INITIATED \<longrightarrow> response_ok c ies) \<and>
     (mt = Q931_MT_SETUP \<longrightarrow> call_state c = U0_NULL_STATE \<longrightarrow> setup_ok c ies)"

text \<open>
  The messages a user side call takes: the elements fit into their array, the channels and the state the network names
  are usable, no acknowledged resumption (the call has no channel), and in the null state none that needs a call.
\<close>

definition message_ok :: "q931_call \<Rightarrow> q931_message \<Rightarrow> bool" where
  "message_ok c msg =
     (case decoding c msg of
        Inl _ \<Rightarrow> False
      | Inr (ies, sent, go) \<Rightarrow>
          elements_fit ies (length (disconnect_cause c)) \<and>
          (go \<longrightarrow> contents_ok c (msg_message_type msg) ies) \<and>
          \<not> (msg_message_type msg = Q931_MT_RESUME_ACKNOWLEDGE \<and> call_state c = U17_RESUME_REQUEST) \<and>
          \<not> (msg_message_type msg \<in> set needs_call \<and> call_state c = U0_NULL_STATE))"

lemma runs_null_release:
  "runs k (q931_handle_release msg) (vok False) (U0_NULL_STATE, T, True, False, n, x)"
  "runs k (q931_handle_notify msg) (vok False) (U0_NULL_STATE, T, True, False, n, x)"
  unfolding q931_handle_release_def q931_handle_notify_def
  by (simp only: pick, intro oks; simp add: vok_eval)+

lemma runs_dispatch:
  assumes v: "vok False (s, T, True, h, length (disconnect_cause c0), Some c0)" and "call_state c0 = s" and "message_ok c0 msg"
  shows "runs k (q931_dispatch_message dlc msg) (vok False) (s, T, True, h, length (disconnect_cause c0), Some c0)"
proof -
  let ?mt = "msg_message_type msg"
  from assms(3) obtain ies sent go where dec: "decoding c0 msg = Inr (ies, sent, go)"
    and fit: "elements_fit ies (length (disconnect_cause c0))" and ok: "go \<Longrightarrow> contents_ok c0 ?mt ies"
    and ack: "\<not> (?mt = Q931_MT_RESUME_ACKNOWLEDGE \<and> s = U17_RESUME_REQUEST)"
    and call: "s = U0_NULL_STATE \<Longrightarrow> ?mt \<notin> set needs_call"
    using assms(2) by (auto simp: message_ok_def split: sum.splits)
  have fit0: "elements_fit ies 0" using fit by (simp add: elements_fit_def)
  show ?thesis
  proof (cases "s = U0_NULL_STATE")
    case True
    then have "\<not> h" using v by (simp add: vok_eval)
    with True call ok show ?thesis
      using runs_setup_null [OF dec fit0] runs_null_release runs_release_complete [OF v dec] runs_status [OF v dec]
        runs_status_enquiry [where Q = "vok False", OF v] runs_unrecognized [OF v] assms(2)
      unfolding q931_dispatch_message_def Let_def contents_ok_def needs_call_def
      by (simp del: vok.simps)
  next
    case False
    with ok ack assms(2) show ?thesis
      using runs_handlers [OF v False dec fit] runs_responses [OF v False dec] runs_progress [OF v False dec]
        runs_setup [OF v False] runs_release_complete [OF v dec] runs_status [OF v dec] runs_status_enquiry [where Q = "vok False", OF v]
        runs_unrecognized [OF v] runs_resume_acknowledge [OF v False]
      unfolding q931_dispatch_message_def Let_def contents_ok_def
      by (simp del: vok.simps)
  qed
qed

section \<open>The data link\<close>

lemma runs_dl:
  assumes "vok False (s, T, True, h, n, x)"
  shows "runs k q931_call_dl_establish_indication (vok False) (s, T, True, h, n, x)"
    and "runs k q931_call_dl_establish_confirm (vok False) (s, T, True, h, n, x)"
  unfolding q931_call_dl_establish_indication_def q931_call_dl_establish_confirm_def
  by (rule runs_single, cases rule: user_cases [OF assms]; simp only: pick; intro oks; simp add: vok_eval Q931_IES_NUM_IES_def)+

lemma runs_T309:
  assumes "T309 \<notin> T" "Q (s, insert T309 T, l, h, n, x)"
  shows "runs k (dl_released_active s' cause) Q (s, T, l, h, n, x)"
proof -
  have "runs k (seq [q931_call_start_timer T309,
      with_val (\<lambda>c. case call_dlc c of None \<Rightarrow> Inl NullDereference | Some d \<Rightarrow> Inr d) (\<lambda>d. out (Connect_dlc d))]) Q (s, T, l, h, n, x)"
    using assms(2)
    by (intro oks runs_last runs_with_val [where P = "\<lambda>_. True"]) (auto simp: user_good_def user_base_def)
  then show ?thesis
    using assms(1) unfolding dl_released_active_def runs_def if_then_else_def q931_call_timer_running_def by simp
qed

lemma runs_dl_release:
  assumes "vok False (s, T, True, h, n, x)" "\<not> (s = U10_ACTIVE \<and> T309 \<in> T)"
  shows "runs k q931_call_dl_release_indication (vok False) (s, T, True, h, n, x)"
  unfolding q931_call_dl_release_indication_def released_by_dl_def
  by (insert assms(2); cases rule: user_cases [OF assms(1)]; simp only: pick; intro oks runs_T309; simp add: vok_eval)

section \<open>The events\<close>

definition user_event_ok :: "int \<Rightarrow> q931_call \<Rightarrow> q931_call_event \<Rightarrow> bool" where
  "user_event_ok k c e =
     (case e of
        Message dlc msg \<Rightarrow> message_ok c msg
      | Request r ies \<Rightarrow> 1 \<le> k \<and> elements_fit ies 0 \<and>
                         (call_state c = U12_DISCONNECT_INDICATION \<longrightarrow> elements_fit ies (length (disconnect_cause c)))
      | Restart ies \<Rightarrow> 1 \<le> k
      | Expiry t \<Rightarrow> expiry_ok t (call_state c) (senq_cnt c)
      | Ces_expiry i t \<Rightarrow> False
      | Dl_release_indication dlc \<Rightarrow> \<not> (call_state c = U10_ACTIVE \<and> T309 \<in> timers c)
      | _ \<Rightarrow> True)"

definition user_call :: "int \<Rightarrow> q931_call \<Rightarrow> bool" where
  "user_call k c \<longleftrightarrow> 0 \<le> k \<and> user_base k c \<and>
     user_state_ok False (call_state c) (timers c) (on_intf c) (call_channel c \<noteq> None)"

definition call_view :: "q931_call \<Rightarrow> view" where
  "call_view c = (call_state c, timers c, on_intf c, call_channel c \<noteq> None, length (disconnect_cause c), Some c)"

lemma call_viewed: "viewed (call_view c) c"
  by (simp add: call_view_def same_surroundings_def)

lemma listed_live: "user_base k c \<Longrightarrow> on_intf c \<Longrightarrow> 0 \<le> k \<Longrightarrow> 0 < refcnt c"
  unfolding user_base_def refs_ok_def call_owners_def by simp

text \<open>The call is held while the event is handled.\<close>

lemma got_good:
  assumes "user_base k c" "0 \<le> k"
  shows "user_good (k + 1) (c\<lparr>refcnt := refcnt c + 1\<rparr>)" "viewed (call_view c) (c\<lparr>refcnt := refcnt c + 1\<rparr>)"
proof -
  have "refs_ok (k + 1) (c\<lparr>refcnt := refcnt c + 1\<rparr>)" "channel_ok (c\<lparr>refcnt := refcnt c + 1\<rparr>)"
    using assms(1) refs.got chans.got unfolding user_base_def by blast+
  then show "user_good (k + 1) (c\<lparr>refcnt := refcnt c + 1\<rparr>)"
    using assms unfolding user_good_def user_base_def by simp
  show "viewed (call_view c) (c\<lparr>refcnt := refcnt c + 1\<rparr>)" using call_viewed [of c] by (simp add: call_view_def)
qed

lemma held:
  assumes "ends k (seq fs) Q (call_view c)" "user_base k c" "0 \<le> k" "on_intf c"
  shows "\<exists>c' v'. seq (q931_call_get # fs) c = Inr c' \<and> user_base k c' \<and> viewed v' c' \<and> Q v'"
proof -
  have "q931_call_get c = Inr (c\<lparr>refcnt := refcnt c + 1\<rparr>)"
    using listed_live [OF assms(2,4,3)] by (simp add: q931_call_get_def upd_def)
  then show ?thesis using assms(1) got_good [OF assms(2,3)] unfolding ends_def by simp
qed

lemma runs_mono: "runs k f P v \<Longrightarrow> (\<And>v. P v \<Longrightarrow> Q v) \<Longrightarrow> runs k f Q v"
  unfolding runs_def by blast

lemma ends_body: "runs (k + 1) f Q v \<Longrightarrow> ends k (seq [f, q931_call_put]) Q v"
  using runs_mono [of "k + 1" f Q v "ends k (seq [q931_call_put]) Q"] ends_put ends_seq by blast

lemma runs_dl_ces: "Q v \<Longrightarrow> runs k (dl_ces dlc f) Q v"
proof (rule runsI)
  fix c assume "Q v" "user_good k c" "viewed v c"
  moreover from this have "dl_ces dlc f c = Inr c" by (simp add: dl_ces_def with_val_def user_good_def user_base_def)
  ultimately show "\<exists>c' v'. dl_ces dlc f c = Inr c' \<and> user_good k c' \<and> viewed v' c' \<and> Q v'" by blast
qed

lemma runs_receive:
  "runs k (q931_dispatch_message dlc msg) Q v \<Longrightarrow>
   runs k (with_val (\<lambda>c. Inr (find (\<lambda>s. ces_dlc s = dlc) (call_ces c))) (\<lambda>found. case found of
              None \<Rightarrow> q931_dispatch_message dlc msg
            | Some s \<Rightarrow>
                if_then_else (\<lambda>c. selected_ces c = Some (ces_id s))
                  (seq [q931_ces_dispatch_message (ces_id s) msg, q931_dispatch_message dlc msg])
                  (q931_ces_dispatch_message (ces_id s) msg))) Q v"
  by (rule runs_with_val [where P = "\<lambda>y. y = None"]) (simp_all add: user_good_def user_base_def)

lemma ran:
  assumes "runs k f Q (call_view c)" "user_base k c" "1 \<le> k"
  shows "\<exists>c' v'. f c = Inr c' \<and> user_base k c' \<and> viewed v' c' \<and> Q v'"
  using assms call_viewed [of c] unfolding runs_def user_good_def by blast

lemma expired:
  assumes "ends k (q931_call_timer_func t) Q (call_state c, timers c - {t}, on_intf c, call_channel c \<noteq> None, length (disconnect_cause c), Some c)"
    "user_base k c" "0 \<le> k" "t \<in> timers c"
  shows "\<exists>c' v'. q931_run_timer t c = Inr c' \<and> user_base k c' \<and> viewed v' c' \<and> Q v'"
proof -
  let ?c = "c\<lparr>timers := timers c - {t}\<rparr>"
  have "refs_ok (k + 1) ?c" "channel_ok ?c"
    using assms(2,4) refs.timer_removed chans.timer_removed unfolding user_base_def by blast+
  then have "user_good (k + 1) ?c"
    using assms(2,3) unfolding user_good_def user_base_def by simp
  moreover have "viewed (call_state c, timers c - {t}, on_intf c, call_channel c \<noteq> None, length (disconnect_cause c), Some c) ?c"
    using call_viewed [of c] by (simp add: call_view_def)
  ultimately obtain c' v' where c': "q931_call_timer_func t ?c = Inr c'" "user_base k c'" "viewed v' c'" "Q v'"
    using assms(1) unfolding ends_def by blast
  have "1 \<le> card (timers c)" using assms(4) by (simp add: card_gt_0_iff Suc_le_eq) blast
  then have "0 < refcnt c" using assms(2,3) unfolding user_base_def refs_ok_def call_owners_def by simp
  with c' assms(4) have "q931_run_timer t c = Inr c'"
    by (simp add: q931_run_timer_def if_then_else_def upd_def bind_res_def)
  with c' show ?thesis by blast
qed

lemma event_runs:
  assumes "user_call k c" "on_intf c" "user_event_ok k c e"
  shows "\<exists>c' v'. q931_event e c = Inr c' \<and> user_base k c' \<and> viewed v' c' \<and> vok (\<exists>ies. e = Request Q931_CCB_REJECT_REQUEST ies) v'"
proof -
  have base: "user_base k c" "0 \<le> k" using assms(1) by (simp_all add: user_call_def)
  have v: "vok False (call_state c, timers c, True, call_channel c \<noteq> None, length (disconnect_cause c), Some c)"
    using assms(1,2) by (simp add: user_call_def)
  have cv: "call_view c = (call_state c, timers c, True, call_channel c \<noteq> None, length (disconnect_cause c), Some c)"
    using assms(2) by (simp add: call_view_def)
  note held' = held [OF _ base assms(2), unfolded cv]
  show ?thesis
  proof (cases e)
    case (Message dlc msg)
    then have "message_ok c msg" using assms(3) by (simp add: user_event_ok_def)
    with held' [OF ends_body [OF runs_receive [OF runs_dispatch [OF v refl]]]] Message show ?thesis
      by (simp add: q931_receive_call_def del: seq.simps vok.simps viewed.simps)
  next
    case (Request r ies)
    then have "1 \<le> k" "elements_fit ies 0" "call_state c = U12_DISCONNECT_INDICATION \<Longrightarrow> elements_fit ies (length (disconnect_cause c))"
      using assms(3) by (simp_all add: user_event_ok_def)
    with ran [OF runs_ccb_dispatch [OF v, folded cv] base(1)] Request show ?thesis by (simp del: vok.simps viewed.simps)
  next
    case (Restart ies)
    with ran [OF runs_restart_request [OF v, folded cv] base(1)] assms(3) show ?thesis
      by (simp add: user_event_ok_def del: vok.simps viewed.simps)
  next
    case (Expiry t)
    show ?thesis
    proof (cases "t \<in> timers c")
      case True
      then have "insert t (timers c - {t}) = timers c" by blast
      with v have "vok False (call_state c, insert t (timers c - {t}), True, call_channel c \<noteq> None, length (disconnect_cause c), Some c)" by metis
      from ends_timers [OF this] expired [OF _ base True, unfolded eqTrueI [OF assms(2)]] Expiry assms(3) show ?thesis
        by (simp add: user_event_ok_def del: vok.simps viewed.simps)
    next
      case False
      then have r: "q931_event e c = Inr c"
        using Expiry listed_live [OF base(1) assms(2) base(2)] by (simp add: q931_run_timer_def if_then_else_def nothing_def upd_def)
      have no: "(\<exists>ies. e = Request Q931_CCB_REJECT_REQUEST ies) = False" using Expiry by simp
      show ?thesis unfolding no using r base(1) call_viewed [of c] v unfolding cv by blast
    qed
  next
    case (Ces_expiry i t)
    with assms(3) show ?thesis by (simp add: user_event_ok_def)
  next
    case (Dl_establish_indication dlc)
    have "ends k (seq [dl_ces dlc q931_ces_dl_establish_indication,
          if_then_else (\<lambda>c. call_dlc c = Some dlc) q931_call_dl_establish_indication nothing, q931_call_put]) (vok False) (call_view c)"
      unfolding cv by (intro ends_seq runs_dl_ces ends_body runs_if_then_else runs_dl [OF v] runs_fields v)
    from held [OF this base assms(2)] Dl_establish_indication show ?thesis
      by (simp add: q931_dl_establish_indication_def del: seq.simps vok.simps viewed.simps)
  next
    case (Dl_establish_confirm dlc)
    have "ends k (seq [if_then_else (\<lambda>c. call_dlc c = Some dlc) q931_call_dl_establish_confirm nothing, q931_call_put])
        (vok False) (call_view c)"
      unfolding cv by (intro ends_body runs_if_then_else runs_dl [OF v] runs_fields v)
    from held [OF this base assms(2)] Dl_establish_confirm show ?thesis
      by (simp add: q931_dl_establish_confirm_call_def del: seq.simps vok.simps viewed.simps)
  next
    case (Dl_release_indication dlc)
    then have "\<not> (call_state c = U10_ACTIVE \<and> T309 \<in> timers c)" using assms(3) by (simp add: user_event_ok_def)
    then have "ends k (seq [dl_ces dlc q931_ces_dl_release_indication,
          if_then_else (\<lambda>c. call_dlc c = Some dlc) q931_call_dl_release_indication nothing, q931_call_put]) (vok False) (call_view c)"
      unfolding cv by (intro ends_seq runs_dl_ces ends_body runs_if_then_else runs_dl_release [OF v] runs_fields v)
    from held [OF this base assms(2)] Dl_release_indication show ?thesis
      by (simp add: q931_dl_release_indication_def del: seq.simps vok.simps viewed.simps)
  qed
qed

text \<open>
  C4. A listed call of the user side (user_call) handles an event it can take to its end, and is afterwards such a call again or
  released: it is then off the list of the interface, in the null state and, unless it was rejected, without a channel.
  In the states in which the call waits for the network a timer is running.

  The events it can take (\<open>user_event_ok\<close>) are the expiries of its timers, the events of its data link, the requests of a
  caller that has a reference to it, and the messages, with these exceptions. Messages: a STATUS that reports
  another state than that of the call, save in U0 and U19 (C12), or none; the acknowledgement of a resumption in U17 and a PROGRESS
  without its indicator; a channel that the call cannot take, in U1 or in
  a SETUP; in U0 the messages that need a call; elements that overrun the decoder, or do not fit their array with the causes that are
  kept. Expiries: T308 in U1, T319 in U15 and T322 after the third enquiry. The release of the data link in U10 while T309 is
  pending. The user side has no endpoints, so there is no expiry of an endpoint's timer. The events of other calls are in C14.
\<close>

theorem user_call_events:
  assumes "user_call k c" "on_intf c" "user_event_ok k c e"
  shows "\<exists>c'. q931_event e c = Inr c' \<and> refs_ok k c' \<and> channel_ok c' \<and>
     (if on_intf c'
      then user_call k c'
      else call_state c' = U0_NULL_STATE \<and>
           (call_channel c' = None \<or> (\<exists>ies. e = Request Q931_CCB_REJECT_REQUEST ies)))"
proof -
  obtain c' v' where c': "q931_event e c = Inr c'" "user_base k c'" "viewed v' c'"
    "vok (\<exists>ies. e = Request Q931_CCB_REJECT_REQUEST ies) v'"
    using event_runs [OF assms] by blast
  moreover obtain s T l h n x where "v' = (s, T, l, h, n, x)" by (cases v')
  moreover have "0 \<le> k" using assms(1) by (simp add: user_call_def)
  ultimately show ?thesis
    by (auto simp: user_call_def user_base_def user_state_ok_def)
qed

section \<open>Clearing\<close>

lemma runs_fired:
  "x = Some c0 \<Longrightarrow> T308_fired c0 \<Longrightarrow> runs k g Q (s, T, l, h, n, x) \<Longrightarrow>
     runs k (if_then_else (\<lambda>c. \<not> T308_fired c) f g) Q (s, T, l, h, n, x)"
  unfolding runs_def if_then_else_def by (simp add: same_surroundings_def)

fun waiting :: "q931_call_state \<Rightarrow> q931_call_timer \<Rightarrow> view \<Rightarrow> bool" where
  "waiting s0 t (s, T, l, h, n, x) \<longleftrightarrow> s = s0 \<and> l \<and> t \<in> T"

fun cleared :: "view \<Rightarrow> bool" where
  "cleared (s, T, l, h, n, x) \<longleftrightarrow> s = U0_NULL_STATE \<and> \<not> l \<and> \<not> h \<and> T308 \<notin> T"

definition clearable :: "q931_call_state list" where
  "clearable =
     [U1_CALL_INITIATED, U2_OVERLAP_SENDING, U3_OUTGOING_CALL_PROCEEDING, U4_CALL_DELIVERED, U7_CALL_RECEIVED,
      U8_CONNECT_REQUEST, U9_INCOMING_CALL_PROCEEDING, U10_ACTIVE, U25_OVERLAP_RECEIVING]"

lemma runs_disconnecting:
  assumes "s \<in> set clearable" "elements_fit ies 0"
  shows "runs k (q931_disconnect_request ies) (waiting U11_DISCONNECT_REQUEST T305) (s, T, True, h, n, x)"
  unfolding q931_disconnect_request_def
  by (insert assms(1), intro oks runs_copied assms(2))
     (unfold clearable_def list.set insert_iff empty_iff; elim disjE; simp only: pick; intro oks; simp)

lemma ends_T305: "ends k q931_timer_T305 (waiting U19_RELEASE_REQUEST T308) (U11_DISCONNECT_REQUEST, T, True, h, n, x)"
  unfolding q931_timer_T305_def by (rule ends_seq) (simp only: pick, intro oks ends_put, simp)

lemma ends_T308: "T308 \<notin> T \<Longrightarrow>
  ends k q931_timer_T308 (\<lambda>v. waiting U19_RELEASE_REQUEST T308 v \<or> cleared v) (U19_RELEASE_REQUEST, T, True, h, n, x)"
  unfolding q931_timer_T308_def by (rule ends_seq) (simp only: pick, intro oks ends_put ends_seq; simp)

lemma ends_T308_last: "T308 \<notin> T \<Longrightarrow> T308_fired c0 \<Longrightarrow>
  ends k q931_timer_T308 cleared (U19_RELEASE_REQUEST, T, True, h, n, Some c0)"
  unfolding q931_timer_T308_def
  by (rule ends_seq, simp only: pick, rule runs_fired [OF refl], assumption) (intro oks ends_put ends_seq; simp)

lemma T308_fires: "q931_run_timer T308 c = Inr c' \<Longrightarrow> T308 \<in> timers c \<Longrightarrow> T308_fired c'"
  by (auto simp: q931_run_timer_def q931_call_timer_func_def q931_timer_T308_def if_then_else_def bind_res_eq_Inr
      q931_call_put_def upd_def split: if_splits)

lemma expiry_in:
  assumes "ends k (q931_call_timer_func t) Q (s, timers c - {t}, True, call_channel c \<noteq> None, length (disconnect_cause c), Some c)"
    "user_base k c" "1 \<le> k" "viewed v c" "waiting s t v"
  shows "\<exists>c' v'. q931_event (Expiry t) c = Inr c' \<and> user_base k c' \<and> viewed v' c' \<and> Q v'"
proof -
  obtain s' T l h n x where "v = (s', T, l, h, n, x)" by (cases v)
  then have "call_state c = s" "on_intf c" "t \<in> timers c" using assms(4,5) by auto
  then show ?thesis using expired [of k t Q c] assms(1-3) by simp
qed

lemma unpending: "t \<notin> timers c \<Longrightarrow> 0 < refcnt c \<Longrightarrow> q931_event (Expiry t) c = Inr c"
  by (simp add: q931_run_timer_def if_then_else_def nothing_def upd_def)

text \<open>
  C5. A call that is to be cleared is cleared even if the network never answers: after the disconnect request timer T305
  runs out once and timer T308 at most twice, and then the call is off the list, in the null state and without a channel.
\<close>

theorem clearing_ends:
  assumes "user_call k c" "on_intf c" "1 \<le> k" "call_state c \<in> set clearable" "elements_fit ies 0"
  shows "\<exists>c'. q931_events [Request Q931_CCB_DISCONNECT_REQUEST ies, Expiry T305, Expiry T308, Expiry T308] c = Inr c' \<and>
     call_state c' = U0_NULL_STATE \<and> \<not> on_intf c' \<and> call_channel c' = None"
proof -
  have "runs k (q931_disconnect_request ies) (waiting U11_DISCONNECT_REQUEST T305) (call_view c)"
    using runs_disconnecting [OF assms(4,5)] assms(2) by (simp add: call_view_def)
  then obtain c1 v1 where 1: "q931_event (Request Q931_CCB_DISCONNECT_REQUEST ies) c = Inr c1" "user_base k c1" "viewed v1 c1"
    "waiting U11_DISCONNECT_REQUEST T305 v1"
    using ran assms(1,3) by (force simp: user_call_def)
  have "ends k (q931_call_timer_func T305) (waiting U19_RELEASE_REQUEST T308)
      (U11_DISCONNECT_REQUEST, timers c1 - {T305}, True, call_channel c1 \<noteq> None, length (disconnect_cause c1), Some c1)"
    by (simp add: q931_call_timer_func_def ends_T305)
  from expiry_in [OF this 1(2) assms(3) 1(3,4)] obtain c2 v2 where
    2: "q931_event (Expiry T305) c1 = Inr c2" "user_base k c2" "viewed v2 c2" "waiting U19_RELEASE_REQUEST T308 v2" by blast
  have "ends k (q931_call_timer_func T308) (\<lambda>v. waiting U19_RELEASE_REQUEST T308 v \<or> cleared v)
      (U19_RELEASE_REQUEST, timers c2 - {T308}, True, call_channel c2 \<noteq> None, length (disconnect_cause c2), Some c2)"
    by (simp add: q931_call_timer_func_def ends_T308)
  from expiry_in [OF this 2(2) assms(3) 2(3,4)] obtain c3 v3 where
    3: "q931_event (Expiry T308) c2 = Inr c3" "user_base k c3" "viewed v3 c3" "waiting U19_RELEASE_REQUEST T308 v3 \<or> cleared v3" by blast
  have "T308 \<in> timers c2" using 2(3,4) by (cases v2) auto
  then have fired: "T308_fired c3" using 3(1) T308_fires by simp
  obtain c4 v4 where 4: "q931_event (Expiry T308) c3 = Inr c4" "viewed v4 c4" "cleared v4"
  proof (cases "cleared v3")
    case True
    then have "T308 \<notin> timers c3" using 3(3) by (cases v3) auto
    then have "q931_event (Expiry T308) c3 = Inr c3"
      using unpending good_live [of k c3] 3(2) assms(3) by (simp add: user_good_def)
    with True 3(3) that show thesis by blast
  next
    case False
    have "ends k (q931_call_timer_func T308) cleared
        (U19_RELEASE_REQUEST, timers c3 - {T308}, True, call_channel c3 \<noteq> None, length (disconnect_cause c3), Some c3)"
      by (simp add: q931_call_timer_func_def ends_T308_last fired)
    with expiry_in [OF this 3(2) assms(3) 3(3)] 3(4) False that show thesis by blast
  qed
  have "q931_events [Request Q931_CCB_DISCONNECT_REQUEST ies, Expiry T305, Expiry T308, Expiry T308] c = Inr c4"
    unfolding q931_events_def list.map seq.simps 1(1) 2(1) 3(1) 4(1) by (simp add: 1(1) 2(1) 3(1) 4(1) del: q931_event.simps)
  moreover have "call_state c4 = U0_NULL_STATE \<and> \<not> on_intf c4 \<and> call_channel c4 = None" using 4(2,3) by (cases v4) auto
  ultimately show ?thesis by blast
qed

end
