(* ===== verification/Q931_Call_Flaws.thy ===== *)
theory Q931_Call_Flaws
  imports Q931_Call_User
begin

text \<open>
  Messages with a call reference that is not known, and the ways of the call state machine that end in an assertion, in
  freed memory, or in a state the call does not leave.
\<close>

section \<open>Unknown call references\<close>

definition invalid_reference :: "q931_call \<Rightarrow> q931_ie" where
  "invalid_reference = call_cause Q931_IE_C_CV_INVALID_CALL_REFERENCE_VALUE []"

definition answer_dlc :: "q931_dlc_ref \<Rightarrow> q931_dlc_ref" where
  "answer_dlc dlc = (if dlc = Bc_dlc then Intf_dlc else dlc)"

lemma alloc_outs: "outs (q931_call_alloc i) = []"
  unfolding q931_call_alloc_def q931_interface.defs q931_call.defs by simp

lemma unknown_allocated:
  assumes "b \<or> intf_role i = LAPD_INTF_ROLE_TE \<or> dlc \<noteq> Bc_dlc"
  shows "\<exists>c. (if b then q931_call_alloc_in else q931_call_alloc_unknown) i dlc r = Inr c \<and> refcnt c = 2 \<and> on_intf c \<and>
     timers c = {} \<and> outs c = [] \<and> call_dlc c = Some (answer_dlc dlc) \<and>
     call_state c = (if intf_role i = LAPD_INTF_ROLE_TE then U0_NULL_STATE else N0_NULL_STATE)"
  using assms
  by (cases b) (simp_all add: q931_call_alloc_in_def q931_call_alloc_unknown_def q931_call_get_def q931_intf_add_call_def upd_def
      assert_that_def alloc_fields alloc_outs answer_dlc_def)

lemma answered:
  assumes "refcnt c = 2" "on_intf c" "timers c = {}" "outs c = []" "call_dlc c = Some d"
  shows "\<exists>c'. unknown_release c = Inr c' \<and> refcnt c' = 0 \<and> \<not> on_intf c' \<and> timers c' = {} \<and>
           outs c' = [Send_message d Q931_MT_RELEASE_COMPLETE [invalid_reference c]]"
    and "\<exists>c'. seq [q931_call_release_reference, q931_call_put] c = Inr c' \<and> refcnt c' = 0 \<and> \<not> on_intf c' \<and> timers c' = {} \<and> outs c' = []"
    and "\<exists>c'. unknown_other c = Inr c' \<and> refcnt c' = 2 \<and> on_intf c' \<and> timers c' = {T308} \<and>
           outs c' = [Send_message d Q931_MT_RELEASE [invalid_reference c]] \<and>
           call_state c' = (if call_state c = N0_NULL_STATE then N19_RELEASE_REQUEST else U19_RELEASE_REQUEST)"
  using assms
  by (simp_all add: unknown_release_def unknown_other_def with_cur_def with_val_def q931_call_send_def q931_call_send_message_def
      out_def upd_def q931_call_release_reference_def q931_intf_del_call_def q931_call_put_def invalid_reference_def
      q931_call_start_timer_def if_then_else_def q931_call_get_def q931_call_set_state_def)

text \<open>
  C9. A message for a call reference that is not known is answered as the recommendation says: a RELEASE by a RELEASE
  COMPLETE with cause 81, after which the call made for the answer is freed; a RELEASE COMPLETE, and a SETUP or RESUME from the side
  that did not assign the reference, by nothing, and the call is freed; any other one by a RELEASE with cause 81, and the call
  waits for its confirmation with timer T308. A message to the side that assigned the reference, of any of these types,
  that a network side gets on its broadcast link is not answered: making the call for the answer stops the process at an assertion.

  Not in question are a SETUP or RESUME from the side that assigned the reference, which begins a call, and a STATUS, which the
  new call handles as it does in its null state.
\<close>

theorem unknown_reference_answered:
  assumes "msg_message_type msg \<noteq> Q931_MT_STATUS"
    and "msg_message_type msg \<in> {Q931_MT_SETUP, Q931_MT_RESUME} \<Longrightarrow> msg_callref_direction msg \<noteq> Q931_CALLREF_FLAG_FROM_ORIGINATING_SIDE"
  shows "if msg_callref_direction msg \<noteq> Q931_CALLREF_FLAG_FROM_ORIGINATING_SIDE \<and> intf_role i \<noteq> LAPD_INTF_ROLE_TE \<and> dlc = Bc_dlc
     then q931_receive_unknown i dlc msg = Inl KernelBug
     else \<exists>c cause. q931_receive_unknown i dlc msg = Inr c \<and> cause_value cause = 81 \<and>
     (if msg_message_type msg = Q931_MT_RELEASE then
        refcnt c = 0 \<and> \<not> on_intf c \<and> timers c = {} \<and>
        outs c = [Send_message (answer_dlc dlc) Q931_MT_RELEASE_COMPLETE [IE_cause cause]]
      else if msg_message_type msg \<in> {Q931_MT_RELEASE_COMPLETE, Q931_MT_SETUP, Q931_MT_RESUME} then
        refcnt c = 0 \<and> \<not> on_intf c \<and> timers c = {} \<and> outs c = []
      else
        refcnt c = 2 \<and> on_intf c \<and> timers c = {T308} \<and>
        call_state c = (if intf_role i = LAPD_INTF_ROLE_TE then U19_RELEASE_REQUEST else N19_RELEASE_REQUEST) \<and>
        outs c = [Send_message (answer_dlc dlc) Q931_MT_RELEASE [IE_cause cause]])"
proof (cases "msg_callref_direction msg \<noteq> Q931_CALLREF_FLAG_FROM_ORIGINATING_SIDE \<and> intf_role i \<noteq> LAPD_INTF_ROLE_TE \<and> dlc = Bc_dlc")
  case True
  then show ?thesis
    by (simp add: q931_receive_unknown_def Let_def q931_call_alloc_unknown_def upd_def assert_that_def alloc_fields)
next
  case False
  let ?inbound = "msg_callref_direction msg = Q931_CALLREF_FLAG_FROM_ORIGINATING_SIDE"
  have r: "?inbound \<or> intf_role i = LAPD_INTF_ROLE_TE \<or> dlc \<noteq> Bc_dlc" using False by blast
  obtain c where c: "(if ?inbound then q931_call_alloc_in else q931_call_alloc_unknown) i dlc (msg_callref msg) = Inr c"
      "refcnt c = 2" "on_intf c" "timers c = {}" "outs c = []" "call_dlc c = Some (answer_dlc dlc)"
      "call_state c = (if intf_role i = LAPD_INTF_ROLE_TE then U0_NULL_STATE else N0_NULL_STATE)"
    using unknown_allocated [OF r, of "msg_callref msg"] by blast
  obtain cause where cause: "invalid_reference c = IE_cause cause" "cause_value cause = 81"
    unfolding invalid_reference_def call_cause_def Q931_IE_C_CV_INVALID_CALL_REFERENCE_VALUE_def by simp
  note a = answered [OF c(2-6)]
  consider (release) "msg_message_type msg = Q931_MT_RELEASE"
    | (silent) "msg_message_type msg \<in> {Q931_MT_RELEASE_COMPLETE, Q931_MT_SETUP, Q931_MT_RESUME}" "msg_message_type msg \<noteq> Q931_MT_RELEASE"
    | (other) "msg_message_type msg \<notin> {Q931_MT_RELEASE_COMPLETE, Q931_MT_SETUP, Q931_MT_RESUME}" "msg_message_type msg \<noteq> Q931_MT_RELEASE"
    by blast
  then show ?thesis
  proof cases
    case release
    obtain c' where c': "unknown_release c = Inr c'" "refcnt c' = 0" "\<not> on_intf c'" "timers c' = {}"
      "outs c' = [Send_message (answer_dlc dlc) Q931_MT_RELEASE_COMPLETE [invalid_reference c]]" using a(1) by blast
    have "q931_receive_unknown i dlc msg = Inr c'" using c(1) c'(1) release by (simp add: q931_receive_unknown_def Let_def)
    then show ?thesis unfolding if_not_P [OF False] if_P [OF release] using c'(2-5) cause by (intro exI [of _ c'] exI [of _ cause]) simp
  next
    case silent
    obtain c' where c': "seq [q931_call_release_reference, q931_call_put] c = Inr c'" "refcnt c' = 0" "\<not> on_intf c'" "timers c' = {}"
      "outs c' = []" using a(2) by blast
    have "q931_receive_unknown i dlc msg = seq [q931_call_release_reference, q931_call_put] c"
      using c(1) assms(2) silent by (auto simp: q931_receive_unknown_def Let_def)
    then show ?thesis unfolding if_not_P [OF False] if_not_P [OF silent(2)] if_P [OF silent(1)] c'(1)
      using c'(2-5) cause(2) by (intro exI [of _ c'] exI [of _ cause]) simp
  next
    case other
    obtain c' where c': "unknown_other c = Inr c'" "refcnt c' = 2" "on_intf c'" "timers c' = {T308}"
      "outs c' = [Send_message (answer_dlc dlc) Q931_MT_RELEASE [invalid_reference c]]"
      "call_state c' = (if call_state c = N0_NULL_STATE then N19_RELEASE_REQUEST else U19_RELEASE_REQUEST)" using a(3) by blast
    have "q931_receive_unknown i dlc msg = Inr c'"
      using c(1) c'(1) assms(1) other by (simp add: q931_receive_unknown_def Let_def)
    then show ?thesis unfolding if_not_P [OF False] if_not_P [OF other(2)] if_not_P [OF other(1)]
      using c'(2-6) c(7) cause by (intro exI [of _ c'] exI [of _ cause]) simp
  qed
qed

section \<open>Faults\<close>

lemmas mt_defs = Q931_MT_ALERTING_def Q931_MT_CALL_PROCEEDING_def Q931_MT_CONNECT_def Q931_MT_CONNECT_ACKNOWLEDGE_def
  Q931_MT_PROGRESS_def Q931_MT_SETUP_def Q931_MT_SETUP_ACKNOWLEDGE_def Q931_MT_DISCONNECT_def Q931_MT_RELEASE_def
  Q931_MT_RELEASE_COMPLETE_def Q931_MT_STATUS_def

lemma dispatch_values:
  "msg_message_type msg = Q931_MT_RELEASE \<Longrightarrow> q931_dispatch_message dlc msg = q931_handle_release msg"
  "msg_message_type msg = Q931_MT_STATUS \<Longrightarrow> q931_dispatch_message dlc msg = q931_handle_status msg"
  unfolding q931_dispatch_message_def Let_def mt_defs by simp_all

lemma decoding_frame: "decoding (c\<lparr>refcnt := r\<rparr>) = decoding c"
  unfolding decoding_def call_msg_env_def by simp

lemma receive_fault:
  assumes "0 < refcnt c" "call_ces c = []" "q931_dispatch_message dlc msg (c\<lparr>refcnt := refcnt c + 1\<rparr>) = Inl e"
  shows "q931_event (Message dlc msg) c = Inl e"
  using assms by (simp add: q931_receive_call_def q931_call_get_def upd_def with_val_def)

lemma decoded_value:
  "decoding c msg = Inr (ies, [], True) \<Longrightarrow> decoded msg f c = f ies c"
  by (simp add: decoded_def with_val_def decoding_def bind_res_def split: sum.splits)

text \<open>
  C11. A call the network side offers on the broadcast data link has no data link of its own until a terminal is selected.
  When it is still alone (no terminal has answered) a RELEASE from any terminal is answered on the data link the call does
  not have, and the process stops at an assertion.
\<close>

theorem broadcast_release_asserts:
  assumes "call_state c = N6_CALL_PRESENT" "call_dlc c = None" "call_ces c = []" "0 < refcnt c"
    "msg_message_type msg = Q931_MT_RELEASE" "decoding c msg = Inr (ies, [], True)"
  shows "q931_event (Message dlc msg) c = Inl KernelBug"
proof (rule receive_fault)
  let ?c = "c\<lparr>refcnt := refcnt c + 1\<rparr>"
  have "decoding ?c msg = Inr (ies, [], True)" using assms(6) by (simp add: decoding_frame)
  then have "q931_handle_release msg ?c = Inl KernelBug"
    unfolding q931_handle_release_def
    by (simp add: assms decoded_value q931_call_send_def with_val_def q931_call_send_message_def fault_def)
  then show "q931_dispatch_message dlc msg ?c = Inl KernelBug"
    using assms(5) by (simp add: dispatch_values)
qed (simp_all add: assms)

text \<open>A statement that ends in a fault.\<close>

definition fails :: "int \<Rightarrow> stmt \<Rightarrow> lapd_fault \<Rightarrow> view \<Rightarrow> bool" where
  "fails k f e v \<longleftrightarrow> (\<forall>c. user_good k c \<and> viewed v c \<longrightarrow> f c = Inl e)"

lemma fails_here: "fails k f e v \<Longrightarrow> fails k (seq (f # fs)) e v"
  unfolding fails_def by simp

lemma fails_next: "runs k f (fails k (seq fs) e) v \<Longrightarrow> fails k (seq (f # fs)) e v"
  unfolding fails_def runs_def by fastforce

lemma fails_freed: "list_ex is_cause ies \<Longrightarrow> fails k (freed_causes ies) UseAfterFree v"
  unfolding fails_def freed_causes_def fault_def by simp

text \<open>
  C12. A STATUS that reports another state than the one a user side call is in makes the call release itself and then pass
  on to its owner the causes of the message, which have been freed by then.
\<close>

theorem status_mismatch_use_after_free:
  assumes "user_call k c" "on_intf c" "call_state c \<notin> set [U0_NULL_STATE, U19_RELEASE_REQUEST]"
    "msg_message_type msg = Q931_MT_STATUS" "decoding c msg = Inr (ies, [], True)" "list_ex is_cause ies"
    "status_call_state ies = Some v" "v \<noteq> q931_call_state_to_ie_state (call_state c)"
  shows "q931_event (Message dlc msg) c = Inl UseAfterFree"
proof (rule receive_fault)
  let ?c = "c\<lparr>refcnt := refcnt c + 1\<rparr>"
  have base: "user_base k c" "0 \<le> k" using assms(1) by (simp_all add: user_call_def)
  show live: "0 < refcnt c" "call_ces c = []"
    using listed_live [OF base(1) assms(2) base(2)] base(1) by (simp_all add: user_base_def)
  note good = got_good [OF base]
  let ?s = "call_state c"
  have view: "call_view c = (?s, timers c, True, call_channel c \<noteq> None, length (disconnect_cause c), Some c)"
    using assms(2) unfolding call_view_def by simp
  have other: "fails (k + 1) (status_reported msg U19_RELEASE_REQUEST ies v) UseAfterFree (?s, T, True, h, n, x)" for T h n x
  proof -
    have differs: "fails (k + 1) f UseAfterFree (?s, T, True, h, n, x) \<Longrightarrow>
        fails (k + 1) (if_then_else (\<lambda>c. v = q931_call_state_to_ie_state (call_state c)) nothing f) UseAfterFree (?s, T, True, h, n, x)" for f
      using assms(8) unfolding fails_def if_then_else_def by simp
    show ?thesis
      unfolding status_reported_def
      by (cases "v = q931_call_state_to_ie_state N0_NULL_STATE"; simp only: if_True if_False simp_thms)
         (intro fails_next oks fails_here fails_freed assms(6) TrueI differs)+
  qed
  have "fails (k + 1) (seq [status_enquired ies, with_call_state ies (status_reported msg U19_RELEASE_REQUEST ies)])
      UseAfterFree (call_view c)"
    unfolding view with_call_state_def assms(7) option.case status_enquired_def by (intro fails_next oks fails_here other)
  with good have "seq [status_enquired ies, with_call_state ies (status_reported msg U19_RELEASE_REQUEST ies)] ?c = Inl UseAfterFree"
    unfolding fails_def by blast
  moreover have "?s \<in> set user_states" using assms(1,2) by (simp add: user_call_def user_state_ok_def)
  then have "q931_handle_status msg ?c = status_in_call msg U19_RELEASE_REQUEST ?c"
    using assms(3) unfolding q931_handle_status_def user_states_def by auto
  moreover have "decoding ?c msg = Inr (ies, [], True)" using assms(5) by (simp add: decoding_frame)
  ultimately show "q931_dispatch_message dlc msg ?c = Inl UseAfterFree"
    using assms(4) by (simp add: dispatch_values status_in_call_def decoded_value)
qed

text \<open>
  A suspension that is not answered is not given up: timer T319 runs out in the state where it was started without
  effect, and the call stays in that state with no timer for it.
\<close>

theorem suspend_timeout_ignored:
  assumes "user_call k c" "on_intf c" "call_state c = U15_SUSPEND_REQUEST" "T319 \<in> timers c"
  shows "q931_event (Expiry T319) c = Inr (c\<lparr>timers := timers c - {T319}, refcnt := refcnt c - 1\<rparr>)"
proof -
  have "0 < refcnt c" using listed_live [of k c] assms(1,2) by (simp add: user_call_def)
  then show ?thesis
    using assms(3,4)
    by (simp add: q931_run_timer_def q931_call_timer_func_def q931_timer_T319_def if_then_else_def upd_def
        q931_call_unexpected_timer_def nothing_def q931_call_put_def)
qed

section \<open>Examples\<close>

definition example_intf :: "lapd_intf_role \<Rightarrow> q931_interface" where
  "example_intf r =
     \<lparr>intf_role = r, intf_type = LAPD_INTF_TYPE_BRA, intf_mode = LAPD_INTF_MODE_MULTIPOINT,
      intf_network_role = Q931_INTF_NET_USER, intf_enable_bumping = False, intf_n_channels = 2,
      intf_channels = replicate 2 \<lparr>chan_state = Q931_CHANSTATE_AVAILABLE, chan_call = No_call\<rparr>,
      call_env = example_env, call_clock = 0, junk_T308_fired = False, junk_senq_97_98 = False, junk_senq_cnt = 0\<rparr>"

text \<open>A call a station has made, and the same call in another state with its timers.\<close>

definition example_call :: q931_call where
  "example_call = (q931_call_alloc (example_intf LAPD_INTF_ROLE_TE))
     \<lparr>call_direction := Q931_CALL_DIRECTION_OUTBOUND, call_reference := 1, call_dlc := Some Intf_dlc, refcnt := 2, on_intf := True\<rparr>"

definition example_in :: "q931_call_state \<Rightarrow> q931_call_timer \<Rightarrow> q931_call" where
  "example_in s t = example_call\<lparr>call_state := s, timers := {t}, refcnt := 3\<rparr>"

lemmas example_defs = example_in_def example_call_def example_intf_def q931_call_alloc_def q931_interface.defs q931_call.defs

lemma example_new: "q931_new_call (example_intf LAPD_INTF_ROLE_TE) example_call"
  unfolding q931_new_call_def q931_call_alloc_out_def
  by (intro disjI2 disjI1 exI [of _ 1])
     (simp add: example_defs q931_call_get_def q931_intf_add_call_def upd_def)

lemma example_user: "user_call 1 example_call" "on_intf example_call"
  by (simp_all add: user_call_def user_base_def refs_ok_def call_owners_def ces_ids_ok_def channel_ok_def user_state_ok_def
      user_states_def needs_channel_def example_defs)

lemma example_in_user:
  "s \<in> set [U1_CALL_INITIATED, U10_ACTIVE, U15_SUSPEND_REQUEST, U17_RESUME_REQUEST] \<Longrightarrow> guarded s {t} \<Longrightarrow> user_call 1 (example_in s t)"
  "on_intf (example_in s t)" "call_state (example_in s t) = s" "timers (example_in s t) = {t}"
  by (auto simp: user_call_def user_base_def refs_ok_def call_owners_def ces_ids_ok_def channel_ok_def user_state_ok_def
      user_states_def needs_channel_def example_defs)

lemmas statement_defs = if_then_else_def with_val_def with_cur_def upd_def nothing_def out_def assert_that_def
  q931_call_get_def q931_call_set_state_def q931_call_start_timer_def q931_call_send_def q931_call_send_message_def

lemma example_setup_event: "\<exists>c'. q931_events [Request Q931_CCB_SETUP_REQUEST []] example_call = Inr c' \<and> timers c' = {T303}"
  unfolding q931_events_def
  by (simp add: q931_setup_request_def statement_defs q931_ies_copy_def example_defs)

theorem call_references_witness:
  "\<exists>c'. q931_events [Request Q931_CCB_SETUP_REQUEST []] example_call = Inr c' \<and> timers c' = {T303} \<and>
     refcnt c' = 1 + 1 + of_bool (on_intf c') + int (length (call_ces c'))"
proof -
  obtain c' where c': "q931_events [Request Q931_CCB_SETUP_REQUEST []] example_call = Inr c'" "timers c' = {T303}"
    using example_setup_event by blast
  with call_references [OF example_new c'(1)] show ?thesis by simp
qed

definition example_network_call :: q931_call where
  "example_network_call = (q931_call_alloc (example_intf LAPD_INTF_ROLE_NT))
     \<lparr>call_direction := Q931_CALL_DIRECTION_OUTBOUND, call_reference := 1, call_dlc := None, refcnt := 2, on_intf := True\<rparr>"

lemma example_network_new: "q931_new_call (example_intf LAPD_INTF_ROLE_NT) example_network_call"
  unfolding q931_new_call_def q931_call_alloc_out_def example_network_call_def
  by (intro disjI2 disjI1 exI [of _ 1])
     (simp add: example_defs q931_call_get_def q931_intf_add_call_def upd_def)

text \<open>The network offers the call to the terminals: a channel is taken for it, and it has no data link of its own.\<close>

lemma example_offered:
  "\<exists>c'. q931_events [Request Q931_CCB_SETUP_REQUEST []] example_network_call = Inr c' \<and> call_channel c' = Some 0 \<and>
     call_state c' = N6_CALL_PRESENT \<and> call_dlc c' = None \<and> call_ces c' = [] \<and> refcnt c' = 4 \<and> broadcast_setup c' \<and>
     call_msg_env c' = example_env \<and> intf_role c' = LAPD_INTF_ROLE_NT \<and> intf_network_role c' = Q931_INTF_NET_USER \<and>
     call_direction c' = Q931_CALL_DIRECTION_OUTBOUND"
  unfolding q931_events_def
  by (simp add: q931_setup_request_def statement_defs q931_channel_acquire_def take_channel_def set_channel_def chan_at_def
      q931_channel_set_state_def setup_elements_def q931_ies_copy_def q931_chanset_add_def Q931_CHANSET_MAX_SIZE_def
      q931_ies_add_def Q931_IES_NUM_IES_def q931_call_send_setup_bc_def available_def upt_rec numeral_2_eq_2
      example_network_call_def example_defs call_msg_env_def example_env_def)

theorem call_channel_linked_witness:
  "\<exists>c'. q931_events [Request Q931_CCB_SETUP_REQUEST []] example_network_call = Inr c' \<and> call_channel c' = Some 0 \<and>
     0 < length (intf_channels c') \<and> chan_call (intf_channels c' ! 0) = This_call"
  using example_offered call_channel_linked [OF example_network_new] by blast

theorem user_call_events_witness:
  "\<exists>c'. q931_event (Request Q931_CCB_SETUP_REQUEST []) example_call = Inr c' \<and> refs_ok 1 c' \<and> channel_ok c'"
proof -
  have "user_event_ok 1 example_call (Request Q931_CCB_SETUP_REQUEST [])"
    by (simp add: user_event_ok_def elements_fit_def Q931_IES_NUM_IES_def example_defs)
  then show ?thesis using user_call_events [OF example_user] by blast
qed

theorem clearing_ends_witness:
  "\<exists>c'. q931_events [Request Q931_CCB_DISCONNECT_REQUEST [], Expiry T305, Expiry T308, Expiry T308] (example_in U1_CALL_INITIATED T303) = Inr c' \<and>
     call_state c' = U0_NULL_STATE \<and> \<not> on_intf c' \<and> call_channel c' = None"
  by (rule clearing_ends [of 1])
     (simp_all add: example_in_user clearable_def elements_fit_def Q931_IES_NUM_IES_def)

theorem free_reference_found_witness:
  "\<exists>r. q931_intf_find_free_call_reference 128 {1, 2} 1 = Some (r, next_reference 128 r) \<and> 1 \<le> r \<and> r < 128 \<and> r \<notin> {1, 2}"
  using free_reference_found [of 1 128 3 "{1, 2}"] by simp

theorem reference_search_hangs_witness: "q931_intf_find_free_call_reference 128 {1..<128} 5 = None"
  using reference_search_hangs [of 128 5 "{1..<128}"] by simp

definition example_message :: "u8 \<Rightarrow> q931_message" where
  "example_message mt =
     \<lparr>msg_raw = [8, 1, 5, mt], msg_callref = 5, msg_callref_len = 1, msg_callref_direction = Q931_CALLREF_FLAG_FROM_ORIGINATING_SIDE,
      msg_message_type = mt, msg_rawies = 4, msg_rawies_len = 0\<rparr>"

theorem unknown_reference_answered_witness:
  "(\<exists>c cause. q931_receive_unknown (example_intf LAPD_INTF_ROLE_TE) Bc_dlc (example_message Q931_MT_RELEASE) = Inr c \<and>
     cause_value cause = 81 \<and> refcnt c = 0 \<and> outs c = [Send_message Intf_dlc Q931_MT_RELEASE_COMPLETE [IE_cause cause]]) \<and>
   (\<exists>c cause. q931_receive_unknown (example_intf LAPD_INTF_ROLE_NT) Intf_dlc (example_message Q931_MT_CONNECT) = Inr c \<and>
     cause_value cause = 81 \<and> timers c = {T308} \<and> outs c = [Send_message Intf_dlc Q931_MT_RELEASE [IE_cause cause]]) \<and>
   q931_receive_unknown (example_intf LAPD_INTF_ROLE_NT) Bc_dlc
     ((example_message Q931_MT_CONNECT)\<lparr>msg_callref_direction := Q931_CALLREF_FLAG_TO_ORIGINATING_SIDE\<rparr>) = Inl KernelBug"
  using unknown_reference_answered [of "example_message Q931_MT_RELEASE" "example_intf LAPD_INTF_ROLE_TE" Bc_dlc]
    unknown_reference_answered [of "example_message Q931_MT_CONNECT" "example_intf LAPD_INTF_ROLE_NT" Intf_dlc]
    unknown_reference_answered [of "(example_message Q931_MT_CONNECT)\<lparr>msg_callref_direction := Q931_CALLREF_FLAG_TO_ORIGINATING_SIDE\<rparr>"
      "example_intf LAPD_INTF_ROLE_NT" Bc_dlc]
  by (simp add: example_message_def example_intf_def answer_dlc_def Q931_MT_RELEASE_def Q931_MT_SETUP_def Q931_MT_RESUME_def
      Q931_MT_STATUS_def Q931_MT_CONNECT_def Q931_MT_RELEASE_COMPLETE_def) blast

lemma example_release_ok:
  "\<forall>ie\<in>set [IE_cause example_cause]. ie_ok example_env ie" "distinct (map q931_ie_id [IE_cause example_cause])"
  "ies_apart (q931_ies_sort [IE_cause example_cause])"
  "3 + 1 + length (concat (map (octets_of example_env) (q931_ies_sort [IE_cause example_cause]))) < 512"
  by code_simp+

lemma example_release_complete: "missing_ies LAPD_INTF_ROLE_NT Q931_MT_RELEASE [IE_cause example_cause] = []"
  by code_simp

theorem broadcast_release_asserts_witness:
  "\<exists>c msg. q931_events [Request Q931_CCB_SETUP_REQUEST []] example_network_call = Inr c \<and>
     msg_message_type msg = Q931_MT_RELEASE \<and> q931_event (Message (Tei_dlc 64) msg) c = Inl KernelBug"
proof -
  obtain c where c: "q931_events [Request Q931_CCB_SETUP_REQUEST []] example_network_call = Inr c"
    "call_state c = N6_CALL_PRESENT" "call_dlc c = None" "call_ces c = []" "refcnt c = 4" "call_msg_env c = example_env"
    "intf_role c = LAPD_INTF_ROLE_NT" "intf_network_role c = Q931_INTF_NET_USER" "call_direction c = Q931_CALL_DIRECTION_OUTBOUND"
    using example_offered by blast
  have n: "(1 :: nat) \<le> 1" "(1 :: nat) \<le> 3" "(0 :: int) < 5" "(5 :: int) < 2 ^ (8 * 1 - 1)" by simp_all
  obtain msg ies where msg: "msg_message_type msg = Q931_MT_RELEASE"
    "q931_call_decode_ies example_env LAPD_INTF_ROLE_NT Q931_INTF_NET_USER Q931_CALL_DIRECTION_OUTBOUND msg = Inr (ies, [], True)"
    using message_checked [OF n example_release_ok, of Q931_CALL_DIRECTION_INBOUND Q931_MT_RELEASE LAPD_INTF_ROLE_NT
        Q931_INTF_NET_USER Q931_CALL_DIRECTION_OUTBOUND]
    unfolding example_release_complete if_P [OF refl] by blast
  then have "decoding c msg = Inr (ies, [], True)" using c(6-) by (simp add: decoding_def)
  with broadcast_release_asserts [OF c(2-4) _ msg(1)] c(5) have "q931_event (Message (Tei_dlc 64) msg) c = Inl KernelBug" by simp
  with c(1) msg(1) show ?thesis by blast
qed

definition example_status :: "q931_ie list" where
  "example_status = [IE_cause example_cause, IE_call_state 0 3]"

lemma example_status_ok:
  "\<forall>ie\<in>set example_status. ie_ok example_env ie" "distinct (map q931_ie_id example_status)"
  "ies_apart (q931_ies_sort example_status)"
  "3 + 1 + length (concat (map (octets_of example_env) (q931_ies_sort example_status))) < 512"
  by code_simp+

lemma example_status_elements:
  "missing_ies LAPD_INTF_ROLE_TE Q931_MT_STATUS example_status = []"
  "list_ex is_cause (map (ie_received example_env) (q931_ies_sort example_status))"
  "status_call_state (map (ie_received example_env) (q931_ies_sort example_status)) = Some 3"
  by code_simp+

theorem status_mismatch_use_after_free_witness:
  "\<exists>msg. msg_message_type msg = Q931_MT_STATUS \<and>
     q931_event (Message Intf_dlc msg) (example_in U10_ACTIVE T309) = Inl UseAfterFree"
proof -
  let ?c = "example_in U10_ACTIVE T309" and ?ies = "map (ie_received example_env) (q931_ies_sort example_status)"
  have n: "(1 :: nat) \<le> 1" "(1 :: nat) \<le> 3" "(0 :: int) < 5" "(5 :: int) < 2 ^ (8 * 1 - 1)" by simp_all
  obtain msg where msg: "msg_message_type msg = Q931_MT_STATUS"
    "q931_call_decode_ies example_env LAPD_INTF_ROLE_TE Q931_INTF_NET_USER Q931_CALL_DIRECTION_OUTBOUND msg = Inr (?ies, [], True)"
    using message_checked [OF n example_status_ok, of Q931_CALL_DIRECTION_INBOUND Q931_MT_STATUS LAPD_INTF_ROLE_TE
        Q931_INTF_NET_USER Q931_CALL_DIRECTION_OUTBOUND]
    unfolding example_status_elements if_P [OF refl] by blast
  have "decoding ?c msg = Inr (?ies, [], True)"
    using msg(2) by (simp add: decoding_def call_msg_env_def example_defs example_env_def del: list.map)
  with status_mismatch_use_after_free [of 1 ?c msg ?ies 3 Intf_dlc] example_status_elements msg(1) show ?thesis
    by (auto simp: example_in_user q931_call_state_to_ie_state_def)
qed

theorem suspend_timeout_ignored_witness:
  "\<exists>c'. q931_event (Expiry T319) (example_in U15_SUSPEND_REQUEST T319) = Inr c' \<and> call_state c' = U15_SUSPEND_REQUEST \<and> timers c' = {}"
  using suspend_timeout_ignored [of 1 "example_in U15_SUSPEND_REQUEST T319"] by (simp add: example_in_user)

end
