(* ===== verification/Q931_Global.thy ===== *)
theory Q931_Global
  imports Q931_Call_Flaws
begin

text \<open>
  The global call of an interface (\<^verbatim>\<open>src/libq931/global.c\<close>), which has the call reference zero and carries the restart
  procedure, with the calls of the interface behind it: a RESTART releases the calls of the channels it names through
  \<open>q931_restart_request\<close>, the calls confirm, and the global call acknowledges when the last channel is confirmed.
\<close>

section \<open>State\<close>

datatype q931_global_state =
  Q931_GLOBAL_STATE_NULL | Q931_GLOBAL_STATE_RESTART_REQUEST | Q931_GLOBAL_STATE_RESTART

datatype q931_global_out =
  Global_message q931_dlc_ref u8 "q931_ie list"
| Management_restart_confirm "nat list option"
| Timeout_management_indication
| Status_management_indication

text \<open>
  \<open>struct q931_global_call\<close> on its interface. The calls are at addresses; \<open>channel_calls\<close> has the call each channel points
  to (the field \<open>chan_call\<close> of the channels is as the call seen through \<open>call_at\<close> has it), and \<open>gc_T316\<close>, \<open>gc_T317\<close> tell
  whether the timers are pending. Elements are kept by their contents: of the restart indicator it is the class.
\<close>

record q931_global_call = q931_interface +
  channel_calls :: "nat option list"
  intf_calls :: "nat \<Rightarrow> q931_call"
  gc_state :: q931_global_state
  gc_T316 :: bool
  gc_T317 :: bool
  T317_expired :: bool
  restart_retransmit_count :: int
  restart_responded :: bool
  restart_acknowledged :: bool
  restart_indicator :: "u8 option"
  restart_reqd_chans :: "nat list"
  restart_acked_chans :: "nat list"
  restart_dlc :: "q931_dlc_ref option"
  gc_outs :: "q931_global_out list"

text \<open>The interface is cleared when it is allocated. No address has a call yet, so that what they hold does not matter.\<close>

definition q931_global_init :: "q931_interface \<Rightarrow> q931_global_call" where
  "q931_global_init i = q931_interface.extend i
     \<lparr>channel_calls = replicate (length (intf_channels i)) None, intf_calls = (\<lambda>_. q931_call_alloc i),
      gc_state = Q931_GLOBAL_STATE_NULL, gc_T316 = False, gc_T317 = False, T317_expired = False, restart_retransmit_count = 0,
      restart_responded = False, restart_acknowledged = False, restart_indicator = None, restart_reqd_chans = [],
      restart_acked_chans = [], restart_dlc = None, gc_outs = []\<rparr>"

definition q931_global_destroy :: "q931_global_call \<Rightarrow> q931_global_call" where
  "q931_global_destroy g = g\<lparr>restart_indicator := None\<rparr>"

type_synonym gstmt = "q931_global_call \<Rightarrow> q931_global_call res"

section \<open>The calls of the interface\<close>

text \<open>A call with the channels as they are now, each with this call, another one or none.\<close>

definition channel_call_of :: "nat \<Rightarrow> nat option \<Rightarrow> q931_channel_call" where
  "channel_call_of a owner = (case owner of None \<Rightarrow> No_call | Some b \<Rightarrow> if b = a then This_call else Other_call)"

definition call_at :: "q931_global_call \<Rightarrow> nat \<Rightarrow> q931_call" where
  "call_at g a =
     (intf_calls g a)\<lparr>intf_channels := map2 (\<lambda>ch owner. ch\<lparr>chan_call := channel_call_of a owner\<rparr>) (intf_channels g) (channel_calls g)\<rparr>"

definition owner_after :: "nat \<Rightarrow> q931_channel \<Rightarrow> nat option \<Rightarrow> nat option" where
  "owner_after a ch owner = (case chan_call ch of No_call \<Rightarrow> None | This_call \<Rightarrow> Some a | Other_call \<Rightarrow> owner)"

text \<open>
  A channel the call has taken from another one: the pointer of that call is cleared. The call has put what it did since
  behind what it had done before.
\<close>

fun clear_taken :: "nat option list \<Rightarrow> q931_out \<Rightarrow> (nat \<Rightarrow> q931_call) \<Rightarrow> nat \<Rightarrow> q931_call" where
  "clear_taken owners (Other_call_channel_null i) calls =
     (case owners ! i of None \<Rightarrow> calls | Some b \<Rightarrow> calls(b := (calls b)\<lparr>call_channel := None\<rparr>))"
| "clear_taken owners _ calls = calls"

definition store_call :: "nat \<Rightarrow> q931_call \<Rightarrow> q931_global_call \<Rightarrow> q931_global_call" where
  "store_call a c g = g\<lparr>
     intf_channels := intf_channels c,
     channel_calls := map2 (owner_after a) (intf_channels c) (channel_calls g),
     intf_calls :=
       fold (clear_taken (channel_calls g))
         (drop (length (filter clears_other (outs (intf_calls g a)))) (filter clears_other (outs c))) ((intf_calls g)(a := c))\<rparr>"

section \<open>Messages\<close>

definition q931_global_set_state :: "q931_global_state \<Rightarrow> q931_global_call \<Rightarrow> q931_global_call" where
  "q931_global_set_state s g = g\<lparr>gc_state := s\<rparr>"

definition global_out :: "q931_global_out \<Rightarrow> q931_global_call \<Rightarrow> q931_global_call" where
  "global_out e g = g\<lparr>gc_outs := gc_outs g @ [e]\<rparr>"

definition q931_global_send_message :: "q931_dlc_ref option \<Rightarrow> u8 \<Rightarrow> q931_ie list \<Rightarrow> gstmt" where
  "q931_global_send_message dlc mt ies g =
     (case dlc of None \<Rightarrow> Inl KernelBug | Some d \<Rightarrow> Inr (global_out (Global_message d mt ies) g))"

definition q931_ie_cause_location_gc :: "q931_global_call \<Rightarrow> u8" where
  "q931_ie_cause_location_gc g = q931_ie_cause_location Q931_CALL_DIRECTION_INBOUND (intf_network_role g) (intf_role g)"

definition gc_cause :: "u8 \<Rightarrow> q931_global_call \<Rightarrow> q931_ie" where
  "gc_cause value g =
     IE_cause \<lparr>cause_coding_standard = Q931_IE_C_CS_CCITT, cause_location = q931_ie_cause_location_gc g,
               cause_value = value, cause_recommendation = Q931_IE_C_R_Q931, cause_diagnostics = []\<rparr>"

definition gc_msg_env :: "q931_global_call \<Rightarrow> q931_env" where
  "gc_msg_env g = (call_env g)\<lparr>env_intf_type := intf_type g, env_n_channels := intf_n_channels g\<rparr>"

definition gc_decoded :: "q931_message \<Rightarrow> (q931_ie list \<Rightarrow> gstmt) \<Rightarrow> gstmt" where
  "gc_decoded msg k g = bind_res (q931_gc_decode_ies (gc_msg_env g) (intf_role g) msg) (\<lambda>ies. k ies g)"

text \<open>The channels of a restart and its class, as the messages about it carry them.\<close>

definition Q931_IE_CI_PE_EXCLUSIVE :: u8 where "Q931_IE_CI_PE_EXCLUSIVE = 1"

definition restart_channel_id :: "nat list \<Rightarrow> q931_global_call \<Rightarrow> q931_ie" where
  "restart_channel_id chans g =
     IE_channel_identification \<lparr>
       ci_interface_type = (if intf_type g = LAPD_INTF_TYPE_PRA then Q931_IE_CI_IT_PRIMARY else Q931_IE_CI_IT_BASIC),
       ci_preferred_exclusive = Q931_IE_CI_PE_EXCLUSIVE, ci_d_channel_indicator = 0, ci_any_channel = False, ci_chanset = chans\<rparr>"

definition restart_ies :: "nat list \<Rightarrow> q931_global_call \<Rightarrow> q931_ie list res" where
  "restart_ies chans g =
     (case restart_indicator g of
        None \<Rightarrow> Inl NullDereference
      | Some r \<Rightarrow>
          if r = Q931_IE_RI_C_INDICATED then Inr [restart_channel_id chans g, IE_restart_indicator Q931_IE_RI_C_INDICATED]
          else if r = Q931_IE_RI_C_SINGLE_INTERFACE then Inr [IE_restart_indicator Q931_IE_RI_C_SINGLE_INTERFACE]
          else if r = Q931_IE_RI_C_ALL_INTERFACES then Inl KernelBug
          else Inr [])"

section \<open>Restarting the other side\<close>

text \<open>
  The elements are destroyed before the message is sent: it has none. The loop over the calls that follows has an empty
  body in the source.
\<close>

definition q931_management_restart_request :: "q931_dlc_ref option \<Rightarrow> nat list \<Rightarrow> gstmt" where
  "q931_management_restart_request dlc chanset g =
     (if gc_state g = Q931_GLOBAL_STATE_NULL then
        let g = g\<lparr>T317_expired := False, restart_retransmit_count := 0, restart_responded := False, restart_acknowledged := False\<rparr>;
            g = (if restart_indicator g = Some Q931_IE_RI_C_INDICATED
                 then g\<lparr>restart_acked_chans := [], restart_reqd_chans := chanset\<rparr> else g)
        in bind_res (restart_ies (restart_reqd_chans g) g) (\<lambda>_.
           bind_res (q931_global_send_message dlc Q931_MT_RESTART [] (g\<lparr>restart_dlc := dlc\<rparr>)) (\<lambda>g.
             Inr (q931_global_set_state Q931_GLOBAL_STATE_RESTART_REQUEST (g\<lparr>gc_T316 := True\<rparr>))))
      else Inr g)"

text \<open>The channels confirmed to the management are an empty set, whatever the intersection before it leaves.\<close>

definition management_restart_confirm :: gstmt where
  "management_restart_confirm g =
     bind_res (q931_chanset_intersect (restart_reqd_chans g) (restart_acked_chans g)) (\<lambda>chans.
       Inr (global_out (Management_restart_confirm (Some []))
             (q931_global_set_state Q931_GLOBAL_STATE_NULL (g\<lparr>restart_reqd_chans := chans\<rparr>))))"

definition confirm_channel :: "nat option \<Rightarrow> gstmt" where
  "confirm_channel chan g =
     (case chan of
        None \<Rightarrow> Inr g
      | Some i \<Rightarrow>
          bind_res (q931_chanset_del (restart_reqd_chans g) i) (\<lambda>reqd.
          bind_res (q931_chanset_add (restart_acked_chans g) i) (\<lambda>acked.
            Inr (g\<lparr>restart_reqd_chans := reqd, restart_acked_chans := acked\<rparr>))))"

definition q931_global_restart_confirm :: "q931_dlc_ref option \<Rightarrow> nat option \<Rightarrow> gstmt" where
  "q931_global_restart_confirm dlc chan g =
     (case gc_state g of
        Q931_GLOBAL_STATE_RESTART_REQUEST \<Rightarrow>
          bind_res (confirm_channel chan g) (\<lambda>g.
            if restart_reqd_chans g = [] then
              let g = g\<lparr>gc_T317 := False\<rparr>
              in if restart_acknowledged g then management_restart_confirm g else Inr (g\<lparr>restart_responded := True\<rparr>)
            else Inr g)
      | Q931_GLOBAL_STATE_RESTART \<Rightarrow>
          bind_res (confirm_channel chan g) (\<lambda>g.
            if restart_reqd_chans g = [] then
              let g = q931_global_set_state Q931_GLOBAL_STATE_NULL (g\<lparr>gc_T317 := False\<rparr>)
              in bind_res (restart_ies (restart_acked_chans g) g) (\<lambda>ies.
                   q931_global_send_message dlc Q931_MT_RESTART_ACKNOWLEDGE ies g)
            else Inr g)
      | Q931_GLOBAL_STATE_NULL \<Rightarrow> Inr g)"

definition q931_global_state_to_ie_state :: "q931_global_state \<Rightarrow> u8" where
  "q931_global_state_to_ie_state s =
     (case s of Q931_GLOBAL_STATE_NULL \<Rightarrow> 0x00 | Q931_GLOBAL_STATE_RESTART_REQUEST \<Rightarrow> 0x3d | Q931_GLOBAL_STATE_RESTART \<Rightarrow> 0x3e)"

section \<open>Messages received\<close>

fun find_call_state :: "q931_ie list \<Rightarrow> u8 option" where
  "find_call_state [] = None"
| "find_call_state (ie # ies) = (case ie of IE_call_state cs v \<Rightarrow> Some v | _ \<Rightarrow> find_call_state ies)"

definition q931_global_handle_status :: "q931_message \<Rightarrow> gstmt" where
  "q931_global_handle_status msg g =
     (if gc_state g = Q931_GLOBAL_STATE_NULL then Inr g
      else gc_decoded msg (\<lambda>ies g.
        case find_call_state ies of
          None \<Rightarrow> Inl NullDereference
        | Some v \<Rightarrow>
            if v = q931_global_state_to_ie_state (gc_state g) then Inr g
            else Inr (global_out Status_management_indication g)) g)"

definition q931_channel_is_restartable :: "q931_channel \<Rightarrow> bool" where
  "q931_channel_is_restartable ch \<longleftrightarrow>
     chan_state ch \<noteq> Q931_CHANSTATE_MAINTAINANCE \<and> chan_state ch \<noteq> Q931_CHANSTATE_LEASED"

fun request_channels :: "nat list \<Rightarrow> gstmt" where
  "request_channels [] g = Inr g"
| "request_channels (i # is) g =
     (if i < length (intf_channels g) then
        if q931_channel_is_restartable (intf_channels g ! i)
        then bind_res (q931_chanset_add (restart_reqd_chans g) i) (\<lambda>chans. request_channels is (g\<lparr>restart_reqd_chans := chans\<rparr>))
        else request_channels is g
      else Inl OutOfBounds)"

fun read_restart :: "q931_ie list \<Rightarrow> gstmt" where
  "read_restart [] g = Inr g"
| "read_restart (ie # ies) g =
     (case ie of
        IE_channel_identification ci \<Rightarrow> bind_res (request_channels (ci_chanset ci) g) (read_restart ies)
      | IE_restart_indicator r \<Rightarrow> read_restart ies (g\<lparr>restart_indicator := Some r\<rparr>)
      | _ \<Rightarrow> read_restart ies g)"

text \<open>
  A call that is restarted confirms its channel in the last statement of \<open>q931_restart_request\<close>, on its own data link.
\<close>

definition restart_call :: "q931_ie list \<Rightarrow> nat \<Rightarrow> gstmt" where
  "restart_call ies a g =
     bind_res (q931_restart_request ies (call_at g a)) (\<lambda>c.
       case last (outs c) of
         Global_restart_confirm chan \<Rightarrow> q931_global_restart_confirm (call_dlc c) chan (store_call a c g)
       | _ \<Rightarrow> Inr (store_call a c g))"

fun restart_channels :: "q931_ie list \<Rightarrow> q931_dlc_ref \<Rightarrow> nat list \<Rightarrow> gstmt" where
  "restart_channels ies dlc [] g = Inr g"
| "restart_channels ies dlc (i # is) g =
     bind_res
       (case channel_calls g ! i of
          Some a \<Rightarrow> bind_res (restart_call ies a g) (\<lambda>g. Inr (if gc_T317 g then g else g\<lparr>gc_T317 := True\<rparr>))
        | None \<Rightarrow> q931_global_restart_confirm (Some dlc) (Some i) g)
       (restart_channels ies dlc is)"

definition Q931_IE_C_CV_IDENTIFIED_CHANNEL_DOES_NOT_EXIST :: u8 where "Q931_IE_C_CV_IDENTIFIED_CHANNEL_DOES_NOT_EXIST = 82"

definition q931_global_handle_restart :: "q931_dlc_ref \<Rightarrow> q931_message \<Rightarrow> gstmt" where
  "q931_global_handle_restart dlc msg g =
     (if gc_state g = Q931_GLOBAL_STATE_NULL then
        gc_decoded msg (\<lambda>ies g.
          let g = g\<lparr>T317_expired := False, restart_retransmit_count := 0, restart_responded := False, restart_acknowledged := False,
                    restart_dlc := Some dlc, restart_reqd_chans := [], restart_acked_chans := []\<rparr>
          in bind_res (read_restart ies g) (\<lambda>g.
             bind_res (if find_channel_id ies \<noteq> None then Inr g else request_channels [0..<intf_n_channels g] g) (\<lambda>g.
               if restart_reqd_chans g \<noteq> []
               then restart_channels ies dlc (restart_reqd_chans g) (q931_global_set_state Q931_GLOBAL_STATE_RESTART g)
               else q931_global_send_message (Some dlc) Q931_MT_STATUS [gc_cause Q931_IE_C_CV_IDENTIFIED_CHANNEL_DOES_NOT_EXIST g] g))) g
      else q931_global_send_message (Some dlc) Q931_MT_STATUS [gc_cause Q931_IE_C_CV_INVALID_CALL_REFERENCE_VALUE g] g)"

definition store_acknowledged :: "q931_ie list \<Rightarrow> gstmt" where
  "store_acknowledged ies g =
     (case find_channel_id ies of
        None \<Rightarrow> Inr g
      | Some ci \<Rightarrow> bind_res (q931_chanset_merge (restart_acked_chans g) (ci_chanset ci)) (\<lambda>chans. Inr (g\<lparr>restart_acked_chans := chans\<rparr>)))"

definition q931_global_handle_restart_acknowledge :: "q931_dlc_ref \<Rightarrow> q931_message \<Rightarrow> gstmt" where
  "q931_global_handle_restart_acknowledge dlc msg g =
     (if gc_state g = Q931_GLOBAL_STATE_RESTART_REQUEST then
        gc_decoded msg (\<lambda>ies g.
          let g = g\<lparr>gc_T316 := False\<rparr>
          in if restart_responded g \<or> T317_expired g then management_restart_confirm g
             else bind_res (store_acknowledged ies g) (\<lambda>g. Inr (g\<lparr>restart_acknowledged := True\<rparr>))) g
      else q931_global_send_message (Some dlc) Q931_MT_STATUS [gc_cause Q931_IE_C_CV_INVALID_CALL_REFERENCE_VALUE g] g)"

definition q931_dispatch_global_message :: "q931_dlc_ref \<Rightarrow> q931_message \<Rightarrow> gstmt" where
  "q931_dispatch_global_message dlc msg g =
     (if msg_message_type msg = Q931_MT_STATUS then q931_global_handle_status msg g
      else if msg_message_type msg = Q931_MT_RESTART then q931_global_handle_restart dlc msg g
      else if msg_message_type msg = Q931_MT_RESTART_ACKNOWLEDGE then q931_global_handle_restart_acknowledge dlc msg g
      else q931_global_send_message (Some dlc) Q931_MT_STATUS
             [gc_cause Q931_IE_C_CV_INVALID_CALL_REFERENCE_VALUE g,
              IE_call_state Q931_IE_CS_CS_CCITT (q931_global_state_to_ie_state (gc_state g))] g)"

text \<open>Messages with the dummy call reference are not handled.\<close>

definition q931_dispatch_dummy_message :: "q931_message \<Rightarrow> gstmt" where
  "q931_dispatch_dummy_message msg g = Inr g"

section \<open>Timers\<close>

text \<open>What T316 sends again differs from \<open>restart_ies\<close> where the class is none of the two that are handled.\<close>

definition restart_ies_again :: "q931_global_call \<Rightarrow> q931_ie list res" where
  "restart_ies_again g =
     (if restart_indicator g = Some Q931_IE_RI_C_ALL_INTERFACES then Inr []
      else bind_res (restart_ies (restart_reqd_chans g) g) (\<lambda>ies. if ies = [] then Inl KernelBug else Inr ies))"

definition q931_global_timer_T316 :: gstmt where
  "q931_global_timer_T316 g =
     (if gc_state g = Q931_GLOBAL_STATE_RESTART_REQUEST then
        let g = g\<lparr>restart_retransmit_count := restart_retransmit_count g + 1\<rparr>
        in if 2 \<le> restart_retransmit_count g
           then Inr (global_out (Management_restart_confirm None) (q931_global_set_state Q931_GLOBAL_STATE_NULL g))
           else bind_res (restart_ies_again g) (\<lambda>ies.
                bind_res (q931_global_send_message (restart_dlc g) Q931_MT_RESTART ies g) (\<lambda>g. Inr (g\<lparr>gc_T316 := True\<rparr>)))
      else Inr g)"

text \<open>The message T317 sends for the channels that were restarted is a RESTART, not a RESTART ACKNOWLEDGE.\<close>

definition q931_global_timer_T317 :: gstmt where
  "q931_global_timer_T317 g =
     (case gc_state g of
        Q931_GLOBAL_STATE_NULL \<Rightarrow> Inr g
      | Q931_GLOBAL_STATE_RESTART_REQUEST \<Rightarrow>
          if restart_acknowledged g then management_restart_confirm g else Inr (g\<lparr>T317_expired := True\<rparr>)
      | Q931_GLOBAL_STATE_RESTART \<Rightarrow>
          bind_res
            (if restart_acked_chans g \<noteq> [] then
               q931_global_send_message (restart_dlc g) Q931_MT_RESTART
                 [restart_channel_id (restart_acked_chans g) g, IE_restart_indicator Q931_IE_RI_C_INDICATED] g
             else Inr g)
            (\<lambda>g. Inr (global_out Timeout_management_indication (q931_global_set_state Q931_GLOBAL_STATE_NULL g))))"

datatype q931_global_event =
  Global_received q931_dlc_ref q931_message
| Expiry_T316
| Expiry_T317

text \<open>A timer is no longer pending when its function is called; one that is not pending does not expire.\<close>

fun q931_global_step :: "q931_global_event \<Rightarrow> gstmt" where
  "q931_global_step (Global_received dlc msg) g = q931_dispatch_global_message dlc msg g"
| "q931_global_step Expiry_T316 g = (if gc_T316 g then q931_global_timer_T316 (g\<lparr>gc_T316 := False\<rparr>) else Inr g)"
| "q931_global_step Expiry_T317 g = (if gc_T317 g then q931_global_timer_T317 (g\<lparr>gc_T317 := False\<rparr>) else Inr g)"

end
