(* ===== verification/Q931_Restart.thy ===== *)
theory Q931_Restart
  imports Q931_Global
begin

text \<open>
  The restart procedure: what \<open>q931_restart_request\<close> makes of a call and its channel, the loop over the channels of a
  RESTART with the confirmations of the calls, the answer, and the restarts this side asks for.
\<close>

section \<open>A call that is restarted\<close>

lemma stop_timers:
  assumes "distinct ts" "int (card (timers c \<inter> set ts)) < refcnt c"
  shows "seq (map q931_call_stop_timer ts) c =
    Inr (c\<lparr>timers := timers c - set ts, refcnt := refcnt c - int (card (timers c \<inter> set ts))\<rparr>)"
  using assms
proof (induction ts arbitrary: c)
  case (Cons t ts)
  show ?case
  proof (cases "t \<in> timers c")
    case True
    let ?c = "c\<lparr>timers := timers c - {t}, refcnt := refcnt c - 1\<rparr>"
    have s: "timers ?c \<inter> set ts = (timers c \<inter> set (t # ts)) - {t}" using Cons.prems(1) by auto
    have "card (timers c \<inter> set (t # ts)) = Suc (card (timers ?c \<inter> set ts))"
      unfolding s by (rule card.remove) (use True in auto)
    with Cons.prems have k: "int (card (timers ?c \<inter> set ts)) = int (card (timers c \<inter> set (t # ts))) - 1"
      "int (card (timers ?c \<inter> set ts)) < refcnt ?c" by simp_all
    have "q931_call_stop_timer t c = Inr ?c"
      using True Cons.prems(2) by (simp add: q931_call_stop_timer_def if_then_else_def upd_def q931_call_put_def)
    moreover have "timers ?c - set ts = timers c - set (t # ts)" by auto
    ultimately show ?thesis using Cons.IH [OF _ k(2)] Cons.prems(1) k(1) by simp
  next
    case False
    then have "timers c \<inter> set (t # ts) = timers c \<inter> set ts" "timers c - set (t # ts) = timers c - set ts" by auto
    moreover have "q931_call_stop_timer t c = Inr c"
      using False Cons.prems(2) by (simp add: q931_call_stop_timer_def if_then_else_def nothing_def upd_def)
    ultimately show ?thesis using Cons by simp
  qed
qed simp

lemma stop_any_timer:
  assumes "int (card (timers c)) < refcnt c"
  shows "q931_call_stop_any_timer c = Inr (c\<lparr>timers := {}, refcnt := refcnt c - int (card (timers c))\<rparr>)"
proof -
  have u: "set q931_call_timers = UNIV" unfolding q931_call_timers_def by (auto intro: q931_call_timer.exhaust)
  have "distinct q931_call_timers" by code_simp
  with stop_timers [of q931_call_timers c] assms u show ?thesis unfolding q931_call_stop_any_timer_def by simp
qed

text \<open>The state the call goes to, and what its channel becomes.\<close>

definition null_state :: "q931_call_state \<Rightarrow> q931_call_state" where
  "null_state s = (if s \<in> set user_states then U0_NULL_STATE else N0_NULL_STATE)"

definition free_channel :: "q931_channel \<Rightarrow> q931_channel" where
  "free_channel ch = ch\<lparr>chan_call := No_call, chan_state := Q931_CHANSTATE_AVAILABLE\<rparr>"

lemma restart_effect:
  assumes "refs_ok k c" "1 \<le> k" "on_intf c" "call_channel c = Some i" "i < length (intf_channels c)"
    "chan_call (intf_channels c ! i) = This_call"
  shows "\<exists>c' os. q931_restart_request ies c = Inr c' \<and> intf_channels c' = (intf_channels c)[i := free_channel (intf_channels c ! i)] \<and>
    call_channel c' = None \<and> \<not> on_intf c' \<and> timers c' = {} \<and> call_dlc c' = call_dlc c \<and> call_state c' = null_state (call_state c) \<and>
    refs_ok k c' \<and> outs c' = outs c @ os @ [Call_primitive Q931_CCB_RELEASE_INDICATION ies No_par, Global_restart_confirm (Some i)] \<and>
    (\<forall>j. Other_call_channel_null j \<notin> set os)"
proof -
  have r: "refcnt c = k + int (card (timers c)) + 1 + int (length (call_ces c))"
    using assms(1,3) by (simp add: refs_ok_def call_owners_def)
  then have n: "int (card (timers c)) < refcnt c" using assms(2) by simp
  have rr: "q931_restart_request ies c = restart_to (null_state (call_state c)) ies c"
    by (simp add: q931_restart_request_def null_state_def)
  have e: "refs_ok k c''" if "refcnt c'' = k + int (length (call_ces c))" "timers c'' = {}" "\<not> on_intf c''" "call_ces c'' = call_ces c" "next_ces c'' = next_ces c" for c''
    using assms(1) that by (simp add: refs_ok_def call_owners_def ces_ids_ok_def)
  show ?thesis
    using r n assms(2-6) unfolding rr restart_to_def with_val_def
    by (simp add: stop_any_timer [OF n] q931_channel_release_def on_channel_if_def with_val_def chan_at_def q931_channel_primitive_def
        out_def upd_def set_channel_def q931_call_set_state_def q931_call_release_reference_def q931_intf_del_call_def q931_call_put_def
        q931_call_primitive_def q931_call_primitive1_def nothing_def free_channel_def e)
qed

section \<open>A channel that is restarted\<close>

text \<open>A channel the restart can clear: it has no call, or one that is listed, owned by someone else too, and has a data link.\<close>

definition channel_ready :: "q931_global_call \<Rightarrow> nat \<Rightarrow> bool" where
  "channel_ready g i \<longleftrightarrow> i < length (intf_channels g) \<and>
     (case channel_calls g ! i of
        None \<Rightarrow> True
      | Some a \<Rightarrow> call_channel (intf_calls g a) = Some i \<and> on_intf (intf_calls g a) \<and> call_dlc (intf_calls g a) \<noteq> None \<and>
                  (\<exists>k\<ge>1. refs_ok k (intf_calls g a)))"

lemma ready_cong:
  assumes "intf_channels g' = intf_channels g" "channel_calls g' = channel_calls g" "intf_calls g' = intf_calls g"
  shows "channel_ready g' i = channel_ready g i"
  unfolding channel_ready_def assms by (rule refl)

definition intf_wf :: "q931_global_call \<Rightarrow> bool" where
  "intf_wf g \<longleftrightarrow> length (channel_calls g) = length (intf_channels g)"

definition was_cleared :: "q931_call \<Rightarrow> bool" where
  "was_cleared c \<longleftrightarrow> call_state c \<in> {U0_NULL_STATE, N0_NULL_STATE} \<and> \<not> on_intf c \<and> call_channel c = None \<and> timers c = {}"

text \<open>Everything but the channels and the calls.\<close>

definition gc_part :: "q931_global_call \<Rightarrow> _" where
  "gc_part g = (gc_state g, gc_T316 g, gc_T317 g, restart_indicator g, restart_reqd_chans g, restart_acked_chans g, gc_outs g, intf_type g, intf_n_channels g)"

lemma refs_channels [simp]: "refs_ok k (c\<lparr>intf_channels := chs\<rparr>) = refs_ok k c"
  by (simp add: refs_ok_def call_owners_def ces_ids_ok_def)

lemma no_clears: "\<forall>j. Other_call_channel_null j \<notin> set es \<Longrightarrow> filter clears_other es = []"
  by (auto simp: filter_empty_conv elim: clears_other.elims)

lemma owner_kept:
  "owner_after a (ch\<lparr>chan_call := channel_call_of a owner\<rparr>) owner = owner"
  by (cases owner) (simp_all add: owner_after_def channel_call_of_def)

lemma call_restarted:
  assumes "intf_wf g" "channel_ready g i" "channel_calls g ! i = Some a"
  shows "\<exists>c' g'. q931_restart_request ies (call_at g a) = Inr c' \<and> last (outs c') = Global_restart_confirm (Some i) \<and>
    call_dlc c' = call_dlc (intf_calls g a) \<and> g' = store_call a c' g \<and> gc_part g' = gc_part g \<and> intf_wf g' \<and>
    channel_calls g' = (channel_calls g)[i := None] \<and>
    map chan_state (intf_channels g') = (map chan_state (intf_channels g))[i := Q931_CHANSTATE_AVAILABLE] \<and>
    intf_calls g' = (intf_calls g)(a := c') \<and> was_cleared c'"
proof -
  let ?c = "call_at g a"
  obtain k where i: "i < length (intf_channels g)" "call_channel (intf_calls g a) = Some i" "on_intf (intf_calls g a)"
    "1 \<le> k" "refs_ok k (intf_calls g a)"
    using assms(2,3) by (auto simp: channel_ready_def)
  have w: "length (channel_calls g) = length (intf_channels g)" using assms(1) by (simp add: intf_wf_def)
  have c: "refs_ok k ?c" "on_intf ?c" "call_channel ?c = Some i" "i < length (intf_channels ?c)" "chan_call (intf_channels ?c ! i) = This_call"
    using i assms(3) w by (simp_all add: call_at_def channel_call_of_def)
  obtain c' os where c': "q931_restart_request ies ?c = Inr c'" "intf_channels c' = (intf_channels ?c)[i := free_channel (intf_channels ?c ! i)]"
    "call_channel c' = None" "\<not> on_intf c'" "timers c' = {}" "call_dlc c' = call_dlc ?c" "call_state c' = null_state (call_state ?c)"
    "outs c' = outs ?c @ os @ [Call_primitive Q931_CCB_RELEASE_INDICATION ies No_par, Global_restart_confirm (Some i)]"
    "\<forall>j. Other_call_channel_null j \<notin> set os"
    using restart_effect [OF c(1) i(4) c(2-5)] by blast
  have o: "outs ?c = outs (intf_calls g a)" "call_dlc ?c = call_dlc (intf_calls g a)" by (simp_all add: call_at_def)
  have "filter clears_other (outs c') = filter clears_other (outs (intf_calls g a))"
    using c'(8) no_clears [OF c'(9)] o by simp
  moreover have "map2 (owner_after a) (intf_channels c') (channel_calls g) = (channel_calls g)[i := None]"
  proof (rule nth_equalityI)
    fix j assume "j < length (map2 (owner_after a) (intf_channels c') (channel_calls g))"
    then have j: "j < length (intf_channels g)" using w c'(2) by (simp add: call_at_def)
    have "owner_after a (intf_channels c' ! j) (channel_calls g ! j) = (channel_calls g)[i := None] ! j"
    proof (cases "j = i")
      case True
      then show ?thesis using c'(2) c(4) i(1) w by (simp add: owner_after_def free_channel_def)
    next
      case False
      then show ?thesis using c'(2) j w by (simp add: call_at_def owner_kept)
    qed
    then show "map2 (owner_after a) (intf_channels c') (channel_calls g) ! j = (channel_calls g)[i := None] ! j"
      using j w c'(2) by (simp add: call_at_def)
  qed (use w c'(2) in \<open>simp add: call_at_def\<close>)
  moreover have "map chan_state (intf_channels c') = (map chan_state (intf_channels g))[i := Q931_CHANSTATE_AVAILABLE]"
    using w c'(2) i(1) by (intro nth_equalityI) (auto simp: call_at_def nth_list_update free_channel_def)
  moreover have "was_cleared c'" using c' by (simp add: was_cleared_def null_state_def)
  moreover have "length (intf_channels c') = length (channel_calls g)" using c'(2) w by (simp add: call_at_def)
  ultimately show ?thesis
    using c'(1,8) c'(6) o by (intro exI [of _ c'] exI [of _ "store_call a c' g"]) (simp add: store_call_def gc_part_def intf_wf_def)
qed

text \<open>One turn of the loop over the channels, up to the confirmation.\<close>

definition turn :: "q931_ie list \<Rightarrow> q931_dlc_ref \<Rightarrow> nat \<Rightarrow> gstmt" where
  "turn ies dlc i g =
     (case channel_calls g ! i of
        Some a \<Rightarrow> bind_res (restart_call ies a g) (\<lambda>g. Inr (if gc_T317 g then g else g\<lparr>gc_T317 := True\<rparr>))
      | None \<Rightarrow> q931_global_restart_confirm (Some dlc) (Some i) g)"

definition restart_link :: "q931_global_call \<Rightarrow> q931_dlc_ref \<Rightarrow> nat \<Rightarrow> q931_dlc_ref" where
  "restart_link g dlc i = (case channel_calls g ! i of None \<Rightarrow> dlc | Some a \<Rightarrow> the (call_dlc (intf_calls g a)))"

definition cleared_channel :: "nat \<Rightarrow> q931_global_call \<Rightarrow> q931_global_call \<Rightarrow> bool" where
  "cleared_channel i g g' \<longleftrightarrow>
     intf_wf g' \<and> length (intf_channels g') = length (intf_channels g) \<and> channel_calls g' = (channel_calls g)[i := None] \<and>
     (\<forall>j < length (intf_channels g). j \<noteq> i \<longrightarrow> chan_state (intf_channels g' ! j) = chan_state (intf_channels g ! j)) \<and>
     (\<forall>a. channel_calls g ! i \<noteq> Some a \<longrightarrow> intf_calls g' a = intf_calls g a) \<and>
     (\<forall>a. channel_calls g ! i = Some a \<longrightarrow> was_cleared (intf_calls g' a) \<and> chan_state (intf_channels g' ! i) = Q931_CHANSTATE_AVAILABLE) \<and>
     (channel_calls g ! i = None \<longrightarrow> chan_state (intf_channels g' ! i) = chan_state (intf_channels g ! i)) \<and>
     restart_indicator g' = restart_indicator g \<and> intf_type g' = intf_type g \<and> gc_outs g' = gc_outs g"

lemma restart_ies_cong:
  assumes "restart_indicator g' = restart_indicator g" "intf_type g' = intf_type g"
  shows "restart_ies chs g' = restart_ies chs g"
proof -
  have "restart_channel_id chs g' = restart_channel_id chs g" using assms(2) by (simp add: restart_channel_id_def)
  with assms(1) show ?thesis by (simp add: restart_ies_def split: option.split)
qed

text \<open>The confirmation of a channel, and what follows when it is the last one.\<close>

definition confirmed :: "nat \<Rightarrow> q931_global_call \<Rightarrow> q931_global_call" where
  "confirmed i g = g\<lparr>restart_reqd_chans := tl (restart_reqd_chans g), restart_acked_chans := restart_acked_chans g @ [i]\<rparr>"

lemma restart_confirm:
  assumes "gc_state g = Q931_GLOBAL_STATE_RESTART" "restart_reqd_chans g = i # is" "distinct (restart_acked_chans g @ i # is)"
    "length (restart_acked_chans g @ i # is) \<le> 32"
  shows "q931_global_restart_confirm (Some d) (Some i) g =
    (if is = [] then bind_res (restart_ies (restart_acked_chans g @ [i]) g) (\<lambda>es.
       Inr ((confirmed i g)\<lparr>gc_T317 := False, gc_state := Q931_GLOBAL_STATE_NULL, gc_outs := gc_outs g @ [Global_message d Q931_MT_RESTART_ACKNOWLEDGE es]\<rparr>))
     else Inr (confirmed i g))"
proof -
  have "confirm_channel (Some i) g = Inr (confirmed i g)"
    using assms by (simp add: confirm_channel_def q931_chanset_del_def q931_chanset_add_def Q931_CHANSET_MAX_SIZE_def confirmed_def)
  then show ?thesis
    using assms(1,2) by (simp add: q931_global_restart_confirm_def confirmed_def restart_ies_def restart_channel_id_def
        q931_global_set_state_def q931_global_send_message_def global_out_def bind_res_def split: option.splits sum.splits)
qed

lemma turn_runs:
  assumes "intf_wf g" "channel_ready g i" "gc_state g = Q931_GLOBAL_STATE_RESTART" "restart_reqd_chans g = i # is"
    "distinct (restart_acked_chans g @ i # is)" "length (restart_acked_chans g @ i # is) \<le> 32"
  shows "\<exists>g'. cleared_channel i g g' \<and> restart_reqd_chans g' = is \<and> restart_acked_chans g' = restart_acked_chans g @ [i] \<and>
    gc_state g' = (if is = [] then Q931_GLOBAL_STATE_NULL else Q931_GLOBAL_STATE_RESTART) \<and>
    turn ies dlc i g = (if is = [] then bind_res (restart_ies (restart_acked_chans g @ [i]) g) (\<lambda>es.
         Inr (g'\<lparr>gc_outs := gc_outs g @ [Global_message (restart_link g dlc i) Q931_MT_RESTART_ACKNOWLEDGE es]\<rparr>))
       else Inr g')"
proof (cases "channel_calls g ! i")
  case None
  have u: "(channel_calls g)[i := None] = channel_calls g" using list_update_id [of "channel_calls g" i] None by simp
  have c: "cleared_channel i g (confirmed i g)" "cleared_channel i g ((confirmed i g)\<lparr>gc_T317 := False, gc_state := Q931_GLOBAL_STATE_NULL\<rparr>)"
    using assms(1) None unfolding cleared_channel_def confirmed_def intf_wf_def by (simp_all add: u)
  show ?thesis
  proof (cases "is = []")
    case True
    with restart_confirm [OF assms(3-6), of dlc] None c(2) assms(3,4) show ?thesis
      by (intro exI [of _ "(confirmed i g)\<lparr>gc_T317 := False, gc_state := Q931_GLOBAL_STATE_NULL\<rparr>"])
         (simp add: turn_def restart_link_def confirmed_def)
  next
    case False
    with restart_confirm [OF assms(3-6), of dlc] None c(1) assms(3,4) show ?thesis
      by (intro exI [of _ "confirmed i g"]) (simp add: turn_def confirmed_def)
  qed
next
  case (Some a)
  obtain c' g1 where g1: "q931_restart_request ies (call_at g a) = Inr c'" "last (outs c') = Global_restart_confirm (Some i)"
    "call_dlc c' = call_dlc (intf_calls g a)" "g1 = store_call a c' g" "gc_part g1 = gc_part g" "intf_wf g1"
    "channel_calls g1 = (channel_calls g)[i := None]"
    "map chan_state (intf_channels g1) = (map chan_state (intf_channels g))[i := Q931_CHANSTATE_AVAILABLE]"
    "intf_calls g1 = (intf_calls g)(a := c')" "was_cleared c'"
    using call_restarted [OF assms(1,2) Some] by blast
  have p: "gc_state g1 = gc_state g" "restart_reqd_chans g1 = restart_reqd_chans g" "restart_acked_chans g1 = restart_acked_chans g"
    "restart_indicator g1 = restart_indicator g" "intf_type g1 = intf_type g" "gc_outs g1 = gc_outs g" using g1(5) by (simp_all add: gc_part_def)
  have i: "i < length (intf_channels g)" "call_dlc (intf_calls g a) \<noteq> None" using assms(2) Some by (simp_all add: channel_ready_def)
  then obtain d where d: "call_dlc (intf_calls g a) = Some d" by blast
  have l: "length (intf_channels g1) = length (intf_channels g)" using arg_cong [OF g1(8), of length] by simp
  have s: "chan_state (intf_channels g1 ! j) = (if j = i then Q931_CHANSTATE_AVAILABLE else chan_state (intf_channels g ! j))"
    if "j < length (intf_channels g)" for j
    using arg_cong [OF g1(8), of "\<lambda>xs. xs ! j"] that l by (simp add: nth_list_update)
  have c: "cleared_channel i g ((confirmed i g1)\<lparr>gc_T317 := b, gc_state := t\<rparr>)" for b t
    using g1 p l s i Some unfolding cleared_channel_def confirmed_def by (simp add: intf_wf_def)
  have r: "restart_call ies a g = q931_global_restart_confirm (Some d) (Some i) g1"
    using g1(1-4) d by (simp add: restart_call_def)
  have e: "restart_ies chs g1 = restart_ies chs g" for chs using p by (intro restart_ies_cong)
  note rc = restart_confirm [of g1 i "is" d, unfolded p, OF assms(3-6)]
  show ?thesis
  proof (cases "is = []")
    case True
    with rc r Some c [of Q931_GLOBAL_STATE_NULL True] d p assms(4) show ?thesis
      by (intro exI [of _ "(confirmed i g1)\<lparr>gc_T317 := True, gc_state := Q931_GLOBAL_STATE_NULL\<rparr>"])
         (simp add: turn_def restart_link_def confirmed_def e bind_res_def split: sum.splits)
  next
    case False
    with rc r Some c [of Q931_GLOBAL_STATE_RESTART True] d p assms(3,4) show ?thesis
      by (intro exI [of _ "(confirmed i g1)\<lparr>gc_T317 := True, gc_state := Q931_GLOBAL_STATE_RESTART\<rparr>"])
         (auto simp: turn_def confirmed_def)
  qed
qed

section \<open>A restart\<close>

text \<open>What a restart of the channels \<open>chs\<close> makes of the interface.\<close>

definition restarted :: "nat list \<Rightarrow> q931_global_call \<Rightarrow> q931_global_call \<Rightarrow> bool" where
  "restarted chs g g' \<longleftrightarrow>
     (\<forall>i < length (intf_channels g).
        if i \<in> set chs
        then channel_calls g' ! i = None \<and>
             (\<forall>a. channel_calls g ! i = Some a \<longrightarrow> was_cleared (intf_calls g' a) \<and> chan_state (intf_channels g' ! i) = Q931_CHANSTATE_AVAILABLE)
        else channel_calls g' ! i = channel_calls g ! i \<and> chan_state (intf_channels g' ! i) = chan_state (intf_channels g ! i)) \<and>
     (\<forall>a. (\<forall>i\<in>set chs. channel_calls g ! i \<noteq> Some a) \<longrightarrow> intf_calls g' a = intf_calls g a)"

lemma ready_behind:
  assumes "cleared_channel i g g'" "channel_ready g i" "channel_ready g j" "i \<noteq> j" "intf_wf g"
  shows "channel_ready g' j" "channel_calls g' ! j = channel_calls g ! j" "restart_link g' dlc j = restart_link g dlc j"
proof -
  show o: "channel_calls g' ! j = channel_calls g ! j" using assms by (simp add: cleared_channel_def)
  have "channel_calls g ! i \<noteq> Some b" if "channel_calls g ! j = Some b" for b
    using assms(2-4) that by (auto simp: channel_ready_def)
  then have k: "intf_calls g' b = intf_calls g b" if "channel_calls g ! j = Some b" for b
    using assms(1) that unfolding cleared_channel_def by blast
  have l: "length (intf_channels g') = length (intf_channels g)" using assms(1) by (simp add: cleared_channel_def)
  show "channel_ready g' j" using assms(3) k unfolding channel_ready_def o l by (simp split: option.splits)
  show "restart_link g' dlc j = restart_link g dlc j" using k unfolding restart_link_def o by (simp split: option.splits)
qed

lemma restarted_Cons:
  assumes c: "cleared_channel i g g1" and r: "restarted is g1 g2" and "intf_wf g" "\<forall>j\<in>set (i # is). channel_ready g j" "i \<notin> set is"
  shows "restarted (i # is) g g2"
proof -
  have l: "length (intf_channels g1) = length (intf_channels g)" "i < length (intf_channels g)"
    using c assms(4) by (simp_all add: cleared_channel_def channel_ready_def)
  have o: "channel_calls g1 ! j = channel_calls g ! j" if "j \<noteq> i" for j using c that by (simp add: cleared_channel_def)
  have oi: "channel_calls g1 ! i = None" using c l(2) assms(3) by (simp add: cleared_channel_def intf_wf_def)
  have keep: "intf_calls g2 a = intf_calls g1 a" if "\<forall>j\<in>set is. channel_calls g1 ! j \<noteq> Some a" for a
    using r that unfolding restarted_def by blast
  have other: "channel_calls g ! j \<noteq> Some a" if "channel_calls g ! i = Some a" "j \<in> set is" for a j
    using assms(4,5) that by (auto simp: channel_ready_def)
  have ci: "channel_calls g2 ! i = None" "chan_state (intf_channels g2 ! i) = chan_state (intf_channels g1 ! i)"
    using r l assms(5) oi unfolding restarted_def by simp_all
  have keep_all: "intf_calls g2 a = intf_calls g a" if "\<forall>j\<in>set (i # is). channel_calls g ! j \<noteq> Some a" for a
  proof -
    have "intf_calls g2 a = intf_calls g1 a"
      using that o assms(5) by (intro keep ballI) (metis list.set_intros(2))
    moreover have "intf_calls g1 a = intf_calls g a" using c that unfolding cleared_channel_def by simp
    ultimately show ?thesis by simp
  qed
  have "was_cleared (intf_calls g2 a) \<and> chan_state (intf_channels g2 ! i) = Q931_CHANSTATE_AVAILABLE" if "channel_calls g ! i = Some a" for a
  proof -
    have "intf_calls g2 a = intf_calls g1 a" using other [OF that] o assms(5) by (intro keep) metis
    with c that ci(2) show ?thesis unfolding cleared_channel_def by simp
  qed
  moreover have "if j \<in> set is
      then channel_calls g2 ! j = None \<and> (\<forall>a. channel_calls g ! j = Some a \<longrightarrow> was_cleared (intf_calls g2 a) \<and> chan_state (intf_channels g2 ! j) = Q931_CHANSTATE_AVAILABLE)
      else channel_calls g2 ! j = channel_calls g ! j \<and> chan_state (intf_channels g2 ! j) = chan_state (intf_channels g ! j)"
    if "j < length (intf_channels g)" "j \<noteq> i" for j
  proof -
    have "chan_state (intf_channels g1 ! j) = chan_state (intf_channels g ! j)" using c that unfolding cleared_channel_def by simp
    moreover have "if j \<in> set is
      then channel_calls g2 ! j = None \<and> (\<forall>a. channel_calls g1 ! j = Some a \<longrightarrow> was_cleared (intf_calls g2 a) \<and> chan_state (intf_channels g2 ! j) = Q931_CHANSTATE_AVAILABLE)
      else channel_calls g2 ! j = channel_calls g1 ! j \<and> chan_state (intf_channels g2 ! j) = chan_state (intf_channels g1 ! j)"
      using r that(1) l(1) unfolding restarted_def by simp
    ultimately show ?thesis using o [OF that(2)] by simp
  qed
  ultimately have at: "if j \<in> set (i # is)
      then channel_calls g2 ! j = None \<and> (\<forall>a. channel_calls g ! j = Some a \<longrightarrow> was_cleared (intf_calls g2 a) \<and> chan_state (intf_channels g2 ! j) = Q931_CHANSTATE_AVAILABLE)
      else channel_calls g2 ! j = channel_calls g ! j \<and> chan_state (intf_channels g2 ! j) = chan_state (intf_channels g ! j)"
    if "j < length (intf_channels g)" for j
    using that ci(1) by (cases "j = i") simp_all
  show ?thesis unfolding restarted_def using at keep_all by blast
qed

lemma channels_restarted:
  assumes "intf_wf g" "chs \<noteq> []" "\<forall>i\<in>set chs. channel_ready g i" "gc_state g = Q931_GLOBAL_STATE_RESTART"
    "restart_reqd_chans g = chs" "distinct (restart_acked_chans g @ chs)" "length (restart_acked_chans g @ chs) \<le> 32"
  shows "\<exists>g'. restarted chs g g' \<and> gc_state g' = Q931_GLOBAL_STATE_NULL \<and>
    restart_channels ies dlc chs g = bind_res (restart_ies (restart_acked_chans g @ chs) g) (\<lambda>es.
      Inr (g'\<lparr>gc_outs := gc_outs g @ [Global_message (restart_link g dlc (last chs)) Q931_MT_RESTART_ACKNOWLEDGE es]\<rparr>))"
  using assms
proof (induction chs arbitrary: g)
  case (Cons i "is")
  obtain g1 where g1: "cleared_channel i g g1" "restart_reqd_chans g1 = is" "restart_acked_chans g1 = restart_acked_chans g @ [i]"
    "gc_state g1 = (if is = [] then Q931_GLOBAL_STATE_NULL else Q931_GLOBAL_STATE_RESTART)"
    "turn ies dlc i g = (if is = [] then bind_res (restart_ies (restart_acked_chans g @ [i]) g) (\<lambda>es.
         Inr (g1\<lparr>gc_outs := gc_outs g @ [Global_message (restart_link g dlc i) Q931_MT_RESTART_ACKNOWLEDGE es]\<rparr>))
       else Inr g1)"
    using turn_runs [OF Cons.prems(1) _ Cons.prems(4,5,6,7)] Cons.prems(3) by fastforce
  have step: "restart_channels ies dlc (i # is) g = bind_res (turn ies dlc i g) (restart_channels ies dlc is)" by (simp add: turn_def)
  have i: "channel_ready g i" "i \<notin> set is" using Cons.prems by simp_all
  show ?case
  proof (cases "is = []")
    case True
    have "restarted [] g1 g1" by (simp add: restarted_def)
    from restarted_Cons [OF g1(1) this Cons.prems(1)] Cons.prems(3) True have "restarted [i] g g1" by simp
    then show ?thesis unfolding step using g1(4,5) True by (intro exI [of _ g1]) (simp add: bind_res_def split: sum.splits)
  next
    case False
    have w: "intf_wf g1" using g1(1) by (simp add: cleared_channel_def)
    have n: "i \<noteq> j" if "j \<in> set is" for j using that i(2) by blast
    have rd: "\<forall>j\<in>set is. channel_ready g1 j" using ready_behind(1) [OF g1(1) i(1) _ n Cons.prems(1)] Cons.prems(3) by simp
    have lk: "restart_link g1 dlc (last is) = restart_link g dlc (last is)"
      using ready_behind(3) [OF g1(1) i(1) _ n [OF last_in_set [OF False]] Cons.prems(1)] Cons.prems(3) last_in_set [OF False] by simp
    have s1: "gc_state g1 = Q931_GLOBAL_STATE_RESTART" using g1(4) False by simp
    have "\<exists>g'. restarted is g1 g' \<and> gc_state g' = Q931_GLOBAL_STATE_NULL \<and>
      restart_channels ies dlc is g1 = bind_res (restart_ies (restart_acked_chans g1 @ is) g1) (\<lambda>es.
        Inr (g'\<lparr>gc_outs := gc_outs g1 @ [Global_message (restart_link g1 dlc (last is)) Q931_MT_RESTART_ACKNOWLEDGE es]\<rparr>))"
      using Cons.prems(6,7) g1(3) by (intro Cons.IH [OF w False rd s1 g1(2)]) simp_all
    then obtain g' where g': "restarted is g1 g'" "gc_state g' = Q931_GLOBAL_STATE_NULL"
      "restart_channels ies dlc is g1 = bind_res (restart_ies (restart_acked_chans g1 @ is) g1) (\<lambda>es.
        Inr (g'\<lparr>gc_outs := gc_outs g1 @ [Global_message (restart_link g1 dlc (last is)) Q931_MT_RESTART_ACKNOWLEDGE es]\<rparr>))" by blast
    have e: "restart_ies c g1 = restart_ies c g" "gc_outs g1 = gc_outs g" for c
      using g1(1) by (auto simp: cleared_channel_def intro: restart_ies_cong)
    have t: "turn ies dlc i g = Inr g1" using g1(5) False by simp
    have "restarted (i # is) g g'" by (rule restarted_Cons [OF g1(1) g'(1) Cons.prems(1,3) i(2)])
    with g'(2,3) show ?thesis unfolding step t bind_res_simps g1(3) e lk using False by (intro exI [of _ g']) simp
  qed
qed simp

text \<open>The channels a RESTART is about, and the class it leaves the global call with.\<close>

fun named_channels :: "q931_ie list \<Rightarrow> nat list" where
  "named_channels [] = []"
| "named_channels (ie # ies) = (case ie of IE_channel_identification ci \<Rightarrow> ci_chanset ci @ named_channels ies | _ \<Rightarrow> named_channels ies)"

definition restart_channels_of :: "q931_global_call \<Rightarrow> q931_ie list \<Rightarrow> nat list" where
  "restart_channels_of g ies = (if find_channel_id ies = None then [0..<intf_n_channels g] else named_channels ies)"

fun class_after :: "q931_ie list \<Rightarrow> u8 option \<Rightarrow> u8 option" where
  "class_after [] r = r"
| "class_after (ie # ies) r = (case ie of IE_restart_indicator r' \<Rightarrow> class_after ies (Some r') | _ \<Rightarrow> class_after ies r)"

definition restartable :: "q931_global_call \<Rightarrow> nat set" where
  "restartable g = {i. q931_channel_is_restartable (intf_channels g ! i)}"

lemma channels_requested:
  assumes "\<forall>i\<in>set is. i < length (intf_channels g)" "distinct (restart_reqd_chans g)" "length (restart_reqd_chans g) + length is \<le> 32"
  shows "\<exists>chs. request_channels is g = Inr (g\<lparr>restart_reqd_chans := chs\<rparr>) \<and> distinct chs \<and>
    set chs = set (restart_reqd_chans g) \<union> (set is \<inter> restartable g) \<and> length chs \<le> length (restart_reqd_chans g) + length is"
  using assms
proof (induction "is" arbitrary: g)
  case (Cons i "is")
  show ?case
  proof (cases "q931_channel_is_restartable (intf_channels g ! i)")
    case True
    let ?chs = "if i \<in> set (restart_reqd_chans g) then restart_reqd_chans g else restart_reqd_chans g @ [i]"
    let ?g = "g\<lparr>restart_reqd_chans := ?chs\<rparr>"
    have a: "q931_chanset_add (restart_reqd_chans g) i = Inr ?chs"
      using Cons.prems(3) by (simp add: q931_chanset_add_def Q931_CHANSET_MAX_SIZE_def)
    have "\<exists>chs. request_channels is ?g = Inr (?g\<lparr>restart_reqd_chans := chs\<rparr>) \<and> distinct chs \<and>
      set chs = set (restart_reqd_chans ?g) \<union> (set is \<inter> restartable ?g) \<and> length chs \<le> length (restart_reqd_chans ?g) + length is"
      using Cons.prems by (intro Cons.IH) auto
    then obtain chs where "request_channels is ?g = Inr (?g\<lparr>restart_reqd_chans := chs\<rparr>)" "distinct chs"
      "set chs = set ?chs \<union> (set is \<inter> restartable g)" "length chs \<le> length ?chs + length is"
      by (auto simp: restartable_def)
    with True a Cons.prems(1) show ?thesis
      by (intro exI [of _ chs]) (auto simp: restartable_def split: if_splits)
  next
    case False
    have "\<exists>chs. request_channels is g = Inr (g\<lparr>restart_reqd_chans := chs\<rparr>) \<and> distinct chs \<and>
      set chs = set (restart_reqd_chans g) \<union> (set is \<inter> restartable g) \<and> length chs \<le> length (restart_reqd_chans g) + length is"
      using Cons.prems by (intro Cons.IH) auto
    moreover have "set (i # is) \<inter> restartable g = set is \<inter> restartable g" using False by (auto simp: restartable_def)
    ultimately show ?thesis using False Cons.prems(1) by auto
  qed
next
  case Nil
  then show ?case by (intro exI [of _ "restart_reqd_chans g"]) simp
qed

lemma restart_read:
  assumes "\<forall>i\<in>set (named_channels ies). i < length (intf_channels g)" "distinct (restart_reqd_chans g)"
    "length (restart_reqd_chans g) + length (named_channels ies) \<le> 32"
  shows "\<exists>chs. read_restart ies g = Inr (g\<lparr>restart_reqd_chans := chs, restart_indicator := class_after ies (restart_indicator g)\<rparr>) \<and>
    distinct chs \<and> set chs = set (restart_reqd_chans g) \<union> (set (named_channels ies) \<inter> restartable g) \<and>
    length chs \<le> length (restart_reqd_chans g) + length (named_channels ies)"
  using assms
proof (induction ies arbitrary: g)
  case (Cons ie ies)
  show ?case
  proof (cases "\<exists>ci. ie = IE_channel_identification ci")
    case True
    then obtain ci where ci: "ie = IE_channel_identification ci" by blast
    obtain chs where chs: "request_channels (ci_chanset ci) g = Inr (g\<lparr>restart_reqd_chans := chs\<rparr>)" "distinct chs"
      "set chs = set (restart_reqd_chans g) \<union> (set (ci_chanset ci) \<inter> restartable g)" "length chs \<le> length (restart_reqd_chans g) + length (ci_chanset ci)"
      using channels_requested [of "ci_chanset ci" g] Cons.prems ci by auto
    let ?g = "g\<lparr>restart_reqd_chans := chs\<rparr>"
    have "\<exists>chs'. read_restart ies ?g = Inr (?g\<lparr>restart_reqd_chans := chs', restart_indicator := class_after ies (restart_indicator ?g)\<rparr>) \<and>
      distinct chs' \<and> set chs' = set (restart_reqd_chans ?g) \<union> (set (named_channels ies) \<inter> restartable ?g) \<and>
      length chs' \<le> length (restart_reqd_chans ?g) + length (named_channels ies)"
      using Cons.prems ci chs(2,4) by (intro Cons.IH) auto
    then show ?thesis using ci chs by (auto simp: restartable_def)
  next
    case no_ci: False
    show ?thesis
    proof (cases "\<exists>r. ie = IE_restart_indicator r")
      case True
      then obtain r where r: "ie = IE_restart_indicator r" by blast
      let ?g = "g\<lparr>restart_indicator := Some r\<rparr>"
      have "\<exists>chs'. read_restart ies ?g = Inr (?g\<lparr>restart_reqd_chans := chs', restart_indicator := class_after ies (restart_indicator ?g)\<rparr>) \<and>
        distinct chs' \<and> set chs' = set (restart_reqd_chans ?g) \<union> (set (named_channels ies) \<inter> restartable ?g) \<and>
        length chs' \<le> length (restart_reqd_chans ?g) + length (named_channels ies)"
        using Cons.prems r by (intro Cons.IH) auto
      then show ?thesis using r by (auto simp: restartable_def)
    next
      case False
      with no_ci Cons show ?thesis by (cases ie) simp_all
    qed
  qed
next
  case Nil
  then show ?case by (intro exI [of _ "restart_reqd_chans g"]) simp
qed

lemma no_channel_id: "find_channel_id ies = None \<Longrightarrow> named_channels ies = []"
  by (induction ies) (auto split: q931_ie.splits)

lemma restart_handled:
  assumes "intf_wf g" "gc_state g = Q931_GLOBAL_STATE_NULL" "msg_message_type msg = Q931_MT_RESTART"
    "q931_gc_decode_ies (gc_msg_env g) (intf_role g) msg = Inr ies"
    "\<forall>i\<in>set (restart_channels_of g ies). i < length (intf_channels g)" "length (restart_channels_of g ies) \<le> 32"
    "set (restart_channels_of g ies) \<inter> restartable g \<noteq> {}"
    "\<forall>i\<in>set (restart_channels_of g ies) \<inter> restartable g. channel_ready g i"
  shows "\<exists>chs g'. distinct chs \<and> set chs = set (restart_channels_of g ies) \<inter> restartable g \<and> restarted chs g g' \<and>
    gc_state g' = Q931_GLOBAL_STATE_NULL \<and>
    q931_dispatch_global_message dlc msg g =
      bind_res (restart_ies chs (g\<lparr>restart_indicator := class_after ies (restart_indicator g)\<rparr>)) (\<lambda>es.
        Inr (g'\<lparr>gc_outs := gc_outs g @ [Global_message (restart_link g dlc (last chs)) Q931_MT_RESTART_ACKNOWLEDGE es]\<rparr>))"
proof -
  let ?g = "g\<lparr>T317_expired := False, restart_retransmit_count := 0, restart_responded := False, restart_acknowledged := False,
    restart_dlc := Some dlc, restart_reqd_chans := [], restart_acked_chans := []\<rparr>"
  let ?c = "class_after ies (restart_indicator g)"
  have "\<exists>chs. bind_res (read_restart ies ?g) (\<lambda>g. if find_channel_id ies \<noteq> None then Inr g else request_channels [0..<intf_n_channels g] g) =
      Inr (?g\<lparr>restart_reqd_chans := chs, restart_indicator := ?c\<rparr>) \<and>
    distinct chs \<and> set chs = set (restart_channels_of g ies) \<inter> restartable g \<and> length chs \<le> length (restart_channels_of g ies)"
  proof (cases "find_channel_id ies = None")
    case True
    have r: "read_restart ies ?g = Inr (?g\<lparr>restart_indicator := ?c\<rparr>)"
      using restart_read [of ies ?g] no_channel_id [OF True] by auto
    have n: "restart_channels_of g ies = [0..<intf_n_channels g]" using True by (simp add: restart_channels_of_def)
    have "restartable (?g\<lparr>restart_indicator := ?c\<rparr>) = restartable g" by (simp add: restartable_def)
    with channels_requested [of "[0..<intf_n_channels g]" "?g\<lparr>restart_indicator := ?c\<rparr>"] assms(5,6)
    obtain chs where "request_channels [0..<intf_n_channels g] (?g\<lparr>restart_indicator := ?c\<rparr>) =
        Inr (?g\<lparr>restart_indicator := ?c, restart_reqd_chans := chs\<rparr>)"
      "distinct chs" "set chs = {0..<intf_n_channels g} \<inter> restartable g" "length chs \<le> intf_n_channels g"
      unfolding n by auto
    then show ?thesis unfolding r n using True by (intro exI [of _ chs]) simp
  next
    case False
    have n: "restart_channels_of g ies = named_channels ies" using False by (auto simp: restart_channels_of_def)
    have "restartable ?g = restartable g" by (simp add: restartable_def)
    with restart_read [of ies ?g] assms(5,6) show ?thesis unfolding n using False by auto
  qed
  then obtain chs where chs: "bind_res (read_restart ies ?g) (\<lambda>g. if find_channel_id ies \<noteq> None then Inr g else request_channels [0..<intf_n_channels g] g) =
      Inr (?g\<lparr>restart_reqd_chans := chs, restart_indicator := ?c\<rparr>)"
    "distinct chs" "set chs = set (restart_channels_of g ies) \<inter> restartable g" "length chs \<le> length (restart_channels_of g ies)" by blast
  let ?h = "?g\<lparr>restart_reqd_chans := chs, restart_indicator := ?c, gc_state := Q931_GLOBAL_STATE_RESTART\<rparr>"
  have ne: "chs \<noteq> []" using chs(3) assms(7) by auto
  have h: "intf_wf ?h" "gc_state ?h = Q931_GLOBAL_STATE_RESTART" "restart_reqd_chans ?h = chs" "restart_acked_chans ?h = []"
    using assms(1) by (simp_all add: intf_wf_def)
  have rd: "\<forall>i\<in>set chs. channel_ready ?h i" using ready_cong [of ?h g] assms(8) chs(3) by simp
  have "\<exists>g'. restarted chs ?h g' \<and> gc_state g' = Q931_GLOBAL_STATE_NULL \<and>
    restart_channels ies dlc chs ?h = bind_res (restart_ies (restart_acked_chans ?h @ chs) ?h) (\<lambda>es.
      Inr (g'\<lparr>gc_outs := gc_outs ?h @ [Global_message (restart_link ?h dlc (last chs)) Q931_MT_RESTART_ACKNOWLEDGE es]\<rparr>))"
    using chs(2,4) assms(6) by (intro channels_restarted [OF h(1) ne rd h(2,3)]) simp_all
  then obtain g' where g': "restarted chs ?h g'" "gc_state g' = Q931_GLOBAL_STATE_NULL"
    "restart_channels ies dlc chs ?h = bind_res (restart_ies chs ?h) (\<lambda>es.
      Inr (g'\<lparr>gc_outs := gc_outs g @ [Global_message (restart_link ?h dlc (last chs)) Q931_MT_RESTART_ACKNOWLEDGE es]\<rparr>))" by auto
  have e: "restarted chs g g'" "restart_link ?h dlc (last chs) = restart_link g dlc (last chs)"
    "restart_ies chs ?h = restart_ies chs (g\<lparr>restart_indicator := ?c\<rparr>)"
    using g'(1) by (simp_all add: restarted_def restart_link_def restart_ies_cong split: option.split)
  have m: "Q931_MT_RESTART \<noteq> Q931_MT_STATUS" by code_simp
  have "q931_dispatch_global_message dlc msg g = bind_res (read_restart ies ?g) (\<lambda>g.
             bind_res (if find_channel_id ies \<noteq> None then Inr g else request_channels [0..<intf_n_channels g] g) (\<lambda>g.
               if restart_reqd_chans g \<noteq> []
               then restart_channels ies dlc (restart_reqd_chans g) (q931_global_set_state Q931_GLOBAL_STATE_RESTART g)
               else q931_global_send_message (Some dlc) Q931_MT_STATUS [gc_cause Q931_IE_C_CV_IDENTIFIED_CHANNEL_DOES_NOT_EXIST g] g))"
    using assms(2-4) m unfolding q931_dispatch_global_message_def q931_global_handle_restart_def gc_decoded_def Let_def
    by simp
  also have "\<dots> = restart_channels ies dlc chs ?h"
    using chs(1) ne by (auto simp: bind_res_def q931_global_set_state_def split: sum.splits if_splits)
  finally have "q931_dispatch_global_message dlc msg g = restart_channels ies dlc chs ?h" .
  with g'(2,3) e chs(2,3) show ?thesis by (intro exI [of _ chs] exI [of _ g']) simp
qed

text \<open>
  C13. A RESTART received in the null state releases the calls of the channels it names, or of all the channels of the
  interface when it names none, where a restart of the channel is allowed: the calls go to the null state, off the list
  and without timers, and their channels are available. The other channels and calls are left alone. One RESTART
  ACKNOWLEDGE is sent, and the global call is in the null state again. The acknowledgement has the channels and the indicator when the
  indicator received is of the class INDICATED, the indicator alone when it is of the class SINGLE INTERFACE, and nothing when it
  is of a reserved class. A RESTART without an indicator, the first one on the interface, makes the library follow a null
  pointer, and one of the class ALL INTERFACES stops it at an assertion.

  At least one of the channels must be restartable, each of these without a call or with one that is listed, has a data link and an
  owner (\<open>channel_ready\<close>), and at most 32 channels can be named.
\<close>

theorem restart_clears_calls:
  assumes "intf_wf g" "gc_state g = Q931_GLOBAL_STATE_NULL" "msg_message_type msg = Q931_MT_RESTART"
    "q931_gc_decode_ies (gc_msg_env g) (intf_role g) msg = Inr ies"
    "\<forall>i\<in>set (restart_channels_of g ies). i < length (intf_channels g)" "length (restart_channels_of g ies) \<le> 32"
    "set (restart_channels_of g ies) \<inter> restartable g \<noteq> {}"
    "\<forall>i\<in>set (restart_channels_of g ies) \<inter> restartable g. channel_ready g i"
  shows "case class_after ies (restart_indicator g) of
      None \<Rightarrow> q931_global_step (Global_received dlc msg) g = Inl NullDereference
    | Some r \<Rightarrow>
        if r = Q931_IE_RI_C_ALL_INTERFACES then q931_global_step (Global_received dlc msg) g = Inl KernelBug
        else \<exists>chs g'. q931_global_step (Global_received dlc msg) g = Inr g' \<and> gc_state g' = Q931_GLOBAL_STATE_NULL \<and>
          distinct chs \<and> set chs = set (restart_channels_of g ies) \<inter> restartable g \<and> restarted chs g g' \<and>
          gc_outs g' = gc_outs g @ [Global_message (restart_link g dlc (last chs)) Q931_MT_RESTART_ACKNOWLEDGE
            (if r = Q931_IE_RI_C_INDICATED then [restart_channel_id chs g, IE_restart_indicator r]
             else if r = Q931_IE_RI_C_SINGLE_INTERFACE then [IE_restart_indicator r] else [])]"
proof -
  obtain chs g' where g': "distinct chs" "set chs = set (restart_channels_of g ies) \<inter> restartable g" "restarted chs g g'"
    "gc_state g' = Q931_GLOBAL_STATE_NULL"
    "q931_dispatch_global_message dlc msg g =
      bind_res (restart_ies chs (g\<lparr>restart_indicator := class_after ies (restart_indicator g)\<rparr>)) (\<lambda>es.
        Inr (g'\<lparr>gc_outs := gc_outs g @ [Global_message (restart_link g dlc (last chs)) Q931_MT_RESTART_ACKNOWLEDGE es]\<rparr>))"
    using restart_handled [OF assms(1-8)] by blast
  show ?thesis
  proof (cases "class_after ies (restart_indicator g)")
    case None
    then show ?thesis using g'(5) by (simp add: restart_ies_def)
  next
    case (Some r)
    let ?es = "if r = Q931_IE_RI_C_INDICATED then [restart_channel_id chs g, IE_restart_indicator r]
      else if r = Q931_IE_RI_C_SINGLE_INTERFACE then [IE_restart_indicator r] else []"
    have "restart_ies chs (g\<lparr>restart_indicator := Some r\<rparr>) = (if r = Q931_IE_RI_C_ALL_INTERFACES then Inl KernelBug else Inr ?es)"
      by (auto simp: restart_ies_def restart_channel_id_def Q931_IE_RI_C_INDICATED_def Q931_IE_RI_C_SINGLE_INTERFACE_def
          Q931_IE_RI_C_ALL_INTERFACES_def)
    then show ?thesis unfolding Some option.case using g' Some
      by (auto intro!: exI [of _ chs] exI [of _ "g'\<lparr>gc_outs := gc_outs g @ [Global_message (restart_link g dlc (last chs))
        Q931_MT_RESTART_ACKNOWLEDGE ?es]\<rparr>"] simp: restarted_def)
  qed
qed

section \<open>Restarts of the other side\<close>

text \<open>
  A restart the other side has acknowledged: T316 is stopped, and T317, which is to run until the own calls are released,
  was never started, because the loop that restarts them is empty.
\<close>

definition restart_waits :: "q931_global_call \<Rightarrow> bool" where
  "restart_waits g \<longleftrightarrow> gc_state g = Q931_GLOBAL_STATE_RESTART_REQUEST \<and> \<not> gc_T316 g \<and> \<not> gc_T317 g \<and>
     \<not> restart_responded g \<and> \<not> T317_expired g \<and> restart_acknowledged g"

lemma acknowledged_waits:
  assumes "restart_waits g" "q931_global_step e g = Inr g'"
  shows "restart_waits g'"
proof (cases e)
  case (Global_received dlc msg)
  with assms have r: "q931_dispatch_global_message dlc msg g = Inr g'" by simp
  have m: "Q931_MT_RESTART \<noteq> Q931_MT_STATUS" "Q931_MT_RESTART_ACKNOWLEDGE \<noteq> Q931_MT_STATUS" "Q931_MT_RESTART_ACKNOWLEDGE \<noteq> Q931_MT_RESTART"
    by code_simp+
  have s: "restart_waits (global_out out g)" for out using assms(1) by (simp add: restart_waits_def global_out_def)
  have st: "gc_state g = Q931_GLOBAL_STATE_RESTART_REQUEST" using assms(1) by (simp add: restart_waits_def)
  consider "msg_message_type msg = Q931_MT_STATUS" | "msg_message_type msg = Q931_MT_RESTART_ACKNOWLEDGE"
    | "msg_message_type msg \<noteq> Q931_MT_STATUS" "msg_message_type msg \<noteq> Q931_MT_RESTART_ACKNOWLEDGE" by blast
  then show ?thesis
  proof cases
    case 1
    then have "q931_global_handle_status msg g = Inr g'" using r by (simp add: q931_dispatch_global_message_def)
    then obtain ies where "(case find_call_state ies of None \<Rightarrow> Inl NullDereference
        | Some v \<Rightarrow> if v = q931_global_state_to_ie_state (gc_state g) then Inr g else Inr (global_out Status_management_indication g)) = Inr g'"
      using st by (auto simp: q931_global_handle_status_def gc_decoded_def bind_res_eq_Inr)
    then have "g' = g \<or> g' = global_out Status_management_indication g" by (auto split: option.splits if_splits)
    with s assms(1) show ?thesis by auto
  next
    case 2
    then have "q931_global_handle_restart_acknowledge dlc msg g = Inr g'" using r m by (simp add: q931_dispatch_global_message_def)
    then obtain ies where "bind_res (store_acknowledged ies (g\<lparr>gc_T316 := False\<rparr>)) (\<lambda>g. Inr (g\<lparr>restart_acknowledged := True\<rparr>)) = Inr g'"
      using st assms(1) by (auto simp: q931_global_handle_restart_acknowledge_def gc_decoded_def bind_res_eq_Inr restart_waits_def Let_def)
    then obtain chs where "g' = g\<lparr>gc_T316 := False, restart_acked_chans := chs, restart_acknowledged := True\<rparr> \<or>
        g' = g\<lparr>gc_T316 := False, restart_acknowledged := True\<rparr>"
      by (auto simp: store_acknowledged_def bind_res_eq_Inr split: option.splits)
    with assms(1) show ?thesis by (auto simp: restart_waits_def)
  next
    case 3
    then obtain out where "g' = global_out out g"
      using r st by (auto simp: q931_dispatch_global_message_def q931_global_handle_restart_def q931_global_send_message_def split: if_splits)
    with s show ?thesis by simp
  qed
qed (use assms in \<open>auto simp: restart_waits_def\<close>)

fun global_steps :: "q931_global_event list \<Rightarrow> gstmt" where
  "global_steps [] g = Inr g"
| "global_steps (e # es) g = bind_res (q931_global_step e g) (global_steps es)"

text \<open>
  A restart this side asks for goes out without its elements. It needs a RESTART to have been received before, whose class
  it uses; when it is not answered it is sent again with its elements, and confirmed as failed at the second expiry of T316.
\<close>

theorem unanswered_restart_given_up:
  assumes "gc_state g = Q931_GLOBAL_STATE_NULL" "restart_indicator g \<in> {None, Some Q931_IE_RI_C_INDICATED, Some Q931_IE_RI_C_SINGLE_INTERFACE}"
  shows "case restart_indicator g of
      None \<Rightarrow> q931_management_restart_request (Some d) chans g = Inl NullDereference
    | Some r \<Rightarrow> \<exists>g' es. bind_res (q931_management_restart_request (Some d) chans g) (global_steps [Expiry_T316, Expiry_T316]) = Inr g' \<and>
        gc_state g' = Q931_GLOBAL_STATE_NULL \<and> \<not> gc_T316 g' \<and>
        gc_outs g' = gc_outs g @ [Global_message d Q931_MT_RESTART [], Global_message d Q931_MT_RESTART es, Management_restart_confirm None]"
  using assms
  by (auto simp: q931_management_restart_request_def Let_def restart_ies_def q931_global_send_message_def global_out_def
      q931_global_set_state_def q931_global_timer_T316_def restart_ies_again_def Q931_IE_RI_C_ALL_INTERFACES_def
      Q931_IE_RI_C_INDICATED_def Q931_IE_RI_C_SINGLE_INTERFACE_def)

text \<open>
  An answer to it is lost: once the other side has acknowledged, the global call waits for ever, whatever is received, and
  refuses every RESTART.
\<close>

theorem acknowledged_restart_waits:
  assumes "restart_waits g" "global_steps es g = Inr g'"
  shows "gc_state g' = Q931_GLOBAL_STATE_RESTART_REQUEST \<and> \<not> gc_T316 g' \<and> \<not> gc_T317 g'"
proof -
  have "restart_waits g'" using assms
    by (induction es arbitrary: g) (auto simp: bind_res_eq_Inr dest: acknowledged_waits)
  then show ?thesis by (simp add: restart_waits_def)
qed

section \<open>Examples\<close>

text \<open>A station with a call on its first channel, and a RESTART with a restart indicator of a class, or without one.\<close>

definition example_global :: q931_global_call where
  "example_global = (q931_global_init (example_intf LAPD_INTF_ROLE_TE))
     \<lparr>channel_calls := [Some 7, None], intf_calls := (\<lambda>_. (example_in U10_ACTIVE T309)\<lparr>call_channel := Some 0\<rparr>)\<rparr>"

definition example_restart :: "octets \<Rightarrow> q931_message" where
  "example_restart ies = the (q931_receive_header ([8, 1, 0, 0x46] @ ies))"

lemma example_restart_decoded:
  "q931_gc_decode_ies example_env LAPD_INTF_ROLE_TE (example_restart [0x79, 1, 0x86]) = Inr [IE_restart_indicator 6]"
  "q931_gc_decode_ies example_env LAPD_INTF_ROLE_TE (example_restart []) = Inr []"
  "msg_message_type (example_restart [0x79, 1, 0x86]) = Q931_MT_RESTART" "msg_message_type (example_restart []) = Q931_MT_RESTART"
  by code_simp+


lemma example_ready:
  "intf_wf example_global" "channel_ready example_global 0" "channel_ready example_global (Suc 0)" "{0, Suc 0} \<inter> restartable example_global = {0, Suc 0}"
  by (auto simp: intf_wf_def channel_ready_def example_global_def q931_global_init_def example_defs refs_ok_def call_owners_def ces_ids_ok_def
      restartable_def q931_channel_is_restartable_def intro!: exI [of _ "1 :: int"])

lemma example_global_simps:
  "gc_state example_global = Q931_GLOBAL_STATE_NULL" "gc_msg_env example_global = example_env" "intf_role example_global = LAPD_INTF_ROLE_TE"
  "intf_n_channels example_global = 2" "length (intf_channels example_global) = 2" "restart_indicator example_global = None"
  "channel_calls example_global = [Some 7, None]"
  by (simp_all add: example_global_def q931_global_init_def example_intf_def q931_interface.defs gc_msg_env_def example_env_def)

lemma example_channels:
  assumes "find_channel_id ies = None"
  shows "restart_channels_of example_global ies = [0, 1]"
  using assms by (simp add: restart_channels_of_def example_global_simps upt_rec)

theorem restart_clears_calls_witness:
  "\<exists>chs g'. q931_global_step (Global_received Intf_dlc (example_restart [0x79, 1, 0x86])) example_global = Inr g' \<and> set chs = {0, 1} \<and>
     was_cleared (intf_calls g' 7) \<and>
     gc_outs g' = gc_outs example_global @ [Global_message (restart_link example_global Intf_dlc (last chs)) Q931_MT_RESTART_ACKNOWLEDGE [IE_restart_indicator 6]] \<and>
     q931_global_step (Global_received Intf_dlc (example_restart [])) example_global = Inl NullDereference"
proof -
  have f: "find_channel_id [IE_restart_indicator 6] = None" "find_channel_id [] = None" by simp_all
  have m: "set (restart_channels_of example_global [IE_restart_indicator 6]) \<inter> restartable example_global = {0, 1}"
    "set (restart_channels_of example_global []) \<inter> restartable example_global = {0, 1}"
    using example_channels [OF f(1)] example_channels [OF f(2)] example_ready(4) by simp_all
  have "case class_after [IE_restart_indicator 6] (restart_indicator example_global) of
      None \<Rightarrow> q931_global_step (Global_received Intf_dlc (example_restart [0x79, 1, 0x86])) example_global = Inl NullDereference
    | Some r \<Rightarrow>
        if r = Q931_IE_RI_C_ALL_INTERFACES then q931_global_step (Global_received Intf_dlc (example_restart [0x79, 1, 0x86])) example_global = Inl KernelBug
        else \<exists>chs g'. q931_global_step (Global_received Intf_dlc (example_restart [0x79, 1, 0x86])) example_global = Inr g' \<and>
          gc_state g' = Q931_GLOBAL_STATE_NULL \<and> distinct chs \<and>
          set chs = set (restart_channels_of example_global [IE_restart_indicator 6]) \<inter> restartable example_global \<and> restarted chs example_global g' \<and>
          gc_outs g' = gc_outs example_global @ [Global_message (restart_link example_global Intf_dlc (last chs)) Q931_MT_RESTART_ACKNOWLEDGE
            (if r = Q931_IE_RI_C_INDICATED then [restart_channel_id chs example_global, IE_restart_indicator r]
             else if r = Q931_IE_RI_C_SINGLE_INTERFACE then [IE_restart_indicator r] else [])]"
    by (rule restart_clears_calls)
       (simp_all add: example_channels example_ready example_global_simps example_restart_decoded)
  then obtain chs g' where g': "q931_global_step (Global_received Intf_dlc (example_restart [0x79, 1, 0x86])) example_global = Inr g'"
    "set chs = {0, 1}" "restarted chs example_global g'"
    "gc_outs g' = gc_outs example_global @ [Global_message (restart_link example_global Intf_dlc (last chs)) Q931_MT_RESTART_ACKNOWLEDGE [IE_restart_indicator 6]]"
    using m(1) by (auto simp: Q931_IE_RI_C_ALL_INTERFACES_def Q931_IE_RI_C_INDICATED_def Q931_IE_RI_C_SINGLE_INTERFACE_def)
  have "channel_calls example_global ! 0 = Some 7" "0 < length (intf_channels example_global)" by (simp_all add: example_global_simps)
  then have "was_cleared (intf_calls g' 7)" using g'(2,3) unfolding restarted_def by fastforce
  moreover have "case class_after [] (restart_indicator example_global) of
      None \<Rightarrow> q931_global_step (Global_received Intf_dlc (example_restart [])) example_global = Inl NullDereference
    | Some r \<Rightarrow>
        if r = Q931_IE_RI_C_ALL_INTERFACES then q931_global_step (Global_received Intf_dlc (example_restart [])) example_global = Inl KernelBug
        else \<exists>chs g'. q931_global_step (Global_received Intf_dlc (example_restart [])) example_global = Inr g' \<and>
          gc_state g' = Q931_GLOBAL_STATE_NULL \<and> distinct chs \<and>
          set chs = set (restart_channels_of example_global []) \<inter> restartable example_global \<and> restarted chs example_global g' \<and>
          gc_outs g' = gc_outs example_global @ [Global_message (restart_link example_global Intf_dlc (last chs)) Q931_MT_RESTART_ACKNOWLEDGE
            (if r = Q931_IE_RI_C_INDICATED then [restart_channel_id chs example_global, IE_restart_indicator r]
             else if r = Q931_IE_RI_C_SINGLE_INTERFACE then [IE_restart_indicator r] else [])]"
    by (rule restart_clears_calls)
       (simp_all add: example_channels example_ready example_global_simps example_restart_decoded)
  then have "q931_global_step (Global_received Intf_dlc (example_restart [])) example_global = Inl NullDereference"
    by (simp add: example_global_simps)
  ultimately show ?thesis using g'(1,2,4) by blast
qed

end
