(* ===== verification/Q931_Interface.thy ===== *)
theory Q931_Interface
  imports Q931_Restart
begin

text \<open>
  The calls of an interface together: an event of one of them, with the channels they share. What an event leaves to the
  other calls, and how two calls come to share a channel.
\<close>

section \<open>Events of the calls\<close>

definition q931_call_step :: "nat \<Rightarrow> q931_call_event \<Rightarrow> gstmt" where
  "q931_call_step a e g = bind_res (q931_event e (call_at g a)) (\<lambda>c. Inr (store_call a c g))"

text \<open>A call points to a channel that points back.\<close>

definition call_linked :: "q931_global_call \<Rightarrow> nat \<Rightarrow> bool" where
  "call_linked g a \<longleftrightarrow> (\<forall>i. call_channel (intf_calls g a) = Some i \<longrightarrow> i < length (intf_channels g) \<and> channel_calls g ! i = Some a)"

text \<open>No channel that a call has is offered to others.\<close>

definition settled :: "q931_global_call \<Rightarrow> bool" where
  "settled g \<longleftrightarrow> (\<forall>i < length (intf_channels g). channel_calls g ! i \<noteq> None \<longrightarrow> chan_state (intf_channels g ! i) \<noteq> Q931_CHANSTATE_AVAILABLE)"

definition held_by_others :: "q931_global_call \<Rightarrow> nat \<Rightarrow> nat \<Rightarrow> q931_channel option" where
  "held_by_others g a i =
     (if i < length (intf_channels g) \<and> channel_calls g ! i \<notin> {None, Some a} \<and> chan_state (intf_channels g ! i) \<noteq> Q931_CHANSTATE_AVAILABLE
      then Some (intf_channels (call_at g a) ! i) else None)"

lemma call_seen:
  assumes "intf_wf g" "call_linked g a"
  shows "others_ok (length (intf_channels g)) (held_by_others g a) (filter clears_other (outs (intf_calls g a))) (call_at g a)"
proof -
  have w: "length (channel_calls g) = length (intf_channels g)" using assms(1) by (simp add: intf_wf_def)
  have "channel_ok (call_at g a)"
    using assms(2) w by (cases "call_channel (intf_calls g a)") (simp_all add: channel_ok_def call_at_def call_linked_def channel_call_of_def)
  then show ?thesis
    using w by (auto simp: others_ok_def held_by_others_def call_at_def channel_call_of_def split: if_splits option.splits)
qed

text \<open>What an event of a call leaves alone.\<close>

lemma call_step_local:
  assumes "intf_wf g" "call_linked g a" "q931_call_step a e g = Inr g'"
  shows "intf_wf g'" "length (intf_channels g') = length (intf_channels g)" "call_linked g' a" "b \<noteq> a \<Longrightarrow> intf_calls g' b = intf_calls g b"
    "held_by_others g a i \<noteq> None \<Longrightarrow> channel_calls g' ! i = channel_calls g ! i \<and> chan_state (intf_channels g' ! i) = chan_state (intf_channels g ! i)"
proof -
  obtain c where c: "q931_event e (call_at g a) = Inr c" "g' = store_call a c g"
    using assms(3) by (auto simp: q931_call_step_def bind_res_eq_Inr)
  have w: "length (channel_calls g) = length (intf_channels g)" using assms(1) by (simp add: intf_wf_def)
  have o: "others_ok (length (intf_channels g)) (held_by_others g a) (filter clears_other (outs (intf_calls g a))) c"
    using others.event_invariant [OF call_seen [OF assms(1,2)] c(1)] .
  then have l: "length (intf_channels c) = length (intf_channels g)" and f: "filter clears_other (outs c) = filter clears_other (outs (intf_calls g a))"
    and k: "channel_ok c" by (simp_all add: others_ok_def)
  have g': "g' = g\<lparr>intf_channels := intf_channels c, channel_calls := map2 (owner_after a) (intf_channels c) (channel_calls g),
      intf_calls := (intf_calls g)(a := c)\<rparr>" unfolding c(2) store_call_def using f by simp
  show "intf_wf g'" "length (intf_channels g') = length (intf_channels g)" using l w unfolding g' by (simp_all add: intf_wf_def)
  show "b \<noteq> a \<Longrightarrow> intf_calls g' b = intf_calls g b" unfolding g' by simp
  show "call_linked g' a"
    using k l w unfolding g' by (auto simp: call_linked_def channel_ok_def owner_after_def)
  show "held_by_others g a i \<noteq> None \<Longrightarrow> channel_calls g' ! i = channel_calls g ! i \<and> chan_state (intf_channels g' ! i) = chan_state (intf_channels g ! i)"
  proof -
    assume h: "held_by_others g a i \<noteq> None"
    then have i: "i < length (intf_channels g)" "held_by_others g a i = Some (intf_channels (call_at g a) ! i)"
      by (simp_all add: held_by_others_def split: if_splits)
    have "intf_channels c ! i = intf_channels (call_at g a) ! i \<and> chan_call (intf_channels (call_at g a) ! i) = Other_call"
      using o i(2) unfolding others_ok_def by blast
    then have e: "intf_channels c ! i = intf_channels (call_at g a) ! i" "chan_call (intf_channels c ! i) = Other_call" by simp_all
    then show "channel_calls g' ! i = channel_calls g ! i \<and> chan_state (intf_channels g' ! i) = chan_state (intf_channels g ! i)"
      using i l w unfolding g' by (simp add: owner_after_def) (simp add: call_at_def)
  qed
qed

text \<open>
  C14. An event of a call leaves the other calls of the interface and their channels alone, and no two calls have the same
  channel after it, provided that no channel a call has is in the state AVAILABLE.
\<close>

theorem channel_of_one_call:
  assumes "intf_wf g" "\<forall>b. call_linked g b" "settled g" "q931_call_step a e g = Inr g'"
  shows "(\<forall>b. b \<noteq> a \<longrightarrow> intf_calls g' b = intf_calls g b) \<and>
    (\<forall>b i. b \<noteq> a \<and> call_channel (intf_calls g b) = Some i \<longrightarrow>
       channel_calls g' ! i = Some b \<and> chan_state (intf_channels g' ! i) = chan_state (intf_channels g ! i)) \<and>
    (\<forall>b. call_linked g' b) \<and>
    (\<forall>b d i. call_channel (intf_calls g' b) = Some i \<and> call_channel (intf_calls g' d) = Some i \<longrightarrow> b = d)"
proof -
  have la: "call_linked g a" using assms(2) by blast
  note s = call_step_local [OF assms(1) la assms(4)]
  have k: "i < length (intf_channels g)" "channel_calls g' ! i = Some b \<and> chan_state (intf_channels g' ! i) = chan_state (intf_channels g ! i)"
    if b: "b \<noteq> a" "call_channel (intf_calls g b) = Some i" for b i
  proof -
    have i: "i < length (intf_channels g)" "channel_calls g ! i = Some b" using assms(2) b(2) by (simp_all add: call_linked_def)
    then have "held_by_others g a i \<noteq> None" using assms(3) b(1) by (simp add: held_by_others_def settled_def)
    with s(5) i(2) show "channel_calls g' ! i = Some b \<and> chan_state (intf_channels g' ! i) = chan_state (intf_channels g ! i)" by simp
    show "i < length (intf_channels g)" by (rule i)
  qed
  have l: "call_linked g' b" for b
  proof (cases "b = a")
    case False
    then show ?thesis using k [OF False] s(2) s(4) [OF False] by (simp add: call_linked_def)
  qed (use s(3) in simp)
  have "b = d" if "call_channel (intf_calls g' b) = Some i" "call_channel (intf_calls g' d) = Some i" for b d i
    using l [of b] l [of d] that by (simp add: call_linked_def)
  with k s(4) l show ?thesis by blast
qed

section \<open>A channel two calls share\<close>

text \<open>The choice of a channel depends on the states of the channels, not on whose they are.\<close>

lemma select_wanted_cong:
  assumes "map chan_state chs = map chan_state (intf_channels c)"
  shows "select_wanted pe (c\<lparr>intf_channels := chs\<rparr>) wanted = select_wanted pe c wanted"
proof -
  have l: "length chs = length (intf_channels c)" using arg_cong [OF assms, of length] by simp
  have "i < length (intf_channels c) \<Longrightarrow> available (c\<lparr>intf_channels := chs\<rparr>) i = available c i" for i
    using arg_cong [OF assms, of "\<lambda>xs. xs ! i"] l by (simp add: available_def)
  with l show ?thesis by (induction wanted) auto
qed

lemma select_setup_cong:
  assumes "map chan_state chs = map chan_state (intf_channels c)" "intf_n_channels c \<le> length (intf_channels c)"
  shows "q931_channel_select_setup ies (c\<lparr>intf_channels := chs, refcnt := r\<rparr>) = q931_channel_select_setup ies c"
proof -
  let ?c = "c\<lparr>intf_channels := chs, refcnt := r\<rparr>"
  have l: "length chs = length (intf_channels c)" using arg_cong [OF assms(1), of length] by simp
  have "i < length (intf_channels c) \<Longrightarrow> available ?c i = available c i" for i
    using arg_cong [OF assms(1), of "\<lambda>xs. xs ! i"] l by (simp add: available_def)
  then have fe: "find (available ?c) [0..<intf_n_channels c] = find (available c) [0..<intf_n_channels c]"
    using assms(2) by (intro find_cong) auto
  have sw: "select_wanted pe ?c wanted = select_wanted pe c wanted" for pe wanted
  proof -
    have "select_wanted pe ?c wanted = select_wanted pe (c\<lparr>intf_channels := chs\<rparr>) wanted"
      by (induction wanted) (simp_all add: available_def)
    then show ?thesis using select_wanted_cong [OF assms(1)] by simp
  qed
  have cc: "call_cause v ds ?c = call_cause v ds c" for v ds by (simp add: call_cause_def q931_ie_cause_location_call_def)
  have n: "intf_n_channels ?c = intf_n_channels c" by simp
  show ?thesis unfolding q931_channel_select_setup_def Let_def cc n fe sw by (rule refl)
qed


text \<open>A call that is offered takes its channel and leaves it available.\<close>

lemma setup_offered:
  assumes "call_state c = U0_NULL_STATE" "call_ces c = []" "0 < refcnt c" "msg_message_type msg = Q931_MT_SETUP"
    "q931_call_decode_ies (call_msg_env c) (intf_role c) (intf_network_role c) (call_direction c) msg = Inr (ies, [], True)"
    "q931_channel_select_setup ies c = Inr (Some i, causes)" "i < length (intf_channels c)" "q931_ies_copy ies = Inr copied"
    "intf_n_channels c \<le> length (intf_channels c)"
  shows "\<exists>c'. q931_event (Message dlc msg) c = Inr c' \<and> call_channel c' = Some i \<and> call_state c' = U6_CALL_PRESENT \<and>
    intf_channels c' = (intf_channels c)[i := (intf_channels c ! i)\<lparr>chan_call := This_call\<rparr>] \<and>
    outs c' = outs c @ [Call_primitive Q931_CCB_SETUP_INDICATION ies No_par] \<and> on_intf c' = on_intf c \<and> call_dlc c' = call_dlc c"
proof -
  have mt: "Q931_MT_SETUP \<notin> {Q931_MT_ALERTING, Q931_MT_CALL_PROCEEDING, Q931_MT_CONNECT, Q931_MT_CONNECT_ACKNOWLEDGE, Q931_MT_PROGRESS}"
    by code_simp
  have d: "q931_dispatch_message dlc msg = q931_handle_setup msg"
    using assms(4) mt by (simp add: q931_dispatch_message_def Let_def)
  have s: "q931_channel_select_setup ies (c\<lparr>refcnt := refcnt c + 1\<rparr>) = Inr (Some i, causes)"
    using select_setup_cong [of "intf_channels c" c ies "refcnt c + 1"] assms(6,9) by simp
  have e: "q931_call_decode_ies (call_msg_env (c\<lparr>refcnt := refcnt c + 1\<rparr>)) (intf_role c) (intf_network_role c) (call_direction c) msg = Inr (ies, [], True)"
    using assms(5) by (simp add: call_msg_env_def)
  show ?thesis
    using assms(1-3,7) s e assms(8)
    by (simp add: q931_receive_call_def q931_call_get_def q931_call_put_def with_val_def upd_def d q931_handle_setup_def decoded_def
        take_channel_def set_channel_def chan_at_def q931_call_set_state_def q931_call_primitive_def q931_call_primitive1_def out_def)
qed

text \<open>A call that waits to be offered, and the channel it would get for the elements.\<close>

definition offerable :: "q931_global_call \<Rightarrow> nat \<Rightarrow> q931_message \<Rightarrow> q931_ie list \<Rightarrow> nat \<Rightarrow> bool" where
  "offerable g a msg ies i \<longleftrightarrow> (let c = call_at g a in
     call_state c = U0_NULL_STATE \<and> call_ces c = [] \<and> 0 < refcnt c \<and> msg_message_type msg = Q931_MT_SETUP \<and>
     q931_call_decode_ies (call_msg_env c) (intf_role c) (intf_network_role c) (call_direction c) msg = Inr (ies, [], True) \<and>
     (\<exists>causes. q931_channel_select_setup ies c = Inr (Some i, causes)) \<and> intf_n_channels c \<le> length (intf_channels c))"

lemma offered_step:
  assumes "intf_wf g" "offerable g a msg ies i" "i < length (intf_channels g)" "q931_ies_copy ies = Inr copied"
  shows "\<exists>g'. q931_call_step a (Message dlc msg) g = Inr g' \<and> intf_wf g' \<and> call_channel (intf_calls g' a) = Some i \<and>
    channel_calls g' = (channel_calls g)[i := Some a] \<and> map chan_state (intf_channels g') = map chan_state (intf_channels g) \<and>
    (\<forall>b. b \<noteq> a \<longrightarrow> intf_calls g' b = intf_calls g b) \<and>
    on_intf (intf_calls g' a) = on_intf (intf_calls g a) \<and> call_dlc (intf_calls g' a) = call_dlc (intf_calls g a) \<and>
    (\<forall>k. refs_ok k (intf_calls g a) \<longrightarrow> refs_ok k (intf_calls g' a))"
proof -
  let ?c = "call_at g a"
  have w: "length (channel_calls g) = length (intf_channels g)" using assms(1) by (simp add: intf_wf_def)
  have i: "i < length (intf_channels ?c)" using assms(3) w by (simp add: call_at_def)
  obtain c' where c': "q931_event (Message dlc msg) ?c = Inr c'" "call_channel c' = Some i"
    "intf_channels c' = (intf_channels ?c)[i := (intf_channels ?c ! i)\<lparr>chan_call := This_call\<rparr>]"
    "outs c' = outs ?c @ [Call_primitive Q931_CCB_SETUP_INDICATION ies No_par]" "on_intf c' = on_intf ?c" "call_dlc c' = call_dlc ?c"
    using setup_offered [OF _ _ _ _ _ _ i assms(4)] assms(2) unfolding offerable_def Let_def by blast
  have o: "filter clears_other (outs c') = filter clears_other (outs (intf_calls g a))" using c'(4) by (simp add: call_at_def)
  have "map2 (owner_after a) (intf_channels c') (channel_calls g) = (channel_calls g)[i := Some a]"
    using c'(3) w assms(3)
    by (intro nth_equalityI) (auto simp: call_at_def nth_list_update owner_after_def channel_call_of_def split: option.splits)
  moreover have "map chan_state (intf_channels c') = map chan_state (intf_channels g)"
    using c'(3) w assms(3) by (intro nth_equalityI) (auto simp: call_at_def nth_list_update)
  moreover have "length (intf_channels c') = length (intf_channels g)" using c'(3) w by (simp add: call_at_def)
  moreover have "refs_ok k c'" if "refs_ok k (intf_calls g a)" for k
    using refs.event_invariant [OF _ c'(1), of k] that by (simp add: call_at_def)
  moreover have "on_intf ?c = on_intf (intf_calls g a)" "call_dlc ?c = call_dlc (intf_calls g a)" by (simp_all add: call_at_def)
  ultimately show ?thesis
    using c'(1,2,5,6) o w by (intro exI [of _ "store_call a c' g"]) (simp add: q931_call_step_def store_call_def intf_wf_def)
qed

lemma call_states: "intf_wf g \<Longrightarrow> map chan_state (intf_channels (call_at g a)) = map chan_state (intf_channels g)"
  by (intro nth_equalityI) (auto simp: call_at_def intf_wf_def)

lemma offerable_cong:
  assumes "intf_wf g" "intf_wf g1" "intf_calls g1 b = intf_calls g b" "map chan_state (intf_channels g1) = map chan_state (intf_channels g)"
    "offerable g b msg ies i"
  shows "offerable g1 b msg ies i"
proof -
  have b: "call_at g1 b = (call_at g b)\<lparr>intf_channels := intf_channels (call_at g1 b), refcnt := refcnt (call_at g b)\<rparr>"
    using assms(3) by (simp add: call_at_def)
  have m: "map chan_state (intf_channels (call_at g1 b)) = map chan_state (intf_channels (call_at g b))"
    using call_states assms(1,2,4) by simp
  have n: "intf_n_channels (call_at g b) \<le> length (intf_channels (call_at g b))" using assms(5) by (simp add: offerable_def Let_def)
  have "length (intf_channels (call_at g1 b)) = length (intf_channels (call_at g b))" using arg_cong [OF m, of length] by simp
  moreover have "call_msg_env (call_at g1 b) = call_msg_env (call_at g b)" using assms(3) by (simp add: call_msg_env_def call_at_def)
  moreover have "q931_channel_select_setup ies (call_at g1 b) = q931_channel_select_setup ies (call_at g b)"
    by (subst b) (rule select_setup_cong [OF m n])
  moreover have "call_state (call_at g1 b) = call_state (call_at g b)" "call_ces (call_at g1 b) = call_ces (call_at g b)"
    "refcnt (call_at g1 b) = refcnt (call_at g b)" "intf_role (call_at g1 b) = intf_role (call_at g b)"
    "intf_network_role (call_at g1 b) = intf_network_role (call_at g b)" "call_direction (call_at g1 b) = call_direction (call_at g b)"
    "intf_n_channels (call_at g1 b) = intf_n_channels (call_at g b)" using assms(3) by (simp_all add: call_at_def)
  ultimately show ?thesis using assms(5) by (simp add: offerable_def Let_def)
qed

lemma restart_dangling:
  assumes "refs_ok k c" "1 \<le> k" "on_intf c" "call_channel c = Some i" "i < length (intf_channels c)" "chan_call (intf_channels c ! i) = No_call"
  shows "q931_restart_request ies c = Inl NullDereference"
proof -
  have r: "refcnt c = k + int (card (timers c)) + 1 + int (length (call_ces c))" using assms(1,3) by (simp add: refs_ok_def call_owners_def)
  then have n: "int (card (timers c)) < refcnt c" using assms(2) by simp
  have "q931_restart_request ies c = restart_to (null_state (call_state c)) ies c"
    by (simp add: q931_restart_request_def null_state_def)
  with r n assms(2-6) show ?thesis unfolding restart_to_def with_val_def
    by (simp add: stop_any_timer [OF n] q931_channel_release_def on_channel_if_def with_val_def chan_at_def q931_channel_primitive_def
        out_def upd_def nothing_def fault_def)
qed

text \<open>
  C15. On the user side the channel of a call that is offered stays AVAILABLE until the call is connected: another call
  that is offered any channel gets the same one. Both calls then have the channel, which points to the second; once that
  call is gone, releasing the first one follows a null pointer.
\<close>

theorem offered_channel_shared:
  assumes "intf_wf g" "a \<noteq> b" "offerable g a msg ies i" "offerable g b msg' ies' i" "i < length (intf_channels g)"
    "q931_ies_copy ies = Inr copied" "q931_ies_copy ies' = Inr copied'"
    "\<forall>c\<in>{a, b}. on_intf (intf_calls g c) \<and> refs_ok 1 (intf_calls g c) \<and> call_dlc (intf_calls g c) \<noteq> None"
  shows "\<exists>g1 g2 g3. q931_call_step a (Message dlc msg) g = Inr g1 \<and> q931_call_step b (Message dlc msg') g1 = Inr g2 \<and>
    call_channel (intf_calls g2 a) = Some i \<and> call_channel (intf_calls g2 b) = Some i \<and> channel_calls g2 ! i = Some b \<and>
    q931_call_step b (Restart []) g2 = Inr g3 \<and> q931_call_step a (Restart []) g3 = Inl NullDereference"
proof -
  obtain g1 where g1: "q931_call_step a (Message dlc msg) g = Inr g1" "intf_wf g1" "call_channel (intf_calls g1 a) = Some i"
    "channel_calls g1 = (channel_calls g)[i := Some a]" "map chan_state (intf_channels g1) = map chan_state (intf_channels g)"
    "\<forall>b. b \<noteq> a \<longrightarrow> intf_calls g1 b = intf_calls g b" "on_intf (intf_calls g1 a)" "refs_ok 1 (intf_calls g1 a)"
    using offered_step [OF assms(1,3,5,6)] assms(8) by fastforce
  have b: "intf_calls g1 b = intf_calls g b" using g1(6) assms(2) by simp
  have l: "i < length (intf_channels g1)" using arg_cong [OF g1(5), of length] assms(5) by simp
  have "offerable g1 b msg' ies' i" by (rule offerable_cong [OF assms(1) g1(2) b g1(5) assms(4)])
  then obtain g2 where g2: "q931_call_step b (Message dlc msg') g1 = Inr g2" "intf_wf g2" "call_channel (intf_calls g2 b) = Some i"
    "channel_calls g2 = (channel_calls g1)[i := Some b]" "map chan_state (intf_channels g2) = map chan_state (intf_channels g1)"
    "\<forall>c. c \<noteq> b \<longrightarrow> intf_calls g2 c = intf_calls g1 c" "on_intf (intf_calls g2 b)" "refs_ok 1 (intf_calls g2 b)" "call_dlc (intf_calls g2 b) \<noteq> None"
    using offered_step [OF g1(2) _ l assms(7)] assms(8) b by fastforce
  have l2: "i < length (intf_channels g2)" using arg_cong [OF g2(5), of length] l by simp
  have o: "channel_calls g2 ! i = Some b" using g2(2,4) l l2 g1(2) by (simp add: intf_wf_def)
  have "channel_ready g2 i" using o l2 g2(3,7-9) by (auto simp: channel_ready_def)
  from call_restarted [OF g2(2) this o, of "[]"] obtain c' g3 where g3: "q931_restart_request [] (call_at g2 b) = Inr c'" "g3 = store_call b c' g2"
    "intf_wf g3" "channel_calls g3 = (channel_calls g2)[i := None]"
    "map chan_state (intf_channels g3) = (map chan_state (intf_channels g2))[i := Q931_CHANSTATE_AVAILABLE]" "intf_calls g3 = (intf_calls g2)(b := c')" by blast
  have l3: "i < length (intf_channels g3)" "i < length (channel_calls g3)"
    using arg_cong [OF g3(5), of length] g3(3) l2 by (simp_all add: intf_wf_def)
  have a: "intf_calls g3 a = intf_calls g1 a" using g3(6) g2(6) assms(2) by simp
  have "channel_calls g3 ! i = None" using g3(4) l3(2) by simp
  then have "q931_restart_request [] (call_at g3 a) = Inl NullDereference"
    using l3 a g1(3,7,8) by (intro restart_dangling [of 1 _ i]) (simp_all add: call_at_def channel_call_of_def)
  then have "q931_call_step a (Restart []) g3 = Inl NullDereference" by (simp add: q931_call_step_def)
  moreover have "q931_call_step b (Restart []) g2 = Inr g3" using g3(1,2) by (simp add: q931_call_step_def)
  moreover have "call_channel (intf_calls g2 a) = Some i" using g2(6) g1(3) assms(2) by simp
  ultimately show ?thesis using g1(1) g2(1,3) o by blast
qed

section \<open>Examples\<close>

text \<open>A station with a call on its connected first channel and others without one, and a SETUP for any channel.\<close>

definition example_calls :: q931_global_call where
  "example_calls = example_global\<lparr>
     intf_channels := [\<lparr>chan_state = Q931_CHANSTATE_CONNECTED, chan_call = No_call\<rparr>, \<lparr>chan_state = Q931_CHANSTATE_AVAILABLE, chan_call = No_call\<rparr>],
     intf_calls := (\<lambda>_. example_call)(7 := (example_in U10_ACTIVE T309)\<lparr>call_channel := Some 0\<rparr>)\<rparr>"

theorem channel_of_one_call_witness:
  "\<exists>g'. q931_call_step 3 (Request Q931_CCB_SETUP_REQUEST []) example_calls = Inr g' \<and> channel_calls g' ! 0 = Some 7"
proof -
  have "\<exists>c. q931_event (Request Q931_CCB_SETUP_REQUEST []) (call_at example_calls 3) = Inr c"
    by (simp add: q931_setup_request_def statement_defs q931_ies_copy_def call_at_def example_calls_def example_defs)
  then obtain g' where g': "q931_call_step 3 (Request Q931_CCB_SETUP_REQUEST []) example_calls = Inr g'"
    by (auto simp: q931_call_step_def)
  have "intf_wf example_calls" "\<forall>b. call_linked example_calls b" "settled example_calls"
    by (simp_all add: intf_wf_def call_linked_def settled_def example_calls_def example_global_def q931_global_init_def example_defs less_Suc_eq)
  from channel_of_one_call [OF this g'] have "channel_calls g' ! 0 = Some 7"
    by (simp add: example_calls_def example_defs)
  with g' show ?thesis by blast
qed

definition example_offer :: q931_message where
  "example_offer = the (q931_receive_header [8, 1, 5, 0x05, 0x04, 3, 0x80, 0x90, 0xa3, 0x18, 1, 0x83])"

definition example_offer_ies :: "q931_ie list" where
  "example_offer_ies =
     (case q931_call_decode_ies example_env LAPD_INTF_ROLE_TE Q931_INTF_NET_USER Q931_CALL_DIRECTION_OUTBOUND example_offer of
        Inr (ies, _) \<Rightarrow> ies | Inl _ \<Rightarrow> [])"

lemma example_offer_decoded:
  "q931_call_decode_ies example_env LAPD_INTF_ROLE_TE Q931_INTF_NET_USER Q931_CALL_DIRECTION_OUTBOUND example_offer = Inr (example_offer_ies, [], True)"
  by code_simp

lemma example_offer_selected: "q931_channel_select_setup example_offer_ies example_call = Inr (Some 0, [])"
  by code_simp

lemma example_offer_facts:
  "msg_message_type example_offer = Q931_MT_SETUP" "q931_ies_copy example_offer_ies = Inr example_offer_ies"
  by code_simp+

definition example_idle :: q931_global_call where
  "example_idle = example_global\<lparr>channel_calls := [None, None], intf_calls := (\<lambda>_. example_call)\<rparr>"

lemma example_idle_call: "call_at example_idle a = example_call"
  by (simp add: call_at_def example_idle_def example_global_def q931_global_init_def example_defs channel_call_of_def numeral_2_eq_2)

theorem offered_channel_shared_witness:
  "\<exists>g1 g2 g3. q931_call_step 1 (Message Intf_dlc example_offer) example_idle = Inr g1 \<and>
     q931_call_step 2 (Message Intf_dlc example_offer) g1 = Inr g2 \<and> call_channel (intf_calls g2 1) = Some 0 \<and>
     call_channel (intf_calls g2 2) = Some 0 \<and> channel_calls g2 ! 0 = Some 2 \<and>
     q931_call_step 2 (Restart []) g2 = Inr g3 \<and> q931_call_step 1 (Restart []) g3 = Inl NullDereference"
proof -
  have "call_state example_call = U0_NULL_STATE" "call_ces example_call = []" "0 < refcnt example_call" "call_msg_env example_call = example_env"
    "intf_role example_call = LAPD_INTF_ROLE_TE" "intf_network_role example_call = Q931_INTF_NET_USER"
    "call_direction example_call = Q931_CALL_DIRECTION_OUTBOUND" "intf_n_channels example_call \<le> length (intf_channels example_call)"
    by (simp_all add: example_defs call_msg_env_def example_env_def)
  then have f: "offerable example_idle a example_offer example_offer_ies 0" for a
    by (simp add: offerable_def example_idle_call example_offer_decoded example_offer_selected example_offer_facts)
  have "intf_wf example_idle" "0 < length (intf_channels example_idle)" "\<forall>c\<in>{1, 2}. on_intf (intf_calls example_idle c) \<and>
      refs_ok 1 (intf_calls example_idle c) \<and> call_dlc (intf_calls example_idle c) \<noteq> None"
    by (simp_all add: intf_wf_def example_idle_def example_global_def q931_global_init_def example_defs refs_ok_def call_owners_def ces_ids_ok_def)
  with offered_channel_shared [of example_idle 1 2, OF _ _ f f _ example_offer_facts(2) example_offer_facts(2)] show ?thesis by simp
qed

end
