(* ===== verification/Q931_Dlc.thy ===== *)
theory Q931_Dlc
  imports Q931_Message
begin

text \<open>
  The data link connections of an interface (\<^verbatim>\<open>src/libq931/dlc.c\<close>): the holds of the calls that use a connection, its
  references, and the timer that shuts it down some time after the last hold is gone; with the primitives of LAPD
  (\<^verbatim>\<open>src/libq931/input.c\<close>) that make it connected and disconnected.
\<close>

section \<open>Operations\<close>

text \<open>
  \<open>struct q931_dlc\<close> around its status and queue (\<open>dlc_link\<close>), with the time of its interface. \<open>shutdowns\<close> counts the calls
  of \<open>shutdown\<close> on its socket.
\<close>

record q931_dlc_use =
  dlc_link :: q931_dlc
  dlc_tei :: nat
  holdcnt :: int
  dlc_refcnt :: int
  autorelease_timer :: bool
  dlc_autorelease_time :: int
  shutdowns :: nat

definition BROADCAST_TEI :: nat where "BROADCAST_TEI = 127"

definition q931_dlc_init :: "int \<Rightarrow> q931_dlc_use" where
  "q931_dlc_init time =
     \<lparr>dlc_link = \<lparr>dlc_status = Q931_DLC_STATUS_DISCONNECTED, outgoing_queue = [], dlc_sent = []\<rparr>, dlc_tei = 0,
      holdcnt = 0, dlc_refcnt = 1, autorelease_timer = False, dlc_autorelease_time = time, shutdowns = 0\<rparr>"

text \<open>The connection of the broadcast address: its status and its queue are left as they are.\<close>

definition q931_broadcast_dlc_init :: "q931_dlc_use \<Rightarrow> q931_dlc_use" where
  "q931_broadcast_dlc_init d = d\<lparr>dlc_tei := BROADCAST_TEI, holdcnt := 0, dlc_refcnt := 1\<rparr>"

definition q931_dlc_hold :: "q931_dlc_use \<Rightarrow> q931_dlc_use res" where
  "q931_dlc_hold d =
     (if holdcnt d < 0 \<or> dlc_tei d = BROADCAST_TEI then Inl KernelBug
      else let d = d\<lparr>holdcnt := holdcnt d + 1\<rparr> in Inr (if holdcnt d = 1 then d\<lparr>autorelease_timer := False\<rparr> else d))"

definition q931_dlc_release :: "q931_dlc_use \<Rightarrow> q931_dlc_use res" where
  "q931_dlc_release d =
     (if holdcnt d \<le> 0 \<or> dlc_tei d = BROADCAST_TEI then Inl KernelBug
      else let d = d\<lparr>holdcnt := holdcnt d - 1\<rparr>
           in Inr (if holdcnt d = 0 \<and> dlc_autorelease_time d \<noteq> 0 then d\<lparr>autorelease_timer := True\<rparr> else d))"

definition q931_dlc_get :: "q931_dlc_use \<Rightarrow> q931_dlc_use res" where
  "q931_dlc_get d = (if dlc_refcnt d \<le> 0 then Inl KernelBug else Inr (d\<lparr>dlc_refcnt := dlc_refcnt d + 1\<rparr>))"

definition q931_dlc_put :: "q931_dlc_use \<Rightarrow> q931_dlc_use res" where
  "q931_dlc_put d = (if dlc_refcnt d \<le> 0 then Inl KernelBug else Inr (d\<lparr>dlc_refcnt := dlc_refcnt d - 1\<rparr>))"

definition q931_dlc_autorelease :: "q931_dlc_use \<Rightarrow> q931_dlc_use" where
  "q931_dlc_autorelease d = d\<lparr>shutdowns := shutdowns d + 1\<rparr>"

text \<open>
  What LAPD tells. The timer is made to start by a hold and a release: behind what the calls do on a confirmation, before
  it on an indication. \<open>during\<close> is what the calls send.
\<close>

definition confirmed_dlc :: "octets list \<Rightarrow> (nat \<Rightarrow> int) \<Rightarrow> q931_dlc_use \<Rightarrow> q931_dlc_use res" where
  "confirmed_dlc during sendmsg d =
     bind_res (q931_dlc_hold (d\<lparr>dlc_link := q931_dl_establish_confirm during sendmsg (dlc_link d)\<rparr>)) q931_dlc_release"

definition indicated_dlc :: "octets list \<Rightarrow> (nat \<Rightarrow> int) \<Rightarrow> q931_dlc_use \<Rightarrow> q931_dlc_use res" where
  "indicated_dlc during sendmsg d =
     bind_res (q931_dlc_hold (d\<lparr>dlc_link := (dlc_link d)\<lparr>dlc_status := Q931_DLC_STATUS_CONNECTED\<rparr>\<rparr>)) (\<lambda>d.
     bind_res (q931_dlc_release d) (\<lambda>d.
       Inr (d\<lparr>dlc_link := q931_flush_outgoing_queue sendmsg (send_all during (dlc_link d))\<rparr>)))"

definition released_dlc :: "q931_dlc_use \<Rightarrow> q931_dlc_use" where
  "released_dlc d = d\<lparr>dlc_link := (dlc_link d)\<lparr>dlc_status := Q931_DLC_STATUS_DISCONNECTED\<rparr>\<rparr>"

datatype dlc_event =
  Dlc_hold | Dlc_release | Dlc_get | Dlc_put
| Dlc_confirmed "octets list" "nat \<Rightarrow> int"
| Dlc_indicated "octets list" "nat \<Rightarrow> int"
| Dlc_released
| Dlc_expired

fun dlc_step :: "dlc_event \<Rightarrow> q931_dlc_use \<Rightarrow> q931_dlc_use res" where
  "dlc_step Dlc_hold d = q931_dlc_hold d"
| "dlc_step Dlc_release d = q931_dlc_release d"
| "dlc_step Dlc_get d = q931_dlc_get d"
| "dlc_step Dlc_put d = q931_dlc_put d"
| "dlc_step (Dlc_confirmed during sendmsg) d = confirmed_dlc during sendmsg d"
| "dlc_step (Dlc_indicated during sendmsg) d = indicated_dlc during sendmsg d"
| "dlc_step Dlc_released d = Inr (released_dlc d)"
| "dlc_step Dlc_expired d =
     Inr (if autorelease_timer d then q931_dlc_autorelease (d\<lparr>autorelease_timer := False\<rparr>) else d)"

section \<open>Holds and the timer\<close>

text \<open>A user gives back only what it has taken.\<close>

definition dlc_event_ok :: "dlc_event \<Rightarrow> q931_dlc_use \<Rightarrow> bool" where
  "dlc_event_ok e d \<longleftrightarrow> (e = Dlc_release \<longrightarrow> 0 < holdcnt d) \<and> (e \<in> {Dlc_get, Dlc_put} \<longrightarrow> 0 < dlc_refcnt d)"

definition dlc_ok :: "q931_dlc_use \<Rightarrow> bool" where
  "dlc_ok d \<longleftrightarrow> 0 \<le> holdcnt d \<and> dlc_tei d \<noteq> BROADCAST_TEI \<and> (autorelease_timer d \<longrightarrow> holdcnt d = 0 \<and> dlc_autorelease_time d \<noteq> 0)"

lemma dlc_step_ok:
  assumes "dlc_ok d" "dlc_event_ok e d"
  shows "\<exists>d'. dlc_step e d = Inr d' \<and> dlc_ok d' \<and> dlc_autorelease_time d' = dlc_autorelease_time d"
  using assms
  by (cases e) (auto simp: dlc_ok_def dlc_event_ok_def q931_dlc_hold_def q931_dlc_release_def q931_dlc_get_def q931_dlc_put_def
      confirmed_dlc_def indicated_dlc_def released_dlc_def q931_dlc_autorelease_def Let_def)

interpretation dlc: total_event_machine dlc_event_ok dlc_step dlc_ok
  by unfold_locales (use dlc_step_ok in fastforce)+

lemma shutdown_step:
  "dlc_ok d \<Longrightarrow> dlc_step e d = Inr d' \<Longrightarrow> shutdowns d' = shutdowns d \<or> holdcnt d = 0 \<and> shutdowns d' = shutdowns d + 1"
  by (cases e) (auto simp: dlc_ok_def q931_dlc_hold_def q931_dlc_release_def q931_dlc_get_def q931_dlc_put_def
      confirmed_dlc_def indicated_dlc_def released_dlc_def q931_dlc_autorelease_def Let_def bind_res_eq_Inr split: if_splits)

lemma last_event_ok:
  "events_ok step ok (es @ [e]) s \<Longrightarrow> events_ok step ok es s \<and> (\<forall>t. run_events step es s = Inr t \<longrightarrow> ok e t)"
  by (induction es arbitrary: s) (auto simp: bind_res_eq_Inr split: sum.splits)

text \<open>The events after which nobody holds the link that somebody held, or that has just come up.\<close>

definition left_idle :: "dlc_event \<Rightarrow> q931_dlc_use \<Rightarrow> bool" where
  "left_idle e d \<longleftrightarrow> (case e of Dlc_release \<Rightarrow> holdcnt d = 1 | Dlc_confirmed _ _ \<Rightarrow> holdcnt d = 0 | Dlc_indicated _ _ \<Rightarrow> holdcnt d = 0 | _ \<Rightarrow> False)"

lemma left_idle_timer:
  assumes "dlc_ok d" "dlc_event_ok e d" "dlc_step e d = Inr d'" "left_idle e d" "dlc_autorelease_time d \<noteq> 0"
  shows "autorelease_timer d'"
  using assms
  by (cases e) (auto simp: dlc_ok_def left_idle_def q931_dlc_hold_def q931_dlc_release_def confirmed_dlc_def indicated_dlc_def Let_def)

text \<open>
  C16. A link is shut down only while no call holds it: over any sequence of holds, releases, primitives and expiries the
  operations do not fail, and a shutdown comes of an expiry with no hold. When the last hold is gone, or the link comes up
  with none, the timer runs if the interface has a time for it.
\<close>

theorem link_kept_while_held:
  assumes "dlc_ok d" "events_ok dlc_step dlc_event_ok (es @ [e]) d"
  shows "\<exists>d1 d2. run_events dlc_step es d = Inr d1 \<and> dlc_step e d1 = Inr d2 \<and> dlc_ok d2 \<and>
    (shutdowns d2 = shutdowns d1 \<or> holdcnt d1 = 0 \<and> shutdowns d2 = shutdowns d1 + 1) \<and>
    (left_idle e d1 \<and> dlc_autorelease_time d1 \<noteq> 0 \<longrightarrow> autorelease_timer d2)"
proof -
  note ok = last_event_ok [OF assms(2)]
  obtain d1 where d1: "run_events dlc_step es d = Inr d1" "dlc_ok d1" using dlc.run_total [OF conjunct1 [OF ok] assms(1)] by blast
  with ok have e: "dlc_event_ok e d1" by blast
  obtain d2 where d2: "dlc_step e d1 = Inr d2" "dlc_ok d2" using dlc_step_ok [OF d1(2) e] by blast
  with d1 shutdown_step [OF d1(2) d2(1)] left_idle_timer [OF d1(2) e d2(1)] show ?thesis by blast
qed

text \<open>A link that comes up, is held and given back, and is shut down when the timer expires.\<close>

theorem link_kept_while_held_witness:
  "\<exists>d1 d2. run_events dlc_step [Dlc_confirmed [] (\<lambda>_. 0), Dlc_hold, Dlc_expired, Dlc_release] (q931_dlc_init 10) = Inr d1 \<and>
     shutdowns d1 = 0 \<and> dlc_step Dlc_expired d1 = Inr d2 \<and> shutdowns d2 = 1"
proof -
  let ?es = "[Dlc_confirmed [] (\<lambda>_. 0), Dlc_hold, Dlc_expired, Dlc_release]"
  have "dlc_ok (q931_dlc_init 10)" by (simp add: dlc_ok_def q931_dlc_init_def BROADCAST_TEI_def)
  moreover have "events_ok dlc_step dlc_event_ok (?es @ [Dlc_expired]) (q931_dlc_init 10)"
    by (simp add: dlc_event_ok_def q931_dlc_init_def confirmed_dlc_def q931_dlc_hold_def q931_dlc_release_def BROADCAST_TEI_def Let_def
        q931_dlc_autorelease_def)
  ultimately obtain d1 d2 where "run_events dlc_step ?es (q931_dlc_init 10) = Inr d1" "dlc_step Dlc_expired d1 = Inr d2"
    using link_kept_while_held by blast
  moreover have "run_events dlc_step ?es (q931_dlc_init 10) = Inr d1 \<Longrightarrow> autorelease_timer d1 \<and> shutdowns d1 = 0"
    by (auto simp: q931_dlc_init_def confirmed_dlc_def q931_dlc_hold_def q931_dlc_release_def BROADCAST_TEI_def Let_def)
  ultimately show ?thesis by (auto simp: q931_dlc_autorelease_def)
qed

end
