(* ===== verification/Ks_Router.thy ===== *)
theory Ks_Router
  imports Lapd_Prelude
begin

text \<open>
  How a stream finds its way through the nodes of kstreamer: \<open>ks_router_run\<close> (\<open>router.c\<close> of
  \<open>src/libkstreamer\<close>) looks for the cheapest route over channels that no pipeline uses, and
  \<open>ks_pipeline_autoroute\<close> (\<open>pipeline.c\<close>) puts its channels in a pipeline. Nodes are known by
  numbers, channels by their place in the list; both lists are in the order of the hash tables.
\<close>

section \<open>Nodes, channels and pipelines\<close>

record ks_node =
  router_cost :: int
  router_visited :: bool
  router_prev :: "nat option"
  router_prev_thru :: "nat option"

record ks_chan =
  ch_refcnt :: int
  ch_from :: "nat option"
  ch_to :: "nat option"
  ch_pipeline :: "nat option"
  ch_cost :: int

record ks_conn =
  conn_nodes :: "nat list"
  node_at :: "nat \<Rightarrow> ks_node"
  conn_chans :: "ks_chan list"

definition COST_MAX :: int where "COST_MAX = 2147483647"

definition EHOSTUNREACH :: int where "EHOSTUNREACH = 113"

section \<open>The router\<close>

text \<open>The node with the lowest cost among those not visited, the first in the order of the table.\<close>

fun min_cost_node :: "(nat \<Rightarrow> ks_node) \<Rightarrow> nat option \<Rightarrow> nat list \<Rightarrow> nat option" where
  "min_cost_node nd acc [] = acc"
| "min_cost_node nd acc (n # ns) =
     min_cost_node nd
       (if \<not> router_visited (nd n) \<and>
           (case acc of None \<Rightarrow> True | Some m \<Rightarrow> router_cost (nd n) < router_cost (nd m))
        then Some n else acc) ns"

text \<open>One arc at the node \<open>m\<close>; the sum of the costs is an \<open>int\<close> of C.\<close>

definition relax :: "nat \<Rightarrow> nat \<Rightarrow> ks_chan \<Rightarrow> (nat \<Rightarrow> ks_node) \<Rightarrow> (nat \<Rightarrow> ks_node) res" where
  "relax m i arch nd =
     (if ch_from arch \<noteq> Some m \<or> ch_pipeline arch \<noteq> None then Inr nd
      else if ch_cost arch \<noteq> COST_MAX \<and> router_cost (nd m) \<noteq> COST_MAX then
        (case ch_to arch of
           None \<Rightarrow> Inl NullDereference
         | Some n \<Rightarrow>
             let c = router_cost (nd m) + ch_cost arch in
             if c < - COST_MAX - 1 \<or> COST_MAX < c then Inl SignedOverflow
             else if c < router_cost (nd n)
             then Inr (nd(n := (nd n)\<lparr>router_cost := c, router_prev := Some m, router_prev_thru := Some i\<rparr>))
             else Inr nd)
      else Inr nd)"

fun relax_all :: "nat \<Rightarrow> nat \<Rightarrow> ks_chan list \<Rightarrow> (nat \<Rightarrow> ks_node) \<Rightarrow> (nat \<Rightarrow> ks_node) res" where
  "relax_all m i [] nd = Inr nd"
| "relax_all m i (arch # cs) nd = bind_res (relax m i arch nd) (relax_all m (i + 1) cs)"

definition visit :: "nat \<Rightarrow> (nat \<Rightarrow> ks_node) \<Rightarrow> (nat \<Rightarrow> ks_node)" where
  "visit m nd = nd(m := (nd m)\<lparr>router_visited := True\<rparr>)"

text \<open>Relaxing leaves the marks, so every turn of the loop visits one more node.\<close>

lemma relax_visited: "relax m i arch nd = Inr nd' \<Longrightarrow> router_visited (nd' x) = router_visited (nd x)"
  by (auto simp: relax_def Let_def split: if_splits option.splits)

lemma relax_all_visited: "relax_all m i cs nd = Inr nd' \<Longrightarrow> router_visited (nd' x) = router_visited (nd x)"
  by (induction cs arbitrary: i nd) (auto simp: bind_res_eq_Inr dest: relax_visited)

lemma min_cost_node_Some:
  "min_cost_node nd acc ns = Some m \<Longrightarrow> acc = Some m \<or> m \<in> set ns \<and> \<not> router_visited (nd m)"
  by (induction ns arbitrary: acc) (fastforce split: if_splits)+

definition left :: "nat list \<Rightarrow> (nat \<Rightarrow> ks_node) \<Rightarrow> nat" where
  "left ns nd = length (filter (\<lambda>n. \<not> router_visited (nd n)) ns)"

lemma left_visit: "m \<in> set ns \<Longrightarrow> \<not> router_visited (nd m) \<Longrightarrow> left ns (visit m nd) < left ns nd"
proof (induction ns)
  case (Cons n ns)
  have "left ns (visit m nd) \<le> left ns nd" unfolding left_def visit_def by (induction ns) auto
  then show ?case using Cons by (cases "n = m") (auto simp: left_def visit_def)
qed simp

lemma left_same: "(\<And>x. router_visited (nd' x) = router_visited (nd x)) \<Longrightarrow> left ns nd' = left ns nd"
  by (simp add: left_def)

function router_loop :: "nat \<Rightarrow> nat list \<Rightarrow> ks_chan list \<Rightarrow> (nat \<Rightarrow> ks_node) \<Rightarrow> (nat \<Rightarrow> ks_node) res" where
  "router_loop to ns chs nd =
     (case min_cost_node nd None ns of
        None \<Rightarrow> Inr nd
      | Some m \<Rightarrow>
          if m = to then Inr nd
          else (case relax_all m 0 chs (visit m nd) of
                  Inl e \<Rightarrow> Inl e
                | Inr nd' \<Rightarrow> router_loop to ns chs nd'))"
  by pat_completeness auto

termination
proof (relation "measure (\<lambda>(to, ns, chs, nd). left ns nd)")
  fix to :: nat and ns chs nd m nd'
  assume a: "min_cost_node nd None ns = Some m" "relax_all m 0 chs (visit m nd) = Inr nd'"
  have "left ns nd' = left ns (visit m nd)" by (rule left_same) (rule relax_all_visited [OF a(2)])
  then show "((to, ns, chs, nd'), to, ns, chs, nd) \<in> measure (\<lambda>(to, ns, chs, nd). left ns nd)"
    using left_visit [of m ns nd] min_cost_node_Some [OF a(1)] by simp
qed simp

declare router_loop.simps [simp del]

definition router_init :: "nat list \<Rightarrow> (nat \<Rightarrow> ks_node) \<Rightarrow> nat \<Rightarrow> ks_node" where
  "router_init ns nd n =
     (if n \<in> set ns then \<lparr>router_cost = COST_MAX, router_visited = False, router_prev = None, router_prev_thru = None\<rparr>
      else nd n)"

definition ks_router_run :: "nat \<Rightarrow> nat \<Rightarrow> ks_conn \<Rightarrow> ks_conn res" where
  "ks_router_run start to conn =
     (let nd = router_init (conn_nodes conn) (node_at conn)
      in bind_res (router_loop to (conn_nodes conn) (conn_chans conn) (nd(start := (nd start)\<lparr>router_cost := 0\<rparr>)))
           (\<lambda>nd. Inr (conn\<lparr>node_at := nd\<rparr>)))"

section \<open>The pipeline\<close>

text \<open>
  The nodes from which a node was reached, back to one without a predecessor, and the channels in the order of the
  stream. Nothing in the code bounds the loop.
\<close>

partial_function (option) prev_chain :: "(nat \<Rightarrow> ks_node) \<Rightarrow> nat \<Rightarrow> (nat \<times> nat option list) option" where
  "prev_chain nd n =
     (case router_prev (nd n) of
        None \<Rightarrow> Some (n, [])
      | Some p \<Rightarrow> Option.bind (prev_chain nd p) (\<lambda>(s, thru). Some (s, thru @ [router_prev_thru (nd n)])))"

fun get_chans :: "nat option list \<Rightarrow> ks_chan list \<Rightarrow> (nat list \<times> ks_chan list) res" where
  "get_chans [] chs = Inr ([], chs)"
| "get_chans (None # thru) chs = Inl NullDereference"
| "get_chans (Some i # thru) chs =
     bind_res (get_chans thru chs) (\<lambda>(ids, chs).
       if ch_refcnt (chs ! i) \<le> 0 then Inl KernelBug
       else Inr (i # ids, chs[i := (chs ! i)\<lparr>ch_refcnt := ch_refcnt (chs ! i) + 1\<rparr>]))"

record ks_pipeline = pl_chans :: "nat list"

definition ks_pipeline_autoroute :: "ks_pipeline \<Rightarrow> ks_conn \<Rightarrow> nat \<Rightarrow> nat \<Rightarrow> (int \<times> ks_pipeline \<times> ks_conn) res option" where
  "ks_pipeline_autoroute pl conn src_node dst_node =
     (case ks_router_run src_node dst_node conn of
        Inl e \<Rightarrow> Some (Inl e)
      | Inr conn \<Rightarrow>
          Option.bind (prev_chain (node_at conn) dst_node) (\<lambda>(node, thru).
            if node \<noteq> src_node then Some (Inr (- EHOSTUNREACH, pl, conn))
            else Some (bind_res (get_chans thru (conn_chans conn)) (\<lambda>(ids, chs).
              if 32 < length (pl_chans pl) + length ids then Inl OutOfBounds
              else Inr (0, pl\<lparr>pl_chans := pl_chans pl @ ids\<rparr>, conn\<lparr>conn_chans := chs\<rparr>)))))"

section \<open>Routes\<close>

text \<open>A route over channels that no pipeline uses, and what it costs.\<close>

fun route :: "ks_chan list \<Rightarrow> nat \<Rightarrow> nat list \<Rightarrow> nat \<Rightarrow> bool" where
  "route chs a [] b \<longleftrightarrow> a = b"
| "route chs a (i # is) b \<longleftrightarrow> i < length chs \<and> ch_pipeline (chs ! i) = None \<and> ch_from (chs ! i) = Some a \<and>
     (case ch_to (chs ! i) of None \<Rightarrow> False | Some c \<Rightarrow> route chs c is b)"

definition route_cost :: "ks_chan list \<Rightarrow> nat list \<Rightarrow> int" where
  "route_cost chs is = (\<Sum>i\<leftarrow>is. ch_cost (chs ! i))"

lemma route_append: "route chs a (is @ js) b \<longleftrightarrow> (\<exists>c. route chs a is c \<and> route chs c js b)"
  by (induction "is" arbitrary: a) (auto split: option.splits)

text \<open>
  The channels join nodes of the table, and no route over as many channels as there are nodes costs too
  much for an \<open>int\<close>. With the cost \<open>ks_chan_alloc\<close> gives to every channel that is so for 2147483 nodes.
\<close>

definition chan_ok :: "nat list \<Rightarrow> int \<Rightarrow> ks_chan \<Rightarrow> bool" where
  "chan_ok ns C c \<longleftrightarrow> 0 \<le> ch_cost c \<and> ch_cost c \<le> C \<and> 0 < ch_refcnt c \<and>
     (case ch_from c of None \<Rightarrow> True | Some a \<Rightarrow> a \<in> set ns) \<and> (case ch_to c of None \<Rightarrow> False | Some b \<Rightarrow> b \<in> set ns)"

definition topology_ok :: "nat list \<Rightarrow> ks_chan list \<Rightarrow> int \<Rightarrow> bool" where
  "topology_ok ns chs C \<longleftrightarrow> list_all (chan_ok ns C) chs \<and> C * int (length ns) < COST_MAX \<and> C < COST_MAX"

section \<open>What the router keeps\<close>

text \<open>A chain of predecessors that were all visited, from \<open>s\<close> to a node, with the costs along it.\<close>

inductive chain :: "ks_chan list \<Rightarrow> (nat \<Rightarrow> ks_node) \<Rightarrow> nat \<Rightarrow> nat \<Rightarrow> nat list \<Rightarrow> bool" for chs nd s where
  chain_start: "router_prev (nd s) = None \<Longrightarrow> router_cost (nd s) = 0 \<Longrightarrow> chain chs nd s s []"
| chain_arc: "chain chs nd s p is \<Longrightarrow> router_visited (nd p) \<Longrightarrow> router_prev (nd n) = Some p \<Longrightarrow>
    router_prev_thru (nd n) = Some i \<Longrightarrow> i < length chs \<Longrightarrow> ch_pipeline (chs ! i) = None \<Longrightarrow>
    ch_from (chs ! i) = Some p \<Longrightarrow> ch_to (chs ! i) = Some n \<Longrightarrow>
    router_cost (nd n) = router_cost (nd p) + ch_cost (chs ! i) \<Longrightarrow> chain chs nd s n (is @ [i])"

lemma chain_route: "chain chs nd s n is \<Longrightarrow> route chs s is n \<and> router_cost (nd n) = route_cost chs is"
  by (induction rule: chain.induct) (auto simp: route_append route_cost_def)

lemma chain_prev: "chain chs nd s n is \<Longrightarrow> prev_chain nd n = Some (s, map Some is)"
  by (induction rule: chain.induct) (simp_all add: prev_chain.simps)

text \<open>A chain stays when the nodes that were visited and the one at its end stay, as far as the router reads them.\<close>

lemma chain_keep:
  "chain chs nd s n is \<Longrightarrow>
   (\<And>x. router_visited (nd x) \<or> x = n \<Longrightarrow> router_cost (nd' x) = router_cost (nd x) \<and> router_prev (nd' x) = router_prev (nd x) \<and>
      router_prev_thru (nd' x) = router_prev_thru (nd x) \<and> (router_visited (nd x) \<longrightarrow> router_visited (nd' x))) \<Longrightarrow>
   chain chs nd' s n is"
proof (induction rule: chain.induct)
  case chain_start
  then show ?case using chain.chain_start by metis
next
  case (chain_arc p "is" n i)
  have "chain chs nd' s p is" using chain_arc.IH chain_arc.prems chain_arc.hyps(2) by blast
  then show ?case
    using chain.chain_arc [of chs nd' s p "is" n i] chain_arc.hyps(2-) chain_arc.prems [of p] chain_arc.prems [of n] by simp
qed

definition seen :: "nat list \<Rightarrow> (nat \<Rightarrow> ks_node) \<Rightarrow> nat" where
  "seen ns nd = length (filter (\<lambda>n. router_visited (nd n)) ns)"

definition estimates_ok :: "nat list \<Rightarrow> ks_chan list \<Rightarrow> int \<Rightarrow> nat \<Rightarrow> (nat \<Rightarrow> ks_node) \<Rightarrow> bool" where
  "estimates_ok ns chs C s nd \<longleftrightarrow> router_cost (nd s) = 0 \<and> router_prev (nd s) = None \<and>
     (\<forall>n\<in>set ns. 0 \<le> router_cost (nd n) \<and>
        (if router_cost (nd n) < COST_MAX
         then router_cost (nd n) \<le> C * int (seen ns nd) \<and> (\<exists>is. chain chs nd s n is)
         else router_cost (nd n) = COST_MAX \<and> router_prev (nd n) = None))"

lemma estimates_chain:
  assumes "estimates_ok ns chs C s nd" "n \<in> set ns" "router_cost (nd n) < COST_MAX"
  shows "router_cost (nd n) \<le> C * int (seen ns nd)" "\<exists>is. chain chs nd s n is"
proof -
  have "if router_cost (nd n) < COST_MAX then router_cost (nd n) \<le> C * int (seen ns nd) \<and> (\<exists>is. chain chs nd s n is)
     else router_cost (nd n) = COST_MAX \<and> router_prev (nd n) = None"
    using assms(1,2) unfolding estimates_ok_def by blast
  then show "router_cost (nd n) \<le> C * int (seen ns nd)" "\<exists>is. chain chs nd s n is" using assms(3) by simp_all
qed

lemma estimates_far:
  assumes "estimates_ok ns chs C s nd" "n \<in> set ns" "\<not> router_cost (nd n) < COST_MAX"
  shows "router_cost (nd n) = COST_MAX" "router_prev (nd n) = None"
proof -
  have "if router_cost (nd n) < COST_MAX then router_cost (nd n) \<le> C * int (seen ns nd) \<and> (\<exists>is. chain chs nd s n is)
     else router_cost (nd n) = COST_MAX \<and> router_prev (nd n) = None"
    using assms(1,2) unfolding estimates_ok_def by blast
  then show "router_cost (nd n) = COST_MAX" "router_prev (nd n) = None" using assms(3) by simp_all
qed

definition settled :: "nat list \<Rightarrow> nat \<Rightarrow> (nat \<Rightarrow> ks_node) \<Rightarrow> bool" where
  "settled ns m nd \<longleftrightarrow> (\<forall>n\<in>set ns. if router_visited (nd n) then router_cost (nd n) \<le> router_cost (nd m)
     else router_cost (nd m) \<le> router_cost (nd n))"

definition arc_relaxed :: "(nat \<Rightarrow> ks_node) \<Rightarrow> ks_chan \<Rightarrow> bool" where
  "arc_relaxed nd c \<longleftrightarrow> (case (ch_from c, ch_to c) of (Some u, Some w) \<Rightarrow>
     ch_pipeline c = None \<longrightarrow> router_visited (nd u) \<longrightarrow> router_cost (nd u) < COST_MAX \<longrightarrow>
       router_cost (nd w) \<le> router_cost (nd u) + ch_cost c \<and> router_cost (nd w) < COST_MAX | _ \<Rightarrow> True)"

text \<open>One arc: either nothing changes, or a node that was not visited gets a cheaper route by way of \<open>m\<close>.\<close>

lemma relax_step:
  assumes "estimates_ok ns chs C s nd" "settled ns m nd" "m \<in> set ns" "router_visited (nd m)" "i < length chs"
    "topology_ok ns chs C" "router_cost (nd m) < COST_MAX \<Longrightarrow> router_cost (nd m) + C \<le> C * int (seen ns nd)"
  shows "\<exists>nd'. relax m i (chs ! i) nd = Inr nd' \<and> estimates_ok ns chs C s nd' \<and> settled ns m nd' \<and>
    (\<forall>x. router_visited (nd' x) = router_visited (nd x)) \<and> (\<forall>x. router_visited (nd x) \<longrightarrow> nd' x = nd x) \<and>
    (\<forall>x. router_cost (nd' x) \<le> router_cost (nd x)) \<and> (ch_from (chs ! i) = Some m \<longrightarrow> arc_relaxed nd' (chs ! i))"
proof -
  let ?c = "chs ! i"
  have ok: "chan_ok ns C ?c" "C * int (length ns) < COST_MAX" "C < COST_MAX"
    using assms(5,6) by (auto simp: topology_ok_def list_all_length)
  have mx: "0 \<le> router_cost (nd m)" "router_cost (nd m) < COST_MAX \<or> router_cost (nd m) = COST_MAX"
    using assms(1,3) by (auto simp: estimates_ok_def split: if_splits)
  have sn: "seen ns nd \<le> length ns" by (simp add: seen_def)
  obtain w where w: "ch_to ?c = Some w" "w \<in> set ns" using ok(1) by (auto simp: chan_ok_def split: option.splits)
  have c: "0 \<le> ch_cost ?c" "ch_cost ?c \<le> C" using ok(1) by (auto simp: chan_ok_def)
  show ?thesis
  proof (cases "ch_from ?c \<noteq> Some m \<or> ch_pipeline ?c \<noteq> None \<or> router_cost (nd m) = COST_MAX")
    case True
    then have "relax m i ?c nd = Inr nd" by (auto simp: relax_def)
    moreover have "ch_from ?c = Some m \<longrightarrow> arc_relaxed nd ?c" using True w by (auto simp: arc_relaxed_def)
    ultimately show ?thesis using assms(1,2) by (intro exI [of _ nd]) simp
  next
    case False
    let ?d = "router_cost (nd m) + ch_cost ?c"
    have f: "router_cost (nd m) < COST_MAX" using False mx(2) by blast
    have C0: "0 \<le> C" using c by simp
    have "C * int (seen ns nd) \<le> C * int (length ns)" using C0 sn by (intro mult_left_mono) simp_all
    then have d: "?d \<le> C * int (seen ns nd)" "?d < COST_MAX" "0 \<le> ?d" using assms(7) f c mx ok(2) by linarith+
    have r: "relax m i ?c nd = (if ?d < router_cost (nd w)
        then Inr (nd(w := (nd w)\<lparr>router_cost := ?d, router_prev := Some m, router_prev_thru := Some i\<rparr>)) else Inr nd)"
      using False d w(1) c ok(3) by (auto simp: relax_def Let_def COST_MAX_def)
    show ?thesis
    proof (cases "?d < router_cost (nd w)")
      case False
      then have "arc_relaxed nd ?c" if "ch_from ?c = Some m" using that w(1) d by (simp add: arc_relaxed_def)
      then show ?thesis using r False assms(1,2) by (intro exI [of _ nd]) simp
    next
      case True
      define nd' where "nd' = nd(w := (nd w)\<lparr>router_cost := ?d, router_prev := Some m, router_prev_thru := Some i\<rparr>)"
      have nv: "\<not> router_visited (nd w)" "w \<noteq> m" "w \<noteq> s"
        using True c d(3) w(2) assms(1,2,4) by (auto simp: settled_def estimates_ok_def)
      have v: "router_visited (nd' x) = router_visited (nd x)" for x by (simp add: nd'_def)
      then have sn': "seen ns nd' = seen ns nd" by (simp add: seen_def)
      have o: "nd' x = nd x" if "x \<noteq> w" for x using that by (simp add: nd'_def)
      have k: "chain chs nd' s n is" if "chain chs nd s n is" "n \<noteq> w" for n "is"
        using that(1) by (rule chain_keep) (use that(2) nv(1) o v in metis)
      obtain im where "chain chs nd s m im" using estimates_chain [OF assms(1,3) f] by blast
      then have "chain chs nd' s m im" using k nv(2) by blast
      moreover have "router_visited (nd' m)" "router_prev (nd' w) = Some m" "router_prev_thru (nd' w) = Some i"
        "router_cost (nd' w) = router_cost (nd' m) + ch_cost ?c"
        using assms(4) nv(2) by (simp_all add: nd'_def)
      ultimately have cw: "chain chs nd' s w (im @ [i])"
        using chain_arc [of chs nd' s m im w i] False assms(5) w(1) by blast
      have e: "estimates_ok ns chs C s nd'"
        unfolding estimates_ok_def
      proof (intro conjI ballI)
        show "router_cost (nd' s) = 0" "router_prev (nd' s) = None" using assms(1) o [of s] nv(3) by (auto simp: estimates_ok_def)
        fix n assume n: "n \<in> set ns"
        show "0 \<le> router_cost (nd' n)" using n assms(1) d(3) by (auto simp: nd'_def estimates_ok_def)
        show "if router_cost (nd' n) < COST_MAX then router_cost (nd' n) \<le> C * int (seen ns nd') \<and> (\<exists>is. chain chs nd' s n is)
          else router_cost (nd' n) = COST_MAX \<and> router_prev (nd' n) = None"
        proof (cases "n = w")
          case True
          then show ?thesis using cw d(1,2) sn' by (auto simp: nd'_def)
        next
          case False
          show ?thesis
          proof (cases "router_cost (nd n) < COST_MAX")
            case True
            then obtain "is" where "chain chs nd' s n is" using estimates_chain(2) [OF assms(1) n] k [OF _ False] by blast
            then show ?thesis using estimates_chain(1) [OF assms(1) n True] True unfolding sn' o [OF False] by auto
          next
            case far: False
            then show ?thesis using estimates_far [OF assms(1) n far] unfolding o [OF False] by simp
          qed
        qed
      qed
      have st: "settled ns m nd'" unfolding settled_def
      proof
        fix n assume n: "n \<in> set ns"
        have "router_cost (nd m) \<le> ?d" using c by simp
        then show "if router_visited (nd' n) then router_cost (nd' n) \<le> router_cost (nd' m) else router_cost (nd' m) \<le> router_cost (nd' n)"
          using n assms(2) nv by (cases "n = w") (auto simp: nd'_def settled_def)
      qed
      have "arc_relaxed nd' ?c" if "ch_from ?c = Some m" using that w(1) d nv(2) by (simp add: arc_relaxed_def nd'_def)
      moreover have "router_visited (nd x) \<longrightarrow> nd' x = nd x" "router_cost (nd' x) \<le> router_cost (nd x)" for x
        using nv(1) True by (auto simp: nd'_def)
      moreover have "relax m i ?c nd = Inr nd'" using r True by (simp add: nd'_def)
      ultimately show ?thesis using e st v by blast
    qed
  qed
qed

text \<open>An arc stays relaxed while visited nodes stay and costs only fall.\<close>

lemma arc_relaxed_keep:
  assumes "arc_relaxed nd c" "\<And>x. router_visited (nd' x) = router_visited (nd x)" "\<And>x. router_visited (nd x) \<Longrightarrow> nd' x = nd x"
    "\<And>x. router_cost (nd' x) \<le> router_cost (nd x)"
  shows "arc_relaxed nd' c"
proof -
  have "router_cost (nd' w) \<le> router_cost (nd' u) + ch_cost c \<and> router_cost (nd' w) < COST_MAX"
    if "ch_from c = Some u" "ch_to c = Some w" "ch_pipeline c = None" "router_visited (nd' u)" "router_cost (nd' u) < COST_MAX" for u w
  proof -
    have "nd' u = nd u" using that(4) assms(2,3) by blast
    then have "router_cost (nd w) \<le> router_cost (nd' u) + ch_cost c \<and> router_cost (nd w) < COST_MAX"
      using assms(1) that by (auto simp: arc_relaxed_def)
    then show ?thesis using assms(4) [of w] by linarith
  qed
  then show ?thesis by (auto simp: arc_relaxed_def split: option.splits)
qed

lemma relax_all_step:
  assumes "estimates_ok ns chs C s nd" "settled ns m nd" "m \<in> set ns" "router_visited (nd m)" "chs = done @ cs" "i = length done"
    "topology_ok ns chs C" "router_cost (nd m) < COST_MAX \<Longrightarrow> router_cost (nd m) + C \<le> C * int (seen ns nd)"
    "\<forall>c\<in>set chs. ch_from c \<noteq> Some m \<longrightarrow> arc_relaxed nd c" "\<forall>c\<in>set done. arc_relaxed nd c"
  shows "\<exists>nd'. relax_all m i cs nd = Inr nd' \<and> estimates_ok ns chs C s nd' \<and> settled ns m nd' \<and>
    (\<forall>x. router_visited (nd' x) = router_visited (nd x)) \<and> nd' m = nd m \<and> (\<forall>c\<in>set chs. arc_relaxed nd' c)"
  using assms
proof (induction cs arbitrary: i "done" nd)
  case Nil
  then show ?case by simp
next
  case (Cons c cs)
  have i: "i < length chs" "chs ! i = c" using Cons.prems(5,6) by simp_all
  obtain nd1 where n: "relax m i c nd = Inr nd1" "estimates_ok ns chs C s nd1" "settled ns m nd1"
    "\<forall>x. router_visited (nd1 x) = router_visited (nd x)" "\<forall>x. router_visited (nd x) \<longrightarrow> nd1 x = nd x"
    "\<forall>x. router_cost (nd1 x) \<le> router_cost (nd x)" "ch_from c = Some m \<longrightarrow> arc_relaxed nd1 c"
    using relax_step [OF Cons.prems(1-4) i(1) Cons.prems(7,8)] unfolding i(2) by blast
  have k: "arc_relaxed nd1 d" if "arc_relaxed nd d" for d
    using arc_relaxed_keep [OF that] n(4-6) by blast
  have m: "nd1 m = nd m" using n(5) Cons.prems(4) by blast
  have c: "c \<in> set chs" using Cons.prems(5) by simp
  have s: "seen ns nd1 = seen ns nd" using n(4) by (simp add: seen_def)
  have "\<exists>nd'. relax_all m (i + 1) cs nd1 = Inr nd' \<and> estimates_ok ns chs C s nd' \<and> settled ns m nd' \<and>
    (\<forall>x. router_visited (nd' x) = router_visited (nd1 x)) \<and> nd' m = nd1 m \<and> (\<forall>c\<in>set chs. arc_relaxed nd' c)"
  proof (rule Cons.IH [of nd1 "done @ [c]"])
    show "chs = (done @ [c]) @ cs" "i + 1 = length (done @ [c])" using Cons.prems(5,6) by simp_all
    show "router_visited (nd1 m)" using n(4) Cons.prems(4) by blast
    show "\<forall>c\<in>set chs. ch_from c \<noteq> Some m \<longrightarrow> arc_relaxed nd1 c" using k Cons.prems(9) by blast
    show "\<forall>d\<in>set (done @ [c]). arc_relaxed nd1 d" using k Cons.prems(9,10) n(7) c by auto
    show "router_cost (nd1 m) + C \<le> C * int (seen ns nd1)" if "router_cost (nd1 m) < COST_MAX"
      using that Cons.prems(8) unfolding m s by blast
  qed (rule n(2), rule n(3), rule Cons.prems(3), rule Cons.prems(7))
  then obtain nd' where r: "relax_all m (i + 1) cs nd1 = Inr nd'" "estimates_ok ns chs C s nd'" "settled ns m nd'"
    "\<forall>x. router_visited (nd' x) = router_visited (nd1 x)" "nd' m = nd1 m" "\<forall>c\<in>set chs. arc_relaxed nd' c" by blast
  have "relax_all m i (c # cs) nd = Inr nd'" using n(1) r(1) by simp
  moreover have "router_visited (nd' x) = router_visited (nd x)" for x using r(4) n(4) by simp
  ultimately show ?case using r m by auto
qed

section \<open>The loop\<close>

lemma min_cost_node_None: "min_cost_node nd acc ns = None \<Longrightarrow> acc = None \<and> (\<forall>n\<in>set ns. router_visited (nd n))"
proof (induction ns arbitrary: acc)
  case (Cons n ns)
  let ?acc = "if \<not> router_visited (nd n) \<and> (case acc of None \<Rightarrow> True | Some m \<Rightarrow> router_cost (nd n) < router_cost (nd m))
        then Some n else acc"
  have "min_cost_node nd ?acc ns = None" using Cons.prems by simp
  from Cons.IH [OF this] have a: "?acc = None" "\<forall>n\<in>set ns. router_visited (nd n)" by (rule conjunct1, rule conjunct2)
  have "acc = None" "router_visited (nd n)" using a(1) by (cases acc; simp split: if_splits)+
  then show ?case using a(2) by simp
qed simp

lemma min_cost_node_min:
  "min_cost_node nd acc ns = Some m \<Longrightarrow>
     (\<forall>n\<in>set ns. \<not> router_visited (nd n) \<longrightarrow> router_cost (nd m) \<le> router_cost (nd n)) \<and>
     (\<forall>a. acc = Some a \<longrightarrow> router_cost (nd m) \<le> router_cost (nd a))"
proof (induction ns arbitrary: acc)
  case (Cons n ns)
  let ?acc = "if \<not> router_visited (nd n) \<and> (case acc of None \<Rightarrow> True | Some m \<Rightarrow> router_cost (nd n) < router_cost (nd m))
        then Some n else acc"
  have "min_cost_node nd ?acc ns = Some m" using Cons.prems by simp
  from Cons.IH [OF this] have a: "\<forall>n\<in>set ns. \<not> router_visited (nd n) \<longrightarrow> router_cost (nd m) \<le> router_cost (nd n)"
    "\<forall>a. ?acc = Some a \<longrightarrow> router_cost (nd m) \<le> router_cost (nd a)" by (rule conjunct1, rule conjunct2)
  have n: "router_cost (nd m) \<le> router_cost (nd n)" if u: "\<not> router_visited (nd n)"
  proof (cases "?acc = Some n")
    case True
    then show ?thesis using a(2) by blast
  next
    case False
    then obtain b where "acc = Some b" "\<not> router_cost (nd n) < router_cost (nd b)" "?acc = Some b"
      using u by (cases acc) (simp_all split: if_splits)
    then show ?thesis using a(2) by fastforce
  qed
  have "router_cost (nd m) \<le> router_cost (nd b)" if "acc = Some b" for b
  proof (cases "?acc = Some b")
    case True
    then show ?thesis using a(2) by blast
  next
    case False
    then have "?acc = Some n" "router_cost (nd n) < router_cost (nd b)" using that by (simp_all split: if_splits)
    then show ?thesis using a(2) by fastforce
  qed
  then show ?case using a(1) n by simp
qed simp

definition router_ok :: "nat list \<Rightarrow> ks_chan list \<Rightarrow> int \<Rightarrow> nat \<Rightarrow> (nat \<Rightarrow> ks_node) \<Rightarrow> bool" where
  "router_ok ns chs C s nd \<longleftrightarrow> estimates_ok ns chs C s nd \<and> (\<forall>c\<in>set chs. arc_relaxed nd c) \<and>
     (\<forall>u\<in>set ns. \<forall>w\<in>set ns. router_visited (nd u) \<and> \<not> router_visited (nd w) \<longrightarrow> router_cost (nd u) \<le> router_cost (nd w))"

lemma seen_visit: "m \<in> set ns \<Longrightarrow> \<not> router_visited (nd m) \<Longrightarrow> seen ns nd < seen ns (visit m nd)"
proof (induction ns)
  case (Cons n ns)
  have "seen ns nd \<le> seen ns (visit m nd)" unfolding seen_def visit_def by (induction ns) auto
  then show ?case using Cons by (cases "n = m") (auto simp: seen_def visit_def)
qed simp

text \<open>A turn of the loop.\<close>

lemma router_turn:
  assumes "router_ok ns chs C s nd" "min_cost_node nd None ns = Some m" "topology_ok ns chs C" "0 \<le> C"
  shows "\<exists>nd'. relax_all m 0 chs (visit m nd) = Inr nd' \<and> router_ok ns chs C s nd'"
proof -
  let ?v = "visit m nd"
  have m: "m \<in> set ns" "\<not> router_visited (nd m)" using min_cost_node_Some [OF assms(2)] by simp_all
  have least: "router_cost (nd m) \<le> router_cost (nd n)" if "n \<in> set ns" "\<not> router_visited (nd n)" for n
    using min_cost_node_min [OF assms(2)] that by simp
  have o: "router_cost (?v x) = router_cost (nd x)" "router_prev (?v x) = router_prev (nd x)"
    "router_prev_thru (?v x) = router_prev_thru (nd x)" "router_visited (?v x) \<longleftrightarrow> x = m \<or> router_visited (nd x)" for x
    by (auto simp: visit_def)
  have sn: "seen ns nd + 1 \<le> seen ns ?v" using seen_visit [of m ns nd] m by simp
  have Csn: "C * int (seen ns nd) + C \<le> C * int (seen ns ?v)"
  proof -
    have "C * (int (seen ns nd) + 1) \<le> C * int (seen ns ?v)" using assms(4) sn by (intro mult_left_mono) simp_all
    then show ?thesis by (simp add: distrib_left)
  qed
  have est: "estimates_ok ns chs C s nd" using assms(1) by (simp add: router_ok_def)
  have k: "chain chs ?v s n is" if "chain chs nd s n is" for n "is" using that by (rule chain_keep) (simp add: o)
  have e: "estimates_ok ns chs C s ?v" unfolding estimates_ok_def o
  proof (intro conjI ballI)
    show "router_cost (nd s) = 0" "router_prev (nd s) = None" using est by (auto simp: estimates_ok_def)
    fix n assume n: "n \<in> set ns"
    show "0 \<le> router_cost (nd n)" using n est by (auto simp: estimates_ok_def)
    show "if router_cost (nd n) < COST_MAX then router_cost (nd n) \<le> C * int (seen ns ?v) \<and> (\<exists>is. chain chs ?v s n is)
      else router_cost (nd n) = COST_MAX \<and> router_prev (nd n) = None"
    proof (cases "router_cost (nd n) < COST_MAX")
      case True
      have "router_cost (nd n) \<le> C * int (seen ns ?v)" using estimates_chain(1) [OF est n True] Csn assms(4) by linarith
      moreover obtain "is" where "chain chs ?v s n is" using estimates_chain(2) [OF est n True] k by blast
      ultimately show ?thesis using True by auto
    next
      case False
      then show ?thesis using estimates_far [OF est n] by simp
    qed
  qed
  have st: "settled ns m ?v" unfolding settled_def o using assms(1) m least by (auto simp: router_ok_def)
  have b: "router_cost (?v m) + C \<le> C * int (seen ns ?v)" if "router_cost (?v m) < COST_MAX"
    using estimates_chain(1) [OF est m(1)] that Csn by (simp add: o)
  have ar: "\<forall>c\<in>set chs. ch_from c \<noteq> Some m \<longrightarrow> arc_relaxed ?v c"
    using assms(1) by (auto simp: router_ok_def arc_relaxed_def o split: option.splits)
  obtain nd' where n: "relax_all m 0 chs ?v = Inr nd'" "estimates_ok ns chs C s nd'" "settled ns m nd'"
    "\<forall>x. router_visited (nd' x) = router_visited (?v x)" "\<forall>c\<in>set chs. arc_relaxed nd' c"
    using relax_all_step [of ns chs C s ?v m "[]" chs 0, OF e st m(1) _ _ _ assms(3) b ar] o(4) [of m] by auto
  have "router_cost (nd' u) \<le> router_cost (nd' w)" if "u \<in> set ns" "w \<in> set ns" "router_visited (nd' u)" "\<not> router_visited (nd' w)" for u w
  proof -
    have "router_cost (nd' u) \<le> router_cost (nd' m)" "router_cost (nd' m) \<le> router_cost (nd' w)"
      using n(3) that unfolding settled_def by (metis, metis)
    then show ?thesis by linarith
  qed
  then show ?thesis using n by (auto simp: router_ok_def)
qed

lemma router_loop_ok:
  assumes "topology_ok ns chs C" "0 \<le> C" "router_ok ns chs C s nd"
  shows "\<exists>nd'. router_loop to ns chs nd = Inr nd' \<and> router_ok ns chs C s nd' \<and>
    (to \<in> set ns \<longrightarrow> (\<forall>n\<in>set ns. \<not> router_visited (nd' n) \<longrightarrow> router_cost (nd' to) \<le> router_cost (nd' n)))"
  using assms
proof (induction to ns chs nd rule: router_loop.induct)
  case (1 to ns chs nd)
  show ?case
  proof (cases "min_cost_node nd None ns")
    case None
    then show ?thesis using "1.prems" min_cost_node_None [OF None] by (simp add: router_loop.simps [of to ns chs nd])
  next
    case (Some m)
    show ?thesis
    proof (cases "m = to")
      case True
      then show ?thesis using "1.prems" Some min_cost_node_min [OF Some] by (simp add: router_loop.simps [of to ns chs nd])
    next
      case False
      obtain nd' where n: "relax_all m 0 chs (visit m nd) = Inr nd'" "router_ok ns chs C s nd'"
        using router_turn [OF "1.prems"(3) Some "1.prems"(1,2)] by blast
      have "router_loop to ns chs nd = router_loop to ns chs nd'"
        using Some False n(1) by (simp add: router_loop.simps [of to ns chs nd])
      then show ?thesis using "1.IH" [OF Some False n(1) "1.prems"(1,2) n(2)] by simp
    qed
  qed
qed

section \<open>The cheapest route\<close>

lemma route_cost_snoc: "route_cost chs (is @ [i]) = route_cost chs is + ch_cost (chs ! i)"
  by (simp add: route_cost_def)

text \<open>When the router stops, no route leads to a node for less than its cost, unless it is through a node not visited.\<close>

lemma route_bound:
  assumes "router_ok ns chs C s nd" "topology_ok ns chs C" "s \<in> set ns" "route chs s is b"
  shows "b \<in> set ns \<and> (router_cost (nd b) \<le> route_cost chs is \<and> router_cost (nd b) < COST_MAX \<or>
    (\<exists>w\<in>set ns. \<not> router_visited (nd w) \<and> router_cost (nd w) \<le> route_cost chs is \<and> router_cost (nd w) < COST_MAX))"
  using assms(4)
proof (induction "is" arbitrary: b rule: rev_induct)
  case Nil
  have "router_cost (nd s) = 0" using assms(1) by (simp add: router_ok_def estimates_ok_def)
  then show ?case using Nil assms(3) by (simp add: route_cost_def COST_MAX_def)
next
  case (snoc i "is")
  obtain a where a: "route chs s is a" "i < length chs" "ch_pipeline (chs ! i) = None" "ch_from (chs ! i) = Some a" "ch_to (chs ! i) = Some b"
    using snoc.prems by (auto simp: route_append split: option.splits)
  have ok: "chan_ok ns C (chs ! i)" using assms(2) a(2) by (auto simp: topology_ok_def list_all_length)
  then have b: "b \<in> set ns" "0 \<le> ch_cost (chs ! i)" using a(5) by (auto simp: chan_ok_def)
  have r: "arc_relaxed nd (chs ! i)" using assms(1) a(2) by (simp add: router_ok_def)
  note IH = snoc.IH [OF a(1)]
  show ?case
  proof (cases "\<exists>w\<in>set ns. \<not> router_visited (nd w) \<and> router_cost (nd w) \<le> route_cost chs is \<and> router_cost (nd w) < COST_MAX")
    case True
    then obtain w where w: "w \<in> set ns" "\<not> router_visited (nd w)" "router_cost (nd w) \<le> route_cost chs is" "router_cost (nd w) < COST_MAX"
      by blast
    then have "router_cost (nd w) \<le> route_cost chs (is @ [i])" using b(2) by (simp add: route_cost_snoc)
    then show ?thesis using b(1) w by blast
  next
    case False
    then have c: "router_cost (nd a) \<le> route_cost chs is" "router_cost (nd a) < COST_MAX" "router_visited (nd a)" using IH by blast+
    then have "router_cost (nd b) \<le> router_cost (nd a) + ch_cost (chs ! i)" "router_cost (nd b) < COST_MAX"
      using r a(3-5) by (simp_all add: arc_relaxed_def)
    then show ?thesis using c(1) b(1) by (simp add: route_cost_snoc)
  qed
qed

lemma get_chans_ok:
  assumes "\<forall>i\<in>set is. i < length chs" "\<forall>c\<in>set chs. 0 < ch_refcnt c"
  shows "\<exists>chs'. get_chans (map Some is) chs = Inr (is, chs') \<and> length chs' = length chs \<and>
    (\<forall>i < length chs. chs' ! i = (chs ! i)\<lparr>ch_refcnt := ch_refcnt (chs ! i) + int (count_list is i)\<rparr>)"
  using assms(1)
proof (induction "is")
  case (Cons i "is")
  then obtain chs' where c: "get_chans (map Some is) chs = Inr (is, chs')" "length chs' = length chs"
    "\<forall>i < length chs. chs' ! i = (chs ! i)\<lparr>ch_refcnt := ch_refcnt (chs ! i) + int (count_list is i)\<rparr>" by auto
  have i: "i < length chs" using Cons.prems by simp
  have "0 < ch_refcnt (chs ! i)" using assms(2) i by simp
  then have p: "0 < ch_refcnt (chs' ! i)" using c(3) i by simp
  let ?chs = "chs'[i := (chs' ! i)\<lparr>ch_refcnt := ch_refcnt (chs' ! i) + 1\<rparr>]"
  have "get_chans (map Some (i # is)) chs = Inr (i # is, ?chs)" using c(1) p by simp
  moreover have "?chs ! j = (chs ! j)\<lparr>ch_refcnt := ch_refcnt (chs ! j) + int (count_list (i # is) j)\<rparr>" if "j < length chs" for j
    using that i c(2,3) by (cases "j = i") simp_all
  ultimately show ?case using c(2) by auto
qed simp

lemma route_in: "route chs a is b \<Longrightarrow> \<forall>i\<in>set is. i < length chs"
  by (induction "is" arbitrary: a) (auto split: option.splits)

lemma router_init_ok:
  assumes "s \<in> set ns" "0 \<le> C" "topology_ok ns chs C"
  shows "router_ok ns chs C s ((router_init ns nd)(s := (router_init ns nd s)\<lparr>router_cost := 0\<rparr>))"
proof -
  let ?nd = "(router_init ns nd)(s := (router_init ns nd s)\<lparr>router_cost := 0\<rparr>)"
  have v: "\<not> router_visited (?nd n)" if "n \<in> set ns" for n using that assms(1) by (simp add: router_init_def)
  have "chain chs ?nd s s []" by (rule chain_start) (use assms(1) in \<open>simp_all add: router_init_def\<close>)
  moreover have "router_cost (?nd n) = COST_MAX \<and> router_prev (?nd n) = None" if "n \<in> set ns" "n \<noteq> s" for n
    using that by (simp add: router_init_def)
  ultimately have "estimates_ok ns chs C s ?nd"
    unfolding estimates_ok_def using assms by (auto simp: router_init_def COST_MAX_def)
  moreover have "arc_relaxed ?nd c" if "c \<in> set chs" for c
  proof -
    have "chan_ok ns C c" using that assms(3) by (simp add: topology_ok_def list_all_iff)
    then have "\<not> router_visited (?nd u)" if "ch_from c = Some u" for u using v that by (auto simp: chan_ok_def)
    then show ?thesis unfolding arc_relaxed_def by (auto simp del: fun_upd_apply split: option.split)
  qed
  ultimately show ?thesis using v unfolding router_ok_def by blast
qed

text \<open>
  C24. Streams take the cheapest route. When channels that no pipeline uses lead from one node to another,
  \<open>ks_pipeline_autoroute\<close> has appended to the pipeline a route of such channels, in the order of the stream, that no other one
  undercuts, and has one more reference to each of its channels and to no other; if the route does not fit behind the channels the
  pipeline has, its array of 32 is overrun. When there is no route the call fails with \<open>EHOSTUNREACH\<close>, and the pipeline and
  the channels are as before. The loop along the predecessors, which nothing in the code bounds, ends in both cases.

  The costs of the channels are not negative, a route over as many of them as there are nodes costs less than \<open>INT_MAX\<close>, and the
  channels have references and lead to nodes of the connection (\<open>topology_ok\<close>).
\<close>

theorem cheapest_route:
  assumes "topology_ok (conn_nodes conn) (conn_chans conn) C" "src \<in> set (conn_nodes conn)" "dst \<in> set (conn_nodes conn)" "0 \<le> C"
  shows "if \<exists>js. route (conn_chans conn) src js dst
     then \<exists>is conn'. route (conn_chans conn) src is dst \<and>
       (\<forall>js. route (conn_chans conn) src js dst \<longrightarrow> route_cost (conn_chans conn) is \<le> route_cost (conn_chans conn) js) \<and>
       (\<forall>i < length (conn_chans conn). conn_chans conn' ! i =
          (conn_chans conn ! i)\<lparr>ch_refcnt := ch_refcnt (conn_chans conn ! i) + int (count_list is i)\<rparr>) \<and>
       ks_pipeline_autoroute pl conn src dst =
         Some (if 32 < length (pl_chans pl) + length is then Inl OutOfBounds
               else Inr (0, pl\<lparr>pl_chans := pl_chans pl @ is\<rparr>, conn'))
     else \<exists>conn'. conn_chans conn' = conn_chans conn \<and> ks_pipeline_autoroute pl conn src dst = Some (Inr (- EHOSTUNREACH, pl, conn'))"
proof -
  let ?ns = "conn_nodes conn" and ?chs = "conn_chans conn"
  obtain nd where n: "router_loop dst ?ns ?chs ((router_init ?ns (node_at conn))(src := (router_init ?ns (node_at conn) src)\<lparr>router_cost := 0\<rparr>)) = Inr nd"
    "router_ok ?ns ?chs C src nd" "\<forall>w\<in>set ?ns. \<not> router_visited (nd w) \<longrightarrow> router_cost (nd dst) \<le> router_cost (nd w)"
    using router_loop_ok [OF assms(1,4) router_init_ok [OF assms(2,4,1), of "node_at conn"], of dst] assms(3) by blast
  have run: "ks_router_run src dst conn = Inr (conn\<lparr>node_at := nd\<rparr>)" using n(1) by (simp add: ks_router_run_def Let_def)
  have est: "estimates_ok ?ns ?chs C src nd" using n(2) by (simp add: router_ok_def)
  have bound: "router_cost (nd dst) \<le> route_cost ?chs js \<and> router_cost (nd dst) < COST_MAX" if "route ?chs src js dst" for js
    using route_bound [OF n(2) assms(1,2) that] n(3) by (meson order_trans le_less_trans)
  show ?thesis
  proof (cases "\<exists>js. route ?chs src js dst")
    case True
    then have "router_cost (nd dst) < COST_MAX" using bound by blast
    then obtain "is" where "chain ?chs nd src dst is" using estimates_chain(2) [OF est assms(3)] by blast
    then have c: "route ?chs src is dst" "router_cost (nd dst) = route_cost ?chs is" "prev_chain nd dst = Some (src, map Some is)"
      using chain_route [of ?chs nd src dst "is"] chain_prev [of ?chs nd src dst "is"] by simp_all
    have "\<forall>c\<in>set ?chs. 0 < ch_refcnt c" using assms(1) by (auto simp: topology_ok_def list_all_iff chan_ok_def)
    then obtain chs' where g: "get_chans (map Some is) ?chs = Inr (is, chs')"
      "\<forall>i < length ?chs. chs' ! i = (?chs ! i)\<lparr>ch_refcnt := ch_refcnt (?chs ! i) + int (count_list is i)\<rparr>"
      using get_chans_ok [OF route_in [OF c(1)]] by blast
    have "ks_pipeline_autoroute pl conn src dst = Some (if 32 < length (pl_chans pl) + length is then Inl OutOfBounds
       else Inr (0, pl\<lparr>pl_chans := pl_chans pl @ is\<rparr>, conn\<lparr>node_at := nd, conn_chans := chs'\<rparr>))"
      by (simp add: ks_pipeline_autoroute_def run c(3) g(1))
    moreover have "\<forall>js. route ?chs src js dst \<longrightarrow> route_cost ?chs is \<le> route_cost ?chs js" using bound c(2) by simp
    ultimately show ?thesis using True c(1) g(2)
      by (simp only: if_True) (intro exI [of _ "is"] exI [of _ "conn\<lparr>node_at := nd, conn_chans := chs'\<rparr>"]; simp)
  next
    case False
    have far: "\<not> router_cost (nd dst) < COST_MAX"
    proof
      assume "router_cost (nd dst) < COST_MAX"
      then obtain "is" where "chain ?chs nd src dst is" using estimates_chain(2) [OF est assms(3)] by blast
      then show False using chain_route False by blast
    qed
    then have "router_prev (nd dst) = None" "dst \<noteq> src"
      using estimates_far [OF est assms(3)] est by (auto simp: estimates_ok_def COST_MAX_def)
    then have "ks_pipeline_autoroute pl conn src dst = Some (Inr (- EHOSTUNREACH, pl, conn\<lparr>node_at := nd\<rparr>))"
      by (simp add: ks_pipeline_autoroute_def run prev_chain.simps)
    then show ?thesis using False by (simp only: if_False) (intro exI [of _ "conn\<lparr>node_at := nd\<rparr>"]; simp)
  qed
qed

definition example_chan :: "nat \<Rightarrow> nat \<Rightarrow> int \<Rightarrow> ks_chan" where
  "example_chan a b c = \<lparr>ch_refcnt = 1, ch_from = Some a, ch_to = Some b, ch_pipeline = None, ch_cost = c\<rparr>"

definition example_conn :: ks_conn where
  "example_conn = \<lparr>conn_nodes = [1, 2, 3, 4],
     node_at = (\<lambda>_. \<lparr>router_cost = 0, router_visited = False, router_prev = None, router_prev_thru = None\<rparr>),
     conn_chans = [example_chan 1 2 3000, example_chan 1 3 1000, example_chan 3 2 1000, example_chan 2 4 1000,
       (example_chan 1 4 1000)\<lparr>ch_pipeline := Some 7\<rparr>]\<rparr>"

lemma example_no_way_back: "\<not> (\<exists>js. route (conn_chans example_conn) 4 js 1)"
proof -
  have "\<not> route (conn_chans example_conn) 4 js 1" for js
  proof (cases js)
    case (Cons i "is")
    have "\<forall>c\<in>set (conn_chans example_conn). ch_from c \<noteq> Some 4" by code_simp
    then show ?thesis unfolding Cons by (metis nth_mem route.simps(2))
  qed simp
  then show ?thesis by blast
qed

theorem cheapest_route_witness:
  "(\<exists>conn'. ks_pipeline_autoroute \<lparr>pl_chans = [9]\<rparr> example_conn 1 4 = Some (Inr (0, \<lparr>pl_chans = [9, 1, 2, 3]\<rparr>, conn')) \<and>
      map ch_refcnt (conn_chans conn') = [1, 2, 2, 2, 1]) \<and>
   route_cost (conn_chans example_conn) ` {js. route (conn_chans example_conn) 1 js 4} \<subseteq> {3000..} \<and>
   (\<exists>conn'. ks_pipeline_autoroute \<lparr>pl_chans = [9]\<rparr> example_conn 4 1 = Some (Inr (- 113, \<lparr>pl_chans = [9]\<rparr>, conn')))"
proof -
  let ?chs = "conn_chans example_conn" and ?pl = "\<lparr>pl_chans = [9 :: nat]\<rparr>"
  have t: "topology_ok (conn_nodes example_conn) ?chs 3000" by code_simp
  have r: "route ?chs 1 [1, 2, 3] 4" "route_cost ?chs [1, 2, 3] = 3000" by code_simp+
  have n: "1 \<in> set (conn_nodes example_conn)" "4 \<in> set (conn_nodes example_conn)" by code_simp+
  have e: "\<exists>js. route ?chs 1 js 4" using r(1) by blast
  obtain "is" conn' where i: "\<forall>js. route ?chs 1 js 4 \<longrightarrow> route_cost ?chs is \<le> route_cost ?chs js"
    "\<forall>i < length ?chs. conn_chans conn' ! i = (?chs ! i)\<lparr>ch_refcnt := ch_refcnt (?chs ! i) + int (count_list is i)\<rparr>"
    "ks_pipeline_autoroute ?pl example_conn 1 4 =
       Some (if 32 < length (pl_chans ?pl) + length is then Inl OutOfBounds else Inr (0, ?pl\<lparr>pl_chans := pl_chans ?pl @ is\<rparr>, conn'))"
    using cheapest_route [OF t n, of ?pl] unfolding if_P [OF e] by auto
  have "(case ks_router_run 1 4 example_conn of
      Inr conn \<Rightarrow> map (\<lambda>n. (router_prev (node_at conn n), router_prev_thru (node_at conn n))) [1, 3, 2, 4] =
        [(None, None), (Some 1, Some 1), (Some 3, Some 2), (Some 2, Some 3)] \<and> map ch_refcnt (conn_chans conn) = [1, 1, 1, 1, 1]
    | _ \<Rightarrow> False)" by code_simp
  then obtain conn2 where c: "ks_pipeline_autoroute ?pl example_conn 1 4 = Some (Inr (0, \<lparr>pl_chans = [9, 1, 2, 3]\<rparr>, conn2))"
      "map ch_refcnt (conn_chans conn2) = [1, 2, 2, 2, 1]"
    by (auto simp: ks_pipeline_autoroute_def prev_chain.simps split: sum.splits)
  with i(3) have "is = [1, 2, 3]" by (simp split: if_splits)
  moreover obtain conn3 where "ks_pipeline_autoroute ?pl example_conn 4 1 = Some (Inr (- EHOSTUNREACH, ?pl, conn3))"
    using cheapest_route [OF t n(2,1), of ?pl] unfolding if_not_P [OF example_no_way_back] by auto
  ultimately show ?thesis using c i(1) r(2) by (auto simp: EHOSTUNREACH_def)
qed

text \<open>A pipeline that already has its 32 channels is overrun by the next one.\<close>

lemma full_pipeline_overrun:
  "ks_pipeline_autoroute \<lparr>pl_chans = replicate 32 0\<rparr> example_conn 3 2 = Some (Inl OutOfBounds)"
proof -
  have "(case ks_router_run 3 2 example_conn of Inr conn \<Rightarrow> map (\<lambda>n. (router_prev (node_at conn n), router_prev_thru (node_at conn n))) [2, 3] =
      [(Some 3, Some 2), (None, None)] \<and> map ch_refcnt (conn_chans conn) = [1, 1, 1, 1, 1] | _ \<Rightarrow> False)" by code_simp
  then show ?thesis
    by (auto simp: ks_pipeline_autoroute_def prev_chain.simps split: sum.splits)
qed

end
