(* ===== verification/Spec2Isabelle.thy ===== *)
theory Spec2Isabelle
  imports Vgsm_Dialogue Vgsm_Report Lapd_Stations Q931_Interface Q931_Dlc Ks_Router
begin

text \<open>
  vISDN is an ISDN and GSM stack for Linux. This library verifies four parts of it. One is the LAPD module
  (\<^verbatim>\<open>src/modules/lapd\<close>), the data link layer (ITU-T Q.921) on which call control runs: a socket
  family in the kernel, the data link entities with their timers and windows, the management of
  terminal endpoint identifiers, and the path from and to the network device. The second is the library of
  call control (\<^verbatim>\<open>src/libq931\<close>, ITU-T Q.931): the messages of calls, their information elements and the state machine of a
  call. The third is the GSM channel's handling of its modules (\<^verbatim>\<open>src/chan_vgsm\<close>): the encoding of short messages and the serial
  line on which commands, answers and messages are exchanged. The fourth is how the library of kstreamer (\<^verbatim>\<open>src/libkstreamer\<close>) finds the
  way of a stream through its nodes.

  \<^bold>\<open>The parts and how they interact.\<close> A process opens a socket (\<^verbatim>\<open>af_lapd.c\<close>), binds it to a device and asks
  for a link. The data link entity in the socket (\<^verbatim>\<open>datalink.c\<close>) builds frames and hands them to the device
  (\<^verbatim>\<open>output.c\<close>), which queues them until layer 1 is available. Frames come in through \<^verbatim>\<open>input.c\<close>, which
  selects TEI management (SAPI 63) or a socket, creating a socket for a new link on the network
  side; a frame for a socket in use by a process waits in its backlog. On the user side TEI management
  (\<^verbatim>\<open>tei_mgmt_te.c\<close>) asks for an identifier on behalf of the sockets, on the network side (\<^verbatim>\<open>tei_mgmt_nt.c\<close>) it
  assigns, checks and removes them. Call control writes a message from the elements of a call (\<^verbatim>\<open>output.c\<close> of the library), sends it
  on a socket, and on the other side takes the octets read apart again (\<^verbatim>\<open>input.c\<close>), answering what is missing or wrong.
  The message goes to the call with its reference (\<^verbatim>\<open>call.c\<close>) or, on the network side of a call offered to several terminals, to
  the endpoint of the terminal (\<^verbatim>\<open>ces.c\<close>), which tells the call what it needs to know. The requests of the call control block,
  the timers and the data link move the call in the same way; it takes and gives back channels of its interface
  (\<^verbatim>\<open>channel.c\<close>). Messages with the reference zero go to the global call of the interface (\<^verbatim>\<open>global.c\<close>), which restarts channels: it
  releases their calls and waits for them to confirm. The calls hold the data link they use (\<^verbatim>\<open>dlc.c\<close>), which is shut down some time
  after the last hold. The GSM channel makes requests of the serial line of a module (\<^verbatim>\<open>comm.c\<close>); its thread sends them one after the other and
  sorts what comes back into their answers and the codes of the module, one of which brings the short messages (\<^verbatim>\<open>sms_deliver.c\<close>). The voice of a call goes through nodes and channels that the kernel announces; the
  route of a pipeline between two of them is looked for in \<^verbatim>\<open>router.c\<close> and put into the pipeline in \<^verbatim>\<open>pipeline.c\<close>.

  \<^bold>\<open>Theories, in the order of their imports.\<close>

  \<^item> \<open>Lapd_Prelude\<close>: octets and their fields, arithmetic modulo 128, results (\<open>res\<close>: a value or a
    fault, which is a use of a freed buffer, a read outside a buffer, a null dereference, an \<open>int\<close> that overflows or a
    \<open>BUG()\<close>), runs of events, and the interfaces: \<open>event_machine\<close> (a step function with an
    invariant), \<open>total_event_machine\<close> (one whose steps never fault), \<open>codec\<close> (encoder and decoder of a
    field). Each is interpreted on the definitions of the model.
  \<^item> \<open>Lapd_Proto\<close> (\<^verbatim>\<open>proto.h\<close>): frame types, control fields and addresses, with their codecs.
  \<^item> \<open>Lapd_Device\<close> (\<^verbatim>\<open>output.c\<close>, \<^verbatim>\<open>device.h\<close>): the state of layer 1 and the output queue; frames leave in order.
  \<^item> \<open>Lapd_Sock\<close> (\<^verbatim>\<open>lapd.h\<close>, \<^verbatim>\<open>datalink.c\<close>): \<open>struct lapd_sock\<close> as a record, frame preparation, the transmit queue with
    the cursor \<open>sk_send_head\<close>, receive queue and primitives to the user.
  \<^item> \<open>Lapd_Datalink\<close> (\<^verbatim>\<open>datalink.c\<close>): every handler of received frames, service and management
    primitives and timers, in each of the states 1 to 8.
  \<^item> \<open>Lapd_Timers\<close>, \<open>Lapd_Window\<close>, \<open>Lapd_Reception\<close>: the properties of the data link entity. Supervision:
    a timer is always pending where an answer is awaited, and an unanswered link is given up after
    exactly \<open>2 * N200 + 2\<close> expiries. Transmission: at most \<open>k\<close> frames are outstanding, numbered without gaps, nothing
    is lost, and the queue refines an abstract go-back-N sender. Reception: what the user reads is in
    sequence.
  \<^item> \<open>Lapd_Backlog\<close> (\<^verbatim>\<open>sock_inline.h\<close>): releasing a socket runs its backlog, which may grow meanwhile; the
    loop ends.
  \<^item> \<open>Lapd_Tei_Mgmt\<close>, \<open>Lapd_Tei_TE\<close>, \<open>Lapd_Tei_NT\<close> (\<^verbatim>\<open>tei_mgmt.c\<close>, \<^verbatim>\<open>tei_mgmt_te.c\<close>, \<^verbatim>\<open>tei_mgmt_nt.c\<close>): the messages of TEI
    management and the entities of both sides: references, requests and their retransmission,
    allocation (the interface \<open>allocator\<close>), checks and audits.
  \<^item> \<open>Lapd_Input\<close> (\<^verbatim>\<open>input.c\<close>): the sockets, entities and devices of a system and how a received frame or
    primitive is passed to them.
  \<^item> \<open>Lapd_Af\<close> (\<^verbatim>\<open>af_lapd.c\<close>, \<^verbatim>\<open>device.c\<close>): the system calls: create, bind, listen, connect, accept, send, receive,
    options, shutdown, close, and devices that come and go.
  \<^item> \<open>Lapd_Stations\<close>: two systems joined by a wire. The root theory ends with what they do together.
  \<^item> \<open>Vgsm_Codec\<close> (\<^verbatim>\<open>gsm_charset.c\<close>, \<^verbatim>\<open>7bit.c\<close>, \<^verbatim>\<open>bcd.c\<close>, \<^verbatim>\<open>base64.c\<close>, \<^verbatim>\<open>quotprint.c\<close>): the codecs of the GSM channel, each with its
    round trip or reference encoding and its bounds.
  \<^item> \<open>Vgsm_Sms\<close> (\<^verbatim>\<open>number.c\<close>, \<^verbatim>\<open>sms_submit.c\<close>, \<^verbatim>\<open>sms_deliver.c\<close>): the message to submit and the delivered message as
    octets; a text that is submitted and delivered is the same, and encoding stays within its buffer. \<open>Vgsm_Report\<close>
    (\<^verbatim>\<open>sms_status_report.c\<close>, \<^verbatim>\<open>cbm.c\<close>): status reports and cell broadcast messages, what arrives of them and what is lost.
  \<^item> \<open>Vgsm_Comm\<close> (\<^verbatim>\<open>comm.c\<close>, \<^verbatim>\<open>timer.c\<close>, parts of \<^verbatim>\<open>me.c\<close> and \<^verbatim>\<open>util.c\<close>): the serial line: requests with their references, the buffer,
    the matching of echoes, answers and codes, the timer, and turns of the three threads as events. \<open>Vgsm_Line\<close>: the contract of a reader of a stream
    (\<open>stream_reader\<close>), by which it does not matter how the octets come in pieces; the invariant of the line; the order of the answers; a module
    that does not answer; a line that is closed. \<open>Vgsm_Dialogue\<close>: a command with its whole answer, and a message from the line to its text.
  \<^item> \<open>Q931_Ie\<close> (\<^verbatim>\<open>ie_*.c\<close>, \<^verbatim>\<open>chanset.c\<close>): the information elements, each with its record, reader, writer and what survives both.
  \<^item> \<open>Q931_Message\<close> (\<^verbatim>\<open>ie.c\<close>, \<^verbatim>\<open>ies.c\<close>, \<^verbatim>\<open>callref.c\<close>, \<^verbatim>\<open>output.c\<close>, \<^verbatim>\<open>input.c\<close>): the tables of elements and their use, headers, writing and queueing
    a message, decoding one and the answers to missing, wrong and unknown elements. The interface \<open>ie_codec\<close> is what the message layer relies
    on in an element; it is interpreted on the elements. A message written is read back; one that lacks
    an element is answered.
  \<^item> \<open>Q931_Call_State\<close> (\<^verbatim>\<open>call.h\<close>, \<^verbatim>\<open>ces.h\<close>, \<^verbatim>\<open>channel.c\<close>, parts of \<^verbatim>\<open>call.c\<close> and \<^verbatim>\<open>ces.c\<close>): \<open>struct q931_call\<close> on its interface as a record, the statements
    its functions are made of (\<open>seq\<close>, \<open>switch\<close>, \<open>if_then_else\<close>, \<open>upd\<close>), references, timers, sending, channels and endpoints.
  \<^item> \<open>Q931_Call\<close>, \<open>Q931_Call_Input\<close> (\<^verbatim>\<open>call.c\<close>): the requests, the indications of endpoints and the timers; the handlers of every message
    in every state of both sides, and the events of the data link. \<open>Q931_Ces\<close> (\<^verbatim>\<open>ces.c\<close>, \<^verbatim>\<open>input.c\<close>, \<^verbatim>\<open>intf.c\<close>, \<^verbatim>\<open>ccb.c\<close>): the endpoints, new calls and
    their references, unknown references, and the events of a call as one datatype (\<open>q931_event\<close>).
  \<^item> \<open>Q931_Call_Inv\<close>: what every event keeps. The interface \<open>call_invariant\<close> has the laws by which the primitive statements keep
    an invariant; in it the invariant is carried through the whole machine. It is interpreted on the reference count and on
    the link between call and channel. It extends \<open>guarded_invariant\<close>, whose laws ask less of the statements on channels; this one is
    interpreted on the channels that other calls have. \<open>Q931_Call_Runs\<close>, \<open>Q931_Call_User\<close>: total correctness of the user side, by rules that run a
    statement on a view of the call; clearing ends. \<open>Q931_Call_Flaws\<close>: unknown references, and the faults of the machine.
  \<^item> \<open>Q931_Global\<close> (\<^verbatim>\<open>global.c\<close>): the global call with the calls of its interface behind it, each at an address. \<open>call_at\<close>
    gives the call at an address as the call machine sees it, with the channels and timers of the interface; \<open>store_call\<close> puts back the call after an event.
    \<open>Q931_Restart\<close>: a RESTART releases the calls it names, is acknowledged after the last of them, and what becomes of a restart that is not answered.
  \<^item> \<open>Q931_Interface\<close>: an event of one call among the calls of the interface. The channel of a call is its own as long as no channel in
    use is offered, and the sequence of events that brings two calls to one channel. The theorems of \<open>Q931_Call_User\<close> are about a call
    whose channels no other call has in use; this theory says when events of the other calls leave them alone.
  \<^item> \<open>Q931_Dlc\<close> (\<^verbatim>\<open>dlc.c\<close>, \<^verbatim>\<open>input.c\<close>): holds, references and the automatic release of a data link.
  \<^item> \<open>Ks_Router\<close> (\<^verbatim>\<open>router.c\<close>, \<^verbatim>\<open>pipeline.c\<close>): nodes and channels with the estimates of the router, its loop (which visits one more
    node in each turn), and the channels a pipeline gets. The estimates are the costs of chains of predecessors, the nodes visited are
    settled and their arcs relaxed; so the route found is the cheapest.

  \<^bold>\<open>How the code is modelled.\<close> A frame is the list of its octets; a read outside it is the fault
  \<open>OutOfBounds\<close>. A buffer in a queue has an address, and the cursor holds an address, so that a cursor
  that outlives its buffer is visible. Timers are flags: pending or not, their expiry an event; the
  interval is a parameter of the model where it is configured. Frames sent and requests to TEI
  management are collected in the socket (\<open>ph_out\<close>, \<open>tm_out\<close>) in the order the code makes the calls and carried out by the
  caller, \<open>settle\<close>. Waiting in a system call is a list of wake-ups, each with the state the socket
  has then; a call that uses up its list has not returned. In the call machine a statement maps the call to the call after it or to a fault; what
  a call sends and the primitives it queues are appended to \<open>outs\<close>, as elements and not as octets, so that the message
  layer comes in where a message is received (\<open>decoded\<close>). A call or an endpoint that is used after its last reference was put is a
  fault. The endpoints are known by numbers, the memory they are allocated in by what it held (\<open>junk_\<close>). The buffer of a serial line is what was
  written to it up to the zero written last; reading further is a fault. Its clock is a number that a turn of the thread sets; \<open>poll\<close> returns when the
  event of the turn says so.

  \<^bold>\<open>Bounds.\<close> No definition uses fuel for a loop of the code except the search for a free TEI, which the code bounds
  itself by the number of identifiers. Every other loop is structural, or has a termination proof
  (\<open>lapd_release_sock\<close>, \<open>router_loop\<close>, \<open>receive_loop\<close> over what a line has read, \<open>token_loop\<close>, \<open>udh_loop\<close> over a user data header, \<open>decode_ies_loop\<close> over the elements of a message,
  \<open>chanset_intersect_loop\<close>), but for the search for a free call reference, which need not end, and the walk along the predecessors of a node, which are partial
  functions. The loops of
  the global call over channels are over the list of them.

  \<^bold>\<open>Where the code deviates.\<close> Several theorems state what the code does where it does not do what
  Q.921 or its own comments ask for: a stale cursor after \<open>lapd_discard_i_queue\<close>, SABME in timer
  recovery, window updates by RR, buffers linked twice or freed while queued in \<^verbatim>\<open>input.c\<close>, the audit of
  identifiers in use, and options that set the wrong field. Lemmas of the GSM theories do the same for characters
  of the extension table, full texts, and messages that are read or written outside their octets, and theorems of the Q.931 theories for
  a STATUS that is answered by a STATUS for ever, for numbers longer than the array they are copied to, for a RELEASE to a call
  that is offered by broadcast, a STATUS with another state, a suspension without an answer, the search for a call reference
  when all are in use, a RESTART whose indicator is read when there is none, and a channel that is offered while a call has it. Closing a
  serial line leaves its requests unanswered for ever (\<open>closed_line_strands_requests\<close>), a quoted field overruns its array (\<open>quoted_field_overruns\<close>),
  the array of channels of a pipeline has no check of its bound (\<open>full_pipeline_overrun\<close>),
  and a broadcast message in UCS-2 has no text (\<open>ucs2_broadcast_lost\<close>).

  \<^bold>\<open>Not modelled.\<close> Memory allocation failures other than in \<open>lapd_sendmsg\<close>, locks and the interleaving
  inside a handler, \<^verbatim>\<open>/proc\<close> and debugging output, module initialisation, the drivers, the channels'
  work with Asterisk and the hardware, and the command line programs. \<open>mktime\<close> and \<open>localtime\<close> of
  the C library and the results of \<open>connect\<close> and \<open>sendmsg\<close> are parameters. Of the call machine: the times of timers, the
  references of data links and of elements (but for the two faults they lead to), the queue between the library and the call control
  block, and the opening and configuration of interfaces. Of the short messages: the spool of messages received. The rest of the repository drives hardware or is glue to Asterisk, the
  kernel or a terminal (\<^verbatim>\<open>me.c\<close> but for what is said above, \<^verbatim>\<open>chan_visdn.c\<close>, \<^verbatim>\<open>kstreamer\<close> but for its router, the card drivers): what it does is calls of interfaces that are not in
  the repository, in an order that depends on threads.

  \<^bold>\<open>What a further step would be.\<close> Total correctness of the network side with several endpoints: the invariants hold for it
  (\<open>Q931_Call_Inv\<close>) but the theorems that every event succeeds are about the user side.
\<close>


section \<open>Two stations\<close>



text \<open>
  C2. A station gets its identifier and its link. A user station whose socket awaits a TEI has sent its
  request; the network station has a TEI to give and a socket that listens. Carrying the four
  frames across (request, assignment, SABME, UA) the network takes a free TEI \<open>v\<close> off its list and
  assigns it, the socket of the user starts its link with it, the network creates a socket for
  the link, and both end in state 7 with the same identifier and SAPI.
\<close>

theorem station_gets_link:
  assumes "awaiting_tei devno te u h" "network_ready devno nt t"
  shows "\<exists>v asg sabme ua t' nt1 te1 nt2 te2 hn ht.
     lapd_rcv ris (on_wire (lapd_tm_frame LAPD_INTF_ROLE_TE LAPD_TEI_MT_REQUEST (utme_tei_request_ri u) [127])) devno nt = Inr nt1 \<and>
     dev_frames (lapd_devs nt1 devno) = dev_frames (lapd_devs nt devno) @ [asg] \<and>
     lapd_rcv ris (on_wire asg) devno te = Inr te1 \<and>
     dev_frames (lapd_devs te1 devno) = dev_frames (lapd_devs te devno) @ [sabme] \<and>
     lapd_rcv ris (on_wire sabme) devno nt1 = Inr nt2 \<and>
     dev_frames (lapd_devs nt2 devno) = dev_frames (lapd_devs nt1 devno) @ [ua] \<and>
     lapd_rcv ris (on_wire ua) devno te1 = Inr te2 \<and>
     v \<in> ntme_free t \<and> lapd_ntme_hash nt1 = [t'] \<and> ntme_free t' = ntme_free t - {v} \<and>
     hn \<in> set (lapd_hash nt2) \<and> lapd_hash te2 = [ht] \<and> in_7 (hs_sock hn) \<and> in_7 (hs_sock ht) \<and>
     tei (hs_sock hn) = word_of_nat v \<and> tei (hs_sock ht) = word_of_nat v \<and>
     sapi (hs_sock hn) = sapi (hs_sock h) \<and> sapi (hs_sock ht) = sapi (hs_sock h)"
proof -
  let ?s = "hs_sock h"
  note te = assms(1) [unfolded awaiting_tei_def Let_def]
  note nt = assms(2) [unfolded network_ready_def]
  obtain v t' dev1 where v: "v \<in> ntme_free t" "ntme_free t' = ntme_free t - {v}"
    "lapd_rcv ris (on_wire (lapd_tm_frame LAPD_INTF_ROLE_TE LAPD_TEI_MT_REQUEST (utme_tei_request_ri u) [127])) devno nt =
       Inr (nt\<lparr>lapd_ntme_hash := [t'], lapd_devs := (lapd_devs nt)(devno := dev1)\<rparr>)" (is "_ = Inr ?nt1")
    "dev_frames dev1 = dev_frames (lapd_devs nt devno) @ [lapd_tm_frame LAPD_INTF_ROLE_NT LAPD_TEI_MT_ASSIGNED (utme_tei_request_ri u) [word_of_nat v]]"
    "dev_inv dev1" "dev_role dev1 = LAPD_INTF_ROLE_NT"
    using request_on_wire [of nt t devno ris "utme_tei_request_ri u"] nt by blast
  let ?v = "word_of_nat v :: u8"
  have v128: "?v < 128"
    using v(1) by (simp add: ntme_free_def word_less_nat_alt unat_of_nat)
  let ?t = "(lapd_mdl_assign_request ?v ?s)\<lparr>tm_out := [], ph_out := []\<rparr>"
  obtain u' dev2 sabme where a: "lapd_rcv ris (on_wire (lapd_tm_frame LAPD_INTF_ROLE_NT LAPD_TEI_MT_ASSIGNED (utme_tei_request_ri u) [?v])) devno te =
      Inr (te\<lparr>lapd_utme_hash := [u'], lapd_hash := [h\<lparr>hs_sock := ?t\<rparr>], lapd_devs := (lapd_devs te)(devno := dev2)\<rparr>)" (is "_ = Inr ?te1")
      "lapd_prepare_uframe (?s\<lparr>tei := ?v\<rparr>) LAPD_UFRAME_FUNC_SABME True = Inr sabme"
      "dev_frames dev2 = dev_frames (lapd_devs te devno) @ [sabme]" "dev_role dev2 = LAPD_INTF_ROLE_TE"
    using assigned_on_wire [where st = te and u = u and h = h and s = ?s and v = ?v and devno = devno and ris = ris] te v128 by blast
  have s3: "state ?s = LAPD_DLS_3_ESTABLISH_AWAITING_TEI" using te by blast
  note t = assigned_sock [OF s3 refl, of ?v]
  obtain l where l: "lapd_hash nt = [l]" "hs_dev l = devno" "sk_state (hs_sock l) = LAPD_SK_STATE_LISTEN" "hs_addr l < next_addr nt"
    using nt by blast
  have "\<exists>st' h ua. lapd_rcv ris (on_wire sabme) devno ?nt1 = Inr st' \<and> h \<in> set (lapd_hash st') \<and>
     hs_dev h = devno \<and> in_7 (hs_sock h) \<and> sapi (hs_sock h) = sapi (?s\<lparr>tei := ?v\<rparr>) \<and> tei (hs_sock h) = tei (?s\<lparr>tei := ?v\<rparr>) \<and>
     sk_receive_queue (hs_sock h) = [Rcv_primitive LAPD_DL_ESTABLISH_INDICATION 0] \<and>
     lapd_prepare_uframe (hs_sock h) LAPD_UFRAME_FUNC_UA True = Inr ua \<and>
     dev_frames (lapd_devs st' devno) = dev_frames (lapd_devs ?nt1 devno) @ [ua]"
    by (rule sabme_on_wire [OF a(2), where l = l]) (use te l v(5,6) v128 in simp_all)
  then obtain nt2 hn ua where n: "lapd_rcv ris (on_wire sabme) devno ?nt1 = Inr nt2" "hn \<in> set (lapd_hash nt2)" "in_7 (hs_sock hn)"
     "sapi (hs_sock hn) = sapi ?s" "tei (hs_sock hn) = ?v" "lapd_prepare_uframe (hs_sock hn) LAPD_UFRAME_FUNC_UA True = Inr ua"
     "dev_frames (lapd_devs nt2 devno) = dev_frames (lapd_devs ?nt1 devno) @ [ua]"
    by (auto simp del: fun_upd_apply)
  have s63: "sapi ?s < 63" using te by (auto simp: LAPD_SAPI_Q931_def LAPD_SAPI_X25_def)
  have "\<exists>te2 h'. lapd_rcv ris (on_wire ua) devno ?te1 = Inr te2 \<and> lapd_hash te2 = [h'] \<and> in_7 (hs_sock h') \<and>
     tei (hs_sock h') = tei ?t \<and> sapi (hs_sock h') = sapi ?t \<and> v_s (hs_sock h') = 0 \<and> v_a (hs_sock h') = 0 \<and> v_r (hs_sock h') = 0 \<and>
     sk_receive_queue (hs_sock h') = sk_receive_queue ?t @ [Rcv_primitive LAPD_DL_ESTABLISH_CONFIRM 0]"
    by (rule ua_on_wire [OF n(6), where h = "h\<lparr>hs_sock := ?t\<rparr>"]) (use te n(3-5) t s63 v128 a(4) in simp_all)
  then obtain te2 ht where e: "lapd_rcv ris (on_wire ua) devno ?te1 = Inr te2" "lapd_hash te2 = [ht]" "in_7 (hs_sock ht)"
     "tei (hs_sock ht) = tei ?t" "sapi (hs_sock ht) = sapi ?t"
    by blast
  note e = e(1-3) e(4,5) [unfolded t(2,3)]
  have d: "dev_frames (lapd_devs ?nt1 devno) = dev_frames (lapd_devs nt devno) @
      [lapd_tm_frame LAPD_INTF_ROLE_NT LAPD_TEI_MT_ASSIGNED (utme_tei_request_ri u) [?v]]"
    "dev_frames (lapd_devs ?te1 devno) = dev_frames (lapd_devs te devno) @ [sabme]"
    "lapd_ntme_hash ?nt1 = [t']"
    using v(4) a(3) by simp_all
  show ?thesis using v(1-3) d a(1) n e by blast
qed

definition te_system :: lapd_system where
  "te_system = sys0\<lparr>lapd_ntme_hash := [], lapd_utme_hash := [utme_req],
     lapd_hash := [entry7\<lparr>hs_sock := sock0\<lparr>state := LAPD_DLS_3_ESTABLISH_AWAITING_TEI, usr_tme := Some (utme_addr utme_req)\<rparr>\<rparr>],
     lapd_devs := (\<lambda>_. dev0)\<rparr>"

definition nt_system :: lapd_system where
  "nt_system = sys0\<lparr>lapd_hash := [entry_nt 2 LAPD_SK_STATE_LISTEN LAPD_DLS_LISTENING 0], next_addr := 3,
     lapd_devs := (\<lambda>_. dev0\<lparr>dev_role := LAPD_INTF_ROLE_NT, dev_mode := LAPD_INTF_MODE_MULTIPOINT\<rparr>)\<rparr>"

theorem station_gets_link_witness:
  "\<exists>v nt1 te1 nt2 te2 hn ht asg sabme ua.
     lapd_rcv [] (on_wire (lapd_tm_frame LAPD_INTF_ROLE_TE LAPD_TEI_MT_REQUEST 7 [127])) 0 nt_system = Inr nt1 \<and>
     lapd_rcv [] (on_wire asg) 0 te_system = Inr te1 \<and> lapd_rcv [] (on_wire sabme) 0 nt1 = Inr nt2 \<and>
     lapd_rcv [] (on_wire ua) 0 te1 = Inr te2 \<and> v \<in> {64..126} \<and>
     hn \<in> set (lapd_hash nt2) \<and> lapd_hash te2 = [ht] \<and> in_7 (hs_sock hn) \<and> in_7 (hs_sock ht) \<and>
     tei (hs_sock hn) = word_of_nat v \<and> tei (hs_sock ht) = word_of_nat v"
proof -
  have "utme_ok utme_req" "utme_dev utme_req = 0" "utme_tei_request_pending utme_req" "dev_inv dev0" by code_simp+
  then have te: "awaiting_tei 0 te_system utme_req (lapd_hash te_system ! 0)"
    by (simp add: awaiting_tei_def te_system_def sys0_def entry7_def sock0_def dev0_def LAPD_SAPI_Q931_def)
  have "ntme_alloc_ok (lapd_ntme_alloc 0 200)" by code_simp
  moreover have "64 \<in> ntme_free (lapd_ntme_alloc 0 200)" by (simp add: ntme_free_def lapd_ntme_alloc_def)
  ultimately have "network_ready 0 nt_system (lapd_ntme_alloc 0 200)"
    by (auto simp: network_ready_def nt_system_def sys0_def entry_nt_def dev0_def dev_inv_def lapd_ntme_alloc_def)
  note l = station_gets_link [OF te this, of "[]"]
  have "utme_tei_request_ri utme_req = 7" by code_simp
  moreover have "v \<in> {64..126}" if "v \<in> ntme_free (lapd_ntme_alloc 0 200)" for v
    using that by (simp add: ntme_free_def)
  ultimately show ?thesis using l by (elim exE conjE) (intro exI conjI; (assumption | simp))
qed



section \<open>Messages and calls\<close>

text \<open>
  C8. What a station writes a call of the other station takes. A message built from elements that are in order, with those its
  type requires, is read by the receiving side and handled by a listed call of the user side to its end: the call is again one of the
  user side or is released. This is stated for the messages of every type but PROGRESS, STATUS, CALL PROCEEDING, SETUP ACKNOWLEDGE
  and RESUME ACKNOWLEDGE, and for a call that is not in the null state U0. Among those left out are some that are not
  handled to their end: a PROGRESS without its indicator, a STATUS of another state (C12), an acknowledged resumption, a
  channel the call cannot take, and in U0 the messages that need a call. The causes kept and those of the message fit their array.
\<close>

theorem written_message_handled:
  assumes "user_call k c" "on_intf c" "call_state c \<noteq> U0_NULL_STATE"
    and "1 \<le> len" "len \<le> 3" "0 < cr" "cr < 2 ^ (8 * len - 1)"
    and "\<forall>ie\<in>set ies. ie_ok (call_msg_env c) ie" "distinct (map q931_ie_id ies)" "ies_apart (q931_ies_sort ies)"
    and "3 + len + length (concat (map (octets_of (call_msg_env c)) (q931_ies_sort ies))) < 512"
    and "missing_ies (intf_role c) mt ies = []" "elements_fit ies (length (disconnect_cause c))"
    and "mt \<notin> set [Q931_MT_PROGRESS, Q931_MT_STATUS, Q931_MT_CALL_PROCEEDING, Q931_MT_SETUP_ACKNOWLEDGE, Q931_MT_RESUME_ACKNOWLEDGE]"
  shows "\<exists>frame msg c'. q931_call_message (call_msg_env c) len cr direction mt ies = Inr frame \<and>
    q931_receive_header frame = Some msg \<and> q931_event (Message dlc msg) c = Inr c' \<and>
    (if on_intf c' then user_call k c' else call_state c' = U0_NULL_STATE \<and> call_channel c' = None)"
proof -
  obtain frame msg where msg: "q931_call_message (call_msg_env c) len cr direction mt ies = Inr frame"
      "q931_receive_header frame = Some msg" "msg_message_type msg = mt"
      "decoding c msg = Inr (map (ie_received (call_msg_env c)) (q931_ies_sort ies), [], True)"
    using message_checked [OF assms(4-11), of direction mt "intf_role c" "intf_network_role c" "call_direction c"]
    unfolding assms(12) if_P [OF refl] decoding_def by blast
  have "length (map (ie_received (call_msg_env c)) (q931_ies_sort ies)) = length ies" by (simp add: sort_ies)
  then have "user_event_ok k c (Message dlc msg)"
    using msg(3,4) assms(3,13,14) by (simp add: user_event_ok_def message_ok_def elements_fit_def contents_ok_def)
  from event_runs [OF assms(1,2) this] obtain c' v' where c': "q931_event (Message dlc msg) c = Inr c'" "user_base k c'" "viewed v' c'"
    "vok False v'" by auto
  obtain s T l h n x where "v' = (s, T, l, h, n, x)" by (cases v')
  moreover have "0 \<le> k" using assms(1) by (simp add: user_call_def)
  ultimately have "if on_intf c' then user_call k c' else call_state c' = U0_NULL_STATE \<and> call_channel c' = None"
    using c'(2-) by (auto simp: user_call_def user_state_ok_def)
  with msg(1,2) c'(1) show ?thesis by blast
qed

theorem written_message_handled_witness:
  "\<exists>frame msg c'. q931_call_message example_env 1 5 Q931_CALL_DIRECTION_INBOUND Q931_MT_RELEASE [IE_cause example_cause] = Inr frame \<and>
    q931_receive_header frame = Some msg \<and> q931_event (Message Intf_dlc msg) (example_in U10_ACTIVE T309) = Inr c'"
proof -
  let ?c = "example_in U10_ACTIVE T309"
  have env: "call_msg_env ?c = example_env" "intf_role ?c = LAPD_INTF_ROLE_TE" "disconnect_cause ?c = []"
    by (simp_all add: call_msg_env_def example_defs example_env_def)
  have m: "missing_ies LAPD_INTF_ROLE_TE Q931_MT_RELEASE [IE_cause example_cause] = []" by code_simp
  show ?thesis
    using written_message_handled [of 1 ?c 1 5 "[IE_cause example_cause]" Q931_MT_RELEASE Q931_CALL_DIRECTION_INBOUND Intf_dlc,
        unfolded env] example_in_user [of U10_ACTIVE T309] example_release_ok m
    by (simp add: elements_fit_def Q931_IES_NUM_IES_def mt_defs Q931_MT_RESUME_ACKNOWLEDGE_def) blast
qed

end
